(* ===== verification/Prelude.thy ===== *)
theory Prelude
  imports Main "HOL-Library.Word" "HOL-Library.AList"
begin

text \<open>
  What the components share: machine integers, the part of Rust's standard library on strings
  and vectors that the modelled code calls, and the interfaces as locales: enums with a wire
  form, machines with an invariant, a refinement, a measure or a credit.

  Strings are UTF-8 byte lists (\<open>char list\<close>), as in Rust, so \<open>length\<close> is \<open>str::len\<close>.
  Vectors are lists, \<open>usize\<close> lengths and indices are \<open>nat\<close>; \<open>u32\<close> and \<open>u64\<close> are words, whose
  \<open>+\<close> wraps as an unchecked release build does.
\<close>

section \<open>Machine integers\<close>

type_synonym u8 = "8 word"
type_synonym u32 = "32 word"
type_synonym u64 = "64 word"

named_theorems word_simps \<open>saturating and checked arithmetic\<close>

text \<open>\<open>saturating_add\<close>, \<open>saturating_sub\<close> and \<open>checked_add\<close> of the unsigned integers.\<close>

definition sat_add :: "'a::len word \<Rightarrow> 'a word \<Rightarrow> 'a word" where
  "sat_add a b = (if a \<le> a + b then a + b else - 1)"

definition sat_sub :: "'a::len word \<Rightarrow> 'a word \<Rightarrow> 'a word" where
  "sat_sub a b = (if b \<le> a then a - b else 0)"

definition checked_add :: "'a::len word \<Rightarrow> 'a word \<Rightarrow> 'a word option" where
  "checked_add a b = (if a \<le> a + b then Some (a + b) else None)"

lemma sat_add_ge [simp, word_simps]: "a \<le> sat_add a b"
  by (simp add: sat_add_def)

lemma less_add_one: "a \<noteq> - 1 \<Longrightarrow> a < a + 1" for a :: "'a::len word"
proof -
  assume "a \<noteq> - 1"
  then have "1 + a \<noteq> 0" by (simp add: add_eq_0_iff)
  then have "unat (1 + a) = Suc (unat a)" by (rule unatSuc)
  then show "a < a + 1" by (simp add: word_less_nat_alt add.commute)
qed

lemma sat_add_one: "sat_add a 1 = (if a = - 1 then - 1 else a + 1)" for a :: "'a::len word"
  using less_add_one [of a] by (cases "a = - 1") (auto simp: sat_add_def)

lemma checked_add_one: "checked_add a 1 = (if a = - 1 then None else Some (a + 1))"
  for a :: "'a::len word"
  using less_add_one [of a] by (cases "a = - 1") (auto simp: checked_add_def)

lemma unat_max_word_val: "unat (- 1 :: 'a::len word) = 2 ^ LENGTH('a) - 1"
  by (simp add: unat_eq_nat_uint uint_word_ariths zmod_minus1 nat_diff_distrib nat_power_eq)

lemma unat_sat_add: "unat (sat_add a b) = min (unat a + unat b) (2 ^ LENGTH('a) - 1)"
  for a b :: "'a::len word"
proof (cases "a \<le> a + b")
  case True
  then have "unat (a + b) = unat a + unat b"
    by (simp add: unat_plus_simple)
  moreover have "unat (a + b) \<le> 2 ^ LENGTH('a) - 1"
    by (metis Suc_pred' less_Suc_eq_le unsigned_less zero_less_numeral zero_less_power)
  ultimately show ?thesis using True by (simp add: sat_add_def)
next
  case False
  then have "\<not> unat a + unat b < 2 ^ LENGTH('a)"
    using no_olen_add_nat by blast
  then show ?thesis using False by (simp add: sat_add_def unat_max_word_val)
qed

lemma unat_sat_sub: "unat (sat_sub a b) = unat a - unat b"
  by (auto simp: sat_sub_def unat_sub_if_size word_le_nat_alt)

section \<open>Strings\<close>

text \<open>
  \<open>str::trim\<close> strips Unicode white space on both ends. On UTF-8 bytes a white-space character is
  one of the byte sequences below; UTF-8 is self-synchronising, so stripping sequences at the
  ends of a valid string is stripping characters.
\<close>

definition ws_two :: "string list" where
  "ws_two = [[CHR 0xC2, CHR 0x85], [CHR 0xC2, CHR 0xA0]]"

definition ws_three :: "string list" where
  "ws_three =
     [CHR 0xE1, CHR 0x9A, CHR 0x80] #
     map (\<lambda>c. [CHR 0xE2, CHR 0x80, c])
       [CHR 0x80, CHR 0x81, CHR 0x82, CHR 0x83, CHR 0x84, CHR 0x85, CHR 0x86, CHR 0x87,
        CHR 0x88, CHR 0x89, CHR 0x8A, CHR 0xA8, CHR 0xA9, CHR 0xAF] @
     [[CHR 0xE2, CHR 0x81, CHR 0x9F], [CHR 0xE3, CHR 0x80, CHR 0x80]]"

definition ascii_ws :: "char \<Rightarrow> bool" where
  "ascii_ws c \<longleftrightarrow> c \<in> set [CHR 0x09, CHR 0x0A, CHR 0x0B, CHR 0x0C, CHR 0x0D, CHR 0x20]"

fun trim_start :: "string \<Rightarrow> string" where
  "trim_start [] = []"
| "trim_start (c # s) =
     (if ascii_ws c then trim_start s
      else if take 2 (c # s) \<in> set ws_two then trim_start (drop 1 s)
      else if take 3 (c # s) \<in> set ws_three then trim_start (drop 2 s)
      else c # s)"

text \<open>Trimming the end: the same scan on the reversed bytes, with the sequences reversed.\<close>

fun trim_rev :: "string \<Rightarrow> string" where
  "trim_rev [] = []"
| "trim_rev (c # s) =
     (if ascii_ws c then trim_rev s
      else if rev (take 2 (c # s)) \<in> set ws_two then trim_rev (drop 1 s)
      else if rev (take 3 (c # s)) \<in> set ws_three then trim_rev (drop 2 s)
      else c # s)"

definition trim :: "string \<Rightarrow> string" where
  "trim s = rev (trim_rev (rev (trim_start s)))"

abbreviation is_blank :: "string \<Rightarrow> bool" where
  "is_blank s \<equiv> trim s = []"

lemma trim_Nil [simp]: "trim [] = []"
  by (simp add: trim_def)

lemma trim_rev_length: "length (trim_rev s) \<le> length s"
  by (induction s rule: trim_rev.induct) auto

lemma trim_start_length: "length (trim_start s) \<le> length s"
  by (induction s rule: trim_start.induct) auto

text \<open>\<open>str::contains\<close> with a string pattern.\<close>

fun starts_with :: "string \<Rightarrow> string \<Rightarrow> bool" where
  "starts_with s [] = True"
| "starts_with [] (p # ps) = False"
| "starts_with (c # s) (p # ps) = (c = p \<and> starts_with s ps)"

fun contains_str :: "string \<Rightarrow> string \<Rightarrow> bool" where
  "contains_str [] p = (p = [])"
| "contains_str (c # s) p = (starts_with (c # s) p \<or> contains_str s p)"

lemma starts_with_append [simp]: "starts_with (p @ s) p"
  by (induction p) auto

lemma starts_with_self [simp]: "starts_with p p"
  using starts_with_append [of p "[]"] by simp

lemma contains_str_self [simp]: "contains_str p p"
  by (cases p) auto

lemma contains_str_append: "contains_str p q \<Longrightarrow> contains_str (s @ p) q"
  by (induction s) auto

lemma contains_str_suffix [simp]: "contains_str (s @ p) p"
  by (rule contains_str_append) simp

text \<open>Bytes as ASCII.\<close>

definition char_between :: "char \<Rightarrow> char \<Rightarrow> char \<Rightarrow> bool" where
  "char_between lo hi c \<longleftrightarrow> (of_char lo :: nat) \<le> of_char c \<and> (of_char c :: nat) \<le> of_char hi"

definition ascii_lower :: "char \<Rightarrow> char" where
  "ascii_lower c =
     (if char_between CHR ''A'' CHR ''Z'' c then char_of (of_char c + (32::nat)) else c)"

definition is_ascii_hexdigit :: "char \<Rightarrow> bool" where
  "is_ascii_hexdigit c \<longleftrightarrow> char_between CHR ''0'' CHR ''9'' c \<or> char_between CHR ''A'' CHR ''F'' c \<or>
     char_between CHR ''a'' CHR ''f'' c"

text \<open>A digit of \<open>{:x}\<close>.\<close>

definition hex_digit :: "nat \<Rightarrow> char" where
  "hex_digit n = (if n < 10 then char_of (48 + n) else char_of (87 + n))"

text \<open>An unsigned integer as \<open>Display\<close> prints it.\<close>

fun decimal :: "nat \<Rightarrow> string" where
  "decimal n =
     (if n < 10 then [char_of (48 + n)] else decimal (n div 10) @ [char_of (48 + n mod 10)])"

declare decimal.simps [simp del]

text \<open>The first characters of a string: a byte outside \<open>80..BF\<close> starts a character.\<close>

fun take_chars :: "nat \<Rightarrow> string \<Rightarrow> string" where
  "take_chars n [] = []"
| "take_chars n (c # s) =
     (if (of_char c :: nat) < 128 \<or> 192 \<le> (of_char c :: nat)
      then (if n = 0 then [] else c # take_chars (n - 1) s)
      else c # take_chars n s)"

section \<open>Vectors and optional values\<close>

named_theorems vec_simps \<open>vector operations with Rust's behaviour out of range\<close>

definition get_opt :: "'a list \<Rightarrow> nat \<Rightarrow> 'a option" where
  "get_opt xs i = (if i < length xs then Some (xs ! i) else None)"

text \<open>\<open>if let Some(x) = xs.get_mut(i)\<close> with a body that rewrites the element.\<close>

definition update_at :: "nat \<Rightarrow> ('a \<Rightarrow> 'a) \<Rightarrow> 'a list \<Rightarrow> 'a list" where
  "update_at i f xs = (if i < length xs then xs[i := f (xs ! i)] else xs)"

text \<open>\<open>iter().position(p)\<close>.\<close>

fun position :: "('a \<Rightarrow> bool) \<Rightarrow> 'a list \<Rightarrow> nat option" where
  "position p [] = None"
| "position p (x # xs) = (if p x then Some 0 else map_option Suc (position p xs))"

text \<open>The element at the first matching position, and the vector without it.\<close>

fun take_first :: "('a \<Rightarrow> bool) \<Rightarrow> 'a list \<Rightarrow> ('a \<times> 'a list) option" where
  "take_first p [] = None"
| "take_first p (x # xs) =
     (if p x then Some (x, xs) else map_option (\<lambda>(y, ys). (y, x # ys)) (take_first p xs))"

lemma length_update_at [simp, vec_simps]: "length (update_at i f xs) = length xs"
  by (simp add: update_at_def)

lemma update_at_nth:
  "j < length xs \<Longrightarrow> update_at i f xs ! j = (if j = i then f (xs ! j) else xs ! j)"
  by (auto simp: update_at_def)

lemma map_update_at:
  "(\<And>x. g (f x) = g x) \<Longrightarrow> map g (update_at i f xs) = map g xs"
  by (auto simp: update_at_def map_update list_update_same_conv)

lemma position_None: "position p xs = None \<longleftrightarrow> (\<forall>x \<in> set xs. \<not> p x)"
  by (induction xs) auto

lemma position_Some:
  "position p xs = Some i \<longleftrightarrow> i < length xs \<and> p (xs ! i) \<and> (\<forall>j < i. \<not> p (xs ! j))"
proof (induction xs arbitrary: i)
  case Nil
  then show ?case by simp
next
  case (Cons x xs)
  then show ?case by (cases i) (auto simp: All_less_Suc2)
qed

lemma take_first_None: "take_first p xs = None \<longleftrightarrow> (\<forall>x \<in> set xs. \<not> p x)"
  by (induction xs) auto

lemma take_first_Some:
  "take_first p xs = Some (y, ys) \<Longrightarrow>
     \<exists>us vs. xs = us @ y # vs \<and> ys = us @ vs \<and> p y \<and> (\<forall>u \<in> set us. \<not> p u)"
proof (induction xs arbitrary: ys)
  case Nil
  then show ?case by simp
next
  case (Cons x xs)
  show ?case
  proof (cases "p x")
    case True
    with Cons.prems have "x # xs = [] @ y # xs \<and> ys = [] @ xs \<and> p y" by simp
    then show ?thesis by force
  next
    case False
    with Cons.prems obtain zs where "take_first p xs = Some (y, zs)" and ys: "ys = x # zs"
      by auto
    from Cons.IH [OF this(1)] obtain us vs
      where "xs = us @ y # vs" "zs = us @ vs" "p y" "\<forall>u \<in> set us. \<not> p u"
      by blast
    with ys False have "x # xs = (x # us) @ y # vs \<and> ys = (x # us) @ vs \<and> p y \<and>
        (\<forall>u \<in> set (x # us). \<not> p u)"
      by simp
    then show ?thesis by blast
  qed
qed

lemma take_first_length: "take_first p xs = Some (y, ys) \<Longrightarrow> length xs = Suc (length ys)"
  by (drule take_first_Some) auto

text \<open>The rows of an updated association list.\<close>

lemma update_mem: "(k', v') \<in> set (AList.update k v xs) \<Longrightarrow> (k' = k \<and> v' = v) \<or> (k', v') \<in> set xs"
  by (induction xs) (auto split: if_splits)

section \<open>Interfaces\<close>

text \<open>
  An enum with a wire form: \<open>as_str\<close> is what is written, \<open>from_wire\<close> what is read back. A
  lenient reader maps every string it does not know to one fallback value.
\<close>

locale wire_enum =
  fixes as_str :: "'a \<Rightarrow> string" and from_wire :: "string \<Rightarrow> 'a" and fallback :: 'a
  assumes from_as: "from_wire (as_str x) = x"
    and lenient: "from_wire s \<noteq> fallback \<Longrightarrow> as_str (from_wire s) = s"
begin

lemma as_str_inject: "as_str x = as_str y \<longleftrightarrow> x = y"
  by (metis from_as)

lemma unknown_is_fallback: "s \<notin> range as_str \<Longrightarrow> from_wire s = fallback"
  by (metis lenient rangeI)

lemma from_wire_idem: "from_wire (as_str (from_wire s)) = from_wire s"
  by (rule from_as)

end

text \<open>
  A machine whose every step keeps an invariant: the invariant then holds after any run.
\<close>

locale invariant_machine =
  fixes step :: "'s \<Rightarrow> 'e \<Rightarrow> 's" and inv :: "'s \<Rightarrow> bool"
  assumes inv_step: "inv s \<Longrightarrow> inv (step s e)"
begin

lemma inv_run: "inv s \<Longrightarrow> inv (fold (\<lambda>e s. step s e) es s)"
  by (induction es arbitrary: s) (auto intro: inv_step)

end

text \<open>
  A machine that implements another: under its invariant, each step is seen through \<open>view\<close> as a
  step of the abstract machine, and so is any run.
\<close>

locale refines_machine = invariant_machine step inv
  for step :: "'s \<Rightarrow> 'e \<Rightarrow> 's" and inv :: "'s \<Rightarrow> bool" +
  fixes view :: "'s \<Rightarrow> 'a" and spec_step :: "'a \<Rightarrow> 'e \<Rightarrow> 'a"
  assumes view_step: "inv s \<Longrightarrow> view (step s e) = spec_step (view s) e"
begin

lemma view_run:
  "inv s \<Longrightarrow> view (fold (\<lambda>e s. step s e) es s) = fold (\<lambda>e a. spec_step a e) es (view s)"
  by (induction es arbitrary: s) (simp_all add: inv_step view_step)

end

text \<open>A machine with a measure that no step takes back.\<close>

locale monotone_machine =
  fixes step :: "'s \<Rightarrow> 'e \<Rightarrow> 's" and level :: "'s \<Rightarrow> 'n::preorder"
  assumes level_step: "level s \<le> level (step s e)"
begin

lemma level_run: "level s \<le> level (fold (\<lambda>e s. step s e) es s)"
proof (induction es arbitrary: s)
  case Nil
  then show ?case by simp
next
  case (Cons e es)
  have "level s \<le> level (step s e)" by (rule level_step)
  also have "level (step s e) \<le> level (fold (\<lambda>e s. step s e) es (step s e))" by (rule Cons.IH)
  finally show ?case by simp
qed

end

text \<open>
  A machine whose steps cost something, paid from a credit that only some events refill: what a run
  without those costs is at most the credit it starts with.
\<close>

fun run_cost :: "('s \<Rightarrow> 'e \<Rightarrow> 's) \<Rightarrow> ('s \<Rightarrow> 'e \<Rightarrow> nat) \<Rightarrow> 'e list \<Rightarrow> 's \<Rightarrow> nat" where
  "run_cost step cost [] s = 0"
| "run_cost step cost (e # es) s = cost s e + run_cost step cost es (step s e)"

locale metered_machine =
  fixes step :: "'s \<Rightarrow> 'e \<Rightarrow> 's" and cost :: "'s \<Rightarrow> 'e \<Rightarrow> nat"
    and credit :: "'s \<Rightarrow> nat" and refills :: "'e \<Rightarrow> bool"
  assumes paid: "\<not> refills e \<Longrightarrow> cost s e + credit (step s e) \<le> credit s"
begin

lemma cost_run:
  "list_all (\<lambda>e. \<not> refills e) es \<Longrightarrow>
     run_cost step cost es s + credit (fold (\<lambda>e s. step s e) es s) \<le> credit s"
proof (induction es arbitrary: s)
  case Nil
  then show ?case by simp
next
  case (Cons e es)
  then have "run_cost step cost es (step s e) + credit (fold (\<lambda>e s. step s e) es (step s e)) \<le> credit (step s e)"
    by simp
  moreover have "cost s e + credit (step s e) \<le> credit s"
    using Cons.prems by (auto intro: paid)
  ultimately show ?case by simp
qed

end

end
