(* ===== verification/Team_Types.thy ===== *)
theory Team_Types
  imports Prelude
begin

text \<open>
  The closed vocabulary of a task-team run (\<open>crates/relay-api/src/team.rs\<close>): the lifecycle
  status, the pause kind, the pipeline phase, the sub-task status and the seats, each with its
  wire form, and the user's task specification. The enums that are persisted decode leniently.
  A serde field read as \<open>Option<String>\<close> is a \<open>string option\<close> here (\<open>None\<close> for a JSON null).
\<close>

section \<open>Lifecycle status\<close>

datatype team_run_status =
    Run_Queued | Run_Running | Run_PausePending | Run_Paused | Run_AwaitingUser | Run_Done
  | Run_Escalated | Run_Blocked | Run_Resolving | Run_Failed | Run_Interrupted | Run_Cancelled

fun run_status_as_str :: "team_run_status \<Rightarrow> string" where
  "run_status_as_str Run_Queued = ''queued''"
| "run_status_as_str Run_Running = ''running''"
| "run_status_as_str Run_PausePending = ''pause_pending''"
| "run_status_as_str Run_Paused = ''paused''"
| "run_status_as_str Run_AwaitingUser = ''awaiting_user''"
| "run_status_as_str Run_Done = ''done''"
| "run_status_as_str Run_Escalated = ''escalated''"
| "run_status_as_str Run_Blocked = ''blocked''"
| "run_status_as_str Run_Resolving = ''resolving''"
| "run_status_as_str Run_Failed = ''failed''"
| "run_status_as_str Run_Interrupted = ''interrupted''"
| "run_status_as_str Run_Cancelled = ''cancelled''"

definition run_status_from_wire :: "string \<Rightarrow> team_run_status" where
  "run_status_from_wire raw =
     (if raw = ''queued'' then Run_Queued
      else if raw = ''running'' then Run_Running
      else if raw = ''pause_pending'' then Run_PausePending
      else if raw = ''paused'' then Run_Paused
      else if raw = ''awaiting_user'' then Run_AwaitingUser
      else if raw = ''done'' then Run_Done
      else if raw = ''escalated'' then Run_Escalated
      else if raw = ''blocked'' then Run_Blocked
      else if raw = ''resolving'' then Run_Resolving
      else if raw = ''interrupted'' then Run_Interrupted
      else if raw = ''cancelled'' then Run_Cancelled
      else Run_Failed)"

definition run_status_terminal :: "team_run_status \<Rightarrow> bool" where
  "run_status_terminal s \<longleftrightarrow>
     s = Run_Done \<or> s = Run_Escalated \<or> s = Run_Failed \<or> s = Run_Interrupted \<or> s = Run_Cancelled"

definition run_status_resumable :: "team_run_status \<Rightarrow> bool" where
  "run_status_resumable s \<longleftrightarrow> s = Run_Paused"

definition run_status_reopenable :: "team_run_status \<Rightarrow> bool" where
  "run_status_reopenable s \<longleftrightarrow>
     s = Run_Done \<or> s = Run_Escalated \<or> s = Run_Interrupted \<or> s = Run_Failed"

definition run_status_settled_without_driver :: "team_run_status \<Rightarrow> bool" where
  "run_status_settled_without_driver s \<longleftrightarrow>
     s = Run_Paused \<or> s = Run_Blocked \<or> s = Run_Resolving"

definition deserialize_run_status :: "string option \<Rightarrow> team_run_status" where
  "deserialize_run_status raw = (case raw of None \<Rightarrow> Run_Failed | Some s \<Rightarrow> run_status_from_wire s)"

section \<open>Pause kind\<close>

datatype team_pause_kind = Pause_User | Pause_Provider | Pause_Boundary

fun pause_kind_as_str :: "team_pause_kind \<Rightarrow> string" where
  "pause_kind_as_str Pause_User = ''user''"
| "pause_kind_as_str Pause_Provider = ''provider''"
| "pause_kind_as_str Pause_Boundary = ''boundary''"

definition pause_kind_from_wire :: "string \<Rightarrow> team_pause_kind" where
  "pause_kind_from_wire raw =
     (if raw = ''provider'' then Pause_Provider
      else if raw = ''boundary'' then Pause_Boundary
      else Pause_User)"

definition deserialize_pause_kind :: "string option \<Rightarrow> team_pause_kind" where
  "deserialize_pause_kind raw = (case raw of None \<Rightarrow> Pause_User | Some s \<Rightarrow> pause_kind_from_wire s)"

section \<open>Pipeline phase\<close>

datatype team_phase =
    Phase_Intake | Phase_Design | Phase_DesignReview | Phase_Planning | Phase_SubTasks
  | Phase_MrGate | Phase_Wrapping | Phase_Finished

fun phase_as_str :: "team_phase \<Rightarrow> string" where
  "phase_as_str Phase_Intake = ''intake''"
| "phase_as_str Phase_Design = ''design''"
| "phase_as_str Phase_DesignReview = ''design_review''"
| "phase_as_str Phase_Planning = ''planning''"
| "phase_as_str Phase_SubTasks = ''sub_tasks''"
| "phase_as_str Phase_MrGate = ''mr_gate''"
| "phase_as_str Phase_Wrapping = ''wrapping''"
| "phase_as_str Phase_Finished = ''finished''"

definition phase_from_wire :: "string \<Rightarrow> team_phase" where
  "phase_from_wire raw =
     (if raw = ''intake'' then Phase_Intake
      else if raw = ''design'' then Phase_Design
      else if raw = ''design_review'' then Phase_DesignReview
      else if raw = ''planning'' then Phase_Planning
      else if raw = ''sub_tasks'' then Phase_SubTasks
      else if raw = ''mr_gate'' then Phase_MrGate
      else if raw = ''wrapping'' then Phase_Wrapping
      else Phase_Finished)"

definition deserialize_phase :: "string option \<Rightarrow> team_phase" where
  "deserialize_phase raw = (case raw of None \<Rightarrow> Phase_Intake | Some s \<Rightarrow> phase_from_wire s)"

section \<open>Sub-task status\<close>

datatype sub_task_status =
    Sub_Pending | Sub_Implementing | Sub_Done | Sub_Escalated | Sub_Failed | Sub_Skipped
  | Sub_Superseded

fun sub_status_as_str :: "sub_task_status \<Rightarrow> string" where
  "sub_status_as_str Sub_Pending = ''pending''"
| "sub_status_as_str Sub_Implementing = ''implementing''"
| "sub_status_as_str Sub_Done = ''done''"
| "sub_status_as_str Sub_Escalated = ''escalated''"
| "sub_status_as_str Sub_Failed = ''failed''"
| "sub_status_as_str Sub_Skipped = ''skipped''"
| "sub_status_as_str Sub_Superseded = ''superseded''"

definition sub_status_from_wire :: "string \<Rightarrow> sub_task_status" where
  "sub_status_from_wire raw =
     (if raw = ''pending'' then Sub_Pending
      else if raw = ''implementing'' then Sub_Implementing
      else if raw = ''done'' then Sub_Done
      else if raw = ''escalated'' then Sub_Escalated
      else if raw = ''skipped'' then Sub_Skipped
      else if raw = ''superseded'' then Sub_Superseded
      else Sub_Failed)"

definition sub_status_terminal :: "sub_task_status \<Rightarrow> bool" where
  "sub_status_terminal s \<longleftrightarrow>
     s = Sub_Done \<or> s = Sub_Escalated \<or> s = Sub_Failed \<or> s = Sub_Skipped \<or> s = Sub_Superseded"

definition deserialize_sub_status :: "string option \<Rightarrow> sub_task_status" where
  "deserialize_sub_status raw =
     (case raw of None \<Rightarrow> Sub_Pending | Some s \<Rightarrow> sub_status_from_wire s)"

section \<open>Seats\<close>

datatype team_role = Role_Tl | Role_Dev | Role_Reviewer

fun role_as_str :: "team_role \<Rightarrow> string" where
  "role_as_str Role_Tl = ''tl''"
| "role_as_str Role_Dev = ''dev''"
| "role_as_str Role_Reviewer = ''reviewer''"

datatype team_thread_slot =
    Slot_Tl | Slot_SubTaskDev nat | Slot_SubTaskReviewer nat | Slot_RunOwned nat | Slot_MrDev

datatype team_turn_outcome =
    Turn_Replied string | Turn_Silent | Turn_Failed string | Turn_Blocked string
  | Turn_ReviewStale string

datatype team_thread_gate = Gate_Free | Gate_TlWhilePaused | Gate_Locked

section \<open>Wire forms\<close>

interpretation run_status_wire: wire_enum run_status_as_str run_status_from_wire Run_Failed
proof unfold_locales
  show "run_status_from_wire (run_status_as_str x) = x" for x
    by (cases x) (simp_all add: run_status_from_wire_def)
  show "run_status_as_str (run_status_from_wire s) = s" if "run_status_from_wire s \<noteq> Run_Failed" for s
    using that by (simp add: run_status_from_wire_def split: if_splits)
qed

interpretation pause_kind_wire: wire_enum pause_kind_as_str pause_kind_from_wire Pause_User
proof unfold_locales
  show "pause_kind_from_wire (pause_kind_as_str x) = x" for x
    by (cases x) (simp_all add: pause_kind_from_wire_def)
  show "pause_kind_as_str (pause_kind_from_wire s) = s" if "pause_kind_from_wire s \<noteq> Pause_User" for s
    using that by (simp add: pause_kind_from_wire_def split: if_splits)
qed

interpretation phase_wire: wire_enum phase_as_str phase_from_wire Phase_Finished
proof unfold_locales
  show "phase_from_wire (phase_as_str x) = x" for x
    by (cases x) (simp_all add: phase_from_wire_def)
  show "phase_as_str (phase_from_wire s) = s" if "phase_from_wire s \<noteq> Phase_Finished" for s
    using that by (simp add: phase_from_wire_def split: if_splits)
qed

interpretation sub_status_wire: wire_enum sub_status_as_str sub_status_from_wire Sub_Failed
proof unfold_locales
  show "sub_status_from_wire (sub_status_as_str x) = x" for x
    by (cases x) (simp_all add: sub_status_from_wire_def)
  show "sub_status_as_str (sub_status_from_wire s) = s" if "sub_status_from_wire s \<noteq> Sub_Failed" for s
    using that by (simp add: sub_status_from_wire_def split: if_splits)
qed

lemmas status_simps =
  run_status_terminal_def run_status_resumable_def run_status_reopenable_def
  run_status_settled_without_driver_def sub_status_terminal_def

section \<open>The task specification\<close>

record task_spec =
  spec_title :: string
  spec_context :: string
  spec_acceptance_criteria :: string
  spec_agreed_scope :: string
  spec_quality_rules :: string

record task_spec_updates =
  upd_title :: "string option"
  upd_context :: "string option"
  upd_acceptance_criteria :: "string option"
  upd_agreed_scope :: "string option"
  upd_quality_rules :: "string option"

definition default_task_spec :: task_spec where
  "default_task_spec =
     \<lparr>spec_title = [], spec_context = [], spec_acceptance_criteria = [], spec_agreed_scope = [],
      spec_quality_rules = []\<rparr>"

definition updates_is_empty :: "task_spec_updates \<Rightarrow> bool" where
  "updates_is_empty u \<longleftrightarrow>
     upd_title u = None \<and> upd_context u = None \<and> upd_acceptance_criteria u = None \<and>
     upd_agreed_scope u = None \<and> upd_quality_rules u = None"

definition updates_changed_fields :: "task_spec_updates \<Rightarrow> string list" where
  "updates_changed_fields u =
     map fst (filter snd
       [(''title'', upd_title u \<noteq> None),
        (''context'', upd_context u \<noteq> None),
        (''acceptance criteria'', upd_acceptance_criteria u \<noteq> None),
        (''agreed scope'', upd_agreed_scope u \<noteq> None),
        (''quality rules'', upd_quality_rules u \<noteq> None)])"

definition keep_or :: "string option \<Rightarrow> string \<Rightarrow> string" where
  "keep_or v old = (case v of None \<Rightarrow> old | Some s \<Rightarrow> s)"

text \<open>Returns whether a field was named, and the rewritten specification.\<close>

definition apply_updates :: "task_spec_updates \<Rightarrow> task_spec \<Rightarrow> bool \<times> task_spec" where
  "apply_updates u s =
     (\<not> updates_is_empty u,
      \<lparr>spec_title = keep_or (upd_title u) (spec_title s),
       spec_context = keep_or (upd_context u) (spec_context s),
       spec_acceptance_criteria = keep_or (upd_acceptance_criteria u) (spec_acceptance_criteria s),
       spec_agreed_scope = keep_or (upd_agreed_scope u) (spec_agreed_scope s),
       spec_quality_rules = keep_or (upd_quality_rules u) (spec_quality_rules s)\<rparr>)"

definition widen_scope :: "string \<Rightarrow> task_spec \<Rightarrow> bool \<times> task_spec" where
  "widen_scope addition s =
     (let addition = trim addition in
      if addition = [] then (False, s)
      else if is_blank (spec_agreed_scope s) then (True, s\<lparr>spec_agreed_scope := addition\<rparr>)
      else (True, s\<lparr>spec_agreed_scope :=
              spec_agreed_scope s @ [CHR 0x0A, CHR 0x0A] @ ''Also in scope: '' @ addition\<rparr>))"

lemma changed_fields_empty: "updates_changed_fields u = [] \<longleftrightarrow> updates_is_empty u"
  by (simp add: updates_changed_fields_def updates_is_empty_def)

lemma apply_updates_none: "updates_is_empty u \<Longrightarrow> apply_updates u s = (False, s)"
  by (cases s) (simp add: apply_updates_def updates_is_empty_def keep_or_def)

end
