(* ===== verification/Protocol.thy ===== *)
theory Protocol
  imports Prelude
begin

text \<open>
  The bounded values of the orchestration protocol (\<open>crates/relay-api/src/orchestration.rs\<close>):
  opaque tokens, bounded vectors, the backend a run is pinned to, and version negotiation.
\<close>

section \<open>Constants and errors\<close>

definition CURRENT_PROTOCOL_VERSION :: u32 where "CURRENT_PROTOCOL_VERSION = 1"
definition MIN_PROTOCOL_VERSION :: u32 where "MIN_PROTOCOL_VERSION = 1"
definition MAX_OPAQUE_ID_LEN :: nat where "MAX_OPAQUE_ID_LEN = 96"
definition MAX_DRIVER_VERSION_LEN :: nat where "MAX_DRIVER_VERSION_LEN = 64"
definition MAX_COMMAND_BINDINGS :: nat where "MAX_COMMAND_BINDINGS = 16"
definition MAX_CANDIDATE_THREADS :: nat where "MAX_CANDIDATE_THREADS = 16"
definition MAX_CURSOR_ARTIFACTS :: nat where "MAX_CURSOR_ARTIFACTS = 64"

lemmas protocol_limits =
  CURRENT_PROTOCOL_VERSION_def MIN_PROTOCOL_VERSION_def MAX_OPAQUE_ID_LEN_def
  MAX_DRIVER_VERSION_LEN_def MAX_COMMAND_BINDINGS_def MAX_CANDIDATE_THREADS_def
  MAX_CURSOR_ARTIFACTS_def

text \<open>\<open>Err_InvalidCharacter\<close> carries the offending character as its UTF-8 bytes.\<close>

datatype protocol_value_error =
    Err_Empty string
  | Err_TooLong string nat nat
  | Err_InvalidCharacter string string
  | Err_InvalidTokenShape string
  | Err_TooManyItems string nat nat
  | Err_NoCompatibleProtocol u32 u32 u32 u32
  | Err_UnsupportedLocalProtocolRange u32 u32 u32 u32
  | Err_InvalidRange u32 u32
  | Err_UnsupportedProtocolVersion u32
  | Err_MalformedDriverProgress
  | Err_UnknownBackend

section \<open>Tokens\<close>

definition token_char :: "char \<Rightarrow> bool" where
  "token_char c \<longleftrightarrow>
     char_between CHR ''a'' CHR ''z'' c \<or> char_between CHR ''A'' CHR ''Z'' c \<or>
     char_between CHR ''0'' CHR ''9'' c \<or> c = CHR ''-'' \<or> c = CHR ''_'' \<or> c = CHR ''.''"

text \<open>The character that starts a non-empty valid UTF-8 string, as its bytes.\<close>

definition utf8_head :: "string \<Rightarrow> string" where
  "utf8_head s =
     (case s of
        [] \<Rightarrow> []
      | c # _ \<Rightarrow>
          (let b = (of_char c :: nat)
           in take (if b < 0x80 then 1 else if b < 0xE0 then 2 else if b < 0xF0 then 3 else 4) s))"

definition validate_token :: "string \<Rightarrow> string \<Rightarrow> nat \<Rightarrow> protocol_value_error + string" where
  "validate_token field raw max_len =
     (if raw = [] then Inl (Err_Empty field)
      else if max_len < length raw then Inl (Err_TooLong field max_len (length raw))
      else case dropWhile token_char raw of
        c # rest \<Rightarrow> Inl (Err_InvalidCharacter field (utf8_head (c # rest)))
      | [] \<Rightarrow>
          (if hd raw = CHR ''.'' \<or> last raw = CHR ''.'' \<or> contains_str raw ''..''
           then Inl (Err_InvalidTokenShape field)
           else Inr raw))"

text \<open>The newtypes of \<open>bounded_token!\<close>; the only public constructor is \<open>new\<close>.\<close>

datatype command_id = Command_Id (command_id_str: string)
datatype event_id = Event_Id (event_id_str: string)
datatype driver_run_id = Driver_Run_Id (driver_run_id_str: string)
datatype thread_handle = Thread_Handle (thread_handle_str: string)
datatype template_id = Template_Id (template_id_str: string)
datatype artifact_id = Artifact_Id (artifact_id_str: string)
datatype driver_version = Driver_Version (driver_version_str: string)
datatype unknown_backend_kind = Unknown_Backend_Kind (unknown_backend_kind_str: string)

definition new_command_id :: "string \<Rightarrow> protocol_value_error + command_id" where
  "new_command_id raw = map_sum id Command_Id (validate_token ''command_id'' raw MAX_OPAQUE_ID_LEN)"

definition new_driver_run_id :: "string \<Rightarrow> protocol_value_error + driver_run_id" where
  "new_driver_run_id raw =
     map_sum id Driver_Run_Id (validate_token ''driver_run_id'' raw MAX_OPAQUE_ID_LEN)"

definition new_driver_version :: "string \<Rightarrow> protocol_value_error + driver_version" where
  "new_driver_version raw =
     map_sum id Driver_Version (validate_token ''driver_version'' raw MAX_DRIVER_VERSION_LEN)"

definition new_unknown_backend_kind :: "string \<Rightarrow> protocol_value_error + unknown_backend_kind" where
  "new_unknown_backend_kind raw =
     map_sum id Unknown_Backend_Kind
       (validate_token ''unknown_backend_kind'' raw MAX_OPAQUE_ID_LEN)"

section \<open>Bounded vectors\<close>

text \<open>\<open>BoundedVec::<T, MAX>::new\<close>, with the items as the vector.\<close>

definition bounded_vec :: "nat \<Rightarrow> string \<Rightarrow> 'a list \<Rightarrow> protocol_value_error + 'a list" where
  "bounded_vec cap field items =
     (if cap < length items then Inl (Err_TooManyItems field cap (length items)) else Inr items)"

section \<open>Versions and the backend\<close>

definition supported_version :: "u32 \<Rightarrow> protocol_value_error + u32" where
  "supported_version version =
     (if MIN_PROTOCOL_VERSION \<le> version \<and> version \<le> CURRENT_PROTOCOL_VERSION then Inr version
      else Inl (Err_UnsupportedProtocolVersion version))"

datatype backend_ref =
    LegacyEmbedded
  | Cloud u32 driver_version driver_run_id
  | LocalSidecar u32 driver_version
  | UnknownNonExecuting
      "unknown_backend_kind option" "u32 option" "driver_version option" "driver_run_id option"

datatype backend_kind = Kind_LegacyEmbedded | Kind_Cloud | Kind_LocalSidecar | Kind_UnknownNonExecuting

fun backend_kind_of :: "backend_ref \<Rightarrow> backend_kind" where
  "backend_kind_of LegacyEmbedded = Kind_LegacyEmbedded"
| "backend_kind_of (Cloud _ _ _) = Kind_Cloud"
| "backend_kind_of (LocalSidecar _ _) = Kind_LocalSidecar"
| "backend_kind_of (UnknownNonExecuting _ _ _ _) = Kind_UnknownNonExecuting"

fun executable_by_current_build :: "backend_ref \<Rightarrow> bool" where
  "executable_by_current_build LegacyEmbedded = True"
| "executable_by_current_build _ = False"

fun supported_protocol_version :: "backend_ref \<Rightarrow> u32 option" where
  "supported_protocol_version LegacyEmbedded = Some CURRENT_PROTOCOL_VERSION"
| "supported_protocol_version (Cloud v _ _) = Some v"
| "supported_protocol_version (LocalSidecar v _) = Some v"
| "supported_protocol_version (UnknownNonExecuting _ _ _ _) = None"

definition unknown_non_executing :: backend_ref where
  "unknown_non_executing = UnknownNonExecuting None None None None"

definition ok :: "'e + 'a \<Rightarrow> 'a option" where
  "ok r = (case r of Inl _ \<Rightarrow> None | Inr x \<Rightarrow> Some x)"

definition unknown_non_executing_from_parts ::
    "string option \<Rightarrow> u32 option \<Rightarrow> string option \<Rightarrow> string option \<Rightarrow> backend_ref" where
  "unknown_non_executing_from_parts original_kind protocol_version driver_version cloud_run_id =
     UnknownNonExecuting
       (Option.bind original_kind (\<lambda>raw. ok (new_unknown_backend_kind raw)))
       protocol_version
       (Option.bind driver_version (\<lambda>raw. ok (new_driver_version raw)))
       (Option.bind cloud_run_id (\<lambda>raw. ok (new_driver_run_id raw)))"

fun original_unknown_kind :: "backend_ref \<Rightarrow> string option" where
  "original_unknown_kind (UnknownNonExecuting (Some kind) _ _ _) = Some (unknown_backend_kind_str kind)"
| "original_unknown_kind _ = None"

fun non_executing_reason :: "backend_ref \<Rightarrow> string option" where
  "non_executing_reason LegacyEmbedded = None"
| "non_executing_reason (Cloud _ _ _) = Some
     ''this task is pinned to Cloud orchestration, but this relay build has no Cloud transport''"
| "non_executing_reason (LocalSidecar _ _) = Some
     ''this task is pinned to a local sidecar, but this relay build has no sidecar transport''"
| "non_executing_reason (UnknownNonExecuting _ _ _ _) = Some
     ''this task is pinned to an orchestration backend this relay build does not understand''"

lemma executable_iff_no_reason: "executable_by_current_build b \<longleftrightarrow> non_executing_reason b = None"
  by (cases b) auto

section \<open>Version negotiation\<close>

record protocol_range =
  range_min :: u32
  range_max :: u32

definition new_protocol_range :: "u32 \<Rightarrow> u32 \<Rightarrow> protocol_value_error + protocol_range" where
  "new_protocol_range lo hi =
     (if lo = 0 \<or> hi = 0 \<or> hi < lo then Inl (Err_InvalidRange lo hi)
      else Inr \<lparr>range_min = lo, range_max = hi\<rparr>)"

definition current_protocol_range :: protocol_range where
  "current_protocol_range = \<lparr>range_min = MIN_PROTOCOL_VERSION, range_max = CURRENT_PROTOCOL_VERSION\<rparr>"

definition negotiate_protocol ::
    "protocol_range \<Rightarrow> protocol_range \<Rightarrow> protocol_value_error + u32" where
  "negotiate_protocol local peer =
     (let local_min = max (range_min local) MIN_PROTOCOL_VERSION;
          local_max = min (range_max local) CURRENT_PROTOCOL_VERSION
      in if local_max < local_min then
           Inl (Err_UnsupportedLocalProtocolRange (range_min local) (range_max local)
                  MIN_PROTOCOL_VERSION CURRENT_PROTOCOL_VERSION)
         else
           (let lo = max local_min (range_min peer); hi = min local_max (range_max peer)
            in if hi < lo then
                 Inl (Err_NoCompatibleProtocol local_min local_max (range_min peer) (range_max peer))
               else Inr hi))"

definition in_range :: "u32 \<Rightarrow> protocol_range \<Rightarrow> bool" where
  "in_range v r \<longleftrightarrow> range_min r \<le> v \<and> v \<le> range_max r"

text \<open>A version both endpoints and this build support.\<close>

definition common_version :: "protocol_range \<Rightarrow> protocol_range \<Rightarrow> u32 \<Rightarrow> bool" where
  "common_version local peer v \<longleftrightarrow>
     in_range v local \<and> in_range v peer \<and> in_range v current_protocol_range"

section \<open>What the values promise\<close>

lemma validate_token_Inr:
  "validate_token field raw n = Inr s \<Longrightarrow>
     s = raw \<and> s \<noteq> [] \<and> length s \<le> n \<and> (\<forall>c \<in> set s. token_char c)"
  by (auto simp: validate_token_def dropWhile_eq_Nil_conv split: if_splits list.splits)

lemma token_char_not_slash: "\<not> token_char CHR ''/''" "\<not> token_char CHR '':''"
  "\<not> token_char CHR '' ''"
  by (simp_all add: token_char_def char_between_def)

text \<open>
  A bounded token is accepted exactly when it is non-empty, within its bound, made of ASCII
  letters, digits, \<open>-\<close>, \<open>_\<close> and \<open>.\<close>, and not path-like; it is then kept as it was given.
\<close>

lemma validate_token_iff:
  "validate_token field raw n = Inr s \<longleftrightarrow>
     s = raw \<and> raw \<noteq> [] \<and> length raw \<le> n \<and> (\<forall>c \<in> set raw. token_char c) \<and>
     hd raw \<noteq> CHR ''.'' \<and> last raw \<noteq> CHR ''.'' \<and> \<not> contains_str raw ''..''"
proof (cases "dropWhile token_char raw")
  case Nil
  then have "\<forall>c \<in> set raw. token_char c" by (simp add: dropWhile_eq_Nil_conv)
  then show ?thesis unfolding validate_token_def Nil by auto
next
  case (Cons c rest)
  then have "\<not> (\<forall>c \<in> set raw. token_char c)"
    by (metis dropWhile_eq_Nil_conv list.distinct(1))
  then show ?thesis unfolding validate_token_def Cons by auto
qed

lemma common_version_bounds:
  "common_version local peer w \<longleftrightarrow>
     max (max (range_min local) MIN_PROTOCOL_VERSION) (range_min peer) \<le> w \<and>
     w \<le> min (min (range_max local) CURRENT_PROTOCOL_VERSION) (range_max peer)"
  by (auto simp: common_version_def in_range_def current_protocol_range_def)

lemma negotiate_cases:
  "case negotiate_protocol local peer of
     Inr v \<Rightarrow> v = min (min (range_max local) CURRENT_PROTOCOL_VERSION) (range_max peer) \<and>
       max (max (range_min local) MIN_PROTOCOL_VERSION) (range_min peer) \<le> v
   | Inl _ \<Rightarrow> min (min (range_max local) CURRENT_PROTOCOL_VERSION) (range_max peer)
       < max (max (range_min local) MIN_PROTOCOL_VERSION) (range_min peer)"
  by (auto simp: negotiate_protocol_def Let_def not_less min_less_iff_disj less_max_iff_disj)

text \<open>
  Version negotiation returns the highest version that both ranges and this build support,
  and fails exactly when there is none.
\<close>

theorem negotiate_protocol_highest:
  "case negotiate_protocol local peer of
     Inr v \<Rightarrow> common_version local peer v \<and> \<not> (\<exists>w > v. common_version local peer w)
   | Inl _ \<Rightarrow> \<not> (\<exists>w. common_version local peer w)"
proof (cases "negotiate_protocol local peer")
  case (Inl e)
  with negotiate_cases [of local peer] have
    "min (min (range_max local) CURRENT_PROTOCOL_VERSION) (range_max peer)
      < max (max (range_min local) MIN_PROTOCOL_VERSION) (range_min peer)" (is "?hi < ?lo")
    by simp
  then have "\<not> (?lo \<le> w \<and> w \<le> ?hi)" for w
    by (meson leD order_trans)
  with Inl show ?thesis by (simp add: common_version_bounds del: min.bounded_iff max.bounded_iff)
next
  case (Inr v)
  note bounds = negotiate_cases [of local peer, unfolded Inr sum.case]
  have "common_version local peer w \<longleftrightarrow>
      max (max (range_min local) MIN_PROTOCOL_VERSION) (range_min peer) \<le> w \<and> w \<le> v" for w
    unfolding common_version_bounds using bounds by metis
  then have "common_version local peer v" "\<not> (\<exists>w > v. common_version local peer w)"
    using bounds by (blast intro: order_refl, meson leD)
  with Inr show ?thesis by simp
qed

end
