(* ===== verification/Json.thy ===== *)
theory Json
  imports Prelude
begin

text \<open>
  The JSON data model that the persisted types are read through (\<open>serde_json::Value\<close>). An object
  is the list of its entries in the order they are read; the keys of a \<open>Value\<close> are distinct,
  those of a stream of map entries need not be. A number is an integer or, as its text, a float.
\<close>

datatype json =
    JNull | JBool bool | JInt int | JFloat string | JString string
  | JArray "json list" | JObject "(string \<times> json) list"

definition obj_get :: "string \<Rightarrow> (string \<times> json) list \<Rightarrow> json option" where
  "obj_get k entries = map_of entries k"

definition json_u64 :: "json \<Rightarrow> u64 option" where
  "json_u64 v = (case v of JInt i \<Rightarrow> if 0 \<le> i \<and> i < 2 ^ 64 then Some (word_of_int i) else None | _ \<Rightarrow> None)"

definition u64_json :: "u64 \<Rightarrow> json" where
  "u64_json w = JInt (uint w)"

lemma json_u64_roundtrip [simp]: "json_u64 (u64_json w) = Some w"
  using uint_bounded [of w] by (simp add: json_u64_def u64_json_def)

end
