(* ===== verification/Journal.thy ===== *)
theory Journal
  imports Protocol Json
begin

text \<open>
  The durable record of a run's commands (\<open>crates/relay-api/src/orchestration.rs\<close>): what became
  of each journaled command, the bounded journal, the in-flight marker and the progress counters.
\<close>

section \<open>Records\<close>

datatype command_rejection =
    Rej_UnknownRevision | Rej_DuplicateCommand | Rej_StaleCommand | Rej_BackendMismatch
  | Rej_PermissionDenied | Rej_WorkspaceUnavailable | Rej_TemplateUnavailable
  | Rej_ArtifactUnavailable | Rej_ExecutorBusy | Rej_InvalidState | Rej_UnsupportedProtocol

datatype team_command_kind =
    Cmd_RecordIntake | Cmd_SetPhase | Cmd_RecordDesignReviewRound | Cmd_ReplanSubTasks
  | Cmd_AttachSubTaskThread | Cmd_SetSubTaskStatus | Cmd_PauseSubTaskWithoutCandidate
  | Cmd_RecordSubTaskStaleReview | Cmd_RecordReviewRound | Cmd_MarkSubTaskDigested
  | Cmd_RecordMrRound | Cmd_SetMrVerdict | Cmd_PrepareMrReview | Cmd_PauseMrWithoutCandidate
  | Cmd_RecordMrStaleReview | Cmd_RecordMrDevThread | Cmd_RecordReviewerThread | Cmd_FinishRun
  | Cmd_TakeUserNotes | Cmd_SetRunStatus | Cmd_FailRun | Cmd_BlockRun | Cmd_SettleRun
  | Cmd_Unknown

datatype command_outcome = Out_Applied | Out_Rejected command_rejection | Out_Interrupted

datatype command_fingerprint = Fingerprint (fingerprint_bytes: string)

record command_record =
  cr_command_id :: command_id
  cr_sequence :: u64
  cr_kind :: team_command_kind
  cr_fingerprint :: "command_fingerprint option"
  cr_expected_revision :: u64
  cr_state_revision :: u64
  cr_last_event_seq :: u64
  cr_outcome :: command_outcome

record in_flight_command =
  ifc_command_id :: command_id
  ifc_fingerprint :: command_fingerprint
  ifc_kind :: team_command_kind
  ifc_sequence :: u64
  ifc_expected_revision :: u64
  ifc_state_revision :: u64
  ifc_last_event_seq :: u64

definition into_interrupted_record :: "in_flight_command \<Rightarrow> command_record" where
  "into_interrupted_record c =
     \<lparr>cr_command_id = ifc_command_id c, cr_sequence = ifc_sequence c, cr_kind = ifc_kind c,
      cr_fingerprint = Some (ifc_fingerprint c), cr_expected_revision = ifc_expected_revision c,
      cr_state_revision = ifc_state_revision c, cr_last_event_seq = ifc_last_event_seq c,
      cr_outcome = Out_Interrupted\<rparr>"

section \<open>Progress\<close>

record driver_progress =
  dp_state_revision :: u64
  dp_last_command_seq :: u64
  dp_last_event_seq :: u64
  dp_in_flight_command_id :: "command_id option"
  dp_malformed :: bool

definition default_driver_progress :: driver_progress where
  "default_driver_progress =
     \<lparr>dp_state_revision = 0, dp_last_command_seq = 0, dp_last_event_seq = 0,
      dp_in_flight_command_id = None, dp_malformed = False\<rparr>"

definition malformed_driver_progress :: driver_progress where
  "malformed_driver_progress = default_driver_progress\<lparr>dp_malformed := True\<rparr>"

section \<open>The journal\<close>

definition MAX_TEAM_COMMAND_JOURNAL :: nat where "MAX_TEAM_COMMAND_JOURNAL = 64"

record command_journal =
  cj_records :: "command_record list"
  cj_malformed :: bool

definition default_journal :: command_journal where
  "default_journal = \<lparr>cj_records = [], cj_malformed = False\<rparr>"

definition malformed_journal :: command_journal where
  "malformed_journal = \<lparr>cj_records = [], cj_malformed = True\<rparr>"

definition journal_len :: "command_journal \<Rightarrow> nat" where
  "journal_len j = length (cj_records j)"

definition journal_find :: "command_id \<Rightarrow> command_journal \<Rightarrow> command_record option" where
  "journal_find i j = List.find (\<lambda>r. cr_command_id r = i) (cj_records j)"

definition journal_push :: "command_record \<Rightarrow> command_journal \<Rightarrow> command_journal" where
  "journal_push r j = j\<lparr>cj_records := cj_records j @ [r]\<rparr>"

definition journal_mark_malformed :: "command_journal \<Rightarrow> command_journal" where
  "journal_mark_malformed j = j\<lparr>cj_malformed := True\<rparr>"

definition journal_remove_first ::
    "(command_record \<Rightarrow> bool) \<Rightarrow> command_journal \<Rightarrow> (command_record \<times> command_journal) option" where
  "journal_remove_first p j =
     (case take_first p (cj_records j) of
        None \<Rightarrow> None
      | Some (r, rs) \<Rightarrow> Some (r, j\<lparr>cj_records := rs\<rparr>))"

text \<open>
  Decoding of a persisted journal: whatever cannot be read as one unambiguous, bounded journal
  becomes the malformed one. \<open>from_value\<close> is the derived decoder of one record.
\<close>

fun decode_records ::
    "(json \<Rightarrow> command_record option) \<Rightarrow> json list \<Rightarrow> command_record list \<Rightarrow> command_record list option" where
  "decode_records from_value [] records = Some records"
| "decode_records from_value (item # items) records =
     (case from_value item of
        Some record \<Rightarrow>
          (if \<exists>seen \<in> set records. cr_command_id seen = cr_command_id record then None
           else decode_records from_value items (records @ [record]))
      | None \<Rightarrow> None)"

definition deserialize_journal :: "(json \<Rightarrow> command_record option) \<Rightarrow> json \<Rightarrow> command_journal" where
  "deserialize_journal from_value v =
     (case v of
        JObject m \<Rightarrow>
          (if obj_get ''malformed'' m \<noteq> None \<and> obj_get ''malformed'' m \<noteq> Some (JBool False)
           then malformed_journal
           else case obj_get ''records'' m of
             Some (JArray items) \<Rightarrow>
               (if MAX_TEAM_COMMAND_JOURNAL < length items then malformed_journal
                else case decode_records from_value items [] of
                  Some records \<Rightarrow> \<lparr>cj_records = records, cj_malformed = False\<rparr>
                | None \<Rightarrow> malformed_journal)
           | _ \<Rightarrow> malformed_journal)
      | _ \<Rightarrow> malformed_journal)"

text \<open>The derived encoder of the journal: \<open>malformed\<close> is written only when it is set.\<close>

definition serialize_journal :: "(command_record \<Rightarrow> json) \<Rightarrow> command_journal \<Rightarrow> json" where
  "serialize_journal to_value j =
     JObject ((''records'', JArray (map to_value (cj_records j))) #
              (if cj_malformed j then [(''malformed'', JBool True)] else []))"

section \<open>The log interface\<close>

text \<open>
  What the reducer and the restore path rely on: a log that is looked up by key, appended to at
  the end, and shortened by removing the oldest entry that satisfies a condition.
\<close>

locale receipt_log =
  fixes entries :: "'l \<Rightarrow> 'r list" and key :: "'r \<Rightarrow> 'k"
    and find :: "'k \<Rightarrow> 'l \<Rightarrow> 'r option" and push :: "'r \<Rightarrow> 'l \<Rightarrow> 'l"
    and remove :: "('r \<Rightarrow> bool) \<Rightarrow> 'l \<Rightarrow> ('r \<times> 'l) option"
  assumes find_entries: "find k l = List.find (\<lambda>r. key r = k) (entries l)"
    and entries_push: "entries (push r l) = entries l @ [r]"
    and remove_Some: "remove p l = Some (r, l') \<Longrightarrow>
      \<exists>us vs. entries l = us @ r # vs \<and> entries l' = us @ vs \<and> p r \<and> (\<forall>u \<in> set us. \<not> p u)"
    and remove_None: "remove p l = None \<Longrightarrow> r \<in> set (entries l) \<Longrightarrow> \<not> p r"
begin

definition keys :: "'l \<Rightarrow> 'k list" where
  "keys l = map key (entries l)"

lemma find_Some: "find k l = Some r \<Longrightarrow> r \<in> set (entries l) \<and> key r = k"
  unfolding find_entries by (auto simp: find_Some_iff)

lemma find_None: "find k l = None \<longleftrightarrow> k \<notin> set (keys l)"
  unfolding find_entries keys_def by (auto simp: find_None_iff)

lemma find_iff: "distinct (keys l) \<Longrightarrow> find k l = Some r \<longleftrightarrow> r \<in> set (entries l) \<and> key r = k"
proof
  assume "find k l = Some r"
  then show "r \<in> set (entries l) \<and> key r = k" by (rule find_Some)
next
  assume d: "distinct (keys l)" and r: "r \<in> set (entries l) \<and> key r = k"
  then have "find k l \<noteq> None" by (auto simp: find_None keys_def)
  then obtain r' where r': "find k l = Some r'" by blast
  with r d have "r' = r"
    by (metis distinct_map find_Some inj_on_def keys_def)
  with r' show "find k l = Some r" by simp
qed

lemma push_fresh: "distinct (keys l) \<Longrightarrow> find (key r) l = None \<Longrightarrow> distinct (keys (push r l))"
  by (auto simp: find_None keys_def entries_push)

lemma remove_distinct: "distinct (keys l) \<Longrightarrow> remove p l = Some (r, l') \<Longrightarrow> distinct (keys l')"
  by (drule remove_Some) (auto simp: keys_def)

lemma remove_shrinks: "remove p l = Some (r, l') \<Longrightarrow> length (entries l) = Suc (length (entries l'))"
  by (drule remove_Some) auto

lemma remove_subset: "remove p l = Some (r, l') \<Longrightarrow> set (entries l') \<subseteq> set (entries l)"
  by (drule remove_Some) auto

lemma remove_entry: "remove p l = Some (r, l') \<Longrightarrow> r \<in> set (entries l) \<and> p r"
  by (drule remove_Some) auto

end

interpretation journal:
  receipt_log cj_records cr_command_id journal_find journal_push journal_remove_first
proof unfold_locales
  show "journal_find k l = List.find (\<lambda>r. cr_command_id r = k) (cj_records l)" for k l
    by (rule journal_find_def)
  show "cj_records (journal_push r l) = cj_records l @ [r]" for r l
    by (simp add: journal_push_def)
  show "\<exists>us vs. cj_records l = us @ r # vs \<and> cj_records l' = us @ vs \<and> p r \<and> (\<forall>u \<in> set us. \<not> p u)"
    if "journal_remove_first p l = Some (r, l')" for p l r l'
    using that by (auto simp: journal_remove_first_def split: option.splits
        dest!: take_first_Some) blast
  show "\<not> p r" if "journal_remove_first p l = None" "r \<in> set (cj_records l)" for p l r
    using that by (auto simp: journal_remove_first_def take_first_None split: option.splits)
qed

lemma journal_flags [simp]:
  "cj_malformed (journal_push r j) = cj_malformed j"
  "cj_records (journal_mark_malformed j) = cj_records j"
  "cj_malformed (journal_mark_malformed j)"
  by (simp_all add: journal_push_def journal_mark_malformed_def)

lemma remove_first_malformed:
  "journal_remove_first p j = Some (r, j') \<Longrightarrow> cj_malformed j' = cj_malformed j"
  by (auto simp: journal_remove_first_def split: option.splits)

section \<open>Decoding\<close>

lemma decode_records_distinct:
  "decode_records from_value items records = Some out \<Longrightarrow> distinct (map cr_command_id records) \<Longrightarrow>
     distinct (map cr_command_id out) \<and> length out = length records + length items"
proof (induction items arbitrary: records)
  case Nil
  then show ?case by simp
next
  case (Cons item items)
  from Cons.prems(1) obtain r where "from_value item = Some r"
    and "\<forall>seen \<in> set records. cr_command_id seen \<noteq> cr_command_id r"
    and "decode_records from_value items (records @ [r]) = Some out"
    by (auto split: option.splits if_splits)
  moreover from this have "cr_command_id r \<notin> cr_command_id ` set records" by (metis imageE)
  ultimately show ?case using Cons.IH [of "records @ [r]"] Cons.prems(2) by simp
qed

lemma decode_records_map:
  assumes "\<And>r. from_value (to_value r) = Some r"
  shows "distinct (map cr_command_id (records @ rs)) \<Longrightarrow>
     decode_records from_value (map to_value rs) records = Some (records @ rs)"
proof (induction rs arbitrary: records)
  case Nil
  then show ?case by simp
next
  case (Cons r rs)
  then have "cr_command_id r \<notin> cr_command_id ` set records" by simp
  then have fresh: "\<not> (\<exists>seen \<in> set records. cr_command_id seen = cr_command_id r)"
    by (metis imageI)
  from Cons.IH [of "records @ [r]"] Cons.prems
  have "decode_records from_value (map to_value rs) (records @ [r]) = Some (records @ r # rs)"
    by simp
  with fresh show ?case by (simp add: assms)
qed

definition journal_wf :: "command_journal \<Rightarrow> bool" where
  "journal_wf j \<longleftrightarrow>
     journal_len j \<le> MAX_TEAM_COMMAND_JOURNAL \<and> distinct (map cr_command_id (cj_records j))"

lemma malformed_journal_wf [simp]: "journal_wf malformed_journal"
  by (simp add: journal_wf_def malformed_journal_def journal_len_def)

lemma deserialize_journal_wf: "journal_wf (deserialize_journal from_value v)"
  using decode_records_distinct [of from_value _ "[]"]
  by (auto simp: deserialize_journal_def journal_wf_def journal_len_def Let_def
      malformed_journal_def split: json.splits option.splits bool.splits)

end
