(* ===== verification/Team_Model.thy ===== *)
theory Team_Model
  imports Team_Types Journal
begin

text \<open>
  The record of one task-team run and what it is made of (\<open>crates/relay-api/src/team.rs\<close>,
  \<open>crates/relay-api/src/lib.rs\<close>): the sub-tasks, the pinned team structure, and the run itself
  with all the fields of the code. A \<open>BTreeMap\<close> is an association list read with \<open>map_of\<close>.
\<close>

definition MAX_SUBTASK_REVIEW_ROUNDS :: u32 where "MAX_SUBTASK_REVIEW_ROUNDS = 2"
definition MAX_MR_ROUNDS :: u32 where "MAX_MR_ROUNDS = 2"
definition MAX_TL_GENERATIONS :: nat where "MAX_TL_GENERATIONS = 8"

record workflow_verdict =
  wv_approved :: bool
  wv_summary :: "string option"
  wv_findings :: "string list"

section \<open>Sub-tasks\<close>

record sub_task =
  st_id :: string
  st_title :: string
  st_brief :: string
  st_status :: sub_task_status
  st_rounds_used :: u32
  st_reruns :: u32
  st_base_commit :: string
  st_round_base_sha :: string
  st_candidate_sha :: string
  st_verdict_candidate_sha :: string
  st_review_claim :: "string option"
  st_stale_review_retries :: u32
  st_dev_thread_id :: "string option"
  st_reviewer_thread_id :: "string option"
  st_owned_thread_ids :: "string list"
  st_last_verdict :: "workflow_verdict option"
  st_result_summary :: "string option"
  st_digested :: bool
  st_error :: "string option"
  st_dev_turns_landed :: u32
  st_cycle :: u32

definition default_sub_task :: sub_task where
  "default_sub_task =
     \<lparr>st_id = [], st_title = [], st_brief = [], st_status = Sub_Pending, st_rounds_used = 0,
      st_reruns = 0, st_base_commit = [], st_round_base_sha = [], st_candidate_sha = [],
      st_verdict_candidate_sha = [], st_review_claim = None, st_stale_review_retries = 0,
      st_dev_thread_id = None, st_reviewer_thread_id = None, st_owned_thread_ids = [],
      st_last_verdict = None, st_result_summary = None, st_digested = False, st_error = None,
      st_dev_turns_landed = 0, st_cycle = 0\<rparr>"

definition has_change_candidate :: "sub_task \<Rightarrow> bool" where
  "has_change_candidate t \<longleftrightarrow>
     \<not> is_blank (st_candidate_sha t) \<and> st_candidate_sha t \<noteq> st_round_base_sha t"

definition has_review_subject :: "sub_task \<Rightarrow> bool" where
  "has_review_subject t \<longleftrightarrow>
     has_change_candidate t \<or>
     (case st_review_claim t of None \<Rightarrow> False | Some claim \<Rightarrow> \<not> is_blank claim)"

text \<open>\<open>max(now, previous + 1)\<close>: the number minted, which is also the new last number.\<close>

definition mint_number :: "u64 \<Rightarrow> u64 \<Rightarrow> u64" where
  "mint_number prev now = max now (prev + 1)"

record last_drained_notes =
  ldn_command_id :: string
  ldn_notes :: "string list"

record tl_generation =
  tg_thread_id :: string
  tg_reason :: string
  tg_retired_at :: u64

record awaiting_user =
  au_thread_id :: string
  au_request_id :: string
  au_role :: string
  au_asked_at :: u64

section \<open>Team structure\<close>

record team_structure_role =
  tsr_id :: string
  tsr_name :: string
  tsr_runtime_role :: string
  tsr_blurb :: string

definition runtime_team_role :: "team_structure_role \<Rightarrow> team_role" where
  "runtime_team_role r =
     (if tsr_runtime_role r = ''tl'' \<or> tsr_runtime_role r = ''lead'' then Role_Tl
      else if tsr_runtime_role r = ''reviewer'' then Role_Reviewer
      else Role_Dev)"

record team_role_bindings =
  trb_lead :: string
  trb_dev :: string
  trb_reviewer :: string
  trb_mr_dev :: string
  trb_reporter :: string

definition default_role_bindings :: team_role_bindings where
  "default_role_bindings =
     \<lparr>trb_lead = ''tl'', trb_dev = ''dev'', trb_reviewer = ''reviewer'', trb_mr_dev = ''dev'',
      trb_reporter = ''tl''\<rparr>"

record team_structure =
  ts_roles :: "team_structure_role list"
  ts_bindings :: team_role_bindings

definition standard_structure :: team_structure where
  "standard_structure =
     \<lparr>ts_roles =
        [\<lparr>tsr_id = ''tl'', tsr_name = ''Planner'', tsr_runtime_role = role_as_str Role_Tl,
          tsr_blurb = ''Reads the brief, sizes the work, splits it into sub-tasks.''\<rparr>,
         \<lparr>tsr_id = ''dev'', tsr_name = ''Implementer'', tsr_runtime_role = role_as_str Role_Dev,
          tsr_blurb = ''Builds the sub-tasks.''\<rparr>,
         \<lparr>tsr_id = ''reviewer'', tsr_name = ''Reviewer'',
          tsr_runtime_role = role_as_str Role_Reviewer,
          tsr_blurb = ''Checks the work against your scope; read-only sandbox.''\<rparr>],
      ts_bindings = default_role_bindings\<rparr>"

definition pair_structure :: team_structure where
  "pair_structure =
     \<lparr>ts_roles =
        [\<lparr>tsr_id = ''pair'', tsr_name = ''Pair programmer'', tsr_runtime_role = role_as_str Role_Dev,
          tsr_blurb = ''Plans with you and implements in the same writable session.''\<rparr>,
         \<lparr>tsr_id = ''reviewer'', tsr_name = ''Reviewer'',
          tsr_runtime_role = role_as_str Role_Reviewer,
          tsr_blurb = ''Reviews the pair's work in a read-only session.''\<rparr>],
      ts_bindings =
        \<lparr>trb_lead = ''pair'', trb_dev = ''pair'', trb_reviewer = ''reviewer'', trb_mr_dev = ''pair'',
         trb_reporter = ''pair''\<rparr>\<rparr>"

definition BUILTIN_PAIR_TEAM_ID :: string where "BUILTIN_PAIR_TEAM_ID = ''pair''"

definition for_builtin_team_id :: "string \<Rightarrow> team_structure" where
  "for_builtin_team_id team_id =
     (if team_id = BUILTIN_PAIR_TEAM_ID then pair_structure else standard_structure)"

definition structure_role :: "string \<Rightarrow> team_structure \<Rightarrow> team_structure_role option" where
  "structure_role role_id s = List.find (\<lambda>r. tsr_id r = role_id) (ts_roles s)"

definition runtime_role_for :: "string \<Rightarrow> team_role \<Rightarrow> team_structure \<Rightarrow> team_role" where
  "runtime_role_for role_id fb s =
     (case structure_role role_id s of None \<Rightarrow> fb | Some r \<Rightarrow> runtime_team_role r)"

definition lead_runtime_role :: "team_structure \<Rightarrow> team_role" where
  "lead_runtime_role s = runtime_role_for (trb_lead (ts_bindings s)) Role_Tl s"

definition lead_and_dev_share_thread :: "team_structure \<Rightarrow> bool" where
  "lead_and_dev_share_thread s \<longleftrightarrow>
     trb_lead (ts_bindings s) \<noteq> [] \<and> trb_lead (ts_bindings s) = trb_dev (ts_bindings s)"

section \<open>Who started something\<close>

datatype started_by = By_Person | By_Agent

section \<open>The run\<close>

record team_run =
  tr_id :: string
  tr_status :: team_run_status
  tr_phase :: team_phase
  tr_spec :: task_spec
  tr_sub_tasks :: "sub_task list"
  tr_orchestration_backend :: backend_ref
  tr_driver_progress :: driver_progress
  tr_command_journal :: command_journal
  tr_in_flight_command :: "in_flight_command option"
  tr_drained_notes :: "last_drained_notes list"
  tr_team_id :: "string option"
  tr_team_version_id :: "string option"
  tr_team_name :: string
  tr_team_structure :: team_structure
  tr_complex :: "bool option"
  tr_slug :: string
  tr_branch :: string
  tr_target_ref :: string
  tr_base_commit :: string
  tr_cycle_base_sha :: string
  tr_repo_main_worktree :: string
  tr_cwd :: string
  tr_source_dirty :: bool
  tr_plan_rel_path :: string
  tr_design_rel_path :: string
  tr_report_rel_path :: string
  tr_tl_thread_id :: string
  tr_tl_provider :: string
  tr_tl_model :: string
  tr_tl_effort :: string
  tr_tl_succession :: "tl_generation list"
  tr_tl_turns_this_generation :: u32
  tr_tl_reseed_reason :: "string option"
  tr_owned_thread_providers :: "(string \<times> string) list"
  tr_run_owned_thread_ids :: "string list"
  tr_run_owned_thread_roles :: "(string \<times> string) list"
  tr_mr_dev_thread_id :: "string option"
  tr_reviewer_thread_id :: "string option"
  tr_pending_user_notes :: "string list"
  tr_reopened_count :: u32
  tr_dev_provider :: string
  tr_dev_model :: string
  tr_dev_effort :: string
  tr_reviewer_provider :: string
  tr_reviewer_model :: string
  tr_reviewer_effort :: string
  tr_seat_models_chosen_by :: started_by
  tr_dev_agents :: "u32 option"
  tr_max_review_rounds :: u32
  tr_max_mr_rounds :: u32
  tr_design_review_rounds :: u32
  tr_mr_rounds_used :: u32
  tr_mr_round_base_sha :: string
  tr_mr_candidate_sha :: string
  tr_mr_verdict_candidate_sha :: string
  tr_mr_stale_review_retries :: u32
  tr_mr_review_context :: "string list"
  tr_in_flight_thread :: "string option"
  tr_pause_requested :: bool
  tr_stopping :: bool
  tr_pause_requested_by :: string
  tr_pause_reason :: "string option"
  tr_pause_kind :: "team_pause_kind option"
  tr_awaiting :: "awaiting_user option"
  tr_design_verdict :: "workflow_verdict option"
  tr_mr_verdict :: "workflow_verdict option"
  tr_unresolved :: "string list"
  tr_head_commit :: "string option"
  tr_requested_by_device_id :: string
  tr_requested_at :: u64
  tr_updated_at :: u64
  tr_error :: "string option"

end
