(* ===== verification/Team_Run.thy ===== *)
theory Team_Run
  imports Team_Model
begin

text \<open>
  The operations of a task-team run that change its lifecycle and its plan
  (\<open>impl TeamRun\<close> in \<open>crates/relay-api/src/team.rs\<close>), in the order of the code. An operation
  takes the clock reading \<open>now\<close> it would take and returns the new run, with the returned
  \<open>bool\<close> first where the code returns one.
\<close>

section \<open>Construction and backend selection\<close>

definition default_team_run :: team_run where
  "default_team_run =
     \<lparr>tr_id = [], tr_status = Run_Queued, tr_phase = Phase_Intake, tr_spec = default_task_spec,
      tr_sub_tasks = [], tr_orchestration_backend = LegacyEmbedded,
      tr_driver_progress = default_driver_progress, tr_command_journal = default_journal,
      tr_in_flight_command = None, tr_drained_notes = [], tr_team_id = None,
      tr_team_version_id = None, tr_team_name = [], tr_team_structure = standard_structure,
      tr_complex = None, tr_slug = [], tr_branch = [], tr_target_ref = [], tr_base_commit = [],
      tr_cycle_base_sha = [], tr_repo_main_worktree = [], tr_cwd = [], tr_source_dirty = False,
      tr_plan_rel_path = [], tr_design_rel_path = [], tr_report_rel_path = [],
      tr_tl_thread_id = [], tr_tl_provider = [], tr_tl_model = [], tr_tl_effort = [],
      tr_tl_succession = [], tr_tl_turns_this_generation = 0, tr_tl_reseed_reason = None,
      tr_owned_thread_providers = [], tr_run_owned_thread_ids = [],
      tr_run_owned_thread_roles = [], tr_mr_dev_thread_id = None, tr_reviewer_thread_id = None,
      tr_pending_user_notes = [], tr_reopened_count = 0, tr_dev_provider = [], tr_dev_model = [],
      tr_dev_effort = [], tr_reviewer_provider = [], tr_reviewer_model = [],
      tr_reviewer_effort = [], tr_seat_models_chosen_by = By_Agent, tr_dev_agents = None,
      tr_max_review_rounds = 0, tr_max_mr_rounds = 0, tr_design_review_rounds = 0,
      tr_mr_rounds_used = 0, tr_mr_round_base_sha = [], tr_mr_candidate_sha = [],
      tr_mr_verdict_candidate_sha = [], tr_mr_stale_review_retries = 0,
      tr_mr_review_context = [], tr_in_flight_thread = None, tr_pause_requested = False,
      tr_stopping = False, tr_pause_requested_by = [], tr_pause_reason = None,
      tr_pause_kind = None, tr_awaiting = None, tr_design_verdict = None, tr_mr_verdict = None,
      tr_unresolved = [], tr_head_commit = None, tr_requested_by_device_id = [],
      tr_requested_at = 0, tr_updated_at = 0, tr_error = None\<rparr>"

definition new_team_run :: "string \<Rightarrow> task_spec \<Rightarrow> string \<Rightarrow> string \<Rightarrow> u64 \<Rightarrow> team_run" where
  "new_team_run rid spec cwd requested_by_device_id now =
     default_team_run
       \<lparr>tr_id := rid, tr_status := Run_Queued, tr_phase := Phase_Intake, tr_spec := spec,
        tr_cwd := cwd, tr_max_review_rounds := MAX_SUBTASK_REVIEW_ROUNDS,
        tr_max_mr_rounds := MAX_MR_ROUNDS, tr_requested_by_device_id := requested_by_device_id,
        tr_requested_at := now, tr_updated_at := now\<rparr>"

definition role_id_for_turn :: "team_thread_slot \<Rightarrow> team_role \<Rightarrow> team_run \<Rightarrow> string" where
  "role_id_for_turn slot role r =
     (let b = ts_bindings (tr_team_structure r);
          bound =
            (case slot of
               Slot_Tl \<Rightarrow> trb_lead b
             | Slot_SubTaskDev _ \<Rightarrow> trb_dev b
             | Slot_SubTaskReviewer _ \<Rightarrow> trb_reviewer b
             | Slot_MrDev \<Rightarrow> trb_mr_dev b
             | Slot_RunOwned index \<Rightarrow>
                 (if role = Role_Dev \<and> tr_mr_dev_thread_id r \<noteq> None
                     \<and> get_opt (tr_run_owned_thread_ids r) index = tr_mr_dev_thread_id r
                  then trb_mr_dev b
                  else case role of
                    Role_Tl \<Rightarrow> trb_lead b
                  | Role_Reviewer \<Rightarrow> trb_reviewer b
                  | Role_Dev \<Rightarrow> trb_dev b))
      in if is_blank bound then role_as_str role else bound)"

definition orchestration_execution_started :: "team_run \<Rightarrow> bool" where
  "orchestration_execution_started r \<longleftrightarrow>
     tr_status r \<noteq> Run_Queued
     \<or> tr_phase r \<noteq> Phase_Intake
     \<or> tr_tl_thread_id r \<noteq> []
     \<or> tr_tl_succession r \<noteq> []
     \<or> tr_run_owned_thread_ids r \<noteq> []
     \<or> tr_owned_thread_providers r \<noteq> []
     \<or> tr_mr_dev_thread_id r \<noteq> None
     \<or> tr_reviewer_thread_id r \<noteq> None
     \<or> tr_sub_tasks r \<noteq> []
     \<or> dp_state_revision (tr_driver_progress r) \<noteq> 0
     \<or> dp_last_command_seq (tr_driver_progress r) \<noteq> 0
     \<or> dp_last_event_seq (tr_driver_progress r) \<noteq> 0
     \<or> dp_in_flight_command_id (tr_driver_progress r) \<noteq> None
     \<or> tr_in_flight_command r \<noteq> None
     \<or> dp_malformed (tr_driver_progress r)
     \<or> cj_records (tr_command_journal r) \<noteq> []
     \<or> tr_complex r \<noteq> None
     \<or> tr_design_verdict r \<noteq> None
     \<or> tr_mr_verdict r \<noteq> None
     \<or> tr_unresolved r \<noteq> []
     \<or> tr_head_commit r \<noteq> None
     \<or> tr_awaiting r \<noteq> None
     \<or> tr_pause_requested r
     \<or> tr_stopping r
     \<or> tr_error r \<noteq> None"

definition set_orchestration_backend ::
    "backend_ref \<Rightarrow> u64 \<Rightarrow> team_run \<Rightarrow> string + (bool \<times> team_run)" where
  "set_orchestration_backend backend now r =
     (if tr_orchestration_backend r = backend then Inr (False, r)
      else if orchestration_execution_started r
      then Inl ''orchestration backend cannot change after execution begins''
      else Inr (True, r\<lparr>tr_orchestration_backend := backend, tr_updated_at := now\<rparr>))"

definition is_executable_by_current_build :: "team_run \<Rightarrow> bool" where
  "is_executable_by_current_build r = executable_by_current_build (tr_orchestration_backend r)"

definition is_live_in_current_build :: "team_run \<Rightarrow> bool" where
  "is_live_in_current_build r \<longleftrightarrow>
     is_executable_by_current_build r \<and> \<not> run_status_terminal (tr_status r)"

definition non_executing_backend_reason :: "team_run \<Rightarrow> string option" where
  "non_executing_backend_reason r = non_executing_reason (tr_orchestration_backend r)"

section \<open>Status, failure and pause\<close>

definition invalidate_driver_decisions :: "team_run \<Rightarrow> team_run" where
  "invalidate_driver_decisions r =
     r\<lparr>tr_driver_progress := (tr_driver_progress r)
        \<lparr>dp_state_revision := sat_add (dp_state_revision (tr_driver_progress r)) 1\<rparr>\<rparr>"

text \<open>The two kinds of status a driver's own write must not overwrite.\<close>

abbreviation closed_to_driver :: "team_run \<Rightarrow> bool" where
  "closed_to_driver r \<equiv>
     run_status_terminal (tr_status r) \<or> run_status_settled_without_driver (tr_status r)"

definition set_status :: "team_run_status \<Rightarrow> u64 \<Rightarrow> team_run \<Rightarrow> team_run" where
  "set_status status now r =
     (if closed_to_driver r then r else r\<lparr>tr_status := status, tr_updated_at := now\<rparr>)"

definition fail_run :: "string \<Rightarrow> u64 \<Rightarrow> team_run \<Rightarrow> team_run" where
  "fail_run err now r =
     (if closed_to_driver r then r
      else let r = r\<lparr>tr_error := Some err\<rparr>
        in if tr_stopping r then r\<lparr>tr_updated_at := now\<rparr> else set_status Run_Failed now r)"

definition block_run :: "string \<Rightarrow> u64 \<Rightarrow> team_run \<Rightarrow> team_run" where
  "block_run err now r =
     (if run_status_terminal (tr_status r) then r
      else r\<lparr>tr_error := Some err, tr_stopping := False, tr_status := Run_Blocked,
              tr_updated_at := now\<rparr>)"

definition request_pause :: "string \<Rightarrow> u64 \<Rightarrow> team_run \<Rightarrow> team_run" where
  "request_pause device_id now r =
     (if closed_to_driver r then r
      else let r = r\<lparr>tr_pause_requested := True, tr_pause_requested_by := device_id\<rparr>;
               r = set_status Run_PausePending now r
        in invalidate_driver_decisions r)"

definition request_stop :: "string \<Rightarrow> u64 \<Rightarrow> team_run \<Rightarrow> team_run" where
  "request_stop device_id now r =
     (if closed_to_driver r then r
      else let r = request_pause device_id now r;
               r = r\<lparr>tr_stopping := True\<rparr>;
               r = invalidate_driver_decisions r
        in r\<lparr>tr_updated_at := now\<rparr>)"

definition settle_paused ::
    "string \<Rightarrow> team_pause_kind \<Rightarrow> u64 \<Rightarrow> team_run \<Rightarrow> bool \<times> team_run" where
  "settle_paused reason kind now r =
     (if closed_to_driver r then (False, r)
      else let r = invalidate_driver_decisions r
        in (True, r\<lparr>tr_pause_requested := False, tr_stopping := False,
                     tr_pause_reason := Some reason, tr_pause_kind := Some kind,
                     tr_in_flight_thread := None, tr_awaiting := None,
                     tr_status := Run_Paused, tr_updated_at := now\<rparr>))"

section \<open>The team lead's generations\<close>

definition request_tl_reseed :: "string \<Rightarrow> u64 \<Rightarrow> team_run \<Rightarrow> team_run" where
  "request_tl_reseed reason now r =
     (if tr_tl_reseed_reason r \<noteq> None then r
      else r\<lparr>tr_tl_reseed_reason := Some reason, tr_updated_at := now\<rparr>)"

definition tl_generation_count :: "team_run \<Rightarrow> nat" where
  "tl_generation_count r = length (tr_tl_succession r) + 1"

definition retire_tl :: "string \<Rightarrow> u64 \<Rightarrow> team_run \<Rightarrow> bool \<times> team_run" where
  "retire_tl reason now r =
     (if MAX_TL_GENERATIONS \<le> tl_generation_count r then (False, r)
      else let r = (if tr_tl_thread_id r \<noteq> []
                    then r\<lparr>tr_tl_succession := tr_tl_succession r @
                             [\<lparr>tg_thread_id = tr_tl_thread_id r, tg_reason = reason,
                               tg_retired_at = now\<rparr>]\<rparr>
                    else r)
        in (True, r\<lparr>tr_tl_thread_id := [], tr_tl_turns_this_generation := 0,
                     tr_tl_reseed_reason := None, tr_updated_at := now\<rparr>))"

section \<open>Leaving and entering settled states\<close>

definition resume :: "u64 \<Rightarrow> team_run \<Rightarrow> bool \<times> team_run" where
  "resume now r =
     (if \<not> run_status_resumable (tr_status r) then (False, r)
      else let r = invalidate_driver_decisions r
        in (True, r\<lparr>tr_pause_requested := False, tr_stopping := False,
                     tr_pause_requested_by := [], tr_pause_reason := None,
                     tr_pause_kind := None, tr_error := None, tr_status := Run_Running,
                     tr_updated_at := now\<rparr>))"

definition cancel :: "string \<Rightarrow> u64 \<Rightarrow> team_run \<Rightarrow> bool \<times> team_run" where
  "cancel reason now r =
     (if run_status_terminal (tr_status r) then (False, r)
      else let r = invalidate_driver_decisions r
        in (True, r\<lparr>tr_error := Some reason, tr_pause_requested := False,
                     tr_stopping := False, tr_awaiting := None, tr_in_flight_thread := None,
                     tr_status := Run_Cancelled, tr_updated_at := now\<rparr>))"

definition force_mark_status :: "team_run_status \<Rightarrow> u64 \<Rightarrow> team_run \<Rightarrow> bool \<times> team_run" where
  "force_mark_status status now r =
     (if \<not> (status = Run_Done \<or> status = Run_Cancelled) then (False, r)
      else if tr_status r = status then (False, r)
      else let r = r\<lparr>tr_pause_requested := False, tr_stopping := False, tr_awaiting := None,
                      tr_in_flight_thread := None, tr_pause_reason := None,
                      tr_pause_kind := None\<rparr>;
               r = (if status = Run_Done then r\<lparr>tr_error := None\<rparr>
                    else if tr_error r = None
                    then r\<lparr>tr_error := Some ''the task was marked cancelled''\<rparr>
                    else r)
        in (True, r\<lparr>tr_status := status, tr_updated_at := now\<rparr>))"

definition begin_resolving_blocked :: "u64 \<Rightarrow> team_run \<Rightarrow> bool \<times> team_run" where
  "begin_resolving_blocked now r =
     (if tr_status r \<noteq> Run_Blocked then (False, r)
      else (True, r\<lparr>tr_status := Run_Resolving, tr_updated_at := now\<rparr>))"

definition resolve_as_paused ::
    "string \<Rightarrow> team_pause_kind \<Rightarrow> u64 \<Rightarrow> team_run \<Rightarrow> bool \<times> team_run" where
  "resolve_as_paused reason kind now r =
     (if tr_status r \<noteq> Run_Resolving then (False, r)
      else (True, r\<lparr>tr_pause_requested := False, tr_stopping := False,
                    tr_pause_reason := Some reason, tr_pause_kind := Some kind,
                    tr_in_flight_thread := None, tr_status := Run_Paused,
                    tr_updated_at := now\<rparr>))"

definition restore_resolving_as_blocked :: "string \<Rightarrow> u64 \<Rightarrow> team_run \<Rightarrow> bool \<times> team_run" where
  "restore_resolving_as_blocked err now r =
     (if tr_status r \<noteq> Run_Resolving then (False, r) else (True, block_run err now r))"

definition mark_interrupted_if_stranded :: "u64 \<Rightarrow> team_run \<Rightarrow> bool \<times> team_run" where
  "mark_interrupted_if_stranded now r =
     (if run_status_terminal (tr_status r) \<or> run_status_resumable (tr_status r) then (False, r)
      else (True, r\<lparr>tr_error := (case tr_error r of
                       None \<Rightarrow> Some ''the task team's driver was lost; re-run to continue from the last completed step''
                     | Some e \<Rightarrow> Some e),
                    tr_status := Run_Interrupted, tr_updated_at := now\<rparr>))"

definition detach_unresumable_tl :: "u64 \<Rightarrow> team_run \<Rightarrow> team_run" where
  "detach_unresumable_tl now r =
     (let r = r\<lparr>tr_tl_thread_id := [], tr_pause_requested := False, tr_awaiting := None\<rparr>
      in if run_status_terminal (tr_status r) then r
         else r\<lparr>tr_error := (case tr_error r of
                   None \<Rightarrow> Some ''the team lead's session had not started when the relay restarted; re-run this task''
                 | Some e \<Rightarrow> Some e),
                tr_status := Run_Interrupted, tr_updated_at := now\<rparr>)"

section \<open>What the lifecycle operations leave alone\<close>

text \<open>
  The part of a run that only the reducer and the restore path may write: the backend, the
  journal with its in-flight markers and watermark, and the drained notes. The state revision
  is masked out, since every user action that outdates the driver moves it.
\<close>

definition durable ::
    "team_run \<Rightarrow> backend_ref \<times> command_journal \<times> in_flight_command option
              \<times> last_drained_notes list \<times> driver_progress" where
  "durable r =
     (tr_orchestration_backend r, tr_command_journal r, tr_in_flight_command r,
      tr_drained_notes r, (tr_driver_progress r)\<lparr>dp_state_revision := 0\<rparr>)"

abbreviation revision :: "team_run \<Rightarrow> u64" where
  "revision r \<equiv> dp_state_revision (tr_driver_progress r)"

abbreviation watermark :: "team_run \<Rightarrow> u64" where
  "watermark r \<equiv> dp_last_command_seq (tr_driver_progress r)"

lemma durableD:
  assumes "durable r' = durable r"
  shows "tr_orchestration_backend r' = tr_orchestration_backend r"
    "tr_command_journal r' = tr_command_journal r"
    "tr_in_flight_command r' = tr_in_flight_command r"
    "tr_drained_notes r' = tr_drained_notes r"
    "dp_last_command_seq (tr_driver_progress r') = dp_last_command_seq (tr_driver_progress r)"
    "dp_last_event_seq (tr_driver_progress r') = dp_last_event_seq (tr_driver_progress r)"
    "dp_in_flight_command_id (tr_driver_progress r') = dp_in_flight_command_id (tr_driver_progress r)"
    "dp_malformed (tr_driver_progress r') = dp_malformed (tr_driver_progress r)"
  using assms by (cases "tr_driver_progress r"; cases "tr_driver_progress r'"; simp add: durable_def)+

named_theorems run_ops \<open>the definitions of the lifecycle operations\<close>

lemmas lifecycle_defs [run_ops] =
  set_status_def fail_run_def block_run_def request_pause_def request_stop_def settle_paused_def
  request_tl_reseed_def retire_tl_def resume_def cancel_def force_mark_status_def
  begin_resolving_blocked_def resolve_as_paused_def restore_resolving_as_blocked_def
  mark_interrupted_if_stranded_def detach_unresumable_tl_def

lemma durable_invalidate [simp]: "durable (invalidate_driver_decisions r) = durable r"
  by (simp add: durable_def invalidate_driver_decisions_def)

lemma invalidate_fields [simp]:
  "tr_status (invalidate_driver_decisions r) = tr_status r"
  "tr_phase (invalidate_driver_decisions r) = tr_phase r"
  "tr_sub_tasks (invalidate_driver_decisions r) = tr_sub_tasks r"
  "tr_pause_requested (invalidate_driver_decisions r) = tr_pause_requested r"
  "tr_stopping (invalidate_driver_decisions r) = tr_stopping r"
  "revision (invalidate_driver_decisions r) = sat_add (revision r) 1"
  by (simp_all add: invalidate_driver_decisions_def)

lemma durable_lifecycle [simp]:
  "durable (set_status s now r) = durable r"
  "durable (fail_run err now r) = durable r"
  "durable (block_run err now r) = durable r"
  "durable (request_pause dev now r) = durable r"
  "durable (request_stop dev now r) = durable r"
  "durable (snd (settle_paused reason kind now r)) = durable r"
  "durable (request_tl_reseed reason now r) = durable r"
  "durable (snd (retire_tl reason now r)) = durable r"
  "durable (snd (resume now r)) = durable r"
  "durable (snd (cancel reason now r)) = durable r"
  "durable (snd (force_mark_status s now r)) = durable r"
  "durable (snd (begin_resolving_blocked now r)) = durable r"
  "durable (snd (resolve_as_paused reason kind now r)) = durable r"
  "durable (snd (restore_resolving_as_blocked err now r)) = durable r"
  "durable (snd (mark_interrupted_if_stranded now r)) = durable r"
  "durable (detach_unresumable_tl now r) = durable r"
  by (simp_all add: run_ops durable_def invalidate_driver_decisions_def Let_def)

lemma revision_lifecycle [simp]:
  "revision (set_status s now r) = revision r"
  "revision (fail_run err now r) = revision r"
  "revision (block_run err now r) = revision r"
  "revision r \<le> revision (request_pause dev now r)"
  "revision r \<le> revision (snd (settle_paused reason kind now r))"
  "revision (request_tl_reseed reason now r) = revision r"
  "revision (snd (retire_tl reason now r)) = revision r"
  "revision r \<le> revision (snd (resume now r))"
  "revision r \<le> revision (snd (cancel reason now r))"
  "revision (snd (force_mark_status s now r)) = revision r"
  "revision (snd (begin_resolving_blocked now r)) = revision r"
  "revision (snd (resolve_as_paused reason kind now r)) = revision r"
  "revision (snd (restore_resolving_as_blocked err now r)) = revision r"
  "revision (snd (mark_interrupted_if_stranded now r)) = revision r"
  "revision (detach_unresumable_tl now r) = revision r"
  by (simp_all add: run_ops Let_def)

lemma revision_request_stop [simp]: "revision r \<le> revision (request_stop dev now r)"
  using order_trans [OF sat_add_ge sat_add_ge, of "revision r"] by (simp add: run_ops Let_def)

end
