(* ===== verification/Team_Plan.thy ===== *)
theory Team_Plan
  imports Team_Run
begin

text \<open>
  The operations of a run that change its list of sub-tasks (\<open>impl TeamRun\<close> and
  \<open>mint_sub_task_id\<close> in \<open>crates/relay-api/src/team.rs\<close>): rolling a round back, reviving,
  replanning and pulling the phase back. The process-wide mint is a function of its last number
  and the clock; a replan takes the ids its mints return as an argument.
\<close>

section \<open>Minting identifiers\<close>

fun hex :: "nat \<Rightarrow> string" where
  "hex n = (if n < 16 then [hex_digit n] else hex (n div 16) @ [hex_digit (n mod 16)])"

declare hex.simps [simp del]

text \<open>The minted id and the new last number.\<close>

definition mint_sub_task_id :: "u64 \<Rightarrow> u64 \<Rightarrow> string \<times> u64" where
  "mint_sub_task_id now prev =
     (let minted = mint_number prev now in (''st-'' @ hex (unat minted), minted))"

section \<open>Sub-task selection and rounds\<close>

definition current_sub_task :: "team_run \<Rightarrow> nat option" where
  "current_sub_task r =
     position (\<lambda>t. \<not> sub_status_terminal (st_status t) \<or> \<not> st_digested t) (tr_sub_tasks r)"

definition rollback_current_round :: "team_run \<Rightarrow> team_run" where
  "rollback_current_round r =
     (let r = r\<lparr>tr_awaiting := None\<rparr>
      in case current_sub_task r of
           None \<Rightarrow> r
         | Some index \<Rightarrow>
             r\<lparr>tr_sub_tasks := update_at index
                 (\<lambda>t. if sub_status_terminal (st_status t) then t else t\<lparr>st_status := Sub_Pending\<rparr>)
                 (tr_sub_tasks r)\<rparr>)"

definition revive_selected :: "string list option \<Rightarrow> sub_task \<Rightarrow> bool" where
  "revive_selected only t =
     (case only of
        None \<Rightarrow> st_status t = Sub_Escalated
      | Some ids \<Rightarrow> sub_status_terminal (st_status t) \<and> st_id t \<in> set ids)"

definition revive_task :: "u32 \<Rightarrow> sub_task \<Rightarrow> sub_task" where
  "revive_task working_cycle t =
     t\<lparr>st_status := Sub_Pending, st_rounds_used := 0, st_digested := False,
       st_round_base_sha := [], st_candidate_sha := [], st_verdict_candidate_sha := [],
       st_review_claim := None, st_stale_review_retries := 0, st_dev_turns_landed := 0,
       st_dev_thread_id := None, st_reruns := st_reruns t + 1, st_cycle := working_cycle\<rparr>"

definition revive_sub_tasks :: "string list option \<Rightarrow> u64 \<Rightarrow> team_run \<Rightarrow> bool \<times> team_run" where
  "revive_sub_tasks only now r =
     (let revived = list_ex (revive_selected only) (tr_sub_tasks r);
          r = r\<lparr>tr_sub_tasks :=
                 map (\<lambda>t. if revive_selected only t then revive_task (tr_reopened_count r) t else t)
                   (tr_sub_tasks r)\<rparr>
      in if \<not> revived then (False, r)
         else
           let r = invalidate_driver_decisions r;
               r = r\<lparr>tr_design_review_rounds := 0, tr_mr_rounds_used := 0,
                     tr_mr_round_base_sha := [], tr_mr_candidate_sha := [],
                     tr_mr_verdict_candidate_sha := [], tr_mr_stale_review_retries := 0,
                     tr_unresolved := [], tr_mr_verdict := None, tr_design_verdict := None\<rparr>;
               r = (if tr_phase r = Phase_MrGate \<or> tr_phase r = Phase_Wrapping
                    then r\<lparr>tr_phase := Phase_SubTasks\<rparr> else r)
           in (True, r\<lparr>tr_updated_at := now\<rparr>))"

definition revive_escalated_sub_tasks :: "u64 \<Rightarrow> team_run \<Rightarrow> bool \<times> team_run" where
  "revive_escalated_sub_tasks now r = revive_sub_tasks None now r"

section \<open>Replanning\<close>

definition supersede_task :: "sub_task \<Rightarrow> sub_task" where
  "supersede_task t =
     (if \<not> sub_status_terminal (st_status t)
      then t\<lparr>st_status := Sub_Superseded, st_digested := True\<rparr> else t)"

text \<open>The loop over the planned sub-tasks; \<open>mint k\<close> is the id a mint for the \<open>k\<close>-th one returns.\<close>

fun replan_append ::
    "(nat \<Rightarrow> string) \<Rightarrow> nat \<Rightarrow> u32 \<Rightarrow> sub_task list \<Rightarrow> sub_task list \<Rightarrow> sub_task list" where
  "replan_append mint k cycle [] tasks = tasks"
| "replan_append mint k cycle (t # planned) tasks =
     (let t = (if list_ex (\<lambda>kept. st_id kept = st_id t) tasks then t\<lparr>st_id := mint k\<rparr> else t);
          t = t\<lparr>st_cycle := cycle\<rparr>
      in replan_append mint (Suc k) cycle planned (tasks @ [t]))"

definition replan_sub_tasks ::
    "(nat \<Rightarrow> string) \<Rightarrow> sub_task list \<Rightarrow> u64 \<Rightarrow> team_run \<Rightarrow> team_run" where
  "replan_sub_tasks mint planned now r =
     (let tasks = map supersede_task (tr_sub_tasks r)
      in r\<lparr>tr_sub_tasks := replan_append mint 0 (tr_reopened_count r) planned tasks,
           tr_updated_at := now\<rparr>)"

definition hold_phase_for_waiting_sub_tasks :: "u64 \<Rightarrow> team_run \<Rightarrow> bool \<times> team_run" where
  "hold_phase_for_waiting_sub_tasks now r =
     (let closing = (tr_phase r = Phase_MrGate \<or> tr_phase r = Phase_Wrapping \<or> tr_phase r = Phase_Finished)
      in if \<not> closing \<or> current_sub_task r = None then (False, r)
         else (True, r\<lparr>tr_phase := Phase_SubTasks, tr_mr_verdict := None, tr_unresolved := [],
                       tr_updated_at := now\<rparr>))"

section \<open>The host's edits\<close>

text \<open>
  The closures the host runs on a live record: a note for the team
  (\<open>ToolCall::MessageTeam\<close>), a wider scope (\<open>ToolCall::WidenScope\<close>) and the record part of
  \<open>reopen_team_run\<close>, guarded by \<open>is_reopenable\<close> under the same lock.
\<close>

definition message_team :: "string \<Rightarrow> u64 \<Rightarrow> team_run \<Rightarrow> bool \<times> team_run" where
  "message_team text now r =
     revive_escalated_sub_tasks now
       (r\<lparr>tr_pending_user_notes := tr_pending_user_notes r @ [text]\<rparr>)"

definition widen_run_scope :: "string \<Rightarrow> team_run \<Rightarrow> bool \<times> team_run" where
  "widen_run_scope addition r =
     (let (widened, spec) = widen_scope addition (tr_spec r) in (widened, r\<lparr>tr_spec := spec\<rparr>))"

definition reopen_record ::
    "string \<Rightarrow> task_spec_updates \<Rightarrow> string \<Rightarrow> team_run \<Rightarrow> string + team_run" where
  "reopen_record instruction updates cycle_base_sha r =
     (if \<not> run_status_reopenable (tr_status r) then
        Inl (''only a finished task can be reopened; this one is '' @ run_status_as_str (tr_status r))
      else Inr (r\<lparr>tr_status := Run_Paused, tr_phase := Phase_Intake,
                  tr_pending_user_notes := tr_pending_user_notes r @ [instruction],
                  tr_spec := snd (apply_updates updates (tr_spec r)),
                  tr_reopened_count := sat_add (tr_reopened_count r) 1,
                  tr_cycle_base_sha := cycle_base_sha, tr_error := None,
                  tr_design_review_rounds := 0, tr_mr_rounds_used := 0,
                  tr_mr_round_base_sha := [], tr_mr_candidate_sha := [],
                  tr_mr_verdict_candidate_sha := [], tr_mr_stale_review_retries := 0,
                  tr_mr_review_context := [], tr_unresolved := [], tr_mr_verdict := None,
                  tr_design_verdict := None\<rparr>))"

section \<open>What the plan operations leave alone\<close>

lemmas plan_defs [run_ops] =
  rollback_current_round_def revive_sub_tasks_def revive_escalated_sub_tasks_def
  replan_sub_tasks_def hold_phase_for_waiting_sub_tasks_def message_team_def widen_run_scope_def

lemma durable_plan [simp]:
  "durable (rollback_current_round r) = durable r"
  "durable (snd (revive_sub_tasks only now r)) = durable r"
  "durable (replan_sub_tasks mint planned now r) = durable r"
  "durable (snd (hold_phase_for_waiting_sub_tasks now r)) = durable r"
  "durable (snd (message_team text now r)) = durable r"
  "durable (snd (widen_run_scope addition r)) = durable r"
  by (simp_all add: run_ops durable_def invalidate_driver_decisions_def Let_def
      split: option.splits prod.splits)

lemma revision_plan [simp]:
  "revision (rollback_current_round r) = revision r"
  "revision r \<le> revision (snd (revive_sub_tasks only now r))"
  "revision (replan_sub_tasks mint planned now r) = revision r"
  "revision (snd (hold_phase_for_waiting_sub_tasks now r)) = revision r"
  "revision r \<le> revision (snd (message_team text now r))"
  "revision (snd (widen_run_scope addition r)) = revision r"
  by (simp_all add: run_ops Let_def split: option.splits prod.splits)

lemma status_plan [simp]:
  "tr_status (rollback_current_round r) = tr_status r"
  "tr_status (snd (revive_sub_tasks only now r)) = tr_status r"
  "tr_status (replan_sub_tasks mint planned now r) = tr_status r"
  "tr_status (snd (hold_phase_for_waiting_sub_tasks now r)) = tr_status r"
  "tr_status (snd (message_team text now r)) = tr_status r"
  "tr_status (snd (widen_run_scope addition r)) = tr_status r"
  by (simp_all add: run_ops Let_def split: option.splits prod.splits)

end
