(* ===== verification/Team_Command.thy ===== *)
theory Team_Command
  imports Team_Model
begin

text \<open>
  The commands a driver sends to the local reducer and the receipts it gets back
  (\<open>crates/relay-api/src/team_command.rs\<close>).
\<close>

definition TEAM_COMMAND_PROTOCOL_VERSION :: u32 where "TEAM_COMMAND_PROTOCOL_VERSION = 1"
definition MAX_TEAM_COMMAND_SUB_TASKS :: nat where "MAX_TEAM_COMMAND_SUB_TASKS = 64"
definition MAX_TEAM_COMMAND_FINDINGS :: nat where "MAX_TEAM_COMMAND_FINDINGS = 64"
definition MAX_TEAM_COMMAND_NOTES :: nat where "MAX_TEAM_COMMAND_NOTES = 64"
definition MAX_TEAM_COMMAND_PAYLOAD_BYTES :: nat where "MAX_TEAM_COMMAND_PAYLOAD_BYTES = 2 ^ 20"

datatype team_sub_task_role = Seat_Dev | Seat_Reviewer

datatype team_state_command =
    RecordIntake bool team_phase
  | SetPhase team_phase
  | RecordDesignReviewRound workflow_verdict team_phase "string list"
  | ReplanSubTasks "sub_task list" team_phase
  | AttachSubTaskThread nat team_sub_task_role string "string option"
  | SetSubTaskStatus nat sub_task_status
  | PauseSubTaskWithoutCandidate nat
  | RecordSubTaskStaleReview nat
  | RecordReviewRound nat workflow_verdict sub_task_status "string option" "string option"
  | MarkSubTaskDigested nat "team_phase option"
  | RecordMrRound workflow_verdict "team_phase option" "string list"
  | SetMrVerdict "workflow_verdict option"
  | PrepareMrReview string string
  | PauseMrWithoutCandidate workflow_verdict
  | RecordMrStaleReview
  | RecordMrDevThread string
  | RecordReviewerThread string
  | FinishRun "string option" team_phase
  | TakeUserNotes
  | SetRunStatus team_run_status
  | FailRun string
  | BlockRun string
  | SettleRun team_run_status string team_pause_kind

record command_envelope =
  env_protocol_version :: u32
  env_command_id :: command_id
  env_sequence :: u64
  env_expected_revision :: u64
  env_command :: team_state_command

fun is_lifecycle_transition :: "team_state_command \<Rightarrow> bool" where
  "is_lifecycle_transition (SetRunStatus _) = True"
| "is_lifecycle_transition (FailRun _) = True"
| "is_lifecycle_transition (BlockRun _) = True"
| "is_lifecycle_transition (SettleRun _ _ _) = True"
| "is_lifecycle_transition _ = False"

fun command_kind :: "team_state_command \<Rightarrow> team_command_kind" where
  "command_kind (RecordIntake _ _) = Cmd_RecordIntake"
| "command_kind (SetPhase _) = Cmd_SetPhase"
| "command_kind (RecordDesignReviewRound _ _ _) = Cmd_RecordDesignReviewRound"
| "command_kind (ReplanSubTasks _ _) = Cmd_ReplanSubTasks"
| "command_kind (AttachSubTaskThread _ _ _ _) = Cmd_AttachSubTaskThread"
| "command_kind (SetSubTaskStatus _ _) = Cmd_SetSubTaskStatus"
| "command_kind (PauseSubTaskWithoutCandidate _) = Cmd_PauseSubTaskWithoutCandidate"
| "command_kind (RecordSubTaskStaleReview _) = Cmd_RecordSubTaskStaleReview"
| "command_kind (RecordReviewRound _ _ _ _ _) = Cmd_RecordReviewRound"
| "command_kind (MarkSubTaskDigested _ _) = Cmd_MarkSubTaskDigested"
| "command_kind (RecordMrRound _ _ _) = Cmd_RecordMrRound"
| "command_kind (SetMrVerdict _) = Cmd_SetMrVerdict"
| "command_kind (PrepareMrReview _ _) = Cmd_PrepareMrReview"
| "command_kind (PauseMrWithoutCandidate _) = Cmd_PauseMrWithoutCandidate"
| "command_kind RecordMrStaleReview = Cmd_RecordMrStaleReview"
| "command_kind (RecordMrDevThread _) = Cmd_RecordMrDevThread"
| "command_kind (RecordReviewerThread _) = Cmd_RecordReviewerThread"
| "command_kind (FinishRun _ _) = Cmd_FinishRun"
| "command_kind TakeUserNotes = Cmd_TakeUserNotes"
| "command_kind (SetRunStatus _) = Cmd_SetRunStatus"
| "command_kind (FailRun _) = Cmd_FailRun"
| "command_kind (BlockRun _) = Cmd_BlockRun"
| "command_kind (SettleRun _ _ _) = Cmd_SettleRun"

datatype command_output = Ack | DrainedNotes "string list"

datatype command_status =
    Status_Applied command_output | Status_Rejected command_rejection | Status_Interrupted

record command_receipt =
  rcpt_command_id :: command_id
  rcpt_sequence :: u64
  rcpt_state_revision :: u64
  rcpt_last_event_seq :: u64
  rcpt_status :: command_status

lemma command_kind_known [simp]: "command_kind c \<noteq> Cmd_Unknown"
  by (cases c) auto

lemma command_kind_take_notes [simp]: "command_kind c = Cmd_TakeUserNotes \<longleftrightarrow> c = TakeUserNotes"
  by (cases c) auto

end
