(* ===== verification/Reducer.thy ===== *)
theory Reducer
  imports Team_Plan Team_Command
begin

text \<open>
  The local command reducer
  (\<open>crates/relay-server/src/state/app/team_command_reducer.rs\<close>) and the host's choice of the
  effective command before it (\<open>submit_command\<close> in
  \<open>crates/relay-server/src/state/app/team.rs\<close>). The digest and the serializers are third-party
  code and come in as a \<open>host\<close>; the clock and the ids a replan mints come in as a \<open>tick\<close>.
\<close>

record host =
  host_sha256 :: "string \<Rightarrow> string"
  host_envelope_json :: "command_envelope \<Rightarrow> string"
  host_command_json :: "team_state_command \<Rightarrow> string option"

record tick =
  tick_now :: u64
  tick_mint :: "nat \<Rightarrow> string"

section \<open>Effects\<close>

definition edit_task :: "nat \<Rightarrow> (sub_task \<Rightarrow> sub_task) \<Rightarrow> team_run \<Rightarrow> team_run" where
  "edit_task index f r = r\<lparr>tr_sub_tasks := update_at index f (tr_sub_tasks r)\<rparr>"

definition attach_thread ::
    "team_sub_task_role \<Rightarrow> string \<Rightarrow> string option \<Rightarrow> sub_task \<Rightarrow> sub_task" where
  "attach_thread role thread_id base_commit t =
     (let t = (case role of
                 Seat_Dev \<Rightarrow> t\<lparr>st_dev_thread_id := Some thread_id\<rparr>
               | Seat_Reviewer \<Rightarrow> t\<lparr>st_reviewer_thread_id := Some thread_id\<rparr>);
          t = t\<lparr>st_owned_thread_ids := st_owned_thread_ids t @ [thread_id]\<rparr>
      in case base_commit of
           None \<Rightarrow> t
         | Some base \<Rightarrow> if st_base_commit t = [] then t\<lparr>st_base_commit := base\<rparr> else t)"

definition settle_run ::
    "team_run_status \<Rightarrow> string \<Rightarrow> team_pause_kind \<Rightarrow> u64 \<Rightarrow> team_run \<Rightarrow> team_run" where
  "settle_run status reason kind now r =
     (case status of
        Run_Paused \<Rightarrow> snd (settle_paused reason kind now r)
      | Run_Cancelled \<Rightarrow> snd (cancel reason now r)
      | Run_Done \<Rightarrow> snd (force_mark_status Run_Done now r)
      | other \<Rightarrow> set_status other now r)"

fun apply_state :: "tick \<Rightarrow> command_id \<Rightarrow> team_state_command \<Rightarrow> team_run \<Rightarrow> team_run" where
  "apply_state tk cid (RecordIntake complex phase) r =
     r\<lparr>tr_complex := Some complex, tr_phase := phase\<rparr>"
| "apply_state tk cid (SetPhase phase) r = r\<lparr>tr_phase := phase\<rparr>"
| "apply_state tk cid (RecordDesignReviewRound verdict next_phase additions) r =
     r\<lparr>tr_design_review_rounds := tr_design_review_rounds r + 1,
       tr_unresolved := tr_unresolved r @ additions, tr_phase := next_phase,
       tr_design_verdict := Some verdict\<rparr>"
| "apply_state tk cid (ReplanSubTasks sub_tasks phase) r =
     (replan_sub_tasks (tick_mint tk) sub_tasks (tick_now tk) r)\<lparr>tr_phase := phase\<rparr>"
| "apply_state tk cid (AttachSubTaskThread index role thread_id base_commit) r =
     edit_task index (attach_thread role thread_id base_commit) r"
| "apply_state tk cid (SetSubTaskStatus index status) r =
     edit_task index (\<lambda>t. t\<lparr>st_status := status\<rparr>) r"
| "apply_state tk cid (PauseSubTaskWithoutCandidate index) r =
     edit_task index (\<lambda>t. t\<lparr>st_status := Sub_Pending, st_candidate_sha := [],
                            st_verdict_candidate_sha := [], st_review_claim := None\<rparr>) r"
| "apply_state tk cid (RecordSubTaskStaleReview index) r =
     edit_task index
       (\<lambda>t. t\<lparr>st_stale_review_retries := sat_add (st_stale_review_retries t) 1\<rparr>) r"
| "apply_state tk cid (RecordReviewRound index verdict status result_summary escalated) r =
     (let r = edit_task index
                (\<lambda>t. t\<lparr>st_rounds_used := st_rounds_used t + 1, st_status := status,
                       st_result_summary := result_summary, st_last_verdict := Some verdict,
                       st_stale_review_retries := 0\<rparr>) r
      in case escalated of
           None \<Rightarrow> r
         | Some leftover \<Rightarrow> r\<lparr>tr_unresolved := tr_unresolved r @ [leftover]\<rparr>)"
| "apply_state tk cid (MarkSubTaskDigested index next_phase) r =
     (let r = edit_task index (\<lambda>t. t\<lparr>st_digested := True\<rparr>) r
      in case next_phase of None \<Rightarrow> r | Some phase \<Rightarrow> r\<lparr>tr_phase := phase\<rparr>)"
| "apply_state tk cid (RecordMrRound verdict next_phase additions) r =
     (let r = r\<lparr>tr_mr_rounds_used := tr_mr_rounds_used r + 1,
                 tr_unresolved := tr_unresolved r @ additions\<rparr>;
          r = (case next_phase of None \<Rightarrow> r | Some phase \<Rightarrow> r\<lparr>tr_phase := phase\<rparr>)
      in r\<lparr>tr_mr_verdict := Some verdict, tr_mr_stale_review_retries := 0\<rparr>)"
| "apply_state tk cid (SetMrVerdict verdict) r = r\<lparr>tr_mr_verdict := verdict\<rparr>"
| "apply_state tk cid (PrepareMrReview round_base_sha candidate_sha) r =
     (let r = (if tr_mr_round_base_sha r = []
               then r\<lparr>tr_mr_round_base_sha := round_base_sha\<rparr> else r)
      in r\<lparr>tr_mr_candidate_sha := candidate_sha, tr_mr_verdict_candidate_sha := []\<rparr>)"
| "apply_state tk cid (PauseMrWithoutCandidate verdict) r =
     r\<lparr>tr_mr_candidate_sha := [], tr_mr_verdict_candidate_sha := [],
       tr_mr_stale_review_retries := 0, tr_mr_verdict := Some verdict\<rparr>"
| "apply_state tk cid RecordMrStaleReview r =
     r\<lparr>tr_mr_stale_review_retries := sat_add (tr_mr_stale_review_retries r) 1\<rparr>"
| "apply_state tk cid (RecordMrDevThread thread_id) r = r\<lparr>tr_mr_dev_thread_id := Some thread_id\<rparr>"
| "apply_state tk cid (RecordReviewerThread thread_id) r =
     r\<lparr>tr_reviewer_thread_id := Some thread_id\<rparr>"
| "apply_state tk cid (FinishRun head_commit phase) r =
     r\<lparr>tr_head_commit := head_commit, tr_phase := phase\<rparr>"
| "apply_state tk cid (SetRunStatus status) r = set_status status (tick_now tk) r"
| "apply_state tk cid (FailRun err) r = fail_run err (tick_now tk) r"
| "apply_state tk cid (BlockRun err) r = block_run err (tick_now tk) r"
| "apply_state tk cid (SettleRun status reason kind) r = settle_run status reason kind (tick_now tk) r"
| "apply_state tk cid TakeUserNotes r =
     r\<lparr>tr_pending_user_notes := [],
       tr_drained_notes := tr_drained_notes r @
         [\<lparr>ldn_command_id = command_id_str cid, ldn_notes = tr_pending_user_notes r\<rparr>]\<rparr>"

text \<open>The effect of a command with the output its receipt carries.\<close>

definition apply_effects ::
    "tick \<Rightarrow> command_id \<Rightarrow> team_state_command \<Rightarrow> team_run \<Rightarrow> command_output \<times> team_run" where
  "apply_effects tk cid c r =
     ((if c = TakeUserNotes then DrainedNotes (tr_pending_user_notes r) else Ack),
      apply_state tk cid c r)"

section \<open>Content checks\<close>

definition compute_fingerprint :: "host \<Rightarrow> string \<Rightarrow> command_envelope \<Rightarrow> command_fingerprint" where
  "compute_fingerprint h run_id e =
     Fingerprint (host_sha256 h (run_id @ [CHR 0x00] @ host_envelope_json h e))"

definition has_counter_headroom :: "team_run \<Rightarrow> u64 \<Rightarrow> bool" where
  "has_counter_headroom r sequence \<longleftrightarrow>
     checked_add (dp_state_revision (tr_driver_progress r)) 1 \<noteq> None \<and>
     checked_add (dp_last_event_seq (tr_driver_progress r)) 1 \<noteq> None \<and>
     checked_add sequence 1 \<noteq> None"

definition command_is_permitted_by_lifecycle :: "team_run \<Rightarrow> bool" where
  "command_is_permitted_by_lifecycle r \<longleftrightarrow>
     \<not> (run_status_terminal (tr_status r) \<or> run_status_settled_without_driver (tr_status r)
        \<or> tr_pause_requested r \<or> tr_stopping r)"

definition bound_verdict :: "workflow_verdict \<Rightarrow> bool" where
  "bound_verdict v \<longleftrightarrow> length (wv_findings v) \<le> MAX_TEAM_COMMAND_FINDINGS"

fun command_in_bounds :: "team_run \<Rightarrow> team_state_command \<Rightarrow> bool" where
  "command_in_bounds r (RecordDesignReviewRound verdict _ additions) =
     (bound_verdict verdict \<and> length additions \<le> MAX_TEAM_COMMAND_FINDINGS)"
| "command_in_bounds r (ReplanSubTasks sub_tasks _) =
     (length sub_tasks \<le> MAX_TEAM_COMMAND_SUB_TASKS)"
| "command_in_bounds r (AttachSubTaskThread index _ _ _) = (index < length (tr_sub_tasks r))"
| "command_in_bounds r (SetSubTaskStatus index _) = (index < length (tr_sub_tasks r))"
| "command_in_bounds r (PauseSubTaskWithoutCandidate index) = (index < length (tr_sub_tasks r))"
| "command_in_bounds r (RecordSubTaskStaleReview index) = (index < length (tr_sub_tasks r))"
| "command_in_bounds r (RecordReviewRound index verdict _ _ _) =
     (index < length (tr_sub_tasks r) \<and> bound_verdict verdict)"
| "command_in_bounds r (MarkSubTaskDigested index _) = (index < length (tr_sub_tasks r))"
| "command_in_bounds r (RecordMrRound verdict _ additions) =
     (bound_verdict verdict \<and> length additions \<le> MAX_TEAM_COMMAND_FINDINGS)"
| "command_in_bounds r (SetMrVerdict verdict) =
     (case verdict of None \<Rightarrow> True | Some v \<Rightarrow> bound_verdict v)"
| "command_in_bounds r (PauseMrWithoutCandidate verdict) = bound_verdict verdict"
| "command_in_bounds r TakeUserNotes = (length (tr_pending_user_notes r) \<le> MAX_TEAM_COMMAND_NOTES)"
| "command_in_bounds r _ = True"

text \<open>\<open>validate_payload\<close>: its only refusal is \<open>InvalidState\<close>.\<close>

definition validate_payload :: "host \<Rightarrow> team_run \<Rightarrow> team_state_command \<Rightarrow> command_rejection option" where
  "validate_payload h r c =
     (case host_command_json h c of
        None \<Rightarrow> Some Rej_InvalidState
      | Some bytes \<Rightarrow>
          if length bytes \<le> MAX_TEAM_COMMAND_PAYLOAD_BYTES \<and> command_in_bounds r c
          then None else Some Rej_InvalidState)"

section \<open>Writing to the journal\<close>

definition evict_one :: "team_run \<Rightarrow> (command_record \<times> team_run) option" where
  "evict_one r =
     (case journal_remove_first
             (\<lambda>c. Some (cr_command_id c) \<noteq> dp_in_flight_command_id (tr_driver_progress r)
                  \<and> cr_sequence c < dp_last_command_seq (tr_driver_progress r))
             (tr_command_journal r) of
        None \<Rightarrow> None
      | Some (evicted, j) \<Rightarrow> Some (evicted, r\<lparr>tr_command_journal := j\<rparr>))"

definition drop_drained_notes :: "command_id \<Rightarrow> team_run \<Rightarrow> team_run" where
  "drop_drained_notes cid r =
     r\<lparr>tr_drained_notes :=
        filter (\<lambda>entry. ldn_command_id entry \<noteq> command_id_str cid) (tr_drained_notes r)\<rparr>"

lemma evict_one_shrinks:
  "evict_one r = Some (evicted, r') \<Longrightarrow>
     journal_len (tr_command_journal r) = Suc (journal_len (tr_command_journal r'))"
  by (auto simp: evict_one_def journal_len_def split: option.splits dest: journal.remove_shrinks)

function evict_loop :: "team_run \<Rightarrow> team_run" where
  "evict_loop r =
     (if journal_len (tr_command_journal r) \<le> MAX_TEAM_COMMAND_JOURNAL then r
      else case evict_one r of
        None \<Rightarrow> r
      | Some (evicted, r) \<Rightarrow>
          evict_loop (if cr_kind evicted = Cmd_TakeUserNotes
                      then drop_drained_notes (cr_command_id evicted) r else r))"
  by auto
termination
  by (relation "measure (\<lambda>r. journal_len (tr_command_journal r))")
    (auto dest: evict_one_shrinks simp: drop_drained_notes_def)

declare evict_loop.simps [simp del]

definition push_with_eviction :: "command_record \<Rightarrow> team_run \<Rightarrow> team_run" where
  "push_with_eviction rec r =
     (let r = r\<lparr>tr_driver_progress := (tr_driver_progress r)
                  \<lparr>dp_last_command_seq := max (dp_last_command_seq (tr_driver_progress r)) (cr_sequence rec)\<rparr>\<rparr>;
          r = r\<lparr>tr_command_journal := journal_push rec (tr_command_journal r)\<rparr>
      in evict_loop r)"

section \<open>Receipts\<close>

definition snapshot_receipt ::
    "team_run \<Rightarrow> command_id \<Rightarrow> u64 \<Rightarrow> command_status \<Rightarrow> command_receipt" where
  "snapshot_receipt r cid sequence status =
     \<lparr>rcpt_command_id = cid, rcpt_sequence = sequence,
      rcpt_state_revision = dp_state_revision (tr_driver_progress r),
      rcpt_last_event_seq = dp_last_event_seq (tr_driver_progress r), rcpt_status = status\<rparr>"

definition unsupported_protocol_receipt :: "command_id \<Rightarrow> u64 \<Rightarrow> command_receipt" where
  "unsupported_protocol_receipt cid sequence =
     \<lparr>rcpt_command_id = cid, rcpt_sequence = sequence, rcpt_state_revision = 0,
      rcpt_last_event_seq = 0, rcpt_status = Status_Rejected Rej_UnsupportedProtocol\<rparr>"

definition find_drained_notes :: "command_id \<Rightarrow> team_run \<Rightarrow> last_drained_notes option" where
  "find_drained_notes cid r =
     List.find (\<lambda>entry. ldn_command_id entry = command_id_str cid) (tr_drained_notes r)"

definition replay_status :: "team_run \<Rightarrow> command_id \<Rightarrow> command_record \<Rightarrow> command_status" where
  "replay_status r cid record =
     (case cr_outcome record of
        Out_Applied \<Rightarrow>
          (if cr_kind record = Cmd_TakeUserNotes
           then case find_drained_notes cid r of
               Some entry \<Rightarrow> Status_Applied (DrainedNotes (ldn_notes entry))
             | None \<Rightarrow> Status_Rejected Rej_StaleCommand
           else Status_Applied Ack)
      | Out_Rejected reason \<Rightarrow> Status_Rejected reason
      | Out_Interrupted \<Rightarrow> Status_Interrupted)"

definition replay_receipt ::
    "team_run \<Rightarrow> command_id \<Rightarrow> u64 \<Rightarrow> command_record \<Rightarrow> command_receipt" where
  "replay_receipt r cid sequence record =
     \<lparr>rcpt_command_id = cid, rcpt_sequence = sequence,
      rcpt_state_revision = cr_state_revision record,
      rcpt_last_event_seq = cr_last_event_seq record, rcpt_status = replay_status r cid record\<rparr>"

section \<open>The reducer\<close>

text \<open>Whether a retained record answers an envelope with this digest.\<close>

definition record_matches :: "command_record \<Rightarrow> command_fingerprint \<Rightarrow> bool" where
  "record_matches existing fp \<longleftrightarrow>
     (case cr_fingerprint existing of
        Some recorded \<Rightarrow> recorded = fp
      | None \<Rightarrow> cr_outcome existing = Out_Interrupted \<and> cr_kind existing = Cmd_Unknown)"

definition preflight_team_command_identity ::
    "host \<Rightarrow> team_run \<Rightarrow> string \<Rightarrow> command_envelope \<Rightarrow> command_receipt option" where
  "preflight_team_command_identity h r run_id e =
     (let fp = compute_fingerprint h run_id e;
          cid = env_command_id e;
          sequence = env_sequence e
      in if \<not> is_executable_by_current_build r then
           Some (snapshot_receipt r cid sequence (Status_Rejected Rej_BackendMismatch))
         else if dp_malformed (tr_driver_progress r) \<or> cj_malformed (tr_command_journal r) then
           Some (snapshot_receipt r cid sequence (Status_Rejected Rej_InvalidState))
         else if env_protocol_version e \<noteq> TEAM_COMMAND_PROTOCOL_VERSION then
           Some (unsupported_protocol_receipt cid sequence)
         else case journal_find cid (tr_command_journal r) of
           None \<Rightarrow> None
         | Some existing \<Rightarrow>
             Some (if record_matches existing fp then replay_receipt r cid sequence existing
                   else snapshot_receipt r cid sequence (Status_Rejected Rej_DuplicateCommand)))"

definition settled_record ::
    "host \<Rightarrow> string \<Rightarrow> command_envelope \<Rightarrow> command_outcome \<Rightarrow> team_run \<Rightarrow> command_record" where
  "settled_record h run_id e outcome r =
     \<lparr>cr_command_id = env_command_id e, cr_sequence = env_sequence e,
      cr_kind = command_kind (env_command e),
      cr_fingerprint = Some (compute_fingerprint h run_id e),
      cr_expected_revision = env_expected_revision e,
      cr_state_revision = dp_state_revision (tr_driver_progress r),
      cr_last_event_seq = dp_last_event_seq (tr_driver_progress r), cr_outcome = outcome\<rparr>"

definition reject_and_journal ::
    "host \<Rightarrow> string \<Rightarrow> command_envelope \<Rightarrow> command_rejection \<Rightarrow> team_run \<Rightarrow>
     (command_receipt \<times> bool) \<times> team_run" where
  "reject_and_journal h run_id e reason r =
     ((snapshot_receipt r (env_command_id e) (env_sequence e) (Status_Rejected reason), True),
      push_with_eviction (settled_record h run_id e (Out_Rejected reason) r) r)"

text \<open>The \<open>Applied\<close> tail: effects, the phase hold, the two counters and the record.\<close>

definition bump_counters :: "team_run \<Rightarrow> team_run" where
  "bump_counters r =
     r\<lparr>tr_driver_progress := (tr_driver_progress r)
        \<lparr>dp_state_revision := dp_state_revision (tr_driver_progress r) + 1,
         dp_last_event_seq := dp_last_event_seq (tr_driver_progress r) + 1\<rparr>\<rparr>"

definition apply_and_journal ::
    "host \<Rightarrow> tick \<Rightarrow> string \<Rightarrow> command_envelope \<Rightarrow> team_state_command \<Rightarrow> team_run \<Rightarrow>
     (command_receipt \<times> bool) \<times> team_run" where
  "apply_and_journal h tk run_id e effective r =
     (let (output, r) = apply_effects tk (env_command_id e) effective r;
          (_, r) = hold_phase_for_waiting_sub_tasks (tick_now tk) r;
          r = bump_counters r
      in ((snapshot_receipt r (env_command_id e) (env_sequence e) (Status_Applied output), True),
          push_with_eviction (settled_record h run_id e Out_Applied r) r))"

definition apply_team_command_with_effective ::
    "host \<Rightarrow> tick \<Rightarrow> string \<Rightarrow> command_envelope \<Rightarrow> team_state_command \<Rightarrow> team_run \<Rightarrow>
     (command_receipt \<times> bool) \<times> team_run" where
  "apply_team_command_with_effective h tk run_id e effective r =
     (case preflight_team_command_identity h r run_id e of
        Some receipt \<Rightarrow> ((receipt, False), r)
      | None \<Rightarrow>
        if env_sequence e \<le> dp_last_command_seq (tr_driver_progress r) then
          ((snapshot_receipt r (env_command_id e) (env_sequence e)
              (Status_Rejected Rej_StaleCommand), False), r)
        else (case validate_payload h r (env_command e) of
          Some reason \<Rightarrow> reject_and_journal h run_id e reason r
        | None \<Rightarrow>
          (case validate_payload h r effective of
             Some reason \<Rightarrow> reject_and_journal h run_id e reason r
           | None \<Rightarrow>
             if \<not> has_counter_headroom r (env_sequence e) then
               reject_and_journal h run_id e Rej_InvalidState r
             else if env_expected_revision e \<noteq> dp_state_revision (tr_driver_progress r) then
               reject_and_journal h run_id e Rej_StaleCommand r
             else if \<not> is_lifecycle_transition (env_command e)
                     \<and> \<not> command_is_permitted_by_lifecycle r then
               reject_and_journal h run_id e Rej_InvalidState r
             else apply_and_journal h tk run_id e effective r)))"

section \<open>The host's choice of the effective command\<close>

definition join_strings :: "string \<Rightarrow> string list \<Rightarrow> string" where
  "join_strings sep xs = concat (case xs of [] \<Rightarrow> [] | y # ys \<Rightarrow> y # map (\<lambda>s. sep @ s) ys)"

text \<open>\<open>working\<close> is what \<open>working_team_threads\<close> answers: the run's threads with a turn in flight.\<close>

definition effective_command :: "string list \<Rightarrow> team_state_command \<Rightarrow> team_state_command" where
  "effective_command working c =
     (case c of
        SettleRun status _ _ \<Rightarrow>
          (if (status = Run_Paused \<or> status = Run_Cancelled \<or> status = Run_Done) \<and> working \<noteq> []
           then BlockRun (''cannot settle this task as '' @ run_status_as_str status @ '': '' @
                          join_strings '', '' working @ '' still has a turn in flight'')
           else c)
      | _ \<Rightarrow> c)"

definition submit_command ::
    "host \<Rightarrow> tick \<Rightarrow> string list \<Rightarrow> string \<Rightarrow> command_envelope \<Rightarrow> team_run \<Rightarrow>
     (command_receipt \<times> bool) \<times> team_run" where
  "submit_command h tk working run_id e r =
     (case preflight_team_command_identity h r run_id e of
        Some receipt \<Rightarrow> ((receipt, False), r)
      | None \<Rightarrow>
          apply_team_command_with_effective h tk run_id e
            (effective_command working (env_command e)) r)"

end
