(* ===== verification/Reducer_Inv.thy ===== *)
theory Reducer_Inv
  imports Reducer
begin

text \<open>
  The invariant of a run's durable command state, what one submission does to it on each of its
  branches, and the exact journal a written record leaves behind.
\<close>

section \<open>The invariant\<close>

definition is_drain :: "command_record \<Rightarrow> bool" where
  "is_drain c \<longleftrightarrow> cr_kind c = Cmd_TakeUserNotes \<and> cr_outcome c = Out_Applied"

abbreviation records :: "team_run \<Rightarrow> command_record list" where
  "records r \<equiv> cj_records (tr_command_journal r)"

definition drained_ids :: "command_record list \<Rightarrow> string list" where
  "drained_ids cs = map (\<lambda>c. command_id_str (cr_command_id c)) (filter is_drain cs)"

definition reducer_inv :: "team_run \<Rightarrow> bool" where
  "reducer_inv r \<longleftrightarrow>
     journal_wf (tr_command_journal r) \<and>
     list_all (\<lambda>c. cr_sequence c \<le> watermark r) (records r) \<and>
     dp_in_flight_command_id (tr_driver_progress r) = None \<and>
     tr_in_flight_command r = None \<and>
     map ldn_command_id (tr_drained_notes r) = drained_ids (records r)"

lemma reducer_inv_durable:
  assumes "durable r' = durable r"
  shows "reducer_inv r' = reducer_inv r"
  unfolding reducer_inv_def durableD [OF assms] by (rule refl)

lemma reducer_invD:
  assumes "reducer_inv r"
  shows "length (records r) \<le> 64" "distinct (map cr_command_id (records r))"
    "c \<in> set (records r) \<Longrightarrow> cr_sequence c \<le> watermark r"
    "dp_in_flight_command_id (tr_driver_progress r) = None" "tr_in_flight_command r = None"
    "map ldn_command_id (tr_drained_notes r) = drained_ids (records r)"
  using assms
  by (auto simp: reducer_inv_def journal_wf_def journal_len_def MAX_TEAM_COMMAND_JOURNAL_def
      list_all_iff)

lemma command_id_str_inj [simp]: "command_id_str a = command_id_str b \<longleftrightarrow> a = b"
  by (cases a; cases b) simp

section \<open>Writing one record\<close>

lemma evict_loop_full:
  assumes j: "records r = c # cs" and len: "length cs = 64"
    and inf: "dp_in_flight_command_id (tr_driver_progress r) = None"
    and c: "cr_sequence c < watermark r"
  shows "evict_loop r =
     (let r' = r\<lparr>tr_command_journal := (tr_command_journal r)\<lparr>cj_records := cs\<rparr>\<rparr>
      in if cr_kind c = Cmd_TakeUserNotes then drop_drained_notes (cr_command_id c) r' else r')"
proof -
  let ?r = "r\<lparr>tr_command_journal := (tr_command_journal r)\<lparr>cj_records := cs\<rparr>\<rparr>"
  have "evict_one r = Some (c, ?r)"
    using j inf c by (simp add: evict_one_def journal_remove_first_def)
  then have "evict_loop r =
      evict_loop (if cr_kind c = Cmd_TakeUserNotes then drop_drained_notes (cr_command_id c) ?r else ?r)"
    using j len
    by (subst evict_loop.simps) (simp add: journal_len_def MAX_TEAM_COMMAND_JOURNAL_def)
  also have "\<dots> = (if cr_kind c = Cmd_TakeUserNotes then drop_drained_notes (cr_command_id c) ?r else ?r)"
    using len by (subst evict_loop.simps)
      (simp add: journal_len_def MAX_TEAM_COMMAND_JOURNAL_def drop_drained_notes_def)
  finally show ?thesis by (simp add: Let_def)
qed

lemma evict_loop_room:
  "length (records r) \<le> 64 \<Longrightarrow> evict_loop r = r"
  by (subst evict_loop.simps) (simp add: journal_len_def MAX_TEAM_COMMAND_JOURNAL_def)

text \<open>The journal and the drained notes after a record above the watermark is written.\<close>

definition kept_records :: "team_run \<Rightarrow> command_record list" where
  "kept_records r = (if length (records r) < 64 then records r else tl (records r))"

definition kept_notes :: "team_run \<Rightarrow> last_drained_notes list" where
  "kept_notes r =
     (if length (records r) < 64 then tr_drained_notes r
      else if cr_kind (hd (records r)) = Cmd_TakeUserNotes
      then filter (\<lambda>n. ldn_command_id n \<noteq> command_id_str (cr_command_id (hd (records r)))) (tr_drained_notes r)
      else tr_drained_notes r)"

lemma push_with_eviction_exact:
  assumes len: "length (records r) \<le> 64"
    and seq: "\<And>c. c \<in> set (records r) \<Longrightarrow> cr_sequence c \<le> watermark r"
    and inf: "dp_in_flight_command_id (tr_driver_progress r) = None"
    and new: "watermark r < cr_sequence rec"
  shows "push_with_eviction rec r =
     r\<lparr>tr_driver_progress := (tr_driver_progress r)\<lparr>dp_last_command_seq := cr_sequence rec\<rparr>,
       tr_command_journal := (tr_command_journal r)\<lparr>cj_records := kept_records r @ [rec]\<rparr>,
       tr_drained_notes := kept_notes r\<rparr>"
proof (cases "length (records r) < 64")
  case True
  then show ?thesis using new
    by (simp add: push_with_eviction_def evict_loop_room kept_records_def kept_notes_def
        journal_push_def max_def)
next
  case False
  with len obtain c cs where c: "records r = c # cs" and cs: "length cs = 63"
    by (cases "records r") auto
  let ?r = "r\<lparr>tr_driver_progress := (tr_driver_progress r)\<lparr>dp_last_command_seq := cr_sequence rec\<rparr>,
       tr_command_journal := journal_push rec (tr_command_journal r)\<rparr>"
  have push: "push_with_eviction rec r = evict_loop ?r"
    using new by (simp add: push_with_eviction_def max_def)
  have "cr_sequence c < cr_sequence rec"
    using seq [of c] new c by simp
  then have "evict_loop ?r =
     (let r' = ?r\<lparr>tr_command_journal := (tr_command_journal ?r)\<lparr>cj_records := cs @ [rec]\<rparr>\<rparr>
      in if cr_kind c = Cmd_TakeUserNotes then drop_drained_notes (cr_command_id c) r' else r')"
    using c cs inf by (intro evict_loop_full) (simp_all add: journal_push_def)
  then show ?thesis
    unfolding push using False c
    by (simp add: kept_records_def kept_notes_def drop_drained_notes_def journal_push_def Let_def)
qed

lemma filter_ids_absent:
  "x \<notin> set (map f xs) \<Longrightarrow> filter (\<lambda>n. f n \<noteq> x) xs = xs"
  by (induction xs) auto

lemma find_append_None: "List.find p xs = None \<Longrightarrow> List.find p (xs @ ys) = List.find p ys"
  by (induction xs) (auto split: if_splits)

lemma find_append_Some: "List.find p xs = Some x \<Longrightarrow> List.find p (xs @ ys) = Some x"
  by (induction xs) (auto split: if_splits)

lemma drained_ids_subset: "x \<in> set (drained_ids cs) \<Longrightarrow> x \<in> command_id_str ` cr_command_id ` set cs"
  by (auto simp: drained_ids_def)

lemma kept_notes_ids:
  assumes dist: "distinct (map cr_command_id (records r @ [rec]))"
    and nids: "map ldn_command_id (tr_drained_notes r) = drained_ids (records r @ [rec])"
  shows "map ldn_command_id (kept_notes r) = drained_ids (kept_records r @ [rec])"
proof (cases "length (records r) < 64")
  case True
  with nids show ?thesis by (simp add: kept_notes_def kept_records_def)
next
  case False
  then obtain c cs where c: "records r = c # cs" by (cases "records r") auto
  define i where "i = command_id_str (cr_command_id c)"
  have absent: "i \<notin> set (drained_ids (cs @ [rec]))"
    using dist drained_ids_subset [of i "cs @ [rec]"] unfolding c i_def by auto
  have ids: "map ldn_command_id (tr_drained_notes r) =
      (if is_drain c then [i] else []) @ drained_ids (cs @ [rec])"
    using nids by (simp add: c drained_ids_def i_def)
  have filtered: "map ldn_command_id (filter (\<lambda>n. ldn_command_id n \<noteq> i) (tr_drained_notes r)) =
      drained_ids (cs @ [rec])"
  proof -
    have "map ldn_command_id (filter (\<lambda>n. ldn_command_id n \<noteq> i) (tr_drained_notes r)) =
        filter (\<lambda>x. x \<noteq> i) (map ldn_command_id (tr_drained_notes r))"
      by (simp add: filter_map comp_def)
    also have "\<dots> = drained_ids (cs @ [rec])"
      using absent filter_ids_absent [of i "\<lambda>x. x" "drained_ids (cs @ [rec])"] by (simp add: ids)
    finally show ?thesis .
  qed
  show ?thesis
  proof (cases "cr_kind c = Cmd_TakeUserNotes")
    case True
    with False filtered show ?thesis by (simp add: kept_notes_def kept_records_def c i_def)
  next
    case kind: False
    then have "\<not> is_drain c" by (simp add: is_drain_def)
    with False ids kind show ?thesis by (simp add: kept_notes_def kept_records_def c)
  qed
qed

lemma kept_records_subset: "set (kept_records r) \<subseteq> set (records r)"
  by (cases "records r") (auto simp: kept_records_def)

lemma kept_records_distinct:
  "distinct (map cr_command_id (records r)) \<Longrightarrow> distinct (map cr_command_id (kept_records r))"
  by (cases "records r") (auto simp: kept_records_def)

lemma kept_records_length: "length (records r) \<le> 64 \<Longrightarrow> length (kept_records r) \<le> 63"
  by (cases "records r") (auto simp: kept_records_def)

text \<open>
  A run as the reducer has it when it writes a record: the journal invariant holds, and the
  notes already count the record about to be written.
\<close>

definition ready_to_write :: "command_record \<Rightarrow> team_run \<Rightarrow> bool" where
  "ready_to_write rec r \<longleftrightarrow>
     length (records r) \<le> 64 \<and> distinct (map cr_command_id (records r @ [rec])) \<and>
     (\<forall>c \<in> set (records r). cr_sequence c \<le> watermark r) \<and>
     dp_in_flight_command_id (tr_driver_progress r) = None \<and> tr_in_flight_command r = None \<and>
     watermark r < cr_sequence rec \<and>
     map ldn_command_id (tr_drained_notes r) = drained_ids (records r @ [rec])"

lemma ready_push:
  "ready_to_write rec r \<Longrightarrow> push_with_eviction rec r =
     r\<lparr>tr_driver_progress := (tr_driver_progress r)\<lparr>dp_last_command_seq := cr_sequence rec\<rparr>,
       tr_command_journal := (tr_command_journal r)\<lparr>cj_records := kept_records r @ [rec]\<rparr>,
       tr_drained_notes := kept_notes r\<rparr>"
  unfolding ready_to_write_def by (intro push_with_eviction_exact) auto

lemma push_with_eviction_inv:
  assumes ready: "ready_to_write rec r"
  shows "reducer_inv (push_with_eviction rec r)"
proof -
  have "distinct (map cr_command_id (kept_records r @ [rec]))"
    using ready kept_records_distinct [of r] kept_records_subset [of r]
    by (auto simp: ready_to_write_def)
  moreover have "length (kept_records r @ [rec]) \<le> 64"
    using ready kept_records_length [of r] by (simp add: ready_to_write_def)
  moreover have "cr_sequence c \<le> cr_sequence rec" if "c \<in> set (kept_records r @ [rec])" for c
    using that ready kept_records_subset [of r] by (auto simp: ready_to_write_def dest!: bspec)
  moreover have "map ldn_command_id (kept_notes r) = drained_ids (kept_records r @ [rec])"
    using ready by (intro kept_notes_ids) (auto simp: ready_to_write_def)
  ultimately show ?thesis
    using ready unfolding ready_push [OF ready] reducer_inv_def journal_wf_def journal_len_def
    by (simp add: MAX_TEAM_COMMAND_JOURNAL_def list_all_iff ready_to_write_def)
qed

section \<open>The branches of a submission\<close>

lemma preflight_None:
  "preflight_team_command_identity h r run_id e = None \<longleftrightarrow>
     is_executable_by_current_build r \<and> \<not> dp_malformed (tr_driver_progress r) \<and>
     \<not> cj_malformed (tr_command_journal r) \<and>
     env_protocol_version e = TEAM_COMMAND_PROTOCOL_VERSION \<and>
     journal_find (env_command_id e) (tr_command_journal r) = None"
  by (auto simp: preflight_team_command_identity_def Let_def split: option.splits)

lemma submit_command_eq:
  "submit_command h tk working run_id e r =
     apply_team_command_with_effective h tk run_id e (effective_command working (env_command e)) r"
  by (simp add: submit_command_def apply_team_command_with_effective_def split: option.split)

text \<open>The checks an envelope has passed when its command is applied.\<close>

definition accepted :: "host \<Rightarrow> string \<Rightarrow> command_envelope \<Rightarrow> team_state_command \<Rightarrow> team_run \<Rightarrow> bool" where
  "accepted h run_id e effective r \<longleftrightarrow>
     preflight_team_command_identity h r run_id e = None \<and>
     watermark r < env_sequence e \<and>
     validate_payload h r (env_command e) = None \<and> validate_payload h r effective = None \<and>
     has_counter_headroom r (env_sequence e) \<and> env_expected_revision e = revision r \<and>
     (is_lifecycle_transition (env_command e) \<or> command_is_permitted_by_lifecycle r)"

lemma apply_cases:
  obtains
    (untouched) receipt where
      "apply_team_command_with_effective h tk run_id e eff r = ((receipt, False), r)"
      "\<not> accepted h run_id e eff r"
      "preflight_team_command_identity h r run_id e = None \<Longrightarrow>
         env_sequence e \<le> watermark r \<and>
         receipt = snapshot_receipt r (env_command_id e) (env_sequence e) (Status_Rejected Rej_StaleCommand)"
  | (rejected) reason where
      "apply_team_command_with_effective h tk run_id e eff r = reject_and_journal h run_id e reason r"
      "preflight_team_command_identity h r run_id e = None" "watermark r < env_sequence e"
      "\<not> accepted h run_id e eff r"
  | (applied)
      "apply_team_command_with_effective h tk run_id e eff r = apply_and_journal h tk run_id e eff r"
      "accepted h run_id e eff r"
proof (cases "preflight_team_command_identity h r run_id e")
  case (Some receipt)
  then show ?thesis
    by (intro untouched [of receipt]) (simp_all add: apply_team_command_with_effective_def accepted_def)
next
  case None
  show ?thesis
  proof (cases "env_sequence e \<le> watermark r")
    case True
    with None show ?thesis
      by (intro untouched)
        (auto simp: apply_team_command_with_effective_def accepted_def dest: leD)
  next
    case False
    then have seq: "watermark r < env_sequence e" by simp
    show ?thesis
    proof (cases "accepted h run_id e eff r")
      case True
      with None seq show ?thesis
        by (intro applied)
          (auto simp: apply_team_command_with_effective_def accepted_def)
    next
      case refused: False
      with None seq have "\<exists>reason. apply_team_command_with_effective h tk run_id e eff r =
          reject_and_journal h run_id e reason r"
        by (auto simp: apply_team_command_with_effective_def accepted_def split: option.split)
      with None seq refused show ?thesis by (blast intro: rejected)
    qed
  qed
qed

lemma applied_iff_accepted:
  "(\<exists>output. rcpt_status (fst (fst (apply_team_command_with_effective h tk run_id e eff r))) =
      Status_Applied output \<and> snd (fst (apply_team_command_with_effective h tk run_id e eff r))) \<longleftrightarrow>
   accepted h run_id e eff r"
  by (rule apply_cases [of h tk run_id e eff r])
    (auto simp: reject_and_journal_def apply_and_journal_def snapshot_receipt_def apply_effects_def
      Let_def split: prod.splits)

section \<open>The applied tail\<close>

lemma durable_update [simp]:
  "durable (r\<lparr>tr_phase := p\<rparr>) = durable r"
  "durable (edit_task i f r) = durable r"
  by (simp_all add: durable_def edit_task_def)

lemma durable_settle_run [simp]: "durable (settle_run s reason kind now r) = durable r"
  by (cases s) (simp_all add: settle_run_def)

text \<open>No command but \<open>TakeUserNotes\<close> touches the durable command state in its effects.\<close>

lemma durable_apply_state:
  "c \<noteq> TakeUserNotes \<Longrightarrow> durable (apply_state tk cid c r) = durable r"
  by (cases c) (simp_all add: Let_def split: option.split,
      simp_all add: durable_def edit_task_def)

lemma durable_take_notes:
  "durable (apply_state tk cid TakeUserNotes r) =
     durable (r\<lparr>tr_drained_notes := tr_drained_notes r @
        [\<lparr>ldn_command_id = command_id_str cid, ldn_notes = tr_pending_user_notes r\<rparr>]\<rparr>)"
  by (simp add: durable_def)

definition applied_base :: "tick \<Rightarrow> command_id \<Rightarrow> team_state_command \<Rightarrow> team_run \<Rightarrow> team_run" where
  "applied_base tk cid c r =
     bump_counters (snd (hold_phase_for_waiting_sub_tasks (tick_now tk) (apply_state tk cid c r)))"

lemma apply_and_journal_eq:
  "apply_and_journal h tk run_id e eff r =
     (let b = applied_base tk (env_command_id e) eff r
      in ((snapshot_receipt b (env_command_id e) (env_sequence e)
             (Status_Applied (fst (apply_effects tk (env_command_id e) eff r))), True),
          push_with_eviction (settled_record h run_id e Out_Applied b) b))"
  by (simp add: apply_and_journal_def apply_effects_def applied_base_def Let_def split: prod.split)

lemma bump_counters_fields [simp]:
  "tr_orchestration_backend (bump_counters r) = tr_orchestration_backend r"
  "tr_command_journal (bump_counters r) = tr_command_journal r"
  "tr_in_flight_command (bump_counters r) = tr_in_flight_command r"
  "tr_drained_notes (bump_counters r) = tr_drained_notes r"
  "watermark (bump_counters r) = watermark r"
  "dp_in_flight_command_id (tr_driver_progress (bump_counters r)) = dp_in_flight_command_id (tr_driver_progress r)"
  "dp_malformed (tr_driver_progress (bump_counters r)) = dp_malformed (tr_driver_progress r)"
  "revision (bump_counters r) = revision r + 1"
  "dp_last_event_seq (tr_driver_progress (bump_counters r)) = dp_last_event_seq (tr_driver_progress r) + 1"
  "tr_status (bump_counters r) = tr_status r"
  by (simp_all add: bump_counters_def)

lemma applied_base_durable:
  fixes tk cid c r
  defines "b \<equiv> applied_base tk cid c r"
  shows "tr_orchestration_backend b = tr_orchestration_backend r"
    "tr_command_journal b = tr_command_journal r"
    "tr_in_flight_command b = tr_in_flight_command r"
    "watermark b = watermark r"
    "dp_in_flight_command_id (tr_driver_progress b) = dp_in_flight_command_id (tr_driver_progress r)"
    "dp_malformed (tr_driver_progress b) = dp_malformed (tr_driver_progress r)"
    "dp_last_event_seq (tr_driver_progress b) = dp_last_event_seq (tr_driver_progress r) + 1"
    "tr_drained_notes b = tr_drained_notes r @ (if c = TakeUserNotes
       then [\<lparr>ldn_command_id = command_id_str cid, ldn_notes = tr_pending_user_notes r\<rparr>] else [])"
proof -
  let ?s = "apply_state tk cid c r"
  let ?n = "tr_drained_notes r @ (if c = TakeUserNotes
       then [\<lparr>ldn_command_id = command_id_str cid, ldn_notes = tr_pending_user_notes r\<rparr>] else [])"
  have "durable ?s = durable (r\<lparr>tr_drained_notes := ?n\<rparr>)"
    by (cases "c = TakeUserNotes")
      (simp_all add: durable_apply_state durable_take_notes del: apply_state.simps)
  then have d: "durable (snd (hold_phase_for_waiting_sub_tasks (tick_now tk) ?s)) =
      durable (r\<lparr>tr_drained_notes := ?n\<rparr>)"
    by simp
  show "tr_orchestration_backend b = tr_orchestration_backend r"
    "tr_command_journal b = tr_command_journal r"
    "tr_in_flight_command b = tr_in_flight_command r"
    "watermark b = watermark r"
    "dp_in_flight_command_id (tr_driver_progress b) = dp_in_flight_command_id (tr_driver_progress r)"
    "dp_malformed (tr_driver_progress b) = dp_malformed (tr_driver_progress r)"
    "dp_last_event_seq (tr_driver_progress b) = dp_last_event_seq (tr_driver_progress r) + 1"
    "tr_drained_notes b = ?n"
    unfolding b_def applied_base_def by (simp_all add: durableD [OF d])
qed

section \<open>A submission keeps the invariant\<close>

lemma effective_command_notes [simp]:
  "effective_command working c = TakeUserNotes \<longleftrightarrow> c = TakeUserNotes"
  by (cases c) (auto simp: effective_command_def)

lemma settled_record_fields [simp]:
  "cr_command_id (settled_record h run_id e out r) = env_command_id e"
  "cr_sequence (settled_record h run_id e out r) = env_sequence e"
  "cr_outcome (settled_record h run_id e out r) = out"
  "cr_fingerprint (settled_record h run_id e out r) = Some (compute_fingerprint h run_id e)"
  "cr_state_revision (settled_record h run_id e out r) = revision r"
  "cr_last_event_seq (settled_record h run_id e out r) = dp_last_event_seq (tr_driver_progress r)"
  "cr_kind (settled_record h run_id e out r) = command_kind (env_command e)"
  by (simp_all add: settled_record_def)

lemma is_drain_settled [simp]:
  "is_drain (settled_record h run_id e (Out_Rejected reason) r) = False"
  "is_drain (settled_record h run_id e Out_Applied r) \<longleftrightarrow> env_command e = TakeUserNotes"
  by (simp_all add: is_drain_def)

lemma fresh_id:
  "preflight_team_command_identity h r run_id e = None \<Longrightarrow>
     env_command_id e \<notin> cr_command_id ` set (records r)"
  by (simp add: preflight_None journal.find_None journal.keys_def)

lemma ready_rejected:
  assumes "reducer_inv r" "preflight_team_command_identity h r run_id e = None"
    "watermark r < env_sequence e"
  shows "ready_to_write (settled_record h run_id e (Out_Rejected reason) r) r"
  using assms(3) reducer_invD [OF assms(1)] fresh_id [OF assms(2)]
  by (simp add: ready_to_write_def drained_ids_def)

lemma ready_applied:
  fixes tk :: tick and h run_id e working r
  assumes inv: "reducer_inv r" and acc: "accepted h run_id e (effective_command working (env_command e)) r"
  defines "b \<equiv> applied_base tk (env_command_id e) (effective_command working (env_command e)) r"
  shows "ready_to_write (settled_record h run_id e Out_Applied b) b"
proof -
  have "preflight_team_command_identity h r run_id e = None" "watermark r < env_sequence e"
    using acc by (simp_all add: accepted_def)
  then show ?thesis
    using reducer_invD [OF inv] fresh_id [of h r run_id e]
    unfolding b_def ready_to_write_def applied_base_durable
    by (simp add: drained_ids_def)
qed

theorem submit_command_inv:
  assumes inv: "reducer_inv r"
  shows "reducer_inv (snd (submit_command h tk working run_id e r))"
proof (rule apply_cases [of h tk run_id e "effective_command working (env_command e)" r])
  fix reason
  assume "apply_team_command_with_effective h tk run_id e (effective_command working (env_command e)) r
      = reject_and_journal h run_id e reason r"
    and "preflight_team_command_identity h r run_id e = None" "watermark r < env_sequence e"
  then show ?thesis
    using push_with_eviction_inv [OF ready_rejected [OF inv]]
    by (simp add: submit_command_eq reject_and_journal_def)
next
  assume "apply_team_command_with_effective h tk run_id e (effective_command working (env_command e)) r
      = apply_and_journal h tk run_id e (effective_command working (env_command e)) r"
    and "accepted h run_id e (effective_command working (env_command e)) r"
  then show ?thesis
    using push_with_eviction_inv [OF ready_applied [OF inv]]
    by (simp add: submit_command_eq apply_and_journal_eq Let_def)
qed (simp add: submit_command_eq inv)

section \<open>What a submission leaves of the records and the notes\<close>

text \<open>
  A written submission ends with its own record, whose sequence is the new watermark; every other
  record and every note belonging to it was there before.
\<close>

lemma submit_written:
  assumes inv: "reducer_inv r"
    and w: "submit_command h tk working run_id e r = ((receipt, True), r')"
  obtains rec where "records r' = kept_records r @ [rec]" "cr_command_id rec = env_command_id e"
    "cr_sequence rec = env_sequence e" "watermark r < env_sequence e" "watermark r' = env_sequence e"
    "cr_fingerprint rec = Some (compute_fingerprint h run_id e)"
    "receipt = replay_receipt r' (env_command_id e) (env_sequence e) rec"
proof (rule apply_cases [of h tk run_id e "effective_command working (env_command e)" r])
  fix reason
  let ?rec = "settled_record h run_id e (Out_Rejected reason) r"
  assume eq: "apply_team_command_with_effective h tk run_id e (effective_command working (env_command e)) r
      = reject_and_journal h run_id e reason r"
    and pre: "preflight_team_command_identity h r run_id e = None" and seq: "watermark r < env_sequence e"
  have "r' = push_with_eviction ?rec r"
    "receipt = snapshot_receipt r (env_command_id e) (env_sequence e) (Status_Rejected reason)"
    using w eq by (simp_all add: submit_command_eq reject_and_journal_def)
  with ready_push [OF ready_rejected [OF inv pre seq]] seq show thesis
    by (intro that [of ?rec])
      (simp_all add: replay_receipt_def replay_status_def snapshot_receipt_def)
next
  let ?eff = "effective_command working (env_command e)"
  let ?b = "applied_base tk (env_command_id e) ?eff r"
  let ?rec = "settled_record h run_id e Out_Applied ?b"
  assume eq: "apply_team_command_with_effective h tk run_id e ?eff r = apply_and_journal h tk run_id e ?eff r"
    and acc: "accepted h run_id e ?eff r"
  have r': "r' = push_with_eviction ?rec ?b" and rc: "receipt = snapshot_receipt ?b (env_command_id e)
      (env_sequence e) (Status_Applied (fst (apply_effects tk (env_command_id e) ?eff r)))"
    using w eq by (simp_all add: submit_command_eq apply_and_journal_eq Let_def)
  note push = ready_push [OF ready_applied [OF inv acc], of tk]
  have drained: "find_drained_notes (env_command_id e) r' =
      Some \<lparr>ldn_command_id = command_id_str (env_command_id e), ldn_notes = tr_pending_user_notes r\<rparr>"
    if c: "env_command e = TakeUserNotes"
  proof -
    let ?i = "command_id_str (env_command_id e)"
    have fresh: "env_command_id e \<notin> cr_command_id ` set (records r)"
      using acc fresh_id [of h r run_id e] by (simp add: accepted_def)
    then have "?i \<notin> set (map ldn_command_id (tr_drained_notes r))"
      using drained_ids_subset [of ?i "records r"] unfolding reducer_invD(6) [OF inv] by auto
    then have "List.find (\<lambda>n. ldn_command_id n = ?i) (filter P (tr_drained_notes r)) = None" for P
      unfolding find_None_iff by (metis filter_is_subset imageI list.set_map subsetD)
    then have absent: "List.find (\<lambda>n. ldn_command_id n = ?i) (filter P (tr_drained_notes r) @ ys) =
        List.find (\<lambda>n. ldn_command_id n = ?i) ys" for P ys
      by (rule find_append_None)
    have hd: "length (records r) < 64 \<or> cr_command_id (hd (records r)) \<noteq> env_command_id e"
      using fresh by (cases "records r") auto
    show ?thesis
      unfolding find_drained_notes_def r' push kept_notes_def applied_base_durable
      using c absent [of "\<lambda>_. True"] absent hd by auto
  qed
  have "records r' = kept_records r @ [?rec]"
    unfolding r' push by (simp add: kept_records_def applied_base_durable)
  moreover have "receipt = replay_receipt r' (env_command_id e) (env_sequence e) ?rec"
    unfolding rc using drained
    by (auto simp: replay_receipt_def replay_status_def snapshot_receipt_def apply_effects_def)
  moreover have "watermark r' = env_sequence e"
    unfolding r' push by simp
  ultimately show thesis
    using acc by (intro that [of ?rec]) (simp_all add: accepted_def)
qed (use w in \<open>simp add: submit_command_eq\<close>)

lemma find_filter_other:
  "x \<noteq> i \<Longrightarrow> List.find (\<lambda>n. f n = i) (filter (\<lambda>n. f n \<noteq> x) xs) = List.find (\<lambda>n. f n = i) xs"
  by (induction xs) auto

lemma kept_notes_find:
  assumes dist: "distinct (map cr_command_id (records r))" and c: "c \<in> set (kept_records r)"
  shows "List.find (\<lambda>n. ldn_command_id n = command_id_str (cr_command_id c)) (kept_notes r) =
    List.find (\<lambda>n. ldn_command_id n = command_id_str (cr_command_id c)) (tr_drained_notes r)"
proof (cases "length (records r) < 64")
  case True
  then show ?thesis by (simp add: kept_notes_def)
next
  case False
  with c obtain d ds where d: "records r = d # ds" "c \<in> set ds"
    by (cases "records r") (auto simp: kept_records_def)
  with dist have "cr_command_id d \<noteq> cr_command_id c" by auto
  then show ?thesis
    using False d by (simp add: kept_notes_def find_filter_other)
qed

lemma pushed_keeps:
  assumes ready: "ready_to_write rec r" and c: "c \<in> set (records (push_with_eviction rec r))"
    and old: "cr_sequence c \<le> watermark r"
  shows "c \<in> set (records r)"
    "find_drained_notes (cr_command_id c) (push_with_eviction rec r) =
       find_drained_notes (cr_command_id c) r"
proof -
  have kept: "c \<in> set (kept_records r)"
    using c old ready unfolding ready_push [OF ready] by (auto simp: ready_to_write_def)
  then show "c \<in> set (records r)" using kept_records_subset by blast
  show "find_drained_notes (cr_command_id c) (push_with_eviction rec r) =
      find_drained_notes (cr_command_id c) r"
    using kept_notes_find [OF _ kept] ready
    unfolding ready_push [OF ready] find_drained_notes_def by (simp add: ready_to_write_def)
qed

lemma watermark_push: "ready_to_write rec r \<Longrightarrow> watermark (push_with_eviction rec r) = cr_sequence rec"
  by (simp add: ready_push)

lemma submit_keeps:
  fixes h tk working run_id e r
  assumes inv: "reducer_inv r"
  defines "r' \<equiv> snd (submit_command h tk working run_id e r)"
  shows "watermark r \<le> watermark r'"
    "c \<in> set (records r') \<Longrightarrow> cr_sequence c \<le> watermark r \<Longrightarrow>
       c \<in> set (records r) \<and> find_drained_notes (cr_command_id c) r' = find_drained_notes (cr_command_id c) r"
proof -
  let ?eff = "effective_command working (env_command e)"
  let ?b = "applied_base tk (env_command_id e) ?eff r"
  have "watermark r \<le> watermark r' \<and>
    (c \<in> set (records r') \<longrightarrow> cr_sequence c \<le> watermark r \<longrightarrow>
       c \<in> set (records r) \<and> find_drained_notes (cr_command_id c) r' = find_drained_notes (cr_command_id c) r)"
  proof (rule apply_cases [of h tk run_id e ?eff r])
    fix reason
    assume eq: "apply_team_command_with_effective h tk run_id e ?eff r = reject_and_journal h run_id e reason r"
      and pre: "preflight_team_command_identity h r run_id e = None" and seq: "watermark r < env_sequence e"
    have "r' = push_with_eviction (settled_record h run_id e (Out_Rejected reason) r) r"
      unfolding r'_def submit_command_eq eq by (simp add: reject_and_journal_def)
    with pushed_keeps [OF ready_rejected [OF inv pre seq], of c] seq
      watermark_push [OF ready_rejected [OF inv pre seq]]
    show ?thesis by (simp add: less_imp_le)
  next
    assume eq: "apply_team_command_with_effective h tk run_id e ?eff r = apply_and_journal h tk run_id e ?eff r"
      and acc: "accepted h run_id e ?eff r"
    note ready = ready_applied [OF inv acc, of tk]
    have r': "r' = push_with_eviction (settled_record h run_id e Out_Applied ?b) ?b"
      unfolding r'_def submit_command_eq eq by (simp add: apply_and_journal_eq Let_def)
    have pre: "preflight_team_command_identity h r run_id e = None" and seq: "watermark r < env_sequence e"
      using acc by (simp_all add: accepted_def)
    have "find_drained_notes (cr_command_id c) ?b = find_drained_notes (cr_command_id c) r"
      if "c \<in> set (records r)"
    proof -
      have "cr_command_id c \<noteq> env_command_id e"
        using fresh_id [OF pre] that by (metis imageI)
      then show ?thesis
        unfolding find_drained_notes_def applied_base_durable
        by (cases "List.find (\<lambda>n. ldn_command_id n = command_id_str (cr_command_id c)) (tr_drained_notes r)")
          (auto simp: find_append_None find_append_Some)
    qed
    with pushed_keeps [OF ready, of c] watermark_push [OF ready] seq show ?thesis
      unfolding r' by (simp add: applied_base_durable less_imp_le)
  qed (simp add: r'_def submit_command_eq)
  then show "watermark r \<le> watermark r'"
    "c \<in> set (records r') \<Longrightarrow> cr_sequence c \<le> watermark r \<Longrightarrow>
       c \<in> set (records r) \<and> find_drained_notes (cr_command_id c) r' = find_drained_notes (cr_command_id c) r"
    by blast+
qed

end
