(* ===== verification/Samples.thy ===== *)
theory Samples
  imports Reducer_Inv
begin

text \<open>
  Closed inputs on which the witnesses of the run properties are evaluated: a host whose digest
  is the identity on a small serialization, a fresh run and envelopes for it.
\<close>

definition sample_host :: host where
  "sample_host =
     \<lparr>host_sha256 = (\<lambda>s. s),
      host_envelope_json = (\<lambda>e. command_id_str (env_command_id e) @
         (if env_sequence e = 1 then ''1'' else if env_sequence e = 2 then ''2'' else ''n'')),
      host_command_json = (\<lambda>c. Some ''{}'')\<rparr>"

definition sample_tick :: tick where
  "sample_tick = \<lparr>tick_now = 1000, tick_mint = (\<lambda>k. ''st-1'')\<rparr>"

definition sample_run :: team_run where
  "sample_run = new_team_run ''run-1'' default_task_spec ''/work'' ''device-1'' 100"

definition sample_envelope :: "string \<Rightarrow> u64 \<Rightarrow> u64 \<Rightarrow> team_state_command \<Rightarrow> command_envelope" where
  "sample_envelope i sequence expected c =
     \<lparr>env_protocol_version = 1, env_command_id = Command_Id i, env_sequence = sequence,
      env_expected_revision = expected, env_command = c\<rparr>"

lemma sample_envelope_fields [simp]:
  "env_protocol_version (sample_envelope i s x c) = 1"
  "env_command_id (sample_envelope i s x c) = Command_Id i"
  "env_sequence (sample_envelope i s x c) = s"
  "env_expected_revision (sample_envelope i s x c) = x"
  "env_command (sample_envelope i s x c) = c"
  by (simp_all add: sample_envelope_def)

lemma sample_run_fields [simp]:
  "tr_status sample_run = Run_Queued"
  "tr_orchestration_backend sample_run = LegacyEmbedded"
  "tr_driver_progress sample_run = default_driver_progress"
  "tr_command_journal sample_run = default_journal"
  "tr_in_flight_command sample_run = None"
  "tr_drained_notes sample_run = []"
  "tr_sub_tasks sample_run = []"
  "tr_phase sample_run = Phase_Intake"
  "tr_pause_requested sample_run = False"
  "tr_stopping sample_run = False"
  "tr_pending_user_notes sample_run = []"
  "tr_reopened_count sample_run = 0"
  "tr_error sample_run = None"
  by (simp_all add: sample_run_def new_team_run_def default_team_run_def)

lemma sample_executable [simp]: "is_executable_by_current_build sample_run"
  by (simp add: is_executable_by_current_build_def)

lemmas sample_defs =
  default_driver_progress_def default_journal_def TEAM_COMMAND_PROTOCOL_VERSION_def
  journal_find_def journal_len_def MAX_TEAM_COMMAND_JOURNAL_def compute_fingerprint_def

lemma sample_inv: "reducer_inv sample_run"
  by (simp add: reducer_inv_def journal_wf_def sample_defs drained_ids_def)

lemma new_run_inv: "reducer_inv (new_team_run rid spec cwd dev now)"
  by (simp add: new_team_run_def default_team_run_def reducer_inv_def journal_wf_def sample_defs
      drained_ids_def)

end
