(* ===== verification/Team_Restore.thy ===== *)
theory Team_Restore
  imports Samples
begin

text \<open>
  What the restore path does to a persisted run whose driver is gone
  (\<open>reconcile_after_restore\<close> and its three parts in \<open>crates/relay-api/src/team.rs\<close>): it settles
  a stranded command, repairs the watermark and moves the lifecycle to a state with no driver.
\<close>

section \<open>Watermark and stranded command\<close>

definition max_sequence :: "command_record list \<Rightarrow> u64 option" where
  "max_sequence cs =
     (case map cr_sequence cs of [] \<Rightarrow> None | s # ss \<Rightarrow> Some (foldl max s ss))"

definition raise_watermark :: "u64 \<Rightarrow> team_run \<Rightarrow> team_run" where
  "raise_watermark s r =
     r\<lparr>tr_driver_progress := (tr_driver_progress r)\<lparr>dp_last_command_seq := max (watermark r) s\<rparr>\<rparr>"

definition mark_journal_malformed :: "team_run \<Rightarrow> team_run" where
  "mark_journal_malformed r = r\<lparr>tr_command_journal := journal_mark_malformed (tr_command_journal r)\<rparr>"

definition repair_command_journal_watermark :: "team_run \<Rightarrow> bool \<times> team_run" where
  "repair_command_journal_watermark r =
     (if cj_malformed (tr_command_journal r) then (False, r)
      else case max_sequence (records r) of
        None \<Rightarrow> (False, r)
      | Some s \<Rightarrow>
          if s \<le> watermark r then (False, r)
          else (True, r\<lparr>tr_driver_progress := (tr_driver_progress r)\<lparr>dp_last_command_seq := s\<rparr>\<rparr>))"

text \<open>Make room for one more record; the flag is \<open>False\<close> when nothing could be removed.\<close>

function recover_evict :: "command_record \<Rightarrow> team_run \<Rightarrow> bool \<times> team_run" where
  "recover_evict record r =
     (if journal_len (tr_command_journal r) < MAX_TEAM_COMMAND_JOURNAL then (True, r)
      else case journal_remove_first (\<lambda>c. cr_command_id c \<noteq> cr_command_id record) (tr_command_journal r) of
        None \<Rightarrow> (False, mark_journal_malformed r)
      | Some (evicted, j) \<Rightarrow>
          let r = raise_watermark (cr_sequence evicted) (r\<lparr>tr_command_journal := j\<rparr>)
          in recover_evict record
               (if cr_kind evicted = Cmd_TakeUserNotes
                then drop_drained_notes (cr_command_id evicted) r else r))"
  by auto
termination
  by (relation "measure (\<lambda>(_, r). journal_len (tr_command_journal r))")
    (auto simp: raise_watermark_def drop_drained_notes_def journal_len_def Let_def
      dest: journal.remove_shrinks)

declare recover_evict.simps [simp del]

definition legacy_record :: "command_id \<Rightarrow> team_run \<Rightarrow> command_record" where
  "legacy_record cid r =
     \<lparr>cr_command_id = cid, cr_sequence = watermark r, cr_kind = Cmd_Unknown, cr_fingerprint = None,
      cr_expected_revision = revision r, cr_state_revision = revision r,
      cr_last_event_seq = dp_last_event_seq (tr_driver_progress r), cr_outcome = Out_Interrupted\<rparr>"

definition compatible_identity :: "command_record \<Rightarrow> command_record \<Rightarrow> bool" where
  "compatible_identity existing record \<longleftrightarrow>
     cr_fingerprint existing = cr_fingerprint record \<and> cr_sequence existing = cr_sequence record \<and>
     cr_kind existing = cr_kind record \<and> cr_expected_revision existing = cr_expected_revision record"

text \<open>The part after the record has been made: the watermark, the collision check, the append.\<close>

definition settle_stranded :: "command_record \<Rightarrow> bool \<Rightarrow> team_run \<Rightarrow> bool \<times> team_run" where
  "settle_stranded record typed r =
     (let r = raise_watermark (cr_sequence record) r
      in if cj_malformed (tr_command_journal r) then (True, r)
         else case journal_find (cr_command_id record) (tr_command_journal r) of
           Some existing \<Rightarrow>
             (True, if \<not> typed \<or> compatible_identity existing record then r
                    else mark_journal_malformed r)
         | None \<Rightarrow>
             (case recover_evict record r of
                (False, r) \<Rightarrow> (True, r)
              | (True, r) \<Rightarrow>
                  (True, r\<lparr>tr_command_journal := journal_push record (tr_command_journal r)\<rparr>)))"

definition take_markers :: "team_run \<Rightarrow> team_run" where
  "take_markers r =
     r\<lparr>tr_in_flight_command := None,
       tr_driver_progress := (tr_driver_progress r)\<lparr>dp_in_flight_command_id := None\<rparr>\<rparr>"

definition recover_stranded_in_flight_command :: "team_run \<Rightarrow> bool \<times> team_run" where
  "recover_stranded_in_flight_command r =
     (let typed = tr_in_flight_command r;
          legacy_id = dp_in_flight_command_id (tr_driver_progress r);
          r = take_markers r
      in case typed of
           Some in_flight \<Rightarrow>
             (let record = into_interrupted_record in_flight
              in if legacy_id \<noteq> None \<and> legacy_id \<noteq> Some (cr_command_id record)
                 then (True, mark_journal_malformed (raise_watermark (cr_sequence record) r))
                 else settle_stranded record True r)
         | None \<Rightarrow>
             (case legacy_id of
                None \<Rightarrow> (False, r)
              | Some cid \<Rightarrow> settle_stranded (legacy_record cid r) False r))"

section \<open>Lifecycle\<close>

definition append_restore_error :: "string \<Rightarrow> team_run \<Rightarrow> team_run" where
  "append_restore_error reason r =
     (case tr_error r of
        Some err \<Rightarrow>
          (if contains_str err reason then r
           else if is_blank err then r\<lparr>tr_error := Some reason\<rparr>
           else r\<lparr>tr_error := Some (err @ ''; '' @ reason)\<rparr>)
      | None \<Rightarrow> r\<lparr>tr_error := Some reason\<rparr>)"

definition settled_view :: "team_run \<Rightarrow> bool \<times> bool \<times> awaiting_user option \<times> string option" where
  "settled_view r = (tr_pause_requested r, tr_stopping r, tr_awaiting r, tr_error r)"

definition reconcile_lifecycle_after_restore :: "u64 \<Rightarrow> team_run \<Rightarrow> bool \<times> team_run" where
  "reconcile_lifecycle_after_restore now r =
     (if run_status_terminal (tr_status r) then (False, r)
      else
        let settled_before = settled_view r;
            r = (case non_executing_backend_reason r of
                   None \<Rightarrow> r
                 | Some reason \<Rightarrow> append_restore_error reason r)
        in case tr_status r of
             Run_Paused \<Rightarrow>
               (let r = r\<lparr>tr_pause_requested := False, tr_stopping := False, tr_awaiting := None\<rparr>;
                    changed = (settled_before \<noteq> settled_view r)
                in (changed, if changed then r\<lparr>tr_updated_at := now\<rparr> else r))
           | Run_PausePending \<Rightarrow>
               (True, snd (settle_paused ''the relay restarted while the team was pausing''
                             Pause_Boundary now r))
           | Run_AwaitingUser \<Rightarrow>
               (True, snd (settle_paused
                 ''the relay restarted while the team was waiting on your answer; that step will be re-run''
                 Pause_Boundary now (rollback_current_round r)))
           | _ \<Rightarrow>
               (if is_executable_by_current_build r then mark_interrupted_if_stranded now r
                else (True, r\<lparr>tr_pause_requested := False, tr_stopping := False,
                              tr_awaiting := None, tr_status := Run_Failed,
                              tr_updated_at := now\<rparr>)))"

definition reconcile_after_restore :: "u64 \<Rightarrow> team_run \<Rightarrow> bool \<times> team_run" where
  "reconcile_after_restore now r =
     (let (in_flight_recovered, r) = recover_stranded_in_flight_command r;
          (watermark_repaired, r) = repair_command_journal_watermark r;
          (lifecycle_changed, r) = reconcile_lifecycle_after_restore now r
      in (lifecycle_changed \<or> in_flight_recovered \<or> watermark_repaired, r))"

section \<open>The watermark repair\<close>

lemma foldl_max_ge: "x \<in> insert s (set ss) \<Longrightarrow> x \<le> foldl max s ss" for s :: u64
proof (induction ss arbitrary: s x)
  case (Cons y ss)
  show ?case
  proof (cases "x \<in> set ss")
    case True
    then show ?thesis using Cons.IH [of x "max s y"] by simp
  next
    case False
    with Cons.prems have "x \<le> max s y" by (metis insert_iff list.simps(15) max.cobounded1 max.cobounded2)
    also have "max s y \<le> foldl max s (y # ss)" using Cons.IH [of "max s y" "max s y"] by simp
    finally show ?thesis .
  qed
qed simp

lemma max_sequence_ge:
  assumes "max_sequence cs = Some m" "c \<in> set cs"
  shows "cr_sequence c \<le> m"
proof -
  obtain d ds where d: "cs = d # ds" using assms(2) by (cases cs) auto
  with assms have "m = foldl max (cr_sequence d) (map cr_sequence ds)"
    and "cr_sequence c \<in> insert (cr_sequence d) (set (map cr_sequence ds))"
    by (auto simp: max_sequence_def)
  then show ?thesis using foldl_max_ge by metis
qed

lemma max_sequence_mem:
  assumes "max_sequence cs = Some m"
  shows "\<exists>c \<in> set cs. cr_sequence c = m"
proof -
  have mem: "foldl max s ss \<in> insert s (set ss)" for s :: u64 and ss
    by (induction ss arbitrary: s) (auto simp: max_def)
  obtain c ds where c: "cs = c # ds" using assms by (cases cs) (auto simp: max_sequence_def)
  with assms have "m \<in> cr_sequence ` set cs"
    using mem [of "cr_sequence c" "map cr_sequence ds"] by (auto simp: max_sequence_def)
  then show ?thesis by auto
qed

definition watermark_covers :: "team_run \<Rightarrow> bool" where
  "watermark_covers r \<longleftrightarrow> list_all (\<lambda>c. cr_sequence c \<le> watermark r) (records r)"

lemma repair_covered:
  "watermark_covers r \<Longrightarrow> repair_command_journal_watermark r = (False, r)"
  by (auto simp: repair_command_journal_watermark_def watermark_covers_def list_all_iff
      split: option.split dest!: max_sequence_mem)

lemma repair_covers:
  assumes "\<not> cj_malformed (tr_command_journal r)"
  shows "watermark_covers (snd (repair_command_journal_watermark r))"
proof (cases "max_sequence (records r)")
  case None
  then have "records r = []" by (cases "records r") (auto simp: max_sequence_def)
  with None assms show ?thesis by (simp add: repair_command_journal_watermark_def watermark_covers_def)
next
  case (Some m)
  with assms max_sequence_ge [OF Some] show ?thesis
    by (auto simp: repair_command_journal_watermark_def watermark_covers_def list_all_iff
        intro: order_trans)
qed

lemma repair_fields [simp]:
  fixes r
  defines "r' \<equiv> snd (repair_command_journal_watermark r)"
  shows "tr_command_journal r' = tr_command_journal r"
    "tr_in_flight_command r' = tr_in_flight_command r"
    "tr_orchestration_backend r' = tr_orchestration_backend r"
    "tr_drained_notes r' = tr_drained_notes r"
    "dp_in_flight_command_id (tr_driver_progress r') = dp_in_flight_command_id (tr_driver_progress r)"
    "dp_malformed (tr_driver_progress r') = dp_malformed (tr_driver_progress r)"
    "tr_status r' = tr_status r"
    "revision r' = revision r"
  by (simp_all add: r'_def repair_command_journal_watermark_def split: option.split)

lemma repair_idem:
  "repair_command_journal_watermark (snd (repair_command_journal_watermark r)) =
     (False, snd (repair_command_journal_watermark r))"
proof (cases "cj_malformed (tr_command_journal r)")
  case True
  then show ?thesis by (simp add: repair_command_journal_watermark_def)
next
  case False
  then show ?thesis by (intro repair_covered repair_covers)
qed

section \<open>The stranded command\<close>

lemma recover_evict_facts:
  "recover_evict rc r = (b, r') \<Longrightarrow>
     (journal_wf (tr_command_journal r) \<longrightarrow> journal_wf (tr_command_journal r')) \<and> set (records r') \<subseteq> set (records r) \<and>
     tr_in_flight_command r' = tr_in_flight_command r \<and>
     dp_in_flight_command_id (tr_driver_progress r') = dp_in_flight_command_id (tr_driver_progress r) \<and>
     dp_malformed (tr_driver_progress r') = dp_malformed (tr_driver_progress r) \<and>
     tr_orchestration_backend r' = tr_orchestration_backend r \<and> tr_status r' = tr_status r \<and>
     cj_malformed (tr_command_journal r') = (cj_malformed (tr_command_journal r) \<or> \<not> b) \<and>
     (b \<longrightarrow> length (records r') < 64)"
proof (induction rc r rule: recover_evict.induct)
  case (1 rc r)
  show ?case
  proof (cases "journal_len (tr_command_journal r) < MAX_TEAM_COMMAND_JOURNAL")
    case True
    with "1.prems" show ?thesis
      by (subst (asm) recover_evict.simps) (auto simp: journal_len_def MAX_TEAM_COMMAND_JOURNAL_def)
  next
    case full: False
    show ?thesis
    proof (cases "journal_remove_first (\<lambda>c. cr_command_id c \<noteq> cr_command_id rc) (tr_command_journal r)")
      case None
      with full "1.prems" show ?thesis
        by (subst (asm) recover_evict.simps)
          (auto simp: mark_journal_malformed_def journal_wf_def journal_len_def)
    next
      case (Some p)
      then obtain evicted j where p: "journal_remove_first (\<lambda>c. cr_command_id c \<noteq> cr_command_id rc)
          (tr_command_journal r) = Some (evicted, j)" by (cases p) auto
      let ?r = "raise_watermark (cr_sequence evicted) (r\<lparr>tr_command_journal := j\<rparr>)"
      let ?n = "if cr_kind evicted = Cmd_TakeUserNotes
                then drop_drained_notes (cr_command_id evicted) ?r else ?r"
      have step: "recover_evict rc ?n = (b, r')"
        using "1.prems" full p by (subst (asm) recover_evict.simps) (simp add: Let_def)
      have wf: "journal_wf (tr_command_journal r) \<Longrightarrow> journal_wf j"
        using journal.remove_shrinks [OF p] journal.remove_distinct [OF _ p]
        by (simp add: journal_wf_def journal_len_def journal.keys_def)
      have n: "tr_command_journal ?n = j" "tr_in_flight_command ?n = tr_in_flight_command r"
        "dp_in_flight_command_id (tr_driver_progress ?n) = dp_in_flight_command_id (tr_driver_progress r)"
        "dp_malformed (tr_driver_progress ?n) = dp_malformed (tr_driver_progress r)"
        "tr_orchestration_backend ?n = tr_orchestration_backend r" "tr_status ?n = tr_status r"
        by (simp_all add: raise_watermark_def drop_drained_notes_def)
      have "set (cj_records j) \<subseteq> set (records r)" "cj_malformed j = cj_malformed (tr_command_journal r)"
        using journal.remove_subset [OF p] remove_first_malformed [OF p] by simp_all
      with "1.IH" [OF full p, of evicted j ?r] step wf n show ?thesis
        by (auto simp: Let_def)
    qed
  qed
qed

lemma raise_watermark_fields [simp]:
  "tr_command_journal (raise_watermark s r) = tr_command_journal r"
  "tr_in_flight_command (raise_watermark s r) = tr_in_flight_command r"
  "dp_in_flight_command_id (tr_driver_progress (raise_watermark s r)) = dp_in_flight_command_id (tr_driver_progress r)"
  "dp_malformed (tr_driver_progress (raise_watermark s r)) = dp_malformed (tr_driver_progress r)"
  "tr_orchestration_backend (raise_watermark s r) = tr_orchestration_backend r"
  "tr_status (raise_watermark s r) = tr_status r"
  by (simp_all add: raise_watermark_def)

lemma mark_journal_malformed_fields [simp]:
  "records (mark_journal_malformed r) = records r"
  "cj_malformed (tr_command_journal (mark_journal_malformed r))"
  "tr_driver_progress (mark_journal_malformed r) = tr_driver_progress r"
  "tr_in_flight_command (mark_journal_malformed r) = tr_in_flight_command r"
  "tr_orchestration_backend (mark_journal_malformed r) = tr_orchestration_backend r"
  "tr_status (mark_journal_malformed r) = tr_status r"
  by (simp_all add: mark_journal_malformed_def)

lemma take_markers_fields [simp]:
  "tr_command_journal (take_markers r) = tr_command_journal r"
  "tr_in_flight_command (take_markers r) = None"
  "dp_in_flight_command_id (tr_driver_progress (take_markers r)) = None"
  "dp_malformed (tr_driver_progress (take_markers r)) = dp_malformed (tr_driver_progress r)"
  "tr_orchestration_backend (take_markers r) = tr_orchestration_backend r"
  "tr_status (take_markers r) = tr_status r"
  by (simp_all add: take_markers_def)

lemma journal_wf_mark [simp]:
  "journal_wf (tr_command_journal (mark_journal_malformed r)) = journal_wf (tr_command_journal r)"
  by (simp add: journal_wf_def journal_len_def)

lemma journal_wf_push:
  "journal_wf j \<Longrightarrow> length (cj_records j) < 64 \<Longrightarrow>
     cr_command_id c \<notin> cr_command_id ` set (cj_records j) \<Longrightarrow> journal_wf (journal_push c j)"
  by (simp add: journal_wf_def journal_len_def MAX_TEAM_COMMAND_JOURNAL_def journal_push_def)

lemma settle_stranded_facts:
  fixes c typed r
  assumes none: "tr_in_flight_command r = None" "dp_in_flight_command_id (tr_driver_progress r) = None"
  defines "r' \<equiv> snd (settle_stranded c typed r)"
  shows "journal_wf (tr_command_journal r) \<Longrightarrow> journal_wf (tr_command_journal r')" "tr_in_flight_command r' = None"
    "dp_in_flight_command_id (tr_driver_progress r') = None"
    "tr_orchestration_backend r' = tr_orchestration_backend r" "tr_status r' = tr_status r"
proof -
  let ?w = "raise_watermark (cr_sequence c) r"
  have "(journal_wf (tr_command_journal r) \<longrightarrow> journal_wf (tr_command_journal r')) \<and> tr_in_flight_command r' = None \<and>
    dp_in_flight_command_id (tr_driver_progress r') = None \<and>
    tr_orchestration_backend r' = tr_orchestration_backend r \<and> tr_status r' = tr_status r"
  proof (cases "cj_malformed (tr_command_journal r) \<or>
      journal_find (cr_command_id c) (tr_command_journal r) \<noteq> None")
    case True
    then show ?thesis using none by (auto simp: r'_def settle_stranded_def Let_def)
  next
    case False
    then have fresh: "cr_command_id c \<notin> cr_command_id ` set (records r)"
      by (simp add: journal.find_None journal.keys_def)
    obtain b q where q: "recover_evict c ?w = (b, q)" by (cases "recover_evict c ?w") auto
    from recover_evict_facts [OF q]
    have f: "journal_wf (tr_command_journal r) \<Longrightarrow> journal_wf (tr_command_journal q)" "set (records q) \<subseteq> set (records r)"
      "tr_in_flight_command q = tr_in_flight_command r"
      "dp_in_flight_command_id (tr_driver_progress q) = dp_in_flight_command_id (tr_driver_progress r)"
      "tr_orchestration_backend q = tr_orchestration_backend r" "tr_status q = tr_status r"
      "b \<Longrightarrow> length (records q) < 64"
      by simp_all
    moreover have "b \<Longrightarrow> journal_wf (tr_command_journal r) \<Longrightarrow> journal_wf (journal_push c (tr_command_journal q))"
      using f(1,2,7) fresh by (intro journal_wf_push) auto
    ultimately show ?thesis
      using False q none by (cases b) (simp_all add: r'_def settle_stranded_def Let_def)
  qed
  then show "journal_wf (tr_command_journal r) \<Longrightarrow> journal_wf (tr_command_journal r')" "tr_in_flight_command r' = None"
    "dp_in_flight_command_id (tr_driver_progress r') = None"
    "tr_orchestration_backend r' = tr_orchestration_backend r" "tr_status r' = tr_status r"
    by blast+
qed

lemma recover_facts:
  fixes r
  defines "r' \<equiv> snd (recover_stranded_in_flight_command r)"
  shows "journal_wf (tr_command_journal r) \<Longrightarrow> journal_wf (tr_command_journal r')" "tr_in_flight_command r' = None"
    "dp_in_flight_command_id (tr_driver_progress r') = None"
    "tr_orchestration_backend r' = tr_orchestration_backend r" "tr_status r' = tr_status r"
  using settle_stranded_facts [of "take_markers r"]
  unfolding r'_def recover_stranded_in_flight_command_def
  by (auto simp: Let_def take_markers_def split: option.split)

text \<open>The second pass finds no marker left to consume.\<close>

lemma recover_none:
  assumes "tr_in_flight_command r = None" "dp_in_flight_command_id (tr_driver_progress r) = None"
  shows "recover_stranded_in_flight_command r = (False, r)"
proof -
  have "take_markers r = r"
    using assms by (cases r, cases "tr_driver_progress r") (simp add: take_markers_def)
  then show ?thesis using assms by (simp add: recover_stranded_in_flight_command_def)
qed

section \<open>The lifecycle part\<close>

lemma append_restore_error_fields [simp]:
  "durable (append_restore_error reason r) = durable r"
  "tr_status (append_restore_error reason r) = tr_status r"
  "tr_orchestration_backend (append_restore_error reason r) = tr_orchestration_backend r"
  "revision (append_restore_error reason r) = revision r"
  by (simp_all add: append_restore_error_def durable_def split: option.split)

lemma append_restore_error_contains:
  "\<exists>err. tr_error (append_restore_error reason r) = Some err \<and> contains_str err reason"
  by (auto simp: append_restore_error_def contains_str_append split: option.split)

lemma append_restore_error_again:
  "tr_error r = Some err \<Longrightarrow> contains_str err reason \<Longrightarrow> append_restore_error reason r = r"
  by (simp add: append_restore_error_def)

lemma durable_settled [simp]:
  "durable (r\<lparr>tr_pause_requested := a, tr_stopping := b, tr_awaiting := c, tr_status := s, tr_updated_at := now\<rparr>) = durable r"
  "durable (r\<lparr>tr_pause_requested := a, tr_stopping := b, tr_awaiting := c\<rparr>) = durable r"
  "durable (r\<lparr>tr_pause_requested := a, tr_stopping := b, tr_awaiting := c, tr_updated_at := now\<rparr>) = durable r"
  by (simp_all add: durable_def)

lemma durable_reconcile_lifecycle [simp]:
  "durable (snd (reconcile_lifecycle_after_restore now r)) = durable r"
  by (cases "tr_status r"; cases "non_executing_backend_reason r")
    (simp_all add: reconcile_lifecycle_after_restore_def Let_def)

lemma non_executing_reason_backend:
  "tr_orchestration_backend r' = tr_orchestration_backend r \<Longrightarrow>
     non_executing_backend_reason r' = non_executing_backend_reason r"
  by (simp add: non_executing_backend_reason_def)

lemma executable_backend:
  "tr_orchestration_backend r' = tr_orchestration_backend r \<Longrightarrow>
     is_executable_by_current_build r' = is_executable_by_current_build r"
  by (simp add: is_executable_by_current_build_def)

definition restored_status :: "bool \<Rightarrow> team_run_status \<Rightarrow> team_run_status" where
  "restored_status executable s =
     (if run_status_terminal s then s
      else if s = Run_Paused \<or> s = Run_PausePending \<or> s = Run_AwaitingUser then Run_Paused
      else if executable then Run_Interrupted else Run_Failed)"

lemma reconcile_lifecycle_status:
  "tr_status (snd (reconcile_lifecycle_after_restore now r)) =
     restored_status (is_executable_by_current_build r) (tr_status r)"
proof -
  have e: "is_executable_by_current_build (append_restore_error reason r) = is_executable_by_current_build r"
    for reason by (rule executable_backend) simp
  have s: "tr_status (snd (settle_paused reason kind now q)) = Run_Paused"
    if "tr_status q = Run_PausePending \<or> tr_status q = Run_AwaitingUser" for reason kind q
    using that by (auto simp: settle_paused_def run_status_terminal_def
        run_status_settled_without_driver_def)
  show ?thesis
    by (cases "tr_status r"; cases "non_executing_backend_reason r")
      (simp_all add: reconcile_lifecycle_after_restore_def Let_def restored_status_def e s
        mark_interrupted_if_stranded_def run_status_terminal_def run_status_resumable_def)
qed

text \<open>A second pass over a reconciled lifecycle changes nothing.\<close>

lemma reconcile_lifecycle_idem:
  fixes now now' r
  defines "r' \<equiv> snd (reconcile_lifecycle_after_restore now r)"
  shows "reconcile_lifecycle_after_restore now' r' = (False, r')"
proof (cases "run_status_terminal (tr_status r')")
  case True
  then show ?thesis by (simp add: reconcile_lifecycle_after_restore_def)
next
  case False
  have st: "tr_status r' = Run_Paused"
    using False reconcile_lifecycle_status [of now r]
    by (auto simp: r'_def restored_status_def run_status_terminal_def split: if_splits)
  then have live: "tr_status r = Run_Paused \<or> tr_status r = Run_PausePending \<or> tr_status r = Run_AwaitingUser"
    using reconcile_lifecycle_status [of now r]
    by (auto simp: r'_def restored_status_def run_status_terminal_def split: if_splits)
  let ?e = "case non_executing_backend_reason r of None \<Rightarrow> r | Some reason \<Rightarrow> append_restore_error reason r"
  have flags: "\<not> tr_pause_requested r' \<and> \<not> tr_stopping r' \<and> tr_awaiting r' = None \<and> tr_error r' = tr_error ?e"
  proof -
    have s: "\<not> tr_pause_requested (snd (settle_paused reason kind now q)) \<and>
        \<not> tr_stopping (snd (settle_paused reason kind now q)) \<and>
        tr_awaiting (snd (settle_paused reason kind now q)) = None \<and>
        tr_error (snd (settle_paused reason kind now q)) = tr_error q"
      if "tr_status q = Run_PausePending \<or> tr_status q = Run_AwaitingUser" for reason kind q
      using that by (auto simp: settle_paused_def run_status_terminal_def
          run_status_settled_without_driver_def invalidate_driver_decisions_def)
    have rb: "tr_error (rollback_current_round q) = tr_error q" for q
      by (simp add: rollback_current_round_def Let_def split: option.split)
    show ?thesis
      using live by (elim disjE; cases "non_executing_backend_reason r")
        (simp_all add: r'_def reconcile_lifecycle_after_restore_def Let_def s rb run_status_terminal_def)
  qed
  have backend: "non_executing_backend_reason r' = non_executing_backend_reason r"
    unfolding r'_def
    by (rule non_executing_reason_backend [OF durableD(1) [OF durable_reconcile_lifecycle]])
  have e: "(case non_executing_backend_reason r' of None \<Rightarrow> r' | Some reason \<Rightarrow> append_restore_error reason r') = r'"
  proof (cases "non_executing_backend_reason r")
    case (Some reason)
    then obtain err where "tr_error r' = Some err" "contains_str err reason"
      using flags append_restore_error_contains [of reason r] by auto
    then show ?thesis by (simp add: backend Some append_restore_error_again)
  qed (simp add: backend)
  have same: "r'\<lparr>tr_pause_requested := False, tr_stopping := False, tr_awaiting := None\<rparr> = r'"
    using flags by (cases r') simp
  show ?thesis
    using st flags by (simp add: reconcile_lifecycle_after_restore_def Let_def e same run_status_terminal_def)
qed

section \<open>Reconciliation as a whole\<close>

lemma reconcile_eq:
  "snd (reconcile_after_restore now r) =
     snd (reconcile_lifecycle_after_restore now (snd (repair_command_journal_watermark
       (snd (recover_stranded_in_flight_command r)))))"
  by (simp add: reconcile_after_restore_def split: prod.split)

lemma reconcile_durable:
  "durable (snd (reconcile_after_restore now r)) =
     durable (snd (repair_command_journal_watermark (snd (recover_stranded_in_flight_command r))))"
  by (simp add: reconcile_eq)

lemma reconcile_markers:
  "tr_in_flight_command (snd (reconcile_after_restore now r)) = None"
  "dp_in_flight_command_id (tr_driver_progress (snd (reconcile_after_restore now r))) = None"
  "tr_orchestration_backend (snd (reconcile_after_restore now r)) = tr_orchestration_backend r"
  using durableD [OF reconcile_durable [of now r]] recover_facts [of r] by simp_all

text \<open>
  Restoring is a fixed point: reconciling a run that has already been reconciled reports no
  change and leaves every field as it is, whatever state the run was persisted in.
\<close>

theorem reconcile_idempotent:
  "reconcile_after_restore now' (snd (reconcile_after_restore now r)) =
     (False, snd (reconcile_after_restore now r))"
proof -
  let ?r = "snd (reconcile_after_restore now r)"
  let ?q = "snd (repair_command_journal_watermark (snd (recover_stranded_in_flight_command r)))"
  have "repair_command_journal_watermark ?r = (False, ?r)"
  proof (cases "cj_malformed (tr_command_journal ?r)")
    case True
    then show ?thesis by (simp add: repair_command_journal_watermark_def)
  next
    case False
    note d = durableD [OF reconcile_durable [of now r]]
    from False have "watermark_covers ?q" using repair_covers d(2) by (simp add: d)
    then have "watermark_covers ?r" unfolding watermark_covers_def d by simp
    then show ?thesis by (rule repair_covered)
  qed
  moreover have "reconcile_lifecycle_after_restore now' ?r = (False, ?r)"
    unfolding reconcile_eq by (rule reconcile_lifecycle_idem)
  ultimately show ?thesis
    unfolding reconcile_after_restore_def [of now' ?r]
    using recover_none [OF reconcile_markers(1,2)] by simp
qed

text \<open>
  Whatever was persisted, a restored run has no live transition left: its status is terminal
  or a pause (\<open>restored_status\<close> says which), no command is in flight, its journal is within the
  cap with distinct ids, and unless the journal is malformed the watermark covers every record.
\<close>

theorem reconcile_settles:
  "let r' = snd (reconcile_after_restore now
              (r\<lparr>tr_command_journal := deserialize_journal from_value v\<rparr>))
   in tr_status r' = restored_status (is_executable_by_current_build r) (tr_status r) \<and>
      tr_in_flight_command r' = None \<and> dp_in_flight_command_id (tr_driver_progress r') = None \<and>
      journal_wf (tr_command_journal r') \<and>
      (cj_malformed (tr_command_journal r') \<or> watermark_covers r')"
proof -
  let ?r = "r\<lparr>tr_command_journal := deserialize_journal from_value v\<rparr>"
  define r' where "r' = snd (reconcile_after_restore now ?r)"
  let ?q = "snd (repair_command_journal_watermark (snd (recover_stranded_in_flight_command ?r)))"
  note d = durableD [OF reconcile_durable [of now ?r]]
  have ex: "is_executable_by_current_build ?q = is_executable_by_current_build r"
    by (rule executable_backend) (simp add: recover_facts)
  have "tr_status r' = restored_status (is_executable_by_current_build r) (tr_status r)"
    unfolding r'_def reconcile_eq reconcile_lifecycle_status ex by (simp add: recover_facts)
  moreover have "journal_wf (tr_command_journal r')"
    unfolding r'_def d using recover_facts(1) [of ?r] deserialize_journal_wf by simp
  moreover have "cj_malformed (tr_command_journal r') \<or> watermark_covers r'"
    using repair_covers [of "snd (recover_stranded_in_flight_command ?r)"]
    unfolding r'_def watermark_covers_def d by auto
  ultimately show ?thesis by (simp add: r'_def Let_def reconcile_markers)
qed

section \<open>An interrupted command after a restart\<close>

lemma recover_evict_makes_room:
  assumes fresh: "cr_command_id rc \<notin> cr_command_id ` set (records r)" and len: "length (records r) \<le> 64"
  obtains q where "recover_evict rc r = (True, q)" "cr_command_id rc \<notin> cr_command_id ` set (records q)"
    "length (records q) < 64" "\<not> cj_malformed (tr_command_journal r) \<longrightarrow> \<not> cj_malformed (tr_command_journal q)"
proof -
  have "fst (recover_evict rc r)"
  proof (cases "length (records r) < 64")
    case True
    then show ?thesis by (subst recover_evict.simps) (simp add: journal_len_def MAX_TEAM_COMMAND_JOURNAL_def)
  next
    case False
    with len obtain c cs where c: "records r = c # cs" "length cs = 63" by (cases "records r") auto
    let ?j = "(tr_command_journal r)\<lparr>cj_records := cs\<rparr>"
    have "journal_remove_first (\<lambda>c. cr_command_id c \<noteq> cr_command_id rc) (tr_command_journal r) = Some (c, ?j)"
      using c fresh by (auto simp: journal_remove_first_def)
    with c have "recover_evict rc r = recover_evict rc
        (let r = raise_watermark (cr_sequence c) (r\<lparr>tr_command_journal := ?j\<rparr>)
         in if cr_kind c = Cmd_TakeUserNotes then drop_drained_notes (cr_command_id c) r else r)"
      by (subst recover_evict.simps) (simp add: journal_len_def MAX_TEAM_COMMAND_JOURNAL_def Let_def)
    then show ?thesis
      using c by (subst (asm) (2) recover_evict.simps)
        (auto simp: journal_len_def MAX_TEAM_COMMAND_JOURNAL_def drop_drained_notes_def Let_def)
  qed
  then obtain q where q: "recover_evict rc r = (True, q)" by (cases "recover_evict rc r") auto
  show thesis
    using recover_evict_facts [OF q] fresh by (intro that [OF q]) auto
qed

lemma find_pushed:
  assumes "cr_command_id c \<notin> cr_command_id ` set (cj_records j)"
  shows "journal_find (cr_command_id c) (journal_push c j) = Some c"
proof -
  have "List.find (\<lambda>r. cr_command_id r = cr_command_id c) (cj_records j) = None"
    unfolding find_None_iff using assms by (metis imageI)
  then show ?thesis by (simp add: journal_find_def journal_push_def find_append_None)
qed

lemma recover_typed:
  assumes c: "tr_in_flight_command r = Some c"
    and legacy: "dp_in_flight_command_id (tr_driver_progress r) \<in> {None, Some (ifc_command_id c)}"
    and wf: "journal_wf (tr_command_journal r)" "\<not> cj_malformed (tr_command_journal r)"
    and fresh: "journal_find (ifc_command_id c) (tr_command_journal r) = None"
  defines "r' \<equiv> snd (recover_stranded_in_flight_command r)"
  shows "journal_find (ifc_command_id c) (tr_command_journal r') = Some (into_interrupted_record c)"
    "\<not> cj_malformed (tr_command_journal r')"
    "dp_malformed (tr_driver_progress r') = dp_malformed (tr_driver_progress r)"
proof -
  let ?c = "into_interrupted_record c"
  have i: "cr_command_id ?c = ifc_command_id c" by (simp add: into_interrupted_record_def)
  let ?w = "raise_watermark (cr_sequence ?c) (take_markers r)"
  have "cr_command_id ?c \<notin> cr_command_id ` set (records ?w)" "length (records ?w) \<le> 64"
    using wf fresh by (simp_all add: i journal.find_None journal.keys_def journal_wf_def
        journal_len_def MAX_TEAM_COMMAND_JOURNAL_def)
  from recover_evict_makes_room [OF this] obtain q where q: "recover_evict ?c ?w = (True, q)"
      "cr_command_id ?c \<notin> cr_command_id ` set (records q)"
      "\<not> cj_malformed (tr_command_journal ?w) \<longrightarrow> \<not> cj_malformed (tr_command_journal q)"
    by blast
  have "r' = q\<lparr>tr_command_journal := journal_push ?c (tr_command_journal q)\<rparr>"
    using c legacy wf fresh q(1)
    by (auto simp: r'_def recover_stranded_in_flight_command_def settle_stranded_def Let_def i)
  with wf(2) q(2,3) find_pushed [of ?c "tr_command_journal q"] recover_evict_facts [OF q(1)]
  show "journal_find (ifc_command_id c) (tr_command_journal r') = Some ?c"
    "\<not> cj_malformed (tr_command_journal r')"
    "dp_malformed (tr_driver_progress r') = dp_malformed (tr_driver_progress r)"
    by (simp_all add: i)
qed

text \<open>
  A command that was in flight when the relay stopped is answered after the restart: the same
  envelope gets the \<open>Interrupted\<close> receipt with the counters of the marker, a different envelope
  under its id gets \<open>DuplicateCommand\<close>, and neither changes the restored run.
\<close>

theorem stranded_command_replays:
  assumes c: "tr_in_flight_command r = Some c"
    and legacy: "dp_in_flight_command_id (tr_driver_progress r) \<in> {None, Some (ifc_command_id c)}"
    and wf: "journal_wf (tr_command_journal r)" "\<not> cj_malformed (tr_command_journal r)"
      "\<not> dp_malformed (tr_driver_progress r)" "is_executable_by_current_build r"
    and fresh: "journal_find (ifc_command_id c) (tr_command_journal r) = None"
    and e: "env_command_id e = ifc_command_id c" "env_protocol_version e = TEAM_COMMAND_PROTOCOL_VERSION"
      "compute_fingerprint h run_id e = ifc_fingerprint c"
    and other: "env_command_id other = ifc_command_id c"
      "env_protocol_version other = TEAM_COMMAND_PROTOCOL_VERSION"
      "compute_fingerprint h run_id other \<noteq> ifc_fingerprint c"
  shows "let r' = snd (reconcile_after_restore now r) in
    submit_command h tk working run_id e r' =
      ((\<lparr>rcpt_command_id = ifc_command_id c, rcpt_sequence = env_sequence e,
         rcpt_state_revision = ifc_state_revision c, rcpt_last_event_seq = ifc_last_event_seq c,
         rcpt_status = Status_Interrupted\<rparr>, False), r') \<and>
    submit_command h tk working run_id other r' =
      ((snapshot_receipt r' (ifc_command_id c) (env_sequence other)
         (Status_Rejected Rej_DuplicateCommand), False), r')"
proof -
  define r' where "r' = snd (reconcile_after_restore now r)"
  note d = durableD [OF reconcile_durable [of now r]]
  note rt = recover_typed [OF c legacy wf(1,2) fresh]
  have "is_executable_by_current_build r'"
    unfolding r'_def using wf(4) executable_backend [OF reconcile_markers(3)] by blast
  moreover have "journal_find (ifc_command_id c) (tr_command_journal r') = Some (into_interrupted_record c)"
    "\<not> cj_malformed (tr_command_journal r')" "\<not> dp_malformed (tr_driver_progress r')"
    unfolding r'_def d using rt wf(3) by simp_all
  ultimately show ?thesis
    using e other
    by (simp add: Let_def r'_def [symmetric] submit_command_def preflight_team_command_identity_def record_matches_def
        into_interrupted_record_def replay_receipt_def replay_status_def)
qed

definition sample_in_flight :: in_flight_command where
  "sample_in_flight =
     \<lparr>ifc_command_id = Command_Id ''cmd-1'', ifc_fingerprint =
        compute_fingerprint sample_host ''run-1'' (sample_envelope ''cmd-1'' 1 0 TakeUserNotes),
      ifc_kind = Cmd_TakeUserNotes, ifc_sequence = 1, ifc_expected_revision = 0,
      ifc_state_revision = 0, ifc_last_event_seq = 0\<rparr>"

lemma stranded_command_replays_witness:
  "rcpt_status (fst (fst (submit_command sample_host sample_tick [] ''run-1''
      (sample_envelope ''cmd-1'' 1 0 TakeUserNotes)
      (snd (reconcile_after_restore 7 (sample_run\<lparr>tr_in_flight_command := Some sample_in_flight\<rparr>)))))) =
     Status_Interrupted \<and>
   rcpt_status (fst (fst (submit_command sample_host sample_tick [] ''run-1''
      (sample_envelope ''cmd-1'' 2 0 TakeUserNotes)
      (snd (reconcile_after_restore 7 (sample_run\<lparr>tr_in_flight_command := Some sample_in_flight\<rparr>)))))) =
     Status_Rejected Rej_DuplicateCommand"
  using stranded_command_replays [of "sample_run\<lparr>tr_in_flight_command := Some sample_in_flight\<rparr>"
      sample_in_flight "sample_envelope ''cmd-1'' 1 0 TakeUserNotes" sample_host "''run-1''"
      "sample_envelope ''cmd-1'' 2 0 TakeUserNotes" 7 sample_tick "[]"]
  by (simp add: Let_def sample_in_flight_def sample_defs journal_wf_def sample_host_def
      is_executable_by_current_build_def snapshot_receipt_def)

end
