(* ===== verification/Team_Threads.thy ===== *)
theory Team_Threads
  imports Team_Plan
begin

text \<open>
  The threads a run owns (\<open>crates/relay-api/src/team.rs\<close>): who sits in a slot, which threads a
  drain must reach, which provider serves a thread, and how a deleted seat is let go.
\<close>

section \<open>Definitions\<close>

definition thread_in_slot :: "team_thread_slot \<Rightarrow> team_run \<Rightarrow> string option" where
  "thread_in_slot slot r =
     (case (case slot of
              Slot_Tl \<Rightarrow> Some (tr_tl_thread_id r)
            | Slot_SubTaskDev index \<Rightarrow>
                Option.bind (get_opt (tr_sub_tasks r) index) st_dev_thread_id
            | Slot_SubTaskReviewer index \<Rightarrow>
                Option.bind (get_opt (tr_sub_tasks r) index) st_reviewer_thread_id
            | Slot_RunOwned index \<Rightarrow> get_opt (tr_run_owned_thread_ids r) index
            | Slot_MrDev \<Rightarrow> tr_mr_dev_thread_id r) of
        None \<Rightarrow> None
      | Some i \<Rightarrow> if i \<noteq> [] then Some i else None)"

definition record_run_thread :: "string \<Rightarrow> u64 \<Rightarrow> team_run \<Rightarrow> team_run" where
  "record_run_thread thread_id now r =
     (if thread_id = [] \<or> thread_id \<in> set (tr_run_owned_thread_ids r) then r
      else r\<lparr>tr_run_owned_thread_ids := tr_run_owned_thread_ids r @ [thread_id],
             tr_updated_at := now\<rparr>)"

definition record_run_thread_role :: "string \<Rightarrow> team_role \<Rightarrow> u64 \<Rightarrow> team_run \<Rightarrow> team_run" where
  "record_run_thread_role thread_id role now r =
     (if thread_id = [] then r
      else r\<lparr>tr_run_owned_thread_roles :=
               AList.update thread_id (role_as_str role) (tr_run_owned_thread_roles r),
             tr_updated_at := now\<rparr>)"

definition record_owned_thread_provider :: "string \<Rightarrow> string \<Rightarrow> u64 \<Rightarrow> team_run \<Rightarrow> team_run" where
  "record_owned_thread_provider thread_id provider now r =
     (if thread_id = [] \<or> provider = [] then r
      else r\<lparr>tr_owned_thread_providers :=
               AList.update thread_id provider (tr_owned_thread_providers r),
             tr_updated_at := now\<rparr>)"

text \<open>The candidates in the order of the chained iterators, and the deduplicating loop.\<close>

definition option_list :: "'a option \<Rightarrow> 'a list" where
  "option_list x = (case x of None \<Rightarrow> [] | Some a \<Rightarrow> [a])"

definition task_thread_ids :: "sub_task \<Rightarrow> string list" where
  "task_thread_ids t =
     st_owned_thread_ids t @ option_list (st_dev_thread_id t) @ option_list (st_reviewer_thread_id t)"

definition thread_candidates :: "team_run \<Rightarrow> string list" where
  "thread_candidates r =
     [tr_tl_thread_id r] @ map tg_thread_id (tr_tl_succession r) @ tr_run_owned_thread_ids r @
     option_list (tr_mr_dev_thread_id r) @ option_list (tr_reviewer_thread_id r) @
     concat (map task_thread_ids (tr_sub_tasks r))"

fun dedup_ids :: "string list \<Rightarrow> string list \<Rightarrow> string list" where
  "dedup_ids ids [] = ids"
| "dedup_ids ids (i # rest) =
     (if i \<noteq> [] \<and> i \<notin> set ids then dedup_ids (ids @ [i]) rest else dedup_ids ids rest)"

definition owned_thread_ids :: "team_run \<Rightarrow> string list" where
  "owned_thread_ids r = dedup_ids [] (thread_candidates r)"

definition named_provider :: "string \<Rightarrow> string option" where
  "named_provider provider = (if provider \<noteq> [] then Some provider else None)"

fun provider_in_tasks :: "string \<Rightarrow> team_run \<Rightarrow> sub_task list \<Rightarrow> string option" where
  "provider_in_tasks thread_id r [] = None"
| "provider_in_tasks thread_id r (t # ts) =
     (if st_reviewer_thread_id t = Some thread_id then named_provider (tr_reviewer_provider r)
      else if st_dev_thread_id t = Some thread_id then named_provider (tr_dev_provider r)
      else if thread_id \<in> set (st_owned_thread_ids t) then None
      else provider_in_tasks thread_id r ts)"

definition provider_for_owned_thread :: "string \<Rightarrow> team_run \<Rightarrow> string option" where
  "provider_for_owned_thread thread_id r =
     (if thread_id = [] then None
      else case map_of (tr_owned_thread_providers r) thread_id of
        Some provider \<Rightarrow> named_provider provider
      | None \<Rightarrow>
        if tr_tl_thread_id r = thread_id \<or> list_ex (\<lambda>g. tg_thread_id g = thread_id) (tr_tl_succession r)
        then named_provider (tr_tl_provider r)
        else if tr_mr_dev_thread_id r = Some thread_id then named_provider (tr_dev_provider r)
        else if tr_reviewer_thread_id r = Some thread_id then named_provider (tr_reviewer_provider r)
        else (case map_of (tr_run_owned_thread_roles r) thread_id of
          Some role \<Rightarrow>
            (if role = ''reviewer'' then named_provider (tr_reviewer_provider r)
             else if role = ''tl'' \<or> role = ''lead'' then named_provider (tr_tl_provider r)
             else if role = ''dev'' then named_provider (tr_dev_provider r)
             else None)
        | None \<Rightarrow>
            if thread_id \<in> set (tr_run_owned_thread_ids r) then None
            else provider_in_tasks thread_id r (tr_sub_tasks r)))"

definition clear_seat :: "string \<Rightarrow> string option \<Rightarrow> string option" where
  "clear_seat thread_id seat = (if seat = Some thread_id then None else seat)"

definition release_task_thread :: "string \<Rightarrow> sub_task \<Rightarrow> sub_task" where
  "release_task_thread thread_id t =
     t\<lparr>st_dev_thread_id := clear_seat thread_id (st_dev_thread_id t),
       st_reviewer_thread_id := clear_seat thread_id (st_reviewer_thread_id t),
       st_owned_thread_ids := filter (\<lambda>i. i \<noteq> thread_id) (st_owned_thread_ids t)\<rparr>"

definition release_references :: "string \<Rightarrow> team_run \<Rightarrow> team_run" where
  "release_references thread_id r =
     r\<lparr>tr_tl_thread_id := (if tr_tl_thread_id r = thread_id then [] else tr_tl_thread_id r),
       tr_tl_succession := filter (\<lambda>g. tg_thread_id g \<noteq> thread_id) (tr_tl_succession r),
       tr_run_owned_thread_ids := filter (\<lambda>i. i \<noteq> thread_id) (tr_run_owned_thread_ids r),
       tr_run_owned_thread_roles := AList.delete thread_id (tr_run_owned_thread_roles r),
       tr_owned_thread_providers := AList.delete thread_id (tr_owned_thread_providers r),
       tr_mr_dev_thread_id := clear_seat thread_id (tr_mr_dev_thread_id r),
       tr_reviewer_thread_id := clear_seat thread_id (tr_reviewer_thread_id r),
       tr_sub_tasks := map (release_task_thread thread_id) (tr_sub_tasks r)\<rparr>"

text \<open>The code's \<open>changed\<close> flag: some reference to the thread was there.\<close>

definition references_thread :: "string \<Rightarrow> team_run \<Rightarrow> bool" where
  "references_thread thread_id r \<longleftrightarrow>
     tr_tl_thread_id r = thread_id \<or>
     list_ex (\<lambda>g. tg_thread_id g = thread_id) (tr_tl_succession r) \<or>
     thread_id \<in> set (tr_run_owned_thread_ids r) \<or>
     map_of (tr_run_owned_thread_roles r) thread_id \<noteq> None \<or>
     map_of (tr_owned_thread_providers r) thread_id \<noteq> None \<or>
     tr_mr_dev_thread_id r = Some thread_id \<or> tr_reviewer_thread_id r = Some thread_id \<or>
     list_ex (\<lambda>t. st_dev_thread_id t = Some thread_id \<or> st_reviewer_thread_id t = Some thread_id
                 \<or> thread_id \<in> set (st_owned_thread_ids t)) (tr_sub_tasks r)"

definition release_owned_thread :: "string \<Rightarrow> u64 \<Rightarrow> team_run \<Rightarrow> team_run" where
  "release_owned_thread thread_id now r =
     (if thread_id = [] then r
      else let changed = references_thread thread_id r; r = release_references thread_id r
        in if changed then r\<lparr>tr_updated_at := now\<rparr> else r)"

section \<open>Owned threads\<close>

lemma dedup_ids_spec:
  "distinct ids \<Longrightarrow> [] \<notin> set ids \<Longrightarrow>
     distinct (dedup_ids ids xs) \<and> set (dedup_ids ids xs) = (set ids \<union> set xs) - {[]}"
  by (induction ids xs rule: dedup_ids.induct) auto

lemma owned_thread_ids_set: "set (owned_thread_ids r) = set (thread_candidates r) - {[]}"
  using dedup_ids_spec [of "[]" "thread_candidates r"] by (simp add: owned_thread_ids_def)

lemma slot_thread_candidate:
  assumes "thread_in_slot slot r = Some i"
  shows "i \<in> set (thread_candidates r)" "i \<noteq> []"
proof -
  have "(case slot of
      Slot_Tl \<Rightarrow> i = tr_tl_thread_id r
    | Slot_SubTaskDev index \<Rightarrow> index < length (tr_sub_tasks r) \<and> st_dev_thread_id (tr_sub_tasks r ! index) = Some i
    | Slot_SubTaskReviewer index \<Rightarrow> index < length (tr_sub_tasks r) \<and> st_reviewer_thread_id (tr_sub_tasks r ! index) = Some i
    | Slot_RunOwned index \<Rightarrow> index < length (tr_run_owned_thread_ids r) \<and> tr_run_owned_thread_ids r ! index = i
    | Slot_MrDev \<Rightarrow> tr_mr_dev_thread_id r = Some i) \<and> i \<noteq> []"
    using assms by (cases slot)
      (auto simp: thread_in_slot_def get_opt_def bind_eq_Some_conv split: option.splits if_splits)
  then show "i \<in> set (thread_candidates r)" "i \<noteq> []"
    by (cases slot; force simp: thread_candidates_def option_list_def task_thread_ids_def
        in_set_conv_nth)+
qed

lemma slot_thread_owned: "thread_in_slot slot r = Some i \<Longrightarrow> i \<in> set (owned_thread_ids r)"
  using slot_thread_candidate [of slot r i] by (simp add: owned_thread_ids_set)

text \<open>
  A drain reaches everybody: the owned threads of a run are listed once each, without the
  empty id, and include whoever sits in any slot of the run.
\<close>

theorem owned_threads_cover_slots:
  "distinct (owned_thread_ids r) \<and> [] \<notin> set (owned_thread_ids r) \<and>
   (\<forall>slot. case thread_in_slot slot r of None \<Rightarrow> True | Some i \<Rightarrow> i \<in> set (owned_thread_ids r))"
proof -
  have "distinct (owned_thread_ids r) \<and> [] \<notin> set (owned_thread_ids r)"
    using dedup_ids_spec [of "[]" "thread_candidates r"] by (simp add: owned_thread_ids_def)
  then show ?thesis by (auto split: option.split dest: slot_thread_owned)
qed

section \<open>Releasing a seat\<close>

lemma clear_seat_list: "set (option_list (clear_seat i s)) = set (option_list s) - {i}"
  by (auto simp: clear_seat_def option_list_def split: option.splits)

lemma release_task_ids:
  "set (task_thread_ids (release_task_thread i t)) = set (task_thread_ids t) - {i}"
  by (auto simp: task_thread_ids_def release_task_thread_def clear_seat_list)

lemma release_candidates:
  "set (thread_candidates (release_references i r)) - {[]} = set (thread_candidates r) - {[], i}"
  by (auto simp: thread_candidates_def release_references_def clear_seat_list release_task_ids)

lemma update_time_threads [simp]:
  "thread_candidates (r\<lparr>tr_updated_at := now\<rparr>) = thread_candidates r"
  "provider_in_tasks i (r\<lparr>tr_updated_at := now\<rparr>) ts = provider_in_tasks i r ts"
  "thread_in_slot slot (r\<lparr>tr_updated_at := now\<rparr>) = thread_in_slot slot r"
  "references_thread i (r\<lparr>tr_updated_at := now\<rparr>) = references_thread i r"
  by (induction ts) (simp_all add: thread_candidates_def thread_in_slot_def references_thread_def
      cong: team_thread_slot.case_cong)

lemma provider_update_time [simp]:
  "provider_for_owned_thread i (r\<lparr>tr_updated_at := now\<rparr>) = provider_for_owned_thread i r"
  by (simp add: provider_for_owned_thread_def split: option.split)

lemma owned_update_time [simp]: "owned_thread_ids (r\<lparr>tr_updated_at := now\<rparr>) = owned_thread_ids r"
  by (simp add: owned_thread_ids_def)

lemma release_owned_ids:
  "set (owned_thread_ids (release_owned_thread i now r)) = set (owned_thread_ids r) - {i}"
  using release_candidates [of i r]
  by (auto simp: owned_thread_ids_set release_owned_thread_def Let_def)

lemma provider_in_released_tasks:
  "provider_in_tasks i q (map (release_task_thread i) ts) = None"
  by (induction ts) (auto simp: release_task_thread_def clear_seat_def)

lemma references_released: "i \<noteq> [] \<Longrightarrow> \<not> references_thread i (release_references i r)"
  by (auto simp: references_thread_def release_references_def release_task_thread_def clear_seat_def
      list_ex_iff delete_conv')

lemma provider_released: "provider_for_owned_thread i (release_owned_thread i now r) = None"
proof (cases "i = []")
  case True
  then show ?thesis by (simp add: provider_for_owned_thread_def)
next
  case False
  then have "provider_for_owned_thread i (release_references i r) = None"
    using references_released [OF False, of r] provider_in_released_tasks [of i _ "tr_sub_tasks r"]
    by (auto simp: provider_for_owned_thread_def references_thread_def release_references_def
        list_ex_iff split: option.split)
  with False show ?thesis by (simp add: release_owned_thread_def Let_def)
qed

lemma release_idem:
  "release_references i (release_references i r) = release_references i r"
proof -
  have t: "release_task_thread i (release_task_thread i t) = release_task_thread i t" for t
    by (simp add: release_task_thread_def clear_seat_def)
  have d: "AList.delete i (AList.delete i m) = AList.delete i m" for m :: "(string \<times> string) list"
    by (simp add: delete_idem)
  show ?thesis by (simp add: release_references_def clear_seat_def d t comp_def)
qed

lemma release_references_time:
  "release_references i (r\<lparr>tr_updated_at := now\<rparr>) = (release_references i r)\<lparr>tr_updated_at := now\<rparr>"
  by (simp add: release_references_def)

text \<open>
  Deleting a seat leaves durable progress: after \<open>release_owned_thread\<close> no slot, owned-thread
  list or provider lookup names the thread, every other owned thread is still owned, and a retry
  of the deletion changes nothing.
\<close>

theorem release_forgets_thread:
  "set (owned_thread_ids (release_owned_thread i now r)) = set (owned_thread_ids r) - {i} \<and>
   provider_for_owned_thread i (release_owned_thread i now r) = None \<and>
   (\<forall>slot. thread_in_slot slot (release_owned_thread i now r) \<noteq> Some i) \<and>
   release_owned_thread i now' (release_owned_thread i now r) = release_owned_thread i now r"
proof -
  have "thread_in_slot slot (release_owned_thread i now r) \<noteq> Some i" for slot
    using slot_thread_owned [of slot "release_owned_thread i now r" i] release_owned_ids [of i now r]
    by auto
  moreover have "release_owned_thread i now' (release_owned_thread i now r) = release_owned_thread i now r"
    using references_released [of i r]
    by (auto simp: release_owned_thread_def Let_def release_idem release_references_time)
  ultimately show ?thesis by (simp add: release_owned_ids provider_released)
qed

end
