(* ===== verification/Run_Machine.thy ===== *)
theory Run_Machine
  imports Team_Restore Team_Threads
begin

text \<open>
  A run's whole life as a state machine: every delivery of a driver command, every user and
  lifeguard operation of \<open>impl TeamRun\<close>, every edit of the host and every restart is one event,
  and a run is \<open>reachable\<close> when events take a new run to it. Each event is one hold of the relay
  write lock in the code.
\<close>

section \<open>Events\<close>

datatype run_action =
    Deliver tick "string list" command_envelope
  | RequestPause string
  | RequestStop string
  | SettlePaused string team_pause_kind
  | Resume
  | Cancel string
  | ForceMark team_run_status
  | SetStatus team_run_status
  | Fail string
  | Block string
  | BeginResolving
  | ResolveAsPaused string team_pause_kind
  | RestoreBlocked string
  | LoseDriver
  | RequestReseed string
  | RetireLead string
  | ReviveSubTasks "string list option"
  | MessageTeam string
  | WidenScope string
  | Reopen string task_spec_updates string
  | RecordThread string
  | RecordThreadRole string team_role
  | RecordThreadProvider string string
  | ReleaseThread string
  | Restart

fun run_step :: "host \<Rightarrow> string \<Rightarrow> team_run \<Rightarrow> u64 \<times> run_action \<Rightarrow> team_run" where
  "run_step h run_id r (now, Deliver tk working e) = snd (submit_command h tk working run_id e r)"
| "run_step h run_id r (now, RequestPause device_id) = request_pause device_id now r"
| "run_step h run_id r (now, RequestStop device_id) = request_stop device_id now r"
| "run_step h run_id r (now, SettlePaused reason kind) = snd (settle_paused reason kind now r)"
| "run_step h run_id r (now, Resume) = snd (resume now r)"
| "run_step h run_id r (now, Cancel reason) = snd (cancel reason now r)"
| "run_step h run_id r (now, ForceMark status) = snd (force_mark_status status now r)"
| "run_step h run_id r (now, SetStatus status) = set_status status now r"
| "run_step h run_id r (now, Fail err) = fail_run err now r"
| "run_step h run_id r (now, Block err) = block_run err now r"
| "run_step h run_id r (now, BeginResolving) = snd (begin_resolving_blocked now r)"
| "run_step h run_id r (now, ResolveAsPaused reason kind) = snd (resolve_as_paused reason kind now r)"
| "run_step h run_id r (now, RestoreBlocked err) = snd (restore_resolving_as_blocked err now r)"
| "run_step h run_id r (now, LoseDriver) = snd (mark_interrupted_if_stranded now r)"
| "run_step h run_id r (now, RequestReseed reason) = request_tl_reseed reason now r"
| "run_step h run_id r (now, RetireLead reason) = snd (retire_tl reason now r)"
| "run_step h run_id r (now, ReviveSubTasks only) = snd (revive_sub_tasks only now r)"
| "run_step h run_id r (now, MessageTeam note_text) = snd (message_team note_text now r)"
| "run_step h run_id r (now, WidenScope addition) = snd (widen_run_scope addition r)"
| "run_step h run_id r (now, Reopen instruction updates sha) =
     (case reopen_record instruction updates sha r of Inl _ \<Rightarrow> r | Inr r' \<Rightarrow> r')"
| "run_step h run_id r (now, RecordThread i) = record_run_thread i now r"
| "run_step h run_id r (now, RecordThreadRole i role) = record_run_thread_role i role now r"
| "run_step h run_id r (now, RecordThreadProvider i p) = record_owned_thread_provider i p now r"
| "run_step h run_id r (now, ReleaseThread i) = release_owned_thread i now r"
| "run_step h run_id r (now, Restart) = snd (reconcile_after_restore now r)"

definition run_events :: "host \<Rightarrow> string \<Rightarrow> (u64 \<times> run_action) list \<Rightarrow> team_run \<Rightarrow> team_run" where
  "run_events h run_id evs r = fold (\<lambda>ev r. run_step h run_id r ev) evs r"

inductive reachable :: "host \<Rightarrow> string \<Rightarrow> team_run \<Rightarrow> bool" for h run_id where
  created: "reachable h run_id (new_team_run run_id spec cwd device_id now)"
| stepped: "reachable h run_id r \<Longrightarrow> reachable h run_id (run_step h run_id r ev)"

text \<open>The events that are neither a delivery nor a restart leave the durable state alone.\<close>

fun is_local :: "run_action \<Rightarrow> bool" where
  "is_local (Deliver _ _ _) = False"
| "is_local Restart = False"
| "is_local _ = True"

lemma durable_threads [simp]:
  "durable (record_run_thread i now r) = durable r"
  "durable (record_run_thread_role i role now r) = durable r"
  "durable (record_owned_thread_provider i p now r) = durable r"
  "durable (release_owned_thread i now r) = durable r"
  by (simp_all add: durable_def record_run_thread_def record_run_thread_role_def Let_def
      record_owned_thread_provider_def release_owned_thread_def release_references_def)

lemma durable_reopen:
  "reopen_record instruction updates sha r = Inr r' \<Longrightarrow> durable r' = durable r"
  by (auto simp: reopen_record_def durable_def split: if_splits)

lemma durable_local: "is_local a \<Longrightarrow> durable (run_step h run_id r (now, a)) = durable r"
  by (cases a) (auto split: sum.split dest: durable_reopen)

section \<open>The invariant\<close>

lemma reconcile_inv_durable:
  assumes inv: "reducer_inv r"
  shows "durable (snd (reconcile_after_restore now r)) = durable r"
proof -
  have "recover_stranded_in_flight_command r = (False, r)"
    using reducer_invD(4,5) [OF inv] by (intro recover_none)
  moreover have "repair_command_journal_watermark r = (False, r)"
    using reducer_invD(3) [OF inv]
    by (intro repair_covered) (simp add: watermark_covers_def list_all_iff)
  ultimately show ?thesis by (simp add: reconcile_durable)
qed

lemma run_step_inv: "reducer_inv r \<Longrightarrow> reducer_inv (run_step h run_id r ev)"
proof (cases ev)
  case (Pair now a)
  assume inv: "reducer_inv r"
  show ?thesis
  proof (cases "is_local a")
    case True
    with durable_local [OF this, of h run_id r now] inv show ?thesis
      unfolding Pair using reducer_inv_durable by blast
  next
    case False
    then show ?thesis
      using inv submit_command_inv [OF inv] reducer_inv_durable [OF reconcile_inv_durable [OF inv]]
      by (cases a) (simp_all add: Pair)
  qed
qed

interpretation run: invariant_machine "run_step h run_id" reducer_inv for h run_id
  by unfold_locales (rule run_step_inv)

lemma reachable_events: "reachable h run_id r \<Longrightarrow> reachable h run_id (run_events h run_id evs r)"
  unfolding run_events_def by (induction evs arbitrary: r) (auto intro: reachable.stepped)

lemma reachable_inv: "reachable h run_id r \<Longrightarrow> reducer_inv r"
  by (induction rule: reachable.induct) (auto intro: new_run_inv run_step_inv)

section \<open>The watermark and the records over a run\<close>

lemma evict_loop_progress [simp]: "tr_driver_progress (evict_loop r) = tr_driver_progress r"
proof (induction r rule: evict_loop.induct)
  case (1 r)
  show ?case
  proof (cases "evict_one r")
    case None
    then show ?thesis by (subst evict_loop.simps) simp
  next
    case (Some p)
    then obtain evicted q where p: "evict_one r = Some (evicted, q)" by (cases p) auto
    then have "tr_driver_progress q = tr_driver_progress r"
      by (auto simp: evict_one_def split: option.splits)
    with 1 p show ?thesis
      by (subst evict_loop.simps) (auto simp: drop_drained_notes_def)
  qed
qed

lemma push_with_eviction_watermark:
  "watermark (push_with_eviction c r) = max (watermark r) (cr_sequence c)"
  by (simp add: push_with_eviction_def)

lemma submit_watermark: "watermark r \<le> watermark (snd (submit_command h tk working run_id e r))"
  by (rule apply_cases [of h tk run_id e "effective_command working (env_command e)" r])
    (simp_all add: submit_command_eq reject_and_journal_def apply_and_journal_eq Let_def
      push_with_eviction_watermark applied_base_durable)

lemma recover_evict_watermark:
  "watermark r \<le> watermark (snd (recover_evict c r))"
proof (induction c r rule: recover_evict.induct)
  case (1 c r)
  show ?case
  proof (cases "journal_remove_first (\<lambda>d. cr_command_id d \<noteq> cr_command_id c) (tr_command_journal r)")
    case None
    then show ?thesis by (subst recover_evict.simps) simp
  next
    case (Some p)
    then obtain d j where p: "journal_remove_first (\<lambda>d. cr_command_id d \<noteq> cr_command_id c)
        (tr_command_journal r) = Some (d, j)" by (cases p) auto
    let ?r = "raise_watermark (cr_sequence d) (r\<lparr>tr_command_journal := j\<rparr>)"
    let ?n = "if cr_kind d = Cmd_TakeUserNotes then drop_drained_notes (cr_command_id d) ?r else ?r"
    have "watermark r \<le> watermark ?n" by (simp add: raise_watermark_def drop_drained_notes_def)
    with 1 [OF _ p refl refl] p show ?thesis
      by (subst recover_evict.simps) (auto simp: Let_def intro: order_trans)
  qed
qed

lemma raise_watermark_ge: "watermark r \<le> watermark (raise_watermark s r)"
  by (simp add: raise_watermark_def)

lemma settle_stranded_watermark: "watermark r \<le> watermark (snd (settle_stranded c typed r))"
  using order_trans [OF raise_watermark_ge recover_evict_watermark [of "raise_watermark (cr_sequence c) r" c]]
    raise_watermark_ge [of r "cr_sequence c"]
  by (auto simp: settle_stranded_def Let_def split: option.split prod.splits bool.split)

lemma recover_watermark: "watermark r \<le> watermark (snd (recover_stranded_in_flight_command r))"
proof -
  have "watermark (take_markers r) = watermark r" by (simp add: take_markers_def)
  then show ?thesis
    using settle_stranded_watermark [of "take_markers r"] raise_watermark_ge [of "take_markers r"]
    by (simp add: recover_stranded_in_flight_command_def Let_def split: option.split)
qed

lemma repair_watermark: "watermark r \<le> watermark (snd (repair_command_journal_watermark r))"
  by (auto simp: repair_command_journal_watermark_def split: option.split)

lemma run_step_watermark: "watermark r \<le> watermark (run_step h run_id r ev)"
proof (cases ev)
  case (Pair now a)
  have restart: "watermark r \<le> watermark (snd (reconcile_after_restore now r))"
    unfolding durableD(5) [OF reconcile_durable]
    by (rule order_trans [OF recover_watermark repair_watermark])
  show ?thesis
  proof (cases "is_local a")
    case True
    with durableD(5) [OF durable_local [OF this, of h run_id r now]] show ?thesis by (simp add: Pair)
  next
    case False
    then show ?thesis using restart submit_watermark by (cases a) (simp_all add: Pair)
  qed
qed

interpretation run_seq: monotone_machine "run_step h run_id" watermark for h run_id
  by unfold_locales (rule run_step_watermark)

lemma run_step_keeps:
  assumes inv: "reducer_inv r" and c: "c \<in> set (records (run_step h run_id r ev))"
    and old: "cr_sequence c \<le> watermark r"
  shows "c \<in> set (records r) \<and>
    find_drained_notes (cr_command_id c) (run_step h run_id r ev) = find_drained_notes (cr_command_id c) r"
proof (cases ev)
  case (Pair now a)
  have same: "c \<in> set (records r) \<and> find_drained_notes (cr_command_id c) r' = find_drained_notes (cr_command_id c) r"
    if d: "durable r' = durable r" and c: "c \<in> set (records r')" for r'
    using c by (simp add: durableD [OF d] find_drained_notes_def)
  show ?thesis
  proof (cases "is_local a")
    case True
    with same [OF durable_local [OF this]] c show ?thesis by (simp add: Pair)
  next
    case False
    then show ?thesis
      using c submit_keeps(2) [OF inv _ old] same [OF reconcile_inv_durable [OF inv]]
      by (cases a) (simp_all add: Pair)
  qed
qed

text \<open>A record that is still retained was never touched, and neither were its notes.\<close>

lemma run_events_keep:
  "reducer_inv r \<Longrightarrow> c \<in> set (records (run_events h run_id evs r)) \<Longrightarrow> cr_sequence c \<le> watermark r \<Longrightarrow>
     c \<in> set (records r) \<and>
     find_drained_notes (cr_command_id c) (run_events h run_id evs r) = find_drained_notes (cr_command_id c) r"
proof (induction evs arbitrary: r)
  case Nil
  then show ?case by (simp add: run_events_def)
next
  case (Cons ev evs)
  let ?q = "run_step h run_id r ev"
  have tail: "run_events h run_id (ev # evs) r = run_events h run_id evs ?q"
    by (simp add: run_events_def)
  have "cr_sequence c \<le> watermark ?q"
    using Cons.prems(3) run_step_watermark order_trans by blast
  with Cons.IH [of ?q] Cons.prems run_step_inv [OF Cons.prems(1)]
  have "c \<in> set (records ?q)"
    "find_drained_notes (cr_command_id c) (run_events h run_id (ev # evs) r) = find_drained_notes (cr_command_id c) ?q"
    by (simp_all add: tail)
  with run_step_keeps [OF Cons.prems(1) _ Cons.prems(3)] show ?case by simp
qed

lemma run_events_watermark: "watermark r \<le> watermark (run_events h run_id evs r)"
  unfolding run_events_def by (rule run_seq.level_run)

lemma run_events_inv: "reducer_inv r \<Longrightarrow> reducer_inv (run_events h run_id evs r)"
  unfolding run_events_def by (rule run.inv_run)

end
