(* ===== verification/Run_Replay.thy ===== *)
theory Run_Replay
  imports Run_Machine
begin

text \<open>
  What a driver may rely on when it sends a command again: over any events of a run's life the
  command takes effect at most once, its receipt is repeated exactly while its record is retained,
  and it fails closed afterwards.
\<close>

section \<open>Health\<close>

definition healthy :: "team_run \<Rightarrow> bool" where
  "healthy r \<longleftrightarrow> is_executable_by_current_build r \<and> \<not> dp_malformed (tr_driver_progress r) \<and>
     \<not> cj_malformed (tr_command_journal r)"

lemma healthy_durable: "durable r' = durable r \<Longrightarrow> healthy r' = healthy r"
  unfolding healthy_def using durableD [of r' r] by (simp add: is_executable_by_current_build_def)

lemma written_healthy:
  "submit_command h tk working run_id e r = ((receipt, True), r') \<Longrightarrow> healthy r"
  by (rule apply_cases [of h tk run_id e "effective_command working (env_command e)" r])
    (simp_all add: submit_command_eq preflight_None healthy_def accepted_def)

lemma pushed_healthy: "ready_to_write c r \<Longrightarrow> healthy (push_with_eviction c r) = healthy r"
  by (simp add: ready_push healthy_def is_executable_by_current_build_def)

lemma applied_base_healthy: "healthy (applied_base tk cid c r) = healthy r"
  by (simp add: healthy_def is_executable_by_current_build_def applied_base_durable)

lemma submit_healthy:
  assumes inv: "reducer_inv r"
  shows "healthy (snd (submit_command h tk working run_id e r)) = healthy r"
proof (rule apply_cases [of h tk run_id e "effective_command working (env_command e)" r])
  fix reason
  assume "apply_team_command_with_effective h tk run_id e (effective_command working (env_command e)) r
      = reject_and_journal h run_id e reason r"
    and "preflight_team_command_identity h r run_id e = None" "watermark r < env_sequence e"
  then show ?thesis
    using pushed_healthy [OF ready_rejected [OF inv]] by (simp add: submit_command_eq reject_and_journal_def)
next
  assume "apply_team_command_with_effective h tk run_id e (effective_command working (env_command e)) r
      = apply_and_journal h tk run_id e (effective_command working (env_command e)) r"
    and "accepted h run_id e (effective_command working (env_command e)) r"
  then show ?thesis
    using pushed_healthy [OF ready_applied [OF inv]]
    by (simp add: submit_command_eq apply_and_journal_eq Let_def applied_base_healthy)
qed (simp add: submit_command_eq)

lemma run_step_healthy:
  assumes inv: "reducer_inv r"
  shows "healthy (run_step h run_id r ev) = healthy r"
proof (cases ev)
  case (Pair now a)
  show ?thesis
  proof (cases "is_local a")
    case True
    with healthy_durable [OF durable_local [OF this]] show ?thesis by (simp add: Pair)
  next
    case False
    then show ?thesis
      using submit_healthy [OF inv] healthy_durable [OF reconcile_inv_durable [OF inv]]
      by (cases a) (simp_all add: Pair)
  qed
qed

lemma run_events_healthy: "reducer_inv r \<Longrightarrow> healthy (run_events h run_id evs r) = healthy r"
proof (induction evs arbitrary: r)
  case (Cons ev evs)
  then show ?case
    using Cons.IH [OF run_step_inv [OF Cons.prems], of h run_id ev] run_step_healthy [OF Cons.prems]
    by (simp add: run_events_def)
qed (simp add: run_events_def)

section \<open>Redelivery\<close>

text \<open>A redelivery below the watermark never writes.\<close>

lemma stale_submission:
  assumes "env_sequence e \<le> watermark r"
  shows "\<exists>receipt. submit_command h tk working run_id e r = ((receipt, False), r)"
  using assms
  by (cases "preflight_team_command_identity h r run_id e")
    (auto simp: submit_command_eq apply_team_command_with_effective_def)

text \<open>
  C1. Over any history a command takes effect at most once: after a submission that wrote its
  record, and whatever events follow (other commands, user actions, evictions, restarts), the
  same envelope never writes again and leaves the run exactly as it finds it.
\<close>

theorem at_most_once:
  assumes "reachable h run_id r"
    and w: "submit_command h tk working run_id e r = ((receipt, True), r1)"
  shows "let r2 = run_events h run_id evs r1
         in \<exists>receipt'. submit_command h tk' working' run_id e r2 = ((receipt', False), r2)"
proof -
  have "watermark r1 = env_sequence e" by (rule submit_written [OF reachable_inv [OF assms(1)] w])
  then have "env_sequence e \<le> watermark (run_events h run_id evs r1)"
    using run_events_watermark [of r1 h run_id evs] by simp
  from stale_submission [OF this] show ?thesis by (simp add: Let_def)
qed

definition sample_first :: command_envelope where
  "sample_first = sample_envelope ''cmd-1'' 1 0 TakeUserNotes"

lemma sample_first_fields [simp]:
  "env_command_id sample_first = Command_Id ''cmd-1''"
  "env_sequence sample_first = 1"
  "env_command sample_first = TakeUserNotes"
  by (simp_all add: sample_first_def)

definition sample_after_first :: team_run where
  "sample_after_first = snd (submit_command sample_host sample_tick [] ''run-1'' sample_first sample_run)"

lemma sample_run_reachable: "reachable h ''run-1'' sample_run"
  unfolding sample_run_def by (rule reachable.created)

lemma sample_first_applied:
  "submit_command sample_host sample_tick [] ''run-1'' sample_first sample_run =
     apply_and_journal sample_host sample_tick ''run-1'' sample_first TakeUserNotes sample_run"
proof -
  have "accepted sample_host ''run-1'' sample_first TakeUserNotes sample_run"
    by (simp add: accepted_def preflight_None sample_defs sample_first_def validate_payload_def
        sample_host_def MAX_TEAM_COMMAND_PAYLOAD_BYTES_def MAX_TEAM_COMMAND_NOTES_def
        has_counter_headroom_def checked_add_one command_is_permitted_by_lifecycle_def
        run_status_terminal_def run_status_settled_without_driver_def)
  then show ?thesis
    by (cases rule: apply_cases [of sample_host sample_tick "''run-1''" sample_first TakeUserNotes sample_run])
      (simp_all add: submit_command_eq sample_first_def effective_command_def)
qed

lemma sample_first_written:
  "submit_command sample_host sample_tick [] ''run-1'' sample_first sample_run =
     ((\<lparr>rcpt_command_id = Command_Id ''cmd-1'', rcpt_sequence = 1, rcpt_state_revision = 1,
        rcpt_last_event_seq = 1, rcpt_status = Status_Applied (DrainedNotes [])\<rparr>, True),
      sample_after_first)"
  unfolding sample_after_first_def sample_first_applied
  by (simp add: apply_and_journal_eq Let_def snapshot_receipt_def applied_base_def bump_counters_def apply_effects_def
      hold_phase_for_waiting_sub_tasks_def sample_defs)

lemma sample_first_revision: "revision sample_after_first = 1"
proof -
  have "revision sample_after_first = revision (applied_base sample_tick (Command_Id ''cmd-1'') TakeUserNotes sample_run)"
    unfolding sample_after_first_def sample_first_applied
    by (simp add: apply_and_journal_eq Let_def push_with_eviction_def)
  then show ?thesis
    by (simp add: applied_base_def hold_phase_for_waiting_sub_tasks_def default_driver_progress_def)
qed

lemma sample_first_record:
  obtains rec where "records sample_after_first = kept_records sample_run @ [rec]"
    "cr_command_id rec = env_command_id sample_first" "cr_sequence rec = env_sequence sample_first"
  by (rule submit_written [OF sample_inv sample_first_written]) (rule that)

lemma at_most_once_witness:
  "snd (submit_command sample_host sample_tick [] ''run-1'' sample_first
      (run_events sample_host ''run-1'' [(5, RequestPause ''d''), (6, Restart)] sample_after_first)) =
   run_events sample_host ''run-1'' [(5, RequestPause ''d''), (6, Restart)] sample_after_first"
  using at_most_once [OF sample_run_reachable sample_first_written,
      of "[(5, RequestPause ''d''), (6, Restart)]" sample_tick "[]"] by (auto simp: Let_def)

text \<open>
  C2. As long as the journal still holds the record a submission wrote, the same envelope is
  answered with exactly the first receipt, drained notes included, whatever has happened to the
  run since; nothing is written.
\<close>

theorem replay_exact:
  assumes "reachable h run_id r"
    and w: "submit_command h tk working run_id e r = ((receipt, True), r1)"
    and kept: "journal_find (env_command_id e) (tr_command_journal (run_events h run_id evs r1)) = Some c"
    and c: "cr_sequence c = env_sequence e"
    and v: "env_protocol_version e = TEAM_COMMAND_PROTOCOL_VERSION"
  shows "submit_command h tk' working' run_id e (run_events h run_id evs r1) =
     ((receipt, False), run_events h run_id evs r1)"
proof -
  let ?r2 = "run_events h run_id evs r1"
  note inv = reachable_inv [OF assms(1)]
  have inv1: "reducer_inv r1" using submit_command_inv [OF inv, of h tk working run_id e] w by simp
  obtain rec where rec: "records r1 = kept_records r @ [rec]" "cr_command_id rec = env_command_id e"
    "cr_sequence rec = env_sequence e" "watermark r1 = env_sequence e"
    "cr_fingerprint rec = Some (compute_fingerprint h run_id e)"
    "receipt = replay_receipt r1 (env_command_id e) (env_sequence e) rec"
    by (rule submit_written [OF inv w]) (rule that)
  have mem: "c \<in> set (records ?r2)" "cr_command_id c = env_command_id e"
    using journal.find_Some [OF kept] by simp_all
  have "cr_sequence c \<le> watermark r1" by (simp add: c rec)
  from run_events_keep [OF inv1 mem(1) this]
  have old: "c \<in> set (records r1)"
    and notes_same: "find_drained_notes (env_command_id e) ?r2 = find_drained_notes (env_command_id e) r1"
    by (simp_all add: mem)
  have "c = rec"
  proof (rule ccontr)
    assume "c \<noteq> rec"
    with old rec(1) have "c \<in> set (kept_records r)" by simp
    moreover have "cr_command_id rec \<notin> cr_command_id ` set (kept_records r)"
      using reducer_invD(2) [OF inv1] by (simp add: rec(1))
    ultimately show False using rec(2) mem(2) by (metis imageI)
  qed
  have "healthy ?r2"
    using written_healthy [OF w] submit_healthy [OF inv, of h tk working run_id e] w
      run_events_healthy [OF inv1] by simp
  then have "preflight_team_command_identity h ?r2 run_id e =
      Some (replay_receipt ?r2 (env_command_id e) (env_sequence e) rec)"
    using kept v rec(5) \<open>c = rec\<close>
    by (simp add: preflight_team_command_identity_def healthy_def Let_def record_matches_def)
  moreover have "replay_receipt ?r2 (env_command_id e) (env_sequence e) rec = receipt"
    unfolding rec(6) replay_receipt_def replay_status_def notes_same by (rule refl)
  ultimately show ?thesis by (simp add: submit_command_def)
qed

lemma replay_exact_witness:
  "fst (fst (submit_command sample_host sample_tick [] ''run-1'' sample_first
      (run_events sample_host ''run-1'' [(5, RequestPause ''d'')] sample_after_first))) =
   \<lparr>rcpt_command_id = Command_Id ''cmd-1'', rcpt_sequence = 1, rcpt_state_revision = 1,
     rcpt_last_event_seq = 1, rcpt_status = Status_Applied (DrainedNotes [])\<rparr>"
proof -
  obtain rec where rec: "records sample_after_first = kept_records sample_run @ [rec]"
    "cr_command_id rec = env_command_id sample_first" "cr_sequence rec = env_sequence sample_first"
    by (rule sample_first_record)
  have "tr_command_journal (run_events sample_host ''run-1'' [(5, RequestPause ''d'')] sample_after_first) =
      tr_command_journal sample_after_first"
    by (simp add: run_events_def durableD(2) [OF durable_lifecycle(4)])
  then have "journal_find (env_command_id sample_first) (tr_command_journal
      (run_events sample_host ''run-1'' [(5, RequestPause ''d'')] sample_after_first)) = Some rec"
    using rec by (simp add: journal_find_def kept_records_def default_journal_def)
  from replay_exact [OF sample_run_reachable sample_first_written this rec(3), of sample_tick "[]"]
  show ?thesis by (simp add: sample_first_def TEAM_COMMAND_PROTOCOL_VERSION_def)
qed

text \<open>
  C3. Once its record has been evicted a redelivery fails closed: with no record under its id the
  answer is \<open>StaleCommand\<close> and the run is not written, never a second application or a recomputed
  reason.
\<close>

theorem evicted_is_stale:
  assumes "reachable h run_id r"
    and w: "submit_command h tk working run_id e r = ((receipt, True), r1)"
    and gone: "journal_find (env_command_id e) (tr_command_journal (run_events h run_id evs r1)) = None"
    and v: "env_protocol_version e = TEAM_COMMAND_PROTOCOL_VERSION"
  shows "submit_command h tk' working' run_id e (run_events h run_id evs r1) =
     ((snapshot_receipt (run_events h run_id evs r1) (env_command_id e) (env_sequence e)
         (Status_Rejected Rej_StaleCommand), False), run_events h run_id evs r1)"
proof -
  let ?r2 = "run_events h run_id evs r1"
  note inv = reachable_inv [OF assms(1)]
  have inv1: "reducer_inv r1" using submit_command_inv [OF inv, of h tk working run_id e] w by simp
  have "watermark r1 = env_sequence e" by (rule submit_written [OF inv w])
  then have seq: "env_sequence e \<le> watermark ?r2" using run_events_watermark [of r1] by simp
  have "healthy ?r2"
    using written_healthy [OF w] submit_healthy [OF inv, of h tk working run_id e] w
      run_events_healthy [OF inv1] by simp
  with gone v have "preflight_team_command_identity h ?r2 run_id e = None"
    by (simp add: preflight_None healthy_def)
  with seq show ?thesis by (simp add: submit_command_eq apply_team_command_with_effective_def)
qed

text \<open>
  For the witness the journal is filled with 64 commands decided from an outdated revision: each
  is refused and journaled, and the 64th evicts the first record.
\<close>

definition fill_id :: "nat \<Rightarrow> string" where
  "fill_id n = replicate (Suc n) CHR ''a''"

lemma fill_id_simps [simp]: "fill_id n = fill_id m \<longleftrightarrow> n = m" "fill_id n \<noteq> ''cmd-1''"
  by (auto simp: fill_id_def dest: arg_cong [of _ _ length])

definition fill_envelope :: "nat \<Rightarrow> command_envelope" where
  "fill_envelope n = sample_envelope (fill_id n) (of_nat (n + 2)) 99 TakeUserNotes"

definition fill_events :: "nat \<Rightarrow> (u64 \<times> run_action) list" where
  "fill_events n = map (\<lambda>k. (0, Deliver sample_tick [] (fill_envelope k))) [0..<n]"

lemma rejected_stale:
  assumes "reducer_inv r" "healthy r" "env_protocol_version e = TEAM_COMMAND_PROTOCOL_VERSION"
    "env_command_id e \<notin> cr_command_id ` set (records r)" "watermark r < env_sequence e"
    "env_expected_revision e \<noteq> revision r"
  obtains c where "records (snd (submit_command h tk working run_id e r)) = kept_records r @ [c]"
    "cr_command_id c = env_command_id e" "watermark (snd (submit_command h tk working run_id e r)) = env_sequence e"
    "revision (snd (submit_command h tk working run_id e r)) = revision r"
proof -
  have pre: "preflight_team_command_identity h r run_id e = None"
    using assms(2-4) by (simp add: preflight_None healthy_def journal.find_None journal.keys_def)
  show thesis
  proof (rule apply_cases [of h tk run_id e "effective_command working (env_command e)" r])
    fix reason
    assume "apply_team_command_with_effective h tk run_id e (effective_command working (env_command e)) r
        = reject_and_journal h run_id e reason r"
    then show thesis
      using ready_push [OF ready_rejected [OF assms(1) pre assms(5)], of reason]
      by (intro that [of "settled_record h run_id e (Out_Rejected reason) r"])
        (simp_all add: submit_command_eq reject_and_journal_def)
  qed (use pre assms(5,6) in \<open>auto simp: accepted_def\<close>)
qed

lemma fill_state:
  "n \<le> 64 \<Longrightarrow>
     (let r = run_events sample_host ''run-1'' (fill_events n) sample_after_first
      in reducer_inv r \<and> healthy r \<and> watermark r = of_nat (n + 1) \<and> revision r = 1 \<and>
         map (\<lambda>c. command_id_str (cr_command_id c)) (records r) =
           drop (n - 63) (''cmd-1'' # map fill_id [0..<n]))"
proof (induction n)
  case 0
  obtain rec where rec: "records sample_after_first = kept_records sample_run @ [rec]"
    "cr_command_id rec = env_command_id sample_first"
    by (rule sample_first_record)
  have first: "sample_after_first = run_step sample_host ''run-1'' sample_run (0, Deliver sample_tick [] sample_first)"
    by (simp add: sample_first_written)
  have "healthy sample_run" by (simp add: healthy_def sample_defs)
  then have "reducer_inv sample_after_first" "healthy sample_after_first"
    unfolding first using run_step_inv [OF sample_inv] run_step_healthy [OF sample_inv] by blast+
  moreover have "watermark sample_after_first = 1"
    by (rule submit_written [OF sample_inv sample_first_written]) (simp add: sample_first_def)
  moreover have "revision sample_after_first = 1"
    using sample_first_revision by simp
  ultimately show ?case
    using rec by (simp add: fill_events_def run_events_def Let_def kept_records_def default_journal_def
        sample_first_def)
next
  case (Suc n)
  let ?r = "run_events sample_host ''run-1'' (fill_events n) sample_after_first"
  let ?e = "fill_envelope n"
  from Suc have IH: "reducer_inv ?r" "healthy ?r" "watermark ?r = of_nat (n + 1)" "revision ?r = 1"
    "map (\<lambda>c. command_id_str (cr_command_id c)) (records ?r) =
       drop (n - 63) (''cmd-1'' # map fill_id [0..<n])"
    by (simp_all add: Let_def)
  have "command_id_str (env_command_id ?e) \<notin> set (map (\<lambda>c. command_id_str (cr_command_id c)) (records ?r))"
    unfolding IH(5) by (auto simp: fill_envelope_def dest!: in_set_dropD)
  then have fresh: "env_command_id ?e \<notin> cr_command_id ` set (records ?r)" by auto
  have seq: "watermark ?r < env_sequence ?e"
    unfolding IH(3) using Suc.prems
    by (simp add: fill_envelope_def word_less_nat_alt unat_of_nat del: of_nat_Suc of_nat_add)
  have next_r: "run_events sample_host ''run-1'' (fill_events (Suc n)) sample_after_first =
      snd (submit_command sample_host sample_tick [] ''run-1'' ?e ?r)"
    by (simp add: fill_events_def run_events_def)
  obtain c where c: "records (snd (submit_command sample_host sample_tick [] ''run-1'' ?e ?r)) = kept_records ?r @ [c]"
    "cr_command_id c = env_command_id ?e"
    "watermark (snd (submit_command sample_host sample_tick [] ''run-1'' ?e ?r)) = env_sequence ?e"
    "revision (snd (submit_command sample_host sample_tick [] ''run-1'' ?e ?r)) = revision ?r"
    by (rule rejected_stale [OF IH(1,2) _ fresh seq, of sample_host sample_tick "[]" "''run-1''"])
      (simp_all add: fill_envelope_def TEAM_COMMAND_PROTOCOL_VERSION_def IH(4))
  have "map (\<lambda>c. command_id_str (cr_command_id c)) (kept_records ?r @ [c]) =
      drop (Suc n - 63) (''cmd-1'' # map fill_id [0..<Suc n])"
  proof -
    have len: "length (records ?r) = Suc n - (n - 63)"
      using arg_cong [OF IH(5), of length] by simp
    show ?thesis
    proof (cases "n < 63")
      case True
      with len IH(5) show ?thesis by (simp add: kept_records_def c(2) fill_envelope_def)
    next
      case False
      with Suc.prems have n: "n - 63 = 0" "Suc n - 63 = Suc 0" by simp_all
      with len IH(5) False show ?thesis
        by (simp add: kept_records_def c(2) fill_envelope_def map_tl)
    qed
  qed
  with c IH(1,2,4) show ?case
    unfolding next_r Let_def
    using submit_command_inv [OF IH(1)] submit_healthy [OF IH(1)]
    by (simp add: fill_envelope_def)
qed

lemma evicted_is_stale_witness:
  "rcpt_status (fst (fst (submit_command sample_host sample_tick [] ''run-1'' sample_first
      (run_events sample_host ''run-1'' (fill_events 64) sample_after_first)))) =
   Status_Rejected Rej_StaleCommand"
proof -
  let ?r = "run_events sample_host ''run-1'' (fill_events 64) sample_after_first"
  have "map (\<lambda>c. command_id_str (cr_command_id c)) (records ?r) = map fill_id [0..<64]"
    using fill_state [of 64] by (simp add: Let_def del: upt_rec_numeral)
  then have "''cmd-1'' \<notin> set (map (\<lambda>c. command_id_str (cr_command_id c)) (records ?r))"
    by (simp del: upt_rec_numeral set_upt add: image_iff) (metis fill_id_simps(2))
  then have "journal_find (env_command_id sample_first) (tr_command_journal ?r) = None"
    unfolding journal.find_None journal.keys_def
    by (auto simp: image_iff dest: arg_cong [of _ _ command_id_str])
  from evicted_is_stale [OF sample_run_reachable sample_first_written this, of sample_tick "[]"]
  show ?thesis by (simp add: sample_first_def TEAM_COMMAND_PROTOCOL_VERSION_def snapshot_receipt_def)
qed

text \<open>
  Every run that any sequence of events can produce keeps its durable command state in order:
  at most 64 records with pairwise distinct ids, none above the watermark, no command in flight,
  and exactly one drained-notes entry per applied \<open>TakeUserNotes\<close> record, in journal order.
\<close>

theorem reachable_journal:
  assumes "reachable h run_id r"
  shows "length (records r) \<le> 64 \<and> distinct (map cr_command_id (records r)) \<and>
    list_all (\<lambda>c. cr_sequence c \<le> watermark r) (records r) \<and>
    dp_in_flight_command_id (tr_driver_progress r) = None \<and> tr_in_flight_command r = None \<and>
    map ldn_command_id (tr_drained_notes r) =
      map (\<lambda>c. command_id_str (cr_command_id c)) (filter is_drain (records r))"
  using reachable_inv [OF assms]
  by (simp add: reducer_inv_def journal_wf_def journal_len_def MAX_TEAM_COMMAND_JOURNAL_def drained_ids_def)

lemma reachable_journal_witness: "length (records sample_after_first) \<le> 64"
proof -
  have "reachable sample_host ''run-1'' (run_step sample_host ''run-1'' sample_run (0, Deliver sample_tick [] sample_first))"
    by (intro reachable.stepped sample_run_reachable)
  from reachable_journal [OF this] show ?thesis by (simp add: sample_first_written)
qed

end
