(* ===== verification/Run_Gate.thy ===== *)
theory Run_Gate
  imports Run_Replay
begin

text \<open>
  What protects a run from an outdated or misplaced driver decision: the lifecycle gate, the
  revision check, and the counters they rest on.
\<close>

section \<open>What a submission changes besides the journal\<close>

text \<open>A run without its command bookkeeping.\<close>

definition work :: "team_run \<Rightarrow> team_run" where
  "work r = r\<lparr>tr_command_journal := default_journal, tr_drained_notes := [],
              tr_driver_progress := default_driver_progress\<rparr>"

lemma work_status: "work r' = work r \<Longrightarrow> tr_status r' = tr_status r"
  unfolding work_def by (drule arg_cong [of _ _ tr_status]) simp

lemma work_evict_loop [simp]: "work (evict_loop r) = work r"
proof (induction r rule: evict_loop.induct)
  case (1 r)
  show ?case
  proof (cases "evict_one r")
    case None
    then show ?thesis by (subst evict_loop.simps) simp
  next
    case (Some p)
    then obtain evicted q where p: "evict_one r = Some (evicted, q)" by (cases p) auto
    then have "work q = work r" by (auto simp: evict_one_def work_def split: option.splits)
    moreover have "work (drop_drained_notes i q) = work q" for i
      by (simp add: work_def drop_drained_notes_def)
    ultimately show ?thesis using 1 p by (subst evict_loop.simps) auto
  qed
qed

lemma work_push [simp]: "work (push_with_eviction c r) = work r"
  by (simp add: push_with_eviction_def) (simp add: work_def)

lemma work_bump [simp]: "work (bump_counters r) = work r"
  by (simp add: work_def bump_counters_def)

lemma refused_shape:
  assumes "\<not> accepted h run_id e (effective_command working (env_command e)) r"
  shows "(\<exists>receipt. submit_command h tk working run_id e r = ((receipt, False), r)) \<or>
    (\<exists>reason. submit_command h tk working run_id e r = reject_and_journal h run_id e reason r)"
  by (rule apply_cases [of h tk run_id e "effective_command working (env_command e)" r])
    (use assms in \<open>auto simp only: submit_command_eq\<close>)

lemma accepted_shape:
  assumes "accepted h run_id e (effective_command working (env_command e)) r"
  shows "submit_command h tk working run_id e r =
    apply_and_journal h tk run_id e (effective_command working (env_command e)) r"
  by (rule apply_cases [of h tk run_id e "effective_command working (env_command e)" r])
    (use assms in \<open>auto simp only: submit_command_eq\<close>)

lemma push_with_eviction_counters [simp]:
  "revision (push_with_eviction c r) = revision r"
  "dp_last_event_seq (tr_driver_progress (push_with_eviction c r)) = dp_last_event_seq (tr_driver_progress r)"
  by (simp_all add: push_with_eviction_def)

lemma rejected_fields [simp]:
  "work (snd (reject_and_journal h run_id e reason r)) = work r"
  "revision (snd (reject_and_journal h run_id e reason r)) = revision r"
  "dp_last_event_seq (tr_driver_progress (snd (reject_and_journal h run_id e reason r))) =
     dp_last_event_seq (tr_driver_progress r)"
  "rcpt_status (fst (fst (reject_and_journal h run_id e reason r))) = Status_Rejected reason"
  by (simp_all add: reject_and_journal_def snapshot_receipt_def)

lemma refused_work:
  assumes "\<not> accepted h run_id e (effective_command working (env_command e)) r"
  shows "work (snd (submit_command h tk working run_id e r)) = work r"
    "revision (snd (submit_command h tk working run_id e r)) = revision r"
    "dp_last_event_seq (tr_driver_progress (snd (submit_command h tk working run_id e r))) =
       dp_last_event_seq (tr_driver_progress r)"
    "snd (fst (submit_command h tk working run_id e r)) \<Longrightarrow>
       \<exists>reason. rcpt_status (fst (fst (submit_command h tk working run_id e r))) = Status_Rejected reason"
  using refused_shape [OF assms, of tk] by auto

lemma accepted_work:
  fixes tk :: tick and h run_id e working r
  assumes "accepted h run_id e (effective_command working (env_command e)) r"
  defines "b \<equiv> applied_base tk (env_command_id e) (effective_command working (env_command e)) r"
  shows "work (snd (submit_command h tk working run_id e r)) = work b"
    "revision (snd (submit_command h tk working run_id e r)) = revision b"
    "dp_last_event_seq (tr_driver_progress (snd (submit_command h tk working run_id e r))) =
       dp_last_event_seq (tr_driver_progress b)"
  unfolding b_def accepted_shape [OF assms(1)] by (simp_all add: apply_and_journal_eq Let_def)

section \<open>The lifecycle gate\<close>

lemma status_edit [simp]: "tr_status (edit_task i f r) = tr_status r"
  by (simp add: edit_task_def)

lemma status_apply_state:
  "\<not> is_lifecycle_transition c \<Longrightarrow> tr_status (apply_state tk cid c r) = tr_status r"
  by (cases c) (simp_all add: Let_def split: option.split)

lemma status_applied_base: "tr_status (applied_base tk cid c r) = tr_status (apply_state tk cid c r)"
  by (simp add: applied_base_def)

lemma effective_lifecycle:
  "is_lifecycle_transition (effective_command working c) = is_lifecycle_transition c"
  by (cases c) (simp_all add: effective_command_def)

text \<open>
  A driver command about the work never moves the run's status, and none is applied to a run
  that is terminal, settled by the user, being paused or being stopped: there the run stays as it
  is but for the journal.
\<close>

theorem work_command_respects_lifecycle:
  assumes "\<not> is_lifecycle_transition (env_command e)"
  shows "tr_status (snd (submit_command h tk working run_id e r)) = tr_status r \<and>
    (command_is_permitted_by_lifecycle r \<or>
     work (snd (submit_command h tk working run_id e r)) = work r)"
proof (cases "accepted h run_id e (effective_command working (env_command e)) r")
  case True
  then have "command_is_permitted_by_lifecycle r" using assms by (simp add: accepted_def)
  moreover have "tr_status (snd (submit_command h tk working run_id e r)) = tr_status r"
    using work_status [OF accepted_work(1) [OF True, of tk]] assms
    by (simp add: status_applied_base status_apply_state effective_lifecycle)
  ultimately show ?thesis by simp
next
  case False
  with refused_work(1) [OF False] work_status show ?thesis by blast
qed

lemma work_command_respects_lifecycle_witness:
  "tr_status (snd (submit_command sample_host sample_tick [] ''run-1'' sample_first sample_run)) = Run_Queued"
  using work_command_respects_lifecycle [of sample_first sample_host sample_tick "[]" "''run-1''" sample_run]
  by simp

lemma lifecycle_status:
  assumes "closed_to_driver r" "is_lifecycle_transition c"
  shows "tr_status (apply_state tk cid c r) = tr_status r \<or>
    (\<not> run_status_terminal (tr_status r) \<and> (\<exists>err. c = BlockRun err) \<and> tr_status (apply_state tk cid c r) = Run_Blocked) \<or>
    (\<not> run_status_terminal (tr_status r) \<and> (\<exists>reason kind. c = SettleRun Run_Cancelled reason kind)
       \<and> tr_status (apply_state tk cid c r) = Run_Cancelled) \<or>
    ((\<exists>reason kind. c = SettleRun Run_Done reason kind) \<and> tr_status (apply_state tk cid c r) = Run_Done)"
proof (cases c)
  case (SettleRun s reason kind)
  then show ?thesis using assms(1)
    by (cases s) (auto simp: settle_run_def set_status_def settle_paused_def cancel_def force_mark_status_def)
qed (use assms in \<open>auto simp: set_status_def fail_run_def block_run_def Let_def\<close>)

lemma settled_status_cases:
  assumes "closed_to_driver r"
  shows "let s = tr_status (snd (submit_command h tk working run_id e r)) in
    s = tr_status r \<or>
    (\<not> run_status_terminal (tr_status r) \<and> (s = Run_Blocked \<or> s = Run_Cancelled)) \<or>
    (s = Run_Done \<and> (\<exists>reason kind. env_command e = SettleRun Run_Done reason kind))"
proof (cases "accepted h run_id e (effective_command working (env_command e)) r")
  case True
  let ?c = "effective_command working (env_command e)"
  have life: "is_lifecycle_transition ?c"
    using True assms
    by (auto simp: accepted_def command_is_permitted_by_lifecycle_def effective_lifecycle)
  have done_: "env_command e = SettleRun Run_Done reason kind" if "?c = SettleRun Run_Done reason kind" for reason kind
    using that by (cases "env_command e") (auto simp: effective_command_def split: if_splits)
  have "tr_status (snd (submit_command h tk working run_id e r)) = tr_status (apply_state tk (env_command_id e) ?c r)"
    using work_status [OF accepted_work(1) [OF True, of tk]] by (simp add: status_applied_base)
  with lifecycle_status [OF assms life, of tk "env_command_id e"] done_ show ?thesis
    by (auto simp: Let_def)
next
  case False
  have "tr_status (snd (submit_command h tk working run_id e r)) = tr_status r"
    by (rule work_status [OF refused_work(1) [OF False]])
  then show ?thesis by (simp add: Let_def)
qed

text \<open>
  Against a run that is terminal or that the user settled, a driver's delivery can do only
  three things to the status: block or cancel a run that is not terminal yet, or relabel the run
  \<open>Done\<close> by settling it as done. Every other delivery leaves the status alone.
\<close>

theorem settled_run_status:
  assumes "closed_to_driver r"
  shows "let s = tr_status (snd (submit_command h tk working run_id e r)) in
    s = tr_status r \<or>
    (\<not> run_status_terminal (tr_status r) \<and> (s = Run_Blocked \<or> s = Run_Cancelled)) \<or>
    (s = Run_Done \<and> (\<exists>reason kind. env_command e = SettleRun Run_Done reason kind))"
  using assms by (rule settled_status_cases)

lemma settled_run_status_witness:
  "tr_status (snd (submit_command sample_host sample_tick [] ''run-1'' sample_first
     (sample_run\<lparr>tr_status := Run_Cancelled\<rparr>))) = Run_Cancelled"
  using settled_run_status [of "sample_run\<lparr>tr_status := Run_Cancelled\<rparr>" sample_host sample_tick "[]"
      "''run-1''" sample_first]
  by (simp add: run_status_terminal_def Let_def)

lemma work_tl: "work r' = work r \<Longrightarrow> tr_tl_succession r' = tr_tl_succession r"
  unfolding work_def by (drule arg_cong [of _ _ tr_tl_succession]) simp

lemma reconcile_status_closed:
  "closed_to_driver (snd (reconcile_after_restore now r))"
  "run_status_terminal (tr_status r) \<Longrightarrow> tr_status (snd (reconcile_after_restore now r)) = tr_status r"
  by (simp_all add: reconcile_eq reconcile_lifecycle_status recover_facts restored_status_def)
    (auto simp: run_status_terminal_def run_status_settled_without_driver_def)

lemma status_threads [simp]:
  "tr_status (record_run_thread i now r) = tr_status r"
  "tr_status (record_run_thread_role i role now r) = tr_status r"
  "tr_status (record_owned_thread_provider i p now r) = tr_status r"
  "tr_status (release_owned_thread i now r) = tr_status r"
  by (simp_all add: record_run_thread_def record_run_thread_role_def Let_def
      record_owned_thread_provider_def release_owned_thread_def release_references_def)

lemma status_deliver:
  assumes "closed_to_driver r"
  shows "closed_to_driver (snd (submit_command h tk working run_id e r))"
    "run_status_terminal (tr_status r) \<Longrightarrow>
       run_status_terminal (tr_status (snd (submit_command h tk working run_id e r)))"
  using settled_status_cases [OF assms, of h tk working run_id e] assms
  by (auto simp: Let_def run_status_terminal_def run_status_settled_without_driver_def)

lemmas status_ops = lifecycle_defs reopen_record_def Let_def run_status_resumable_def run_status_reopenable_def

text \<open>
  Resume is the only way back into work: an event that takes a terminal or user-settled run
  to a status open to a driver is \<open>resume\<close>, on a run that was paused. Deliveries, restarts,
  reopenings, recoveries and every other operation end in a closed status again.
\<close>

theorem only_resume_restarts:
  assumes "closed_to_driver r"
  shows "closed_to_driver (run_step h run_id r (now, a)) \<or> (a = Resume \<and> tr_status r = Run_Paused)"
proof (cases a)
  case (Deliver tk working e)
  then show ?thesis using status_deliver(1) [OF assms] by simp
next
  case Restart
  then show ?thesis using reconcile_status_closed(1) by simp
next
  case (Reopen instruction updates sha)
  then show ?thesis using assms
    by (simp add: reopen_record_def run_status_settled_without_driver_def)
next
  case (ForceMark s)
  then show ?thesis using assms by (auto simp: status_ops run_status_terminal_def)
qed (use assms in \<open>auto simp: status_ops run_status_terminal_def run_status_settled_without_driver_def\<close>)

lemma only_resume_restarts_witness:
  "closed_to_driver (run_step sample_host ''run-1'' (sample_run\<lparr>tr_status := Run_Blocked\<rparr>) (3, Restart))"
  using only_resume_restarts [of "sample_run\<lparr>tr_status := Run_Blocked\<rparr>" sample_host "''run-1''" 3 Restart]
  by (simp add: run_status_settled_without_driver_def)

text \<open>
  Terminal is final but for a deliberate reopening: from a terminal status every event leads
  to a terminal status, except \<open>reopen_team_run\<close> on a run that finished, which parks it as paused.
\<close>

theorem terminal_until_reopened:
  assumes "run_status_terminal (tr_status r)"
  shows "run_status_terminal (tr_status (run_step h run_id r (now, a))) \<or>
    ((\<exists>instruction updates sha. a = Reopen instruction updates sha) \<and>
     run_status_reopenable (tr_status r) \<and> tr_status (run_step h run_id r (now, a)) = Run_Paused)"
proof (cases a)
  case (Deliver tk working e)
  then show ?thesis using status_deliver(2) [of r] assms by simp
next
  case Restart
  then show ?thesis using reconcile_status_closed(2) [OF assms] assms by simp
next
  case (Reopen instruction updates sha)
  then show ?thesis using assms by (simp add: reopen_record_def)
next
  case (ForceMark s)
  then show ?thesis using assms by (auto simp: status_ops run_status_terminal_def)
qed (use assms in \<open>auto simp: status_ops run_status_terminal_def run_status_settled_without_driver_def\<close>)

lemma terminal_until_reopened_witness:
  "run_status_terminal (tr_status (run_step sample_host ''run-1''
     (sample_run\<lparr>tr_status := Run_Cancelled\<rparr>) (3, Resume)))"
  using terminal_until_reopened [of "sample_run\<lparr>tr_status := Run_Cancelled\<rparr>" sample_host "''run-1''" 3 Resume]
  by (simp add: run_status_terminal_def)

section \<open>Outdated decisions\<close>

text \<open>The user actions that take effect on a run and change what its driver should do next.\<close>

fun outdates :: "run_action \<Rightarrow> team_run \<Rightarrow> bool" where
  "outdates (RequestPause _) r = (\<not> closed_to_driver r)"
| "outdates (RequestStop _) r = (\<not> closed_to_driver r)"
| "outdates (SettlePaused _ _) r = (\<not> closed_to_driver r)"
| "outdates Resume r = run_status_resumable (tr_status r)"
| "outdates (Cancel _) r = (\<not> run_status_terminal (tr_status r))"
| "outdates (ReviveSubTasks only) r = list_ex (revive_selected only) (tr_sub_tasks r)"
| "outdates (MessageTeam _) r = list_ex (revive_selected None) (tr_sub_tasks r)"
| "outdates _ r = False"

lemma sat_add_one_less: "x \<noteq> - 1 \<Longrightarrow> x < sat_add x 1" for x :: u64
  by (simp add: sat_add_one less_add_one)

lemma sat_add_two_less: "x \<noteq> - 1 \<Longrightarrow> x < sat_add (sat_add x 1) 1" for x :: u64
  using sat_add_one_less [of x] sat_add_ge [of "sat_add x 1" 1] by (rule less_le_trans)

lemma outdates_revision:
  assumes "outdates a r" "revision r \<noteq> - 1"
  shows "revision r < revision (run_step h run_id r (now, a))"
  using assms sat_add_one_less [of "revision r"] sat_add_two_less [of "revision r"]
  by (cases a) (simp_all add: run_ops Let_def)

text \<open>
  C39. A user action wins over every driver decision taken before it: a command that expects the
  revision from before a pause, stop, settlement, resume, cancel, revival or note is not applied
  after it, now or after any clock reading, and changes nothing but the journal.
\<close>

theorem outdated_decision_refused:
  assumes "outdates a r" "revision r \<noteq> - 1" "env_expected_revision e = revision r"
  shows "let r1 = run_step h run_id r (now, a); out = submit_command h tk working run_id e r1 in
    work (snd out) = work r1 \<and> revision (snd out) = revision r1 \<and>
    (snd (fst out) = False \<or> (\<exists>reason. rcpt_status (fst (fst out)) = Status_Rejected reason))"
proof -
  let ?r1 = "run_step h run_id r (now, a)"
  have "env_expected_revision e \<noteq> revision ?r1"
    using outdates_revision [OF assms(1,2), of h run_id now] assms(3) by simp
  then have no: "\<not> accepted h run_id e (effective_command working (env_command e)) ?r1"
    by (simp add: accepted_def)
  from refused_work [OF no, of tk] show ?thesis by (auto simp: Let_def)
qed

lemma outdated_decision_refused_witness:
  "work (snd (submit_command sample_host sample_tick [] ''run-1'' sample_first
      (request_pause ''device-1'' 5 sample_run))) = work (request_pause ''device-1'' 5 sample_run)"
  using outdated_decision_refused [of "RequestPause ''device-1''" sample_run sample_first sample_host
      "''run-1''" 5 sample_tick "[]"]
  by (simp add: Let_def run_status_terminal_def run_status_settled_without_driver_def
      default_driver_progress_def sample_first_def)

section \<open>Counters\<close>

lemma revision_apply_state:
  "revision (apply_state tk cid c r) = revision r \<or>
   revision (apply_state tk cid c r) = sat_add (revision r) 1 \<and>
     (\<exists>reason kind. c = SettleRun Run_Paused reason kind \<or> c = SettleRun Run_Cancelled reason kind)"
proof (cases c)
  case (SettleRun s reason kind)
  then show ?thesis by (cases s) (auto simp: settle_run_def run_ops Let_def)
next
  case (ReplanSubTasks ts p)
  then show ?thesis by (simp add: replan_sub_tasks_def Let_def)
qed (auto simp: Let_def edit_task_def split: option.split)

lemma last_event_applied_base:
  "dp_last_event_seq (tr_driver_progress (applied_base tk cid c r)) = dp_last_event_seq (tr_driver_progress r) + 1"
  by (rule applied_base_durable)

lemma revision_applied_base:
  "revision (applied_base tk cid c r) = revision (apply_state tk cid c r) + 1"
  by (simp add: applied_base_def)

text \<open>
  Away from the ceiling the counters a driver orders its decisions by only move forward: an
  applied command strictly raises the revision and raises the event sequence by one; a refused or
  replayed one leaves both as they are.
\<close>

theorem counters_advance:
  assumes "unat (revision r) + 2 < 2 ^ 64"
  shows "let r' = snd (submit_command h tk working run_id e r) in
    (if accepted h run_id e (effective_command working (env_command e)) r
     then revision r < revision r' \<and>
       unat (dp_last_event_seq (tr_driver_progress r')) = unat (dp_last_event_seq (tr_driver_progress r)) + 1
     else revision r' = revision r \<and>
       dp_last_event_seq (tr_driver_progress r') = dp_last_event_seq (tr_driver_progress r))"
proof (cases "accepted h run_id e (effective_command working (env_command e)) r")
  case True
  let ?c = "effective_command working (env_command e)"
  let ?s = "apply_state tk (env_command_id e) ?c r"
  have small: "unat (revision ?s) < 2 ^ 64 - 1" "unat (revision r) \<le> unat (revision ?s)"
    using revision_apply_state [of tk "env_command_id e" ?c r] assms
    by (auto simp: unat_sat_add)
  then have "revision ?s \<noteq> - 1" using unat_max_word_val [where ?'a=64] by auto
  then have "revision r < revision ?s + 1"
    using small(2) less_add_one [of "revision ?s"] by (meson order_le_less_trans word_le_nat_alt)
  moreover have "dp_last_event_seq (tr_driver_progress r) \<noteq> - 1"
    using True by (auto simp: accepted_def has_counter_headroom_def checked_add_one)
  then have "unat (dp_last_event_seq (tr_driver_progress r) + 1) = unat (dp_last_event_seq (tr_driver_progress r)) + 1"
    by (metis Suc_eq_plus1 add.commute add_eq_0_iff unatSuc)
  ultimately show ?thesis
    using True accepted_work(2,3) [OF True, of tk]
    by (simp add: Let_def revision_applied_base last_event_applied_base)
next
  case False
  with refused_work(2,3) [OF False, of tk] show ?thesis by (simp add: Let_def)
qed

lemma sample_first_accepted:
  "accepted sample_host ''run-1'' sample_first TakeUserNotes sample_run"
  by (simp add: accepted_def preflight_None sample_defs sample_first_def validate_payload_def
      sample_host_def MAX_TEAM_COMMAND_PAYLOAD_BYTES_def MAX_TEAM_COMMAND_NOTES_def
      has_counter_headroom_def checked_add_one command_is_permitted_by_lifecycle_def
      run_status_terminal_def run_status_settled_without_driver_def)

lemma counters_advance_witness: "revision sample_run < revision sample_after_first"
  using counters_advance [of sample_run sample_host sample_tick "[]" "''run-1''" sample_first]
    sample_first_accepted
  by (simp add: Let_def sample_first_written effective_command_def default_driver_progress_def)

text \<open>
  At the ceiling the headroom check is one short. \<open>has_counter_headroom\<close> only asks for one
  free step of the revision, but settling a run as paused or cancelled already takes one before the
  reducer adds its own: at \<open>u64::MAX - 1\<close> an accepted settlement leaves the revision at 0.
\<close>

theorem settlement_wraps_revision:
  assumes "revision r = - 2" "env_command e = SettleRun Run_Cancelled reason kind"
    "accepted h run_id e (env_command e) r" "\<not> run_status_terminal (tr_status r)"
  shows "revision (snd (submit_command h tk [] run_id e r)) = 0"
proof -
  have eff: "effective_command [] (env_command e) = env_command e"
    by (simp add: assms(2) effective_command_def)
  have "revision (apply_state tk (env_command_id e) (env_command e) r) = - 1"
    using assms(1,4) by (simp add: assms(2) settle_run_def cancel_def Let_def sat_add_one)
  then show ?thesis
    using accepted_work(2) [of h run_id e "[]" r tk] assms(3)
    by (simp add: eff revision_applied_base)
qed

definition ceiling_run :: team_run where
  "ceiling_run = sample_run\<lparr>tr_driver_progress := default_driver_progress\<lparr>dp_state_revision := - 2\<rparr>\<rparr>"

lemma settlement_wraps_revision_witness:
  "revision (snd (submit_command sample_host sample_tick [] ''run-1''
     (sample_envelope ''cmd-1'' 1 (- 2) (SettleRun Run_Cancelled ''stop'' Pause_User)) ceiling_run)) = 0"
proof (rule settlement_wraps_revision)
  show "accepted sample_host ''run-1''
      (sample_envelope ''cmd-1'' 1 (- 2) (SettleRun Run_Cancelled ''stop'' Pause_User))
      (env_command (sample_envelope ''cmd-1'' 1 (- 2) (SettleRun Run_Cancelled ''stop'' Pause_User))) ceiling_run"
    by (simp add: accepted_def preflight_None sample_defs validate_payload_def ceiling_run_def
        sample_host_def MAX_TEAM_COMMAND_PAYLOAD_BYTES_def has_counter_headroom_def checked_add_one
        is_executable_by_current_build_def)
qed (simp_all add: ceiling_run_def run_status_terminal_def)

end
