(* ===== verification/Plan_Facts.thy ===== *)
theory Plan_Facts
  imports Samples Team_Threads
begin

text \<open>
  What the plan operations of a run promise: reviving puts selected sub-tasks back to work from a
  clean slate, replanning retires the old plan without losing a record or an id, minted ids never
  repeat, and retiring a team lead is bounded and keeps its thread owned.
\<close>

section \<open>Reviving\<close>

lemma list_all2_map_self: "(\<And>x. x \<in> set xs \<Longrightarrow> P x (f x)) \<Longrightarrow> list_all2 P xs (map f xs)"
  by (induction xs) auto

lemma revive_tasks:
  "tr_sub_tasks (snd (revive_sub_tasks only now r)) =
     map (\<lambda>t. if revive_selected only t then revive_task (tr_reopened_count r) t else t) (tr_sub_tasks r)"
  by (simp add: revive_sub_tasks_def Let_def)

lemma position_ex: "position p xs \<noteq> None \<longleftrightarrow> list_ex p xs"
  by (induction xs) auto

text \<open>
  A revival takes exactly the selected sub-tasks back to \<open>Pending\<close> with a fresh round budget,
  no candidate, no review claim and no developer seat, stamped with the working cycle, while the
  threads they owned stay owned; every other sub-task is untouched.
\<close>

theorem revive_restarts_selected:
  "list_all2 (\<lambda>t t'.
      if revive_selected only t
      then st_status t' = Sub_Pending \<and> st_rounds_used t' = 0 \<and> \<not> st_digested t' \<and>
           \<not> has_review_subject t' \<and> st_dev_thread_id t' = None \<and>
           st_cycle t' = tr_reopened_count r \<and> st_id t' = st_id t \<and>
           st_owned_thread_ids t' = st_owned_thread_ids t
      else t' = t)
     (tr_sub_tasks r) (tr_sub_tasks (snd (revive_sub_tasks only now r)))"
  unfolding revive_tasks
  by (rule list_all2_map_self) (simp add: revive_task_def has_review_subject_def has_change_candidate_def)

text \<open>
  A revival that selects something makes the run work on it: the run has a current sub-task
  again, the findings and verdicts of the closed cycle are gone, the phase has left the gate and
  every older driver decision is outdated. One that selects nothing changes nothing.
\<close>

theorem revive_reopens_work:
  "let (revived, r') = revive_sub_tasks only now r in
     if list_ex (revive_selected only) (tr_sub_tasks r)
     then revived \<and> current_sub_task r' \<noteq> None \<and> tr_unresolved r' = [] \<and>
          tr_mr_verdict r' = None \<and> tr_design_verdict r' = None \<and>
          tr_phase r' \<noteq> Phase_MrGate \<and> tr_phase r' \<noteq> Phase_Wrapping \<and>
          revision r' = sat_add (revision r) 1
     else \<not> revived \<and> r' = r"
proof (cases "list_ex (revive_selected only) (tr_sub_tasks r)")
  case True
  have "list_ex (\<lambda>t. \<not> sub_status_terminal (st_status t) \<or> \<not> st_digested t)
      (map (\<lambda>t. if revive_selected only t then revive_task (tr_reopened_count r) t else t) (tr_sub_tasks r))"
  proof -
    from True obtain t where t: "t \<in> set (tr_sub_tasks r)" "revive_selected only t"
      by (auto simp: list_ex_iff)
    then have "revive_task (tr_reopened_count r) t \<in> set (map (\<lambda>t. if revive_selected only t
        then revive_task (tr_reopened_count r) t else t) (tr_sub_tasks r))" by force
    moreover have "\<not> st_digested (revive_task (tr_reopened_count r) t)" by (simp add: revive_task_def)
    ultimately show ?thesis unfolding list_ex_iff by blast
  qed
  then have "current_sub_task (snd (revive_sub_tasks only now r)) \<noteq> None"
    unfolding current_sub_task_def revive_tasks position_ex .
  with True show ?thesis
    by (simp add: revive_sub_tasks_def Let_def invalidate_driver_decisions_def)
next
  case False
  have "map (\<lambda>t. if revive_selected only t then revive_task (tr_reopened_count r) t else t) (tr_sub_tasks r)
      = tr_sub_tasks r"
    using False by (intro map_idI) (auto simp: list_ex_iff)
  with False show ?thesis by (simp add: revive_sub_tasks_def Let_def)
qed

section \<open>Replanning\<close>

lemma replan_append_prefix:
  "\<exists>new. replan_append mint k cycle planned tasks = tasks @ new \<and> length new = length planned \<and>
     list_all (\<lambda>t. st_cycle t = cycle) new"
proof (induction planned arbitrary: k tasks)
  case (Cons t planned)
  let ?t = "(if list_ex (\<lambda>kept. st_id kept = st_id t) tasks then t\<lparr>st_id := mint k\<rparr> else t)\<lparr>st_cycle := cycle\<rparr>"
  from Cons.IH [of "Suc k" "tasks @ [?t]"] show ?case
    by (auto simp: Let_def)
qed simp

text \<open>
  Replanning loses nothing: every sub-task of the old plan stays at its place with its id, a
  finished one unchanged and an unfinished one marked superseded and digested, and the new plan is
  appended in full, stamped with the working cycle.
\<close>

theorem replan_keeps_records:
  "let old = tr_sub_tasks r; all = tr_sub_tasks (replan_sub_tasks mint planned now r) in
     length all = length old + length planned \<and>
     list_all2 (\<lambda>t t'. if sub_status_terminal (st_status t) then t' = t
          else st_id t' = st_id t \<and> st_status t' = Sub_Superseded \<and> st_digested t')
       old (take (length old) all) \<and>
     list_all (\<lambda>t. st_cycle t = tr_reopened_count r) (drop (length old) all)"
proof -
  obtain new where new: "replan_append mint 0 (tr_reopened_count r) planned (map supersede_task (tr_sub_tasks r))
      = map supersede_task (tr_sub_tasks r) @ new" "length new = length planned"
      "list_all (\<lambda>t. st_cycle t = tr_reopened_count r) new"
    using replan_append_prefix [of mint 0 "tr_reopened_count r" planned "map supersede_task (tr_sub_tasks r)"]
    by blast
  have "list_all2 (\<lambda>t t'. if sub_status_terminal (st_status t) then t' = t
          else st_id t' = st_id t \<and> st_status t' = Sub_Superseded \<and> st_digested t')
       (tr_sub_tasks r) (map supersede_task (tr_sub_tasks r))"
    by (rule list_all2_map_self) (simp add: supersede_task_def)
  with new show ?thesis by (simp add: replan_sub_tasks_def Let_def)
qed

lemma replan_append_distinct:
  assumes "inj mint"
  shows "distinct (map st_id tasks) \<Longrightarrow> (\<And>j. k \<le> j \<Longrightarrow> mint j \<notin> st_id ` set tasks) \<Longrightarrow>
    (\<And>j. mint j \<notin> st_id ` set planned) \<Longrightarrow>
    distinct (map st_id (replan_append mint k cycle planned tasks))"
proof (induction planned arbitrary: k tasks)
  case (Cons t planned)
  let ?t = "(if list_ex (\<lambda>kept. st_id kept = st_id t) tasks then t\<lparr>st_id := mint k\<rparr> else t)\<lparr>st_cycle := cycle\<rparr>"
  have step: "replan_append mint k cycle (t # planned) tasks =
      replan_append mint (Suc k) cycle planned (tasks @ [?t])" by (simp add: Let_def)
  have id: "st_id ?t = (if list_ex (\<lambda>kept. st_id kept = st_id t) tasks then mint k else st_id t)" by simp
  have "distinct (map st_id (tasks @ [?t]))"
    using Cons.prems(1) Cons.prems(2) [of k] by (auto simp: id list_ex_iff)
  moreover have "mint j \<notin> st_id ` set (tasks @ [?t])" if "Suc k \<le> j" for j
    using that Cons.prems(2) [of j] Cons.prems(3) [of j] injD [OF assms, of j k] by (auto simp: id)
  moreover have "mint j \<notin> st_id ` set planned" for j using Cons.prems(3) by auto
  ultimately show ?case unfolding step by (intro Cons.IH)
qed simp

text \<open>
  Ids name one record each: if the kept sub-tasks have distinct ids and the mint returns fresh
  and pairwise different ids, then after a replan all ids are distinct, whatever ids the plan reuses.
\<close>

theorem replan_ids_distinct:
  assumes "distinct (map st_id (tr_sub_tasks r))" "inj mint"
    and "range mint \<inter> st_id ` (set (tr_sub_tasks r) \<union> set planned) = {}"
  shows "distinct (map st_id (tr_sub_tasks (replan_sub_tasks mint planned now r)))"
proof -
  have id: "st_id (supersede_task t) = st_id t" for t by (simp add: supersede_task_def)
  have "distinct (map st_id (map supersede_task (tr_sub_tasks r)))" using assms(1) by (simp add: comp_def id)
  moreover have fresh: "mint j \<noteq> st_id t" if "t \<in> set (tr_sub_tasks r) \<union> set planned" for j t
    using assms(3) that by (metis disjoint_iff imageI rangeI)
  then have "mint j \<notin> st_id ` set (map supersede_task (tr_sub_tasks r))"
    "mint j \<notin> st_id ` set planned" for j
    by (auto simp: id)
  ultimately show ?thesis
    using replan_append_distinct [OF assms(2)] by (simp add: replan_sub_tasks_def Let_def)
qed

definition sample_task :: "string \<Rightarrow> sub_task" where
  "sample_task i = default_sub_task\<lparr>st_id := i\<rparr>"

definition sample_mint :: "nat \<Rightarrow> string" where
  "sample_mint k = ''m'' @ replicate k CHR ''x''"

lemma replan_ids_distinct_witness:
  "distinct (map st_id (tr_sub_tasks (replan_sub_tasks sample_mint [sample_task ''a'', sample_task ''a'']
     9 (sample_run\<lparr>tr_sub_tasks := [sample_task ''a'', sample_task ''b'']\<rparr>))))"
proof (rule replan_ids_distinct)
  show "inj sample_mint" by (rule injI) (auto simp: sample_mint_def dest: arg_cong [of _ _ length])
qed (auto simp: sample_task_def sample_mint_def)

section \<open>Minting\<close>

lemma hex_digit_inj: "a < 16 \<Longrightarrow> b < 16 \<Longrightarrow> hex_digit a = hex_digit b \<Longrightarrow> a = b"
proof -
  assume a: "a < 16" and b: "b < 16" and eq: "hex_digit a = hex_digit b"
  have code: "of_char (hex_digit d) = (if d < 10 then 48 + d else 87 + d :: nat)" if "d < 16" for d :: nat
    using that by (simp add: hex_digit_def)
  from arg_cong [OF eq, of "of_char :: char \<Rightarrow> nat"] a b show "a = b"
    by (simp add: code split: if_splits)
qed

lemma hex_Nil [simp]: "hex n \<noteq> []" "[] \<noteq> hex n"
  by (subst hex.simps, simp)+

lemma hex_inj: "hex n = hex m \<Longrightarrow> n = m"
proof (induction n arbitrary: m rule: less_induct)
  case (less n)
  have split: "hex k = (if k < 16 then [] else hex (k div 16)) @ [hex_digit (k mod 16)]" for k
    by (subst hex.simps) simp
  from less.prems have head: "(if n < 16 then [] else hex (n div 16)) = (if m < 16 then [] else hex (m div 16))"
    and digit: "hex_digit (n mod 16) = hex_digit (m mod 16)"
    unfolding split [of n] split [of m] by simp_all
  from digit have mod: "n mod 16 = m mod 16" by (rule hex_digit_inj [rotated 2]) simp_all
  show ?case
  proof (cases "n < 16")
    case True
    with head have "m < 16" by (auto split: if_splits)
    with True mod show ?thesis by simp
  next
    case False
    with head have m: "\<not> m < 16" by (auto split: if_splits)
    with False head have "hex (n div 16) = hex (m div 16)" by simp
    with False have "n div 16 = m div 16" by (intro less.IH) simp_all
    with mod show ?thesis by (metis mod_div_mult_eq)
  qed
qed

text \<open>The ids a process mints at successive clock readings, threading the last number.\<close>

fun mint_ids :: "u64 list \<Rightarrow> u64 \<Rightarrow> string list" where
  "mint_ids [] prev = []"
| "mint_ids (now # nows) prev =
     (let (i, prev) = mint_sub_task_id now prev in i # mint_ids nows prev)"

lemma unat_mint_number:
  "unat prev + 1 < 2 ^ 64 \<Longrightarrow> unat (mint_number prev now) = max (unat now) (unat prev + 1)"
proof -
  assume "unat prev + 1 < 2 ^ 64"
  then have "unat (prev + 1) = unat prev + 1"
    by (simp add: unat_word_ariths)
  then show ?thesis by (simp add: mint_number_def max_def word_le_nat_alt)
qed

lemma mint_ids_above:
  "(\<forall>now \<in> set nows. unat now + length nows < 2 ^ 64) \<Longrightarrow> unat prev + length nows < 2 ^ 64 \<Longrightarrow>
     distinct (mint_ids nows prev) \<and> (\<forall>i \<in> set (mint_ids nows prev). \<exists>n > unat prev. i = ''st-'' @ hex n)"
proof (induction nows arbitrary: prev)
  case (Cons now nows)
  let ?m = "mint_number prev now"
  have m: "unat ?m = max (unat now) (unat prev + 1)" using Cons.prems by (intro unat_mint_number) simp
  have "distinct (mint_ids nows ?m) \<and> (\<forall>i \<in> set (mint_ids nows ?m). \<exists>n > unat ?m. i = ''st-'' @ hex n)"
    using Cons.prems by (intro Cons.IH) (auto simp: m)
  moreover have "''st-'' @ hex (unat ?m) \<notin> set (mint_ids nows ?m)"
  proof
    assume "''st-'' @ hex (unat ?m) \<in> set (mint_ids nows ?m)"
    with calculation obtain n where "n > unat ?m" "''st-'' @ hex (unat ?m) = ''st-'' @ hex n" by blast
    then show False using hex_inj by fastforce
  qed
  moreover have "unat prev < unat ?m" using m by simp
  ultimately show ?case
    by (auto simp: mint_sub_task_id_def Let_def intro: order_less_trans)
qed simp

text \<open>
  Minted sub-task ids are pairwise distinct for the life of a process, whatever the clock
  does (standing still or going back included), until the 64-bit counter could reach its ceiling.
\<close>

theorem minted_ids_distinct:
  assumes "\<forall>now \<in> set nows. unat now + length nows < 2 ^ 64"
  shows "distinct (mint_ids nows 0)"
proof (cases nows)
  case (Cons now rest)
  with assms have "unat (0 :: u64) + length nows < 2 ^ 64" by auto
  with mint_ids_above [OF assms] show ?thesis by blast
qed simp

lemma minted_ids_distinct_witness: "distinct (mint_ids [7, 7, 3] 0)"
  by (rule minted_ids_distinct) simp

section \<open>Team lead generations\<close>

text \<open>
  Retiring a team lead empties its seat without losing anybody: it is refused once the run
  has had eight generations, and otherwise the threads the run owns are the same set as before,
  the retired lead included.
\<close>

theorem retire_keeps_owned:
  "let (retired, r') = retire_tl reason now r in
     (if 8 \<le> tl_generation_count r then \<not> retired \<and> r' = r
      else retired \<and> tr_tl_thread_id r' = [] \<and> tl_generation_count r' \<le> 8 \<and>
           set (owned_thread_ids r') = set (owned_thread_ids r))"
  by (auto simp: retire_tl_def MAX_TL_GENERATIONS_def Let_def tl_generation_count_def
      owned_thread_ids_set thread_candidates_def)

end
