(* ===== verification/Request_Book.thy ===== *)
theory Request_Book
  imports Prelude
begin

text \<open>
  Admission of signed requests from paired devices
  (\<open>crates/relay-server/src/state/relay/remote_requests.rs\<close> and the replay cache of
  \<open>crates/relay-server/src/state/relay.rs\<close>): request sessions with their sequence windows, the
  write ledger that runs a write at most once, and the result cache. A \<open>HashMap\<close> is an
  association list in some iteration order; a \<open>Notify\<close> is the number it was allocated under,
  and waking its waiters is not modelled.
\<close>

section \<open>Constants\<close>

definition REMOTE_REQUEST_MAX_AGE_MS :: u64 where "REMOTE_REQUEST_MAX_AGE_MS = 60000"
definition REMOTE_REQUEST_MAX_FUTURE_MS :: u64 where "REMOTE_REQUEST_MAX_FUTURE_MS = 5000"
definition WRITE_RETRY_WINDOW_MS :: u64 where "WRITE_RETRY_WINDOW_MS = 5 * 60 * 1000"
definition REQUEST_SEQ_WINDOW :: u64 where "REQUEST_SEQ_WINDOW = 256"
definition MAX_REQUEST_SESSIONS_PER_DEVICE :: nat where "MAX_REQUEST_SESSIONS_PER_DEVICE = 4"
definition REQUEST_SESSION_TTL_MS :: u64 where "REQUEST_SESSION_TTL_MS = 60 * 60 * 1000"
definition WRITE_RECORD_RETENTION_MS :: u64 where "WRITE_RECORD_RETENTION_MS = 10 * 60 * 1000"
definition MAX_WRITE_RECORDS_PER_DEVICE :: nat where "MAX_WRITE_RECORDS_PER_DEVICE = 256"
definition REMOTE_ACTION_REPLAY_TTL_SECS :: u64 where "REMOTE_ACTION_REPLAY_TTL_SECS = 600"
definition MAX_REMOTE_ACTION_REPLAY_ENTRIES :: nat where "MAX_REMOTE_ACTION_REPLAY_ENTRIES = 512"

definition REUSED_ACTION_ID_ERROR :: string where
  "REUSED_ACTION_ID_ERROR =
     ''this action id was already used for a different action; nothing was run''"
definition WRITE_LEDGER_FULL_ERROR :: string where
  "WRITE_LEDGER_FULL_ERROR =
     ''this device has too many recent changes still on record; wait a few minutes and try again''"
definition OPERATION_CLOCK_ERROR :: string where
  "OPERATION_CLOCK_ERROR =
     ''this request says it started later than the relay's clock allows; nothing was run''"

section \<open>State\<close>

record request_session =
  rs_device_id :: string
  rs_peer_id :: string
  rs_opened_ms :: u64
  rs_expires_ms :: u64
  rs_high_seq :: u64
  rs_used :: "u64 set"

datatype request_class = Class_Stream | Class_Read | Class_Write | Class_Untracked

record request_facts =
  rf_device_id :: string
  rf_peer_id :: string
  rf_sid :: string
  rf_boot_id :: string
  rf_seq :: u64
  rf_sent_ms :: u64
  rf_action_id :: string
  rf_action_kind :: string
  rf_class :: request_class
  rf_digest :: string
  rf_op_boot :: string
  rf_op_t0 :: u64

type_synonym notify = nat

text \<open>A cached reply: its kind, and the rest of the reply as one value.\<close>

record cached_result =
  cres_action_kind :: string
  cres_reply :: string

datatype cached_state =
    Cache_InFlight (cache_kind: string) (cache_digest: string) (cache_seen_at: u64) notify (cache_waiters: u64)
  | Cache_Completed cached_result (cache_digest: string) (cache_seen_at: u64) (cache_waiters: u64)

datatype write_state = Write_Running notify u64 | Write_Done u64 u64

record write_record =
  wr_action_kind :: string
  wr_digest :: string
  wr_op_boot :: string
  wr_op_t0 :: u64
  wr_state :: write_state

datatype wait_source = Wait_ResultCache | Wait_WriteLedger

datatype request_admission =
    Adm_Reauthorize
  | Adm_Duplicate
  | Adm_Run
  | Adm_Execute notify
  | Adm_Replay cached_result
  | Adm_InFlight notify u64 wait_source
  | Adm_AlreadyCompleted
  | Adm_OutcomeUnknown
  | Adm_Refused string

record request_book =
  rb_boot_id :: string
  rb_paired :: "string list"
  rb_sessions :: "(string \<times> request_session) list"
  rb_writes :: "(string \<times> (string \<times> write_record) list) list"
  rb_cache :: "((string \<times> cached_state)) list"
  rb_next_notify :: notify

section \<open>Sequence windows\<close>

definition seq_is_unused :: "u64 \<Rightarrow> request_session \<Rightarrow> bool" where
  "seq_is_unused q s \<longleftrightarrow>
     (if q = 0 then False
      else if rs_high_seq s < q then True
      else rs_high_seq s - q < REQUEST_SEQ_WINDOW \<and> q \<notin> rs_used s)"

definition use_seq :: "u64 \<Rightarrow> request_session \<Rightarrow> request_session" where
  "use_seq q s =
     (let used = insert q (rs_used s);
          high = max (rs_high_seq s) q;
          floor = sat_sub high (REQUEST_SEQ_WINDOW - 1)
      in s\<lparr>rs_high_seq := high, rs_used := Set.filter (\<lambda>x. floor \<le> x) used\<rparr>)"

section \<open>Sessions\<close>

definition prune_sessions :: "u64 \<Rightarrow> request_book \<Rightarrow> request_book" where
  "prune_sessions now b =
     b\<lparr>rb_sessions := filter (\<lambda>(_, s). now < rs_expires_ms s) (rb_sessions b)\<rparr>"

definition device_sessions :: "string \<Rightarrow> (string \<times> request_session) list \<Rightarrow> (string \<times> request_session) list" where
  "device_sessions device ss = filter (\<lambda>(_, s). rs_device_id s = device) ss"

text \<open>\<open>min_by_key\<close>: the first minimum in iteration order.\<close>

fun min_opened :: "(string \<times> request_session) list \<Rightarrow> (string \<times> request_session) option" where
  "min_opened [] = None"
| "min_opened (x # xs) =
     (case min_opened xs of
        None \<Rightarrow> Some x
      | Some y \<Rightarrow> if rs_opened_ms (snd x) \<le> rs_opened_ms (snd y) then Some x else Some y)"

lemma min_opened_mem: "min_opened xs = Some x \<Longrightarrow> x \<in> set xs"
  by (induction xs arbitrary: x) (auto split: option.splits if_splits)

lemma min_opened_None: "min_opened xs = None \<longleftrightarrow> xs = []"
  by (cases xs) (auto split: option.splits)

function evict_oldest :: "string \<Rightarrow> (string \<times> request_session) list \<Rightarrow> (string \<times> request_session) list" where
  "evict_oldest device ss =
     (case min_opened (device_sessions device ss) of
        Some (sid, _) \<Rightarrow>
          (if MAX_REQUEST_SESSIONS_PER_DEVICE \<le> length (device_sessions device ss)
           then evict_oldest device (AList.delete sid ss) else ss)
      | None \<Rightarrow> ss)"
  by auto
termination
proof (relation "measure (\<lambda>(_, ss). length ss)")
  fix device ss x sid and s :: request_session
  assume "min_opened (device_sessions device ss) = Some x" "(sid, s) = x"
  then have "(sid, s) \<in> set ss"
    by (auto simp: device_sessions_def dest: min_opened_mem)
  then have "length (AList.delete sid ss) < length ss"
    unfolding AList.delete_eq by (intro length_filter_less) auto
  then show "((device, AList.delete sid ss), device, ss) \<in> measure (\<lambda>(_, ss). length ss)"
    by simp
qed simp

declare evict_oldest.simps [simp del]

text \<open>\<open>sid\<close> is the random name drawn. The grant's other fields echo the arguments.\<close>

definition open_request_session ::
    "string \<Rightarrow> string \<Rightarrow> u64 \<Rightarrow> string \<Rightarrow> request_book \<Rightarrow> string + request_book" where
  "open_request_session device peer now sid b =
     (if device \<notin> set (rb_paired b) then Inl ''device is not paired''
      else
        let b = prune_sessions now b;
            ss = filter (\<lambda>(_, s). rs_device_id s \<noteq> device \<or> rs_peer_id s \<noteq> peer) (rb_sessions b);
            ss = evict_oldest device ss
        in Inr (b\<lparr>rb_sessions := AList.update sid
             \<lparr>rs_device_id = device, rs_peer_id = peer, rs_opened_ms = now,
              rs_expires_ms = sat_add now REQUEST_SESSION_TTL_MS, rs_high_seq = 0, rs_used = {}\<rparr> ss\<rparr>))"

definition drop_request_sessions_for_peer :: "string \<Rightarrow> request_book \<Rightarrow> request_book" where
  "drop_request_sessions_for_peer peer b =
     b\<lparr>rb_sessions := filter (\<lambda>(_, s). rs_peer_id s \<noteq> peer) (rb_sessions b)\<rparr>"

definition drop_request_sessions_except_peers :: "string list \<Rightarrow> request_book \<Rightarrow> request_book" where
  "drop_request_sessions_except_peers online b =
     b\<lparr>rb_sessions := filter (\<lambda>(_, s). rs_peer_id s \<in> set online) (rb_sessions b)\<rparr>"

definition forget_remote_requests_for_device :: "string \<Rightarrow> request_book \<Rightarrow> request_book" where
  "forget_remote_requests_for_device device b =
     b\<lparr>rb_sessions := filter (\<lambda>(_, s). rs_device_id s \<noteq> device) (rb_sessions b),
       rb_writes := AList.delete device (rb_writes b)\<rparr>"

definition clear_requests :: "request_book \<Rightarrow> request_book" where
  "clear_requests b = b\<lparr>rb_sessions := [], rb_writes := []\<rparr>"

section \<open>The result cache\<close>

definition remote_action_cache_key :: "string \<Rightarrow> string \<Rightarrow> string" where
  "remote_action_cache_key device action = device @ '':'' @ action"

definition prune_remote_action_replays :: "u64 \<Rightarrow> request_book \<Rightarrow> request_book" where
  "prune_remote_action_replays now b =
     b\<lparr>rb_cache := filter (\<lambda>(_, c). now < sat_add (cache_seen_at c) REMOTE_ACTION_REPLAY_TTL_SECS)
         (rb_cache b)\<rparr>"

datatype replay_decision = Dec_Execute | Dec_Replay cached_result | Dec_InFlight notify u64

definition reserve_remote_action_with_digest ::
    "string \<Rightarrow> string \<Rightarrow> string \<Rightarrow> string \<Rightarrow> u64 \<Rightarrow> request_book \<Rightarrow>
     (string + replay_decision) \<times> request_book" where
  "reserve_remote_action_with_digest device action kind digest now b =
     (let b = prune_remote_action_replays now b;
          key = remote_action_cache_key device action
      in case map_of (rb_cache b) key of
           None \<Rightarrow>
             (Inr Dec_Execute,
              b\<lparr>rb_cache := AList.update key (Cache_InFlight kind digest now (rb_next_notify b) 0) (rb_cache b),
                rb_next_notify := Suc (rb_next_notify b)\<rparr>)
         | Some (Cache_InFlight kind' digest' seen finished waiters) \<Rightarrow>
             (if kind' \<noteq> kind \<or> digest' \<noteq> digest
              then (Inl ''action_id is already in use for a different remote action'', b)
              else (Inr (Dec_InFlight finished (waiters + 1)),
                    b\<lparr>rb_cache := AList.update key
                        (Cache_InFlight kind' digest' seen finished (waiters + 1)) (rb_cache b)\<rparr>))
         | Some (Cache_Completed result digest' seen waiters) \<Rightarrow>
             (if cres_action_kind result \<noteq> kind \<or> digest' \<noteq> digest
              then (Inl ''action_id has already been used for a different remote action'', b)
              else (Inr (Dec_Replay result), b)))"

text \<open>\<open>trim_remote_action_replays\<close>: a stable sort by age, then the oldest go.\<close>

definition trim_remote_action_replays :: "request_book \<Rightarrow> request_book" where
  "trim_remote_action_replays b =
     (let overflow = length (rb_cache b) - MAX_REMOTE_ACTION_REPLAY_ENTRIES;
          oldest = take overflow (map fst (sort_key (\<lambda>(_, c). cache_seen_at c) (rb_cache b)))
      in b\<lparr>rb_cache := filter (\<lambda>(k, _). k \<notin> set oldest) (rb_cache b)\<rparr>)"

definition store_remote_action_result ::
    "string \<Rightarrow> string \<Rightarrow> cached_result \<Rightarrow> u64 \<Rightarrow> request_book \<Rightarrow> request_book" where
  "store_remote_action_result device action result now b =
     (let b = prune_remote_action_replays now b;
          key = remote_action_cache_key device action;
          (waiters, digest) =
            (case map_of (rb_cache b) key of
               Some c \<Rightarrow> (cache_waiters c, cache_digest c)
             | None \<Rightarrow> (0, []));
          b = b\<lparr>rb_cache := AList.update key (Cache_Completed result digest now waiters) (rb_cache b)\<rparr>
      in trim_remote_action_replays b)"

definition completed_remote_action :: "string \<Rightarrow> string \<Rightarrow> request_book \<Rightarrow> cached_result option" where
  "completed_remote_action device action b =
     (case map_of (rb_cache b) (remote_action_cache_key device action) of
        Some (Cache_Completed result _ _ _) \<Rightarrow> Some result
      | _ \<Rightarrow> None)"

section \<open>Admission\<close>

definition device_writes :: "string \<Rightarrow> request_book \<Rightarrow> (string \<times> write_record) list" where
  "device_writes device b = (case map_of (rb_writes b) device of None \<Rightarrow> [] | Some ws \<Rightarrow> ws)"

definition set_device_writes :: "string \<Rightarrow> (string \<times> write_record) list \<Rightarrow> request_book \<Rightarrow> request_book" where
  "set_device_writes device ws b = b\<lparr>rb_writes := AList.update device ws (rb_writes b)\<rparr>"

definition keep_write :: "u64 \<Rightarrow> write_record \<Rightarrow> bool" where
  "keep_write now w =
     (case wr_state w of
        Write_Running _ _ \<Rightarrow> True
      | Write_Done done_ms _ \<Rightarrow> now \<le> sat_add done_ms WRITE_RECORD_RETENTION_MS)"

definition prune_writes :: "string \<Rightarrow> u64 \<Rightarrow> request_book \<Rightarrow> request_book" where
  "prune_writes device now b =
     (case map_of (rb_writes b) device of
        None \<Rightarrow> b
      | Some ws \<Rightarrow> set_device_writes device (filter (\<lambda>(_, w). keep_write now w) ws) b)"

definition admit_recorded ::
    "request_facts \<Rightarrow> write_record \<Rightarrow> request_book \<Rightarrow> request_admission \<times> request_book" where
  "admit_recorded f w b =
     (if wr_action_kind w \<noteq> rf_action_kind f \<or> wr_digest w \<noteq> rf_digest f
         \<or> wr_op_boot w \<noteq> rf_op_boot f \<or> wr_op_t0 w \<noteq> rf_op_t0 f
      then (Adm_Refused REUSED_ACTION_ID_ERROR, b)
      else case wr_state w of
        Write_Running finished waiters \<Rightarrow>
          (Adm_InFlight finished (waiters + 1) Wait_WriteLedger,
           set_device_writes (rf_device_id f)
             (AList.update (rf_action_id f) (w\<lparr>wr_state := Write_Running finished (waiters + 1)\<rparr>)
                (device_writes (rf_device_id f) b)) b)
      | Write_Done _ _ \<Rightarrow>
          (case map_of (rb_cache b) (remote_action_cache_key (rf_device_id f) (rf_action_id f)) of
             Some (Cache_Completed result _ _ _) \<Rightarrow>
               (if cres_action_kind result = rf_action_kind f then (Adm_Replay result, b)
                else (Adm_AlreadyCompleted, b))
           | _ \<Rightarrow> (Adm_AlreadyCompleted, b)))"

definition start_write :: "request_facts \<Rightarrow> request_book \<Rightarrow> request_admission \<times> request_book" where
  "start_write f b =
     (let finished = rb_next_notify b;
          w = \<lparr>wr_action_kind = rf_action_kind f, wr_digest = rf_digest f, wr_op_boot = rf_op_boot f,
               wr_op_t0 = rf_op_t0 f, wr_state = Write_Running finished 0\<rparr>
      in (Adm_Execute finished,
          set_device_writes (rf_device_id f)
            (AList.update (rf_action_id f) w (device_writes (rf_device_id f) b))
            (b\<lparr>rb_next_notify := Suc finished\<rparr>)))"

text \<open>\<open>entry(device).or_default()\<close> leaves an empty ledger behind even when nothing is written.\<close>

definition admit_write :: "request_facts \<Rightarrow> u64 \<Rightarrow> request_book \<Rightarrow> request_admission \<times> request_book" where
  "admit_write f now b =
     (if rf_op_boot f \<noteq> rb_boot_id b then (Adm_OutcomeUnknown, b)
      else if sat_add now REMOTE_REQUEST_MAX_FUTURE_MS < rf_op_t0 f
      then (Adm_Refused OPERATION_CLOCK_ERROR, b)
      else
        let b = prune_writes (rf_device_id f) now b;
            b = set_device_writes (rf_device_id f) (device_writes (rf_device_id f) b) b
        in case map_of (device_writes (rf_device_id f) b) (rf_action_id f) of
             Some w \<Rightarrow> admit_recorded f w b
           | None \<Rightarrow>
               if WRITE_RETRY_WINDOW_MS < sat_sub now (rf_op_t0 f) then (Adm_OutcomeUnknown, b)
               else if MAX_WRITE_RECORDS_PER_DEVICE \<le> length (device_writes (rf_device_id f) b)
               then (Adm_Refused WRITE_LEDGER_FULL_ERROR, b)
               else start_write f b)"

definition admit_operation ::
    "request_facts \<Rightarrow> u64 \<Rightarrow> u64 \<Rightarrow> request_book \<Rightarrow> request_admission \<times> request_book" where
  "admit_operation f now now_secs b =
     (case rf_class f of
        Class_Untracked \<Rightarrow> (Adm_Run, b)
      | Class_Write \<Rightarrow> admit_write f now b
      | _ \<Rightarrow>
          (case reserve_remote_action_with_digest (rf_device_id f) (rf_action_id f)
                  (rf_action_kind f) (rf_digest f) now_secs b of
             (Inr Dec_Execute, b) \<Rightarrow>
               (case map_of (rb_cache b) (remote_action_cache_key (rf_device_id f) (rf_action_id f)) of
                  Some (Cache_InFlight _ _ _ finished _) \<Rightarrow> (Adm_Execute finished, b)
                | _ \<Rightarrow> (Adm_Refused REUSED_ACTION_ID_ERROR, b))
           | (Inr (Dec_Replay result), b) \<Rightarrow> (Adm_Replay result, b)
           | (Inr (Dec_InFlight finished ticket), b) \<Rightarrow> (Adm_InFlight finished ticket Wait_ResultCache, b)
           | (Inl _, b) \<Rightarrow> (Adm_Refused REUSED_ACTION_ID_ERROR, b)))"

definition session_matches :: "request_facts \<Rightarrow> request_session \<Rightarrow> bool" where
  "session_matches f s \<longleftrightarrow> rs_device_id s = rf_device_id f \<and> rs_peer_id s = rf_peer_id f"

definition admit_signed_request ::
    "request_facts \<Rightarrow> u64 \<Rightarrow> u64 \<Rightarrow> request_book \<Rightarrow> request_admission \<times> request_book" where
  "admit_signed_request f now now_secs b =
     (let b = prune_sessions now b
      in case map_of (rb_sessions b) (rf_sid f) of
           None \<Rightarrow> (Adm_Reauthorize, b)
         | Some s \<Rightarrow>
             if \<not> session_matches f s \<or> rf_boot_id f \<noteq> rb_boot_id b \<or> rf_device_id f \<notin> set (rb_paired b)
             then (Adm_Reauthorize, b)
             else if sat_add (rf_sent_ms f) REMOTE_REQUEST_MAX_AGE_MS < now
                     \<or> sat_add now REMOTE_REQUEST_MAX_FUTURE_MS < rf_sent_ms f
             then (Adm_Reauthorize, b)
             else if \<not> seq_is_unused (rf_seq f) s then (Adm_Duplicate, b)
             else
               let (decision, b) = admit_operation f now now_secs b
               in (decision, b\<lparr>rb_sessions := AList.update (rf_sid f) (use_seq (rf_seq f) s) (rb_sessions b)\<rparr>))"

definition complete_remote_write ::
    "string \<Rightarrow> string \<Rightarrow> notify \<Rightarrow> cached_result \<Rightarrow> u64 \<Rightarrow> u64 \<Rightarrow> request_book \<Rightarrow> request_book" where
  "complete_remote_write device action token result now_secs now b =
     (case map_of (device_writes device b) action of
        None \<Rightarrow> b
      | Some w \<Rightarrow>
          (case wr_state w of
             Write_Done _ _ \<Rightarrow> b
           | Write_Running finished waiters \<Rightarrow>
               if token \<noteq> finished then b
               else store_remote_action_result device action result now_secs
                 (set_device_writes device
                   (AList.update action (w\<lparr>wr_state := Write_Done now waiters\<rparr>)
                     (device_writes device b)) b)))"

datatype wait_outcome = Outcome_Result cached_result | Outcome_AlreadyCompleted | Outcome_Superseded

definition remote_write_wait_outcome :: "string \<Rightarrow> string \<Rightarrow> u64 \<Rightarrow> request_book \<Rightarrow> wait_outcome" where
  "remote_write_wait_outcome device action ticket b =
     (case map_of (device_writes device b) action of
        None \<Rightarrow> Outcome_Superseded
      | Some w \<Rightarrow>
          (case wr_state w of
             Write_Done _ waiters \<Rightarrow>
               (if waiters = ticket
                then case completed_remote_action device action b of
                    Some result \<Rightarrow> Outcome_Result result
                  | None \<Rightarrow> Outcome_AlreadyCompleted
                else Outcome_Superseded)
           | Write_Running _ _ \<Rightarrow> Outcome_Superseded))"

definition remote_action_wait_outcome :: "string \<Rightarrow> string \<Rightarrow> u64 \<Rightarrow> request_book \<Rightarrow> wait_outcome" where
  "remote_action_wait_outcome device action ticket b =
     (case map_of (rb_cache b) (remote_action_cache_key device action) of
        Some (Cache_Completed result _ _ waiters) \<Rightarrow>
          (if waiters = ticket then Outcome_Result result else Outcome_Superseded)
      | _ \<Rightarrow> Outcome_Superseded)"

end
