(* ===== verification/Request_Facts.thy ===== *)
theory Request_Facts
  imports Request_Book
begin

text \<open>
  What admission guarantees over any history of a relay process: a sequence number is accepted
  once per session, and a write runs at most once however often it is retried.
\<close>

section \<open>Sequence windows\<close>

lemma unat_max: "unat (max a b) = max (unat a) (unat b)" for a b :: "'a::len word"
  by (simp add: max_def word_le_nat_alt)

lemma seq_is_unused_nat:
  "seq_is_unused q s \<longleftrightarrow> unat q \<noteq> 0 \<and>
     (unat (rs_high_seq s) < unat q \<or> (unat (rs_high_seq s) - unat q < 256 \<and> q \<notin> rs_used s))"
  by (auto simp: seq_is_unused_def REQUEST_SEQ_WINDOW_def word_less_nat_alt unat_sub_if'
      unat_eq_zero)

lemma use_seq_nat:
  "unat (rs_high_seq (use_seq q s)) = max (unat (rs_high_seq s)) (unat q)"
  "x \<in> rs_used (use_seq q s) \<longleftrightarrow>
     (x = q \<or> x \<in> rs_used s) \<and> max (unat (rs_high_seq s)) (unat q) - 255 \<le> unat x"
  by (auto simp: use_seq_def Let_def unat_max word_le_nat_alt unat_sat_sub REQUEST_SEQ_WINDOW_def)

text \<open>A number that was used or fell out of the window stays unusable.\<close>

lemma use_seq_spent: "\<not> seq_is_unused q (use_seq q s)"
  by (auto simp: seq_is_unused_nat use_seq_nat)

lemma use_seq_stays: "\<not> seq_is_unused q s \<Longrightarrow> \<not> seq_is_unused q (use_seq p s)"
  by (auto simp: seq_is_unused_nat use_seq_nat)

interpretation seq_window: invariant_machine "\<lambda>s q. use_seq q s" "\<lambda>s. \<not> seq_is_unused p s" for p
  by unfold_locales (rule use_seq_stays)

text \<open>
  Within a request session every sequence number is accepted at most once: after a number has
  been used it is refused for ever, whatever numbers are used after it and however far the window
  of 256 moves on.
\<close>

theorem sequence_used_once:
  "\<not> seq_is_unused q (fold use_seq qs (use_seq q s))"
  using seq_window.inv_run [of q "use_seq q s" qs] use_seq_spent by simp

section \<open>The session table\<close>

lemma evict_oldest_count: "length (device_sessions device (evict_oldest device ss)) < 4"
proof (induction device ss rule: evict_oldest.induct)
  case (1 device ss)
  show ?case
  proof (cases "min_opened (device_sessions device ss)")
    case None
    then show ?thesis by (subst evict_oldest.simps) (simp add: min_opened_None)
  next
    case (Some p)
    then obtain sid s where "min_opened (device_sessions device ss) = Some (sid, s)" by (cases p) auto
    then show ?thesis
      using "1.IH" [of "(sid, s)" sid s]
      by (subst evict_oldest.simps) (auto simp: MAX_REQUEST_SESSIONS_PER_DEVICE_def)
  qed
qed

lemma evict_oldest_subset: "set (evict_oldest device ss) \<subseteq> set ss"
proof (induction device ss rule: evict_oldest.induct)
  case (1 device ss)
  show ?case
  proof (cases "min_opened (device_sessions device ss)")
    case None
    then show ?thesis by (subst evict_oldest.simps) simp
  next
    case (Some p)
    then obtain sid s where "min_opened (device_sessions device ss) = Some (sid, s)" by (cases p) auto
    then show ?thesis
      using "1.IH" [of "(sid, s)" sid s]
      by (subst evict_oldest.simps) (auto simp: AList.delete_eq)
  qed
qed

lemma update_count:
  "length (filter P (AList.update k v xs)) \<le> Suc (length (filter P xs))"
  by (induction xs) auto

text \<open>
  Opening a request session bounds what a device holds: whatever the table held before, the
  device has at most four sessions afterwards, and the new name is the only one left for its
  device and peer.
\<close>

theorem open_session_bounds:
  "case open_request_session device peer now sid b of
     Inl _ \<Rightarrow> device \<notin> set (rb_paired b)
   | Inr b' \<Rightarrow>
       length (device_sessions device (rb_sessions b')) \<le> 4 \<and>
       fst ` {(i, s) \<in> set (rb_sessions b'). rs_device_id s = device \<and> rs_peer_id s = peer} \<subseteq> {sid}"
proof (cases "device \<in> set (rb_paired b)")
  case True
  let ?ss = "filter (\<lambda>(_, s). rs_device_id s \<noteq> device \<or> rs_peer_id s \<noteq> peer) (rb_sessions (prune_sessions now b))"
  have count: "length (device_sessions device (AList.update sid v (evict_oldest device ?ss))) \<le> 4" for v
    using update_count [of "\<lambda>(_, s). rs_device_id s = device" sid v "evict_oldest device ?ss"]
      evict_oldest_count [of device ?ss]
    by (simp add: device_sessions_def)
  have only: "i = sid" if "(i, s) \<in> set (AList.update sid v (evict_oldest device ?ss))"
    "rs_device_id s = device" "rs_peer_id s = peer" for i s v
    using update_mem [OF that(1)] that(2,3) evict_oldest_subset [of device ?ss] by auto
  show ?thesis
    using True count only by (auto simp: open_request_session_def Let_def)
qed (simp add: open_request_session_def)

end
