(* ===== verification/Request_Ledger.thy ===== *)
theory Request_Ledger
  imports Request_Facts
begin

text \<open>
  The write ledger over a history of a relay process: at most one execution per write operation,
  by an invariant that ties a record's retention to the retry window.
\<close>

section \<open>The ledger under each operation\<close>

definition ledger :: "string \<Rightarrow> string \<Rightarrow> request_book \<Rightarrow> write_record option" where
  "ledger device action b = map_of (device_writes device b) action"

definition ledger_wf :: "request_book \<Rightarrow> bool" where
  "ledger_wf b \<longleftrightarrow> (\<forall>device. distinct (map fst (device_writes device b)))"

lemma device_writes_set:
  "device_writes d (set_device_writes d' ws b) = (if d = d' then ws else device_writes d b)"
  by (simp add: device_writes_def set_device_writes_def update_conv')

lemma device_writes_frame:
  "rb_writes b' = rb_writes b \<Longrightarrow> device_writes d b' = device_writes d b"
  by (simp add: device_writes_def)

lemma ledger_frame: "rb_writes b' = rb_writes b \<Longrightarrow> ledger d a b' = ledger d a b"
  unfolding ledger_def using device_writes_frame by metis

lemma ledger_wf_frame: "rb_writes b' = rb_writes b \<Longrightarrow> ledger_wf b' = ledger_wf b"
  unfolding ledger_wf_def using device_writes_frame by metis

lemma map_of_filter_distinct:
  "distinct (map fst xs) \<Longrightarrow>
     map_of (filter (\<lambda>(_, w). p w) xs) a =
       (case map_of xs a of None \<Rightarrow> None | Some w \<Rightarrow> if p w then Some w else None)"
  by (induction xs) (auto simp: map_of_eq_None_iff split: option.split)

lemma device_writes_prune:
  "device_writes d (prune_writes d' now b) =
     (if d = d' then filter (\<lambda>(_, w). keep_write now w) (device_writes d b) else device_writes d b)"
proof (cases "map_of (rb_writes b) d'")
  case None
  then show ?thesis by (simp add: prune_writes_def device_writes_def)
next
  case (Some ws)
  then have "device_writes d' b = ws" by (simp add: device_writes_def)
  with Some show ?thesis by (simp add: prune_writes_def device_writes_set)
qed

lemma ledger_prune:
  "ledger_wf b \<Longrightarrow> ledger d a (prune_writes d' now b) =
     (if d = d' then (case ledger d a b of None \<Rightarrow> None
        | Some w \<Rightarrow> if keep_write now w then Some w else None) else ledger d a b)"
  unfolding ledger_def device_writes_prune by (simp add: ledger_wf_def map_of_filter_distinct)

lemma ledger_wf_prune: "ledger_wf b \<Longrightarrow> ledger_wf (prune_writes d now b)"
  by (simp add: ledger_wf_def device_writes_prune distinct_map_filter)

lemma ledger_touch [simp]:
  "ledger d a (set_device_writes d' (device_writes d' b) b) = ledger d a b"
  "ledger_wf (set_device_writes d' (device_writes d' b) b) = ledger_wf b"
  by (auto simp: ledger_def ledger_wf_def device_writes_set)

lemma ledger_update:
  "ledger d a (set_device_writes d' (AList.update a' w (device_writes d' b)) b) =
     (if d = d' \<and> a = a' then Some w else ledger d a b)"
  by (simp add: ledger_def device_writes_set update_conv')

lemma ledger_wf_update:
  "ledger_wf b \<Longrightarrow> ledger_wf (set_device_writes d' (AList.update a' w (device_writes d' b)) b)"
  by (simp add: ledger_wf_def device_writes_set distinct_update)

lemma writes_frames [simp]:
  "rb_writes (prune_sessions now b) = rb_writes b"
  "rb_writes (prune_remote_action_replays t b) = rb_writes b"
  "rb_writes (trim_remote_action_replays b) = rb_writes b"
  "rb_writes (store_remote_action_result d a res t b) = rb_writes b"
  "rb_writes (snd (reserve_remote_action_with_digest d a k g t b)) = rb_writes b"
  "rb_writes (drop_request_sessions_for_peer p b) = rb_writes b"
  "rb_writes (drop_request_sessions_except_peers ps b) = rb_writes b"
  by (auto simp: prune_sessions_def prune_remote_action_replays_def trim_remote_action_replays_def
      store_remote_action_result_def reserve_remote_action_with_digest_def Let_def
      drop_request_sessions_for_peer_def drop_request_sessions_except_peers_def
      split: option.split cached_state.split prod.splits)

section \<open>Histories\<close>

datatype request_event =
    Open_Session string string string
  | Admit request_facts
  | Complete_Write string string notify cached_result
  | Store_Result string string cached_result
  | Drop_Peer string
  | Keep_Peers "string list"
  | Forget_Device string
  | Pair_Device string
  | Load_State

text \<open>An event at a clock reading in milliseconds and one in seconds, with the decision it gave.\<close>

fun request_step ::
    "u64 \<Rightarrow> u64 \<Rightarrow> request_event \<Rightarrow> request_book \<Rightarrow> request_admission option \<times> request_book" where
  "request_step now secs (Open_Session d p sid) b =
     (None, case open_request_session d p now sid b of Inl _ \<Rightarrow> b | Inr b' \<Rightarrow> b')"
| "request_step now secs (Admit f) b =
     (let (decision, b) = admit_signed_request f now secs b in (Some decision, b))"
| "request_step now secs (Complete_Write d a token res) b =
     (None, complete_remote_write d a token res secs now b)"
| "request_step now secs (Store_Result d a res) b = (None, store_remote_action_result d a res secs b)"
| "request_step now secs (Drop_Peer p) b = (None, drop_request_sessions_for_peer p b)"
| "request_step now secs (Keep_Peers ps) b = (None, drop_request_sessions_except_peers ps b)"
| "request_step now secs (Forget_Device d) b = (None, forget_remote_requests_for_device d b)"
| "request_step now secs (Pair_Device d) b = (None, b\<lparr>rb_paired := d # rb_paired b\<rparr>)"
| "request_step now secs Load_State b = (None, clear_requests b)"

text \<open>The two events that drop a device's ledger: it is revoked, or the stored state is loaded.\<close>

definition drops_ledger :: "string \<Rightarrow> request_event \<Rightarrow> bool" where
  "drops_ledger d ev \<longleftrightarrow> ev = Forget_Device d \<or> ev = Load_State"

text \<open>One write operation: its device, its action id and the start time the phone gave it.\<close>

definition executes :: "string \<Rightarrow> string \<Rightarrow> u64 \<Rightarrow> request_event \<Rightarrow> request_admission option \<Rightarrow> bool" where
  "executes d a t0 ev decision \<longleftrightarrow>
     (case ev of
        Admit f \<Rightarrow> rf_class f = Class_Write \<and> rf_device_id f = d \<and> rf_action_id f = a \<and> rf_op_t0 f = t0 \<and>
          (case decision of Some (Adm_Execute _) \<Rightarrow> True | _ \<Rightarrow> False)
      | _ \<Rightarrow> False)"

fun executions ::
    "string \<Rightarrow> string \<Rightarrow> u64 \<Rightarrow> (u64 \<times> u64 \<times> request_event) list \<Rightarrow> request_book \<Rightarrow> nat" where
  "executions d a t0 [] b = 0"
| "executions d a t0 ((now, secs, ev) # evs) b =
     (let (decision, b) = request_step now secs ev b
      in (if executes d a t0 ev decision then 1 else 0) + executions d a t0 evs b)"

section \<open>The invariant\<close>

definition record_timely :: "u64 \<Rightarrow> write_record \<Rightarrow> bool" where
  "record_timely now w \<longleftrightarrow>
     (case wr_state w of
        Write_Running _ _ \<Rightarrow> unat (wr_op_t0 w) \<le> unat now + 5000
      | Write_Done done_ms _ \<Rightarrow> unat (wr_op_t0 w) \<le> unat done_ms + 5000 \<and> done_ms \<le> now)"

definition ledger_inv :: "u64 \<Rightarrow> request_book \<Rightarrow> bool" where
  "ledger_inv now b \<longleftrightarrow> ledger_wf b \<and> (\<forall>d a w. ledger d a b = Some w \<longrightarrow> record_timely now w)"

text \<open>An operation that can no longer start: it is on record, or too old to be admitted.\<close>

definition spent :: "string \<Rightarrow> string \<Rightarrow> u64 \<Rightarrow> u64 \<Rightarrow> request_book \<Rightarrow> bool" where
  "spent d a t0 now b \<longleftrightarrow>
     (\<exists>w. ledger d a b = Some w \<and> wr_op_t0 w = t0) \<or> unat t0 + 300000 < unat now"

lemma ledger_invD:
  "ledger_inv now b \<Longrightarrow> ledger d a b = Some w \<Longrightarrow> record_timely now w"
  "ledger_inv now b \<Longrightarrow> ledger_wf b"
  by (auto simp: ledger_inv_def)

lemma record_timely_later: "record_timely now w \<Longrightarrow> now \<le> now' \<Longrightarrow> record_timely now' w"
  by (auto simp: record_timely_def word_le_nat_alt split: write_state.splits)

lemma ledger_inv_later: "ledger_inv now b \<Longrightarrow> now \<le> now' \<Longrightarrow> ledger_inv now' b"
  by (auto simp: ledger_inv_def intro: record_timely_later)

lemma spent_later: "spent d a t0 now b \<Longrightarrow> now \<le> now' \<Longrightarrow> spent d a t0 now' b"
  by (auto simp: spent_def word_le_nat_alt)

lemma ledger_inv_frame: "rb_writes b' = rb_writes b \<Longrightarrow> ledger_inv now b' = ledger_inv now b"
  unfolding ledger_inv_def using ledger_frame ledger_wf_frame by metis

lemma spent_frame: "rb_writes b' = rb_writes b \<Longrightarrow> spent d a t0 now b' = spent d a t0 now b"
  unfolding spent_def using ledger_frame by metis

lemma ledger_inv_update:
  "ledger_inv now b \<Longrightarrow> record_timely now w \<Longrightarrow>
     ledger_inv now (set_device_writes d (AList.update a w (device_writes d b)) b)"
  by (auto simp: ledger_inv_def ledger_update ledger_wf_update split: if_splits)

text \<open>Pruning only forgets records that are past their retry window.\<close>

lemma pruned_is_old:
  assumes "record_timely now w" "\<not> keep_write now w"
  shows "unat (wr_op_t0 w) + 300000 < unat now"
proof -
  obtain dm ws where w: "wr_state w = Write_Done dm ws" "sat_add dm WRITE_RECORD_RETENTION_MS < now"
    using assms(2) by (auto simp: keep_write_def not_le split: write_state.splits)
  then have "min (unat dm + 600000) (2 ^ 64 - 1) < unat now"
    by (simp add: word_less_nat_alt unat_sat_add WRITE_RECORD_RETENTION_MS_def)
  moreover have "unat now < 2 ^ LENGTH(64)" by (rule unsigned_less)
  then have "unat now \<le> 2 ^ 64 - 1" by simp
  ultimately have "unat dm + 600000 < unat now" by linarith
  with assms(1) w(1) show ?thesis by (simp add: record_timely_def)
qed

lemma prune_inv: "ledger_inv now b \<Longrightarrow> ledger_inv now (prune_writes d now b)"
  by (auto simp: ledger_inv_def ledger_wf_prune ledger_prune split: option.splits if_splits)

lemma prune_spent:
  assumes inv: "ledger_inv now b" and s: "spent d a t0 now b"
  shows "spent d a t0 now (prune_writes d' now b)"
proof (cases "\<exists>w. ledger d a b = Some w \<and> wr_op_t0 w = t0")
  case True
  then obtain w where w: "ledger d a b = Some w" "wr_op_t0 w = t0" by blast
  show ?thesis
  proof (cases "keep_write now w")
    case True
    with w inv show ?thesis by (auto simp: spent_def ledger_prune ledger_invD)
  next
    case False
    with pruned_is_old [OF ledger_invD(1) [OF inv w(1)]] w show ?thesis by (simp add: spent_def)
  qed
next
  case False
  with s show ?thesis by (simp add: spent_def)
qed

lemma spent_update:
  assumes "spent d a t0 now b"
    and "\<And>w'. ledger d' a' b = Some w' \<Longrightarrow> wr_op_t0 w' = wr_op_t0 w"
  shows "spent d a t0 now (set_device_writes d' (AList.update a' w (device_writes d' b)) b)"
  using assms by (auto simp: spent_def ledger_update)

section \<open>Every event keeps it\<close>

lemma admit_write_ledger:
  fixes f now b d a t0
  assumes inv: "ledger_inv now b"
  defines "out \<equiv> admit_write f now b"
  shows "ledger_inv now (snd out) \<and>
    (spent d a t0 now b \<longrightarrow> spent d a t0 now (snd out)) \<and>
    (\<forall>n. fst out = Adm_Execute n \<longrightarrow>
       \<not> spent (rf_device_id f) (rf_action_id f) (rf_op_t0 f) now b \<and>
       spent (rf_device_id f) (rf_action_id f) (rf_op_t0 f) now (snd out))"
proof (cases "rf_op_boot f \<noteq> rb_boot_id b \<or> sat_add now REMOTE_REQUEST_MAX_FUTURE_MS < rf_op_t0 f")
  case True
  then show ?thesis using inv by (auto simp: out_def admit_write_def)
next
  case False
  let ?d = "rf_device_id f" and ?a = "rf_action_id f" and ?t = "rf_op_t0 f"
  define p where "p = prune_writes ?d now b"
  define q where "q = set_device_writes ?d (device_writes ?d p) p"
  have qinv: "ledger_inv now q"
    unfolding q_def ledger_inv_def ledger_touch using prune_inv [OF inv, of ?d] by (simp add: ledger_inv_def p_def)
  have qspent: "spent d' a' t' now b \<Longrightarrow> spent d' a' t' now q" for d' a' t'
    using prune_spent [OF inv] by (simp add: q_def spent_def p_def)
  have t: "unat ?t \<le> unat now + 5000"
    using False by (auto simp: not_less word_le_nat_alt unat_sat_add REMOTE_REQUEST_MAX_FUTURE_MS_def)
  have out: "out = (case ledger ?d ?a q of
      Some w \<Rightarrow> admit_recorded f w q
    | None \<Rightarrow> if WRITE_RETRY_WINDOW_MS < sat_sub now ?t then (Adm_OutcomeUnknown, q)
        else if MAX_WRITE_RECORDS_PER_DEVICE \<le> length (device_writes ?d q) then (Adm_Refused WRITE_LEDGER_FULL_ERROR, q)
        else start_write f q)"
    using False unfolding out_def admit_write_def Let_def p_def [symmetric] q_def [symmetric] ledger_def
    by simp
  show ?thesis
  proof (cases "ledger ?d ?a q")
    case (Some w)
    have "ledger_inv now (snd (admit_recorded f w q)) \<and>
        (spent d a t0 now q \<longrightarrow> spent d a t0 now (snd (admit_recorded f w q))) \<and>
        fst (admit_recorded f w q) \<noteq> Adm_Execute n" for n
    proof (cases "wr_state w")
      case (Write_Running finished waiters)
      have timely: "record_timely now (w\<lparr>wr_state := Write_Running finished (waiters + 1)\<rparr>)"
        using ledger_invD(1) [OF qinv Some] Write_Running by (simp add: record_timely_def)
      show ?thesis
        using Write_Running qinv ledger_inv_update [OF qinv timely] Some
          spent_update [of d a t0 now q ?d ?a "w\<lparr>wr_state := Write_Running finished (waiters + 1)\<rparr>"]
        by (simp add: admit_recorded_def)
    next
      case (Write_Done dm ws)
      then show ?thesis using qinv
        by (simp add: admit_recorded_def split: option.split cached_state.split)
    qed
    with qspent show ?thesis by (simp add: out Some)
  next
    case None
    show ?thesis
    proof (cases "fst out = Adm_Execute (rb_next_notify q)")
      case True
      with None have start: "out = start_write f q" and young: "\<not> WRITE_RETRY_WINDOW_MS < sat_sub now ?t"
        unfolding out by (simp_all split: if_splits)
      let ?w = "\<lparr>wr_action_kind = rf_action_kind f, wr_digest = rf_digest f, wr_op_boot = rf_op_boot f,
          wr_op_t0 = ?t, wr_state = Write_Running (rb_next_notify q) 0\<rparr>"
      let ?q = "q\<lparr>rb_next_notify := Suc (rb_next_notify q)\<rparr>"
      have same: "rb_writes ?q = rb_writes q" by simp
      have snd_out: "snd out = set_device_writes ?d (AList.update ?a ?w (device_writes ?d ?q)) ?q"
        unfolding start start_write_def Let_def using device_writes_frame [OF same] by simp
      have "ledger_inv now (snd out)"
        unfolding snd_out using qinv t ledger_inv_frame [OF same, of now]
        by (intro ledger_inv_update) (simp_all add: record_timely_def)
      moreover have "spent d a t0 now b \<Longrightarrow> spent d a t0 now (snd out)"
        unfolding snd_out using qspent spent_frame [OF same] None ledger_frame [OF same]
        by (intro spent_update) auto
      moreover have "\<not> spent ?d ?a ?t now b"
      proof
        assume "spent ?d ?a ?t now b"
        then have "spent ?d ?a ?t now q" by (rule qspent)
        then have "unat ?t + 300000 < unat now" using None by (simp add: spent_def)
        then have "WRITE_RETRY_WINDOW_MS < sat_sub now ?t"
          by (simp add: word_less_nat_alt unat_sat_sub WRITE_RETRY_WINDOW_MS_def)
        with young show False by simp
      qed
      moreover have "spent ?d ?a ?t now (snd out)"
        unfolding snd_out by (simp add: spent_def ledger_update)
      ultimately show ?thesis by blast
    next
      case False
      then have "snd out = q \<and> (\<forall>n. fst out \<noteq> Adm_Execute n)"
        using None unfolding out by (auto simp: start_write_def Let_def split: if_splits)
      with qinv qspent show ?thesis by simp
    qed
  qed
qed

lemma admit_operation_ledger:
  fixes f now secs b d a t0
  assumes inv: "ledger_inv now b"
  defines "out \<equiv> admit_operation f now secs b"
  shows "ledger_inv now (snd out) \<and> (spent d a t0 now b \<longrightarrow> spent d a t0 now (snd out)) \<and>
      (executes d a t0 (Admit f) (Some (fst out)) \<longrightarrow> \<not> spent d a t0 now b \<and> spent d a t0 now (snd out))"
proof (cases "rf_class f = Class_Write")
  case True
  then have "out = admit_write f now b" by (simp add: out_def admit_operation_def)
  with admit_write_ledger [OF inv, where d = d and a = a and ?t0.0 = t0 and f = f] True show ?thesis
    by (auto simp: executes_def split: request_admission.splits)
next
  case False
  let ?r = "reserve_remote_action_with_digest (rf_device_id f) (rf_action_id f)
              (rf_action_kind f) (rf_digest f) secs b"
  have "snd out = b \<or> snd out = snd ?r"
    using False by (cases "rf_class f"; cases ?r; cases "fst ?r")
      (auto simp: out_def admit_operation_def split: replay_decision.splits option.splits cached_state.splits)
  then have "rb_writes (snd out) = rb_writes b" by (elim disjE) (simp_all only: writes_frames)
  from ledger_inv_frame [OF this] spent_frame [OF this] False inv show ?thesis
    by (simp add: executes_def)
qed

lemma admit_signed_shape:
  "(snd (admit_signed_request f now secs b) = prune_sessions now b \<and>
      (\<forall>n. fst (admit_signed_request f now secs b) \<noteq> Adm_Execute n)) \<or>
   (\<exists>ss. admit_signed_request f now secs b =
      (fst (admit_operation f now secs (prune_sessions now b)),
       (snd (admit_operation f now secs (prune_sessions now b)))\<lparr>rb_sessions := ss\<rparr>))"
  by (auto simp: admit_signed_request_def Let_def split: option.split prod.split)

lemma admit_signed_ledger:
  fixes f now secs b d a t0
  assumes inv: "ledger_inv now b"
  defines "out \<equiv> admit_signed_request f now secs b"
  shows "ledger_inv now (snd out) \<and> (spent d a t0 now b \<longrightarrow> spent d a t0 now (snd out)) \<and>
    (executes d a t0 (Admit f) (Some (fst out)) \<longrightarrow> \<not> spent d a t0 now b \<and> spent d a t0 now (snd out))"
proof -
  let ?p = "prune_sessions now b"
  have same: "rb_writes ?p = rb_writes b" by simp
  have pinv: "ledger_inv now ?p" using inv ledger_inv_frame [OF same] by simp
  note op = admit_operation_ledger [OF pinv, where d = d and a = a and ?t0.0 = t0 and f = f and secs = secs]
  show ?thesis
    using admit_signed_shape [of f now secs b]
  proof (elim disjE exE)
    assume "snd (admit_signed_request f now secs b) = ?p \<and>
      (\<forall>n. fst (admit_signed_request f now secs b) \<noteq> Adm_Execute n)"
    then show ?thesis
      using pinv spent_frame [OF same, of d a t0 now]
      by (auto simp: out_def executes_def split: request_admission.splits)
  next
    fix ss
    let ?q = "snd (admit_operation f now secs ?p)"
    assume o: "admit_signed_request f now secs b =
      (fst (admit_operation f now secs ?p), ?q\<lparr>rb_sessions := ss\<rparr>)"
    have qs: "rb_writes (?q\<lparr>rb_sessions := ss\<rparr>) = rb_writes ?q" by simp
    show ?thesis
      using op unfolding out_def o fst_conv snd_conv ledger_inv_frame [OF qs] spent_frame [OF qs]
        spent_frame [OF same] .
  qed
qed

lemma complete_ledger:
  assumes inv: "ledger_inv now b"
  shows "ledger_inv now (complete_remote_write d' a' token res secs now b)"
    "spent d a t0 now b \<Longrightarrow> spent d a t0 now (complete_remote_write d' a' token res secs now b)"
proof -
  let ?c = "complete_remote_write d' a' token res secs now b"
  have "?c = b \<or> (\<exists>w finished waiters. ledger d' a' b = Some w \<and> wr_state w = Write_Running finished waiters \<and>
      ?c = store_remote_action_result d' a' res secs (set_device_writes d'
        (AList.update a' (w\<lparr>wr_state := Write_Done now waiters\<rparr>) (device_writes d' b)) b))"
    by (auto simp: complete_remote_write_def ledger_def split: option.split write_state.split)
  then have "ledger_inv now ?c \<and> (spent d a t0 now b \<longrightarrow> spent d a t0 now ?c)"
  proof (elim disjE exE conjE)
    fix w finished waiters
    assume w: "ledger d' a' b = Some w" "wr_state w = Write_Running finished waiters"
      and c: "?c = store_remote_action_result d' a' res secs (set_device_writes d'
        (AList.update a' (w\<lparr>wr_state := Write_Done now waiters\<rparr>) (device_writes d' b)) b)"
    let ?q = "set_device_writes d' (AList.update a' (w\<lparr>wr_state := Write_Done now waiters\<rparr>) (device_writes d' b)) b"
    have same: "rb_writes ?c = rb_writes ?q" by (simp add: c)
    have "record_timely now (w\<lparr>wr_state := Write_Done now waiters\<rparr>)"
      using ledger_invD(1) [OF inv w(1)] w(2) by (simp add: record_timely_def)
    from ledger_inv_update [OF inv this] have "ledger_inv now ?c"
      using ledger_inv_frame [OF same] by simp
    moreover have "spent d a t0 now ?c" if "spent d a t0 now b"
      using spent_update [OF that, of d' a' "w\<lparr>wr_state := Write_Done now waiters\<rparr>"] w spent_frame [OF same]
      by simp
    ultimately show ?thesis by blast
  qed (use inv in simp)
  then show "ledger_inv now ?c" "spent d a t0 now b \<Longrightarrow> spent d a t0 now ?c" by blast+
qed

lemma forget_ledger:
  "ledger_inv now b \<Longrightarrow> ledger_inv now (forget_remote_requests_for_device d' b)"
  "d \<noteq> d' \<Longrightarrow> spent d a t0 now b \<Longrightarrow> spent d a t0 now (forget_remote_requests_for_device d' b)"
proof -
  have w: "device_writes e (forget_remote_requests_for_device d' b) =
      (if e = d' then [] else device_writes e b)" for e
    by (simp add: device_writes_def forget_remote_requests_for_device_def delete_conv')
  show "ledger_inv now b \<Longrightarrow> ledger_inv now (forget_remote_requests_for_device d' b)"
    by (auto simp: ledger_inv_def ledger_wf_def ledger_def w split: if_splits)
  show "d \<noteq> d' \<Longrightarrow> spent d a t0 now b \<Longrightarrow> spent d a t0 now (forget_remote_requests_for_device d' b)"
    by (simp add: spent_def ledger_def w)
qed

lemma open_writes: "open_request_session d p now sid b = Inr b' \<Longrightarrow> rb_writes b' = rb_writes b"
  by (auto simp: open_request_session_def Let_def split: if_splits)

lemma request_step_ledger:
  fixes now secs ev b d a t0
  assumes inv: "ledger_inv now b"
  defines "out \<equiv> request_step now secs ev b"
  shows "ledger_inv now (snd out)"
    "\<not> drops_ledger d ev \<Longrightarrow> spent d a t0 now b \<Longrightarrow> spent d a t0 now (snd out)"
    "executes d a t0 ev (fst out) \<Longrightarrow> \<not> spent d a t0 now b \<and> spent d a t0 now (snd out)"
proof -
  have frame: "ledger_inv now b'" "spent d a t0 now b' = spent d a t0 now b" if "rb_writes b' = rb_writes b" for b'
    using inv ledger_inv_frame [OF that] spent_frame [OF that] by simp_all
  have "ledger_inv now (snd out) \<and> (\<not> drops_ledger d ev \<longrightarrow> spent d a t0 now b \<longrightarrow> spent d a t0 now (snd out)) \<and>
    (executes d a t0 ev (fst out) \<longrightarrow> \<not> spent d a t0 now b \<and> spent d a t0 now (snd out))"
  proof (cases ev)
    case (Open_Session d' p sid)
    then show ?thesis
      using frame(1) [OF open_writes] frame(2) [OF open_writes] inv
      by (auto simp: out_def executes_def split: sum.split)
  next
    case (Admit f)
    then show ?thesis using admit_signed_ledger [OF inv, where f = f and secs = secs and d = d and a = a and ?t0.0 = t0]
      by (auto simp: out_def split: prod.split)
  next
    case (Complete_Write d' a' token res)
    then show ?thesis using complete_ledger [OF inv] by (simp add: out_def executes_def)
  next
    case (Forget_Device d')
    then show ?thesis using forget_ledger inv by (auto simp: out_def executes_def drops_ledger_def)
  next
    case Load_State
    then show ?thesis
      by (simp add: out_def executes_def drops_ledger_def clear_requests_def ledger_inv_def ledger_wf_def
          ledger_def device_writes_def)
  next
    case (Store_Result d' a' res)
    have "rb_writes (snd out) = rb_writes b" by (simp add: out_def Store_Result)
    from frame [OF this] show ?thesis by (simp add: executes_def Store_Result)
  next
    case (Drop_Peer p)
    have "rb_writes (snd out) = rb_writes b" by (simp add: out_def Drop_Peer)
    from frame [OF this] show ?thesis by (simp add: executes_def Drop_Peer)
  next
    case (Keep_Peers ps)
    have "rb_writes (snd out) = rb_writes b" by (simp add: out_def Keep_Peers)
    from frame [OF this] show ?thesis by (simp add: executes_def Keep_Peers)
  next
    case (Pair_Device d')
    have "rb_writes (snd out) = rb_writes b" by (simp add: out_def Pair_Device)
    from frame [OF this] show ?thesis by (simp add: executes_def Pair_Device)
  qed
  then show "ledger_inv now (snd out)"
    "\<not> drops_ledger d ev \<Longrightarrow> spent d a t0 now b \<Longrightarrow> spent d a t0 now (snd out)"
    "executes d a t0 ev (fst out) \<Longrightarrow> \<not> spent d a t0 now b \<and> spent d a t0 now (snd out)"
    by blast+
qed

section \<open>At most one execution\<close>

text \<open>How often a history drops the device's ledger.\<close>

definition ledger_drops :: "string \<Rightarrow> (u64 \<times> u64 \<times> request_event) list \<Rightarrow> nat" where
  "ledger_drops d evs = length (filter (\<lambda>(_, _, ev). drops_ledger d ev) evs)"

lemma dropping_executes_nothing: "drops_ledger d' ev \<Longrightarrow> \<not> executes d a t0 ev decision"
  by (auto simp: drops_ledger_def executes_def)

lemma executions_bound:
  "ledger_inv now b \<Longrightarrow> sorted (now # map fst evs) \<Longrightarrow>
     executions d a t0 evs b \<le> (if spent d a t0 now b then 0 else 1) + ledger_drops d evs"
proof (induction evs arbitrary: now b)
  case (Cons e evs)
  obtain t secs ev where e: "e = (t, secs, ev)" by (cases e)
  obtain dec b' where step: "request_step t secs ev b = (dec, b')" by (cases "request_step t secs ev b")
  have le: "now \<le> t" and rest: "sorted (t # map fst evs)" using Cons.prems(2) e by auto
  have inv: "ledger_inv t b" by (rule ledger_inv_later [OF Cons.prems(1) le])
  note s = request_step_ledger [OF inv, where secs = secs and ev = ev, unfolded step fst_conv snd_conv]
  have tail: "executions d a t0 evs b' \<le> (if spent d a t0 t b' then 0 else 1) + ledger_drops d evs"
    by (rule Cons.IH [OF s(1) rest])
  show ?case
  proof (cases "drops_ledger d ev")
    case True
    with tail dropping_executes_nothing [OF True] show ?thesis
      by (auto simp: e step ledger_drops_def split: if_splits)
  next
    case False
    then show ?thesis
      using tail s(2) [where d = d and a = a and ?t0.0 = t0, OF False] s(3) [where d = d and a = a and ?t0.0 = t0]
        spent_later [OF _ le, of d a t0 b]
      by (auto simp: e step ledger_drops_def split: if_splits)
  qed
qed (simp add: ledger_drops_def)

text \<open>
  C4. A write runs at most once while its device's ledger stands: over any history of a relay process
  on its own monotonic clock - retries on new sessions, replaced connections, evicted replies,
  completed and pruned records - one write operation of a device is handed out for execution at most
  once, and at most once more for each time the history drops the device's ledger, by revoking the
  device or reloading the stored state. The retention of a finished record outlasts every retry that
  could still be admitted.
\<close>

theorem write_executes_once:
  assumes "sorted (map fst evs)" "rb_writes b = []"
  shows "executions d a t0 evs b \<le> 1 + ledger_drops d evs"
proof -
  have "ledger_inv 0 b" using assms(2) by (simp add: ledger_inv_def ledger_wf_def ledger_def device_writes_def)
  moreover have "sorted (0 # map fst evs)" using assms(1) by simp
  ultimately have "executions d a t0 evs b \<le> (if spent d a t0 0 b then 0 else 1) + ledger_drops d evs"
    by (rule executions_bound)
  then show ?thesis by (simp split: if_splits)
qed

definition sample_book :: request_book where
  "sample_book = \<lparr>rb_boot_id = ''boot'', rb_paired = [''phone''], rb_sessions = [], rb_writes = [],
     rb_cache = [], rb_next_notify = 0\<rparr>"

definition sample_write :: "u64 \<Rightarrow> request_facts" where
  "sample_write q = \<lparr>rf_device_id = ''phone'', rf_peer_id = ''peer'', rf_sid = ''sid'',
     rf_boot_id = ''boot'', rf_seq = q, rf_sent_ms = 1000000000, rf_action_id = ''w'',
     rf_action_kind = ''start_session'', rf_class = Class_Write, rf_digest = ''x'',
     rf_op_boot = ''boot'', rf_op_t0 = 1000000000\<rparr>"

definition sample_retries :: "(u64 \<times> u64 \<times> request_event) list" where
  "sample_retries =
     [(1000000000, 1, Open_Session ''phone'' ''peer'' ''sid''),
      (1000000001, 1, Admit (sample_write 1)), (1000000002, 1, Admit (sample_write 2))]"

lemma write_executes_once_witness:
  "executions ''phone'' ''w'' 1000000000 sample_retries sample_book \<le> 1 \<and>
   executions ''phone'' ''w'' 1000000000 sample_retries sample_book = 1"
proof
  have "ledger_drops ''phone'' sample_retries = 0"
    by (simp add: ledger_drops_def sample_retries_def drops_ledger_def)
  moreover have "executions ''phone'' ''w'' 1000000000 sample_retries sample_book \<le> 1 + ledger_drops ''phone'' sample_retries"
    by (rule write_executes_once) (simp_all add: sample_book_def sample_retries_def)
  ultimately show "executions ''phone'' ''w'' 1000000000 sample_retries sample_book \<le> 1" by simp
  show "executions ''phone'' ''w'' 1000000000 sample_retries sample_book = 1"
    by code_simp
qed

end
