(* ===== verification/Broker_Rooms.thy ===== *)
theory Broker_Rooms
  imports Json
begin

text \<open>
  The rooms of the broker (\<open>crates/relay-broker/src/state.rs\<close>): who is seated where, the
  presence messages, targeted publishing and the access epoch. Every operation runs under one lock, so it is one
  function of the state. A \<open>HashMap\<close> is an association list in some iteration order. An
  outbound queue with its byte budget and overflow signal is a cell of a store, so that what was
  queued on it outlives the seat. The length of a serialized message is the parameter \<open>len\<close>;
  the usage sink is the list of the events recorded, without their time stamps.
\<close>

section \<open>State\<close>

definition OUTBOUND_QUEUE_CAPACITY :: nat where "OUTBOUND_QUEUE_CAPACITY = 256"
definition OUTBOUND_QUEUE_BYTES :: nat where "OUTBOUND_QUEUE_BYTES = 8 * 1024 * 1024"
definition MAX_TARGETED_MESSAGES_PER_PUBLISH :: nat where "MAX_TARGETED_MESSAGES_PER_PUBLISH = 128"

datatype peer_role = Role_Relay | Role_Surface

record peer_summary =
  pe_peer_id :: string
  pe_role :: peer_role
  pe_device_id :: "string option"

datatype presence_kind = Presence_Joined | Presence_Left

datatype server_message =
    Relay_Join_Challenge string string string string string string string string
  | Welcome u32 string string "peer_summary list"
  | Presence string presence_kind peer_summary
  | Message string string peer_role json
  | Error_Message string string

record outbound =
  ob_queue :: "server_message list"
  ob_taken :: "server_message list"
  ob_open :: bool
  ob_overflow :: bool

record peer_handle =
  ph_connection_id :: u64
  ph_role :: peer_role
  ph_device_id :: "string option"
  ph_pairing_id :: "string option"
  ph_queue :: nat

type_synonym room = "(string \<times> peer_handle) list"

datatype usage_kind = Usage_Connect | Usage_Disconnect | Usage_Publish

record usage_event =
  ue_event :: usage_kind
  ue_channel_id :: string
  ue_peer_id :: string
  ue_role :: peer_role
  ue_device_id :: "string option"
  ue_payload_kind :: "string option"

record broker =
  bk_rooms :: "(string \<times> room) list"
  bk_next_connection_id :: u64
  bk_access_epoch :: u64
  bk_queues :: "nat \<Rightarrow> outbound"
  bk_next_queue :: nat
  bk_events :: "usage_event list"

record join_result =
  jn_connection_id :: u64
  jn_existing_peers :: "peer_summary list"
  jn_receiver :: nat

datatype broker_error =
    Epoch_Changed
  | Already_Connected string string
  | Channel_Inactive string
  | Not_Connected string string
  | Connection_Replaced string string
  | Surface_Batch
  | Same_Role_Target
  | Invalid_Batch
  | Target_Required
  | Too_Many_Targets
  | Empty_Target
  | Repeated_Target
  | Target_Mismatch

definition fresh_outbound :: outbound where
  "fresh_outbound = \<lparr>ob_queue = [], ob_taken = [], ob_open = True, ob_overflow = False\<rparr>"

definition empty_broker :: broker where
  "empty_broker = \<lparr>bk_rooms = [], bk_next_connection_id = 0, bk_access_epoch = 0,
     bk_queues = (\<lambda>_. fresh_outbound), bk_next_queue = 0, bk_events = []\<rparr>"

section \<open>Outbound queues\<close>

definition bytes_held :: "(server_message \<Rightarrow> nat) \<Rightarrow> outbound \<Rightarrow> nat" where
  "bytes_held len q = sum_list (map len (ob_queue q)) + sum_list (map len (ob_taken q))"

definition push_message :: "(server_message \<Rightarrow> nat) \<Rightarrow> server_message \<Rightarrow> outbound \<Rightarrow> bool \<times> outbound" where
  "push_message len m q =
     (if OUTBOUND_QUEUE_BYTES < len m then (False, q\<lparr>ob_overflow := True\<rparr>)
      else if OUTBOUND_QUEUE_BYTES < bytes_held len q + len m then (False, q\<lparr>ob_overflow := True\<rparr>)
      else if \<not> ob_open q then (False, q)
      else if OUTBOUND_QUEUE_CAPACITY \<le> length (ob_queue q) then (False, q\<lparr>ob_overflow := True\<rparr>)
      else (True, q\<lparr>ob_queue := ob_queue q @ [m]\<rparr>))"

definition enqueue :: "(server_message \<Rightarrow> nat) \<Rightarrow> peer_handle \<Rightarrow> server_message \<Rightarrow> broker \<Rightarrow> broker" where
  "enqueue len h m b =
     b\<lparr>bk_queues := (bk_queues b)(ph_queue h := snd (push_message len m (bk_queues b (ph_queue h))))\<rparr>"

definition enqueue_all :: "(server_message \<Rightarrow> nat) \<Rightarrow> room \<Rightarrow> server_message \<Rightarrow> broker \<Rightarrow> broker" where
  "enqueue_all len r m b = fold (\<lambda>(_, h) b. enqueue len h m b) r b"

definition record_usage ::
    "usage_kind \<Rightarrow> string \<Rightarrow> string \<Rightarrow> peer_role \<Rightarrow> string option \<Rightarrow> string option \<Rightarrow> broker \<Rightarrow> broker" where
  "record_usage k ch p role dev pk b =
     b\<lparr>bk_events := bk_events b @
         [\<lparr>ue_event = k, ue_channel_id = ch, ue_peer_id = p, ue_role = role,
           ue_device_id = dev, ue_payload_kind = pk\<rparr>]\<rparr>"

definition room_of :: "string \<Rightarrow> broker \<Rightarrow> room option" where
  "room_of ch b = map_of (bk_rooms b) ch"

definition set_room :: "string \<Rightarrow> room \<Rightarrow> broker \<Rightarrow> broker" where
  "set_room ch r b = b\<lparr>bk_rooms := AList.update ch r (bk_rooms b)\<rparr>"

definition drop_room :: "string \<Rightarrow> broker \<Rightarrow> broker" where
  "drop_room ch b = b\<lparr>bk_rooms := AList.delete ch (bk_rooms b)\<rparr>"

definition seat_summary :: "string \<times> peer_handle \<Rightarrow> peer_summary" where
  "seat_summary s = \<lparr>pe_peer_id = fst s, pe_role = ph_role (snd s), pe_device_id = ph_device_id (snd s)\<rparr>"

section \<open>Leaving\<close>

text \<open>\<open>unseat\<close> works on the room it is given, which the caller puts back.\<close>

definition unseat ::
    "(server_message \<Rightarrow> nat) \<Rightarrow> string \<Rightarrow> string \<Rightarrow> room \<Rightarrow> broker \<Rightarrow> (peer_handle \<times> room \<times> broker) option" where
  "unseat len ch p r b =
     (case map_of r p of
        None \<Rightarrow> None
      | Some h \<Rightarrow>
          (let r = AList.delete p r;
               b = enqueue_all len r (Presence ch Presence_Left (seat_summary (p, h))) b;
               b = record_usage Usage_Disconnect ch p (ph_role h) (ph_device_id h) None b
           in Some (h, r, b)))"

definition leave_inner ::
    "(server_message \<Rightarrow> nat) \<Rightarrow> string \<Rightarrow> string \<Rightarrow> u64 option \<Rightarrow> broker \<Rightarrow> broker" where
  "leave_inner len ch p expected b =
     (case room_of ch b of
        None \<Rightarrow> b
      | Some r \<Rightarrow>
          if (case expected of
                None \<Rightarrow> False
              | Some c \<Rightarrow>
                  (case map_of r p of None \<Rightarrow> True | Some h \<Rightarrow> ph_connection_id h \<noteq> c))
          then b
          else
            (case unseat len ch p r b of
               None \<Rightarrow> b
             | Some (_, r, b) \<Rightarrow> if r = [] then drop_room ch b else set_room ch r b))"

text \<open>Unseats each named peer and gives it a last message, as \<open>join\<close> and \<open>close_revoked_surfaces\<close> do.\<close>

fun evict_peers ::
    "(server_message \<Rightarrow> nat) \<Rightarrow> string \<Rightarrow> server_message \<Rightarrow> string list \<Rightarrow> room \<times> broker \<Rightarrow> room \<times> broker" where
  "evict_peers len ch m [] rb = rb"
| "evict_peers len ch m (p # ps) (r, b) =
     (case unseat len ch p r b of
        None \<Rightarrow> evict_peers len ch m ps (r, b)
      | Some (h, r, b) \<Rightarrow> evict_peers len ch m ps (r, enqueue len h m b))"

section \<open>Joining\<close>

definition SUPERSEDED :: server_message where
  "SUPERSEDED = Error_Message ''pairing_ticket_superseded''
     ''another client joined with this pairing ticket''"

definition ticket_holders :: "string \<Rightarrow> string option \<Rightarrow> room \<Rightarrow> string list" where
  "ticket_holders p pairing r =
     (case pairing of
        None \<Rightarrow> []
      | Some t \<Rightarrow> map fst (filter (\<lambda>(q, h). q \<noteq> p \<and> ph_pairing_id h = Some t) r))"

definition seat_peer ::
    "(server_message \<Rightarrow> nat) \<Rightarrow> string \<Rightarrow> string \<Rightarrow> peer_role \<Rightarrow> string option \<Rightarrow> string option \<Rightarrow>
     u64 \<Rightarrow> room \<Rightarrow> broker \<Rightarrow> join_result \<times> broker" where
  "seat_peer len ch p role dev pairing c r b =
     (let (r, b) = evict_peers len ch SUPERSEDED (ticket_holders p pairing r) (r, b);
          others = filter (\<lambda>(q, _). q \<noteq> p) r;
          joined = \<lparr>pe_peer_id = p, pe_role = role, pe_device_id = dev\<rparr>;
          b = enqueue_all len others (Presence ch Presence_Joined joined) b;
          a = bk_next_queue b;
          h = \<lparr>ph_connection_id = c, ph_role = role, ph_device_id = dev, ph_pairing_id = pairing, ph_queue = a\<rparr>;
          b = set_room ch (AList.update p h r)
                (b\<lparr>bk_queues := (bk_queues b)(a := fresh_outbound), bk_next_queue := Suc a\<rparr>);
          b = record_usage Usage_Connect ch p role dev None b
      in (\<lparr>jn_connection_id = c, jn_existing_peers = map seat_summary others, jn_receiver = a\<rparr>, b))"

definition join_with_access_epoch ::
    "(server_message \<Rightarrow> nat) \<Rightarrow> string \<Rightarrow> string \<Rightarrow> peer_role \<Rightarrow> string option \<Rightarrow> string option \<Rightarrow>
     u64 option \<Rightarrow> broker \<Rightarrow> (broker_error + join_result) \<times> broker" where
  "join_with_access_epoch len ch p role dev pairing expected b =
     (if expected \<noteq> None \<and> expected \<noteq> Some (bk_access_epoch b) then (Inl Epoch_Changed, b)
      else
        let c = max (bk_next_connection_id b + 1) 1;
            b = b\<lparr>bk_next_connection_id := c\<rparr>;
            r = (case room_of ch b of None \<Rightarrow> [] | Some r \<Rightarrow> r);
            b = set_room ch r b
        in case map_of r p of
             Some h \<Rightarrow>
               if ph_role h = Role_Relay \<and> role = Role_Relay then
                 (let b = record_usage Usage_Disconnect ch p (ph_role h) (ph_device_id h) None b;
                      (res, b) = seat_peer len ch p role dev pairing c r b
                  in (Inr res, b))
               else (Inl (Already_Connected p ch), b)
           | None \<Rightarrow>
               let (res, b) = seat_peer len ch p role dev pairing c r b in (Inr res, b))"

section \<open>Releasing access\<close>

definition force_close_room ::
    "(server_message \<Rightarrow> nat) \<Rightarrow> string \<Rightarrow> string \<Rightarrow> string \<Rightarrow> broker \<Rightarrow> nat \<times> broker" where
  "force_close_room len ch code msg b =
     (let b = b\<lparr>bk_access_epoch := sat_add (bk_access_epoch b) 1\<rparr>
      in case room_of ch b of
           None \<Rightarrow> (0, b)
         | Some r \<Rightarrow>
             (length r,
              fold (\<lambda>(p, h) b. record_usage Usage_Disconnect ch p (ph_role h) (ph_device_id h) None
                       (enqueue len h (Error_Message code msg) b))
                r (drop_room ch b)))"

definition DEVICE_REVOKED :: server_message where
  "DEVICE_REVOKED = Error_Message ''device_revoked'' ''this device was revoked''"

definition revoked_surfaces :: "(string \<Rightarrow> bool) \<Rightarrow> room \<Rightarrow> string list" where
  "revoked_surfaces is_revoked r =
     map fst (filter (\<lambda>(_, h). ph_role h = Role_Surface \<and>
       (case ph_device_id h of None \<Rightarrow> False | Some d \<Rightarrow> is_revoked d)) r)"

definition close_revoked_surfaces ::
    "(server_message \<Rightarrow> nat) \<Rightarrow> string \<Rightarrow> (string \<Rightarrow> bool) \<Rightarrow> broker \<Rightarrow> nat \<times> broker" where
  "close_revoked_surfaces len ch is_revoked b =
     (let b = b\<lparr>bk_access_epoch := sat_add (bk_access_epoch b) 1\<rparr>
      in case room_of ch b of
           None \<Rightarrow> (0, b)
         | Some r \<Rightarrow>
             (let revoked = revoked_surfaces is_revoked r;
                  (r, b) = evict_peers len ch DEVICE_REVOKED revoked (r, b)
              in (length revoked, if r = [] then drop_room ch b else set_room ch r b)))"

section \<open>Publishing\<close>

definition json_get :: "string \<Rightarrow> json \<Rightarrow> json option" where
  "json_get k v = (case v of JObject es \<Rightarrow> obj_get k es | _ \<Rightarrow> None)"

definition json_str :: "string \<Rightarrow> json \<Rightarrow> string option" where
  "json_str k v = (case json_get k v of Some (JString s) \<Rightarrow> Some s | _ \<Rightarrow> None)"

definition log_field :: "string \<Rightarrow> string" where
  "log_field s = take_chars 64 s"

definition payload_kind :: "json \<Rightarrow> string" where
  "payload_kind v = (case json_str ''kind'' v of Some k \<Rightarrow> k | None \<Rightarrow> ''-'')"

definition is_targeted_messages_payload :: "json \<Rightarrow> bool" where
  "is_targeted_messages_payload v \<longleftrightarrow> json_str ''kind'' v = Some ''targeted_messages''"

definition approved_pairing_device :: "json \<Rightarrow> peer_handle \<Rightarrow> string option" where
  "approved_pairing_device v h =
     (if payload_kind v \<noteq> ''encrypted_pairing_result'' then None
      else case json_str ''pairing_id'' v of
          None \<Rightarrow> None
        | Some t \<Rightarrow>
            if ph_pairing_id h \<noteq> Some t then None
            else (case json_str ''device_id'' v of
                Some d \<Rightarrow> if d = [] then None else Some d
              | None \<Rightarrow> None))"

text \<open>The derived decoders also read a struct from an array of its fields.\<close>

definition decode_targeted_message :: "json \<Rightarrow> (string \<times> json) option" where
  "decode_targeted_message v =
     (case v of
        JObject es \<Rightarrow>
          (case (obj_get ''target_peer_id'' es, obj_get ''payload'' es) of
             (Some (JString t), Some m) \<Rightarrow> Some (t, m)
           | _ \<Rightarrow> None)
      | JArray [JString t, m] \<Rightarrow> Some (t, m)
      | _ \<Rightarrow> None)"

fun decode_all :: "json list \<Rightarrow> (string \<times> json) list option" where
  "decode_all [] = Some []"
| "decode_all (v # vs) =
     (case decode_targeted_message v of
        None \<Rightarrow> None
      | Some m \<Rightarrow> map_option ((#) m) (decode_all vs))"

definition decode_targeted :: "json \<Rightarrow> (string \<times> json) list option" where
  "decode_targeted v = (case json_get ''messages'' v of Some (JArray vs) \<Rightarrow> decode_all vs | _ \<Rightarrow> None)"

fun validate_targets :: "string list \<Rightarrow> (string \<times> json) list \<Rightarrow> broker_error option" where
  "validate_targets seen [] = None"
| "validate_targets seen ((t, v) # ms) =
     (if is_blank t then Some Empty_Target
      else if t \<in> set seen then Some Repeated_Target
      else if (case json_get ''target_peer_id'' v of None \<Rightarrow> False | Some x \<Rightarrow> x \<noteq> JString t)
      then Some Target_Mismatch
      else validate_targets (t # seen) ms)"

definition parse_targeted_messages_payload :: "json \<Rightarrow> broker_error + (string \<times> json) list" where
  "parse_targeted_messages_payload v =
     (let parsed =
        (if is_targeted_messages_payload v
         then (case decode_targeted v of None \<Rightarrow> Inl Invalid_Batch | Some ms \<Rightarrow> Inr ms)
         else (case json_str ''target_peer_id'' v of
             None \<Rightarrow> Inl Target_Required
           | Some t \<Rightarrow> Inr [(t, v)]))
      in case parsed of
           Inl e \<Rightarrow> Inl e
         | Inr ms \<Rightarrow>
             if MAX_TARGETED_MESSAGES_PER_PUBLISH < length ms then Inl Too_Many_Targets
             else (case validate_targets [] ms of Some e \<Rightarrow> Inl e | None \<Rightarrow> Inr ms))"

definition named_seat :: "peer_role \<Rightarrow> json \<Rightarrow> peer_handle \<Rightarrow> peer_handle" where
  "named_seat sender v h =
     (if sender = Role_Relay \<and> ph_device_id h = None then
        (case approved_pairing_device v h of
           Some d \<Rightarrow> h\<lparr>ph_device_id := Some d\<rparr>
         | None \<Rightarrow> h)
      else h)"

fun deliver ::
    "(server_message \<Rightarrow> nat) \<Rightarrow> string \<Rightarrow> string \<Rightarrow> peer_role \<Rightarrow> (string \<times> json) list \<Rightarrow>
     room \<times> broker \<Rightarrow> room \<times> broker" where
  "deliver len ch p sender [] rb = rb"
| "deliver len ch p sender ((t, v) # ms) (r, b) =
     (case map_of r t of
        None \<Rightarrow> deliver len ch p sender ms (r, b)
      | Some h \<Rightarrow>
          (let h = named_seat sender v h
           in deliver len ch p sender ms
                (AList.update t h r, enqueue len h (Message ch p sender v) b)))"

definition publish_inner ::
    "(server_message \<Rightarrow> nat) \<Rightarrow> string \<Rightarrow> string \<Rightarrow> u64 option \<Rightarrow> json \<Rightarrow> broker \<Rightarrow>
     broker_error option \<times> broker" where
  "publish_inner len ch p expected v b =
     (case room_of ch b of
        None \<Rightarrow> (Some (Channel_Inactive ch), b)
      | Some r \<Rightarrow>
          (case map_of r p of
             None \<Rightarrow> (Some (Not_Connected p ch), b)
           | Some s \<Rightarrow>
               if expected \<noteq> None \<and> expected \<noteq> Some (ph_connection_id s)
               then (Some (Connection_Replaced p ch), b)
               else if ph_role s = Role_Surface \<and> is_targeted_messages_payload v
               then (Some Surface_Batch, b)
               else
                 (case parse_targeted_messages_payload v of
                    Inl e \<Rightarrow> (Some e, b)
                  | Inr ms \<Rightarrow>
                      if list_ex (\<lambda>(t, _). case map_of r t of None \<Rightarrow> False
                                    | Some h \<Rightarrow> ph_role h = ph_role s) ms
                      then (Some Same_Role_Target, b)
                      else
                        let b = record_usage Usage_Publish ch p (ph_role s) (ph_device_id s)
                                  (Some (log_field (payload_kind v))) b;
                            (r, b) = deliver len ch p (ph_role s) ms (r, b)
                        in (None, set_room ch r b))))"

section \<open>Histories\<close>

text \<open>Besides the broker's operations: a socket takes a message, finishes writing it, or closes.\<close>

datatype broker_op =
    Join string string peer_role "string option" "string option" "u64 option"
  | Leave string string "u64 option"
  | Force_Close string string string
  | Close_Revoked string "string list"
  | Publish string string "u64 option" json
  | Take nat
  | Written nat
  | Hang_Up nat

definition update_queue :: "nat \<Rightarrow> (outbound \<Rightarrow> outbound) \<Rightarrow> broker \<Rightarrow> broker" where
  "update_queue a f b = b\<lparr>bk_queues := (bk_queues b)(a := f (bk_queues b a))\<rparr>"

definition take_message :: "outbound \<Rightarrow> outbound" where
  "take_message q =
     (case ob_queue q of
        [] \<Rightarrow> q
      | m # ms \<Rightarrow> q\<lparr>ob_queue := ms, ob_taken := ob_taken q @ [m]\<rparr>)"

fun broker_step :: "(server_message \<Rightarrow> nat) \<Rightarrow> broker_op \<Rightarrow> broker \<Rightarrow> broker" where
  "broker_step len (Join ch p role dev pairing expected) b =
     snd (join_with_access_epoch len ch p role dev pairing expected b)"
| "broker_step len (Leave ch p expected) b = leave_inner len ch p expected b"
| "broker_step len (Force_Close ch code msg) b = snd (force_close_room len ch code msg b)"
| "broker_step len (Close_Revoked ch ds) b = snd (close_revoked_surfaces len ch (\<lambda>d. d \<in> set ds) b)"
| "broker_step len (Publish ch p expected v) b = snd (publish_inner len ch p expected v b)"
| "broker_step len (Take a) b = update_queue a take_message b"
| "broker_step len (Written a) b = update_queue a (\<lambda>q. q\<lparr>ob_taken := []\<rparr>) b"
| "broker_step len (Hang_Up a) b = update_queue a (\<lambda>q. q\<lparr>ob_queue := [], ob_taken := [], ob_open := False\<rparr>) b"

definition broker_run :: "(server_message \<Rightarrow> nat) \<Rightarrow> broker_op list \<Rightarrow> broker \<Rightarrow> broker" where
  "broker_run len ops b = fold (\<lambda>op b. broker_step len op b) ops b"

end
