(* ===== verification/Broker_Facts.thy ===== *)
theory Broker_Facts
  imports Broker_Rooms
begin

text \<open>
  The broker's rooms over any history of joins, departures, releases and publishes: who can be
  seated together, what a stale connection or a stale access check can still do, where a
  published message can go, and that the usage stream accounts for every seat.
\<close>

section \<open>Effects on the parts of the state\<close>

definition seated :: "string \<Rightarrow> string \<Rightarrow> broker \<Rightarrow> peer_handle option" where
  "seated ch p b = (case room_of ch b of None \<Rightarrow> None | Some r \<Rightarrow> map_of r p)"

lemma enqueue_frame [simp]:
  "bk_rooms (enqueue len h m b) = bk_rooms b" "bk_events (enqueue len h m b) = bk_events b"
  "bk_access_epoch (enqueue len h m b) = bk_access_epoch b"
  "bk_next_connection_id (enqueue len h m b) = bk_next_connection_id b"
  "bk_next_queue (enqueue len h m b) = bk_next_queue b"
  by (simp_all add: enqueue_def)

lemma enqueue_all_frame [simp]:
  "bk_rooms (enqueue_all len r m b) = bk_rooms b" "bk_events (enqueue_all len r m b) = bk_events b"
  "bk_access_epoch (enqueue_all len r m b) = bk_access_epoch b"
  "bk_next_connection_id (enqueue_all len r m b) = bk_next_connection_id b"
  "bk_next_queue (enqueue_all len r m b) = bk_next_queue b"
proof (induction r arbitrary: b)
  case (Cons s r)
  { case 1 with Cons(1) show ?case by (simp add: enqueue_all_def split: prod.split) next
    case 2 with Cons(2) show ?case by (simp add: enqueue_all_def split: prod.split) next
    case 3 with Cons(3) show ?case by (simp add: enqueue_all_def split: prod.split) next
    case 4 with Cons(4) show ?case by (simp add: enqueue_all_def split: prod.split) next
    case 5 with Cons(5) show ?case by (simp add: enqueue_all_def split: prod.split) }
qed (simp_all add: enqueue_all_def)

lemma record_usage_frame [simp]:
  "bk_rooms (record_usage k ch p role dev pk b) = bk_rooms b"
  "bk_queues (record_usage k ch p role dev pk b) = bk_queues b"
  "bk_access_epoch (record_usage k ch p role dev pk b) = bk_access_epoch b"
  "bk_next_connection_id (record_usage k ch p role dev pk b) = bk_next_connection_id b"
  "bk_next_queue (record_usage k ch p role dev pk b) = bk_next_queue b"
  by (simp_all add: record_usage_def)

lemma set_room_frame [simp]:
  "bk_events (set_room ch r b) = bk_events b" "bk_queues (set_room ch r b) = bk_queues b"
  "bk_access_epoch (set_room ch r b) = bk_access_epoch b"
  "bk_next_connection_id (set_room ch r b) = bk_next_connection_id b"
  "bk_next_queue (set_room ch r b) = bk_next_queue b"
  "bk_rooms (set_room ch r b) = AList.update ch r (bk_rooms b)"
  by (simp_all add: set_room_def)

lemma drop_room_frame [simp]:
  "bk_events (drop_room ch b) = bk_events b" "bk_queues (drop_room ch b) = bk_queues b"
  "bk_access_epoch (drop_room ch b) = bk_access_epoch b"
  "bk_next_connection_id (drop_room ch b) = bk_next_connection_id b"
  "bk_next_queue (drop_room ch b) = bk_next_queue b"
  "bk_rooms (drop_room ch b) = AList.delete ch (bk_rooms b)"
  by (simp_all add: drop_room_def)

lemma update_queue_frame [simp]:
  "bk_rooms (update_queue a f b) = bk_rooms b" "bk_events (update_queue a f b) = bk_events b"
  "bk_access_epoch (update_queue a f b) = bk_access_epoch b"
  "bk_next_connection_id (update_queue a f b) = bk_next_connection_id b"
  "bk_next_queue (update_queue a f b) = bk_next_queue b"
  by (simp_all add: update_queue_def)

lemma room_of_set: "room_of ch (set_room ch' r b) = (if ch = ch' then Some r else room_of ch b)"
  by (simp add: room_of_def update_conv')

lemma room_of_drop: "room_of ch (drop_room ch' b) = (if ch = ch' then None else room_of ch b)"
  by (simp add: room_of_def delete_conv')

lemma room_of_counters [simp]:
  "room_of ch (b\<lparr>bk_next_connection_id := c\<rparr>) = room_of ch b"
  "room_of ch (b\<lparr>bk_access_epoch := e\<rparr>) = room_of ch b"
  by (simp_all add: room_of_def)

lemma room_of_cong: "bk_rooms b' = bk_rooms b \<Longrightarrow> room_of ch b' = room_of ch b"
  by (simp add: room_of_def)

lemma seated_set: "seated ch p (set_room ch' r b) = (if ch = ch' then map_of r p else seated ch p b)"
  by (simp add: seated_def room_of_set)

lemma seated_drop: "seated ch p (drop_room ch' b) = (if ch = ch' then None else seated ch p b)"
  by (simp add: seated_def room_of_drop)

lemma seated_cong: "bk_rooms b' = bk_rooms b \<Longrightarrow> seated ch p b' = seated ch p b"
  by (simp add: seated_def room_of_def)

lemmas seated_simps = seated_set seated_drop

section \<open>Evicting peers\<close>

lemma unseat_None: "unseat len ch p r b = None \<longleftrightarrow> map_of r p = None"
  by (simp add: unseat_def Let_def split: option.split)

lemma unseat_Some:
  assumes "unseat len ch p r b = Some (h, r', b')"
  shows "map_of r p = Some h" "r' = AList.delete p r" "bk_rooms b' = bk_rooms b"
    "bk_access_epoch b' = bk_access_epoch b" "bk_next_connection_id b' = bk_next_connection_id b"
    "bk_next_queue b' = bk_next_queue b"
    "bk_events b' = bk_events b @
       [\<lparr>ue_event = Usage_Disconnect, ue_channel_id = ch, ue_peer_id = p, ue_role = ph_role h,
         ue_device_id = ph_device_id h, ue_payload_kind = None\<rparr>]"
  using assms by (auto simp: unseat_def Let_def record_usage_def split: option.splits)

lemma evict_peers_frame:
  "fst (evict_peers len ch m ps rb) = filter (\<lambda>(q, _). q \<notin> set ps) (fst rb) \<and>
   bk_rooms (snd (evict_peers len ch m ps rb)) = bk_rooms (snd rb) \<and>
   bk_access_epoch (snd (evict_peers len ch m ps rb)) = bk_access_epoch (snd rb) \<and>
   bk_next_connection_id (snd (evict_peers len ch m ps rb)) = bk_next_connection_id (snd rb) \<and>
   bk_next_queue (snd (evict_peers len ch m ps rb)) = bk_next_queue (snd rb)"
proof (induction ps arbitrary: rb)
  case (Cons p ps)
  obtain r b where rb: "rb = (r, b)" by (cases rb)
  show ?case
  proof (cases "unseat len ch p r b")
    case None
    then have "p \<notin> fst ` set r" by (simp add: unseat_None map_of_eq_None_iff)
    then have "filter (\<lambda>(q, _). q \<notin> set ps) r = filter (\<lambda>(q, _). q \<notin> set (p # ps)) r"
      by (force intro: filter_cong)
    with Cons.IH [of rb] None rb show ?thesis by simp
  next
    case (Some x)
    then obtain h r' b' where u: "unseat len ch p r b = Some (h, r', b')" by (cases x) auto
    note d = unseat_Some [OF u]
    have "filter (\<lambda>(q, _). q \<notin> set ps) r' = filter (\<lambda>(q, _). q \<notin> set (p # ps)) r"
      by (auto simp: d(2) AList.delete_eq intro: filter_cong)
    with Cons.IH [of "(r', enqueue len h m b')"] u d rb show ?thesis by simp
  qed
qed (simp add: case_prod_unfold)

lemma map_of_filter_key: "map_of (filter (\<lambda>(q, _). Q q) r) p = (if Q p then map_of r p else None)"
  by (induction r) auto

section \<open>The usage stream\<close>

definition usage_weight :: "string \<Rightarrow> string \<Rightarrow> usage_event \<Rightarrow> int" where
  "usage_weight ch p e =
     (if ue_channel_id e = ch \<and> ue_peer_id e = p
      then (case ue_event e of Usage_Connect \<Rightarrow> 1 | Usage_Disconnect \<Rightarrow> - 1 | Usage_Publish \<Rightarrow> 0)
      else 0)"

text \<open>Connects less disconnects of one peer in one channel.\<close>

definition usage_balance :: "string \<Rightarrow> string \<Rightarrow> broker \<Rightarrow> int" where
  "usage_balance ch p b = sum_list (map (usage_weight ch p) (bk_events b))"

lemma balance_cong: "bk_events b' = bk_events b \<Longrightarrow> usage_balance ch p b' = usage_balance ch p b"
  by (simp add: usage_balance_def)

lemma balance_frame [simp]:
  "usage_balance ch p (set_room ch' r b) = usage_balance ch p b"
  "usage_balance ch p (drop_room ch' b) = usage_balance ch p b"
  "usage_balance ch p (enqueue len h m b) = usage_balance ch p b"
  "usage_balance ch p (enqueue_all len r m b) = usage_balance ch p b"
  "usage_balance ch p (update_queue a f b) = usage_balance ch p b"
  by (simp_all add: usage_balance_def)

lemma balance_record [simp]:
  "usage_balance ch p (record_usage k ch' p' role dev pk b) = usage_balance ch p b +
     (if ch' = ch \<and> p' = p
      then (case k of Usage_Connect \<Rightarrow> 1 | Usage_Disconnect \<Rightarrow> - 1 | Usage_Publish \<Rightarrow> 0) else 0)"
  by (simp add: usage_balance_def record_usage_def usage_weight_def)

lemma balance_unseat:
  assumes "unseat len ch p r b = Some (h, r', b')"
  shows "usage_balance ch' p' b' = usage_balance ch' p' b - (if ch' = ch \<and> p' = p then 1 else 0)"
  using unseat_Some(7) [OF assms] by (simp add: usage_balance_def usage_weight_def)

lemma balance_evict:
  "usage_balance ch' p' (snd (evict_peers len ch m ps rb)) = usage_balance ch' p' (snd rb) -
     (if ch' = ch \<and> p' \<in> set ps \<and> map_of (fst rb) p' \<noteq> None then 1 else 0)"
proof (induction ps arbitrary: rb)
  case (Cons p ps)
  obtain r b where rb: "rb = (r, b)" by (cases rb)
  show ?case
  proof (cases "unseat len ch p r b")
    case None
    moreover from None have "map_of r p = None" by (simp add: unseat_None)
    ultimately show ?thesis using Cons.IH [of rb] rb by auto
  next
    case (Some x)
    then obtain h r' b' where u: "unseat len ch p r b = Some (h, r', b')" by (cases x) auto
    show ?thesis
      using Cons.IH [of "(r', enqueue len h m b')"] u rb unseat_Some(1,2) [OF u]
        balance_unseat [OF u, of ch' p']
      by (auto simp: delete_conv')
  qed
qed simp

section \<open>Delivery\<close>

lemma named_seat_frame [simp]:
  "ph_role (named_seat s v h) = ph_role h" "ph_pairing_id (named_seat s v h) = ph_pairing_id h"
  "ph_connection_id (named_seat s v h) = ph_connection_id h" "ph_queue (named_seat s v h) = ph_queue h"
  by (simp_all add: named_seat_def split: option.split)

lemma named_seat_known: "ph_device_id h \<noteq> None \<Longrightarrow> named_seat s v h = h"
  by (auto simp add: named_seat_def)

definition named_by :: "peer_role \<Rightarrow> string \<Rightarrow> (string \<times> json) list \<Rightarrow> peer_handle \<Rightarrow> peer_handle" where
  "named_by sender t ms h = fold (\<lambda>(t', v) h. if t' = t then named_seat sender v h else h) ms h"

lemma named_by_frame [simp]:
  "ph_role (named_by s t ms h) = ph_role h" "ph_pairing_id (named_by s t ms h) = ph_pairing_id h"
  "ph_connection_id (named_by s t ms h) = ph_connection_id h" "ph_queue (named_by s t ms h) = ph_queue h"
  unfolding named_by_def by (induction ms arbitrary: h) (auto split: prod.split)

lemma named_by_effect:
  "named_by s t ms h = h \<or>
     (s = Role_Relay \<and> ph_device_id h = None \<and>
      (\<exists>v d. (t, v) \<in> set ms \<and> approved_pairing_device v h = Some d \<and>
         named_by s t ms h = h\<lparr>ph_device_id := Some d\<rparr>))"
proof (induction ms arbitrary: h)
  case (Cons m ms)
  obtain t' v where m: "m = (t', v)" by (cases m)
  let ?h = "if t' = t then named_seat s v h else h"
  have step: "named_by s t (m # ms) h = named_by s t ms ?h" by (simp add: named_by_def m)
  show ?case
  proof (cases "?h = h")
    case True
    with Cons.IH [of h] step show ?thesis by auto
  next
    case False
    then obtain d where d: "t' = t" "s = Role_Relay" "ph_device_id h = None"
        "approved_pairing_device v h = Some d" "?h = h\<lparr>ph_device_id := Some d\<rparr>"
      by (auto simp: named_seat_def split: if_splits option.splits)
    have "named_by s t ms ?h = ?h" using Cons.IH [of ?h] d(5) by simp
    with d step m show ?thesis by auto
  qed
qed (simp add: named_by_def)

lemma deliver_frame:
  "bk_rooms (snd (deliver len ch p s ms rb)) = bk_rooms (snd rb) \<and>
   bk_events (snd (deliver len ch p s ms rb)) = bk_events (snd rb) \<and>
   bk_access_epoch (snd (deliver len ch p s ms rb)) = bk_access_epoch (snd rb) \<and>
   bk_next_connection_id (snd (deliver len ch p s ms rb)) = bk_next_connection_id (snd rb) \<and>
   bk_next_queue (snd (deliver len ch p s ms rb)) = bk_next_queue (snd rb) \<and>
   map fst (fst (deliver len ch p s ms rb)) = map fst (fst rb) \<and>
   map_of (fst (deliver len ch p s ms rb)) t = map_option (named_by s t ms) (map_of (fst rb) t)"
proof (induction ms arbitrary: rb)
  case (Cons m ms)
  obtain t' v where m: "m = (t', v)" by (cases m)
  obtain r b where rb: "rb = (r, b)" by (cases rb)
  show ?case
  proof (cases "map_of r t'")
    case None
    with Cons.IH [of rb] show ?thesis by (auto simp: m rb named_by_def map_option_case split: option.splits)
  next
    case (Some h)
    let ?h = "named_seat s v h"
    have keys: "map fst (AList.update t' ?h r) = map fst r"
      using map_of_SomeD [OF Some] by (simp add: update_keys rev_image_eqI)
    show ?thesis
      using Cons.IH [of "(AList.update t' ?h r, enqueue len ?h (Message ch p s v) b)"] Some keys
      by (auto simp: m rb named_by_def update_conv' Let_def map_option_case split: option.splits if_splits)
  qed
qed (simp add: named_by_def map_option_case split: option.splits)

lemma deliver_queues:
  "bk_queues (snd (deliver len ch p s ms rb)) a \<noteq> bk_queues (snd rb) a \<Longrightarrow>
     \<exists>t v h. (t, v) \<in> set ms \<and> map_of (fst rb) t = Some h \<and> ph_queue h = a"
proof (induction ms arbitrary: rb)
  case (Cons m ms)
  obtain t' v where m: "m = (t', v)" by (cases m)
  obtain r b where rb: "rb = (r, b)" by (cases rb)
  show ?case
  proof (cases "map_of r t'")
    case None
    with Cons.IH [of rb] Cons.prems show ?thesis by (auto simp: m rb)
  next
    case (Some h)
    let ?h = "named_seat s v h"
    let ?rb = "(AList.update t' ?h r, enqueue len ?h (Message ch p s v) b)"
    show ?thesis
    proof (cases "ph_queue h = a")
      case True
      with Some show ?thesis by (auto simp: m rb)
    next
      case False
      then have "bk_queues (snd ?rb) a = bk_queues b a" by (simp add: enqueue_def)
      with Cons.prems Some have "bk_queues (snd (deliver len ch p s ms ?rb)) a \<noteq> bk_queues (snd ?rb) a"
        by (simp add: m rb Let_def)
      from Cons.IH [OF this] obtain t w k
        where "(t, w) \<in> set ms" "map_of (AList.update t' ?h r) t = Some k" "ph_queue k = a" by auto
      with Some False show ?thesis by (auto simp: m rb update_conv' split: if_splits)
    qed
  qed
qed simp

section \<open>Three ways the seats change\<close>

text \<open>Some seats become empty; one empty seat is taken; seated peers are given their device's name.\<close>

definition vacates :: "(string \<times> string) set \<Rightarrow> broker \<Rightarrow> broker \<Rightarrow> bool" where
  "vacates S b b' \<longleftrightarrow>
     (\<forall>ch p. seated ch p b' = (if (ch, p) \<in> S then None else seated ch p b)) \<and>
     (\<forall>ch p. usage_balance ch p b' =
        usage_balance ch p b - (if (ch, p) \<in> S \<and> seated ch p b \<noteq> None then 1 else 0)) \<and>
     bk_next_queue b' = bk_next_queue b"

definition takes :: "string \<Rightarrow> string \<Rightarrow> peer_handle \<Rightarrow> broker \<Rightarrow> broker \<Rightarrow> bool" where
  "takes ch p h b b' \<longleftrightarrow>
     (\<forall>ch' p'. seated ch' p' b' = (if ch' = ch \<and> p' = p then Some h else seated ch' p' b)) \<and>
     (\<forall>ch' p'. usage_balance ch' p' b' = usage_balance ch' p' b + (if ch' = ch \<and> p' = p then 1 else 0)) \<and>
     ph_queue h = bk_next_queue b \<and> bk_next_queue b' = Suc (bk_next_queue b)"

definition renames :: "broker \<Rightarrow> broker \<Rightarrow> bool" where
  "renames b b' \<longleftrightarrow>
     (\<forall>ch p. (seated ch p b = None \<longrightarrow> seated ch p b' = None) \<and>
        (\<forall>h. seated ch p b = Some h \<longrightarrow> (\<exists>h'. seated ch p b' = Some h' \<and>
           ph_connection_id h' = ph_connection_id h \<and> ph_pairing_id h' = ph_pairing_id h \<and>
           ph_queue h' = ph_queue h))) \<and>
     (\<forall>ch p. usage_balance ch p b' = usage_balance ch p b) \<and> bk_next_queue b' = bk_next_queue b"

definition accounted :: "broker \<Rightarrow> bool" where
  "accounted b \<longleftrightarrow> (\<forall>ch p. usage_balance ch p b = (if seated ch p b = None then 0 else 1))"

definition one_seat_per_ticket :: "broker \<Rightarrow> bool" where
  "one_seat_per_ticket b \<longleftrightarrow>
     (\<forall>ch p q h k. seated ch p b = Some h \<longrightarrow> seated ch q b = Some k \<longrightarrow>
        ph_pairing_id h \<noteq> None \<longrightarrow> ph_pairing_id h = ph_pairing_id k \<longrightarrow> p = q)"

definition queues_owned :: "broker \<Rightarrow> bool" where
  "queues_owned b \<longleftrightarrow>
     (\<forall>ch p h. seated ch p b = Some h \<longrightarrow> ph_queue h < bk_next_queue b) \<and>
     (\<forall>ch p h ch' p' h'. seated ch p b = Some h \<longrightarrow> seated ch' p' b = Some h' \<longrightarrow>
        ph_queue h = ph_queue h' \<longrightarrow> ch = ch' \<and> p = p')"

definition seat_inv :: "broker \<Rightarrow> bool" where
  "seat_inv b \<longleftrightarrow> accounted b \<and> one_seat_per_ticket b \<and> queues_owned b"

lemma one_seat_per_ticketD:
  "one_seat_per_ticket b \<Longrightarrow> seated ch p b = Some h \<Longrightarrow> seated ch q b = Some k \<Longrightarrow>
     ph_pairing_id h = Some t \<Longrightarrow> ph_pairing_id k = Some t \<Longrightarrow> p = q"
  by (auto simp: one_seat_per_ticket_def)

lemma queues_ownedD:
  "queues_owned b \<Longrightarrow> seated ch p b = Some h \<Longrightarrow> ph_queue h < bk_next_queue b"
  "queues_owned b \<Longrightarrow> seated ch p b = Some h \<Longrightarrow> seated ch' p' b = Some h' \<Longrightarrow>
     ph_queue h = ph_queue h' \<Longrightarrow> ch = ch' \<and> p = p'"
  by (auto simp: queues_owned_def)

lemma vacatesD:
  assumes "vacates S b b'"
  shows "seated ch p b' = (if (ch, p) \<in> S then None else seated ch p b)"
    "usage_balance ch p b' =
       usage_balance ch p b - (if (ch, p) \<in> S \<and> seated ch p b \<noteq> None then 1 else 0)"
    "bk_next_queue b' = bk_next_queue b"
  using assms by (simp_all add: vacates_def)

lemma takesD:
  assumes "takes ch p h b b'"
  shows "seated ch' p' b' = (if ch' = ch \<and> p' = p then Some h else seated ch' p' b)"
    "ph_queue h = bk_next_queue b" "bk_next_queue b' = Suc (bk_next_queue b)"
  using assms by (simp_all add: takes_def)

lemma renamesD:
  assumes "renames b b'" "seated ch p b' = Some h'"
  shows "\<exists>h. seated ch p b = Some h \<and> ph_connection_id h = ph_connection_id h' \<and>
    ph_pairing_id h = ph_pairing_id h' \<and> ph_queue h = ph_queue h'"
  using assms by (cases "seated ch p b") (fastforce simp: renames_def)+

lemma vacates_refl: "vacates {} b b"
  by (simp add: vacates_def)

lemma vacates_inv: "vacates S b b' \<Longrightarrow> seat_inv b \<Longrightarrow> seat_inv b'"
  unfolding seat_inv_def
proof (elim conjE, intro conjI)
  assume v: "vacates S b b'"
  { assume "accounted b" with v show "accounted b'" by (simp add: vacates_def accounted_def) }
  { assume "one_seat_per_ticket b" with v show "one_seat_per_ticket b'"
      by (auto simp: vacates_def one_seat_per_ticket_def) }
  { assume "queues_owned b" with v show "queues_owned b'"
      unfolding vacates_def queues_owned_def by (metis option.distinct(1)) }
qed

lemma takes_inv:
  assumes t: "takes ch p h b b'" and i: "seat_inv b" and free: "seated ch p b = None"
    and alone: "\<And>q k. seated ch q b = Some k \<Longrightarrow> ph_pairing_id h \<noteq> None \<Longrightarrow> ph_pairing_id k \<noteq> ph_pairing_id h"
  shows "seat_inv b'"
  unfolding seat_inv_def
proof (intro conjI)
  show "accounted b'" using t i free by (simp add: seat_inv_def takes_def accounted_def)
  show "one_seat_per_ticket b'"
    using t i alone by (auto simp: seat_inv_def takes_def one_seat_per_ticket_def)
  have own: "queues_owned b" using i by (simp add: seat_inv_def)
  have s: "seated ch' p' b' = (if ch' = ch \<and> p' = p then Some h else seated ch' p' b)" for ch' p'
    using t by (simp add: takes_def)
  have below: "ph_queue k < ph_queue h" if "seated ch' p' b = Some k" for ch' p' k
    using t queues_ownedD(1) [OF own that] by (simp add: takes_def)
  have next_queue: "bk_next_queue b' = Suc (ph_queue h)" using t by (simp add: takes_def)
  show "queues_owned b'"
    unfolding queues_owned_def s next_queue
    using below queues_ownedD(2) [OF own] by (auto simp: less_Suc_eq dest: below split: if_splits)
qed

lemma renames_inv: "renames b b' \<Longrightarrow> seat_inv b \<Longrightarrow> seat_inv b'"
proof -
  assume r: "renames b b'" and i: "seat_inv b"
  have prior: "\<exists>h. seated ch p b = Some h \<and> ph_pairing_id h = ph_pairing_id h' \<and> ph_queue h = ph_queue h'"
    if "seated ch p b' = Some h'" for ch p h'
    using renamesD [OF r that] by blast
  show ?thesis unfolding seat_inv_def
  proof (intro conjI)
    show "accounted b'" using r i
      by (auto simp: seat_inv_def renames_def accounted_def) (metis option.discI option.exhaust)+
    show "one_seat_per_ticket b'"
      using i prior unfolding seat_inv_def one_seat_per_ticket_def by metis
    show "queues_owned b'"
      using i prior r unfolding seat_inv_def queues_owned_def renames_def by metis
  qed
qed

section \<open>Each operation is one of them\<close>

lemma seated_room: "room_of ch b = Some r \<Longrightarrow> seated ch p b = map_of r p"
  by (simp add: seated_def)

lemma vacates_trans_frame:
  "vacates S b b' \<Longrightarrow> bk_rooms b'' = bk_rooms b' \<Longrightarrow> bk_events b'' = bk_events b' \<Longrightarrow>
     bk_next_queue b'' = bk_next_queue b' \<Longrightarrow> vacates S b b''"
  by (simp add: vacates_def seated_cong [of b'' b'] balance_cong [of b'' b'])

lemma vacates_frame:
  "bk_rooms b' = bk_rooms b \<Longrightarrow> bk_events b' = bk_events b \<Longrightarrow> bk_next_queue b' = bk_next_queue b \<Longrightarrow>
     vacates {} b b'"
  by (rule vacates_trans_frame [OF vacates_refl])

lemma evict_vacates:
  assumes room: "\<And>p. seated ch p b = map_of r p" and e: "evict_peers len ch m ps (r, b) = (r', b')"
  shows "vacates ({ch} \<times> set ps) b (set_room ch r' b')"
    "vacates ({ch} \<times> set ps) b (if r' = [] then drop_room ch b' else set_room ch r' b')"
proof -
  note f = evict_peers_frame [of len ch m ps "(r, b)", unfolded e fst_conv snd_conv]
  note g = balance_evict [of _ _ len ch m ps "(r, b)", unfolded e fst_conv snd_conv]
  have r': "map_of r' p = (if p \<in> set ps then None else map_of r p)" for p
    using f map_of_filter_key [of "\<lambda>q. q \<notin> set ps" r p] by simp
  have b': "seated ch' p b' = seated ch' p b" for ch' p using f by (intro seated_cong) simp
  have n: "bk_next_queue b' = bk_next_queue b" using f by simp
  show "vacates ({ch} \<times> set ps) b (set_room ch r' b')"
    using g n room by (auto simp: vacates_def seated_simps r' b')
  have "p \<notin> set ps \<Longrightarrow> r' = [] \<Longrightarrow> map_of r p = None" for p using r' [of p] by simp
  then show "vacates ({ch} \<times> set ps) b (if r' = [] then drop_room ch b' else set_room ch r' b')"
    using g n room by (auto simp: vacates_def seated_simps r' b')
qed

lemma leave_vacates:
  "vacates (if \<exists>h. seated ch p b = Some h \<and> (expected = None \<or> expected = Some (ph_connection_id h))
            then {(ch, p)} else {}) b (leave_inner len ch p expected b)"
proof (cases "room_of ch b")
  case None
  then show ?thesis by (simp add: leave_inner_def seated_def vacates_refl)
next
  case (Some r)
  note s = seated_room [OF Some]
  show ?thesis
  proof (cases "map_of r p")
    case None
    then have "leave_inner len ch p expected b = b"
      by (simp add: leave_inner_def Some unseat_None [THEN iffD2] split: option.split)
    with None s show ?thesis by (simp add: vacates_refl)
  next
    case h: (Some h)
    then obtain r' b' where u: "unseat len ch p r b = Some (h, r', b')"
      using unseat_None [of len ch p r b] unseat_Some(1) by (cases "unseat len ch p r b") force+
    show ?thesis
    proof (cases "expected = None \<or> expected = Some (ph_connection_id h)")
      case False
      then have "leave_inner len ch p expected b = b" by (cases expected) (auto simp: leave_inner_def Some h)
      with False s h show ?thesis by (auto simp: vacates_refl)
    next
      case True
      then have l: "leave_inner len ch p expected b = (if r' = [] then drop_room ch b' else set_room ch r' b')"
        by (auto simp: leave_inner_def Some h u)
      have r': "map_of r' q = (if q = p then None else map_of r q)" for q
        using unseat_Some(2) [OF u] by (simp add: delete_conv')
      have b': "seated ch' q b' = seated ch' q b" for ch' q
        using unseat_Some(3) [OF u] by (intro seated_cong)
      have "q \<noteq> p \<Longrightarrow> r' = [] \<Longrightarrow> map_of r q = None" for q using r' [of q] by simp
      with True s h show ?thesis
        by (auto simp: l vacates_def seated_simps r' b' balance_unseat [OF u] unseat_Some(6) [OF u])
    qed
  qed
qed

lemma revoked_surfaces_mem:
  "distinct (map fst r) \<Longrightarrow> p \<in> set (revoked_surfaces is_revoked r) \<longleftrightarrow>
     (\<exists>h d. map_of r p = Some h \<and> ph_role h = Role_Surface \<and> ph_device_id h = Some d \<and> is_revoked d)"
proof -
  assume d: "distinct (map fst r)"
  have "p \<in> set (revoked_surfaces is_revoked r) \<longleftrightarrow> (\<exists>h. (p, h) \<in> set r \<and> ph_role h = Role_Surface \<and>
      (case ph_device_id h of None \<Rightarrow> False | Some d \<Rightarrow> is_revoked d))"
    unfolding revoked_surfaces_def by (simp add: image_iff Bex_def case_prod_unfold)
  with d show ?thesis by (auto simp: map_of_eq_Some_iff split: option.splits)
qed

lemma revoke_vacates:
  assumes room: "room_of ch b = Some r"
  shows "vacates ({ch} \<times> set (revoked_surfaces is_revoked r)) b
           (snd (close_revoked_surfaces len ch is_revoked b))"
    "fst (close_revoked_surfaces len ch is_revoked b) = length (revoked_surfaces is_revoked r)"
proof -
  let ?ps = "revoked_surfaces is_revoked r"
  let ?b = "b\<lparr>bk_access_epoch := sat_add (bk_access_epoch b) 1\<rparr>"
  have same: "room_of ch ?b = Some r" using room by (simp add: room_of_def)
  have s: "seated ch' p ?b = seated ch' p b" for ch' p by (rule seated_cong) simp
  obtain r' b' where e: "evict_peers len ch DEVICE_REVOKED ?ps (r, ?b) = (r', b')" by (metis surj_pair)
  have c: "close_revoked_surfaces len ch is_revoked b =
      (length ?ps, if r' = [] then drop_room ch b' else set_room ch r' b')"
    unfolding close_revoked_surfaces_def Let_def same option.case e by simp
  have "vacates ({ch} \<times> set ?ps) ?b (if r' = [] then drop_room ch b' else set_room ch r' b')"
    using seated_room [OF same] e by (rule evict_vacates(2))
  then show "vacates ({ch} \<times> set ?ps) b (snd (close_revoked_surfaces len ch is_revoked b))"
    unfolding c snd_conv by (simp add: vacates_def s usage_balance_def)
  show "fst (close_revoked_surfaces len ch is_revoked b) = length ?ps" by (simp add: c)
qed

lemma revoke_absent:
  "room_of ch b = None \<Longrightarrow> vacates {} b (snd (close_revoked_surfaces len ch is_revoked b))"
  by (rule vacates_frame) (simp_all add: close_revoked_surfaces_def room_of_def)

lemma close_events:
  "distinct (map fst r) \<Longrightarrow>
     usage_balance ch' p' (fold (\<lambda>(p, h) b. record_usage Usage_Disconnect ch p (ph_role h) (ph_device_id h) None
        (enqueue len h m b)) r b) =
     usage_balance ch' p' b - (if ch' = ch \<and> map_of r p' \<noteq> None then 1 else 0)"
proof (induction r arbitrary: b)
  case (Cons s r)
  then have "fst s \<notin> fst ` set r" by simp
  then have "map_of r (fst s) = None" by (simp add: map_of_eq_None_iff)
  with Cons show ?case by (auto simp: case_prod_unfold)
qed simp

lemma close_frame:
  "bk_rooms (fold (\<lambda>(p, h) b. record_usage Usage_Disconnect ch p (ph_role h) (ph_device_id h) None
        (enqueue len h m b)) r b) = bk_rooms b \<and>
   bk_access_epoch (fold (\<lambda>(p, h) b. record_usage Usage_Disconnect ch p (ph_role h) (ph_device_id h) None
        (enqueue len h m b)) r b) = bk_access_epoch b \<and>
   bk_next_connection_id (fold (\<lambda>(p, h) b. record_usage Usage_Disconnect ch p (ph_role h) (ph_device_id h) None
        (enqueue len h m b)) r b) = bk_next_connection_id b \<and>
   bk_next_queue (fold (\<lambda>(p, h) b. record_usage Usage_Disconnect ch p (ph_role h) (ph_device_id h) None
        (enqueue len h m b)) r b) = bk_next_queue b"
  by (induction r arbitrary: b) (simp_all add: case_prod_unfold)

lemma force_close_vacates:
  assumes "\<And>r. room_of ch b = Some r \<Longrightarrow> distinct (map fst r)"
  shows "vacates ({ch} \<times> UNIV) b (snd (force_close_room len ch code msg b))"
proof (cases "room_of ch b")
  case None
  then show ?thesis
    by (auto simp: vacates_def force_close_room_def Let_def room_of_def seated_def usage_balance_def)
next
  case (Some r)
  let ?c = "snd (force_close_room len ch code msg b)"
  let ?b = "drop_room ch (b\<lparr>bk_access_epoch := sat_add (bk_access_epoch b) 1\<rparr>)"
  have c: "?c = fold (\<lambda>(p, h) b. record_usage Usage_Disconnect ch p (ph_role h) (ph_device_id h) None
      (enqueue len h (Error_Message code msg) b)) r ?b"
    using Some by (simp add: force_close_room_def Let_def room_of_def)
  have "seated ch' p ?c = seated ch' p ?b" for ch' p
    unfolding c using close_frame by (intro seated_cong) simp
  moreover have "usage_balance ch' p ?c = usage_balance ch' p b -
      (if ch' = ch \<and> map_of r p \<noteq> None then 1 else 0)" for ch' p
    unfolding c close_events [OF assms [OF Some]] by (simp add: usage_balance_def)
  moreover have "bk_next_queue ?c = bk_next_queue b" unfolding c using close_frame by simp
  ultimately show ?thesis
    using seated_room [OF Some] by (auto simp: vacates_def seated_drop) (simp_all add: seated_def room_of_def)
qed

lemma seat_peer_effect:
  assumes room: "room_of ch bx = Some r" and seats: "\<And>ch' q. seated ch' q bx = seated ch' q b"
    and bal: "\<And>ch' q. usage_balance ch' q bx =
      usage_balance ch' q b - (if ch' = ch \<and> q = p \<and> seated ch p b \<noteq> None then 1 else 0)"
    and nq: "bk_next_queue bx = bk_next_queue b"
    and s: "seat_peer len ch p role dev pairing c r bx = (res, b')"
  shows "\<exists>bm. vacates ({ch} \<times> insert p (set (ticket_holders p pairing r))) b bm \<and>
    takes ch p \<lparr>ph_connection_id = c, ph_role = role, ph_device_id = dev, ph_pairing_id = pairing,
      ph_queue = bk_next_queue b\<rparr> bm b'"
proof -
  let ?hs = "ticket_holders p pairing r"
  let ?h = "\<lparr>ph_connection_id = c, ph_role = role, ph_device_id = dev, ph_pairing_id = pairing,
      ph_queue = bk_next_queue b\<rparr>"
  obtain r1 b1 where e: "evict_peers len ch SUPERSEDED ?hs (r, bx) = (r1, b1)" by (metis surj_pair)
  have v: "vacates ({ch} \<times> set ?hs) bx (set_room ch r1 b1)"
    using seated_room [OF room] e by (rule evict_vacates(1))
  have rooms: "bk_rooms b1 = bk_rooms bx" and nq1: "bk_next_queue b1 = bk_next_queue b"
    using evict_peers_frame [of len ch SUPERSEDED ?hs "(r, bx)"] e nq by simp_all
  have p: "p \<notin> set ?hs" by (auto simp: ticket_holders_def split: option.splits)
  define bm where "bm = set_room ch (AList.delete p r1) b1"
  have r1: "map_of r1 q = (if q \<in> set ?hs then None else seated ch q b)" for q
    using vacatesD(1) [OF v, of ch q] seats by (simp add: seated_simps)
  have b1: "seated ch' q b1 = seated ch' q b" for ch' q
    using seated_cong [OF rooms] seats by simp
  have bal1: "usage_balance ch' q b1 = usage_balance ch' q b -
      (if ch' = ch \<and> (q \<in> set ?hs \<or> q = p) \<and> seated ch q b \<noteq> None then 1 else 0)" for ch' q
    using vacatesD(2) [OF v, of ch' q] bal [of ch' q] seats p by (auto split: if_splits)
  have "vacates ({ch} \<times> insert p (set ?hs)) b bm"
    by (auto simp: vacates_def bm_def seated_simps delete_conv' r1 b1 bal1 nq1)
  moreover have "takes ch p ?h bm b'"
    using s e by (auto simp: takes_def bm_def seat_peer_def Let_def seated_simps update_conv' delete_conv' nq1
        usage_balance_def record_usage_def usage_weight_def seated_def room_of_def)
  ultimately show ?thesis by blast
qed

lemma join_rejected:
  assumes "join_with_access_epoch len ch p role dev pairing expected b = (Inl e, b')"
  shows "vacates {} b b' \<and> bk_queues b' = bk_queues b \<and>
    (b' = b \<or> (\<exists>r. room_of ch b = Some r \<and> r \<noteq> [] \<and> bk_rooms b' = AList.update ch r (bk_rooms b)))"
proof -
  have same: "seated ch' q (set_room ch r b) = seated ch' q b" if "room_of ch b = Some r" for r ch' q
    using that by (simp add: seated_set) (simp add: seated_def)
  show ?thesis
    using assms same
    by (auto simp: join_with_access_epoch_def Let_def vacates_refl vacates_def room_of_def seated_def
        usage_balance_def set_room_def update_conv' split: if_splits option.splits prod.splits)
qed

lemma join_shape:
  assumes "join_with_access_epoch len ch p role dev pairing expected b = (Inr res, b')"
  defines "r \<equiv> case room_of ch b of None \<Rightarrow> [] | Some r \<Rightarrow> r"
  defines "c \<equiv> max (bk_next_connection_id b + 1) 1"
  shows "\<exists>bx. seat_peer len ch p role dev pairing c r bx = (res, b') \<and>
    bk_rooms bx = AList.update ch r (bk_rooms b) \<and> bk_access_epoch bx = bk_access_epoch b \<and>
    bk_next_connection_id bx = c \<and> bk_next_queue bx = bk_next_queue b \<and>
    (\<forall>ch' q. usage_balance ch' q bx =
      usage_balance ch' q b - (if ch' = ch \<and> q = p \<and> map_of r p \<noteq> None then 1 else 0))"
proof -
  let ?b = "set_room ch r (b\<lparr>bk_next_connection_id := c\<rparr>)"
  have b: "usage_balance ch' q ?b = usage_balance ch' q b" for ch' q by (simp add: usage_balance_def)
  show ?thesis
  proof (cases "map_of r p")
    case None
    with assms(1) have "seat_peer len ch p role dev pairing c r ?b = (res, b')"
      by (simp add: join_with_access_epoch_def Let_def r_def c_def split: if_splits prod.splits)
    with None b show ?thesis by (intro exI [of _ ?b]) simp
  next
    case (Some h)
    let ?d = "record_usage Usage_Disconnect ch p (ph_role h) (ph_device_id h) None ?b"
    from assms(1) Some have "seat_peer len ch p role dev pairing c r ?d = (res, b')"
      by (simp add: join_with_access_epoch_def Let_def r_def c_def split: if_splits prod.splits)
    with Some b show ?thesis by (intro exI [of _ ?d]) auto
  qed
qed

lemma join_accepted:
  assumes "join_with_access_epoch len ch p role dev pairing expected b = (Inr res, b')"
  defines "r \<equiv> case room_of ch b of None \<Rightarrow> [] | Some r \<Rightarrow> r"
  shows "\<exists>bm. vacates ({ch} \<times> insert p (set (ticket_holders p pairing r))) b bm \<and>
    takes ch p \<lparr>ph_connection_id = max (bk_next_connection_id b + 1) 1, ph_role = role,
      ph_device_id = dev, ph_pairing_id = pairing, ph_queue = bk_next_queue b\<rparr> bm b'"
proof -
  from join_shape [OF assms(1)] obtain bx where
    s: "seat_peer len ch p role dev pairing (max (bk_next_connection_id b + 1) 1) r bx = (res, b')" and
    rooms: "bk_rooms bx = AList.update ch r (bk_rooms b)" and nq: "bk_next_queue bx = bk_next_queue b" and
    bal: "\<And>ch' q. usage_balance ch' q bx =
      usage_balance ch' q b - (if ch' = ch \<and> q = p \<and> map_of r p \<noteq> None then 1 else 0)"
    by (auto simp: r_def)
  have room: "room_of ch bx = Some r" by (simp add: room_of_def rooms update_conv')
  have seats: "seated ch' q bx = seated ch' q b" for ch' q
    by (auto simp: seated_def room_of_def rooms update_conv' r_def split: option.split)
  show ?thesis
    using bal seats [of ch p] seated_room [OF room, of p] by (intro seat_peer_effect [OF room seats _ nq s]) simp
qed

lemma publish_cases:
  obtains (refused) e where "publish_inner len ch p expected v b = (Some e, b)"
  | (sent) r s ms b0 where "room_of ch b = Some r" "map_of r p = Some s"
      "expected = None \<or> expected = Some (ph_connection_id s)"
      "\<not> (ph_role s = Role_Surface \<and> is_targeted_messages_payload v)"
      "parse_targeted_messages_payload v = Inr ms"
      "\<And>t w h. (t, w) \<in> set ms \<Longrightarrow> map_of r t = Some h \<Longrightarrow> ph_role h \<noteq> ph_role s"
      "b0 = record_usage Usage_Publish ch p (ph_role s) (ph_device_id s) (Some (log_field (payload_kind v))) b"
      "publish_inner len ch p expected v b =
        (None, set_room ch (fst (deliver len ch p (ph_role s) ms (r, b0)))
           (snd (deliver len ch p (ph_role s) ms (r, b0))))"
proof -
  let ?out = "publish_inner len ch p expected v b"
  show ?thesis
  proof (cases "room_of ch b")
    case None
    then have "?out = (Some (Channel_Inactive ch), b)" by (simp add: publish_inner_def)
    then show ?thesis by (rule refused)
  next
    case r: (Some r)
    show ?thesis
    proof (cases "map_of r p")
      case None
      with r have "?out = (Some (Not_Connected p ch), b)" by (simp add: publish_inner_def)
      then show ?thesis by (rule refused)
    next
      case s: (Some s)
      show ?thesis
      proof (cases "(expected = None \<or> expected = Some (ph_connection_id s)) \<and>
          \<not> (ph_role s = Role_Surface \<and> is_targeted_messages_payload v)")
        case False
        with r s have "\<exists>e. ?out = (Some e, b)" by (auto simp: publish_inner_def)
        then show ?thesis using refused by blast
      next
        case ok: True
        show ?thesis
        proof (cases "parse_targeted_messages_payload v")
          case (Inl e)
          with r s ok have "?out = (Some e, b)" by (auto simp: publish_inner_def)
          then show ?thesis by (rule refused)
        next
          case ms: (Inr ms)
          let ?clash = "list_ex (\<lambda>(t, _). case map_of r t of None \<Rightarrow> False
              | Some h \<Rightarrow> ph_role h = ph_role s) ms"
          show ?thesis
          proof (cases ?clash)
            case True
            with r s ok ms have "?out = (Some Same_Role_Target, b)"
              unfolding publish_inner_def by auto
            then show ?thesis by (rule refused)
          next
            case False
            then have targets: "\<And>t w h. (t, w) \<in> set ms \<Longrightarrow> map_of r t = Some h \<Longrightarrow> ph_role h \<noteq> ph_role s"
              by (force simp: list_ex_iff)
            let ?b0 = "record_usage Usage_Publish ch p (ph_role s) (ph_device_id s) (Some (log_field (payload_kind v))) b"
            have "?out = (None, set_room ch (fst (deliver len ch p (ph_role s) ms (r, ?b0)))
                (snd (deliver len ch p (ph_role s) ms (r, ?b0))))"
              using r s ok ms False unfolding publish_inner_def Let_def
              by (auto split: prod.split)
            with r s ok ms targets show ?thesis by (intro sent [OF r s _ _ ms targets refl]) auto
          qed
        qed
      qed
    qed
  qed
qed

lemma publish_renames: "renames b (snd (publish_inner len ch p expected v b))"
proof (cases rule: publish_cases [of len ch p expected v b])
  case (refused e)
  then show ?thesis by (simp add: renames_def)
next
  case (sent r s ms b0)
  note f = deliver_frame [of len ch p "ph_role s" ms "(r, b0)"]
  have "seated ch' q b0 = seated ch' q b" for ch' q by (rule seated_cong) (simp add: sent(7))
  moreover have "seated ch' q (snd (deliver len ch p (ph_role s) ms (r, b0))) = seated ch' q b0" for ch' q
    using f by (intro seated_cong) simp
  moreover have "usage_balance ch' q (snd (deliver len ch p (ph_role s) ms (r, b0))) = usage_balance ch' q b" for ch' q
    using f balance_cong [of "snd (deliver len ch p (ph_role s) ms (r, b0))" b0] sent(7) by simp
  ultimately show ?thesis
    using f sent(8) seated_room [OF sent(1)] by (auto simp: renames_def seated_simps sent(7))
qed

section \<open>The invariant\<close>

definition room_wf :: "broker \<Rightarrow> bool" where
  "room_wf b \<longleftrightarrow> distinct (map fst (bk_rooms b)) \<and>
     (\<forall>ch r. room_of ch b = Some r \<longrightarrow> r \<noteq> [] \<and> distinct (map fst r))"

definition broker_inv :: "broker \<Rightarrow> bool" where
  "broker_inv b \<longleftrightarrow> room_wf b \<and> seat_inv b"

lemma room_wfD: "room_wf b \<Longrightarrow> room_of ch b = Some r \<Longrightarrow> r \<noteq> [] \<and> distinct (map fst r)"
  by (simp add: room_wf_def)

lemma room_wf_cong: "bk_rooms b' = bk_rooms b \<Longrightarrow> room_wf b' = room_wf b"
  by (simp add: room_wf_def room_of_def)

lemma room_wf_set: "room_wf b \<Longrightarrow> r \<noteq> [] \<Longrightarrow> distinct (map fst r) \<Longrightarrow> room_wf (set_room ch r b)"
  by (auto simp: room_wf_def room_of_set distinct_update split: if_splits)

lemma room_wf_drop: "room_wf b \<Longrightarrow> room_wf (drop_room ch b)"
  by (auto simp: room_wf_def room_of_drop distinct_delete split: if_splits)

lemma room_wf_put: "room_wf b \<Longrightarrow> distinct (map fst r) \<Longrightarrow>
    room_wf (if r = [] then drop_room ch b else set_room ch r b)"
  by (simp add: room_wf_set room_wf_drop)

lemma leave_wf: "room_wf b \<Longrightarrow> room_wf (leave_inner len ch p expected b)"
proof -
  assume wf: "room_wf b"
  show ?thesis
  proof (cases "room_of ch b")
    case None
    then show ?thesis using wf by (simp add: leave_inner_def)
  next
    case (Some r)
    note d = room_wfD [OF wf Some]
    have "leave_inner len ch p expected b = b \<or> (\<exists>h r' b'. unseat len ch p r b = Some (h, r', b') \<and>
        leave_inner len ch p expected b = (if r' = [] then drop_room ch b' else set_room ch r' b'))"
      by (auto simp: leave_inner_def Some split: option.splits if_splits)
    then show ?thesis
    proof (elim disjE exE conjE)
      fix h r' b'
      assume u: "unseat len ch p r b = Some (h, r', b')"
        and l: "leave_inner len ch p expected b = (if r' = [] then drop_room ch b' else set_room ch r' b')"
      have "room_wf b'" using room_wf_cong [OF unseat_Some(3) [OF u]] wf by simp
      moreover have "distinct (map fst r')" using d unseat_Some(2) [OF u] by (simp add: distinct_delete)
      ultimately show ?thesis unfolding l by (rule room_wf_put)
    qed (simp add: wf)
  qed
qed

lemma revoke_wf: "room_wf b \<Longrightarrow> room_wf (snd (close_revoked_surfaces len ch is_revoked b))"
proof -
  assume wf: "room_wf b"
  let ?b = "b\<lparr>bk_access_epoch := sat_add (bk_access_epoch b) 1\<rparr>"
  have wf': "room_wf ?b" using wf room_wf_cong [of ?b b] by simp
  show ?thesis
  proof (cases "room_of ch b")
    case None
    then show ?thesis using wf' by (simp add: close_revoked_surfaces_def Let_def)
  next
    case (Some r)
    let ?e = "evict_peers len ch DEVICE_REVOKED (revoked_surfaces is_revoked r) (r, ?b)"
    have "room_wf (snd ?e)" using wf' room_wf_cong [of "snd ?e" ?b]
      evict_peers_frame [of len ch DEVICE_REVOKED "revoked_surfaces is_revoked r" "(r, ?b)"] by simp
    moreover have "distinct (map fst (fst ?e))"
      using room_wfD [OF wf Some]
        evict_peers_frame [of len ch DEVICE_REVOKED "revoked_surfaces is_revoked r" "(r, ?b)"]
      by (simp add: distinct_map_filter)
    ultimately have "room_wf (if fst ?e = [] then drop_room ch (snd ?e) else set_room ch (fst ?e) (snd ?e))"
      by (rule room_wf_put)
    then show ?thesis using Some by (simp add: close_revoked_surfaces_def Let_def case_prod_unfold)
  qed
qed

lemma force_close_rooms:
  "bk_rooms (snd (force_close_room len ch code msg b)) =
     (if room_of ch b = None then bk_rooms b else AList.delete ch (bk_rooms b))"
  using close_frame by (auto simp: force_close_room_def Let_def split: option.split)

lemma force_close_wf: "room_wf b \<Longrightarrow> room_wf (snd (force_close_room len ch code msg b))"
  using room_wf_drop [of b ch]
    room_wf_cong [of "snd (force_close_room len ch code msg b)" b]
    room_wf_cong [of "snd (force_close_room len ch code msg b)" "drop_room ch b"]
  by (cases "room_of ch b = None") (simp_all add: force_close_rooms)

lemma seat_peer_rooms:
  assumes "seat_peer len ch p role dev pairing c r b = (res, b')"
  shows "\<exists>h r1. bk_rooms b' = AList.update ch (AList.update p h r1) (bk_rooms b) \<and>
      r1 = filter (\<lambda>(q, _). q \<notin> set (ticket_holders p pairing r)) r \<and>
      bk_access_epoch b' = bk_access_epoch b \<and> bk_next_connection_id b' = bk_next_connection_id b"
proof -
  let ?e = "evict_peers len ch SUPERSEDED (ticket_holders p pairing r) (r, b)"
  have "bk_rooms b' = AList.update ch (AList.update p \<lparr>ph_connection_id = c, ph_role = role, ph_device_id = dev,
      ph_pairing_id = pairing, ph_queue = bk_next_queue b\<rparr> (fst ?e)) (bk_rooms b)"
    "bk_access_epoch b' = bk_access_epoch b" "bk_next_connection_id b' = bk_next_connection_id b"
    using assms evict_peers_frame [of len ch SUPERSEDED "ticket_holders p pairing r" "(r, b)"]
    by (auto simp: seat_peer_def Let_def record_usage_def set_room_def enqueue_all_def [symmetric] split: prod.splits)
  then show ?thesis
    using evict_peers_frame [of len ch SUPERSEDED "ticket_holders p pairing r" "(r, b)"] by auto
qed

lemma join_wf:
  assumes wf: "room_wf b"
  shows "room_wf (snd (join_with_access_epoch len ch p role dev pairing expected b))"
proof (cases "join_with_access_epoch len ch p role dev pairing expected b")
  case (Pair x b')
  show ?thesis
  proof (cases x)
    case (Inl e)
    with Pair join_rejected [of len ch p role dev pairing expected b e b']
    consider "b' = b" | r where "room_of ch b = Some r" "r \<noteq> []" "bk_rooms b' = AList.update ch r (bk_rooms b)"
      by auto
    then show ?thesis
    proof cases
      case 1
      with wf Pair show ?thesis by simp
    next
      case (2 r)
      have "room_wf (set_room ch r b)" using room_wfD [OF wf 2(1)] wf by (intro room_wf_set) auto
      with room_wf_cong [of b' "set_room ch r b"] 2(3) Pair show ?thesis by simp
    qed
  next
    case (Inr res)
    let ?r = "case room_of ch b of None \<Rightarrow> [] | Some r \<Rightarrow> r"
    let ?c = "max (bk_next_connection_id b + 1) 1"
    have d: "distinct (map fst ?r)" using room_wfD [OF wf] by (auto split: option.split)
    obtain bx where s: "seat_peer len ch p role dev pairing ?c ?r bx = (res, b')"
        and bx: "bk_rooms bx = AList.update ch ?r (bk_rooms b)"
      using join_shape [of len ch p role dev pairing expected b res b'] Pair Inr by blast
    from seat_peer_rooms [OF s] obtain h where b':
      "bk_rooms b' = AList.update ch (AList.update p h
         (filter (\<lambda>(q, _). q \<notin> set (ticket_holders p pairing ?r)) ?r)) (AList.update ch ?r (bk_rooms b))"
      using bx by auto
    let ?n = "AList.update p h (filter (\<lambda>(q, _). q \<notin> set (ticket_holders p pairing ?r)) ?r)"
    have n: "?n \<noteq> []" "distinct (map fst ?n)"
      using d by (auto simp: update_nonempty distinct_update distinct_map_filter)
    have "room_of ch' b' = room_of ch' (set_room ch ?n b)" for ch'
      by (simp add: room_of_def b' update_conv')
    moreover have "distinct (map fst (bk_rooms b'))" using wf by (simp add: room_wf_def b' distinct_update)
    ultimately have "room_wf b'" using room_wf_set [OF wf n, of ch] by (simp add: room_wf_def)
    with Pair show ?thesis by simp
  qed
qed

lemma publish_wf: "room_wf b \<Longrightarrow> room_wf (snd (publish_inner len ch p expected v b))"
proof (cases rule: publish_cases [of len ch p expected v b])
  case (sent r s ms b0)
  assume wf: "room_wf b"
  note f = deliver_frame [of len ch p "ph_role s" ms "(r, b0)"]
  have "room_wf (snd (deliver len ch p (ph_role s) ms (r, b0)))"
    using wf f room_wf_cong [of "snd (deliver len ch p (ph_role s) ms (r, b0))" b] sent(7) by simp
  moreover have keys: "map fst (fst (deliver len ch p (ph_role s) ms (r, b0))) = map fst r" using f by simp
  moreover have "fst (deliver len ch p (ph_role s) ms (r, b0)) \<noteq> []"
    using room_wfD [OF wf sent(1)] keys by (metis map_is_Nil_conv)
  ultimately show ?thesis using room_wfD [OF wf sent(1)] unfolding sent(8) snd_conv
    by (intro room_wf_set) simp_all
qed simp

lemma holders_alone:
  assumes r: "r = (case room_of ch b of None \<Rightarrow> [] | Some r \<Rightarrow> r)"
    and v: "vacates ({ch} \<times> insert p (set (ticket_holders p pairing r))) b bm"
    and k: "seated ch q bm = Some k" and t: "pairing = Some t"
  shows "ph_pairing_id k \<noteq> Some t"
proof
  assume "ph_pairing_id k = Some t"
  have q: "q \<noteq> p" "q \<notin> set (ticket_holders p pairing r)" "seated ch q b = Some k"
    using vacatesD(1) [OF v, of ch q] k by (auto split: if_splits)
  then have "(q, k) \<in> set r" using r by (auto simp: seated_def dest: map_of_SomeD split: option.splits)
  with q t \<open>ph_pairing_id k = Some t\<close> show False by (force simp: ticket_holders_def)
qed

lemma join_inv:
  assumes i: "broker_inv b"
  shows "broker_inv (snd (join_with_access_epoch len ch p role dev pairing expected b))"
  unfolding broker_inv_def
proof
  show "room_wf (snd (join_with_access_epoch len ch p role dev pairing expected b))"
    using i by (simp add: broker_inv_def join_wf)
  show "seat_inv (snd (join_with_access_epoch len ch p role dev pairing expected b))"
  proof (cases "join_with_access_epoch len ch p role dev pairing expected b")
    case (Pair x b')
    show ?thesis
    proof (cases x)
      case (Inl e)
      with Pair i vacates_inv join_rejected show ?thesis by (fastforce simp: broker_inv_def)
    next
      case (Inr res)
      let ?r = "case room_of ch b of None \<Rightarrow> [] | Some r \<Rightarrow> r"
      from Pair Inr join_accepted obtain bm where
        v: "vacates ({ch} \<times> insert p (set (ticket_holders p pairing ?r))) b bm" and
        t: "takes ch p \<lparr>ph_connection_id = max (bk_next_connection_id b + 1) 1, ph_role = role,
          ph_device_id = dev, ph_pairing_id = pairing, ph_queue = bk_next_queue b\<rparr> bm b'"
        by blast
      have "seat_inv b'"
        using holders_alone [OF refl v] vacatesD(1) [OF v, of ch p] i vacates_inv [OF v]
        by (intro takes_inv [OF t]) (auto simp: broker_inv_def)
      with Pair show ?thesis by simp
    qed
  qed
qed

end
