(* ===== verification/Broker_Safety.thy ===== *)
theory Broker_Safety
  imports Broker_Facts
begin

text \<open>What the invariants of the broker's rooms mean over any history of operations.\<close>

section \<open>Every step keeps the invariant\<close>

lemma socket_inv: "broker_inv (update_queue a f b) = broker_inv b"
proof -
  have "seated ch p (update_queue a f b) = seated ch p b" for ch p by (rule seated_cong) simp
  then show ?thesis
    using room_wf_cong [of "update_queue a f b" b]
    by (simp add: broker_inv_def seat_inv_def accounted_def one_seat_per_ticket_def queues_owned_def)
qed

lemma broker_step_inv: "broker_inv b \<Longrightarrow> broker_inv (broker_step len op b)"
proof (cases op)
  case (Join ch p role dev pairing expected)
  assume "broker_inv b"
  then show ?thesis unfolding Join broker_step.simps by (rule join_inv)
next
  case (Leave ch p expected)
  assume "broker_inv b"
  then show ?thesis using vacates_inv [OF leave_vacates] by (simp add: Leave broker_inv_def leave_wf)
next
  case (Force_Close ch code msg)
  assume i: "broker_inv b"
  then have "vacates ({ch} \<times> UNIV) b (snd (force_close_room len ch code msg b))"
    by (intro force_close_vacates) (auto simp: broker_inv_def dest: room_wfD)
  from vacates_inv [OF this] i show ?thesis by (simp add: Force_Close broker_inv_def force_close_wf)
next
  case (Close_Revoked ch ds)
  assume i: "broker_inv b"
  have "\<exists>S. vacates S b (snd (close_revoked_surfaces len ch (\<lambda>d. d \<in> set ds) b))"
    using revoke_vacates(1) revoke_absent by (cases "room_of ch b") blast+
  with i show ?thesis by (auto simp: Close_Revoked broker_inv_def revoke_wf intro: vacates_inv)
next
  case (Publish ch p expected v)
  assume "broker_inv b"
  then show ?thesis by (simp add: Publish broker_inv_def publish_wf renames_inv [OF publish_renames])
qed (simp_all add: socket_inv)

interpretation broker: invariant_machine "\<lambda>b op. broker_step len op b" broker_inv for len
  by unfold_locales (rule broker_step_inv)

lemma broker_run_inv: "broker_inv b \<Longrightarrow> broker_inv (broker_run len ops b)"
  unfolding broker_run_def by (rule broker.inv_run)

lemma empty_broker_inv [simp]: "broker_inv empty_broker"
  by (simp add: broker_inv_def room_wf_def room_of_def empty_broker_def seat_inv_def accounted_def seated_def
      one_seat_per_ticket_def queues_owned_def usage_balance_def)

lemma same_key_short:
  "distinct (map fst xs) \<Longrightarrow> (\<And>x y. x \<in> set xs \<Longrightarrow> y \<in> set xs \<Longrightarrow> fst x = fst y) \<Longrightarrow> length xs \<le> 1"
proof (cases xs)
  case (Cons x ys)
  assume d: "distinct (map fst xs)" and k: "\<And>x y. x \<in> set xs \<Longrightarrow> y \<in> set xs \<Longrightarrow> fst x = fst y"
  show ?thesis
  proof (cases ys)
    case Nil
    with Cons show ?thesis by simp
  next
    case ys: (Cons y zs)
    have "fst x = fst y" by (rule k) (simp_all add: Cons ys)
    with d show ?thesis by (simp add: Cons ys)
  qed
qed simp

text \<open>
  C17. One pairing ticket, one seat: whatever clients replay a ticket, reconnect, publish or are
  revoked, no channel ever seats two peers that were admitted by the same pairing ticket.
\<close>

theorem ticket_seats_one_peer:
  "case room_of ch (broker_run len ops empty_broker) of
     None \<Rightarrow> True
   | Some r \<Rightarrow> length (filter (\<lambda>(_, h). ph_pairing_id h = Some t) r) \<le> 1"
proof (cases "room_of ch (broker_run len ops empty_broker)")
  case (Some r)
  let ?b = "broker_run len ops empty_broker"
  have i: "broker_inv ?b" by (rule broker_run_inv) simp
  then have d: "distinct (map fst r)" and one: "one_seat_per_ticket ?b"
    using room_wfD [OF _ Some] by (auto simp: broker_inv_def seat_inv_def)
  have "p = q" if "(p, h) \<in> set r" "(q, k) \<in> set r" "ph_pairing_id h = Some t" "ph_pairing_id k = Some t"
    for p h q k
    using that d one_seat_per_ticketD [OF one, of ch p h q k t] seated_room [OF Some] by simp
  then have "length (filter (\<lambda>(_, h). ph_pairing_id h = Some t) r) \<le> 1"
    by (intro same_key_short) (use d in \<open>auto simp: distinct_map_filter\<close>)
  with Some show ?thesis by simp
qed simp

text \<open>
  The usage stream accounts for every seat: over any history, the connects of a peer in a
  channel exceed its disconnects by one while it is seated there and by none otherwise, also
  through replaced relays, superseded tickets and forced closes.
\<close>

theorem usage_accounts_for_seats:
  "usage_balance ch p (broker_run len ops empty_broker) =
     (if seated ch p (broker_run len ops empty_broker) = None then 0 else 1)"
proof -
  have "broker_inv (broker_run len ops empty_broker)" by (rule broker_run_inv) simp
  then show ?thesis by (simp add: broker_inv_def seat_inv_def accounted_def)
qed

text \<open>
  The broker holds a room exactly for the channels somebody is seated in: after any history
  the active channels are listed once each, and each has at least one seated peer.
\<close>

theorem rooms_are_occupied:
  "distinct (map fst (bk_rooms (broker_run len ops empty_broker))) \<and>
   (ch \<in> fst ` set (bk_rooms (broker_run len ops empty_broker)) \<longleftrightarrow>
     (\<exists>p h. seated ch p (broker_run len ops empty_broker) = Some h))"
proof -
  let ?b = "broker_run len ops empty_broker"
  have "broker_inv ?b" by (rule broker_run_inv) simp
  then have wf: "room_wf ?b" by (simp add: broker_inv_def)
  have "ch \<in> fst ` set (bk_rooms ?b) \<longleftrightarrow> room_of ch ?b \<noteq> None"
    by (simp add: room_of_def map_of_eq_None_iff)
  also have "\<dots> \<longleftrightarrow> (\<exists>p h. seated ch p ?b = Some h)"
  proof
    assume "room_of ch ?b \<noteq> None"
    then obtain r where r: "room_of ch ?b = Some r" by blast
    with room_wfD [OF wf] obtain x xs where "r = x # xs" by (cases r) auto
    then have "seated ch (fst x) ?b = Some (snd x)" using r by (cases x) (simp add: seated_def)
    then show "\<exists>p h. seated ch p ?b = Some h" by blast
  qed (auto simp: seated_def split: option.splits)
  finally show ?thesis using wf by (simp add: room_wf_def)
qed

section \<open>The access epoch and connection ids\<close>

lemma leave_counters:
  "bk_access_epoch (leave_inner len ch p expected b) = bk_access_epoch b \<and>
   bk_next_connection_id (leave_inner len ch p expected b) = bk_next_connection_id b"
  by (auto simp: leave_inner_def unseat_Some split: option.split)

lemma revoke_counters:
  "bk_access_epoch (snd (close_revoked_surfaces len ch f b)) = sat_add (bk_access_epoch b) 1 \<and>
   bk_next_connection_id (snd (close_revoked_surfaces len ch f b)) = bk_next_connection_id b"
  using evict_peers_frame
  by (auto simp: close_revoked_surfaces_def Let_def case_prod_unfold split: option.split)

lemma force_close_counters:
  "bk_access_epoch (snd (force_close_room len ch code msg b)) = sat_add (bk_access_epoch b) 1 \<and>
   bk_next_connection_id (snd (force_close_room len ch code msg b)) = bk_next_connection_id b"
  using close_frame by (auto simp: force_close_room_def Let_def split: option.split)

lemma publish_counters:
  "bk_access_epoch (snd (publish_inner len ch p expected v b)) = bk_access_epoch b \<and>
   bk_next_connection_id (snd (publish_inner len ch p expected v b)) = bk_next_connection_id b"
proof (cases rule: publish_cases [of len ch p expected v b])
  case (sent r s ms b0)
  then show ?thesis using deliver_frame [of len ch p "ph_role s" ms "(r, b0)"] by simp
qed simp

lemma join_counters:
  "bk_access_epoch (snd (join_with_access_epoch len ch p role dev pairing expected b)) = bk_access_epoch b \<and>
   bk_next_connection_id (snd (join_with_access_epoch len ch p role dev pairing expected b)) \<in>
     {bk_next_connection_id b, max (bk_next_connection_id b + 1) 1}"
proof (cases "join_with_access_epoch len ch p role dev pairing expected b")
  case (Pair x b')
  show ?thesis
  proof (cases x)
    case (Inl e)
    with Pair show ?thesis
      by (auto simp: join_with_access_epoch_def Let_def split: if_splits option.splits prod.splits)
  next
    case (Inr res)
    with Pair join_shape [of len ch p role dev pairing expected b res b'] obtain r bx where
      "seat_peer len ch p role dev pairing (max (bk_next_connection_id b + 1) 1) r bx = (res, b')"
      "bk_access_epoch bx = bk_access_epoch b" "bk_next_connection_id bx = max (bk_next_connection_id b + 1) 1"
      by blast
    with seat_peer_rooms [OF this(1)] Pair show ?thesis by auto
  qed
qed

fun releases_access :: "broker_op \<Rightarrow> bool" where
  "releases_access (Force_Close _ _ _) = True"
| "releases_access (Close_Revoked _ _) = True"
| "releases_access _ = False"

lemma step_epoch:
  "bk_access_epoch (broker_step len op b) =
     (if releases_access op then sat_add (bk_access_epoch b) 1 else bk_access_epoch b)"
  by (cases op) (simp_all add: join_counters leave_counters revoke_counters force_close_counters publish_counters)

interpretation epoch: monotone_machine "\<lambda>b op. broker_step len op b" bk_access_epoch for len
  by unfold_locales (simp add: step_epoch)

lemma epoch_run: "bk_access_epoch b \<le> bk_access_epoch (broker_run len ops b)"
  unfolding broker_run_def by (rule epoch.level_run)

lemma epoch_passed:
  assumes "list_ex releases_access ops" "bk_access_epoch b \<noteq> - 1"
  shows "bk_access_epoch b < bk_access_epoch (broker_run len ops b)"
  using assms
proof (induction ops arbitrary: b)
  case (Cons op ops)
  show ?case
  proof (cases "releases_access op")
    case True
    then have "bk_access_epoch b < bk_access_epoch (broker_step len op b)"
      using Cons.prems(2) less_add_one by (simp add: step_epoch sat_add_one)
    also have "\<dots> \<le> bk_access_epoch (broker_run len ops (broker_step len op b))" by (rule epoch_run)
    finally show ?thesis by (simp add: broker_run_def)
  next
    case False
    with Cons.prems Cons.IH [of "broker_step len op b"] show ?thesis by (simp add: step_epoch broker_run_def)
  qed
qed simp

text \<open>
  C18. An access check that was overtaken cannot seat anybody: when access is released (a room
  force-closed, empty or not, or devices revoked) between reading the epoch and joining, the join
  is refused and leaves the broker as it was, whatever else happened in between.
\<close>

theorem overtaken_join_refused:
  assumes "list_ex releases_access ops" "bk_access_epoch b \<noteq> - 1"
  shows "join_with_access_epoch len ch p role dev pairing (Some (bk_access_epoch b)) (broker_run len ops b) =
    (Inl Epoch_Changed, broker_run len ops b)"
proof -
  have "Some (bk_access_epoch b) \<noteq> Some (bk_access_epoch (broker_run len ops b))"
    using epoch_passed [OF assms, of len] by simp
  then show ?thesis unfolding join_with_access_epoch_def by (simp only: if_True simp_thms option.distinct)
qed

lemma overtaken_join_refused_witness:
  "join_with_access_epoch (\<lambda>_. 1) ''room'' ''phone'' Role_Surface (Some ''d'') None (Some 0)
     (broker_run (\<lambda>_. 1) [Close_Revoked ''room'' [''d'']] empty_broker) =
   (Inl Epoch_Changed, broker_run (\<lambda>_. 1) [Close_Revoked ''room'' [''d'']] empty_broker)"
  using overtaken_join_refused [of "[Close_Revoked ''room'' [''d'']]" empty_broker "\<lambda>_. 1" "''room''" "''phone''"
      Role_Surface "Some ''d''" None]
  by (simp add: empty_broker_def)

section \<open>Stale connections\<close>

text \<open>No seat of a peer is held under this connection id, and the id is not coming back.\<close>

definition connection_gone :: "string \<Rightarrow> string \<Rightarrow> u64 \<Rightarrow> broker \<Rightarrow> bool" where
  "connection_gone ch p c b \<longleftrightarrow> c \<le> bk_next_connection_id b \<and>
     (\<forall>h. seated ch p b = Some h \<longrightarrow> ph_connection_id h \<noteq> c)"

lemma vacates_gone:
  "vacates S b b' \<Longrightarrow> bk_next_connection_id b' = bk_next_connection_id b \<Longrightarrow>
     connection_gone ch p c b \<Longrightarrow> connection_gone ch p c b'"
  by (simp add: connection_gone_def vacatesD(1))

lemma next_id: "unat c < 2 ^ 64 - 1 \<Longrightarrow> c < max (c + 1) 1 \<and> unat (max (c + 1) 1) = Suc (unat c)" for c :: u64
proof -
  assume u: "unat c < 2 ^ 64 - 1"
  then have "c \<noteq> - 1" using unat_max_word_val [where 'a = 64] by auto
  then have "c < c + 1" "1 + c \<noteq> 0" using less_add_one [of c] by (auto simp: add_eq_0_iff)
  then have "unat (c + 1) = Suc (unat c)" using unatSuc [of c] by (simp add: add.commute)
  moreover from this have "(1 :: u64) \<le> c + 1" by (simp add: word_le_nat_alt)
  ultimately show ?thesis using \<open>c < c + 1\<close> by (simp add: max_def)
qed

lemma step_next_id:
  "unat (bk_next_connection_id b) < 2 ^ 64 - 1 \<Longrightarrow>
     bk_next_connection_id b \<le> bk_next_connection_id (broker_step len op b) \<and>
     unat (bk_next_connection_id (broker_step len op b)) \<le> Suc (unat (bk_next_connection_id b))"
proof -
  assume u: "unat (bk_next_connection_id b) < 2 ^ 64 - 1"
  have "bk_next_connection_id (broker_step len op b) \<in> {bk_next_connection_id b, max (bk_next_connection_id b + 1) 1}"
    by (cases op) (use join_counters in \<open>simp_all add: leave_counters revoke_counters force_close_counters publish_counters\<close>)
  with next_id [OF u] show ?thesis by (auto simp: less_imp_le)
qed

lemma join_gone:
  assumes g: "connection_gone ch p c b" and u: "unat (bk_next_connection_id b) < 2 ^ 64 - 1"
  shows "connection_gone ch p c (snd (join_with_access_epoch len ch' p' role dev pairing expected b))"
proof (cases "join_with_access_epoch len ch' p' role dev pairing expected b")
  case (Pair x b')
  have le: "c \<le> bk_next_connection_id b'"
    using g join_counters [of len ch' p' role dev pairing expected b] next_id [OF u] Pair
    by (auto simp: connection_gone_def)
  show ?thesis
  proof (cases x)
    case (Inl e)
    with Pair join_rejected [of len ch' p' role dev pairing expected b e b'] g le show ?thesis
      by (simp add: connection_gone_def vacates_def)
  next
    case (Inr res)
    from Pair Inr join_accepted obtain S bm where
      v: "vacates S b bm" and
      t: "takes ch' p' \<lparr>ph_connection_id = max (bk_next_connection_id b + 1) 1, ph_role = role,
        ph_device_id = dev, ph_pairing_id = pairing, ph_queue = bk_next_queue b\<rparr> bm b'"
      by blast
    have "c < max (bk_next_connection_id b + 1) 1"
      using g next_id [OF u] unfolding connection_gone_def by (meson le_less_trans)
    then have "ph_connection_id h \<noteq> c" if "seated ch p b' = Some h" for h
      using that g takesD(1) [OF t, of ch p] vacatesD(1) [OF v, of ch p]
      by (auto simp: connection_gone_def split: if_splits)
    with le Pair show ?thesis by (simp add: connection_gone_def)
  qed
qed

lemma step_gone:
  assumes g: "connection_gone ch p c b" and u: "unat (bk_next_connection_id b) < 2 ^ 64 - 1"
  shows "connection_gone ch p c (broker_step len op b)"
proof -
  have sock: "connection_gone ch p c (update_queue a f b)" for a f
    using g seated_cong [of "update_queue a f b" b] by (simp add: connection_gone_def)
  show ?thesis
  proof (cases op)
    case (Join ch' p' role dev pairing expected)
    show ?thesis unfolding Join broker_step.simps by (rule join_gone [OF g u])
  next
    case (Leave ch' p' expected)
    show ?thesis unfolding Leave broker_step.simps
      by (rule vacates_gone [OF leave_vacates _ g]) (simp add: leave_counters)
  next
    case (Force_Close ch' code msg)
    have "seated ch p b' = None \<or> seated ch p b' = seated ch p b"
      if "bk_rooms b' = (if room_of ch' b = None then bk_rooms b else AList.delete ch' (bk_rooms b))" for b'
      using that by (auto simp: seated_def room_of_def delete_conv' split: if_splits)
    from this [OF force_close_rooms [of len ch' code msg b]] g show ?thesis
      by (auto simp: Force_Close connection_gone_def force_close_counters)
  next
    case (Close_Revoked ch' ds)
    have "\<exists>S. vacates S b (snd (close_revoked_surfaces len ch' (\<lambda>d. d \<in> set ds) b))"
      using revoke_vacates(1) revoke_absent by (cases "room_of ch' b") blast+
    then show ?thesis by (auto simp: Close_Revoked revoke_counters intro: vacates_gone [OF _ _ g])
  next
    case (Publish ch' p' expected v)
    show ?thesis
      using renamesD [OF publish_renames] g publish_counters [of len ch' p' expected v b]
      by (fastforce simp: Publish connection_gone_def)
  qed (simp_all add: sock)
qed

lemma run_gone:
  "connection_gone ch p c b \<Longrightarrow> unat (bk_next_connection_id b) + length ops < 2 ^ 64 \<Longrightarrow>
     connection_gone ch p c (broker_run len ops b)"
proof (induction ops arbitrary: b)
  case (Cons op ops)
  then have u: "unat (bk_next_connection_id b) < 2 ^ 64 - 1" by simp
  have "connection_gone ch p c (broker_run len ops (broker_step len op b))"
    using Cons.prems step_next_id [OF u, of len op] by (intro Cons.IH step_gone [OF _ u]) auto
  then show ?case by (simp add: broker_run_def)
qed (simp add: broker_run_def)

text \<open>
  C19. A connection that lost its seat stays powerless: once no seat of the peer is held under a
  connection id that was handed out, then after any later history (of fewer steps than ids are
  left) that connection can neither take the peer off its seat nor publish anything; both leave
  the broker exactly as it was.
\<close>

theorem stale_connection_powerless:
  assumes "connection_gone ch p c b" "unat (bk_next_connection_id b) + length ops < 2 ^ 64"
  shows "leave_inner len ch p (Some c) (broker_run len ops b) = broker_run len ops b \<and>
    (\<exists>e. publish_inner len ch p (Some c) v (broker_run len ops b) = (Some e, broker_run len ops b))"
proof -
  let ?b = "broker_run len ops b"
  have g: "connection_gone ch p c ?b" by (rule run_gone [OF assms])
  show ?thesis
  proof (cases "room_of ch ?b")
    case None
    then show ?thesis by (simp add: leave_inner_def publish_inner_def)
  next
    case (Some r)
    have h: "ph_connection_id h \<noteq> c" if "map_of r p = Some h" for h
      using g that seated_room [OF Some] by (simp add: connection_gone_def)
    show ?thesis
    proof (cases "map_of r p")
      case None
      with Some show ?thesis by (simp add: leave_inner_def publish_inner_def)
    next
      case (Some h')
      with \<open>room_of ch ?b = Some r\<close> h [OF Some] show ?thesis
        by (simp add: leave_inner_def publish_inner_def)
    qed
  qed
qed

lemmas broker_eval = join_with_access_epoch_def seat_peer_def ticket_holders_def enqueue_all_def enqueue_def
  push_message_def OUTBOUND_QUEUE_BYTES_def OUTBOUND_QUEUE_CAPACITY_def bytes_held_def fresh_outbound_def
  record_usage_def set_room_def room_of_def seated_def unseat_def Let_def max_def

definition sample_reconnect :: "broker_op list" where
  "sample_reconnect =
     [Join ''room'' ''relay'' Role_Relay None None None, Join ''room'' ''phone'' Role_Surface None (Some ''t'') None,
      Join ''room'' ''relay'' Role_Relay None None None]"

lemma stale_connection_powerless_witness:
  "leave_inner (\<lambda>_. 1) ''room'' ''relay'' (Some 1)
     (broker_run (\<lambda>_. 1) [Take 1] (broker_run (\<lambda>_. 1) sample_reconnect empty_broker)) =
   broker_run (\<lambda>_. 1) [Take 1] (broker_run (\<lambda>_. 1) sample_reconnect empty_broker)"
proof -
  have n: "bk_next_connection_id (broker_run (\<lambda>_. 1) sample_reconnect empty_broker) = 3 \<and>
      map_option ph_connection_id (seated ''room'' ''relay'' (broker_run (\<lambda>_. 1) sample_reconnect empty_broker)) = Some 3"
    by (simp add: broker_run_def sample_reconnect_def empty_broker_def broker_eval word_le_nat_alt)
  from this have "connection_gone ''room'' ''relay'' 1 (broker_run (\<lambda>_. 1) sample_reconnect empty_broker)"
    by (auto simp: connection_gone_def)
  then show ?thesis
    using stale_connection_powerless [of "''room''" "''relay''" 1 "broker_run (\<lambda>_. 1) sample_reconnect empty_broker" "[Take 1]" "\<lambda>_. 1"]
      n by simp
qed

end
