(* ===== verification/Broker_Delivery.thy ===== *)
theory Broker_Delivery
  imports Broker_Safety
begin

text \<open>Where published messages go, who is named and revoked, and how much a slow socket can hold.\<close>

section \<open>Publishing\<close>

lemma publish_queues:
  assumes "bk_queues (snd (publish_inner len ch p expected v b)) a \<noteq> bk_queues b a"
  shows "\<exists>r s t h. room_of ch b = Some r \<and> map_of r p = Some s \<and> map_of r t = Some h \<and>
    ph_queue h = a \<and> ph_role h \<noteq> ph_role s"
proof (cases rule: publish_cases [of len ch p expected v b])
  case (refused e)
  with assms show ?thesis by simp
next
  case (sent r s ms b0)
  have "bk_queues (snd (deliver len ch p (ph_role s) ms (r, b0))) a \<noteq> bk_queues (snd (r, b0)) a"
    using assms sent(7,8) by simp
  from deliver_queues [OF this] obtain t w h where "(t, w) \<in> set ms" "map_of r t = Some h" "ph_queue h = a"
    by auto
  with sent(1,2,6) show ?thesis by blast
qed

text \<open>
  A publish crosses only between the roles of one channel: in any reachable broker, if
  publishing changes what is queued for a seated peer, that peer sits in the publisher's channel
  and has the opposite role, so no surface reaches another surface or another channel. A refused
  publish changes nothing at all: no prefix of a bad batch is delivered.
\<close>

theorem publish_stays_between_roles:
  fixes len ops ch p expected v
  shows "let b = broker_run len ops empty_broker; (err, b') = publish_inner len ch p expected v b in
    (err \<noteq> None \<longrightarrow> b' = b) \<and>
    (\<forall>ch' q h. seated ch' q b = Some h \<and> bk_queues b' (ph_queue h) \<noteq> bk_queues b (ph_queue h) \<longrightarrow>
       ch' = ch \<and> (\<exists>s. seated ch p b = Some s \<and> ph_role h \<noteq> ph_role s))"
proof -
  let ?b = "broker_run len ops empty_broker"
  have "broker_inv ?b" by (rule broker_run_inv) simp
  then have own: "queues_owned ?b" by (simp add: broker_inv_def seat_inv_def)
  have "fst (publish_inner len ch p expected v ?b) \<noteq> None \<Longrightarrow> snd (publish_inner len ch p expected v ?b) = ?b"
    by (cases rule: publish_cases [of len ch p expected v ?b]) simp_all
  moreover have "ch' = ch \<and> (\<exists>s. seated ch p ?b = Some s \<and> ph_role h \<noteq> ph_role s)"
    if h: "seated ch' q ?b = Some h"
      "bk_queues (snd (publish_inner len ch p expected v ?b)) (ph_queue h) \<noteq> bk_queues ?b (ph_queue h)"
    for ch' q h
  proof -
    from publish_queues [OF h(2)] obtain r s t k where k: "room_of ch ?b = Some r" "map_of r p = Some s"
      "map_of r t = Some k" "ph_queue k = ph_queue h" "ph_role k \<noteq> ph_role s" by blast
    have "seated ch t ?b = Some k" using k(1,3) by (simp add: seated_def)
    with queues_ownedD(2) [OF own this h(1) k(4)] h(1) have "ch = ch'" "k = h" by auto
    with k show ?thesis by (auto simp: seated_def)
  qed
  ultimately show ?thesis unfolding Let_def case_prod_unfold by blast
qed

lemmas publish_eval = publish_inner_def parse_targeted_messages_payload_def is_targeted_messages_payload_def
  json_str_def json_get_def obj_get_def named_seat_def approved_pairing_device_def payload_kind_def
  MAX_TARGETED_MESSAGES_PER_PUBLISH_def trim_def ascii_ws_def ws_two_def ws_three_def

definition sample_approval :: json where
  "sample_approval = JObject
     [(''kind'', JString ''encrypted_pairing_result''), (''target_peer_id'', JString ''phone''),
      (''pairing_id'', JString ''t''), (''device_id'', JString ''dev-1'')]"

definition sample_ops :: "broker_op list" where
  "sample_ops = [Join ''c'' ''r'' Role_Relay None None None, Join ''c'' ''p'' Role_Surface None None None]"

definition sample_joined :: broker where
  "sample_joined = broker_run (\<lambda>_. 1) sample_ops empty_broker"

definition sample_message :: json where
  "sample_message = JObject [(''target_peer_id'', JString ''p'')]"

lemma sample_joined_eval:
  "seated ''c'' ''r'' sample_joined = Some \<lparr>ph_connection_id = 1, ph_role = Role_Relay, ph_device_id = None,
     ph_pairing_id = None, ph_queue = 0\<rparr>"
  "seated ''c'' ''p'' sample_joined = Some \<lparr>ph_connection_id = 2, ph_role = Role_Surface, ph_device_id = None,
     ph_pairing_id = None, ph_queue = 1\<rparr>"
  "bk_queues sample_joined 1 = fresh_outbound"
  by (simp_all add: sample_joined_def broker_run_def sample_ops_def empty_broker_def broker_eval word_le_nat_alt)

lemma sample_room_of:
  "room_of ''c'' sample_joined = Some r \<Longrightarrow> map_of r q = seated ''c'' q sample_joined"
  by (simp add: seated_def)

lemma publish_stays_between_roles_witness:
  "ob_queue (bk_queues (snd (publish_inner (\<lambda>_. 1) ''c'' ''r'' None sample_message sample_joined)) 1) \<noteq> [] \<and>
   (\<exists>s h. seated ''c'' ''r'' sample_joined = Some s \<and> seated ''c'' ''p'' sample_joined = Some h \<and> ph_role h \<noteq> ph_role s)"
proof -
  obtain r where r: "room_of ''c'' sample_joined = Some r"
    using sample_joined_eval(1) by (auto simp: seated_def split: option.splits)
  have q: "ob_queue (bk_queues (snd (publish_inner (\<lambda>_. 1) ''c'' ''r'' None sample_message sample_joined)) 1) \<noteq> []"
    by (simp add: publish_eval sample_message_def r sample_room_of [OF r] Let_def sample_joined_eval
        sample_joined_eval(3) [unfolded One_nat_def] enqueue_def
        push_message_def OUTBOUND_QUEUE_BYTES_def OUTBOUND_QUEUE_CAPACITY_def bytes_held_def fresh_outbound_def
        record_usage_def set_room_def)
  then have "bk_queues (snd (publish_inner (\<lambda>_. 1) ''c'' ''r'' None sample_message sample_joined)) 1 \<noteq>
      bk_queues sample_joined 1"
    by (auto simp: sample_joined_eval(3) [unfolded One_nat_def] fresh_outbound_def)
  with publish_stays_between_roles [of "\<lambda>_. 1" sample_ops "''c''" "''r''" None sample_message] sample_joined_eval(2) q
  show ?thesis unfolding Let_def case_prod_unfold sample_joined_def [symmetric]
    by (metis peer_handle.select_convs(5))
qed

lemma sent_seats:
  assumes "room_of ch b = Some r"
    and "b0 = record_usage Usage_Publish ch p role dev pk b"
    and "publish_inner len ch p expected v b =
      (None, set_room ch (fst (deliver len ch p role ms (r, b0))) (snd (deliver len ch p role ms (r, b0))))"
  shows "seated ch' t (snd (publish_inner len ch p expected v b)) =
    (if ch' = ch then map_option (named_by role t ms) (map_of r t) else seated ch' t b)"
proof -
  note f = deliver_frame [of len ch p role ms "(r, b0)"]
  have "seated ch' t (snd (deliver len ch p role ms (r, b0))) = seated ch' t b"
    using f assms(2) by (intro seated_cong) simp
  with f assms(3) show ?thesis by (simp add: seated_set)
qed

text \<open>
  Only the relay names a seat: if a publish changes a seated peer at all, it gives a device
  id to a seat that had none, the publisher is a relay of that channel, and the id is the one of
  an approved pairing result for the very pairing ticket the seat was admitted by.
\<close>

theorem device_named_by_relay:
  fixes len ch p expected v b
  assumes "seated ch' q b = Some h"
    and "seated ch' q (snd (publish_inner len ch p expected v b)) \<noteq> Some h"
  shows "ch' = ch \<and> ph_device_id h = None \<and>
    (\<exists>s w d. seated ch p b = Some s \<and> ph_role s = Role_Relay \<and> approved_pairing_device w h = Some d \<and>
       seated ch' q (snd (publish_inner len ch p expected v b)) = Some (h\<lparr>ph_device_id := Some d\<rparr>))"
proof (cases rule: publish_cases [of len ch p expected v b])
  case (refused e)
  with assms show ?thesis by simp
next
  case (sent r s ms b0)
  note after = sent_seats [OF sent(1,7,8)]
  have room: "seated ch t b = map_of r t" for t by (rule seated_room [OF sent(1)])
  from assms after room have ch: "ch' = ch" "map_of r q = Some h" "named_by (ph_role s) q ms h \<noteq> h"
    by (auto split: if_splits)
  with named_by_effect [of "ph_role s" q ms h] obtain w d where
    "ph_role s = Role_Relay" "ph_device_id h = None" "approved_pairing_device w h = Some d"
    "named_by (ph_role s) q ms h = h\<lparr>ph_device_id := Some d\<rparr>"
    by blast
  with ch after room sent(2) show ?thesis by auto
qed

definition sample_seat :: "peer_role \<Rightarrow> string option \<Rightarrow> nat \<Rightarrow> peer_handle" where
  "sample_seat role pairing a = \<lparr>ph_connection_id = 1, ph_role = role, ph_device_id = None,
     ph_pairing_id = pairing, ph_queue = a\<rparr>"

definition sample_room :: broker where
  "sample_room = empty_broker\<lparr>bk_rooms := [(''room'', [(''relay'', sample_seat Role_Relay None 0),
     (''phone'', sample_seat Role_Surface (Some ''t'') 1)])]\<rparr>"

lemma device_named_by_relay_witness:
  "\<exists>w d. approved_pairing_device w (sample_seat Role_Surface (Some ''t'') 1) = Some d \<and>
     seated ''room'' ''phone'' (snd (publish_inner (\<lambda>_. 1) ''room'' ''relay'' None sample_approval sample_room)) =
       Some (sample_seat Role_Surface (Some ''t'') 1\<lparr>ph_device_id := Some d\<rparr>)"
proof -
  have s: "seated ''room'' ''phone'' sample_room = Some (sample_seat Role_Surface (Some ''t'') 1)"
    by (simp add: sample_room_def seated_def room_of_def)
  have "seated ''room'' ''phone'' (snd (publish_inner (\<lambda>_. 1) ''room'' ''relay'' None sample_approval sample_room))
      \<noteq> Some (sample_seat Role_Surface (Some ''t'') 1)"
    by (simp add: sample_room_def sample_seat_def sample_approval_def empty_broker_def broker_eval publish_eval)
  from device_named_by_relay [OF s this] show ?thesis by blast
qed

section \<open>Revoking devices\<close>

text \<open>
  Closing revoked surfaces ends exactly their seats: in any reachable broker, afterwards no
  surface of the channel is seated under a revoked device, and every other seat - the relay, other
  devices, other channels - is untouched.
\<close>

theorem revoked_surfaces_closed:
  fixes len ops ch is_revoked
  shows "let b = broker_run len ops empty_broker; b' = snd (close_revoked_surfaces len ch is_revoked b) in
    seated ch' q b' =
      (case seated ch' q b of
         None \<Rightarrow> None
       | Some h \<Rightarrow>
           if ch' = ch \<and> ph_role h = Role_Surface \<and> (\<exists>d. ph_device_id h = Some d \<and> is_revoked d)
           then None else Some h)"
proof -
  let ?b = "broker_run len ops empty_broker"
  have "broker_inv ?b" by (rule broker_run_inv) simp
  then have wf: "room_wf ?b" by (simp add: broker_inv_def)
  show ?thesis
  proof (cases "room_of ch ?b")
    case None
    then have "seated ch q ?b = None" by (simp add: seated_def)
    with vacatesD(1) [OF revoke_absent [OF None, of len is_revoked], of ch' q]
    show ?thesis by (auto simp: Let_def split: option.split)
  next
    case (Some r)
    have mem: "q \<in> set (revoked_surfaces is_revoked r) \<longleftrightarrow>
        (\<exists>h d. seated ch q ?b = Some h \<and> ph_role h = Role_Surface \<and> ph_device_id h = Some d \<and> is_revoked d)"
      using room_wfD [OF wf Some] seated_room [OF Some] by (simp add: revoked_surfaces_mem)
    show ?thesis
      using vacatesD(1) [OF revoke_vacates(1) [OF Some, of is_revoked len], of ch' q] mem
      by (auto simp: Let_def split: option.split)
  qed
qed

section \<open>Slow sockets\<close>

definition queue_ok :: "(server_message \<Rightarrow> nat) \<Rightarrow> outbound \<Rightarrow> bool" where
  "queue_ok len q \<longleftrightarrow> length (ob_queue q) \<le> 256 \<and> bytes_held len q \<le> 8388608"

definition queues_ok :: "(server_message \<Rightarrow> nat) \<Rightarrow> broker \<Rightarrow> bool" where
  "queues_ok len b \<longleftrightarrow> (\<forall>a. queue_ok len (bk_queues b a))"

named_theorems queue_intros \<open>operations that keep every outbound queue within its bounds\<close>

lemma fresh_ok [simp]: "queue_ok len fresh_outbound"
  by (simp add: queue_ok_def fresh_outbound_def bytes_held_def)

lemma push_ok: "queue_ok len q \<Longrightarrow> queue_ok len (snd (push_message len m q))"
  by (auto simp: queue_ok_def push_message_def OUTBOUND_QUEUE_BYTES_def OUTBOUND_QUEUE_CAPACITY_def bytes_held_def)

lemma take_ok: "queue_ok len q \<Longrightarrow> queue_ok len (take_message q)"
  by (auto simp: queue_ok_def take_message_def bytes_held_def split: list.split)

lemma queues_ok_cong: "bk_queues b' = bk_queues b \<Longrightarrow> queues_ok len b' = queues_ok len b"
  by (simp add: queues_ok_def)

lemma queues_ok_counters [simp]:
  "queues_ok len (record_usage k ch p role dev pk b) = queues_ok len b"
  "queues_ok len (set_room ch r b) = queues_ok len b" "queues_ok len (drop_room ch b) = queues_ok len b"
  "queues_ok len (b\<lparr>bk_access_epoch := e\<rparr>) = queues_ok len b"
  "queues_ok len (b\<lparr>bk_next_connection_id := c\<rparr>) = queues_ok len b"
  by (simp_all add: queues_ok_def)

lemma enqueue_ok [simp, queue_intros]: "queues_ok len b \<Longrightarrow> queues_ok len (enqueue len h m b)"
  by (simp add: queues_ok_def enqueue_def push_ok)

lemma enqueue_all_ok [queue_intros]: "queues_ok len b \<Longrightarrow> queues_ok len (enqueue_all len r m b)"
  unfolding enqueue_all_def by (induction r arbitrary: b) (auto intro: enqueue_ok)

lemma update_queue_ok: "queues_ok len b \<Longrightarrow> (\<And>q. queue_ok len q \<Longrightarrow> queue_ok len (f q)) \<Longrightarrow>
    queues_ok len (update_queue a f b)"
  by (simp add: queues_ok_def update_queue_def)

lemma unseat_ok: "unseat len ch p r b = Some (h, r', b') \<Longrightarrow> queues_ok len b \<Longrightarrow> queues_ok len b'"
  by (auto simp: unseat_def Let_def split: option.splits intro: queue_intros)

lemma evict_ok [queue_intros]: "queues_ok len (snd rb) \<Longrightarrow> queues_ok len (snd (evict_peers len ch m ps rb))"
proof (induction ps arbitrary: rb)
  case (Cons p ps)
  then show ?case
    using unseat_ok [of len ch p "fst rb" "snd rb"] by (cases rb) (auto split: option.split)
qed simp

lemma deliver_ok [queue_intros]: "queues_ok len (snd rb) \<Longrightarrow> queues_ok len (snd (deliver len ch p s ms rb))"
  by (induction len ch p s ms rb rule: deliver.induct)
    (auto simp: Let_def split: option.split intro: queue_intros)

lemma close_ok:
  "queues_ok len b \<Longrightarrow> queues_ok len (fold (\<lambda>(p, h) b. record_usage Usage_Disconnect ch p (ph_role h)
     (ph_device_id h) None (enqueue len h m b)) r b)"
  by (induction r arbitrary: b) (auto intro: queue_intros)

lemma seat_peer_ok: "queues_ok len b \<Longrightarrow> queues_ok len (snd (seat_peer len ch p role dev pairing c r b))"
proof -
  assume "queues_ok len b"
  then have "queues_ok len (snd (evict_peers len ch SUPERSEDED (ticket_holders p pairing r) (r, b)))"
    by (intro queue_intros) simp
  then have "queues_ok len (enqueue_all len xs m (snd (evict_peers len ch SUPERSEDED (ticket_holders p pairing r) (r, b))))"
    for xs m by (rule enqueue_all_ok)
  then show ?thesis
    unfolding queues_ok_def seat_peer_def Let_def case_prod_unfold snd_conv record_usage_frame set_room_frame
    by simp
qed

lemma step_queues_ok: "queues_ok len b \<Longrightarrow> queues_ok len (broker_step len op b)"
proof (cases op)
  case (Join ch p role dev pairing expected)
  assume "queues_ok len b"
  then show ?thesis
    by (auto simp: Join join_with_access_epoch_def Let_def case_prod_unfold split: option.split intro: seat_peer_ok)
next
  case (Leave ch p expected)
  assume "queues_ok len b"
  then show ?thesis by (auto simp: Leave leave_inner_def split: option.splits intro: unseat_ok)
next
  case (Force_Close ch code msg)
  assume "queues_ok len b"
  then show ?thesis
    by (auto simp: Force_Close force_close_room_def Let_def split: option.split intro: close_ok)
next
  case (Close_Revoked ch ds)
  assume "queues_ok len b"
  then show ?thesis
    by (auto simp: Close_Revoked close_revoked_surfaces_def Let_def case_prod_unfold split: option.split
        intro: queue_intros)
next
  case (Publish ch p expected v)
  assume q: "queues_ok len b"
  show ?thesis
  proof (cases rule: publish_cases [of len ch p expected v b])
    case (refused e)
    with q show ?thesis by (simp add: Publish)
  next
    case (sent r s ms b0)
    with q show ?thesis by (auto simp: Publish intro: queue_intros)
  qed
next
  case (Take a)
  assume "queues_ok len b"
  then show ?thesis by (simp add: Take update_queue_ok take_ok)
next
  case (Written a)
  assume "queues_ok len b"
  then show ?thesis by (auto simp: Written queue_ok_def bytes_held_def intro: update_queue_ok)
next
  case (Hang_Up a)
  assume "queues_ok len b"
  then show ?thesis by (auto simp: Hang_Up queue_ok_def bytes_held_def intro: update_queue_ok)
qed

interpretation queues: invariant_machine "\<lambda>b op. broker_step len op b" "queues_ok len" for len
  by unfold_locales (rule step_queues_ok)

text \<open>
  A slow or stuck socket costs the broker a bounded amount: after any history no outbound
  queue holds more than 256 messages, and the messages it still answers for, queued or being
  written, never exceed 8 MiB of serialized text.
\<close>

theorem slow_socket_bounded:
  "let q = bk_queues (broker_run len ops empty_broker) a in
     length (ob_queue q) \<le> 256 \<and> bytes_held len q \<le> 8 * 1024 * 1024"
proof -
  have "queues_ok len empty_broker" by (simp add: queues_ok_def empty_broker_def)
  then have "queues_ok len (broker_run len ops empty_broker)" unfolding broker_run_def by (rule queues.inv_run)
  then show ?thesis by (simp add: queues_ok_def queue_ok_def Let_def)
qed

end
