(* ===== verification/Broker_Directory.thy ===== *)
theory Broker_Directory
  imports Broker_Delivery
begin

text \<open>
  What a broker promises about seats, without queues, messages, iteration orders or the usage
  stream: a directory of seats with an access epoch and a connection counter. The broker's
  rooms implement it step by step.
\<close>

section \<open>The directory\<close>

record seat =
  st_connection :: u64
  st_role :: peer_role
  st_device :: "string option"
  st_pairing :: "string option"

record directory =
  dir_seats :: "string \<Rightarrow> string \<Rightarrow> seat option"
  dir_next :: u64
  dir_epoch :: u64

definition dir_admit ::
    "string \<Rightarrow> string \<Rightarrow> peer_role \<Rightarrow> string option \<Rightarrow> string option \<Rightarrow> directory \<Rightarrow> directory" where
  "dir_admit ch p role dev pairing d =
     (let c = max (dir_next d + 1) 1
      in d\<lparr>dir_next := c,
           dir_seats := (\<lambda>ch' q.
             if ch' \<noteq> ch then dir_seats d ch' q
             else if q = p then
               Some \<lparr>st_connection = c, st_role = role, st_device = dev, st_pairing = pairing\<rparr>
             else (case dir_seats d ch q of
                 None \<Rightarrow> None
               | Some s \<Rightarrow> if pairing \<noteq> None \<and> st_pairing s = pairing then None else Some s))\<rparr>)"

definition dir_publish ::
    "string \<Rightarrow> string \<Rightarrow> u64 option \<Rightarrow> json \<Rightarrow> directory \<Rightarrow> (string \<times> json) list" where
  "dir_publish ch p expected v d =
     (case dir_seats d ch p of
        None \<Rightarrow> []
      | Some s \<Rightarrow>
          if (expected \<noteq> None \<and> expected \<noteq> Some (st_connection s)) \<or>
             (st_role s = Role_Surface \<and> is_targeted_messages_payload v) then []
          else (case parse_targeted_messages_payload v of
              Inl _ \<Rightarrow> []
            | Inr ms \<Rightarrow>
                if list_ex (\<lambda>(t, _). map_option st_role (dir_seats d ch t) = Some (st_role s)) ms then []
                else if st_role s = Role_Relay then ms else []))"

definition dir_named :: "json \<Rightarrow> seat \<Rightarrow> seat" where
  "dir_named v s =
     (if st_device s = None \<and> payload_kind v = ''encrypted_pairing_result'' \<and>
         json_str ''pairing_id'' v \<noteq> None \<and> st_pairing s = json_str ''pairing_id'' v \<and>
         json_str ''device_id'' v \<noteq> Some []
      then s\<lparr>st_device := json_str ''device_id'' v\<rparr> else s)"

fun dir_step :: "directory \<Rightarrow> broker_op \<Rightarrow> directory" where
  "dir_step d (Join ch p role dev pairing expected) =
     (if expected \<noteq> None \<and> expected \<noteq> Some (dir_epoch d) then d
      else if dir_seats d ch p = None \<or>
              (role = Role_Relay \<and> map_option st_role (dir_seats d ch p) = Some Role_Relay)
      then dir_admit ch p role dev pairing d
      else d\<lparr>dir_next := max (dir_next d + 1) 1\<rparr>)"
| "dir_step d (Leave ch p expected) =
     (if expected = None \<or> map_option st_connection (dir_seats d ch p) = expected
      then d\<lparr>dir_seats := (\<lambda>ch' q. if ch' = ch \<and> q = p then None else dir_seats d ch' q)\<rparr>
      else d)"
| "dir_step d (Force_Close ch code msg) =
     d\<lparr>dir_epoch := sat_add (dir_epoch d) 1,
       dir_seats := (\<lambda>ch' q. if ch' = ch then None else dir_seats d ch' q)\<rparr>"
| "dir_step d (Close_Revoked ch ds) =
     d\<lparr>dir_epoch := sat_add (dir_epoch d) 1,
       dir_seats := (\<lambda>ch' q. case dir_seats d ch' q of
          None \<Rightarrow> None
        | Some s \<Rightarrow> if ch' = ch \<and> st_role s = Role_Surface \<and> st_device s \<in> Some ` set ds
            then None else Some s)\<rparr>"
| "dir_step d (Publish ch p expected v) =
     d\<lparr>dir_seats := (\<lambda>ch' q.
         if ch' = ch
         then map_option (fold (\<lambda>(t, w) s. if t = q then dir_named w s else s)
                (dir_publish ch p expected v d)) (dir_seats d ch q)
         else dir_seats d ch' q)\<rparr>"
| "dir_step d _ = d"

section \<open>The broker as a directory\<close>

definition seat_of :: "peer_handle \<Rightarrow> seat" where
  "seat_of h = \<lparr>st_connection = ph_connection_id h, st_role = ph_role h, st_device = ph_device_id h,
     st_pairing = ph_pairing_id h\<rparr>"

definition directory_of :: "broker \<Rightarrow> directory" where
  "directory_of b = \<lparr>dir_seats = (\<lambda>ch p. map_option seat_of (seated ch p b)),
     dir_next = bk_next_connection_id b, dir_epoch = bk_access_epoch b\<rparr>"

lemma seat_of_simps [simp]:
  "st_connection (seat_of h) = ph_connection_id h" "st_role (seat_of h) = ph_role h"
  "st_device (seat_of h) = ph_device_id h" "st_pairing (seat_of h) = ph_pairing_id h"
  by (simp_all add: seat_of_def)

lemma directory_simps [simp]:
  "dir_seats (directory_of b) ch p = map_option seat_of (seated ch p b)"
  "dir_next (directory_of b) = bk_next_connection_id b" "dir_epoch (directory_of b) = bk_access_epoch b"
  by (simp_all add: directory_of_def)

lemma directory_eqI:
  "(\<And>ch p. map_option seat_of (seated ch p b) = dir_seats d ch p) \<Longrightarrow>
     bk_next_connection_id b = dir_next d \<Longrightarrow> bk_access_epoch b = dir_epoch d \<Longrightarrow> directory_of b = d"
  by (simp add: directory_of_def)

lemma holders_mem:
  "distinct (map fst r) \<Longrightarrow> q \<in> set (ticket_holders p pairing r) \<longleftrightarrow>
     pairing \<noteq> None \<and> q \<noteq> p \<and> (\<exists>h. map_of r q = Some h \<and> ph_pairing_id h = pairing)"
  by (cases pairing) (auto simp: ticket_holders_def image_iff map_of_eq_Some_iff)

lemma join_next_id:
  "join_with_access_epoch len ch p role dev pairing expected b = (Inr res, b') \<Longrightarrow>
     bk_next_connection_id b' = max (bk_next_connection_id b + 1) 1"
  using join_shape [of len ch p role dev pairing expected b res b'] seat_peer_rooms by metis

lemma join_decision:
  "(\<exists>res b'. join_with_access_epoch len ch p role dev pairing expected b = (Inr res, b')) \<longleftrightarrow>
     (expected = None \<or> expected = Some (bk_access_epoch b)) \<and>
     (seated ch p b = None \<or> (role = Role_Relay \<and> map_option ph_role (seated ch p b) = Some Role_Relay))"
proof -
  have "seated ch p b = map_of (case room_of ch b of None \<Rightarrow> [] | Some r \<Rightarrow> r) p"
    by (simp add: seated_def split: option.split)
  then show ?thesis
    by (cases "map_of (case room_of ch b of None \<Rightarrow> [] | Some r \<Rightarrow> r) p")
      (auto simp: join_with_access_epoch_def Let_def case_prod_unfold)
qed

lemma join_refused_next:
  assumes "join_with_access_epoch len ch p role dev pairing expected b = (Inl e, b')"
  shows "bk_next_connection_id b' =
    (if expected \<noteq> None \<and> expected \<noteq> Some (bk_access_epoch b) then bk_next_connection_id b
     else max (bk_next_connection_id b + 1) 1)"
proof -
  have "bk_next_connection_id (set_room ch r (b\<lparr>bk_next_connection_id := c\<rparr>)) = c" for r c by simp
  with assms show ?thesis
    by (auto simp: join_with_access_epoch_def Let_def case_prod_unfold split: if_splits option.splits)
qed

lemma join_view:
  assumes i: "broker_inv b"
  shows "directory_of (broker_step len (Join ch p role dev pairing expected) b) =
    dir_step (directory_of b) (Join ch p role dev pairing expected)"
proof (cases "join_with_access_epoch len ch p role dev pairing expected b")
  case (Pair x b')
  have epoch: "bk_access_epoch b' = bk_access_epoch b"
    using join_counters [of len ch p role dev pairing expected b] Pair by simp
  let ?r = "case room_of ch b of None \<Rightarrow> [] | Some r \<Rightarrow> r"
  have d: "distinct (map fst ?r)" using i room_wfD by (auto simp: broker_inv_def split: option.split)
  have room: "map_of ?r q = seated ch q b" for q by (simp add: seated_def split: option.split)
  show ?thesis
  proof (cases x)
    case (Inl e)
    with Pair have r: "join_with_access_epoch len ch p role dev pairing expected b = (Inl e, b')" by simp
    then have "vacates {} b b'" using join_rejected by blast
    then have seats: "seated ch' q b' = seated ch' q b" for ch' q by (simp add: vacatesD(1))
    have "\<not> (\<exists>res b'. join_with_access_epoch len ch p role dev pairing expected b = (Inr res, b'))"
      using r by simp
    with join_refused_next [OF r] show ?thesis
      unfolding join_decision using Pair epoch seats by (intro directory_eqI) (auto simp: option.map_comp comp_def)
  next
    case (Inr res)
    with Pair have r: "join_with_access_epoch len ch p role dev pairing expected b = (Inr res, b')" by simp
    then have dec: "(expected = None \<or> expected = Some (bk_access_epoch b)) \<and>
        (seated ch p b = None \<or> (role = Role_Relay \<and> map_option ph_role (seated ch p b) = Some Role_Relay))"
      using join_decision [where len = len and ch = ch and p = p and role = role and dev = dev and
        pairing = pairing and expected = expected and b = b] by blast
    from join_accepted [OF r] obtain bm where
      v: "vacates ({ch} \<times> insert p (set (ticket_holders p pairing ?r))) b bm" and
      t: "takes ch p \<lparr>ph_connection_id = max (bk_next_connection_id b + 1) 1, ph_role = role,
        ph_device_id = dev, ph_pairing_id = pairing, ph_queue = bk_next_queue b\<rparr> bm b'"
      by blast
    have seats: "map_option seat_of (seated ch' q b') = dir_seats (dir_admit ch p role dev pairing (directory_of b)) ch' q" for ch' q
      using takesD(1) [OF t, of ch' q] vacatesD(1) [OF v, of ch' q] holders_mem [OF d, of q p pairing] room
      by (auto simp: dir_admit_def Let_def seat_of_def split: option.split)
    have step: "dir_step (directory_of b) (Join ch p role dev pairing expected) =
        dir_admit ch p role dev pairing (directory_of b)"
      using dec by (auto simp: option.map_comp comp_def)
    have "directory_of b' = dir_admit ch p role dev pairing (directory_of b)"
      using seats join_next_id [OF r] epoch by (intro directory_eqI) (simp_all add: dir_admit_def Let_def)
    with step r show ?thesis by simp
  qed
qed

lemma leave_view:
  "directory_of (broker_step len (Leave ch p expected) b) = dir_step (directory_of b) (Leave ch p expected)"
proof (rule directory_eqI)
  show "map_option seat_of (seated ch' q (broker_step len (Leave ch p expected) b)) =
      dir_seats (dir_step (directory_of b) (Leave ch p expected)) ch' q" for ch' q
    using vacatesD(1) [OF leave_vacates [of ch p b expected len], of ch' q]
    by (cases "seated ch p b") (auto simp: split: if_splits)
qed (simp_all add: leave_counters)

lemma force_close_view:
  assumes "broker_inv b"
  shows "directory_of (broker_step len (Force_Close ch code msg) b) = dir_step (directory_of b) (Force_Close ch code msg)"
proof -
  have "vacates ({ch} \<times> UNIV) b (snd (force_close_room len ch code msg b))"
    using assms by (intro force_close_vacates) (auto simp: broker_inv_def dest: room_wfD)
  from vacatesD(1) [OF this] show ?thesis by (intro directory_eqI) (simp_all add: force_close_counters)
qed

lemma revoke_view:
  assumes "broker_inv b"
  shows "directory_of (broker_step len (Close_Revoked ch ds) b) = dir_step (directory_of b) (Close_Revoked ch ds)"
proof (rule directory_eqI)
  let ?f = "\<lambda>d. d \<in> set ds"
  show "map_option seat_of (seated ch' q (broker_step len (Close_Revoked ch ds) b)) =
      dir_seats (dir_step (directory_of b) (Close_Revoked ch ds)) ch' q" for ch' q
  proof (cases "room_of ch b")
    case None
    then have "seated ch q b = None" by (simp add: seated_def)
    with vacatesD(1) [OF revoke_absent [OF None, of len ?f], of ch' q] show ?thesis
      by (auto split: option.split)
  next
    case (Some r)
    have "distinct (map fst r)" using assms room_wfD [OF _ Some] by (simp add: broker_inv_def)
    from revoked_surfaces_mem [OF this, of q ?f] vacatesD(1) [OF revoke_vacates(1) [OF Some, of ?f len], of ch' q]
    show ?thesis using seated_room [OF Some, of q] by (auto split: option.split)
  qed
qed (simp_all add: revoke_counters)

lemma named_view: "seat_of (named_seat Role_Relay v h) = dir_named v (seat_of h)"
  by (auto simp: named_seat_def dir_named_def approved_pairing_device_def seat_of_def split: option.split)

lemma named_surface [simp]: "named_seat Role_Surface v h = h"
  by (simp add: named_seat_def)

lemma named_by_view:
  "seat_of (named_by Role_Relay q ms h) = fold (\<lambda>(t, w) s. if t = q then dir_named w s else s) ms (seat_of h)"
  unfolding named_by_def by (induction ms arbitrary: h) (auto simp: named_view)

lemma named_by_surface [simp]: "named_by Role_Surface q ms h = h"
  unfolding named_by_def by (induction ms) (auto split: prod.split)

lemma publish_none:
  assumes "publish_inner len ch p expected v b = (Some e, b)"
  shows "dir_publish ch p expected v (directory_of b) = []"
  using assms seated_room
  by (auto simp: publish_inner_def dir_publish_def seated_def Let_def case_prod_unfold list_ex_iff
      split: option.splits sum.splits if_splits)

lemma publish_view:
  "directory_of (broker_step len (Publish ch p expected v) b) = dir_step (directory_of b) (Publish ch p expected v)"
proof (cases rule: publish_cases [of len ch p expected v b])
  case (refused e)
  then show ?thesis
    by (intro directory_eqI) (simp_all add: publish_none [OF refused] option.map_comp comp_def)
next
  case (sent r s ms b0)
  note room = seated_room [OF sent(1)]
  have pub: "dir_publish ch p expected v (directory_of b) = (if ph_role s = Role_Relay then ms else [])"
    using sent(1-6) room by (auto simp: dir_publish_def list_ex_iff split: option.splits)
  have "ph_role s = Role_Relay \<or> ph_role s = Role_Surface" by (cases "ph_role s") simp_all
  then show ?thesis
    using sent_seats [OF sent(1,7,8)] room publish_counters [of len ch p expected v b]
    by (intro directory_eqI) (auto simp: pub named_by_view option.map_comp comp_def fun_eq_iff)
qed

lemma socket_view: "directory_of (update_queue a f b) = directory_of b"
proof -
  have "seated ch p (update_queue a f b) = seated ch p b" for ch p by (rule seated_cong) simp
  then show ?thesis by (intro directory_eqI) simp_all
qed

interpretation seats: refines_machine "\<lambda>b op. broker_step len op b" broker_inv directory_of dir_step for len
proof unfold_locales
  fix b op
  assume "broker_inv b"
  then show "directory_of (broker_step len op b) = dir_step (directory_of b) op"
    by (cases op) (simp_all only: join_view leave_view force_close_view revoke_view publish_view,
        simp_all add: socket_view)
qed

text \<open>
  C16. The rooms implement the directory: over any history, the seats, the connection counter and
  the access epoch are those of the abstract directory fed with the same operations. So queues,
  message sizes, slow sockets, the usage stream and the iteration order of the hash maps never
  influence who is seated, under which connection, or as which device.
\<close>

theorem broker_refines_directory:
  "directory_of (broker_run len ops empty_broker) = fold (\<lambda>op d. dir_step d op) ops (directory_of empty_broker)"
  unfolding broker_run_def by (rule seats.view_run) simp

end
