(* ===== verification/Wire_Codec.thy ===== *)
theory Wire_Codec
  imports Protocol Json "HOL-Library.Monad_Syntax"
begin

text \<open>
  How the wire types are written to and read from the JSON data model: the integers, the bounded
  tokens and vectors of \<open>crates/relay-api/src/orchestration.rs\<close>, and what the derived serde
  implementations do with a struct or an enum of unit variants. A failed reading is \<open>None\<close>; the
  text of serde's error is not modelled. The locale \<open>wire_codec\<close> is the contract every wire type
  of the protocol keeps: it reads back what it wrote, it reads only well-formed values, and what
  it reads holds no text but short tokens.
\<close>

section \<open>The text in a message\<close>

text \<open>A string that may cross the wire: a non-empty token within the longest bound.\<close>

definition wire_text :: "string \<Rightarrow> bool" where
  "wire_text s \<longleftrightarrow> s \<noteq> [] \<and> length s \<le> MAX_OPAQUE_ID_LEN \<and> list_all token_char s"

text \<open>Every string of a message, the keys of its objects included, is such a token.\<close>

fun content_blind :: "json \<Rightarrow> bool" where
  "content_blind (JString s) = wire_text s"
| "content_blind (JArray vs) = (\<forall>v \<in> set vs. content_blind v)"
| "content_blind (JObject es) = (\<forall>(k, v) \<in> set es. wire_text k \<and> content_blind v)"
| "content_blind JNull = True"
| "content_blind (JBool b) = True"
| "content_blind (JInt i) = True"
| "content_blind (JFloat s) = True"

section \<open>Structs\<close>

text \<open>
  The derived reader of a struct with \<open>deny_unknown_fields\<close> takes an object with known and
  distinct keys, or an array of the fields in their order, which may stop early.
\<close>

definition struct_entries :: "string list \<Rightarrow> json \<Rightarrow> (string \<times> json) list option" where
  "struct_entries names v =
     (case v of
        JObject es \<Rightarrow>
          if distinct (map fst es) \<and> set (map fst es) \<subseteq> set names then Some es else None
      | JArray vs \<Rightarrow> if length vs \<le> length names then Some (zip names vs) else None
      | _ \<Rightarrow> None)"

text \<open>A required field, and one with \<open>#[serde(default)]\<close>.\<close>

definition req_field :: "(json \<Rightarrow> 'a option) \<Rightarrow> string \<Rightarrow> (string \<times> json) list \<Rightarrow> 'a option" where
  "req_field dec k es = (case map_of es k of None \<Rightarrow> None | Some v \<Rightarrow> dec v)"

definition dflt_field ::
    "'a \<Rightarrow> (json \<Rightarrow> 'a option) \<Rightarrow> string \<Rightarrow> (string \<times> json) list \<Rightarrow> 'a option" where
  "dflt_field d dec k es = (case map_of es k of None \<Rightarrow> Some d | Some v \<Rightarrow> dec v)"

text \<open>A value that may be null, and what \<open>skip_serializing_if = "Option::is_none"\<close> writes.\<close>

definition json_option :: "(json \<Rightarrow> 'a option) \<Rightarrow> json \<Rightarrow> 'a option option" where
  "json_option dec v = (if v = JNull then Some None else map_option Some (dec v))"

definition option_json :: "('a \<Rightarrow> json) \<Rightarrow> 'a option \<Rightarrow> json" where
  "option_json enc x = (case x of None \<Rightarrow> JNull | Some y \<Rightarrow> enc y)"

definition skip_none :: "string \<Rightarrow> ('a \<Rightarrow> json) \<Rightarrow> 'a option \<Rightarrow> (string \<times> json) list" where
  "skip_none k enc x = (case x of None \<Rightarrow> [] | Some y \<Rightarrow> [(k, enc y)])"

lemma req_field_Some:
  "req_field dec k es = Some x \<longleftrightarrow> (\<exists>v. map_of es k = Some v \<and> dec v = Some x)"
  by (simp add: req_field_def split: option.split)

lemmas write_simps = req_field_def dflt_field_def skip_none_def

definition blind_field :: "(string \<times> json) list \<Rightarrow> string \<Rightarrow> bool" where
  "blind_field es k = pred_option content_blind (map_of es k)"

lemma struct_entries_object [simp]:
  "struct_entries names (JObject es) =
     (if distinct (map fst es) \<and> set (map fst es) \<subseteq> set names then Some es else None)"
  by (simp add: struct_entries_def)

text \<open>A message is blind when the fields of the struct it was read as are.\<close>

lemma struct_blind:
  assumes "struct_entries names v = Some es" and "distinct names"
    and texts: "list_all wire_text names" and blind: "list_all (blind_field es) names"
  shows "content_blind v"
proof (cases v)
  case (JObject ms)
  with assms(1) have es: "es = ms" "distinct (map fst ms)" "set (map fst ms) \<subseteq> set names"
    by (auto split: if_splits)
  show ?thesis unfolding JObject content_blind.simps
  proof (intro ballI, clarify)
    fix k u assume u: "(k, u) \<in> set ms"
    then have k: "k \<in> set names" using es(3) by (force simp: image_iff)
    moreover have "map_of es k = Some u" using u es by simp
    moreover have "blind_field es k" using blind k by (simp add: list_all_iff)
    ultimately show "wire_text k \<and> content_blind u"
      using texts by (auto simp: list_all_iff blind_field_def)
  qed
next
  case (JArray vs)
  with assms(1) have es: "es = zip names vs" "length vs \<le> length names"
    by (auto simp: struct_entries_def split: if_splits)
  show ?thesis unfolding JArray content_blind.simps
  proof
    fix u assume "u \<in> set vs"
    then obtain i where i: "i < length vs" "u = vs ! i" by (auto simp: in_set_conv_nth)
    then have "(names ! i, u) \<in> set es" using es by (auto simp: set_zip)
    moreover have "distinct (map fst es)"
      using es assms(2) by (simp add: map_fst_zip_take distinct_take)
    ultimately have "map_of es (names ! i) = Some u" by simp
    moreover have "blind_field es (names ! i)" using blind i es by (simp add: list_all_length)
    ultimately show "content_blind u" by (simp add: blind_field_def)
  qed
qed (use assms(1) in \<open>auto simp: struct_entries_def\<close>)

section \<open>The contract of a wire type\<close>

locale wire_codec =
  fixes enc :: "'a \<Rightarrow> json" and dec :: "json \<Rightarrow> 'a option" and good :: "'a \<Rightarrow> bool"
  assumes dec_enc: "dec (enc x) = (if good x then Some x else None)"
    and dec_good: "dec v = Some x \<Longrightarrow> good x"
    and dec_blind: "dec v = Some x \<Longrightarrow> content_blind v"
begin

lemma enc_blind: "good x \<Longrightarrow> content_blind (enc x)"
  by (rule dec_blind [of _ x]) (simp add: dec_enc)

lemma enc_inject: "good x \<Longrightarrow> good y \<Longrightarrow> enc x = enc y \<Longrightarrow> x = y"
  by (metis dec_enc option.inject)

lemma reencode: "dec v = Some x \<Longrightarrow> dec (enc x) = Some x"
  by (frule dec_good) (simp add: dec_enc)

text \<open>The same for a field read with this codec.\<close>

lemma req_good: "req_field dec k es = Some x \<Longrightarrow> good x"
  by (auto simp: req_field_def dest: dec_good split: option.splits)

lemma req_blind: "req_field dec k es = Some x \<Longrightarrow> blind_field es k"
  by (auto simp: req_field_def blind_field_def dest: dec_blind split: option.splits)

lemma dflt_good: "dflt_field d dec k es = Some x \<Longrightarrow> good d \<Longrightarrow> good x"
  by (auto simp: dflt_field_def dest: dec_good split: option.splits)

lemma dflt_blind: "dflt_field d dec k es = Some x \<Longrightarrow> blind_field es k"
  by (auto simp: dflt_field_def blind_field_def dest: dec_blind split: option.splits)

lemma dflt_option_good: "dflt_field None (json_option dec) k es = Some x \<Longrightarrow> pred_option good x"
  by (auto simp: dflt_field_def json_option_def dest: dec_good split: option.splits if_splits)

lemma dflt_option_blind: "dflt_field None (json_option dec) k es = Some x \<Longrightarrow> blind_field es k"
  by (auto simp: dflt_field_def json_option_def blind_field_def dest: dec_blind
      split: option.splits if_splits)

end

section \<open>Integers and booleans\<close>

definition json_u32 :: "json \<Rightarrow> u32 option" where
  "json_u32 v =
     (case v of JInt i \<Rightarrow> if 0 \<le> i \<and> i < 2 ^ 32 then Some (word_of_int i) else None | _ \<Rightarrow> None)"

definition u32_json :: "u32 \<Rightarrow> json" where
  "u32_json w = JInt (uint w)"

definition json_bool :: "json \<Rightarrow> bool option" where
  "json_bool v = (case v of JBool b \<Rightarrow> Some b | _ \<Rightarrow> None)"

lemma json_u32_roundtrip: "json_u32 (u32_json w) = Some w"
  using uint_bounded [of w] by (simp add: json_u32_def u32_json_def)

interpretation u32: wire_codec u32_json json_u32 "\<lambda>_. True"
  by unfold_locales
    (simp add: json_u32_roundtrip, auto simp: json_u32_def split: json.splits if_splits)

interpretation u64: wire_codec u64_json json_u64 "\<lambda>_. True"
  by unfold_locales (simp, auto simp: json_u64_def split: json.splits if_splits)

interpretation bool: wire_codec JBool json_bool "\<lambda>_. True"
  by unfold_locales (auto simp: json_bool_def split: json.splits)

text \<open>An optional value of a type that never writes null.\<close>

lemma option_codec:
  assumes c: "wire_codec enc dec good" and "dec JNull = None" and "\<And>x. enc x \<noteq> JNull"
  shows "wire_codec (option_json enc) (json_option dec) (pred_option good)"
proof
  show "json_option dec (option_json enc x) = (if pred_option good x then Some x else None)" for x
    using assms(3) by (cases x) (auto simp: option_json_def json_option_def wire_codec.dec_enc [OF c])
  fix v x
  assume "json_option dec v = Some x"
  then show "pred_option good x" "content_blind v"
    by (auto simp: json_option_def split: if_splits
        intro: wire_codec.dec_good [OF c] wire_codec.dec_blind [OF c])
qed

section \<open>Tokens\<close>

text \<open>
  A \<open>bounded_token!\<close> type is its string on the wire; reading one is \<open>new\<close> on the string, whose
  error becomes the reading's.
\<close>

definition json_token :: "(string \<Rightarrow> protocol_value_error + 'a) \<Rightarrow> json \<Rightarrow> 'a option" where
  "json_token new v = (case v of JString raw \<Rightarrow> ok (new raw) | _ \<Rightarrow> None)"

definition token_json :: "('a \<Rightarrow> string) \<Rightarrow> 'a \<Rightarrow> json" where
  "token_json as_str x = JString (as_str x)"

definition valid_token :: "string \<Rightarrow> nat \<Rightarrow> string \<Rightarrow> bool" where
  "valid_token field n s \<longleftrightarrow> validate_token field s n = Inr s"

lemma valid_token_wire: "valid_token field n s \<Longrightarrow> n \<le> MAX_OPAQUE_ID_LEN \<Longrightarrow> wire_text s"
  by (auto simp: valid_token_def wire_text_def list_all_iff dest: validate_token_Inr)

text \<open>Every newtype made by the macro keeps the contract.\<close>

lemma token_codec:
  assumes "\<And>s. new s = map_sum id con (validate_token field s n)" and "\<And>s. as_str (con s) = s"
    and "\<And>x. con (as_str x) = x" and "n \<le> MAX_OPAQUE_ID_LEN"
  shows "wire_codec (token_json as_str) (json_token new) (\<lambda>x. valid_token field n (as_str x))"
proof
  show "json_token new (token_json as_str x) =
      (if valid_token field n (as_str x) then Some x else None)" for x
    using validate_token_Inr [of field "as_str x" n] assms(3)
    by (cases "validate_token field (as_str x) n")
      (auto simp: json_token_def token_json_def valid_token_def ok_def assms(1))
  fix v x
  assume "json_token new v = Some x"
  then obtain s where "v = JString s" "validate_token field s n = Inr s" "x = con s"
    by (auto simp: json_token_def ok_def assms(1) map_sum_def split: json.splits sum.splits
        dest: validate_token_Inr)
  with assms(2,4) show "valid_token field n (as_str x)" "content_blind v"
    by (auto simp: valid_token_def [symmetric] intro: valid_token_wire)
qed

section \<open>Enums of unit variants\<close>

text \<open>
  The derived reader takes the variant's name, or an object whose one key is the name and whose
  value is null; the derived writer writes the name.
\<close>

definition json_unit_enum :: "(string \<Rightarrow> 'a option) \<Rightarrow> json \<Rightarrow> 'a option" where
  "json_unit_enum variant v =
     (case v of
        JString s \<Rightarrow> variant s
      | JObject [(s, JNull)] \<Rightarrow> variant s
      | _ \<Rightarrow> None)"

text \<open>A reader written by hand on top of \<open>String::deserialize\<close> or \<open>deserialize_str\<close>.\<close>

definition json_name :: "(string \<Rightarrow> 'a option) \<Rightarrow> json \<Rightarrow> 'a option" where
  "json_name variant v = (case v of JString s \<Rightarrow> variant s | _ \<Rightarrow> None)"

definition variant_named :: "('a \<Rightarrow> string) \<Rightarrow> 'a list \<Rightarrow> string \<Rightarrow> 'a option" where
  "variant_named as_str variants s = List.find (\<lambda>x. as_str x = s) variants"

locale wire_names =
  fixes as_str :: "'a \<Rightarrow> string" and variant :: "string \<Rightarrow> 'a option"
  assumes variant_as_str: "variant (as_str x) = Some x"
    and variant_Some: "variant s = Some x \<Longrightarrow> s = as_str x"
    and names_blind: "wire_text (as_str x)"
begin

lemma variant_eq: "variant s = Some x \<longleftrightarrow> s = as_str x"
  by (auto simp: variant_as_str dest: variant_Some)

lemma unit_enum_codec:
  "wire_codec (token_json as_str) (json_unit_enum variant) (\<lambda>_. True)"
  by unfold_locales
    (simp add: json_unit_enum_def token_json_def variant_as_str,
     auto simp: json_unit_enum_def variant_eq names_blind split: json.splits list.splits)

lemma name_codec: "wire_codec (token_json as_str) (json_name variant) (\<lambda>_. True)"
  by unfold_locales
    (simp add: json_name_def token_json_def variant_as_str,
     auto simp: json_name_def variant_eq names_blind split: json.splits)

end

lemma variant_named_Some: "variant_named as_str variants s = Some x \<Longrightarrow> s = as_str x"
  by (auto simp: variant_named_def find_Some_iff)

section \<open>Sequences\<close>

text \<open>
  A bounded vector is read item by item: once it is full, any further item, well-formed or not,
  fails the reading.
\<close>

fun read_bounded :: "nat \<Rightarrow> (json \<Rightarrow> 'a option) \<Rightarrow> json list \<Rightarrow> 'a list \<Rightarrow> 'a list option" where
  "read_bounded cap dec [] items = Some items"
| "read_bounded cap dec (v # vs) items =
     (if length items = cap then None
      else case dec v of None \<Rightarrow> None | Some x \<Rightarrow> read_bounded cap dec vs (items @ [x]))"

definition json_bounded :: "nat \<Rightarrow> (json \<Rightarrow> 'a option) \<Rightarrow> json \<Rightarrow> 'a list option" where
  "json_bounded cap dec v = (case v of JArray vs \<Rightarrow> read_bounded cap dec vs [] | _ \<Rightarrow> None)"

definition list_json :: "('a \<Rightarrow> json) \<Rightarrow> 'a list \<Rightarrow> json" where
  "list_json enc xs = JArray (map enc xs)"

lemma read_bounded_those:
  "length items \<le> cap \<Longrightarrow>
     read_bounded cap dec vs items =
       (if length items + length vs \<le> cap then map_option ((@) items) (those (map dec vs)) else None)"
  by (induction vs arbitrary: items)
    (auto simp: option.map_comp comp_def intro: option.map_cong split: option.splits)

lemma read_bounded_Some:
  "read_bounded cap dec vs [] = Some xs \<longleftrightarrow> length vs \<le> cap \<and> those (map dec vs) = Some xs"
  by (simp add: read_bounded_those option.map_id [unfolded id_def])

lemma those_Some: "those (map f vs) = Some xs \<longleftrightarrow> list_all2 (\<lambda>v x. f v = Some x) vs xs"
  by (induction vs arbitrary: xs) (auto simp: list_all2_Cons1 split: option.splits)

lemma those_map_if:
  "those (map (\<lambda>x. if p x then Some x else None) xs) = (if list_all p xs then Some xs else None)"
  by (induction xs) auto

lemma bounded_codec:
  assumes c: "wire_codec enc dec good"
  shows "wire_codec (list_json enc) (json_bounded cap dec) (\<lambda>xs. length xs \<le> cap \<and> list_all good xs)"
proof
  show "json_bounded cap dec (list_json enc xs) =
      (if length xs \<le> cap \<and> list_all good xs then Some xs else None)" for xs
    by (simp add: json_bounded_def list_json_def read_bounded_those wire_codec.dec_enc [OF c]
        comp_def those_map_if)
  fix v xs
  assume "json_bounded cap dec v = Some xs"
  then obtain vs where v: "v = JArray vs" and "length vs \<le> cap"
    and vs: "list_all2 (\<lambda>v x. dec v = Some x) vs xs"
    by (auto simp: json_bounded_def read_bounded_Some those_Some split: json.splits)
  then show "length xs \<le> cap \<and> list_all good xs"
    by (auto simp: list_all_iff in_set_conv_nth list_all2_conv_all_nth)
      (metis wire_codec.dec_good [OF c])
  show "content_blind v"
    using vs by (auto simp: v in_set_conv_nth list_all2_conv_all_nth)
      (metis wire_codec.dec_blind [OF c])
qed

end
