(* ===== verification/Driver_Wire.thy ===== *)
theory Driver_Wire
  imports Wire_Codec Team_Plan
begin

text \<open>
  The vocabulary of the content-blind driver protocol (\<open>crates/relay-api/src/orchestration.rs\<close>):
  the closed enums, the opaque ids, artifact references and bindings, and the cursor that is
  projected from a run, each with its wire form.
\<close>

named_theorems codec_simps \<open>what a wire type reads back from what it wrote\<close>

section \<open>Closed enums\<close>

datatype driver_run_status =
    DS_Queued | DS_Running | DS_PausePending | DS_Paused | DS_AwaitingUser | DS_Done
  | DS_Escalated | DS_Blocked | DS_Resolving | DS_Failed | DS_Interrupted | DS_Cancelled

datatype driver_phase =
    DP_Intake | DP_Design | DP_DesignReview | DP_Planning | DP_SubTasks | DP_MrGate
  | DP_Wrapping | DP_Finished

datatype driver_role = DR_Tl | DR_Dev | DR_Reviewer

datatype artifact_kind =
    AK_TaskSpec | AK_Plan | AK_Design | AK_Report | AK_SubTaskBrief | AK_WorkspaceDiff
  | AK_ReviewVerdict | AK_TranscriptDigest

datatype artifact_binding_slot =
    AS_TaskSpec | AS_Plan | AS_Design | AS_Report | AS_SubTaskBrief | AS_Diff | AS_Verdict
  | AS_PriorSummary

datatype diff_scope = Scope_Head | Scope_CurrentSubTask | Scope_MergeBaseTarget
datatype merge_base_target = Target_PinnedTarget
datatype turn_outcome_kind = TO_Replied | TO_Silent | TO_Failed | TO_Blocked

text \<open>The names that \<open>rename_all = "snake_case"\<close> gives the variants.\<close>

fun driver_run_status_name :: "driver_run_status \<Rightarrow> string" where
  "driver_run_status_name DS_Queued = ''queued''"
| "driver_run_status_name DS_Running = ''running''"
| "driver_run_status_name DS_PausePending = ''pause_pending''"
| "driver_run_status_name DS_Paused = ''paused''"
| "driver_run_status_name DS_AwaitingUser = ''awaiting_user''"
| "driver_run_status_name DS_Done = ''done''"
| "driver_run_status_name DS_Escalated = ''escalated''"
| "driver_run_status_name DS_Blocked = ''blocked''"
| "driver_run_status_name DS_Resolving = ''resolving''"
| "driver_run_status_name DS_Failed = ''failed''"
| "driver_run_status_name DS_Interrupted = ''interrupted''"
| "driver_run_status_name DS_Cancelled = ''cancelled''"

fun driver_phase_name :: "driver_phase \<Rightarrow> string" where
  "driver_phase_name DP_Intake = ''intake''"
| "driver_phase_name DP_Design = ''design''"
| "driver_phase_name DP_DesignReview = ''design_review''"
| "driver_phase_name DP_Planning = ''planning''"
| "driver_phase_name DP_SubTasks = ''sub_tasks''"
| "driver_phase_name DP_MrGate = ''mr_gate''"
| "driver_phase_name DP_Wrapping = ''wrapping''"
| "driver_phase_name DP_Finished = ''finished''"

fun artifact_kind_name :: "artifact_kind \<Rightarrow> string" where
  "artifact_kind_name AK_TaskSpec = ''task_spec''"
| "artifact_kind_name AK_Plan = ''plan''"
| "artifact_kind_name AK_Design = ''design''"
| "artifact_kind_name AK_Report = ''report''"
| "artifact_kind_name AK_SubTaskBrief = ''sub_task_brief''"
| "artifact_kind_name AK_WorkspaceDiff = ''workspace_diff''"
| "artifact_kind_name AK_ReviewVerdict = ''review_verdict''"
| "artifact_kind_name AK_TranscriptDigest = ''transcript_digest''"

fun artifact_binding_slot_name :: "artifact_binding_slot \<Rightarrow> string" where
  "artifact_binding_slot_name AS_TaskSpec = ''task_spec''"
| "artifact_binding_slot_name AS_Plan = ''plan''"
| "artifact_binding_slot_name AS_Design = ''design''"
| "artifact_binding_slot_name AS_Report = ''report''"
| "artifact_binding_slot_name AS_SubTaskBrief = ''sub_task_brief''"
| "artifact_binding_slot_name AS_Diff = ''diff''"
| "artifact_binding_slot_name AS_Verdict = ''verdict''"
| "artifact_binding_slot_name AS_PriorSummary = ''prior_summary''"

fun diff_scope_name :: "diff_scope \<Rightarrow> string" where
  "diff_scope_name Scope_Head = ''head''"
| "diff_scope_name Scope_CurrentSubTask = ''current_sub_task''"
| "diff_scope_name Scope_MergeBaseTarget = ''merge_base_target''"

fun merge_base_target_name :: "merge_base_target \<Rightarrow> string" where
  "merge_base_target_name Target_PinnedTarget = ''pinned_target''"

fun turn_outcome_kind_name :: "turn_outcome_kind \<Rightarrow> string" where
  "turn_outcome_kind_name TO_Replied = ''replied''"
| "turn_outcome_kind_name TO_Silent = ''silent''"
| "turn_outcome_kind_name TO_Failed = ''failed''"
| "turn_outcome_kind_name TO_Blocked = ''blocked''"

fun command_rejection_name :: "command_rejection \<Rightarrow> string" where
  "command_rejection_name Rej_UnknownRevision = ''unknown_revision''"
| "command_rejection_name Rej_DuplicateCommand = ''duplicate_command''"
| "command_rejection_name Rej_StaleCommand = ''stale_command''"
| "command_rejection_name Rej_BackendMismatch = ''backend_mismatch''"
| "command_rejection_name Rej_PermissionDenied = ''permission_denied''"
| "command_rejection_name Rej_WorkspaceUnavailable = ''workspace_unavailable''"
| "command_rejection_name Rej_TemplateUnavailable = ''template_unavailable''"
| "command_rejection_name Rej_ArtifactUnavailable = ''artifact_unavailable''"
| "command_rejection_name Rej_ExecutorBusy = ''executor_busy''"
| "command_rejection_name Rej_InvalidState = ''invalid_state''"
| "command_rejection_name Rej_UnsupportedProtocol = ''unsupported_protocol''"

fun backend_kind_name :: "backend_kind \<Rightarrow> string" where
  "backend_kind_name Kind_LegacyEmbedded = ''legacy_embedded''"
| "backend_kind_name Kind_Cloud = ''cloud''"
| "backend_kind_name Kind_LocalSidecar = ''local_sidecar''"
| "backend_kind_name Kind_UnknownNonExecuting = ''unknown_non_executing''"

text \<open>\<open>DriverRole\<close> has its own names and its own reader.\<close>

fun driver_role_as_str :: "driver_role \<Rightarrow> string" where
  "driver_role_as_str DR_Tl = ''tl''"
| "driver_role_as_str DR_Dev = ''dev''"
| "driver_role_as_str DR_Reviewer = ''reviewer''"

definition driver_role_from_wire :: "string \<Rightarrow> driver_role option" where
  "driver_role_from_wire raw =
     (if raw = ''tl'' then Some DR_Tl
      else if raw = ''dev'' then Some DR_Dev
      else if raw = ''reviewer'' then Some DR_Reviewer
      else None)"

fun driver_role_from_team :: "team_role \<Rightarrow> driver_role" where
  "driver_role_from_team Role_Tl = DR_Tl"
| "driver_role_from_team Role_Dev = DR_Dev"
| "driver_role_from_team Role_Reviewer = DR_Reviewer"

fun driver_role_as_team :: "driver_role \<Rightarrow> team_role" where
  "driver_role_as_team DR_Tl = Role_Tl"
| "driver_role_as_team DR_Dev = Role_Dev"
| "driver_role_as_team DR_Reviewer = Role_Reviewer"

fun driver_run_status_from_team :: "team_run_status \<Rightarrow> driver_run_status" where
  "driver_run_status_from_team Run_Queued = DS_Queued"
| "driver_run_status_from_team Run_Running = DS_Running"
| "driver_run_status_from_team Run_PausePending = DS_PausePending"
| "driver_run_status_from_team Run_Paused = DS_Paused"
| "driver_run_status_from_team Run_AwaitingUser = DS_AwaitingUser"
| "driver_run_status_from_team Run_Done = DS_Done"
| "driver_run_status_from_team Run_Escalated = DS_Escalated"
| "driver_run_status_from_team Run_Blocked = DS_Blocked"
| "driver_run_status_from_team Run_Resolving = DS_Resolving"
| "driver_run_status_from_team Run_Failed = DS_Failed"
| "driver_run_status_from_team Run_Interrupted = DS_Interrupted"
| "driver_run_status_from_team Run_Cancelled = DS_Cancelled"

fun driver_phase_from_team :: "team_phase \<Rightarrow> driver_phase" where
  "driver_phase_from_team Phase_Intake = DP_Intake"
| "driver_phase_from_team Phase_Design = DP_Design"
| "driver_phase_from_team Phase_DesignReview = DP_DesignReview"
| "driver_phase_from_team Phase_Planning = DP_Planning"
| "driver_phase_from_team Phase_SubTasks = DP_SubTasks"
| "driver_phase_from_team Phase_MrGate = DP_MrGate"
| "driver_phase_from_team Phase_Wrapping = DP_Wrapping"
| "driver_phase_from_team Phase_Finished = DP_Finished"

section \<open>Reading the enums\<close>

definition driver_run_status_variant :: "string \<Rightarrow> driver_run_status option" where
  "driver_run_status_variant = variant_named driver_run_status_name
     [DS_Queued, DS_Running, DS_PausePending, DS_Paused, DS_AwaitingUser, DS_Done, DS_Escalated,
      DS_Blocked, DS_Resolving, DS_Failed, DS_Interrupted, DS_Cancelled]"

definition driver_phase_variant :: "string \<Rightarrow> driver_phase option" where
  "driver_phase_variant = variant_named driver_phase_name
     [DP_Intake, DP_Design, DP_DesignReview, DP_Planning, DP_SubTasks, DP_MrGate, DP_Wrapping,
      DP_Finished]"

definition artifact_kind_variant :: "string \<Rightarrow> artifact_kind option" where
  "artifact_kind_variant = variant_named artifact_kind_name
     [AK_TaskSpec, AK_Plan, AK_Design, AK_Report, AK_SubTaskBrief, AK_WorkspaceDiff,
      AK_ReviewVerdict, AK_TranscriptDigest]"

definition artifact_binding_slot_variant :: "string \<Rightarrow> artifact_binding_slot option" where
  "artifact_binding_slot_variant = variant_named artifact_binding_slot_name
     [AS_TaskSpec, AS_Plan, AS_Design, AS_Report, AS_SubTaskBrief, AS_Diff, AS_Verdict,
      AS_PriorSummary]"

definition diff_scope_variant :: "string \<Rightarrow> diff_scope option" where
  "diff_scope_variant = variant_named diff_scope_name
     [Scope_Head, Scope_CurrentSubTask, Scope_MergeBaseTarget]"

definition merge_base_target_variant :: "string \<Rightarrow> merge_base_target option" where
  "merge_base_target_variant = variant_named merge_base_target_name [Target_PinnedTarget]"

definition turn_outcome_kind_variant :: "string \<Rightarrow> turn_outcome_kind option" where
  "turn_outcome_kind_variant = variant_named turn_outcome_kind_name
     [TO_Replied, TO_Silent, TO_Failed, TO_Blocked]"

definition command_rejection_variant :: "string \<Rightarrow> command_rejection option" where
  "command_rejection_variant = variant_named command_rejection_name
     [Rej_UnknownRevision, Rej_DuplicateCommand, Rej_StaleCommand, Rej_BackendMismatch,
      Rej_PermissionDenied, Rej_WorkspaceUnavailable, Rej_TemplateUnavailable,
      Rej_ArtifactUnavailable, Rej_ExecutorBusy, Rej_InvalidState, Rej_UnsupportedProtocol]"

definition backend_kind_variant :: "string \<Rightarrow> backend_kind option" where
  "backend_kind_variant = variant_named backend_kind_name
     [Kind_LegacyEmbedded, Kind_Cloud, Kind_LocalSidecar, Kind_UnknownNonExecuting]"

lemmas wire_text_simps =
  wire_text_def token_char_def char_between_def MAX_OPAQUE_ID_LEN_def

text \<open>The names of an enum: every variant has one, they differ, and they are tokens.\<close>

lemma names_intro:
  assumes "variant = variant_named as_str variants" and "\<And>x. x \<in> set variants"
    and "distinct (map as_str variants)" and "list_all wire_text (map as_str variants)"
  shows "wire_names as_str variant"
proof
  show "variant (as_str x) = Some x" for x
  proof -
    have "List.find (\<lambda>y. as_str y = as_str x) variants \<noteq> None"
      using assms(2) by (auto simp: find_None_iff)
    then obtain y where y: "List.find (\<lambda>y. as_str y = as_str x) variants = Some y" by blast
    then have "y \<in> set variants" "as_str y = as_str x" by (auto simp: find_Some_iff)
    with assms(2,3) have "y = x" by (auto simp: distinct_map inj_on_def)
    with y show ?thesis by (simp add: assms(1) variant_named_def)
  qed
  show "variant s = Some x \<Longrightarrow> s = as_str x" for s x
    using variant_named_Some by (simp add: assms(1))
  show "wire_text (as_str x)" for x
    using assms(2,4) by (auto simp: list_all_iff)
qed

interpretation run_status_names: wire_names driver_run_status_name driver_run_status_variant
  by (rule names_intro [OF driver_run_status_variant_def])
    (simp_all add: wire_text_simps driver_run_status.nchotomy)

interpretation phase_names: wire_names driver_phase_name driver_phase_variant
  by (rule names_intro [OF driver_phase_variant_def])
    (simp_all add: wire_text_simps driver_phase.nchotomy)

interpretation artifact_kind_names: wire_names artifact_kind_name artifact_kind_variant
  by (rule names_intro [OF artifact_kind_variant_def])
    (simp_all add: wire_text_simps artifact_kind.nchotomy)

interpretation slot_names: wire_names artifact_binding_slot_name artifact_binding_slot_variant
  by (rule names_intro [OF artifact_binding_slot_variant_def])
    (simp_all add: wire_text_simps artifact_binding_slot.nchotomy)

interpretation scope_names: wire_names diff_scope_name diff_scope_variant
  by (rule names_intro [OF diff_scope_variant_def])
    (simp_all add: wire_text_simps diff_scope.nchotomy)

interpretation target_names: wire_names merge_base_target_name merge_base_target_variant
  by (rule names_intro [OF merge_base_target_variant_def])
    (simp_all add: wire_text_simps merge_base_target.nchotomy)

interpretation outcome_names: wire_names turn_outcome_kind_name turn_outcome_kind_variant
  by (rule names_intro [OF turn_outcome_kind_variant_def])
    (simp_all add: wire_text_simps turn_outcome_kind.nchotomy)

interpretation rejection_names: wire_names command_rejection_name command_rejection_variant
  by (rule names_intro [OF command_rejection_variant_def])
    (simp_all add: wire_text_simps command_rejection.nchotomy)

interpretation backend_names: wire_names backend_kind_name backend_kind_variant
  by (rule names_intro [OF backend_kind_variant_def])
    (simp_all add: wire_text_simps backend_kind.nchotomy)

interpretation role_names: wire_names driver_role_as_str driver_role_from_wire
proof
  show "driver_role_from_wire (driver_role_as_str x) = Some x"
    "wire_text (driver_role_as_str x)" for x
    by (cases x; simp add: driver_role_from_wire_def wire_text_simps)+
  show "driver_role_from_wire s = Some x \<Longrightarrow> s = driver_role_as_str x" for s x
    by (auto simp: driver_role_from_wire_def split: if_splits)
qed

text \<open>The role vocabulary of the protocol mirrors the local one, names included.\<close>

lemma driver_role_mirror [simp]:
  "driver_role_as_team (driver_role_from_team r) = r"
  "driver_role_from_team (driver_role_as_team d) = d"
  "driver_role_as_str (driver_role_from_team r) = role_as_str r"
  by (cases r; cases d; simp)+

lemma driver_names_mirror [simp]:
  "driver_run_status_name (driver_run_status_from_team st) = run_status_as_str st"
  "driver_phase_name (driver_phase_from_team ph) = phase_as_str ph"
  by (cases st; cases ph; simp)+

abbreviation "driver_run_status_json \<equiv> token_json driver_run_status_name"
abbreviation "json_driver_run_status \<equiv> json_unit_enum driver_run_status_variant"
abbreviation "driver_phase_json \<equiv> token_json driver_phase_name"
abbreviation "json_driver_phase \<equiv> json_unit_enum driver_phase_variant"
abbreviation "artifact_kind_json \<equiv> token_json artifact_kind_name"
abbreviation "json_artifact_kind \<equiv> json_unit_enum artifact_kind_variant"
abbreviation "artifact_binding_slot_json \<equiv> token_json artifact_binding_slot_name"
abbreviation "json_artifact_binding_slot \<equiv> json_unit_enum artifact_binding_slot_variant"
abbreviation "diff_scope_json \<equiv> token_json diff_scope_name"
abbreviation "json_diff_scope \<equiv> json_unit_enum diff_scope_variant"
abbreviation "merge_base_target_json \<equiv> token_json merge_base_target_name"
abbreviation "json_merge_base_target \<equiv> json_unit_enum merge_base_target_variant"
abbreviation "turn_outcome_kind_json \<equiv> token_json turn_outcome_kind_name"
abbreviation "json_turn_outcome_kind \<equiv> json_unit_enum turn_outcome_kind_variant"
abbreviation "command_rejection_json \<equiv> token_json command_rejection_name"
abbreviation "json_command_rejection \<equiv> json_unit_enum command_rejection_variant"
abbreviation "backend_kind_json \<equiv> token_json backend_kind_name"
abbreviation "json_backend_kind \<equiv> json_unit_enum backend_kind_variant"
abbreviation "driver_role_json \<equiv> token_json driver_role_as_str"
abbreviation "json_driver_role \<equiv> json_name driver_role_from_wire"

interpretation run_status: wire_codec driver_run_status_json json_driver_run_status "\<lambda>_. True"
  by (rule run_status_names.unit_enum_codec)

interpretation phase: wire_codec driver_phase_json json_driver_phase "\<lambda>_. True"
  by (rule phase_names.unit_enum_codec)

interpretation artifact_kind: wire_codec artifact_kind_json json_artifact_kind "\<lambda>_. True"
  by (rule artifact_kind_names.unit_enum_codec)

interpretation slot: wire_codec artifact_binding_slot_json json_artifact_binding_slot "\<lambda>_. True"
  by (rule slot_names.unit_enum_codec)

interpretation scope: wire_codec diff_scope_json json_diff_scope "\<lambda>_. True"
  by (rule scope_names.unit_enum_codec)

interpretation target: wire_codec merge_base_target_json json_merge_base_target "\<lambda>_. True"
  by (rule target_names.unit_enum_codec)

interpretation outcome: wire_codec turn_outcome_kind_json json_turn_outcome_kind "\<lambda>_. True"
  by (rule outcome_names.unit_enum_codec)

interpretation rejection: wire_codec command_rejection_json json_command_rejection "\<lambda>_. True"
  by (rule rejection_names.unit_enum_codec)

interpretation backend_name: wire_codec backend_kind_json json_backend_kind "\<lambda>_. True"
  by (rule backend_names.unit_enum_codec)

interpretation driver_role: wire_codec driver_role_json json_driver_role "\<lambda>_. True"
  by (rule role_names.name_codec)

end
