(* ===== verification/Driver_Cursor.thy ===== *)
theory Driver_Cursor
  imports Driver_Wire
begin

text \<open>
  The structs of the driver protocol (\<open>crates/relay-api/src/orchestration.rs\<close>): artifact
  references, bindings, and the cursor that is projected from a run, with their derived codecs.
  A bounded vector is the list of its items; \<open>valid_...\<close> says which values the code can build,
  the token newtypes and \<open>BoundedVec\<close> having \<open>new\<close> and the reader as their only constructors.
\<close>

section \<open>Opaque ids\<close>

definition new_event_id :: "string \<Rightarrow> protocol_value_error + event_id" where
  "new_event_id raw = map_sum id Event_Id (validate_token ''event_id'' raw MAX_OPAQUE_ID_LEN)"

definition new_thread_handle :: "string \<Rightarrow> protocol_value_error + thread_handle" where
  "new_thread_handle raw =
     map_sum id Thread_Handle (validate_token ''thread_handle'' raw MAX_OPAQUE_ID_LEN)"

definition new_template_id :: "string \<Rightarrow> protocol_value_error + template_id" where
  "new_template_id raw =
     map_sum id Template_Id (validate_token ''template_id'' raw MAX_OPAQUE_ID_LEN)"

definition new_artifact_id :: "string \<Rightarrow> protocol_value_error + artifact_id" where
  "new_artifact_id raw =
     map_sum id Artifact_Id (validate_token ''artifact_id'' raw MAX_OPAQUE_ID_LEN)"

abbreviation "command_id_json \<equiv> token_json command_id_str"
abbreviation "json_command_id \<equiv> json_token new_command_id"
abbreviation "event_id_json \<equiv> token_json event_id_str"
abbreviation "json_event_id \<equiv> json_token new_event_id"
abbreviation "thread_handle_json \<equiv> token_json thread_handle_str"
abbreviation "json_thread_handle \<equiv> json_token new_thread_handle"
abbreviation "template_id_json \<equiv> token_json template_id_str"
abbreviation "json_template_id \<equiv> json_token new_template_id"
abbreviation "artifact_id_json \<equiv> token_json artifact_id_str"
abbreviation "json_artifact_id \<equiv> json_token new_artifact_id"
abbreviation "driver_version_json \<equiv> token_json driver_version_str"
abbreviation "json_driver_version \<equiv> json_token new_driver_version"

definition valid_command_id :: "command_id \<Rightarrow> bool" where
  "valid_command_id x = valid_token ''command_id'' MAX_OPAQUE_ID_LEN (command_id_str x)"

definition valid_event_id :: "event_id \<Rightarrow> bool" where
  "valid_event_id x = valid_token ''event_id'' MAX_OPAQUE_ID_LEN (event_id_str x)"

definition valid_thread_handle :: "thread_handle \<Rightarrow> bool" where
  "valid_thread_handle x = valid_token ''thread_handle'' MAX_OPAQUE_ID_LEN (thread_handle_str x)"

definition valid_template_id :: "template_id \<Rightarrow> bool" where
  "valid_template_id x = valid_token ''template_id'' MAX_OPAQUE_ID_LEN (template_id_str x)"

definition valid_artifact_id :: "artifact_id \<Rightarrow> bool" where
  "valid_artifact_id x = valid_token ''artifact_id'' MAX_OPAQUE_ID_LEN (artifact_id_str x)"

definition valid_driver_version :: "driver_version \<Rightarrow> bool" where
  "valid_driver_version x =
     valid_token ''driver_version'' MAX_DRIVER_VERSION_LEN (driver_version_str x)"

interpretation command_id: wire_codec command_id_json json_command_id valid_command_id
  unfolding valid_command_id_def by (rule token_codec) (simp add: new_command_id_def, simp_all)

interpretation event_id: wire_codec event_id_json json_event_id valid_event_id
  unfolding valid_event_id_def by (rule token_codec) (simp add: new_event_id_def, simp_all)

interpretation thread_handle: wire_codec thread_handle_json json_thread_handle valid_thread_handle
  unfolding valid_thread_handle_def by (rule token_codec) (simp add: new_thread_handle_def, simp_all)

interpretation template_id: wire_codec template_id_json json_template_id valid_template_id
  unfolding valid_template_id_def by (rule token_codec) (simp add: new_template_id_def, simp_all)

interpretation artifact_id: wire_codec artifact_id_json json_artifact_id valid_artifact_id
  unfolding valid_artifact_id_def by (rule token_codec) (simp add: new_artifact_id_def, simp_all)

interpretation driver_version:
  wire_codec driver_version_json json_driver_version valid_driver_version
  unfolding valid_driver_version_def
  by (rule token_codec) (simp add: new_driver_version_def, simp_all add: protocol_limits)

section \<open>Versions\<close>

text \<open>\<open>deserialize_supported_protocol_version\<close>.\<close>

definition json_version :: "json \<Rightarrow> u32 option" where
  "json_version v = (case json_u32 v of None \<Rightarrow> None | Some n \<Rightarrow> ok (supported_version n))"

definition valid_version :: "u32 \<Rightarrow> bool" where
  "valid_version n \<longleftrightarrow> supported_version n = Inr n"

lemma ok_supported_version: "ok (supported_version n) = (if valid_version n then Some n else None)"
  by (simp add: ok_def supported_version_def valid_version_def)

interpretation version: wire_codec u32_json json_version valid_version
  by unfold_locales
    (simp add: json_version_def u32.dec_enc ok_supported_version,
     auto simp: json_version_def ok_supported_version split: option.splits if_splits
       intro: u32.dec_blind)

section \<open>Artifacts\<close>

record artifact_ref =
  ar_artifact_id :: artifact_id
  ar_kind :: artifact_kind
  ar_revision :: u64
  ar_size_bytes :: "u64 option"

record artifact_binding =
  ab_slot :: artifact_binding_slot
  ab_artifact :: artifact_ref

definition artifact_ref_fields :: "string list" where
  "artifact_ref_fields = [''artifact_id'', ''kind'', ''revision'', ''size_bytes'']"

definition artifact_ref_json :: "artifact_ref \<Rightarrow> json" where
  "artifact_ref_json a =
     JObject
       ([(''artifact_id'', artifact_id_json (ar_artifact_id a)),
         (''kind'', artifact_kind_json (ar_kind a)),
         (''revision'', u64_json (ar_revision a))] @
        skip_none ''size_bytes'' u64_json (ar_size_bytes a))"

definition json_artifact_ref :: "json \<Rightarrow> artifact_ref option" where
  "json_artifact_ref v = do {
     es \<leftarrow> struct_entries artifact_ref_fields v;
     i \<leftarrow> req_field json_artifact_id ''artifact_id'' es;
     k \<leftarrow> req_field json_artifact_kind ''kind'' es;
     r \<leftarrow> req_field json_u64 ''revision'' es;
     n \<leftarrow> dflt_field None (json_option json_u64) ''size_bytes'' es;
     Some \<lparr>ar_artifact_id = i, ar_kind = k, ar_revision = r, ar_size_bytes = n\<rparr>
   }"

definition valid_artifact_ref :: "artifact_ref \<Rightarrow> bool" where
  "valid_artifact_ref a \<longleftrightarrow> valid_artifact_id (ar_artifact_id a)"

definition artifact_binding_fields :: "string list" where
  "artifact_binding_fields = [''slot'', ''artifact'']"

definition artifact_binding_json :: "artifact_binding \<Rightarrow> json" where
  "artifact_binding_json b =
     JObject
       [(''slot'', artifact_binding_slot_json (ab_slot b)),
        (''artifact'', artifact_ref_json (ab_artifact b))]"

definition json_artifact_binding :: "json \<Rightarrow> artifact_binding option" where
  "json_artifact_binding v = do {
     es \<leftarrow> struct_entries artifact_binding_fields v;
     s \<leftarrow> req_field json_artifact_binding_slot ''slot'' es;
     a \<leftarrow> req_field json_artifact_ref ''artifact'' es;
     Some \<lparr>ab_slot = s, ab_artifact = a\<rparr>
   }"

definition valid_artifact_binding :: "artifact_binding \<Rightarrow> bool" where
  "valid_artifact_binding b \<longleftrightarrow> valid_artifact_ref (ab_artifact b)"

lemmas struct_names = artifact_ref_fields_def artifact_binding_fields_def

lemmas plain_codecs [codec_simps] =
  u32.dec_enc u64.dec_enc bool.dec_enc version.dec_enc command_id.dec_enc event_id.dec_enc
  thread_handle.dec_enc template_id.dec_enc artifact_id.dec_enc driver_version.dec_enc
  run_status.dec_enc phase.dec_enc artifact_kind.dec_enc slot.dec_enc scope.dec_enc target.dec_enc
  outcome.dec_enc rejection.dec_enc backend_name.dec_enc driver_role.dec_enc

lemmas field_blind =
  u32.req_blind u64.req_blind bool.req_blind version.req_blind command_id.req_blind
  event_id.req_blind thread_handle.req_blind template_id.req_blind artifact_id.req_blind
  driver_version.req_blind run_status.req_blind phase.req_blind artifact_kind.req_blind
  slot.req_blind scope.req_blind target.req_blind outcome.req_blind rejection.req_blind
  backend_name.req_blind driver_role.req_blind u64.dflt_option_blind
  command_id.dflt_option_blind

lemma json_option_u64 [codec_simps]: "json_option json_u64 (u64_json n) = Some (Some n)"
  by (simp add: json_option_def u64_json_def json_u64_roundtrip [unfolded u64_json_def])

text \<open>
  A struct is read in three steps: its entries, its fields, its value. The rules below take the
  reading apart again.
\<close>

lemma json_artifact_refE:
  assumes "json_artifact_ref v = Some a"
  obtains es where "struct_entries artifact_ref_fields v = Some es"
    "req_field json_artifact_id ''artifact_id'' es = Some (ar_artifact_id a)"
    "req_field json_artifact_kind ''kind'' es = Some (ar_kind a)"
    "req_field json_u64 ''revision'' es = Some (ar_revision a)"
    "dflt_field None (json_option json_u64) ''size_bytes'' es = Some (ar_size_bytes a)"
proof -
  from assms show thesis unfolding json_artifact_ref_def Option.bind_eq_Some_conv
    by (elim exE conjE) (rule that, assumption, auto)
qed

lemma json_artifact_bindingE:
  assumes "json_artifact_binding v = Some b"
  obtains es where "struct_entries artifact_binding_fields v = Some es"
    "req_field json_artifact_binding_slot ''slot'' es = Some (ab_slot b)"
    "req_field json_artifact_ref ''artifact'' es = Some (ab_artifact b)"
proof -
  from assms show thesis unfolding json_artifact_binding_def Option.bind_eq_Some_conv
    by (elim exE conjE) (rule that, assumption, auto)
qed

interpretation artifact_ref: wire_codec artifact_ref_json json_artifact_ref valid_artifact_ref
proof
  show "json_artifact_ref (artifact_ref_json a) = (if valid_artifact_ref a then Some a else None)"
    for a
    by (cases "ar_size_bytes a")
      (simp_all add: json_artifact_ref_def artifact_ref_json_def struct_names write_simps
        codec_simps valid_artifact_ref_def)
  fix v a assume read: "json_artifact_ref v = Some a"
  show "valid_artifact_ref a"
    using read by (rule json_artifact_refE) (simp add: valid_artifact_ref_def artifact_id.req_good)
  show "content_blind v"
    using read by (rule json_artifact_refE) (erule struct_blind;
       simp add: struct_names wire_text_simps field_blind)
qed

interpretation artifact_binding:
  wire_codec artifact_binding_json json_artifact_binding valid_artifact_binding
proof
  show "json_artifact_binding (artifact_binding_json b) =
      (if valid_artifact_binding b then Some b else None)" for b
    by (simp add: json_artifact_binding_def artifact_binding_json_def struct_names write_simps
        codec_simps artifact_ref.dec_enc valid_artifact_binding_def)
  fix v b assume read: "json_artifact_binding v = Some b"
  show "valid_artifact_binding b"
    using read by (rule json_artifact_bindingE) (simp add: valid_artifact_binding_def artifact_ref.req_good)
  show "content_blind v"
    using read by (rule json_artifact_bindingE) (erule struct_blind;
       simp add: struct_names wire_text_simps field_blind artifact_ref.req_blind)
qed

section \<open>The cursor\<close>

record driver_cursor =
  dc_protocol_version :: u32
  dc_backend :: backend_kind
  dc_status :: driver_run_status
  dc_phase :: driver_phase
  dc_state_revision :: u64
  dc_last_command_seq :: u64
  dc_last_event_seq :: u64
  dc_in_flight_command_id :: "command_id option"
  dc_current_sub_task_index :: u32
  dc_sub_task_count :: u32
  dc_current_rounds_used :: u32
  dc_max_review_rounds :: u32
  dc_design_review_rounds :: u32
  dc_mr_rounds_used :: u32
  dc_tl_generation :: u32
  dc_pause_requested :: bool
  dc_awaiting_user :: bool
  dc_artifacts :: "artifact_ref list"

definition bounded_usize_to_u32 :: "nat \<Rightarrow> u32" where
  "bounded_usize_to_u32 n = (if n < 2 ^ 32 then of_nat n else - 1)"

definition driver_cursor_from_team_run ::
    "team_run \<Rightarrow> artifact_ref list \<Rightarrow> protocol_value_error + driver_cursor" where
  "driver_cursor_from_team_run run artifacts =
     (if dp_malformed (tr_driver_progress run) then Inl Err_MalformedDriverProgress
      else case supported_protocol_version (tr_orchestration_backend run) of
        None \<Rightarrow> Inl Err_UnknownBackend
      | Some version \<Rightarrow>
          (let current = current_sub_task run;
               current_rounds_used =
                 (case Option.bind current (get_opt (tr_sub_tasks run)) of
                    None \<Rightarrow> 0
                  | Some task \<Rightarrow> st_rounds_used task)
           in map_sum id (\<lambda>items.
                \<lparr>dc_protocol_version = version,
                 dc_backend = backend_kind_of (tr_orchestration_backend run),
                 dc_status = driver_run_status_from_team (tr_status run),
                 dc_phase = driver_phase_from_team (tr_phase run),
                 dc_state_revision = dp_state_revision (tr_driver_progress run),
                 dc_last_command_seq = dp_last_command_seq (tr_driver_progress run),
                 dc_last_event_seq = dp_last_event_seq (tr_driver_progress run),
                 dc_in_flight_command_id = dp_in_flight_command_id (tr_driver_progress run),
                 dc_current_sub_task_index = bounded_usize_to_u32
                   (case current of None \<Rightarrow> length (tr_sub_tasks run) | Some i \<Rightarrow> i),
                 dc_sub_task_count = bounded_usize_to_u32 (length (tr_sub_tasks run)),
                 dc_current_rounds_used = current_rounds_used,
                 dc_max_review_rounds = tr_max_review_rounds run,
                 dc_design_review_rounds = tr_design_review_rounds run,
                 dc_mr_rounds_used = tr_mr_rounds_used run,
                 dc_tl_generation = bounded_usize_to_u32 (tl_generation_count run),
                 dc_pause_requested = tr_pause_requested run,
                 dc_awaiting_user = (tr_awaiting run \<noteq> None),
                 dc_artifacts = items\<rparr>)
              (bounded_vec MAX_CURSOR_ARTIFACTS ''artifacts'' artifacts)))"

definition driver_cursor_fields :: "string list" where
  "driver_cursor_fields =
     [''protocol_version'', ''backend'', ''status'', ''phase'', ''state_revision'',
      ''last_command_seq'', ''last_event_seq'', ''in_flight_command_id'',
      ''current_sub_task_index'', ''sub_task_count'', ''current_rounds_used'',
      ''max_review_rounds'', ''design_review_rounds'', ''mr_rounds_used'', ''tl_generation'',
      ''pause_requested'', ''awaiting_user'', ''artifacts'']"

definition driver_cursor_json :: "driver_cursor \<Rightarrow> json" where
  "driver_cursor_json c =
     JObject
       ([(''protocol_version'', u32_json (dc_protocol_version c)),
         (''backend'', backend_kind_json (dc_backend c)),
         (''status'', driver_run_status_json (dc_status c)),
         (''phase'', driver_phase_json (dc_phase c)),
         (''state_revision'', u64_json (dc_state_revision c)),
         (''last_command_seq'', u64_json (dc_last_command_seq c)),
         (''last_event_seq'', u64_json (dc_last_event_seq c))] @
        skip_none ''in_flight_command_id'' command_id_json (dc_in_flight_command_id c) @
        [(''current_sub_task_index'', u32_json (dc_current_sub_task_index c)),
         (''sub_task_count'', u32_json (dc_sub_task_count c)),
         (''current_rounds_used'', u32_json (dc_current_rounds_used c)),
         (''max_review_rounds'', u32_json (dc_max_review_rounds c)),
         (''design_review_rounds'', u32_json (dc_design_review_rounds c)),
         (''mr_rounds_used'', u32_json (dc_mr_rounds_used c)),
         (''tl_generation'', u32_json (dc_tl_generation c)),
         (''pause_requested'', JBool (dc_pause_requested c)),
         (''awaiting_user'', JBool (dc_awaiting_user c)),
         (''artifacts'', list_json artifact_ref_json (dc_artifacts c))])"

abbreviation "json_artifacts \<equiv> json_bounded MAX_CURSOR_ARTIFACTS json_artifact_ref"

definition json_driver_cursor :: "json \<Rightarrow> driver_cursor option" where
  "json_driver_cursor v = do {
     es \<leftarrow> struct_entries driver_cursor_fields v;
     version \<leftarrow> req_field json_version ''protocol_version'' es;
     backend \<leftarrow> req_field json_backend_kind ''backend'' es;
     status \<leftarrow> req_field json_driver_run_status ''status'' es;
     phase \<leftarrow> req_field json_driver_phase ''phase'' es;
     revision \<leftarrow> req_field json_u64 ''state_revision'' es;
     command_seq \<leftarrow> req_field json_u64 ''last_command_seq'' es;
     event_seq \<leftarrow> req_field json_u64 ''last_event_seq'' es;
     in_flight \<leftarrow> dflt_field None (json_option json_command_id) ''in_flight_command_id'' es;
     index \<leftarrow> req_field json_u32 ''current_sub_task_index'' es;
     count \<leftarrow> req_field json_u32 ''sub_task_count'' es;
     rounds \<leftarrow> req_field json_u32 ''current_rounds_used'' es;
     max_rounds \<leftarrow> req_field json_u32 ''max_review_rounds'' es;
     design_rounds \<leftarrow> req_field json_u32 ''design_review_rounds'' es;
     mr_rounds \<leftarrow> req_field json_u32 ''mr_rounds_used'' es;
     generation \<leftarrow> req_field json_u32 ''tl_generation'' es;
     pause \<leftarrow> req_field json_bool ''pause_requested'' es;
     awaiting \<leftarrow> req_field json_bool ''awaiting_user'' es;
     artifacts \<leftarrow> dflt_field [] json_artifacts ''artifacts'' es;
     Some
       \<lparr>dc_protocol_version = version, dc_backend = backend, dc_status = status, dc_phase = phase,
        dc_state_revision = revision, dc_last_command_seq = command_seq,
        dc_last_event_seq = event_seq, dc_in_flight_command_id = in_flight,
        dc_current_sub_task_index = index, dc_sub_task_count = count,
        dc_current_rounds_used = rounds, dc_max_review_rounds = max_rounds,
        dc_design_review_rounds = design_rounds, dc_mr_rounds_used = mr_rounds,
        dc_tl_generation = generation, dc_pause_requested = pause, dc_awaiting_user = awaiting,
        dc_artifacts = artifacts\<rparr>
   }"

definition valid_driver_cursor :: "driver_cursor \<Rightarrow> bool" where
  "valid_driver_cursor c \<longleftrightarrow>
     valid_version (dc_protocol_version c) \<and>
     pred_option valid_command_id (dc_in_flight_command_id c) \<and>
     length (dc_artifacts c) \<le> MAX_CURSOR_ARTIFACTS \<and>
     list_all valid_artifact_ref (dc_artifacts c)"

interpretation cursor_artifacts:
  wire_codec "list_json artifact_ref_json" json_artifacts
    "\<lambda>xs. length xs \<le> MAX_CURSOR_ARTIFACTS \<and> list_all valid_artifact_ref xs"
  using bounded_codec [OF artifact_ref.wire_codec_axioms] .

lemma json_option_command_id [codec_simps]:
  "json_option json_command_id (command_id_json i) =
     (if valid_command_id i then Some (Some i) else None)"
  by (simp add: json_option_def command_id.dec_enc token_json_def)
     (simp add: command_id.dec_enc [unfolded token_json_def])

lemma json_driver_cursor_driver_cursor_json:
  "json_driver_cursor (driver_cursor_json c) = (if valid_driver_cursor c then Some c else None)"
  by (cases "dc_in_flight_command_id c")
    (simp_all add: json_driver_cursor_def driver_cursor_json_def driver_cursor_fields_def
      write_simps codec_simps cursor_artifacts.dec_enc valid_driver_cursor_def)

text \<open>What a cursor was read from, field by field.\<close>

lemma json_driver_cursorE:
  assumes "json_driver_cursor v = Some c"
  obtains es where "struct_entries driver_cursor_fields v = Some es"
    "req_field json_version ''protocol_version'' es = Some (dc_protocol_version c)"
    "req_field json_backend_kind ''backend'' es = Some (dc_backend c)"
    "req_field json_driver_run_status ''status'' es = Some (dc_status c)"
    "req_field json_driver_phase ''phase'' es = Some (dc_phase c)"
    "req_field json_u64 ''state_revision'' es = Some (dc_state_revision c)"
    "req_field json_u64 ''last_command_seq'' es = Some (dc_last_command_seq c)"
    "req_field json_u64 ''last_event_seq'' es = Some (dc_last_event_seq c)"
    "dflt_field None (json_option json_command_id) ''in_flight_command_id'' es =
       Some (dc_in_flight_command_id c)"
    "req_field json_u32 ''current_sub_task_index'' es = Some (dc_current_sub_task_index c)"
    "req_field json_u32 ''sub_task_count'' es = Some (dc_sub_task_count c)"
    "req_field json_u32 ''current_rounds_used'' es = Some (dc_current_rounds_used c)"
    "req_field json_u32 ''max_review_rounds'' es = Some (dc_max_review_rounds c)"
    "req_field json_u32 ''design_review_rounds'' es = Some (dc_design_review_rounds c)"
    "req_field json_u32 ''mr_rounds_used'' es = Some (dc_mr_rounds_used c)"
    "req_field json_u32 ''tl_generation'' es = Some (dc_tl_generation c)"
    "req_field json_bool ''pause_requested'' es = Some (dc_pause_requested c)"
    "req_field json_bool ''awaiting_user'' es = Some (dc_awaiting_user c)"
    "dflt_field [] json_artifacts ''artifacts'' es = Some (dc_artifacts c)"
proof -
  from assms show thesis unfolding json_driver_cursor_def Option.bind_eq_Some_conv
    by (elim exE conjE) (rule that, assumption, auto)
qed

interpretation cursor: wire_codec driver_cursor_json json_driver_cursor valid_driver_cursor
proof
  show "json_driver_cursor (driver_cursor_json c) = (if valid_driver_cursor c then Some c else None)"
    for c by (rule json_driver_cursor_driver_cursor_json)
  fix v c assume read: "json_driver_cursor v = Some c"
  show "valid_driver_cursor c"
    using read by (rule json_driver_cursorE) (simp add: valid_driver_cursor_def version.req_good
          command_id.dflt_option_good cursor_artifacts.dflt_good [where d = "[]", simplified])
  show "content_blind v"
    using read by (rule json_driver_cursorE) (erule struct_blind;
       simp add: driver_cursor_fields_def wire_text_simps field_blind cursor_artifacts.dflt_blind)
qed

end
