(* ===== verification/Slots.thy ===== *)
theory Slots
  imports Wire_Codec
begin

text \<open>
  Readers that walk the entries of an object and fill one slot per field. The locale \<open>slots\<close> is
  what such a set of slots promises; \<open>slot_reader\<close> adds a strict loop, which fails on anything
  unexpected, and \<open>lenient_reader\<close> one that marks what it read as unusable instead.
\<close>

section \<open>Closed objects\<close>

text \<open>An object with distinct keys, all of them \<open>kind\<close> or one of the names given.\<close>

definition only_fields :: "string list \<Rightarrow> (string \<times> json) list \<Rightarrow> unit option" where
  "only_fields names es =
     (if distinct (map fst es) \<and> set (map fst es) \<subseteq> set (''kind'' # names) then Some () else None)"

section \<open>Slots\<close>

text \<open>
  A key names one field, and filling a slot with a value that reads leaves the others as they
  were.
\<close>

locale slots =
  fixes field_of :: "string \<Rightarrow> 'f option" and name :: "'f \<Rightarrow> string"
    and ready :: "'f \<Rightarrow> json \<Rightarrow> bool" and put :: "'f \<Rightarrow> json \<Rightarrow> 's \<Rightarrow> 's" and free :: "'f \<Rightarrow> 's \<Rightarrow> bool"
  assumes field_name: "field_of k = Some f \<longleftrightarrow> k = name f"
    and free_put: "ready f v \<Longrightarrow> free g (put f v s) \<longleftrightarrow> g \<noteq> f \<and> free g s"
begin

lemma field_of_name [simp]: "field_of (name f) = Some f"
  by (simp add: field_name)

lemma name_inject: "name f = name g \<longleftrightarrow> f = g"
  by (metis field_of_name option.inject)

lemma ex_field: "(\<exists>f. k = name f \<and> P f) \<longleftrightarrow> (case field_of k of None \<Rightarrow> False | Some f \<Rightarrow> P f)"
proof (cases "field_of k")
  case None
  then have "k \<noteq> name f" for f by auto
  with None show ?thesis by simp
next
  case (Some f)
  then have "k = name f" by (simp add: field_name)
  then show ?thesis by (auto simp: name_inject)
qed

definition readable :: "(string \<times> json) list \<Rightarrow> 's \<Rightarrow> bool" where
  "readable es s \<longleftrightarrow>
     distinct (map fst es) \<and> (\<forall>(k, v) \<in> set es. \<exists>f. k = name f \<and> free f s \<and> ready f v)"

definition filled :: "(string \<times> json) list \<Rightarrow> 's \<Rightarrow> 's" where
  "filled es s = fold (\<lambda>(k, v). put (the (field_of k)) v) es s"

lemma readable_Nil [simp]: "readable [] s" and filled_Nil [simp]: "filled [] s = s"
  by (simp_all add: readable_def filled_def)

lemma filled_Cons: "filled ((name f, v) # es) s = filled es (put f v s)"
  using field_name [of "name f" f] by (simp add: filled_def)

lemma readable_Cons:
  "readable ((k, v) # es) s \<longleftrightarrow>
     (\<exists>f. k = name f \<and> free f s \<and> ready f v \<and> readable es (put f v s))"
proof
  assume r: "readable ((k, v) # es) s"
  then obtain f where f: "k = name f" "free f s" "ready f v" by (auto simp: readable_def)
  have "readable es (put f v s)"
    unfolding readable_def
  proof (intro conjI ballI, goal_cases)
    case 1
    from r show ?case by (simp add: readable_def)
  next
    case (2 e)
    obtain k' v' where e: "e = (k', v')" by force
    with 2 r obtain g where "k' = name g" "free g s" "ready g v'"
      by (fastforce simp: readable_def)
    moreover have "k' \<noteq> k" using r 2 by (force simp: readable_def e)
    ultimately show ?case using f by (auto simp: e free_put)
  qed
  with f show "\<exists>f. k = name f \<and> free f s \<and> ready f v \<and> readable es (put f v s)" by blast
next
  assume "\<exists>f. k = name f \<and> free f s \<and> ready f v \<and> readable es (put f v s)"
  then obtain f where f: "k = name f" "free f s" "ready f v" and r: "readable es (put f v s)"
    by blast
  have other: "\<exists>g. k' = name g \<and> free g s \<and> g \<noteq> f \<and> ready g v'" if "(k', v') \<in> set es" for k' v'
    using r that f(3) by (fastforce simp: readable_def free_put)
  have "k \<notin> set (map fst es)"
  proof
    assume "k \<in> set (map fst es)"
    then obtain v' where "(k, v') \<in> set es" by auto
    from other [OF this] show False by (auto simp: f(1) name_inject)
  qed
  with r have "distinct (map fst ((k, v) # es))" by (simp add: readable_def)
  moreover have "\<exists>g. k' = name g \<and> free g s \<and> ready g v'" if "(k', v') \<in> set ((k, v) # es)" for k' v'
    using that f other by auto
  ultimately show "readable ((k, v) # es) s" unfolding readable_def by blast
qed

lemma free_filled:
  "readable es s \<Longrightarrow> free f (filled es s) \<longleftrightarrow> free f s \<and> name f \<notin> set (map fst es)"
proof (induction es arbitrary: s)
  case Nil
  then show ?case by simp
next
  case (Cons e es)
  obtain k v where e: "e = (k, v)" by force
  from Cons.prems obtain g where g: "k = name g" "free g s" "ready g v" "readable es (put g v s)"
    by (auto simp: e readable_Cons)
  with Cons.IH [OF g(4)] show ?case by (auto simp: e filled_Cons free_put name_inject)
qed

lemma readable_ready: "readable es s \<Longrightarrow> map_of es (name f) = Some v \<Longrightarrow> ready f v"
  by (force simp: readable_def name_inject dest: map_of_SomeD)

text \<open>What one slot holds after the reading.\<close>

lemma slot_filled:
  assumes "\<And>f v s. get (put f v s) = (if f = F then dec v else get s)"
  shows "readable es s \<Longrightarrow>
     get (filled es s) = (case map_of es (name F) of None \<Rightarrow> get s | Some v \<Rightarrow> dec v)"
proof (induction es arbitrary: s)
  case Nil
  then show ?case by simp
next
  case (Cons e es)
  obtain k v where e: "e = (k, v)" by force
  from Cons.prems obtain g where g: "k = name g" "free g s" "ready g v" "readable es (put g v s)"
    by (auto simp: e readable_Cons)
  have "name F \<notin> set (map fst es)" if "g = F"
    using Cons.prems g that by (auto simp: readable_def e)
  then have "map_of es (name F) = None" if "g = F"
    using that by (simp add: map_of_eq_None_iff image_iff)
  with Cons.IH [OF g(4)] g show ?case
    by (auto simp: e filled_Cons name_inject assms split: option.split)
qed

text \<open>The build sees leftover slots exactly when the object is not closed.\<close>

lemma only_fields_filled:
  assumes "readable es s" and "\<And>f. free f s"
  shows "only_fields names es =
     (if \<forall>f. name f \<in> set (''kind'' # names) \<or> free f (filled es s) then Some () else None)"
proof -
  have "\<exists>f. k = name f" if "k \<in> set (map fst es)" for k
    using assms(1) that by (fastforce simp: readable_def)
  then have "set (map fst es) \<subseteq> set (''kind'' # names) \<longleftrightarrow>
      (\<forall>f. name f \<in> set (''kind'' # names) \<or> name f \<notin> set (map fst es))"
    by blast
  with assms show ?thesis by (simp add: only_fields_def free_filled readable_def)
qed

lemma only_fields_readable:
  assumes "only_fields names es = Some ()" and "\<And>f. free f s"
    and "\<And>k v. k \<in> set (''kind'' # names) \<Longrightarrow> map_of es k = Some v \<Longrightarrow>
      (case field_of k of None \<Rightarrow> False | Some f \<Rightarrow> ready f v)"
  shows "readable es s"
  unfolding readable_def
proof (intro conjI ballI, goal_cases)
  case 1
  from assms(1) show ?case by (simp add: only_fields_def split: if_splits)
next
  case (2 e)
  obtain k v where e: "e = (k, v)" by force
  from assms(1) have es: "distinct (map fst es)" "set (map fst es) \<subseteq> set (''kind'' # names)"
    by (auto simp: only_fields_def split: if_splits)
  with 2 have "map_of es k = Some v" "k \<in> set (''kind'' # names)"
    by (auto simp: e image_iff)
  from assms(3) [OF this(2,1)] have "\<exists>f. k = name f \<and> ready f v" by (simp add: ex_field)
  with assms(2) show ?case by (auto simp: e)
qed

end

section \<open>The strict loop\<close>

text \<open>
  The loop that both readers share: \<open>field_of\<close> names the field of a key, \<open>early\<close> refuses it
  against the slots filled so far, \<open>store\<close> reads the value into its slot.
\<close>

fun read_entries ::
    "(string \<Rightarrow> 'f option) \<Rightarrow> ('f \<Rightarrow> 's \<Rightarrow> bool) \<Rightarrow> ('f \<Rightarrow> json \<Rightarrow> 's \<Rightarrow> 's option) \<Rightarrow>
      (string \<times> json) list \<Rightarrow> 's \<Rightarrow> 's option" where
  "read_entries field_of early store [] s = Some s"
| "read_entries field_of early store ((k, v) # es) s =
     (case field_of k of
        None \<Rightarrow> None
      | Some f \<Rightarrow>
          (if early f s then None
           else case store f v s of
             None \<Rightarrow> None
           | Some s' \<Rightarrow> read_entries field_of early store es s'))"

text \<open>
  A field that is refused early stays refused, and the build refuses it too if it is filled.
\<close>

locale slot_reader = slots field_of name ready put free
  for field_of :: "string \<Rightarrow> 'f option" and name :: "'f \<Rightarrow> string"
    and ready :: "'f \<Rightarrow> json \<Rightarrow> bool" and put :: "'f \<Rightarrow> json \<Rightarrow> 's \<Rightarrow> 's" and free :: "'f \<Rightarrow> 's \<Rightarrow> bool" +
  fixes early :: "'f \<Rightarrow> 's \<Rightarrow> bool" and store :: "'f \<Rightarrow> json \<Rightarrow> 's \<Rightarrow> 's option"
    and build :: "'s \<Rightarrow> 'c option"
  assumes store_put: "store f v s = (if free f s \<and> ready f v then Some (put f v s) else None)"
    and early_put: "early f s \<Longrightarrow> free g s \<Longrightarrow> early f (put g v s)"
    and early_build: "early f s \<Longrightarrow> \<not> free f s \<Longrightarrow> build s = None"
begin

abbreviation read_eager :: "(string \<times> json) list \<Rightarrow> 's \<Rightarrow> 's option" where
  "read_eager \<equiv> read_entries field_of early store"

abbreviation read_plain :: "(string \<times> json) list \<Rightarrow> 's \<Rightarrow> 's option" where
  "read_plain \<equiv> read_entries field_of (\<lambda>_ _. False) store"

lemma refused_stays:
  "read_plain es s = Some s' \<Longrightarrow> early f s \<Longrightarrow> \<not> free f s \<Longrightarrow> early f s' \<and> \<not> free f s'"
proof (induction es arbitrary: s)
  case Nil
  then show ?case by simp
next
  case (Cons e es)
  obtain k v where e: "e = (k, v)" by force
  from Cons.prems(1) obtain g where g: "field_of k = Some g" "free g s" "ready g v"
    "read_plain es (put g v s) = Some s'"
    by (auto simp: e store_put [of _ v] split: option.splits if_splits)
  with Cons.prems(2,3) show ?case
    by (intro Cons.IH [OF g(4)]) (auto simp: early_put free_put)
qed

text \<open>The early check only refuses what the build would refuse.\<close>

lemma early_harmless:
  "Option.bind (read_eager es s) build = Option.bind (read_plain es s) build"
proof (induction es arbitrary: s)
  case Nil
  then show ?case by simp
next
  case (Cons e es)
  obtain k v where e: "e = (k, v)" by force
  show ?case
  proof (cases "\<exists>f. field_of k = Some f \<and> early f s")
    case True
    then obtain f where f: "field_of k = Some f" "early f s" by blast
    have "Option.bind (read_plain ((k, v) # es) s) build = None"
    proof (cases "free f s \<and> ready f v")
      case True
      with f have "early f (put f v s)" "\<not> free f (put f v s)"
        by (auto simp: early_put free_put)
      with refused_stays [of es "put f v s" _ f] have
        "read_plain es (put f v s) = Some s' \<Longrightarrow> build s' = None" for s'
        by (auto intro: early_build)
      with f True show ?thesis
        by (cases "read_plain es (put f v s)") (auto simp: store_put [of _ v])
    qed (use f in \<open>auto simp: store_put [of _ v]\<close>)
    with f show ?thesis by (simp add: e)
  next
    case False
    then show ?thesis
      by (auto simp: e Cons.IH split: option.split)
  qed
qed

lemma read_plain_eq: "read_plain es s = (if readable es s then Some (filled es s) else None)"
proof (induction es arbitrary: s)
  case Nil
  then show ?case by simp
next
  case (Cons e es)
  obtain k v where e: "e = (k, v)" by force
  show ?case
  proof (cases "field_of k")
    case None
    then have "k \<noteq> name f" for f using field_name [of k f] by auto
    with None show ?thesis by (simp add: e readable_Cons)
  next
    case (Some f)
    then have k: "k = name f" by (simp add: field_name)
    with Some show ?thesis
      by (auto simp: e store_put [of _ v] Cons.IH readable_Cons filled_Cons name_inject)
  qed
qed

text \<open>The reading is the build of the slots that the entries fill, when they can be filled.\<close>

lemma read_build:
  "Option.bind (read_eager es s) build = (if readable es s then build (filled es s) else None)"
  by (simp add: early_harmless read_plain_eq)

end

section \<open>The lenient loop\<close>

text \<open>
  An entry that is expected fills its slot; any other entry makes the slots dirty, for good.
\<close>

locale lenient_reader = slots field_of name ready put free
  for field_of :: "string \<Rightarrow> 'f option" and name :: "'f \<Rightarrow> string"
    and ready :: "'f \<Rightarrow> json \<Rightarrow> bool" and put :: "'f \<Rightarrow> json \<Rightarrow> 's \<Rightarrow> 's" and free :: "'f \<Rightarrow> 's \<Rightarrow> bool" +
  fixes step :: "string \<Rightarrow> json \<Rightarrow> 's \<Rightarrow> 's" and dirty :: "'s \<Rightarrow> bool"
  assumes step_put: "field_of k = Some f \<Longrightarrow> free f s \<Longrightarrow> ready f v \<Longrightarrow> step k v s = put f v s"
    and step_dirty: "dirty (step k v s) \<longleftrightarrow>
      dirty s \<or> (case field_of k of None \<Rightarrow> True | Some f \<Rightarrow> \<not> (free f s \<and> ready f v))"
begin

abbreviation walk :: "(string \<times> json) list \<Rightarrow> 's \<Rightarrow> 's" where
  "walk es s \<equiv> fold (\<lambda>(k, v). step k v) es s"

lemma walk_clean: "\<not> dirty (walk es s) \<longleftrightarrow> \<not> dirty s \<and> readable es s"
proof (induction es arbitrary: s)
  case Nil
  then show ?case by simp
next
  case (Cons e es)
  obtain k v where e: "e = (k, v)" by force
  show ?case
  proof (cases "field_of k")
    case None
    then have "k \<noteq> name f" for f by auto
    with None show ?thesis by (simp add: e Cons.IH step_dirty readable_Cons)
  next
    case (Some f)
    then have k: "k = name f" by (simp add: field_name)
    show ?thesis
    proof (cases "free f s \<and> ready f v")
      case True
      then have "step k v s = put f v s" using Some by (auto intro: step_put)
      moreover have "\<not> dirty (put f v s) \<longleftrightarrow> \<not> dirty s"
        using step_dirty [of k v s] True Some calculation by simp
      ultimately show ?thesis using True by (auto simp: e k Cons.IH readable_Cons name_inject)
    next
      case False
      with Some show ?thesis
        by (auto simp: e Cons.IH step_dirty readable_Cons k name_inject)
    qed
  qed
qed

lemma walk_filled: "readable es s \<Longrightarrow> walk es s = filled es s"
proof (induction es arbitrary: s)
  case Nil
  then show ?case by simp
next
  case (Cons e es)
  obtain k v where e: "e = (k, v)" by force
  from Cons.prems obtain f where f: "k = name f" "free f s" "ready f v" "readable es (put f v s)"
    by (auto simp: e readable_Cons)
  with Cons.IH [OF f(4)] show ?case by (simp add: e filled_Cons step_put)
qed

end

end
