(* ===== verification/Driver_Message.thy ===== *)
theory Driver_Message
  imports Driver_Cursor Slots
begin

text \<open>
  The closed commands and events of the driver protocol and their hand-written readers
  (\<open>crates/relay-api/src/orchestration.rs\<close>). A reader walks the entries of an object in the order
  they come, fills one slot per field, refuses a field that the kind it has already seen does not
  take, and finally builds the variant from its slots, refusing what is missing or left over.
\<close>

section \<open>Filling a slot\<close>

text \<open>\<open>read_map_field\<close>: a slot is filled once.\<close>

definition read_map_field :: "'a option \<Rightarrow> (json \<Rightarrow> 'a option) \<Rightarrow> json \<Rightarrow> 'a option" where
  "read_map_field slot dec v = (if slot \<noteq> None then None else dec v)"

text \<open>\<open>reject_command_extra\<close> and \<open>reject_event_extra\<close>.\<close>

definition reject_extra :: "'a option \<Rightarrow> unit option" where
  "reject_extra slot = (if slot \<noteq> None then None else Some ())"

section \<open>Commands\<close>

datatype driver_command =
    RequireWorkspace
  | StartThread driver_role
  | ResumeOrStartThread driver_role "thread_handle list"
  | RunTemplate thread_handle driver_role template_id "artifact_binding list"
  | CheckpointCommit
  | CollectDiff diff_scope
  | MergeBase merge_base_target
  | CommitTemplate template_id "artifact_binding list"
  | PauseAtBoundary
  | DriverSettleRun driver_run_status

datatype driver_command_field =
    CF_Kind | CF_Role | CF_Candidates | CF_Thread | CF_TemplateId | CF_Bindings | CF_Scope
  | CF_Target | CF_MessageTemplateId | CF_Status

definition command_field_of :: "string \<Rightarrow> driver_command_field option" where
  "command_field_of key =
     (if key = ''kind'' then Some CF_Kind
      else if key = ''role'' then Some CF_Role
      else if key = ''candidates'' then Some CF_Candidates
      else if key = ''thread'' then Some CF_Thread
      else if key = ''template_id'' then Some CF_TemplateId
      else if key = ''bindings'' then Some CF_Bindings
      else if key = ''scope'' then Some CF_Scope
      else if key = ''target'' then Some CF_Target
      else if key = ''message_template_id'' then Some CF_MessageTemplateId
      else if key = ''status'' then Some CF_Status
      else None)"

fun command_field_name :: "driver_command_field \<Rightarrow> string" where
  "command_field_name CF_Kind = ''kind''"
| "command_field_name CF_Role = ''role''"
| "command_field_name CF_Candidates = ''candidates''"
| "command_field_name CF_Thread = ''thread''"
| "command_field_name CF_TemplateId = ''template_id''"
| "command_field_name CF_Bindings = ''bindings''"
| "command_field_name CF_Scope = ''scope''"
| "command_field_name CF_Target = ''target''"
| "command_field_name CF_MessageTemplateId = ''message_template_id''"
| "command_field_name CF_Status = ''status''"

datatype driver_command_kind =
    CK_RequireWorkspace | CK_StartThread | CK_ResumeOrStartThread | CK_RunTemplate
  | CK_CheckpointCommit | CK_CollectDiff | CK_MergeBase | CK_Commit | CK_PauseAtBoundary
  | CK_SettleRun

fun command_kind_as_str :: "driver_command_kind \<Rightarrow> string" where
  "command_kind_as_str CK_RequireWorkspace = ''require_workspace''"
| "command_kind_as_str CK_StartThread = ''start_thread''"
| "command_kind_as_str CK_ResumeOrStartThread = ''resume_or_start_thread''"
| "command_kind_as_str CK_RunTemplate = ''run_template''"
| "command_kind_as_str CK_CheckpointCommit = ''checkpoint_commit''"
| "command_kind_as_str CK_CollectDiff = ''collect_diff''"
| "command_kind_as_str CK_MergeBase = ''merge_base''"
| "command_kind_as_str CK_Commit = ''commit''"
| "command_kind_as_str CK_PauseAtBoundary = ''pause_at_boundary''"
| "command_kind_as_str CK_SettleRun = ''settle_run''"

definition command_kind_variant :: "string \<Rightarrow> driver_command_kind option" where
  "command_kind_variant value =
     (if value = ''require_workspace'' then Some CK_RequireWorkspace
      else if value = ''start_thread'' then Some CK_StartThread
      else if value = ''resume_or_start_thread'' then Some CK_ResumeOrStartThread
      else if value = ''run_template'' then Some CK_RunTemplate
      else if value = ''checkpoint_commit'' then Some CK_CheckpointCommit
      else if value = ''collect_diff'' then Some CK_CollectDiff
      else if value = ''merge_base'' then Some CK_MergeBase
      else if value = ''commit'' then Some CK_Commit
      else if value = ''pause_at_boundary'' then Some CK_PauseAtBoundary
      else if value = ''settle_run'' then Some CK_SettleRun
      else None)"

definition command_field_allowed_for_kind ::
    "driver_command_kind \<Rightarrow> driver_command_field \<Rightarrow> bool" where
  "command_field_allowed_for_kind kind field =
     (case kind of
        CK_RequireWorkspace \<Rightarrow> False
      | CK_CheckpointCommit \<Rightarrow> False
      | CK_PauseAtBoundary \<Rightarrow> False
      | CK_StartThread \<Rightarrow> field = CF_Role
      | CK_ResumeOrStartThread \<Rightarrow> field = CF_Role \<or> field = CF_Candidates
      | CK_RunTemplate \<Rightarrow>
          field = CF_Thread \<or> field = CF_Role \<or> field = CF_TemplateId \<or> field = CF_Bindings
      | CK_CollectDiff \<Rightarrow> field = CF_Scope
      | CK_MergeBase \<Rightarrow> field = CF_Target
      | CK_Commit \<Rightarrow> field = CF_MessageTemplateId \<or> field = CF_Bindings
      | CK_SettleRun \<Rightarrow> field = CF_Status)"

record command_slots =
  cs_kind :: "driver_command_kind option"
  cs_role :: "driver_role option"
  cs_candidates :: "thread_handle list option"
  cs_thread :: "thread_handle option"
  cs_template_id :: "template_id option"
  cs_bindings :: "artifact_binding list option"
  cs_scope :: "diff_scope option"
  cs_target :: "merge_base_target option"
  cs_message_template_id :: "template_id option"
  cs_status :: "driver_run_status option"

definition empty_command_slots :: command_slots where
  "empty_command_slots =
     \<lparr>cs_kind = None, cs_role = None, cs_candidates = None, cs_thread = None, cs_template_id =
      None, cs_bindings = None, cs_scope = None, cs_target = None,
      cs_message_template_id = None, cs_status = None\<rparr>"

abbreviation "json_command_kind \<equiv> json_name command_kind_variant"
abbreviation "json_candidates \<equiv> json_bounded MAX_CANDIDATE_THREADS json_thread_handle"
abbreviation "json_bindings \<equiv> json_bounded MAX_COMMAND_BINDINGS json_artifact_binding"

definition command_early :: "driver_command_field \<Rightarrow> command_slots \<Rightarrow> bool" where
  "command_early f s =
     (case cs_kind s of
        None \<Rightarrow> False
      | Some kind \<Rightarrow> f \<noteq> CF_Kind \<and> \<not> command_field_allowed_for_kind kind f)"

fun store_command_field ::
    "driver_command_field \<Rightarrow> json \<Rightarrow> command_slots \<Rightarrow> command_slots option" where
  "store_command_field CF_Kind v s = do {
     x \<leftarrow> read_map_field (cs_kind s) json_command_kind v; Some (s\<lparr>cs_kind := Some x\<rparr>) }"
| "store_command_field CF_Role v s = do {
     x \<leftarrow> read_map_field (cs_role s) json_driver_role v; Some (s\<lparr>cs_role := Some x\<rparr>) }"
| "store_command_field CF_Candidates v s = do {
     x \<leftarrow> read_map_field (cs_candidates s) json_candidates v; Some (s\<lparr>cs_candidates := Some x\<rparr>) }"
| "store_command_field CF_Thread v s = do {
     x \<leftarrow> read_map_field (cs_thread s) json_thread_handle v; Some (s\<lparr>cs_thread := Some x\<rparr>) }"
| "store_command_field CF_TemplateId v s = do {
     x \<leftarrow> read_map_field (cs_template_id s) json_template_id v; Some (s\<lparr>cs_template_id := Some x\<rparr>) }"
| "store_command_field CF_Bindings v s = do {
     x \<leftarrow> read_map_field (cs_bindings s) json_bindings v; Some (s\<lparr>cs_bindings := Some x\<rparr>) }"
| "store_command_field CF_Scope v s = do {
     x \<leftarrow> read_map_field (cs_scope s) json_diff_scope v; Some (s\<lparr>cs_scope := Some x\<rparr>) }"
| "store_command_field CF_Target v s = do {
     x \<leftarrow> read_map_field (cs_target s) json_merge_base_target v; Some (s\<lparr>cs_target := Some x\<rparr>) }"
| "store_command_field CF_MessageTemplateId v s = do {
     x \<leftarrow> read_map_field (cs_message_template_id s) json_template_id v; Some (s\<lparr>cs_message_template_id := Some x\<rparr>) }"
| "store_command_field CF_Status v s = do {
     x \<leftarrow> read_map_field (cs_status s) json_driver_run_status v; Some (s\<lparr>cs_status := Some x\<rparr>) }"

definition build_command :: "command_slots \<Rightarrow> driver_command option" where
  "build_command s = do {
     kind \<leftarrow> cs_kind s;
     (case kind of
        CK_RequireWorkspace \<Rightarrow> do {
          reject_extra (cs_role s); reject_extra (cs_candidates s); reject_extra (cs_thread s);
          reject_extra (cs_template_id s); reject_extra (cs_bindings s); reject_extra (cs_scope s);
          reject_extra (cs_target s); reject_extra (cs_message_template_id s); reject_extra (cs_status s);
          Some RequireWorkspace
        }
      | CK_StartThread \<Rightarrow> do {
          role \<leftarrow> cs_role s;
          reject_extra (cs_candidates s); reject_extra (cs_thread s); reject_extra (cs_template_id s);
          reject_extra (cs_bindings s); reject_extra (cs_scope s); reject_extra (cs_target s);
          reject_extra (cs_message_template_id s); reject_extra (cs_status s);
          Some (StartThread role)
        }
      | CK_ResumeOrStartThread \<Rightarrow> do {
          role \<leftarrow> cs_role s;
          candidates \<leftarrow> cs_candidates s;
          reject_extra (cs_thread s); reject_extra (cs_template_id s); reject_extra (cs_bindings s);
          reject_extra (cs_scope s); reject_extra (cs_target s); reject_extra (cs_message_template_id s);
          reject_extra (cs_status s);
          Some (ResumeOrStartThread role candidates)
        }
      | CK_RunTemplate \<Rightarrow> do {
          thread \<leftarrow> cs_thread s;
          role \<leftarrow> cs_role s;
          template_id \<leftarrow> cs_template_id s;
          bindings \<leftarrow> cs_bindings s;
          reject_extra (cs_candidates s); reject_extra (cs_scope s); reject_extra (cs_target s);
          reject_extra (cs_message_template_id s); reject_extra (cs_status s);
          Some (RunTemplate thread role template_id bindings)
        }
      | CK_CheckpointCommit \<Rightarrow> do {
          reject_extra (cs_role s); reject_extra (cs_candidates s); reject_extra (cs_thread s);
          reject_extra (cs_template_id s); reject_extra (cs_bindings s); reject_extra (cs_scope s);
          reject_extra (cs_target s); reject_extra (cs_message_template_id s); reject_extra (cs_status s);
          Some CheckpointCommit
        }
      | CK_CollectDiff \<Rightarrow> do {
          scope \<leftarrow> cs_scope s;
          reject_extra (cs_role s); reject_extra (cs_candidates s); reject_extra (cs_thread s);
          reject_extra (cs_template_id s); reject_extra (cs_bindings s); reject_extra (cs_target s);
          reject_extra (cs_message_template_id s); reject_extra (cs_status s);
          Some (CollectDiff scope)
        }
      | CK_MergeBase \<Rightarrow> do {
          target \<leftarrow> cs_target s;
          reject_extra (cs_role s); reject_extra (cs_candidates s); reject_extra (cs_thread s);
          reject_extra (cs_template_id s); reject_extra (cs_bindings s); reject_extra (cs_scope s);
          reject_extra (cs_message_template_id s); reject_extra (cs_status s);
          Some (MergeBase target)
        }
      | CK_Commit \<Rightarrow> do {
          message_template_id \<leftarrow> cs_message_template_id s;
          bindings \<leftarrow> cs_bindings s;
          reject_extra (cs_role s); reject_extra (cs_candidates s); reject_extra (cs_thread s);
          reject_extra (cs_template_id s); reject_extra (cs_scope s); reject_extra (cs_target s);
          reject_extra (cs_status s);
          Some (CommitTemplate message_template_id bindings)
        }
      | CK_PauseAtBoundary \<Rightarrow> do {
          reject_extra (cs_role s); reject_extra (cs_candidates s); reject_extra (cs_thread s);
          reject_extra (cs_template_id s); reject_extra (cs_bindings s); reject_extra (cs_scope s);
          reject_extra (cs_target s); reject_extra (cs_message_template_id s); reject_extra (cs_status s);
          Some PauseAtBoundary
        }
      | CK_SettleRun \<Rightarrow> do {
          status \<leftarrow> cs_status s;
          reject_extra (cs_role s); reject_extra (cs_candidates s); reject_extra (cs_thread s);
          reject_extra (cs_template_id s); reject_extra (cs_bindings s); reject_extra (cs_scope s);
          reject_extra (cs_target s); reject_extra (cs_message_template_id s);
          Some (DriverSettleRun status)
        })
   }"

definition json_driver_command :: "json \<Rightarrow> driver_command option" where
  "json_driver_command v =
     (case v of
        JObject es \<Rightarrow> do {
          s \<leftarrow> read_entries command_field_of command_early store_command_field es empty_command_slots;
          build_command s
        }
      | _ \<Rightarrow> None)"

section \<open>Events\<close>

datatype driver_event =
    CommandAccepted
  | CommandRejected command_rejection
  | WorkspaceReady
  | ThreadReady thread_handle driver_role
  | TurnFinished turn_outcome_kind "artifact_ref option"
  | DiffCollected bool artifact_ref
  | MergeBaseResolved bool "artifact_ref option"
  | CommitRecorded bool "artifact_ref option"
  | CursorAdvanced driver_cursor
  | RunSettled driver_run_status

datatype driver_event_field =
    EF_Kind | EF_Reason | EF_Thread | EF_Role | EF_Outcome | EF_Artifact | EF_Changed
  | EF_Available | EF_Cursor | EF_Status

definition event_field_of :: "string \<Rightarrow> driver_event_field option" where
  "event_field_of key =
     (if key = ''kind'' then Some EF_Kind
      else if key = ''reason'' then Some EF_Reason
      else if key = ''thread'' then Some EF_Thread
      else if key = ''role'' then Some EF_Role
      else if key = ''outcome'' then Some EF_Outcome
      else if key = ''artifact'' then Some EF_Artifact
      else if key = ''changed'' then Some EF_Changed
      else if key = ''available'' then Some EF_Available
      else if key = ''cursor'' then Some EF_Cursor
      else if key = ''status'' then Some EF_Status
      else None)"

fun event_field_name :: "driver_event_field \<Rightarrow> string" where
  "event_field_name EF_Kind = ''kind''"
| "event_field_name EF_Reason = ''reason''"
| "event_field_name EF_Thread = ''thread''"
| "event_field_name EF_Role = ''role''"
| "event_field_name EF_Outcome = ''outcome''"
| "event_field_name EF_Artifact = ''artifact''"
| "event_field_name EF_Changed = ''changed''"
| "event_field_name EF_Available = ''available''"
| "event_field_name EF_Cursor = ''cursor''"
| "event_field_name EF_Status = ''status''"

datatype driver_event_kind =
    EK_CommandAccepted | EK_CommandRejected | EK_WorkspaceReady | EK_ThreadReady
  | EK_TurnFinished | EK_DiffCollected | EK_MergeBaseResolved | EK_CommitRecorded
  | EK_CursorAdvanced | EK_RunSettled

fun event_kind_as_str :: "driver_event_kind \<Rightarrow> string" where
  "event_kind_as_str EK_CommandAccepted = ''command_accepted''"
| "event_kind_as_str EK_CommandRejected = ''command_rejected''"
| "event_kind_as_str EK_WorkspaceReady = ''workspace_ready''"
| "event_kind_as_str EK_ThreadReady = ''thread_ready''"
| "event_kind_as_str EK_TurnFinished = ''turn_finished''"
| "event_kind_as_str EK_DiffCollected = ''diff_collected''"
| "event_kind_as_str EK_MergeBaseResolved = ''merge_base_resolved''"
| "event_kind_as_str EK_CommitRecorded = ''commit_recorded''"
| "event_kind_as_str EK_CursorAdvanced = ''cursor_advanced''"
| "event_kind_as_str EK_RunSettled = ''run_settled''"

definition event_kind_variant :: "string \<Rightarrow> driver_event_kind option" where
  "event_kind_variant value =
     (if value = ''command_accepted'' then Some EK_CommandAccepted
      else if value = ''command_rejected'' then Some EK_CommandRejected
      else if value = ''workspace_ready'' then Some EK_WorkspaceReady
      else if value = ''thread_ready'' then Some EK_ThreadReady
      else if value = ''turn_finished'' then Some EK_TurnFinished
      else if value = ''diff_collected'' then Some EK_DiffCollected
      else if value = ''merge_base_resolved'' then Some EK_MergeBaseResolved
      else if value = ''commit_recorded'' then Some EK_CommitRecorded
      else if value = ''cursor_advanced'' then Some EK_CursorAdvanced
      else if value = ''run_settled'' then Some EK_RunSettled
      else None)"

definition event_field_allowed_for_kind ::
    "driver_event_kind \<Rightarrow> driver_event_field \<Rightarrow> bool" where
  "event_field_allowed_for_kind kind field =
     (case kind of
        EK_CommandAccepted \<Rightarrow> False
      | EK_WorkspaceReady \<Rightarrow> False
      | EK_CommandRejected \<Rightarrow> field = EF_Reason
      | EK_ThreadReady \<Rightarrow> field = EF_Thread \<or> field = EF_Role
      | EK_TurnFinished \<Rightarrow> field = EF_Outcome \<or> field = EF_Artifact
      | EK_DiffCollected \<Rightarrow> field = EF_Changed \<or> field = EF_Artifact
      | EK_MergeBaseResolved \<Rightarrow> field = EF_Available \<or> field = EF_Artifact
      | EK_CommitRecorded \<Rightarrow> field = EF_Changed \<or> field = EF_Artifact
      | EK_CursorAdvanced \<Rightarrow> field = EF_Cursor
      | EK_RunSettled \<Rightarrow> field = EF_Status)"

record event_slots =
  es_kind :: "driver_event_kind option"
  es_reason :: "command_rejection option"
  es_thread :: "thread_handle option"
  es_role :: "driver_role option"
  es_outcome :: "turn_outcome_kind option"
  es_artifact :: "artifact_ref option option"
  es_changed :: "bool option"
  es_available :: "bool option"
  es_cursor :: "driver_cursor option"
  es_status :: "driver_run_status option"

definition empty_event_slots :: event_slots where
  "empty_event_slots =
     \<lparr>es_kind = None, es_reason = None, es_thread = None, es_role = None, es_outcome = None,
      es_artifact = None, es_changed = None, es_available = None, es_cursor = None,
      es_status = None\<rparr>"

abbreviation "json_event_kind \<equiv> json_name event_kind_variant"

definition event_early :: "driver_event_field \<Rightarrow> event_slots \<Rightarrow> bool" where
  "event_early f s =
     (case es_kind s of
        None \<Rightarrow> False
      | Some kind \<Rightarrow> f \<noteq> EF_Kind \<and> \<not> event_field_allowed_for_kind kind f)"

fun store_event_field ::
    "driver_event_field \<Rightarrow> json \<Rightarrow> event_slots \<Rightarrow> event_slots option" where
  "store_event_field EF_Kind v s = do {
     x \<leftarrow> read_map_field (es_kind s) json_event_kind v; Some (s\<lparr>es_kind := Some x\<rparr>) }"
| "store_event_field EF_Reason v s = do {
     x \<leftarrow> read_map_field (es_reason s) json_command_rejection v; Some (s\<lparr>es_reason := Some x\<rparr>) }"
| "store_event_field EF_Thread v s = do {
     x \<leftarrow> read_map_field (es_thread s) json_thread_handle v; Some (s\<lparr>es_thread := Some x\<rparr>) }"
| "store_event_field EF_Role v s = do {
     x \<leftarrow> read_map_field (es_role s) json_driver_role v; Some (s\<lparr>es_role := Some x\<rparr>) }"
| "store_event_field EF_Outcome v s = do {
     x \<leftarrow> read_map_field (es_outcome s) json_turn_outcome_kind v; Some (s\<lparr>es_outcome := Some x\<rparr>) }"
| "store_event_field EF_Artifact v s = do {
     x \<leftarrow> read_map_field (es_artifact s) (json_option json_artifact_ref) v; Some (s\<lparr>es_artifact := Some x\<rparr>) }"
| "store_event_field EF_Changed v s = do {
     x \<leftarrow> read_map_field (es_changed s) json_bool v; Some (s\<lparr>es_changed := Some x\<rparr>) }"
| "store_event_field EF_Available v s = do {
     x \<leftarrow> read_map_field (es_available s) json_bool v; Some (s\<lparr>es_available := Some x\<rparr>) }"
| "store_event_field EF_Cursor v s = do {
     x \<leftarrow> read_map_field (es_cursor s) json_driver_cursor v; Some (s\<lparr>es_cursor := Some x\<rparr>) }"
| "store_event_field EF_Status v s = do {
     x \<leftarrow> read_map_field (es_status s) json_driver_run_status v; Some (s\<lparr>es_status := Some x\<rparr>) }"

text \<open>
  \<open>required_artifact\<close>, and \<open>artifact.unwrap_or(None)\<close>: a field may be absent, null, or a reference.
\<close>

definition required_artifact :: "artifact_ref option option \<Rightarrow> artifact_ref option" where
  "required_artifact slot = (case slot of None \<Rightarrow> None | Some a \<Rightarrow> a)"

definition optional_artifact :: "artifact_ref option option \<Rightarrow> artifact_ref option" where
  "optional_artifact slot = (case slot of None \<Rightarrow> None | Some a \<Rightarrow> a)"

definition build_event :: "event_slots \<Rightarrow> driver_event option" where
  "build_event s = do {
     kind \<leftarrow> es_kind s;
     (case kind of
        EK_CommandAccepted \<Rightarrow> do {
          reject_extra (es_reason s); reject_extra (es_thread s); reject_extra (es_role s);
          reject_extra (es_outcome s); reject_extra (es_artifact s); reject_extra (es_changed s);
          reject_extra (es_available s); reject_extra (es_cursor s); reject_extra (es_status s);
          Some CommandAccepted
        }
      | EK_CommandRejected \<Rightarrow> do {
          reason \<leftarrow> es_reason s;
          reject_extra (es_thread s); reject_extra (es_role s); reject_extra (es_outcome s);
          reject_extra (es_artifact s); reject_extra (es_changed s); reject_extra (es_available s);
          reject_extra (es_cursor s); reject_extra (es_status s);
          Some (CommandRejected reason)
        }
      | EK_WorkspaceReady \<Rightarrow> do {
          reject_extra (es_reason s); reject_extra (es_thread s); reject_extra (es_role s);
          reject_extra (es_outcome s); reject_extra (es_artifact s); reject_extra (es_changed s);
          reject_extra (es_available s); reject_extra (es_cursor s); reject_extra (es_status s);
          Some WorkspaceReady
        }
      | EK_ThreadReady \<Rightarrow> do {
          thread \<leftarrow> es_thread s;
          role \<leftarrow> es_role s;
          reject_extra (es_reason s); reject_extra (es_outcome s); reject_extra (es_artifact s);
          reject_extra (es_changed s); reject_extra (es_available s); reject_extra (es_cursor s);
          reject_extra (es_status s);
          Some (ThreadReady thread role)
        }
      | EK_TurnFinished \<Rightarrow> do {
          outcome \<leftarrow> es_outcome s;
          let artifact = optional_artifact (es_artifact s);
          reject_extra (es_reason s); reject_extra (es_thread s); reject_extra (es_role s);
          reject_extra (es_changed s); reject_extra (es_available s); reject_extra (es_cursor s);
          reject_extra (es_status s);
          Some (TurnFinished outcome artifact)
        }
      | EK_DiffCollected \<Rightarrow> do {
          changed \<leftarrow> es_changed s;
          artifact \<leftarrow> required_artifact (es_artifact s);
          reject_extra (es_reason s); reject_extra (es_thread s); reject_extra (es_role s);
          reject_extra (es_outcome s); reject_extra (es_available s); reject_extra (es_cursor s);
          reject_extra (es_status s);
          Some (DiffCollected changed artifact)
        }
      | EK_MergeBaseResolved \<Rightarrow> do {
          available \<leftarrow> es_available s;
          let artifact = optional_artifact (es_artifact s);
          reject_extra (es_reason s); reject_extra (es_thread s); reject_extra (es_role s);
          reject_extra (es_outcome s); reject_extra (es_changed s); reject_extra (es_cursor s);
          reject_extra (es_status s);
          Some (MergeBaseResolved available artifact)
        }
      | EK_CommitRecorded \<Rightarrow> do {
          changed \<leftarrow> es_changed s;
          let artifact = optional_artifact (es_artifact s);
          reject_extra (es_reason s); reject_extra (es_thread s); reject_extra (es_role s);
          reject_extra (es_outcome s); reject_extra (es_available s); reject_extra (es_cursor s);
          reject_extra (es_status s);
          Some (CommitRecorded changed artifact)
        }
      | EK_CursorAdvanced \<Rightarrow> do {
          cursor \<leftarrow> es_cursor s;
          reject_extra (es_reason s); reject_extra (es_thread s); reject_extra (es_role s);
          reject_extra (es_outcome s); reject_extra (es_artifact s); reject_extra (es_changed s);
          reject_extra (es_available s); reject_extra (es_status s);
          Some (CursorAdvanced cursor)
        }
      | EK_RunSettled \<Rightarrow> do {
          status \<leftarrow> es_status s;
          reject_extra (es_reason s); reject_extra (es_thread s); reject_extra (es_role s);
          reject_extra (es_outcome s); reject_extra (es_artifact s); reject_extra (es_changed s);
          reject_extra (es_available s); reject_extra (es_cursor s);
          Some (RunSettled status)
        })
   }"

definition json_driver_event :: "json \<Rightarrow> driver_event option" where
  "json_driver_event v =
     (case v of
        JObject es \<Rightarrow> do {
          s \<leftarrow> read_entries event_field_of event_early store_event_field es empty_event_slots;
          build_event s
        }
      | _ \<Rightarrow> None)"

section \<open>Writing\<close>

text \<open>The derived writer of a variant: its \<open>kind\<close>, then its fields.\<close>

abbreviation "candidates_json \<equiv> list_json thread_handle_json"
abbreviation "bindings_json \<equiv> list_json artifact_binding_json"

fun driver_command_json :: "driver_command \<Rightarrow> json" where
  "driver_command_json RequireWorkspace = JObject [(''kind'', JString ''require_workspace'')]"
| "driver_command_json (StartThread role) =
     JObject [(''kind'', JString ''start_thread''), (''role'', driver_role_json role)]"
| "driver_command_json (ResumeOrStartThread role candidates) =
     JObject
       [(''kind'', JString ''resume_or_start_thread''), (''role'', driver_role_json role),
        (''candidates'', candidates_json candidates)]"
| "driver_command_json (RunTemplate thread role template bindings) =
     JObject
       [(''kind'', JString ''run_template''), (''thread'', thread_handle_json thread),
        (''role'', driver_role_json role), (''template_id'', template_id_json template),
        (''bindings'', bindings_json bindings)]"
| "driver_command_json CheckpointCommit = JObject [(''kind'', JString ''checkpoint_commit'')]"
| "driver_command_json (CollectDiff scope) =
     JObject [(''kind'', JString ''collect_diff''), (''scope'', diff_scope_json scope)]"
| "driver_command_json (MergeBase target) =
     JObject [(''kind'', JString ''merge_base''), (''target'', merge_base_target_json target)]"
| "driver_command_json (CommitTemplate message bindings) =
     JObject
       [(''kind'', JString ''commit''), (''message_template_id'', template_id_json message),
        (''bindings'', bindings_json bindings)]"
| "driver_command_json PauseAtBoundary = JObject [(''kind'', JString ''pause_at_boundary'')]"
| "driver_command_json (DriverSettleRun status) =
     JObject [(''kind'', JString ''settle_run''), (''status'', driver_run_status_json status)]"

fun driver_event_json :: "driver_event \<Rightarrow> json" where
  "driver_event_json CommandAccepted = JObject [(''kind'', JString ''command_accepted'')]"
| "driver_event_json (CommandRejected reason) =
     JObject [(''kind'', JString ''command_rejected''), (''reason'', command_rejection_json reason)]"
| "driver_event_json WorkspaceReady = JObject [(''kind'', JString ''workspace_ready'')]"
| "driver_event_json (ThreadReady thread role) =
     JObject
       [(''kind'', JString ''thread_ready''), (''thread'', thread_handle_json thread),
        (''role'', driver_role_json role)]"
| "driver_event_json (TurnFinished outcome artifact) =
     JObject
       [(''kind'', JString ''turn_finished''), (''outcome'', turn_outcome_kind_json outcome),
        (''artifact'', option_json artifact_ref_json artifact)]"
| "driver_event_json (DiffCollected changed artifact) =
     JObject
       [(''kind'', JString ''diff_collected''), (''changed'', JBool changed),
        (''artifact'', artifact_ref_json artifact)]"
| "driver_event_json (MergeBaseResolved available artifact) =
     JObject
       [(''kind'', JString ''merge_base_resolved''), (''available'', JBool available),
        (''artifact'', option_json artifact_ref_json artifact)]"
| "driver_event_json (CommitRecorded changed artifact) =
     JObject
       [(''kind'', JString ''commit_recorded''), (''changed'', JBool changed),
        (''artifact'', option_json artifact_ref_json artifact)]"
| "driver_event_json (CursorAdvanced cursor) =
     JObject [(''kind'', JString ''cursor_advanced''), (''cursor'', driver_cursor_json cursor)]"
| "driver_event_json (RunSettled status) =
     JObject [(''kind'', JString ''run_settled''), (''status'', driver_run_status_json status)]"

text \<open>The values that the constructors of the ids and the bounded vectors let the code build.\<close>

definition valid_candidates :: "thread_handle list \<Rightarrow> bool" where
  "valid_candidates xs \<longleftrightarrow> length xs \<le> MAX_CANDIDATE_THREADS \<and> list_all valid_thread_handle xs"

definition valid_bindings :: "artifact_binding list \<Rightarrow> bool" where
  "valid_bindings xs \<longleftrightarrow> length xs \<le> MAX_COMMAND_BINDINGS \<and> list_all valid_artifact_binding xs"

fun valid_driver_command :: "driver_command \<Rightarrow> bool" where
  "valid_driver_command (ResumeOrStartThread role candidates) = valid_candidates candidates"
| "valid_driver_command (RunTemplate thread role template bindings) =
     (valid_thread_handle thread \<and> valid_template_id template \<and> valid_bindings bindings)"
| "valid_driver_command (CommitTemplate message bindings) =
     (valid_template_id message \<and> valid_bindings bindings)"
| "valid_driver_command _ = True"

fun valid_driver_event :: "driver_event \<Rightarrow> bool" where
  "valid_driver_event (ThreadReady thread role) = valid_thread_handle thread"
| "valid_driver_event (TurnFinished outcome artifact) = pred_option valid_artifact_ref artifact"
| "valid_driver_event (DiffCollected changed artifact) = valid_artifact_ref artifact"
| "valid_driver_event (MergeBaseResolved available artifact) =
     pred_option valid_artifact_ref artifact"
| "valid_driver_event (CommitRecorded changed artifact) = pred_option valid_artifact_ref artifact"
| "valid_driver_event (CursorAdvanced cursor) = valid_driver_cursor cursor"
| "valid_driver_event _ = True"

section \<open>Envelopes\<close>

record driver_command_envelope =
  ce_protocol_version :: u32
  ce_command_id :: command_id
  ce_sequence :: u64
  ce_expected_revision :: u64
  ce_command :: driver_command

record driver_event_envelope =
  ee_protocol_version :: u32
  ee_event_id :: event_id
  ee_sequence :: u64
  ee_command_id :: command_id
  ee_observed_revision :: u64
  ee_event :: driver_event

definition command_envelope_fields :: "string list" where
  "command_envelope_fields =
     [''protocol_version'', ''command_id'', ''sequence'', ''expected_revision'', ''command'']"

definition command_envelope_json :: "driver_command_envelope \<Rightarrow> json" where
  "command_envelope_json e =
     JObject
       [(''protocol_version'', u32_json (ce_protocol_version e)),
        (''command_id'', command_id_json (ce_command_id e)),
        (''sequence'', u64_json (ce_sequence e)),
        (''expected_revision'', u64_json (ce_expected_revision e)),
        (''command'', driver_command_json (ce_command e))]"

definition json_command_envelope :: "json \<Rightarrow> driver_command_envelope option" where
  "json_command_envelope v = do {
     es \<leftarrow> struct_entries command_envelope_fields v;
     version \<leftarrow> req_field json_version ''protocol_version'' es;
     i \<leftarrow> req_field json_command_id ''command_id'' es;
     sequence \<leftarrow> req_field json_u64 ''sequence'' es;
     revision \<leftarrow> req_field json_u64 ''expected_revision'' es;
     command \<leftarrow> req_field json_driver_command ''command'' es;
     Some
       \<lparr>ce_protocol_version = version, ce_command_id = i, ce_sequence = sequence,
        ce_expected_revision = revision, ce_command = command\<rparr>
   }"

definition valid_command_envelope :: "driver_command_envelope \<Rightarrow> bool" where
  "valid_command_envelope e \<longleftrightarrow>
     valid_version (ce_protocol_version e) \<and> valid_command_id (ce_command_id e) \<and>
     valid_driver_command (ce_command e)"

definition event_envelope_fields :: "string list" where
  "event_envelope_fields =
     [''protocol_version'', ''event_id'', ''sequence'', ''command_id'', ''observed_revision'',
      ''event'']"

definition event_envelope_json :: "driver_event_envelope \<Rightarrow> json" where
  "event_envelope_json e =
     JObject
       [(''protocol_version'', u32_json (ee_protocol_version e)),
        (''event_id'', event_id_json (ee_event_id e)),
        (''sequence'', u64_json (ee_sequence e)),
        (''command_id'', command_id_json (ee_command_id e)),
        (''observed_revision'', u64_json (ee_observed_revision e)),
        (''event'', driver_event_json (ee_event e))]"

definition json_event_envelope :: "json \<Rightarrow> driver_event_envelope option" where
  "json_event_envelope v = do {
     es \<leftarrow> struct_entries event_envelope_fields v;
     version \<leftarrow> req_field json_version ''protocol_version'' es;
     i \<leftarrow> req_field json_event_id ''event_id'' es;
     sequence \<leftarrow> req_field json_u64 ''sequence'' es;
     command \<leftarrow> req_field json_command_id ''command_id'' es;
     revision \<leftarrow> req_field json_u64 ''observed_revision'' es;
     event \<leftarrow> req_field json_driver_event ''event'' es;
     Some
       \<lparr>ee_protocol_version = version, ee_event_id = i, ee_sequence = sequence,
        ee_command_id = command, ee_observed_revision = revision, ee_event = event\<rparr>
   }"

definition valid_event_envelope :: "driver_event_envelope \<Rightarrow> bool" where
  "valid_event_envelope e \<longleftrightarrow>
     valid_version (ee_protocol_version e) \<and> valid_event_id (ee_event_id e) \<and>
     valid_command_id (ee_command_id e) \<and> valid_driver_event (ee_event e)"

end
