(* ===== verification/Driver_Codec.thy ===== *)
theory Driver_Codec
  imports Driver_Message
begin

text \<open>
  What the hand-written readers of the driver protocol promise. Each is shown equal to a
  reference reading that looks the kind up first and then takes exactly the kind's fields, in any
  order; from this follow the round trip, the closedness and the content-blindness of commands,
  events and their envelopes.
\<close>

section \<open>Commands\<close>

fun command_slot_free :: "driver_command_field \<Rightarrow> command_slots \<Rightarrow> bool" where
  "command_slot_free CF_Kind s = (cs_kind s = None)"
| "command_slot_free CF_Role s = (cs_role s = None)"
| "command_slot_free CF_Candidates s = (cs_candidates s = None)"
| "command_slot_free CF_Thread s = (cs_thread s = None)"
| "command_slot_free CF_TemplateId s = (cs_template_id s = None)"
| "command_slot_free CF_Bindings s = (cs_bindings s = None)"
| "command_slot_free CF_Scope s = (cs_scope s = None)"
| "command_slot_free CF_Target s = (cs_target s = None)"
| "command_slot_free CF_MessageTemplateId s = (cs_message_template_id s = None)"
| "command_slot_free CF_Status s = (cs_status s = None)"

fun command_value_ok :: "driver_command_field \<Rightarrow> json \<Rightarrow> bool" where
  "command_value_ok CF_Kind v = (json_command_kind v \<noteq> None)"
| "command_value_ok CF_Role v = (json_driver_role v \<noteq> None)"
| "command_value_ok CF_Candidates v = (json_candidates v \<noteq> None)"
| "command_value_ok CF_Thread v = (json_thread_handle v \<noteq> None)"
| "command_value_ok CF_TemplateId v = (json_template_id v \<noteq> None)"
| "command_value_ok CF_Bindings v = (json_bindings v \<noteq> None)"
| "command_value_ok CF_Scope v = (json_diff_scope v \<noteq> None)"
| "command_value_ok CF_Target v = (json_merge_base_target v \<noteq> None)"
| "command_value_ok CF_MessageTemplateId v = (json_template_id v \<noteq> None)"
| "command_value_ok CF_Status v = (json_driver_run_status v \<noteq> None)"

fun command_put :: "driver_command_field \<Rightarrow> json \<Rightarrow> command_slots \<Rightarrow> command_slots" where
  "command_put CF_Kind v s = s\<lparr>cs_kind := json_command_kind v\<rparr>"
| "command_put CF_Role v s = s\<lparr>cs_role := json_driver_role v\<rparr>"
| "command_put CF_Candidates v s = s\<lparr>cs_candidates := json_candidates v\<rparr>"
| "command_put CF_Thread v s = s\<lparr>cs_thread := json_thread_handle v\<rparr>"
| "command_put CF_TemplateId v s = s\<lparr>cs_template_id := json_template_id v\<rparr>"
| "command_put CF_Bindings v s = s\<lparr>cs_bindings := json_bindings v\<rparr>"
| "command_put CF_Scope v s = s\<lparr>cs_scope := json_diff_scope v\<rparr>"
| "command_put CF_Target v s = s\<lparr>cs_target := json_merge_base_target v\<rparr>"
| "command_put CF_MessageTemplateId v s = s\<lparr>cs_message_template_id := json_template_id v\<rparr>"
| "command_put CF_Status v s = s\<lparr>cs_status := json_driver_run_status v\<rparr>"

interpretation command_slots:
  slot_reader command_field_of command_field_name command_value_ok command_put command_slot_free
    command_early store_command_field build_command
proof
  show "command_field_of k = Some f \<longleftrightarrow> k = command_field_name f" for k f
    by (cases f) (auto simp: command_field_of_def)
  show "store_command_field f v s =
      (if command_slot_free f s \<and> command_value_ok f v then Some (command_put f v s) else None)"
    for f v s
    by (cases f) (auto simp: read_map_field_def split: Option.bind_split)
  show "command_slot_free g (command_put f v s) \<longleftrightarrow> g \<noteq> f \<and> command_slot_free g s"
    if "command_value_ok f v" for f v g s
    using that by (cases f; cases g; simp)
  show "command_early f (command_put g v s)" if "command_early f s" "command_slot_free g s" for f g v s
    using that by (cases g) (auto simp: command_early_def split: option.splits)
  show "build_command s = None" if "command_early f s" "\<not> command_slot_free f s" for f s
  proof -
    from that(1) obtain kind where "cs_kind s = Some kind" "f \<noteq> CF_Kind"
      "\<not> command_field_allowed_for_kind kind f"
      by (auto simp: command_early_def split: option.splits)
    with that(2) show ?thesis
      by (cases kind; cases f)
        (simp_all add: build_command_def command_field_allowed_for_kind_def reject_extra_def)
  qed
qed

text \<open>
  The reference reading of a command: the kind, whatever its place in the object, then exactly
  the fields of the kind.
\<close>

definition command_kind_fields :: "driver_command_kind \<Rightarrow> string list" where
  "command_kind_fields kind =
     (case kind of
        CK_RequireWorkspace \<Rightarrow> []
      | CK_StartThread \<Rightarrow> [''role'']
      | CK_ResumeOrStartThread \<Rightarrow> [''role'', ''candidates'']
      | CK_RunTemplate \<Rightarrow> [''thread'', ''role'', ''template_id'', ''bindings'']
      | CK_CheckpointCommit \<Rightarrow> []
      | CK_CollectDiff \<Rightarrow> [''scope'']
      | CK_MergeBase \<Rightarrow> [''target'']
      | CK_Commit \<Rightarrow> [''message_template_id'', ''bindings'']
      | CK_PauseAtBoundary \<Rightarrow> []
      | CK_SettleRun \<Rightarrow> [''status''])"

definition reference_command :: "(string \<times> json) list \<Rightarrow> driver_command option" where
  "reference_command es = do {
     kind \<leftarrow> req_field json_command_kind ''kind'' es;
     only_fields (command_kind_fields kind) es;
     (case kind of
        CK_RequireWorkspace \<Rightarrow> Some RequireWorkspace
      | CK_StartThread \<Rightarrow> do {
          role \<leftarrow> req_field json_driver_role ''role'' es;
          Some (StartThread role) }
      | CK_ResumeOrStartThread \<Rightarrow> do {
          role \<leftarrow> req_field json_driver_role ''role'' es;
          candidates \<leftarrow> req_field json_candidates ''candidates'' es;
          Some (ResumeOrStartThread role candidates) }
      | CK_RunTemplate \<Rightarrow> do {
          thread \<leftarrow> req_field json_thread_handle ''thread'' es;
          role \<leftarrow> req_field json_driver_role ''role'' es;
          template_id \<leftarrow> req_field json_template_id ''template_id'' es;
          bindings \<leftarrow> req_field json_bindings ''bindings'' es;
          Some (RunTemplate thread role template_id bindings) }
      | CK_CheckpointCommit \<Rightarrow> Some CheckpointCommit
      | CK_CollectDiff \<Rightarrow> do {
          scope \<leftarrow> req_field json_diff_scope ''scope'' es;
          Some (CollectDiff scope) }
      | CK_MergeBase \<Rightarrow> do {
          target \<leftarrow> req_field json_merge_base_target ''target'' es;
          Some (MergeBase target) }
      | CK_Commit \<Rightarrow> do {
          message \<leftarrow> req_field json_template_id ''message_template_id'' es;
          bindings \<leftarrow> req_field json_bindings ''bindings'' es;
          Some (CommitTemplate message bindings) }
      | CK_PauseAtBoundary \<Rightarrow> Some PauseAtBoundary
      | CK_SettleRun \<Rightarrow> do {
          status \<leftarrow> req_field json_driver_run_status ''status'' es;
          Some (DriverSettleRun status) })
   }"

lemma command_field_of_simps [simp]:
  "command_field_of ''kind'' = Some CF_Kind"
  "command_field_of ''role'' = Some CF_Role"
  "command_field_of ''candidates'' = Some CF_Candidates"
  "command_field_of ''thread'' = Some CF_Thread"
  "command_field_of ''template_id'' = Some CF_TemplateId"
  "command_field_of ''bindings'' = Some CF_Bindings"
  "command_field_of ''scope'' = Some CF_Scope"
  "command_field_of ''target'' = Some CF_Target"
  "command_field_of ''message_template_id'' = Some CF_MessageTemplateId"
  "command_field_of ''status'' = Some CF_Status"
  by (simp_all add: command_field_of_def)

lemma all_command_fields:
  "(\<forall>f. P f) \<longleftrightarrow> P CF_Kind \<and> P CF_Role \<and> P CF_Candidates \<and> P CF_Thread \<and> P CF_TemplateId \<and>
     P CF_Bindings \<and> P CF_Scope \<and> P CF_Target \<and> P CF_MessageTemplateId \<and> P CF_Status"
  by (metis driver_command_field.exhaust)

lemma empty_command_free [simp]: "command_slot_free f empty_command_slots"
  by (cases f) (simp_all add: empty_command_slots_def)

lemma command_put_get:
  "cs_kind (command_put f v s) = (if f = CF_Kind then json_command_kind v else cs_kind s)"
  "cs_role (command_put f v s) = (if f = CF_Role then json_driver_role v else cs_role s)"
  "cs_candidates (command_put f v s) = (if f = CF_Candidates then json_candidates v else cs_candidates s)"
  "cs_thread (command_put f v s) = (if f = CF_Thread then json_thread_handle v else cs_thread s)"
  "cs_template_id (command_put f v s) = (if f = CF_TemplateId then json_template_id v else cs_template_id s)"
  "cs_bindings (command_put f v s) = (if f = CF_Bindings then json_bindings v else cs_bindings s)"
  "cs_scope (command_put f v s) = (if f = CF_Scope then json_diff_scope v else cs_scope s)"
  "cs_target (command_put f v s) = (if f = CF_Target then json_merge_base_target v else cs_target s)"
  "cs_message_template_id (command_put f v s) =
     (if f = CF_MessageTemplateId then json_template_id v else cs_message_template_id s)"
  "cs_status (command_put f v s) = (if f = CF_Status then json_driver_run_status v else cs_status s)"
  by (cases f; simp)+

lemma command_filled:
  assumes "command_slots.readable es empty_command_slots"
  defines "s \<equiv> command_slots.filled es empty_command_slots"
  shows "cs_kind s = req_field json_command_kind ''kind'' es"
    "cs_role s = req_field json_driver_role ''role'' es"
    "cs_candidates s = req_field json_candidates ''candidates'' es"
    "cs_thread s = req_field json_thread_handle ''thread'' es"
    "cs_template_id s = req_field json_template_id ''template_id'' es"
    "cs_bindings s = req_field json_bindings ''bindings'' es"
    "cs_scope s = req_field json_diff_scope ''scope'' es"
    "cs_target s = req_field json_merge_base_target ''target'' es"
    "cs_message_template_id s = req_field json_template_id ''message_template_id'' es"
    "cs_status s = req_field json_driver_run_status ''status'' es"
  unfolding s_def command_put_get [THEN command_slots.slot_filled, OF assms(1)]
  by (simp_all add: empty_command_slots_def req_field_def cong: option.case_cong)

lemma reference_command_readable:
  assumes "reference_command es = Some c"
  shows "command_slots.readable es empty_command_slots"
proof -
  from assms obtain kind where kind: "req_field json_command_kind ''kind'' es = Some kind"
    and only: "only_fields (command_kind_fields kind) es = Some ()"
    by (auto simp: reference_command_def Option.bind_eq_Some_conv)
  have "case command_field_of k of None \<Rightarrow> False | Some f \<Rightarrow> command_value_ok f v"
    if "k \<in> set (''kind'' # command_kind_fields kind)" "map_of es k = Some v" for k v
  proof (cases "k = ''kind''")
    case True
    with kind that(2) show ?thesis by (simp add: req_field_def)
  next
    case False
    with that assms kind only show ?thesis
      by (cases kind)
        (auto simp: reference_command_def command_kind_fields_def Option.bind_eq_Some_conv
          req_field_Some)
  qed
  with only show ?thesis by (rule command_slots.only_fields_readable [OF _ empty_command_free])
qed

lemma json_driver_command_reference:
  "json_driver_command (JObject es) = reference_command es"
proof (cases "command_slots.readable es empty_command_slots")
  case False
  then have "reference_command es = None"
    using reference_command_readable by (cases "reference_command es") auto
  with False show ?thesis
    by (simp add: json_driver_command_def command_slots.read_build)
next
  case True
  note filled = command_filled [OF True]
  note only = command_slots.only_fields_filled [OF True empty_command_free, unfolded all_command_fields]
  have "json_driver_command (JObject es) = build_command (command_slots.filled es empty_command_slots)"
    using True
    by (simp add: json_driver_command_def command_slots.read_build)
  also have "\<dots> = reference_command es"
  proof (cases "req_field json_command_kind ''kind'' es")
    case None
    then show ?thesis by (simp add: build_command_def reference_command_def filled)
  next
    case (Some kind)
    then show ?thesis
      by (cases kind)
        (simp_all add: build_command_def reference_command_def command_kind_fields_def filled only
          reject_extra_def split: Option.bind_split)
  qed
  finally show ?thesis .
qed

interpretation command_kind_names: wire_names command_kind_as_str command_kind_variant
proof
  show "command_kind_variant (command_kind_as_str x) = Some x" "wire_text (command_kind_as_str x)" for x
    by (cases x; simp add: command_kind_variant_def wire_text_simps)+
  show "command_kind_variant s = Some x \<Longrightarrow> s = command_kind_as_str x" for s x
    by (cases x) (auto simp: command_kind_variant_def split: if_splits)
qed

interpretation command_kind: wire_codec "token_json command_kind_as_str" json_command_kind "\<lambda>_. True"
  by (rule command_kind_names.name_codec)

interpretation candidates: wire_codec candidates_json json_candidates valid_candidates
  using bounded_codec [OF thread_handle.wire_codec_axioms] unfolding valid_candidates_def .

interpretation bindings: wire_codec bindings_json json_bindings valid_bindings
  using bounded_codec [OF artifact_binding.wire_codec_axioms] unfolding valid_bindings_def .

lemmas command_blind =
  field_blind command_kind.req_blind candidates.req_blind bindings.req_blind

lemma json_kind_name [simp]: "json_command_kind (JString s) = command_kind_variant s"
  by (simp add: json_name_def)

lemma json_driver_command_JObject: "json_driver_command v = Some c \<Longrightarrow> \<exists>es. v = JObject es"
  by (cases v) (simp_all add: json_driver_command_def)

lemma reference_commandE:
  assumes "reference_command es = Some c"
  obtains kind where "req_field json_command_kind ''kind'' es = Some kind"
    "only_fields (command_kind_fields kind) es = Some ()"
  using assms by (auto simp: reference_command_def Option.bind_eq_Some_conv)

text \<open>The fields of a kind are read with their codecs, so they hold only tokens.\<close>

lemma reference_command_blind:
  assumes "reference_command es = Some c"
  shows "content_blind (JObject es)"
proof -
  from assms obtain kind where kind: "req_field json_command_kind ''kind'' es = Some kind"
    and only: "only_fields (command_kind_fields kind) es = Some ()"
    by (rule reference_commandE)
  have "list_all (blind_field es) (command_kind_fields kind)"
    using assms kind
    by (cases kind)
      (auto simp: reference_command_def command_kind_fields_def Option.bind_eq_Some_conv
        intro: command_blind)
  moreover have "list_all wire_text (''kind'' # command_kind_fields kind)"
    "distinct (''kind'' # command_kind_fields kind)"
    by (cases kind; simp add: command_kind_fields_def wire_text_simps)+
  ultimately show ?thesis
    using only kind
    by (intro struct_blind [where names = "''kind'' # command_kind_fields kind" and es = es])
      (simp_all add: only_fields_def command_kind.req_blind split: if_splits)
qed

interpretation command: wire_codec driver_command_json json_driver_command valid_driver_command
proof
  show "json_driver_command (driver_command_json c) =
      (if valid_driver_command c then Some c else None)" for c
    by (cases c)
      (simp_all add: json_driver_command_reference reference_command_def req_field_def
        only_fields_def command_kind_fields_def command_kind_variant_def codec_simps
        candidates.dec_enc bindings.dec_enc)
  fix v c assume "json_driver_command v = Some c"
  then obtain es where v: "v = JObject es" and c: "reference_command es = Some c"
    using json_driver_command_JObject by (metis json_driver_command_reference)
  show "content_blind v" unfolding v using c by (rule reference_command_blind)
  from c obtain kind where "req_field json_command_kind ''kind'' es = Some kind"
    by (rule reference_commandE)
  then show "valid_driver_command c"
    using c
    by (cases kind)
      (auto simp: reference_command_def Option.bind_eq_Some_conv
        intro: thread_handle.req_good template_id.req_good candidates.req_good bindings.req_good)
qed

end
