(* ===== verification/Driver_Events.thy ===== *)
theory Driver_Events
  imports Driver_Codec
begin

text \<open>
  The events of the driver protocol and the two envelopes: the hand-written event reader equals
  its reference reading, and both envelopes keep the contract of a wire type.
\<close>

section \<open>Events\<close>

fun event_slot_free :: "driver_event_field \<Rightarrow> event_slots \<Rightarrow> bool" where
  "event_slot_free EF_Kind s = (es_kind s = None)"
| "event_slot_free EF_Reason s = (es_reason s = None)"
| "event_slot_free EF_Thread s = (es_thread s = None)"
| "event_slot_free EF_Role s = (es_role s = None)"
| "event_slot_free EF_Outcome s = (es_outcome s = None)"
| "event_slot_free EF_Artifact s = (es_artifact s = None)"
| "event_slot_free EF_Changed s = (es_changed s = None)"
| "event_slot_free EF_Available s = (es_available s = None)"
| "event_slot_free EF_Cursor s = (es_cursor s = None)"
| "event_slot_free EF_Status s = (es_status s = None)"

fun event_value_ok :: "driver_event_field \<Rightarrow> json \<Rightarrow> bool" where
  "event_value_ok EF_Kind v = (json_event_kind v \<noteq> None)"
| "event_value_ok EF_Reason v = (json_command_rejection v \<noteq> None)"
| "event_value_ok EF_Thread v = (json_thread_handle v \<noteq> None)"
| "event_value_ok EF_Role v = (json_driver_role v \<noteq> None)"
| "event_value_ok EF_Outcome v = (json_turn_outcome_kind v \<noteq> None)"
| "event_value_ok EF_Artifact v = (json_option json_artifact_ref v \<noteq> None)"
| "event_value_ok EF_Changed v = (json_bool v \<noteq> None)"
| "event_value_ok EF_Available v = (json_bool v \<noteq> None)"
| "event_value_ok EF_Cursor v = (json_driver_cursor v \<noteq> None)"
| "event_value_ok EF_Status v = (json_driver_run_status v \<noteq> None)"

fun event_put :: "driver_event_field \<Rightarrow> json \<Rightarrow> event_slots \<Rightarrow> event_slots" where
  "event_put EF_Kind v s = s\<lparr>es_kind := json_event_kind v\<rparr>"
| "event_put EF_Reason v s = s\<lparr>es_reason := json_command_rejection v\<rparr>"
| "event_put EF_Thread v s = s\<lparr>es_thread := json_thread_handle v\<rparr>"
| "event_put EF_Role v s = s\<lparr>es_role := json_driver_role v\<rparr>"
| "event_put EF_Outcome v s = s\<lparr>es_outcome := json_turn_outcome_kind v\<rparr>"
| "event_put EF_Artifact v s = s\<lparr>es_artifact := json_option json_artifact_ref v\<rparr>"
| "event_put EF_Changed v s = s\<lparr>es_changed := json_bool v\<rparr>"
| "event_put EF_Available v s = s\<lparr>es_available := json_bool v\<rparr>"
| "event_put EF_Cursor v s = s\<lparr>es_cursor := json_driver_cursor v\<rparr>"
| "event_put EF_Status v s = s\<lparr>es_status := json_driver_run_status v\<rparr>"

interpretation event_slots:
  slot_reader event_field_of event_field_name event_value_ok event_put event_slot_free
    event_early store_event_field build_event
proof
  show "event_field_of k = Some f \<longleftrightarrow> k = event_field_name f" for k f
    by (cases f) (auto simp: event_field_of_def)
  show "store_event_field f v s =
      (if event_slot_free f s \<and> event_value_ok f v then Some (event_put f v s) else None)"
    for f v s
    by (cases f) (auto simp: read_map_field_def split: Option.bind_split)
  show "event_slot_free g (event_put f v s) \<longleftrightarrow> g \<noteq> f \<and> event_slot_free g s"
    if "event_value_ok f v" for f v g s
    using that by (cases f; cases g; simp)
  show "event_early f (event_put g v s)" if "event_early f s" "event_slot_free g s" for f g v s
    using that by (cases g) (auto simp: event_early_def split: option.splits)
  show "build_event s = None" if "event_early f s" "\<not> event_slot_free f s" for f s
  proof -
    from that(1) obtain kind where "es_kind s = Some kind" "f \<noteq> EF_Kind"
      "\<not> event_field_allowed_for_kind kind f"
      by (auto simp: event_early_def split: option.splits)
    with that(2) show ?thesis
      by (cases kind; cases f)
        (simp_all add: build_event_def event_field_allowed_for_kind_def reject_extra_def)
  qed
qed

text \<open>The reference reading of an event; an optional artifact may be absent or null.\<close>

definition event_kind_fields :: "driver_event_kind \<Rightarrow> string list" where
  "event_kind_fields kind =
     (case kind of
        EK_CommandAccepted \<Rightarrow> []
      | EK_CommandRejected \<Rightarrow> [''reason'']
      | EK_WorkspaceReady \<Rightarrow> []
      | EK_ThreadReady \<Rightarrow> [''thread'', ''role'']
      | EK_TurnFinished \<Rightarrow> [''outcome'', ''artifact'']
      | EK_DiffCollected \<Rightarrow> [''changed'', ''artifact'']
      | EK_MergeBaseResolved \<Rightarrow> [''available'', ''artifact'']
      | EK_CommitRecorded \<Rightarrow> [''changed'', ''artifact'']
      | EK_CursorAdvanced \<Rightarrow> [''cursor'']
      | EK_RunSettled \<Rightarrow> [''status''])"

abbreviation optional_artifact_field :: "(string \<times> json) list \<Rightarrow> artifact_ref option option" where
  "optional_artifact_field \<equiv> dflt_field None (json_option json_artifact_ref) ''artifact''"

definition reference_event :: "(string \<times> json) list \<Rightarrow> driver_event option" where
  "reference_event es = do {
     kind \<leftarrow> req_field json_event_kind ''kind'' es;
     only_fields (event_kind_fields kind) es;
     (case kind of
        EK_CommandAccepted \<Rightarrow> Some CommandAccepted
      | EK_CommandRejected \<Rightarrow> do {
          reason \<leftarrow> req_field json_command_rejection ''reason'' es;
          Some (CommandRejected reason) }
      | EK_WorkspaceReady \<Rightarrow> Some WorkspaceReady
      | EK_ThreadReady \<Rightarrow> do {
          thread \<leftarrow> req_field json_thread_handle ''thread'' es;
          role \<leftarrow> req_field json_driver_role ''role'' es;
          Some (ThreadReady thread role) }
      | EK_TurnFinished \<Rightarrow> do {
          outcome \<leftarrow> req_field json_turn_outcome_kind ''outcome'' es;
          artifact \<leftarrow> optional_artifact_field es;
          Some (TurnFinished outcome artifact) }
      | EK_DiffCollected \<Rightarrow> do {
          changed \<leftarrow> req_field json_bool ''changed'' es;
          artifact \<leftarrow> req_field json_artifact_ref ''artifact'' es;
          Some (DiffCollected changed artifact) }
      | EK_MergeBaseResolved \<Rightarrow> do {
          available \<leftarrow> req_field json_bool ''available'' es;
          artifact \<leftarrow> optional_artifact_field es;
          Some (MergeBaseResolved available artifact) }
      | EK_CommitRecorded \<Rightarrow> do {
          changed \<leftarrow> req_field json_bool ''changed'' es;
          artifact \<leftarrow> optional_artifact_field es;
          Some (CommitRecorded changed artifact) }
      | EK_CursorAdvanced \<Rightarrow> do {
          cursor \<leftarrow> req_field json_driver_cursor ''cursor'' es;
          Some (CursorAdvanced cursor) }
      | EK_RunSettled \<Rightarrow> do {
          status \<leftarrow> req_field json_driver_run_status ''status'' es;
          Some (RunSettled status) })
   }"

lemma event_field_of_simps [simp]:
  "event_field_of ''kind'' = Some EF_Kind"
  "event_field_of ''reason'' = Some EF_Reason"
  "event_field_of ''thread'' = Some EF_Thread"
  "event_field_of ''role'' = Some EF_Role"
  "event_field_of ''outcome'' = Some EF_Outcome"
  "event_field_of ''artifact'' = Some EF_Artifact"
  "event_field_of ''changed'' = Some EF_Changed"
  "event_field_of ''available'' = Some EF_Available"
  "event_field_of ''cursor'' = Some EF_Cursor"
  "event_field_of ''status'' = Some EF_Status"
  by (simp_all add: event_field_of_def)

lemma all_event_fields:
  "(\<forall>f. P f) \<longleftrightarrow> P EF_Kind \<and> P EF_Reason \<and> P EF_Thread \<and> P EF_Role \<and> P EF_Outcome \<and>
     P EF_Artifact \<and> P EF_Changed \<and> P EF_Available \<and> P EF_Cursor \<and> P EF_Status"
  by (metis driver_event_field.exhaust)

lemma empty_event_free [simp]: "event_slot_free f empty_event_slots"
  by (cases f) (simp_all add: empty_event_slots_def)

lemma event_put_get:
  "es_kind (event_put f v s) = (if f = EF_Kind then json_event_kind v else es_kind s)"
  "es_reason (event_put f v s) = (if f = EF_Reason then json_command_rejection v else es_reason s)"
  "es_thread (event_put f v s) = (if f = EF_Thread then json_thread_handle v else es_thread s)"
  "es_role (event_put f v s) = (if f = EF_Role then json_driver_role v else es_role s)"
  "es_outcome (event_put f v s) = (if f = EF_Outcome then json_turn_outcome_kind v else es_outcome s)"
  "es_artifact (event_put f v s) = (if f = EF_Artifact then json_option json_artifact_ref v else es_artifact s)"
  "es_changed (event_put f v s) = (if f = EF_Changed then json_bool v else es_changed s)"
  "es_available (event_put f v s) = (if f = EF_Available then json_bool v else es_available s)"
  "es_cursor (event_put f v s) = (if f = EF_Cursor then json_driver_cursor v else es_cursor s)"
  "es_status (event_put f v s) = (if f = EF_Status then json_driver_run_status v else es_status s)"
  by (cases f; simp)+

lemma event_filled:
  assumes "event_slots.readable es empty_event_slots"
  defines "s \<equiv> event_slots.filled es empty_event_slots"
  shows "es_kind s = req_field json_event_kind ''kind'' es"
    "es_reason s = req_field json_command_rejection ''reason'' es"
    "es_thread s = req_field json_thread_handle ''thread'' es"
    "es_role s = req_field json_driver_role ''role'' es"
    "es_outcome s = req_field json_turn_outcome_kind ''outcome'' es"
    "es_artifact s = req_field (json_option json_artifact_ref) ''artifact'' es"
    "es_changed s = req_field json_bool ''changed'' es"
    "es_available s = req_field json_bool ''available'' es"
    "es_cursor s = req_field json_driver_cursor ''cursor'' es"
    "es_status s = req_field json_driver_run_status ''status'' es"
  unfolding s_def event_put_get [THEN event_slots.slot_filled, OF assms(1)]
  by (simp_all add: empty_event_slots_def req_field_def cong: option.case_cong)

lemma json_artifact_ref_null [simp]: "json_artifact_ref JNull = None"
  by (simp add: json_artifact_ref_def struct_entries_def)

lemma dflt_readable:
  "dflt_field d dec k es = Some x \<Longrightarrow> map_of es k = Some v \<Longrightarrow> \<exists>y. dec v = Some y"
  by (simp add: dflt_field_def)

lemma json_option_readable: "dec v = Some y \<Longrightarrow> \<exists>z. json_option dec v = Some z"
  by (simp add: json_option_def)

lemma required_artifact_field:
  "required_artifact (req_field (json_option json_artifact_ref) k es) =
     req_field json_artifact_ref k es"
  by (auto simp: required_artifact_def req_field_def json_option_def map_option_case
      split: option.split)

lemma reference_event_readable:
  assumes "reference_event es = Some c"
  shows "event_slots.readable es empty_event_slots"
proof -
  from assms obtain kind where kind: "req_field json_event_kind ''kind'' es = Some kind"
    and only: "only_fields (event_kind_fields kind) es = Some ()"
    by (auto simp: reference_event_def Option.bind_eq_Some_conv)
  have "case event_field_of k of None \<Rightarrow> False | Some f \<Rightarrow> event_value_ok f v"
    if "k \<in> set (''kind'' # event_kind_fields kind)" "map_of es k = Some v" for k v
  proof (cases "k = ''kind''")
    case True
    with kind that(2) show ?thesis by (simp add: req_field_def)
  next
    case False
    with that assms kind only show ?thesis
      by (cases kind)
        (auto simp: reference_event_def event_kind_fields_def Option.bind_eq_Some_conv
          req_field_Some
          dest: dflt_readable json_option_readable)
  qed
  with only show ?thesis by (rule event_slots.only_fields_readable [OF _ empty_event_free])
qed

lemma json_driver_event_reference:
  "json_driver_event (JObject es) = reference_event es"
proof (cases "event_slots.readable es empty_event_slots")
  case False
  then have "reference_event es = None"
    using reference_event_readable by (cases "reference_event es") auto
  with False show ?thesis
    by (simp add: json_driver_event_def event_slots.read_build)
next
  case True
  note filled = event_filled [OF True]
  note only = event_slots.only_fields_filled [OF True empty_event_free, unfolded all_event_fields]
  have optional: "optional_artifact_field es =
      Some (optional_artifact (req_field (json_option json_artifact_ref) ''artifact'' es))"
    using event_slots.readable_ready [OF True, of EF_Artifact]
    by (auto simp: optional_artifact_def req_field_def dflt_field_def split: option.split)
  have "json_driver_event (JObject es) = build_event (event_slots.filled es empty_event_slots)"
    using True
    by (simp add: json_driver_event_def event_slots.read_build)
  also have "\<dots> = reference_event es"
  proof (cases "req_field json_event_kind ''kind'' es")
    case None
    then show ?thesis by (simp add: build_event_def reference_event_def filled)
  next
    case (Some kind)
    then show ?thesis
      by (cases kind)
        (simp_all add: build_event_def reference_event_def event_kind_fields_def filled only
          reject_extra_def required_artifact_field optional split: Option.bind_split)
  qed
  finally show ?thesis .
qed

interpretation event_kind_names: wire_names event_kind_as_str event_kind_variant
proof
  show "event_kind_variant (event_kind_as_str x) = Some x" "wire_text (event_kind_as_str x)" for x
    by (cases x; simp add: event_kind_variant_def wire_text_simps)+
  show "event_kind_variant s = Some x \<Longrightarrow> s = event_kind_as_str x" for s x
    by (cases x) (auto simp: event_kind_variant_def split: if_splits)
qed

interpretation event_kind: wire_codec "token_json event_kind_as_str" json_event_kind "\<lambda>_. True"
  by (rule event_kind_names.name_codec)

lemmas event_blind =
  field_blind event_kind.req_blind artifact_ref.req_blind artifact_ref.dflt_option_blind cursor.req_blind

lemma json_event_kind_name [simp]: "json_event_kind (JString s) = event_kind_variant s"
  by (simp add: json_name_def)

lemma json_option_artifact:
  "json_option json_artifact_ref (option_json artifact_ref_json a) =
     (if pred_option valid_artifact_ref a then Some a else None)"
proof -
  have "artifact_ref_json x \<noteq> JNull" for x by (simp add: artifact_ref_json_def)
  with option_codec [OF artifact_ref.wire_codec_axioms] show ?thesis
    by (simp add: wire_codec.dec_enc)
qed

lemma json_driver_event_JObject: "json_driver_event v = Some c \<Longrightarrow> \<exists>es. v = JObject es"
  by (cases v) (simp_all add: json_driver_event_def)

lemma reference_eventE:
  assumes "reference_event es = Some c"
  obtains kind where "req_field json_event_kind ''kind'' es = Some kind"
    "only_fields (event_kind_fields kind) es = Some ()"
  using assms by (auto simp: reference_event_def Option.bind_eq_Some_conv)

text \<open>The fields of a kind are read with their codecs, so they hold only tokens.\<close>

lemma reference_event_blind:
  assumes "reference_event es = Some c"
  shows "content_blind (JObject es)"
proof -
  from assms obtain kind where kind: "req_field json_event_kind ''kind'' es = Some kind"
    and only: "only_fields (event_kind_fields kind) es = Some ()"
    by (rule reference_eventE)
  have "list_all (blind_field es) (event_kind_fields kind)"
    using assms kind
    by (cases kind)
      (auto simp: reference_event_def event_kind_fields_def Option.bind_eq_Some_conv
        intro: event_blind)
  moreover have "list_all wire_text (''kind'' # event_kind_fields kind)"
    "distinct (''kind'' # event_kind_fields kind)"
    by (cases kind; simp add: event_kind_fields_def wire_text_simps)+
  ultimately show ?thesis
    using only kind
    by (intro struct_blind [where names = "''kind'' # event_kind_fields kind" and es = es])
      (simp_all add: only_fields_def event_kind.req_blind split: if_splits)
qed

interpretation event: wire_codec driver_event_json json_driver_event valid_driver_event
proof
  show "json_driver_event (driver_event_json c) =
      (if valid_driver_event c then Some c else None)" for c
    by (cases c)
      (simp_all add: json_driver_event_reference reference_event_def req_field_def
        only_fields_def event_kind_fields_def event_kind_variant_def dflt_field_def
        codec_simps json_option_artifact artifact_ref.dec_enc cursor.dec_enc)
  fix v c assume "json_driver_event v = Some c"
  then obtain es where v: "v = JObject es" and c: "reference_event es = Some c"
    using json_driver_event_JObject by (metis json_driver_event_reference)
  show "content_blind v" unfolding v using c by (rule reference_event_blind)
  from c obtain kind where "req_field json_event_kind ''kind'' es = Some kind"
    by (rule reference_eventE)
  then show "valid_driver_event c"
    using c
    by (cases kind)
      (auto simp: reference_event_def Option.bind_eq_Some_conv
        intro: thread_handle.req_good artifact_ref.req_good artifact_ref.dflt_option_good
          cursor.req_good)
qed

section \<open>Envelopes\<close>

lemma json_command_envelopeE:
  assumes "json_command_envelope v = Some e"
  obtains es where "struct_entries command_envelope_fields v = Some es"
    "req_field json_version ''protocol_version'' es = Some (ce_protocol_version e)"
    "req_field json_command_id ''command_id'' es = Some (ce_command_id e)"
    "req_field json_u64 ''sequence'' es = Some (ce_sequence e)"
    "req_field json_u64 ''expected_revision'' es = Some (ce_expected_revision e)"
    "req_field json_driver_command ''command'' es = Some (ce_command e)"
proof -
  from assms show thesis unfolding json_command_envelope_def Option.bind_eq_Some_conv
    by (elim exE conjE) (rule that, assumption, auto)
qed

lemma json_event_envelopeE:
  assumes "json_event_envelope v = Some e"
  obtains es where "struct_entries event_envelope_fields v = Some es"
    "req_field json_version ''protocol_version'' es = Some (ee_protocol_version e)"
    "req_field json_event_id ''event_id'' es = Some (ee_event_id e)"
    "req_field json_u64 ''sequence'' es = Some (ee_sequence e)"
    "req_field json_command_id ''command_id'' es = Some (ee_command_id e)"
    "req_field json_u64 ''observed_revision'' es = Some (ee_observed_revision e)"
    "req_field json_driver_event ''event'' es = Some (ee_event e)"
proof -
  from assms show thesis unfolding json_event_envelope_def Option.bind_eq_Some_conv
    by (elim exE conjE) (rule that, assumption, auto)
qed

lemmas envelope_names = command_envelope_fields_def event_envelope_fields_def

interpretation command_envelope:
  wire_codec command_envelope_json json_command_envelope valid_command_envelope
proof
  show "json_command_envelope (command_envelope_json e) =
      (if valid_command_envelope e then Some e else None)" for e
    by (simp add: json_command_envelope_def command_envelope_json_def envelope_names write_simps
        codec_simps command.dec_enc valid_command_envelope_def)
  fix v e assume read: "json_command_envelope v = Some e"
  show "valid_command_envelope e"
    using read by (rule json_command_envelopeE)
      (simp add: valid_command_envelope_def version.req_good command_id.req_good command.req_good)
  show "content_blind v"
    using read by (rule json_command_envelopeE)
      (erule struct_blind; simp add: envelope_names wire_text_simps field_blind command.req_blind)
qed

interpretation event_envelope:
  wire_codec event_envelope_json json_event_envelope valid_event_envelope
proof
  show "json_event_envelope (event_envelope_json e) =
      (if valid_event_envelope e then Some e else None)" for e
    by (simp add: json_event_envelope_def event_envelope_json_def envelope_names write_simps
        codec_simps event.dec_enc valid_event_envelope_def)
  fix v e assume read: "json_event_envelope v = Some e"
  show "valid_event_envelope e"
    using read by (rule json_event_envelopeE)
      (simp add: valid_event_envelope_def version.req_good event_id.req_good command_id.req_good
        event.req_good)
  show "content_blind v"
    using read by (rule json_event_envelopeE)
      (erule struct_blind; simp add: envelope_names wire_text_simps field_blind event.req_blind)
qed

end
