(* ===== verification/Driver_Store.thy ===== *)
theory Driver_Store
  imports Driver_Cursor Slots
begin

text \<open>
  What a run persists about its driver, and how it is read back
  (\<open>crates/relay-api/src/orchestration.rs\<close>): the backend it is pinned to, the progress counters
  and the command journal. These readers never fail; what they cannot trust becomes an unknown
  backend, a malformed progress or a malformed journal.
\<close>

section \<open>Lenient values\<close>

text \<open>
  \<open>LenientString\<close>, \<open>LenientU32\<close>, \<open>LenientU64\<close>, \<open>LenientBool\<close> and \<open>LenientNullableString\<close>:
  readers that take any value and keep it only if it has the expected shape.
\<close>

definition lenient_string :: "json \<Rightarrow> string option" where
  "lenient_string v = (case v of JString s \<Rightarrow> Some s | _ \<Rightarrow> None)"

definition lenient_u32 :: "json \<Rightarrow> u32 option" where
  "lenient_u32 v =
     (case v of JInt i \<Rightarrow> if 0 \<le> i \<and> i < 2 ^ 32 then Some (word_of_int i) else None | _ \<Rightarrow> None)"

definition lenient_u64 :: "json \<Rightarrow> u64 option" where
  "lenient_u64 v =
     (case v of JInt i \<Rightarrow> if 0 \<le> i \<and> i < 2 ^ 64 then Some (word_of_int i) else None | _ \<Rightarrow> None)"

definition lenient_bool :: "json \<Rightarrow> bool option" where
  "lenient_bool v = (case v of JBool b \<Rightarrow> Some b | _ \<Rightarrow> None)"

datatype nullable_string = LNS_Null | LNS_Value string | LNS_Invalid

definition lenient_nullable_string :: "json \<Rightarrow> nullable_string" where
  "lenient_nullable_string v =
     (case v of JNull \<Rightarrow> LNS_Null | JString s \<Rightarrow> LNS_Value s | _ \<Rightarrow> LNS_Invalid)"

lemma lenient_numbers: "lenient_u32 = json_u32" "lenient_u64 = json_u64"
  by (simp_all add: fun_eq_iff lenient_u32_def json_u32_def lenient_u64_def json_u64_def)

section \<open>The backend of a run\<close>

datatype backend_field =
    BF_Kind | BF_OriginalKind | BF_ProtocolVersion | BF_DriverVersion | BF_CloudRunId

text \<open>\<open>None\<close> is the code's \<open>Field::Unknown\<close>.\<close>

definition backend_field_of :: "string \<Rightarrow> backend_field option" where
  "backend_field_of raw =
     (if raw = ''kind'' then Some BF_Kind
      else if raw = ''original_kind'' then Some BF_OriginalKind
      else if raw = ''protocol_version'' then Some BF_ProtocolVersion
      else if raw = ''driver_version'' then Some BF_DriverVersion
      else if raw = ''cloud_run_id'' then Some BF_CloudRunId
      else None)"

record backend_slots =
  bs_kind :: "string option"
  bs_original_kind :: "string option"
  bs_protocol_version :: "u32 option"
  bs_driver_version :: "string option"
  bs_cloud_run_id :: "string option"
  bs_unsupported_shape :: bool
  bs_kind_seen :: bool
  bs_original_kind_seen :: bool
  bs_protocol_version_seen :: bool
  bs_driver_version_seen :: bool
  bs_cloud_run_id_seen :: bool

definition empty_backend_slots :: backend_slots where
  "empty_backend_slots =
     \<lparr>bs_kind = None, bs_original_kind = None, bs_protocol_version = None,
      bs_driver_version = None, bs_cloud_run_id = None, bs_unsupported_shape = False,
      bs_kind_seen = False, bs_original_kind_seen = False, bs_protocol_version_seen = False,
      bs_driver_version_seen = False, bs_cloud_run_id_seen = False\<rparr>"

abbreviation soiled :: "bool \<Rightarrow> backend_slots \<Rightarrow> backend_slots" where
  "soiled b s \<equiv> s\<lparr>bs_unsupported_shape := bs_unsupported_shape s \<or> b\<rparr>"

definition backend_step :: "string \<Rightarrow> json \<Rightarrow> backend_slots \<Rightarrow> backend_slots" where
  "backend_step k v s =
     (case backend_field_of k of
        None \<Rightarrow> soiled True s
      | Some BF_Kind \<Rightarrow>
          if bs_kind_seen s then soiled True s
          else soiled (lenient_string v = None) (s\<lparr>bs_kind_seen := True, bs_kind := lenient_string v\<rparr>)
      | Some BF_OriginalKind \<Rightarrow>
          if bs_original_kind_seen s then soiled True s
          else soiled (lenient_string v = None)
            (s\<lparr>bs_original_kind_seen := True, bs_original_kind := lenient_string v\<rparr>)
      | Some BF_ProtocolVersion \<Rightarrow>
          if bs_protocol_version_seen s then soiled True s
          else soiled (lenient_u32 v = None)
            (s\<lparr>bs_protocol_version_seen := True, bs_protocol_version := lenient_u32 v\<rparr>)
      | Some BF_DriverVersion \<Rightarrow>
          if bs_driver_version_seen s then soiled True s
          else soiled (lenient_string v = None)
            (s\<lparr>bs_driver_version_seen := True, bs_driver_version := lenient_string v\<rparr>)
      | Some BF_CloudRunId \<Rightarrow>
          if bs_cloud_run_id_seen s then soiled True s
          else soiled (lenient_string v = None)
            (s\<lparr>bs_cloud_run_id_seen := True, bs_cloud_run_id := lenient_string v\<rparr>))"

definition valid_driver_run_id :: "driver_run_id \<Rightarrow> bool" where
  "valid_driver_run_id x = valid_token ''driver_run_id'' MAX_OPAQUE_ID_LEN (driver_run_id_str x)"

definition valid_unknown_backend_kind :: "unknown_backend_kind \<Rightarrow> bool" where
  "valid_unknown_backend_kind x =
     valid_token ''unknown_backend_kind'' MAX_OPAQUE_ID_LEN (unknown_backend_kind_str x)"

text \<open>The end of \<open>visit_map\<close>: the backend that the slots describe.\<close>

definition finish_backend :: "backend_slots \<Rightarrow> backend_ref" where
  "finish_backend s =
     (let unknown = unknown_non_executing_from_parts
            (case bs_original_kind s of None \<Rightarrow> bs_kind s | Some k \<Rightarrow> Some k)
            (bs_protocol_version s) (bs_driver_version s) (bs_cloud_run_id s);
          version = Option.bind (bs_protocol_version s) (\<lambda>n. ok (supported_version n));
          driver = Option.bind (bs_driver_version s) (\<lambda>raw. ok (new_driver_version raw));
          run = Option.bind (bs_cloud_run_id s) (\<lambda>raw. ok (new_driver_run_id raw))
      in case bs_kind s of
           None \<Rightarrow> unknown
         | Some kind \<Rightarrow>
             if kind = ''legacy_embedded'' then
               (if bs_unsupported_shape s \<or> bs_original_kind s \<noteq> None \<or>
                   bs_protocol_version s \<noteq> None \<or> bs_driver_version s \<noteq> None \<or>
                   bs_cloud_run_id s \<noteq> None
                then unknown else LegacyEmbedded)
             else if kind = ''cloud'' then
               (if bs_unsupported_shape s \<or> bs_original_kind s \<noteq> None then unknown
                else case version of None \<Rightarrow> unknown | Some v \<Rightarrow>
                     (case driver of None \<Rightarrow> unknown | Some d \<Rightarrow>
                     (case run of None \<Rightarrow> unknown | Some r \<Rightarrow> Cloud v d r)))
             else if kind = ''local_sidecar'' then
               (if bs_unsupported_shape s \<or> bs_original_kind s \<noteq> None \<or> bs_cloud_run_id s \<noteq> None
                then unknown
                else case version of None \<Rightarrow> unknown | Some v \<Rightarrow>
                     (case driver of None \<Rightarrow> unknown | Some d \<Rightarrow> LocalSidecar v d))
             else if kind = ''unknown_non_executing'' then
               unknown_non_executing_from_parts (bs_original_kind s) (bs_protocol_version s)
                 (bs_driver_version s) (bs_cloud_run_id s)
             else unknown)"

definition json_backend :: "json \<Rightarrow> backend_ref" where
  "json_backend v =
     (case v of
        JString s \<Rightarrow> unknown_non_executing_from_parts (Some s) None None None
      | JObject es \<Rightarrow> finish_backend (fold (\<lambda>(k, v). backend_step k v) es empty_backend_slots)
      | _ \<Rightarrow> unknown_non_executing)"

fun backend_json :: "backend_ref \<Rightarrow> json" where
  "backend_json LegacyEmbedded = JObject [(''kind'', JString ''legacy_embedded'')]"
| "backend_json (Cloud v d r) =
     JObject
       [(''kind'', JString ''cloud''), (''protocol_version'', u32_json v),
        (''driver_version'', driver_version_json d),
        (''cloud_run_id'', token_json driver_run_id_str r)]"
| "backend_json (LocalSidecar v d) =
     JObject
       [(''kind'', JString ''local_sidecar''), (''protocol_version'', u32_json v),
        (''driver_version'', driver_version_json d)]"
| "backend_json (UnknownNonExecuting kind v d r) =
     JObject
       ([(''kind'', JString ''unknown_non_executing'')] @
        skip_none ''original_kind'' (token_json unknown_backend_kind_str) kind @
        skip_none ''protocol_version'' u32_json v @
        skip_none ''driver_version'' driver_version_json d @
        skip_none ''cloud_run_id'' (token_json driver_run_id_str) r)"

fun valid_backend :: "backend_ref \<Rightarrow> bool" where
  "valid_backend LegacyEmbedded = True"
| "valid_backend (Cloud v d r) =
     (valid_version v \<and> valid_driver_version d \<and> valid_driver_run_id r)"
| "valid_backend (LocalSidecar v d) = (valid_version v \<and> valid_driver_version d)"
| "valid_backend (UnknownNonExecuting kind v d r) =
     (pred_option valid_unknown_backend_kind kind \<and> pred_option valid_driver_version d \<and>
      pred_option valid_driver_run_id r)"

section \<open>Progress\<close>

datatype progress_field =
    PF_StateRevision | PF_LastCommandSeq | PF_LastEventSeq | PF_InFlightCommandId | PF_Malformed

definition progress_field_of :: "string \<Rightarrow> progress_field option" where
  "progress_field_of raw =
     (if raw = ''state_revision'' then Some PF_StateRevision
      else if raw = ''last_command_seq'' then Some PF_LastCommandSeq
      else if raw = ''last_event_seq'' then Some PF_LastEventSeq
      else if raw = ''in_flight_command_id'' then Some PF_InFlightCommandId
      else if raw = ''malformed'' then Some PF_Malformed
      else None)"

text \<open>The progress being read and the fields seen so far.\<close>

record progress_slots =
  ps_progress :: driver_progress
  ps_seen :: "progress_field set"

definition bad_progress :: "progress_slots \<Rightarrow> progress_slots" where
  "bad_progress s = s\<lparr>ps_progress := ps_progress s\<lparr>dp_malformed := True\<rparr>\<rparr>"

definition read_progress_field ::
    "progress_field \<Rightarrow> json \<Rightarrow> driver_progress \<Rightarrow> driver_progress" where
  "read_progress_field f v p =
     (case f of
        PF_StateRevision \<Rightarrow>
          (case lenient_u64 v of
             Some n \<Rightarrow> p\<lparr>dp_state_revision := n\<rparr> | None \<Rightarrow> p\<lparr>dp_malformed := True\<rparr>)
      | PF_LastCommandSeq \<Rightarrow>
          (case lenient_u64 v of
             Some n \<Rightarrow> p\<lparr>dp_last_command_seq := n\<rparr> | None \<Rightarrow> p\<lparr>dp_malformed := True\<rparr>)
      | PF_LastEventSeq \<Rightarrow>
          (case lenient_u64 v of
             Some n \<Rightarrow> p\<lparr>dp_last_event_seq := n\<rparr> | None \<Rightarrow> p\<lparr>dp_malformed := True\<rparr>)
      | PF_InFlightCommandId \<Rightarrow>
          (case lenient_nullable_string v of
             LNS_Null \<Rightarrow> p\<lparr>dp_in_flight_command_id := None\<rparr>
           | LNS_Value raw \<Rightarrow>
               (case new_command_id raw of
                  Inr i \<Rightarrow> p\<lparr>dp_in_flight_command_id := Some i\<rparr>
                | Inl _ \<Rightarrow> p\<lparr>dp_malformed := True\<rparr>)
           | LNS_Invalid \<Rightarrow> p\<lparr>dp_malformed := True\<rparr>)
      | PF_Malformed \<Rightarrow>
          (case lenient_bool v of
             Some b \<Rightarrow> p\<lparr>dp_malformed := dp_malformed p \<or> b\<rparr>
           | None \<Rightarrow> p\<lparr>dp_malformed := True\<rparr>))"

definition progress_step :: "string \<Rightarrow> json \<Rightarrow> progress_slots \<Rightarrow> progress_slots" where
  "progress_step k v s =
     (case progress_field_of k of
        None \<Rightarrow> bad_progress s
      | Some f \<Rightarrow>
          if f \<in> ps_seen s then bad_progress s
          else \<lparr>ps_progress = read_progress_field f v (ps_progress s),
                ps_seen = insert f (ps_seen s)\<rparr>)"

definition json_progress :: "json \<Rightarrow> driver_progress" where
  "json_progress v =
     (case v of
        JObject es \<Rightarrow>
          ps_progress (fold (\<lambda>(k, v). progress_step k v) es
            \<lparr>ps_progress = default_driver_progress, ps_seen = {}\<rparr>)
      | _ \<Rightarrow> malformed_driver_progress)"

definition progress_json :: "driver_progress \<Rightarrow> json" where
  "progress_json p =
     JObject
       ([(''state_revision'', u64_json (dp_state_revision p)),
         (''last_command_seq'', u64_json (dp_last_command_seq p)),
         (''last_event_seq'', u64_json (dp_last_event_seq p)),
         (''in_flight_command_id'', option_json command_id_json (dp_in_flight_command_id p))] @
        (if dp_malformed p then [(''malformed'', JBool True)] else []))"

definition valid_progress :: "driver_progress \<Rightarrow> bool" where
  "valid_progress p \<longleftrightarrow> pred_option valid_command_id (dp_in_flight_command_id p)"

end
