(* ===== verification/Driver_Store_Facts.thy ===== *)
theory Driver_Store_Facts
  imports Driver_Store
begin

text \<open>
  What the lenient readers of the persisted driver state promise: they keep what this build wrote,
  and they trust nothing else.
\<close>

section \<open>The backend\<close>

fun backend_field_name :: "backend_field \<Rightarrow> string" where
  "backend_field_name BF_Kind = ''kind''"
| "backend_field_name BF_OriginalKind = ''original_kind''"
| "backend_field_name BF_ProtocolVersion = ''protocol_version''"
| "backend_field_name BF_DriverVersion = ''driver_version''"
| "backend_field_name BF_CloudRunId = ''cloud_run_id''"

fun backend_ready :: "backend_field \<Rightarrow> json \<Rightarrow> bool" where
  "backend_ready BF_ProtocolVersion v = (lenient_u32 v \<noteq> None)"
| "backend_ready _ v = (lenient_string v \<noteq> None)"

fun backend_put :: "backend_field \<Rightarrow> json \<Rightarrow> backend_slots \<Rightarrow> backend_slots" where
  "backend_put BF_Kind v s = s\<lparr>bs_kind_seen := True, bs_kind := lenient_string v\<rparr>"
| "backend_put BF_OriginalKind v s =
     s\<lparr>bs_original_kind_seen := True, bs_original_kind := lenient_string v\<rparr>"
| "backend_put BF_ProtocolVersion v s =
     s\<lparr>bs_protocol_version_seen := True, bs_protocol_version := lenient_u32 v\<rparr>"
| "backend_put BF_DriverVersion v s =
     s\<lparr>bs_driver_version_seen := True, bs_driver_version := lenient_string v\<rparr>"
| "backend_put BF_CloudRunId v s =
     s\<lparr>bs_cloud_run_id_seen := True, bs_cloud_run_id := lenient_string v\<rparr>"

fun backend_free :: "backend_field \<Rightarrow> backend_slots \<Rightarrow> bool" where
  "backend_free BF_Kind s = (\<not> bs_kind_seen s)"
| "backend_free BF_OriginalKind s = (\<not> bs_original_kind_seen s)"
| "backend_free BF_ProtocolVersion s = (\<not> bs_protocol_version_seen s)"
| "backend_free BF_DriverVersion s = (\<not> bs_driver_version_seen s)"
| "backend_free BF_CloudRunId s = (\<not> bs_cloud_run_id_seen s)"

interpretation backend_reader:
  lenient_reader backend_field_of backend_field_name backend_ready backend_put backend_free
    backend_step bs_unsupported_shape
proof
  show field: "backend_field_of k = Some f \<longleftrightarrow> k = backend_field_name f" for k f
    by (cases f) (auto simp: backend_field_of_def)
  show "backend_free g (backend_put f v s) \<longleftrightarrow> g \<noteq> f \<and> backend_free g s" for f v g s
    by (cases f; cases g; simp)
  show "backend_step k v s = backend_put f v s"
    if "backend_field_of k = Some f" "backend_free f s" "backend_ready f v" for k f s v
    using that by (cases f; cases s) (auto simp: backend_step_def)
  show "bs_unsupported_shape (backend_step k v s) \<longleftrightarrow>
      bs_unsupported_shape s \<or>
      (case backend_field_of k of None \<Rightarrow> True | Some f \<Rightarrow> \<not> (backend_free f s \<and> backend_ready f v))"
    for k v s
    by (auto simp: backend_step_def split: option.split backend_field.split)
qed

lemma empty_backend_free [simp]: "backend_free f empty_backend_slots"
  by (cases f) (simp_all add: empty_backend_slots_def)

lemma empty_backend_kind [simp]: "bs_kind empty_backend_slots = None"
  by (simp add: empty_backend_slots_def)

lemma backend_put_get:
  "bs_kind (backend_put f v s) = (if f = BF_Kind then lenient_string v else bs_kind s)"
  "bs_original_kind (backend_put f v s) =
     (if f = BF_OriginalKind then lenient_string v else bs_original_kind s)"
  "bs_protocol_version (backend_put f v s) =
     (if f = BF_ProtocolVersion then lenient_u32 v else bs_protocol_version s)"
  "bs_driver_version (backend_put f v s) =
     (if f = BF_DriverVersion then lenient_string v else bs_driver_version s)"
  "bs_cloud_run_id (backend_put f v s) =
     (if f = BF_CloudRunId then lenient_string v else bs_cloud_run_id s)"
  by (cases f; simp)+

lemmas backend_filled = backend_put_get [THEN backend_reader.slot_filled]

lemma finish_legacy:
  "finish_backend s = LegacyEmbedded \<longleftrightarrow>
     bs_kind s = Some ''legacy_embedded'' \<and> \<not> bs_unsupported_shape s \<and>
     bs_original_kind s = None \<and> bs_protocol_version s = None \<and> bs_driver_version s = None \<and>
     bs_cloud_run_id s = None"
  by (auto simp: finish_backend_def Let_def unknown_non_executing_from_parts_def
      split: option.splits if_splits)

lemma executable_legacy: "executable_by_current_build b \<longleftrightarrow> b = LegacyEmbedded"
  by (cases b) simp_all

lemma backend_object_legacy:
  assumes "finish_backend (backend_reader.walk es empty_backend_slots) = LegacyEmbedded"
  shows "es = [(''kind'', JString ''legacy_embedded'')]"
proof -
  let ?s = "backend_reader.walk es empty_backend_slots"
  have r: "backend_reader.readable es empty_backend_slots"
    using assms by (simp add: finish_legacy backend_reader.walk_clean)
  then have s: "?s = backend_reader.filled es empty_backend_slots"
    by (rule backend_reader.walk_filled)
  note slots = backend_filled [OF r, folded s]
  have gone: "map_of es (backend_field_name f) = None" if "f \<noteq> BF_Kind" for f
  proof (rule ccontr)
    assume "map_of es (backend_field_name f) \<noteq> None"
    then obtain v where v: "map_of es (backend_field_name f) = Some v" by blast
    with backend_reader.readable_ready [OF r] have "backend_ready f v" by blast
    with v that assms show False by (cases f) (auto simp: finish_legacy slots)
  qed
  have "k = ''kind''" if "(k, v) \<in> set es" for k v
  proof -
    from r that obtain f where f: "k = backend_field_name f"
      by (auto simp: backend_reader.readable_def)
    have "map_of es k \<noteq> None" using weak_map_of_SomeI [OF that] by auto
    with f have "\<not> map_of es (backend_field_name f) = None" by simp
    with gone [of f] have "f = BF_Kind" by metis
    with f show ?thesis by simp
  qed
  then have keys: "set (map fst es) \<subseteq> {''kind''}" by auto
  moreover have "distinct (map fst es)" using r by (simp add: backend_reader.readable_def)
  moreover have "bs_kind ?s = Some ''legacy_embedded''" using assms by (simp add: finish_legacy)
  then have "map_of es ''kind'' = Some (JString ''legacy_embedded'')"
    by (simp add: slots(1) lenient_string_def split: option.splits json.splits)
  ultimately show ?thesis
    by (cases es; cases "tl es") auto
qed

text \<open>
  The one stored backend that this build will execute is the object whose only entry is the
  kind \<open>legacy_embedded\<close>: any other stored value, from a newer build or corrupt, is read as a
  backend that is kept and shown but never driven.
\<close>

theorem backend_executable_only_exact:
  "executable_by_current_build (json_backend v) \<longleftrightarrow>
     v = JObject [(''kind'', JString ''legacy_embedded'')]"
proof
  assume "executable_by_current_build (json_backend v)"
  then have b: "json_backend v = LegacyEmbedded" by (simp add: executable_legacy)
  then obtain es where v: "v = JObject es"
    by (cases v) (simp_all add: json_backend_def unknown_non_executing_def
        unknown_non_executing_from_parts_def)
  with b backend_object_legacy [of es] show "v = JObject [(''kind'', JString ''legacy_embedded'')]"
    by (simp add: json_backend_def)
next
  assume "v = JObject [(''kind'', JString ''legacy_embedded'')]"
  then show "executable_by_current_build (json_backend v)"
    by (simp add: json_backend_def backend_step_def backend_field_of_def empty_backend_slots_def
        finish_backend_def lenient_string_def)
qed

section \<open>Backends read and written\<close>

lemma ok_new_driver_version [simp]:
  "ok (new_driver_version (driver_version_str d)) = (if valid_driver_version d then Some d else None)"
  using driver_version.dec_enc [of d] by (simp add: json_token_def token_json_def)

lemma driver_run_id_codec:
  "wire_codec (token_json driver_run_id_str) (json_token new_driver_run_id) valid_driver_run_id"
  unfolding valid_driver_run_id_def
  by (rule token_codec) (simp add: new_driver_run_id_def, simp_all)

lemma unknown_kind_codec:
  "wire_codec (token_json unknown_backend_kind_str) (json_token new_unknown_backend_kind)
     valid_unknown_backend_kind"
  unfolding valid_unknown_backend_kind_def
  by (rule token_codec) (simp add: new_unknown_backend_kind_def, simp_all)

interpretation driver_run_id:
  wire_codec "token_json driver_run_id_str" "json_token new_driver_run_id" valid_driver_run_id
  by (rule driver_run_id_codec)

interpretation unknown_kind:
  wire_codec "token_json unknown_backend_kind_str" "json_token new_unknown_backend_kind"
    valid_unknown_backend_kind
  by (rule unknown_kind_codec)

lemma ok_new_tokens [simp]:
  "ok (new_driver_run_id (driver_run_id_str r)) = (if valid_driver_run_id r then Some r else None)"
  "ok (new_unknown_backend_kind (unknown_backend_kind_str k)) =
     (if valid_unknown_backend_kind k then Some k else None)"
  using driver_run_id.dec_enc [of r] unknown_kind.dec_enc [of k]
  by (simp_all add: json_token_def token_json_def)

lemma ok_new_good:
  "ok (new_driver_version raw) = Some d \<Longrightarrow> valid_driver_version d"
  "ok (new_driver_run_id raw) = Some r \<Longrightarrow> valid_driver_run_id r"
  "ok (new_unknown_backend_kind raw) = Some k \<Longrightarrow> valid_unknown_backend_kind k"
  using driver_version.dec_good [of "JString raw"] driver_run_id.dec_good [of "JString raw"]
    unknown_kind.dec_good [of "JString raw"]
  by (simp_all add: json_token_def)

lemma from_parts_valid [simp]: "valid_backend (unknown_non_executing_from_parts k v d r)"
  by (auto simp: unknown_non_executing_from_parts_def option.pred_set Option.bind_eq_Some_conv
      dest: ok_new_good split: option.splits)

lemma bind_ok_good:
  "Option.bind x (\<lambda>n. ok (supported_version n)) = Some v \<Longrightarrow> valid_version v"
  "Option.bind y (\<lambda>raw. ok (new_driver_version raw)) = Some d \<Longrightarrow> valid_driver_version d"
  "Option.bind y (\<lambda>raw. ok (new_driver_run_id raw)) = Some r \<Longrightarrow> valid_driver_run_id r"
  by (auto simp: Option.bind_eq_Some_conv ok_supported_version dest: ok_new_good split: if_splits)

lemma finish_valid: "valid_backend (finish_backend s)"
  unfolding finish_backend_def Let_def
  by (simp split: option.split) (blast intro: bind_ok_good)

lemma json_backend_valid: "valid_backend (json_backend v)"
  by (cases v) (simp_all add: json_backend_def finish_valid unknown_non_executing_def)

lemma lenient_u32_json [simp]: "lenient_u32 (u32_json n) = Some n"
  by (simp add: lenient_numbers json_u32_roundtrip)

lemma lenient_token_json [simp]: "lenient_string (token_json f x) = Some (f x)"
  by (simp add: lenient_string_def token_json_def)

lemma lenient_JString [simp]: "lenient_string (JString s) = Some s"
  by (simp add: lenient_string_def)

text \<open>An expected entry fills its slot.\<close>

lemma backend_steps:
  "\<not> bs_kind_seen s \<Longrightarrow> lenient_string v = Some x \<Longrightarrow>
     backend_step ''kind'' v s = s\<lparr>bs_kind_seen := True, bs_kind := Some x\<rparr>"
  "\<not> bs_original_kind_seen s \<Longrightarrow> lenient_string v = Some x \<Longrightarrow>
     backend_step ''original_kind'' v s =
       s\<lparr>bs_original_kind_seen := True, bs_original_kind := Some x\<rparr>"
  "\<not> bs_protocol_version_seen s \<Longrightarrow> lenient_u32 v = Some n \<Longrightarrow>
     backend_step ''protocol_version'' v s =
       s\<lparr>bs_protocol_version_seen := True, bs_protocol_version := Some n\<rparr>"
  "\<not> bs_driver_version_seen s \<Longrightarrow> lenient_string v = Some x \<Longrightarrow>
     backend_step ''driver_version'' v s =
       s\<lparr>bs_driver_version_seen := True, bs_driver_version := Some x\<rparr>"
  "\<not> bs_cloud_run_id_seen s \<Longrightarrow> lenient_string v = Some x \<Longrightarrow>
     backend_step ''cloud_run_id'' v s =
       s\<lparr>bs_cloud_run_id_seen := True, bs_cloud_run_id := Some x\<rparr>"
  by (cases s; simp add: backend_step_def backend_field_of_def)+

lemma json_backend_json:
  assumes "valid_backend b"
  shows "json_backend (backend_json b) = b"
proof (cases b)
  case (UnknownNonExecuting k v d r)
  with assms show ?thesis
    by (cases k; cases v; cases d; cases r)
      (simp_all add: json_backend_def backend_steps empty_backend_slots_def finish_backend_def
        Let_def unknown_non_executing_from_parts_def skip_none_def)
qed (use assms in \<open>simp_all add: json_backend_def backend_steps empty_backend_slots_def
    finish_backend_def Let_def ok_supported_version\<close>)

section \<open>Progress\<close>

fun progress_field_name :: "progress_field \<Rightarrow> string" where
  "progress_field_name PF_StateRevision = ''state_revision''"
| "progress_field_name PF_LastCommandSeq = ''last_command_seq''"
| "progress_field_name PF_LastEventSeq = ''last_event_seq''"
| "progress_field_name PF_InFlightCommandId = ''in_flight_command_id''"
| "progress_field_name PF_Malformed = ''malformed''"

text \<open>What this build writes under each field of a clean progress.\<close>

fun progress_ready :: "progress_field \<Rightarrow> json \<Rightarrow> bool" where
  "progress_ready PF_InFlightCommandId v = (json_option json_command_id v \<noteq> None)"
| "progress_ready PF_Malformed v = (v = JBool False)"
| "progress_ready _ v = (json_u64 v \<noteq> None)"

definition progress_put :: "progress_field \<Rightarrow> json \<Rightarrow> progress_slots \<Rightarrow> progress_slots" where
  "progress_put f v s =
     \<lparr>ps_progress = read_progress_field f v (ps_progress s), ps_seen = insert f (ps_seen s)\<rparr>"

lemma read_progress_dirty:
  "dp_malformed (read_progress_field f v p) \<longleftrightarrow> dp_malformed p \<or> \<not> progress_ready f v"
proof (cases f)
  case PF_InFlightCommandId
  then show ?thesis
    by (auto simp: read_progress_field_def lenient_nullable_string_def json_option_def
        json_token_def ok_def split: json.split sum.split)
next
  case PF_Malformed
  then show ?thesis
    by (auto simp: read_progress_field_def lenient_bool_def split: json.split)
qed (auto simp: read_progress_field_def lenient_numbers split: option.split)

interpretation progress_reader:
  lenient_reader progress_field_of progress_field_name progress_ready progress_put
    "\<lambda>f s. f \<notin> ps_seen s" progress_step "\<lambda>s. dp_malformed (ps_progress s)"
proof
  show "progress_field_of k = Some f \<longleftrightarrow> k = progress_field_name f" for k f
    by (cases f) (auto simp: progress_field_of_def)
  show "g \<notin> ps_seen (progress_put f v s) \<longleftrightarrow> g \<noteq> f \<and> g \<notin> ps_seen s" for f v g s
    by (simp add: progress_put_def)
  show "progress_step k v s = progress_put f v s"
    if "progress_field_of k = Some f" "f \<notin> ps_seen s" for k f s v
    using that by (simp add: progress_step_def progress_put_def)
  show "dp_malformed (ps_progress (progress_step k v s)) \<longleftrightarrow>
      dp_malformed (ps_progress s) \<or>
      (case progress_field_of k of None \<Rightarrow> True | Some f \<Rightarrow> \<not> (f \<notin> ps_seen s \<and> progress_ready f v))"
    for k v s
    by (simp add: progress_step_def bad_progress_def read_progress_dirty split: option.split)
qed

text \<open>An object that this build could have written for a clean progress.\<close>

definition clean_progress_object :: "(string \<times> json) list \<Rightarrow> bool" where
  "clean_progress_object es \<longleftrightarrow>
     distinct (map fst es) \<and>
     list_all (\<lambda>(k, v). case progress_field_of k of None \<Rightarrow> False | Some f \<Rightarrow> progress_ready f v) es"

lemma clean_readable:
  "clean_progress_object es \<longleftrightarrow>
     progress_reader.readable es \<lparr>ps_progress = default_driver_progress, ps_seen = {}\<rparr>"
  by (auto simp: clean_progress_object_def progress_reader.readable_def list_all_iff
      progress_reader.ex_field)

lemma json_progress_clean:
  "\<not> dp_malformed (json_progress v) \<longleftrightarrow> (\<exists>es. v = JObject es \<and> clean_progress_object es)"
  by (cases v)
    (auto simp: json_progress_def malformed_driver_progress_def clean_readable
      default_driver_progress_def progress_reader.walk_clean)

lemma new_command_id_str [simp]:
  "valid_command_id i \<Longrightarrow> new_command_id (command_id_str i) = Inr i"
  using command_id.dec_enc [of i]
  by (simp add: json_token_def token_json_def ok_def split: sum.splits)

lemma new_command_id_good: "new_command_id raw = Inr i \<Longrightarrow> valid_command_id i"
  using command_id.dec_good [of "JString raw" i] by (simp add: json_token_def ok_def)

lemma json_progress_json:
  assumes "valid_progress p"
  shows "json_progress (progress_json p) = p"
  using assms
  by (cases "dp_in_flight_command_id p"; cases "dp_malformed p"; cases p)
    (simp_all add: json_progress_def progress_json_def progress_step_def progress_field_of_def
      read_progress_field_def lenient_numbers json_u64_roundtrip default_driver_progress_def
      option_json_def token_json_def lenient_nullable_string_def lenient_bool_def
      valid_progress_def)

lemma read_progress_valid: "valid_progress p \<Longrightarrow> valid_progress (read_progress_field f v p)"
  by (cases f)
    (auto simp: read_progress_field_def valid_progress_def new_command_id_good
      split: option.split nullable_string.split sum.split)

lemma walk_progress_valid:
  "valid_progress (ps_progress s) \<Longrightarrow> valid_progress (ps_progress (progress_reader.walk es s))"
proof (induction es arbitrary: s)
  case Nil
  then show ?case by simp
next
  case (Cons e es)
  obtain k v where e: "e = (k, v)" by force
  have "valid_progress (ps_progress (progress_step k v s))"
    using Cons.prems
    by (auto simp: progress_step_def bad_progress_def read_progress_valid
        split: option.split) (simp_all add: valid_progress_def)
  with Cons.IH show ?case by (simp add: e)
qed

lemma json_progress_valid: "valid_progress (json_progress v)"
  using walk_progress_valid [of "\<lparr>ps_progress = default_driver_progress, ps_seen = {}\<rparr>"]
  by (cases v)
    (simp_all add: json_progress_def valid_progress_def malformed_driver_progress_def
      default_driver_progress_def)

text \<open>
  A stored backend and a stored progress are read back as they were written exactly when
  their ids and versions are ones this build can construct; a malformed mark survives with the
  counters beside it.
\<close>

theorem stored_driver_state_roundtrip:
  "(json_backend (backend_json b) = b \<longleftrightarrow> valid_backend b) \<and>
   (json_progress (progress_json p) = p \<longleftrightarrow> valid_progress p)"
  by (metis json_backend_json json_backend_valid json_progress_json json_progress_valid)

end
