(* ===== verification/Driver_Facts.thy ===== *)
theory Driver_Facts
  imports Driver_Events Driver_Store_Facts Samples
begin

text \<open>
  The properties of the driver protocol as a whole: what is written is read back, the
  hand-written readers are the reference readings, nothing but short tokens crosses the wire, and
  the cursor of a run is such a message.
\<close>

section \<open>Commands and events\<close>

text \<open>
  C23. Every command and event envelope that the code can build is read back from the wire as it
  was written, and no other envelope is read back at all: one holding an invalid id, an
  unsupported version or an oversized vector is refused by its reader.
\<close>

theorem envelope_roundtrip:
  "json_command_envelope (command_envelope_json c) =
     (if valid_command_envelope c then Some c else None) \<and>
   json_event_envelope (event_envelope_json e) =
     (if valid_event_envelope e then Some e else None)"
  by (simp add: command_envelope.dec_enc event_envelope.dec_enc)

text \<open>
  C22. The hand-written streaming readers of commands and events, which walk the entries in the
  order they come and check each against the kind seen so far, accept exactly the objects of the
  reference reading and give the same value: distinct keys, a known kind wherever it stands, the
  fields of that kind and no others.
\<close>

theorem readers_equal_reference:
  "json_driver_command (JObject es) = reference_command es \<and>
   json_driver_event (JObject es) = reference_event es"
  by (simp add: json_driver_command_reference json_driver_event_reference)

fun command_kind_of :: "driver_command \<Rightarrow> driver_command_kind" where
  "command_kind_of RequireWorkspace = CK_RequireWorkspace"
| "command_kind_of (StartThread _) = CK_StartThread"
| "command_kind_of (ResumeOrStartThread _ _) = CK_ResumeOrStartThread"
| "command_kind_of (RunTemplate _ _ _ _) = CK_RunTemplate"
| "command_kind_of CheckpointCommit = CK_CheckpointCommit"
| "command_kind_of (CollectDiff _) = CK_CollectDiff"
| "command_kind_of (MergeBase _) = CK_MergeBase"
| "command_kind_of (CommitTemplate _ _) = CK_Commit"
| "command_kind_of PauseAtBoundary = CK_PauseAtBoundary"
| "command_kind_of (DriverSettleRun _) = CK_SettleRun"

lemma reference_command_fields:
  assumes "reference_command es = Some c"
  shows "distinct (map fst es) \<and>
    set (map fst es) = set (''kind'' # command_kind_fields (command_kind_of c))"
proof -
  from assms obtain kind where kind: "req_field json_command_kind ''kind'' es = Some kind"
    and only: "only_fields (command_kind_fields kind) es = Some ()"
    by (rule reference_commandE)
  have "command_kind_of c = kind"
    using assms kind
    by (cases kind) (auto simp: reference_command_def Option.bind_eq_Some_conv)
  moreover have "map_of es k \<noteq> None" if "k \<in> set (''kind'' # command_kind_fields kind)" for k
    using assms kind that
    by (cases kind)
      (auto simp: reference_command_def command_kind_fields_def Option.bind_eq_Some_conv
        req_field_Some)
  then have "set (''kind'' # command_kind_fields kind) \<subseteq> set (map fst es)"
    by (metis map_of_eq_None_iff set_map subsetI)
  ultimately show ?thesis
    using only by (auto simp: only_fields_def split: if_splits)
qed

text \<open>
  C37. A command is only ever read from an object whose keys are distinct and are exactly
  \<open>kind\<close> and the fields of the command's kind: no field is missing, repeated or left over.
\<close>

theorem command_fields_exact:
  assumes "json_driver_command v = Some c"
  shows "\<exists>es. v = JObject es \<and> distinct (map fst es) \<and>
    set (map fst es) = set (''kind'' # command_kind_fields (command_kind_of c))"
proof -
  from json_driver_command_JObject [OF assms] obtain es where v: "v = JObject es" by blast
  with assms have "reference_command es = Some c" by (simp add: json_driver_command_reference)
  with reference_command_fields v show ?thesis by blast
qed

lemma command_fields_exact_witness:
  "\<exists>es. JObject [(''role'', JString ''dev''), (''kind'', JString ''start_thread'')] = JObject es \<and>
     distinct (map fst es) \<and>
     set (map fst es) = set (''kind'' # command_kind_fields (command_kind_of (StartThread DR_Dev)))"
  by (rule command_fields_exact)
    (simp add: json_driver_command_reference reference_command_def req_field_def
      command_kind_variant_def only_fields_def command_kind_fields_def json_name_def
      driver_role_from_wire_def)

text \<open>
  Whatever message the readers accept, every string in it, keys included, is a non-empty
  token of at most 96 letters, digits, dashes, underscores and dots; and what they return is
  written back as such a message again. Prose, paths, URLs and prompts do not fit through.
\<close>

theorem accepted_messages_blind:
  assumes "json_command_envelope v = Some c" and "json_event_envelope w = Some e"
  shows "content_blind v \<and> content_blind (command_envelope_json c) \<and>
    content_blind w \<and> content_blind (event_envelope_json e)"
  using assms
  by (meson command_envelope.dec_blind command_envelope.dec_good command_envelope.enc_blind
      event_envelope.dec_blind event_envelope.dec_good event_envelope.enc_blind)

definition sample_command_envelope :: driver_command_envelope where
  "sample_command_envelope =
     \<lparr>ce_protocol_version = 1, ce_command_id = Command_Id ''cmd-1'', ce_sequence = 1,
      ce_expected_revision = 0,
      ce_command = ResumeOrStartThread DR_Dev [Thread_Handle ''th-1'', Thread_Handle ''th-2'']\<rparr>"

definition sample_event_envelope :: driver_event_envelope where
  "sample_event_envelope =
     \<lparr>ee_protocol_version = 1, ee_event_id = Event_Id ''ev-1'', ee_sequence = 1,
      ee_command_id = Command_Id ''cmd-1'', ee_observed_revision = 1,
      ee_event = ThreadReady (Thread_Handle ''th-1'') DR_Dev\<rparr>"

lemma sample_envelopes_valid:
  "valid_command_envelope sample_command_envelope" "valid_event_envelope sample_event_envelope"
  by (simp_all add: sample_command_envelope_def sample_event_envelope_def
      valid_command_envelope_def valid_event_envelope_def valid_version_def supported_version_def
      valid_command_id_def valid_event_id_def valid_candidates_def valid_thread_handle_def
      valid_token_def validate_token_iff protocol_limits token_char_def char_between_def)

lemma accepted_messages_blind_witness:
  "content_blind (command_envelope_json sample_command_envelope) \<and>
   content_blind (command_envelope_json sample_command_envelope) \<and>
   content_blind (event_envelope_json sample_event_envelope) \<and>
   content_blind (event_envelope_json sample_event_envelope)"
  by (rule accepted_messages_blind)
    (simp_all add: command_envelope.dec_enc event_envelope.dec_enc sample_envelopes_valid)

section \<open>The cursor\<close>

lemma bounded_usize_mono: "m \<le> n \<Longrightarrow> bounded_usize_to_u32 m \<le> bounded_usize_to_u32 n"
  by (auto simp: bounded_usize_to_u32_def word_le_nat_alt unat_of_nat unat_max_word_val)

lemma current_sub_task_bound:
  "(case current_sub_task r of None \<Rightarrow> length (tr_sub_tasks r) | Some i \<Rightarrow> i) \<le>
     length (tr_sub_tasks r)"
  by (auto simp: current_sub_task_def position_Some split: option.split)

lemma valid_current_version [simp]: "valid_version CURRENT_PROTOCOL_VERSION"
  by (simp add: valid_version_def supported_version_def protocol_limits)

lemma valid_backend_version:
  "valid_backend b \<Longrightarrow> supported_protocol_version b = Some v \<Longrightarrow> valid_version v"
  by (cases b) auto

text \<open>
  Projecting a run to its cursor fails only for a malformed progress, a backend this build
  does not know, or more than 64 artifacts. The cursor it gives holds no text but tokens, is read
  back from the wire as it is, and its current sub-task is within the count.
\<close>

theorem cursor_projection:
  assumes "valid_backend (tr_orchestration_backend run)" and "valid_progress (tr_driver_progress run)"
    and "list_all valid_artifact_ref artifacts"
  shows "case driver_cursor_from_team_run run artifacts of
      Inl e \<Rightarrow>
        e = Err_MalformedDriverProgress \<and> dp_malformed (tr_driver_progress run) \<or>
        e = Err_UnknownBackend \<and>
          backend_kind_of (tr_orchestration_backend run) = Kind_UnknownNonExecuting \<or>
        e = Err_TooManyItems ''artifacts'' 64 (length artifacts) \<and> 64 < length artifacts
    | Inr c \<Rightarrow>
        content_blind (driver_cursor_json c) \<and> json_driver_cursor (driver_cursor_json c) = Some c \<and>
        dc_current_sub_task_index c \<le> dc_sub_task_count c"
proof (cases "driver_cursor_from_team_run run artifacts")
  case (Inl e)
  then show ?thesis
    by (cases "tr_orchestration_backend run")
      (auto simp: driver_cursor_from_team_run_def Let_def bounded_vec_def protocol_limits
        split: if_splits)
next
  case (Inr c)
  then obtain version where
    version: "supported_protocol_version (tr_orchestration_backend run) = Some version"
    and clean: "\<not> dp_malformed (tr_driver_progress run)"
    and few: "length artifacts \<le> MAX_CURSOR_ARTIFACTS"
    by (auto simp: driver_cursor_from_team_run_def Let_def bounded_vec_def
        split: option.splits if_splits)
  with Inr have c: "dc_protocol_version c = version" "dc_artifacts c = artifacts"
    "dc_in_flight_command_id c = dp_in_flight_command_id (tr_driver_progress run)"
    "dc_current_sub_task_index c \<le> dc_sub_task_count c"
    using bounded_usize_mono [OF current_sub_task_bound [of run]]
    by (auto simp: driver_cursor_from_team_run_def Let_def bounded_vec_def)
  with assms few valid_backend_version [OF assms(1) version] have "valid_driver_cursor c"
    by (simp add: valid_driver_cursor_def valid_progress_def)
  with Inr c(4) show ?thesis by (simp add: cursor.dec_enc cursor.enc_blind)
qed

lemma cursor_projection_witness:
  "case driver_cursor_from_team_run sample_run [] of
      Inl e \<Rightarrow>
        e = Err_MalformedDriverProgress \<and> dp_malformed (tr_driver_progress sample_run) \<or>
        e = Err_UnknownBackend \<and>
          backend_kind_of (tr_orchestration_backend sample_run) = Kind_UnknownNonExecuting \<or>
        e = Err_TooManyItems ''artifacts'' 64 (length ([] :: artifact_ref list)) \<and>
          64 < length ([] :: artifact_ref list)
    | Inr c \<Rightarrow>
        content_blind (driver_cursor_json c) \<and> json_driver_cursor (driver_cursor_json c) = Some c \<and>
        dc_current_sub_task_index c \<le> dc_sub_task_count c"
  by (rule cursor_projection)
    (simp_all add: default_driver_progress_def valid_progress_def)

end
