(* ===== verification/Journal_Codec.thy ===== *)
theory Journal_Codec
  imports Driver_Cursor
begin

text \<open>
  How a journal record is persisted (\<open>crates/relay-api/src/orchestration.rs\<close>): the derived codecs
  of a command's kind, outcome, fingerprint and record, and the round trip of the journal that is
  built from them. Records are read through \<open>serde_json::Value\<close>, whose objects have distinct keys.
\<close>

section \<open>Kinds and outcomes\<close>

fun team_command_kind_name :: "team_command_kind \<Rightarrow> string" where
  "team_command_kind_name Cmd_RecordIntake = ''record_intake''"
| "team_command_kind_name Cmd_SetPhase = ''set_phase''"
| "team_command_kind_name Cmd_RecordDesignReviewRound = ''record_design_review_round''"
| "team_command_kind_name Cmd_ReplanSubTasks = ''replan_sub_tasks''"
| "team_command_kind_name Cmd_AttachSubTaskThread = ''attach_sub_task_thread''"
| "team_command_kind_name Cmd_SetSubTaskStatus = ''set_sub_task_status''"
| "team_command_kind_name Cmd_PauseSubTaskWithoutCandidate = ''pause_sub_task_without_candidate''"
| "team_command_kind_name Cmd_RecordSubTaskStaleReview = ''record_sub_task_stale_review''"
| "team_command_kind_name Cmd_RecordReviewRound = ''record_review_round''"
| "team_command_kind_name Cmd_MarkSubTaskDigested = ''mark_sub_task_digested''"
| "team_command_kind_name Cmd_RecordMrRound = ''record_mr_round''"
| "team_command_kind_name Cmd_SetMrVerdict = ''set_mr_verdict''"
| "team_command_kind_name Cmd_PrepareMrReview = ''prepare_mr_review''"
| "team_command_kind_name Cmd_PauseMrWithoutCandidate = ''pause_mr_without_candidate''"
| "team_command_kind_name Cmd_RecordMrStaleReview = ''record_mr_stale_review''"
| "team_command_kind_name Cmd_RecordMrDevThread = ''record_mr_dev_thread''"
| "team_command_kind_name Cmd_RecordReviewerThread = ''record_reviewer_thread''"
| "team_command_kind_name Cmd_FinishRun = ''finish_run''"
| "team_command_kind_name Cmd_TakeUserNotes = ''take_user_notes''"
| "team_command_kind_name Cmd_SetRunStatus = ''set_run_status''"
| "team_command_kind_name Cmd_FailRun = ''fail_run''"
| "team_command_kind_name Cmd_BlockRun = ''block_run''"
| "team_command_kind_name Cmd_SettleRun = ''settle_run''"
| "team_command_kind_name Cmd_Unknown = ''unknown''"

definition team_command_kind_variant :: "string \<Rightarrow> team_command_kind option" where
  "team_command_kind_variant = variant_named team_command_kind_name
     [Cmd_RecordIntake, Cmd_SetPhase, Cmd_RecordDesignReviewRound, Cmd_ReplanSubTasks,
      Cmd_AttachSubTaskThread, Cmd_SetSubTaskStatus, Cmd_PauseSubTaskWithoutCandidate,
      Cmd_RecordSubTaskStaleReview, Cmd_RecordReviewRound, Cmd_MarkSubTaskDigested,
      Cmd_RecordMrRound, Cmd_SetMrVerdict, Cmd_PrepareMrReview,
      Cmd_PauseMrWithoutCandidate, Cmd_RecordMrStaleReview, Cmd_RecordMrDevThread,
      Cmd_RecordReviewerThread, Cmd_FinishRun, Cmd_TakeUserNotes, Cmd_SetRunStatus,
      Cmd_FailRun, Cmd_BlockRun, Cmd_SettleRun, Cmd_Unknown]"

interpretation team_kind_names: wire_names team_command_kind_name team_command_kind_variant
  by (rule names_intro [OF team_command_kind_variant_def])
    (simp_all add: wire_text_simps team_command_kind.nchotomy)

abbreviation "team_command_kind_json \<equiv> token_json team_command_kind_name"
abbreviation "json_team_command_kind \<equiv> json_unit_enum team_command_kind_variant"

interpretation team_command_kind:
  wire_codec team_command_kind_json json_team_command_kind "\<lambda>_. True"
  by (rule team_kind_names.unit_enum_codec)

text \<open>
  \<open>TeamCommandOutcome\<close> is internally tagged: the tag \<open>outcome\<close> names the variant, the other
  entries are the variant's own, and those it does not know are ignored. An array holds the tag
  and then the fields.
\<close>

definition command_outcome_json :: "command_outcome \<Rightarrow> json" where
  "command_outcome_json out =
     (case out of
        Out_Applied \<Rightarrow> JObject [(''outcome'', JString ''applied'')]
      | Out_Rejected reason \<Rightarrow>
          JObject [(''outcome'', JString ''rejected''), (''reason'', command_rejection_json reason)]
      | Out_Interrupted \<Rightarrow> JObject [(''outcome'', JString ''interrupted'')])"

definition tagged_entries :: "json \<Rightarrow> (json \<times> (string \<times> json) list) option" where
  "tagged_entries v =
     (case v of
        JObject es \<Rightarrow> map_option (\<lambda>tag. (tag, es)) (map_of es ''outcome'')
      | JArray [tag] \<Rightarrow> Some (tag, [])
      | JArray [tag, reason] \<Rightarrow> if tag = JString ''rejected'' then Some (tag, [(''reason'', reason)]) else None
      | _ \<Rightarrow> None)"

definition json_command_outcome :: "json \<Rightarrow> command_outcome option" where
  "json_command_outcome v = do {
     (tag, es) \<leftarrow> tagged_entries v;
     (if tag = JString ''applied'' then Some Out_Applied
      else if tag = JString ''rejected''
      then map_option Out_Rejected (req_field json_command_rejection ''reason'' es)
      else if tag = JString ''interrupted'' then Some Out_Interrupted
      else None)
   }"

lemma json_command_outcome_json [codec_simps]:
  "json_command_outcome (command_outcome_json out) = Some out"
  by (cases out)
    (simp_all add: json_command_outcome_def command_outcome_json_def tagged_entries_def
      req_field_def rejection.dec_enc)

section \<open>Fingerprints\<close>

text \<open>\<open>CommandFingerprint([u8; 32])\<close>: an array of 32 byte values.\<close>

definition json_u8 :: "json \<Rightarrow> char option" where
  "json_u8 v = (case v of JInt i \<Rightarrow> if 0 \<le> i \<and> i < 256 then Some (char_of (nat i)) else None | _ \<Rightarrow> None)"

definition u8_json :: "char \<Rightarrow> json" where
  "u8_json c = JInt (int (of_char c))"

definition command_fingerprint_json :: "command_fingerprint \<Rightarrow> json" where
  "command_fingerprint_json f = JArray (map u8_json (fingerprint_bytes f))"

definition json_command_fingerprint :: "json \<Rightarrow> command_fingerprint option" where
  "json_command_fingerprint v =
     (case v of
        JArray vs \<Rightarrow>
          if length vs = 32 then map_option Fingerprint (those (map json_u8 vs)) else None
      | _ \<Rightarrow> None)"

definition valid_fingerprint :: "command_fingerprint \<Rightarrow> bool" where
  "valid_fingerprint f \<longleftrightarrow> length (fingerprint_bytes f) = 32"

lemma json_u8_json: "json_u8 (u8_json c) = Some c"
  using nat_of_char_less_256 [of c] by (simp add: json_u8_def u8_json_def)

lemma json_command_fingerprint_json [codec_simps]:
  "json_command_fingerprint (command_fingerprint_json f) =
     (if valid_fingerprint f then Some f else None)"
  by (cases f)
    (simp add: json_command_fingerprint_def command_fingerprint_json_def valid_fingerprint_def
      comp_def json_u8_json those_map_if [of "\<lambda>_. True", simplified] list.pred_True)

section \<open>Records\<close>

text \<open>The derived reader of a struct that ignores the fields it does not know.\<close>

definition open_struct_entries :: "string list \<Rightarrow> json \<Rightarrow> (string \<times> json) list option" where
  "open_struct_entries names v =
     (case v of
        JObject es \<Rightarrow> Some es
      | JArray vs \<Rightarrow> if length vs = length names then Some (zip names vs) else None
      | _ \<Rightarrow> None)"

definition command_record_fields :: "string list" where
  "command_record_fields =
     [''command_id'', ''sequence'', ''kind'', ''fingerprint'', ''expected_revision'',
      ''state_revision'', ''last_event_seq'', ''outcome'']"

definition command_record_json :: "command_record \<Rightarrow> json" where
  "command_record_json r =
     JObject
       [(''command_id'', command_id_json (cr_command_id r)),
        (''sequence'', u64_json (cr_sequence r)),
        (''kind'', team_command_kind_json (cr_kind r)),
        (''fingerprint'', option_json command_fingerprint_json (cr_fingerprint r)),
        (''expected_revision'', u64_json (cr_expected_revision r)),
        (''state_revision'', u64_json (cr_state_revision r)),
        (''last_event_seq'', u64_json (cr_last_event_seq r)),
        (''outcome'', command_outcome_json (cr_outcome r))]"

definition json_command_record :: "json \<Rightarrow> command_record option" where
  "json_command_record v = do {
     es \<leftarrow> open_struct_entries command_record_fields v;
     i \<leftarrow> req_field json_command_id ''command_id'' es;
     sequence \<leftarrow> req_field json_u64 ''sequence'' es;
     kind \<leftarrow> req_field json_team_command_kind ''kind'' es;
     fingerprint \<leftarrow> dflt_field None (json_option json_command_fingerprint) ''fingerprint'' es;
     expected \<leftarrow> req_field json_u64 ''expected_revision'' es;
     state \<leftarrow> req_field json_u64 ''state_revision'' es;
     event_seq \<leftarrow> req_field json_u64 ''last_event_seq'' es;
     out \<leftarrow> req_field json_command_outcome ''outcome'' es;
     Some
       \<lparr>cr_command_id = i, cr_sequence = sequence, cr_kind = kind, cr_fingerprint = fingerprint,
        cr_expected_revision = expected, cr_state_revision = state,
        cr_last_event_seq = event_seq, cr_outcome = out\<rparr>
   }"

definition valid_command_record :: "command_record \<Rightarrow> bool" where
  "valid_command_record r \<longleftrightarrow>
     valid_command_id (cr_command_id r) \<and> pred_option valid_fingerprint (cr_fingerprint r)"

lemma json_option_fingerprint [codec_simps]:
  "json_option json_command_fingerprint (option_json command_fingerprint_json f) =
     (if pred_option valid_fingerprint f then Some f else None)"
proof (cases f)
  case (Some x)
  have "command_fingerprint_json x \<noteq> JNull" by (simp add: command_fingerprint_json_def)
  with Some show ?thesis
    by (simp add: json_option_def option_json_def json_command_fingerprint_json)
qed (simp add: json_option_def option_json_def)

lemma json_command_record_json:
  "json_command_record (command_record_json r) = (if valid_command_record r then Some r else None)"
  by (simp add: json_command_record_def command_record_json_def open_struct_entries_def write_simps
      codec_simps team_command_kind.dec_enc valid_command_record_def)

section \<open>The journal\<close>

definition valid_journal :: "command_journal \<Rightarrow> bool" where
  "valid_journal j \<longleftrightarrow> journal_wf j \<and> list_all valid_command_record (cj_records j)"

lemma decode_records_json:
  "decode_records json_command_record (map command_record_json rs) seen =
     (if list_all valid_command_record rs \<and> distinct (map cr_command_id rs) \<and>
         set (map cr_command_id rs) \<inter> set (map cr_command_id seen) = {}
      then Some (seen @ rs) else None)"
proof (induction rs arbitrary: seen)
  case Nil
  then show ?case by simp
next
  case (Cons r rs)
  have "(\<exists>s \<in> set seen. cr_command_id s = cr_command_id r) \<longleftrightarrow>
      cr_command_id r \<in> cr_command_id ` set seen"
    by (metis (no_types, lifting) image_iff)
  with Cons.IH [of "seen @ [r]"] show ?case
    by (auto simp: json_command_record_json)
qed

text \<open>
  A journal is read back as it was written, and one that is flagged, over its bound,
  ambiguous or unreadable comes back as the malformed journal, never as an empty one.
\<close>

theorem journal_roundtrip:
  "deserialize_journal json_command_record (serialize_journal command_record_json j) =
     (if \<not> cj_malformed j \<and> valid_journal j then j else malformed_journal)"
  by (cases j)
    (auto simp: deserialize_journal_def serialize_journal_def obj_get_def decode_records_json
      valid_journal_def journal_wf_def journal_len_def)

end
