(* ===== verification/Join_Ticket.thy ===== *)
theory Join_Ticket
  imports Wire_Codec Broker_Rooms
begin

text \<open>
  Join tickets (\<open>crates/relay-broker/src/join_ticket.rs\<close>) and their check on a connection
  (\<open>crates/relay-broker/src/lib.rs\<close>): claims are validated, written as JSON, encoded and signed;
  a connection's ticket is checked against the room and the role it asks for. Base64, HMAC,
  ed25519 and the JSON text come from other crates, so they are the record \<open>ticket_lib\<close>; the clock
  and the random nonce are inputs. \<open>HmacSha256::new_from_slice\<close> accepts a key of any length.
\<close>

section \<open>What the code calls\<close>

text \<open>
  \<open>tl_encode\<close> and \<open>tl_decode\<close> are the URL-safe base64 without padding, \<open>tl_std_decode\<close> the
  standard one, \<open>tl_hmac\<close> is HMAC-SHA256 of a secret and a message, \<open>tl_curve_point\<close> whether 32
  bytes are an ed25519 key, \<open>tl_to_vec\<close> and \<open>tl_from_slice\<close> the JSON text.
\<close>

record ticket_lib =
  tl_encode :: "string \<Rightarrow> string"
  tl_decode :: "string \<Rightarrow> string option"
  tl_std_decode :: "string \<Rightarrow> string option"
  tl_hmac :: "string \<Rightarrow> string \<Rightarrow> string"
  tl_curve_point :: "string \<Rightarrow> bool"
  tl_to_vec :: "json \<Rightarrow> string"
  tl_from_slice :: "string \<Rightarrow> json option"

section \<open>Keys\<close>

definition MIN_SECRET_BYTES :: nat where "MIN_SECRET_BYTES = 32"
definition MAX_SECRET_BYTES :: nat where "MAX_SECRET_BYTES = 512"
definition MIN_SECRET_DISTINCT_BYTES :: nat where "MIN_SECRET_DISTINCT_BYTES = 10"

datatype join_ticket_key = Join_Ticket_Key (jtk_secret: string)

datatype join_ticket_error =
    Secret_Length
  | Secret_Placeholder
  | Unsupported_Version u32
  | Channel_Required
  | Nonce_Required
  | Relay_Role
  | Relay_Peer_Required
  | Relay_Extra_Ids
  | Relay_Verify_Key_Required
  | Surface_Role
  | Pairing_Required
  | Pairing_Extra_Ids
  | Pairing_Expiry_Required
  | Device_Required
  | Device_Extra_Ids
  | Ticket_Malformed
  | Signature_Invalid
  | Payload_Invalid
  | Ticket_Expired
  | Ticket_Required
  | Channel_Mismatch
  | Role_Mismatch
  | Kind_Mismatch
  | Verifier_Misconfigured string

definition join_ticket_key_from_secret :: "string \<Rightarrow> join_ticket_error + join_ticket_key" where
  "join_ticket_key_from_secret secret =
     (if length secret < MIN_SECRET_BYTES \<or> MAX_SECRET_BYTES < length secret then Inl Secret_Length
      else if length (remdups secret) < MIN_SECRET_DISTINCT_BYTES \<or>
        list_ex (starts_with (map ascii_lower secret))
          [''change-me'', ''change_me'', ''replace-me'', ''replace_me'']
      then Inl Secret_Placeholder
      else Inr (Join_Ticket_Key secret))"

section \<open>Claims\<close>

definition JOIN_TICKET_VERSION :: u32 where "JOIN_TICKET_VERSION = 1"

datatype join_ticket_kind = Ticket_RelayJoin | Ticket_PairingSurfaceJoin | Ticket_DeviceSurfaceJoin

fun join_ticket_kind_name :: "join_ticket_kind \<Rightarrow> string" where
  "join_ticket_kind_name Ticket_RelayJoin = ''relay_join''"
| "join_ticket_kind_name Ticket_PairingSurfaceJoin = ''pairing_surface_join''"
| "join_ticket_kind_name Ticket_DeviceSurfaceJoin = ''device_surface_join''"

definition join_ticket_kind_variant :: "string \<Rightarrow> join_ticket_kind option" where
  "join_ticket_kind_variant = variant_named join_ticket_kind_name
     [Ticket_RelayJoin, Ticket_PairingSurfaceJoin, Ticket_DeviceSurfaceJoin]"

fun peer_role_name :: "peer_role \<Rightarrow> string" where
  "peer_role_name Role_Relay = ''relay''"
| "peer_role_name Role_Surface = ''surface''"

definition peer_role_variant :: "string \<Rightarrow> peer_role option" where
  "peer_role_variant = variant_named peer_role_name [Role_Relay, Role_Surface]"

record join_ticket_claims =
  jc_version :: u32
  jc_kind :: join_ticket_kind
  jc_channel_id :: string
  jc_role :: peer_role
  jc_peer_id :: "string option"
  jc_pairing_id :: "string option"
  jc_device_id :: "string option"
  jc_expires_at :: "u64 option"
  jc_relay_verify_key :: "string option"
  jc_nonce :: string

definition relay_join_with_expiry ::
    "string \<Rightarrow> string \<Rightarrow> string \<Rightarrow> string \<Rightarrow> u64 option \<Rightarrow> join_ticket_claims" where
  "relay_join_with_expiry nonce channel peer verify_key expires_at =
     \<lparr>jc_version = JOIN_TICKET_VERSION, jc_kind = Ticket_RelayJoin, jc_channel_id = channel,
      jc_role = Role_Relay, jc_peer_id = Some peer, jc_pairing_id = None, jc_device_id = None,
      jc_expires_at = expires_at, jc_relay_verify_key = Some verify_key, jc_nonce = nonce\<rparr>"

definition relay_join :: "string \<Rightarrow> string \<Rightarrow> string \<Rightarrow> string \<Rightarrow> join_ticket_claims" where
  "relay_join nonce channel peer verify_key =
     relay_join_with_expiry nonce channel peer verify_key None"

definition pairing_surface_join :: "string \<Rightarrow> string \<Rightarrow> string \<Rightarrow> u64 \<Rightarrow> join_ticket_claims" where
  "pairing_surface_join nonce channel pairing expires_at =
     \<lparr>jc_version = JOIN_TICKET_VERSION, jc_kind = Ticket_PairingSurfaceJoin,
      jc_channel_id = channel, jc_role = Role_Surface, jc_peer_id = None,
      jc_pairing_id = Some pairing, jc_device_id = None, jc_expires_at = Some expires_at,
      jc_relay_verify_key = None, jc_nonce = nonce\<rparr>"

definition device_surface_join ::
    "string \<Rightarrow> string \<Rightarrow> string \<Rightarrow> u64 option \<Rightarrow> join_ticket_claims" where
  "device_surface_join nonce channel device expires_at =
     \<lparr>jc_version = JOIN_TICKET_VERSION, jc_kind = Ticket_DeviceSurfaceJoin,
      jc_channel_id = channel, jc_role = Role_Surface, jc_peer_id = None, jc_pairing_id = None,
      jc_device_id = Some device, jc_expires_at = expires_at, jc_relay_verify_key = None,
      jc_nonce = nonce\<rparr>"

text \<open>\<open>parse_relay_verifying_key\<close> in \<open>public_control.rs\<close>: standard base64 of 32 bytes that are a key.\<close>

definition validate_relay_verify_key :: "ticket_lib \<Rightarrow> string \<Rightarrow> bool" where
  "validate_relay_verify_key lib key =
     (case tl_std_decode lib key of
        None \<Rightarrow> False
      | Some bytes \<Rightarrow> length bytes = 32 \<and> tl_curve_point lib bytes)"

definition trimmed :: "string option \<Rightarrow> string" where
  "trimmed x = (case x of None \<Rightarrow> [] | Some s \<Rightarrow> trim s)"

text \<open>\<open>validate\<close>: the first check that fails, if any.\<close>

definition validate_claims :: "ticket_lib \<Rightarrow> join_ticket_claims \<Rightarrow> join_ticket_error option" where
  "validate_claims lib c =
     (if jc_version c \<noteq> JOIN_TICKET_VERSION then Some (Unsupported_Version (jc_version c))
      else if is_blank (jc_channel_id c) then Some Channel_Required
      else if is_blank (jc_nonce c) then Some Nonce_Required
      else case jc_kind c of
        Ticket_RelayJoin \<Rightarrow>
          if jc_role c \<noteq> Role_Relay then Some Relay_Role
          else if trimmed (jc_peer_id c) = [] then Some Relay_Peer_Required
          else if jc_pairing_id c \<noteq> None \<or> jc_device_id c \<noteq> None then Some Relay_Extra_Ids
          else if \<not> validate_relay_verify_key lib (trimmed (jc_relay_verify_key c))
          then Some Relay_Verify_Key_Required
          else None
      | Ticket_PairingSurfaceJoin \<Rightarrow>
          if jc_role c \<noteq> Role_Surface then Some Surface_Role
          else if trimmed (jc_pairing_id c) = [] then Some Pairing_Required
          else if jc_device_id c \<noteq> None \<or> jc_relay_verify_key c \<noteq> None then Some Pairing_Extra_Ids
          else if jc_expires_at c = None then Some Pairing_Expiry_Required
          else None
      | Ticket_DeviceSurfaceJoin \<Rightarrow>
          if jc_role c \<noteq> Role_Surface then Some Surface_Role
          else if trimmed (jc_device_id c) = [] then Some Device_Required
          else if jc_pairing_id c \<noteq> None \<or> jc_relay_verify_key c \<noteq> None then Some Device_Extra_Ids
          else None)"

section \<open>Claims as JSON\<close>

text \<open>
  The derived codec: unknown keys are ignored, a known key may occur once, and an array holds all
  the fields up to the nonce in their order.
\<close>

definition claims_fields :: "string list" where
  "claims_fields =
     [''version'', ''kind'', ''channel_id'', ''role'', ''peer_id'', ''pairing_id'', ''device_id'',
      ''expires_at'', ''relay_verify_key'', ''nonce'']"

definition claims_entries :: "json \<Rightarrow> (string \<times> json) list option" where
  "claims_entries v =
     (case v of
        JObject es \<Rightarrow>
          if distinct (filter (\<lambda>k. k \<in> set claims_fields) (map fst es)) then Some es else None
      | JArray vs \<Rightarrow>
          if length vs = length claims_fields then Some (zip claims_fields vs) else None
      | _ \<Rightarrow> None)"

definition json_string :: "json \<Rightarrow> string option" where
  "json_string v = (case v of JString s \<Rightarrow> Some s | _ \<Rightarrow> None)"

abbreviation opt_string_field :: "string \<Rightarrow> (string \<times> json) list \<Rightarrow> string option option" where
  "opt_string_field k es \<equiv> dflt_field None (json_option json_string) k es"

definition claims_json :: "join_ticket_claims \<Rightarrow> json" where
  "claims_json c =
     JObject
       ([(''version'', u32_json (jc_version c)),
         (''kind'', token_json join_ticket_kind_name (jc_kind c)),
         (''channel_id'', JString (jc_channel_id c)),
         (''role'', token_json peer_role_name (jc_role c))] @
        skip_none ''peer_id'' JString (jc_peer_id c) @
        skip_none ''pairing_id'' JString (jc_pairing_id c) @
        skip_none ''device_id'' JString (jc_device_id c) @
        skip_none ''expires_at'' u64_json (jc_expires_at c) @
        skip_none ''relay_verify_key'' JString (jc_relay_verify_key c) @
        [(''nonce'', JString (jc_nonce c))])"

definition json_claims :: "json \<Rightarrow> join_ticket_claims option" where
  "json_claims v = do {
     es \<leftarrow> claims_entries v;
     version \<leftarrow> req_field json_u32 ''version'' es;
     kind \<leftarrow> req_field (json_unit_enum join_ticket_kind_variant) ''kind'' es;
     channel \<leftarrow> req_field json_string ''channel_id'' es;
     role \<leftarrow> req_field (json_unit_enum peer_role_variant) ''role'' es;
     peer \<leftarrow> opt_string_field ''peer_id'' es;
     pairing \<leftarrow> opt_string_field ''pairing_id'' es;
     device \<leftarrow> opt_string_field ''device_id'' es;
     expires \<leftarrow> dflt_field None (json_option json_u64) ''expires_at'' es;
     verify_key \<leftarrow> opt_string_field ''relay_verify_key'' es;
     nonce \<leftarrow> req_field json_string ''nonce'' es;
     Some
       \<lparr>jc_version = version, jc_kind = kind, jc_channel_id = channel, jc_role = role,
        jc_peer_id = peer, jc_pairing_id = pairing, jc_device_id = device,
        jc_expires_at = expires, jc_relay_verify_key = verify_key, jc_nonce = nonce\<rparr>
   }"

section \<open>Minting and verifying\<close>

definition sign :: "ticket_lib \<Rightarrow> join_ticket_key \<Rightarrow> string \<Rightarrow> string" where
  "sign lib key payload = tl_encode lib (tl_hmac lib (jtk_secret key) payload)"

definition mint_ticket ::
    "ticket_lib \<Rightarrow> join_ticket_key \<Rightarrow> join_ticket_claims \<Rightarrow> join_ticket_error + string" where
  "mint_ticket lib key claims =
     (case validate_claims lib claims of
        Some e \<Rightarrow> Inl e
      | None \<Rightarrow>
          (let payload = tl_encode lib (tl_to_vec lib (claims_json claims))
           in Inr (payload @ ''.'' @ sign lib key payload)))"

text \<open>\<open>str::split_once\<close>.\<close>

fun split_once :: "char \<Rightarrow> string \<Rightarrow> (string \<times> string) option" where
  "split_once d [] = None"
| "split_once d (c # s) =
     (if c = d then Some ([], s) else map_option (\<lambda>(a, b). (c # a, b)) (split_once d s))"

definition verify_signature ::
    "ticket_lib \<Rightarrow> join_ticket_key \<Rightarrow> string \<Rightarrow> string \<Rightarrow> bool" where
  "verify_signature lib key payload signature =
     (case tl_decode lib signature of
        None \<Rightarrow> False
      | Some mac \<Rightarrow> mac = tl_hmac lib (jtk_secret key) payload)"

definition verify_ticket ::
    "ticket_lib \<Rightarrow> u64 \<Rightarrow> join_ticket_key \<Rightarrow> string \<Rightarrow> join_ticket_error + join_ticket_claims" where
  "verify_ticket lib now key token =
     (case split_once CHR ''.'' token of
        None \<Rightarrow> Inl Ticket_Malformed
      | Some (payload, signature) \<Rightarrow>
          if \<not> verify_signature lib key payload signature then Inl Signature_Invalid
          else (case Option.bind (Option.bind (tl_decode lib payload) (tl_from_slice lib)) json_claims of
            None \<Rightarrow> Inl Payload_Invalid
          | Some claims \<Rightarrow>
              (case validate_claims lib claims of
                 Some e \<Rightarrow> Inl e
               | None \<Rightarrow>
                   (case jc_expires_at claims of
                      Some expires_at \<Rightarrow> if expires_at < now then Inl Ticket_Expired else Inr claims
                    | None \<Rightarrow> Inr claims))))"

section \<open>The ticket of a connection\<close>

definition verify_join_ticket_for_connection ::
    "ticket_lib \<Rightarrow> u64 \<Rightarrow> join_ticket_key \<Rightarrow> string option \<Rightarrow> string \<Rightarrow> peer_role \<Rightarrow>
      join_ticket_error + join_ticket_claims" where
  "verify_join_ticket_for_connection lib now key join_ticket room role =
     (if trimmed join_ticket = [] then Inl Ticket_Required
      else case verify_ticket lib now key (trimmed join_ticket) of
        Inl e \<Rightarrow> Inl e
      | Inr claims \<Rightarrow>
          if jc_channel_id claims \<noteq> room then Inl Channel_Mismatch
          else if jc_role claims \<noteq> role then Inl Role_Mismatch
          else (case (role, jc_kind claims) of
             (Role_Relay, Ticket_RelayJoin) \<Rightarrow> Inr claims
           | (Role_Surface, Ticket_PairingSurfaceJoin) \<Rightarrow> Inr claims
           | (Role_Surface, Ticket_DeviceSurfaceJoin) \<Rightarrow> Inr claims
           | _ \<Rightarrow> Inl Kind_Mismatch))"

record verified_broker_join =
  vj_kind :: join_ticket_kind
  vj_peer_id :: "string option"
  vj_device_id :: "string option"
  vj_pairing_id :: "string option"
  vj_relay_verify_key :: "string option"

text \<open>The broker's verifier; of the control plane only its issuer key matters here.\<close>

datatype broker_join_verifier =
    SelfHosted join_ticket_key
  | PublicControlPlane (issuer_key: join_ticket_key)
  | Misconfigured string

definition verified_join :: "join_ticket_claims \<Rightarrow> verified_broker_join" where
  "verified_join claims =
     \<lparr>vj_kind = jc_kind claims, vj_peer_id = jc_peer_id claims,
      vj_device_id = jc_device_id claims, vj_pairing_id = jc_pairing_id claims,
      vj_relay_verify_key = jc_relay_verify_key claims\<rparr>"

fun verify_connection ::
    "ticket_lib \<Rightarrow> u64 \<Rightarrow> broker_join_verifier \<Rightarrow> string option \<Rightarrow> string \<Rightarrow> peer_role \<Rightarrow>
      join_ticket_error + verified_broker_join" where
  "verify_connection lib now (SelfHosted key) join_ticket room role =
     map_sum id verified_join (verify_join_ticket_for_connection lib now key join_ticket room role)"
| "verify_connection lib now (PublicControlPlane key) join_ticket room role =
     map_sum id verified_join (verify_join_ticket_for_connection lib now key join_ticket room role)"
| "verify_connection lib now (Misconfigured e) join_ticket room role = Inl (Verifier_Misconfigured e)"

text \<open>The quota's name for a peer; \<open>None\<close> is the panic of an \<open>expect\<close>.\<close>

definition verified_rate_limit_identity :: "verified_broker_join \<Rightarrow> string option" where
  "verified_rate_limit_identity v =
     (case vj_kind v of
        Ticket_RelayJoin \<Rightarrow> Some ''relay''
      | Ticket_DeviceSurfaceJoin \<Rightarrow> map_option (\<lambda>d. ''device:'' @ d) (vj_device_id v)
      | Ticket_PairingSurfaceJoin \<Rightarrow> map_option (\<lambda>p. ''pairing:'' @ p) (vj_pairing_id v))"

end
