(* ===== verification/Relay_Proof.thy ===== *)
theory Relay_Proof
  imports Join_Ticket
begin

text \<open>
  Proofs of a relay's identity (\<open>crates/relay-broker/src/public_control/relay_proofs.rs\<close>): the
  domain-separated messages a relay signs, the pending challenges of the broker, their creation
  and their one-time consumption, and the relay tokens minted for a proof. SHA-256 and ed25519
  come from other crates and are parameters; the clock and the random tokens are inputs, and so is
  the registration that a bearer token authenticates. A map of challenges is an association list.
\<close>

section \<open>What the code calls\<close>

text \<open>
  \<open>pl_verify key message signature\<close> is ed25519 over decoded bytes, \<open>pl_sha256_hex\<close> the digest in
  lower-case hex.
\<close>

record proof_lib =
  pl_ticket :: ticket_lib
  pl_verify :: "string \<Rightarrow> string \<Rightarrow> string \<Rightarrow> bool"
  pl_sha256_hex :: "string \<Rightarrow> string"

datatype proof_error =
    Field_Too_Long
  | Too_Many_Pending
  | Challenge_Not_Found
  | Challenge_Expired
  | Challenge_Foreign
  | Proof_Rejected
  | Authentication_Failed
  | No_Enrolled_Key
  | Enrolled_Key_Invalid
  | Peer_Required
  | Peer_Too_Long
  | Challenge_Id_Required
  | Challenge_Id_Too_Long
  | Signature_Required
  | Proof_Required
  | Operation_Not_Allowed
  | Device_Id_Too_Long
  | Request_Hash_Required
  | Body_Not_Json
  | Ticket_Not_Minted join_ticket_error

section \<open>Signed messages\<close>

text \<open>\<open>u32::to_be_bytes\<close> of a length below \<open>2 ^ 32\<close>.\<close>

definition be_bytes :: "nat \<Rightarrow> string" where
  "be_bytes n =
     [char_of (n div 2 ^ 24), char_of (n div 2 ^ 16 mod 2 ^ 8), char_of (n div 2 ^ 8 mod 2 ^ 8),
      char_of (n mod 2 ^ 8)]"

fun length_prefixed :: "string list \<Rightarrow> string option" where
  "length_prefixed [] = Some []"
| "length_prefixed (part # parts) =
     (if length part < 2 ^ 32
      then map_option (\<lambda>rest. be_bytes (length part) @ part @ rest) (length_prefixed parts)
      else None)"

definition length_prefixed_message :: "string \<Rightarrow> string list \<Rightarrow> proof_error + string" where
  "length_prefixed_message domain parts =
     (case length_prefixed parts of None \<Rightarrow> Inl Field_Too_Long | Some s \<Rightarrow> Inr (domain @ s))"

definition ws_ticket_domain :: string where
  "ws_ticket_domain = ''agent-relay:relay-ws-ticket-v1'' @ [CHR 0x00]"
definition relay_join_domain :: string where
  "relay_join_domain = ''agent-relay:relay-join-v1'' @ [CHR 0x00]"
definition relay_control_domain :: string where
  "relay_control_domain = ''agent-relay:relay-control-v1'' @ [CHR 0x00]"

definition relay_ws_ticket_message ::
    "string \<Rightarrow> string \<Rightarrow> string \<Rightarrow> string \<Rightarrow> string \<Rightarrow> string \<Rightarrow> string \<Rightarrow> proof_error + string" where
  "relay_ws_ticket_message origin id_text nonce relay room peer token_hash =
     length_prefixed_message ws_ticket_domain [origin, id_text, nonce, relay, room, peer, token_hash]"

definition relay_join_message ::
    "string \<Rightarrow> string \<Rightarrow> string \<Rightarrow> string \<Rightarrow> string \<Rightarrow> string \<Rightarrow> string \<Rightarrow> proof_error + string" where
  "relay_join_message origin id_text nonce ticket_hash relay room peer =
     length_prefixed_message relay_join_domain [origin, id_text, nonce, ticket_hash, relay, room, peer]"

definition relay_control_message ::
    "string \<Rightarrow> string \<Rightarrow> string \<Rightarrow> string \<Rightarrow> string \<Rightarrow> string \<Rightarrow> string \<Rightarrow> string \<Rightarrow> proof_error + string" where
  "relay_control_message origin id_text nonce operation relay room token_hash body_hash =
     length_prefixed_message relay_control_domain
       [origin, id_text, nonce, operation, relay, room, token_hash, body_hash]"

definition verify_relay_signature :: "proof_lib \<Rightarrow> string \<Rightarrow> string \<Rightarrow> string \<Rightarrow> bool" where
  "verify_relay_signature lib key message signature =
     (case tl_std_decode (pl_ticket lib) signature of
        None \<Rightarrow> False
      | Some sig_bytes \<Rightarrow>
          length sig_bytes = 64 \<and> validate_relay_verify_key (pl_ticket lib) key \<and>
          (case tl_std_decode (pl_ticket lib) key of
             None \<Rightarrow> False
           | Some key_bytes \<Rightarrow> pl_verify lib key_bytes message sig_bytes))"

section \<open>Contexts\<close>

record relay_identity =
  pi_refresh_token_hash :: string
  pi_relay_id :: string
  pi_broker_room_id :: string
  pi_broker_origin :: string
  pi_relay_verify_key :: string

datatype relay_proof_target =
    Ws_Ticket (pt_peer_id: string)
  | Control (pt_operation: string) (pt_request_sha256: string)

record relay_proof_context =
  pc_identity :: relay_identity
  pc_target :: relay_proof_target

definition MAX_PENDING_RELAY_WS_TICKET_CHALLENGES_PER_RELAY :: nat where
  "MAX_PENDING_RELAY_WS_TICKET_CHALLENGES_PER_RELAY = 64"
definition MAX_PENDING_RELAY_CONTROL_CHALLENGES_PER_RELAY :: nat where
  "MAX_PENDING_RELAY_CONTROL_CHALLENGES_PER_RELAY = 64"
definition MAX_ID_BYTES :: nat where "MAX_ID_BYTES = 128"

fun challenge_parameters :: "relay_proof_target \<Rightarrow> string \<times> string \<times> nat" where
  "challenge_parameters (Ws_Ticket _) =
     (''wch'', ''wt'', MAX_PENDING_RELAY_WS_TICKET_CHALLENGES_PER_RELAY)"
| "challenge_parameters (Control _ _) =
     (''cch'', ''ct'', MAX_PENDING_RELAY_CONTROL_CHALLENGES_PER_RELAY)"

definition context_message :: "relay_proof_context \<Rightarrow> string \<Rightarrow> string \<Rightarrow> proof_error + string" where
  "context_message ctx id_text nonce =
     (let i = pc_identity ctx
      in case pc_target ctx of
           Ws_Ticket peer \<Rightarrow>
             relay_ws_ticket_message (pi_broker_origin i) id_text nonce (pi_relay_id i)
               (pi_broker_room_id i) peer (pi_refresh_token_hash i)
         | Control operation request_hash \<Rightarrow>
             relay_control_message (pi_broker_origin i) id_text nonce operation (pi_relay_id i)
               (pi_broker_room_id i) (pi_refresh_token_hash i) request_hash)"

section \<open>Challenges\<close>

record pending_challenge =
  pd_context :: relay_proof_context
  pd_challenge :: string
  pd_expires_at :: u64

type_synonym challenges = "(string \<times> pending_challenge) list"

record issued_challenge =
  is_challenge_id :: string
  is_challenge :: string
  is_expires_at :: u64

text \<open>\<open>token24\<close> and \<open>token40\<close> are the random tokens, \<open>ttl\<close> the configured lifetime in seconds.\<close>

definition pending_of :: "string \<Rightarrow> challenges \<Rightarrow> nat" where
  "pending_of relay_id cs =
     length (filter (\<lambda>(_, p). pi_relay_id (pc_identity (pd_context p)) = relay_id) cs)"

definition create_relay_proof_challenge ::
    "u64 \<Rightarrow> u64 \<Rightarrow> string \<Rightarrow> string \<Rightarrow> relay_proof_context \<Rightarrow> challenges \<Rightarrow>
      (proof_error + issued_challenge) \<times> challenges" where
  "create_relay_proof_challenge now ttl token24 token40 ctx cs =
     (let expires_at = sat_add now ttl;
          (id_prefix, nonce_prefix, capacity) = challenge_parameters (pc_target ctx);
          issued = \<lparr>is_challenge_id = id_prefix @ ''-'' @ map ascii_lower token24,
            is_challenge = nonce_prefix @ ''-'' @ map ascii_lower token40,
            is_expires_at = expires_at\<rparr>;
          cs = filter (\<lambda>(_, p). now < pd_expires_at p) cs
      in if capacity \<le> pending_of (pi_relay_id (pc_identity ctx)) cs then (Inl Too_Many_Pending, cs)
         else (Inr issued,
           AList.update (is_challenge_id issued)
             \<lparr>pd_context = ctx, pd_challenge = is_challenge issued, pd_expires_at = expires_at\<rparr> cs))"

definition consume_relay_proof_challenge ::
    "proof_lib \<Rightarrow> u64 \<Rightarrow> relay_proof_context \<Rightarrow> string \<Rightarrow> string \<Rightarrow> challenges \<Rightarrow>
      (proof_error + unit) \<times> challenges" where
  "consume_relay_proof_challenge lib now expected id_text signature cs =
     (case map_of cs id_text of
        None \<Rightarrow> (Inl Challenge_Not_Found, cs)
      | Some pending \<Rightarrow>
          if pd_expires_at pending \<le> now then (Inl Challenge_Expired, AList.delete id_text cs)
          else if pd_context pending \<noteq> expected then (Inl Challenge_Foreign, cs)
          else (case context_message (pd_context pending) id_text (pd_challenge pending) of
                Inl e \<Rightarrow> (Inl e, cs)
              | Inr message \<Rightarrow>
                  if verify_relay_signature lib (pi_relay_verify_key (pc_identity expected)) message
                    signature
                  then (Inr (), AList.delete id_text cs)
                  else (Inl Proof_Rejected, cs)))"

section \<open>Requests\<close>

text \<open>What a proof reads of \<open>PersistedRelayRegistration\<close>.\<close>

record relay_registration =
  rg_relay_id :: string
  rg_broker_room_id :: string
  rg_relay_verify_key :: "string option"

definition enrolled_relay_verify_key :: "proof_lib \<Rightarrow> relay_registration \<Rightarrow> proof_error + string" where
  "enrolled_relay_verify_key lib r =
     (let key = trimmed (rg_relay_verify_key r)
      in if key = [] then Inl No_Enrolled_Key
         else if \<not> validate_relay_verify_key (pl_ticket lib) key then Inl Enrolled_Key_Invalid
         else Inr key)"

text \<open>\<open>registration\<close> is what \<open>authenticate_relay\<close> answers.\<close>

definition relay_proof_identity ::
    "proof_lib \<Rightarrow> string \<Rightarrow> relay_registration option \<Rightarrow> string \<Rightarrow> proof_error + relay_identity" where
  "relay_proof_identity lib origin registration bearer =
     (case registration of
        None \<Rightarrow> Inl Authentication_Failed
      | Some r \<Rightarrow>
          (case enrolled_relay_verify_key lib r of
             Inl e \<Rightarrow> Inl e
           | Inr key \<Rightarrow>
               Inr \<lparr>pi_refresh_token_hash = pl_sha256_hex lib (trim bearer),
                 pi_relay_id = rg_relay_id r, pi_broker_room_id = rg_broker_room_id r,
                 pi_broker_origin = origin, pi_relay_verify_key = key\<rparr>))"

definition too_long :: "string \<Rightarrow> bool" where
  "too_long value \<longleftrightarrow> MAX_ID_BYTES < length value"

record relay_proofs =
  rp_ws :: challenges
  rp_control :: challenges

definition create_relay_ws_ticket_challenge ::
    "u64 \<Rightarrow> u64 \<Rightarrow> string \<Rightarrow> string \<Rightarrow> proof_error + relay_identity \<Rightarrow> string \<Rightarrow> relay_proofs \<Rightarrow>
      (proof_error + issued_challenge) \<times> relay_proofs" where
  "create_relay_ws_ticket_challenge now ttl token24 token40 identified relay_peer_id ps =
     (case identified of
        Inl e \<Rightarrow> (Inl e, ps)
      | Inr i \<Rightarrow>
          if trim relay_peer_id = [] then (Inl Peer_Required, ps)
          else if too_long (trim relay_peer_id) then (Inl Peer_Too_Long, ps)
          else
            let (res, cs) = create_relay_proof_challenge now ttl token24 token40
                  \<lparr>pc_identity = i, pc_target = Ws_Ticket (trim relay_peer_id)\<rparr> (rp_ws ps)
            in (res, ps\<lparr>rp_ws := cs\<rparr>))"

text \<open>A token and when it expires; \<open>later\<close> is the second reading of the clock.\<close>

definition issue_relay_ws_token ::
    "proof_lib \<Rightarrow> join_ticket_key \<Rightarrow> u64 \<Rightarrow> u64 \<Rightarrow> u64 \<Rightarrow> string \<Rightarrow> proof_error + relay_identity \<Rightarrow>
      string \<Rightarrow> string \<Rightarrow> string \<Rightarrow> relay_proofs \<Rightarrow> (proof_error + string \<times> u64) \<times> relay_proofs" where
  "issue_relay_ws_token lib issuer now later ws_ttl nonce identified relay_peer_id challenge_id
      signature ps =
     (case identified of
        Inl e \<Rightarrow> (Inl e, ps)
      | Inr i \<Rightarrow>
          if trim challenge_id = [] then (Inl Challenge_Id_Required, ps)
          else if trim signature = [] then (Inl Signature_Required, ps)
          else if trim relay_peer_id = [] then (Inl Peer_Required, ps)
          else if too_long (trim relay_peer_id) then (Inl Peer_Too_Long, ps)
          else if too_long (trim challenge_id) then (Inl Challenge_Id_Too_Long, ps)
          else
            let (res, cs) = consume_relay_proof_challenge lib now
                  \<lparr>pc_identity = i, pc_target = Ws_Ticket (trim relay_peer_id)\<rparr>
                  (trim challenge_id) (trim signature) (rp_ws ps);
                ps = ps\<lparr>rp_ws := cs\<rparr>
            in (case res of
                 Inl e \<Rightarrow> (Inl e, ps)
               | Inr _ \<Rightarrow>
                   (let expires_at = sat_add later ws_ttl
                    in case mint_ticket (pl_ticket lib) issuer
                           (relay_join_with_expiry nonce (pi_broker_room_id i) (trim relay_peer_id)
                             (pi_relay_verify_key i) (Some expires_at)) of
                         Inl e \<Rightarrow> (Inl (Ticket_Not_Minted e), ps)
                       | Inr token \<Rightarrow> (Inr (token, expires_at), ps))))"

definition exact_operations :: "string list" where
  "exact_operations =
     [''POST /api/public/devices'', ''POST /api/public/clients/grants'',
      ''POST /api/public/pairing/ws-token'', ''POST /api/public/devices/revoke-others'',
      ''POST /api/public/relay/access/release'']"

text \<open>\<open>str::strip_prefix\<close> and \<open>str::strip_suffix\<close>.\<close>

definition strip_prefix :: "string \<Rightarrow> string \<Rightarrow> string option" where
  "strip_prefix p s = (if take (length p) s = p then Some (drop (length p) s) else None)"

definition strip_suffix :: "string \<Rightarrow> string \<Rightarrow> string option" where
  "strip_suffix p s = map_option rev (strip_prefix (rev p) (rev s))"

definition validate_relay_control_operation :: "string \<Rightarrow> proof_error option" where
  "validate_relay_control_operation operation =
     (if operation \<in> set exact_operations then None
      else case Option.bind (strip_prefix ''POST /api/public/devices/'' operation)
                  (strip_suffix ''/revoke'') of
        None \<Rightarrow> Some Operation_Not_Allowed
      | Some device_id \<Rightarrow>
          if device_id = [] \<or> CHR ''/'' \<in> set device_id then Some Operation_Not_Allowed
          else if too_long device_id then Some Device_Id_Too_Long
          else None)"

definition create_relay_control_challenge ::
    "u64 \<Rightarrow> u64 \<Rightarrow> string \<Rightarrow> string \<Rightarrow> proof_error + relay_identity \<Rightarrow> string \<Rightarrow> string \<Rightarrow>
      relay_proofs \<Rightarrow> (proof_error + issued_challenge) \<times> relay_proofs" where
  "create_relay_control_challenge now ttl token24 token40 identified operation request_hash ps =
     (case validate_relay_control_operation (trim operation) of
        Some e \<Rightarrow> (Inl e, ps)
      | None \<Rightarrow>
          if \<not> (length (trim request_hash) = 64 \<and> list_all is_ascii_hexdigit (trim request_hash))
          then (Inl Request_Hash_Required, ps)
          else (case identified of
            Inl e \<Rightarrow> (Inl e, ps)
          | Inr i \<Rightarrow>
              (let (res, cs) = create_relay_proof_challenge now ttl token24 token40
                     \<lparr>pc_identity = i,
                      pc_target = Control (trim operation) (map ascii_lower (trim request_hash))\<rparr>
                     (rp_control ps)
               in (res, ps\<lparr>rp_control := cs\<rparr>))))"

text \<open>
  \<open>authenticate relay_id room\<close> is the identity that the bearer proves for the ids in the body.
\<close>

definition body_field :: "string \<Rightarrow> json \<Rightarrow> string" where
  "body_field k v = trim (case json_str k v of None \<Rightarrow> [] | Some s \<Rightarrow> s)"

definition consume_relay_control_proof ::
    "proof_lib \<Rightarrow> u64 \<Rightarrow> (string \<Rightarrow> string \<Rightarrow> proof_error + relay_identity) \<Rightarrow> string \<Rightarrow> string \<Rightarrow>
      string \<Rightarrow> string \<Rightarrow> relay_proofs \<Rightarrow> (proof_error + unit) \<times> relay_proofs" where
  "consume_relay_control_proof lib now authenticate operation body challenge_id signature ps =
     (case tl_from_slice (pl_ticket lib) body of
        None \<Rightarrow> (Inl Body_Not_Json, ps)
      | Some v \<Rightarrow>
          (case authenticate (body_field ''relay_id'' v) (body_field ''broker_room_id'' v) of
             Inl e \<Rightarrow> (Inl e, ps)
           | Inr i \<Rightarrow>
               if trim challenge_id = [] \<or> trim signature = [] then (Inl Proof_Required, ps)
               else (case validate_relay_control_operation (trim operation) of
                 Some e \<Rightarrow> (Inl e, ps)
               | None \<Rightarrow>
                   (let (res, cs) = consume_relay_proof_challenge lib now
                          \<lparr>pc_identity = i,
                           pc_target = Control (trim operation) (pl_sha256_hex lib body)\<rparr>
                          (trim challenge_id) (trim signature) (rp_control ps)
                    in (res, ps\<lparr>rp_control := cs\<rparr>)))))"

end
