(* ===== verification/Ticket_Facts.thy ===== *)
theory Ticket_Facts
  imports Join_Ticket Driver_Cursor
begin

text \<open>
  What join tickets promise: a minted ticket verifies to its claims until it expires, and a ticket
  that a connection is accepted with was signed with the key, fits the room and the role, and
  names exactly one identity.
\<close>

section \<open>The codec of claims\<close>

interpretation ticket_kind_names: wire_names join_ticket_kind_name join_ticket_kind_variant
  by (rule names_intro [OF join_ticket_kind_variant_def])
    (simp_all add: wire_text_simps join_ticket_kind.nchotomy)

interpretation peer_role_names: wire_names peer_role_name peer_role_variant
  by (rule names_intro [OF peer_role_variant_def])
    (simp_all add: wire_text_simps peer_role.nchotomy)

lemma ticket_enums [simp]:
  "json_unit_enum join_ticket_kind_variant (token_json join_ticket_kind_name k) = Some k"
  "json_unit_enum peer_role_variant (token_json peer_role_name r) = Some r"
  by (simp_all add: wire_codec.dec_enc [OF ticket_kind_names.unit_enum_codec]
      wire_codec.dec_enc [OF peer_role_names.unit_enum_codec])

lemma json_option_string [simp]: "json_option json_string (JString s) = Some (Some s)"
  by (simp add: json_option_def json_string_def)

lemma json_string_JString [simp]: "json_string (JString s) = Some s"
  by (simp add: json_string_def)

lemma json_claims_json: "json_claims (claims_json c) = Some c"
  by (cases "jc_peer_id c"; cases "jc_pairing_id c"; cases "jc_device_id c";
      cases "jc_expires_at c"; cases "jc_relay_verify_key c")
    (simp_all add: json_claims_def claims_json_def claims_entries_def claims_fields_def write_simps
      u32.dec_enc json_option_u64)

section \<open>Minted tickets\<close>

lemma split_once_append: "d \<notin> set a \<Longrightarrow> split_once d (a @ d # b) = Some (a, b)"
  by (induction a) auto

lemma split_once_Some: "split_once d s = Some (a, b) \<Longrightarrow> s = a @ d # b \<and> d \<notin> set a"
  by (induction s arbitrary: a) (auto split: if_splits)

text \<open>
  What is documented of the encodings: base64 decodes what it encodes and writes no dot, and the
  JSON text of the claims parses to the value it was written from.
\<close>

definition faithful_encodings :: "ticket_lib \<Rightarrow> join_ticket_claims \<Rightarrow> bool" where
  "faithful_encodings lib c \<longleftrightarrow>
     (\<forall>s. tl_decode lib (tl_encode lib s) = Some s \<and> CHR ''.'' \<notin> set (tl_encode lib s)) \<and>
     tl_from_slice lib (tl_to_vec lib (claims_json c)) = Some (claims_json c)"

definition expired :: "u64 \<Rightarrow> join_ticket_claims \<Rightarrow> bool" where
  "expired now c \<longleftrightarrow> (case jc_expires_at c of None \<Rightarrow> False | Some t \<Rightarrow> t < now)"

lemma verify_minted:
  assumes "faithful_encodings lib c" and minted: "mint_ticket lib key c = Inr token"
  shows "verify_ticket lib now key token = (if expired now c then Inl Ticket_Expired else Inr c)"
proof -
  let ?p = "tl_encode lib (tl_to_vec lib (claims_json c))"
  from minted have good: "validate_claims lib c = None" and token: "token = ?p @ ''.'' @ sign lib key ?p"
    by (auto simp: mint_ticket_def Let_def split: option.splits)
  have "CHR ''.'' \<notin> set ?p" using assms by (simp add: faithful_encodings_def)
  then have "split_once CHR ''.'' token = Some (?p, sign lib key ?p)"
    by (simp add: token split_once_append)
  moreover have "verify_signature lib key ?p (sign lib key ?p)"
    using assms by (simp add: verify_signature_def sign_def faithful_encodings_def)
  ultimately show ?thesis
    using assms(1) good
    by (auto simp: verify_ticket_def faithful_encodings_def json_claims_json expired_def
        split: option.split)
qed

text \<open>
  Minting fails exactly for claims that do not validate. A minted ticket verifies under its
  key to the very claims it was minted from, up to and including the second it expires, and is
  refused as expired from then on.
\<close>

theorem minted_ticket_verifies:
  assumes "faithful_encodings lib c"
  shows "case mint_ticket lib key c of
      Inl e \<Rightarrow> validate_claims lib c = Some e
    | Inr token \<Rightarrow>
        verify_ticket lib now key token = (if expired now c then Inl Ticket_Expired else Inr c)"
proof (cases "mint_ticket lib key c")
  case (Inl e)
  then show ?thesis by (simp add: mint_ticket_def Let_def split: option.splits)
next
  case (Inr token)
  with verify_minted [OF assms] show ?thesis by simp
qed

text \<open>A library for the witnesses: two letters per byte, and a text for one claim only.\<close>

definition sample_claims :: join_ticket_claims where
  "sample_claims = pairing_surface_join ''n1'' ''room'' ''pair-1'' 100"

definition letters :: "char \<Rightarrow> string" where
  "letters c = [char_of (97 + (of_char c :: nat) div 16), char_of (97 + (of_char c :: nat) mod 16)]"

fun unletters :: "string \<Rightarrow> string option" where
  "unletters [] = Some []"
| "unletters [c] = None"
| "unletters (a # b # s) =
     map_option ((#) (char_of (16 * (of_char a - 97) + (of_char b - 97 :: nat)))) (unletters s)"

definition sample_lib :: ticket_lib where
  "sample_lib =
     \<lparr>tl_encode = (\<lambda>s. concat (map letters s)), tl_decode = unletters, tl_std_decode = (\<lambda>s. Some s),
      tl_hmac = (\<lambda>secret m. take 4 (secret @ m)), tl_curve_point = (\<lambda>_. True),
      tl_to_vec = (\<lambda>v. ''{}''),
      tl_from_slice = (\<lambda>s. if s = ''{}'' then Some (claims_json sample_claims) else None)\<rparr>"

lemma nibbles: "(of_char c :: nat) div 16 < 16" "(of_char c :: nat) mod 16 < 16"
  using nat_of_char_less_256 [of c] by (simp_all add: less_mult_imp_div_less)

lemma unletters_letters: "unletters (concat (map letters s)) = Some s"
proof (induction s)
  case Nil
  then show ?case by simp
next
  case (Cons c s)
  have "97 + (of_char c :: nat) div 16 < 256" "97 + (of_char c :: nat) mod 16 < 256"
    using nibbles [of c] by linarith+
  with Cons show ?case by (simp add: letters_def)
qed

lemma no_dot_letters: "CHR ''.'' \<notin> set (concat (map letters s))"
proof -
  have "(of_char CHR ''.'' :: nat) = 46" by simp
  moreover have "97 + (of_char c :: nat) div 16 < 256" "97 + (of_char c :: nat) mod 16 < 256" for c
    using nibbles [of c] by linarith+
  ultimately have "CHR ''.'' \<notin> set (letters c)" for c
    by (auto simp: letters_def dest!: arg_cong [of _ _ "of_char :: char \<Rightarrow> nat"])
  then show ?thesis by auto
qed

lemma sample_faithful: "faithful_encodings sample_lib sample_claims"
  by (simp add: faithful_encodings_def sample_lib_def unletters_letters no_dot_letters
      del: set_concat)

lemma sample_claims_valid: "validate_claims sample_lib sample_claims = None"
  by (simp add: validate_claims_def sample_claims_def pairing_surface_join_def trimmed_def trim_def
      ascii_ws_def ws_two_def ws_three_def JOIN_TICKET_VERSION_def)

lemma minted_ticket_verifies_witness:
  "mint_ticket sample_lib (Join_Ticket_Key ''k'') sample_claims \<noteq> Inl Nonce_Required \<and>
   (case mint_ticket sample_lib (Join_Ticket_Key ''k'') sample_claims of
      Inl e \<Rightarrow> validate_claims sample_lib sample_claims = Some e
    | Inr token \<Rightarrow>
        verify_ticket sample_lib 100 (Join_Ticket_Key ''k'') token =
          (if expired 100 sample_claims then Inl Ticket_Expired else Inr sample_claims))"
  using minted_ticket_verifies [OF sample_faithful, where key = "Join_Ticket_Key ''k''" and now = 100]
  by (simp add: mint_ticket_def sample_claims_valid Let_def)

section \<open>Accepted connections\<close>

text \<open>The identity that valid claims name.\<close>

lemma validate_claims_shape:
  assumes "validate_claims lib c = None"
  shows "case jc_kind c of
      Ticket_RelayJoin \<Rightarrow>
        jc_role c = Role_Relay \<and> trimmed (jc_peer_id c) \<noteq> [] \<and> jc_pairing_id c = None \<and>
        jc_device_id c = None \<and> validate_relay_verify_key lib (trimmed (jc_relay_verify_key c))
    | Ticket_PairingSurfaceJoin \<Rightarrow>
        jc_role c = Role_Surface \<and> trimmed (jc_pairing_id c) \<noteq> [] \<and> jc_device_id c = None \<and>
        jc_relay_verify_key c = None \<and> jc_expires_at c \<noteq> None
    | Ticket_DeviceSurfaceJoin \<Rightarrow>
        jc_role c = Role_Surface \<and> trimmed (jc_device_id c) \<noteq> [] \<and> jc_pairing_id c = None \<and>
        jc_relay_verify_key c = None"
  using assms
  by (cases "jc_kind c") (auto simp: validate_claims_def split: if_splits)

lemma verify_ticket_Inr:
  assumes "verify_ticket lib now key token = Inr c"
  shows "(\<exists>p s. token = p @ ''.'' @ s \<and> tl_decode lib s = Some (tl_hmac lib (jtk_secret key) p) \<and>
      Option.bind (Option.bind (tl_decode lib p) (tl_from_slice lib)) json_claims = Some c) \<and>
    validate_claims lib c = None \<and> \<not> expired now c"
proof -
  from assms obtain p s where ps: "split_once CHR ''.'' token = Some (p, s)"
    and signed: "verify_signature lib key p s"
    and claims: "Option.bind (Option.bind (tl_decode lib p) (tl_from_slice lib)) json_claims = Some c"
    and good: "validate_claims lib c = None" "\<not> expired now c"
    by (auto simp: verify_ticket_def expired_def split: option.splits if_splits)
  from split_once_Some [OF ps] have "token = p @ ''.'' @ s" by simp
  moreover from signed have "tl_decode lib s = Some (tl_hmac lib (jtk_secret key) p)"
    by (simp add: verify_signature_def split: option.splits)
  ultimately show ?thesis using claims good by blast
qed

definition verifier_key :: "broker_join_verifier \<Rightarrow> join_ticket_key option" where
  "verifier_key v =
     (case v of SelfHosted key \<Rightarrow> Some key | PublicControlPlane key \<Rightarrow> Some key | Misconfigured _ \<Rightarrow> None)"

lemma verify_connection_Inr:
  "verify_connection lib now verifier ticket room role = Inr v \<longleftrightarrow>
     (\<exists>key c. verifier_key verifier = Some key \<and> v = verified_join c \<and>
        verify_join_ticket_for_connection lib now key ticket room role = Inr c)"
  by (cases verifier)
    (auto simp: verifier_key_def map_sum_def split: sum.splits)

lemma verify_join_Inr:
  assumes "verify_join_ticket_for_connection lib now key ticket room role = Inr c"
  shows "verify_ticket lib now key (trimmed ticket) = Inr c \<and> jc_channel_id c = room \<and>
    jc_role c = role"
  using assms
  by (auto simp: verify_join_ticket_for_connection_def split: if_splits sum.splits
      peer_role.splits join_ticket_kind.splits)

lemma verified_identity:
  assumes "verify_connection lib now verifier ticket room role = Inr v"
  shows "verified_rate_limit_identity v \<noteq> None"
proof -
  from assms obtain key c where v: "v = verified_join c"
    and c: "verify_join_ticket_for_connection lib now key ticket room role = Inr c"
    unfolding verify_connection_Inr by blast
  from verify_ticket_Inr [of lib now key "trimmed ticket" c] verify_join_Inr [OF c]
  have "validate_claims lib c = None" by blast
  from validate_claims_shape [OF this] show ?thesis
    by (cases "jc_kind c")
      (auto simp: v verified_join_def verified_rate_limit_identity_def trimmed_def
        split: option.splits)
qed

text \<open>
  C28. A connection is only accepted with a ticket whose signature is the HMAC of its payload
  under the verifier's key and whose payload holds the claims; these are for this room and role,
  are not expired, and name one identity: a relay's peer and a well-formed verify key, or a
  pairing, or a device. So the quota's identity of an accepted connection is always defined. A
  misconfigured verifier accepts nothing.
\<close>

theorem accepted_ticket_authentic:
  assumes "verify_connection lib now verifier ticket room role = Inr v"
  shows "\<exists>key p s c.
    verifier_key verifier = Some key \<and> trimmed ticket = p @ ''.'' @ s \<and>
    tl_decode lib s = Some (tl_hmac lib (jtk_secret key) p) \<and>
    Option.bind (Option.bind (tl_decode lib p) (tl_from_slice lib)) json_claims = Some c \<and>
    jc_channel_id c = room \<and> jc_role c = role \<and> \<not> expired now c \<and>
    v = verified_join c \<and>
    (if role = Role_Relay
     then vj_kind v = Ticket_RelayJoin \<and> trimmed (vj_peer_id v) \<noteq> [] \<and>
       vj_device_id v = None \<and> vj_pairing_id v = None \<and>
       validate_relay_verify_key lib (trimmed (vj_relay_verify_key v))
     else vj_relay_verify_key v = None \<and> (vj_device_id v = None) \<noteq> (vj_pairing_id v = None)) \<and>
    verified_rate_limit_identity v \<noteq> None"
proof -
  from assms obtain key c where key: "verifier_key verifier = Some key" and v: "v = verified_join c"
    and c: "verify_join_ticket_for_connection lib now key ticket room role = Inr c"
    unfolding verify_connection_Inr by blast
  from verify_ticket_Inr [of lib now key "trimmed ticket" c] verify_join_Inr [OF c]
  obtain p s where signed: "trimmed ticket = p @ ''.'' @ s"
      "tl_decode lib s = Some (tl_hmac lib (jtk_secret key) p)"
      "Option.bind (Option.bind (tl_decode lib p) (tl_from_slice lib)) json_claims = Some c"
      "validate_claims lib c = None" "\<not> expired now c" "jc_channel_id c = room" "jc_role c = role"
    by blast
  note shape = validate_claims_shape [OF signed(4)]
  have "verified_rate_limit_identity v \<noteq> None" by (rule verified_identity [OF assms])
  moreover have "if role = Role_Relay
     then vj_kind v = Ticket_RelayJoin \<and> trimmed (vj_peer_id v) \<noteq> [] \<and>
       vj_device_id v = None \<and> vj_pairing_id v = None \<and>
       validate_relay_verify_key lib (trimmed (vj_relay_verify_key v))
     else vj_relay_verify_key v = None \<and> (vj_device_id v = None) \<noteq> (vj_pairing_id v = None)"
    using shape signed by (cases "jc_kind c")
      (auto simp: v verified_join_def trimmed_def split: option.splits)
  ultimately show ?thesis using key v signed by blast
qed

lemma sample_token:
  "mint_ticket sample_lib (Join_Ticket_Key ''k'') sample_claims = Inr ''hlhn.glgigmgi''"
  unfolding mint_ticket_def sample_claims_valid option.case Let_def
  by (simp add: sample_lib_def sign_def letters_def) code_simp

lemma sample_connection:
  "verify_join_ticket_for_connection sample_lib 100 (Join_Ticket_Key ''k'') (Some ''hlhn.glgigmgi'')
     ''room'' Role_Surface = Inr sample_claims"
proof -
  have "trimmed (Some ''hlhn.glgigmgi'') = ''hlhn.glgigmgi''"
    by (simp add: trimmed_def trim_def ascii_ws_def ws_two_def ws_three_def)
  moreover have "verify_ticket sample_lib 100 (Join_Ticket_Key ''k'') ''hlhn.glgigmgi'' = Inr sample_claims"
    using verify_minted [OF sample_faithful sample_token, of 100]
    by (simp add: expired_def sample_claims_def pairing_surface_join_def)
  ultimately show ?thesis
    by (simp add: verify_join_ticket_for_connection_def)
      (simp add: sample_claims_def pairing_surface_join_def)
qed

lemma accepted_ticket_authentic_witness:
  "verify_connection sample_lib 100 (SelfHosted (Join_Ticket_Key ''k''))
      (Some ''hlhn.glgigmgi'') ''room'' Role_Surface = Inr (verified_join sample_claims) \<and>
   verified_rate_limit_identity (verified_join sample_claims) \<noteq> None"
proof -
  have v: "verify_connection sample_lib 100 (SelfHosted (Join_Ticket_Key ''k''))
      (Some ''hlhn.glgigmgi'') ''room'' Role_Surface = Inr (verified_join sample_claims)"
    by (simp add: sample_connection)
  from accepted_ticket_authentic [OF v]
  have "verified_rate_limit_identity (verified_join sample_claims) \<noteq> None" by blast
  with v show ?thesis by blast
qed

end
