(* ===== verification/Relay_Proof_Facts.thy ===== *)
theory Relay_Proof_Facts
  imports Relay_Proof Ticket_Facts
begin

text \<open>
  What a relay's proof promises: a signed message determines its purpose and every part of it, a
  challenge is accepted at most once and only for the context it was issued for, a relay never has
  more pending challenges than its capacity, and the token minted for a proof verifies as the
  relay's join ticket.
\<close>

section \<open>Signed messages determine their parts\<close>

lemma char_of_inj: "char_of m = (char_of n :: char) \<longleftrightarrow> m mod 256 = n mod (256 :: nat)"
  by (metis char_of_mod_256 of_char_of)

lemma be_bytes_inj:
  assumes "be_bytes m = be_bytes n" "m < 2 ^ 32" "n < 2 ^ 32"
  shows "m = n"
proof -
  have step: "a = b" if "a div 256 = b div 256" "a mod 256 = b mod 256" for a b :: nat
    using that by (metis div_mult_mod_eq)
  have divs: "k div 2 ^ 16 = k div 2 ^ 8 div 256" "k div 2 ^ 24 = k div 2 ^ 16 div 256" for k :: nat
    by (simp_all flip: div_mult2_eq)
  have digits: "m div 2 ^ 24 mod 256 = n div 2 ^ 24 mod 256" "m div 2 ^ 16 mod 256 = n div 2 ^ 16 mod 256"
    "m div 2 ^ 8 mod 256 = n div 2 ^ 8 mod 256" "m mod 256 = n mod 256"
    using assms(1) by (simp_all add: be_bytes_def char_of_inj)
  have top: "k div 2 ^ 24 mod 256 = k div 2 ^ 24" if "k < 2 ^ 32" for k :: nat
    using that by (intro mod_less) (simp add: less_mult_imp_div_less)
  have 24: "m div 2 ^ 24 = n div 2 ^ 24"
    using digits(1) unfolding top [OF assms(2)] top [OF assms(3)] .
  have 16: "m div 2 ^ 16 = n div 2 ^ 16"
    by (rule step) (use 24 digits(2) in \<open>simp_all only: divs(2)\<close>)
  have 8: "m div 2 ^ 8 = n div 2 ^ 8"
    by (rule step) (use 16 digits(3) in \<open>simp_all only: divs(1)\<close>)
  show ?thesis by (rule step) (use 8 digits(4) in simp_all)
qed

lemma length_be_bytes [simp]: "length (be_bytes n) = 4"
  by (simp add: be_bytes_def)

lemma length_prefixed_inj:
  "length_prefixed xs = Some a \<Longrightarrow> length_prefixed ys = Some a \<Longrightarrow> length xs = length ys \<Longrightarrow> xs = ys"
proof (induction xs ys arbitrary: a rule: list_induct2')
  case (4 x xs y ys)
  from 4(2) obtain r where x: "length x < 2 ^ 32" "length_prefixed xs = Some r"
    and a: "a = be_bytes (length x) @ x @ r" by (auto split: if_splits)
  from 4(3) obtain r' where y: "length y < 2 ^ 32" "length_prefixed ys = Some r'"
    and a': "a = be_bytes (length y) @ y @ r'" by (auto split: if_splits)
  from a a' have "be_bytes (length x) = be_bytes (length y)" and tail: "x @ r = y @ r'"
    by (simp_all add: append_eq_append_conv)
  with x(1) y(1) have "length x = length y" by (blast intro: be_bytes_inj)
  with tail have "x = y" "r = r'" by simp_all
  with 4 x y show ?case by simp
qed simp_all

lemma length_prefixed_message_inj:
  assumes "length_prefixed_message d xs = Inr m" "length_prefixed_message d ys = Inr m"
    "length xs = length ys"
  shows "xs = ys"
  using assms length_prefixed_inj [of xs _ ys]
  by (auto simp: length_prefixed_message_def split: option.splits)

lemma length_prefixed_message_domain:
  "length_prefixed_message d xs = Inr m \<Longrightarrow> \<exists>rest. m = d @ rest"
  by (auto simp: length_prefixed_message_def split: option.splits)

lemma domains_apart:
  "ws_ticket_domain @ a \<noteq> relay_join_domain @ b"
  "ws_ticket_domain @ a \<noteq> relay_control_domain @ b"
  "relay_join_domain @ a \<noteq> relay_control_domain @ b"
  by (simp_all add: ws_ticket_domain_def relay_join_domain_def relay_control_domain_def)

lemmas message_defs = relay_ws_ticket_message_def relay_join_message_def relay_control_message_def

definition same_proof :: "relay_proof_context \<Rightarrow> relay_proof_context \<Rightarrow> bool" where
  "same_proof c d \<longleftrightarrow>
     pc_target c = pc_target d \<and>
     pi_refresh_token_hash (pc_identity c) = pi_refresh_token_hash (pc_identity d) \<and>
     pi_relay_id (pc_identity c) = pi_relay_id (pc_identity d) \<and>
     pi_broker_room_id (pc_identity c) = pi_broker_room_id (pc_identity d) \<and>
     pi_broker_origin (pc_identity c) = pi_broker_origin (pc_identity d)"

lemma context_message_inj:
  assumes "context_message c i n = Inr m" "context_message d j k = Inr m"
  shows "same_proof c d \<and> i = j \<and> n = k"
proof (cases "pc_target c"; cases "pc_target d")
  fix p q assume t: "pc_target c = Ws_Ticket p" "pc_target d = Ws_Ticket q"
  from assms show ?thesis
    unfolding context_message_def message_defs Let_def t relay_proof_target.case
    by (auto simp: same_proof_def t dest: length_prefixed_message_inj)
next
  fix o1 h1 o2 h2 assume t: "pc_target c = Control o1 h1" "pc_target d = Control o2 h2"
  from assms show ?thesis
    unfolding context_message_def message_defs Let_def t relay_proof_target.case
    by (auto simp: same_proof_def t dest: length_prefixed_message_inj)
next
  fix p o1 h1 assume t: "pc_target c = Ws_Ticket p" "pc_target d = Control o1 h1"
  from assms show ?thesis
    unfolding context_message_def message_defs Let_def t relay_proof_target.case
    by (metis domains_apart(2) length_prefixed_message_domain)
next
  fix o1 h1 q assume t: "pc_target c = Control o1 h1" "pc_target d = Ws_Ticket q"
  from assms show ?thesis
    unfolding context_message_def message_defs Let_def t relay_proof_target.case
    by (metis domains_apart(2) length_prefixed_message_domain)
qed

lemma context_message_not_join:
  assumes "context_message c i n = Inr m" shows "relay_join_message a b d e f g h \<noteq> Inr m"
proof (cases "pc_target c")
  case (Ws_Ticket p)
  with assms have "\<exists>r. m = ws_ticket_domain @ r"
    by (auto simp: context_message_def message_defs Let_def dest: length_prefixed_message_domain)
  then show ?thesis
    unfolding message_defs by (metis domains_apart(1) length_prefixed_message_domain)
next
  case (Control p q)
  with assms have "\<exists>r. m = relay_control_domain @ r"
    by (auto simp: context_message_def message_defs Let_def dest: length_prefixed_message_domain)
  then show ?thesis
    unfolding message_defs by (metis domains_apart(3) length_prefixed_message_domain)
qed

text \<open>
  C30. The bytes that a relay signs determine what it signs: a message of one purpose is no message
  of another (token, control request, socket join), and two messages of the same purpose that are
  equal have the same challenge, nonce, origin, relay, room and purpose-specific parts. Length
  prefixes keep text from sliding from one part into the next.
\<close>

theorem signed_message_binds:
  assumes "context_message c i n = Inr m"
    and "relay_join_message origin id_text nonce ticket_hash relay room peer = Inr joined"
  shows "relay_join_message origin id_text nonce ticket_hash relay room peer \<noteq> Inr m \<and>
    (\<forall>d j k. context_message d j k = Inr m \<longrightarrow> same_proof c d \<and> i = j \<and> n = k) \<and>
    (\<forall>origin' id_text' nonce' ticket_hash' relay' room' peer'.
      relay_join_message origin' id_text' nonce' ticket_hash' relay' room' peer' = Inr joined \<longrightarrow>
      [origin, id_text, nonce, ticket_hash, relay, room, peer] =
        [origin', id_text', nonce', ticket_hash', relay', room', peer'])"
  using context_message_not_join [OF assms(1)] context_message_inj [OF assms(1)] assms(2)
  by (auto simp: relay_join_message_def dest: length_prefixed_message_inj)

section \<open>Requests and what they issue\<close>

datatype proof_request =
    Challenge_Ws u64 u64 string string "proof_error + relay_identity" string
  | Issue_Ws join_ticket_key u64 u64 u64 string "proof_error + relay_identity" string string string
  | Challenge_Control u64 u64 string string "proof_error + relay_identity" string string
  | Use_Control u64 "string \<Rightarrow> string \<Rightarrow> proof_error + relay_identity" string string string string

fun proof_step :: "proof_lib \<Rightarrow> proof_request \<Rightarrow> relay_proofs \<Rightarrow> relay_proofs" where
  "proof_step lib (Challenge_Ws now ttl t24 t40 who peer) ps =
     snd (create_relay_ws_ticket_challenge now ttl t24 t40 who peer ps)"
| "proof_step lib (Issue_Ws issuer now later ws_ttl nonce who peer challenge_id signature) ps =
     snd (issue_relay_ws_token lib issuer now later ws_ttl nonce who peer challenge_id signature ps)"
| "proof_step lib (Challenge_Control now ttl t24 t40 who operation request_hash) ps =
     snd (create_relay_control_challenge now ttl t24 t40 who operation request_hash ps)"
| "proof_step lib (Use_Control now authenticate operation body challenge_id signature) ps =
     snd (consume_relay_control_proof lib now authenticate operation body challenge_id signature ps)"

text \<open>The challenges that a request adds, with the context each was issued for.\<close>

fun proof_issues :: "proof_request \<Rightarrow> relay_proofs \<Rightarrow> (relay_proof_context \<times> issued_challenge) list" where
  "proof_issues (Challenge_Ws now ttl t24 t40 who peer) ps =
     (case (who, fst (create_relay_ws_ticket_challenge now ttl t24 t40 who peer ps)) of
        (Inr i, Inr issued) \<Rightarrow> [(\<lparr>pc_identity = i, pc_target = Ws_Ticket (trim peer)\<rparr>, issued)]
      | _ \<Rightarrow> [])"
| "proof_issues (Challenge_Control now ttl t24 t40 who operation request_hash) ps =
     (case (who, fst (create_relay_control_challenge now ttl t24 t40 who operation request_hash ps)) of
        (Inr i, Inr issued) \<Rightarrow>
          [(\<lparr>pc_identity = i,
             pc_target = Control (trim operation) (map ascii_lower (trim request_hash))\<rparr>, issued)]
      | _ \<Rightarrow> [])"
| "proof_issues _ ps = []"

fun proof_run :: "proof_lib \<Rightarrow> proof_request list \<Rightarrow> relay_proofs \<Rightarrow> relay_proofs" where
  "proof_run lib [] ps = ps"
| "proof_run lib (q # qs) ps = proof_run lib qs (proof_step lib q ps)"

fun run_issues ::
    "proof_lib \<Rightarrow> proof_request list \<Rightarrow> relay_proofs \<Rightarrow> (relay_proof_context \<times> issued_challenge) list" where
  "run_issues lib [] ps = []"
| "run_issues lib (q # qs) ps = proof_issues q ps @ run_issues lib qs (proof_step lib q ps)"

definition no_proofs :: relay_proofs where "no_proofs = \<lparr>rp_ws = [], rp_control = []\<rparr>"

text \<open>
  One request changes each store by pruning, by consuming, or by adding one issued challenge.
\<close>

inductive store_step ::
    "nat \<Rightarrow> (relay_proof_context \<times> issued_challenge) list \<Rightarrow> challenges \<Rightarrow> challenges \<Rightarrow> bool" where
  kept: "set cs' \<subseteq> set cs \<Longrightarrow> (\<forall>r. pending_of r cs' \<le> pending_of r cs) \<Longrightarrow>
    (distinct (map fst cs) \<Longrightarrow> distinct (map fst cs')) \<Longrightarrow> store_step capacity issued cs cs'"
| added: "set cs' \<subseteq> set cs \<Longrightarrow> (\<forall>r. pending_of r cs' \<le> pending_of r cs) \<Longrightarrow>
    (distinct (map fst cs) \<Longrightarrow> distinct (map fst cs')) \<Longrightarrow>
    pending_of (pi_relay_id (pc_identity ctx)) cs' < capacity \<Longrightarrow> (ctx, new) \<in> set issued \<Longrightarrow>
    store_step capacity issued cs
      (AList.update (is_challenge_id new)
        \<lparr>pd_context = ctx, pd_challenge = is_challenge new, pd_expires_at = is_expires_at new\<rparr> cs')"

lemma pending_filter: "pending_of r (filter P cs) \<le> pending_of r cs"
  unfolding pending_of_def by (induction cs) auto

lemma pending_delete: "pending_of r (AList.delete k cs) \<le> pending_of r cs"
  by (simp add: pending_filter AList.delete_eq)

lemma pending_update:
  "pending_of r (AList.update k p cs) \<le>
     pending_of r cs + (if pi_relay_id (pc_identity (pd_context p)) = r then 1 else 0)"
  unfolding pending_of_def by (induction cs) auto

lemma create_store_step:
  "store_step (snd (snd (challenge_parameters (pc_target ctx))))
     (case fst (create_relay_proof_challenge now ttl t24 t40 ctx cs) of Inl _ \<Rightarrow> [] | Inr new \<Rightarrow> [(ctx, new)])
     cs (snd (create_relay_proof_challenge now ttl t24 t40 ctx cs))"
proof -
  obtain a b capacity where params: "challenge_parameters (pc_target ctx) = (a, b, capacity)"
    by (cases "challenge_parameters (pc_target ctx)")
  let ?cs = "filter (\<lambda>(_, p). now < pd_expires_at p) cs"
  have sub: "set ?cs \<subseteq> set cs" "\<forall>r. pending_of r ?cs \<le> pending_of r cs"
    "distinct (map fst cs) \<Longrightarrow> distinct (map fst ?cs)"
    by (auto simp: pending_filter distinct_map_filter)
  show ?thesis
  proof (cases "capacity \<le> pending_of (pi_relay_id (pc_identity ctx)) ?cs")
    case True
    then show ?thesis
      using store_step.kept [OF sub] by (simp add: create_relay_proof_challenge_def params Let_def)
  next
    case False
    define new where "new = \<lparr>is_challenge_id = a @ ''-'' @ map ascii_lower t24,
      is_challenge = b @ ''-'' @ map ascii_lower t40, is_expires_at = sat_add now ttl\<rparr>"
    have "store_step capacity [(ctx, new)] cs
        (AList.update (is_challenge_id new)
          \<lparr>pd_context = ctx, pd_challenge = is_challenge new, pd_expires_at = is_expires_at new\<rparr> ?cs)"
      using False by (intro store_step.added [OF sub]) simp_all
    with False show ?thesis
      by (simp add: create_relay_proof_challenge_def params Let_def new_def)
  qed
qed

lemma deleted_store_step: "store_step capacity [] cs (AList.delete k cs)"
  by (rule store_step.kept) (auto simp: pending_delete distinct_delete, auto simp: AList.delete_eq)

lemma store_step_refl: "store_step capacity issued cs cs"
  by (rule store_step.kept) simp_all

lemma consume_store_step:
  "store_step capacity [] cs (snd (consume_relay_proof_challenge lib now ctx k signature cs))"
  by (simp add: consume_relay_proof_challenge_def deleted_store_step store_step_refl
      split: option.split sum.split)

definition capacity :: nat where "capacity = 64"

lemma capacities [simp]:
  "MAX_PENDING_RELAY_WS_TICKET_CHALLENGES_PER_RELAY = capacity"
  "MAX_PENDING_RELAY_CONTROL_CHALLENGES_PER_RELAY = capacity"
  by (simp_all add: MAX_PENDING_RELAY_WS_TICKET_CHALLENGES_PER_RELAY_def
      MAX_PENDING_RELAY_CONTROL_CHALLENGES_PER_RELAY_def capacity_def)

lemma challenge_ws_step:
  "store_step capacity (proof_issues (Challenge_Ws now ttl t24 t40 who peer) ps)
     (rp_ws ps) (rp_ws (proof_step lib (Challenge_Ws now ttl t24 t40 who peer) ps)) \<and>
   rp_control (proof_step lib (Challenge_Ws now ttl t24 t40 who peer) ps) = rp_control ps"
proof (cases who)
  case (Inr i)
  show ?thesis
    using create_store_step [of "\<lparr>pc_identity = i, pc_target = Ws_Ticket (trim peer)\<rparr>" now ttl t24 t40 "rp_ws ps"]
    by (auto simp: Inr create_relay_ws_ticket_challenge_def store_step_refl split_def
        split: sum.splits)
qed (simp add: create_relay_ws_ticket_challenge_def store_step_refl)

lemma challenge_control_step:
  "store_step capacity (proof_issues (Challenge_Control now ttl t24 t40 who operation h) ps)
     (rp_control ps) (rp_control (proof_step lib (Challenge_Control now ttl t24 t40 who operation h) ps)) \<and>
   rp_ws (proof_step lib (Challenge_Control now ttl t24 t40 who operation h) ps) = rp_ws ps"
proof (cases who)
  case (Inr i)
  show ?thesis
    using create_store_step [of "\<lparr>pc_identity = i,
        pc_target = Control (trim operation) (map ascii_lower (trim h))\<rparr>" now ttl t24 t40 "rp_control ps"]
    by (auto simp: Inr create_relay_control_challenge_def store_step_refl split_def
        split: sum.splits option.splits)
qed (simp add: create_relay_control_challenge_def store_step_refl split: option.split)

lemma issue_ws_step:
  "store_step capacity [] (rp_ws ps)
     (rp_ws (snd (issue_relay_ws_token lib issuer now later ws_ttl nonce who peer k signature ps))) \<and>
   rp_control (snd (issue_relay_ws_token lib issuer now later ws_ttl nonce who peer k signature ps)) =
     rp_control ps"
proof (cases who)
  case (Inr i)
  show ?thesis
    using consume_store_step [of capacity "rp_ws ps" lib now
        "\<lparr>pc_identity = i, pc_target = Ws_Ticket (trim peer)\<rparr>" "trim k" "trim signature"]
    by (auto simp: Inr issue_relay_ws_token_def store_step_refl Let_def split_def split: sum.split)
qed (simp add: issue_relay_ws_token_def store_step_refl)

lemma use_control_step:
  "store_step capacity [] (rp_control ps)
     (rp_control (snd (consume_relay_control_proof lib now authenticate operation body k signature ps))) \<and>
   rp_ws (snd (consume_relay_control_proof lib now authenticate operation body k signature ps)) =
     rp_ws ps"
  by (auto simp: consume_relay_control_proof_def store_step_refl Let_def split_def consume_store_step
      split: sum.split option.split)

lemma proof_step_stores:
  "store_step capacity (proof_issues q ps) (rp_ws ps) (rp_ws (proof_step lib q ps)) \<and>
   store_step capacity (proof_issues q ps) (rp_control ps) (rp_control (proof_step lib q ps))"
proof (cases q)
  case Challenge_Ws
  then show ?thesis using challenge_ws_step store_step_refl by metis
next
  case Challenge_Control
  then show ?thesis using challenge_control_step store_step_refl by metis
next
  case Issue_Ws
  then show ?thesis using issue_ws_step store_step_refl by (metis proof_issues.simps(3) proof_step.simps(2))
next
  case Use_Control
  then show ?thesis using use_control_step store_step_refl by (metis proof_issues.simps(4) proof_step.simps(4))
qed

section \<open>What a store holds\<close>

definition issued_entry :: "(relay_proof_context \<times> issued_challenge) list \<Rightarrow> string \<times> pending_challenge \<Rightarrow> bool" where
  "issued_entry hist e \<longleftrightarrow>
     (\<exists>new. (pd_context (snd e), new) \<in> set hist \<and> fst e = is_challenge_id new \<and>
        pd_challenge (snd e) = is_challenge new \<and> pd_expires_at (snd e) = is_expires_at new)"

definition store_ok :: "(relay_proof_context \<times> issued_challenge) list \<Rightarrow> challenges \<Rightarrow> bool" where
  "store_ok hist cs \<longleftrightarrow>
     distinct (map fst cs) \<and> (\<forall>e\<in>set cs. issued_entry hist e) \<and> (\<forall>r. pending_of r cs \<le> capacity)"

lemma set_update_subset: "set (AList.update k v xs) \<subseteq> insert (k, v) (set xs)"
  by (induction xs) auto

lemma store_step_ok:
  assumes "store_step capacity issued cs cs'" "store_ok hist cs"
  shows "store_ok (hist @ issued) cs'"
  using assms
proof cases
  case kept
  with assms(2) show ?thesis
    by (fastforce simp: store_ok_def issued_entry_def intro: le_trans)
next
  case (added cs1 ctx new)
  let ?p = "\<lparr>pd_context = ctx, pd_challenge = is_challenge new, pd_expires_at = is_expires_at new\<rparr>"
  have "issued_entry (hist @ issued) (is_challenge_id new, ?p)"
    using added by (auto simp: issued_entry_def)
  moreover have "\<forall>e\<in>set cs1. issued_entry (hist @ issued) e"
    using added assms(2) by (fastforce simp: store_ok_def issued_entry_def)
  ultimately have "\<forall>e\<in>set cs'. issued_entry (hist @ issued) e"
    using set_update_subset [of "is_challenge_id new" ?p cs1] added(1) by auto
  moreover have "pending_of r cs' \<le> capacity" for r
  proof -
    have "pending_of r cs1 \<le> capacity"
      using added(3) assms(2) le_trans unfolding store_ok_def by blast
    with pending_update [of r "is_challenge_id new" ?p cs1] added(1,5) show ?thesis
      by (auto split: if_splits)
  qed
  ultimately show ?thesis
    using added assms(2) by (simp add: store_ok_def distinct_update)
qed

lemma store_step_gone:
  assumes "store_step capacity issued cs cs'" "k \<notin> fst ` set cs" "k \<notin> is_challenge_id ` snd ` set issued"
  shows "k \<notin> fst ` set cs'"
  using assms
proof cases
  case kept
  with assms(2) show ?thesis by blast
next
  case (added cs1 ctx new)
  then have "k \<noteq> is_challenge_id new" using assms(3) by (metis image_eqI snd_conv)
  moreover have "k \<notin> fst ` set cs1" using added(2) assms(2) by blast
  ultimately show ?thesis unfolding added(1) dom_update by simp
qed

lemma proof_run_ok:
  "store_ok hist (rp_ws ps) \<Longrightarrow> store_ok hist (rp_control ps) \<Longrightarrow>
     store_ok (hist @ run_issues lib qs ps) (rp_ws (proof_run lib qs ps)) \<and>
     store_ok (hist @ run_issues lib qs ps) (rp_control (proof_run lib qs ps))"
proof (induction qs arbitrary: hist ps)
  case (Cons q qs)
  then show ?case
    using Cons.IH [of "hist @ proof_issues q ps" "proof_step lib q ps"] proof_step_stores [of q ps lib]
    by (auto intro: store_step_ok)
qed simp

lemma proof_run_gone:
  "k \<notin> is_challenge_id ` snd ` set (run_issues lib qs ps) \<Longrightarrow>
     (k \<notin> fst ` set (rp_ws ps) \<longrightarrow> k \<notin> fst ` set (rp_ws (proof_run lib qs ps))) \<and>
     (k \<notin> fst ` set (rp_control ps) \<longrightarrow> k \<notin> fst ` set (rp_control (proof_run lib qs ps)))"
proof (induction qs arbitrary: ps)
  case (Cons q qs)
  from Cons.prems have here: "k \<notin> is_challenge_id ` snd ` set (proof_issues q ps)"
    and later: "k \<notin> is_challenge_id ` snd ` set (run_issues lib qs (proof_step lib q ps))" by auto
  from Cons.IH [OF later] store_step_gone [OF proof_step_stores [THEN conjunct1] _ here]
    store_step_gone [OF proof_step_stores [THEN conjunct2] _ here]
  show ?case by simp
qed simp

section \<open>Acceptance\<close>

text \<open>The context, challenge id, signature and time of a request whose proof is accepted.\<close>

definition issue_context :: "relay_identity \<Rightarrow> string \<Rightarrow> relay_proof_context" where
  "issue_context i peer = \<lparr>pc_identity = i, pc_target = Ws_Ticket (trim peer)\<rparr>"

definition control_context :: "proof_lib \<Rightarrow> relay_identity \<Rightarrow> string \<Rightarrow> string \<Rightarrow> relay_proof_context" where
  "control_context lib i operation body =
     \<lparr>pc_identity = i, pc_target = Control (trim operation) (pl_sha256_hex lib body)\<rparr>"

fun proof_accepts ::
    "proof_lib \<Rightarrow> proof_request \<Rightarrow> relay_proofs \<Rightarrow> (relay_proof_context \<times> string \<times> string \<times> u64) option" where
  "proof_accepts lib (Issue_Ws issuer now later ws_ttl nonce who peer k signature) ps =
     (case (who, fst (issue_relay_ws_token lib issuer now later ws_ttl nonce who peer k signature ps)) of
        (Inr i, Inr _) \<Rightarrow> Some (issue_context i peer, trim k, trim signature, now)
      | _ \<Rightarrow> None)"
| "proof_accepts lib (Use_Control now authenticate operation body k signature) ps =
     (case fst (consume_relay_control_proof lib now authenticate operation body k signature ps) of
        Inl _ \<Rightarrow> None
      | Inr _ \<Rightarrow>
          (case tl_from_slice (pl_ticket lib) body of
             None \<Rightarrow> None
           | Some v \<Rightarrow>
               (case authenticate (body_field ''relay_id'' v) (body_field ''broker_room_id'' v) of
                  Inl _ \<Rightarrow> None
                | Inr i \<Rightarrow> Some (control_context lib i operation body, trim k, trim signature, now))))"
| "proof_accepts lib _ ps = None"

definition store_for :: "relay_proof_context \<Rightarrow> relay_proofs \<Rightarrow> challenges" where
  "store_for ctx ps = (case pc_target ctx of Ws_Ticket _ \<Rightarrow> rp_ws ps | Control _ _ \<Rightarrow> rp_control ps)"

lemma consume_Inr:
  assumes "fst (consume_relay_proof_challenge lib now ctx k signature cs) = Inr u"
  shows "\<exists>p m. map_of cs k = Some p \<and> now < pd_expires_at p \<and> pd_context p = ctx \<and>
      context_message ctx k (pd_challenge p) = Inr m \<and>
      verify_relay_signature lib (pi_relay_verify_key (pc_identity ctx)) m signature"
    and "snd (consume_relay_proof_challenge lib now ctx k signature cs) = AList.delete k cs"
  using assms by (auto simp: consume_relay_proof_challenge_def split: option.splits sum.splits if_splits)

lemma issue_Inr:
  assumes "fst (issue_relay_ws_token lib issuer now later ws_ttl nonce (Inr i) peer k signature ps) =
    Inr (token, expires_at)"
  shows "fst (consume_relay_proof_challenge lib now (issue_context i peer) (trim k) (trim signature) (rp_ws ps)) = Inr ()"
    and "rp_ws (snd (issue_relay_ws_token lib issuer now later ws_ttl nonce (Inr i) peer k signature ps)) =
      snd (consume_relay_proof_challenge lib now (issue_context i peer) (trim k) (trim signature) (rp_ws ps))"
    and "expires_at = sat_add later ws_ttl \<and>
      mint_ticket (pl_ticket lib) issuer
        (relay_join_with_expiry nonce (pi_broker_room_id i) (trim peer) (pi_relay_verify_key i)
          (Some expires_at)) = Inr token"
  using assms
  by (auto simp: issue_relay_ws_token_def issue_context_def Let_def split_def
      split: if_splits sum.splits)

lemma store_for_simps [simp]:
  "store_for (issue_context i peer) ps = rp_ws ps"
  "store_for (control_context lib i operation body) ps = rp_control ps"
  by (simp_all add: store_for_def issue_context_def control_context_def)

lemma accepts_ws:
  assumes "proof_accepts lib (Issue_Ws issuer now later ws_ttl nonce who peer k signature) ps = Some a"
  shows "\<exists>i. a = (issue_context i peer, trim k, trim signature, now) \<and>
    fst (consume_relay_proof_challenge lib now (issue_context i peer) (trim k) (trim signature) (rp_ws ps)) = Inr () \<and>
    rp_ws (snd (issue_relay_ws_token lib issuer now later ws_ttl nonce who peer k signature ps)) =
      AList.delete (trim k) (rp_ws ps)"
proof -
  from assms obtain i r where who: "who = Inr i" and a: "a = (issue_context i peer, trim k, trim signature, now)"
    and ok: "fst (issue_relay_ws_token lib issuer now later ws_ttl nonce (Inr i) peer k signature ps) = Inr r"
    unfolding proof_accepts.simps by (auto split: sum.splits)
  obtain token expires_at where "r = (token, expires_at)" by (cases r)
  note issued = issue_Inr [OF ok [unfolded this]]
  show ?thesis
    unfolding who using a issued(1,2) consume_Inr(2) [OF issued(1)] by metis
qed

lemma control_Inr:
  assumes "fst (consume_relay_control_proof lib now authenticate operation body k signature ps) = Inr u"
    and "tl_from_slice (pl_ticket lib) body = Some v"
    and "authenticate (body_field ''relay_id'' v) (body_field ''broker_room_id'' v) = Inr i"
  shows "fst (consume_relay_proof_challenge lib now (control_context lib i operation body) (trim k)
      (trim signature) (rp_control ps)) = Inr ()"
    and "rp_control (snd (consume_relay_control_proof lib now authenticate operation body k signature ps)) =
      snd (consume_relay_proof_challenge lib now (control_context lib i operation body) (trim k)
        (trim signature) (rp_control ps))"
  using assms
  by (auto simp: consume_relay_control_proof_def control_context_def Let_def split_def
      split: if_splits option.splits)

lemma accepts_control:
  assumes "proof_accepts lib (Use_Control now authenticate operation body k signature) ps = Some a"
  shows "\<exists>i. a = (control_context lib i operation body, trim k, trim signature, now) \<and>
    fst (consume_relay_proof_challenge lib now (control_context lib i operation body) (trim k)
      (trim signature) (rp_control ps)) = Inr () \<and>
    rp_control (snd (consume_relay_control_proof lib now authenticate operation body k signature ps)) =
      AList.delete (trim k) (rp_control ps)"
proof -
  from assms obtain v i u where a: "a = (control_context lib i operation body, trim k, trim signature, now)"
    and ok: "fst (consume_relay_control_proof lib now authenticate operation body k signature ps) = Inr u"
      "tl_from_slice (pl_ticket lib) body = Some v"
      "authenticate (body_field ''relay_id'' v) (body_field ''broker_room_id'' v) = Inr i"
    unfolding proof_accepts.simps by (auto split: sum.splits option.splits)
  note used = control_Inr [OF ok]
  show ?thesis using a used consume_Inr(2) [OF used(1)] by metis
qed

lemma accepts_consumes:
  assumes "proof_accepts lib q ps = Some (ctx, k, signature, now)"
  shows "fst (consume_relay_proof_challenge lib now ctx k signature (store_for ctx ps)) = Inr () \<and>
    store_for ctx (proof_step lib q ps) = AList.delete k (store_for ctx ps)"
proof (cases q)
  case Issue_Ws
  with assms show ?thesis by (auto dest!: accepts_ws simp del: proof_accepts.simps)
next
  case Use_Control
  with assms show ?thesis by (auto dest!: accepts_control simp del: proof_accepts.simps)
qed (use assms in simp_all)

definition prefix_of :: "relay_proof_context \<Rightarrow> string" where
  "prefix_of ctx = fst (challenge_parameters (pc_target ctx))"

lemma created_prefix:
  "fst (create_relay_proof_challenge now ttl t24 t40 ctx cs) = Inr new \<Longrightarrow>
     take 3 (is_challenge_id new) = prefix_of ctx"
  by (cases "pc_target ctx")
    (auto simp: create_relay_proof_challenge_def prefix_of_def Let_def split: if_splits)

lemma issues_prefix:
  assumes "(ctx, new) \<in> set (proof_issues q ps)"
  shows "take 3 (is_challenge_id new) = prefix_of ctx"
proof (cases q)
  case Challenge_Ws
  with assms show ?thesis
    by (auto simp: create_relay_ws_ticket_challenge_def split_def Let_def created_prefix
        split: sum.splits if_splits)
next
  case Challenge_Control
  with assms show ?thesis
    by (auto simp: create_relay_control_challenge_def split_def Let_def created_prefix
        split: sum.splits if_splits option.splits)
qed (use assms in simp_all)

lemma run_issues_prefix:
  "(ctx, new) \<in> set (run_issues lib qs ps) \<Longrightarrow> take 3 (is_challenge_id new) = prefix_of ctx"
  by (induction qs arbitrary: ps) (auto dest: issues_prefix)

lemma run_append:
  "proof_run lib (qs @ qs') ps = proof_run lib qs' (proof_run lib qs ps)"
  by (induction qs arbitrary: ps) auto

lemma reached_ok:
  "store_ok (run_issues lib qs no_proofs) (rp_ws (proof_run lib qs no_proofs)) \<and>
   store_ok (run_issues lib qs no_proofs) (rp_control (proof_run lib qs no_proofs))"
proof -
  have "store_ok [] (rp_ws no_proofs)" "store_ok [] (rp_control no_proofs)"
    by (simp_all add: store_ok_def no_proofs_def pending_of_def)
  from proof_run_ok [OF this, of lib qs] show ?thesis by simp
qed

lemma accepted_entry:
  assumes "proof_accepts lib q (proof_run lib qs no_proofs) = Some (ctx, k, signature, now)"
  shows "\<exists>new m. (ctx, new) \<in> set (run_issues lib qs no_proofs) \<and> is_challenge_id new = k \<and>
    now < is_expires_at new \<and> context_message ctx k (is_challenge new) = Inr m \<and>
    verify_relay_signature lib (pi_relay_verify_key (pc_identity ctx)) m signature"
proof -
  let ?ps = "proof_run lib qs no_proofs"
  from consume_Inr(1) [OF accepts_consumes [OF assms, THEN conjunct1]] obtain p m
    where p: "map_of (store_for ctx ?ps) k = Some p" "now < pd_expires_at p" "pd_context p = ctx"
      "context_message ctx k (pd_challenge p) = Inr m"
      "verify_relay_signature lib (pi_relay_verify_key (pc_identity ctx)) m signature" by blast
  have "store_ok (run_issues lib qs no_proofs) (store_for ctx ?ps)"
    using reached_ok [of lib qs] by (simp add: store_for_def split: relay_proof_target.split)
  with p(1) have "issued_entry (run_issues lib qs no_proofs) (k, p)"
    by (auto simp: store_ok_def dest: map_of_SomeD)
  with p show ?thesis by (force simp: issued_entry_def)
qed

text \<open>
  C29. Whatever requests come, a proof is only accepted for a challenge that the broker issued
  earlier for this very context, before it expires, with a signature that verifies on the message
  of that context and challenge; and once accepted, no later request is accepted with that
  challenge, neither for a token nor for a control operation, unless the same id is issued anew.
\<close>

theorem relay_proof_used_once:
  assumes "proof_accepts lib q (proof_run lib qs no_proofs) = Some (ctx, k, signature, now)"
    and "k \<notin> is_challenge_id ` snd ` set (run_issues lib later (proof_run lib (qs @ [q]) no_proofs))"
  shows "(\<exists>new m. (ctx, new) \<in> set (run_issues lib qs no_proofs) \<and> is_challenge_id new = k \<and>
      now < is_expires_at new \<and> context_message ctx k (is_challenge new) = Inr m \<and>
      verify_relay_signature lib (pi_relay_verify_key (pc_identity ctx)) m signature) \<and>
    proof_accepts lib again (proof_run lib (qs @ [q] @ later) no_proofs) \<noteq> Some (ctx', k, signature', now')"
proof (intro conjI notI)
  let ?ps = "proof_run lib qs no_proofs"
  show first: "\<exists>new m. (ctx, new) \<in> set (run_issues lib qs no_proofs) \<and> is_challenge_id new = k \<and>
      now < is_expires_at new \<and> context_message ctx k (is_challenge new) = Inr m \<and>
      verify_relay_signature lib (pi_relay_verify_key (pc_identity ctx)) m signature"
    by (rule accepted_entry [OF assms(1)])
  assume again: "proof_accepts lib again (proof_run lib (qs @ [q] @ later) no_proofs) = Some (ctx', k, signature', now')"
  from accepted_entry [OF again] first have "prefix_of ctx' = prefix_of ctx"
    by (metis run_issues_prefix)
  then have same: "store_for ctx' ps = store_for ctx ps" for ps
    by (cases "pc_target ctx"; cases "pc_target ctx'") (simp_all add: prefix_of_def store_for_def)
  have "k \<notin> fst ` set (store_for ctx (proof_run lib (qs @ [q]) no_proofs))"
    using accepts_consumes [OF assms(1)] by (simp add: run_append delete_notin_dom)
  then have "k \<notin> fst ` set (store_for ctx (proof_run lib (qs @ [q] @ later) no_proofs))"
    using proof_run_gone [OF assms(2)]
    by (auto simp: run_append store_for_def split: relay_proof_target.splits)
  moreover from consume_Inr(1) [OF accepts_consumes [OF again, THEN conjunct1]]
  have "k \<in> fst ` set (store_for ctx (proof_run lib (qs @ [q] @ later) no_proofs))"
    unfolding same by (force dest: map_of_SomeD)
  ultimately show False by blast
qed

text \<open>
  A relay never has more than 64 challenges pending for tokens, nor more than 64 for control
  requests, and a challenge id names one challenge.
\<close>

theorem pending_challenges_bounded:
  "pending_of relay (rp_ws (proof_run lib qs no_proofs)) \<le> 64 \<and>
   pending_of relay (rp_control (proof_run lib qs no_proofs)) \<le> 64 \<and>
   distinct (map fst (rp_ws (proof_run lib qs no_proofs))) \<and>
   distinct (map fst (rp_control (proof_run lib qs no_proofs)))"
  using reached_ok [of lib qs] by (simp add: store_ok_def capacity_def)

text \<open>
  A token issued for an accepted proof verifies under the issuer's key, until it expires, as a
  relay's join ticket for exactly the room, the peer and the verify key that were proven.
\<close>

theorem proven_relay_gets_ticket:
  assumes "fst (issue_relay_ws_token lib issuer now later ws_ttl nonce (Inr i) peer k signature ps) =
      Inr (token, expires_at)"
    and "claims = relay_join_with_expiry nonce (pi_broker_room_id i) (trim peer) (pi_relay_verify_key i)
      (Some expires_at)"
    and "faithful_encodings (pl_ticket lib) claims"
  shows "verify_ticket (pl_ticket lib) moment issuer token =
    (if expires_at < moment then Inl Ticket_Expired else Inr claims)"
proof -
  have "mint_ticket (pl_ticket lib) issuer claims = Inr token"
    unfolding assms(2) using issue_Inr(3) [OF assms(1)] by blast
  moreover have "expired moment claims \<longleftrightarrow> expires_at < moment"
    by (simp add: assms(2) expired_def relay_join_with_expiry_def)
  ultimately show ?thesis using verify_minted [OF assms(3)] by simp
qed

section \<open>Witnesses\<close>

definition sample_identity :: relay_identity where
  "sample_identity = \<lparr>pi_refresh_token_hash = ''h'', pi_relay_id = ''r'', pi_broker_room_id = ''room'',
     pi_broker_origin = ''o'', pi_relay_verify_key = ''key''\<rparr>"

definition sample_relay_claims :: join_ticket_claims where
  "sample_relay_claims = relay_join_with_expiry ''n'' ''room'' ''peer'' ''key'' (Some 80)"

definition sample_proof_lib :: proof_lib where
  "sample_proof_lib =
     \<lparr>pl_ticket = sample_lib
        \<lparr>tl_std_decode := \<lambda>s. Some (replicate (if s = ''sig'' then 64 else 32) CHR ''x''),
         tl_from_slice := \<lambda>_. Some (claims_json sample_relay_claims)\<rparr>,
      pl_verify = (\<lambda>_ _ _. True), pl_sha256_hex = (\<lambda>s. s)\<rparr>"

abbreviation sample_issue :: proof_request where
  "sample_issue \<equiv> Issue_Ws (Join_Ticket_Key ''k'') 20 20 60 ''n'' (Inr sample_identity) ''peer'' ''wch-t'' ''sig''"

abbreviation sample_challenge :: proof_request where
  "sample_challenge \<equiv> Challenge_Ws 10 60 ''t'' ''u'' (Inr sample_identity) ''peer''"

lemmas sample_proof_defs = sample_identity_def sample_relay_claims_def sample_proof_lib_def
  sample_lib_def

lemmas trim_simps = trim_def ascii_ws_def ws_two_def ws_three_def

lemma sample_trims [simp]:
  "trim ''peer'' = ''peer''" "trim ''wch-t'' = ''wch-t''" "trim ''sig'' = ''sig''" "trim ''key'' = ''key''"
  "trim ''room'' = ''room''" "trim ''n'' = ''n''"
  by (simp_all add: trim_simps)

lemma sample_store:
  "proof_run sample_proof_lib [sample_challenge] no_proofs =
     \<lparr>rp_ws = [(''wch-t'', \<lparr>pd_context = issue_context sample_identity ''peer'', pd_challenge = ''wt-u'',
        pd_expires_at = 70\<rparr>)], rp_control = []\<rparr>"
  by (simp add: no_proofs_def create_relay_ws_ticket_challenge_def too_long_def MAX_ID_BYTES_def
      create_relay_proof_challenge_def pending_of_def issue_context_def sat_add_def ascii_lower_def
      char_between_def capacity_def)

lemma sample_message:
  "context_message (issue_context sample_identity ''peer'') ''wch-t'' ''wt-u'' =
     Inr (ws_ticket_domain @ the (length_prefixed [''o'', ''wch-t'', ''wt-u'', ''r'', ''room'', ''peer'', ''h'']))"
  by (simp add: context_message_def issue_context_def relay_ws_ticket_message_def
      length_prefixed_message_def sample_identity_def)

lemma sample_key: "pi_relay_verify_key (pc_identity (issue_context sample_identity p)) = ''key''"
  by (simp add: issue_context_def sample_identity_def)

lemma sample_curve: "tl_curve_point sample_lib b"
  by (simp add: sample_lib_def)

lemma sample_consumed:
  "consume_relay_proof_challenge sample_proof_lib 20 (issue_context sample_identity ''peer'') ''wch-t'' ''sig''
     (rp_ws (proof_run sample_proof_lib [sample_challenge] no_proofs)) = (Inr (), [])"
  unfolding sample_store
  by (simp add: consume_relay_proof_challenge_def sample_message verify_relay_signature_def
      validate_relay_verify_key_def sample_proof_lib_def sample_key sample_curve)

lemma sample_relay_minted:
  "\<exists>token. mint_ticket (pl_ticket sample_proof_lib) key sample_relay_claims = Inr token"
proof -
  have "validate_claims (pl_ticket sample_proof_lib) sample_relay_claims = None"
    by (simp add: validate_claims_def sample_relay_claims_def relay_join_with_expiry_def
        JOIN_TICKET_VERSION_def trimmed_def validate_relay_verify_key_def sample_proof_lib_def
        sample_lib_def)
  then show ?thesis by (simp add: mint_ticket_def Let_def)
qed

lemma sample_issued:
  "\<exists>token. fst (issue_relay_ws_token sample_proof_lib (Join_Ticket_Key ''k'') 20 20 60 ''n''
      (Inr sample_identity) ''peer'' ''wch-t'' ''sig''
      (proof_run sample_proof_lib [sample_challenge] no_proofs)) = Inr (token, 80)"
proof -
  obtain token where "mint_ticket (pl_ticket sample_proof_lib) (Join_Ticket_Key ''k'') sample_relay_claims = Inr token"
    using sample_relay_minted by blast
  then have "mint_ticket (pl_ticket sample_proof_lib) (Join_Ticket_Key ''k'')
      (relay_join_with_expiry ''n'' (pi_broker_room_id sample_identity) ''peer''
        (pi_relay_verify_key sample_identity) (Some 80)) = Inr token"
    by (simp add: sample_relay_claims_def sample_identity_def)
  moreover have "sat_add 20 60 = (80 :: u64)" by (simp add: sat_add_def)
  ultimately show ?thesis
    using sample_consumed [unfolded issue_context_def]
    by (simp add: issue_relay_ws_token_def too_long_def MAX_ID_BYTES_def del: proof_run.simps)
qed

lemma sample_relay_faithful: "faithful_encodings (pl_ticket sample_proof_lib) sample_relay_claims"
  using sample_faithful by (simp add: faithful_encodings_def sample_proof_lib_def sample_lib_def)

lemma proven_relay_gets_ticket_witness:
  "\<exists>token. verify_ticket (pl_ticket sample_proof_lib) 80 (Join_Ticket_Key ''k'') token = Inr sample_relay_claims"
proof -
  obtain token where issued: "fst (issue_relay_ws_token sample_proof_lib (Join_Ticket_Key ''k'') 20 20 60
      ''n'' (Inr sample_identity) ''peer'' ''wch-t'' ''sig''
      (proof_run sample_proof_lib [sample_challenge] no_proofs)) = Inr (token, 80)"
    using sample_issued by blast
  have "sample_relay_claims = relay_join_with_expiry ''n'' (pi_broker_room_id sample_identity)
      (trim ''peer'') (pi_relay_verify_key sample_identity) (Some 80)"
    by (simp add: sample_relay_claims_def sample_identity_def)
  from proven_relay_gets_ticket [OF issued this sample_relay_faithful, of 80] show ?thesis by auto
qed

lemma relay_proof_used_once_witness:
  "proof_accepts sample_proof_lib sample_issue (proof_run sample_proof_lib [sample_challenge] no_proofs) =
     Some (issue_context sample_identity ''peer'', ''wch-t'', ''sig'', 20) \<and>
   proof_accepts sample_proof_lib sample_issue
     (proof_run sample_proof_lib ([sample_challenge] @ [sample_issue] @ [sample_issue]) no_proofs) \<noteq>
     Some (issue_context sample_identity ''peer'', ''wch-t'', ''sig'', 20)"
proof -
  obtain token where "fst (issue_relay_ws_token sample_proof_lib (Join_Ticket_Key ''k'') 20 20 60
      ''n'' (Inr sample_identity) ''peer'' ''wch-t'' ''sig''
      (proof_run sample_proof_lib [sample_challenge] no_proofs)) = Inr (token, 80)"
    using sample_issued by blast
  then have accepted: "proof_accepts sample_proof_lib sample_issue
      (proof_run sample_proof_lib [sample_challenge] no_proofs) =
      Some (issue_context sample_identity ''peer'', ''wch-t'', ''sig'', 20)"
    by (simp del: proof_run.simps)
  have "''wch-t'' \<notin> is_challenge_id ` snd `
      set (run_issues sample_proof_lib [sample_issue]
        (proof_run sample_proof_lib ([sample_challenge] @ [sample_issue]) no_proofs))"
    by simp
  from relay_proof_used_once [OF accepted this] accepted show ?thesis by blast
qed

lemma signed_message_binds_witness:
  "\<exists>m joined. context_message (issue_context sample_identity ''peer'') ''wch-t'' ''wt-u'' = Inr m \<and>
     relay_join_message ''o'' ''wch-t'' ''wt-u'' ''t'' ''r'' ''room'' ''peer'' = Inr joined \<and> joined \<noteq> m"
proof -
  obtain m where m: "context_message (issue_context sample_identity ''peer'') ''wch-t'' ''wt-u'' = Inr m"
    using sample_message by blast
  obtain joined where joined:
    "relay_join_message ''o'' ''wch-t'' ''wt-u'' ''t'' ''r'' ''room'' ''peer'' = Inr joined"
    by (simp add: relay_join_message_def length_prefixed_message_def)
  have "relay_join_message ''o'' ''wch-t'' ''wt-u'' ''t'' ''r'' ''room'' ''peer'' \<noteq> Inr m"
    using signed_message_binds [OF m joined] by (rule conjunct1)
  with m joined show ?thesis by metis
qed

end
