(* ===== verification/Broker_Limits.thy ===== *)
theory Broker_Limits
  imports Prelude Broker_Rooms "HOL-Library.AList"
begin

text \<open>
  The limits of the broker (\<open>crates/relay-broker/src/lib.rs\<close>): the two rate limiters over a
  sliding minute, the trackers of open connections per client network and per tenant, and the
  frame and byte allowances of a role. An \<open>Instant\<close> is its distance in nanoseconds from the
  earliest instant that the platform represents; a hash map of buckets is an association list,
  whose order no operation reads. The value of \<open>Instant::now\<close> is an argument. The limits are
  values of \<open>usize\<close>, read as natural numbers.
\<close>

section \<open>Rate limiters\<close>

type_synonym instant = nat
type_synonym buckets = "(string \<times> instant list) list"

definition RATE_LIMIT_WINDOW_SECS :: nat where "RATE_LIMIT_WINDOW_SECS = 60"

definition rate_window :: instant where "rate_window = RATE_LIMIT_WINDOW_SECS * 1000000000"

definition USIZE_MAX :: nat where "USIZE_MAX = 2 ^ 64 - 1"

text \<open>\<open>now.checked_sub(window).unwrap_or(now)\<close>.\<close>

definition cutoff :: "instant \<Rightarrow> instant" where
  "cutoff now = (if rate_window \<le> now then now - rate_window else now)"

definition retain_live :: "instant \<Rightarrow> buckets \<Rightarrow> buckets" where
  "retain_live c bs = filter (\<lambda>(_, b). b \<noteq> [] \<and> c < last b) bs"

definition pop_expired :: "instant \<Rightarrow> instant list \<Rightarrow> instant list" where
  "pop_expired c b = dropWhile (\<lambda>t. t \<le> c) b"

definition bucket_of :: "buckets \<Rightarrow> string \<Rightarrow> instant list" where
  "bucket_of bs k = (case map_of bs k of None \<Rightarrow> [] | Some b \<Rightarrow> b)"

record rate_windows =
  rw_buckets :: buckets
  rw_pruned_at :: "instant option"

definition empty_windows :: rate_windows where
  "empty_windows = \<lparr>rw_buckets = [], rw_pruned_at = None\<rparr>"

text \<open>\<open>RegisteredRateLimiter::allow\<close>.\<close>

definition prune_windows :: "instant \<Rightarrow> rate_windows \<Rightarrow> rate_windows" where
  "prune_windows now w =
     (if (case rw_pruned_at w of None \<Rightarrow> True | Some t \<Rightarrow> rate_window \<le> now - t)
      then w\<lparr>rw_buckets := retain_live (cutoff now) (rw_buckets w), rw_pruned_at := Some now\<rparr>
      else w)"

definition registered_allow ::
    "instant \<Rightarrow> string \<times> nat \<Rightarrow> rate_windows \<Rightarrow> bool \<times> rate_windows" where
  "registered_allow now q w =
     (let (key, limit) = q;
          w = prune_windows now w;
          b = pop_expired (cutoff now) (bucket_of (rw_buckets w) key)
      in if limit \<le> length b
         then (False, w\<lparr>rw_buckets := AList.update key b (rw_buckets w)\<rparr>)
         else (True, w\<lparr>rw_buckets := AList.update key (b @ [now]) (rw_buckets w)\<rparr>))"

text \<open>\<open>SlidingWindowRateLimiter::allow_both\<close>, with its closure \<open>live\<close>.\<close>

definition live :: "instant \<Rightarrow> string \<Rightarrow> buckets \<Rightarrow> nat \<times> buckets" where
  "live c key bs =
     (case map_of bs key of
        None \<Rightarrow> (0, bs)
      | Some b \<Rightarrow> (length (pop_expired c b), AList.update key (pop_expired c b) bs))"

definition push_back :: "instant \<Rightarrow> string \<Rightarrow> buckets \<Rightarrow> buckets" where
  "push_back now key bs = AList.update key (bucket_of bs key @ [now]) bs"

definition allow_both ::
    "string \<Rightarrow> nat \<Rightarrow> instant \<Rightarrow> string \<times> nat \<Rightarrow> buckets \<Rightarrow> bool \<times> buckets" where
  "allow_both shared_key shared_limit now q bs =
     (let (key, limit) = q;
          c = cutoff now;
          (own, bs) = live c key bs
      in if limit \<le> own then (False, bs)
         else let (shared, bs) = live c shared_key bs
         in if shared_limit \<le> shared then (False, bs)
         else let bs = (if map_of bs key = None \<and> min (shared_limit + 1) USIZE_MAX \<le> length bs
                        then retain_live c bs else bs)
         in (True, push_back now shared_key (push_back now key bs)))"

section \<open>Open connections\<close>

datatype ip_addr = V4 u32 | V6 "128 word"

definition to_ipv4_mapped :: "128 word \<Rightarrow> u32 option" where
  "to_ipv4_mapped a = (if drop_bit 32 a = 0xFFFF then Some (ucast a) else None)"

fun client_network :: "ip_addr \<Rightarrow> ip_addr" where
  "client_network (V4 a) = V4 a"
| "client_network (V6 a) =
     (case to_ipv4_mapped a of
        Some v4 \<Rightarrow> V4 v4
      | None \<Rightarrow> V6 (push_bit 64 (drop_bit 64 a)))"

datatype connection_error = At_Capacity | Client_Limit | Tenant_Limit

record connection_counts =
  cc_per_ip :: "ip_addr \<rightharpoonup> nat"
  cc_total :: nat

definition no_connections :: connection_counts where
  "no_connections = \<lparr>cc_per_ip = Map.empty, cc_total = 0\<rparr>"

text \<open>A permit is the network (or the tenant's key) that its release gives back.\<close>

definition try_acquire ::
    "ip_addr \<Rightarrow> nat \<Rightarrow> nat \<Rightarrow> connection_counts \<Rightarrow>
      connection_error + ip_addr \<times> connection_counts" where
  "try_acquire remote_ip per_ip_limit total_limit c =
     (if total_limit \<le> cc_total c then Inl At_Capacity
      else let network = client_network remote_ip;
               open_now = (case cc_per_ip c network of None \<Rightarrow> 0 | Some n \<Rightarrow> n)
      in if per_ip_limit \<le> open_now then Inl Client_Limit
      else Inr (network,
        c\<lparr>cc_per_ip := (cc_per_ip c)(network \<mapsto> open_now + 1), cc_total := cc_total c + 1\<rparr>))"

definition release :: "ip_addr \<Rightarrow> connection_counts \<Rightarrow> connection_counts" where
  "release remote_ip c =
     (let c = c\<lparr>cc_total := cc_total c - 1\<rparr>
      in case cc_per_ip c remote_ip of
        None \<Rightarrow> c
      | Some n \<Rightarrow>
          if n \<le> 1 then c\<lparr>cc_per_ip := (cc_per_ip c)(remote_ip := None)\<rparr>
          else c\<lparr>cc_per_ip := (cc_per_ip c)(remote_ip \<mapsto> n - 1)\<rparr>)"

type_synonym tenant_counts = "(string \<times> bool) \<rightharpoonup> nat"

definition tenant_try_acquire ::
    "string \<Rightarrow> peer_role \<Rightarrow> nat \<Rightarrow> tenant_counts \<Rightarrow>
      connection_error + (string \<times> bool) \<times> tenant_counts" where
  "tenant_try_acquire tenant role surface_limit c =
     (let relay = (role = Role_Relay);
          limit = (if relay then 2 else surface_limit);
          key = (tenant, relay);
          open_now = (case c key of None \<Rightarrow> 0 | Some n \<Rightarrow> n)
      in if limit \<le> open_now then Inl Tenant_Limit else Inr (key, c(key \<mapsto> open_now + 1)))"

text \<open>The drop of a permit; \<open>None\<close> is the panic of the subtraction at zero.\<close>

definition tenant_drop :: "string \<times> bool \<Rightarrow> tenant_counts \<Rightarrow> tenant_counts option" where
  "tenant_drop key c =
     (case c key of
        None \<Rightarrow> Some c
      | Some n \<Rightarrow>
          if n = 0 then None
          else if n = 1 then Some (c(key := None))
          else Some (c(key \<mapsto> n - 1)))"

section \<open>Allowances of a role\<close>

definition MIN_MAX_TEXT_FRAME_BYTES :: nat where "MIN_MAX_TEXT_FRAME_BYTES = 64 * 1024"

text \<open>\<open>BrokerHardeningConfig\<close>; a \<open>Duration\<close> is its seconds.\<close>

record hardening_config =
  hc_public_api_rate_limit :: nat
  hc_authenticated_api_rate_limit :: nat
  hc_public_api_global_rate_limit :: nat
  hc_join_rate_limit :: nat
  hc_join_ip_rate_limit :: nat
  hc_pairing_ticket_rate_limit :: nat
  hc_publish_rate_limit :: nat
  hc_relay_publish_rate_limit :: nat
  hc_publish_bytes :: nat
  hc_relay_publish_bytes :: nat
  hc_publish_burst :: nat
  hc_relay_publish_burst :: nat
  hc_max_connections_per_ip :: nat
  hc_max_total_connections :: nat
  hc_max_surface_connections_per_tenant :: nat
  hc_max_text_frame_bytes :: nat
  hc_idle_timeout :: nat
  hc_access_recheck_interval :: nat

definition default_hardening :: hardening_config where
  "default_hardening =
     \<lparr>hc_public_api_rate_limit = 5, hc_authenticated_api_rate_limit = 120,
      hc_public_api_global_rate_limit = 600, hc_join_rate_limit = 40, hc_join_ip_rate_limit = 120,
      hc_pairing_ticket_rate_limit = 30, hc_publish_rate_limit = 3600,
      hc_relay_publish_rate_limit = 36000, hc_publish_bytes = 8 * 1024 * 1024,
      hc_relay_publish_bytes = 512 * 1024 * 1024, hc_publish_burst = 2 * 1024 * 1024,
      hc_relay_publish_burst = 16 * 1024 * 1024, hc_max_connections_per_ip = 24,
      hc_max_total_connections = 2048, hc_max_surface_connections_per_tenant = 64,
      hc_max_text_frame_bytes = 64 * 1024, hc_idle_timeout = 120,
      hc_access_recheck_interval = 60\<rparr>"

record publish_budget =
  bb_bytes_per_minute :: nat
  bb_burst_bytes :: nat

definition is_disabled :: "publish_budget \<Rightarrow> bool" where
  "is_disabled b \<longleftrightarrow> bb_bytes_per_minute b = 0"

definition frame_limit :: "hardening_config \<Rightarrow> peer_role \<Rightarrow> nat" where
  "frame_limit cfg role =
     (case role of
        Role_Relay \<Rightarrow> hc_relay_publish_rate_limit cfg
      | Role_Surface \<Rightarrow> hc_publish_rate_limit cfg)"

definition max_text_frame_bytes :: "hardening_config \<Rightarrow> nat" where
  "max_text_frame_bytes cfg = max (hc_max_text_frame_bytes cfg) MIN_MAX_TEXT_FRAME_BYTES"

definition max_ws_read_bytes :: "hardening_config \<Rightarrow> nat" where
  "max_ws_read_bytes cfg = min (2 * max_text_frame_bytes cfg) USIZE_MAX"

definition byte_budget :: "hardening_config \<Rightarrow> peer_role \<Rightarrow> publish_budget" where
  "byte_budget cfg role =
     (let (per_minute, burst) =
        (case role of
           Role_Relay \<Rightarrow> (hc_relay_publish_bytes cfg, hc_relay_publish_burst cfg)
         | Role_Surface \<Rightarrow> (hc_publish_bytes cfg, hc_publish_burst cfg))
      in \<lparr>bb_bytes_per_minute = per_minute,
          bb_burst_bytes = max burst (max_text_frame_bytes cfg)\<rparr>)"

end
