(* ===== verification/Socket_Base.thy ===== *)
theory Socket_Base
  imports Relay_Proof Broker_Limits
begin

text \<open>
  What a broker socket uses besides rooms, tickets, limits and proofs: the metrics and the wire of
  a socket (\<open>lib.rs\<close>), the minimum version of a relay (\<open>client_version.rs\<close>), the texts of room
  errors (\<open>state.rs\<close>), the access decision and the choice of a peer id (\<open>lib.rs\<close>).
\<close>

section \<open>Metrics\<close>

definition GLOBAL_EGRESS_WARN_BYTES_PER_MINUTE :: u64 where
  "GLOBAL_EGRESS_WARN_BYTES_PER_MINUTE = 2 * 1024 * 1024 * 1024"

record publish_metrics =
  pm_frame_limit_exceeded :: u64
  pm_byte_limit_exceeded :: u64
  pm_published_bytes :: u64
  pm_egress_bytes :: u64
  pm_peak_egress :: u64
  pm_egress_warnings :: u64
  pm_window_bytes :: u64
  pm_window_started :: "instant option"

definition empty_metrics :: publish_metrics where
  "empty_metrics =
     \<lparr>pm_frame_limit_exceeded = 0, pm_byte_limit_exceeded = 0, pm_published_bytes = 0,
      pm_egress_bytes = 0, pm_peak_egress = 0, pm_egress_warnings = 0, pm_window_bytes = 0,
      pm_window_started = None\<rparr>"

definition close_elapsed_window :: "instant \<Rightarrow> publish_metrics \<Rightarrow> publish_metrics" where
  "close_elapsed_window now m =
     (let started = (case pm_window_started m of None \<Rightarrow> now | Some t \<Rightarrow> t);
          m = m\<lparr>pm_window_started := Some started\<rparr>;
          completed = pm_window_bytes m
      in if (now - started) div 1000000000 < RATE_LIMIT_WINDOW_SECS then m
         else m\<lparr>pm_peak_egress := max (pm_peak_egress m) completed,
                pm_egress_warnings := (if GLOBAL_EGRESS_WARN_BYTES_PER_MINUTE < completed
                  then pm_egress_warnings m + 1 else pm_egress_warnings m),
                pm_window_bytes := 0, pm_window_started := Some now\<rparr>)"

definition record_frame_limited :: "publish_metrics \<Rightarrow> publish_metrics" where
  "record_frame_limited m = m\<lparr>pm_frame_limit_exceeded := pm_frame_limit_exceeded m + 1\<rparr>"

definition record_byte_limited :: "publish_metrics \<Rightarrow> publish_metrics" where
  "record_byte_limited m = m\<lparr>pm_byte_limit_exceeded := pm_byte_limit_exceeded m + 1\<rparr>"

definition record_published :: "nat \<Rightarrow> publish_metrics \<Rightarrow> publish_metrics" where
  "record_published bytes m = m\<lparr>pm_published_bytes := pm_published_bytes m + of_nat bytes\<rparr>"

definition record_egress :: "instant \<Rightarrow> u64 \<Rightarrow> publish_metrics \<Rightarrow> publish_metrics" where
  "record_egress now bytes m =
     (let m = close_elapsed_window now (m\<lparr>pm_egress_bytes := pm_egress_bytes m + bytes\<rparr>)
      in m\<lparr>pm_window_bytes := pm_window_bytes m + bytes\<rparr>)"

definition metrics_snapshot :: "instant \<Rightarrow> publish_metrics \<Rightarrow> publish_metrics" where
  "metrics_snapshot now m = close_elapsed_window now m"

text \<open>
  \<open>send_message\<close>: \<open>sent\<close> is whether the write succeeds, \<open>len\<close> the length of the serialized message.
\<close>

definition send_message ::
    "(server_message \<Rightarrow> nat) \<Rightarrow> instant \<Rightarrow> bool \<Rightarrow> server_message \<Rightarrow> publish_metrics \<Rightarrow> publish_metrics" where
  "send_message len now sent m metrics =
     (if sent then record_egress now (of_nat (len m)) metrics else metrics)"

section \<open>Versions\<close>

fun split_on :: "char \<Rightarrow> string \<Rightarrow> string list" where
  "split_on d [] = [[]]"
| "split_on d (c # s) =
     (if c = d then [] # split_on d s
      else case split_on d s of [] \<Rightarrow> [[c]] | w # ws \<Rightarrow> (c # w) # ws)"

definition is_digit :: "char \<Rightarrow> bool" where
  "is_digit c \<longleftrightarrow> char_between CHR ''0'' CHR ''9'' c"

definition digits_value :: "string \<Rightarrow> nat" where
  "digits_value s = foldl (\<lambda>n c. 10 * n + (of_char c - 48)) 0 s"

definition parse_version_part :: "string \<Rightarrow> nat option" where
  "parse_version_part s =
     (if s = [] \<or> \<not> list_all is_digit s \<or> (1 < length s \<and> starts_with s ''0'') then None
      else if 2 ^ 32 \<le> digits_value s then None
      else Some (digits_value s))"

definition parse_version :: "string \<Rightarrow> (nat \<times> nat \<times> nat) option" where
  "parse_version text =
     (case split_on CHR ''.'' text of
        [a, b, c] \<Rightarrow>
          (case (parse_version_part a, parse_version_part b, parse_version_part c) of
             (Some x, Some y, Some z) \<Rightarrow> Some (x, y, z)
           | _ \<Rightarrow> None)
      | _ \<Rightarrow> None)"

record min_relay_version =
  mv_text :: string
  mv_parts :: "nat \<times> nat \<times> nat"

definition parse_min_version :: "string \<Rightarrow> min_relay_version option" where
  "parse_min_version text = map_option (\<lambda>parts. \<lparr>mv_text = text, mv_parts = parts\<rparr>) (parse_version text)"

fun version_less :: "nat \<times> nat \<times> nat \<Rightarrow> nat \<times> nat \<times> nat \<Rightarrow> bool" where
  "version_less (a, b, c) (x, y, z) \<longleftrightarrow> a < x \<or> a = x \<and> (b < y \<or> b = y \<and> c < z)"

definition UPDATE_INSTRUCTIONS :: string where
  "UPDATE_INSTRUCTIONS =
     ''Update SealWire: npm users can run `npx sealwire@latest` or `npm install -g sealwire@latest`; '' @
     ''desktop users should install the latest app release''"

text \<open>The message of the refusal, if any.\<close>

definition check_version :: "min_relay_version \<Rightarrow> string option \<Rightarrow> string option" where
  "check_version minimum client =
     (case Option.bind client parse_version of
        None \<Rightarrow>
          Some (''relay client_version is missing or invalid; minimum supported SealWire version is '' @
            mv_text minimum @ ''. '' @ UPDATE_INSTRUCTIONS)
      | Some version \<Rightarrow>
          if version_less version (mv_parts minimum)
          then Some (''SealWire client '' @ (case client of None \<Rightarrow> [] | Some t \<Rightarrow> t) @
            '' is too old; minimum supported version is '' @ mv_text minimum @ ''. '' @ UPDATE_INSTRUCTIONS)
          else None)"

section \<open>Texts of room errors\<close>

text \<open>\<open>why\<close> is the text of serde's error for a batch that does not decode.\<close>

fun broker_error_text :: "string \<Rightarrow> broker_error \<Rightarrow> string" where
  "broker_error_text why Epoch_Changed = ''access epoch changed; join rejected''"
| "broker_error_text why (Already_Connected p ch) =
     ''peer `'' @ p @ ''` is already connected to channel `'' @ ch @ ''`''"
| "broker_error_text why (Channel_Inactive ch) = ''channel `'' @ ch @ ''` is not active''"
| "broker_error_text why (Not_Connected p ch) =
     ''peer `'' @ p @ ''` is not connected to channel `'' @ ch @ ''`''"
| "broker_error_text why (Connection_Replaced p ch) =
     ''peer `'' @ p @ ''` connection has been replaced in channel `'' @ ch @ ''`''"
| "broker_error_text why Surface_Batch = ''surfaces must publish a single payload to a relay''"
| "broker_error_text why Same_Role_Target = ''broker payload must target the opposite peer role''"
| "broker_error_text why Invalid_Batch = ''invalid targeted_messages payload: '' @ why"
| "broker_error_text why Target_Required = ''broker payload target_peer_id is required''"
| "broker_error_text why Too_Many_Targets = ''targeted_messages exceeds 128 messages''"
| "broker_error_text why Empty_Target = ''broker payload target_peer_id is empty''"
| "broker_error_text why Repeated_Target = ''targeted_messages repeats a target_peer_id''"
| "broker_error_text why Target_Mismatch = ''targeted message target_peer_id does not match payload''"

section \<open>Access\<close>

text \<open>
  What the control plane's store and the deployment's access policy answer: the relay registered
  for a room (and, with a device, holding a grant for it), its enrolled key, whether a relay is
  allowed, a device's limit if it is allowed, and the account a relay's quota is charged to.
\<close>

record access_answers =
  aa_relay_id_for_join :: "string \<Rightarrow> string option \<Rightarrow> string option"
  aa_enrolled_key :: "string \<Rightarrow> string option"
  aa_ticket_origin :: string
  aa_authorize_relay :: "string \<Rightarrow> bool"
  aa_authorize_device :: "string \<Rightarrow> u32 option option"
  aa_quota_key :: "string \<Rightarrow> string option option"

definition is_public :: "broker_join_verifier \<Rightarrow> bool" where
  "is_public verifier = (case verifier of PublicControlPlane _ \<Rightarrow> True | _ \<Rightarrow> False)"

definition authorize_verified_join_access ::
    "hardening_config \<Rightarrow> broker_join_verifier \<Rightarrow> access_answers \<Rightarrow> string \<Rightarrow> verified_broker_join \<Rightarrow>
      (string \<times> nat) option" where
  "authorize_verified_join_access cfg verifier answers room v =
     (let device_id = (if vj_kind v = Ticket_DeviceSurfaceJoin
            then Some (case vj_device_id v of None \<Rightarrow> [] | Some d \<Rightarrow> d) else None);
          relay = (if is_public verifier then aa_relay_id_for_join answers room device_id else Some room)
      in case relay of
           None \<Rightarrow> None
         | Some relay_id \<Rightarrow>
             let device_limit =
               (if vj_kind v = Ticket_RelayJoin
                then (if aa_authorize_relay answers relay_id then Some None else None)
                else aa_authorize_device answers relay_id)
             in (case device_limit of
                   None \<Rightarrow> None
                 | Some limit \<Rightarrow>
                     (case aa_quota_key answers relay_id of
                        None \<Rightarrow> None
                      | Some quota \<Rightarrow>
                          Some (case quota of Some key \<Rightarrow> ''account:'' @ key
                                            | None \<Rightarrow> ''relay:'' @ relay_id,
                            case limit of
                              None \<Rightarrow> hc_max_surface_connections_per_tenant cfg
                            | Some l \<Rightarrow> min (min (unat l * 3) USIZE_MAX) 20))))"

section \<open>The peer id and the proof of a relay\<close>

record connect_query =
  cq_peer_id :: "string option"
  cq_role :: peer_role
  cq_join_ticket :: "string option"
  cq_client_version :: "string option"

definition requested_peer :: "verified_broker_join \<Rightarrow> connect_query \<Rightarrow> string option" where
  "requested_peer v q =
     (if vj_peer_id v \<noteq> None
      then (if trimmed (cq_peer_id q) = [] then vj_peer_id v else Some (trimmed (cq_peer_id q)))
      else None)"

datatype client_message =
    Client_Publish u32 json
  | Client_Relay_Join_Proof string string

text \<open>\<open>reply\<close> is the message parsed from the frame that answers the challenge, if one came in time.\<close>

definition prove_relay_socket ::
    "proof_lib \<Rightarrow> string \<Rightarrow> string \<Rightarrow> client_message option \<Rightarrow> string \<Rightarrow> string \<Rightarrow> string \<Rightarrow> string \<Rightarrow>
      string \<Rightarrow> string \<Rightarrow> bool" where
  "prove_relay_socket lib challenge_id challenge reply origin relay_id room peer_id ticket key =
     (case reply of
        Some (Client_Relay_Join_Proof got_id signature) \<Rightarrow>
          got_id = challenge_id \<and>
          (case relay_join_message origin challenge_id challenge (pl_sha256_hex lib ticket) relay_id
               room peer_id of
             Inl _ \<Rightarrow> False
           | Inr message \<Rightarrow> verify_relay_signature lib key message signature)
      | _ \<Rightarrow> False)"

text \<open>Origin, relay and key of the challenge a relay has to answer; \<open>None\<close> refuses it.\<close>

definition relay_proof_terms ::
    "broker_join_verifier \<Rightarrow> access_answers \<Rightarrow> string \<Rightarrow> verified_broker_join \<Rightarrow>
      (string \<times> string \<times> string) option" where
  "relay_proof_terms verifier answers room v =
     (if is_public verifier then
        (case aa_enrolled_key answers room of
           None \<Rightarrow> None
         | Some enrolled \<Rightarrow>
             if (case vj_relay_verify_key v of None \<Rightarrow> False | Some k \<Rightarrow> k \<noteq> enrolled) then None
             else (case aa_relay_id_for_join answers room None of
                 None \<Rightarrow> None
               | Some relay_id \<Rightarrow> Some (aa_ticket_origin answers, relay_id, enrolled)))
      else (case vj_relay_verify_key v of
          None \<Rightarrow> None
        | Some key \<Rightarrow>
            if key = [] then None
            else Some (''self-hosted'', (case vj_peer_id v of None \<Rightarrow> [] | Some p \<Rightarrow> p), key)))"

definition generated_peer_id :: "peer_role \<Rightarrow> string \<Rightarrow> string" where
  "generated_peer_id role random =
     (case role of Role_Relay \<Rightarrow> ''relay'' | Role_Surface \<Rightarrow> ''surface'') @ ''-'' @ map ascii_lower random"

end
