(* ===== verification/Broker_Socket.thy ===== *)
theory Broker_Socket
  imports Socket_Base
begin

text \<open>
  A broker socket from its upgrade to its end (\<open>handle_socket\<close> in
  \<open>crates/relay-broker/src/lib.rs\<close>). Sockets run as tasks that interleave where they await, so a
  socket is a state machine: one step is one stretch of the handler between awaits that change
  shared state, and \<open>phase\<close> is what the task's locals hold there. The two permits are locals that
  are given back when the handler returns.

  What the world answers is the argument of a step: the clocks, whether a write succeeds, the
  access answers, the random challenge and peer id, the frame that arrives, and the verdict of the
  byte bucket, which the code computes in \<open>f64\<close>.
\<close>

section \<open>State\<close>

record broker_app =
  ba_broker :: broker
  ba_connections :: connection_counts
  ba_tenants :: tenant_counts
  ba_failed_joins :: buckets
  ba_joins :: rate_windows
  ba_publishes :: rate_windows
  ba_metrics :: publish_metrics

record broker_setup =
  bs_lib :: proof_lib
  bs_config :: hardening_config
  bs_verifier :: broker_join_verifier
  bs_min_version :: min_relay_version
  bs_len :: "server_message \<Rightarrow> nat"
  bs_show_ip :: "ip_addr \<Rightarrow> string"

record socket_request =
  sr_remote_ip :: ip_addr
  sr_channel_id :: string
  sr_query :: connect_query

record socket_seat =
  ss_network :: ip_addr
  ss_tenant :: "string \<times> bool"
  ss_join :: verified_broker_join
  ss_identity :: string
  ss_peer_id :: string
  ss_connection_id :: u64
  ss_queue :: nat

datatype phase =
    Ph_Open
  | Ph_Verified ip_addr verified_broker_join
  | Ph_Epoch ip_addr verified_broker_join u64
  | Ph_Access ip_addr verified_broker_join u64 string nat
  | Ph_Proven ip_addr verified_broker_join u64 string nat "string option"
  | Ph_Allowed ip_addr verified_broker_join u64 string string nat "string option"
  | Ph_Tenant ip_addr verified_broker_join u64 string "string \<times> bool" "string option"
  | Ph_Joined socket_seat "peer_summary list"
  | Ph_Seated socket_seat
  | Ph_Leaving socket_seat
  | Ph_Failing ip_addr "(string \<times> bool) option"
  | Ph_Rejecting "ip_addr option" "(string \<times> bool) option" string string
  | Ph_Panicked ip_addr
  | Ph_Closed

section \<open>Admission\<close>

fun permit_text :: "connection_error \<Rightarrow> string" where
  "permit_text At_Capacity = ''broker is at connection capacity; try again later''"
| "permit_text Client_Limit = ''too many broker connections from this client''"
| "permit_text Tenant_Limit = ''too many broker connections for this tenant''"

definition start_socket ::
    "broker_setup \<Rightarrow> socket_request \<Rightarrow> u64 \<Rightarrow> broker_app \<Rightarrow> phase \<times> broker_app" where
  "start_socket s r unix_now app =
     (if is_blank (sr_channel_id r)
      then (Ph_Rejecting None None ''invalid_connection'' ''channel_id is required'', app)
      else case try_acquire (sr_remote_ip r) (hc_max_connections_per_ip (bs_config s))
             (hc_max_total_connections (bs_config s)) (ba_connections app) of
        Inl e \<Rightarrow> (Ph_Rejecting None None ''rate_limited'' (permit_text e), app)
      | Inr (network, connections) \<Rightarrow>
          let app = app\<lparr>ba_connections := connections\<rparr>
          in (case verify_connection (pl_ticket (bs_lib s)) unix_now (bs_verifier s)
                 (cq_join_ticket (sr_query r)) (sr_channel_id r) (cq_role (sr_query r)) of
                Inl _ \<Rightarrow> (Ph_Failing network None, app)
              | Inr v \<Rightarrow>
                  if cq_role (sr_query r) = Role_Relay then
                    (case check_version (bs_min_version s) (cq_client_version (sr_query r)) of
                       Some message \<Rightarrow>
                         (Ph_Rejecting (Some network) None ''unsupported_client_version'' message, app)
                     | None \<Rightarrow> (Ph_Verified network v, app))
                  else (Ph_Verified network v, app)))"

definition authorize_socket ::
    "broker_setup \<Rightarrow> socket_request \<Rightarrow> access_answers \<Rightarrow> ip_addr \<Rightarrow> verified_broker_join \<Rightarrow> u64 \<Rightarrow> phase" where
  "authorize_socket s r answers network v epoch =
     (case authorize_verified_join_access (bs_config s) (bs_verifier s) answers (sr_channel_id r) v of
        None \<Rightarrow> Ph_Failing network None
      | Some (tenant_key, surface_limit) \<Rightarrow> Ph_Access network v epoch tenant_key surface_limit)"

definition prove_socket ::
    "broker_setup \<Rightarrow> socket_request \<Rightarrow> access_answers \<Rightarrow> string \<Rightarrow> string \<Rightarrow> client_message option \<Rightarrow>
      ip_addr \<Rightarrow> verified_broker_join \<Rightarrow> u64 \<Rightarrow> string \<Rightarrow> nat \<Rightarrow> phase" where
  "prove_socket s r answers challenge_id challenge reply network v epoch tenant_key surface_limit =
     (let q = sr_query r;
          peer_id = requested_peer v q;
          proven = Ph_Proven network v epoch tenant_key surface_limit peer_id
      in if cq_role q = Role_Relay then
           (let expected = (case vj_peer_id v of None \<Rightarrow> [] | Some p \<Rightarrow> p)
            in if (case peer_id of None \<Rightarrow> [] | Some p \<Rightarrow> p) \<noteq> expected then Ph_Failing network None
               else (case relay_proof_terms (bs_verifier s) answers (sr_channel_id r) v of
                   None \<Rightarrow> Ph_Failing network None
                 | Some (origin, relay_id, key) \<Rightarrow>
                     if prove_relay_socket (bs_lib s) challenge_id challenge reply origin relay_id
                          (sr_channel_id r) expected
                          (case cq_join_ticket q of None \<Rightarrow> [] | Some t \<Rightarrow> t) key
                     then proven else Ph_Failing network None))
         else proven)"

definition allow_join ::
    "broker_setup \<Rightarrow> socket_request \<Rightarrow> instant \<Rightarrow> ip_addr \<Rightarrow> verified_broker_join \<Rightarrow> u64 \<Rightarrow> string \<Rightarrow> nat \<Rightarrow>
      string option \<Rightarrow> broker_app \<Rightarrow> phase \<times> broker_app" where
  "allow_join s r now network v epoch tenant_key surface_limit peer_id app =
     (case verified_rate_limit_identity v of
        None \<Rightarrow> (Ph_Panicked network, app)
      | Some identity \<Rightarrow>
          let (ok, joins) = registered_allow now
                (''join:'' @ sr_channel_id r @ '':'' @ identity, hc_join_rate_limit (bs_config s))
                (ba_joins app);
              app = app\<lparr>ba_joins := joins\<rparr>
          in if ok then (Ph_Allowed network v epoch identity tenant_key surface_limit peer_id, app)
             else (Ph_Rejecting (Some network) None ''rate_limited''
               ''broker join rate limit exceeded for this identity'', app))"

definition acquire_tenant ::
    "socket_request \<Rightarrow> ip_addr \<Rightarrow> verified_broker_join \<Rightarrow> u64 \<Rightarrow> string \<Rightarrow> string \<Rightarrow> nat \<Rightarrow>
      string option \<Rightarrow> broker_app \<Rightarrow> phase \<times> broker_app" where
  "acquire_tenant r network v epoch identity tenant_key surface_limit peer_id app =
     (case tenant_try_acquire tenant_key (cq_role (sr_query r)) surface_limit (ba_tenants app) of
        Inl e \<Rightarrow> (Ph_Rejecting (Some network) None ''tenant_connection_limit'' (permit_text e), app)
      | Inr (permit, tenants) \<Rightarrow>
          (Ph_Tenant network v epoch identity permit peer_id, app\<lparr>ba_tenants := tenants\<rparr>))"

text \<open>One turn of the join loop; staying in the phase is \<open>continue\<close>.\<close>

definition try_join ::
    "broker_setup \<Rightarrow> socket_request \<Rightarrow> string \<Rightarrow> ip_addr \<Rightarrow> verified_broker_join \<Rightarrow> u64 \<Rightarrow> string \<Rightarrow>
      string \<times> bool \<Rightarrow> string option \<Rightarrow> broker_app \<Rightarrow> phase \<times> broker_app" where
  "try_join s r random network v epoch identity permit peer_id app =
     (let role = cq_role (sr_query r);
          candidate = (case peer_id of Some p \<Rightarrow> p | None \<Rightarrow> generated_peer_id role random)
      in if (case vj_peer_id v of None \<Rightarrow> False | Some expected \<Rightarrow> candidate \<noteq> expected)
         then (Ph_Failing network (Some permit), app)
         else
           let (res, b) = join_with_access_epoch (bs_len s) (sr_channel_id r) candidate role
                 (vj_device_id v) (vj_pairing_id v) (Some epoch) (ba_broker app);
               app = app\<lparr>ba_broker := b\<rparr>
           in (case res of
                 Inr join \<Rightarrow>
                   (Ph_Joined \<lparr>ss_network = network, ss_tenant = permit, ss_join = v, ss_identity = identity,
                      ss_peer_id = candidate, ss_connection_id = jn_connection_id join,
                      ss_queue = jn_receiver join\<rparr> (jn_existing_peers join), app)
               | Inl e \<Rightarrow>
                   let message = broker_error_text [] e
                   in if contains_str message ''access epoch changed''
                      then (Ph_Failing network (Some permit), app)
                      else if peer_id = None \<and> contains_str message ''is already connected''
                      then (Ph_Tenant network v epoch identity permit peer_id, app)
                      else (Ph_Failing network (Some permit), app)))"

section \<open>Ends\<close>

definition BROKER_PROTOCOL_VERSION :: u32 where "BROKER_PROTOCOL_VERSION = 2"

definition drop_permits :: "ip_addr option \<Rightarrow> (string \<times> bool) option \<Rightarrow> broker_app \<Rightarrow> broker_app option" where
  "drop_permits network permit app =
     (let app' = (case permit of
            None \<Rightarrow> Some app
          | Some k \<Rightarrow> map_option (\<lambda>t. app\<lparr>ba_tenants := t\<rparr>) (tenant_drop k (ba_tenants app)))
      in map_option (\<lambda>app. case network of
            None \<Rightarrow> app
          | Some n \<Rightarrow> app\<lparr>ba_connections := release n (ba_connections app)\<rparr>) app')"

text \<open>\<open>reject_failed_join\<close>: the limiter of failed joins only picks the code.\<close>

definition fail_join ::
    "broker_setup \<Rightarrow> socket_request \<Rightarrow> instant \<Rightarrow> ip_addr \<Rightarrow> (string \<times> bool) option \<Rightarrow>
      broker_app \<Rightarrow> phase \<times> broker_app" where
  "fail_join s r now network permit app =
     (let (log_allowed, buckets) = allow_both ''failed-join:global''
            (hc_public_api_global_rate_limit (bs_config s)) now
            (''failed-join:'' @ bs_show_ip s (client_network (sr_remote_ip r)), hc_join_ip_rate_limit (bs_config s))
            (ba_failed_joins app)
      in (Ph_Rejecting (Some network) permit
            (if log_allowed then ''join_rejected'' else ''rate_limited'') ''broker join rejected'',
          app\<lparr>ba_failed_joins := buckets\<rparr>))"

definition send_to_socket ::
    "broker_setup \<Rightarrow> instant \<Rightarrow> bool \<Rightarrow> server_message \<Rightarrow> broker_app \<Rightarrow> broker_app" where
  "send_to_socket s now sent m app =
     app\<lparr>ba_metrics := send_message (bs_len s) now sent m (ba_metrics app)\<rparr>"

definition send_welcome ::
    "broker_setup \<Rightarrow> socket_request \<Rightarrow> instant \<Rightarrow> bool \<Rightarrow> socket_seat \<Rightarrow> peer_summary list \<Rightarrow> broker_app \<Rightarrow>
      phase \<times> broker_app" where
  "send_welcome s r now sent seat peers app =
     (if sent then Ph_Seated seat else Ph_Leaving seat,
      send_to_socket s now sent
        (Welcome BROKER_PROTOCOL_VERSION (sr_channel_id r) (ss_peer_id seat) peers) app)"

text \<open>The end of the handler: the seat is left, the receiver and the permits are dropped.\<close>

definition leave_socket ::
    "broker_setup \<Rightarrow> socket_request \<Rightarrow> socket_seat \<Rightarrow> broker_app \<Rightarrow> broker_app option" where
  "leave_socket s r seat app =
     drop_permits (Some (ss_network seat)) (Some (ss_tenant seat))
       (app\<lparr>ba_broker := broker_step (bs_len s) (Hang_Up (ss_queue seat))
          (leave_inner (bs_len s) (sr_channel_id r) (ss_peer_id seat) (Some (ss_connection_id seat))
            (ba_broker app))\<rparr>)"

section \<open>Frames\<close>

text \<open>A text frame comes with its length and the message it parses to; a ping with the pong's success.\<close>

datatype frame =
    Frame_Text nat "client_message option"
  | Frame_Binary nat
  | Frame_Close
  | Frame_Ping bool
  | Frame_Pong
  | Frame_Error
  | Frame_End

text \<open>
  What a frame's handling depends on: the clock at the limiter and at the write, the verdict of the
  byte bucket, the success of a write, and the text of a parse error.
\<close>

record frame_world =
  fw_now :: instant
  fw_sent_at :: instant
  fw_affordable :: bool
  fw_sent :: bool
  fw_why :: string

text \<open>Sends an error and goes on, or breaks if \<open>final\<close> or the write fails.\<close>

definition answer_error ::
    "broker_setup \<Rightarrow> frame_world \<Rightarrow> bool \<Rightarrow> string \<Rightarrow> string \<Rightarrow> broker_app \<Rightarrow> bool \<times> broker_app" where
  "answer_error s w final code message app =
     (\<not> final \<and> fw_sent w,
      send_to_socket s (fw_sent_at w) (fw_sent w) (Error_Message code message) app)"

definition handle_publish ::
    "broker_setup \<Rightarrow> socket_request \<Rightarrow> socket_seat \<Rightarrow> frame_world \<Rightarrow> nat \<Rightarrow> json \<Rightarrow> broker_app \<Rightarrow>
      bool \<times> broker_app" where
  "handle_publish s r seat w frame_bytes payload app =
     (let role = cq_role (sr_query r);
          (ok, publishes) = registered_allow (fw_now w)
            (''publish:'' @ sr_channel_id r @ '':'' @ ss_identity seat, frame_limit (bs_config s) role)
            (ba_publishes app);
          app = app\<lparr>ba_publishes := publishes\<rparr>
      in if \<not> ok then
           answer_error s w False ''rate_limited'' ''broker publish rate limit exceeded for this peer''
             (app\<lparr>ba_metrics := record_frame_limited (ba_metrics app)\<rparr>)
         else if \<not> (is_disabled (byte_budget (bs_config s) role) \<or> fw_affordable w) then
           answer_error s w False ''rate_limited'' ''broker publish byte limit exceeded for this peer''
             (app\<lparr>ba_metrics := record_byte_limited (ba_metrics app)\<rparr>)
         else
           let (failure, b) = publish_inner (bs_len s) (sr_channel_id r) (ss_peer_id seat)
                 (Some (ss_connection_id seat)) payload (ba_broker app);
               app = app\<lparr>ba_broker := b\<rparr>
           in (case failure of
                 None \<Rightarrow> (True, app\<lparr>ba_metrics := record_published frame_bytes (ba_metrics app)\<rparr>)
               | Some e \<Rightarrow>
                   let message = broker_error_text (fw_why w) e
                   in if contains_str message ''connection has been replaced'' then (False, app)
                      else answer_error s w False ''invalid_publish'' message app))"

definition handle_frame ::
    "broker_setup \<Rightarrow> socket_request \<Rightarrow> socket_seat \<Rightarrow> frame_world \<Rightarrow> frame \<Rightarrow> broker_app \<Rightarrow>
      bool \<times> broker_app" where
  "handle_frame s r seat w frame app =
     (let limit = max_text_frame_bytes (bs_config s)
      in case frame of
        Frame_Text n parsed \<Rightarrow>
          if limit < n then
            answer_error s w True ''frame_too_large''
              (''client text frames must be '' @ decimal limit @ '' bytes or smaller'') app
          else (case parsed of
              None \<Rightarrow>
                answer_error s w True ''invalid_client_frame'' (''invalid broker client frame: '' @ fw_why w) app
            | Some (Client_Relay_Join_Proof _ _) \<Rightarrow>
                answer_error s w True ''invalid_client_frame''
                  ''relay join proof is only accepted before the socket is seated'' app
            | Some (Client_Publish version payload) \<Rightarrow>
                if version \<noteq> BROKER_PROTOCOL_VERSION then
                  answer_error s w True ''unsupported_protocol_version''
                    (''unsupported broker protocol_version '' @ decimal (unat version) @
                     ''; supported version is '' @ decimal (unat BROKER_PROTOCOL_VERSION)) app
                else handle_publish s r seat w n payload app)
      | Frame_Binary n \<Rightarrow>
          if limit < n then
            answer_error s w True ''frame_too_large''
              (''client binary frames must be '' @ decimal limit @ '' bytes or smaller'') app
          else (True, app)
      | Frame_Ping ponged \<Rightarrow> (ponged, app)
      | Frame_Pong \<Rightarrow> (True, app)
      | Frame_Close \<Rightarrow> (False, app)
      | Frame_Error \<Rightarrow> (False, app)
      | Frame_End \<Rightarrow> (False, app))"

text \<open>
  \<open>outbound.recv()\<close> gives a message, which stays charged to the queue's budget until it is
  written or dropped.
\<close>

definition forward_message ::
    "broker_setup \<Rightarrow> socket_seat \<Rightarrow> instant \<Rightarrow> bool \<Rightarrow> broker_app \<Rightarrow> bool \<times> broker_app" where
  "forward_message s seat now sent app =
     (case ob_queue (bk_queues (ba_broker app) (ss_queue seat)) of
        [] \<Rightarrow> (True, app)
      | m # _ \<Rightarrow>
          (let b = broker_step (bs_len s) (Take (ss_queue seat)) (ba_broker app);
               b = broker_step (bs_len s) (Written (ss_queue seat)) b
           in (sent, send_to_socket s now sent m (app\<lparr>ba_broker := b\<rparr>))))"

section \<open>Steps\<close>

datatype socket_event =
    Ev_Start u64
  | Ev_Epoch
  | Ev_Access access_answers
  | Ev_Proof access_answers string string "client_message option"
  | Ev_Join_Rate instant
  | Ev_Tenant
  | Ev_Join string
  | Ev_Welcome instant bool
  | Ev_Frame frame_world frame
  | Ev_Outbound instant bool
  | Ev_Outbound_Closed
  | Ev_Overflow
  | Ev_Idle instant bool
  | Ev_Leave
  | Ev_Failed_Limiter instant
  | Ev_Reject instant bool
  | Ev_Unwind

definition loop_phase :: "socket_seat \<Rightarrow> bool \<times> broker_app \<Rightarrow> phase \<times> broker_app" where
  "loop_phase seat ca = (if fst ca then Ph_Seated seat else Ph_Leaving seat, snd ca)"

definition closing :: "broker_app option \<Rightarrow> phase \<Rightarrow> broker_app \<Rightarrow> phase \<times> broker_app" where
  "closing dropped p app = (case dropped of None \<Rightarrow> (p, app) | Some app' \<Rightarrow> (Ph_Closed, app'))"

text \<open>A step that the phase is not waiting for leaves everything as it is.\<close>

fun loop_step ::
    "broker_setup \<Rightarrow> socket_request \<Rightarrow> socket_event \<Rightarrow> socket_seat \<Rightarrow> broker_app \<Rightarrow> phase \<times> broker_app" where
  "loop_step s r (Ev_Frame w frame) seat app = loop_phase seat (handle_frame s r seat w frame app)"
| "loop_step s r (Ev_Outbound now sent) seat app = loop_phase seat (forward_message s seat now sent app)"
| "loop_step s r Ev_Outbound_Closed seat app = (Ph_Leaving seat, app)"
| "loop_step s r Ev_Overflow seat app = (Ph_Leaving seat, app)"
| "loop_step s r (Ev_Idle now sent) seat app =
     (Ph_Leaving seat, send_to_socket s now sent
        (Error_Message ''idle_timeout'' ''broker socket closed after being idle for too long'') app)"
| "loop_step s r _ seat app = (Ph_Seated seat, app)"

definition socket_step ::
    "broker_setup \<Rightarrow> socket_request \<Rightarrow> socket_event \<Rightarrow> phase \<Rightarrow> broker_app \<Rightarrow> phase \<times> broker_app" where
  "socket_step s r ev p app =
     (case p of
        Ph_Open \<Rightarrow> (case ev of Ev_Start unix_now \<Rightarrow> start_socket s r unix_now app | _ \<Rightarrow> (p, app))
      | Ph_Verified network v \<Rightarrow>
          (case ev of Ev_Epoch \<Rightarrow> (Ph_Epoch network v (bk_access_epoch (ba_broker app)), app) | _ \<Rightarrow> (p, app))
      | Ph_Epoch network v epoch \<Rightarrow>
          (case ev of Ev_Access answers \<Rightarrow> (authorize_socket s r answers network v epoch, app) | _ \<Rightarrow> (p, app))
      | Ph_Access network v epoch tenant_key surface_limit \<Rightarrow>
          (case ev of
             Ev_Proof answers challenge_id challenge reply \<Rightarrow>
               (prove_socket s r answers challenge_id challenge reply network v epoch tenant_key surface_limit, app)
           | _ \<Rightarrow> (p, app))
      | Ph_Proven network v epoch tenant_key surface_limit peer_id \<Rightarrow>
          (case ev of
             Ev_Join_Rate now \<Rightarrow> allow_join s r now network v epoch tenant_key surface_limit peer_id app
           | _ \<Rightarrow> (p, app))
      | Ph_Allowed network v epoch identity tenant_key surface_limit peer_id \<Rightarrow>
          (case ev of
             Ev_Tenant \<Rightarrow> acquire_tenant r network v epoch identity tenant_key surface_limit peer_id app
           | _ \<Rightarrow> (p, app))
      | Ph_Tenant network v epoch identity permit peer_id \<Rightarrow>
          (case ev of
             Ev_Join random \<Rightarrow> try_join s r random network v epoch identity permit peer_id app
           | _ \<Rightarrow> (p, app))
      | Ph_Joined seat peers \<Rightarrow>
          (case ev of Ev_Welcome now sent \<Rightarrow> send_welcome s r now sent seat peers app | _ \<Rightarrow> (p, app))
      | Ph_Seated seat \<Rightarrow> loop_step s r ev seat app
      | Ph_Leaving seat \<Rightarrow>
          (case ev of Ev_Leave \<Rightarrow> closing (leave_socket s r seat app) p app | _ \<Rightarrow> (p, app))
      | Ph_Failing network permit \<Rightarrow>
          (case ev of Ev_Failed_Limiter now \<Rightarrow> fail_join s r now network permit app | _ \<Rightarrow> (p, app))
      | Ph_Rejecting network permit code message \<Rightarrow>
          (case ev of
             Ev_Reject now sent \<Rightarrow>
               closing (drop_permits network permit
                 (send_to_socket s now sent (Error_Message code message) app)) p app
           | _ \<Rightarrow> (p, app))
      | Ph_Panicked network \<Rightarrow>
          (case ev of Ev_Unwind \<Rightarrow> closing (drop_permits (Some network) None app) p app | _ \<Rightarrow> (p, app))
      | Ph_Closed \<Rightarrow> (p, app))"

end
