(* ===== verification/Limit_Facts.thy ===== *)
theory Limit_Facts
  imports Broker_Limits "HOL-Library.Multiset"
begin

text \<open>
  What the limits promise. Both rate limiters decide as a reference that keeps every grant ever
  made and counts those of the last minute: forgetting expired time stamps and pruning buckets
  never changes a verdict. The trackers count exactly the permits that are held.
\<close>

section \<open>Buckets\<close>

definition recent :: "instant \<Rightarrow> instant list \<Rightarrow> instant list" where
  "recent c ts = filter ((<) c) ts"

lemma recent_simps [simp]:
  "recent c [] = []"
  "recent c (a @ b) = recent c a @ recent c b"
  "recent c [t] = (if c < t then [t] else [])"
  by (simp_all add: recent_def)

lemma recent_recent: "c \<le> d \<Longrightarrow> recent d (recent c ts) = recent d ts"
  by (auto simp: recent_def intro: filter_cong)

lemma recent_later: "recent c a = recent c b \<Longrightarrow> c \<le> d \<Longrightarrow> recent d a = recent d b"
  by (metis recent_recent)

lemma pop_expired_recent: "sorted b \<Longrightarrow> pop_expired c b = recent c b"
proof (induction b)
  case (Cons t b)
  then have "recent c b = b" if "c < t"
    using that by (fastforce simp: recent_def filter_id_conv)
  with Cons show ?case by (auto simp: pop_expired_def recent_def)
qed (simp add: pop_expired_def)

lemma recent_empty: "sorted b \<Longrightarrow> (recent c b = []) = (b = [] \<or> last b \<le> c)"
  by (induction b rule: rev_induct) (auto simp: recent_def sorted_append filter_empty_conv not_less)

text \<open>
  \<open>bs\<close> holds for each key what \<open>gs\<close> lists of it after the cutoff \<open>c\<close>, in order and none later
  than \<open>now\<close>.
\<close>

definition holds :: "instant \<Rightarrow> instant \<Rightarrow> buckets \<Rightarrow> (string \<Rightarrow> instant list) \<Rightarrow> bool" where
  "holds c now bs gs \<longleftrightarrow>
     distinct (map fst bs) \<and>
     (\<forall>k. sorted (bucket_of bs k) \<and> (\<forall>t\<in>set (bucket_of bs k). t \<le> now) \<and>
        recent c (bucket_of bs k) = recent c (gs k))"

lemma holds_empty: "holds c now [] (\<lambda>_. [])"
  by (simp add: holds_def bucket_of_def)

lemma holds_later:
  assumes "holds c now bs gs" "c \<le> c'" "now \<le> now'" shows "holds c' now' bs gs"
  using assms recent_later [OF _ assms(2)] unfolding holds_def by (meson order_trans)

lemma bucket_of_update: "bucket_of (AList.update k b bs) k' = (if k' = k then b else bucket_of bs k')"
  by (simp add: bucket_of_def update_conv')

lemma bucket_of_retain:
  assumes "distinct (map fst bs)"
  shows "bucket_of (retain_live c bs) k =
    (if bucket_of bs k \<noteq> [] \<and> c < last (bucket_of bs k) then bucket_of bs k else [])"
  using assms
  by (induction bs) (auto simp: bucket_of_def retain_live_def split: option.splits dest: map_of_SomeD
      intro: rev_image_eqI)

lemma holds_retain:
  assumes "holds c now bs gs" shows "holds c now (retain_live c bs) gs"
proof -
  have "distinct (map fst (retain_live c bs))"
    using assms unfolding holds_def retain_live_def by (simp add: distinct_map_filter)
  moreover have "recent c (bucket_of bs k) = []"
    if "\<not> (bucket_of bs k \<noteq> [] \<and> c < last (bucket_of bs k))" for k
    using that assms recent_empty [of "bucket_of bs k" c] by (auto simp: holds_def)
  ultimately show ?thesis
    using assms by (auto simp: holds_def bucket_of_retain)
qed

lemma sorted_recent: "sorted b \<Longrightarrow> sorted (recent c b)"
  by (induction b) (auto simp: recent_def)

lemma holds_update_recent:
  assumes "holds c now bs gs" shows "holds c now (AList.update k (recent c (gs k)) bs) gs"
proof -
  have eq: "recent c (gs k) = recent c (bucket_of bs k)" using assms by (simp add: holds_def)
  have "sorted (bucket_of bs k)" "\<forall>t\<in>set (bucket_of bs k). t \<le> now"
    using assms by (simp_all add: holds_def)
  then have "sorted (recent c (gs k)) \<and> (\<forall>t\<in>set (recent c (gs k)). t \<le> now)"
    unfolding eq by (simp add: sorted_recent) (simp add: recent_def)
  then show ?thesis
    using assms by (auto simp: holds_def bucket_of_update distinct_update recent_recent)
qed

lemma holds_push:
  assumes "holds c now bs gs"
  shows "holds c now (AList.update k (bucket_of bs k @ [now]) bs) (gs(k := gs k @ [now]))"
  using assms by (auto simp: holds_def bucket_of_update distinct_update sorted_append)

lemma holds_popped: "holds c now bs gs \<Longrightarrow> pop_expired c (bucket_of bs k) = recent c (gs k)"
  by (simp add: holds_def pop_expired_recent)

section \<open>A limiter as a count of its grants\<close>

text \<open>
  A call reads the clock and asks for a grant. \<open>limiter_run\<close> is a limiter over a sequence of calls;
  \<open>reference_run\<close> decides each from the list of all grants made before.
\<close>

fun limiter_run :: "(instant \<Rightarrow> 'q \<Rightarrow> 's \<Rightarrow> bool \<times> 's) \<Rightarrow> 's \<Rightarrow> (instant \<times> 'q) list \<Rightarrow> bool list \<times> 's" where
  "limiter_run allow s [] = ([], s)"
| "limiter_run allow s ((now, q) # calls) =
     (let (ok, s) = allow now q s; (oks, s) = limiter_run allow s calls in (ok # oks, s))"

fun reference_run ::
    "(instant \<Rightarrow> 'q \<Rightarrow> (instant \<times> 'q) list \<Rightarrow> bool) \<Rightarrow> (instant \<times> 'q) list \<Rightarrow> (instant \<times> 'q) list \<Rightarrow>
      bool list \<times> (instant \<times> 'q) list" where
  "reference_run spec h [] = ([], h)"
| "reference_run spec h ((now, q) # calls) =
     (let ok = spec now q h;
          (oks, h) = reference_run spec (if ok then h @ [(now, q)] else h) calls
      in (ok # oks, h))"

text \<open>
  Calls reach the lock in the order in which they read the clock, and the clock's origin is a
  window or more before the first.
\<close>

definition timely :: "(instant \<times> 'q) list \<Rightarrow> bool" where
  "timely calls \<longleftrightarrow> sorted (map fst calls) \<and> (\<forall>(t, _)\<in>set calls. rate_window \<le> t)"

lemma timely_Cons:
  "timely ((now, q) # calls) \<longleftrightarrow> rate_window \<le> now \<and> timely calls \<and> (\<forall>(t, _)\<in>set calls. now \<le> t)"
  by (auto simp: timely_def)

locale window_limiter =
  fixes allow :: "instant \<Rightarrow> 'q \<Rightarrow> 's \<Rightarrow> bool \<times> 's"
    and spec :: "instant \<Rightarrow> 'q \<Rightarrow> (instant \<times> 'q) list \<Rightarrow> bool"
    and tracks :: "instant \<Rightarrow> 's \<Rightarrow> (instant \<times> 'q) list \<Rightarrow> bool"
    and fits :: "'q \<Rightarrow> bool"
  assumes step: "tracks clock s h \<Longrightarrow> rate_window \<le> clock \<Longrightarrow> clock \<le> now \<Longrightarrow> fits q \<Longrightarrow>
      fst (allow now q s) = spec now q h \<and>
      tracks now (snd (allow now q s)) (if spec now q h then h @ [(now, q)] else h)"
begin

lemma run_tracks:
  assumes "tracks clock s h" "rate_window \<le> clock" "\<forall>(t, _)\<in>set calls. clock \<le> t" "timely calls"
    "\<forall>(_, q)\<in>set calls. fits q"
  shows "fst (limiter_run allow s calls) = fst (reference_run spec h calls) \<and>
    (\<exists>clock'. rate_window \<le> clock' \<and> (clock' = clock \<or> clock' \<in> fst ` set calls) \<and>
      tracks clock' (snd (limiter_run allow s calls)) (snd (reference_run spec h calls)))"
  using assms
proof (induction calls arbitrary: clock s h)
  case Nil
  then show ?case by auto
next
  case (Cons call calls)
  obtain now q where call: "call = (now, q)" by (cases call)
  let ?h = "if spec now q h then h @ [(now, q)] else h"
  from Cons.prems call have "fits q" "clock \<le> now" by auto
  from step [OF Cons.prems(1,2) this(2,1)]
  have "fst (allow now q s) = spec now q h" and "tracks now (snd (allow now q s)) ?h" by blast+
  moreover from Cons.prems call have "rate_window \<le> now" "\<forall>(t, _)\<in>set calls. now \<le> t" "timely calls"
    "\<forall>(_, q)\<in>set calls. fits q" by (auto simp: timely_Cons)
  ultimately show ?case
    using Cons.IH [of now "snd (allow now q s)" ?h] unfolding call
    by (auto simp: Let_def split: prod.splits)
qed

end

section \<open>Registered limiters\<close>

definition grants_of :: "string \<Rightarrow> (instant \<times> string \<times> nat) list \<Rightarrow> instant list" where
  "grants_of k h = map fst (filter (\<lambda>(_, key, _). key = k) h)"

lemma grants_of_simps [simp]:
  "grants_of k [] = []"
  "grants_of k (h @ [(now, key, n)]) = (if key = k then grants_of k h @ [now] else grants_of k h)"
  by (simp_all add: grants_of_def)

definition registered_spec :: "instant \<Rightarrow> string \<times> nat \<Rightarrow> (instant \<times> string \<times> nat) list \<Rightarrow> bool" where
  "registered_spec now q h \<longleftrightarrow> length (recent (cutoff now) (grants_of (fst q) h)) < snd q"

definition registered_tracks :: "instant \<Rightarrow> rate_windows \<Rightarrow> (instant \<times> string \<times> nat) list \<Rightarrow> bool" where
  "registered_tracks clock w h \<longleftrightarrow> holds (cutoff clock) clock (rw_buckets w) (\<lambda>k. grants_of k h)"

lemma cutoff_mono: "rate_window \<le> t \<Longrightarrow> t \<le> now \<Longrightarrow> cutoff t \<le> cutoff now"
  by (simp add: cutoff_def diff_le_mono)

lemma cutoff_less: "rate_window \<le> now \<Longrightarrow> cutoff now < now"
  by (simp add: cutoff_def rate_window_def RATE_LIMIT_WINDOW_SECS_def)

lemma holds_prune:
  "holds (cutoff now) now (rw_buckets w) gs \<Longrightarrow>
   holds (cutoff now) now (rw_buckets (prune_windows now w)) gs"
  by (simp add: prune_windows_def holds_retain)

lemma holds_refill:
  assumes "holds c now bs gs"
  shows "holds c now (AList.update k (recent c (gs k) @ [now]) bs) (gs(k := gs k @ [now]))"
  using holds_push [OF holds_update_recent [OF assms, of k], of k]
  by (simp add: bucket_of_update)

lemma registered_step:
  assumes "registered_tracks clock w h" "rate_window \<le> clock" "clock \<le> now"
  shows "fst (registered_allow now q w) = registered_spec now q h \<and>
    registered_tracks now (snd (registered_allow now q w))
      (if registered_spec now q h then h @ [(now, q)] else h)"
proof -
  obtain key limit where q: "q = (key, limit)" by (cases q)
  let ?w = "prune_windows now w" and ?gs = "\<lambda>k. grants_of k h"
  have "holds (cutoff now) now (rw_buckets ?w) ?gs"
    using assms unfolding registered_tracks_def
    by (intro holds_prune) (erule holds_later, auto intro: cutoff_mono)
  note held = this holds_popped [OF this, of key]
  have "(\<lambda>k. grants_of k (h @ [(now, q)])) = ?gs(key := ?gs key @ [now])"
    by (auto simp: q)
  then show ?thesis
    using held holds_update_recent [OF held(1), of key] holds_refill [OF held(1), of key]
    by (auto simp: registered_allow_def registered_spec_def registered_tracks_def q Let_def)
qed

interpretation registered: window_limiter registered_allow registered_spec registered_tracks "\<lambda>_. True"
  by unfold_locales (rule registered_step)

lemma registered_tracks_empty: "registered_tracks rate_window empty_windows []"
  by (simp add: registered_tracks_def empty_windows_def holds_empty)

section \<open>Limiters with a shared budget\<close>

definition both_spec ::
    "nat \<Rightarrow> instant \<Rightarrow> string \<times> nat \<Rightarrow> (instant \<times> string \<times> nat) list \<Rightarrow> bool" where
  "both_spec shared_limit now q h \<longleftrightarrow>
     length (recent (cutoff now) (grants_of (fst q) h)) < snd q \<and>
     length (recent (cutoff now) (map fst h)) < shared_limit"

definition both_grants :: "string \<Rightarrow> (instant \<times> string \<times> nat) list \<Rightarrow> string \<Rightarrow> instant list" where
  "both_grants shared_key h k = (if k = shared_key then map fst h else grants_of k h)"

definition both_tracks ::
    "string \<Rightarrow> nat \<Rightarrow> instant \<Rightarrow> buckets \<Rightarrow> (instant \<times> string \<times> nat) list \<Rightarrow> bool" where
  "both_tracks shared_key shared_limit clock bs h \<longleftrightarrow>
     holds (cutoff clock) clock bs (both_grants shared_key h) \<and>
     (bs \<noteq> [] \<longrightarrow> shared_key \<in> fst ` set bs) \<and> length bs \<le> shared_limit + 1"

lemma length_update:
  "length (AList.update k b bs) = (if k \<in> fst ` set bs then length bs else length bs + 1)"
  by (induction bs) auto

lemma live_holds:
  assumes "holds c now bs gs"
  shows "fst (live c k bs) = length (recent c (gs k))" (is ?A)
    "holds c now (snd (live c k bs)) gs" (is ?B)
    "bucket_of (snd (live c k bs)) k = recent c (gs k)" (is ?C)
    "map fst (snd (live c k bs)) = map fst bs" (is ?D)
proof -
  have "pop_expired c (bucket_of bs k) = recent c (gs k)" using assms by (rule holds_popped)
  moreover have "map_of bs k = None \<Longrightarrow> bucket_of bs k = []" by (simp add: bucket_of_def)
  moreover from this have "map_of bs k = None \<Longrightarrow> recent c (gs k) = []"
    using assms by (metis holds_def recent_simps(1))
  ultimately have live: "live c k bs =
      (if map_of bs k = None then (0, bs)
       else (length (recent c (gs k)), AList.update k (recent c (gs k)) bs))"
    and none: "map_of bs k = None \<Longrightarrow> bucket_of bs k = [] \<and> recent c (gs k) = []"
    by (auto simp: live_def bucket_of_def pop_expired_def split: option.splits)
  show ?A ?B ?C
    using assms none holds_update_recent [OF assms, of k] by (auto simp: live bucket_of_update)
  show ?D by (auto simp: live update_keys map_of_eq_None_iff)
qed

lemma distinct_keys_count:
  assumes "\<And>k. recent c (gs k) \<noteq> [] \<Longrightarrow> k = s \<or> (\<exists>t. (t, k) \<in> set h \<and> c < t)"
    and "distinct ks" "\<forall>k\<in>set ks. recent c (gs k) \<noteq> []"
  shows "length ks \<le> length (filter (\<lambda>(t, _). c < t) h) + (if s \<in> set ks then 1 else 0)"
proof -
  let ?H = "snd ` set (filter (\<lambda>(t, _). c < t) h)"
  have "set ks - {s} \<subseteq> ?H" using assms by (force simp: image_iff)
  then have "card (set ks - {s}) \<le> card ?H" by (intro card_mono) auto
  also have "\<dots> \<le> card (set (filter (\<lambda>(t, _). c < t) h))" by (rule card_image_le) simp
  also have "\<dots> \<le> length (filter (\<lambda>(t, _). c < t) h)" by (rule card_length)
  finally show ?thesis using assms(2) distinct_card [of ks] by (auto simp: card_Diff_singleton_if split: if_splits)
qed

lemma retained_recent:
  assumes "holds c now bs gs" "k \<in> fst ` set (retain_live c bs)"
  shows "recent c (gs k) \<noteq> []"
proof -
  from assms obtain b where b: "(k, b) \<in> set bs" "b \<noteq> []" "c < last b"
    by (auto simp: retain_live_def)
  with assms(1) have "bucket_of bs k = b" by (simp add: holds_def bucket_of_def)
  with assms(1) b recent_empty [of b c] show ?thesis by (auto simp: holds_def)
qed

lemma retained_count:
  assumes "holds c now bs (both_grants s h)"
  shows "length (retain_live c bs) \<le> length (recent c (map fst h)) +
      (if s \<in> fst ` set (retain_live c bs) then 1 else 0)"
    and "retain_live c bs \<noteq> [] \<Longrightarrow> s \<in> fst ` set bs \<Longrightarrow> s \<in> fst ` set (retain_live c bs)"
proof -
  let ?h = "map (\<lambda>(t, k, _). (t, k)) h" and ?ks = "map fst (retain_live c bs)"
  have grant: "\<exists>t. (t, k) \<in> set ?h \<and> c < t" if "recent c (grants_of k h) \<noteq> []" for k
    using that by (force simp: recent_def grants_of_def filter_empty_conv image_iff)
  have "length ?ks \<le> length (filter (\<lambda>(t, _). c < t) ?h) + (if s \<in> set ?ks then 1 else 0)"
  proof (rule distinct_keys_count [of c "both_grants s h"])
    show "distinct ?ks"
      using assms unfolding holds_def retain_live_def by (simp add: distinct_map_filter)
    show "\<forall>k\<in>set ?ks. recent c (both_grants s h k) \<noteq> []"
      using retained_recent [OF assms] by (simp add: image_iff)
  qed (use grant in \<open>auto simp: both_grants_def split: if_splits\<close>)
  moreover have "length (filter (\<lambda>(t, _). c < t) ?h) = length (recent c (map fst h))"
    by (simp add: recent_def filter_map o_def split_def)
  ultimately show "length (retain_live c bs) \<le> length (recent c (map fst h)) +
      (if s \<in> fst ` set (retain_live c bs) then 1 else 0)" by simp
next
  assume "retain_live c bs \<noteq> []" and "s \<in> fst ` set bs"
  then obtain k where "k \<in> fst ` set (retain_live c bs)" by (cases "retain_live c bs") auto
  from retained_recent [OF assms this] have "recent c (map fst h) \<noteq> []"
    by (force simp: both_grants_def recent_def grants_of_def filter_empty_conv split: if_splits)
  then have "recent c (bucket_of bs s) \<noteq> []"
    using assms by (simp add: holds_def both_grants_def)
  then have "bucket_of bs s \<noteq> [] \<and> c < last (bucket_of bs s)"
    using recent_empty [of "bucket_of bs s" c] assms by (auto simp: holds_def)
  moreover obtain b where "map_of bs s = Some b"
    using \<open>s \<in> fst ` set bs\<close> by (metis map_of_eq_None_iff not_None_eq)
  ultimately show "s \<in> fst ` set (retain_live c bs)"
    by (force simp: bucket_of_def retain_live_def dest: map_of_SomeD)
qed

lemma push_back_holds:
  "holds c now bs gs \<Longrightarrow> holds c now (push_back now k bs) (gs(k := gs k @ [now]))"
  unfolding push_back_def by (rule holds_push)

lemma both_pushed:
  assumes "holds c now bs (both_grants s h)" "k \<noteq> s"
  shows "holds c now (push_back now s (push_back now k bs)) (both_grants s (h @ [(now, k, n)]))"
proof -
  let ?gs = "both_grants s h"
  have "both_grants s (h @ [(now, k, n)]) = (?gs(k := ?gs k @ [now]))(s := ?gs s @ [now])"
    using assms(2) by (auto simp: both_grants_def)
  moreover have "holds c now (push_back now s (push_back now k bs))
      ((?gs(k := ?gs k @ [now]))(s := (?gs(k := ?gs k @ [now])) s @ [now]))"
    by (intro push_back_holds assms(1))
  ultimately show ?thesis using assms(2) by (metis fun_upd_other)
qed

lemma length_pushed:
  "k \<noteq> s \<Longrightarrow> length (push_back now s (push_back now k bs)) =
     length bs + (if k \<in> fst ` set bs then 0 else 1) + (if s \<in> fst ` set bs then 0 else 1)"
  by (simp add: push_back_def length_update dom_update)

lemma both_step:
  assumes "both_tracks s l clock bs h" "rate_window \<le> clock" "clock \<le> now" "fst q \<noteq> s"
  shows "fst (allow_both s l now q bs) = both_spec l now q h \<and>
    both_tracks s l now (snd (allow_both s l now q bs)) (if both_spec l now q h then h @ [(now, q)] else h)"
proof -
  obtain k limit where q: "q = (k, limit)" by (cases q)
  let ?c = "cutoff now" and ?gs = "both_grants s h"
  have held: "holds ?c now bs ?gs"
    using assms unfolding both_tracks_def by (blast intro: holds_later cutoff_mono)
  obtain own b1 where b1: "live ?c k bs = (own, b1)" by fastforce
  with live_holds [OF held, of k] have 1: "own = length (recent ?c (?gs k))" "holds ?c now b1 ?gs"
    "map fst b1 = map fst bs" by auto
  obtain shared b2 where b2: "live ?c s b1 = (shared, b2)" by fastforce
  with live_holds [OF 1(2), of s] have 2: "shared = length (recent ?c (?gs s))" "holds ?c now b2 ?gs"
    "map fst b2 = map fst bs" by (auto simp: 1(3))
  have kept: "length b1 = length bs" "length b2 = length bs"
    "fst ` set b1 = fst ` set bs" "fst ` set b2 = fst ` set bs"
    using 1(3) 2(3) by (metis length_map, metis length_map, metis list.set_map, metis list.set_map)
  define b3 where "b3 = (if map_of b2 k = None \<and> min (l + 1) USIZE_MAX \<le> length b2
    then retain_live ?c b2 else b2)"
  have small: "length bs \<le> l + 1" "bs = [] \<or> s \<in> fst ` set bs"
    using assms(1) by (auto simp: both_tracks_def)
  have spec: "both_spec l now q h \<longleftrightarrow> \<not> limit \<le> own \<and> \<not> l \<le> shared"
    using 1 2 assms(4) by (auto simp: both_spec_def both_grants_def q)
  have result: "allow_both s l now q bs =
      (if limit \<le> own then (False, b1) else if l \<le> shared then (False, b2)
       else (True, push_back now s (push_back now k b3)))"
    by (simp add: allow_both_def q b1 b2 b3_def Let_def)
  have holds3: "holds ?c now b3 ?gs" using 2 by (simp add: b3_def holds_retain)
  have bound: "length (push_back now s (push_back now k b3)) \<le> l + 1" if "shared < l"
  proof (cases "map_of b2 k = None \<and> min (l + 1) USIZE_MAX \<le> length b2")
    case True
    then have b3: "b3 = retain_live ?c b2" by (simp add: b3_def)
    have "bs \<noteq> [] \<or> b3 = []" using 2(3) by (auto simp: b3 retain_live_def)
    then show ?thesis
      using retained_count [OF 2(2)] that small 2 assms(4)
      by (auto simp: length_pushed q b3 both_grants_def kept split: if_splits)
  next
    case False
    then have "b3 = b2" by (auto simp: b3_def)
    moreover have "k \<in> fst ` set b2 \<or> length b2 < l + 1" using False by (auto simp: map_of_eq_None_iff)
    ultimately show ?thesis using small that kept assms(4)
      by (auto simp: length_pushed q)
  qed
  show ?thesis
    using spec result holds3 bound 1 2 small kept both_pushed [OF holds3, of k limit] assms(4)
    by (auto simp: both_tracks_def q push_back_def dom_update)
qed

interpretation both: window_limiter "allow_both s l" "both_spec l" "both_tracks s l" "\<lambda>q. fst q \<noteq> s"
  for s l
  by unfold_locales (rule both_step)

lemma both_tracks_empty: "both_tracks s l rate_window [] []"
  by (simp add: both_tracks_def holds_def bucket_of_def both_grants_def grants_of_def)

section \<open>What the rate limiters promise\<close>

lemma registered_run:
  assumes "timely calls"
  shows "fst (limiter_run registered_allow empty_windows calls) =
      fst (reference_run registered_spec [] calls)"
    and "\<exists>clock. rate_window \<le> clock \<and> (clock = rate_window \<or> clock \<in> fst ` set calls) \<and>
      registered_tracks clock (snd (limiter_run registered_allow empty_windows calls))
        (snd (reference_run registered_spec [] calls))"
proof -
  have "\<forall>(t, _)\<in>set calls. rate_window \<le> t" using assms by (auto simp: timely_def)
  from registered.run_tracks [OF registered_tracks_empty order_refl this assms]
  show "fst (limiter_run registered_allow empty_windows calls) =
      fst (reference_run registered_spec [] calls)"
    and "\<exists>clock. rate_window \<le> clock \<and> (clock = rate_window \<or> clock \<in> fst ` set calls) \<and>
      registered_tracks clock (snd (limiter_run registered_allow empty_windows calls))
        (snd (reference_run registered_spec [] calls))"
    by simp_all
qed

lemma both_run:
  assumes "timely calls" "\<forall>(_, key, _)\<in>set calls. key \<noteq> s"
  shows "fst (limiter_run (allow_both s l) [] calls) = fst (reference_run (both_spec l) [] calls)"
    and "length (snd (limiter_run (allow_both s l) [] calls)) \<le> l + 1"
proof -
  have "\<forall>(t, _)\<in>set calls. rate_window \<le> t" using assms by (auto simp: timely_def)
  from both.run_tracks [OF both_tracks_empty order_refl this assms(1), of s l] assms(2)
  show "fst (limiter_run (allow_both s l) [] calls) = fst (reference_run (both_spec l) [] calls)"
    and "length (snd (limiter_run (allow_both s l) [] calls)) \<le> l + 1"
    by (auto simp: split_def both_tracks_def)
qed

definition granted ::
    "(instant \<Rightarrow> 'q \<Rightarrow> 's \<Rightarrow> bool \<times> 's) \<Rightarrow> 's \<Rightarrow> (instant \<times> 'q) list \<Rightarrow> (instant \<times> 'q) list" where
  "granted allow s calls = map fst (filter snd (zip calls (fst (limiter_run allow s calls))))"

lemma reference_grants:
  "snd (reference_run spec h calls) =
     h @ map fst (filter snd (zip calls (fst (reference_run spec h calls))))"
proof (induction calls arbitrary: h)
  case (Cons call calls)
  then show ?case by (cases call) (auto simp: Let_def split_def)
qed simp

lemma filter_length_mono: "(\<And>x. P x \<Longrightarrow> Q x) \<Longrightarrow> length (filter P xs) \<le> length (filter Q xs)"
  by (induction xs) (auto intro: le_SucI)

lemma reference_bound:
  assumes "timely calls"
    and "\<And>now q h. (now, q) \<in> set calls \<Longrightarrow> P q \<Longrightarrow> spec now q h \<Longrightarrow>
      length (filter (\<lambda>(t, q). P q \<and> cutoff now < t) h) < L"
    and "length (filter (\<lambda>(t, q). P q \<and> a < t \<and> t \<le> a + rate_window) h) \<le> L"
  shows "length (filter (\<lambda>(t, q). P q \<and> a < t \<and> t \<le> a + rate_window)
    (snd (reference_run spec h calls))) \<le> L"
  using assms
proof (induction calls arbitrary: h)
  case (Cons call calls)
  obtain now q where call: "call = (now, q)" by (cases call)
  let ?w = "\<lambda>(t, q). P q \<and> a < t \<and> t \<le> a + rate_window"
  let ?h = "if spec now q h then h @ [(now, q)] else h"
  have "length (filter ?w ?h) \<le> L"
  proof (cases "spec now q h \<and> ?w (now, q)")
    case True
    with Cons.prems(1) have "cutoff now \<le> a" by (auto simp: call timely_Cons cutoff_def)
    then have "length (filter ?w h) \<le> length (filter (\<lambda>(t, q). P q \<and> cutoff now < t) h)"
      by (intro filter_length_mono) auto
    also have "\<dots> < L" using True by (intro Cons.prems(2)) (auto simp: call)
    finally show ?thesis by (simp add: True)
  qed (use Cons.prems(3) in auto)
  moreover have "timely calls" using Cons.prems(1) by (simp add: call timely_Cons)
  ultimately have "length (filter ?w (snd (reference_run spec ?h calls))) \<le> L"
    by (intro Cons.IH Cons.prems(2)) simp_all
  then show ?case by (simp add: call Let_def split_def split: if_splits)
qed simp

lemma registered_grants:
  assumes "timely calls"
  shows "granted registered_allow empty_windows calls = snd (reference_run registered_spec [] calls)"
  using registered_run(1) [OF assms] by (simp add: granted_def reference_grants)

lemma both_granted:
  assumes "timely calls" "\<forall>(_, key, _)\<in>set calls. key \<noteq> s"
  shows "granted (allow_both s l) [] calls = snd (reference_run (both_spec l) [] calls)"
  using both_run(1) [OF assms] by (simp add: granted_def reference_grants)

text \<open>
  C35. Both rate limiters decide every call as the reference does that keeps all grants ever made
  and counts the caller's grants, and for a shared budget all grants, of the last minute.
  Expiring time stamps lazily and pruning the buckets of other callers never changes a verdict.
\<close>

theorem limiters_count_grants:
  assumes "timely calls" and "timely shared_calls" "\<forall>(_, key, _)\<in>set shared_calls. key \<noteq> shared_key"
  shows "fst (limiter_run registered_allow empty_windows calls) =
      fst (reference_run registered_spec [] calls) \<and>
    fst (limiter_run (allow_both shared_key shared_limit) [] shared_calls) =
      fst (reference_run (both_spec shared_limit) [] shared_calls)"
  using registered_run(1) [OF assms(1)] both_run(1) [OF assms(2,3)] by simp

text \<open>
  In no window of a minute, wherever it starts, does a key get more grants than the largest
  limit it was asked with, nor a shared budget more than its own; and the map of a shared budget
  never holds more than its limit and one key, whoever calls.
\<close>

theorem rate_limits_hold:
  assumes "timely calls" "\<forall>(_, k, limit)\<in>set calls. k = key \<longrightarrow> limit \<le> L"
    and "timely shared_calls" "\<forall>(_, k, _)\<in>set shared_calls. k \<noteq> shared_key"
  shows "length (filter (\<lambda>(t, k, _). k = key \<and> a < t \<and> t \<le> a + rate_window)
      (granted registered_allow empty_windows calls)) \<le> L \<and>
    length (filter (\<lambda>(t, _). a < t \<and> t \<le> a + rate_window)
      (granted (allow_both shared_key shared_limit) [] shared_calls)) \<le> shared_limit \<and>
    length (snd (limiter_run (allow_both shared_key shared_limit) [] shared_calls)) \<le> shared_limit + 1"
proof (intro conjI)
  have "length (filter (\<lambda>(t, q). fst q = key \<and> a < t \<and> t \<le> a + rate_window)
      (snd (reference_run registered_spec [] calls))) \<le> L"
  proof (rule reference_bound [OF assms(1)])
    fix now q and h :: "(instant \<times> string \<times> nat) list"
    assume "(now, q) \<in> set calls" "fst q = key" "registered_spec now q h"
    moreover have "length (filter (\<lambda>(t, q). fst q = key \<and> cutoff now < t) h) =
        length (recent (cutoff now) (grants_of key h))"
      by (induction h) (auto simp: recent_def grants_of_def)
    ultimately show "length (filter (\<lambda>(t, q). fst q = key \<and> cutoff now < t) h) < L"
      using assms(2) by (force simp: registered_spec_def)
  qed simp
  then show "length (filter (\<lambda>(t, k, _). k = key \<and> a < t \<and> t \<le> a + rate_window)
      (granted registered_allow empty_windows calls)) \<le> L"
    by (simp add: registered_grants [OF assms(1)] split_def)
  have "length (filter (\<lambda>(t, q). True \<and> a < t \<and> t \<le> a + rate_window)
      (snd (reference_run (both_spec shared_limit) [] shared_calls))) \<le> shared_limit"
    by (rule reference_bound [OF assms(3)])
      (auto simp: both_spec_def recent_def filter_map o_def split_def)
  then show "length (filter (\<lambda>(t, _). a < t \<and> t \<le> a + rate_window)
      (granted (allow_both shared_key shared_limit) [] shared_calls)) \<le> shared_limit"
    by (simp add: both_granted [OF assms(3,4)])
  show "length (snd (limiter_run (allow_both shared_key shared_limit) [] shared_calls)) \<le> shared_limit + 1"
    by (rule both_run(2) [OF assms(3,4)])
qed

text \<open>
  C36. Whatever others do, a caller with a non-zero allowance that has not called for a minute is
  granted its next call, however often it was refused before.
\<close>

theorem idle_caller_granted:
  assumes "timely (calls @ [(now, key, limit)])" "0 < limit"
    and "\<forall>(t, k, _)\<in>set calls. k = key \<longrightarrow> t + rate_window \<le> now"
  shows "fst (registered_allow now (key, limit) (snd (limiter_run registered_allow empty_windows calls)))"
proof -
  let ?w = "snd (limiter_run registered_allow empty_windows calls)"
  let ?h = "snd (reference_run registered_spec [] calls)"
  from assms(1) have timely: "timely calls" and now: "rate_window \<le> now" "\<forall>t\<in>fst ` set calls. t \<le> now"
    by (auto simp: timely_def sorted_append)
  from registered_run(2) [OF timely] now obtain clock
    where "registered_tracks clock ?w ?h" "rate_window \<le> clock" "clock \<le> now" by blast
  from registered_step [OF this, of "(key, limit)"]
  have "fst (registered_allow now (key, limit) ?w) = registered_spec now (key, limit) ?h" by blast
  moreover have "set ?h \<subseteq> set calls"
    unfolding reference_grants by (auto dest: set_zip_leftD)
  then have "recent (cutoff now) (grants_of key ?h) = []"
    using assms(3) now(1) by (fastforce simp: recent_def grants_of_def filter_empty_conv cutoff_def)
  ultimately show ?thesis using assms(2) by (simp add: registered_spec_def)
qed

section \<open>Witnesses of the rate limiters\<close>

definition sample_calls :: "(instant \<times> string \<times> nat) list" where
  "sample_calls =
     [(60000000000, ''k'', 2), (61000000000, ''k'', 2), (62000000000, ''j'', 1), (63000000000, ''k'', 2)]"

lemma sample_calls_timely: "timely sample_calls"
  by (simp add: timely_def sample_calls_def rate_window_def RATE_LIMIT_WINDOW_SECS_def)

lemma limiters_count_grants_witness:
  "fst (limiter_run registered_allow empty_windows sample_calls) = [True, True, True, False] \<and>
   fst (limiter_run (allow_both ''global'' 2) [] sample_calls) = [True, True, False, False]"
proof -
  have "\<forall>(_, key, _)\<in>set sample_calls. key \<noteq> ''global''" by (simp add: sample_calls_def)
  from limiters_count_grants [OF sample_calls_timely sample_calls_timely this, of 2]
  show ?thesis
    by (simp add: sample_calls_def registered_spec_def both_spec_def recent_def grants_of_def cutoff_def
        rate_window_def RATE_LIMIT_WINDOW_SECS_def)
qed

lemma rate_limits_hold_witness:
  "length (granted registered_allow empty_windows sample_calls) = 3 \<and>
   length (filter (\<lambda>(t, k, _). k = ''k'' \<and> 60000000000 < t \<and> t \<le> 60000000000 + rate_window)
      (granted registered_allow empty_windows sample_calls)) \<le> 2"
proof -
  have "\<forall>(_, k, limit)\<in>set sample_calls. k = ''k'' \<longrightarrow> limit \<le> 2"
    "\<forall>(_, k, _)\<in>set sample_calls. k \<noteq> ''global''" by (auto simp: sample_calls_def)
  note bound = rate_limits_hold [OF sample_calls_timely this(1) sample_calls_timely this(2),
      of 60000000000 2]
  have "length (granted registered_allow empty_windows sample_calls) = 3"
    unfolding registered_grants [OF sample_calls_timely]
    by (simp add: sample_calls_def registered_spec_def recent_def grants_of_def cutoff_def
        rate_window_def RATE_LIMIT_WINDOW_SECS_def)
  with bound show ?thesis by blast
qed

lemma idle_caller_granted_witness:
  "fst (registered_allow 121000000000 (''k'', 1)
     (snd (limiter_run registered_allow empty_windows [(60000000000, ''k'', 1), (61000000000, ''k'', 1)])))"
  by (rule idle_caller_granted)
    (simp_all add: timely_def rate_window_def RATE_LIMIT_WINDOW_SECS_def)

section \<open>Permits\<close>

text \<open>
  A connection asks for a permit and drops it when it ends. \<open>held\<close> are the permits that are out;
  \<open>None\<close> is a panic. A drop is of a permit that is out.
\<close>

datatype ('q, 'k) permit_op = Acquire 'q | Drop 'k

fun permit_run ::
    "('q \<Rightarrow> 's \<Rightarrow> connection_error + 'k \<times> 's) \<Rightarrow> ('k \<Rightarrow> 's \<Rightarrow> 's option) \<Rightarrow> ('q, 'k) permit_op list \<Rightarrow>
      's \<times> 'k multiset \<Rightarrow> ('s \<times> 'k multiset) option" where
  "permit_run acquire drop_permit [] sh = Some sh"
| "permit_run acquire drop_permit (Acquire q # ops) (s, held) =
     (case acquire q s of
        Inl _ \<Rightarrow> permit_run acquire drop_permit ops (s, held)
      | Inr (k, s) \<Rightarrow> permit_run acquire drop_permit ops (s, add_mset k held))"
| "permit_run acquire drop_permit (Drop k # ops) (s, held) =
     (if k \<in># held then
        (case drop_permit k s of
           None \<Rightarrow> None
         | Some s \<Rightarrow> permit_run acquire drop_permit ops (s, held - {#k#}))
      else permit_run acquire drop_permit ops (s, held))"

locale permit_pool =
  fixes acquire :: "'q \<Rightarrow> 's \<Rightarrow> connection_error + 'k \<times> 's"
    and drop_permit :: "'k \<Rightarrow> 's \<Rightarrow> 's option"
    and accounts :: "'s \<Rightarrow> 'k multiset \<Rightarrow> bool"
  assumes acquired: "accounts s held \<Longrightarrow> acquire q s = Inr (k, s') \<Longrightarrow> accounts s' (add_mset k held)"
    and dropped: "accounts s (add_mset k held) \<Longrightarrow> \<exists>s'. drop_permit k s = Some s' \<and> accounts s' held"
begin

lemma run_accounts:
  "accounts s held \<Longrightarrow>
    \<exists>s' held'. permit_run acquire drop_permit ops (s, held) = Some (s', held') \<and> accounts s' held'"
proof (induction ops arbitrary: s held)
  case (Cons op ops)
  show ?case
  proof (cases op)
    case (Acquire q)
    then show ?thesis
      using Cons.IH Cons.prems acquired [OF Cons.prems]
      by (auto split: sum.split prod.split)
  next
    case (Drop k)
    show ?thesis
    proof (cases "k \<in># held")
      case True
      then have "accounts s (add_mset k (held - {#k#}))" using Cons.prems by simp
      from dropped [OF this] obtain s' where "drop_permit k s = Some s'" "accounts s' (held - {#k#})"
        by blast
      with Cons.IH [OF this(2)] True Drop show ?thesis by simp
    qed (use Drop Cons in simp)
  qed
qed simp

end

definition counted :: "('k \<rightharpoonup> nat) \<Rightarrow> 'k multiset \<Rightarrow> bool" where
  "counted m held \<longleftrightarrow> (\<forall>k. m k = (if count held k = 0 then None else Some (count held k)))"

lemma counted_lookup:
  "counted m held \<Longrightarrow> (case m k of None \<Rightarrow> 0 | Some n \<Rightarrow> n) = count held k"
  by (simp add: counted_def)

lemma counted_add: "counted m held \<Longrightarrow> counted (m(k \<mapsto> count held k + 1)) (add_mset k held)"
  by (auto simp: counted_def count_eq_zero_iff)

lemma counted_drop:
  assumes "counted m (add_mset k held)"
  shows "m k = Some (count held k + 1)"
    and "counted (m(k := if count held k = 0 then None else Some (count held k))) held"
proof -
  have m: "m n = (if count (add_mset k held) n = 0 then None else Some (count (add_mset k held) n))" for n
    using assms by (simp add: counted_def)
  show "m k = Some (count held k + 1)" by (simp add: m)
  show "counted (m(k := if count held k = 0 then None else Some (count held k))) held"
    by (auto simp: counted_def m count_eq_zero_iff)
qed

lemma count_bound_drop:
  "\<forall>n. count (add_mset k held) n \<le> f n \<Longrightarrow> \<forall>n. count held n \<le> f n"
  by (metis count_add_mset le_SucI le_trans order_refl)

lemma count_bound_add:
  "\<forall>n. count held n \<le> f n \<Longrightarrow> count held k < f k \<Longrightarrow> \<forall>n. count (add_mset k held) n \<le> f n"
  by (simp add: Suc_le_eq)

definition network_accounts :: "nat \<Rightarrow> nat \<Rightarrow> connection_counts \<Rightarrow> ip_addr multiset \<Rightarrow> bool" where
  "network_accounts per_ip overall c held \<longleftrightarrow>
     counted (cc_per_ip c) held \<and> cc_total c = size held \<and> size held \<le> overall \<and>
     (\<forall>k. count held k \<le> per_ip)"

lemma network_acquired:
  assumes "network_accounts per_ip overall c held" and "try_acquire ip per_ip overall c = Inr (k, c')"
  shows "network_accounts per_ip overall c' (add_mset k held)"
proof -
  note a = assms(1) [unfolded network_accounts_def]
  note look = counted_lookup [OF a [THEN conjunct1]]
  from assms(2) have "cc_total c < overall" "k = client_network ip" "count held k < per_ip"
    and c': "c' = c\<lparr>cc_per_ip := (cc_per_ip c)(k \<mapsto> count held k + 1), cc_total := cc_total c + 1\<rparr>"
    by (auto simp: try_acquire_def Let_def look split: if_splits)
  then show ?thesis
    using a counted_add [of "cc_per_ip c" held k] count_bound_add [of held "\<lambda>_. per_ip" k]
    by (simp add: network_accounts_def c')
qed

lemma network_dropped:
  assumes "network_accounts per_ip overall c (add_mset k held)"
  shows "network_accounts per_ip overall (release k c) held"
proof -
  note a = assms [unfolded network_accounts_def]
  note d = counted_drop [OF a [THEN conjunct1]]
  have "release k c =
      c\<lparr>cc_total := size held,
        cc_per_ip := (cc_per_ip c)(k := if count held k = 0 then None else Some (count held k))\<rparr>"
    using a by (simp add: release_def Let_def d(1) count_eq_zero_iff)
  then show ?thesis
    using a d(2) count_bound_drop [of k held "\<lambda>_. per_ip"] by (simp add: network_accounts_def)
qed

interpretation networks:
  permit_pool "\<lambda>ip. try_acquire ip per_ip overall" "\<lambda>k c. Some (release k c)"
    "network_accounts per_ip overall"
  for per_ip overall
  by unfold_locales (auto intro: network_acquired network_dropped)

definition tenant_limit :: "nat \<Rightarrow> bool \<Rightarrow> nat" where
  "tenant_limit surface_limit relay = (if relay then 2 else surface_limit)"

definition tenant_accounts :: "nat \<Rightarrow> tenant_counts \<Rightarrow> (string \<times> bool) multiset \<Rightarrow> bool" where
  "tenant_accounts surface_limit c held \<longleftrightarrow>
     counted c held \<and> (\<forall>k. count held k \<le> tenant_limit surface_limit (snd k))"

lemma tenant_acquired:
  assumes "tenant_accounts surface_limit c held"
    and "tenant_try_acquire tenant role surface_limit c = Inr (k, c')"
  shows "tenant_accounts surface_limit c' (add_mset k held)"
proof -
  note a = assms(1) [unfolded tenant_accounts_def]
  note look = counted_lookup [OF a [THEN conjunct1]]
  from assms(2) have "count held k < tenant_limit surface_limit (snd k)"
    and c': "c' = c(k \<mapsto> count held k + 1)"
    by (auto simp: tenant_try_acquire_def tenant_limit_def Let_def look split: if_splits)
  then show ?thesis
    using a counted_add [of c held k] count_bound_add [of held "\<lambda>k. tenant_limit surface_limit (snd k)" k]
    by (simp add: tenant_accounts_def)
qed

lemma tenant_dropped:
  assumes "tenant_accounts surface_limit c (add_mset k held)"
  shows "\<exists>c'. tenant_drop k c = Some c' \<and> tenant_accounts surface_limit c' held"
proof -
  note a = assms [unfolded tenant_accounts_def]
  note d = counted_drop [OF a [THEN conjunct1]]
  have "tenant_drop k c = Some (c(k := if count held k = 0 then None else Some (count held k)))"
    by (simp add: tenant_drop_def d(1) count_eq_zero_iff)
  with d(2) a count_bound_drop [of k held "\<lambda>k. tenant_limit surface_limit (snd k)"] show ?thesis
    by (simp add: tenant_accounts_def)
qed

interpretation tenants:
  permit_pool "\<lambda>(tenant, role). tenant_try_acquire tenant role surface_limit" tenant_drop
    "tenant_accounts surface_limit"
  for surface_limit
  by unfold_locales (auto intro: tenant_acquired tenant_dropped)

text \<open>
  Over any opening and closing of connections the trackers count exactly the permits that are
  held, forget a network or tenant whose last permit is dropped, and never panic on a drop; at
  most the configured number of connections is open in total, from one client network, and to one
  tenant's surfaces, and at most two to one tenant's relay.
\<close>

theorem connection_counts_exact:
  "\<exists>c held t seated.
    permit_run (\<lambda>ip. try_acquire ip per_ip overall) (\<lambda>k c. Some (release k c)) ops (no_connections, {#}) =
      Some (c, held) \<and>
    cc_total c = size held \<and> size held \<le> overall \<and>
    (\<forall>k. cc_per_ip c k = (if count held k = 0 then None else Some (count held k)) \<and>
       count held k \<le> per_ip) \<and>
    permit_run (\<lambda>(tenant, role). tenant_try_acquire tenant role surface_limit) tenant_drop tops
      (Map.empty, {#}) = Some (t, seated) \<and>
    (\<forall>k. t k = (if count seated k = 0 then None else Some (count seated k)) \<and>
       count seated k \<le> (if snd k then 2 else surface_limit))"
proof -
  have "network_accounts per_ip overall no_connections {#}"
    by (simp add: network_accounts_def counted_def no_connections_def)
  moreover have "tenant_accounts surface_limit Map.empty {#}"
    by (simp add: tenant_accounts_def counted_def)
  ultimately show ?thesis
    using networks.run_accounts [of per_ip overall no_connections "{#}" ops]
      tenants.run_accounts [of surface_limit Map.empty "{#}" tops]
    unfolding network_accounts_def tenant_accounts_def counted_def tenant_limit_def by blast
qed

end
