(* ===== verification/Socket_Facts.thy ===== *)
theory Socket_Facts
  imports Broker_Socket Limit_Facts Ticket_Facts
begin

text \<open>
  What the sockets of a broker promise under every interleaving of their steps with each other and
  with the broker's other operations: the trackers count exactly the permits that the sockets
  hold, so every way out of the handler gives them back, and a socket is only seated under the
  identity of the ticket it was verified with, a relay only after it answered a challenge.
\<close>

section \<open>Permits of a socket\<close>

fun network_held :: "phase \<Rightarrow> ip_addr multiset" where
  "network_held Ph_Open = {#}"
| "network_held (Ph_Verified n _) = {#n#}"
| "network_held (Ph_Epoch n _ _) = {#n#}"
| "network_held (Ph_Access n _ _ _ _) = {#n#}"
| "network_held (Ph_Proven n _ _ _ _ _) = {#n#}"
| "network_held (Ph_Allowed n _ _ _ _ _ _) = {#n#}"
| "network_held (Ph_Tenant n _ _ _ _ _) = {#n#}"
| "network_held (Ph_Joined seat _) = {#ss_network seat#}"
| "network_held (Ph_Seated seat) = {#ss_network seat#}"
| "network_held (Ph_Leaving seat) = {#ss_network seat#}"
| "network_held (Ph_Failing n _) = {#n#}"
| "network_held (Ph_Rejecting n _ _ _) = (case n of None \<Rightarrow> {#} | Some n \<Rightarrow> {#n#})"
| "network_held (Ph_Panicked n) = {#n#}"
| "network_held Ph_Closed = {#}"

fun tenant_held :: "phase \<Rightarrow> (string \<times> bool) multiset" where
  "tenant_held (Ph_Tenant _ _ _ _ k _) = {#k#}"
| "tenant_held (Ph_Joined seat _) = {#ss_tenant seat#}"
| "tenant_held (Ph_Seated seat) = {#ss_tenant seat#}"
| "tenant_held (Ph_Leaving seat) = {#ss_tenant seat#}"
| "tenant_held (Ph_Failing _ k) = (case k of None \<Rightarrow> {#} | Some k \<Rightarrow> {#k#})"
| "tenant_held (Ph_Rejecting _ k _ _) = (case k of None \<Rightarrow> {#} | Some k \<Rightarrow> {#k#})"
| "tenant_held _ = {#}"

definition permits_ok :: "broker_setup \<Rightarrow> broker_app \<Rightarrow> ip_addr multiset \<Rightarrow> (string \<times> bool) multiset \<Rightarrow> bool" where
  "permits_ok s app nets tens \<longleftrightarrow>
     network_accounts (hc_max_connections_per_ip (bs_config s)) (hc_max_total_connections (bs_config s))
       (ba_connections app) nets \<and>
     counted (ba_tenants app) tens \<and> (\<forall>t. count tens (t, True) \<le> 2)"

text \<open>A step that touches no permit.\<close>

definition keeps :: "phase \<Rightarrow> broker_app \<Rightarrow> phase \<times> broker_app \<Rightarrow> bool" where
  "keeps p app res \<longleftrightarrow>
     ba_connections (snd res) = ba_connections app \<and> ba_tenants (snd res) = ba_tenants app \<and>
     network_held (fst res) = network_held p \<and> tenant_held (fst res) = tenant_held p"

lemma keeps_refl [simp]: "keeps p app (p, app)"
  by (simp add: keeps_def)

lemma authorize_keeps: "keeps (Ph_Epoch n v e) app (authorize_socket s r answers n v e, app)"
  by (simp add: keeps_def authorize_socket_def split: option.split prod.split)

lemma prove_keeps:
  "keeps (Ph_Access n v e t l) app (prove_socket s r answers ci ch reply n v e t l, app)"
  by (simp add: keeps_def prove_socket_def Let_def split: option.split prod.split)

lemma allow_join_keeps: "keeps (Ph_Proven n v e t l p) app (allow_join s r now n v e t l p app)"
  by (simp add: keeps_def allow_join_def Let_def split: option.split prod.split)

lemma try_join_keeps: "keeps (Ph_Tenant n v e i k p) app (try_join s r random n v e i k p app)"
  by (simp add: keeps_def try_join_def Let_def split: option.split prod.split sum.split)

lemma welcome_keeps: "keeps (Ph_Joined seat peers) app (send_welcome s r now sent seat peers app)"
  by (simp add: keeps_def send_welcome_def send_to_socket_def)

lemma fail_keeps: "keeps (Ph_Failing n k) app (fail_join s r now n k app)"
  by (simp add: keeps_def fail_join_def Let_def split: prod.split)

lemma answer_error_app:
  "ba_connections (snd (answer_error s w final code m app)) = ba_connections app"
  "ba_tenants (snd (answer_error s w final code m app)) = ba_tenants app"
  by (simp_all add: answer_error_def send_to_socket_def)

lemma handle_publish_app:
  "ba_connections (snd (handle_publish s r seat w n v app)) = ba_connections app"
  "ba_tenants (snd (handle_publish s r seat w n v app)) = ba_tenants app"
  by (simp_all add: handle_publish_def Let_def answer_error_app split: prod.split option.split)

lemma handle_frame_app:
  "ba_connections (snd (handle_frame s r seat w f app)) = ba_connections app"
  "ba_tenants (snd (handle_frame s r seat w f app)) = ba_tenants app"
  by (simp_all add: handle_frame_def Let_def answer_error_app handle_publish_app
      split: frame.split option.split client_message.split)

lemma forward_message_app:
  "ba_connections (snd (forward_message s seat now sent app)) = ba_connections app"
  "ba_tenants (snd (forward_message s seat now sent app)) = ba_tenants app"
  by (simp_all add: forward_message_def send_to_socket_def Let_def split: list.split)

lemma loop_keeps: "keeps (Ph_Seated seat) app (loop_step s r ev seat app)"
  by (cases ev)
    (simp_all add: keeps_def loop_phase_def handle_frame_app forward_message_app send_to_socket_def)

lemma permits_kept:
  "keeps p app (p', app') \<Longrightarrow> permits_ok s app (network_held p + N) (tenant_held p + T) \<Longrightarrow>
    permits_ok s app' (network_held p' + N) (tenant_held p' + T)"
  by (simp add: keeps_def permits_ok_def)

lemma start_permits:
  assumes "permits_ok s app N T"
  shows "permits_ok s (snd (start_socket s r t app)) (network_held (fst (start_socket s r t app)) + N)
      (tenant_held (fst (start_socket s r t app)) + T)"
proof (cases "is_blank (sr_channel_id r)")
  case True
  with assms show ?thesis by (simp add: start_socket_def)
next
  case False
  let ?acq = "try_acquire (sr_remote_ip r) (hc_max_connections_per_ip (bs_config s))
    (hc_max_total_connections (bs_config s)) (ba_connections app)"
  show ?thesis
  proof (cases ?acq)
    case (Inl e)
    with False assms show ?thesis by (simp add: start_socket_def)
  next
    case (Inr nc)
    obtain n c where nc: "nc = (n, c)" by (cases nc)
    from assms network_acquired [OF _ Inr [unfolded nc]]
    have "permits_ok s (app\<lparr>ba_connections := c\<rparr>) (add_mset n N) T"
      by (simp add: permits_ok_def)
    with False Inr show ?thesis
      by (simp add: start_socket_def nc Let_def split: sum.split option.split)
  qed
qed

lemma tenant_permits:
  assumes "permits_ok s app (add_mset n N) T"
  shows "permits_ok s (snd (acquire_tenant r n v e i t l p app))
      (network_held (fst (acquire_tenant r n v e i t l p app)) + N)
      (tenant_held (fst (acquire_tenant r n v e i t l p app)) + T)"
proof (cases "tenant_try_acquire t (cq_role (sr_query r)) l (ba_tenants app)")
  case (Inl e)
  with assms show ?thesis by (simp add: acquire_tenant_def)
next
  case (Inr kc)
  obtain k c where kc: "kc = (k, c)" by (cases kc)
  from assms have a: "counted (ba_tenants app) T" by (simp add: permits_ok_def)
  from Inr kc have c: "c = (ba_tenants app)(k \<mapsto> count T k + 1)" and k: "snd k \<longrightarrow> count T k < 2"
    by (auto simp: tenant_try_acquire_def Let_def counted_lookup [OF a] split: if_splits)
  have "permits_ok s (app\<lparr>ba_tenants := c\<rparr>) (add_mset n N) (add_mset k T)"
    using assms counted_add [OF a, of k] k by (auto simp: permits_ok_def c)
  with Inr show ?thesis by (simp add: acquire_tenant_def kc)
qed

lemma drop_permits_ok:
  assumes "permits_ok s app ((case n of None \<Rightarrow> {#} | Some n \<Rightarrow> {#n#}) + N)
    ((case k of None \<Rightarrow> {#} | Some k \<Rightarrow> {#k#}) + T)"
  shows "\<exists>app'. drop_permits n k app = Some app' \<and> permits_ok s app' N T"
proof -
  have "\<exists>app'. (case k of None \<Rightarrow> Some app
      | Some k \<Rightarrow> map_option (\<lambda>t. app\<lparr>ba_tenants := t\<rparr>) (tenant_drop k (ba_tenants app))) = Some app' \<and>
      permits_ok s app' ((case n of None \<Rightarrow> {#} | Some n \<Rightarrow> {#n#}) + N) T"
  proof (cases k)
    case None
    with assms show ?thesis by simp
  next
    case (Some key)
    with assms have a: "counted (ba_tenants app) (add_mset key T)"
      and b: "\<forall>t. count (add_mset key T) (t, True) \<le> 2" by (simp_all add: permits_ok_def)
    note d = counted_drop [OF a]
    have "tenant_drop key (ba_tenants app) =
        Some ((ba_tenants app)(key := if count T key = 0 then None else Some (count T key)))"
      by (simp add: tenant_drop_def d(1) count_eq_zero_iff)
    moreover have "\<forall>t. count T (t, True) \<le> 2"
      using b by (metis count_add_mset le_SucI le_trans order_refl)
    ultimately show ?thesis using assms d(2) by (simp add: Some permits_ok_def)
  qed
  then obtain app' where app': "(case k of None \<Rightarrow> Some app
      | Some k \<Rightarrow> map_option (\<lambda>t. app\<lparr>ba_tenants := t\<rparr>) (tenant_drop k (ba_tenants app))) = Some app'"
    and ok: "permits_ok s app' ((case n of None \<Rightarrow> {#} | Some n \<Rightarrow> {#n#}) + N) T" by blast
  show ?thesis
    using app' ok network_dropped
    by (cases n) (auto simp: drop_permits_def permits_ok_def)
qed

definition steps_ok :: "broker_setup \<Rightarrow> phase \<Rightarrow> broker_app \<Rightarrow> phase \<times> broker_app \<Rightarrow> bool" where
  "steps_ok s p app res \<longleftrightarrow>
     (\<forall>N T. permits_ok s app (network_held p + N) (tenant_held p + T) \<longrightarrow>
        permits_ok s (snd res) (network_held (fst res) + N) (tenant_held (fst res) + T))"

lemma keeps_steps: "keeps p app res \<Longrightarrow> steps_ok s p app res"
  using permits_kept by (cases res) (simp add: steps_ok_def)

lemma steps_refl [simp]: "steps_ok s p app (p, app)"
  by (simp add: steps_ok_def)

lemma closing_steps:
  assumes "network_held p = (case n of None \<Rightarrow> {#} | Some n \<Rightarrow> {#n#})"
    and "tenant_held p = (case k of None \<Rightarrow> {#} | Some k \<Rightarrow> {#k#})"
    and "ba_connections app1 = ba_connections app" "ba_tenants app1 = ba_tenants app"
  shows "steps_ok s p app (closing (drop_permits n k app1) p app)"
proof (unfold steps_ok_def, intro allI impI)
  fix N T assume "permits_ok s app (network_held p + N) (tenant_held p + T)"
  with assms have "permits_ok s app1 ((case n of None \<Rightarrow> {#} | Some n \<Rightarrow> {#n#}) + N)
      ((case k of None \<Rightarrow> {#} | Some k \<Rightarrow> {#k#}) + T)" by (simp add: permits_ok_def)
  from drop_permits_ok [OF this] obtain app' where "drop_permits n k app1 = Some app'" "permits_ok s app' N T"
    by blast
  then show "permits_ok s (snd (closing (drop_permits n k app1) p app))
      (network_held (fst (closing (drop_permits n k app1) p app)) + N)
      (tenant_held (fst (closing (drop_permits n k app1) p app)) + T)"
    by (simp add: closing_def)
qed

lemmas keeping = authorize_keeps [THEN keeps_steps] prove_keeps [THEN keeps_steps]
  allow_join_keeps [THEN keeps_steps] try_join_keeps [THEN keeps_steps] welcome_keeps [THEN keeps_steps]
  fail_keeps [THEN keeps_steps] loop_keeps [THEN keeps_steps]

lemma epoch_keeps: "steps_ok s (Ph_Verified n v) app (Ph_Epoch n v e, app)"
  by (simp add: steps_ok_def)

lemma start_steps: "steps_ok s Ph_Open app (start_socket s r t app)"
  using start_permits by (simp add: steps_ok_def)

lemma tenant_steps: "steps_ok s (Ph_Allowed n v e i t l p) app (acquire_tenant r n v e i t l p app)"
  using tenant_permits by (simp add: steps_ok_def)

lemma leave_steps:
  "steps_ok s (Ph_Leaving seat) app (closing (leave_socket s r seat app) (Ph_Leaving seat) app)"
  unfolding leave_socket_def by (rule closing_steps) simp_all

lemma reject_steps:
  "steps_ok s (Ph_Rejecting n k c m) app
     (closing (drop_permits n k (send_to_socket s now sent msg app)) (Ph_Rejecting n k c m) app)"
  by (rule closing_steps) (simp_all add: send_to_socket_def)

lemma unwind_steps:
  "steps_ok s (Ph_Panicked n) app (closing (drop_permits (Some n) None app) (Ph_Panicked n) app)"
  by (rule closing_steps) simp_all

lemmas socket_steps = keeping epoch_keeps start_steps tenant_steps leave_steps reject_steps unwind_steps

lemma socket_step_ok: "steps_ok s p app (socket_step s r ev p app)"
proof (cases p)
  case Ph_Seated
  then show ?thesis by (simp add: socket_step_def socket_steps)
qed (cases ev; simp add: socket_step_def socket_steps)+

section \<open>Interleaved sockets\<close>

text \<open>
  A socket opens, one socket takes a step, or the broker does something else: it closes a room,
  revokes devices, and whatever else \<open>broker_op\<close> names.
\<close>

datatype world_event =
    World_Connect socket_request
  | World_Socket nat socket_event
  | World_Broker broker_op

type_synonym world = "(socket_request \<times> phase) list \<times> broker_app"

fun world_step :: "broker_setup \<Rightarrow> world_event \<Rightarrow> world \<Rightarrow> world" where
  "world_step s (World_Connect r) (socks, app) = (socks @ [(r, Ph_Open)], app)"
| "world_step s (World_Socket i ev) (socks, app) =
     (if i < length socks then
        (let (r, p) = socks ! i; (p, app) = socket_step s r ev p app in (socks[i := (r, p)], app))
      else (socks, app))"
| "world_step s (World_Broker op) (socks, app) =
     (socks, app\<lparr>ba_broker := broker_step (bs_len s) op (ba_broker app)\<rparr>)"

definition empty_app :: broker_app where
  "empty_app = \<lparr>ba_broker = empty_broker, ba_connections = no_connections, ba_tenants = Map.empty,
     ba_failed_joins = [], ba_joins = empty_windows, ba_publishes = empty_windows,
     ba_metrics = empty_metrics\<rparr>"

definition world_run :: "broker_setup \<Rightarrow> world_event list \<Rightarrow> world" where
  "world_run s evs = fold (world_step s) evs ([], empty_app)"

definition networks_of :: "(socket_request \<times> phase) list \<Rightarrow> ip_addr multiset" where
  "networks_of socks = sum_list (map (network_held \<circ> snd) socks)"

definition tenants_of :: "(socket_request \<times> phase) list \<Rightarrow> (string \<times> bool) multiset" where
  "tenants_of socks = sum_list (map (tenant_held \<circ> snd) socks)"

lemma sum_list_nth:
  fixes f :: "'a \<Rightarrow> 'b multiset"
  assumes "i < length xs"
  shows "sum_list (map f (xs[i := y])) = f y + (sum_list (map f (take i xs)) + sum_list (map f (drop (Suc i) xs)))"
    and "sum_list (map f xs) = f (xs ! i) + (sum_list (map f (take i xs)) + sum_list (map f (drop (Suc i) xs)))"
proof -
  show "sum_list (map f (xs[i := y])) = f y + (sum_list (map f (take i xs)) + sum_list (map f (drop (Suc i) xs)))"
    using assms by (simp add: upd_conv_take_nth_drop)
  then show "sum_list (map f xs) = f (xs ! i) + (sum_list (map f (take i xs)) + sum_list (map f (drop (Suc i) xs)))"
    using assms by (subst id_take_nth_drop [OF assms]) simp
qed

lemma world_step_permits:
  assumes "permits_ok s (snd w) (networks_of (fst w)) (tenants_of (fst w))"
  shows "permits_ok s (snd (world_step s ev w)) (networks_of (fst (world_step s ev w)))
    (tenants_of (fst (world_step s ev w)))"
proof (cases w)
  case (Pair socks app)
  show ?thesis
  proof (cases ev)
    case (World_Socket i sev)
    show ?thesis
    proof (cases "i < length socks")
      case True
      obtain r p where rp: "socks ! i = (r, p)" by (cases "socks ! i")
      obtain p' app' where step: "socket_step s r sev p app = (p', app')"
        by (cases "socket_step s r sev p app")
      note parts = sum_list_nth(1) [OF True, of "network_held \<circ> snd" "(r, p')"]
        sum_list_nth(1) [OF True, of "tenant_held \<circ> snd" "(r, p')"]
        sum_list_nth(2) [OF True, of "network_held \<circ> snd"]
        sum_list_nth(2) [OF True, of "tenant_held \<circ> snd"]
      have "permits_ok s app' (network_held p' + N) (tenant_held p' + T)"
        if "permits_ok s app (network_held p + N) (tenant_held p + T)" for N T
        using socket_step_ok [of s p app r sev] that by (simp add: step steps_ok_def)
      then show ?thesis
        using assms True parts
        by (simp add: Pair World_Socket rp step networks_of_def tenants_of_def)
    qed (use assms in \<open>simp add: Pair World_Socket\<close>)
  qed (use assms in \<open>simp_all add: Pair networks_of_def tenants_of_def permits_ok_def\<close>)
qed

lemma world_run_snoc: "world_run s (evs @ [ev]) = world_step s ev (world_run s evs)"
  by (simp add: world_run_def)

lemma world_permits:
  "permits_ok s (snd (world_run s evs)) (networks_of (fst (world_run s evs)))
    (tenants_of (fst (world_run s evs)))"
proof (induction evs rule: rev_induct)
  case Nil
  show ?case
    by (simp add: world_run_def permits_ok_def network_accounts_def counted_def networks_of_def
        tenants_of_def empty_app_def no_connections_def)
next
  case (snoc ev evs)
  then show ?case unfolding world_run_snoc by (rule world_step_permits)
qed

text \<open>The step that ends a socket's refusal, its panic or its session closes it.\<close>

definition closes :: "broker_setup \<Rightarrow> broker_app \<Rightarrow> socket_request \<times> phase \<Rightarrow> bool" where
  "closes s app rp =
     (let (r, p) = rp in case p of
        Ph_Leaving _ \<Rightarrow> fst (socket_step s r Ev_Leave p app) = Ph_Closed
      | Ph_Rejecting _ _ _ _ \<Rightarrow> \<forall>now sent. fst (socket_step s r (Ev_Reject now sent) p app) = Ph_Closed
      | Ph_Panicked _ \<Rightarrow> fst (socket_step s r Ev_Unwind p app) = Ph_Closed
      | _ \<Rightarrow> True)"

lemma permits_close:
  assumes "permits_ok s app (network_held p + N) (tenant_held p + T)"
  shows "closes s app (r, p)"
proof (cases p)
  case (Ph_Leaving seat)
  let ?app = "app\<lparr>ba_broker := broker_step (bs_len s) (Hang_Up (ss_queue seat))
    (leave_inner (bs_len s) (sr_channel_id r) (ss_peer_id seat) (Some (ss_connection_id seat)) (ba_broker app))\<rparr>"
  from assms have "permits_ok s ?app ({#ss_network seat#} + N) ({#ss_tenant seat#} + T)"
    by (simp add: Ph_Leaving permits_ok_def)
  with drop_permits_ok [of s ?app "Some (ss_network seat)" N "Some (ss_tenant seat)" T]
  obtain app' where "drop_permits (Some (ss_network seat)) (Some (ss_tenant seat)) ?app = Some app'" by auto
  then show ?thesis
    by (simp add: Ph_Leaving closes_def socket_step_def leave_socket_def closing_def)
next
  case (Ph_Rejecting n k c m)
  have "\<exists>app'. drop_permits n k (send_to_socket s now sent msg app) = Some app'" for now sent msg
  proof -
    from assms have "permits_ok s (send_to_socket s now sent msg app)
      ((case n of None \<Rightarrow> {#} | Some n \<Rightarrow> {#n#}) + N) ((case k of None \<Rightarrow> {#} | Some k \<Rightarrow> {#k#}) + T)"
      by (simp add: Ph_Rejecting permits_ok_def send_to_socket_def)
    from drop_permits_ok [OF this] show ?thesis by blast
  qed
  then show ?thesis
    by (simp add: Ph_Rejecting closes_def socket_step_def closing_def split: option.split)
next
  case (Ph_Panicked n)
  from assms have "permits_ok s app ({#n#} + N) T" by (simp add: Ph_Panicked)
  with drop_permits_ok [of s app "Some n" N None T]
  obtain app' where "drop_permits (Some n) None app = Some app'" by auto
  then show ?thesis by (simp add: Ph_Panicked closes_def socket_step_def closing_def)
qed (simp_all add: closes_def)

lemma world_closes: "list_all (closes s (snd (world_run s evs))) (fst (world_run s evs))"
proof (unfold list_all_iff, intro ballI)
  let ?w = "world_run s evs"
  fix rp assume "rp \<in> set (fst ?w)"
  then obtain i r p where i: "i < length (fst ?w)" "fst ?w ! i = (r, p)" "rp = (r, p)"
    by (metis in_set_conv_nth surj_pair)
  note parts = sum_list_nth(2) [OF i(1), of "network_held \<circ> snd"]
    sum_list_nth(2) [OF i(1), of "tenant_held \<circ> snd"]
  from world_permits [of s evs] show "closes s (snd ?w) rp"
    unfolding networks_of_def tenants_of_def parts i by (intro permits_close) (simp add: i)
qed

text \<open>
  C21. However sockets open, are refused, serve and end, in any interleaving, the trackers count
  exactly the permits that the sockets hold at that point, at most the configured number of
  sockets is open in total and per client network, and at most two serve one tenant's relay. A
  socket that is being refused or is leaving always closes: dropping its permits never panics.
\<close>

theorem sockets_hold_their_permits:
  "(let (socks, app) = world_run s evs in
    (\<forall>k. cc_per_ip (ba_connections app) k =
        (if count (networks_of socks) k = 0 then None else Some (count (networks_of socks) k)) \<and>
      count (networks_of socks) k \<le> hc_max_connections_per_ip (bs_config s)) \<and>
    cc_total (ba_connections app) = size (networks_of socks) \<and>
    size (networks_of socks) \<le> hc_max_total_connections (bs_config s) \<and>
    (\<forall>k. ba_tenants app k =
      (if count (tenants_of socks) k = 0 then None else Some (count (tenants_of socks) k))) \<and>
    (\<forall>t. count (tenants_of socks) (t, True) \<le> 2) \<and>
    list_all (closes s app) socks)"
  using world_permits [of s evs] world_closes [of s evs]
  by (simp add: permits_ok_def network_accounts_def counted_def split_def)

section \<open>Identity of a seated socket\<close>

definition verified_by :: "broker_setup \<Rightarrow> socket_request \<Rightarrow> verified_broker_join \<Rightarrow> bool" where
  "verified_by s r v \<longleftrightarrow>
     (\<exists>t. verify_connection (pl_ticket (bs_lib s)) t (bs_verifier s) (cq_join_ticket (sr_query r))
        (sr_channel_id r) (cq_role (sr_query r)) = Inr v)"

text \<open>A relay answered a challenge with a signature that its key verifies on the join message.\<close>

definition answered :: "broker_setup \<Rightarrow> socket_request \<Rightarrow> verified_broker_join \<Rightarrow> bool" where
  "answered s r v \<longleftrightarrow>
     cq_role (sr_query r) \<noteq> Role_Relay \<or>
     (\<exists>answers origin relay_id key challenge_id challenge signature message.
        relay_proof_terms (bs_verifier s) answers (sr_channel_id r) v = Some (origin, relay_id, key) \<and>
        relay_join_message origin challenge_id challenge
          (pl_sha256_hex (bs_lib s) (case cq_join_ticket (sr_query r) of None \<Rightarrow> [] | Some t \<Rightarrow> t))
          relay_id (sr_channel_id r) (case vj_peer_id v of None \<Rightarrow> [] | Some p \<Rightarrow> p) = Inr message \<and>
        verify_relay_signature (bs_lib s) key message signature)"

definition named :: "socket_request \<Rightarrow> verified_broker_join \<Rightarrow> string \<Rightarrow> bool" where
  "named r v peer \<longleftrightarrow>
     (case vj_peer_id v of
        Some pinned \<Rightarrow> peer = pinned
      | None \<Rightarrow> \<exists>random. peer = generated_peer_id (cq_role (sr_query r)) random)"

definition seat_ok :: "broker_setup \<Rightarrow> socket_request \<Rightarrow> socket_seat \<Rightarrow> bool" where
  "seat_ok s r seat \<longleftrightarrow>
     verified_by s r (ss_join seat) \<and> answered s r (ss_join seat) \<and>
     named r (ss_join seat) (ss_peer_id seat) \<and>
     verified_rate_limit_identity (ss_join seat) = Some (ss_identity seat)"

fun phase_ok :: "broker_setup \<Rightarrow> socket_request \<Rightarrow> phase \<Rightarrow> bool" where
  "phase_ok s r (Ph_Verified _ v) = verified_by s r v"
| "phase_ok s r (Ph_Epoch _ v _) = verified_by s r v"
| "phase_ok s r (Ph_Access _ v _ _ _) = verified_by s r v"
| "phase_ok s r (Ph_Proven _ v _ _ _ p) =
     (verified_by s r v \<and> answered s r v \<and> p = requested_peer v (sr_query r))"
| "phase_ok s r (Ph_Allowed _ v _ i _ _ p) =
     (verified_by s r v \<and> answered s r v \<and> p = requested_peer v (sr_query r) \<and>
      verified_rate_limit_identity v = Some i)"
| "phase_ok s r (Ph_Tenant _ v _ i _ p) =
     (verified_by s r v \<and> answered s r v \<and> p = requested_peer v (sr_query r) \<and>
      verified_rate_limit_identity v = Some i)"
| "phase_ok s r (Ph_Joined seat _) = seat_ok s r seat"
| "phase_ok s r (Ph_Seated seat) = seat_ok s r seat"
| "phase_ok s r (Ph_Leaving seat) = seat_ok s r seat"
| "phase_ok s r (Ph_Panicked _) = False"
| "phase_ok s r _ = True"

lemma start_ok: "phase_ok s r (fst (start_socket s r t app))"
  by (auto simp: start_socket_def Let_def verified_by_def split: sum.split option.split prod.split)

lemma authorize_ok: "verified_by s r v \<Longrightarrow> phase_ok s r (authorize_socket s r answers n v e)"
  by (simp add: authorize_socket_def split: option.split prod.split)

lemma prove_relay_answered:
  assumes "relay_proof_terms (bs_verifier s) answers (sr_channel_id r) v = Some (origin, relay_id, key)"
    and "prove_relay_socket (bs_lib s) challenge_id challenge reply origin relay_id (sr_channel_id r)
      (case vj_peer_id v of None \<Rightarrow> [] | Some p \<Rightarrow> p)
      (case cq_join_ticket (sr_query r) of None \<Rightarrow> [] | Some t \<Rightarrow> t) key"
  shows "answered s r v"
proof -
  from assms(2) obtain signature message where
    "relay_join_message origin challenge_id challenge
      (pl_sha256_hex (bs_lib s) (case cq_join_ticket (sr_query r) of None \<Rightarrow> [] | Some t \<Rightarrow> t))
      relay_id (sr_channel_id r) (case vj_peer_id v of None \<Rightarrow> [] | Some p \<Rightarrow> p) = Inr message"
    "verify_relay_signature (bs_lib s) key message signature"
    unfolding prove_relay_socket_def
    by (auto split: option.splits client_message.splits sum.splits)
  with assms(1) show ?thesis unfolding answered_def by blast
qed

lemma prove_ok:
  assumes "verified_by s r v"
  shows "phase_ok s r (prove_socket s r answers ci ch reply n v e t l)"
proof (cases "cq_role (sr_query r) = Role_Relay")
  case True
  with assms show ?thesis
    by (auto simp: prove_socket_def Let_def intro: prove_relay_answered split: option.split prod.split)
next
  case False
  with assms show ?thesis by (simp add: prove_socket_def Let_def answered_def)
qed

lemma allow_join_ok:
  assumes "phase_ok s r (Ph_Proven n v e t l p)"
  shows "phase_ok s r (fst (allow_join s r now n v e t l p app))"
proof -
  from assms obtain i where "verified_rate_limit_identity v = Some i"
    using verified_identity by (fastforce simp: verified_by_def)
  with assms show ?thesis by (simp add: allow_join_def Let_def split: prod.split)
qed

lemma tenant_ok:
  "phase_ok s r (Ph_Allowed n v e i t l p) \<Longrightarrow> phase_ok s r (fst (acquire_tenant r n v e i t l p app))"
  by (simp add: acquire_tenant_def split: sum.split prod.split)

lemma try_join_ok:
  assumes "phase_ok s r (Ph_Tenant n v e i k p)"
  shows "phase_ok s r (fst (try_join s r random n v e i k p app))"
  using assms
  by (auto simp: try_join_def Let_def seat_ok_def named_def requested_peer_def
      split: prod.split sum.split option.splits if_splits)

lemma loop_ok: "seat_ok s r seat \<Longrightarrow> phase_ok s r (fst (loop_step s r ev seat app))"
  by (cases ev) (simp_all add: loop_phase_def)

lemma closing_ok: "phase_ok s r p \<Longrightarrow> phase_ok s r (fst (closing d p app))"
  by (simp add: closing_def split: option.split)

lemma socket_step_phase:
  assumes "phase_ok s r p" shows "phase_ok s r (fst (socket_step s r ev p app))"
proof (cases p)
  case Ph_Seated
  with assms loop_ok show ?thesis by (simp add: socket_step_def)
qed (use assms in \<open>cases ev;
    simp add: socket_step_def start_ok authorize_ok prove_ok allow_join_ok tenant_ok try_join_ok
      send_welcome_def fail_join_def closing_ok Let_def split_def\<close>)+

lemma world_phases: "list_all (\<lambda>(r, p). phase_ok s r p) (fst (world_run s evs))"
proof (induction evs rule: rev_induct)
  case Nil
  show ?case by (simp add: world_run_def)
next
  case (snoc ev evs)
  obtain socks app where w: "world_run s evs = (socks, app)" by (cases "world_run s evs")
  show ?case
  proof (cases ev)
    case (World_Socket i sev)
    obtain r p where rp: "socks ! i = (r, p)" by (cases "socks ! i")
    show ?thesis
    proof (cases "i < length socks")
      case True
      with snoc w rp have "phase_ok s r p" by (force simp: list_all_length)
      with snoc w rp True socket_step_phase [OF this, of sev app] show ?thesis
        by (auto simp: world_run_snoc World_Socket list_all_iff split_def Let_def dest!: set_update_subset_insert [THEN subsetD])
    qed (use snoc w in \<open>simp add: world_run_snoc World_Socket\<close>)
  qed (use snoc w in \<open>simp_all add: world_run_snoc\<close>)
qed

text \<open>
  C20. Under every interleaving, a socket that serves was verified with a ticket for its channel and
  role; its peer id is the one the ticket pins, or one the broker generated when the ticket pins
  none, never one the client chose; its quota identity is the ticket's; a relay has answered a
  challenge with a signature on its own join message; and no handler ever panics.
\<close>

theorem seated_under_ticket:
  "list_all (\<lambda>(r, p). case p of
      Ph_Seated seat \<Rightarrow> seat_ok s r seat
    | Ph_Panicked _ \<Rightarrow> False
    | _ \<Rightarrow> True) (fst (world_run s evs))"
  using world_phases [of s evs] unfolding list_all_iff by (fastforce split: phase.splits)

end
