(* ===== verification/Credential_Store.thy ===== *)
theory Credential_Store
  imports Relay_Proof "HOL-Library.Char_ord" "HOL-Library.List_Lexorder"
begin

text \<open>
  The credentials of the broker's control plane and the store that holds them
  (\<open>crates/relay-broker/src/public_control.rs\<close>, \<open>public_control/credentials.rs\<close>): sealed tokens, the
  subject that a token names, the registrations, identities and grants by the hash of their token,
  and the operations of \<open>PublicControlStateStore\<close>. A hash map is an association list in the order
  in which the code would iterate it; an insertion replaces an entry in place or adds it last.
\<close>

section \<open>Bytes and text\<close>

definition char_in :: "nat \<Rightarrow> nat \<Rightarrow> char \<Rightarrow> bool" where
  "char_in lo hi c \<longleftrightarrow> lo \<le> of_char c \<and> of_char c \<le> hi"

abbreviation continuation :: "char \<Rightarrow> bool" where
  "continuation \<equiv> char_in 0x80 0xBF"

text \<open>How many bytes the first character has, if a well-formed one starts the string.\<close>

fun utf8_width :: "string \<Rightarrow> nat option" where
  "utf8_width [] = None"
| "utf8_width (c # s) =
     (let tail = (\<lambda>n. n \<le> length s \<and> list_all continuation (take n s));
          second = (\<lambda>lo hi. s \<noteq> [] \<and> char_in lo hi (hd s))
      in if char_in 0 0x7F c then Some 1
         else if char_in 0xC2 0xDF c \<and> tail 1 then Some 2
         else if tail 2 \<and> (char_in 0xE0 0xE0 c \<and> second 0xA0 0xBF \<or> char_in 0xE1 0xEC c \<or>
           char_in 0xED 0xED c \<and> second 0x80 0x9F \<or> char_in 0xEE 0xEF c) then Some 3
         else if tail 3 \<and> (char_in 0xF0 0xF0 c \<and> second 0x90 0xBF \<or> char_in 0xF1 0xF3 c \<or>
           char_in 0xF4 0xF4 c \<and> second 0x80 0x8F) then Some 4
         else None)"

text \<open>\<open>String::from_utf8\<close> succeeds.\<close>

fun is_utf8 :: "string \<Rightarrow> bool" where
  "is_utf8 [] = True"
| "is_utf8 (c # s) =
     (case utf8_width (c # s) of None \<Rightarrow> False | Some n \<Rightarrow> is_utf8 (drop (n - 1) s))"

text \<open>\<open>str::rsplit_once\<close>.\<close>

definition rsplit_once :: "char \<Rightarrow> string \<Rightarrow> (string \<times> string) option" where
  "rsplit_once d s = map_option (\<lambda>(b, a). (rev a, rev b)) (split_once d (rev s))"

definition trimmed_option_string :: "string option \<Rightarrow> string option" where
  "trimmed_option_string v =
     (case v of None \<Rightarrow> None | Some s \<Rightarrow> if trim s = [] then None else Some (trim s))"

definition MAX_LABEL_CHARS :: nat where "MAX_LABEL_CHARS = 128"

definition compact_label :: "string option \<Rightarrow> string option" where
  "compact_label label = map_option (take_chars MAX_LABEL_CHARS) (trimmed_option_string label)"

section \<open>Sealed credentials\<close>

datatype credential_kind = Kind_Relay | Kind_Device | Kind_Client | Kind_ClientId

datatype credential_subject = Subject_Relay string | Subject_Client string

fun kind_prefix :: "credential_kind \<Rightarrow> string" where
  "kind_prefix Kind_Relay = ''rref-v1''"
| "kind_prefix Kind_Device = ''dref-v1''"
| "kind_prefix Kind_Client = ''cref-v1''"
| "kind_prefix Kind_ClientId = ''client-v1''"

definition lookup_key :: "credential_kind \<Rightarrow> string \<Rightarrow> string" where
  "lookup_key kind value = kind_prefix kind @ '':'' @ value"

definition MAX_CREDENTIAL_BYTES :: nat where "MAX_CREDENTIAL_BYTES = 1024"

datatype credential_key = Credential_Key (ck_bytes: string)

definition credential_key_new :: "ticket_lib \<Rightarrow> string \<Rightarrow> credential_key" where
  "credential_key_new lib secret =
     Credential_Key (tl_hmac lib secret ''sealwire/public-credentials/v1'')"

definition seal :: "ticket_lib \<Rightarrow> credential_key \<Rightarrow> credential_kind \<Rightarrow> string \<Rightarrow> string" where
  "seal lib key kind payload =
     (let sealed_text = kind_prefix kind @ ''.'' @ tl_encode lib payload
      in sealed_text @ ''.'' @ tl_encode lib (tl_hmac lib (ck_bytes key) sealed_text))"

definition open_sealed ::
    "ticket_lib \<Rightarrow> credential_key \<Rightarrow> credential_kind \<Rightarrow> string \<Rightarrow> string option" where
  "open_sealed lib key kind token =
     (if MAX_CREDENTIAL_BYTES < length token then None
      else case rsplit_once CHR ''.'' token of
        None \<Rightarrow> None
      | Some (sealed_text, tag) \<Rightarrow>
          (case split_once CHR ''.'' sealed_text of
             None \<Rightarrow> None
           | Some (prefix, payload) \<Rightarrow>
               if prefix \<noteq> kind_prefix kind then None
               else (case tl_decode lib tag of
                 None \<Rightarrow> None
               | Some mac \<Rightarrow>
                   if mac \<noteq> tl_hmac lib (ck_bytes key) sealed_text then None
                   else tl_decode lib payload)))"

text \<open>\<open>token40\<close> is \<open>random_token(40)\<close>.\<close>

definition mint_credential ::
    "ticket_lib \<Rightarrow> credential_key \<Rightarrow> credential_kind \<Rightarrow> string \<Rightarrow> string \<Rightarrow> string" where
  "mint_credential lib key kind token40 subject = seal lib key kind (token40 @ '':'' @ subject)"

definition sealed_client_id :: "ticket_lib \<Rightarrow> credential_key \<Rightarrow> string \<Rightarrow> string" where
  "sealed_client_id lib key verify_key = seal lib key Kind_ClientId verify_key"

definition from_utf8 :: "string \<Rightarrow> string option" where
  "from_utf8 bytes = (if is_utf8 bytes then Some bytes else None)"

definition client_key :: "ticket_lib \<Rightarrow> credential_key \<Rightarrow> string \<Rightarrow> string option" where
  "client_key lib key client_id =
     (case Option.bind (open_sealed lib key Kind_ClientId client_id) from_utf8 of
        None \<Rightarrow> None
      | Some verify_key \<Rightarrow>
          if validate_relay_verify_key lib verify_key then Some verify_key else None)"

definition key_subject ::
    "ticket_lib \<Rightarrow> credential_key \<Rightarrow> credential_kind \<Rightarrow> string \<Rightarrow> credential_subject option" where
  "key_subject lib key kind token =
     (if kind = Kind_ClientId
      then map_option (\<lambda>_. Subject_Client token) (client_key lib key token)
      else case Option.bind (open_sealed lib key kind token) from_utf8 of
        None \<Rightarrow> None
      | Some payload \<Rightarrow>
          (case split_once CHR '':'' payload of
             None \<Rightarrow> None
           | Some (nonce, subject) \<Rightarrow>
               if length nonce \<noteq> 40 \<or> subject = [] \<or> MAX_ID_BYTES < length subject then None
               else Some (if kind = Kind_Client then Subject_Client subject
                 else Subject_Relay subject)))"

section \<open>Rows\<close>

record superseded_token =
  su_refresh_token_hash :: string
  su_expires_at :: u64

record persisted_registration =
  pr_relay_id :: string
  pr_broker_room_id :: string
  pr_refresh_token_hash :: string
  pr_created_at :: u64
  pr_relay_label :: "string option"
  pr_relay_verify_key :: "string option"

record persisted_grant =
  dg_relay_id :: string
  dg_broker_room_id :: string
  dg_device_id :: string
  dg_refresh_token_hash :: string
  dg_created_at :: u64
  dg_last_seen :: "u64 option"
  dg_superseded :: "superseded_token list"

record persisted_client =
  ci_client_id :: string
  ci_client_verify_key :: string
  ci_refresh_token_hash :: string
  ci_created_at :: u64
  ci_client_label :: "string option"
  ci_superseded :: "superseded_token list"

record persisted_client_grant =
  cg_client_id :: string
  cg_relay_id :: string
  cg_broker_room_id :: string
  cg_device_id :: string
  cg_granted_at :: u64
  cg_relay_label :: "string option"
  cg_device_label :: "string option"

record legacy_credentials =
  lc_tokens :: "(string \<times> credential_subject) list"
  lc_clients :: "(string \<times> string) list"

record control_store =
  cs_legacy :: "legacy_credentials option"
  cs_registrations :: "(string \<times> persisted_registration) list"
  cs_clients :: "(string \<times> persisted_client) list"
  cs_grants :: "(string \<times> persisted_grant) list"
  cs_client_grants :: "(string \<times> persisted_client_grant) list"

definition default_store :: control_store where
  "default_store = \<lparr>cs_legacy = None, cs_registrations = [], cs_clients = [], cs_grants = [],
     cs_client_grants = []\<rparr>"

record persisted_control_state =
  ps_schema_version :: u32
  ps_legacy :: "legacy_credentials option"
  ps_registrations :: "persisted_registration list"
  ps_clients :: "persisted_client list"
  ps_grants :: "persisted_grant list"
  ps_client_grants :: "persisted_client_grant list"

definition PUBLIC_CONTROL_STATE_VERSION :: u32 where "PUBLIC_CONTROL_STATE_VERSION = 2"

definition client_relay_grant_key :: "string \<Rightarrow> string \<Rightarrow> string" where
  "client_relay_grant_key client_id relay_id = client_id @ '':'' @ relay_id"

text \<open>Collecting pairs into a map: a later pair replaces an earlier one of its key.\<close>

definition collect_by :: "('a \<Rightarrow> string) \<Rightarrow> 'a list \<Rightarrow> (string \<times> 'a) list" where
  "collect_by key rows = fold (\<lambda>row m. AList.update (key row) row m) rows []"

definition from_persisted :: "persisted_control_state \<Rightarrow> control_store option" where
  "from_persisted p =
     (if ps_schema_version p \<noteq> PUBLIC_CONTROL_STATE_VERSION then None
      else Some
        \<lparr>cs_legacy = ps_legacy p,
         cs_registrations = collect_by pr_refresh_token_hash (ps_registrations p),
         cs_clients = collect_by ci_refresh_token_hash (ps_clients p),
         cs_grants = collect_by dg_refresh_token_hash (ps_grants p),
         cs_client_grants =
           collect_by (\<lambda>g. client_relay_grant_key (cg_client_id g) (cg_relay_id g))
             (ps_client_grants p)\<rparr>)"

definition to_persisted :: "control_store \<Rightarrow> persisted_control_state" where
  "to_persisted s =
     \<lparr>ps_schema_version = PUBLIC_CONTROL_STATE_VERSION, ps_legacy = cs_legacy s,
      ps_registrations = map snd (cs_registrations s), ps_clients = map snd (cs_clients s),
      ps_grants = map snd (cs_grants s), ps_client_grants = map snd (cs_client_grants s)\<rparr>"

section \<open>Searching and removing rows\<close>

text \<open>\<open>values().find\<close> and \<open>values().any\<close>.\<close>

definition find_row :: "('a \<Rightarrow> bool) \<Rightarrow> (string \<times> 'a) list \<Rightarrow> 'a option" where
  "find_row p m = find p (map snd m)"

definition any_row :: "('a \<Rightarrow> bool) \<Rightarrow> (string \<times> 'a) list \<Rightarrow> bool" where
  "any_row p m = list_ex p (map snd m)"

definition count_rows :: "('a \<Rightarrow> bool) \<Rightarrow> (string \<times> 'a) list \<Rightarrow> nat" where
  "count_rows p m = length (filter p (map snd m))"

definition drop_rows :: "('a \<Rightarrow> bool) \<Rightarrow> (string \<times> 'a) list \<Rightarrow> (string \<times> 'a) list" where
  "drop_rows p m = filter (\<lambda>(_, row). \<not> p row) m"

definition remove_matching_entries ::
    "('a \<Rightarrow> bool) \<Rightarrow> (string \<times> 'a) list \<Rightarrow> nat \<times> (string \<times> 'a) list" where
  "remove_matching_entries p m = (count_rows p m, drop_rows p m)"

text \<open>The ids of a \<open>BTreeSet\<close> come in the order of their bytes.\<close>

definition collect_removed_device_ids ::
    "('a \<Rightarrow> string option) \<Rightarrow> (string \<times> 'a) list \<Rightarrow> string list \<times> (string \<times> 'a) list" where
  "collect_removed_device_ids removed m =
     (sort (remdups (List.map_filter removed (map snd m))),
      drop_rows (\<lambda>row. removed row \<noteq> None) m)"

definition matches_optional_relay_target ::
    "string \<Rightarrow> string \<Rightarrow> string \<Rightarrow> string \<Rightarrow> string option \<Rightarrow> string option \<Rightarrow> bool" where
  "matches_optional_relay_target actual_relay actual_room actual_device relay room device \<longleftrightarrow>
     actual_relay = relay \<and> (case room of None \<Rightarrow> True | Some v \<Rightarrow> v = actual_room) \<and>
     (case device of None \<Rightarrow> True | Some v \<Rightarrow> v = actual_device)"

abbreviation grant_matches :: "string \<Rightarrow> string option \<Rightarrow> string option \<Rightarrow> persisted_grant \<Rightarrow> bool" where
  "grant_matches relay room device g \<equiv>
     matches_optional_relay_target (dg_relay_id g) (dg_broker_room_id g) (dg_device_id g)
       relay room device"

abbreviation client_grant_matches ::
    "string \<Rightarrow> string option \<Rightarrow> string option \<Rightarrow> persisted_client_grant \<Rightarrow> bool" where
  "client_grant_matches relay room device g \<equiv>
     matches_optional_relay_target (cg_relay_id g) (cg_broker_room_id g) (cg_device_id g)
       relay room device"

definition count_device_grants_for_relay :: "control_store \<Rightarrow> string \<Rightarrow> nat" where
  "count_device_grants_for_relay s relay = count_rows (\<lambda>g. dg_relay_id g = relay) (cs_grants s)"

definition has_device_grant :: "control_store \<Rightarrow> string \<Rightarrow> string option \<Rightarrow> string \<Rightarrow> bool" where
  "has_device_grant s relay room device =
     any_row (grant_matches relay room (Some device)) (cs_grants s)"

definition remove_device_grants ::
    "string \<Rightarrow> string option \<Rightarrow> string option \<Rightarrow> control_store \<Rightarrow> nat \<times> control_store" where
  "remove_device_grants relay room device s =
     (let (n, m) = remove_matching_entries (grant_matches relay room device) (cs_grants s)
      in (n, s\<lparr>cs_grants := m\<rparr>))"

definition remove_client_relay_grants ::
    "string \<Rightarrow> string option \<Rightarrow> string option \<Rightarrow> control_store \<Rightarrow> nat \<times> control_store" where
  "remove_client_relay_grants relay room device s =
     (let (n, m) =
        remove_matching_entries (client_grant_matches relay room device) (cs_client_grants s)
      in (n, s\<lparr>cs_client_grants := m\<rparr>))"

definition remove_client_relay_grants_by_client_id ::
    "string \<Rightarrow> control_store \<Rightarrow> nat \<times> control_store" where
  "remove_client_relay_grants_by_client_id client_id s =
     (let (n, m) = remove_matching_entries (\<lambda>g. cg_client_id g = client_id) (cs_client_grants s)
      in (n, s\<lparr>cs_client_grants := m\<rparr>))"

definition remove_all_other_device_grants ::
    "string \<Rightarrow> string \<Rightarrow> string \<Rightarrow> control_store \<Rightarrow> string list \<times> control_store" where
  "remove_all_other_device_grants relay room keep s =
     (let (ids, m) = collect_removed_device_ids
        (\<lambda>g. if dg_relay_id g = relay \<and> dg_broker_room_id g = room \<and> dg_device_id g \<noteq> keep
          then Some (dg_device_id g) else None) (cs_grants s)
      in (ids, s\<lparr>cs_grants := m\<rparr>))"

definition remove_all_other_client_relay_grants ::
    "string \<Rightarrow> string \<Rightarrow> string \<Rightarrow> control_store \<Rightarrow> string list \<times> control_store" where
  "remove_all_other_client_relay_grants relay room keep s =
     (let (ids, m) = collect_removed_device_ids
        (\<lambda>g. if cg_relay_id g = relay \<and> cg_broker_room_id g = room \<and> cg_device_id g \<noteq> keep
          then Some (cg_device_id g) else None) (cs_client_grants s)
      in (ids, s\<lparr>cs_client_grants := m\<rparr>))"

section \<open>Rotation\<close>

definition MAX_SUPERSEDED_TOKENS :: nat where "MAX_SUPERSEDED_TOKENS = 16"

definition carry_superseded ::
    "superseded_token list \<Rightarrow> string \<Rightarrow> u64 \<Rightarrow> u64 \<Rightarrow> superseded_token list" where
  "carry_superseded previous rotated_hash now grace_secs =
     (let kept = filter (\<lambda>t. now < su_expires_at t \<and> su_refresh_token_hash t \<noteq> rotated_hash) previous
            @ [\<lparr>su_refresh_token_hash = rotated_hash, su_expires_at = sat_add now grace_secs\<rparr>]
      in drop (length kept - MAX_SUPERSEDED_TOKENS) kept)"

definition superseded_matches :: "string \<Rightarrow> u64 \<Rightarrow> superseded_token list \<Rightarrow> bool" where
  "superseded_matches token_hash now ts =
     list_ex (\<lambda>t. su_refresh_token_hash t = token_hash \<and> now < su_expires_at t) ts"

definition find_client_identity_for_token ::
    "control_store \<Rightarrow> string \<Rightarrow> u64 \<Rightarrow> (string \<times> persisted_client) option" where
  "find_client_identity_for_token s token_hash now =
     (case map_of (cs_clients s) token_hash of
        Some c \<Rightarrow> Some (token_hash, c)
      | None \<Rightarrow> find (\<lambda>(_, c). superseded_matches token_hash now (ci_superseded c)) (cs_clients s))"

definition find_device_grant_for_token ::
    "control_store \<Rightarrow> string \<Rightarrow> u64 \<Rightarrow> (string \<times> persisted_grant) option" where
  "find_device_grant_for_token s token_hash now =
     (case map_of (cs_grants s) token_hash of
        Some g \<Rightarrow> Some (token_hash, g)
      | None \<Rightarrow> find (\<lambda>(_, g). superseded_matches token_hash now (dg_superseded g)) (cs_grants s))"

definition client_identity_for_verify_key :: "control_store \<Rightarrow> string \<Rightarrow> persisted_client option" where
  "client_identity_for_verify_key s verify_key =
     find_row (\<lambda>c. ci_client_verify_key c = verify_key) (cs_clients s)"

definition client_identity_for_id :: "control_store \<Rightarrow> string \<Rightarrow> persisted_client option" where
  "client_identity_for_id s client_id = find_row (\<lambda>c. ci_client_id c = client_id) (cs_clients s)"

definition registration_for_verify_key ::
    "control_store \<Rightarrow> string \<Rightarrow> persisted_registration option" where
  "registration_for_verify_key s verify_key =
     find_row (\<lambda>r. pr_relay_verify_key r = Some verify_key) (cs_registrations s)"

definition remove_relay_registration_by_verify_key ::
    "string \<Rightarrow> control_store \<Rightarrow> nat \<times> control_store" where
  "remove_relay_registration_by_verify_key verify_key s =
     (let (n, m) =
        remove_matching_entries (\<lambda>r. pr_relay_verify_key r = Some verify_key) (cs_registrations s)
      in (n, s\<lparr>cs_registrations := m\<rparr>))"

definition remove_client_identity_by_client_id ::
    "string \<Rightarrow> control_store \<Rightarrow> nat \<times> control_store" where
  "remove_client_identity_by_client_id client_id s =
     (let (n, m) = remove_matching_entries (\<lambda>c. ci_client_id c = client_id) (cs_clients s)
      in (n, s\<lparr>cs_clients := m\<rparr>))"

definition put_client :: "persisted_client \<Rightarrow> control_store \<Rightarrow> control_store" where
  "put_client c s = s\<lparr>cs_clients := AList.update (ci_refresh_token_hash c) c (cs_clients s)\<rparr>"

definition put_grant :: "persisted_grant \<Rightarrow> control_store \<Rightarrow> control_store" where
  "put_grant g s = s\<lparr>cs_grants := AList.update (dg_refresh_token_hash g) g (cs_grants s)\<rparr>"

definition put_registration :: "persisted_registration \<Rightarrow> control_store \<Rightarrow> control_store" where
  "put_registration r s =
     s\<lparr>cs_registrations := AList.update (pr_refresh_token_hash r) r (cs_registrations s)\<rparr>"

definition upsert_client_relay_grant :: "persisted_client_grant \<Rightarrow> control_store \<Rightarrow> control_store" where
  "upsert_client_relay_grant g s =
     s\<lparr>cs_client_grants :=
       AList.update (client_relay_grant_key (cg_client_id g) (cg_relay_id g)) g (cs_client_grants s)\<rparr>"

text \<open>The client's id and its new token.\<close>

definition issue_or_rotate_client_identity ::
    "proof_lib \<Rightarrow> credential_key \<Rightarrow> string \<Rightarrow> string option \<Rightarrow> u64 \<Rightarrow> u64 \<Rightarrow> string \<Rightarrow>
      control_store \<Rightarrow> (string \<times> string) \<times> control_store" where
  "issue_or_rotate_client_identity lib key verify_key label created_at grace_secs token40 s =
     (let (client_id, carried_label, superseded, s) =
        (case client_identity_for_verify_key s verify_key of
           Some existing \<Rightarrow>
             (ci_client_id existing, ci_client_label existing,
              carry_superseded (ci_superseded existing) (ci_refresh_token_hash existing) created_at
                grace_secs,
              snd (remove_client_identity_by_client_id (ci_client_id existing) s))
         | None \<Rightarrow> (sealed_client_id (pl_ticket lib) key verify_key, None, [], s));
          token = mint_credential (pl_ticket lib) key Kind_Client token40 client_id
      in ((client_id, token),
          put_client
            \<lparr>ci_client_id = client_id, ci_client_verify_key = verify_key,
             ci_refresh_token_hash = pl_sha256_hex lib token, ci_created_at = created_at,
             ci_client_label = (case label of Some l \<Rightarrow> Some l | None \<Rightarrow> carried_label),
             ci_superseded = superseded\<rparr> s))"

definition rotate_client_identity ::
    "proof_lib \<Rightarrow> credential_key \<Rightarrow> persisted_client \<Rightarrow> u64 \<Rightarrow> u64 \<Rightarrow> string \<Rightarrow>
      control_store \<Rightarrow> string \<times> control_store" where
  "rotate_client_identity lib key client now grace_secs token40 s =
     (let superseded = fold
            (\<lambda>c acc. carry_superseded (ci_superseded c @ acc) (ci_refresh_token_hash c) now grace_secs)
            (filter (\<lambda>c. ci_client_id c = ci_client_id client) (map snd (cs_clients s))) [];
          s = snd (remove_client_identity_by_client_id (ci_client_id client) s);
          token = mint_credential (pl_ticket lib) key Kind_Client token40 (ci_client_id client)
      in (token,
          put_client
            \<lparr>ci_client_id = ci_client_id client, ci_client_verify_key = ci_client_verify_key client,
             ci_refresh_token_hash = pl_sha256_hex lib token, ci_created_at = ci_created_at client,
             ci_client_label = ci_client_label client, ci_superseded = superseded\<rparr> s))"

section \<open>Probes and lists\<close>

text \<open>The probe of a shared backend answers what this answers.\<close>

fun has_credential :: "control_store \<Rightarrow> credential_kind \<Rightarrow> string \<Rightarrow> u64 \<Rightarrow> bool" where
  "has_credential s Kind_Relay token_hash now = (map_of (cs_registrations s) token_hash \<noteq> None)"
| "has_credential s Kind_Device token_hash now =
     (map_of (cs_grants s) token_hash \<noteq> None \<or>
      any_row (\<lambda>g. superseded_matches token_hash now (dg_superseded g)) (cs_grants s))"
| "has_credential s Kind_Client token_hash now =
     (map_of (cs_clients s) token_hash \<noteq> None \<or>
      any_row (\<lambda>c. superseded_matches token_hash now (ci_superseded c)) (cs_clients s))"
| "has_credential s Kind_ClientId token_hash now = (client_identity_for_id s token_hash \<noteq> None)"

record client_relay_entry =
  ce_relay_id :: string
  ce_broker_room_id :: string
  ce_device_id :: string
  ce_granted_at :: u64
  ce_relay_label :: "string option"
  ce_device_label :: "string option"

definition client_relays :: "control_store \<Rightarrow> string \<Rightarrow> client_relay_entry list" where
  "client_relays s client_id =
     map (\<lambda>g. \<lparr>ce_relay_id = cg_relay_id g, ce_broker_room_id = cg_broker_room_id g,
          ce_device_id = cg_device_id g, ce_granted_at = cg_granted_at g,
          ce_relay_label = cg_relay_label g, ce_device_label = cg_device_label g\<rparr>)
       (filter (\<lambda>g. cg_client_id g = client_id) (map snd (cs_client_grants s)))"

section \<open>Registrations\<close>

record registration_config =
  rc_relay_id :: string
  rc_broker_room_id :: string
  rc_refresh_token :: string
  rc_relay_verify_key :: "string option"

definition seed_relay_registrations ::
    "proof_lib \<Rightarrow> registration_config list \<Rightarrow> control_store \<Rightarrow> bool \<times> control_store" where
  "seed_relay_registrations lib configs s =
     fold (\<lambda>c (seeded, s).
         let token_hash = pl_sha256_hex lib (rc_refresh_token c)
         in if map_of (cs_registrations s) token_hash \<noteq> None then (seeded, s)
            else (True, put_registration
              \<lparr>pr_relay_id = rc_relay_id c, pr_broker_room_id = rc_broker_room_id c,
               pr_refresh_token_hash = token_hash, pr_created_at = 0, pr_relay_label = None,
               pr_relay_verify_key = trimmed_option_string (rc_relay_verify_key c)\<rparr> s))
       configs (False, s)"

text \<open>
  The loop draws pairs of random tokens until both ids are free; \<open>None\<close> means that the given draws
  are used up.
\<close>

fun issue_new_relay_ids :: "control_store \<Rightarrow> (string \<times> string) list \<Rightarrow> (string \<times> string) option" where
  "issue_new_relay_ids s [] = None"
| "issue_new_relay_ids s ((token_a, token_b) # draws) =
     (let relay_id = ''relay-'' @ map ascii_lower token_a;
          room = ''room-'' @ map ascii_lower token_b
      in if any_row (\<lambda>r. pr_relay_id r = relay_id \<or> pr_broker_room_id r = room) (cs_registrations s)
         then issue_new_relay_ids s draws
         else Some (relay_id, room))"

section \<open>Credentials issued before the sealed format\<close>

definition legacy_tokens ::
    "credential_kind \<Rightarrow> u64 \<Rightarrow> credential_subject \<Rightarrow> string \<Rightarrow> superseded_token list \<Rightarrow>
      (string \<times> credential_subject) list \<Rightarrow> (string \<times> credential_subject) list" where
  "legacy_tokens kind now subject token_hash superseded m =
     fold (\<lambda>t. AList.update (lookup_key kind (su_refresh_token_hash t)) subject)
       (filter (\<lambda>t. now < su_expires_at t) superseded)
       (AList.update (lookup_key kind token_hash) subject m)"

definition legacy_from_state :: "u64 \<Rightarrow> control_store \<Rightarrow> legacy_credentials" where
  "legacy_from_state now s =
     (let tokens = fold (\<lambda>r. AList.update (lookup_key Kind_Relay (pr_refresh_token_hash r))
            (Subject_Relay (pr_relay_id r))) (map snd (cs_registrations s)) [];
          tokens = fold (\<lambda>g. legacy_tokens Kind_Device now (Subject_Relay (dg_relay_id g))
            (dg_refresh_token_hash g) (dg_superseded g)) (map snd (cs_grants s)) tokens;
          tokens = fold (\<lambda>c. legacy_tokens Kind_Client now (Subject_Client (ci_client_id c))
            (ci_refresh_token_hash c) (ci_superseded c)) (map snd (cs_clients s)) tokens
      in \<lparr>lc_tokens = tokens,
          lc_clients = fold (\<lambda>c. AList.update (ci_client_id c) (ci_client_verify_key c))
            (map snd (cs_clients s)) []\<rparr>)"

text \<open>\<open>BTreeMap::extend\<close>.\<close>

definition extend_map :: "(string \<times> 'a) list \<Rightarrow> (string \<times> 'a) list \<Rightarrow> (string \<times> 'a) list" where
  "extend_map m new = fold (\<lambda>(k, v). AList.update k v) new m"

definition credential_subject_of ::
    "proof_lib \<Rightarrow> credential_key \<Rightarrow> legacy_credentials \<Rightarrow> credential_kind \<Rightarrow> string \<Rightarrow>
      credential_subject option" where
  "credential_subject_of lib key legacy kind value =
     (let value = trim value
      in if value = [] \<or> MAX_CREDENTIAL_BYTES < length value then None
         else case key_subject (pl_ticket lib) key kind value of
           Some subject \<Rightarrow> Some subject
         | None \<Rightarrow>
             if kind = Kind_ClientId
             then (if map_of (lc_clients legacy) value = None then None
               else Some (Subject_Client value))
             else map_of (lc_tokens legacy) (lookup_key kind (pl_sha256_hex lib value)))"

end
