(* ===== verification/Control_Plane.thy ===== *)
theory Control_Plane
  imports Credential_Store
begin

text \<open>
  The requests of the broker's control plane (\<open>crates/relay-broker/src/public_control.rs\<close>) on the
  backends that belong to one process, the JSON file and memory: enrolment, device grants, client
  claims, rotation and refresh, revocation, tickets, and the start from the file. Each request
  runs under the lock of the store, so it is one function. Readings of the clock, random tokens and
  whether a save succeeds are inputs; a save replaces the file by renaming, so a failed one leaves it.
\<close>

section \<open>State\<close>

record pending_enrollment =
  pe_relay_verify_key :: string
  pe_challenge :: string
  pe_relay_label :: "string option"
  pe_expires_at :: u64

record pending_claim =
  pk_relay_id :: string
  pk_broker_room_id :: string
  pk_device_id :: string
  pk_client_verify_key :: string
  pk_client_label :: "string option"
  pk_device_label :: "string option"
  pk_relay_label :: "string option"
  pk_nonce :: string
  pk_expires_at :: u64

record refresh_challenge =
  rf_broker_origin :: string
  rf_challenge_id :: string
  rf_nonce :: string
  rf_client_id :: string
  rf_broker_room_id :: "string option"
  rf_device_id :: "string option"
  rf_expires_at :: u64

record pending_refresh =
  pf_quota_key :: string
  pf_challenge :: refresh_challenge
  pf_client_verify_key :: string
  pf_request_nonce :: string

record control_config =
  cf_lib :: proof_lib
  cf_issuer :: join_ticket_key
  cf_key :: credential_key
  cf_device_ws_ttl_secs :: u64
  cf_rotation_grace_secs :: u64
  cf_registrations :: "registration_config list"

text \<open>
  \<open>pl_file\<close> is the saved state as a value, its JSON text being that of a derived codec; \<open>None\<close> when
  there is none yet.
\<close>

record control_plane =
  pl_store :: control_store
  pl_legacy :: legacy_credentials
  pl_enrollments :: "(string \<times> pending_enrollment) list"
  pl_claims :: "(string \<times> pending_claim) list"
  pl_refreshes :: "(string \<times> pending_refresh) list"
  pl_file :: "persisted_control_state option"

datatype control_error =
    Relay_Token_Invalid
  | Relay_Mismatch
  | Room_Mismatch
  | Client_Token_Invalid
  | Signing_Proof_Required
  | Device_Token_Invalid
  | Id_Too_Long
  | Device_Limit_Reached u32
  | Verify_Key_Required
  | Verify_Key_Invalid
  | Claim_Id_Required
  | Claim_Signature_Required
  | Claim_Invalid
  | Claim_Expired
  | Claim_Signature_Invalid
  | Too_Many_Identities
  | Refresh_Invalid
  | Refresh_Unavailable
  | Too_Many_Refreshes_For_Client
  | Too_Many_Refreshes_For_Account
  | Enrollment_Id_Required
  | Enrollment_Signature_Required
  | Enrollment_Invalid
  | Enrollment_Expired
  | Enrollment_Key_Mismatch
  | Enrollment_Signature_Invalid
  | Too_Many_Enrollments
  | Ids_Not_Drawn
  | Pairing_Already_Past
  | Control_Ticket_Not_Minted join_ticket_error
  | No_Active_Registration
  | Device_Grant_Revoked
  | Registration_Key_Missing
  | Unsupported_Schema
  | Save_Failed

definition DEFAULT_RELAY_ENROLLMENT_CHALLENGE_TTL_SECS :: u64 where
  "DEFAULT_RELAY_ENROLLMENT_CHALLENGE_TTL_SECS = 300"
definition DEFAULT_CLIENT_CLAIM_TTL_SECS :: u64 where "DEFAULT_CLIENT_CLAIM_TTL_SECS = 300"
definition MAX_PENDING_REFRESHES_PER_QUOTA :: nat where "MAX_PENDING_REFRESHES_PER_QUOTA = 64"
definition MAX_CLIENT_IDENTITIES_PER_RELAY :: nat where "MAX_CLIENT_IDENTITIES_PER_RELAY = 64"
definition MAX_PENDING_REFRESHES_PER_CLIENT :: nat where "MAX_PENDING_REFRESHES_PER_CLIENT = 4"
definition MAX_PENDING_RELAY_ENROLLMENT_CHALLENGES :: nat where
  "MAX_PENDING_RELAY_ENROLLMENT_CHALLENGES = 4096"
definition MAX_PAIRING_TICKET_TTL_SECS :: u64 where "MAX_PAIRING_TICKET_TTL_SECS = 600"
definition LAST_SEEN_THROTTLE_SECS :: u64 where "LAST_SEEN_THROTTLE_SECS = 3600"

abbreviation with_store :: "control_store \<Rightarrow> control_plane \<Rightarrow> control_plane" where
  "with_store s pl \<equiv> pl\<lparr>pl_store := s\<rparr>"

definition written :: "control_plane \<Rightarrow> control_plane" where
  "written pl = pl\<lparr>pl_file := Some (to_persisted (pl_store pl))\<rparr>"

text \<open>\<open>self.persist(\<dots>)?\<close> and then the answer.\<close>

definition persist_and :: "bool \<Rightarrow> 'a \<Rightarrow> control_plane \<Rightarrow> (control_error + 'a) \<times> control_plane" where
  "persist_and saved answer pl = (if saved then (Inr answer, written pl) else (Inl Save_Failed, pl))"

section \<open>Authentication\<close>

text \<open>Memory is never behind on these backends, so a miss is a miss.\<close>

definition find_credential ::
    "control_config \<Rightarrow> control_plane \<Rightarrow> credential_kind \<Rightarrow> string \<Rightarrow> (control_store \<Rightarrow> 'a option) \<Rightarrow>
      'a option" where
  "find_credential cfg pl kind credential look =
     (if credential_subject_of (cf_lib cfg) (cf_key cfg) (pl_legacy pl) kind credential = None
      then None else look (pl_store pl))"

abbreviation bearer_hash :: "control_config \<Rightarrow> string \<Rightarrow> string" where
  "bearer_hash cfg bearer \<equiv> pl_sha256_hex (cf_lib cfg) (trim bearer)"

definition authenticate_relay ::
    "control_config \<Rightarrow> control_plane \<Rightarrow> string \<Rightarrow> string \<Rightarrow> string \<Rightarrow>
      control_error + persisted_registration" where
  "authenticate_relay cfg pl bearer relay room =
     (case find_credential cfg pl Kind_Relay bearer
         (\<lambda>s. map_of (cs_registrations s) (bearer_hash cfg bearer)) of
        None \<Rightarrow> Inl Relay_Token_Invalid
      | Some r \<Rightarrow>
          if pr_relay_id r \<noteq> relay then Inl Relay_Mismatch
          else if pr_broker_room_id r \<noteq> room then Inl Room_Mismatch
          else Inr r)"

definition authenticate_client ::
    "control_config \<Rightarrow> u64 \<Rightarrow> control_plane \<Rightarrow> string \<Rightarrow> control_error + persisted_client" where
  "authenticate_client cfg now pl bearer =
     (case find_credential cfg pl Kind_Client bearer
         (\<lambda>s. find_client_identity_for_token s (bearer_hash cfg bearer) now) of
        None \<Rightarrow> Inl Client_Token_Invalid
      | Some (_, c) \<Rightarrow> Inr c)"

definition find_device ::
    "control_config \<Rightarrow> u64 \<Rightarrow> control_plane \<Rightarrow> string \<Rightarrow> (string \<times> persisted_grant) option" where
  "find_device cfg now pl bearer =
     find_credential cfg pl Kind_Device bearer
       (\<lambda>s. find_device_grant_for_token s (bearer_hash cfg bearer) now)"

definition device_grant_from_refresh_token_scoped ::
    "control_config \<Rightarrow> u64 \<Rightarrow> control_plane \<Rightarrow> string \<Rightarrow> string option \<Rightarrow>
      control_error + persisted_grant" where
  "device_grant_from_refresh_token_scoped cfg now pl bearer expected_room =
     (case find_device cfg now pl bearer of
        None \<Rightarrow> Inl Device_Token_Invalid
      | Some (_, g) \<Rightarrow>
          (case expected_room of
             Some room \<Rightarrow> if dg_broker_room_id g \<noteq> room then Inl Device_Token_Invalid else Inr g
           | None \<Rightarrow> Inr g))"

definition device_refresh_token_matches_room ::
    "control_config \<Rightarrow> u64 \<Rightarrow> control_plane \<Rightarrow> string \<Rightarrow> string \<Rightarrow> bool" where
  "device_refresh_token_matches_room cfg now pl bearer room =
     (case find_device cfg now pl bearer of
        None \<Rightarrow> False | Some (_, g) \<Rightarrow> dg_broker_room_id g = room)"

text \<open>The room and the device of a session.\<close>

definition issue_device_session ::
    "control_config \<Rightarrow> u64 \<Rightarrow> control_plane \<Rightarrow> string \<Rightarrow> string option \<Rightarrow>
      control_error + string \<times> string" where
  "issue_device_session cfg now pl bearer expected_room =
     map_sum id (\<lambda>g. (dg_broker_room_id g, dg_device_id g))
       (device_grant_from_refresh_token_scoped cfg now pl bearer expected_room)"

definition issue_client_session ::
    "control_config \<Rightarrow> u64 \<Rightarrow> control_plane \<Rightarrow> string \<Rightarrow> control_error + string" where
  "issue_client_session cfg now pl bearer =
     map_sum id ci_client_id (authenticate_client cfg now pl bearer)"

record authenticated_relay =
  ar_relay_id :: string
  ar_broker_room_id :: string
  ar_lifecycle_lock_key :: string

definition authenticate_relay_access ::
    "control_config \<Rightarrow> control_plane \<Rightarrow> string \<Rightarrow> string \<Rightarrow> string \<Rightarrow>
      control_error + authenticated_relay" where
  "authenticate_relay_access cfg pl bearer relay room =
     map_sum id (\<lambda>r. \<lparr>ar_relay_id = pr_relay_id r, ar_broker_room_id = pr_broker_room_id r,
         ar_lifecycle_lock_key =
           (case trimmed_option_string (pr_relay_verify_key r) of
              Some key \<Rightarrow> key | None \<Rightarrow> ''relay:'' @ pr_relay_id r)\<rparr>)
       (authenticate_relay cfg pl bearer relay room)"

definition enrolled_verify_key_for_room ::
    "control_config \<Rightarrow> control_plane \<Rightarrow> string \<Rightarrow> control_error + string" where
  "enrolled_verify_key_for_room cfg pl room =
     (case find_row (\<lambda>r. pr_broker_room_id r = room) (cs_registrations (pl_store pl)) of
        None \<Rightarrow> Inl No_Active_Registration
      | Some r \<Rightarrow>
          (case trimmed_option_string (pr_relay_verify_key r) of
             None \<Rightarrow> Inl Registration_Key_Missing
           | Some key \<Rightarrow>
               if validate_relay_verify_key (pl_ticket (cf_lib cfg)) key then Inr key
               else Inl Verify_Key_Invalid))"

definition relay_id_for_join ::
    "control_plane \<Rightarrow> string \<Rightarrow> string option \<Rightarrow> control_error + string" where
  "relay_id_for_join pl room device =
     (case find_row (\<lambda>r. pr_broker_room_id r = room) (cs_registrations (pl_store pl)) of
        None \<Rightarrow> Inl No_Active_Registration
      | Some r \<Rightarrow>
          (case device of
             None \<Rightarrow> Inr (pr_relay_id r)
           | Some d \<Rightarrow>
               if has_device_grant (pl_store pl) (pr_relay_id r) (Some room) d
               then Inr (pr_relay_id r) else Inl Device_Grant_Revoked))"

section \<open>Tickets\<close>

text \<open>A device's ticket and when it expires.\<close>

definition issue_device_ws_token_for_registration ::
    "control_config \<Rightarrow> u64 \<Rightarrow> string \<Rightarrow> string \<Rightarrow> string \<Rightarrow> control_error + string \<times> u64" where
  "issue_device_ws_token_for_registration cfg now nonce room device =
     (let expires_at = sat_add now (cf_device_ws_ttl_secs cfg)
      in case mint_ticket (pl_ticket (cf_lib cfg)) (cf_issuer cfg)
             (device_surface_join nonce room device (Some expires_at)) of
           Inl e \<Rightarrow> Inl (Control_Ticket_Not_Minted e)
         | Inr token \<Rightarrow> Inr (token, expires_at))"

definition mint_pairing_ws_token ::
    "control_config \<Rightarrow> u64 \<Rightarrow> string \<Rightarrow> authenticated_relay \<Rightarrow> string \<Rightarrow> u64 \<Rightarrow>
      control_error + string \<times> u64" where
  "mint_pairing_ws_token cfg now nonce relay pairing_id requested =
     (if requested \<le> now then Inl Pairing_Already_Past
      else
        let expires_at = min requested (sat_add now MAX_PAIRING_TICKET_TTL_SECS)
        in case mint_ticket (pl_ticket (cf_lib cfg)) (cf_issuer cfg)
               (pairing_surface_join nonce (ar_broker_room_id relay) pairing_id expires_at) of
             Inl e \<Rightarrow> Inl (Control_Ticket_Not_Minted e)
           | Inr token \<Rightarrow> Inr (token, expires_at))"

definition should_touch_last_seen :: "u64 option \<Rightarrow> u64 \<Rightarrow> bool" where
  "should_touch_last_seen last_seen now =
     (case last_seen of None \<Rightarrow> True | Some previous \<Rightarrow> LAST_SEEN_THROTTLE_SECS \<le> sat_sub now previous)"

definition issue_device_ws_token ::
    "control_config \<Rightarrow> u64 \<Rightarrow> u64 \<Rightarrow> string \<Rightarrow> string \<Rightarrow> string option \<Rightarrow> control_plane \<Rightarrow>
      (control_error + string \<times> u64) \<times> control_plane" where
  "issue_device_ws_token cfg now later nonce bearer expected_room pl =
     (case find_device cfg now pl bearer of
        None \<Rightarrow> (Inl Device_Token_Invalid, pl)
      | Some (primary, g) \<Rightarrow>
          if (case expected_room of Some room \<Rightarrow> dg_broker_room_id g \<noteq> room | None \<Rightarrow> False)
          then (Inl Device_Token_Invalid, pl)
          else
            (issue_device_ws_token_for_registration cfg later nonce (dg_broker_room_id g)
               (dg_device_id g),
             if should_touch_last_seen (dg_last_seen g) now
             then with_store ((pl_store pl)\<lparr>cs_grants :=
                 AList.map_entry primary (\<lambda>g. g\<lparr>dg_last_seen := Some now\<rparr>)
                   (cs_grants (pl_store pl))\<rparr>) pl
             else pl))"

section \<open>Device grants\<close>

record issued_device =
  id_refresh_token :: string
  id_ws_token :: string
  id_ws_token_expires_at :: u64

definition device_limit_reached :: "u32 option \<Rightarrow> string \<Rightarrow> string \<Rightarrow> control_store \<Rightarrow> u32 option" where
  "device_limit_reached device_limit relay device s =
     (if has_device_grant s relay None device then None
      else case device_limit of
        None \<Rightarrow> None
      | Some limit \<Rightarrow>
          if unat limit \<le> count_device_grants_for_relay s relay then Some limit else None)"

definition replace_device_grant ::
    "proof_lib \<Rightarrow> u64 \<Rightarrow> u64 \<Rightarrow> persisted_registration \<Rightarrow> string \<Rightarrow> string \<Rightarrow> control_store \<Rightarrow>
      control_store" where
  "replace_device_grant lib grace_secs created_at r device token s =
     (let superseded =
        (case find_row (\<lambda>g. dg_relay_id g = pr_relay_id r \<and> dg_device_id g = device) (cs_grants s) of
           Some previous \<Rightarrow>
             carry_superseded (dg_superseded previous) (dg_refresh_token_hash previous) created_at
               grace_secs
         | None \<Rightarrow> []);
          s = snd (remove_device_grants (pr_relay_id r) None (Some device) s)
      in put_grant
           \<lparr>dg_relay_id = pr_relay_id r, dg_broker_room_id = pr_broker_room_id r,
            dg_device_id = device, dg_refresh_token_hash = pl_sha256_hex lib token,
            dg_created_at = created_at, dg_last_seen = Some created_at,
            dg_superseded = superseded\<rparr> s)"

text \<open>\<open>token40\<close> is the random part of the refresh token, \<open>nonce\<close> that of the ticket.\<close>

definition issue_device_grant ::
    "control_config \<Rightarrow> u64 \<Rightarrow> u64 \<Rightarrow> bool \<Rightarrow> string \<Rightarrow> string \<Rightarrow> string \<Rightarrow> string \<Rightarrow> string \<Rightarrow> string \<Rightarrow>
      u32 option \<Rightarrow> control_plane \<Rightarrow> (control_error + issued_device) \<times> control_plane" where
  "issue_device_grant cfg created_at later saved token40 nonce bearer relay room device
      device_limit pl =
     (case authenticate_relay cfg pl bearer relay room of
        Inl e \<Rightarrow> (Inl e, pl)
      | Inr r \<Rightarrow>
          if too_long device then (Inl Id_Too_Long, pl)
          else (case device_limit_reached device_limit (pr_relay_id r) device (pl_store pl) of
            Some limit \<Rightarrow> (Inl (Device_Limit_Reached limit), pl)
          | None \<Rightarrow>
              (let lib = cf_lib cfg;
                   token = mint_credential (pl_ticket lib) (cf_key cfg) Kind_Device token40
                     (pr_relay_id r);
                   s = replace_device_grant lib (cf_rotation_grace_secs cfg) created_at r device token
                     (pl_store pl)
               in case persist_and saved () (with_store s pl) of
                    (Inl e, pl) \<Rightarrow> (Inl e, pl)
                  | (Inr _, pl) \<Rightarrow>
                      (map_sum id (\<lambda>(ws, at). \<lparr>id_refresh_token = token, id_ws_token = ws,
                           id_ws_token_expires_at = at\<rparr>)
                         (issue_device_ws_token_for_registration cfg later nonce
                           (pr_broker_room_id r) device), pl))))"

text \<open>Whether a grant was revoked, and how many.\<close>

definition revoke_device_grant ::
    "control_config \<Rightarrow> bool \<Rightarrow> string \<Rightarrow> string \<Rightarrow> string \<Rightarrow> string \<Rightarrow> control_plane \<Rightarrow>
      (control_error + bool \<times> nat) \<times> control_plane" where
  "revoke_device_grant cfg saved bearer device relay room pl =
     (case authenticate_relay cfg pl bearer relay room of
        Inl e \<Rightarrow> (Inl e, pl)
      | Inr r \<Rightarrow>
          (let (grants, s) = remove_device_grants (pr_relay_id r) (Some (pr_broker_room_id r))
                 (Some device) (pl_store pl);
               (client_grants, s) = remove_client_relay_grants (pr_relay_id r)
                 (Some (pr_broker_room_id r)) (Some device) s;
               answer = (0 < grants, grants)
           in if 0 < grants \<or> 0 < client_grants
              then persist_and saved answer (with_store s pl)
              else (Inr answer, with_store s pl)))"

definition revoke_other_device_grants ::
    "control_config \<Rightarrow> bool \<Rightarrow> string \<Rightarrow> string \<Rightarrow> string \<Rightarrow> string \<Rightarrow> control_plane \<Rightarrow>
      (control_error + string list) \<times> control_plane" where
  "revoke_other_device_grants cfg saved bearer relay room keep pl =
     (case authenticate_relay cfg pl bearer relay room of
        Inl e \<Rightarrow> (Inl e, pl)
      | Inr r \<Rightarrow>
          (let (ids, s) = remove_all_other_device_grants (pr_relay_id r) (pr_broker_room_id r) keep
                 (pl_store pl);
               s = snd (remove_all_other_client_relay_grants (pr_relay_id r) (pr_broker_room_id r)
                 keep s)
           in if ids \<noteq> [] then persist_and saved ids (with_store s pl)
              else (Inr ids, with_store s pl)))"

section \<open>Client identities\<close>

record client_claim_ticket =
  ct_claim_id :: string
  ct_claim_nonce :: string
  ct_claim_expires_at :: u64

definition issue_client_grant ::
    "control_config \<Rightarrow> u64 \<Rightarrow> u64 \<Rightarrow> string \<Rightarrow> string \<Rightarrow> string \<Rightarrow> string \<Rightarrow> string \<Rightarrow> string \<Rightarrow> string \<Rightarrow>
      string option \<Rightarrow> string option \<Rightarrow> control_plane \<Rightarrow>
      (control_error + client_claim_ticket) \<times> control_plane" where
  "issue_client_grant cfg now later token24 token40 bearer relay room device verify_key
      client_label device_label pl =
     (case authenticate_relay cfg pl bearer relay room of
        Inl e \<Rightarrow> (Inl e, pl)
      | Inr r \<Rightarrow>
          if trim verify_key = [] then (Inl Verify_Key_Required, pl)
          else if \<not> validate_relay_verify_key (pl_ticket (cf_lib cfg)) (trim verify_key)
          then (Inl Verify_Key_Invalid, pl)
          else if too_long device then (Inl Id_Too_Long, pl)
          else
            let ticket = \<lparr>ct_claim_id = ''ccl-'' @ map ascii_lower token24,
                  ct_claim_nonce = ''cn-'' @ map ascii_lower token40,
                  ct_claim_expires_at = sat_add now DEFAULT_CLIENT_CLAIM_TTL_SECS\<rparr>;
                kept = drop_rows (\<lambda>c. pk_relay_id c = pr_relay_id r \<or> pk_expires_at c \<le> later)
                  (pl_claims pl)
            in (Inr ticket, pl\<lparr>pl_claims := AList.update (ct_claim_id ticket)
                 \<lparr>pk_relay_id = pr_relay_id r, pk_broker_room_id = pr_broker_room_id r,
                  pk_device_id = device, pk_client_verify_key = trim verify_key,
                  pk_client_label = compact_label client_label,
                  pk_device_label = compact_label device_label,
                  pk_relay_label = pr_relay_label r, pk_nonce = ct_claim_nonce ticket,
                  pk_expires_at = ct_claim_expires_at ticket\<rparr> kept\<rparr>))"

text \<open>
  A signature over a message: \<open>None\<close> when it verifies, else the error for a bad signature or for a
  key that is none.
\<close>

definition check_signature ::
    "control_error \<Rightarrow> control_error \<Rightarrow> proof_lib \<Rightarrow> string \<Rightarrow> string \<Rightarrow> string \<Rightarrow> control_error option" where
  "check_signature bad_signature bad_key lib key message signature =
     (case tl_std_decode (pl_ticket lib) signature of
        None \<Rightarrow> Some bad_signature
      | Some sig_bytes \<Rightarrow>
          if length sig_bytes \<noteq> 64 then Some bad_signature
          else (case tl_std_decode (pl_ticket lib) key of
            None \<Rightarrow> Some bad_key
          | Some key_bytes \<Rightarrow>
              if \<not> (length key_bytes = 32 \<and> tl_curve_point (pl_ticket lib) key_bytes)
              then Some bad_key
              else if pl_verify lib key_bytes message sig_bytes then None
              else Some bad_signature))"

definition client_claim_message :: "string \<Rightarrow> string \<Rightarrow> string \<Rightarrow> string" where
  "client_claim_message claim_id nonce relay_id =
     ''agent-relay:client-claim:'' @ claim_id @ '':'' @ nonce @ '':'' @ relay_id"

definition verify_client_claim_signature ::
    "proof_lib \<Rightarrow> string \<Rightarrow> string \<Rightarrow> string \<Rightarrow> string \<Rightarrow> string \<Rightarrow> control_error option" where
  "verify_client_claim_signature lib key claim_id nonce relay_id signature =
     check_signature Claim_Signature_Invalid Claim_Signature_Invalid lib key
       (client_claim_message claim_id nonce relay_id) signature"

definition identity_cap_reached :: "pending_claim \<Rightarrow> control_store \<Rightarrow> bool" where
  "identity_cap_reached claim s =
     (let existing_id = map_option ci_client_id
            (client_identity_for_verify_key s (pk_client_verify_key claim));
          grants = filter (\<lambda>g. cg_relay_id g = pk_relay_id claim) (map snd (cs_client_grants s))
      in MAX_CLIENT_IDENTITIES_PER_RELAY \<le> length grants \<and>
         \<not> list_ex (\<lambda>g. Some (cg_client_id g) = existing_id) grants)"

text \<open>The client's id and its refresh token.\<close>

definition claim_client_identity ::
    "control_config \<Rightarrow> u64 \<Rightarrow> u64 \<Rightarrow> u64 \<Rightarrow> bool \<Rightarrow> string \<Rightarrow> string \<Rightarrow> string \<Rightarrow> control_plane \<Rightarrow>
      (control_error + string \<times> string) \<times> control_plane" where
  "claim_client_identity cfg now later created_at saved token40 claim_id signature pl =
     (if trim claim_id = [] then (Inl Claim_Id_Required, pl)
      else if trim signature = [] then (Inl Claim_Signature_Required, pl)
      else
        let claims = drop_rows (\<lambda>c. pk_expires_at c \<le> now) (pl_claims pl)
        in case map_of claims (trim claim_id) of
             None \<Rightarrow> (Inl Claim_Invalid, pl\<lparr>pl_claims := claims\<rparr>)
           | Some claim \<Rightarrow>
               (let pl = pl\<lparr>pl_claims := AList.delete (trim claim_id) claims\<rparr>
                in if pk_expires_at claim \<le> later then (Inl Claim_Expired, pl)
                   else (case verify_client_claim_signature (cf_lib cfg) (pk_client_verify_key claim)
                       (trim claim_id) (pk_nonce claim) (pk_relay_id claim) (trim signature) of
                     Some e \<Rightarrow> (Inl e, pl)
                   | None \<Rightarrow>
                       if identity_cap_reached claim (pl_store pl)
                       then (Inl Too_Many_Identities, pl)
                       else
                         let ((client_id, token), s) =
                               issue_or_rotate_client_identity (cf_lib cfg) (cf_key cfg)
                                 (pk_client_verify_key claim) (pk_client_label claim) created_at
                                 (cf_rotation_grace_secs cfg) token40 (pl_store pl);
                             s = upsert_client_relay_grant
                               \<lparr>cg_client_id = client_id, cg_relay_id = pk_relay_id claim,
                                cg_broker_room_id = pk_broker_room_id claim,
                                cg_device_id = pk_device_id claim, cg_granted_at = created_at,
                                cg_relay_label = pk_relay_label claim,
                                cg_device_label = pk_device_label claim\<rparr> s
                         in persist_and saved (client_id, token) (with_store s pl))))"

text \<open>\<open>sort_by\<close>, which is stable.\<close>

fun insert_by :: "('a \<Rightarrow> 'a \<Rightarrow> bool) \<Rightarrow> 'a \<Rightarrow> 'a list \<Rightarrow> 'a list" where
  "insert_by le x [] = [x]"
| "insert_by le x (y # ys) = (if le x y then x # y # ys else y # insert_by le x ys)"

definition sort_by :: "('a \<Rightarrow> 'a \<Rightarrow> bool) \<Rightarrow> 'a list \<Rightarrow> 'a list" where
  "sort_by le xs = foldr (insert_by le) xs []"

definition list_client_relays ::
    "control_config \<Rightarrow> u64 \<Rightarrow> control_plane \<Rightarrow> string \<Rightarrow>
      control_error + string \<times> client_relay_entry list" where
  "list_client_relays cfg now pl bearer =
     map_sum id (\<lambda>c. (ci_client_id c,
         sort_by (\<lambda>a b. ce_granted_at b < ce_granted_at a \<or>
             ce_granted_at b = ce_granted_at a \<and> ce_relay_id a \<le> ce_relay_id b)
           (client_relays (pl_store pl) (ci_client_id c))))
       (authenticate_client cfg now pl bearer)"

definition rotate_presented_identity ::
    "control_config \<Rightarrow> u64 \<Rightarrow> u64 \<Rightarrow> bool \<Rightarrow> string \<Rightarrow> string \<Rightarrow> control_plane \<Rightarrow>
      (control_error + string \<times> string) \<times> control_plane" where
  "rotate_presented_identity cfg now later saved token40 bearer pl =
     (case find_credential cfg pl Kind_Client bearer
         (\<lambda>s. find_client_identity_for_token s (bearer_hash cfg bearer) now) of
        None \<Rightarrow> (Inl Client_Token_Invalid, pl)
      | Some (primary, client) \<Rightarrow>
          if primary \<noteq> bearer_hash cfg bearer then (Inl Signing_Proof_Required, pl)
          else
            let (token, s) = rotate_client_identity (cf_lib cfg) (cf_key cfg) client later
                  (cf_rotation_grace_secs cfg) token40 (pl_store pl)
            in persist_and saved (ci_client_id client, token) (with_store s pl))"

text \<open>The client's id, and how many identities and grants went.\<close>

definition revoke_client_identity ::
    "control_config \<Rightarrow> u64 \<Rightarrow> bool \<Rightarrow> string \<Rightarrow> control_plane \<Rightarrow>
      (control_error + string \<times> nat \<times> nat) \<times> control_plane" where
  "revoke_client_identity cfg now saved bearer pl =
     (case authenticate_client cfg now pl bearer of
        Inl e \<Rightarrow> (Inl e, pl)
      | Inr c \<Rightarrow>
          (let (identities, s) =
                 remove_client_identity_by_client_id (ci_client_id c) (pl_store pl);
               (grants, s) = remove_client_relay_grants_by_client_id (ci_client_id c) s;
               answer = (ci_client_id c, identities, grants)
           in if 0 < identities \<or> 0 < grants then persist_and saved answer (with_store s pl)
              else (Inr answer, with_store s pl)))"

end
