(* ===== verification/Control_Lifecycle.thy ===== *)
theory Control_Lifecycle
  imports Control_Plane
begin

text \<open>
  The longer conversations of the control plane (\<open>crates/relay-broker/src/public_control.rs\<close>,
  \<open>public_control/credentials.rs\<close>): signed refresh of a client's credentials, enrolment of a relay
  with its rollback and restore, release of a registration with everything it granted, admission
  quotas, and the start from the file. The last section puts all requests into one process.
\<close>

section \<open>Signed refresh\<close>

record refresh_request =
  rq_client_id :: string
  rq_broker_room_id :: "string option"
  rq_device_id :: "string option"
  rq_nonce :: string
  rq_signature :: string

definition text_of :: "string option \<Rightarrow> string" where
  "text_of v = (case v of None \<Rightarrow> [] | Some s \<Rightarrow> s)"

definition credential_refresh_message :: "refresh_challenge \<Rightarrow> string" where
  "credential_refresh_message c =
     ''agent-relay:credential-refresh:'' @ rf_broker_origin c @ '':'' @ rf_challenge_id c @ '':'' @
     rf_nonce c @ '':'' @ rf_client_id c @ '':'' @ text_of (rf_broker_room_id c) @ '':'' @
     text_of (rf_device_id c)"

definition credential_refresh_init_message :: "refresh_request \<Rightarrow> string \<Rightarrow> string" where
  "credential_refresh_init_message q origin =
     ''agent-relay:credential-refresh-init:'' @ origin @ '':'' @ rq_client_id q @ '':'' @
     text_of (rq_broker_room_id q) @ '':'' @ text_of (rq_device_id q) @ '':'' @ rq_nonce q"

definition refresh_device_for_client ::
    "control_store \<Rightarrow> string \<Rightarrow> string \<Rightarrow>
      control_error + persisted_grant \<times> persisted_registration" where
  "refresh_device_for_client s client_id room =
     (case find_row (\<lambda>g. cg_client_id g = client_id \<and> cg_broker_room_id g = room)
         (cs_client_grants s) of
        None \<Rightarrow> Inl Refresh_Invalid
      | Some cg \<Rightarrow>
          (case find_row (\<lambda>g. dg_relay_id g = cg_relay_id cg \<and> dg_broker_room_id g = room \<and>
               dg_device_id g = cg_device_id cg) (cs_grants s) of
             None \<Rightarrow> Inl Refresh_Invalid
           | Some device \<Rightarrow>
               (case find_row (\<lambda>r. pr_relay_id r = cg_relay_id cg \<and> pr_broker_room_id r = room)
                   (cs_registrations s) of
                  None \<Rightarrow> Inl Refresh_Invalid
                | Some r \<Rightarrow> Inr (device, r))))"

text \<open>The relay whose quota a client uses: that of its oldest live grant.\<close>

definition earlier_grant :: "persisted_client_grant \<Rightarrow> persisted_client_grant \<Rightarrow> bool" where
  "earlier_grant a b \<longleftrightarrow>
     cg_granted_at a < cg_granted_at b \<or>
     cg_granted_at a = cg_granted_at b \<and> cg_relay_id a \<le> cg_relay_id b"

fun min_row :: "('a \<Rightarrow> 'a \<Rightarrow> bool) \<Rightarrow> 'a list \<Rightarrow> 'a option" where
  "min_row le [] = None"
| "min_row le (x # xs) =
     (case min_row le xs of None \<Rightarrow> Some x | Some y \<Rightarrow> Some (if le x y then x else y))"

definition client_quota_relay :: "control_store \<Rightarrow> string \<Rightarrow> string option" where
  "client_quota_relay s client_id =
     map_option cg_relay_id (min_row earlier_grant
       (filter (\<lambda>g. cg_client_id g = client_id \<and>
           any_row (\<lambda>r. pr_relay_id r = cg_relay_id g \<and> pr_broker_room_id r = cg_broker_room_id g)
             (cs_registrations s))
         (map snd (cs_client_grants s))))"

definition refresh_challenge_subject ::
    "control_config \<Rightarrow> control_plane \<Rightarrow> refresh_request \<Rightarrow> string \<Rightarrow> credential_subject option" where
  "refresh_challenge_subject cfg pl q origin =
     (case (case client_key (pl_ticket (cf_lib cfg)) (cf_key cfg) (rq_client_id q) of
              Some key \<Rightarrow> Some key
            | None \<Rightarrow> map_of (lc_clients (pl_legacy pl)) (rq_client_id q)) of
        None \<Rightarrow> None
      | Some key \<Rightarrow>
          if check_signature Refresh_Invalid Refresh_Invalid (cf_lib cfg) key
            (credential_refresh_init_message q origin) (rq_signature q) = None
          then Some (Subject_Client (rq_client_id q)) else None)"

text \<open>The device named in a challenge, if its room is.\<close>

definition challenge_device ::
    "control_store \<Rightarrow> string \<Rightarrow> string option \<Rightarrow> control_error + string option" where
  "challenge_device s client_id room =
     (case room of
        None \<Rightarrow> Inr None
      | Some r \<Rightarrow>
          map_sum id (\<lambda>(device, _). Some (dg_device_id device)) (refresh_device_for_client s client_id r))"

definition default_quota_key :: "control_store \<Rightarrow> string \<Rightarrow> string" where
  "default_quota_key s client_id =
     (case client_quota_relay s client_id of
        Some relay \<Rightarrow> ''relay:'' @ relay | None \<Rightarrow> ''client:'' @ client_id)"

text \<open>The challenge is recorded, unless one for the same request is pending or a quota is full.\<close>

definition admit_refresh ::
    "refresh_challenge \<Rightarrow> string \<Rightarrow> string \<Rightarrow> string \<Rightarrow> u64 \<Rightarrow> (string \<times> pending_refresh) list \<Rightarrow>
      (control_error + refresh_challenge) \<times> (string \<times> pending_refresh) list" where
  "admit_refresh challenge quota_key verify_key nonce now pending =
     (let pending = drop_rows (\<lambda>p. rf_expires_at (pf_challenge p) \<le> now) pending;
          of_client = filter (\<lambda>p. rf_client_id (pf_challenge p) = rf_client_id challenge)
            (map snd pending)
      in case find (\<lambda>p. pf_request_nonce p = nonce \<and>
             rf_broker_origin (pf_challenge p) = rf_broker_origin challenge \<and>
             rf_broker_room_id (pf_challenge p) = rf_broker_room_id challenge) of_client of
           Some existing \<Rightarrow> (Inr (pf_challenge existing), pending)
         | None \<Rightarrow>
             if MAX_PENDING_REFRESHES_PER_CLIENT \<le> length of_client
             then (Inl Too_Many_Refreshes_For_Client, pending)
             else if MAX_PENDING_REFRESHES_PER_QUOTA
               \<le> count_rows (\<lambda>p. pf_quota_key p = quota_key) pending
             then (Inl Too_Many_Refreshes_For_Account, pending)
             else (Inr challenge, AList.update (rf_challenge_id challenge)
               \<lparr>pf_quota_key = quota_key, pf_challenge = challenge,
                pf_client_verify_key = verify_key, pf_request_nonce = nonce\<rparr> pending))"

definition create_credential_refresh_challenge ::
    "control_config \<Rightarrow> u64 \<Rightarrow> string \<Rightarrow> string \<Rightarrow> refresh_request \<Rightarrow> string \<Rightarrow> string option \<Rightarrow>
      control_plane \<Rightarrow> (control_error + refresh_challenge) \<times> control_plane" where
  "create_credential_refresh_challenge cfg now token24 token40 q origin quota_key pl =
     (if too_long (rq_client_id q) \<or> too_long (rq_nonce q) then (Inl Id_Too_Long, pl)
      else if rq_nonce q = [] then (Inl Refresh_Invalid, pl)
      else if (case rq_broker_room_id q of Some room \<Rightarrow> too_long room | None \<Rightarrow> False)
      then (Inl Id_Too_Long, pl)
      else if refresh_challenge_subject cfg pl q origin = None then (Inl Refresh_Invalid, pl)
      else case find_credential cfg pl Kind_ClientId (rq_client_id q)
             (\<lambda>s. client_identity_for_id s (rq_client_id q)) of
        None \<Rightarrow> (Inl Refresh_Invalid, pl)
      | Some client \<Rightarrow>
          (case check_signature Refresh_Invalid Verify_Key_Invalid (cf_lib cfg)
              (ci_client_verify_key client) (credential_refresh_init_message q origin)
              (rq_signature q) of
             Some e \<Rightarrow> (Inl e, pl)
           | None \<Rightarrow>
               (case challenge_device (pl_store pl) (ci_client_id client) (rq_broker_room_id q) of
                  Inl e \<Rightarrow> (Inl e, pl)
                | Inr device \<Rightarrow>
                    if rq_device_id q \<noteq> None \<and> rq_device_id q \<noteq> device then (Inl Refresh_Invalid, pl)
                    else
                      let quota = (case quota_key of Some k \<Rightarrow> k
                            | None \<Rightarrow> default_quota_key (pl_store pl) (ci_client_id client));
                          (res, pending) = admit_refresh
                            \<lparr>rf_broker_origin = origin,
                             rf_challenge_id = ''crf-'' @ map ascii_lower token24,
                             rf_nonce = token40, rf_client_id = ci_client_id client,
                             rf_broker_room_id = rq_broker_room_id q, rf_device_id = device,
                             rf_expires_at = sat_add now DEFAULT_CLIENT_CLAIM_TTL_SECS\<rparr>
                            quota (ci_client_verify_key client) (rq_nonce q) now (pl_refreshes pl)
                      in (res, pl\<lparr>pl_refreshes := pending\<rparr>))))"

text \<open>The new token of the client, and of its device with the device's ticket.\<close>

record refreshed_credentials =
  rc_client_token :: string
  rc_device :: "(string \<times> string \<times> u64) option"

definition refreshed_device ::
    "control_config \<Rightarrow> u64 \<Rightarrow> string \<Rightarrow> refresh_challenge \<Rightarrow> string \<Rightarrow> control_store \<Rightarrow>
      control_error + (persisted_grant \<times> string \<times> u64) option" where
  "refreshed_device cfg later nonce challenge client_id s =
     (case rf_broker_room_id challenge of
        None \<Rightarrow> Inr None
      | Some room \<Rightarrow>
          (case refresh_device_for_client s client_id room of
             Inl e \<Rightarrow> Inl e
           | Inr (device, r) \<Rightarrow>
               if Some (dg_device_id device) \<noteq> rf_device_id challenge then Inl Refresh_Invalid
               else map_sum id (\<lambda>(ws, at). Some (device, ws, at))
                 (issue_device_ws_token_for_registration cfg later nonce (pr_broker_room_id r)
                   (dg_device_id device))))"

definition rotate_device ::
    "proof_lib \<Rightarrow> u64 \<Rightarrow> u64 \<Rightarrow> persisted_grant \<Rightarrow> string \<Rightarrow> control_store \<Rightarrow> control_store" where
  "rotate_device lib grace_secs now device token s =
     put_grant (device
         \<lparr>dg_superseded := carry_superseded (dg_superseded device) (dg_refresh_token_hash device)
            now grace_secs,
          dg_refresh_token_hash := pl_sha256_hex lib token, dg_created_at := now,
          dg_last_seen := Some now\<rparr>)
       (s\<lparr>cs_grants := AList.delete (dg_refresh_token_hash device) (cs_grants s)\<rparr>)"

definition rotate_signed_credentials ::
    "control_config \<Rightarrow> u64 \<Rightarrow> u64 \<Rightarrow> string \<Rightarrow> string \<Rightarrow> string \<Rightarrow> refresh_challenge \<Rightarrow> string \<Rightarrow>
      control_store \<Rightarrow> (control_error + refreshed_credentials) \<times> control_store" where
  "rotate_signed_credentials cfg now later nonce client_token40 device_token40 challenge verify_key s =
     (case client_identity_for_id s (rf_client_id challenge) of
        None \<Rightarrow> (Inl Refresh_Invalid, s)
      | Some client \<Rightarrow>
          if ci_client_verify_key client \<noteq> verify_key then (Inl Refresh_Invalid, s)
          else (case refreshed_device cfg later nonce challenge (ci_client_id client) s of
            Inl e \<Rightarrow> (Inl e, s)
          | Inr device \<Rightarrow>
              (let (client_token, s) = rotate_client_identity (cf_lib cfg) (cf_key cfg) client now
                     (cf_rotation_grace_secs cfg) client_token40 s
               in case device of
                    None \<Rightarrow> (Inr \<lparr>rc_client_token = client_token, rc_device = None\<rparr>, s)
                  | Some (grant, ws, at) \<Rightarrow>
                      (let token = mint_credential (pl_ticket (cf_lib cfg)) (cf_key cfg) Kind_Device
                             device_token40 (dg_relay_id grant)
                       in (Inr \<lparr>rc_client_token = client_token, rc_device = Some (token, ws, at)\<rparr>,
                           rotate_device (cf_lib cfg) (cf_rotation_grace_secs cfg) now grant token
                             s)))))"

definition refresh_credentials ::
    "control_config \<Rightarrow> u64 \<Rightarrow> u64 \<Rightarrow> bool \<Rightarrow> string \<Rightarrow> string \<Rightarrow> string \<Rightarrow> string \<Rightarrow> string \<Rightarrow> string \<Rightarrow>
      control_plane \<Rightarrow> (control_error + refreshed_credentials) \<times> control_plane" where
  "refresh_credentials cfg now later saved nonce client_token40 device_token40 challenge_id signature
      origin pl =
     (let pending = drop_rows (\<lambda>p. rf_expires_at (pf_challenge p) \<le> now) (pl_refreshes pl)
      in case map_of pending challenge_id of
           None \<Rightarrow> (Inl Refresh_Unavailable, pl\<lparr>pl_refreshes := pending\<rparr>)
         | Some p \<Rightarrow>
             (let pl = pl\<lparr>pl_refreshes := AList.delete challenge_id pending\<rparr>;
                  challenge = pf_challenge p
              in if rf_broker_origin challenge \<noteq> origin then (Inl Refresh_Invalid, pl)
                 else (case check_signature Refresh_Invalid Verify_Key_Invalid (cf_lib cfg)
                     (pf_client_verify_key p) (credential_refresh_message challenge) signature of
                   Some e \<Rightarrow> (Inl e, pl)
                 | None \<Rightarrow>
                     (case rotate_signed_credentials cfg now later nonce client_token40 device_token40
                         challenge (pf_client_verify_key p) (pl_store pl) of
                        (Inl e, s) \<Rightarrow> (Inl e, with_store s pl)
                      | (Inr answer, s) \<Rightarrow> persist_and saved answer (with_store s pl)))))"

section \<open>Admission\<close>

datatype credential_admission = Admit_Relay string | Admit_Client "string option"

definition credential_admission_of ::
    "proof_lib \<Rightarrow> u64 \<Rightarrow> control_store \<Rightarrow> credential_kind \<Rightarrow> string \<Rightarrow> credential_admission option" where
  "credential_admission_of lib now s kind value =
     (let token_hash = pl_sha256_hex lib (trim value)
      in case kind of
           Kind_Relay \<Rightarrow>
             map_option (\<lambda>r. Admit_Relay (pr_relay_id r)) (map_of (cs_registrations s) token_hash)
         | Kind_Device \<Rightarrow>
             map_option (\<lambda>(_, g). Admit_Client (Some (dg_relay_id g)))
               (find_device_grant_for_token s token_hash now)
         | Kind_Client \<Rightarrow>
             map_option (\<lambda>(_, c). Admit_Client (client_quota_relay s (ci_client_id c)))
               (find_client_identity_for_token s token_hash now)
         | Kind_ClientId \<Rightarrow>
             map_option (\<lambda>c. Admit_Client (client_quota_relay s (ci_client_id c)))
               (client_identity_for_id s value))"

definition claim_subject ::
    "control_config \<Rightarrow> u64 \<Rightarrow> control_plane \<Rightarrow> string \<Rightarrow> string \<Rightarrow> credential_subject option" where
  "claim_subject cfg now pl claim_id signature =
     (case map_of (pl_claims pl) (trim claim_id) of
        None \<Rightarrow> None
      | Some claim \<Rightarrow>
          if pk_expires_at claim \<le> now then None
          else if verify_client_claim_signature (cf_lib cfg) (pk_client_verify_key claim)
              (trim claim_id) (pk_nonce claim) (pk_relay_id claim) (trim signature) = None
          then Some (Subject_Relay (pk_relay_id claim)) else None)"

definition claim_admission ::
    "control_config \<Rightarrow> u64 \<Rightarrow> control_plane \<Rightarrow> string \<Rightarrow> string \<Rightarrow> credential_admission option" where
  "claim_admission cfg now pl claim_id signature =
     (case claim_subject cfg now pl claim_id signature of
        Some (Subject_Relay relay) \<Rightarrow>
          if any_row (\<lambda>r. pr_relay_id r = relay) (cs_registrations (pl_store pl))
          then Some (Admit_Client (Some relay)) else None
      | _ \<Rightarrow> None)"

definition refresh_subject ::
    "control_config \<Rightarrow> u64 \<Rightarrow> control_plane \<Rightarrow> string \<Rightarrow> string \<Rightarrow> string \<Rightarrow>
      credential_subject option" where
  "refresh_subject cfg now pl challenge_id signature origin =
     (case map_of (pl_refreshes pl) challenge_id of
        None \<Rightarrow> None
      | Some p \<Rightarrow>
          if rf_expires_at (pf_challenge p) \<le> now \<or> rf_broker_origin (pf_challenge p) \<noteq> origin then None
          else if check_signature Refresh_Invalid Refresh_Invalid (cf_lib cfg)
              (pf_client_verify_key p) (credential_refresh_message (pf_challenge p)) signature = None
          then Some (Subject_Client (rf_client_id (pf_challenge p))) else None)"

section \<open>Enrolment\<close>

definition prune_enrollments ::
    "u64 \<Rightarrow> (string \<times> pending_enrollment) list \<Rightarrow> (string \<times> pending_enrollment) list" where
  "prune_enrollments now = drop_rows (\<lambda>c. pe_expires_at c \<le> now)"

record enrollment_challenge =
  ec_challenge_id :: string
  ec_challenge :: string
  ec_expires_at :: u64

definition create_relay_enrollment_challenge ::
    "control_config \<Rightarrow> u64 \<Rightarrow> u64 \<Rightarrow> string \<Rightarrow> string \<Rightarrow> string \<Rightarrow> string option \<Rightarrow> control_plane \<Rightarrow>
      (control_error + enrollment_challenge) \<times> control_plane" where
  "create_relay_enrollment_challenge cfg now later token24 token40 verify_key label pl =
     (let pl = pl\<lparr>pl_enrollments := prune_enrollments now (pl_enrollments pl)\<rparr>
      in if trim verify_key = [] then (Inl Verify_Key_Required, pl)
         else if \<not> validate_relay_verify_key (pl_ticket (cf_lib cfg)) (trim verify_key)
         then (Inl Verify_Key_Invalid, pl)
         else
           let issued = \<lparr>ec_challenge_id = ''rch-'' @ map ascii_lower token24,
                 ec_challenge = ''rc-'' @ map ascii_lower token40,
                 ec_expires_at = sat_add later DEFAULT_RELAY_ENROLLMENT_CHALLENGE_TTL_SECS\<rparr>;
               pending = prune_enrollments later (pl_enrollments pl)
           in if MAX_PENDING_RELAY_ENROLLMENT_CHALLENGES \<le> length pending
              then (Inl Too_Many_Enrollments, pl\<lparr>pl_enrollments := pending\<rparr>)
              else (Inr issued, pl\<lparr>pl_enrollments := AList.update (ec_challenge_id issued)
                \<lparr>pe_relay_verify_key = trim verify_key, pe_challenge = ec_challenge issued,
                 pe_relay_label = compact_label label, pe_expires_at = ec_expires_at issued\<rparr>
                pending\<rparr>))"

definition relay_enrollment_challenge_message :: "string \<Rightarrow> string \<Rightarrow> string" where
  "relay_enrollment_challenge_message challenge_id challenge =
     ''agent-relay:relay-enroll:'' @ challenge_id @ '':'' @ challenge"

record enrolled_relay =
  el_relay_id :: string
  el_broker_room_id :: string
  el_relay_refresh_token :: string

definition issue_relay_registration_for_verify_key ::
    "control_config \<Rightarrow> u64 \<Rightarrow> bool \<Rightarrow> (string \<times> string) list \<Rightarrow> string \<Rightarrow> string \<Rightarrow> string option \<Rightarrow>
      control_plane \<Rightarrow> (control_error + enrolled_relay) \<times> control_plane" where
  "issue_relay_registration_for_verify_key cfg created_at saved draws token40 verify_key label pl =
     (let s = pl_store pl
      in case (case registration_for_verify_key s verify_key of
             Some existing \<Rightarrow>
               Some (pr_relay_id existing, pr_broker_room_id existing,
                 snd (remove_relay_registration_by_verify_key verify_key s))
           | None \<Rightarrow> map_option (\<lambda>(relay, room). (relay, room, s)) (issue_new_relay_ids s draws)) of
           None \<Rightarrow> (Inl Ids_Not_Drawn, pl)
         | Some (relay, room, s) \<Rightarrow>
             (let token = mint_credential (pl_ticket (cf_lib cfg)) (cf_key cfg) Kind_Relay token40 relay
              in persist_and saved
                   \<lparr>el_relay_id = relay, el_broker_room_id = room, el_relay_refresh_token = token\<rparr>
                   (with_store (put_registration
                     \<lparr>pr_relay_id = relay, pr_broker_room_id = room,
                      pr_refresh_token_hash = pl_sha256_hex (cf_lib cfg) token,
                      pr_created_at = created_at, pr_relay_label = label,
                      pr_relay_verify_key = Some verify_key\<rparr> s) pl)))"

definition complete_relay_enrollment ::
    "control_config \<Rightarrow> u64 \<Rightarrow> u64 \<Rightarrow> u64 \<Rightarrow> bool \<Rightarrow> (string \<times> string) list \<Rightarrow> string \<Rightarrow> string \<Rightarrow>
      string \<Rightarrow> string \<Rightarrow> string option \<Rightarrow> control_plane \<Rightarrow>
      (control_error + enrolled_relay) \<times> control_plane" where
  "complete_relay_enrollment cfg now later created_at saved draws token40 verify_key challenge_id
      signature label pl =
     (let pl = pl\<lparr>pl_enrollments := prune_enrollments now (pl_enrollments pl)\<rparr>
      in if trim verify_key = [] then (Inl Verify_Key_Required, pl)
         else if \<not> validate_relay_verify_key (pl_ticket (cf_lib cfg)) (trim verify_key)
         then (Inl Verify_Key_Invalid, pl)
         else if trim challenge_id = [] then (Inl Enrollment_Id_Required, pl)
         else if trim signature = [] then (Inl Enrollment_Signature_Required, pl)
         else case map_of (pl_enrollments pl) (trim challenge_id) of
           None \<Rightarrow> (Inl Enrollment_Invalid, pl)
         | Some pending \<Rightarrow>
             (let pl = pl\<lparr>pl_enrollments := AList.delete (trim challenge_id) (pl_enrollments pl)\<rparr>
              in if pe_expires_at pending \<le> later then (Inl Enrollment_Expired, pl)
                 else if pe_relay_verify_key pending \<noteq> trim verify_key
                 then (Inl Enrollment_Key_Mismatch, pl)
                 else (case check_signature Enrollment_Signature_Invalid Verify_Key_Invalid
                     (cf_lib cfg) (trim verify_key)
                     (relay_enrollment_challenge_message (trim challenge_id) (pe_challenge pending))
                     (trim signature) of
                   Some e \<Rightarrow> (Inl e, pl)
                 | None \<Rightarrow>
                     issue_relay_registration_for_verify_key cfg created_at saved draws token40
                       (trim verify_key)
                       (case compact_label label of Some l \<Rightarrow> Some l | None \<Rightarrow> pe_relay_label pending)
                       pl)))"

text \<open>Both repairs log a failed save and go on.\<close>

definition rollback_relay_enrollment_by_token ::
    "control_config \<Rightarrow> bool \<Rightarrow> string \<Rightarrow> control_plane \<Rightarrow> control_plane" where
  "rollback_relay_enrollment_by_token cfg saved token pl =
     (let token_hash = pl_sha256_hex (cf_lib cfg) token; s = pl_store pl
      in if map_of (cs_registrations s) token_hash = None then pl
         else snd (persist_and saved () (with_store
           (s\<lparr>cs_registrations := AList.delete token_hash (cs_registrations s)\<rparr>) pl)))"

definition snapshot_relay_registration ::
    "control_plane \<Rightarrow> string \<Rightarrow> persisted_registration option" where
  "snapshot_relay_registration pl verify_key = registration_for_verify_key (pl_store pl) verify_key"

definition restore_relay_registration ::
    "bool \<Rightarrow> persisted_registration \<Rightarrow> control_plane \<Rightarrow> control_plane" where
  "restore_relay_registration saved r pl =
     (let s = (case pr_relay_verify_key r of
            Some key \<Rightarrow> snd (remove_relay_registration_by_verify_key key (pl_store pl))
          | None \<Rightarrow> pl_store pl)
      in snd (persist_and saved () (with_store (put_registration r s) pl)))"

section \<open>Release\<close>

definition target_access_fully_cleared :: "control_store \<Rightarrow> string \<Rightarrow> string \<Rightarrow> bool" where
  "target_access_fully_cleared s relay room \<longleftrightarrow>
     \<not> any_row (\<lambda>r. pr_relay_id r = relay \<and> pr_broker_room_id r = room) (cs_registrations s) \<and>
     \<not> any_row (\<lambda>g. dg_relay_id g = relay \<and> dg_broker_room_id g = room) (cs_grants s) \<and>
     \<not> any_row (\<lambda>g. cg_relay_id g = relay \<and> cg_broker_room_id g = room) (cs_client_grants s)"

definition cut_registration_chain :: "string \<Rightarrow> string \<Rightarrow> string \<Rightarrow> control_store \<Rightarrow> control_store" where
  "cut_registration_chain token_hash relay room s =
     (let s = s\<lparr>cs_registrations :=
            drop_rows (\<lambda>r. pr_relay_id r = relay \<and> pr_broker_room_id r = room)
              (AList.delete token_hash (cs_registrations s))\<rparr>;
          s = snd (remove_device_grants relay (Some room) None s)
      in snd (remove_client_relay_grants relay (Some room) None s))"

definition revoke_relay_registration_chain ::
    "control_config \<Rightarrow> bool \<Rightarrow> string \<Rightarrow> string \<Rightarrow> string \<Rightarrow> control_plane \<Rightarrow>
      (control_error + unit) \<times> control_plane" where
  "revoke_relay_registration_chain cfg saved bearer relay room pl =
     (let token_hash = bearer_hash cfg bearer
      in case map_of (cs_registrations (pl_store pl)) token_hash of
           None \<Rightarrow> (Inl Relay_Token_Invalid, pl)
         | Some r \<Rightarrow>
             if pr_relay_id r \<noteq> relay then (Inl Relay_Mismatch, pl)
             else if pr_broker_room_id r \<noteq> room then (Inl Room_Mismatch, pl)
             else if saved
             then persist_and True ()
               (with_store (cut_registration_chain token_hash relay room (pl_store pl)) pl)
             else (Inl Save_Failed, pl))"

section \<open>Start\<close>

text \<open>
  The plane that starts from a file, with the file afterwards; \<open>seed_saved\<close> and \<open>legacy_saved\<close> say
  whether the two saves of a start succeed.
\<close>

definition load_control_state ::
    "persisted_control_state option \<Rightarrow> control_error + control_store" where
  "load_control_state file =
     (case file of
        None \<Rightarrow> Inr default_store
      | Some p \<Rightarrow> (case from_persisted p of None \<Rightarrow> Inl Unsupported_Schema | Some s \<Rightarrow> Inr s))"

definition load_or_create_legacy ::
    "u64 \<Rightarrow> bool \<Rightarrow> control_plane \<Rightarrow> (control_error + unit) \<times> control_plane" where
  "load_or_create_legacy now saved pl =
     (let s = pl_store pl; fresh = legacy_from_state now s;
          known = (case cs_legacy s of Some l \<Rightarrow> l | None \<Rightarrow> fresh);
          all = \<lparr>lc_tokens = extend_map (lc_tokens known) (lc_tokens fresh),
            lc_clients = extend_map (lc_clients known) (lc_clients fresh)\<rparr>;
          pl' = with_store (s\<lparr>cs_legacy := Some known\<rparr>) (pl\<lparr>pl_legacy := all\<rparr>)
      in if cs_legacy s = None then persist_and saved () pl' else (Inr (), pl'))"

definition start_control_plane ::
    "control_config \<Rightarrow> u64 \<Rightarrow> bool \<Rightarrow> bool \<Rightarrow> persisted_control_state option \<Rightarrow>
      (control_error + control_plane) \<times> persisted_control_state option" where
  "start_control_plane cfg now seed_saved legacy_saved file =
     (case load_control_state file of
        Inl e \<Rightarrow> (Inl e, file)
      | Inr s \<Rightarrow>
          (let (seeded, s) = seed_relay_registrations (cf_lib cfg) (cf_registrations cfg) s;
               pl = \<lparr>pl_store = s, pl_legacy = \<lparr>lc_tokens = [], lc_clients = []\<rparr>,
                 pl_enrollments = [], pl_claims = [], pl_refreshes = [], pl_file = file\<rparr>
           in case (if seeded then persist_and seed_saved () pl else (Inr (), pl)) of
                (Inl e, pl) \<Rightarrow> (Inl e, pl_file pl)
              | (Inr _, pl) \<Rightarrow>
                  (case load_or_create_legacy now legacy_saved pl of
                     (Inl e, pl) \<Rightarrow> (Inl e, pl_file pl)
                   | (Inr _, pl) \<Rightarrow> (Inr pl, pl_file pl))))"

end
