(* ===== verification/Control_Process.thy ===== *)
theory Control_Process
  imports Control_Lifecycle
begin

text \<open>
  The control plane as a process over its life: the requests that change its state, a start from
  the file, and any sequence of them. What each request can do to the store is one relation, and an
  interface lifts a property of stores that every change keeps to the memory and the file of any
  run, restarts included.
\<close>

section \<open>Requests and runs\<close>

datatype control_request =
    Q_Issue_Device u64 u64 bool string string string string string string "u32 option"
  | Q_Revoke_Device bool string string string string
  | Q_Revoke_Others bool string string string string
  | Q_Client_Grant u64 u64 string string string string string string string "string option"
      "string option"
  | Q_Claim u64 u64 u64 bool string string string
  | Q_Rotate u64 u64 bool string string
  | Q_Revoke_Client u64 bool string
  | Q_Ws_Token u64 u64 string string "string option"
  | Q_Refresh_Challenge u64 string string refresh_request string "string option"
  | Q_Refresh u64 u64 bool string string string string string string
  | Q_Enroll_Challenge u64 u64 string string string "string option"
  | Q_Enroll u64 u64 u64 bool "(string \<times> string) list" string string string string "string option"
  | Q_Rollback bool string
  | Q_Restore bool persisted_registration
  | Q_Release bool string string string

fun handle_control :: "control_config \<Rightarrow> control_request \<Rightarrow> control_plane \<Rightarrow> control_plane" where
  "handle_control cfg (Q_Issue_Device created later saved t40 nonce bearer relay room device limit) pl =
     snd (issue_device_grant cfg created later saved t40 nonce bearer relay room device limit pl)"
| "handle_control cfg (Q_Revoke_Device saved bearer device relay room) pl =
     snd (revoke_device_grant cfg saved bearer device relay room pl)"
| "handle_control cfg (Q_Revoke_Others saved bearer relay room keep) pl =
     snd (revoke_other_device_grants cfg saved bearer relay room keep pl)"
| "handle_control cfg (Q_Client_Grant now later t24 t40 bearer relay room device key cl dl) pl =
     snd (issue_client_grant cfg now later t24 t40 bearer relay room device key cl dl pl)"
| "handle_control cfg (Q_Claim now later created saved t40 claim_id signature) pl =
     snd (claim_client_identity cfg now later created saved t40 claim_id signature pl)"
| "handle_control cfg (Q_Rotate now later saved t40 bearer) pl =
     snd (rotate_presented_identity cfg now later saved t40 bearer pl)"
| "handle_control cfg (Q_Revoke_Client now saved bearer) pl =
     snd (revoke_client_identity cfg now saved bearer pl)"
| "handle_control cfg (Q_Ws_Token now later nonce bearer room) pl =
     snd (issue_device_ws_token cfg now later nonce bearer room pl)"
| "handle_control cfg (Q_Refresh_Challenge now t24 t40 q origin quota) pl =
     snd (create_credential_refresh_challenge cfg now t24 t40 q origin quota pl)"
| "handle_control cfg (Q_Refresh now later saved nonce ct dt challenge_id signature origin) pl =
     snd (refresh_credentials cfg now later saved nonce ct dt challenge_id signature origin pl)"
| "handle_control cfg (Q_Enroll_Challenge now later t24 t40 key label) pl =
     snd (create_relay_enrollment_challenge cfg now later t24 t40 key label pl)"
| "handle_control cfg (Q_Enroll now later created saved draws t40 key challenge_id signature label) pl =
     snd (complete_relay_enrollment cfg now later created saved draws t40 key challenge_id signature
       label pl)"
| "handle_control cfg (Q_Rollback saved token) pl = rollback_relay_enrollment_by_token cfg saved token pl"
| "handle_control cfg (Q_Restore saved r) pl = restore_relay_registration saved r pl"
| "handle_control cfg (Q_Release saved bearer relay room) pl =
     snd (revoke_relay_registration_chain cfg saved bearer relay room pl)"

text \<open>After a start that fails there is only the file until a start succeeds.\<close>

datatype control_process = Running control_plane | Down "persisted_control_state option"

datatype control_event = Handle control_request | Start u64 bool bool

fun process_file :: "control_process \<Rightarrow> persisted_control_state option" where
  "process_file (Running pl) = pl_file pl"
| "process_file (Down file) = file"

fun process_step :: "control_config \<Rightarrow> control_event \<Rightarrow> control_process \<Rightarrow> control_process" where
  "process_step cfg (Handle q) (Running pl) = Running (handle_control cfg q pl)"
| "process_step cfg (Handle q) (Down file) = Down file"
| "process_step cfg (Start now seed_saved legacy_saved) p =
     (case start_control_plane cfg now seed_saved legacy_saved (process_file p) of
        (Inr pl, _) \<Rightarrow> Running pl
      | (Inl _, file) \<Rightarrow> Down file)"

definition process_run :: "control_config \<Rightarrow> control_event list \<Rightarrow> control_process \<Rightarrow> control_process" where
  "process_run cfg es p = fold (process_step cfg) es p"

lemma process_run_simps [simp]:
  "process_run cfg [] p = p"
  "process_run cfg (e # es) p = process_run cfg es (process_step cfg e p)"
  "process_run cfg (es @ fs) p = process_run cfg fs (process_run cfg es p)"
  by (simp_all add: process_run_def)

section \<open>What a request does to the store\<close>

definition submap :: "(string \<times> 'a) list \<Rightarrow> (string \<times> 'a) list \<Rightarrow> bool" where
  "submap m' m \<longleftrightarrow> (\<exists>p. m' = filter p m)"

lemma submap_refl [simp, intro]: "submap m m"
  unfolding submap_def by (rule exI [of _ "\<lambda>_. True"]) simp

lemma submap_drop [simp, intro]: "submap (drop_rows p m) m"
  unfolding submap_def drop_rows_def by blast

lemma submap_filter [simp, intro]: "submap (filter p m) m"
  unfolding submap_def by blast

lemma submap_delete [simp, intro]: "submap (AList.delete k m) m"
  unfolding submap_def AList.delete_eq by blast

lemma submap_trans: "submap a b \<Longrightarrow> submap b c \<Longrightarrow> submap a c"
  unfolding submap_def by auto

lemma submap_set: "submap m' m \<Longrightarrow> set m' \<subseteq> set m"
  by (auto simp: submap_def)

lemma submap_distinct: "submap m' m \<Longrightarrow> distinct (map f m) \<Longrightarrow> distinct (map f m')"
  by (auto simp: submap_def distinct_map_filter)

definition substore :: "control_store \<Rightarrow> control_store \<Rightarrow> bool" where
  "substore s' s \<longleftrightarrow> submap (cs_registrations s') (cs_registrations s) \<and>
     submap (cs_clients s') (cs_clients s) \<and> submap (cs_grants s') (cs_grants s) \<and>
     submap (cs_client_grants s') (cs_client_grants s)"

lemma substore_refl [simp, intro]: "substore s s"
  by (simp add: substore_def)

lemmas removal_defs = remove_device_grants_def remove_client_relay_grants_def
  remove_client_relay_grants_by_client_id_def remove_all_other_device_grants_def
  remove_all_other_client_relay_grants_def remove_relay_registration_by_verify_key_def
  remove_client_identity_by_client_id_def remove_matching_entries_def
  collect_removed_device_ids_def

lemma removals_substore [simp, intro]:
  "substore (snd (remove_client_relay_grants relay' room' device'
     (snd (remove_device_grants relay room device s)))) s"
  "substore (snd (remove_all_other_client_relay_grants relay' room3 keep'
     (snd (remove_all_other_device_grants relay room2 keep s)))) s"
  "substore (snd (remove_client_relay_grants_by_client_id c
     (snd (remove_client_identity_by_client_id c s)))) s"
  "substore (cut_registration_chain h relay r s) s"
  "substore (s\<lparr>cs_registrations := AList.delete h (cs_registrations s)\<rparr>) s"
  by (auto simp: substore_def removal_defs cut_registration_chain_def
      intro: submap_trans [OF submap_drop submap_delete])

definition touched :: "string \<Rightarrow> u64 \<Rightarrow> control_store \<Rightarrow> control_store" where
  "touched primary now s = s\<lparr>cs_grants :=
     AList.map_entry primary (\<lambda>g. g\<lparr>dg_last_seen := Some now\<rparr>) (cs_grants s)\<rparr>"

text \<open>A claim that is pending and whose key signed it.\<close>

definition claim_proven :: "control_config \<Rightarrow> control_request \<Rightarrow> control_plane \<Rightarrow> pending_claim \<Rightarrow> bool" where
  "claim_proven cfg q pl claim \<longleftrightarrow>
     (case q of
        Q_Claim now later _ _ _ claim_id signature \<Rightarrow>
          (trim claim_id, claim) \<in> set (pl_claims pl) \<and> now < pk_expires_at claim \<and>
          later < pk_expires_at claim \<and>
          verify_client_claim_signature (cf_lib cfg) (pk_client_verify_key claim) (trim claim_id)
            (pk_nonce claim) (pk_relay_id claim) (trim signature) = None
      | _ \<Rightarrow> False)"

text \<open>The store after a claim.\<close>

definition claimed :: "control_config \<Rightarrow> u64 \<Rightarrow> string \<Rightarrow> pending_claim \<Rightarrow> control_store \<Rightarrow> control_store" where
  "claimed cfg created_at t40 claim s =
     (let ((client_id, token), s) =
            issue_or_rotate_client_identity (cf_lib cfg) (cf_key cfg) (pk_client_verify_key claim)
              (pk_client_label claim) created_at (cf_rotation_grace_secs cfg) t40 s
      in upsert_client_relay_grant
           \<lparr>cg_client_id = client_id, cg_relay_id = pk_relay_id claim,
            cg_broker_room_id = pk_broker_room_id claim, cg_device_id = pk_device_id claim,
            cg_granted_at = created_at, cg_relay_label = pk_relay_label claim,
            cg_device_label = pk_device_label claim\<rparr> s)"

inductive store_change ::
    "control_config \<Rightarrow> control_request \<Rightarrow> control_plane \<Rightarrow> control_store \<Rightarrow> control_store \<Rightarrow> bool"
  for cfg where
  pruned: "substore s' s \<Longrightarrow> store_change cfg q pl s s'"
| granted: "authenticate_relay cfg pl bearer relay room = Inr r \<Longrightarrow>
    device_limit_reached limit (pr_relay_id r) device s = None \<Longrightarrow>
    token = mint_credential (pl_ticket (cf_lib cfg)) (cf_key cfg) Kind_Device t40 (pr_relay_id r) \<Longrightarrow>
    store_change cfg (Q_Issue_Device created later saved t40 nonce bearer relay room device limit) pl s
      (replace_device_grant (cf_lib cfg) (cf_rotation_grace_secs cfg) created r device token s)"
| claim: "claim_proven cfg (Q_Claim now later created saved t40 claim_id signature) pl c \<Longrightarrow>
    store_change cfg (Q_Claim now later created saved t40 claim_id signature) pl s
      (claimed cfg created t40 c s)"
| rotated: "find_client_identity_for_token s (bearer_hash cfg bearer) now = Some (bearer_hash cfg bearer, c) \<Longrightarrow>
    store_change cfg (Q_Rotate now later saved t40 bearer) pl s
      (snd (rotate_client_identity (cf_lib cfg) (cf_key cfg) c later (cf_rotation_grace_secs cfg) t40 s))"
| refreshed: "client_identity_for_id s client_id = Some c \<Longrightarrow>
    store_change cfg (Q_Refresh now later saved nonce ct dt challenge_id signature origin) pl s
      (snd (rotate_client_identity (cf_lib cfg) (cf_key cfg) c now (cf_rotation_grace_secs cfg) ct s))"
| refreshed_both: "client_identity_for_id s client_id = Some c \<Longrightarrow>
    refresh_device_for_client s (ci_client_id c) room = Inr (g, r) \<Longrightarrow>
    token = mint_credential (pl_ticket (cf_lib cfg)) (cf_key cfg) Kind_Device dt (dg_relay_id g) \<Longrightarrow>
    store_change cfg (Q_Refresh now later saved nonce ct dt challenge_id signature origin) pl s
      (rotate_device (cf_lib cfg) (cf_rotation_grace_secs cfg) now g token
        (snd (rotate_client_identity (cf_lib cfg) (cf_key cfg) c now (cf_rotation_grace_secs cfg) ct s)))"
| touch: "store_change cfg (Q_Ws_Token now later nonce bearer room) pl s (touched primary now s)"
| registered: "submap m (cs_registrations s) \<Longrightarrow>
    store_change cfg q pl s (put_registration r (s\<lparr>cs_registrations := m\<rparr>))"

lemma persist_and_store [simp]:
  "pl_store (snd (persist_and saved answer pl)) = pl_store pl"
  by (simp add: persist_and_def written_def)

lemma pruned_refl [simp, intro]: "store_change cfg q pl s s"
  by (rule store_change.pruned) simp

lemma issue_device_grant_change:
  "store_change cfg (Q_Issue_Device created later saved t40 nonce bearer relay room device limit) pl
     (pl_store pl)
     (pl_store (snd (issue_device_grant cfg created later saved t40 nonce bearer relay room device limit pl)))"
  by (auto simp: issue_device_grant_def persist_and_def written_def Let_def
      intro: store_change.granted split: sum.split option.split)

lemma revoke_device_grant_change:
  "store_change cfg q pl (pl_store pl) (pl_store (snd (revoke_device_grant cfg saved bearer device relay room pl)))"
  by (auto simp: revoke_device_grant_def split_beta Let_def intro!: store_change.pruned
      split: sum.split)

lemma revoke_other_device_grants_change:
  "store_change cfg q pl (pl_store pl)
     (pl_store (snd (revoke_other_device_grants cfg saved bearer relay room keep pl)))"
  by (auto simp: revoke_other_device_grants_def split_beta Let_def intro!: store_change.pruned
      split: sum.split)

lemma issue_client_grant_store [simp]:
  "pl_store (snd (issue_client_grant cfg now later t24 t40 bearer relay room device key cl dl pl)) = pl_store pl"
  by (simp add: issue_client_grant_def Let_def split: sum.split)

lemma map_of_drop: "map_of (drop_rows p m) k = Some v \<Longrightarrow> (k, v) \<in> set m \<and> \<not> p v"
  by (auto simp: drop_rows_def dest!: map_of_SomeD)

lemma claim_change:
  "store_change cfg (Q_Claim now later created saved t40 claim_id signature) pl (pl_store pl)
     (pl_store (snd (claim_client_identity cfg now later created saved t40 claim_id signature pl)))"
proof -
  have "store_change cfg (Q_Claim now later created saved t40 claim_id signature) pl (pl_store pl)
      (claimed cfg created t40 c (pl_store pl))"
    if "map_of (drop_rows (\<lambda>c. pk_expires_at c \<le> now) (pl_claims pl)) (trim claim_id) = Some c"
      "\<not> pk_expires_at c \<le> later"
      "verify_client_claim_signature (cf_lib cfg) (pk_client_verify_key c) (trim claim_id) (pk_nonce c)
        (pk_relay_id c) (trim signature) = None" for c
    using map_of_drop [OF that(1)] that(2,3)
    by (intro store_change.claim) (auto simp: claim_proven_def)
  then show ?thesis
    by (auto simp: claim_client_identity_def claimed_def Let_def split_beta
        split: option.split)
qed

lemma rotate_change:
  "store_change cfg (Q_Rotate now later saved t40 bearer) pl (pl_store pl)
     (pl_store (snd (rotate_presented_identity cfg now later saved t40 bearer pl)))"
  by (auto simp: rotate_presented_identity_def find_credential_def split_beta Let_def
      intro!: store_change.rotated split: option.split if_splits)

lemma revoke_client_change:
  "store_change cfg q pl (pl_store pl) (pl_store (snd (revoke_client_identity cfg now saved bearer pl)))"
  by (auto simp: revoke_client_identity_def split_beta Let_def intro!: store_change.pruned
      split: sum.split)

lemma ws_token_change:
  "store_change cfg (Q_Ws_Token now later nonce bearer room) pl (pl_store pl)
     (pl_store (snd (issue_device_ws_token cfg now later nonce bearer room pl)))"
  by (auto simp: issue_device_ws_token_def intro: store_change.touch [unfolded touched_def]
      split: option.split)

lemma refresh_challenge_store [simp]:
  "pl_store (snd (create_credential_refresh_challenge cfg now t24 t40 q origin quota pl)) = pl_store pl"
  by (simp add: create_credential_refresh_challenge_def Let_def split_beta
      split: option.split sum.split)

lemma refreshed_device_Inr:
  "refreshed_device cfg later nonce challenge c s = Inr (Some (g, ws, at)) \<Longrightarrow>
     \<exists>room r. rf_broker_room_id challenge = Some room \<and> refresh_device_for_client s c room = Inr (g, r) \<and>
       Some (dg_device_id g) = rf_device_id challenge"
  by (auto simp: refreshed_device_def map_sum_def
      split: option.splits sum.splits prod.splits if_splits)

lemma rotate_signed_change:
  "store_change cfg (Q_Refresh now later saved nonce ct dt challenge_id signature origin) pl s
     (snd (rotate_signed_credentials cfg now later nonce' ct dt challenge key s))"
  by (auto simp: rotate_signed_credentials_def Let_def split_beta dest!: refreshed_device_Inr
      intro: store_change.refreshed store_change.refreshed_both split: option.split sum.split)

lemma refresh_change:
  "store_change cfg (Q_Refresh now later saved nonce ct dt challenge_id signature origin) pl (pl_store pl)
     (pl_store (snd (refresh_credentials cfg now later saved nonce ct dt challenge_id signature origin pl)))"
proof -
  have "store_change cfg (Q_Refresh now later saved nonce ct dt challenge_id signature origin) pl
      (pl_store pl) s" if "rotate_signed_credentials cfg now later nonce ct dt challenge key (pl_store pl) = (x, s)"
    for challenge key x s
    using rotate_signed_change [of cfg now later saved nonce ct dt challenge_id signature origin pl
        "pl_store pl" nonce challenge key] that by simp
  then show ?thesis
    by (auto simp: refresh_credentials_def Let_def split: option.split prod.split sum.split)
qed

lemma enroll_challenge_store [simp]:
  "pl_store (snd (create_relay_enrollment_challenge cfg now later t24 t40 key label pl)) = pl_store pl"
  by (simp add: create_relay_enrollment_challenge_def Let_def)

lemma put_registration_change:
  "submap (cs_registrations s') (cs_registrations s) \<Longrightarrow> s' = s\<lparr>cs_registrations := cs_registrations s'\<rparr> \<Longrightarrow>
   store_change cfg q pl s (put_registration r s')"
  using store_change.registered by metis

lemma issue_registration_change:
  "store_change cfg q pl' (pl_store pl)
     (pl_store (snd (issue_relay_registration_for_verify_key cfg created saved draws t40 key label pl)))"
  by (auto simp: issue_relay_registration_for_verify_key_def removal_defs Let_def
      intro!: put_registration_change split: option.split)

lemma enroll_change:
  "store_change cfg q pl' (pl_store pl)
     (pl_store (snd (complete_relay_enrollment cfg now later created saved draws t40 key challenge_id
       signature label pl)))"
proof -
  have "store_change cfg q pl' (pl_store pl)
      (pl_store (snd (issue_relay_registration_for_verify_key cfg created saved draws t40 k l
        (pl\<lparr>pl_enrollments := m\<rparr>))))" for k l m
    using issue_registration_change [of cfg q pl' "pl\<lparr>pl_enrollments := m\<rparr>"] by simp
  then show ?thesis
    by (auto simp: complete_relay_enrollment_def Let_def split: option.split)
qed

lemma repairs_change:
  "store_change cfg q pl' (pl_store pl) (pl_store (rollback_relay_enrollment_by_token cfg saved token pl))"
  "store_change cfg q pl' (pl_store pl) (pl_store (restore_relay_registration saved r pl))"
  subgoal by (auto simp: rollback_relay_enrollment_by_token_def Let_def intro!: store_change.pruned)
  subgoal by (auto simp: restore_relay_registration_def Let_def removal_defs
        intro!: put_registration_change split: option.split)
  done

lemma release_change:
  "store_change cfg q pl' (pl_store pl)
     (pl_store (snd (revoke_relay_registration_chain cfg saved bearer relay room pl)))"
  by (auto simp: revoke_relay_registration_chain_def Let_def intro!: store_change.pruned
      split: option.split)

lemma handle_change:
  "store_change cfg q pl (pl_store pl) (pl_store (handle_control cfg q pl))"
  by (cases q)
    (simp_all add: issue_device_grant_change revoke_device_grant_change revoke_other_device_grants_change
      claim_change rotate_change revoke_client_change ws_token_change refresh_change enroll_change
      repairs_change release_change)

section \<open>What a request does to the file\<close>

text \<open>The file stays, or it becomes the store that memory holds afterwards.\<close>

definition file_kept_or_written :: "control_plane \<Rightarrow> control_plane \<Rightarrow> bool" where
  "file_kept_or_written pl pl' \<longleftrightarrow>
     pl_file pl' = pl_file pl \<or> pl_file pl' = Some (to_persisted (pl_store pl'))"

lemma file_persist [simp]:
  "pl_file pl' = pl_file pl \<Longrightarrow> file_kept_or_written pl (snd (persist_and saved answer pl'))"
  by (simp add: file_kept_or_written_def persist_and_def written_def)

lemma file_same [simp]: "pl_file pl' = pl_file pl \<Longrightarrow> file_kept_or_written pl pl'"
  by (simp add: file_kept_or_written_def)

lemma persist_and_cases:
  "(case persist_and saved () pl of (Inl e, p) \<Rightarrow> (Inl e, p) | (Inr _, p) \<Rightarrow> (f, p)) =
     (if saved then f else Inl Save_Failed, snd (persist_and saved () pl))"
  by (simp add: persist_and_def)

lemma handle_file: "file_kept_or_written pl (handle_control cfg q pl)"
proof (cases q)
  case (Q_Issue_Device created later saved t40 nonce bearer relay room device limit)
  then show ?thesis
    by (simp add: issue_device_grant_def persist_and_cases Let_def split: sum.split option.split)
next
  case (Q_Claim now later created saved t40 claim_id signature)
  then show ?thesis
    by (simp add: claim_client_identity_def Let_def split_beta split: option.split)
next
  case (Q_Refresh now later saved nonce ct dt challenge_id signature origin)
  then show ?thesis
    by (simp add: refresh_credentials_def Let_def split: option.split prod.split sum.split)
next
  case (Q_Refresh_Challenge now t24 t40 request origin quota)
  then show ?thesis
    by (simp add: create_credential_refresh_challenge_def Let_def split_beta
        split: option.split sum.split)
next
  case (Q_Enroll now later created saved draws t40 key challenge_id signature label)
  then show ?thesis
    by (simp add: complete_relay_enrollment_def issue_relay_registration_for_verify_key_def Let_def
        split: option.split)
qed (simp_all add: revoke_device_grant_def revoke_other_device_grants_def issue_client_grant_def
    rotate_presented_identity_def revoke_client_identity_def issue_device_ws_token_def
    create_relay_enrollment_challenge_def rollback_relay_enrollment_by_token_def
    restore_relay_registration_def revoke_relay_registration_chain_def Let_def split_beta
    split: sum.split option.split)

section \<open>Properties that last\<close>

text \<open>A property of stores, of the memory and of whatever the file would load.\<close>

definition file_holds :: "(control_store \<Rightarrow> bool) \<Rightarrow> persisted_control_state option \<Rightarrow> bool" where
  "file_holds good file \<longleftrightarrow>
     (case file of None \<Rightarrow> True | Some p \<Rightarrow>
        (case from_persisted p of None \<Rightarrow> True | Some s \<Rightarrow> good s))"

fun process_holds :: "(control_store \<Rightarrow> bool) \<Rightarrow> control_process \<Rightarrow> bool" where
  "process_holds good (Running pl) \<longleftrightarrow> good (pl_store pl) \<and> file_holds good (pl_file pl)"
| "process_holds good (Down file) \<longleftrightarrow> file_holds good file"

text \<open>Every request that is handled in a run meets a condition in the state that it finds.\<close>

fun requests_meet ::
    "(control_request \<Rightarrow> control_plane \<Rightarrow> bool) \<Rightarrow> control_config \<Rightarrow> control_event list \<Rightarrow>
      control_process \<Rightarrow> bool" where
  "requests_meet allowed cfg [] p = True"
| "requests_meet allowed cfg (e # es) p \<longleftrightarrow>
     (case (e, p) of (Handle q, Running pl) \<Rightarrow> allowed q pl | _ \<Rightarrow> True) \<and>
     requests_meet allowed cfg es (process_step cfg e p)"

lemma requests_meet_not:
  "\<not> requests_meet allowed cfg es p \<Longrightarrow>
     \<exists>before q after pl. es = before @ Handle q # after \<and> process_run cfg before p = Running pl \<and> \<not> allowed q pl"
proof (induction es arbitrary: p)
  case (Cons e es)
  show ?case
  proof (cases "requests_meet allowed cfg es (process_step cfg e p)")
    case True
    with Cons.prems obtain q pl where "e = Handle q" "p = Running pl" "\<not> allowed q pl"
      by (cases e; cases p) auto
    then have "e # es = [] @ Handle q # es \<and> process_run cfg [] p = Running pl \<and> \<not> allowed q pl" by simp
    then show ?thesis by blast
  next
    case False
    then obtain before q after pl where "es = before @ Handle q # after"
      "process_run cfg before (process_step cfg e p) = Running pl" "\<not> allowed q pl"
      using Cons.IH by blast
    then have "e # es = (e # before) @ Handle q # after \<and> process_run cfg (e # before) p = Running pl \<and> \<not> allowed q pl"
      by simp
    then show ?thesis by blast
  qed
qed simp

locale lasting_property =
  fixes cfg :: control_config
    and good :: "control_store \<Rightarrow> bool"
    and allowed :: "control_request \<Rightarrow> control_plane \<Rightarrow> bool"
  assumes empty_store: "good default_store"
    and change: "good s \<Longrightarrow> allowed q pl \<Longrightarrow> store_change cfg q pl s s' \<Longrightarrow> good s'"
    and reload: "good s \<Longrightarrow> from_persisted (to_persisted s) = Some s' \<Longrightarrow> good s'"
    and seed: "good s \<Longrightarrow> good (put_registration r s)"
    and legacy: "good s \<Longrightarrow> good (s\<lparr>cs_legacy := l\<rparr>)"
begin

lemma written_holds: "good s \<Longrightarrow> file_holds good (Some (to_persisted s))"
  using reload by (simp add: file_holds_def split: option.split)

lemma handled:
  assumes "process_holds good (Running pl)" "allowed q pl"
  shows "process_holds good (Running (handle_control cfg q pl))"
proof -
  have "good (pl_store (handle_control cfg q pl))"
    using change [OF _ assms(2) handle_change] assms(1) by simp
  with assms(1) written_holds handle_file [of pl cfg q] show ?thesis
    unfolding file_kept_or_written_def by (metis process_holds.simps(1))
qed

lemma seeded: "good s \<Longrightarrow> good (snd (seed_relay_registrations lib configs s))"
proof -
  have "good (snd acc) \<Longrightarrow>
      good (snd (fold (\<lambda>c (seeded, s).
         let token_hash = pl_sha256_hex lib (rc_refresh_token c)
         in if map_of (cs_registrations s) token_hash \<noteq> None then (seeded, s)
            else (True, put_registration
              \<lparr>pr_relay_id = rc_relay_id c, pr_broker_room_id = rc_broker_room_id c,
               pr_refresh_token_hash = token_hash, pr_created_at = 0, pr_relay_label = None,
               pr_relay_verify_key = trimmed_option_string (rc_relay_verify_key c)\<rparr> s)) configs acc))" for acc
    by (induction configs arbitrary: acc) (simp_all add: Let_def split_beta seed)
  then show "good s \<Longrightarrow> good (snd (seed_relay_registrations lib configs s))"
    by (simp add: seed_relay_registrations_def)
qed

lemma legacy_loaded:
  assumes "good (pl_store pl)" "file_holds good (pl_file pl)"
  shows "process_holds good (Running (snd (load_or_create_legacy now saved pl)))"
  using assms legacy
  by (simp add: load_or_create_legacy_def Let_def persist_and_def written_def written_holds)

lemma started:
  assumes "file_holds good file"
  shows "case start_control_plane cfg now seed_saved legacy_saved file of
      (Inr pl, _) \<Rightarrow> process_holds good (Running pl) | (Inl _, file) \<Rightarrow> file_holds good file"
proof (cases "load_control_state file")
  case (Inl e)
  with assms show ?thesis by (simp add: start_control_plane_def)
next
  case (Inr s)
  have "good s"
    using Inr assms empty_store
    by (auto simp: load_control_state_def file_holds_def split: option.splits)
  then have s: "good (snd (seed_relay_registrations (cf_lib cfg) (cf_registrations cfg) s))"
    by (rule seeded)
  define pl where "pl = \<lparr>pl_store = snd (seed_relay_registrations (cf_lib cfg) (cf_registrations cfg) s),
    pl_legacy = \<lparr>lc_tokens = [], lc_clients = []\<rparr>, pl_enrollments = [], pl_claims = [],
    pl_refreshes = [], pl_file = file\<rparr>"
  have written: "process_holds good (Running (written pl))" and plain: "process_holds good (Running pl)"
    using s assms written_holds by (simp_all add: pl_def written_def)
  have final: "process_holds good (Running (snd (load_or_create_legacy now legacy_saved p)))"
    if "process_holds good (Running p)" for p
    using that legacy_loaded by simp
  show ?thesis
    using Inr final [OF written] final [OF plain] plain assms
    by (auto simp: start_control_plane_def split_beta Let_def persist_and_def simp flip: pl_def
        split: sum.split prod.split)
qed

lemma lasts:
  "process_holds good p \<Longrightarrow> requests_meet allowed cfg es p \<Longrightarrow> process_holds good (process_run cfg es p)"
proof (induction es arbitrary: p)
  case (Cons e es)
  have "process_holds good (process_step cfg e p)"
  proof (cases e)
    case (Handle q)
    with Cons.prems show ?thesis by (cases p) (auto intro: handled simp del: process_holds.simps)
  next
    case (Start now seed_saved legacy_saved)
    have "file_holds good (process_file p)" using Cons.prems by (cases p) simp_all
    from started [OF this, of now seed_saved legacy_saved] Start show ?thesis
      by (auto simp del: process_holds.simps(1) split: prod.splits sum.splits)
  qed
  with Cons show ?case by simp
qed simp

end

section \<open>Rows of a map\<close>

lemma find_row_Some: "find_row p m = Some v \<Longrightarrow> p v \<and> v \<in> snd ` set m"
  unfolding find_row_def by (induction m) (auto split: if_splits)

lemma find_row_None: "find_row p m = None \<longleftrightarrow> (\<forall>v \<in> snd ` set m. \<not> p v)"
  unfolding find_row_def by (induction m) (auto split: if_splits)

lemma any_row_iff: "any_row p m \<longleftrightarrow> (\<exists>v \<in> snd ` set m. p v)"
  by (auto simp: any_row_def list_ex_iff)

lemma rows_update: "snd ` set (AList.update k v m) \<subseteq> insert v (snd ` set m)"
  by (induction m) auto

lemma rows_submap: "submap m' m \<Longrightarrow> snd ` set m' \<subseteq> snd ` set m"
  using submap_set by blast

lemma rows_collect: "set (collect_by key rows) \<subseteq> (\<lambda>r. (key r, r)) ` set rows"
proof -
  have upd: "set (AList.update k v m) \<subseteq> insert (k, v) (set m)" for k :: string and v :: 'a and m
    by (induction m) auto
  have "set (fold (\<lambda>row m. AList.update (key row) row m) rows m) \<subseteq> set m \<union> (\<lambda>r. (key r, r)) ` set rows" for m
  proof (induction rows arbitrary: m)
    case (Cons r rows)
    show ?case using Cons [of "AList.update (key r) r m"] upd [of "key r" r m] by auto
  qed simp
  from this [of "[]"] show ?thesis by (simp add: collect_by_def)
qed

lemma from_persisted_Some:
  "from_persisted (to_persisted s) = Some s' \<Longrightarrow>
     cs_registrations s' = collect_by pr_refresh_token_hash (map snd (cs_registrations s)) \<and>
     cs_clients s' = collect_by ci_refresh_token_hash (map snd (cs_clients s)) \<and>
     cs_grants s' = collect_by dg_refresh_token_hash (map snd (cs_grants s)) \<and>
     cs_client_grants s' =
       collect_by (\<lambda>g. client_relay_grant_key (cg_client_id g) (cg_relay_id g)) (map snd (cs_client_grants s))"
  by (auto simp: from_persisted_def to_persisted_def split: if_splits)

lemma rows_reloaded:
  assumes "from_persisted (to_persisted s) = Some s'"
  shows "snd ` set (cs_clients s') \<subseteq> snd ` set (cs_clients s)"
    "snd ` set (cs_grants s') \<subseteq> snd ` set (cs_grants s)"
    "(k, g) \<in> set (cs_grants s') \<Longrightarrow> k = dg_refresh_token_hash g"
    "(k, c) \<in> set (cs_clients s') \<Longrightarrow> k = ci_refresh_token_hash c"
  using from_persisted_Some [OF assms] rows_collect by fastforce+

end
