(* ===== verification/Control_Facts.thy ===== *)
theory Control_Facts
  imports Control_Process Ticket_Facts
begin

text \<open>
  What the control plane promises over any run, restarts included: its store stays well formed and
  is read back from the file as it was written, a relay never has more devices than its limit, a
  revoked device stays out, a rotated token dies at its deadline, and no client identity exists
  that its key did not sign for.
\<close>

section \<open>Well-formed stores\<close>

definition keyed :: "('a \<Rightarrow> string) \<Rightarrow> (string \<times> 'a) list \<Rightarrow> bool" where
  "keyed key m \<longleftrightarrow> distinct (map fst m) \<and> (\<forall>(k, v) \<in> set m. k = key v)"

abbreviation seats :: "control_store \<Rightarrow> (string \<times> string) list" where
  "seats s \<equiv> map (\<lambda>(_, g). (dg_relay_id g, dg_device_id g)) (cs_grants s)"

abbreviation verify_keys :: "control_store \<Rightarrow> string list" where
  "verify_keys s \<equiv> map (\<lambda>(_, c). ci_client_verify_key c) (cs_clients s)"

text \<open>Each row under its own key, one grant for a device of a relay, one identity for a key.\<close>

definition store_wf :: "control_store \<Rightarrow> bool" where
  "store_wf s \<longleftrightarrow> keyed pr_refresh_token_hash (cs_registrations s) \<and>
     keyed ci_refresh_token_hash (cs_clients s) \<and> keyed dg_refresh_token_hash (cs_grants s) \<and>
     keyed (\<lambda>g. client_relay_grant_key (cg_client_id g) (cg_relay_id g)) (cs_client_grants s) \<and>
     distinct (seats s) \<and> distinct (verify_keys s)"

named_theorems wf_intros \<open>what keeps a store well formed\<close>

lemma keyed_submap [wf_intros]: "keyed key m \<Longrightarrow> submap m' m \<Longrightarrow> keyed key m'"
  using submap_distinct submap_set unfolding keyed_def by blast

lemma set_update_keyed: "set (AList.update k v m) \<subseteq> insert (k, v) (set m)"
  by (induction m) auto

lemma keyed_update [wf_intros]: "keyed key m \<Longrightarrow> k = key v \<Longrightarrow> keyed key (AList.update k v m)"
  using set_update_keyed [of k v m] by (fastforce simp: keyed_def distinct_update)

lemma keyed_entry [wf_intros]:
  "keyed key m \<Longrightarrow> (\<And>v. key (f v) = key v) \<Longrightarrow> keyed key (AList.map_entry k f m)"
proof (induction m)
  case (Cons p m)
  have "fst ` set (AList.map_entry k f m) = fst ` set m" by (induction m) auto
  with Cons show ?case by (cases p) (auto simp: keyed_def)
qed simp

lemma map_fst_update_other: "k \<notin> fst ` set m \<Longrightarrow> AList.update k v m = m @ [(k, v)]"
  by (induction m) auto

lemma collect_keyed: "keyed key m \<Longrightarrow> collect_by key (map snd m) = m"
proof -
  have "keyed key (done @ m) \<Longrightarrow>
      fold (\<lambda>row m. AList.update (key row) row m) (map snd m) done = done @ m" for "done"
  proof (induction m arbitrary: "done")
    case (Cons p m)
    obtain k v where p: "p = (k, v)" by (cases p)
    with Cons.prems have "k = key v" "k \<notin> fst ` set done" by (auto simp: keyed_def)
    with Cons.IH [of "done @ [p]"] Cons.prems p show ?case
      by (simp add: map_fst_update_other)
  qed simp
  from this [of "[]"] show "keyed key m \<Longrightarrow> collect_by key (map snd m) = m"
    by (simp add: collect_by_def)
qed

lemma reload_wf:
  assumes "store_wf s" shows "from_persisted (to_persisted s) = Some s"
  using assms by (simp add: store_wf_def from_persisted_def to_persisted_def collect_keyed)

text \<open>An inserted row keeps a column distinct if no other row has its value.\<close>

lemma distinct_update:
  assumes "distinct (map (\<lambda>(_, v). f v) m)" "\<forall>v' \<in> snd ` set m. f v' \<noteq> f v"
  shows "distinct (map (\<lambda>(_, v). f v) (AList.update k v m))"
  using assms
proof (induction m)
  case (Cons p m)
  have "snd ` set (AList.update k v m) \<subseteq> insert v (snd ` set m)" by (rule rows_update)
  then have "f ` snd ` set (AList.update k v m) \<subseteq> insert (f v) (f ` snd ` set m)" by blast
  with Cons show ?case by (cases p) (auto simp: image_iff split_beta)
qed simp

lemma map_column: "map (\<lambda>(_, v). f v) m = map f (map snd m)"
  by (simp add: split_beta)

lemma column_submap: "submap m' m \<Longrightarrow> distinct (map (\<lambda>(_, v). f v) m) \<Longrightarrow> distinct (map (\<lambda>(_, v). f v) m')"
  by (rule submap_distinct)

lemma column_entry:
  "(\<And>v. f (g v) = f v) \<Longrightarrow> map (\<lambda>(_, v). f v) (AList.map_entry k g m) = map (\<lambda>(_, v). f v) m"
  by (induction m) auto

section \<open>Every change keeps a store well formed\<close>

lemma wf_substore: "store_wf s \<Longrightarrow> substore s' s \<Longrightarrow> store_wf s'"
  unfolding store_wf_def substore_def by (blast intro: keyed_submap column_submap)

lemma wf_registration:
  "store_wf s \<Longrightarrow> submap m (cs_registrations s) \<Longrightarrow> store_wf (put_registration r (s\<lparr>cs_registrations := m\<rparr>))"
  unfolding store_wf_def put_registration_def by (auto intro!: keyed_update intro: keyed_submap)

lemma wf_put_grant:
  assumes "store_wf s" "\<forall>g' \<in> snd ` set (cs_grants s).
    (dg_relay_id g', dg_device_id g') \<noteq> (dg_relay_id g, dg_device_id g)"
  shows "store_wf (put_grant g s)"
  using assms distinct_update [of "\<lambda>g. (dg_relay_id g, dg_device_id g)" "cs_grants s" g]
  by (simp add: store_wf_def put_grant_def keyed_update)

lemma wf_put_client:
  assumes "store_wf s" "\<forall>c' \<in> snd ` set (cs_clients s). ci_client_verify_key c' \<noteq> ci_client_verify_key c"
  shows "store_wf (put_client c s)"
  using assms distinct_update [of ci_client_verify_key "cs_clients s" c]
  by (simp add: store_wf_def put_client_def keyed_update)

lemma rows_drop: "snd ` set (drop_rows p m) = {v \<in> snd ` set m. \<not> p v}"
  by (force simp: drop_rows_def)

lemma wf_replace_grant: "store_wf s \<Longrightarrow> store_wf (replace_device_grant lib grace now r device token s)"
  unfolding replace_device_grant_def Let_def
  by (rule wf_put_grant)
    (auto intro: wf_substore simp: substore_def removal_defs rows_drop matches_optional_relay_target_def)

lemma column_inj: "distinct (map (\<lambda>(_, v). f v) m) \<Longrightarrow> a \<in> snd ` set m \<Longrightarrow> b \<in> snd ` set m \<Longrightarrow> f a = f b \<Longrightarrow> a = b"
  unfolding map_column distinct_map by (auto dest: inj_onD)

lemma find_SomeD: "find p xs = Some x \<Longrightarrow> x \<in> set xs \<and> p x"
  by (induction xs) (auto split: if_splits)

lemma set_drop [simp]: "(k, v) \<in> set (drop_rows p m) \<longleftrightarrow> (k, v) \<in> set m \<and> \<not> p v"
  by (auto simp: drop_rows_def)

lemma client_of_id_Some: "client_identity_for_id s i = Some c \<Longrightarrow> c \<in> snd ` set (cs_clients s)"
  unfolding client_identity_for_id_def by (drule find_row_Some) simp

lemma client_of_key_Some:
  "client_identity_for_verify_key s key = Some c \<Longrightarrow> c \<in> snd ` set (cs_clients s) \<and> ci_client_verify_key c = key"
  unfolding client_identity_for_verify_key_def by (drule find_row_Some) simp

lemma client_of_token:
  "find_client_identity_for_token s h now = Some (k, c) \<Longrightarrow> (k, c) \<in> set (cs_clients s)"
  by (auto simp: find_client_identity_for_token_def dest!: map_of_SomeD find_SomeD split: option.splits)

lemma grant_of_token:
  "find_device_grant_for_token s h now = Some (k, g) \<Longrightarrow> (k, g) \<in> set (cs_grants s)"
  by (auto simp: find_device_grant_for_token_def dest!: map_of_SomeD find_SomeD split: option.splits)

lemma wf_rotate_client:
  assumes "store_wf s" "c \<in> snd ` set (cs_clients s)"
  shows "store_wf (snd (rotate_client_identity lib key c now grace t40 s))"
proof -
  have "distinct (verify_keys s)" using assms(1) by (simp add: store_wf_def)
  then have "ci_client_verify_key c' \<noteq> ci_client_verify_key c"
    if "c' \<in> snd ` set (cs_clients s)" "ci_client_id c' \<noteq> ci_client_id c" for c'
    using column_inj [of ci_client_verify_key "cs_clients s" c' c] that assms(2) by auto
  with assms(1) show ?thesis
    unfolding rotate_client_identity_def Let_def snd_conv
    by (intro wf_put_client) (auto intro: wf_substore simp: substore_def removal_defs rows_drop)
qed

lemma wf_claimed:
  assumes "store_wf s" shows "store_wf (claimed cfg created t40 claim s)"
proof -
  have client: "store_wf (snd (issue_or_rotate_client_identity lib key vk label created grace t40 s))" for lib key vk label grace
  proof (cases "client_identity_for_verify_key s vk")
    case None
    then have "\<forall>c' \<in> snd ` set (cs_clients s). ci_client_verify_key c' \<noteq> vk"
      by (simp add: client_identity_for_verify_key_def find_row_None)
    with None assms show ?thesis
      by (auto simp: issue_or_rotate_client_identity_def Let_def intro!: wf_put_client)
  next
    case (Some c)
    have vks: "distinct (verify_keys s)" using assms by (simp add: store_wf_def)
    have "ci_client_verify_key c' \<noteq> vk" if "c' \<in> snd ` set (cs_clients s)" "ci_client_id c' \<noteq> ci_client_id c" for c'
      using column_inj [OF vks, of c' c] client_of_key_Some [OF Some] that by auto
    then have rest: "\<forall>c' \<in> snd ` set (drop_rows (\<lambda>c'. ci_client_id c' = ci_client_id c) (cs_clients s)).
        ci_client_verify_key c' \<noteq> vk"
      by (simp add: rows_drop)
    show ?thesis
      unfolding issue_or_rotate_client_identity_def Let_def Some option.case prod.case snd_conv
      by (intro wf_put_client wf_substore [OF assms])
        (use rest in \<open>simp_all add: substore_def removal_defs\<close>)
  qed
  have "store_wf (upsert_client_relay_grant g s')" if "store_wf s'" for g s'
    using that by (simp add: store_wf_def upsert_client_relay_grant_def keyed_update)
  with client show ?thesis by (simp add: claimed_def split_beta)
qed

lemma grants_rotate [simp]:
  "cs_grants (snd (rotate_client_identity lib key c now grace t40 s)) = cs_grants s"
  by (simp add: rotate_client_identity_def Let_def put_client_def removal_defs)

lemma grants_claimed [simp]: "cs_grants (claimed cfg created t40 claim s) = cs_grants s"
  by (simp add: claimed_def issue_or_rotate_client_identity_def Let_def put_client_def
      upsert_client_relay_grant_def removal_defs split: option.split)

lemma refresh_device_Inr:
  "refresh_device_for_client s client_id room = Inr (g, r) \<Longrightarrow>
     g \<in> snd ` set (cs_grants s) \<and> dg_broker_room_id g = room"
  by (auto simp: refresh_device_for_client_def dest!: find_row_Some split: option.splits)

lemma wf_rotate_device:
  assumes "store_wf s" "g \<in> snd ` set (cs_grants s)"
  shows "store_wf (rotate_device lib grace now g token s)"
proof -
  have keys: "keyed dg_refresh_token_hash (cs_grants s)" and seats: "distinct (seats s)"
    using assms(1) by (simp_all add: store_wf_def)
  have "(dg_relay_id g', dg_device_id g') \<noteq> (dg_relay_id g, dg_device_id g)"
    if "(k, g') \<in> set (AList.delete (dg_refresh_token_hash g) (cs_grants s))" for k g'
  proof
    assume same: "(dg_relay_id g', dg_device_id g') = (dg_relay_id g, dg_device_id g)"
    from that have in_s: "(k, g') \<in> set (cs_grants s)" and other: "k \<noteq> dg_refresh_token_hash g"
      by (auto simp: AList.delete_eq)
    from column_inj [OF seats, of g' g] in_s assms(2) same have "g' = g" by force
    with keys in_s other show False by (auto simp: keyed_def)
  qed
  with assms(1) show ?thesis
    unfolding rotate_device_def
    by (intro wf_put_grant) (auto intro: wf_substore simp: substore_def)
qed

lemma wf_change: "store_wf s \<Longrightarrow> store_change cfg q pl s s' \<Longrightarrow> store_wf s'"
proof (erule store_change.cases, goal_cases)
  case 6
  then show ?case
    by (auto intro!: wf_rotate_device wf_rotate_client dest: client_of_id_Some refresh_device_Inr)
next
  case 7
  then show ?case by (auto simp: touched_def store_wf_def keyed_entry column_entry)
next
  case 4
  then show ?case by (auto intro!: wf_rotate_client dest!: client_of_token) force
qed (auto intro: wf_substore wf_replace_grant wf_claimed wf_rotate_client wf_registration
    dest: client_of_id_Some)

interpretation well_formed: lasting_property cfg store_wf "\<lambda>_ _. True" for cfg
proof unfold_locales
  show "store_wf default_store" by (simp add: store_wf_def default_store_def keyed_def)
  show "store_wf (put_registration r s)" if "store_wf s" for r s
    using wf_registration [OF that submap_refl] by simp
  show "store_wf (s\<lparr>cs_legacy := l\<rparr>)" if "store_wf s" for s l
    using that by (simp add: store_wf_def)
qed (auto intro: wf_change simp: reload_wf)

section \<open>Device grants\<close>

abbreviation grants_of :: "control_store \<Rightarrow> persisted_grant set" where
  "grants_of s \<equiv> snd ` set (cs_grants s)"

definition grant_seat :: "persisted_grant \<Rightarrow> string \<times> string \<times> string" where
  "grant_seat g = (dg_relay_id g, dg_broker_room_id g, dg_device_id g)"

text \<open>The seat that a request asks for.\<close>

fun issues_to :: "control_request \<Rightarrow> (string \<times> string \<times> string) option" where
  "issues_to (Q_Issue_Device _ _ _ _ _ _ relay room device _) = Some (relay, room, device)"
| "issues_to _ = None"

lemma authenticated_ids:
  "authenticate_relay cfg pl bearer relay room = Inr r \<Longrightarrow>
     pr_relay_id r = relay \<and> pr_broker_room_id r = room"
  by (auto simp: authenticate_relay_def split: option.splits if_splits)

lemma grants_put: "grants_of (put_grant g s) \<subseteq> insert g (grants_of s)"
  by (simp add: put_grant_def rows_update)

lemma grants_replaced:
  "g' \<in> grants_of (replace_device_grant lib grace now r device token s) \<Longrightarrow>
     g' \<in> grants_of s \<or> grant_seat g' = (pr_relay_id r, pr_broker_room_id r, device)"
  unfolding replace_device_grant_def Let_def
  by (drule subsetD [OF grants_put]) (auto simp: removal_defs grant_seat_def)

lemma grants_rotated:
  "g' \<in> grants_of (rotate_device lib grace now g token s) \<Longrightarrow>
     g' \<in> grants_of s \<or> grant_seat g' = grant_seat g"
  unfolding rotate_device_def
  by (drule subsetD [OF grants_put]) (auto simp: grant_seat_def AList.delete_eq)

lemma grants_touched:
  "g' \<in> grants_of (touched k now s) \<Longrightarrow> grant_seat g' \<in> grant_seat ` grants_of s"
proof -
  have "grant_seat ` snd ` set (AList.map_entry k (\<lambda>g. g\<lparr>dg_last_seen := Some now\<rparr>) m) =
      grant_seat ` snd ` set m" for m
    by (induction m) (auto simp: grant_seat_def image_iff)
  then show "g' \<in> grants_of (touched k now s) \<Longrightarrow> grant_seat g' \<in> grant_seat ` grants_of s"
    by (force simp: touched_def)
qed

lemma change_seats:
  assumes "store_change cfg q pl s s'" "g' \<in> grants_of s'"
  shows "grant_seat g' \<in> grant_seat ` grants_of s \<or> issues_to q = Some (grant_seat g')"
  using assms
proof cases
  case pruned
  then have "grants_of s' \<subseteq> grants_of s" by (simp add: substore_def rows_submap)
  with assms(2) show ?thesis by blast
next
  case (granted bearer relay room r limit device token)
  have "issues_to q = Some (relay, room, device)" "pr_relay_id r = relay" "pr_broker_room_id r = room"
    using granted authenticated_ids [OF granted(3)] by simp_all
  with assms(2) [unfolded granted(2)] grants_replaced [of g'] show ?thesis by (metis imageI)
next
  case (refreshed_both client_id c room g r token)
  have "g \<in> grants_of s" using refresh_device_Inr [OF refreshed_both(4)] by simp
  with grants_rotated [OF assms(2) [unfolded refreshed_both(2)]] show ?thesis by (auto simp: image_iff)
next
  case touch
  with assms(2) grants_touched show ?thesis by blast
qed (use assms(2) in \<open>auto simp: put_registration_def\<close>)

definition seat_free :: "string \<times> string \<times> string \<Rightarrow> control_store \<Rightarrow> bool" where
  "seat_free seat s \<longleftrightarrow> seat \<notin> grant_seat ` grants_of s"

interpretation freed: lasting_property cfg "seat_free seat" "\<lambda>q _. issues_to q \<noteq> Some seat" for cfg seat
proof unfold_locales
  show "seat_free seat s'" if "seat_free seat s" "issues_to q \<noteq> Some seat" "store_change cfg q pl s s'"
    for s q pl s'
    using change_seats [OF that(3)] that(1,2) unfolding seat_free_def by (metis imageE)
  show "seat_free seat s'" if "seat_free seat s" "from_persisted (to_persisted s) = Some s'" for s s'
    using that rows_reloaded(2) unfolding seat_free_def by blast
qed (simp_all add: seat_free_def default_store_def put_registration_def)

lemma seat_free_no_grant: "seat_free (relay, room, device) s \<Longrightarrow> \<not> has_device_grant s relay (Some room) device"
  by (force simp: seat_free_def has_device_grant_def any_row_iff matches_optional_relay_target_def
      grant_seat_def)

lemma requests_meet_all:
  "(\<And>q pl. Handle q \<in> set es \<Longrightarrow> allowed q pl) \<Longrightarrow> requests_meet allowed cfg es p"
  by (induction es arbitrary: p) (auto split: control_event.split control_process.split)

lemma revoke_removes:
  assumes "revoke_device_grant cfg saved bearer device relay room pl = (Inr (True, n), pl')"
  shows "process_holds (seat_free (relay, room, device)) (Running pl')"
proof -
  obtain r where r: "authenticate_relay cfg pl bearer relay room = Inr r"
    using assms by (auto simp: revoke_device_grant_def split: sum.splits)
  define s where "s = snd (remove_client_relay_grants relay (Some room) (Some device)
    (snd (remove_device_grants relay (Some room) (Some device) (pl_store pl))))"
  have "pl' = written (with_store s pl)"
    using assms r authenticated_ids [OF r]
    by (auto simp: revoke_device_grant_def split_beta Let_def persist_and_def s_def split: if_splits)
  moreover have "seat_free (relay, room, device) s"
    by (auto simp: seat_free_def s_def removal_defs rows_drop grant_seat_def matches_optional_relay_target_def)
  ultimately show ?thesis
    using freed.written_holds by (simp add: written_def)
qed

lemma found_grant: "find_device cfg now pl bearer = Some (k, g) \<Longrightarrow> g \<in> grants_of (pl_store pl)"
  by (force simp: find_device_def find_credential_def dest: grant_of_token split: if_splits)

text \<open>
  C31. Revoking a device is final: once a revocation has reported that it revoked a grant, no bearer
  is taken for that device and no socket of it is admitted to the room, whatever requests and
  restarts follow and whatever challenges were pending, until a grant for that device is requested
  again.
\<close>

theorem revoked_device_stays_out:
  assumes "revoke_device_grant cfg saved bearer device relay room pl = (Inr (True, n), pl')"
    and "\<forall>q. Handle q \<in> set es \<longrightarrow> issues_to q \<noteq> Some (relay, room, device)"
    and "process_run cfg es (Running pl') = Running later"
  shows "(\<forall>now token k g. find_device cfg now later token = Some (k, g) \<longrightarrow>
      grant_seat g \<noteq> (relay, room, device)) \<and>
    relay_id_for_join later room (Some device) \<noteq> Inr relay"
proof (intro conjI allI impI)
  have "requests_meet (\<lambda>q _. issues_to q \<noteq> Some (relay, room, device)) cfg es (Running pl')"
    using assms(2) by (intro requests_meet_all) simp
  from freed.lasts [OF revoke_removes [OF assms(1)] this] assms(3)
  have free: "seat_free (relay, room, device) (pl_store later)" by simp
  show "grant_seat g \<noteq> (relay, room, device)" if "find_device cfg now later token = Some (k, g)"
    for now token k g
    using free found_grant [OF that] unfolding seat_free_def by (metis imageI)
  show "relay_id_for_join later room (Some device) \<noteq> Inr relay"
    using seat_free_no_grant [OF free] by (auto simp: relay_id_for_join_def split: option.split)
qed

text \<open>
  The file is not saved again when a revocation is repeated: the first one has already emptied the
  memory, so the second removes nothing and reports success.
\<close>

lemma authenticate_relay_cong:
  "cs_registrations (pl_store pl') = cs_registrations (pl_store pl) \<Longrightarrow> pl_legacy pl' = pl_legacy pl \<Longrightarrow>
     authenticate_relay cfg pl' bearer relay room = authenticate_relay cfg pl bearer relay room"
  by (simp add: authenticate_relay_def find_credential_def)

lemma remove_again [simp]: "count_rows p (drop_rows p m) = 0" "drop_rows p (drop_rows p m) = drop_rows p m"
  by (simp_all add: count_rows_def rows_drop [symmetric] drop_rows_def filter_empty_conv)

text \<open>
  C40. A revocation whose save fails leaves a trap: asking again answers success without another
  save, so the file still names the device and the next start serves it again.
\<close>

theorem retried_revocation_not_saved:
  assumes "revoke_device_grant cfg False bearer device relay room pl = (Inl Save_Failed, pl1)"
  shows "\<exists>pl2. revoke_device_grant cfg saved bearer device relay room pl1 = (Inr (False, 0), pl2) \<and>
    pl_store pl2 = pl_store pl1 \<and> pl_file pl2 = pl_file pl \<and>
    (store_wf (pl_store pl) \<longrightarrow> pl_file pl = Some (to_persisted (pl_store pl)) \<longrightarrow>
      load_control_state (pl_file pl2) = Inr (pl_store pl))"
proof -
  obtain r where r: "authenticate_relay cfg pl bearer relay room = Inr r"
    using assms by (cases "authenticate_relay cfg pl bearer relay room")
      (auto simp: revoke_device_grant_def authenticate_relay_def split: option.splits if_splits)
  define s where "s = snd (remove_client_relay_grants relay (Some room) (Some device)
    (snd (remove_device_grants relay (Some room) (Some device) (pl_store pl))))"
  have pl1: "pl1 = with_store s pl"
    using assms r authenticated_ids [OF r]
    by (auto simp: revoke_device_grant_def split_beta Let_def persist_and_def s_def split: if_splits)
  have "authenticate_relay cfg pl1 bearer relay room = Inr r"
    using r authenticate_relay_cong [of pl1 pl] by (simp add: pl1 s_def removal_defs)
  moreover have "remove_device_grants relay (Some room) (Some device) s = (0, s)"
    "remove_client_relay_grants relay (Some room) (Some device) s = (0, s)"
    by (simp_all add: s_def removal_defs)
  ultimately have "revoke_device_grant cfg saved bearer device relay room pl1 = (Inr (False, 0), pl1)"
    using authenticated_ids [OF r] by (simp add: revoke_device_grant_def pl1)
  then show ?thesis
    using reload_wf by (simp add: pl1 load_control_state_def)
qed

section \<open>The device limit\<close>

lemma count_submap: "submap m' m \<Longrightarrow> count_rows p m' \<le> count_rows p m"
proof -
  have "length (filter p (map snd (filter q m))) \<le> length (filter p (map snd m))" for q
    by (induction m) auto
  then show "submap m' m \<Longrightarrow> count_rows p m' \<le> count_rows p m"
    by (auto simp: submap_def count_rows_def)
qed

lemma count_update: "count_rows p (AList.update k v m) \<le> count_rows p m + (if p v then 1 else 0)"
  unfolding count_rows_def by (induction m) auto

lemma count_less:
  assumes "(k, v) \<in> set m" "p v" "\<not> q (k, v)"
  shows "count_rows p (filter q m) < count_rows p m"
  using assms
proof (induction m)
  case (Cons x m)
  have "count_rows p (filter q m) \<le> count_rows p m" by (rule count_submap) simp
  with Cons show ?case by (auto simp: count_rows_def)
qed simp

lemma count_entry:
  "(\<And>v. p (f v) = p v) \<Longrightarrow> count_rows p (AList.map_entry k f m) = count_rows p m"
  unfolding count_rows_def by (induction m) auto

lemmas count_device_defs = count_device_grants_for_relay_def

lemma count_put:
  "count_device_grants_for_relay (put_grant g s) relay \<le>
     count_device_grants_for_relay s relay + (if dg_relay_id g = relay then 1 else 0)"
  using count_update [of "\<lambda>g. dg_relay_id g = relay" "dg_refresh_token_hash g" g "cs_grants s"]
  by (simp add: put_grant_def count_device_defs)

lemma count_replaced:
  assumes "device_limit_reached limit (pr_relay_id r) device s = None"
    and "pr_relay_id r = relay \<longrightarrow> (\<exists>l. limit = Some l \<and> unat l \<le> bound)"
    and "count_device_grants_for_relay s relay \<le> bound"
  shows "count_device_grants_for_relay (replace_device_grant lib grace now r device token s) relay \<le> bound"
proof -
  define rest where "rest = cs_grants (snd (remove_device_grants (pr_relay_id r) None (Some device) s))"
  let ?count = "count_rows (\<lambda>g. dg_relay_id g = relay)"
  have rest_le: "?count rest \<le> ?count (cs_grants s)"
    by (simp add: rest_def removal_defs count_submap)
  have new: "count_device_grants_for_relay (replace_device_grant lib grace now r device token s) relay \<le>
      ?count rest + (if pr_relay_id r = relay then 1 else 0)"
    unfolding replace_device_grant_def Let_def rest_def
    by (rule order_trans [OF count_put]) (simp add: count_device_defs)
  show ?thesis
  proof (cases "pr_relay_id r = relay")
    case False
    with new rest_le assms(3) show ?thesis by (simp add: count_device_defs)
  next
    case relay: True
    show ?thesis
    proof (cases "has_device_grant s relay None device")
      case True
      then obtain k g where "(k, g) \<in> set (cs_grants s)" "dg_relay_id g = relay" "dg_device_id g = device"
        by (auto simp: has_device_grant_def any_row_iff matches_optional_relay_target_def)
      then have "?count rest < ?count (cs_grants s)"
        unfolding rest_def removal_defs drop_rows_def
        by (auto simp: relay matches_optional_relay_target_def intro: count_less)
      with new relay assms(3) show ?thesis by (simp add: count_device_defs)
    next
      case False
      with relay assms(1,2) have "?count (cs_grants s) < bound"
        by (auto simp: device_limit_reached_def count_device_defs split: if_splits)
      with new relay rest_le show ?thesis by simp
    qed
  qed
qed

lemma count_rotated:
  assumes "store_wf s" "g \<in> grants_of s"
  shows "count_device_grants_for_relay (rotate_device lib grace now g token s) relay \<le>
    count_device_grants_for_relay s relay"
proof -
  obtain k where k: "(k, g) \<in> set (cs_grants s)" "k = dg_refresh_token_hash g"
    using assms by (force simp: store_wf_def keyed_def)
  let ?count = "count_rows (\<lambda>g. dg_relay_id g = relay)"
  have "?count (AList.delete k (cs_grants s)) \<le> ?count (cs_grants s)"
    by (rule count_submap) simp
  moreover have "?count (AList.delete k (cs_grants s)) < ?count (cs_grants s)" if "dg_relay_id g = relay"
    using k(1) that unfolding AList.delete_eq by (auto intro: count_less)
  moreover have "count_device_grants_for_relay (rotate_device lib grace now g token s) relay \<le>
      ?count (AList.delete k (cs_grants s)) + (if dg_relay_id g = relay then 1 else 0)"
    unfolding rotate_device_def k(2)
    by (rule order_trans [OF count_put]) (simp add: count_device_defs)
  ultimately show ?thesis by (auto simp: count_device_defs split: if_splits)
qed

text \<open>A request for a device of this relay carries a limit within the bound.\<close>

fun asks_within :: "string \<Rightarrow> nat \<Rightarrow> control_request \<Rightarrow> bool" where
  "asks_within relay bound (Q_Issue_Device _ _ _ _ _ _ relay' _ _ limit) \<longleftrightarrow>
     (relay' = relay \<longrightarrow> (\<exists>l. limit = Some l \<and> unat l \<le> bound))"
| "asks_within relay bound _ \<longleftrightarrow> True"

definition within_limit :: "string \<Rightarrow> nat \<Rightarrow> control_store \<Rightarrow> bool" where
  "within_limit relay bound s \<longleftrightarrow> store_wf s \<and> count_device_grants_for_relay s relay \<le> bound"

lemma within_change:
  assumes "within_limit relay bound s" "asks_within relay bound q" "store_change cfg q pl s s'"
  shows "within_limit relay bound s'"
proof -
  have wf: "store_wf s'" and wf_s: "store_wf s" and le: "count_device_grants_for_relay s relay \<le> bound"
    using assms(1) wf_change [OF _ assms(3)] by (simp_all add: within_limit_def)
  from assms(3) have "count_device_grants_for_relay s' relay \<le> bound"
  proof cases
    case pruned
    then have "submap (cs_grants s') (cs_grants s)" by (simp add: substore_def)
    then have "count_device_grants_for_relay s' relay \<le> count_device_grants_for_relay s relay"
      unfolding count_device_defs by (rule count_submap)
    with le show ?thesis by simp
  next
    case (granted bearer relay' room r limit device token)
    then have "pr_relay_id r = relay \<longrightarrow> (\<exists>l. limit = Some l \<and> unat l \<le> bound)"
      using assms(2) authenticated_ids [OF granted(3)] by simp
    then show ?thesis unfolding granted(2) by (rule count_replaced [OF granted(4) _ le])
  next
    case (refreshed_both client_id c room g r token)
    have "store_wf (snd (rotate_client_identity (cf_lib cfg) (cf_key cfg) c now grace t s))" for now grace t
      using wf_rotate_client [OF wf_s client_of_id_Some [OF refreshed_both(3)]] .
    then have "count_device_grants_for_relay s' relay \<le> count_device_grants_for_relay s relay"
      unfolding refreshed_both(2) using refresh_device_Inr [OF refreshed_both(4)]
      by (intro order_trans [OF count_rotated]) (simp_all add: count_device_defs)
    with le show ?thesis by simp
  next
    case touch
    then show ?thesis using le by (simp add: touched_def count_device_defs count_entry)
  qed (use le in \<open>auto simp: count_device_defs put_registration_def\<close>)
  with wf show ?thesis by (simp add: within_limit_def)
qed

interpretation capped: lasting_property cfg "within_limit relay bound" "\<lambda>q _. asks_within relay bound q"
  for cfg relay bound
proof unfold_locales
  show "within_limit relay bound (put_registration r s)" if "within_limit relay bound s" for r s
    using that well_formed.seed by (simp add: within_limit_def count_device_defs put_registration_def)
  show "within_limit relay bound default_store"
    using well_formed.empty_store by (simp add: within_limit_def count_device_defs count_rows_def default_store_def)
  show "within_limit relay bound (s\<lparr>cs_legacy := l\<rparr>)" if "within_limit relay bound s" for s l
    using that well_formed.legacy by (simp add: within_limit_def count_device_defs)
  show "within_limit relay bound s'"
    if "within_limit relay bound s" "asks_within relay bound q" "store_change cfg q pl s s'" for s q pl s'
    using that by (rule within_change)
qed (auto simp: within_limit_def reload_wf)

text \<open>
  C34. The device limit holds over any history of the process, restarts and failed saves included:
  if every request for a device of a relay carries a limit of at most a bound, and the relay starts
  with at most that many devices, it never has more. Re-registrations, refreshes, rotations and
  revocations do not add a seat, and no two grants are ever for the same device of a relay.
\<close>

theorem devices_within_limit:
  assumes "process_holds (within_limit relay bound) p"
    and "\<forall>q. Handle q \<in> set es \<longrightarrow> asks_within relay bound q"
    and "process_run cfg es p = Running pl"
  shows "count_device_grants_for_relay (pl_store pl) relay \<le> bound \<and> distinct (seats (pl_store pl))"
proof -
  have "requests_meet (\<lambda>q _. asks_within relay bound q) cfg es p"
    using assms(2) by (intro requests_meet_all) simp
  from capped.lasts [OF assms(1) this] assms(3) show ?thesis
    by (simp add: within_limit_def store_wf_def)
qed

lemma device_limit_refusal:
  assumes "issue_device_grant cfg created later saved t40 nonce bearer relay room device limit pl =
    (Inl (Device_Limit_Reached l), pl')"
  shows "pl' = pl \<and> limit = Some l \<and> \<not> has_device_grant (pl_store pl) relay None device \<and>
    unat l \<le> count_device_grants_for_relay (pl_store pl) relay"
proof (cases "authenticate_relay cfg pl bearer relay room")
  case (Inl e)
  with assms show ?thesis
    by (auto simp: issue_device_grant_def authenticate_relay_def split: option.splits if_splits)
next
  case (Inr r)
  have no_ticket: "issue_device_ws_token_for_registration cfg later nonce room device \<noteq> Inl (Device_Limit_Reached l)"
    by (auto simp: issue_device_ws_token_for_registration_def Let_def split: sum.split)
  show ?thesis
  proof (cases "device_limit_reached limit relay device (pl_store pl)")
    case None
    with assms Inr authenticated_ids [OF Inr] no_ticket show ?thesis
      by (auto simp: issue_device_grant_def Let_def persist_and_def map_sum_def
          split: if_splits sum.splits)
  next
    case (Some x)
    with assms Inr authenticated_ids [OF Inr] show ?thesis
      by (auto simp: issue_device_grant_def device_limit_reached_def split: if_splits option.splits)
  qed
qed

section \<open>The file\<close>

text \<open>
  Over any run from an empty file the store is well formed: each row stands under its own key,
  a device of a relay has one grant and a verify key one identity. So a start reads back from the
  file exactly the store that was saved.
\<close>

theorem control_store_roundtrip:
  assumes "process_run cfg es (Down None) = Running pl"
  shows "store_wf (pl_store pl) \<and>
    load_control_state (Some (to_persisted (pl_store pl))) = Inr (pl_store pl)"
proof -
  have "requests_meet (\<lambda>_ _. True) cfg es (Down None)" by (rule requests_meet_all) simp
  moreover have "process_holds store_wf (Down None)" by (simp add: file_holds_def)
  ultimately have "process_holds store_wf (Running pl)"
    using well_formed.lasts assms by metis
  then show ?thesis by (simp add: load_control_state_def reload_wf)
qed

section \<open>Release of a registration\<close>

lemma in_delete: "(k, v) \<in> set (AList.delete k' m) \<longleftrightarrow> (k, v) \<in> set m \<and> k \<noteq> k'"
  by (auto simp: AList.delete_eq)

lemma keyed_row: "keyed key m \<Longrightarrow> (k, v) \<in> set m \<Longrightarrow> map_of m k = Some v"
  by (simp add: keyed_def)

lemma cut_cleared: "target_access_fully_cleared (cut_registration_chain h relay room s) relay room"
  by (auto simp: target_access_fully_cleared_def cut_registration_chain_def any_row_iff removal_defs
      matches_optional_relay_target_def)

lemma cut_registrations:
  assumes "keyed pr_refresh_token_hash (cs_registrations s)" "map_of (cs_registrations s) h = Some r"
    "pr_relay_id r = relay" "pr_broker_room_id r = room"
  shows "cs_registrations (cut_registration_chain h relay room s) =
    drop_rows (\<lambda>r. pr_relay_id r = relay \<and> pr_broker_room_id r = room) (cs_registrations s)"
proof -
  have same: "v = r" if "(h, v) \<in> set (cs_registrations s)" for v
    using keyed_row [OF assms(1) that] assms(2) by simp
  have "filter (\<lambda>(_, r). \<not> (pr_relay_id r = relay \<and> pr_broker_room_id r = room))
      (filter (\<lambda>(k, _). k \<noteq> h) (cs_registrations s)) =
    filter (\<lambda>(_, r). \<not> (pr_relay_id r = relay \<and> pr_broker_room_id r = room)) (cs_registrations s)"
    unfolding filter_filter by (rule filter_cong) (use same assms(3,4) in auto)
  then show ?thesis
    by (simp add: cut_registration_chain_def removal_defs drop_rows_def AList.delete_eq split_beta
        eq_commute [of h])
qed

text \<open>
  Releasing a relay is all or nothing: on any error, a failed save included, nothing has
  changed. On success the registration, the device grants and the client grants of this relay and
  room are gone from memory and file, every other row is as before, and the bearer that asked
  authenticates no more.
\<close>

theorem release_all_or_nothing:
  assumes "revoke_relay_registration_chain cfg saved bearer relay room pl = (res, pl')"
    and "store_wf (pl_store pl)"
  shows "(case res of
      Inl e \<Rightarrow> pl' = pl
    | Inr _ \<Rightarrow>
        (let s = pl_store pl
         in pl_file pl' = Some (to_persisted (pl_store pl')) \<and>
            pl_store pl' = s
              \<lparr>cs_registrations := drop_rows (\<lambda>r. pr_relay_id r = relay \<and> pr_broker_room_id r = room)
                 (cs_registrations s),
               cs_grants := drop_rows (\<lambda>g. dg_relay_id g = relay \<and> dg_broker_room_id g = room)
                 (cs_grants s),
               cs_client_grants := drop_rows (\<lambda>g. cg_relay_id g = relay \<and> cg_broker_room_id g = room)
                 (cs_client_grants s)\<rparr> \<and>
            authenticate_relay cfg pl' bearer relay room = Inl Relay_Token_Invalid))"
proof (cases res)
  case (Inl e)
  with assms(1) show ?thesis
    by (auto simp: revoke_relay_registration_chain_def Let_def persist_and_def
        split: option.splits if_splits)
next
  case (Inr u)
  let ?h = "bearer_hash cfg bearer" and ?s = "pl_store pl"
  have keys: "keyed pr_refresh_token_hash (cs_registrations ?s)"
    using assms(2) by (simp add: store_wf_def)
  from assms(1) Inr obtain r where r: "map_of (cs_registrations ?s) ?h = Some r"
    "pr_relay_id r = relay" "pr_broker_room_id r = room"
    and pl': "pl' = written (with_store (cut_registration_chain ?h relay room ?s) pl)"
    by (auto simp: revoke_relay_registration_chain_def Let_def persist_and_def
        split: option.splits if_splits)
  note regs = cut_registrations [OF keys r]
  have gone: "map_of (cs_registrations (cut_registration_chain ?h relay room ?s)) ?h = None"
    unfolding regs using keyed_row [OF keys, of ?h] r by (auto simp: map_of_eq_None_iff)
  have "cut_registration_chain ?h relay room ?s = ?s
      \<lparr>cs_registrations := cs_registrations (cut_registration_chain ?h relay room ?s),
       cs_grants := drop_rows (\<lambda>g. dg_relay_id g = relay \<and> dg_broker_room_id g = room) (cs_grants ?s),
       cs_client_grants := drop_rows (\<lambda>g. cg_relay_id g = relay \<and> cg_broker_room_id g = room)
         (cs_client_grants ?s)\<rparr>"
    by (simp add: cut_registration_chain_def removal_defs matches_optional_relay_target_def conj_commute eq_commute)
  with gone regs Inr show ?thesis
    by (simp add: pl' written_def Let_def authenticate_relay_def find_credential_def)
qed

section \<open>Fresh ids\<close>

definition drawn_relay :: "string \<times> string \<Rightarrow> string" where
  "drawn_relay d = ''relay-'' @ map ascii_lower (fst d)"
definition drawn_room :: "string \<times> string \<Rightarrow> string" where
  "drawn_room d = ''room-'' @ map ascii_lower (snd d)"

definition ids_taken :: "control_store \<Rightarrow> string \<times> string \<Rightarrow> bool" where
  "ids_taken s d \<longleftrightarrow> any_row (\<lambda>r. pr_relay_id r = drawn_relay d \<or> pr_broker_room_id r = drawn_room d)
     (cs_registrations s)"

lemma issue_new_relay_ids_Some:
  "issue_new_relay_ids s draws =
     map_option (\<lambda>d. (drawn_relay d, drawn_room d)) (find (\<lambda>d. \<not> ids_taken s d) draws)"
  by (induction draws) (auto simp: ids_taken_def Let_def drawn_relay_def drawn_room_def)

lemma card_taken:
  assumes "\<forall>d \<in> D. ids_taken s d" "inj_on drawn_relay D" "inj_on drawn_room D"
  shows "card D \<le> 2 * length (cs_registrations s)"
proof -
  let ?relays = "pr_relay_id ` snd ` set (cs_registrations s)"
  let ?rooms = "pr_broker_room_id ` snd ` set (cs_registrations s)"
  have small: "card (f ` snd ` set (cs_registrations s)) \<le> length (cs_registrations s)" for f :: "persisted_registration \<Rightarrow> string"
    by (metis card_image_le card_length finite_imageI finite_set le_trans)
  define A B where "A = {d \<in> D. drawn_relay d \<in> ?relays}" and "B = {d \<in> D. drawn_room d \<in> ?rooms}"
  have "card A \<le> card ?relays" "card B \<le> card ?rooms"
    using card_inj_on_le [of drawn_relay A ?relays] card_inj_on_le [of drawn_room B ?rooms]
      inj_on_subset [OF assms(2), of A] inj_on_subset [OF assms(3), of B]
    by (auto simp: A_def B_def)
  moreover have "D = A \<union> B"
  proof (intro equalityI subsetI)
    fix d assume d: "d \<in> D"
    with assms(1) obtain r where "r \<in> snd ` set (cs_registrations s)"
      "drawn_relay d = pr_relay_id r \<or> drawn_room d = pr_broker_room_id r"
      unfolding ids_taken_def any_row_iff by metis
    with d show "d \<in> A \<union> B" by (auto simp: A_def B_def)
  qed (auto simp: A_def B_def)
  ultimately have "card D \<le> card ?relays + card ?rooms" using card_Un_le [of A B] by auto
  with small [of pr_relay_id] small [of pr_broker_room_id] show ?thesis by linarith
qed

text \<open>
  C38. The search of an enrolment for free ids ends: each registration can spoil at most two draws, so
  among more than twice as many draws as there are registrations, no two of which agree in an id,
  one is free. The ids that it returns are used by no registration.
\<close>

theorem fresh_ids_found:
  assumes "distinct (map drawn_relay draws)" "distinct (map drawn_room draws)"
    and "2 * length (cs_registrations s) < length draws"
  shows "\<exists>relay room. issue_new_relay_ids s draws = Some (relay, room) \<and>
    \<not> any_row (\<lambda>r. pr_relay_id r = relay \<or> pr_broker_room_id r = room) (cs_registrations s)"
proof -
  have "distinct draws" using assms(1) by (simp add: distinct_map)
  then have "card (set draws) = length draws" by (rule distinct_card)
  with card_taken [of "set draws" s] assms have "\<not> (\<forall>d \<in> set draws. ids_taken s d)"
    by (auto simp: distinct_map)
  then obtain d where "find (\<lambda>d. \<not> ids_taken s d) draws = Some d"
    by (metis find_None_iff not_None_eq)
  with find_SomeD [OF this] show ?thesis
    by (auto simp: issue_new_relay_ids_Some ids_taken_def)
qed

section \<open>Witnesses\<close>

definition sample_registration :: persisted_registration where
  "sample_registration = \<lparr>pr_relay_id = ''r'', pr_broker_room_id = ''room'',
     pr_refresh_token_hash = ''rt'', pr_created_at = 0, pr_relay_label = None,
     pr_relay_verify_key = None\<rparr>"

definition sample_grant :: persisted_grant where
  "sample_grant = \<lparr>dg_relay_id = ''r'', dg_broker_room_id = ''room'', dg_device_id = ''d'',
     dg_refresh_token_hash = ''dt'', dg_created_at = 0, dg_last_seen = None, dg_superseded = []\<rparr>"

definition sample_store :: control_store where
  "sample_store = \<lparr>cs_legacy = None, cs_registrations = [(''rt'', sample_registration)], cs_clients = [],
     cs_grants = [(''dt'', sample_grant)], cs_client_grants = []\<rparr>"

definition sample_control :: control_config where
  "sample_control =
     \<lparr>cf_lib = \<lparr>pl_ticket = sample_lib, pl_verify = (\<lambda>_ _ _. True), pl_sha256_hex = (\<lambda>s. s)\<rparr>,
      cf_issuer = Join_Ticket_Key ''k'', cf_key = Credential_Key ''k'', cf_device_ws_ttl_secs = 300,
      cf_rotation_grace_secs = 100, cf_registrations = []\<rparr>"

definition sample_plane :: control_plane where
  "sample_plane =
     \<lparr>pl_store = sample_store,
      pl_legacy = \<lparr>lc_tokens = [(''rref-v1:rt'', Subject_Relay ''r'')], lc_clients = []\<rparr>,
      pl_enrollments = [], pl_claims = [], pl_refreshes = [], pl_file = Some (to_persisted sample_store)\<rparr>"

lemmas sample_rows = sample_registration_def sample_grant_def sample_store_def

lemma sample_wf: "store_wf sample_store"
  by (simp add: store_wf_def keyed_def sample_rows)

lemma sample_subject: "credential_subject_of (cf_lib sample_control) (cf_key sample_control)
    (pl_legacy sample_plane) Kind_Relay ''rt'' = Some (Subject_Relay ''r'')"
  by (simp add: credential_subject_of_def trim_def ascii_ws_def ws_two_def ws_three_def
      MAX_CREDENTIAL_BYTES_def key_subject_def open_sealed_def rsplit_once_def sample_plane_def
      sample_control_def lookup_key_def)

lemma sample_trim [simp]: "trim ''rt'' = ''rt''"
  by (simp add: trim_def ascii_ws_def ws_two_def ws_three_def)

lemma sample_authenticated:
  "authenticate_relay sample_control sample_plane ''rt'' ''r'' ''room'' = Inr sample_registration"
  using sample_subject
  by (simp add: authenticate_relay_def find_credential_def)
    (simp add: sample_control_def sample_plane_def sample_store_def sample_registration_def)

lemma start_succeeds:
  "load_control_state disk = Inr s \<Longrightarrow>
     \<exists>pl. start_control_plane cfg now True True disk = (Inr pl, pl_file pl)"
  by (simp add: start_control_plane_def load_or_create_legacy_def persist_and_def split_beta Let_def)

lemma run_start:
  assumes "load_control_state (process_file p) = Inr s"
  shows "\<exists>pl. process_run cfg [Start now True True] p = Running pl"
  using start_succeeds [OF assms, of cfg now] by auto

lemma sample_revoked:
  "\<exists>pl'. revoke_device_grant sample_control True ''rt'' ''d'' ''r'' ''room'' sample_plane = (Inr (True, 1), pl') \<and>
     load_control_state (pl_file pl') = Inr (pl_store pl')"
  using sample_authenticated
  by (simp add: revoke_device_grant_def removal_defs persist_and_def written_def count_rows_def
      matches_optional_relay_target_def sample_plane_def sample_rows load_control_state_def
      from_persisted_def to_persisted_def collect_by_def drop_rows_def)

lemma revoked_device_stays_out_witness:
  "\<exists>pl' final. revoke_device_grant sample_control True ''rt'' ''d'' ''r'' ''room'' sample_plane =
       (Inr (True, 1), pl') \<and>
     process_run sample_control [Start 5 True True] (Running pl') = Running final \<and>
     relay_id_for_join final ''room'' (Some ''d'') \<noteq> Inr ''r''"
proof -
  obtain pl' where revoked: "revoke_device_grant sample_control True ''rt'' ''d'' ''r'' ''room'' sample_plane =
      (Inr (True, 1), pl')" and "load_control_state (pl_file pl') = Inr (pl_store pl')"
    using sample_revoked by blast
  then obtain final where run: "process_run sample_control [Start 5 True True] (Running pl') = Running final"
    using run_start [where p = "Running pl'"] unfolding process_file.simps by blast
  have "\<forall>q. Handle q \<in> set [Start 5 True True] \<longrightarrow> issues_to q \<noteq> Some (''r'', ''room'', ''d'')" by simp
  from revoked_device_stays_out [OF revoked this run] revoked run show ?thesis by blast
qed

lemma retried_revocation_not_saved_witness:
  "\<exists>pl1 pl2. revoke_device_grant sample_control False ''rt'' ''d'' ''r'' ''room'' sample_plane = (Inl Save_Failed, pl1) \<and>
     revoke_device_grant sample_control True ''rt'' ''d'' ''r'' ''room'' pl1 = (Inr (False, 0), pl2) \<and>
     load_control_state (pl_file pl2) = Inr sample_store"
proof -
  have "\<exists>pl1. revoke_device_grant sample_control False ''rt'' ''d'' ''r'' ''room'' sample_plane = (Inl Save_Failed, pl1)"
    using sample_authenticated
    by (simp add: revoke_device_grant_def removal_defs persist_and_def count_rows_def
        matches_optional_relay_target_def sample_plane_def sample_rows)
  then obtain pl1 where failed: "revoke_device_grant sample_control False ''rt'' ''d'' ''r'' ''room'' sample_plane =
      (Inl Save_Failed, pl1)" by blast
  from retried_revocation_not_saved [OF failed, of True] failed sample_wf show ?thesis
    by (auto simp: sample_plane_def)
qed

lemma devices_within_limit_witness:
  "count_device_grants_for_relay (pl_store (handle_control sample_control
     (Q_Issue_Device 5 6 True ''t'' ''n'' ''rt'' ''r'' ''room'' ''e'' (Some 1)) sample_plane)) ''r'' \<le> 1"
proof -
  have "process_holds (within_limit ''r'' 1) (Running sample_plane)"
    using sample_wf by (simp add: within_limit_def file_holds_def sample_plane_def reload_wf)
      (simp add: count_device_grants_for_relay_def count_rows_def sample_rows)
  from devices_within_limit [OF this, where es = "[Handle (Q_Issue_Device 5 6 True ''t'' ''n'' ''rt'' ''r'' ''room'' ''e'' (Some 1))]"
      and cfg = sample_control]
  show ?thesis by simp
qed

lemma control_store_roundtrip_witness:
  "\<exists>pl. process_run sample_control [Start 5 True True] (Down None) = Running pl \<and>
     load_control_state (Some (to_persisted (pl_store pl))) = Inr (pl_store pl)"
proof -
  have "load_control_state None = Inr default_store" by (simp add: load_control_state_def)
  then obtain pl where "process_run sample_control [Start 5 True True] (Down None) = Running pl"
    using run_start [where p = "Down None"] unfolding process_file.simps by blast
  with control_store_roundtrip show ?thesis by blast
qed

lemma release_all_or_nothing_witness:
  "authenticate_relay sample_control (snd (revoke_relay_registration_chain sample_control True ''rt'' ''r'' ''room''
     sample_plane)) ''rt'' ''r'' ''room'' = Inl Relay_Token_Invalid"
proof -
  have released: "revoke_relay_registration_chain sample_control True ''rt'' ''r'' ''room'' sample_plane =
      (Inr (), snd (revoke_relay_registration_chain sample_control True ''rt'' ''r'' ''room'' sample_plane))"
    by (simp add: revoke_relay_registration_chain_def persist_and_def sample_control_def sample_plane_def
        sample_rows Let_def)
  have "store_wf (pl_store sample_plane)" using sample_wf by (simp add: sample_plane_def)
  from release_all_or_nothing [OF released this] show ?thesis by (simp add: Let_def)
qed

lemma fresh_ids_found_witness:
  "\<exists>relay room. issue_new_relay_ids sample_store [(''a'', ''x''), (''b'', ''y''), (''c'', ''z'')] = Some (relay, room) \<and>
     \<not> any_row (\<lambda>r. pr_relay_id r = relay \<or> pr_broker_room_id r = room) (cs_registrations sample_store)"
  by (rule fresh_ids_found)
    (simp_all add: drawn_relay_def drawn_room_def ascii_lower_def char_between_def sample_store_def)

end
