(* ===== verification/Credential_Facts.thy ===== *)
theory Credential_Facts
  imports Control_Facts Ticket_Facts
begin

text \<open>
  What the credentials of the control plane promise: a sealed token opens under its own kind only
  and to what it was minted from, a rotated token dies at its deadline and nothing prolongs it, an
  identity comes from a signature of its key, and what is pending stays bounded.
\<close>

section \<open>Sealed tokens\<close>

text \<open>URL-safe base64: decoding inverts encoding, and the alphabet has no dot.\<close>

definition faithful_base64 :: "ticket_lib \<Rightarrow> bool" where
  "faithful_base64 lib \<longleftrightarrow>
     (\<forall>s. tl_decode lib (tl_encode lib s) = Some s \<and> CHR ''.'' \<notin> set (tl_encode lib s))"

lemma rsplit_once_append: "d \<notin> set b \<Longrightarrow> rsplit_once d (a @ d # b) = Some (a, b)"
  using split_once_append [of d "rev b" "rev a"] by (simp add: rsplit_once_def)

lemma rsplit_once_Some: "rsplit_once d s = Some (a, b) \<Longrightarrow> s = a @ d # b"
proof -
  assume "rsplit_once d s = Some (a, b)"
  then have "rev s = rev b @ d # rev a"
    by (auto simp: rsplit_once_def dest: split_once_Some)
  then show "s = a @ d # b" by (metis append_Cons append_Nil append_assoc rev.simps(2) rev_append rev_rev_ident)
qed

lemma no_dot_prefix: "CHR ''.'' \<notin> set (kind_prefix kind)"
  by (cases kind) simp_all

lemma prefix_inj: "kind_prefix k = kind_prefix k' \<longleftrightarrow> k = k'"
  by (cases k; cases k') simp_all

lemma open_seal:
  assumes "faithful_base64 lib" "length (seal lib key kind payload) \<le> MAX_CREDENTIAL_BYTES"
  shows "open_sealed lib key kind' (seal lib key kind payload) = (if kind' = kind then Some payload else None)"
proof -
  let ?text = "kind_prefix kind @ ''.'' @ tl_encode lib payload"
  let ?tag = "tl_encode lib (tl_hmac lib (ck_bytes key) ?text)"
  have "rsplit_once CHR ''.'' (seal lib key kind payload) = Some (?text, ?tag)"
    using rsplit_once_append [of "CHR ''.''" ?tag ?text] assms(1)
    by (simp add: seal_def faithful_base64_def)
  moreover have "split_once CHR ''.'' ?text = Some (kind_prefix kind, tl_encode lib payload)"
    using split_once_append [OF no_dot_prefix] by simp
  ultimately show ?thesis
    using assms by (auto simp: open_sealed_def faithful_base64_def prefix_inj)
qed

text \<open>What opens carries the tag of the key over the kind and the payload.\<close>

lemma opened_authentic:
  assumes "open_sealed lib key kind token = Some payload"
  shows "\<exists>body tag. token = kind_prefix kind @ ''.'' @ body @ ''.'' @ tag \<and>
    tl_decode lib body = Some payload \<and>
    tl_decode lib tag = Some (tl_hmac lib (ck_bytes key) (kind_prefix kind @ ''.'' @ body))"
proof -
  from assms obtain sealed_text tag body where parts: "rsplit_once CHR ''.'' token = Some (sealed_text, tag)"
    "split_once CHR ''.'' sealed_text = Some (kind_prefix kind, body)"
    "tl_decode lib tag = Some (tl_hmac lib (ck_bytes key) sealed_text)" "tl_decode lib body = Some payload"
    by (auto simp: open_sealed_def split: option.splits if_splits prod.splits)
  from rsplit_once_Some [OF parts(1)] split_once_Some [OF parts(2)]
  have "token = kind_prefix kind @ ''.'' @ body @ ''.'' @ tag" "sealed_text = kind_prefix kind @ ''.'' @ body"
    by simp_all
  with parts(3,4) show ?thesis by blast
qed

text \<open>
  A minted refresh token names its subject: under the key that sealed it, it opens as the kind
  it was minted for and yields the relay or client it was minted for, and it opens as no other kind,
  so a device's token is no relay's and no client's.
\<close>

theorem minted_credential_opens:
  assumes "faithful_base64 lib" "kind \<noteq> Kind_ClientId"
    and "length token40 = 40" "CHR '':'' \<notin> set token40"
    and "subject \<noteq> []" "length subject \<le> MAX_ID_BYTES" "is_utf8 (token40 @ '':'' @ subject)"
    and "length (mint_credential lib key kind token40 subject) \<le> MAX_CREDENTIAL_BYTES"
  shows "key_subject lib key kind' (mint_credential lib key kind token40 subject) =
    (if kind' = kind
     then Some (if kind = Kind_Client then Subject_Client subject else Subject_Relay subject)
     else None)"
proof -
  have "open_sealed lib key kind' (mint_credential lib key kind token40 subject) =
      (if kind' = kind then Some (token40 @ '':'' @ subject) else None)"
    using assms(8) unfolding mint_credential_def by (rule open_seal [OF assms(1)])
  moreover have "split_once CHR '':'' (token40 @ '':'' @ subject) = Some (token40, subject)"
    using split_once_append [OF assms(4)] by simp
  ultimately show ?thesis
    using assms(2-7) by (auto simp: key_subject_def client_key_def from_utf8_def)
qed

section \<open>Superseded tokens\<close>

abbreviation clients_of :: "control_store \<Rightarrow> persisted_client set" where
  "clients_of s \<equiv> snd ` set (cs_clients s)"

definition ends_by :: "string \<Rightarrow> u64 \<Rightarrow> superseded_token list \<Rightarrow> bool" where
  "ends_by h deadline ts \<longleftrightarrow>
     (\<forall>t \<in> set ts. su_refresh_token_hash t = h \<longrightarrow> su_expires_at t \<le> deadline)"

text \<open>No row has the hash as its current one, and no row accepts it past the deadline.\<close>

definition retired :: "string \<Rightarrow> u64 \<Rightarrow> control_store \<Rightarrow> bool" where
  "retired h deadline s \<longleftrightarrow>
     (\<forall>(k, g) \<in> set (cs_grants s). k \<noteq> h \<and> dg_refresh_token_hash g \<noteq> h \<and> ends_by h deadline (dg_superseded g)) \<and>
     (\<forall>(k, c) \<in> set (cs_clients s). k \<noteq> h \<and> ci_refresh_token_hash c \<noteq> h \<and> ends_by h deadline (ci_superseded c))"

lemma carry_elements:
  "t \<in> set (carry_superseded previous rotated now grace) \<Longrightarrow>
     t \<in> set previous \<or> su_refresh_token_hash t = rotated \<and> su_expires_at t = sat_add now grace"
  by (auto simp: carry_superseded_def Let_def dest!: in_set_dropD)

lemma ends_carry:
  "ends_by h deadline previous \<Longrightarrow> rotated \<noteq> h \<Longrightarrow> ends_by h deadline (carry_superseded previous rotated now grace)"
  unfolding ends_by_def using carry_elements by blast

lemma ends_chain:
  assumes "\<forall>c \<in> set cs. ci_refresh_token_hash c \<noteq> h \<and> ends_by h deadline (ci_superseded c)"
    and "ends_by h deadline acc"
  shows "ends_by h deadline (fold (\<lambda>c acc. carry_superseded (ci_superseded c @ acc)
    (ci_refresh_token_hash c) now grace) cs acc)"
  using assms
proof (induction cs arbitrary: acc)
  case (Cons c cs)
  have "ends_by h deadline (ci_superseded c @ acc)" using Cons.prems by (auto simp: ends_by_def)
  then have "ends_by h deadline (carry_superseded (ci_superseded c @ acc) (ci_refresh_token_hash c) now grace)"
    using Cons.prems(1) by (simp add: ends_carry)
  with Cons show ?case by simp
qed simp

text \<open>The random tokens that a request may mint from, and that none of them hits the hash.\<close>

fun drawn_tokens :: "control_request \<Rightarrow> string list" where
  "drawn_tokens (Q_Issue_Device _ _ _ t40 _ _ _ _ _ _) = [t40]"
| "drawn_tokens (Q_Claim _ _ _ _ t40 _ _) = [t40]"
| "drawn_tokens (Q_Rotate _ _ _ t40 _) = [t40]"
| "drawn_tokens (Q_Refresh _ _ _ _ ct dt _ _ _) = [ct, dt]"
| "drawn_tokens _ = []"

definition mints_apart :: "control_config \<Rightarrow> string \<Rightarrow> string list \<Rightarrow> bool" where
  "mints_apart cfg h tokens \<longleftrightarrow>
     (\<forall>t40 \<in> set tokens. \<forall>kind subject.
        pl_sha256_hex (cf_lib cfg) (mint_credential (pl_ticket (cf_lib cfg)) (cf_key cfg) kind t40 subject) \<noteq> h)"

lemma retired_rows:
  "retired h deadline s \<Longrightarrow> (k, g) \<in> set (cs_grants s) \<Longrightarrow>
     k \<noteq> h \<and> dg_refresh_token_hash g \<noteq> h \<and> ends_by h deadline (dg_superseded g)"
  "retired h deadline s \<Longrightarrow> (k', c) \<in> set (cs_clients s) \<Longrightarrow>
     k' \<noteq> h \<and> ci_refresh_token_hash c \<noteq> h \<and> ends_by h deadline (ci_superseded c)"
  unfolding retired_def by auto

lemma retired_row:
  "retired h deadline s \<Longrightarrow> g \<in> grants_of s \<Longrightarrow> dg_refresh_token_hash g \<noteq> h \<and> ends_by h deadline (dg_superseded g)"
  "retired h deadline s \<Longrightarrow> c \<in> clients_of s \<Longrightarrow> ci_refresh_token_hash c \<noteq> h \<and> ends_by h deadline (ci_superseded c)"
  unfolding retired_def by auto

lemma mints_apartD:
  "mints_apart cfg h [t40] \<Longrightarrow>
     pl_sha256_hex (cf_lib cfg) (mint_credential (pl_ticket (cf_lib cfg)) (cf_key cfg) kind t40 subject) \<noteq> h"
  by (simp add: mints_apart_def)

lemma ends_Nil [simp]: "ends_by h deadline []"
  by (simp add: ends_by_def)

lemma retired_substore: "retired h deadline s \<Longrightarrow> substore s' s \<Longrightarrow> retired h deadline s'"
  unfolding retired_def substore_def using submap_set by (metis (no_types, lifting) subset_iff)

lemma retired_put_grant:
  "retired h deadline s \<Longrightarrow> dg_refresh_token_hash g \<noteq> h \<Longrightarrow> ends_by h deadline (dg_superseded g) \<Longrightarrow>
     retired h deadline (put_grant g s)"
  unfolding retired_def put_grant_def
  using set_update_keyed [of "dg_refresh_token_hash g" g "cs_grants s"] by auto

lemma retired_put_client:
  "retired h deadline s \<Longrightarrow> ci_refresh_token_hash c \<noteq> h \<Longrightarrow> ends_by h deadline (ci_superseded c) \<Longrightarrow>
     retired h deadline (put_client c s)"
  unfolding retired_def put_client_def
  using set_update_keyed [of "ci_refresh_token_hash c" c "cs_clients s"] by auto

lemma removal_retired:
  "retired h deadline s \<Longrightarrow> retired h deadline (snd (remove_device_grants relay room device s))"
  "retired h deadline s \<Longrightarrow> retired h deadline (snd (remove_client_identity_by_client_id i s))"
  "retired h deadline s \<Longrightarrow> retired h deadline (s\<lparr>cs_grants := AList.delete k (cs_grants s)\<rparr>)"
  by (erule retired_substore, simp add: substore_def removal_defs)+

lemma retired_rotate_client:
  assumes "retired h deadline s" "mints_apart cfg h [t40]"
  shows "retired h deadline (snd (rotate_client_identity (cf_lib cfg) (cf_key cfg) c now grace t40 s))"
proof -
  have "ends_by h deadline (fold (\<lambda>c acc. carry_superseded (ci_superseded c @ acc) (ci_refresh_token_hash c) now grace)
      (filter (\<lambda>c'. ci_client_id c' = ci_client_id c) (map snd (cs_clients s))) [])"
    using retired_row(2) [OF assms(1)] by (intro ends_chain) simp_all
  then show ?thesis
    unfolding rotate_client_identity_def Let_def snd_conv
    using assms(1) mints_apartD [OF assms(2)] by (intro retired_put_client removal_retired) simp_all
qed

lemma retired_rotate_device:
  assumes "retired h deadline s" "mints_apart cfg h [t40]"
    and "dg_refresh_token_hash g \<noteq> h \<and> ends_by h deadline (dg_superseded g)"
  shows "retired h deadline (rotate_device (cf_lib cfg) grace now g
    (mint_credential (pl_ticket (cf_lib cfg)) (cf_key cfg) kind t40 subject) s)"
  unfolding rotate_device_def
  using assms(1,3) mints_apartD [OF assms(2)]
  by (intro retired_put_grant removal_retired) (simp_all add: ends_carry)

lemma retired_claimed:
  assumes "retired h deadline s" "mints_apart cfg h [t40]"
  shows "retired h deadline (claimed cfg created t40 claim s)"
proof -
  have "retired h deadline (snd (issue_or_rotate_client_identity (cf_lib cfg) (cf_key cfg) key label created grace t40 s))"
    for key label grace
  proof (cases "client_identity_for_verify_key s key")
    case None
    show ?thesis
      unfolding issue_or_rotate_client_identity_def Let_def None option.case prod.case snd_conv
      using assms(1) mints_apartD [OF assms(2)] by (intro retired_put_client) simp_all
  next
    case (Some c)
    from retired_row(2) [OF assms(1)] client_of_key_Some [OF Some]
    have c: "ci_refresh_token_hash c \<noteq> h" "ends_by h deadline (ci_superseded c)" by blast+
    show ?thesis
      unfolding issue_or_rotate_client_identity_def Let_def Some option.case prod.case snd_conv
      using assms(1) mints_apartD [OF assms(2)] c
      by (intro retired_put_client removal_retired) (simp_all add: ends_carry)
  qed
  then show ?thesis by (simp add: claimed_def split_beta retired_def upsert_client_relay_grant_def)
qed

lemma retired_change:
  assumes "retired h deadline s" "mints_apart cfg h (drawn_tokens q)" "store_change cfg q pl s s'"
  shows "retired h deadline s'"
  using assms(3)
proof cases
  case pruned
  with assms(1) show ?thesis by (rule retired_substore)
next
  case (registered m r)
  with assms(1) show ?thesis by (simp add: retired_def put_registration_def)
next
  case (granted bearer relay room r limit device token t40)
  have "ends_by h deadline (case find_row p (cs_grants s) of None \<Rightarrow> []
      | Some g \<Rightarrow> carry_superseded (dg_superseded g) (dg_refresh_token_hash g) now grace)" for p now grace
  proof (cases "find_row p (cs_grants s)")
    case (Some g)
    with find_row_Some [OF Some] retired_row(1) [OF assms(1), of g] show ?thesis by (simp add: ends_carry)
  qed simp
  moreover have "mints_apart cfg h [t40]" using assms(2) granted(1) by simp
  ultimately show ?thesis
    unfolding granted(2) granted(5) replace_device_grant_def Let_def
    using assms(1) mints_apartD by (intro retired_put_grant removal_retired) simp_all
next
  case (claim now later created saved t40 claim_id signature c)
  with assms show ?thesis by (simp add: retired_claimed)
next
  case (rotated bearer now c later saved t40)
  with assms show ?thesis by (simp add: retired_rotate_client)
next
  case (refreshed client_id c now later saved nonce ct dt challenge_id signature origin)
  with assms have "mints_apart cfg h [ct]" by (simp add: mints_apart_def)
  with refreshed assms(1) show ?thesis by (simp add: retired_rotate_client)
next
  case (refreshed_both client_id c room g r token dt now later saved nonce ct challenge_id signature origin)
  with assms have ct: "mints_apart cfg h [ct]" and dt: "mints_apart cfg h [dt]"
    by (simp_all add: mints_apart_def)
  have "g \<in> grants_of s" using refresh_device_Inr [OF refreshed_both(4)] by simp
  then show ?thesis
    unfolding refreshed_both(2) refreshed_both(5)
    by (intro retired_rotate_device retired_rotate_client assms(1) ct dt retired_row(1) [OF assms(1)])
next
  case touch
  have "set (cs_grants (touched k now s)) \<subseteq> (\<lambda>(k, g). (k, g)) ` set (cs_grants s) \<union>
      {(k', g\<lparr>dg_last_seen := Some now\<rparr>) | k' g. (k', g) \<in> set (cs_grants s)}" for k now
  proof -
    have "set (AList.map_entry k f m) \<subseteq> set m \<union> {(k', f g) | k' g. (k', g) \<in> set m}" for f :: "persisted_grant \<Rightarrow> persisted_grant" and m
      by (induction m) auto
    then show ?thesis unfolding touched_def by fastforce
  qed
  with touch assms(1) show ?thesis unfolding retired_def by (fastforce simp: touched_def)
qed

interpretation dead: lasting_property cfg "retired h deadline" "\<lambda>q _. mints_apart cfg h (drawn_tokens q)"
  for cfg h deadline
proof unfold_locales
  show "retired h deadline s'" if "retired h deadline s" "mints_apart cfg h (drawn_tokens q)"
    "store_change cfg q pl s s'" for s q pl s'
    using that by (rule retired_change)
  show "retired h deadline s'" if "retired h deadline s" "from_persisted (to_persisted s) = Some s'" for s s'
  proof -
    note rows = rows_reloaded [OF that(2)]
    have "k \<noteq> h \<and> dg_refresh_token_hash g \<noteq> h \<and> ends_by h deadline (dg_superseded g)"
      if "(k, g) \<in> set (cs_grants s')" for k g
    proof -
      have "g \<in> grants_of s" using that rows(2) by (metis image_subset_iff snd_conv)
      with retired_row(1) [OF \<open>retired h deadline s\<close>] rows(3) [OF that] show ?thesis by simp
    qed
    moreover have "k \<noteq> h \<and> ci_refresh_token_hash c \<noteq> h \<and> ends_by h deadline (ci_superseded c)"
      if "(k, c) \<in> set (cs_clients s')" for k c
    proof -
      have "c \<in> clients_of s" using that rows(1) by (metis image_subset_iff snd_conv)
      with retired_row(2) [OF \<open>retired h deadline s\<close>] rows(4) [OF that] show ?thesis by simp
    qed
    ultimately show ?thesis unfolding retired_def by blast
  qed
qed (simp_all add: retired_def default_store_def put_registration_def)

lemma retired_unknown:
  assumes "retired h deadline s" "deadline \<le> at"
  shows "find_device_grant_for_token s h at = None" "find_client_identity_for_token s h at = None"
proof -
  have no: "\<not> superseded_matches h at ts" if "ends_by h deadline ts" for ts
    using that assms(2) by (fastforce simp: superseded_matches_def ends_by_def list_ex_iff)
  have "(h, g) \<notin> set (cs_grants s)" "(h, c) \<notin> set (cs_clients s)" for g c
    using retired_rows [OF assms(1), of h] by blast+
  then have "map_of (cs_grants s) h = None" "map_of (cs_clients s) h = None"
    by (auto simp: map_of_eq_None_iff)
  moreover have "find (\<lambda>(_, g). superseded_matches h at (dg_superseded g)) (cs_grants s) = None"
    "find (\<lambda>(_, c). superseded_matches h at (ci_superseded c)) (cs_clients s) = None"
    using retired_rows [OF assms(1)] no by (auto simp: find_None_iff)
  ultimately show "find_device_grant_for_token s h at = None" "find_client_identity_for_token s h at = None"
    by (simp_all add: find_device_grant_for_token_def find_client_identity_for_token_def)
qed

text \<open>The hash is the current one of one grant and nothing else.\<close>

definition only_current :: "string \<Rightarrow> control_store \<Rightarrow> bool" where
  "only_current h s \<longleftrightarrow>
     (\<forall>g \<in> grants_of s. h \<notin> su_refresh_token_hash ` set (dg_superseded g)) \<and>
     (\<forall>c \<in> clients_of s. ci_refresh_token_hash c \<noteq> h \<and> h \<notin> su_refresh_token_hash ` set (ci_superseded c))"

lemma carry_last:
  "\<lparr>su_refresh_token_hash = rotated, su_expires_at = sat_add now grace\<rparr> \<in> set (carry_superseded previous rotated now grace)"
proof -
  have "x \<in> set (drop (length (xs @ [x]) - MAX_SUPERSEDED_TOKENS) (xs @ [x]))" for xs and x :: superseded_token
    by (cases "length (xs @ [x]) - MAX_SUPERSEDED_TOKENS \<le> length xs") (simp_all add: MAX_SUPERSEDED_TOKENS_def)
  then show ?thesis unfolding carry_superseded_def Let_def by blast
qed

lemma in_update: "(k, v) \<in> set (AList.update k v m)"
  by (induction m) auto

lemma replaced_retires:
  assumes "store_wf s" "(h, g) \<in> set (cs_grants s)" "dg_relay_id g = pr_relay_id r" "dg_device_id g = device"
    and "only_current h s" "pl_sha256_hex lib token \<noteq> h"
  shows "retired h (sat_add now grace) (replace_device_grant lib grace now r device token s) \<and>
    (at < sat_add now grace \<longrightarrow> (\<exists>k g'. find_device_grant_for_token
      (replace_device_grant lib grace now r device token s) h at = Some (k, g') \<and>
      grant_seat g' = (pr_relay_id r, pr_broker_room_id r, device)))"
proof -
  let ?p = "\<lambda>g. dg_relay_id g = pr_relay_id r \<and> dg_device_id g = device"
  have keys: "keyed dg_refresh_token_hash (cs_grants s)" "keyed ci_refresh_token_hash (cs_clients s)"
    and column: "distinct (seats s)" using assms(1) by (simp_all add: store_wf_def)
  have h: "dg_refresh_token_hash g = h" using keys(1) assms(2) by (auto simp: keyed_def)
  have g: "g \<in> grants_of s" using assms(2) by force
  with assms(3,4) have "find_row ?p (cs_grants s) \<noteq> None" by (auto simp: find_row_None)
  then obtain g0 where g0: "find_row ?p (cs_grants s) = Some g0" by blast
  have "g0 = g"
    by (rule column_inj [OF column]) (use find_row_Some [OF g0] g assms(3,4) in simp_all)
  with g0 have found: "find_row ?p (cs_grants s) = Some g" by simp
  define rest where "rest = snd (remove_device_grants (pr_relay_id r) None (Some device) s)"
  define new where "new = \<lparr>dg_relay_id = pr_relay_id r, dg_broker_room_id = pr_broker_room_id r,
    dg_device_id = device, dg_refresh_token_hash = pl_sha256_hex lib token, dg_created_at = now,
    dg_last_seen = Some now, dg_superseded = carry_superseded (dg_superseded g) h now grace\<rparr>"
  have result: "replace_device_grant lib grace now r device token s = put_grant new rest"
    by (simp add: replace_device_grant_def found h rest_def new_def)
  have rows: "k \<noteq> h \<and> g' \<in> grants_of s" if "(k, g') \<in> set (cs_grants rest)" for k g'
    using that keyed_row [OF keys(1), of k g'] keyed_row [OF keys(1) assms(2)] assms(3,4)
    by (force simp: rest_def removal_defs matches_optional_relay_target_def)
  have unused: "ends_by h deadline (dg_superseded g')" if "g' \<in> grants_of s" for g' deadline
    using that assms(5) by (auto simp: only_current_def ends_by_def)
  have "retired h (sat_add now grace) rest"
    using rows unused keyed_submap [OF keys(1), of "cs_grants rest"] keys(2) assms(5)
    by (fastforce simp: retired_def only_current_def keyed_def ends_by_def rest_def removal_defs)
  moreover have "ends_by h (sat_add now grace) (dg_superseded new)"
    using unused [of g "sat_add now grace"] assms(2) carry_elements [of _ "dg_superseded g" h now grace]
    by (force simp: new_def ends_by_def)
  ultimately have dead: "retired h (sat_add now grace) (put_grant new rest)"
    using assms(6) by (intro retired_put_grant) (simp_all add: new_def)
  have "\<exists>k. find_device_grant_for_token (put_grant new rest) h at = Some (k, new)"
    if early: "at < sat_add now grace"
  proof -
    have "superseded_matches h at (dg_superseded new)"
      using early carry_last [of h now grace "dg_superseded g"]
      by (force simp: superseded_matches_def list_ex_iff new_def)
    moreover have "(pl_sha256_hex lib token, new) \<in> set (cs_grants (put_grant new rest))"
      by (simp add: put_grant_def new_def in_update)
    ultimately have "find (\<lambda>(_, g). superseded_matches h at (dg_superseded g)) (cs_grants (put_grant new rest)) \<noteq> None"
      by (auto simp: find_None_iff)
    then obtain k g' where first: "find (\<lambda>(_, g). superseded_matches h at (dg_superseded g))
        (cs_grants (put_grant new rest)) = Some (k, g')" by auto
    from find_SomeD [OF first] have in_result: "(k, g') \<in> set (cs_grants (put_grant new rest))"
      and accepts: "superseded_matches h at (dg_superseded g')" by auto
    have "g' = new \<or> g' \<in> grants_of rest"
    proof -
      have "g' \<in> grants_of (put_grant new rest)" using in_result by force
      with grants_put show ?thesis by blast
    qed
    moreover have "\<not> superseded_matches h at (dg_superseded g')" if "g' \<in> grants_of rest"
      using that rows assms(5) by (force simp: superseded_matches_def list_ex_iff only_current_def)
    ultimately have "g' = new" using accepts by blast
    moreover have "(h, g) \<notin> set (cs_grants (put_grant new rest))" for g
      using retired_rows(1) [OF dead, of h g] by blast
    then have "map_of (cs_grants (put_grant new rest)) h = None" by (auto simp: map_of_eq_None_iff)
    ultimately show ?thesis using first by (simp add: find_device_grant_for_token_def)
  qed
  with dead show ?thesis by (auto simp: result new_def grant_seat_def)
qed

lemma issued_device:
  assumes "issue_device_grant cfg created later saved t40 nonce bearer relay room device limit pl = (Inr issued, pl')"
  obtains r where "authenticate_relay cfg pl bearer relay room = Inr r"
    "id_refresh_token issued = mint_credential (pl_ticket (cf_lib cfg)) (cf_key cfg) Kind_Device t40 relay"
    "pl' = written (with_store (replace_device_grant (cf_lib cfg) (cf_rotation_grace_secs cfg) created r device
      (id_refresh_token issued) (pl_store pl)) pl)"
proof -
  obtain r where r: "authenticate_relay cfg pl bearer relay room = Inr r"
    using assms by (auto simp: issue_device_grant_def split: sum.splits)
  from assms r authenticated_ids [OF r] show ?thesis
    by (intro that [OF r])
      (auto simp: issue_device_grant_def Let_def persist_and_def map_sum_def
        split: if_splits option.splits sum.splits prod.splits)
qed

text \<open>
  C32. When a device is paired again, its old token gets a deadline that nothing prolongs: the store
  that the replacement leaves accepts it, for the same seat, at every time before the deadline; from
  the deadline on it is accepted neither as a device's nor as a client's, whatever requests and
  restarts came in between, so using it, further rotations and signed refreshes never prolong it.
  Later requests may end it earlier: a revocation, or more replacements than a grant remembers.
\<close>

theorem replaced_token_expires:
  assumes "issue_device_grant cfg created later saved t40 nonce bearer relay room device limit pl = (Inr issued, pl')"
    and "store_wf (pl_store pl)" "(h, g) \<in> set (cs_grants (pl_store pl))"
    and "dg_relay_id g = relay" "dg_device_id g = device" "only_current h (pl_store pl)"
    and "mints_apart cfg h [t40]" "\<forall>q. Handle q \<in> set es \<longrightarrow> mints_apart cfg h (drawn_tokens q)"
    and "process_run cfg es (Running pl') = Running final"
    and "deadline = sat_add created (cf_rotation_grace_secs cfg)"
  shows "(if at < deadline
    then \<exists>k g'. find_device_grant_for_token (pl_store pl') h at = Some (k, g') \<and>
      grant_seat g' = (relay, room, device)
    else find_device_grant_for_token (pl_store final) h at = None \<and>
      find_client_identity_for_token (pl_store final) h at = None)"
proof -
  from issued_device [OF assms(1)] obtain r where r: "authenticate_relay cfg pl bearer relay room = Inr r"
    and token: "id_refresh_token issued = mint_credential (pl_ticket (cf_lib cfg)) (cf_key cfg) Kind_Device t40 relay"
    and pl': "pl' = written (with_store (replace_device_grant (cf_lib cfg) (cf_rotation_grace_secs cfg) created r
      device (id_refresh_token issued) (pl_store pl)) pl)" .
  note ids = authenticated_ids [OF r]
  have "pl_sha256_hex (cf_lib cfg) (id_refresh_token issued) \<noteq> h"
    unfolding token by (rule mints_apartD [OF assms(7)])
  from replaced_retires [OF assms(2,3) _ assms(5,6) this, of r] ids assms(4,10)
  have now: "retired h deadline (pl_store pl')"
    and early: "at < deadline \<longrightarrow> (\<exists>k g'. find_device_grant_for_token (pl_store pl') h at = Some (k, g') \<and>
      grant_seat g' = (relay, room, device))"
    by (simp_all add: pl' written_def)
  have "process_holds (retired h deadline) (Running pl')"
    using now dead.written_holds [OF now] by (simp add: pl' written_def)
  moreover have "requests_meet (\<lambda>q _. mints_apart cfg h (drawn_tokens q)) cfg es (Running pl')"
    using assms(8) by (intro requests_meet_all) simp
  ultimately have "process_holds (retired h deadline) (Running final)"
    using dead.lasts assms(9) by metis
  then have "retired h deadline (pl_store final)" by simp
  with early retired_unknown show ?thesis by (auto simp: not_less)
qed

section \<open>Client identities\<close>

definition keyless :: "string \<Rightarrow> control_store \<Rightarrow> bool" where
  "keyless verify_key s \<longleftrightarrow> (\<forall>c \<in> clients_of s. ci_client_verify_key c \<noteq> verify_key)"

text \<open>The request proves, against a pending claim for this key, that its holder signs.\<close>

definition proves_key :: "control_config \<Rightarrow> string \<Rightarrow> control_request \<Rightarrow> control_plane \<Rightarrow> bool" where
  "proves_key cfg verify_key q pl \<longleftrightarrow>
     (\<exists>claim \<in> snd ` set (pl_claims pl). claim_proven cfg q pl claim \<and> pk_client_verify_key claim = verify_key)"

lemma clients_put: "clients_of (put_client c s) \<subseteq> insert c (clients_of s)"
  by (simp add: put_client_def rows_update)

lemma keyless_put: "keyless vk s \<Longrightarrow> ci_client_verify_key c \<noteq> vk \<Longrightarrow> keyless vk (put_client c s)"
  unfolding keyless_def using clients_put by blast

lemma keyless_remove: "keyless vk s \<Longrightarrow> keyless vk (snd (remove_client_identity_by_client_id i s))"
  by (auto simp: keyless_def removal_defs)

lemma keyless_rotate:
  "keyless vk s \<Longrightarrow> c \<in> clients_of s \<Longrightarrow> keyless vk (snd (rotate_client_identity lib key c now grace t40 s))"
  unfolding rotate_client_identity_def Let_def snd_conv
  by (intro keyless_put keyless_remove) (auto simp: keyless_def)

lemma keyless_claimed:
  "keyless vk s \<Longrightarrow> pk_client_verify_key claim \<noteq> vk \<Longrightarrow> keyless vk (claimed cfg created t40 claim s)"
proof -
  assume s: "keyless vk s" and key: "pk_client_verify_key claim \<noteq> vk"
  have "keyless vk (snd (issue_or_rotate_client_identity lib k (pk_client_verify_key claim) label created grace t40 s))"
    for lib k label grace
    unfolding issue_or_rotate_client_identity_def Let_def
    using s key by (auto intro!: keyless_put keyless_remove split: option.split)
  then show ?thesis
    by (simp add: claimed_def split_beta keyless_def upsert_client_relay_grant_def)
qed

lemma claim_proven_pending: "claim_proven cfg q pl claim \<Longrightarrow> claim \<in> snd ` set (pl_claims pl)"
proof (cases q)
  case (Q_Claim now later created saved t40 claim_id signature)
  assume "claim_proven cfg q pl claim"
  with Q_Claim have "(trim claim_id, claim) \<in> set (pl_claims pl)" by (simp add: claim_proven_def)
  then show ?thesis by force
qed (simp_all add: claim_proven_def)

lemma keyless_change:
  assumes "keyless vk s" "\<not> proves_key cfg vk q pl" "store_change cfg q pl s s'"
  shows "keyless vk s'"
  using assms(3)
proof cases
  case pruned
  then show ?thesis using assms(1) rows_submap unfolding keyless_def substore_def by blast
next
  case (claim now later created saved t40 claim_id signature c)
  then have "pk_client_verify_key c \<noteq> vk"
    using assms(2) claim_proven_pending unfolding proves_key_def by blast
  with claim assms(1) show ?thesis by (simp add: keyless_claimed)
next
  case (rotated bearer now c later saved t40)
  have "c \<in> clients_of s" using client_of_token [OF rotated(3)] by force
  with rotated assms(1) show ?thesis by (simp add: keyless_rotate)
next
  case (refreshed client_id c)
  with assms(1) show ?thesis by (simp add: keyless_rotate client_of_id_Some)
next
  case (refreshed_both client_id c)
  then have "keyless vk (snd (rotate_client_identity (cf_lib cfg) (cf_key cfg) c now grace ct s))" for now grace ct
    using assms(1) by (simp add: keyless_rotate client_of_id_Some)
  with refreshed_both show ?thesis by (simp add: keyless_def rotate_device_def put_grant_def)
qed (use assms(1) in \<open>auto simp: keyless_def put_registration_def touched_def replace_device_grant_def
    put_grant_def Let_def removal_defs\<close>)

interpretation unclaimed: lasting_property cfg "keyless vk" "\<lambda>q pl. \<not> proves_key cfg vk q pl" for cfg vk
proof unfold_locales
  show "keyless vk s'" if "keyless vk s" "\<not> proves_key cfg vk q pl" "store_change cfg q pl s s'" for s q pl s'
    using that by (rule keyless_change)
  show "keyless vk s'" if "keyless vk s" "from_persisted (to_persisted s) = Some s'" for s s'
    using that rows_reloaded(1) unfolding keyless_def by blast
qed (simp_all add: keyless_def default_store_def put_registration_def)

text \<open>
  C33. Nobody speaks for a client by naming its key: if a verify key has an identity after a run and
  had none before, neither in memory nor in the file, then some request of the run redeemed a
  pending claim for this very key, within its lifetime, with a signature that verifies under the key
  over the claim's id, its nonce and the relay that attested it.
\<close>

theorem identity_needs_signature:
  assumes "process_holds (keyless verify_key) p" "process_run cfg es p = Running pl"
    and "client_identity_for_verify_key (pl_store pl) verify_key \<noteq> None"
  shows "\<exists>before q after pl0. es = before @ Handle q # after \<and>
    process_run cfg before p = Running pl0 \<and> proves_key cfg verify_key q pl0"
proof -
  have "\<not> keyless verify_key (pl_store pl)"
    using assms(3) client_of_key_Some unfolding keyless_def by blast
  then have "\<not> process_holds (keyless verify_key) (process_run cfg es p)" using assms(2) by simp
  then have "\<not> requests_meet (\<lambda>q pl. \<not> proves_key cfg verify_key q pl) cfg es p"
    using unclaimed.lasts [OF assms(1)] by blast
  from requests_meet_not [OF this] show ?thesis by blast
qed

section \<open>What is pending\<close>

definition pending_bounded :: "control_plane \<Rightarrow> bool" where
  "pending_bounded pl \<longleftrightarrow>
     distinct (map (\<lambda>(_, c). pk_relay_id c) (pl_claims pl)) \<and>
     (\<forall>client. count_rows (\<lambda>p. rf_client_id (pf_challenge p) = client) (pl_refreshes pl)
        \<le> MAX_PENDING_REFRESHES_PER_CLIENT) \<and>
     (\<forall>quota. count_rows (\<lambda>p. pf_quota_key p = quota) (pl_refreshes pl)
        \<le> MAX_PENDING_REFRESHES_PER_QUOTA) \<and>
     length (pl_enrollments pl) \<le> MAX_PENDING_RELAY_ENROLLMENT_CHALLENGES"

text \<open>The pending conversations only shrink.\<close>

definition pending_shrinks :: "control_plane \<Rightarrow> control_plane \<Rightarrow> bool" where
  "pending_shrinks pl pl' \<longleftrightarrow> submap (pl_claims pl') (pl_claims pl) \<and>
     submap (pl_refreshes pl') (pl_refreshes pl) \<and> submap (pl_enrollments pl') (pl_enrollments pl)"

lemma submap_length: "submap m' m \<Longrightarrow> length m' \<le> length m"
  by (auto simp: submap_def)

lemma bounded_shrinks: "pending_bounded pl \<Longrightarrow> pending_shrinks pl pl' \<Longrightarrow> pending_bounded pl'"
  unfolding pending_bounded_def pending_shrinks_def
  by (auto intro: column_submap order_trans [OF count_submap] order_trans [OF submap_length])

lemma shrinks_same [simp]:
  "pl_claims pl' = pl_claims pl \<Longrightarrow> pl_refreshes pl' = pl_refreshes pl \<Longrightarrow>
     pl_enrollments pl' = pl_enrollments pl \<Longrightarrow> pending_shrinks pl pl'"
  by (simp add: pending_shrinks_def)

lemma persist_pending [simp]:
  "pl_claims (snd (persist_and saved a pl)) = pl_claims pl"
  "pl_refreshes (snd (persist_and saved a pl)) = pl_refreshes pl"
  "pl_enrollments (snd (persist_and saved a pl)) = pl_enrollments pl"
  by (simp_all add: persist_and_def written_def)

lemma drop_delete_submap [simp]: "submap (AList.delete k (drop_rows p m)) m"
  by (rule submap_trans [OF submap_delete submap_drop])

lemma delete_drop_submap [simp]: "submap (drop_rows p (drop_rows q m)) m"
  by (rule submap_trans [OF submap_drop submap_drop])

lemma claim_bounded:
  "pending_bounded pl \<Longrightarrow>
     pending_bounded (snd (issue_client_grant cfg now later t24 t40 bearer relay room device key cl dl pl))"
proof -
  assume bounded: "pending_bounded pl"
  have "distinct (map (\<lambda>(_, c). pk_relay_id c) (AList.update k claim
      (drop_rows (\<lambda>c. pk_relay_id c = pk_relay_id claim \<or> pk_expires_at c \<le> later) (pl_claims pl))))" for k claim
    using bounded
    by (intro distinct_update) (auto simp: pending_bounded_def rows_drop intro: column_submap [OF submap_drop])
  from this [of _ "\<lparr>pk_relay_id = _, pk_broker_room_id = _, pk_device_id = _, pk_client_verify_key = _,
      pk_client_label = _, pk_device_label = _, pk_relay_label = _, pk_nonce = _, pk_expires_at = _\<rparr>"] bounded
  show ?thesis
    by (simp add: issue_client_grant_def pending_bounded_def Let_def split: sum.split)
qed

lemma admit_refresh_cases:
  fixes pending :: "(string \<times> pending_refresh) list" and now :: u64
  defines "kept \<equiv> drop_rows (\<lambda>p. rf_expires_at (pf_challenge p) \<le> now) pending"
  shows "snd (admit_refresh challenge quota key nonce now pending) = kept \<or>
    (\<exists>k p. snd (admit_refresh challenge quota key nonce now pending) = AList.update k p kept \<and>
      count_rows (\<lambda>q. rf_client_id (pf_challenge q) = rf_client_id (pf_challenge p)) kept
        < MAX_PENDING_REFRESHES_PER_CLIENT \<and>
      count_rows (\<lambda>q. pf_quota_key q = pf_quota_key p) kept < MAX_PENDING_REFRESHES_PER_QUOTA)"
proof -
  have "length (filter P (map snd kept)) = count_rows P kept" for P by (simp add: count_rows_def)
  then show ?thesis
    unfolding admit_refresh_def Let_def kept_def [symmetric]
    by (auto simp: not_le split: option.split intro!: exI)
qed

lemma count_admitted:
  assumes "count_rows P kept \<le> bound" "P p \<Longrightarrow> count_rows P kept < bound"
  shows "count_rows P (AList.update k p kept) \<le> bound"
  using count_update [of P k p kept] assms by (auto split: if_splits)

lemma refresh_bounded:
  assumes "pending_bounded pl"
  shows "pending_bounded (pl\<lparr>pl_refreshes := snd (admit_refresh challenge quota key nonce now (pl_refreshes pl))\<rparr>)"
proof -
  let ?kept = "drop_rows (\<lambda>p. rf_expires_at (pf_challenge p) \<le> now) (pl_refreshes pl)"
  have kept: "pending_bounded (pl\<lparr>pl_refreshes := ?kept\<rparr>)"
    by (rule bounded_shrinks [OF assms]) (simp add: pending_shrinks_def)
  have added: "pending_bounded (pl\<lparr>pl_refreshes := AList.update k p ?kept\<rparr>)"
    if "count_rows (\<lambda>q. rf_client_id (pf_challenge q) = rf_client_id (pf_challenge p)) ?kept
        < MAX_PENDING_REFRESHES_PER_CLIENT"
      "count_rows (\<lambda>q. pf_quota_key q = pf_quota_key p) ?kept < MAX_PENDING_REFRESHES_PER_QUOTA" for k p
    using kept that unfolding pending_bounded_def by (auto intro!: count_admitted)
  from admit_refresh_cases [of challenge quota key nonce now "pl_refreshes pl"] kept added
  show ?thesis by metis
qed

lemma enrollment_bounded:
  "pending_bounded pl \<Longrightarrow>
     pending_bounded (snd (create_relay_enrollment_challenge cfg now later t24 t40 key label pl))"
proof -
  assume bounded: "pending_bounded pl"
  have pruned: "length (prune_enrollments later (prune_enrollments now (pl_enrollments pl)))
      \<le> MAX_PENDING_RELAY_ENROLLMENT_CHALLENGES" "length (prune_enrollments now (pl_enrollments pl))
      \<le> MAX_PENDING_RELAY_ENROLLMENT_CHALLENGES"
    using bounded submap_length order_trans unfolding pending_bounded_def prune_enrollments_def
    by (meson delete_drop_submap submap_drop)+
  have "length (AList.update k v m) \<le> Suc (length m)" for k :: string and v :: pending_enrollment and m
    by (induction m) auto
  then have "length (AList.update k v m) \<le> n" if "length m < n" for k v n and m :: "(string \<times> pending_enrollment) list"
    using that by (meson Suc_leI order_trans)
  with pruned bounded show ?thesis
    by (simp add: create_relay_enrollment_challenge_def pending_bounded_def Let_def not_le)
qed

lemma handle_bounded:
  assumes "pending_bounded pl" shows "pending_bounded (handle_control cfg q pl)"
proof (cases q)
  case (Q_Client_Grant now later t24 t40 bearer relay room device key cl dl)
  with assms show ?thesis by (simp add: claim_bounded)
next
  case (Q_Refresh_Challenge now t24 t40 request origin quota)
  with assms show ?thesis
    by (auto simp: create_credential_refresh_challenge_def Let_def split_beta refresh_bounded
        split: option.split sum.split)
next
  case (Q_Enroll_Challenge now later t24 t40 key label)
  with assms show ?thesis by (simp add: enrollment_bounded)
next
  case (Q_Issue_Device created later saved t40 nonce bearer relay room device limit)
  have "pending_shrinks pl (handle_control cfg q pl)"
    unfolding Q_Issue_Device by (simp add: issue_device_grant_def persist_and_cases Let_def split: sum.split option.split)
  with assms show ?thesis by (rule bounded_shrinks)
next
  case (Q_Claim now later created saved t40 claim_id signature)
  have "pending_shrinks pl (handle_control cfg q pl)"
    unfolding Q_Claim by (simp add: claim_client_identity_def pending_shrinks_def Let_def split_beta split: option.split)
  with assms show ?thesis by (rule bounded_shrinks)
next
  case (Q_Refresh now later saved nonce ct dt challenge_id signature origin)
  have "pending_shrinks pl (handle_control cfg q pl)"
    unfolding Q_Refresh by (simp add: refresh_credentials_def pending_shrinks_def Let_def
        split: option.split prod.split sum.split)
  with assms show ?thesis by (rule bounded_shrinks)
next
  case (Q_Enroll now later created saved draws t40 key challenge_id signature label)
  have "pending_shrinks pl (handle_control cfg q pl)"
    unfolding Q_Enroll by (simp add: complete_relay_enrollment_def prune_enrollments_def
        issue_relay_registration_for_verify_key_def pending_shrinks_def Let_def split: option.split)
  with assms show ?thesis by (rule bounded_shrinks)
qed (rule bounded_shrinks [OF assms], simp add: revoke_device_grant_def revoke_other_device_grants_def
    rotate_presented_identity_def revoke_client_identity_def issue_device_ws_token_def
    rollback_relay_enrollment_by_token_def restore_relay_registration_def
    revoke_relay_registration_chain_def Let_def split_beta split: sum.split option.split)+

text \<open>
  What callers can make the control plane hold is bounded, over any history: a relay has at most
  one unredeemed claim, a client at most 4 pending refreshes, an account at most 64, and at most
  4096 enrolments are pending in all.
\<close>

theorem pending_stays_bounded:
  assumes "process_run cfg es (Down file) = Running pl"
  shows "distinct (map (\<lambda>(_, c). pk_relay_id c) (pl_claims pl)) \<and>
    count_rows (\<lambda>p. rf_client_id (pf_challenge p) = client) (pl_refreshes pl) \<le> 4 \<and>
    count_rows (\<lambda>p. pf_quota_key p = quota) (pl_refreshes pl) \<le> 64 \<and>
    length (pl_enrollments pl) \<le> 4096"
proof -
  let ?bounded = "\<lambda>p. case p of Running pl \<Rightarrow> pending_bounded pl | Down _ \<Rightarrow> True"
  have start: "case start_control_plane cfg now a b disk of (Inr pl, _) \<Rightarrow> pending_bounded pl | _ \<Rightarrow> True"
    for now a b disk
    by (auto simp: start_control_plane_def load_or_create_legacy_def persist_and_def written_def
        pending_bounded_def count_rows_def Let_def split_beta split: sum.split prod.split)
  have step: "?bounded (process_step cfg e p)" if "?bounded p" for e p
    using that start by (cases e; cases p) (fastforce intro: handle_bounded split: prod.splits sum.splits)+
  have "?bounded p \<Longrightarrow> ?bounded (process_run cfg es p)" for p
    by (induction es arbitrary: p) (simp_all add: step)
  from this [of "Down file"] assms have "pending_bounded pl" by simp
  then show ?thesis
    by (simp add: pending_bounded_def MAX_PENDING_REFRESHES_PER_CLIENT_def
        MAX_PENDING_REFRESHES_PER_QUOTA_def MAX_PENDING_RELAY_ENROLLMENT_CHALLENGES_def)
qed

section \<open>Witnesses\<close>

lemma ascii_is_utf8: "list_all (char_in 0 0x7F) s \<Longrightarrow> is_utf8 s"
  by (induction s) auto

lemma sample_base64: "faithful_base64 sample_lib"
  by (simp add: faithful_base64_def sample_lib_def unletters_letters no_dot_letters del: set_concat)

lemma minted_credential_opens_witness:
  "key_subject sample_lib (Credential_Key ''k'') Kind_Device
      (mint_credential sample_lib (Credential_Key ''k'') Kind_Device (replicate 40 CHR ''a'') ''r'') =
    Some (Subject_Relay ''r'') \<and>
   key_subject sample_lib (Credential_Key ''k'') Kind_Client
      (mint_credential sample_lib (Credential_Key ''k'') Kind_Device (replicate 40 CHR ''a'') ''r'') = None"
proof -
  have "length (letters c) = 2" for c by (simp add: letters_def)
  then have short: "length (mint_credential sample_lib (Credential_Key ''k'') Kind_Device (replicate 40 CHR ''a'') ''r'')
      \<le> MAX_CREDENTIAL_BYTES"
    by (simp add: mint_credential_def seal_def Let_def sample_lib_def MAX_CREDENTIAL_BYTES_def
        length_concat sum_list_replicate)
  have "is_utf8 (replicate 40 CHR ''a'' @ '':'' @ ''r'')"
    by (rule ascii_is_utf8) (simp add: list_all_iff char_in_def)
  from minted_credential_opens [OF sample_base64 _ _ _ _ _ this short] show ?thesis
    by (simp add: MAX_ID_BYTES_def)
qed

lemma sample_apart: "mints_apart sample_control ''dt'' ts"
proof -
  have "kind_prefix kind @ rest \<noteq> ''dt''" for kind rest by (cases kind) simp_all
  then show ?thesis
    by (simp add: mints_apart_def mint_credential_def seal_def Let_def sample_control_def)
qed

lemma sample_ticket:
  "\<exists>token. issue_device_ws_token_for_registration sample_control 11 ''n'' ''room'' ''d'' = Inr token"
  by (simp add: issue_device_ws_token_for_registration_def mint_ticket_def validate_claims_def
      device_surface_join_def JOIN_TICKET_VERSION_def trimmed_def trim_def ascii_ws_def ws_two_def
      ws_three_def Let_def)

lemma sample_paired_again:
  "\<exists>issued pl'. issue_device_grant sample_control 10 11 True ''t'' ''n'' ''rt'' ''r'' ''room'' ''d'' None sample_plane =
       (Inr issued, pl') \<and> load_control_state (pl_file pl') = Inr (pl_store pl')"
proof -
  obtain token where "issue_device_ws_token_for_registration sample_control 11 ''n'' ''room'' ''d'' = Inr token"
    using sample_ticket by blast
  moreover have "store_wf (replace_device_grant lib grace now r device t sample_store)" for lib grace now r device t
    by (rule wf_replace_grant [OF sample_wf])
  ultimately show ?thesis
    using sample_authenticated
    by (cases token) (simp add: issue_device_grant_def too_long_def MAX_ID_BYTES_def device_limit_reached_def
        persist_and_def written_def load_control_state_def reload_wf sample_registration_def sample_plane_def Let_def)
qed

lemma replaced_token_expires_witness:
  "\<exists>pl' final k g'. process_run sample_control [Start 500 True True] (Running pl') = Running final \<and>
     find_device_grant_for_token (pl_store pl') ''dt'' 109 = Some (k, g') \<and>
     find_device_grant_for_token (pl_store final) ''dt'' 110 = None"
proof -
  obtain issued pl' where issued: "issue_device_grant sample_control 10 11 True ''t'' ''n'' ''rt'' ''r'' ''room'' ''d''
      None sample_plane = (Inr issued, pl')" and "load_control_state (pl_file pl') = Inr (pl_store pl')"
    using sample_paired_again by blast
  then obtain final where run: "process_run sample_control [Start 500 True True] (Running pl') = Running final"
    using run_start [where p = "Running pl'"] unfolding process_file.simps by blast
  have wf: "store_wf (pl_store sample_plane)" using sample_wf by (simp add: sample_plane_def)
  have row: "(''dt'', sample_grant) \<in> set (cs_grants (pl_store sample_plane))"
    and ids: "dg_relay_id sample_grant = ''r''" "dg_device_id sample_grant = ''d''"
    and current: "only_current ''dt'' (pl_store sample_plane)"
    by (simp_all add: sample_plane_def sample_rows only_current_def)
  have quiet: "\<forall>q. Handle q \<in> set [Start 500 True True] \<longrightarrow> mints_apart sample_control ''dt'' (drawn_tokens q)"
    by simp
  have deadline: "(110 :: u64) = sat_add 10 (cf_rotation_grace_secs sample_control)"
    by (simp add: sat_add_def sample_control_def)
  note expires = replaced_token_expires [OF issued wf row ids current sample_apart quiet run deadline]
  from expires [of 109] expires [of 110] run show ?thesis by auto
qed

definition claim_control :: control_config where
  "claim_control = sample_control\<lparr>cf_lib := (cf_lib sample_control)\<lparr>pl_ticket := sample_lib
     \<lparr>tl_std_decode := \<lambda>s. Some (replicate (if s = ''sig'' then 64 else 32) CHR ''x'')\<rparr>\<rparr>\<rparr>"

definition claim_plane :: control_plane where
  "claim_plane = sample_plane\<lparr>pl_claims := [(''c'', \<lparr>pk_relay_id = ''r'', pk_broker_room_id = ''room'',
     pk_device_id = ''d'', pk_client_verify_key = ''key'', pk_client_label = None,
     pk_device_label = None, pk_relay_label = None, pk_nonce = ''n'', pk_expires_at = 300\<rparr>)]\<rparr>"

lemma claim_trims [simp]: "trim ''c'' = ''c''" "trim ''sig'' = ''sig''"
  by (simp_all add: trim_def ascii_ws_def ws_two_def ws_three_def)

lemma identity_needs_signature_witness:
  "\<exists>before q after pl0. [Handle (Q_Claim 5 6 7 True ''t'' ''c'' ''sig'')] = before @ Handle q # after \<and>
     process_run claim_control before (Running claim_plane) = Running pl0 \<and>
     proves_key claim_control ''key'' q pl0"
proof (rule identity_needs_signature)
  show "process_run claim_control [Handle (Q_Claim 5 6 7 True ''t'' ''c'' ''sig'')] (Running claim_plane) =
      Running (handle_control claim_control (Q_Claim 5 6 7 True ''t'' ''c'' ''sig'') claim_plane)" by simp
  show "process_holds (keyless ''key'') (Running claim_plane)"
    by (simp add: claim_plane_def sample_plane_def file_holds_def reload_wf [OF sample_wf])
      (simp add: keyless_def sample_rows)
  show "client_identity_for_verify_key
      (pl_store (handle_control claim_control (Q_Claim 5 6 7 True ''t'' ''c'' ''sig'') claim_plane)) ''key'' \<noteq> None"
    by (simp add: claim_client_identity_def claim_plane_def drop_rows_def verify_client_claim_signature_def
        check_signature_def claim_control_def sample_control_def sample_plane_def sample_rows sample_lib_def
        identity_cap_reached_def MAX_CLIENT_IDENTITIES_PER_RELAY_def client_identity_for_verify_key_def
        find_row_def issue_or_rotate_client_identity_def put_client_def upsert_client_relay_grant_def Let_def)
qed

lemma pending_stays_bounded_witness:
  "\<exists>pl. process_run sample_control [Start 5 True True] (Down None) = Running pl \<and>
     length (pl_enrollments pl) \<le> 4096"
proof -
  have "load_control_state None = Inr default_store" by (simp add: load_control_state_def)
  then obtain pl where "process_run sample_control [Start 5 True True] (Down None) = Running pl"
    using run_start [where p = "Down None"] unfolding process_file.simps by blast
  with pending_stays_bounded show ?thesis by blast
qed

end
