(* ===== verification/Hash_Map.thy ===== *)
theory Hash_Map
  imports Prelude "HOL-Library.Char_ord" "HOL-Library.List_Lexorder"
begin

text \<open>
  Hash maps whose iteration the code reads, as association lists with distinct keys: \<open>insert\<close> and
  \<open>remove\<close> are \<open>AList.update\<close> and \<open>AList.delete\<close>, \<open>retain\<close> is below. What the components share on
  them: their lookups, their keys, and a loop that rewrites one entry. Strings are ordered by
  their bytes, as \<open>str::cmp\<close> does.
\<close>

named_theorems map_simps \<open>lookups and keys of updated association lists\<close>

type_synonym ('k, 'v) rows = "('k \<times> 'v) list"

abbreviation keys_of :: "('k, 'v) rows \<Rightarrow> 'k list" where
  "keys_of m \<equiv> map fst m"

definition retain :: "('k \<Rightarrow> 'v \<Rightarrow> bool) \<Rightarrow> ('k, 'v) rows \<Rightarrow> ('k, 'v) rows" where
  "retain p m = filter (\<lambda>(k, v). p k v) m"

text \<open>\<open>if let Some(row) = map.get_mut(key)\<close> with a body that rewrites the row.\<close>

definition adjust :: "'k \<Rightarrow> ('v \<Rightarrow> 'v) \<Rightarrow> ('k, 'v) rows \<Rightarrow> ('k, 'v) rows" where
  "adjust k f m = (case map_of m k of None \<Rightarrow> m | Some v \<Rightarrow> AList.update k (f v) m)"

lemma lookup_update [simp, map_simps]:
  "map_of (AList.update k v m) k' = (if k' = k then Some v else map_of m k')"
  by (simp add: update_conv')

lemma lookup_delete [simp, map_simps]:
  "map_of (AList.delete k m) k' = (if k' = k then None else map_of m k')"
  by (simp add: delete_conv')

lemma lookup_retain [map_simps]:
  "distinct (keys_of m) \<Longrightarrow>
     map_of (retain p m) k = (case map_of m k of None \<Rightarrow> None | Some v \<Rightarrow> if p k v then Some v else None)"
proof (induction m)
  case Nil
  then show ?case by (simp add: retain_def)
next
  case (Cons x m)
  obtain k0 v0 where x: "x = (k0, v0)" by (cases x)
  from Cons.prems x have "k0 \<notin> fst ` set m" "distinct (keys_of m)" by auto
  then have "map_of m k0 = None" by (simp add: map_of_eq_None_iff)
  with Cons.IH \<open>distinct (keys_of m)\<close> show ?case
    by (auto simp: x retain_def split: option.splits)
qed

lemma lookup_retain_some:
  "distinct (keys_of m) \<Longrightarrow> map_of (retain p m) k = Some v \<longleftrightarrow> map_of m k = Some v \<and> p k v"
  by (auto simp: lookup_retain simp del: map_of_eq_Some_iff split: option.splits if_splits)

lemma lookup_adjust [simp, map_simps]:
  "map_of (adjust k f m) k' = (if k' = k then map_option f (map_of m k) else map_of m k')"
  by (auto simp: adjust_def split: option.splits)

lemma lookup_key: "map_of m k = Some v \<Longrightarrow> k \<in> set (keys_of m)"
  by (force dest: map_of_SomeD)

lemma keys_retain: "set (keys_of (retain p m)) \<subseteq> set (keys_of m)"
  by (auto simp: retain_def)

lemma keys_adjust [simp]: "keys_of (adjust k f m) = keys_of m"
  using lookup_key [of m k]
  by (auto simp: adjust_def update_keys simp del: map_of_eq_Some_iff split: option.splits)

lemma distinct_retain [intro, simp, map_simps]:
  "distinct (keys_of m) \<Longrightarrow> distinct (keys_of (retain p m))"
  by (induction m) (auto simp: retain_def)

lemma distinct_updated [intro, simp, map_simps]:
  "distinct (keys_of m) \<Longrightarrow> distinct (keys_of (AList.update k v m))"
  by (rule distinct_update)

lemma distinct_deleted [intro, simp, map_simps]:
  "distinct (keys_of m) \<Longrightarrow> distinct (keys_of (AList.delete k m))"
  by (rule distinct_delete)

lemma keys_delete [simp]: "set (keys_of (AList.delete k m)) = set (keys_of m) - {k}"
  by (auto simp: delete_keys)

lemma keys_update [simp]: "set (keys_of (AList.update k v m)) = insert k (set (keys_of m))"
  using dom_update [of k v m] by (simp add: dom_map_of_conv_image_fst)

lemma key_lookup: "k \<in> set (keys_of m) \<longleftrightarrow> map_of m k \<noteq> None"
  by (simp add: map_of_eq_None_iff)

lemma row_lookup: "distinct (keys_of m) \<Longrightarrow> (k, v) \<in> set m \<longleftrightarrow> map_of m k = Some v"
  by simp

text \<open>Two maps with the same lookups hold the same rows, whatever their order.\<close>

lemma same_lookups_rows:
  assumes "distinct (keys_of m)" "distinct (keys_of n)" "map_of m = map_of n"
  shows "set m = set n"
  using assms by (meson map_of_inject_set)

lemma same_rows_lookups:
  assumes "distinct (keys_of m)" "distinct (keys_of n)" "set m = set n"
  shows "map_of m = map_of n"
  using assms by (meson map_of_inject_set)

end
