(* ===== verification/Session_Binding.thy ===== *)
theory Session_Binding
  imports Hash_Map
begin

text \<open>
  Where a relay session reaches its provider
  (\<open>crates/relay-server/src/state/relay/session_binding.rs\<close>): the bindings of sessions to provider
  handles, and the reverse index by which provider events find their session. The index is
  derived; the invariant \<open>indexed\<close> says that the two agree, and that nothing blank is bound.
\<close>

section \<open>Bindings\<close>

record session_binding =
  sb_provider :: string
  sb_provider_handle :: string
  sb_provider_thread_id :: "string option"

type_synonym route_key = "string \<times> string"

definition identity_binding :: "string \<Rightarrow> string \<Rightarrow> session_binding" where
  "identity_binding provider native =
     \<lparr>sb_provider = provider, sb_provider_handle = native, sb_provider_thread_id = Some native\<rparr>"

definition binding_route_key :: "session_binding \<Rightarrow> route_key" where
  "binding_route_key b = (sb_provider b, sb_provider_handle b)"

definition is_materialized :: "session_binding \<Rightarrow> bool" where
  "is_materialized b \<longleftrightarrow> sb_provider_thread_id b \<noteq> None"

definition is_identity_for :: "string \<Rightarrow> session_binding \<Rightarrow> bool" where
  "is_identity_for sid b \<longleftrightarrow> sb_provider_handle b = sid \<and> sb_provider_thread_id b = Some sid"

datatype provider_event_target =
    Target_Bound string | Target_Adopted string | Target_Refused string | Target_Unroutable

record resolved_target =
  rt_session_id :: string
  rt_provider :: string
  rt_provider_handle :: string

record adopted_session =
  as_provider :: string
  as_provider_handle :: string
  as_session_id :: string

datatype binding_error =
    Binding_Blank string
  | Handle_Claimed string string string
  | Session_Id_Claimed string string

record binding_registry =
  br_bindings :: "(string, session_binding) rows"
  br_index :: "(route_key, string) rows"

definition empty_registry :: binding_registry where
  "empty_registry = \<lparr>br_bindings = [], br_index = []\<rparr>"

section \<open>Operations\<close>

definition binding_of :: "string \<Rightarrow> binding_registry \<Rightarrow> session_binding option" where
  "binding_of sid r = map_of (br_bindings r) sid"

definition session_for_provider_handle :: "string \<Rightarrow> string \<Rightarrow> binding_registry \<Rightarrow> string option" where
  "session_for_provider_handle provider handle r = map_of (br_index r) (provider, handle)"

text \<open>The reverse index without the key a session leaves, when its key changes.\<close>

definition drop_left_key :: "string \<Rightarrow> route_key \<Rightarrow> binding_registry \<Rightarrow> (route_key, string) rows" where
  "drop_left_key sid key r =
     (case map_of (br_bindings r) sid of
        None \<Rightarrow> br_index r
      | Some previous \<Rightarrow>
          if binding_route_key previous \<noteq> key
          then AList.delete (binding_route_key previous) (br_index r) else br_index r)"

definition bind_session ::
    "string \<Rightarrow> session_binding \<Rightarrow> binding_registry \<Rightarrow> binding_error + binding_registry" where
  "bind_session sid b r =
     (if sid = [] then Inl (Binding_Blank ''session id'')
      else if sb_provider b = [] then Inl (Binding_Blank ''provider'')
      else if sb_provider_handle b = [] then Inl (Binding_Blank ''provider handle'')
      else
        let key = binding_route_key b;
            accept = Inr \<lparr>br_bindings = AList.update sid b (br_bindings r),
                          br_index = AList.update key sid (drop_left_key sid key r)\<rparr>
        in case map_of (br_index r) key of
             Some holder \<Rightarrow>
               if holder \<noteq> sid then Inl (Handle_Claimed (fst key) (snd key) holder) else accept
           | None \<Rightarrow> accept)"

definition bind_identity :: "string \<Rightarrow> string \<Rightarrow> binding_registry \<Rightarrow> binding_error + binding_registry" where
  "bind_identity provider native = bind_session native (identity_binding provider native)"

definition bind_deferred ::
    "string \<Rightarrow> string \<Rightarrow> string \<Rightarrow> binding_registry \<Rightarrow> binding_error + binding_registry" where
  "bind_deferred sid provider handle =
     bind_session sid
       \<lparr>sb_provider = provider, sb_provider_handle = handle, sb_provider_thread_id = None\<rparr>"

text \<open>The session that moved, if the pending handle belongs to one without a durable id.\<close>

definition materialize_deferred ::
    "string \<Rightarrow> string \<Rightarrow> string \<Rightarrow> binding_registry \<Rightarrow> binding_error + (string option \<times> binding_registry)" where
  "materialize_deferred provider pending native r =
     (case session_for_provider_handle provider pending r of
        None \<Rightarrow> Inr (None, r)
      | Some sid \<Rightarrow>
          if (case binding_of sid r of None \<Rightarrow> False | Some b \<Rightarrow> is_materialized b)
          then Inr (None, r)
          else (case bind_session sid (identity_binding provider native) r of
                  Inl e \<Rightarrow> Inl e
                | Inr r' \<Rightarrow> Inr (Some sid, r')))"

definition materialized_alias :: "string \<Rightarrow> string \<Rightarrow> binding_registry \<Rightarrow> string option" where
  "materialized_alias provider handle r =
     (case session_for_provider_handle provider handle r of
        None \<Rightarrow> None
      | Some sid \<Rightarrow>
          (case binding_of sid r of
             None \<Rightarrow> None
           | Some b \<Rightarrow> if is_materialized b \<and> \<not> is_identity_for sid b then Some sid else None))"

definition resolve_session :: "string \<Rightarrow> binding_registry \<Rightarrow> resolved_target option" where
  "resolve_session sid r =
     map_option (\<lambda>b. \<lparr>rt_session_id = sid, rt_provider = sb_provider b,
       rt_provider_handle = sb_provider_handle b\<rparr>) (map_of (br_bindings r) sid)"

definition alias_matches :: "string \<Rightarrow> binding_registry \<Rightarrow> string list" where
  "alias_matches value r =
     remdups (sort (map snd (filter (\<lambda>(key, _). snd key = value) (br_index r))))"

definition canonical_session_id :: "string \<Rightarrow> binding_registry \<Rightarrow> string list + string" where
  "canonical_session_id value r =
     (if map_of (br_bindings r) value \<noteq> None then Inr value
      else case alias_matches value r of
             [] \<Rightarrow> Inr value
           | [sid] \<Rightarrow> Inr sid
           | sids \<Rightarrow> Inl sids)"

definition adopt_provider_handle ::
    "string \<Rightarrow> string \<Rightarrow> binding_registry \<Rightarrow> binding_error + (adopted_session \<times> binding_registry)" where
  "adopt_provider_handle provider handle r =
     (let adopted = (\<lambda>sid. \<lparr>as_provider = provider, as_provider_handle = handle, as_session_id = sid\<rparr>)
      in if provider = [] then Inl (Binding_Blank ''provider'')
         else if handle = [] then Inl (Binding_Blank ''provider handle'')
         else case session_for_provider_handle provider handle r of
                Some sid \<Rightarrow> Inr (adopted sid, r)
              | None \<Rightarrow>
                  (case map_of (br_bindings r) handle of
                     Some existing \<Rightarrow> Inl (Session_Id_Claimed handle (sb_provider existing))
                   | None \<Rightarrow>
                       (case bind_identity provider handle r of
                          Inl e \<Rightarrow> Inl e
                        | Inr r' \<Rightarrow> Inr (adopted handle, r'))))"

definition route_provider_event ::
    "string \<Rightarrow> string \<Rightarrow> binding_registry \<Rightarrow> provider_event_target \<times> binding_registry" where
  "route_provider_event provider handle r =
     (if provider = [] \<or> handle = [] then (Target_Unroutable, r)
      else case session_for_provider_handle provider handle r of
             Some sid \<Rightarrow> (Target_Bound sid, r)
           | None \<Rightarrow>
               (case map_of (br_bindings r) handle of
                  Some existing \<Rightarrow> (Target_Refused (sb_provider existing), r)
                | None \<Rightarrow>
                    (case bind_identity provider handle r of
                       Inr r' \<Rightarrow> (Target_Adopted handle, r')
                     | Inl _ \<Rightarrow> (Target_Refused provider, r))))"

definition remove_session :: "string \<Rightarrow> binding_registry \<Rightarrow> session_binding option \<times> binding_registry" where
  "remove_session sid r =
     (case map_of (br_bindings r) sid of
        None \<Rightarrow> (None, r)
      | Some b \<Rightarrow>
          (Some b, \<lparr>br_bindings = AList.delete sid (br_bindings r),
                    br_index = AList.delete (binding_route_key b) (br_index r)\<rparr>))"

section \<open>Persistence\<close>

definition is_persistable :: "string \<Rightarrow> session_binding \<Rightarrow> bool" where
  "is_persistable sid b \<longleftrightarrow>
     is_materialized b \<and> (sb_provider b = ''opencode'' \<or> \<not> is_identity_for sid b)"

definition persistable :: "binding_registry \<Rightarrow> (string, session_binding) rows" where
  "persistable r = retain is_persistable (br_bindings r)"

fun restore_entries ::
    "(string, session_binding) rows \<Rightarrow> binding_registry \<times> string list \<Rightarrow> binding_registry \<times> string list" where
  "restore_entries [] acc = acc"
| "restore_entries ((sid, b) # entries) (r, dropped) =
     restore_entries entries
       (case bind_session sid b r of Inl _ \<Rightarrow> (r, dropped @ [sid]) | Inr r' \<Rightarrow> (r', dropped))"

definition restore_bindings :: "(string, session_binding) rows \<Rightarrow> binding_registry \<times> string list" where
  "restore_bindings persisted = restore_entries (sort_key fst persisted) (empty_registry, [])"

section \<open>Histories\<close>

datatype binding_op =
    Op_Bind string session_binding
  | Op_Bind_Identity string string
  | Op_Bind_Deferred string string string
  | Op_Materialize string string string
  | Op_Adopt string string
  | Op_Route string string
  | Op_Remove string
  | Op_Restart

definition or_same :: "binding_registry \<Rightarrow> binding_error + binding_registry \<Rightarrow> binding_registry" where
  "or_same r res = (case res of Inl _ \<Rightarrow> r | Inr r' \<Rightarrow> r')"

text \<open>\<open>Op_Restart\<close> writes the bindings to the state file and loads them again.\<close>

fun binding_step :: "binding_registry \<Rightarrow> binding_op \<Rightarrow> binding_registry" where
  "binding_step r (Op_Bind sid b) = or_same r (bind_session sid b r)"
| "binding_step r (Op_Bind_Identity p n) = or_same r (bind_identity p n r)"
| "binding_step r (Op_Bind_Deferred sid p h) = or_same r (bind_deferred sid p h r)"
| "binding_step r (Op_Materialize p h n) =
     (case materialize_deferred p h n r of Inl _ \<Rightarrow> r | Inr (_, r') \<Rightarrow> r')"
| "binding_step r (Op_Adopt p h) = (case adopt_provider_handle p h r of Inl _ \<Rightarrow> r | Inr (_, r') \<Rightarrow> r')"
| "binding_step r (Op_Route p h) = snd (route_provider_event p h r)"
| "binding_step r (Op_Remove sid) = snd (remove_session sid r)"
| "binding_step r Op_Restart = fst (restore_bindings (persistable r))"

definition binding_run :: "binding_op list \<Rightarrow> binding_registry \<Rightarrow> binding_registry" where
  "binding_run ops r = fold (\<lambda>e r. binding_step r e) ops r"

end
