(* ===== verification/Session_Facts.thy ===== *)
theory Session_Facts
  imports Session_Binding
begin

text \<open>
  What the binding registry keeps: the two indexes agree after any history, so that a provider
  handle leads to at most one session; no provider event moves a session that is bound; the state
  file brings back what was written, whatever its order.
\<close>

declare map_of_eq_Some_iff [simp del] split_paired_All [simp del] split_paired_Ex [simp del]

section \<open>The two indexes agree\<close>

definition well_addressed :: "string \<Rightarrow> session_binding \<Rightarrow> bool" where
  "well_addressed sid b \<longleftrightarrow> sid \<noteq> [] \<and> sb_provider b \<noteq> [] \<and> sb_provider_handle b \<noteq> []"

definition indexed :: "binding_registry \<Rightarrow> bool" where
  "indexed r \<longleftrightarrow>
     distinct (keys_of (br_bindings r)) \<and> distinct (keys_of (br_index r)) \<and>
     (\<forall>key sid. map_of (br_index r) key = Some sid \<longleftrightarrow>
        (\<exists>b. map_of (br_bindings r) sid = Some b \<and> binding_route_key b = key)) \<and>
     (\<forall>sid b. map_of (br_bindings r) sid = Some b \<longrightarrow> well_addressed sid b)"

lemma indexedI:
  assumes "distinct (keys_of (br_bindings r))" "distinct (keys_of (br_index r))"
    and "\<And>key sid. map_of (br_index r) key = Some sid \<longleftrightarrow>
        (\<exists>b. map_of (br_bindings r) sid = Some b \<and> binding_route_key b = key)"
    and "\<And>sid b. map_of (br_bindings r) sid = Some b \<Longrightarrow> well_addressed sid b"
  shows "indexed r"
  using assms by (simp add: indexed_def)

lemma indexed_distinct:
  "indexed r \<Longrightarrow> distinct (keys_of (br_bindings r))"
  "indexed r \<Longrightarrow> distinct (keys_of (br_index r))"
  by (simp_all add: indexed_def)

lemma index_lookup:
  "indexed r \<Longrightarrow> map_of (br_index r) key = Some sid \<longleftrightarrow>
     (\<exists>b. map_of (br_bindings r) sid = Some b \<and> binding_route_key b = key)"
  by (simp add: indexed_def)

lemma bound_well_addressed: "indexed r \<Longrightarrow> map_of (br_bindings r) sid = Some b \<Longrightarrow> well_addressed sid b"
  by (simp add: indexed_def)

lemma one_session_per_key:
  "indexed r \<Longrightarrow> map_of (br_bindings r) sid = Some b \<Longrightarrow> map_of (br_bindings r) sid' = Some b' \<Longrightarrow>
     binding_route_key b = binding_route_key b' \<Longrightarrow> sid = sid'"
  by (metis index_lookup option.inject)

lemma indexed_empty [simp, intro]: "indexed empty_registry"
  by (rule indexedI) (simp_all add: empty_registry_def)

text \<open>When a binding is accepted, and what it leaves.\<close>

lemma bind_session_Inr:
  assumes "bind_session sid b r = Inr r'"
  shows "well_addressed sid b"
    and "map_of (br_index r) (binding_route_key b) \<in> {None, Some sid}"
    and "r' = \<lparr>br_bindings = AList.update sid b (br_bindings r),
      br_index = AList.update (binding_route_key b) sid (drop_left_key sid (binding_route_key b) r)\<rparr>"
  using assms
  by (auto simp: bind_session_def well_addressed_def Let_def split: if_splits option.splits)

lemma bind_session_accepts:
  "well_addressed sid b \<Longrightarrow> map_of (br_index r) (binding_route_key b) \<in> {None, Some sid} \<Longrightarrow>
     \<exists>r'. bind_session sid b r = Inr r'"
  by (auto simp: bind_session_def well_addressed_def Let_def)

lemma lookup_drop_left_key:
  "map_of (drop_left_key sid key r) k =
     (if (\<exists>b. map_of (br_bindings r) sid = Some b \<and> binding_route_key b = k) \<and> k \<noteq> key
      then None else map_of (br_index r) k)"
  by (auto simp: drop_left_key_def split: option.splits)

lemma indexed_bind:
  assumes "indexed r" "bind_session sid b r = Inr r'"
  shows "indexed r'"
proof (rule indexedI)
  note r' = bind_session_Inr [OF assms(2)]
  show "distinct (keys_of (br_bindings r'))" "distinct (keys_of (br_index r'))"
    using indexed_distinct [OF assms(1)] r'(3) by (auto simp: drop_left_key_def split: option.splits)
  show "map_of (br_bindings r') s = Some b' \<Longrightarrow> well_addressed s b'" for s b'
    using r' bound_well_addressed [OF assms(1)] by (auto split: if_splits)
  show "map_of (br_index r') key = Some s \<longleftrightarrow>
      (\<exists>b'. map_of (br_bindings r') s = Some b' \<and> binding_route_key b' = key)" for key s
  proof (cases "key = binding_route_key b")
    case True
    have "s = sid" if "map_of (br_bindings r) s = Some b'" "binding_route_key b' = key" for b'
      using that True r'(2) index_lookup [OF assms(1), of key s] by auto
    then show ?thesis unfolding r'(3) True by (auto split: if_splits)
  next
    case False
    then show ?thesis
      unfolding r'(3) using one_session_per_key [OF assms(1), of sid _ s] index_lookup [OF assms(1), of key]
      by (auto simp: lookup_drop_left_key) metis
  qed
qed

lemma indexed_remove:
  assumes "indexed r"
  shows "indexed (snd (remove_session sid r))"
proof (cases "map_of (br_bindings r) sid")
  case None
  with assms show ?thesis by (simp add: remove_session_def)
next
  case (Some b)
  show ?thesis
  proof (rule indexedI)
    show "distinct (keys_of (br_bindings (snd (remove_session sid r))))"
      "distinct (keys_of (br_index (snd (remove_session sid r))))"
      using indexed_distinct [OF assms] by (simp_all add: remove_session_def Some)
    show "map_of (br_bindings (snd (remove_session sid r))) s = Some b' \<Longrightarrow> well_addressed s b'" for s b'
      using bound_well_addressed [OF assms] by (auto simp: remove_session_def Some split: if_splits)
    show "map_of (br_index (snd (remove_session sid r))) key = Some s \<longleftrightarrow>
        (\<exists>b'. map_of (br_bindings (snd (remove_session sid r))) s = Some b' \<and> binding_route_key b' = key)"
      for key s
      using index_lookup [OF assms] one_session_per_key [OF assms Some]
      by (auto simp: remove_session_def Some)
  qed
qed

lemma indexed_or_same:
  "indexed r \<Longrightarrow> (\<And>r'. res = Inr r' \<Longrightarrow> indexed r') \<Longrightarrow> indexed (or_same r res)"
  by (auto simp: or_same_def split: sum.splits)

lemma indexed_restore_entries:
  "indexed (fst acc) \<Longrightarrow> indexed (fst (restore_entries entries acc))"
  by (induction entries acc rule: restore_entries.induct) (auto split: sum.splits dest: indexed_bind)

lemma indexed_restore: "indexed (fst (restore_bindings persisted))"
  unfolding restore_bindings_def by (rule indexed_restore_entries) simp

lemma indexed_step: "indexed r \<Longrightarrow> indexed (binding_step r e)"
proof (cases e)
  case (Op_Restart)
  then show ?thesis by (simp add: indexed_restore)
qed (auto simp: bind_identity_def bind_deferred_def materialize_deferred_def adopt_provider_handle_def
    route_provider_event_def Let_def intro: indexed_or_same indexed_bind indexed_remove
    split: sum.splits option.splits if_splits)

interpretation bindings: invariant_machine binding_step indexed
  by unfold_locales (rule indexed_step)

lemma indexed_run: "indexed r \<Longrightarrow> indexed (binding_run ops r)"
  unfolding binding_run_def by (rule bindings.inv_run)

section \<open>What provider events leave alone\<close>

text \<open>A session that is bound keeps its binding when another name is bound.\<close>

lemma bind_keeps_others:
  "bind_session sid b r = Inr r' \<Longrightarrow> s \<noteq> sid \<Longrightarrow> map_of (br_bindings r') s = map_of (br_bindings r) s"
  by (drule bind_session_Inr(3)) simp

lemma bind_identity_keeps:
  "bind_identity p n r = Inr r' \<Longrightarrow> map_of (br_bindings r) n = None \<Longrightarrow>
     map_of (br_bindings r) s = Some b \<Longrightarrow> map_of (br_bindings r') s = Some b"
  unfolding bind_identity_def by (drule bind_keeps_others [where s = s]) auto

lemma route_keeps_bindings:
  "map_of (br_bindings r) s = Some b \<Longrightarrow>
     map_of (br_bindings (snd (route_provider_event p h r))) s = Some b"
  by (auto simp: route_provider_event_def split: option.splits sum.splits intro: bind_identity_keeps)

lemma adopt_keeps_bindings:
  "map_of (br_bindings r) s = Some b \<Longrightarrow> adopt_provider_handle p h r = Inr (a, r') \<Longrightarrow>
     map_of (br_bindings r') s = Some b"
  by (auto simp: adopt_provider_handle_def Let_def split: option.splits sum.splits if_splits
      intro: bind_identity_keeps)

text \<open>The handle that an event is routed by then belongs to the session it was routed to.\<close>

lemma identity_bound:
  "bind_identity p n r = Inr r' \<Longrightarrow> map_of (br_index r') (p, n) = Some n"
  unfolding bind_identity_def
  by (drule bind_session_Inr(3)) (simp add: identity_binding_def binding_route_key_def)

lemma identity_accepted:
  "p \<noteq> [] \<Longrightarrow> n \<noteq> [] \<Longrightarrow> map_of (br_index r) (p, n) = None \<Longrightarrow> \<exists>r'. bind_identity p n r = Inr r'"
  unfolding bind_identity_def
  by (rule bind_session_accepts)
    (simp_all add: well_addressed_def identity_binding_def binding_route_key_def)

section \<open>The state file\<close>

lemma restore_entries_append:
  "restore_entries (xs @ ys) acc = restore_entries ys (restore_entries xs acc)"
  by (induction xs acc rule: restore_entries.induct) auto

text \<open>Entries that fit each other are all taken.\<close>

definition fitting :: "(string, session_binding) rows \<Rightarrow> bool" where
  "fitting m \<longleftrightarrow> distinct (keys_of m) \<and> (\<forall>(s, b)\<in>set m. well_addressed s b) \<and>
     (\<forall>(s, b)\<in>set m. \<forall>(s', b')\<in>set m. binding_route_key b = binding_route_key b' \<longrightarrow> s = s')"

lemma update_new_row: "map_of m k = None \<Longrightarrow> AList.update k v m = m @ [(k, v)]"
  by (induction m) (auto split: if_splits)

lemma fitting_key:
  "fitting m \<Longrightarrow> (s, b) \<in> set m \<Longrightarrow> (s', b') \<in> set m \<Longrightarrow>
     binding_route_key b = binding_route_key b' \<Longrightarrow> s = s'"
  by (fastforce simp: fitting_def)

lemma fitting_row: "fitting m \<Longrightarrow> (s, b) \<in> set m \<Longrightarrow> well_addressed s b"
  by (auto simp: fitting_def)

lemma fitting_new: "fitting (m @ (s, b) # n) \<Longrightarrow> map_of m s = None"
  by (auto simp: fitting_def map_of_eq_None_iff)

lemma restore_fitting:
  assumes "indexed r" "fitting (br_bindings r @ entries)"
  shows "\<exists>r'. restore_entries entries (r, dropped) = (r', dropped) \<and> indexed r' \<and>
    map_of (br_bindings r') = map_of (br_bindings r @ entries)"
  using assms
proof (induction entries arbitrary: r)
  case Nil
  then show ?case by simp
next
  case (Cons e entries)
  obtain s b where e: "e = (s, b)" by (cases e)
  note fit = Cons.prems(2) [unfolded e]
  have new: "map_of (br_bindings r) s = None" using fit by (rule fitting_new)
  have "map_of (br_index r) (binding_route_key b) = None"
  proof (cases "map_of (br_index r) (binding_route_key b)")
    case (Some s')
    then obtain b' where b': "map_of (br_bindings r) s' = Some b'"
        "binding_route_key b' = binding_route_key b"
      using index_lookup [OF Cons.prems(1)] by blast
    have "s' = s" by (rule fitting_key [OF fit _ _ b'(2)]) (simp_all add: map_of_SomeD [OF b'(1)])
    with new b' show ?thesis by simp
  qed
  then obtain r1 where r1: "bind_session s b r = Inr r1"
    using bind_session_accepts [OF fitting_row [OF fit, of s b]] by auto
  have rows: "br_bindings r1 = br_bindings r @ [(s, b)]"
    using new by (simp add: bind_session_Inr(3) [OF r1] update_new_row)
  have "fitting (br_bindings r1 @ entries)" using fit by (simp add: rows)
  from Cons.IH [OF indexed_bind [OF Cons.prems(1) r1] this] show ?case
    by (simp add: e r1 rows)
qed

text \<open>The bindings worth writing fit each other; sorting changes nothing of that.\<close>

lemma fitting_persistable:
  assumes "indexed r"
  shows "fitting (sort_key fst (persistable r))"
proof -
  note d = indexed_distinct(1) [OF assms]
  have rows: "(s, b) \<in> set (persistable r) \<Longrightarrow> map_of (br_bindings r) s = Some b" for s b
    using row_lookup [OF d, of s b] by (auto simp: persistable_def retain_def)
  have "distinct (keys_of (sort_key fst (persistable r)))"
    using distinct_retain [OF d] by (simp add: persistable_def distinct_map)
  with rows bound_well_addressed [OF assms] one_session_per_key [OF assms] show ?thesis
    unfolding fitting_def by (fastforce simp: set_sort)
qed

lemma lookup_sorted:
  assumes "distinct (keys_of m)"
  shows "map_of (sort_key fst m) = map_of m"
proof (rule same_rows_lookups)
  show "distinct (keys_of (sort_key fst m))" using assms by (simp add: distinct_map)
qed (use assms in \<open>simp_all add: set_sort\<close>)

lemma restore_persistable:
  assumes "indexed r"
  shows "\<exists>r'. restore_bindings (persistable r) = (r', []) \<and>
    map_of (br_bindings r') = map_of (persistable r)"
proof -
  have "fitting (br_bindings empty_registry @ sort_key fst (persistable r))"
    using fitting_persistable [OF assms] by (simp add: empty_registry_def)
  from restore_fitting [OF indexed_empty this] show ?thesis
    using indexed_distinct(1) [OF assms]
    by (auto simp: restore_bindings_def empty_registry_def lookup_sorted persistable_def)
qed

text \<open>The order of the file's rows does not matter, even when rows conflict.\<close>

lemma restore_any_order:
  assumes "distinct (keys_of xs)" "distinct (keys_of ys)" "set xs = set ys"
  shows "restore_bindings xs = restore_bindings ys"
proof -
  have inj: "inj_on fst (set ys)" using assms(2) by (simp add: distinct_map)
  have "map fst (sort_key fst xs) = map fst (sort_key fst ys)"
    using assms by (intro sorted_distinct_set_unique) (simp_all add: distinct_map)
  then have "sort_key fst xs = sort_key fst ys"
    by (rule map_inj_on) (use inj assms(3) in simp)
  then show ?thesis by (simp add: restore_bindings_def)
qed

section \<open>Properties\<close>

text \<open>
  C24. In any history of the registry, with restarts, from any state whose indexes agree, a handle of
  a provider leads to at most one session, the session that is bound to exactly this handle; every
  bound session is found under its handle, and no session, provider or handle is blank.
\<close>

theorem handles_lead_home:
  assumes "indexed r"
  shows "session_for_provider_handle p h (binding_run ops r) = Some sid \<longleftrightarrow>
      (\<exists>b. binding_of sid (binding_run ops r) = Some b \<and> sb_provider b = p \<and> sb_provider_handle b = h) \<and>
      sid \<noteq> [] \<and> p \<noteq> [] \<and> h \<noteq> []"
  using index_lookup [OF indexed_run [OF assms], of ops "(p, h)" sid]
    bound_well_addressed [OF indexed_run [OF assms], of ops sid]
  by (auto simp: session_for_provider_handle_def binding_of_def binding_route_key_def well_addressed_def)

definition sample_binding_ops :: "binding_op list" where
  "sample_binding_ops =
     [Op_Bind_Deferred ''s1'' ''claude'' ''claude-pending-1'', Op_Materialize ''claude'' ''claude-pending-1'' ''n1'',
      Op_Route ''codex'' ''n1'', Op_Restart]"

lemma handles_lead_home_witness:
  "session_for_provider_handle ''claude'' ''n1'' (binding_run sample_binding_ops empty_registry) = Some ''s1'' \<and>
   binding_of ''n1'' (binding_run sample_binding_ops empty_registry) = None \<and>
   indexed empty_registry"
proof -
  have "session_for_provider_handle ''claude'' ''n1'' (binding_run sample_binding_ops empty_registry) = Some ''s1''"
    by code_simp
  with handles_lead_home [OF indexed_empty, of "''claude''" "''n1''" sample_binding_ops "''s1''"]
  show ?thesis by auto code_simp
qed

text \<open>
  C15. No event of a provider moves a bound session: an event whose handle is bound is routed to the
  session it is bound to, and the registry stays as it was; an event with a blank handle or one that
  spells the id of a session bound elsewhere is turned away, and the registry stays as it was; only
  a fresh handle is adopted, as the session of that very id, and then the registry gains exactly the
  identity binding of this session and keeps the binding of every other.
\<close>

theorem provider_events_move_no_session:
  assumes "indexed r" "route_provider_event p h r = (target, r')"
  shows "case target of
      Target_Bound s \<Rightarrow> r' = r \<and> (\<exists>b. binding_of s r = Some b \<and> sb_provider b = p \<and> sb_provider_handle b = h)
    | Target_Adopted s \<Rightarrow> s = h \<and> binding_of h r = None \<and> session_for_provider_handle p h r = None \<and>
        binding_of h r' = Some (identity_binding p h) \<and>
        (\<forall>s'. s' \<noteq> h \<longrightarrow> binding_of s' r' = binding_of s' r)
    | Target_Refused q \<Rightarrow> r' = r \<and> p \<noteq> [] \<and> h \<noteq> [] \<and> session_for_provider_handle p h r = None \<and>
        (\<exists>b. binding_of h r = Some b \<and> sb_provider b = q)
    | Target_Unroutable \<Rightarrow> r' = r \<and> (p = [] \<or> h = [])"
proof -
  have bound: "\<exists>b. binding_of s r = Some b \<and> sb_provider b = p \<and> sb_provider_handle b = h"
    if "session_for_provider_handle p h r = Some s" for s
    using that index_lookup [OF assms(1), of "(p, h)" s]
    by (auto simp: session_for_provider_handle_def binding_of_def binding_route_key_def)
  show ?thesis
  proof (cases "p = [] \<or> h = [] \<or> session_for_provider_handle p h r \<noteq> None \<or> binding_of h r \<noteq> None")
    case True
    with assms(2) bound show ?thesis
      by (auto simp: route_provider_event_def binding_of_def split: option.splits if_splits)
  next
    case False
    then have fresh: "p \<noteq> []" "h \<noteq> []" "session_for_provider_handle p h r = None" "binding_of h r = None"
      by auto
    from identity_accepted [of p h r] fresh obtain r1 where r1: "bind_identity p h r = Inr r1"
      by (auto simp: session_for_provider_handle_def binding_of_def)
    with assms(2) fresh have "target = Target_Adopted h" "r' = r1"
      by (auto simp: route_provider_event_def binding_of_def)
    moreover have "br_bindings r1 = AList.update h (identity_binding p h) (br_bindings r)"
      using r1 by (auto simp: bind_identity_def bind_session_def Let_def split: if_splits option.splits)
    ultimately show ?thesis using fresh by (simp add: binding_of_def)
  qed
qed

lemma provider_events_move_no_session_witness:
  "fst (route_provider_event ''codex'' ''s1'' (binding_run sample_binding_ops empty_registry)) =
     Target_Refused ''claude'' \<and>
   fst (route_provider_event ''codex'' ''n2'' (binding_run sample_binding_ops empty_registry)) =
     Target_Adopted ''n2'' \<and>
   binding_of ''s1'' (snd (route_provider_event ''codex'' ''n2'' (binding_run sample_binding_ops empty_registry))) =
     binding_of ''s1'' (binding_run sample_binding_ops empty_registry)"
proof -
  let ?r = "binding_run sample_binding_ops empty_registry"
  have target: "fst (route_provider_event ''codex'' ''n2'' ?r) = Target_Adopted ''n2''" by code_simp
  have "binding_of ''s1'' (snd (route_provider_event ''codex'' ''n2'' ?r)) = binding_of ''s1'' ?r"
    using provider_events_move_no_session
      [OF indexed_run [OF indexed_empty] surjective_pairing, of "''codex''" "''n2''" sample_binding_ops]
    unfolding target by simp
  moreover have "fst (route_provider_event ''codex'' ''s1'' ?r) = Target_Refused ''claude''" by code_simp
  ultimately show ?thesis using target by simp
qed

text \<open>
  C25. A restart keeps what it must: loading what was written drops no session and brings back
  exactly the bindings with a durable id that the provider's own list cannot bring back; the
  result does not depend on the order of the file's rows.
\<close>

theorem bindings_survive_restart:
  assumes "indexed r" "distinct (keys_of rows)" "set rows = set (persistable r)"
  shows "snd (restore_bindings rows) = [] \<and>
    (\<forall>s b. binding_of s (fst (restore_bindings rows)) = Some b \<longleftrightarrow>
      binding_of s r = Some b \<and> is_persistable s b)"
proof -
  note d = indexed_distinct(1) [OF assms(1)]
  have "restore_bindings rows = restore_bindings (persistable r)"
    using assms(2,3) distinct_retain [OF d] by (intro restore_any_order) (simp_all add: persistable_def)
  with restore_persistable [OF assms(1)] lookup_retain_some [OF d, of is_persistable]
  show ?thesis by (auto simp: binding_of_def persistable_def)
qed

lemma bindings_survive_restart_witness:
  "binding_of ''s1'' (fst (restore_bindings
     (rev (persistable (binding_run (sample_binding_ops @ [Op_Bind ''s2'' (identity_binding ''pi'' ''x'')])
       empty_registry))))) = Some (identity_binding ''claude'' ''n1'')"
proof -
  let ?r = "binding_run (sample_binding_ops @ [Op_Bind ''s2'' (identity_binding ''pi'' ''x'')]) empty_registry"
  have d: "distinct (keys_of (rev (persistable ?r)))" by code_simp
  have b: "binding_of ''s1'' ?r = Some (identity_binding ''claude'' ''n1'') \<and>
      is_persistable ''s1'' (identity_binding ''claude'' ''n1'')"
    by code_simp
  with bindings_survive_restart [OF indexed_run [OF indexed_empty] d set_rev, THEN conjunct2,
      THEN spec, THEN spec, of "''s1''"]
  show ?thesis by (rule iffD2)
qed

end
