(* ===== verification/Workspace_Scope.thy ===== *)
theory Workspace_Scope
  imports Hash_Map
begin

text \<open>
  Which directories a caller may reach (\<open>crates/relay-server/src/state/workspace_scope.rs\<close>, and the
  normalization of paths in \<open>crates/relay-server/src/state.rs\<close>). A path is the list of its
  components, as \<open>std::path\<close> compares paths on Unix; the file system, the home and the working
  directory are a parameter. Paths are valid UTF-8, so the lossy conversions lose nothing.
\<close>

section \<open>Paths\<close>

datatype path_part = Part_Root | Part_Cur | Part_Up | Part_Name string

type_synonym path = "path_part list"

fun segments :: "string \<Rightarrow> string list" where
  "segments [] = [[]]"
| "segments (c # s) =
     (if c = CHR ''/'' then [] # segments s
      else case segments s of [] \<Rightarrow> [[c]] | w # ws \<Rightarrow> (c # w) # ws)"

definition name_part :: "string \<Rightarrow> path_part" where
  "name_part w = (if w = ''..'' then Part_Up else Part_Name w)"

text \<open>\<open>Path::components\<close>: repeated separators and inner dots vanish, a leading dot stays.\<close>

definition parse_path :: "string \<Rightarrow> path" where
  "parse_path s =
     (let body = map name_part (filter (\<lambda>w. w \<noteq> [] \<and> w \<noteq> ''.'') (segments s))
      in if starts_with s ''/'' then Part_Root # body
         else if hd (segments s) = ''.'' then Part_Cur # body
         else body)"

fun show_part :: "path_part \<Rightarrow> string" where
  "show_part Part_Root = ''/''"
| "show_part Part_Cur = ''.''"
| "show_part Part_Up = ''..''"
| "show_part (Part_Name w) = w"

fun join_parts :: "path \<Rightarrow> string" where
  "join_parts [] = []"
| "join_parts [p] = show_part p"
| "join_parts (p # ps) = show_part p @ ''/'' @ join_parts ps"

fun show_path :: "path \<Rightarrow> string" where
  "show_path (Part_Root # ps) = ''/'' @ join_parts ps"
| "show_path ps = join_parts ps"

definition is_absolute :: "path \<Rightarrow> bool" where
  "is_absolute p \<longleftrightarrow> (case p of Part_Root # _ \<Rightarrow> True | _ \<Rightarrow> False)"

definition path_parent :: "path \<Rightarrow> path option" where
  "path_parent p = (if p = [] \<or> last p = Part_Root then None else Some (butlast p))"

definition file_name :: "path \<Rightarrow> string option" where
  "file_name p = (if p = [] then None else case last p of Part_Name w \<Rightarrow> Some w | _ \<Rightarrow> None)"

fun drop_cur :: "path \<Rightarrow> path" where
  "drop_cur (Part_Cur # p) = p"
| "drop_cur p = p"

definition path_join :: "path \<Rightarrow> path \<Rightarrow> path" where
  "path_join a b = (if is_absolute b \<or> a = [] then b else a @ drop_cur b)"

text \<open>\<open>Path::ancestors\<close>: the path, its parent, and so on; here on the reversed components.\<close>

fun ancestors_rev :: "path \<Rightarrow> path list" where
  "ancestors_rev [] = [[]]"
| "ancestors_rev (p # ps) =
     rev (p # ps) # (if p = Part_Root then [] else ancestors_rev ps)"

definition path_ancestors :: "path \<Rightarrow> path list" where
  "path_ancestors p = ancestors_rev (rev p)"

definition path_starts_with :: "path \<Rightarrow> path \<Rightarrow> bool" where
  "path_starts_with p q \<longleftrightarrow> take (length q) p = q"

section \<open>The file system\<close>

datatype lstat = Stat_Missing | Stat_Failed | Stat_File nat | Stat_Dir | Stat_Other

record file_system =
  fs_home :: "string option"
  fs_cwd :: "path option"
  fs_real :: "path \<Rightarrow> path option"
  fs_exists :: "path \<Rightarrow> bool"
  fs_is_dir :: "path \<Rightarrow> bool option"
  fs_lstat :: "path \<Rightarrow> lstat"
  fs_text :: "path \<Rightarrow> string option"

section \<open>Normalization\<close>

definition non_empty :: "string option \<Rightarrow> string option" where
  "non_empty v = (case v of None \<Rightarrow> None | Some s \<Rightarrow> if trim s = [] then None else Some (trim s))"

definition expand_home_dir :: "file_system \<Rightarrow> string \<Rightarrow> path option" where
  "expand_home_dir fs s =
     (if s = ''~'' then map_option parse_path (fs_home fs)
      else if starts_with s ''~/''
           then map_option (\<lambda>home. path_join (parse_path home) (parse_path (drop 2 s))) (fs_home fs)
      else None)"

definition make_absolute :: "file_system \<Rightarrow> string \<Rightarrow> path option" where
  "make_absolute fs s =
     (if is_absolute (parse_path s) then Some (parse_path s)
      else map_option (\<lambda>cwd. path_join cwd (parse_path s)) (fs_cwd fs))"

fun collapse_part :: "path_part \<Rightarrow> path \<times> bool \<Rightarrow> path \<times> bool" where
  "collapse_part Part_Root (acc, rooted) = ([Part_Root], True)"
| "collapse_part Part_Cur (acc, rooted) = (acc, rooted)"
| "collapse_part Part_Up (acc, rooted) =
     (if file_name acc \<noteq> None then (butlast acc, rooted)
      else if \<not> rooted then (acc @ [Part_Up], rooted)
      else (acc, rooted))"
| "collapse_part (Part_Name w) (acc, rooted) = (acc @ [Part_Name w], rooted)"

definition collapse_lexical_components :: "path \<Rightarrow> path" where
  "collapse_lexical_components p = fst (fold collapse_part p ([], False))"

text \<open>The loop of \<open>normalize_path_lossy\<close>, on the reversed path: the part that exists, and the
  names below it from the outermost.\<close>

fun existing_part :: "file_system \<Rightarrow> path \<Rightarrow> string list \<Rightarrow> path \<times> string list" where
  "existing_part fs (Part_Name w # p) names =
     (if fs_exists fs (rev (Part_Name w # p)) then (Part_Name w # p, names)
      else existing_part fs p (w # names))"
| "existing_part fs p names = (p, names)"

definition normalize_path_lossy :: "file_system \<Rightarrow> path \<Rightarrow> path" where
  "normalize_path_lossy fs p =
     (case fs_real fs p of
        Some canonical \<Rightarrow> canonical
      | None \<Rightarrow>
          (let (current_rev, names) = existing_part fs (rev p) [];
               current = rev current_rev;
               base = (if fs_exists fs current
                 then (case fs_real fs current of Some q \<Rightarrow> q | None \<Rightarrow> current) else current)
           in collapse_lexical_components (base @ map Part_Name names)))"

definition normalize_cwd :: "file_system \<Rightarrow> string \<Rightarrow> string" where
  "normalize_cwd fs cwd =
     (let trimmed = trim cwd in
      if trimmed = [] then []
      else show_path (normalize_path_lossy fs
        (case expand_home_dir fs trimmed of
           Some p \<Rightarrow> p
         | None \<Rightarrow> (case make_absolute fs trimmed of Some p \<Rightarrow> p | None \<Rightarrow> parse_path trimmed))))"

text \<open>The first root that is not a directory refuses the whole list.\<close>

fun normalize_roots :: "file_system \<Rightarrow> string list \<Rightarrow> string + string list" where
  "normalize_roots fs [] = Inr []"
| "normalize_roots fs (root # roots) =
     (case non_empty (Some root) of
        None \<Rightarrow> normalize_roots fs roots
      | Some r \<Rightarrow>
          (let n = normalize_cwd fs r in
           if fs_is_dir fs (parse_path n) \<noteq> Some True then Inl n
           else (case normalize_roots fs roots of Inl e \<Rightarrow> Inl e | Inr ns \<Rightarrow> Inr (n # ns))))"

definition normalize_allowed_roots :: "file_system \<Rightarrow> string list \<Rightarrow> string + string list" where
  "normalize_allowed_roots fs roots =
     (case normalize_roots fs roots of Inl e \<Rightarrow> Inl e | Inr ns \<Rightarrow> Inr (remdups (sort ns)))"

section \<open>Linked worktrees\<close>

definition MAX_GIT_METADATA_BYTES :: nat where "MAX_GIT_METADATA_BYTES = 64 * 1024"
definition MAX_REPO_DISCOVERY_DEPTH :: nat where "MAX_REPO_DISCOVERY_DEPTH = 64"

definition read_small_regular_file :: "file_system \<Rightarrow> path \<Rightarrow> string option" where
  "read_small_regular_file fs p =
     (case fs_lstat fs p of
        Stat_File bytes \<Rightarrow> if MAX_GIT_METADATA_BYTES < bytes then None else fs_text fs p
      | _ \<Rightarrow> None)"

definition resolve_gitdir_pointer :: "file_system \<Rightarrow> path \<Rightarrow> string \<Rightarrow> path option" where
  "resolve_gitdir_pointer fs base pointer =
     (if trim pointer = [] then None else fs_real fs (path_join base (parse_path (trim pointer))))"

definition strip_start :: "string \<Rightarrow> string \<Rightarrow> string option" where
  "strip_start s p = (if starts_with s p then Some (drop (length p) s) else None)"

text \<open>\<open><main>/.git/worktrees/<name>\<close> gives \<open><main>\<close>; any other shape gives nothing.\<close>

definition worktree_owner :: "path \<Rightarrow> path option" where
  "worktree_owner target =
     Option.bind (path_parent target) (\<lambda>worktrees.
       if file_name worktrees \<noteq> Some ''worktrees'' then None
       else Option.bind (path_parent worktrees) (\<lambda>git_dir.
         if file_name git_dir \<noteq> Some ''.git'' then None else path_parent git_dir))"

definition main_worktree_of :: "file_system \<Rightarrow> path \<Rightarrow> path \<Rightarrow> path option" where
  "main_worktree_of fs dir dot_git =
     Option.bind (read_small_regular_file fs dot_git) (\<lambda>pointer.
     Option.bind (strip_start (trim pointer) ''gitdir:'') (\<lambda>pointed.
     Option.bind (resolve_gitdir_pointer fs dir pointed) (\<lambda>target.
     Option.bind (worktree_owner target) (\<lambda>main.
     Option.bind (read_small_regular_file fs (path_join target [Part_Name ''gitdir''])) (\<lambda>back_text.
     Option.bind (resolve_gitdir_pointer fs target back_text) (\<lambda>backward.
     Option.bind (fs_real fs dot_git) (\<lambda>here.
       if backward = here then Some main else None)))))))"

definition linked_worktree_main :: "file_system \<Rightarrow> path \<Rightarrow> path option" where
  "linked_worktree_main fs dir =
     (let dot_git = path_join dir [Part_Name ''.git'']
      in case fs_lstat fs dot_git of Stat_File _ \<Rightarrow> main_worktree_of fs dir dot_git | _ \<Rightarrow> None)"

definition linked_worktree_roots :: "file_system \<Rightarrow> path \<Rightarrow> path list" where
  "linked_worktree_roots fs p =
     List.map_filter (linked_worktree_main fs) (take MAX_REPO_DISCOVERY_DEPTH (path_ancestors p))"

fun repository_root_from :: "file_system \<Rightarrow> path list \<Rightarrow> path option" where
  "repository_root_from fs [] = None"
| "repository_root_from fs (dir # dirs) =
     (let dot_git = path_join dir [Part_Name ''.git''];
          present = (\<lambda>name. fs_lstat fs (path_join dir [Part_Name name]) \<noteq> Stat_Missing)
      in case fs_lstat fs dot_git of
           Stat_Missing \<Rightarrow>
             if present ''HEAD'' \<and> ((present ''objects'' \<and> present ''refs'') \<or> present ''commondir'')
             then None else repository_root_from fs dirs
         | Stat_Failed \<Rightarrow> None
         | Stat_Dir \<Rightarrow> Some dir
         | Stat_File _ \<Rightarrow> main_worktree_of fs dir dot_git
         | Stat_Other \<Rightarrow> None)"

definition repository_root :: "file_system \<Rightarrow> path \<Rightarrow> path option" where
  "repository_root fs start = repository_root_from fs (take MAX_REPO_DISCOVERY_DEPTH (path_ancestors start))"

section \<open>Scopes\<close>

record history_workspace =
  hw_cwd :: string
  hw_repositories :: "string list"

definition capture_history :: "file_system \<Rightarrow> string \<Rightarrow> history_workspace" where
  "capture_history fs cwd =
     (let n = normalize_cwd fs cwd; p = parse_path n
      in \<lparr>hw_cwd = n,
          hw_repositories = (if is_absolute p then map show_path (linked_worktree_roots fs p) else [])\<rparr>)"

definition history_matches :: "file_system \<Rightarrow> string \<Rightarrow> history_workspace \<Rightarrow> bool" where
  "history_matches fs cwd h \<longleftrightarrow> hw_cwd h = cwd \<or> hw_cwd h = normalize_cwd fs cwd"

record workspace_scope =
  ws_relay_roots :: "string list"
  ws_device_paths :: "string list"

definition is_unrestricted :: "workspace_scope \<Rightarrow> bool" where
  "is_unrestricted w \<longleftrightarrow> ws_relay_roots w = [] \<and> ws_device_paths w = []"

definition under_any :: "string \<Rightarrow> string list \<Rightarrow> bool" where
  "under_any normalized roots \<longleftrightarrow>
     list_ex (\<lambda>root. path_starts_with (parse_path normalized) (parse_path root)) roots"

definition relay_covers :: "file_system \<Rightarrow> string \<Rightarrow> workspace_scope \<Rightarrow> bool" where
  "relay_covers fs normalized w \<longleftrightarrow>
     ws_relay_roots w = [] \<or> under_any normalized (ws_relay_roots w) \<or>
     (is_absolute (parse_path normalized) \<and>
      list_ex (\<lambda>main. under_any (show_path main) (ws_relay_roots w))
        (linked_worktree_roots fs (parse_path normalized)))"

definition history_covers :: "file_system \<Rightarrow> string \<Rightarrow> history_workspace \<Rightarrow> workspace_scope \<Rightarrow> bool" where
  "history_covers fs normalized h w \<longleftrightarrow>
     history_matches fs normalized h \<and>
     list_ex (\<lambda>repo. under_any repo (ws_relay_roots w)) (hw_repositories h) \<and>
     fs_lstat fs (parse_path normalized) = Stat_Missing"

datatype scope_error = Outside_Relay_Roots string | Outside_Device_Paths string

definition ensure_with_history ::
    "file_system \<Rightarrow> string \<Rightarrow> history_workspace option \<Rightarrow> workspace_scope \<Rightarrow> scope_error option" where
  "ensure_with_history fs path history w =
     (let normalized = normalize_cwd fs path in
      if \<not> relay_covers fs normalized w \<and>
         \<not> (case history of None \<Rightarrow> False | Some h \<Rightarrow> history_covers fs normalized h w)
      then Some (Outside_Relay_Roots normalized)
      else if ws_device_paths w \<noteq> [] \<and> \<not> under_any normalized (ws_device_paths w)
      then Some (Outside_Device_Paths normalized)
      else None)"

definition scope_ensure :: "file_system \<Rightarrow> string \<Rightarrow> workspace_scope \<Rightarrow> scope_error option" where
  "scope_ensure fs path w = ensure_with_history fs path None w"

definition scope_allows :: "file_system \<Rightarrow> string \<Rightarrow> workspace_scope \<Rightarrow> bool" where
  "scope_allows fs path w \<longleftrightarrow> scope_ensure fs path w = None"

definition allows_history :: "file_system \<Rightarrow> string \<Rightarrow> history_workspace \<Rightarrow> workspace_scope \<Rightarrow> bool" where
  "allows_history fs path h w \<longleftrightarrow>
     (let normalized = normalize_cwd fs path in
      history_covers fs normalized h w \<and>
      (ws_device_paths w = [] \<or> under_any normalized (ws_device_paths w)))"

end
