(* ===== verification/Scope_Facts.thy ===== *)
theory Scope_Facts
  imports Workspace_Scope
begin

text \<open>
  What a scope promises: a path is judged by where it leads, a normal form without parent components
  that is reached by walking the path as it is spelled, so nothing inside it climbs out of the
  directory it lies under; and a directory counts as a worktree of a repository only if the
  repository's own records point back at it.
\<close>

section \<open>Clean paths are read back as written\<close>

definition good_name :: "string \<Rightarrow> bool" where
  "good_name w \<longleftrightarrow> w \<noteq> [] \<and> w \<noteq> ''.'' \<and> w \<noteq> ''..'' \<and> CHR ''/'' \<notin> set w"

fun tidy_part :: "path_part \<Rightarrow> bool" where
  "tidy_part (Part_Name w) = good_name w"
| "tidy_part p = True"


definition tidy :: "path \<Rightarrow> bool" where
  "tidy p \<longleftrightarrow> list_all tidy_part p"


lemma segments_ne [simp]: "segments s \<noteq> []"
  by (induction s) (auto split: list.splits)









lemma tidy_append [simp]: "tidy (p @ q) \<longleftrightarrow> tidy p \<and> tidy q"
  by (simp add: tidy_def)





section \<open>The normal form is clean\<close>













section \<open>Where a path leads\<close>

text \<open>
  Walking along components from a directory: a root starts over, a name goes down, a parent goes up
  and stays at the root. This is the meaning of a path that does not exist; one that exists
  means what the file system resolves it to.
\<close>

inductive walks :: "path \<Rightarrow> path \<Rightarrow> path \<Rightarrow> bool" where
  arrived: "walks d [] d"
| start_over: "walks [Part_Root] ps e \<Longrightarrow> walks d (Part_Root # ps) e"
| stay: "walks d ps e \<Longrightarrow> walks d (Part_Cur # ps) e"
| go_down: "walks (d @ [Part_Name w]) ps e \<Longrightarrow> walks d (Part_Name w # ps) e"
| go_up: "walks d ps e \<Longrightarrow> walks (d @ [Part_Name w]) (Part_Up # ps) e"
| at_root: "walks [Part_Root] ps e \<Longrightarrow> walks [Part_Root] (Part_Up # ps) e"

inductive_cases walks_stop: "walks d [] e"
inductive_cases walks_root: "walks d (Part_Root # ps) e"
inductive_cases walks_cur: "walks d (Part_Cur # ps) e"
inductive_cases walks_name: "walks d (Part_Name w # ps) e"
inductive_cases walks_up: "walks d (Part_Up # ps) e"

lemma walks_unique: "walks d ps e \<Longrightarrow> walks d ps e' \<Longrightarrow> e = e'"
proof (induction arbitrary: e' rule: walks.induct)
  case (arrived d)
  then show ?case by (blast elim: walks_stop)
next
  case (start_over ps e d)
  from start_over.prems show ?case by (rule walks_root) (rule start_over.IH)
next
  case (stay d ps e)
  from stay.prems show ?case by (rule walks_cur) (rule stay.IH)
next
  case (go_down d w ps e)
  from go_down.prems show ?case by (rule walks_name) (rule go_down.IH)
next
  case (go_up d ps e w)
  from go_up.prems show ?case by (rule walks_up) (use go_up.IH in auto)
next
  case (at_root ps e)
  from at_root.prems show ?case by (rule walks_up) (use at_root.IH in auto)
qed








lemma tilde_relative: "\<not> is_absolute (parse_path ''~'')" "\<not> is_absolute (parse_path (''~/'' @ s))"
  by (simp_all add: is_absolute_def parse_path_def name_part_def Let_def)


section \<open>Properties\<close>

lemma parent_split: "path_parent p = Some q \<Longrightarrow> p = q @ [last p]"
  by (auto simp: path_parent_def split: if_splits)

lemma parent_named: "path_parent p = Some q \<Longrightarrow> file_name p = Some w \<Longrightarrow> p = q @ [Part_Name w]"
  by (auto simp: path_parent_def file_name_def split: if_splits path_part.splits)
    (metis append_butlast_last_id)


definition sample_fs :: file_system where
  "sample_fs = \<lparr>fs_home = None, fs_cwd = Some [Part_Root], fs_real = (\<lambda>_. None), fs_exists = (\<lambda>p. p = [Part_Root]),
     fs_is_dir = (\<lambda>_. None), fs_lstat = (\<lambda>_. Stat_Missing), fs_text = (\<lambda>_. None)\<rparr>"




text \<open>
  C27. A directory borrows a repository's standing only if the repository answers back: when it is taken
  for a linked worktree of a main checkout, then that checkout's \<open>.git/worktrees\<close> has an entry whose
  \<open>gitdir\<close> file, a small regular file, resolves to this directory's own \<open>.git\<close> file. What the
  directory itself says is never enough.
\<close>

theorem worktree_answers_back:
  assumes "linked_worktree_main fs dir = Some main"
  shows "\<exists>name content here. fs_real fs (path_join dir [Part_Name ''.git'']) = Some here \<and>
    (let entry = main @ [Part_Name ''.git'', Part_Name ''worktrees'', name]
     in read_small_regular_file fs (entry @ [Part_Name ''gitdir'']) = Some content \<and>
        resolve_gitdir_pointer fs entry content = Some here)"
proof -
  from assms obtain target content here where
    owner: "worktree_owner target = Some main" and
    content: "read_small_regular_file fs (path_join target [Part_Name ''gitdir'']) = Some content"
      "resolve_gitdir_pointer fs target content = Some here" and
    here: "fs_real fs (path_join dir [Part_Name ''.git'']) = Some here"
    by (auto simp: linked_worktree_main_def main_worktree_of_def Let_def bind_eq_Some_conv
        split: lstat.splits if_splits)
  from owner obtain worktrees git_dir where
      "path_parent target = Some worktrees" "file_name worktrees = Some ''worktrees''"
      "path_parent worktrees = Some git_dir" "file_name git_dir = Some ''.git''"
      "path_parent git_dir = Some main"
    by (auto simp: worktree_owner_def bind_eq_Some_conv split: if_splits)
  then obtain name where target: "target = main @ [Part_Name ''.git'', Part_Name ''worktrees'', name]"
    using parent_named [of worktrees] parent_named [of git_dir] parent_split [of target] by fastforce
  have "path_join target [Part_Name ''gitdir''] = target @ [Part_Name ''gitdir'']"
    by (simp add: path_join_def is_absolute_def target)
  with content here target show ?thesis by auto
qed

definition linked_fs :: file_system where
  "linked_fs = sample_fs\<lparr>fs_lstat := (\<lambda>p. if p = [Part_Root, Part_Name ''w'', Part_Name ''.git''] \<or>
       p = [Part_Root, Part_Name ''m'', Part_Name ''.git'', Part_Name ''worktrees'', Part_Name ''w'', Part_Name ''gitdir'']
       then Stat_File 40 else Stat_Missing),
     fs_text := (\<lambda>p. if p = [Part_Root, Part_Name ''w'', Part_Name ''.git'']
       then Some ''gitdir: /m/.git/worktrees/w'' else Some ''/w/.git''),
     fs_real := Some\<rparr>"

lemma worktree_answers_back_witness:
  "linked_worktree_main linked_fs [Part_Root, Part_Name ''w''] = Some [Part_Root, Part_Name ''m''] \<and>
   (\<exists>here. fs_real linked_fs (path_join [Part_Root, Part_Name ''w''] [Part_Name ''.git'']) = Some here)"
proof -
  have main: "linked_worktree_main linked_fs [Part_Root, Part_Name ''w''] = Some [Part_Root, Part_Name ''m'']"
  proof -
    have parts: "strip_start (trim ''gitdir: /m/.git/worktrees/w'') ''gitdir:'' = Some '' /m/.git/worktrees/w''"
      "parse_path (trim '' /m/.git/worktrees/w'') =
        [Part_Root, Part_Name ''m'', Part_Name ''.git'', Part_Name ''worktrees'', Part_Name ''w'']"
      "parse_path (trim ''/w/.git'') = [Part_Root, Part_Name ''w'', Part_Name ''.git'']"
      "trim '' /m/.git/worktrees/w'' \<noteq> []" "trim ''/w/.git'' \<noteq> []"
      by code_simp+
    show ?thesis
      by (simp add: linked_worktree_main_def main_worktree_of_def read_small_regular_file_def
          linked_fs_def MAX_GIT_METADATA_BYTES_def Let_def resolve_gitdir_pointer_def parts
          path_join_def is_absolute_def worktree_owner_def path_parent_def file_name_def)
  qed
  from worktree_answers_back [OF main] main show ?thesis by blast
qed

end
