(* ===== verification/Device_State.thy ===== *)
theory Device_State
  imports Workspace_Scope Request_Book
begin

text \<open>
  What a relay knows of its devices and of the surfaces they connect with
  (\<open>crates/relay-server/src/state/relay.rs\<close> and the records of \<open>state/relay/device.rs\<close>): paired
  devices, their records, pairings in progress, the leases of the surfaces that are online, the
  threads each surface watches, who the targets of a broker message are, and the queue of such
  messages. The runtimes of threads, reduced to their directory and revision, are part of the
  state. Logging and waking of subscribers are not modelled.
\<close>

section \<open>Devices\<close>

datatype device_lifecycle = Life_Pending | Life_Approved | Life_Rejected | Life_Revoked

record pairing_broker =
  pb_broker_url :: string
  pb_broker_room_id :: string
  pb_relay_peer_id :: string
  pb_relay_verify_key :: string

record paired_device =
  pd_device_id :: string
  pd_label :: string
  pd_payload_secret :: string
  pd_device_verify_key :: string
  pd_created_at :: u64
  pd_last_seen_at :: "u64 option"
  pd_last_peer_id :: "string option"
  pd_join_expires_at :: "u64 option"
  pd_path_scope :: "string list"
  pd_pairing_broker :: "pairing_broker option"

record device_record =
  de_device_id :: string
  de_label :: string
  de_lifecycle_state :: device_lifecycle
  de_created_at :: u64
  de_state_changed_at :: u64
  de_last_seen_at :: "u64 option"
  de_last_peer_id :: "string option"
  de_device_verify_key :: string
  de_join_expires_at :: "u64 option"
  de_path_scope :: "string list"
  de_broker_revoke_pending :: bool

definition approved_from :: "paired_device \<Rightarrow> device_record" where
  "approved_from d =
     \<lparr>de_device_id = pd_device_id d, de_label = pd_label d, de_lifecycle_state = Life_Approved,
      de_created_at = pd_created_at d, de_state_changed_at = pd_created_at d,
      de_last_seen_at = pd_last_seen_at d, de_last_peer_id = pd_last_peer_id d,
      de_device_verify_key = pd_device_verify_key d, de_join_expires_at = pd_join_expires_at d,
      de_path_scope = pd_path_scope d, de_broker_revoke_pending = False\<rparr>"

record paired_view =
  pv_device_id :: string
  pv_label :: string
  pv_lifecycle_state :: device_lifecycle
  pv_created_at :: u64
  pv_last_seen_at :: "u64 option"
  pv_last_peer_id :: "string option"
  pv_join_expires_at :: "u64 option"
  pv_fingerprint :: "string option"
  pv_path_scope :: "string list"

section \<open>Pairings\<close>

record pending_pairing =
  pp_pairing_id :: string
  pp_pairing_secret :: string
  pp_secret_hash :: string
  pp_created_at :: u64
  pp_expires_at :: u64
  pp_path_scope :: "string list"
  pp_pairing_broker :: "pairing_broker option"

record pairing_request =
  pq_pairing_id :: string
  pq_device_id :: string
  pq_label :: string
  pq_requested_at :: u64
  pq_expires_at :: u64
  pq_broker_peer_id :: string
  pq_device_verify_key :: string
  pq_path_scope :: "string list"

text \<open>What an approved phone is given beside its secret, once the broker has issued it.\<close>

record broker_grants =
  bg_relay_id :: "string option"
  bg_relay_label :: "string option"
  bg_client_claim_id :: "string option"
  bg_client_claim_nonce :: "string option"
  bg_client_claim_expires_at :: "u64 option"
  bg_device_refresh_token :: "string option"
  bg_device_join_ticket :: "string option"
  bg_join_expires_at :: "u64 option"

definition no_grants :: broker_grants where
  "no_grants = \<lparr>bg_relay_id = None, bg_relay_label = None, bg_client_claim_id = None,
     bg_client_claim_nonce = None, bg_client_claim_expires_at = None, bg_device_refresh_token = None,
     bg_device_join_ticket = None, bg_join_expires_at = None\<rparr>"

record completed_pairing =
  cp_pairing_id :: string
  cp_pairing_secret :: string
  cp_expires_at :: u64
  cp_device_verify_key :: string
  cp_device :: "paired_view option"
  cp_payload_secret :: "string option"
  cp_grants :: broker_grants
  cp_error :: "string option"
  cp_path_scope :: "string list"

record pairing_result =
  pe_pairing_id :: string
  pe_target_peer_id :: string
  pe_pairing_secret :: string
  pe_device :: "paired_view option"
  pe_payload_secret :: "string option"
  pe_grants :: broker_grants
  pe_error :: "string option"

record challenge_entry =
  cc_challenge_id :: string
  cc_device_id :: string
  cc_peer_id :: string
  cc_challenge :: string
  cc_expires_at :: u64

section \<open>Broker messages\<close>

datatype delta_kind = Delta_AgentText | Delta_CommandOutput

record transcript_delta =
  td_thread_id :: string
  td_base_revision :: u64
  td_revision :: u64
  td_entry_seq :: u64
  td_order_seq :: int
  td_server_time :: u64
  td_row_id :: string
  td_generation :: string
  td_turn_id :: "string option"
  td_delta :: string
  td_kind :: delta_kind
  td_text_offset :: "u64 option"

datatype resync_reason = Resync_RowsNotStreamed | Resync_WatchStarted | Resync_FramesDropped

record resync_event =
  ry_thread_id :: string
  ry_generation :: string
  ry_revision :: u64
  ry_reason :: resync_reason

definition new_resync :: "string \<Rightarrow> u64 \<Rightarrow> resync_reason \<Rightarrow> resync_event" where
  "new_resync thread revision reason =
     \<lparr>ry_thread_id = thread, ry_generation = [], ry_revision = revision, ry_reason = reason\<rparr>"

datatype broker_message =
    Msg_Pairing pairing_result | Msg_Delta transcript_delta | Msg_Resync resync_event

fun transcript_thread_id :: "broker_message \<Rightarrow> string option" where
  "transcript_thread_id (Msg_Delta d) = Some (td_thread_id d)"
| "transcript_thread_id (Msg_Resync r) = Some (ry_thread_id r)"
| "transcript_thread_id (Msg_Pairing _) = None"

text \<open>A local delta repeats the row id as \<open>item_id\<close> and names its kind.\<close>

datatype local_event = Local_Delta transcript_delta string | Local_Resync resync_event

fun delta_kind_name :: "delta_kind \<Rightarrow> string" where
  "delta_kind_name Delta_AgentText = ''agent_text''"
| "delta_kind_name Delta_CommandOutput = ''command_output''"

fun local_event_of :: "broker_message \<Rightarrow> local_event option" where
  "local_event_of (Msg_Delta d) = Some (Local_Delta d (delta_kind_name (td_kind d)))"
| "local_event_of (Msg_Resync r) = Some (Local_Resync r)"
| "local_event_of (Msg_Pairing _) = None"

section \<open>The state\<close>

record watched_surface =
  wa_device_id :: string
  wa_thread_ids :: "string set"
  wa_generation :: u64

record push_subscription =
  su_endpoint :: string
  su_p256dh :: string
  su_auth :: string
  su_device_id :: string
  su_created_at :: u64

datatype apns_environment = Apns_Development | Apns_Production

record apns_token =
  ap_token :: string
  ap_environment :: apns_environment
  ap_topic :: string
  ap_device_id :: string
  ap_relay_id :: string

record thread_runtime =
  th_current_cwd :: string
  th_transcript_revision :: u64

record relay_devices =
  rl_records :: "(string, device_record) rows"
  rl_paired :: "(string, paired_device) rows"
  rl_revoking :: "string set"
  rl_online :: "string list"
  rl_peer_devices :: "string \<rightharpoonup> string"
  rl_leases :: "string \<rightharpoonup> u64"
  rl_next_lease :: u64
  rl_watched :: "(string, watched_surface) rows"
  rl_broker_surfaces :: "string set"
  rl_generations :: "string \<rightharpoonup> u64"
  rl_pairings :: "(string, pending_pairing) rows"
  rl_pairing_generation :: u64
  rl_pairing_starts :: "u64 list"
  rl_requests :: "string \<rightharpoonup> pairing_request"
  rl_claimed :: "string set"
  rl_retired :: "string \<rightharpoonup> pending_pairing"
  rl_completed :: "string \<rightharpoonup> completed_pairing"
  rl_challenges :: "string \<rightharpoonup> challenge_entry"
  rl_messages :: "broker_message list"
  rl_local_events :: "local_event list"
  rl_book :: request_book
  rl_controller :: "string option"
  rl_controller_seen_at :: "u64 option"
  rl_pin_thread :: "string option"
  rl_pin_device :: "string option"
  rl_pin_prompt :: "string option"
  rl_pin_prompt_version :: "u32 option"
  rl_handovers :: "string \<rightharpoonup> string option"
  rl_push :: "(string, push_subscription list) rows"
  rl_apns :: "string \<rightharpoonup> apns_token"
  rl_active_thread :: "string option"
  rl_threads :: "string \<rightharpoonup> thread_runtime"
  rl_histories :: "string \<rightharpoonup> history_workspace"
  rl_team_cwds :: "string \<rightharpoonup> string"
  rl_allowed_roots :: "string list"
  rl_transcript_generation :: string
  rl_broker_configured :: bool
  rl_broker_connected :: bool

text \<open>The request book reads which devices are paired.\<close>

definition book_of :: "relay_devices \<Rightarrow> request_book" where
  "book_of s = (rl_book s)\<lparr>rb_paired := keys_of (rl_paired s)\<rparr>"

definition retain_map :: "('k \<Rightarrow> 'v \<Rightarrow> bool) \<Rightarrow> ('k \<rightharpoonup> 'v) \<Rightarrow> ('k \<rightharpoonup> 'v)" where
  "retain_map p m = (\<lambda>k. case m k of None \<Rightarrow> None | Some v \<Rightarrow> if p k v then Some v else None)"

lemma retain_map_some [simp]: "retain_map p m k = Some v \<longleftrightarrow> m k = Some v \<and> p k v"
  by (auto simp: retain_map_def split: option.splits)

lemma retain_map_none [simp]: "retain_map p m k = None \<longleftrightarrow> (\<forall>v. m k = Some v \<longrightarrow> \<not> p k v)"
  by (auto simp: retain_map_def split: option.splits)

section \<open>Surfaces and their leases\<close>

definition open_surface_lease :: "string \<Rightarrow> relay_devices \<Rightarrow> relay_devices" where
  "open_surface_lease peer s =
     s\<lparr>rl_leases := (rl_leases s)(peer \<mapsto> rl_next_lease s), rl_next_lease := sat_add (rl_next_lease s) 1\<rparr>"

definition revoke_surface_lease :: "string \<Rightarrow> relay_devices \<Rightarrow> relay_devices" where
  "revoke_surface_lease peer s = s\<lparr>rl_leases := (rl_leases s)(peer := None)\<rparr>"

definition surface_lease_is_current :: "string \<Rightarrow> u64 \<Rightarrow> relay_devices \<Rightarrow> bool" where
  "surface_lease_is_current peer lease s \<longleftrightarrow> rl_leases s peer = Some lease"

definition bind_surface_peer_to_device :: "string \<Rightarrow> string \<Rightarrow> relay_devices \<Rightarrow> relay_devices" where
  "bind_surface_peer_to_device device peer s = s\<lparr>rl_peer_devices := (rl_peer_devices s)(peer \<mapsto> device)\<rparr>"

definition prune_offline_broker_surfaces :: "relay_devices \<Rightarrow> relay_devices" where
  "prune_offline_broker_surfaces s =
     s\<lparr>rl_watched := retain (\<lambda>surface _. surface \<notin> rl_broker_surfaces s \<or> surface \<in> set (rl_online s)) (rl_watched s),
       rl_broker_surfaces := Set.filter (\<lambda>surface. surface \<in> set (rl_online s)) (rl_broker_surfaces s)\<rparr>"

definition mark_surface_peer_online :: "string \<Rightarrow> relay_devices \<Rightarrow> relay_devices" where
  "mark_surface_peer_online peer s =
     (let s = open_surface_lease peer (s\<lparr>rl_peer_devices := (rl_peer_devices s)(peer := None)\<rparr>)
      in s\<lparr>rl_online := List.insert peer (rl_online s)\<rparr>)"

definition mark_surface_peer_offline :: "string \<Rightarrow> relay_devices \<Rightarrow> relay_devices" where
  "mark_surface_peer_offline peer s =
     (let s = revoke_surface_lease peer (s\<lparr>rl_peer_devices := (rl_peer_devices s)(peer := None)\<rparr>);
          s = s\<lparr>rl_book := drop_request_sessions_for_peer peer (rl_book s)\<rparr>
      in prune_offline_broker_surfaces (s\<lparr>rl_online := removeAll peer (rl_online s)\<rparr>))"

text \<open>A welcome lists everyone who is present; \<open>online\<close> is its set of peers in iteration order.\<close>

definition replace_online_surface_peers :: "string list \<Rightarrow> relay_devices \<Rightarrow> relay_devices" where
  "replace_online_surface_peers peers s =
     (let online = remdups peers;
          s = s\<lparr>rl_online := online, rl_leases := retain_map (\<lambda>peer _. peer \<in> set online) (rl_leases s),
                rl_book := drop_request_sessions_except_peers online (rl_book s)\<rparr>;
          s = fold open_surface_lease online s
      in prune_offline_broker_surfaces (s\<lparr>rl_peer_devices := Map.empty\<rparr>))"

definition set_broker_connection :: "bool \<Rightarrow> relay_devices \<Rightarrow> relay_devices" where
  "set_broker_connection connected s =
     (let s = s\<lparr>rl_broker_connected := connected\<rparr> in
      if connected then s
      else
        let s = fold revoke_surface_lease (rl_online s) s
        in s\<lparr>rl_online := [], rl_peer_devices := Map.empty,
             rl_watched := retain (\<lambda>surface _. surface \<notin> rl_broker_surfaces s) (rl_watched s),
             rl_broker_surfaces := {}\<rparr>)"

section \<open>What a device may read\<close>

definition device_folder_limit :: "string \<Rightarrow> relay_devices \<Rightarrow> string list" where
  "device_folder_limit device s =
     (case map_of (rl_paired s) device of
        Some d \<Rightarrow> pd_path_scope d
      | None \<Rightarrow>
          (case map_of (rl_records s) device of
             Some r \<Rightarrow> if de_lifecycle_state r = Life_Revoked then de_path_scope r else []
           | None \<Rightarrow> []))"

definition device_workspace_scope :: "string option \<Rightarrow> relay_devices \<Rightarrow> workspace_scope" where
  "device_workspace_scope device s =
     \<lparr>ws_relay_roots = rl_allowed_roots s,
      ws_device_paths = (case device of None \<Rightarrow> [] | Some d \<Rightarrow> device_folder_limit d s)\<rparr>"

definition ensure_thread_history_readable ::
    "file_system \<Rightarrow> string \<Rightarrow> string \<Rightarrow> string option \<Rightarrow> relay_devices \<Rightarrow> scope_error option" where
  "ensure_thread_history_readable fs thread cwd device s =
     ensure_with_history fs cwd (rl_histories s thread) (device_workspace_scope device s)"

definition thread_is_readable_by_device :: "file_system \<Rightarrow> string \<Rightarrow> string \<Rightarrow> relay_devices \<Rightarrow> bool" where
  "thread_is_readable_by_device fs thread device s \<longleftrightarrow>
     (case rl_threads s thread of
        Some runtime \<Rightarrow>
          (if trim (th_current_cwd runtime) \<noteq> []
           then ensure_thread_history_readable fs thread (trim (th_current_cwd runtime)) (Some device) s = None
           else is_unrestricted (device_workspace_scope (Some device) s))
      | None \<Rightarrow> is_unrestricted (device_workspace_scope (Some device) s))"

definition device_is_folder_limited :: "string \<Rightarrow> relay_devices \<Rightarrow> bool" where
  "device_is_folder_limited device s \<longleftrightarrow> device_folder_limit device s \<noteq> []"

definition device_reaches_thread :: "file_system \<Rightarrow> string \<Rightarrow> string \<Rightarrow> relay_devices \<Rightarrow> bool" where
  "device_reaches_thread fs thread device s \<longleftrightarrow>
     (if \<not> device_is_folder_limited device s then True
      else case rl_team_cwds s thread of
             Some cwd \<Rightarrow> scope_allows fs cwd (device_workspace_scope (Some device) s)
           | None \<Rightarrow> thread_is_readable_by_device fs thread device s)"

section \<open>Watched threads and targets\<close>

definition surface_watches_thread :: "file_system \<Rightarrow> string \<Rightarrow> string \<Rightarrow> relay_devices \<Rightarrow> bool" where
  "surface_watches_thread fs surface thread s \<longleftrightarrow>
     (case map_of (rl_watched s) surface of
        Some w \<Rightarrow> thread \<in> wa_thread_ids w \<and> thread_is_readable_by_device fs thread (wa_device_id w) s
      | None \<Rightarrow> rl_active_thread s = Some thread)"

definition device_watches_thread :: "file_system \<Rightarrow> string \<Rightarrow> string \<Rightarrow> relay_devices \<Rightarrow> bool" where
  "device_watches_thread fs device thread s \<longleftrightarrow>
     (let own = filter (\<lambda>w. wa_device_id w = device) (map snd (rl_watched s));
          wants = (if own = [] then rl_active_thread s = Some thread
            else list_ex (\<lambda>w. thread \<in> wa_thread_ids w) own)
      in wants \<and> thread_is_readable_by_device fs thread device s)"

definition any_device_watches_thread :: "string \<Rightarrow> relay_devices \<Rightarrow> bool" where
  "any_device_watches_thread thread s \<longleftrightarrow>
     rl_active_thread s = Some thread \<or>
     list_ex (\<lambda>(_, w). thread \<in> wa_thread_ids w) (rl_watched s)"

text \<open>Device, peer and payload secret of every surface that a message may be sealed for.\<close>

definition broker_targets :: "relay_devices \<Rightarrow> (string \<times> string \<times> string) list" where
  "broker_targets s =
     List.map_filter (\<lambda>peer.
       case rl_peer_devices s peer of
         None \<Rightarrow> None
       | Some device \<Rightarrow>
           (case map_of (rl_paired s) device of
              None \<Rightarrow> None
            | Some d \<Rightarrow> Some (pd_device_id d, peer, pd_payload_secret d))) (rl_online s)"

definition broker_targets_for_thread ::
    "file_system \<Rightarrow> string \<Rightarrow> relay_devices \<Rightarrow> (string \<times> string \<times> string) list" where
  "broker_targets_for_thread fs thread s =
     filter (\<lambda>(device, peer, _).
       if map_of (rl_watched s) peer \<noteq> None then surface_watches_thread fs peer thread s
       else rl_active_thread s = Some thread \<and> thread_is_readable_by_device fs thread device s)
     (broker_targets s)"

section \<open>The queue of broker messages\<close>

definition MAX_PENDING_TRANSCRIPT_FRAMES :: nat where "MAX_PENDING_TRANSCRIPT_FRAMES = 4096"

fun stamp_generation :: "string \<Rightarrow> broker_message \<Rightarrow> broker_message" where
  "stamp_generation g (Msg_Delta d) = Msg_Delta (d\<lparr>td_generation := g\<rparr>)"
| "stamp_generation g (Msg_Resync r) = Msg_Resync (r\<lparr>ry_generation := g\<rparr>)"
| "stamp_generation g (Msg_Pairing p) = Msg_Pairing p"

text \<open>The search runs from the newest message; the list here is reversed.\<close>

fun merge_latest :: "resync_event \<Rightarrow> broker_message list \<Rightarrow> broker_message list option" where
  "merge_latest r [] = None"
| "merge_latest r (m # ms) =
     (if transcript_thread_id m = Some (ry_thread_id r)
      then (case m of
              Msg_Resync q \<Rightarrow>
                Some (Msg_Resync (q\<lparr>ry_revision := max (ry_revision q) (ry_revision r), ry_reason := ry_reason r\<rparr>) # ms)
            | _ \<Rightarrow> None)
      else map_option (Cons m) (merge_latest r ms))"

definition merge_into_queued_resync :: "resync_event \<Rightarrow> broker_message list \<Rightarrow> broker_message list option" where
  "merge_into_queued_resync r ms = map_option rev (merge_latest r (rev ms))"

definition transcript_frames :: "broker_message list \<Rightarrow> broker_message list" where
  "transcript_frames ms = filter (\<lambda>m. transcript_thread_id m \<noteq> None) ms"

definition first_seen :: "'a list \<Rightarrow> 'a list" where
  "first_seen xs = rev (remdups (rev xs))"

definition bound_pending_transcript_frames :: "relay_devices \<Rightarrow> relay_devices" where
  "bound_pending_transcript_frames s =
     (let frames = transcript_frames (rl_messages s) in
      if length frames \<le> MAX_PENDING_TRANSCRIPT_FRAMES then s
      else
        let dropped = first_seen (List.map_filter transcript_thread_id (rl_messages s));
            resyncs = List.map_filter (\<lambda>thread.
              case rl_threads s thread of
                None \<Rightarrow> None
              | Some runtime \<Rightarrow>
                  Some (Msg_Resync ((new_resync thread (th_transcript_revision runtime) Resync_FramesDropped)
                    \<lparr>ry_generation := rl_transcript_generation s\<rparr>))) dropped
        in s\<lparr>rl_messages := filter (\<lambda>m. transcript_thread_id m = None) (rl_messages s) @ resyncs\<rparr>)"

definition queue_broker_message :: "file_system \<Rightarrow> broker_message \<Rightarrow> relay_devices \<Rightarrow> relay_devices" where
  "queue_broker_message fs m s =
     (let m = stamp_generation (rl_transcript_generation s) m;
          push = (\<lambda>s. bound_pending_transcript_frames (s\<lparr>rl_messages := rl_messages s @ [m]\<rparr>));
          s = (case local_event_of m of
                 None \<Rightarrow> s | Some e \<Rightarrow> s\<lparr>rl_local_events := rl_local_events s @ [e]\<rparr>)
      in if local_event_of m \<noteq> None \<and> \<not> rl_broker_configured s then s
         else if (case transcript_thread_id m of
                    None \<Rightarrow> False | Some thread \<Rightarrow> broker_targets_for_thread fs thread s = []) then s
         else (case m of
                 Msg_Resync r \<Rightarrow>
                   (case merge_into_queued_resync r (rl_messages s) of
                      Some ms \<Rightarrow> s\<lparr>rl_messages := ms\<rparr>
                    | None \<Rightarrow> push s)
               | _ \<Rightarrow> push s))"

definition drain_pending_broker_messages :: "relay_devices \<Rightarrow> broker_message list \<times> relay_devices" where
  "drain_pending_broker_messages s = (rl_messages s, s\<lparr>rl_messages := []\<rparr>)"

definition queue_transcript_resync ::
    "file_system \<Rightarrow> string \<Rightarrow> resync_reason \<Rightarrow> relay_devices \<Rightarrow> relay_devices" where
  "queue_transcript_resync fs thread reason s =
     (if \<not> any_device_watches_thread thread s then s
      else case rl_threads s thread of
             None \<Rightarrow> s
           | Some runtime \<Rightarrow>
               queue_broker_message fs
                 (Msg_Resync (new_resync thread (th_transcript_revision runtime) reason)) s)"

definition resync_new_watcher :: "file_system \<Rightarrow> string \<Rightarrow> relay_devices \<Rightarrow> relay_devices" where
  "resync_new_watcher fs thread s =
     (if rl_active_thread s = Some thread then s
      else queue_transcript_resync fs thread Resync_WatchStarted s)"

section \<open>Declaring what a surface watches\<close>

definition generation_of :: "string \<Rightarrow> relay_devices \<Rightarrow> u64" where
  "generation_of surface s = (case rl_generations s surface of None \<Rightarrow> 0 | Some g \<Rightarrow> g)"

definition admissible_watch :: "file_system \<Rightarrow> string \<Rightarrow> relay_devices \<Rightarrow> string \<Rightarrow> bool" where
  "admissible_watch fs device s thread \<longleftrightarrow>
     thread \<noteq> [] \<and>
     (case rl_threads s thread of
        Some runtime \<Rightarrow> trim (th_current_cwd runtime) \<noteq> [] \<longrightarrow> thread_is_readable_by_device fs thread device s
      | None \<Rightarrow> True)"

text \<open>A set of threads is iterated in the order of its list, first occurrences first.\<close>

definition set_watched_threads_for_generation ::
    "file_system \<Rightarrow> string \<Rightarrow> string \<Rightarrow> string list \<Rightarrow> u64 option \<Rightarrow> relay_devices \<Rightarrow> bool \<times> relay_devices" where
  "set_watched_threads_for_generation fs surface device threads generation s =
     (if (case generation of None \<Rightarrow> False | Some g \<Rightarrow> g < generation_of surface s) then (False, s)
      else
        let next_ids = filter (admissible_watch fs device s) (first_seen threads);
            current = map_of (rl_watched s) surface
        in if (case current of
                 None \<Rightarrow> False
               | Some w \<Rightarrow> wa_thread_ids w = set next_ids \<and> wa_device_id w = device \<and>
                   wa_generation w = generation_of surface s)
           then (False, s)
           else
             let newly = filter (\<lambda>thread. case current of
                   None \<Rightarrow> True | Some w \<Rightarrow> thread \<notin> wa_thread_ids w) next_ids;
                 w = \<lparr>wa_device_id = device, wa_thread_ids = set next_ids,
                      wa_generation = generation_of surface s\<rparr>;
                 s = s\<lparr>rl_watched := AList.update surface w (rl_watched s)\<rparr>
             in (True, fold (resync_new_watcher fs) newly s))"

definition register_broker_surface :: "string \<Rightarrow> relay_devices \<Rightarrow> relay_devices" where
  "register_broker_surface surface s = s\<lparr>rl_broker_surfaces := insert surface (rl_broker_surfaces s)\<rparr>"

definition open_surface_generation :: "string \<Rightarrow> u64 option \<Rightarrow> relay_devices \<Rightarrow> u64 \<times> relay_devices" where
  "open_surface_generation surface claimed s =
     (let current = generation_of surface s;
          g = (case claimed of
                 Some c \<Rightarrow> if current < c then c else current
               | None \<Rightarrow> sat_add current 1)
      in (g, s\<lparr>rl_generations := (rl_generations s)(surface \<mapsto> g)\<rparr>))"

definition drop_watched_surface :: "string \<Rightarrow> relay_devices \<Rightarrow> bool \<times> relay_devices" where
  "drop_watched_surface surface s =
     (map_of (rl_watched s) surface \<noteq> None,
      s\<lparr>rl_generations := (rl_generations s)(surface := None),
        rl_broker_surfaces := rl_broker_surfaces s - {surface},
        rl_watched := AList.delete surface (rl_watched s)\<rparr>)"

definition drop_watched_surface_generation :: "string \<Rightarrow> u64 \<Rightarrow> relay_devices \<Rightarrow> bool \<times> relay_devices" where
  "drop_watched_surface_generation surface generation s =
     (if rl_generations s surface \<noteq> Some generation then (False, s) else drop_watched_surface surface s)"

definition clear_watched_threads_for_device :: "string \<Rightarrow> relay_devices \<Rightarrow> relay_devices" where
  "clear_watched_threads_for_device device s =
     s\<lparr>rl_watched := retain (\<lambda>_ w. wa_device_id w \<noteq> device) (rl_watched s)\<rparr>"

end
