(* ===== verification/Device_Pairing.thy ===== *)
theory Device_Pairing
  imports Device_State
begin

text \<open>
  Pairing, claiming and revoking devices (\<open>crates/relay-server/src/state/relay/device.rs\<close>). Every
  operation runs under the relay's lock, so each is a function of the state, the clock and the
  random tokens it draws. SHA-256, base64 and the parsing of a URL's origin are parameters.
\<close>

section \<open>Parameters and constants\<close>

record pairing_lib =
  dl_sha256_hex :: "string \<Rightarrow> string"
  dl_sha256 :: "string \<Rightarrow> nat list"
  dl_base64_decode :: "string \<Rightarrow> string option"
  dl_tuple_origin :: "string \<Rightarrow> string option"

definition DEFAULT_PAIRING_TTL_SECS :: u64 where "DEFAULT_PAIRING_TTL_SECS = 180"
definition MAX_PAIRING_TTL_SECS :: u64 where "MAX_PAIRING_TTL_SECS = 600"
definition MAX_PAIRING_STARTS_PER_MINUTE :: nat where "MAX_PAIRING_STARTS_PER_MINUTE = 10"
definition CLAIM_CHALLENGE_TTL_SECS :: u64 where "CLAIM_CHALLENGE_TTL_SECS = 60"

definition PAIRING_REPLACED_ERROR :: string where
  "PAIRING_REPLACED_ERROR = ''this pairing QR was replaced by a newer one; scan the new QR''"
definition PAIRING_TAKEN_ERROR :: string where
  "PAIRING_TAKEN_ERROR = ''another device already used this pairing QR; make a new QR and scan that''"
definition PAIRING_REJECTED_ERROR :: string where
  "PAIRING_REJECTED_ERROR = ''pairing request was rejected on the local relay''"

datatype device_error =
    Too_Many_Starts u64
  | Newer_Qr_Requested
  | Qr_Expired
  | Pairing_Missing
  | Pairing_Secret_Invalid
  | Approval_In_Progress
  | Pairing_Taken
  | Not_Waiting
  | Pairing_Mismatch
  | Completed_Missing
  | Device_Not_Paired
  | Verify_Key_Missing
  | Challenge_Missing
  | Challenge_Other_Device
  | Challenge_Other_Peer
  | Challenge_Mismatch
  | Connection_Replaced

section \<open>Names\<close>

text \<open>A label of at most 80 characters; the fallback is trimmed too.\<close>

definition normalize_device_label :: "string option \<Rightarrow> string \<Rightarrow> string" where
  "normalize_device_label value fallback =
     (let label = (case non_empty value of Some l \<Rightarrow> l | None \<Rightarrow> trim fallback);
          normalized = (if trim label = [] then ''Remote Device'' else trim label)
      in take_chars 80 normalized)"

definition key_device_id :: "pairing_lib \<Rightarrow> string \<Rightarrow> pairing_broker option \<Rightarrow> string" where
  "key_device_id lib verify_key broker =
     (let origin = (case broker of
            None \<Rightarrow> []
          | Some b \<Rightarrow> (case dl_tuple_origin lib (pb_broker_url b) of Some o' \<Rightarrow> o' | None \<Rightarrow> pb_broker_url b))
      in ''mobile-'' @ dl_sha256_hex lib (verify_key @ [CHR 0x0A] @ origin))"

definition hex_byte :: "nat \<Rightarrow> string" where
  "hex_byte b = [hex_digit (b div 16), hex_digit (b mod 16)]"

fun colon_join :: "string list \<Rightarrow> string" where
  "colon_join [] = []"
| "colon_join [w] = w"
| "colon_join (w # ws) = w @ '':'' @ colon_join ws"

definition device_fingerprint :: "pairing_lib \<Rightarrow> string option \<Rightarrow> string option" where
  "device_fingerprint lib verify_key =
     (case verify_key of
        None \<Rightarrow> None
      | Some key \<Rightarrow>
          (if trim key = [] then None
           else
             let bytes = (case dl_base64_decode lib (trim key) of Some b \<Rightarrow> b | None \<Rightarrow> trim key)
             in Some (colon_join (map hex_byte (take 8 (dl_sha256 lib bytes))))))"

definition paired_to_view :: "pairing_lib \<Rightarrow> paired_device \<Rightarrow> paired_view" where
  "paired_to_view lib d =
     \<lparr>pv_device_id = pd_device_id d, pv_label = pd_label d, pv_lifecycle_state = Life_Approved,
      pv_created_at = pd_created_at d, pv_last_seen_at = pd_last_seen_at d,
      pv_last_peer_id = pd_last_peer_id d, pv_join_expires_at = pd_join_expires_at d,
      pv_fingerprint = device_fingerprint lib (Some (pd_device_verify_key d)),
      pv_path_scope = pd_path_scope d\<rparr>"

definition refused_pairing_result :: "string \<Rightarrow> string \<Rightarrow> string \<Rightarrow> string \<Rightarrow> pairing_result" where
  "refused_pairing_result pairing peer secret err =
     \<lparr>pe_pairing_id = pairing, pe_target_peer_id = peer, pe_pairing_secret = secret, pe_device = None,
      pe_payload_secret = None, pe_grants = no_grants, pe_error = Some err\<rparr>"

definition replaced_pairing_result :: "string \<Rightarrow> string \<Rightarrow> string \<Rightarrow> pairing_result" where
  "replaced_pairing_result pairing peer secret =
     refused_pairing_result pairing peer secret PAIRING_REPLACED_ERROR"

section \<open>Expiry\<close>

definition prune_expired_pairings :: "u64 \<Rightarrow> relay_devices \<Rightarrow> relay_devices" where
  "prune_expired_pairings now s =
     (let live = retain (\<lambda>_ p. now < pp_expires_at p) (rl_pairings s)
      in s\<lparr>rl_pairings := live,
           rl_requests := retain_map (\<lambda>pairing _. map_of live pairing \<noteq> None) (rl_requests s),
           rl_claimed := Set.filter (\<lambda>pairing. map_of live pairing \<noteq> None) (rl_claimed s),
           rl_retired := retain_map (\<lambda>_ p. now < pp_expires_at p) (rl_retired s),
           rl_completed := retain_map (\<lambda>_ c. now < cp_expires_at c) (rl_completed s)\<rparr>)"

definition prune_expired_claim_challenges :: "u64 \<Rightarrow> relay_devices \<Rightarrow> relay_devices" where
  "prune_expired_claim_challenges now s =
     s\<lparr>rl_challenges := retain_map (\<lambda>_ c. now < cc_expires_at c) (rl_challenges s)\<rparr>"

definition prune_claim_challenges_for_peer :: "string \<Rightarrow> string \<Rightarrow> relay_devices \<Rightarrow> relay_devices" where
  "prune_claim_challenges_for_peer device peer s =
     s\<lparr>rl_challenges := retain_map (\<lambda>_ c. cc_device_id c \<noteq> device \<or> cc_peer_id c \<noteq> peer) (rl_challenges s)\<rparr>"

section \<open>Starting a pairing\<close>

record prepared_ticket =
  pt_pairing_id :: string
  pt_pairing_secret :: string
  pt_expires_at :: u64
  pt_path_scope :: "string list"
  pt_generation :: u64

text \<open>\<open>token10\<close> is already lower case; \<open>token32\<close> is the secret.\<close>

definition prepare_pairing_ticket ::
    "u64 option \<Rightarrow> string list \<Rightarrow> u64 \<Rightarrow> string \<Rightarrow> string \<Rightarrow> relay_devices \<Rightarrow>
     (device_error + prepared_ticket) \<times> relay_devices" where
  "prepare_pairing_ticket ttl scope now token10 token32 s =
     (let s = prune_expired_pairings now s;
          starts = dropWhile (\<lambda>started. started \<le> sat_sub now 60) (rl_pairing_starts s);
          s = s\<lparr>rl_pairing_starts := starts\<rparr>
      in if starts \<noteq> [] \<and> MAX_PAIRING_STARTS_PER_MINUTE \<le> length starts
         then (Inl (Too_Many_Starts (max (sat_sub (sat_add (hd starts) 60) now) 1)), s)
         else
           let generation = rl_pairing_generation s + 1;
               secs = min (max (case ttl of None \<Rightarrow> DEFAULT_PAIRING_TTL_SECS | Some t \<Rightarrow> t) 30) MAX_PAIRING_TTL_SECS
           in (Inr \<lparr>pt_pairing_id = ''pair-'' @ token10, pt_pairing_secret = token32,
                    pt_expires_at = sat_add now secs, pt_path_scope = scope, pt_generation = generation\<rparr>,
               s\<lparr>rl_pairing_starts := starts @ [now], rl_pairing_generation := generation\<rparr>))"

definition retire_pairing_request ::
    "pending_pairing \<Rightarrow> pairing_request \<Rightarrow> relay_devices \<Rightarrow> pairing_result \<times> relay_devices" where
  "retire_pairing_request p q s =
     (replaced_pairing_result (pp_pairing_id p) (pq_broker_peer_id q) (pp_pairing_secret p),
      s\<lparr>rl_retired := (rl_retired s)(pp_pairing_id p \<mapsto> p),
        rl_completed := (rl_completed s)(pp_pairing_id p \<mapsto>
          \<lparr>cp_pairing_id = pp_pairing_id p, cp_pairing_secret = pp_pairing_secret p,
           cp_expires_at = pp_expires_at p, cp_device_verify_key = pq_device_verify_key q,
           cp_device = None, cp_payload_secret = None, cp_grants = no_grants,
           cp_error = Some PAIRING_REPLACED_ERROR, cp_path_scope = pp_path_scope p\<rparr>)\<rparr>)"

fun retire_pairings ::
    "(string, pending_pairing) rows \<Rightarrow> pairing_result list \<times> relay_devices \<Rightarrow> pairing_result list \<times> relay_devices" where
  "retire_pairings [] (owed, s) = (owed, s)"
| "retire_pairings ((pairing, p) # ps) (owed, s) =
     (case rl_requests s pairing of
        Some q \<Rightarrow>
          (let (res, s) = retire_pairing_request p q (s\<lparr>rl_requests := (rl_requests s)(pairing := None)\<rparr>)
           in retire_pairings ps (owed @ [res], s))
      | None \<Rightarrow> retire_pairings ps (owed, s\<lparr>rl_retired := (rl_retired s)(pairing \<mapsto> p)\<rparr>))"

definition install_pairing_ticket ::
    "pairing_lib \<Rightarrow> prepared_ticket \<Rightarrow> u64 \<Rightarrow> relay_devices \<Rightarrow> device_error + (pairing_result list \<times> relay_devices)" where
  "install_pairing_ticket lib t now s =
     (if pt_generation t \<noteq> rl_pairing_generation s then Inl Newer_Qr_Requested
      else if pt_expires_at t \<le> now then Inl Qr_Expired
      else
        let (owed, s) = retire_pairings (rl_pairings s) ([], s\<lparr>rl_pairings := []\<rparr>)
        in Inr (owed, s\<lparr>rl_requests := Map.empty,
             rl_pairings := [(pt_pairing_id t,
               \<lparr>pp_pairing_id = pt_pairing_id t, pp_pairing_secret = pt_pairing_secret t,
                pp_secret_hash = dl_sha256_hex lib (pt_pairing_secret t), pp_created_at = now,
                pp_expires_at = pt_expires_at t, pp_path_scope = pt_path_scope t,
                pp_pairing_broker = None\<rparr>)]\<rparr>))"

text \<open>The QR names this broker; the rest of the view is its rendering.\<close>

definition issue_pairing_ticket :: "prepared_ticket \<Rightarrow> pairing_broker \<Rightarrow> relay_devices \<Rightarrow> relay_devices" where
  "issue_pairing_ticket t broker s =
     s\<lparr>rl_pairings := adjust (pt_pairing_id t) (\<lambda>p. p\<lparr>pp_pairing_broker := Some broker\<rparr>) (rl_pairings s)\<rparr>"

section \<open>Records\<close>

definition sync_device_record :: "paired_device \<Rightarrow> u64 \<Rightarrow> relay_devices \<Rightarrow> relay_devices" where
  "sync_device_record d now s =
     (let r = (case map_of (rl_records s) (pd_device_id d) of Some r \<Rightarrow> r | None \<Rightarrow> approved_from d)
      in s\<lparr>rl_records := AList.update (pd_device_id d)
           (r\<lparr>de_label := pd_label d, de_lifecycle_state := Life_Approved, de_last_seen_at := pd_last_seen_at d,
             de_last_peer_id := pd_last_peer_id d, de_device_verify_key := pd_device_verify_key d,
             de_join_expires_at := pd_join_expires_at d, de_path_scope := pd_path_scope d,
             de_state_changed_at := now, de_broker_revoke_pending := False\<rparr>) (rl_records s)\<rparr>)"

definition record_rejected_device :: "pairing_request \<Rightarrow> u64 \<Rightarrow> relay_devices \<Rightarrow> relay_devices" where
  "record_rejected_device q now s =
     (let id = pq_device_id q;
          revoked = (case map_of (rl_records s) id of
            None \<Rightarrow> False | Some r \<Rightarrow> de_lifecycle_state r = Life_Revoked)
      in if revoked \<or> map_of (rl_paired s) id \<noteq> None then s
         else
           let r = (case map_of (rl_records s) id of
                 Some r \<Rightarrow> r
               | None \<Rightarrow> \<lparr>de_device_id = id, de_label = pq_label q, de_lifecycle_state = Life_Rejected,
                   de_created_at = pq_requested_at q, de_state_changed_at = now, de_last_seen_at = None,
                   de_last_peer_id = Some (pq_broker_peer_id q), de_device_verify_key = pq_device_verify_key q,
                   de_join_expires_at = None, de_path_scope = [], de_broker_revoke_pending = False\<rparr>)
           in s\<lparr>rl_records := AList.update id
                (r\<lparr>de_label := pq_label q, de_lifecycle_state := Life_Rejected, de_state_changed_at := now,
                  de_last_peer_id := Some (pq_broker_peer_id q),
                  de_device_verify_key := pq_device_verify_key q, de_join_expires_at := None\<rparr>) (rl_records s)\<rparr>)"

definition record_revoked_device :: "paired_device \<Rightarrow> u64 \<Rightarrow> relay_devices \<Rightarrow> relay_devices" where
  "record_revoked_device d now s =
     (let r = (case map_of (rl_records s) (pd_device_id d) of Some r \<Rightarrow> r | None \<Rightarrow> approved_from d)
      in s\<lparr>rl_records := AList.update (pd_device_id d)
           (r\<lparr>de_label := pd_label d, de_lifecycle_state := Life_Revoked, de_state_changed_at := now,
             de_last_seen_at := pd_last_seen_at d, de_last_peer_id := pd_last_peer_id d,
             de_device_verify_key := pd_device_verify_key d, de_join_expires_at := pd_join_expires_at d,
             de_path_scope := pd_path_scope d\<rparr>) (rl_records s)\<rparr>)"

section \<open>Requests and decisions\<close>

definition consume_pairing_ticket ::
    "pairing_lib \<Rightarrow> string \<Rightarrow> string \<Rightarrow> string \<Rightarrow> string option \<Rightarrow> string \<Rightarrow> u64 option \<Rightarrow> string \<Rightarrow> u64 \<Rightarrow>
     string \<Rightarrow> relay_devices \<Rightarrow> (device_error + (paired_view \<times> string)) \<times> relay_devices" where
  "consume_pairing_ticket lib pairing secret device label verify_key expires peer now token40 s =
     (let s = prune_expired_pairings now s in
      case map_of (rl_pairings s) pairing of
        None \<Rightarrow> (Inl Pairing_Missing, s)
      | Some p \<Rightarrow>
          if pp_secret_hash p \<noteq> dl_sha256_hex lib secret then (Inl Pairing_Secret_Invalid, s)
          else
            let s = s\<lparr>rl_pairings := AList.delete pairing (rl_pairings s)\<rparr>;
                label = normalize_device_label label device;
                created = (case map_of (rl_paired s) device of Some d \<Rightarrow> pd_created_at d | None \<Rightarrow> now);
                id = (case map_of (rl_paired s) device of Some d \<Rightarrow> pd_device_id d | None \<Rightarrow> device);
                d = \<lparr>pd_device_id = id, pd_label = label, pd_payload_secret = token40,
                     pd_device_verify_key = verify_key, pd_created_at = created, pd_last_seen_at = Some now,
                     pd_last_peer_id = Some peer, pd_join_expires_at = expires,
                     pd_path_scope = pp_path_scope p, pd_pairing_broker = pp_pairing_broker p\<rparr>;
                s = s\<lparr>rl_paired := AList.update device d (rl_paired s)\<rparr>;
                s = bind_surface_peer_to_device (pd_device_id d) peer s
            in (Inr (paired_to_view lib d, token40), sync_device_record d now s))"

definition taken_pairing_refusal :: "string \<Rightarrow> string \<Rightarrow> string \<Rightarrow> relay_devices \<Rightarrow> pairing_result option" where
  "taken_pairing_refusal pairing verify_key peer s =
     (case (case rl_requests s pairing of
              Some q \<Rightarrow>
                map_option (\<lambda>p. (pq_device_verify_key q, pp_pairing_secret p)) (map_of (rl_pairings s) pairing)
            | None \<Rightarrow>
                map_option (\<lambda>c. (cp_device_verify_key c, cp_pairing_secret c)) (rl_completed s pairing)) of
        None \<Rightarrow> None
      | Some (holder, secret) \<Rightarrow>
          if holder = verify_key then None
          else Some (refused_pairing_result pairing peer secret PAIRING_TAKEN_ERROR))"

definition register_pairing_request ::
    "pairing_lib \<Rightarrow> string \<Rightarrow> string option \<Rightarrow> string option \<Rightarrow> string \<Rightarrow> string \<Rightarrow> u64 \<Rightarrow> relay_devices \<Rightarrow>
     (device_error + pairing_request) \<times> relay_devices" where
  "register_pairing_request lib pairing requested_id label peer verify_key now s =
     (let s = prune_expired_pairings now s in
      case map_of (rl_pairings s) pairing of
        None \<Rightarrow> (Inl Pairing_Missing, s)
      | Some p \<Rightarrow>
          if pairing \<in> rl_claimed s then (Inl Approval_In_Progress, s)
          else
            let label = normalize_device_label label
                  (case requested_id of Some d \<Rightarrow> d | None \<Rightarrow> peer)
            in case rl_requests s pairing of
                 Some q \<Rightarrow>
                   if pq_device_verify_key q \<noteq> verify_key then (Inl Pairing_Taken, s)
                   else
                     let q = q\<lparr>pq_label := label, pq_broker_peer_id := peer, pq_path_scope := pp_path_scope p\<rparr>
                     in (Inr q, s\<lparr>rl_requests := (rl_requests s)(pairing \<mapsto> q)\<rparr>)
               | None \<Rightarrow>
                   let q = \<lparr>pq_pairing_id = pairing,
                            pq_device_id = key_device_id lib verify_key (pp_pairing_broker p),
                            pq_label = label, pq_requested_at = now, pq_expires_at = pp_expires_at p,
                            pq_broker_peer_id = peer, pq_device_verify_key = verify_key,
                            pq_path_scope = pp_path_scope p\<rparr>
                   in (Inr q, s\<lparr>rl_requests := (rl_requests s)(pairing \<mapsto> q)\<rparr>))"

definition claim_pairing_request ::
    "string \<Rightarrow> u64 \<Rightarrow> relay_devices \<Rightarrow> (device_error + pairing_request) \<times> relay_devices" where
  "claim_pairing_request pairing now s =
     (let s = prune_expired_pairings now s in
      case rl_requests s pairing of
        None \<Rightarrow> (Inl Not_Waiting, s)
      | Some q \<Rightarrow>
          (Inr q, s\<lparr>rl_requests := (rl_requests s)(pairing := None),
                    rl_claimed := insert pairing (rl_claimed s)\<rparr>))"

definition restore_pairing_request :: "pairing_request \<Rightarrow> relay_devices \<Rightarrow> relay_devices" where
  "restore_pairing_request q s =
     (let s = s\<lparr>rl_claimed := rl_claimed s - {pq_pairing_id q}\<rparr> in
      if map_of (rl_pairings s) (pq_pairing_id q) = None then s
      else s\<lparr>rl_requests := (rl_requests s)(pq_pairing_id q \<mapsto> q)\<rparr>)"

definition with_expiry :: "u64 option \<Rightarrow> broker_grants" where
  "with_expiry expires = no_grants\<lparr>bg_join_expires_at := expires\<rparr>"

definition decide_pairing_request ::
    "pairing_lib \<Rightarrow> string \<Rightarrow> bool \<Rightarrow> u64 option \<Rightarrow> u64 \<Rightarrow> string \<Rightarrow> relay_devices \<Rightarrow>
     (device_error + pairing_result) \<times> relay_devices" where
  "decide_pairing_request lib pairing approved expires now token40 s =
     (let s = prune_expired_pairings now s in
      case rl_requests s pairing of
        None \<Rightarrow> (Inl Not_Waiting, s)
      | Some q \<Rightarrow>
          let s = s\<lparr>rl_requests := (rl_requests s)(pairing := None)\<rparr> in
          case map_of (rl_pairings s) pairing of
            None \<Rightarrow> (Inl Pairing_Missing, s)
          | Some p \<Rightarrow>
              if approved then
                (case consume_pairing_ticket lib pairing (pp_pairing_secret p) (pq_device_id q)
                    (Some (pq_label q)) (pq_device_verify_key q) expires (pq_broker_peer_id q) now token40 s of
                   (Inl e, s) \<Rightarrow> (Inl e, s)
                 | (Inr (device, token), s) \<Rightarrow>
                     (Inr \<lparr>pe_pairing_id = pairing, pe_target_peer_id = pq_broker_peer_id q,
                           pe_pairing_secret = pp_pairing_secret p, pe_device = Some device,
                           pe_payload_secret = Some token, pe_grants = with_expiry expires, pe_error = None\<rparr>,
                      s\<lparr>rl_completed := (rl_completed s)(pairing \<mapsto>
                         \<lparr>cp_pairing_id = pairing, cp_pairing_secret = pp_pairing_secret p,
                          cp_expires_at = pp_expires_at p, cp_device_verify_key = pq_device_verify_key q,
                          cp_device = Some device, cp_payload_secret = Some token,
                          cp_grants = with_expiry expires, cp_error = None,
                          cp_path_scope = pp_path_scope p\<rparr>)\<rparr>))
              else
                let s = s\<lparr>rl_pairings := AList.delete pairing (rl_pairings s)\<rparr>;
                    s = record_rejected_device q now s
                in (Inr (refused_pairing_result pairing (pq_broker_peer_id q) (pp_pairing_secret p)
                      PAIRING_REJECTED_ERROR),
                    s\<lparr>rl_completed := (rl_completed s)(pairing \<mapsto>
                       \<lparr>cp_pairing_id = pairing, cp_pairing_secret = pp_pairing_secret p,
                        cp_expires_at = pp_expires_at p, cp_device_verify_key = pq_device_verify_key q,
                        cp_device = None, cp_payload_secret = None, cp_grants = no_grants,
                        cp_error = Some PAIRING_REJECTED_ERROR, cp_path_scope = pp_path_scope p\<rparr>)\<rparr>))"

definition completed_pairing_result ::
    "string \<Rightarrow> string \<Rightarrow> string \<Rightarrow> u64 \<Rightarrow> relay_devices \<Rightarrow> (device_error + pairing_result option) \<times> relay_devices" where
  "completed_pairing_result pairing verify_key peer now s =
     (let s = prune_expired_pairings now s in
      (case rl_completed s pairing of
         None \<Rightarrow> Inr None
       | Some c \<Rightarrow>
           if cp_device_verify_key c \<noteq> verify_key then Inl Pairing_Mismatch
           else Inr (Some \<lparr>pe_pairing_id = cp_pairing_id c, pe_target_peer_id = peer,
             pe_pairing_secret = cp_pairing_secret c, pe_device = cp_device c,
             pe_payload_secret = cp_payload_secret c, pe_grants = cp_grants c, pe_error = cp_error c\<rparr>), s))"

definition retired_pairing_result ::
    "string \<Rightarrow> string \<Rightarrow> u64 \<Rightarrow> relay_devices \<Rightarrow> pairing_result option \<times> relay_devices" where
  "retired_pairing_result pairing peer now s =
     (let s = prune_expired_pairings now s in
      (map_option (\<lambda>p. replaced_pairing_result (pp_pairing_id p) peer (pp_pairing_secret p))
         (rl_retired s pairing), s))"

definition pending_pairing_secret ::
    "string \<Rightarrow> u64 \<Rightarrow> relay_devices \<Rightarrow> (device_error + string) \<times> relay_devices" where
  "pending_pairing_secret pairing now s =
     (let s = prune_expired_pairings now s in
      (case map_of (rl_pairings s) pairing of
         Some p \<Rightarrow> Inr (pp_pairing_secret p)
       | None \<Rightarrow>
           (case rl_completed s pairing of
              Some c \<Rightarrow> Inr (cp_pairing_secret c)
            | None \<Rightarrow>
                (case rl_retired s pairing of
                   Some p \<Rightarrow> Inr (pp_pairing_secret p)
                 | None \<Rightarrow> Inl Pairing_Missing)), s))"

text \<open>What the broker issued, added to the answer a phone will be given again if it asks again.\<close>

definition attach_pairing_broker_credential ::
    "string \<Rightarrow> string option \<Rightarrow> string \<Rightarrow> u64 option \<Rightarrow> u64 \<Rightarrow> relay_devices \<Rightarrow> device_error option \<times> relay_devices" where
  "attach_pairing_broker_credential pairing refresh ticket expires now s =
     (case rl_completed s pairing of
        None \<Rightarrow> (Some Completed_Missing, s)
      | Some c \<Rightarrow>
          let c = c\<lparr>cp_grants := (cp_grants c)\<lparr>bg_device_refresh_token := refresh,
                bg_device_join_ticket := Some ticket, bg_join_expires_at := expires\<rparr>\<rparr>;
              s = s\<lparr>rl_completed := (rl_completed s)(pairing \<mapsto> c)\<rparr>
          in case cp_device c of
               None \<Rightarrow> (None, s)
             | Some v \<Rightarrow>
                 (case map_of (rl_paired s) (pv_device_id v) of
                    None \<Rightarrow> (Some Device_Not_Paired, s)
                  | Some d \<Rightarrow>
                      let d = d\<lparr>pd_join_expires_at := expires\<rparr>;
                          s = s\<lparr>rl_paired := AList.update (pv_device_id v) d (rl_paired s)\<rparr>
                      in (None, sync_device_record d now s)))"

definition attach_pairing_client_grant ::
    "string \<Rightarrow> string option \<Rightarrow> string option \<Rightarrow> string option \<Rightarrow> string option \<Rightarrow> u64 option \<Rightarrow>
     relay_devices \<Rightarrow> device_error option \<times> relay_devices" where
  "attach_pairing_client_grant pairing relay relay_label claim nonce expires s =
     (case rl_completed s pairing of
        None \<Rightarrow> (Some Completed_Missing, s)
      | Some c \<Rightarrow>
          (None, s\<lparr>rl_completed := (rl_completed s)(pairing \<mapsto>
             c\<lparr>cp_grants := (cp_grants c)\<lparr>bg_relay_id := relay, bg_relay_label := relay_label,
               bg_client_claim_id := claim, bg_client_claim_nonce := nonce,
               bg_client_claim_expires_at := expires\<rparr>\<rparr>)\<rparr>))"

section \<open>Claims of a connected device\<close>

definition issue_claim_challenge ::
    "string \<Rightarrow> string \<Rightarrow> u64 \<Rightarrow> string \<Rightarrow> string \<Rightarrow> relay_devices \<Rightarrow>
     (device_error + challenge_entry) \<times> relay_devices" where
  "issue_claim_challenge device peer now token10 token40 s =
     (let s = prune_claim_challenges_for_peer device peer (prune_expired_claim_challenges now s);
          c = \<lparr>cc_challenge_id = ''claim-'' @ token10, cc_device_id = device, cc_peer_id = peer,
               cc_challenge = token40, cc_expires_at = sat_add now CLAIM_CHALLENGE_TTL_SECS\<rparr>
      in if map_of (rl_paired s) device = None then (Inl Device_Not_Paired, s)
         else (Inr c, s\<lparr>rl_challenges := (rl_challenges s)(cc_challenge_id c \<mapsto> c)\<rparr>))"

definition claim_challenge ::
    "string \<Rightarrow> string \<Rightarrow> string \<Rightarrow> u64 \<Rightarrow> relay_devices \<Rightarrow> (device_error + challenge_entry) \<times> relay_devices" where
  "claim_challenge device challenge_id peer now s =
     (let s = prune_expired_claim_challenges now s in
      (case rl_challenges s challenge_id of
         None \<Rightarrow> Inl Challenge_Missing
       | Some c \<Rightarrow>
           if cc_device_id c \<noteq> device then Inl Challenge_Other_Device
           else if cc_peer_id c \<noteq> peer then Inl Challenge_Other_Peer
           else if map_of (rl_paired s) device = None then Inl Device_Not_Paired
           else Inr c, s))"

text \<open>A device that is heard from on a connection: its row, the peer it is bound to, its record.\<close>

definition touch_device :: "string \<Rightarrow> string \<Rightarrow> u64 \<Rightarrow> relay_devices \<Rightarrow> device_error option \<times> relay_devices" where
  "touch_device device peer now s =
     (case map_of (rl_paired s) device of
        None \<Rightarrow> (Some Device_Not_Paired, s)
      | Some d \<Rightarrow>
          let d = d\<lparr>pd_last_seen_at := Some now, pd_last_peer_id := Some peer\<rparr>;
              s = s\<lparr>rl_paired := AList.update device d (rl_paired s)\<rparr>
          in (None, sync_device_record d now (bind_surface_peer_to_device device peer s)))"

definition complete_remote_claim ::
    "string \<Rightarrow> string \<Rightarrow> string \<Rightarrow> u64 \<Rightarrow> relay_devices \<Rightarrow> device_error option \<times> relay_devices" where
  "complete_remote_claim device challenge_id peer now s =
     (case claim_challenge device challenge_id peer now s of
        (Inl e, s) \<Rightarrow> (Some e, s)
      | (Inr _, s) \<Rightarrow>
          (case touch_device device peer now
              (s\<lparr>rl_challenges := (rl_challenges s)(challenge_id := None)\<rparr>) of
             (Some e, s) \<Rightarrow> (Some e, s)
           | (None, s) \<Rightarrow> (None, prune_claim_challenges_for_peer device peer s)))"

definition mark_paired_device_seen ::
    "string \<Rightarrow> string \<Rightarrow> u64 option \<Rightarrow> u64 \<Rightarrow> relay_devices \<Rightarrow> device_error option \<times> relay_devices" where
  "mark_paired_device_seen device peer lease now s =
     (if (case lease of None \<Rightarrow> False | Some l \<Rightarrow> \<not> surface_lease_is_current peer l s) then (None, s)
      else touch_device device peer now s)"

definition paired_device_payload_secret :: "string \<Rightarrow> relay_devices \<Rightarrow> device_error + string" where
  "paired_device_payload_secret device s =
     (case map_of (rl_paired s) device of
        None \<Rightarrow> Inl Device_Not_Paired | Some d \<Rightarrow> Inr (pd_payload_secret d))"

definition paired_device_peer_id :: "string \<Rightarrow> relay_devices \<Rightarrow> string option" where
  "paired_device_peer_id device s = Option.bind (map_of (rl_paired s) device) pd_last_peer_id"

definition paired_device_verify_key :: "string \<Rightarrow> relay_devices \<Rightarrow> device_error + string" where
  "paired_device_verify_key device s =
     (case map_of (rl_paired s) device of
        None \<Rightarrow> Inl Device_Not_Paired
      | Some d \<Rightarrow>
          if trim (pd_device_verify_key d) = [] then Inl Verify_Key_Missing
          else Inr (pd_device_verify_key d))"

section \<open>Push\<close>

record push_input =
  pi_endpoint :: string
  pi_p256dh :: string
  pi_auth :: string
  pi_device_id :: "string option"

datatype push_error =
    Push_Device_Missing | Push_Not_Paired | Push_Incomplete | Push_Endpoint_Refused
  | Apns_Token_Malformed | Apns_Topic_Refused | Apns_Relay_Invalid

text \<open>\<open>acceptable\<close> is the verdict of \<open>is_acceptable_push_endpoint\<close>.\<close>

definition register_push_subscription ::
    "bool \<Rightarrow> push_input \<Rightarrow> u64 \<Rightarrow> relay_devices \<Rightarrow> push_error option \<times> relay_devices" where
  "register_push_subscription acceptable i now s =
     (case pi_device_id i of
        None \<Rightarrow> (Some Push_Device_Missing, s)
      | Some device \<Rightarrow>
          if map_of (rl_paired s) device = None then (Some Push_Not_Paired, s)
          else if pi_endpoint i = [] \<or> pi_p256dh i = [] \<or> pi_auth i = [] then (Some Push_Incomplete, s)
          else if \<not> acceptable then (Some Push_Endpoint_Refused, s)
          else
            let subs = (case map_of (rl_push s) device of None \<Rightarrow> [] | Some subs \<Rightarrow> subs)
            in if list_ex (\<lambda>u. su_endpoint u = pi_endpoint i \<and> su_p256dh u = pi_p256dh i \<and> su_auth u = pi_auth i) subs
               then (None, s)
               else (None, s\<lparr>rl_push := AList.update device
                 (filter (\<lambda>u. su_endpoint u \<noteq> pi_endpoint i) subs @
                  [\<lparr>su_endpoint = pi_endpoint i, su_p256dh = pi_p256dh i, su_auth = pi_auth i,
                    su_device_id = device, su_created_at = now\<rparr>]) (rl_push s)\<rparr>))"

definition unregister_push_subscription :: "string \<Rightarrow> string \<Rightarrow> relay_devices \<Rightarrow> relay_devices" where
  "unregister_push_subscription device endpoint s =
     (case map_of (rl_push s) device of
        None \<Rightarrow> s
      | Some subs \<Rightarrow>
          let subs = filter (\<lambda>u. su_endpoint u \<noteq> endpoint) subs
          in s\<lparr>rl_push := (if subs = [] then AList.delete device (rl_push s)
                           else AList.update device subs (rl_push s))\<rparr>)"

definition prune_push_subscriptions :: "string list \<Rightarrow> relay_devices \<Rightarrow> relay_devices" where
  "prune_push_subscriptions gone s =
     s\<lparr>rl_push := retain (\<lambda>_ subs. subs \<noteq> [])
       (map (\<lambda>(device, subs). (device, filter (\<lambda>u. su_endpoint u \<notin> set gone) subs)) (rl_push s))\<rparr>"

definition push_subscriptions_vec :: "relay_devices \<Rightarrow> push_subscription list" where
  "push_subscriptions_vec s =
     concat (map snd (filter (\<lambda>(device, _). map_of (rl_paired s) device \<noteq> None) (rl_push s)))"

definition APNS_TOPIC :: string where "APNS_TOPIC = ''dev.sealwire.mobile''"

definition register_apns_token :: "apns_token \<Rightarrow> string option \<Rightarrow> relay_devices \<Rightarrow> push_error option \<times> relay_devices" where
  "register_apns_token i device_id s =
     (case device_id of
        None \<Rightarrow> (Some Push_Device_Missing, s)
      | Some device \<Rightarrow>
          if map_of (rl_paired s) device = None then (Some Push_Not_Paired, s)
          else if ap_token i = [] \<or> 1024 < length (ap_token i) \<or> odd (length (ap_token i)) \<or>
            \<not> list_all is_ascii_hexdigit (ap_token i) then (Some Apns_Token_Malformed, s)
          else if ap_topic i \<noteq> APNS_TOPIC then (Some Apns_Topic_Refused, s)
          else if trim (ap_relay_id i) = [] \<or> 512 < length (ap_relay_id i) then (Some Apns_Relay_Invalid, s)
          else
            let token = i\<lparr>ap_token := map ascii_lower (ap_token i), ap_device_id := device\<rparr>
            in if rl_apns s device = Some token then (None, s)
               else (None, s\<lparr>rl_apns := (rl_apns s)(device \<mapsto> token),
                             rl_push := AList.delete device (rl_push s)\<rparr>))"

definition unregister_apns_token :: "string \<Rightarrow> relay_devices \<Rightarrow> relay_devices" where
  "unregister_apns_token device s = s\<lparr>rl_apns := (rl_apns s)(device := None)\<rparr>"

text \<open>What the dispatcher checks again right before it sends.\<close>

definition may_send_push :: "file_system \<Rightarrow> string \<Rightarrow> push_subscription \<Rightarrow> relay_devices \<Rightarrow> bool" where
  "may_send_push fs thread u s \<longleftrightarrow>
     (case map_of (rl_push s) (su_device_id u) of None \<Rightarrow> False | Some subs \<Rightarrow> u \<in> set subs) \<and>
     device_reaches_thread fs thread (su_device_id u) s"

definition may_send_apns :: "file_system \<Rightarrow> string \<Rightarrow> apns_token \<Rightarrow> relay_devices \<Rightarrow> bool" where
  "may_send_apns fs thread t s \<longleftrightarrow>
     map_of (rl_paired s) (ap_device_id t) \<noteq> None \<and> rl_apns s (ap_device_id t) = Some t \<and>
     device_reaches_thread fs thread (ap_device_id t) s"

section \<open>Revocation\<close>

definition clear_orchestrator_pin_if_device :: "string \<Rightarrow> relay_devices \<Rightarrow> relay_devices" where
  "clear_orchestrator_pin_if_device device s =
     (if rl_pin_device s \<noteq> Some device then s
      else s\<lparr>rl_pin_thread := None, rl_pin_device := None, rl_pin_prompt := None, rl_pin_prompt_version := None\<rparr>)"

definition retire_handovers_for_device :: "string \<Rightarrow> relay_devices \<Rightarrow> relay_devices" where
  "retire_handovers_for_device device s =
     s\<lparr>rl_handovers := retain_map (\<lambda>_ actor. actor \<noteq> Some device) (rl_handovers s)\<rparr>"

definition revoke_paired_device :: "string \<Rightarrow> u64 \<Rightarrow> relay_devices \<Rightarrow> bool \<times> relay_devices" where
  "revoke_paired_device device now s =
     (case map_of (rl_paired s) device of
        None \<Rightarrow> (False, s)
      | Some d \<Rightarrow>
          let s = s\<lparr>rl_paired := AList.delete device (rl_paired s)\<rparr>;
              s = s\<lparr>rl_push := AList.delete device (rl_push s), rl_apns := (rl_apns s)(device := None)\<rparr>;
              s = clear_watched_threads_for_device device s;
              s = s\<lparr>rl_book := forget_remote_requests_for_device device (rl_book s)\<rparr>;
              s = record_revoked_device d now s;
              s = (if rl_controller s = Some device
                then s\<lparr>rl_controller := None, rl_controller_seen_at := None\<rparr> else s);
              s = clear_orchestrator_pin_if_device device s
          in (True, retire_handovers_for_device device s))"

fun revoke_each :: "string list \<Rightarrow> u64 \<Rightarrow> relay_devices \<Rightarrow> relay_devices" where
  "revoke_each [] now s = s"
| "revoke_each (device # devices) now s = revoke_each devices now (snd (revoke_paired_device device now s))"

definition revoke_all_other_paired_devices ::
    "string \<Rightarrow> u64 \<Rightarrow> relay_devices \<Rightarrow> device_error + (string list \<times> relay_devices)" where
  "revoke_all_other_paired_devices keep now s =
     (if map_of (rl_paired s) keep = None then Inl Device_Not_Paired
      else
        let others = filter (\<lambda>device. device \<noteq> keep) (keys_of (rl_paired s))
        in Inr (others, revoke_each others now s))"

definition forgettable :: "string set \<Rightarrow> device_record \<Rightarrow> bool" where
  "forgettable in_flight r \<longleftrightarrow>
     de_lifecycle_state r \<in> {Life_Revoked, Life_Rejected} \<and> \<not> de_broker_revoke_pending r \<and>
     de_device_id r \<notin> in_flight"

definition forget_record :: "string \<Rightarrow> relay_devices \<Rightarrow> relay_devices" where
  "forget_record device s =
     clear_orchestrator_pin_if_device device (s\<lparr>rl_records := AList.delete device (rl_records s)\<rparr>)"

definition clear_device_history :: "relay_devices \<Rightarrow> string list \<times> relay_devices" where
  "clear_device_history s =
     (let removed = sort (map de_device_id (filter (forgettable (rl_revoking s)) (map snd (rl_records s))))
      in (removed, fold forget_record removed s))"

end
