(* ===== verification/Device_Flow.thy ===== *)
theory Device_Flow
  imports Device_Pairing
begin

text \<open>
  How the relay runs the operations on its devices (\<open>crates/relay-server/src/state/app/pairing.rs\<close>,
  \<open>state/app/broker.rs\<close>, \<open>state/app/sessions.rs\<close>, \<open>broker.rs\<close>, \<open>broker/remote_actions/authentication.rs\<close>).
  An approval and a revocation release the lock while they wait for the broker, so each is two
  steps, and anything may happen between them; \<open>ap_decision\<close> is the guard that one decision holds.
\<close>

section \<open>The application\<close>

record approval =
  av_pairing :: string
  av_now :: u64
  av_request :: pairing_request

record pairing_app =
  ap_relay :: relay_devices
  ap_decision :: "approval option"
  ap_revocations :: "string list list"

abbreviation with_relay :: "relay_devices \<Rightarrow> pairing_app \<Rightarrow> pairing_app" where
  "with_relay s a \<equiv> a\<lparr>ap_relay := s\<rparr>"

section \<open>Starting a pairing\<close>

datatype start_error = Scope_Refused scope_error | Scope_Inaccessible string | Start_Refused device_error

fun check_scope :: "file_system \<Rightarrow> string list \<Rightarrow> string list \<Rightarrow> scope_error option" where
  "check_scope fs allowed [] = None"
| "check_scope fs allowed (root # roots) =
     (case scope_ensure fs root \<lparr>ws_relay_roots = allowed, ws_device_paths = []\<rparr> of
        Some e \<Rightarrow> Some e
      | None \<Rightarrow> check_scope fs allowed roots)"

text \<open>Up to the request that the broker signs; then the rest, under the decision guard.\<close>

definition start_pairing ::
    "file_system \<Rightarrow> u64 option \<Rightarrow> string list \<Rightarrow> u64 \<Rightarrow> string \<Rightarrow> string \<Rightarrow> pairing_app \<Rightarrow>
     (start_error + prepared_ticket) \<times> pairing_app" where
  "start_pairing fs ttl roots now token10 token32 a =
     (case normalize_allowed_roots fs roots of
        Inl e \<Rightarrow> (Inl (Scope_Inaccessible e), a)
      | Inr scope \<Rightarrow>
          (case check_scope fs (rl_allowed_roots (ap_relay a)) scope of
             Some e \<Rightarrow> (Inl (Scope_Refused e), a)
           | None \<Rightarrow>
               (case prepare_pairing_ticket ttl scope now token10 token32 (ap_relay a) of
                  (Inl e, s) \<Rightarrow> (Inl (Start_Refused e), with_relay s a)
                | (Inr t, s) \<Rightarrow> (Inr t, with_relay s a))))"

definition finish_start ::
    "pairing_lib \<Rightarrow> file_system \<Rightarrow> prepared_ticket \<Rightarrow> pairing_broker \<Rightarrow> u64 \<Rightarrow> pairing_app \<Rightarrow>
     (device_error option) \<times> pairing_app" where
  "finish_start lib fs t broker now a =
     (case install_pairing_ticket lib t now (ap_relay a) of
        Inl e \<Rightarrow> (Some e, a)
      | Inr (owed, s) \<Rightarrow>
          (None, with_relay (issue_pairing_ticket t broker
             (fold (\<lambda>res. queue_broker_message fs (Msg_Pairing res)) owed s)) a))"

section \<open>Deciding a request\<close>

record device_credential =
  dc_refresh_token :: "string option"
  dc_join_token :: string
  dc_join_expires_at :: "u64 option"

record client_grant =
  ug_relay_id :: string
  ug_relay_label :: "string option"
  ug_claim_id :: string
  ug_claim_nonce :: string
  ug_claim_expires_at :: u64

text \<open>How the broker's calls for an approval end.\<close>

datatype broker_answer =
    Credential_Failed | Grant_Failed | Issued device_credential "client_grant option"

datatype decision_outcome =
    Decision_Waits
  | Decision_Failed
  | Decision_Refused device_error
  | Decision_Sent pairing_result

definition begin_approval :: "string \<Rightarrow> u64 \<Rightarrow> pairing_app \<Rightarrow> decision_outcome \<times> pairing_app" where
  "begin_approval pairing now a =
     (case claim_pairing_request pairing now (ap_relay a) of
        (Inl e, s) \<Rightarrow> (Decision_Refused e, with_relay s a)
      | (Inr q, s) \<Rightarrow>
          (Decision_Waits, (with_relay s a)\<lparr>ap_decision :=
             Some \<lparr>av_pairing = pairing, av_now = now, av_request = q\<rparr>\<rparr>))"

definition add_credential :: "device_credential \<Rightarrow> pairing_result \<Rightarrow> pairing_result" where
  "add_credential c r =
     r\<lparr>pe_grants := (pe_grants r)\<lparr>bg_device_refresh_token := dc_refresh_token c,
        bg_device_join_ticket := Some (dc_join_token c), bg_join_expires_at := dc_join_expires_at c\<rparr>\<rparr>"

definition add_client_grant :: "client_grant option \<Rightarrow> pairing_result \<Rightarrow> pairing_result" where
  "add_client_grant grant r =
     (case grant of
        None \<Rightarrow> r
      | Some g \<Rightarrow>
          r\<lparr>pe_grants := (pe_grants r)\<lparr>bg_relay_id := Some (ug_relay_id g), bg_relay_label := ug_relay_label g,
             bg_client_claim_id := Some (ug_claim_id g), bg_client_claim_nonce := Some (ug_claim_nonce g),
             bg_client_claim_expires_at := Some (ug_claim_expires_at g)\<rparr>\<rparr>)"

definition attach_client_grant ::
    "string \<Rightarrow> client_grant option \<Rightarrow> relay_devices \<Rightarrow> device_error option \<times> relay_devices" where
  "attach_client_grant pairing grant s =
     (case grant of
        None \<Rightarrow> (None, s)
      | Some g \<Rightarrow>
          attach_pairing_client_grant pairing (Some (ug_relay_id g)) (ug_relay_label g)
            (Some (ug_claim_id g)) (Some (ug_claim_nonce g)) (Some (ug_claim_expires_at g)) s)"

text \<open>
  The claim goes back under the lock that decides. The flag says whether the broker is asked to
  revoke the credential again: not for a device that is still paired.
\<close>

definition conclude_approval ::
    "pairing_lib \<Rightarrow> file_system \<Rightarrow> approval \<Rightarrow> device_credential \<Rightarrow> client_grant option \<Rightarrow> string \<Rightarrow>
     relay_devices \<Rightarrow> decision_outcome \<times> bool \<times> relay_devices" where
  "conclude_approval lib fs v c grant token40 s =
     (let s = restore_pairing_request (av_request v) s in
      case decide_pairing_request lib (av_pairing v) True (dc_join_expires_at c) (av_now v) token40 s of
        (Inl e, s) \<Rightarrow>
          (Decision_Refused e, map_of (rl_paired s) (pq_device_id (av_request v)) = None, s)
      | (Inr r, s) \<Rightarrow>
          (case attach_pairing_broker_credential (av_pairing v) (dc_refresh_token c) (dc_join_token c)
              (dc_join_expires_at c) (av_now v) s of
             (Some e, s) \<Rightarrow> (Decision_Refused e, False, s)
           | (None, s) \<Rightarrow>
               (case attach_client_grant (av_pairing v) grant s of
                  (Some e, s) \<Rightarrow> (Decision_Refused e, False, s)
                | (None, s) \<Rightarrow>
                    let r = add_client_grant grant (add_credential c r)
                    in (Decision_Sent r, False, queue_broker_message fs (Msg_Pairing r) s))))"

definition finish_approval ::
    "pairing_lib \<Rightarrow> file_system \<Rightarrow> broker_answer \<Rightarrow> string \<Rightarrow> pairing_app \<Rightarrow> decision_outcome \<times> bool \<times> pairing_app" where
  "finish_approval lib fs answer token40 a =
     (case ap_decision a of
        None \<Rightarrow> (Decision_Failed, False, a)
      | Some v \<Rightarrow>
          let a = a\<lparr>ap_decision := None\<rparr>; s = ap_relay a in
          (case answer of
             Credential_Failed \<Rightarrow>
               (Decision_Failed, False, with_relay (restore_pairing_request (av_request v) s) a)
           | Grant_Failed \<Rightarrow>
               (Decision_Failed, map_of (rl_paired s) (pq_device_id (av_request v)) = None,
                with_relay (restore_pairing_request (av_request v) s) a)
           | Issued c grant \<Rightarrow>
               (let (res, rollback, s) = conclude_approval lib fs v c grant token40 s
                in (res, rollback, with_relay s a))))"

definition reject_request ::
    "pairing_lib \<Rightarrow> file_system \<Rightarrow> string \<Rightarrow> u64 \<Rightarrow> pairing_app \<Rightarrow> decision_outcome \<times> pairing_app" where
  "reject_request lib fs pairing now a =
     (case decide_pairing_request lib pairing False None now [] (ap_relay a) of
        (Inl e, s) \<Rightarrow> (Decision_Refused e, with_relay s a)
      | (Inr r, s) \<Rightarrow> (Decision_Sent r, with_relay (queue_broker_message fs (Msg_Pairing r) s) a))"

section \<open>Revoking\<close>

datatype broker_revocation = Broker_Revoked | Broker_Not_Revocable

datatype credential_revocation = Cred_None | Cred_Revoked | Cred_Lapses "u64 option"

definition begin_revocation :: "string \<Rightarrow> u64 \<Rightarrow> bool \<Rightarrow> pairing_app \<Rightarrow> bool \<times> pairing_app" where
  "begin_revocation device now has_broker a =
     (let (revoked, s) = revoke_paired_device device now (ap_relay a);
          retry = (\<not> revoked \<and> (case map_of (rl_records s) device of
            None \<Rightarrow> False | Some r \<Rightarrow> de_broker_revoke_pending r))
      in if has_broker \<and> (revoked \<or> retry)
         then (revoked, (with_relay (s\<lparr>rl_revoking := insert device (rl_revoking s)\<rparr>) a)
                \<lparr>ap_revocations := [device] # ap_revocations a\<rparr>)
         else (revoked, with_relay s a))"

definition begin_bulk_revocation ::
    "string \<Rightarrow> u64 \<Rightarrow> bool \<Rightarrow> pairing_app \<Rightarrow> (device_error + string list) \<times> pairing_app" where
  "begin_bulk_revocation keep now has_broker a =
     (case revoke_all_other_paired_devices keep now (ap_relay a) of
        Inl e \<Rightarrow> (Inl e, a)
      | Inr (ids, s) \<Rightarrow>
          (if has_broker \<and> ids \<noteq> []
           then (Inr ids, (with_relay (s\<lparr>rl_revoking := rl_revoking s \<union> set ids\<rparr>) a)
                  \<lparr>ap_revocations := ids # ap_revocations a\<rparr>)
           else (Inr ids, with_relay s a)))"

definition settle_record :: "bool \<Rightarrow> string \<Rightarrow> relay_devices \<Rightarrow> relay_devices" where
  "settle_record failed device s =
     s\<lparr>rl_revoking := rl_revoking s - {device},
       rl_records := adjust device (\<lambda>r. r\<lparr>de_broker_revoke_pending := failed\<rparr>) (rl_records s)\<rparr>"

text \<open>The latest expiry, unless one of the tickets has none.\<close>

fun latest_expiry :: "u64 option list \<Rightarrow> u64 option" where
  "latest_expiry [] = None"
| "latest_expiry [x] = x"
| "latest_expiry (x # xs) =
     (case (x, latest_expiry xs) of (Some a, Some b) \<Rightarrow> Some (max a b) | _ \<Rightarrow> None)"

definition settle_broker_revoke ::
    "string list \<Rightarrow> broker_revocation option \<Rightarrow> relay_devices \<Rightarrow> credential_revocation option \<times> relay_devices" where
  "settle_broker_revoke ids outcome s =
     (let s = fold (settle_record (outcome = None)) ids s in
      (case outcome of
         None \<Rightarrow> None
       | Some Broker_Revoked \<Rightarrow> Some Cred_Revoked
       | Some Broker_Not_Revocable \<Rightarrow>
           Some (Cred_Lapses (latest_expiry (map (\<lambda>device.
             Option.bind (map_of (rl_records s) device) de_join_expires_at) ids))), s))"

section \<open>A phone that scanned a QR\<close>

record pairing_plaintext =
  px_device_id :: "string option"
  px_device_label :: "string option"
  px_device_verify_key :: string

datatype pairing_reply = Reply_Nothing | Reply_Undecryptable | Reply_Result pairing_result

text \<open>
  \<open>unseal\<close> decrypts the envelope under the pairing secret and gives the request when its proof
  verifies; it is called only with the secret found here.
\<close>

definition reply_refusal :: "pairing_result option \<Rightarrow> pairing_reply" where
  "reply_refusal r = (case r of None \<Rightarrow> Reply_Nothing | Some res \<Rightarrow> Reply_Result res)"

definition handle_pairing_request ::
    "pairing_lib \<Rightarrow> string \<Rightarrow> string \<Rightarrow> (string \<Rightarrow> unit + pairing_plaintext option) \<Rightarrow> u64 \<Rightarrow>
     relay_devices \<Rightarrow> pairing_reply \<times> relay_devices" where
  "handle_pairing_request lib peer pairing unseal now s =
     (case pending_pairing_secret pairing now s of
        (Inl _, s) \<Rightarrow> (Reply_Nothing, s)
      | (Inr secret, s) \<Rightarrow>
          (case unseal secret of
             Inl _ \<Rightarrow> (Reply_Undecryptable, s)
           | Inr None \<Rightarrow> (Reply_Nothing, s)
           | Inr (Some x) \<Rightarrow>
               (case retired_pairing_result pairing peer now s of
                  (Some res, s) \<Rightarrow> (Reply_Result res, s)
                | (None, s) \<Rightarrow>
                    (case completed_pairing_result pairing (px_device_verify_key x) peer now s of
                       (Inl _, s) \<Rightarrow>
                         (reply_refusal (taken_pairing_refusal pairing (px_device_verify_key x) peer s), s)
                     | (Inr (Some res), s) \<Rightarrow> (Reply_Result res, s)
                     | (Inr None, s) \<Rightarrow>
                         (case register_pairing_request lib pairing (px_device_id x) (px_device_label x) peer
                             (px_device_verify_key x) now s of
                            (Inr _, s) \<Rightarrow> (Reply_Nothing, s)
                          | (Inl _, s) \<Rightarrow>
                              (reply_refusal (taken_pairing_refusal pairing (px_device_verify_key x) peer s), s))))))"

section \<open>A device that claims its connection\<close>

definition ensure_surface_lease :: "string \<Rightarrow> u64 \<Rightarrow> relay_devices \<Rightarrow> device_error option" where
  "ensure_surface_lease peer lease s =
     (if surface_lease_is_current peer lease s then None else Some Connection_Replaced)"

definition leased_claim_challenge ::
    "string \<Rightarrow> string \<Rightarrow> u64 \<Rightarrow> u64 \<Rightarrow> string \<Rightarrow> string \<Rightarrow> relay_devices \<Rightarrow>
     (device_error + challenge_entry) \<times> relay_devices" where
  "leased_claim_challenge device peer lease now token10 token40 s =
     (case ensure_surface_lease peer lease s of
        Some e \<Rightarrow> (Inl e, s)
      | None \<Rightarrow> issue_claim_challenge device peer now token10 token40 s)"

text \<open>First the device is marked as seen, under a lock of its own.\<close>

definition issue_claim_challenge_outcome ::
    "string \<Rightarrow> string \<Rightarrow> u64 \<Rightarrow> u64 \<Rightarrow> string \<Rightarrow> string \<Rightarrow> relay_devices \<Rightarrow>
     (device_error + challenge_entry) \<times> relay_devices" where
  "issue_claim_challenge_outcome device peer lease now token10 token40 s =
     (case mark_paired_device_seen device peer (Some lease) now s of
        (Some e, s) \<Rightarrow> (Inl e, s)
      | (None, s) \<Rightarrow> leased_claim_challenge device peer lease now token10 token40 s)"

definition leased_remote_claim ::
    "string \<Rightarrow> string \<Rightarrow> string \<Rightarrow> u64 \<Rightarrow> u64 \<Rightarrow> u64 \<Rightarrow> string \<Rightarrow> relay_devices \<Rightarrow>
     device_error option \<times> relay_devices" where
  "leased_remote_claim device challenge_id peer lease now now_ms sid s =
     (case ensure_surface_lease peer lease s of
        Some e \<Rightarrow> (Some e, s)
      | None \<Rightarrow>
          (case complete_remote_claim device challenge_id peer now s of
             (Some e, s) \<Rightarrow> (Some e, s)
           | (None, s) \<Rightarrow>
               (case open_request_session device peer now_ms sid (book_of s) of
                  Inl _ \<Rightarrow> (Some Device_Not_Paired, s)
                | Inr b \<Rightarrow> (None, s\<lparr>rl_book := b\<rparr>))))"

definition issue_claim_outcome ::
    "string \<Rightarrow> string \<Rightarrow> string \<Rightarrow> string \<Rightarrow> u64 \<Rightarrow> u64 \<Rightarrow> u64 \<Rightarrow> string \<Rightarrow> relay_devices \<Rightarrow>
     device_error option \<times> relay_devices" where
  "issue_claim_outcome device peer challenge_id claimed lease now now_ms sid s =
     (case claim_challenge device challenge_id peer now s of
        (Inl e, s) \<Rightarrow> (Some e, s)
      | (Inr c, s) \<Rightarrow>
          if cc_challenge c \<noteq> claimed then (Some Challenge_Mismatch, s)
          else leased_remote_claim device (cc_challenge_id c) peer lease now now_ms sid s)"

text \<open>Signed requests are admitted only under the current lease; admission marks the device as seen.\<close>

definition admit_leased_request ::
    "request_facts \<Rightarrow> u64 \<Rightarrow> u64 \<Rightarrow> u64 \<Rightarrow> relay_devices \<Rightarrow> request_admission \<times> relay_devices" where
  "admit_leased_request f lease now_ms now s =
     (if \<not> surface_lease_is_current (rf_peer_id f) lease s then (Adm_Duplicate, s)
      else
        let (admission, b) = admit_signed_request f now_ms now (book_of s);
            s = s\<lparr>rl_book := b\<rparr>
        in (admission,
            case admission of
              Adm_Run \<Rightarrow> snd (mark_paired_device_seen (rf_device_id f) (rf_peer_id f) (Some lease) now s)
            | Adm_Execute _ \<Rightarrow> snd (mark_paired_device_seen (rf_device_id f) (rf_peer_id f) (Some lease) now s)
            | _ \<Rightarrow> s))"

section \<open>What a surface watches\<close>

text \<open>Only a change of the connection is passed on.\<close>

definition update_broker_connection :: "bool \<Rightarrow> relay_devices \<Rightarrow> relay_devices" where
  "update_broker_connection connected s =
     (if rl_broker_connected s = connected then s else set_broker_connection connected s)"

definition watch_threads ::
    "file_system \<Rightarrow> string \<Rightarrow> string option \<Rightarrow> u64 option \<Rightarrow> string option \<Rightarrow> string list \<Rightarrow> u64 option \<Rightarrow>
     relay_devices \<Rightarrow> relay_devices" where
  "watch_threads fs device broker_peer lease surface threads generation s =
     (let threads = remdups (sort threads);
          peer = (case broker_peer of Some p \<Rightarrow> Some p | None \<Rightarrow> paired_device_peer_id device s)
      in case peer of
           Some p \<Rightarrow>
             (if (case lease of None \<Rightarrow> False | Some l \<Rightarrow> \<not> surface_lease_is_current p l s) then s
              else snd (set_watched_threads_for_generation fs p device threads generation
                     (register_broker_surface p s)))
         | None \<Rightarrow>
             snd (set_watched_threads_for_generation fs
               (case non_empty surface of Some u \<Rightarrow> u | None \<Rightarrow> device) device threads generation s))"

section \<open>Saving and loading\<close>

text \<open>A revocation that is still in flight is saved as one to retry.\<close>

definition persisted_records :: "relay_devices \<Rightarrow> (string, device_record) rows" where
  "persisted_records s =
     map (\<lambda>(device, r). (device, r\<lparr>de_broker_revoke_pending :=
       de_broker_revoke_pending r \<or> device \<in> rl_revoking s\<rparr>)) (rl_records s)"

definition prune_orphaned_push_subscriptions :: "relay_devices \<Rightarrow> relay_devices" where
  "prune_orphaned_push_subscriptions s =
     s\<lparr>rl_push := retain (\<lambda>device _. map_of (rl_paired s) device \<noteq> None) (rl_push s),
       rl_apns := retain_map (\<lambda>device _. map_of (rl_paired s) device \<noteq> None) (rl_apns s)\<rparr>"

definition backfill_device_records ::
    "(string, paired_device) rows \<Rightarrow> (string, device_record) rows \<Rightarrow> (string, device_record) rows" where
  "backfill_device_records paired records =
     fold (\<lambda>(_, d) rs. case map_of rs (pd_device_id d) of
         None \<Rightarrow> AList.update (pd_device_id d) (approved_from d) rs | Some _ \<Rightarrow> rs) paired records"

text \<open>
  A restart: what was saved, in a fresh process. Pins, handovers, threads and roots are loaded too;
  what other components decide about them is not modelled, so they are arguments.
\<close>

definition load_devices ::
    "relay_devices \<Rightarrow> (string, device_record) rows \<Rightarrow> (string, paired_device) rows \<Rightarrow>
     (string, push_subscription list) rows \<Rightarrow> (string \<rightharpoonup> apns_token) \<Rightarrow> relay_devices" where
  "load_devices fresh records paired push apns =
     (let s = prune_orphaned_push_subscriptions
            (fresh\<lparr>rl_records := records, rl_paired := paired, rl_push := push, rl_apns := apns\<rparr>)
      in s\<lparr>rl_online := [], rl_leases := Map.empty, rl_peer_devices := Map.empty,
           rl_records := backfill_device_records (rl_paired s) (rl_records s),
           rl_pairings := [], rl_requests := Map.empty, rl_claimed := {}, rl_retired := Map.empty,
           rl_completed := Map.empty, rl_messages := [],
           rl_book := (clear_requests (rl_book s))\<lparr>rb_cache := []\<rparr>\<rparr>)"

end
