(* ===== verification/Device_Machine.thy ===== *)
theory Device_Machine
  imports Device_Flow
begin

text \<open>
  The relay's devices as a machine: each event is one stretch under the lock. Approvals and
  revocations are two events with anything between them; a decision holds the guard, so an event
  that needs it waits. Invariants and what each operation leaves alone.
\<close>

declare map_of_eq_Some_iff [simp del]

section \<open>Events\<close>

datatype device_event =
    Ev_Start "u64 option" "string list" u64 string string
  | Ev_Install prepared_ticket pairing_broker u64
  | Ev_Register string "string option" "string option" string string u64
  | Ev_Prune u64
  | Ev_Approve string u64
  | Ev_Finish broker_answer string
  | Ev_Reject string u64
  | Ev_Revoke string u64 bool
  | Ev_Revoke_Others string u64 bool
  | Ev_Settle nat "broker_revocation option"
  | Ev_Clear_History
  | Ev_Challenge string string u64 u64 string string
  | Ev_Claim string string string string u64 u64 u64 string
  | Ev_Seen string string "u64 option" u64
  | Ev_Admit request_facts u64 u64 u64
  | Ev_Presence string bool
  | Ev_Welcome "string list"
  | Ev_Broker_Connection bool
  | Ev_Watch string "string option" "u64 option" "string option" "string list" "u64 option"
  | Ev_Surface_Opened string "u64 option"
  | Ev_Surface_Closed string u64
  | Ev_Push_Register bool push_input u64
  | Ev_Push_Unregister string string
  | Ev_Push_Gone "string list"
  | Ev_Apns_Register apns_token "string option"
  | Ev_Apns_Unregister string
  | Ev_Queue broker_message
  | Ev_Drain
  | Ev_Threads "string option" "string \<rightharpoonup> thread_runtime" "string \<rightharpoonup> history_workspace"
      "string \<rightharpoonup> string" "string list"
  | Ev_Restart

text \<open>The messages that wait in the queue survive a lost connection; a restart loses them.\<close>

definition fresh_process :: "relay_devices \<Rightarrow> relay_devices" where
  "fresh_process s =
     s\<lparr>rl_revoking := {}, rl_next_lease := 1, rl_watched := [], rl_broker_surfaces := {},
       rl_generations := Map.empty, rl_pairing_generation := 0, rl_pairing_starts := [],
       rl_challenges := Map.empty, rl_local_events := [], rl_controller := None,
       rl_controller_seen_at := None, rl_broker_connected := False\<rparr>"

definition restart :: "relay_devices \<Rightarrow> relay_devices" where
  "restart s = load_devices (fresh_process s) (persisted_records s) (rl_paired s) (rl_push s) (rl_apns s)"

abbreviation when_free :: "pairing_app \<Rightarrow> pairing_app \<Rightarrow> pairing_app" where
  "when_free a b \<equiv> (if ap_decision a = None then b else a)"

fun device_step :: "pairing_lib \<Rightarrow> file_system \<Rightarrow> pairing_app \<Rightarrow> device_event \<Rightarrow> pairing_app" where
  "device_step lib fs a (Ev_Start ttl roots now t10 t32) = snd (start_pairing fs ttl roots now t10 t32 a)"
| "device_step lib fs a (Ev_Install t broker now) = when_free a (snd (finish_start lib fs t broker now a))"
| "device_step lib fs a (Ev_Register pairing rid label peer key now) =
     with_relay (snd (register_pairing_request lib pairing rid label peer key now (ap_relay a))) a"
| "device_step lib fs a (Ev_Prune now) = with_relay (prune_expired_pairings now (ap_relay a)) a"
| "device_step lib fs a (Ev_Approve pairing now) = when_free a (snd (begin_approval pairing now a))"
| "device_step lib fs a (Ev_Finish answer token) = snd (snd (finish_approval lib fs answer token a))"
| "device_step lib fs a (Ev_Reject pairing now) = when_free a (snd (reject_request lib fs pairing now a))"
| "device_step lib fs a (Ev_Revoke device now has_broker) = snd (begin_revocation device now has_broker a)"
| "device_step lib fs a (Ev_Revoke_Others keep now has_broker) = snd (begin_bulk_revocation keep now has_broker a)"
| "device_step lib fs a (Ev_Settle i outcome) =
     (if i < length (ap_revocations a)
      then (with_relay (snd (settle_broker_revoke (ap_revocations a ! i) outcome (ap_relay a))) a)
             \<lparr>ap_revocations := take i (ap_revocations a) @ drop (Suc i) (ap_revocations a)\<rparr>
      else a)"
| "device_step lib fs a Ev_Clear_History = with_relay (snd (clear_device_history (ap_relay a))) a"
| "device_step lib fs a (Ev_Challenge device peer lease now t10 t40) =
     with_relay (snd (issue_claim_challenge_outcome device peer lease now t10 t40 (ap_relay a))) a"
| "device_step lib fs a (Ev_Claim device peer cid claimed lease now now_ms sid) =
     with_relay (snd (issue_claim_outcome device peer cid claimed lease now now_ms sid (ap_relay a))) a"
| "device_step lib fs a (Ev_Seen device peer lease now) =
     with_relay (snd (mark_paired_device_seen device peer lease now (ap_relay a))) a"
| "device_step lib fs a (Ev_Admit f lease now_ms now) =
     with_relay (snd (admit_leased_request f lease now_ms now (ap_relay a))) a"
| "device_step lib fs a (Ev_Presence peer connected) =
     with_relay ((if connected then mark_surface_peer_online else mark_surface_peer_offline) peer (ap_relay a)) a"
| "device_step lib fs a (Ev_Welcome peers) = with_relay (replace_online_surface_peers peers (ap_relay a)) a"
| "device_step lib fs a (Ev_Broker_Connection connected) =
     with_relay (update_broker_connection connected (ap_relay a)) a"
| "device_step lib fs a (Ev_Watch device peer lease surface threads generation) =
     with_relay (watch_threads fs device peer lease surface threads generation (ap_relay a)) a"
| "device_step lib fs a (Ev_Surface_Opened surface claimed) =
     with_relay (snd (open_surface_generation surface claimed (ap_relay a))) a"
| "device_step lib fs a (Ev_Surface_Closed surface generation) =
     with_relay (snd (drop_watched_surface_generation surface generation (ap_relay a))) a"
| "device_step lib fs a (Ev_Push_Register acceptable i now) =
     with_relay (snd (register_push_subscription acceptable i now (ap_relay a))) a"
| "device_step lib fs a (Ev_Push_Unregister device endpoint) =
     with_relay (unregister_push_subscription device endpoint (ap_relay a)) a"
| "device_step lib fs a (Ev_Push_Gone gone) = with_relay (prune_push_subscriptions gone (ap_relay a)) a"
| "device_step lib fs a (Ev_Apns_Register i device) = with_relay (snd (register_apns_token i device (ap_relay a))) a"
| "device_step lib fs a (Ev_Apns_Unregister device) = with_relay (unregister_apns_token device (ap_relay a)) a"
| "device_step lib fs a (Ev_Queue m) = with_relay (queue_broker_message fs m (ap_relay a)) a"
| "device_step lib fs a Ev_Drain = with_relay (snd (drain_pending_broker_messages (ap_relay a))) a"
| "device_step lib fs a (Ev_Threads active threads histories cwds roots) =
     with_relay ((ap_relay a)\<lparr>rl_active_thread := active, rl_threads := threads,
       rl_histories := histories, rl_team_cwds := cwds, rl_allowed_roots := roots\<rparr>) a"
| "device_step lib fs a Ev_Restart =
     \<lparr>ap_relay = restart (ap_relay a), ap_decision = None, ap_revocations = []\<rparr>"

definition device_run :: "pairing_lib \<Rightarrow> file_system \<Rightarrow> device_event list \<Rightarrow> pairing_app \<Rightarrow> pairing_app" where
  "device_run lib fs es a = fold (\<lambda>e a. device_step lib fs a e) es a"

lemma device_run_snoc: "device_run lib fs (es @ [e]) a = device_step lib fs (device_run lib fs es a) e"
  by (simp add: device_run_def)

section \<open>What the helpers leave alone\<close>

text \<open>The queue of messages and the local events are all that queuing changes.\<close>

definition core :: "relay_devices \<Rightarrow> relay_devices" where
  "core s = s\<lparr>rl_messages := [], rl_local_events := []\<rparr>"

lemma core_fields:
  "rl_records (core s) = rl_records s"
  "rl_paired (core s) = rl_paired s"
  "rl_revoking (core s) = rl_revoking s"
  "rl_online (core s) = rl_online s"
  "rl_peer_devices (core s) = rl_peer_devices s"
  "rl_leases (core s) = rl_leases s"
  "rl_next_lease (core s) = rl_next_lease s"
  "rl_watched (core s) = rl_watched s"
  "rl_broker_surfaces (core s) = rl_broker_surfaces s"
  "rl_generations (core s) = rl_generations s"
  "rl_pairings (core s) = rl_pairings s"
  "rl_pairing_generation (core s) = rl_pairing_generation s"
  "rl_pairing_starts (core s) = rl_pairing_starts s"
  "rl_requests (core s) = rl_requests s"
  "rl_claimed (core s) = rl_claimed s"
  "rl_retired (core s) = rl_retired s"
  "rl_completed (core s) = rl_completed s"
  "rl_challenges (core s) = rl_challenges s"
  "rl_book (core s) = rl_book s"
  "rl_controller (core s) = rl_controller s"
  "rl_pin_device (core s) = rl_pin_device s"
  "rl_handovers (core s) = rl_handovers s"
  "rl_push (core s) = rl_push s"
  "rl_apns (core s) = rl_apns s"
  "rl_threads (core s) = rl_threads s"
  "rl_active_thread (core s) = rl_active_thread s"
  "rl_histories (core s) = rl_histories s"
  "rl_allowed_roots (core s) = rl_allowed_roots s"
  by (simp_all add: core_def)

lemma core_messages [simp]: "core (s\<lparr>rl_messages := ms\<rparr>) = core s" "core (s\<lparr>rl_local_events := es\<rparr>) = core s"
  by (simp_all add: core_def)

lemma core_bound [simp]: "core (bound_pending_transcript_frames s) = core s"
  by (simp add: bound_pending_transcript_frames_def Let_def)

lemma core_queue: "core (queue_broker_message fs m s) = core s"
  by (simp add: queue_broker_message_def Let_def split: option.splits broker_message.splits)

lemma core_resync: "core (resync_new_watcher fs thread s) = core s"
  by (simp add: resync_new_watcher_def queue_transcript_resync_def core_queue split: option.splits)

lemma core_resyncs: "core (fold (resync_new_watcher fs) threads s) = core s"
  by (induction threads arbitrary: s) (simp_all add: core_resync)

lemma core_owed: "core (fold (\<lambda>res. queue_broker_message fs (Msg_Pairing res)) owed s) = core s"
  by (induction owed arbitrary: s) (simp_all add: core_queue)

lemma queue_frame [simp]:
  "rl_records (queue_broker_message fs m s) = rl_records s"
  "rl_paired (queue_broker_message fs m s) = rl_paired s"
  "rl_revoking (queue_broker_message fs m s) = rl_revoking s"
  "rl_online (queue_broker_message fs m s) = rl_online s"
  "rl_peer_devices (queue_broker_message fs m s) = rl_peer_devices s"
  "rl_leases (queue_broker_message fs m s) = rl_leases s"
  "rl_next_lease (queue_broker_message fs m s) = rl_next_lease s"
  "rl_watched (queue_broker_message fs m s) = rl_watched s"
  "rl_broker_surfaces (queue_broker_message fs m s) = rl_broker_surfaces s"
  "rl_generations (queue_broker_message fs m s) = rl_generations s"
  "rl_pairings (queue_broker_message fs m s) = rl_pairings s"
  "rl_pairing_generation (queue_broker_message fs m s) = rl_pairing_generation s"
  "rl_pairing_starts (queue_broker_message fs m s) = rl_pairing_starts s"
  "rl_requests (queue_broker_message fs m s) = rl_requests s"
  "rl_claimed (queue_broker_message fs m s) = rl_claimed s"
  "rl_retired (queue_broker_message fs m s) = rl_retired s"
  "rl_completed (queue_broker_message fs m s) = rl_completed s"
  "rl_challenges (queue_broker_message fs m s) = rl_challenges s"
  "rl_book (queue_broker_message fs m s) = rl_book s"
  "rl_controller (queue_broker_message fs m s) = rl_controller s"
  "rl_pin_device (queue_broker_message fs m s) = rl_pin_device s"
  "rl_handovers (queue_broker_message fs m s) = rl_handovers s"
  "rl_push (queue_broker_message fs m s) = rl_push s"
  "rl_apns (queue_broker_message fs m s) = rl_apns s"
  "rl_threads (queue_broker_message fs m s) = rl_threads s"
  "rl_active_thread (queue_broker_message fs m s) = rl_active_thread s"
  "rl_histories (queue_broker_message fs m s) = rl_histories s"
  "rl_allowed_roots (queue_broker_message fs m s) = rl_allowed_roots s"
  using core_queue [of fs m s] by (metis core_fields)+

lemma resyncs_frame [simp]:
  "rl_records (fold (resync_new_watcher fs) threads s) = rl_records s"
  "rl_paired (fold (resync_new_watcher fs) threads s) = rl_paired s"
  "rl_revoking (fold (resync_new_watcher fs) threads s) = rl_revoking s"
  "rl_online (fold (resync_new_watcher fs) threads s) = rl_online s"
  "rl_peer_devices (fold (resync_new_watcher fs) threads s) = rl_peer_devices s"
  "rl_leases (fold (resync_new_watcher fs) threads s) = rl_leases s"
  "rl_next_lease (fold (resync_new_watcher fs) threads s) = rl_next_lease s"
  "rl_watched (fold (resync_new_watcher fs) threads s) = rl_watched s"
  "rl_broker_surfaces (fold (resync_new_watcher fs) threads s) = rl_broker_surfaces s"
  "rl_generations (fold (resync_new_watcher fs) threads s) = rl_generations s"
  "rl_pairings (fold (resync_new_watcher fs) threads s) = rl_pairings s"
  "rl_pairing_generation (fold (resync_new_watcher fs) threads s) = rl_pairing_generation s"
  "rl_pairing_starts (fold (resync_new_watcher fs) threads s) = rl_pairing_starts s"
  "rl_requests (fold (resync_new_watcher fs) threads s) = rl_requests s"
  "rl_claimed (fold (resync_new_watcher fs) threads s) = rl_claimed s"
  "rl_retired (fold (resync_new_watcher fs) threads s) = rl_retired s"
  "rl_completed (fold (resync_new_watcher fs) threads s) = rl_completed s"
  "rl_challenges (fold (resync_new_watcher fs) threads s) = rl_challenges s"
  "rl_book (fold (resync_new_watcher fs) threads s) = rl_book s"
  "rl_controller (fold (resync_new_watcher fs) threads s) = rl_controller s"
  "rl_pin_device (fold (resync_new_watcher fs) threads s) = rl_pin_device s"
  "rl_handovers (fold (resync_new_watcher fs) threads s) = rl_handovers s"
  "rl_push (fold (resync_new_watcher fs) threads s) = rl_push s"
  "rl_apns (fold (resync_new_watcher fs) threads s) = rl_apns s"
  "rl_threads (fold (resync_new_watcher fs) threads s) = rl_threads s"
  "rl_active_thread (fold (resync_new_watcher fs) threads s) = rl_active_thread s"
  "rl_histories (fold (resync_new_watcher fs) threads s) = rl_histories s"
  "rl_allowed_roots (fold (resync_new_watcher fs) threads s) = rl_allowed_roots s"
  using core_resyncs [of fs threads s] by (metis core_fields)+

lemma owed_frame [simp]:
  "rl_records (fold (\<lambda>res. queue_broker_message fs (Msg_Pairing res)) owed s) = rl_records s"
  "rl_paired (fold (\<lambda>res. queue_broker_message fs (Msg_Pairing res)) owed s) = rl_paired s"
  "rl_revoking (fold (\<lambda>res. queue_broker_message fs (Msg_Pairing res)) owed s) = rl_revoking s"
  "rl_online (fold (\<lambda>res. queue_broker_message fs (Msg_Pairing res)) owed s) = rl_online s"
  "rl_peer_devices (fold (\<lambda>res. queue_broker_message fs (Msg_Pairing res)) owed s) = rl_peer_devices s"
  "rl_leases (fold (\<lambda>res. queue_broker_message fs (Msg_Pairing res)) owed s) = rl_leases s"
  "rl_next_lease (fold (\<lambda>res. queue_broker_message fs (Msg_Pairing res)) owed s) = rl_next_lease s"
  "rl_watched (fold (\<lambda>res. queue_broker_message fs (Msg_Pairing res)) owed s) = rl_watched s"
  "rl_broker_surfaces (fold (\<lambda>res. queue_broker_message fs (Msg_Pairing res)) owed s) = rl_broker_surfaces s"
  "rl_generations (fold (\<lambda>res. queue_broker_message fs (Msg_Pairing res)) owed s) = rl_generations s"
  "rl_pairings (fold (\<lambda>res. queue_broker_message fs (Msg_Pairing res)) owed s) = rl_pairings s"
  "rl_pairing_generation (fold (\<lambda>res. queue_broker_message fs (Msg_Pairing res)) owed s) = rl_pairing_generation s"
  "rl_pairing_starts (fold (\<lambda>res. queue_broker_message fs (Msg_Pairing res)) owed s) = rl_pairing_starts s"
  "rl_requests (fold (\<lambda>res. queue_broker_message fs (Msg_Pairing res)) owed s) = rl_requests s"
  "rl_claimed (fold (\<lambda>res. queue_broker_message fs (Msg_Pairing res)) owed s) = rl_claimed s"
  "rl_retired (fold (\<lambda>res. queue_broker_message fs (Msg_Pairing res)) owed s) = rl_retired s"
  "rl_completed (fold (\<lambda>res. queue_broker_message fs (Msg_Pairing res)) owed s) = rl_completed s"
  "rl_challenges (fold (\<lambda>res. queue_broker_message fs (Msg_Pairing res)) owed s) = rl_challenges s"
  "rl_book (fold (\<lambda>res. queue_broker_message fs (Msg_Pairing res)) owed s) = rl_book s"
  "rl_controller (fold (\<lambda>res. queue_broker_message fs (Msg_Pairing res)) owed s) = rl_controller s"
  "rl_pin_device (fold (\<lambda>res. queue_broker_message fs (Msg_Pairing res)) owed s) = rl_pin_device s"
  "rl_handovers (fold (\<lambda>res. queue_broker_message fs (Msg_Pairing res)) owed s) = rl_handovers s"
  "rl_push (fold (\<lambda>res. queue_broker_message fs (Msg_Pairing res)) owed s) = rl_push s"
  "rl_apns (fold (\<lambda>res. queue_broker_message fs (Msg_Pairing res)) owed s) = rl_apns s"
  "rl_threads (fold (\<lambda>res. queue_broker_message fs (Msg_Pairing res)) owed s) = rl_threads s"
  "rl_active_thread (fold (\<lambda>res. queue_broker_message fs (Msg_Pairing res)) owed s) = rl_active_thread s"
  "rl_histories (fold (\<lambda>res. queue_broker_message fs (Msg_Pairing res)) owed s) = rl_histories s"
  "rl_allowed_roots (fold (\<lambda>res. queue_broker_message fs (Msg_Pairing res)) owed s) = rl_allowed_roots s"
  using core_owed [of fs owed s] by (metis core_fields)+

end
