(* ===== verification/Device_Inv.thy ===== *)
theory Device_Inv
  imports Device_Machine Request_Facts
begin

text \<open>
  What every event keeps: a paired device is on the list of devices as approved, under its own
  name; only paired devices hold request sessions and push addresses.
\<close>

declare map_of_eq_Some_iff [simp del]

section \<open>Sessions by device\<close>

definition session_devices :: "request_book \<Rightarrow> string set" where
  "session_devices b = (rs_device_id \<circ> snd) ` set (rb_sessions b)"

lemma session_devices_drop:
  "session_devices (drop_request_sessions_for_peer peer b) \<subseteq> session_devices b"
  "session_devices (drop_request_sessions_except_peers online b) \<subseteq> session_devices b"
  "session_devices (prune_sessions now b) \<subseteq> session_devices b"
  by (auto simp: session_devices_def drop_request_sessions_for_peer_def
      drop_request_sessions_except_peers_def prune_sessions_def)

lemma session_devices_forget:
  "session_devices (forget_remote_requests_for_device device b) = session_devices b - {device}"
  by (force simp: session_devices_def forget_remote_requests_for_device_def)

lemma session_devices_book [simp]: "session_devices (book_of s) = session_devices (rl_book s)"
  by (simp add: session_devices_def book_of_def)

lemma session_devices_open:
  assumes "open_request_session device peer now sid b = Inr b'"
  shows "session_devices b' \<subseteq> insert device (session_devices b)"
proof
  fix d assume "d \<in> session_devices b'"
  then obtain k v where kv: "(k, v) \<in> set (rb_sessions b')" "d = rs_device_id v"
    by (auto simp: session_devices_def)
  let ?ss = "evict_oldest device (filter (\<lambda>(_, s). rs_device_id s \<noteq> device \<or> rs_peer_id s \<noteq> peer)
    (rb_sessions (prune_sessions now b)))"
  from assms kv(1) have "rs_device_id v = device \<or> (k, v) \<in> set ?ss"
    by (auto simp: open_request_session_def Let_def split: if_splits dest!: update_mem)
  moreover have "set ?ss \<subseteq> set (rb_sessions b)"
    using evict_oldest_subset by (fastforce simp: prune_sessions_def)
  ultimately show "d \<in> insert device (session_devices b)"
    using kv(2) by (force simp: session_devices_def)
qed

text \<open>Admission only rewrites the session of the request.\<close>

lemma sessions_writes [simp]:
  "rb_sessions (set_device_writes device ws b) = rb_sessions b"
  "rb_sessions (prune_writes device now b) = rb_sessions b"
  "rb_sessions (snd (admit_recorded f w b)) = rb_sessions b"
  "rb_sessions (snd (start_write f b)) = rb_sessions b"
  by (simp_all add: set_device_writes_def prune_writes_def admit_recorded_def start_write_def Let_def
      split: option.splits write_state.splits cached_state.splits)

lemma sessions_admit_write: "rb_sessions (snd (admit_write f now b)) = rb_sessions b"
  by (simp add: admit_write_def Let_def split: option.splits)

lemma sessions_reserve:
  "rb_sessions (snd (reserve_remote_action_with_digest device action kind digest now b)) = rb_sessions b"
  by (simp add: reserve_remote_action_with_digest_def prune_remote_action_replays_def Let_def
      split: option.splits cached_state.splits)

lemma sessions_admit_operation:
  "rb_sessions (snd (admit_operation f now now_secs b)) = rb_sessions b"
  using sessions_reserve [of "rf_device_id f" "rf_action_id f" "rf_action_kind f" "rf_digest f" now_secs b]
  by (auto simp: admit_operation_def sessions_admit_write
      split: request_class.splits prod.splits sum.splits replay_decision.splits option.splits
        cached_state.splits)

lemma session_devices_admit:
  "session_devices (snd (admit_signed_request f now now_secs b)) \<subseteq> session_devices b"
proof -
  let ?b = "prune_sessions now b"
  have sub: "session_devices ((snd (admit_operation f now now_secs ?b))\<lparr>rb_sessions :=
      AList.update (rf_sid f) (use_seq q s) (rb_sessions (snd (admit_operation f now now_secs ?b)))\<rparr>)
      \<subseteq> session_devices ?b" if "map_of (rb_sessions ?b) (rf_sid f) = Some s" for q s
  proof
    fix d assume "d \<in> session_devices ((snd (admit_operation f now now_secs ?b))\<lparr>rb_sessions :=
      AList.update (rf_sid f) (use_seq q s) (rb_sessions (snd (admit_operation f now now_secs ?b)))\<rparr>)"
    then obtain k v where "(k, v) \<in> set (AList.update (rf_sid f) (use_seq q s) (rb_sessions ?b))" "d = rs_device_id v"
      by (auto simp: session_devices_def sessions_admit_operation)
    moreover have "(rf_sid f, s) \<in> set (rb_sessions ?b)" using that by (rule map_of_SomeD)
    ultimately show "d \<in> session_devices ?b"
      by (force simp: session_devices_def use_seq_def Let_def dest!: update_mem)
  qed
  have "session_devices (snd (admit_signed_request f now now_secs b)) \<subseteq> session_devices ?b"
    by (cases "map_of (rb_sessions ?b) (rf_sid f)")
      (simp_all add: admit_signed_request_def Let_def case_prod_beta sub)
  with session_devices_drop(3) [of now b] show ?thesis by blast
qed

section \<open>The list of devices\<close>

abbreviation paired_ids :: "relay_devices \<Rightarrow> string set" where
  "paired_ids s \<equiv> dom (map_of (rl_paired s))"

definition listed :: "relay_devices \<Rightarrow> bool" where
  "listed s \<longleftrightarrow>
     distinct (keys_of (rl_paired s)) \<and> distinct (keys_of (rl_records s)) \<and>
     (\<forall>k d. map_of (rl_paired s) k = Some d \<longrightarrow> pd_device_id d = k \<and>
        (\<exists>r. map_of (rl_records s) k = Some r \<and> de_lifecycle_state r = Life_Approved)) \<and>
     (\<forall>k r. map_of (rl_records s) k = Some r \<longrightarrow> de_device_id r = k)"

definition confined :: "relay_devices \<Rightarrow> bool" where
  "confined s \<longleftrightarrow> distinct (keys_of (rl_push s)) \<and> session_devices (rl_book s) \<subseteq> paired_ids s \<and>
     set (keys_of (rl_push s)) \<subseteq> paired_ids s \<and> dom (rl_apns s) \<subseteq> paired_ids s"

definition sound :: "relay_devices \<Rightarrow> bool" where
  "sound s \<longleftrightarrow> listed s \<and> confined s"

lemma sound_paired_id: "sound s \<Longrightarrow> map_of (rl_paired s) k = Some d \<Longrightarrow> pd_device_id d = k"
  by (simp add: sound_def listed_def)

lemma sound_record_id: "sound s \<Longrightarrow> map_of (rl_records s) k = Some r \<Longrightarrow> de_device_id r = k"
  by (simp add: sound_def listed_def)

lemma sound_approved:
  "sound s \<Longrightarrow> map_of (rl_paired s) k = Some d \<Longrightarrow>
     \<exists>r. map_of (rl_records s) k = Some r \<and> de_lifecycle_state r = Life_Approved"
  by (simp add: sound_def listed_def)

lemma sound_distinct:
  "sound s \<Longrightarrow> distinct (keys_of (rl_paired s))" "sound s \<Longrightarrow> distinct (keys_of (rl_records s))"
  "sound s \<Longrightarrow> distinct (keys_of (rl_push s))"
  by (simp_all add: sound_def listed_def confined_def)

text \<open>Whatever keeps the devices and gives nobody new access is harmless.\<close>

lemma sound_same:
  assumes "sound s" "rl_paired s' = rl_paired s" "rl_records s' = rl_records s"
    and "session_devices (rl_book s') \<subseteq> paired_ids s"
    and "rl_push s' = rl_push s" "rl_apns s' = rl_apns s"
  shows "sound s'"
  using assms by (simp add: sound_def listed_def confined_def)

lemma sound_sessions: "sound s \<Longrightarrow> session_devices (rl_book s) \<subseteq> paired_ids s"
  by (simp add: sound_def confined_def)

text \<open>A device is written under its own name and its record brought up to date.\<close>

lemma sound_pair:
  assumes "sound s" "pd_device_id d = k"
    and "rl_paired s' = AList.update k d (rl_paired s)" "rl_records s' = rl_records s"
    and "session_devices (rl_book s') \<subseteq> insert k (paired_ids s)" "rl_push s' = rl_push s" "rl_apns s' = rl_apns s"
  shows "sound (sync_device_record d now s')"
  using assms
  by (auto simp: sound_def listed_def confined_def sync_device_record_def approved_from_def Let_def
      split: option.splits)

lemma sound_session: "sound s \<Longrightarrow> x \<in> session_devices (rl_book s) \<Longrightarrow> \<exists>d. map_of (rl_paired s) x = Some d"
  using sound_sessions [of s] by auto

lemma sound_touch: "sound s \<Longrightarrow> sound (snd (touch_device device peer now s))"
  by (auto simp: touch_device_def Let_def bind_surface_peer_to_device_def sound_paired_id
      dest: sound_session split: option.splits intro!: sound_pair)

lemma sound_prune [simp]: "sound s \<Longrightarrow> sound (prune_expired_pairings now s)"
  by (rule sound_same [of s]) (simp_all add: prune_expired_pairings_def Let_def sound_sessions)

lemma sound_consume:
  assumes "sound s"
  shows "sound (snd (consume_pairing_ticket lib pairing secret device label key expires peer now token s))"
proof -
  let ?s = "prune_expired_pairings now s"
  have "sound ?s" using assms by simp
  show ?thesis
    unfolding consume_pairing_ticket_def
    by (auto simp: Let_def bind_surface_peer_to_device_def \<open>sound ?s\<close> sound_paired_id [OF \<open>sound ?s\<close>]
        dest: sound_session [OF \<open>sound ?s\<close>]
        intro!: sound_pair [OF \<open>sound ?s\<close>] split: option.splits)
qed

lemma sound_rejected: "sound s \<Longrightarrow> sound (record_rejected_device q now s)"
  by (auto simp: record_rejected_device_def Let_def sound_def listed_def confined_def split: option.splits)

text \<open>What a revocation does to the device's own rows.\<close>

definition revoked_record :: "paired_device \<Rightarrow> u64 \<Rightarrow> relay_devices \<Rightarrow> device_record" where
  "revoked_record d now s =
     (case map_of (rl_records s) (pd_device_id d) of Some r \<Rightarrow> r | None \<Rightarrow> approved_from d)
       \<lparr>de_label := pd_label d, de_lifecycle_state := Life_Revoked, de_state_changed_at := now,
        de_last_seen_at := pd_last_seen_at d, de_last_peer_id := pd_last_peer_id d,
        de_device_verify_key := pd_device_verify_key d, de_join_expires_at := pd_join_expires_at d,
        de_path_scope := pd_path_scope d\<rparr>"

lemma revoke_effect:
  fixes now :: u64
  assumes "map_of (rl_paired s) device = Some d"
  defines "s' \<equiv> snd (revoke_paired_device device now s)"
  shows "rl_paired s' = AList.delete device (rl_paired s)"
    and "rl_records s' = AList.update (pd_device_id d) (revoked_record d now s) (rl_records s)"
    and "rl_book s' = forget_remote_requests_for_device device (rl_book s)"
    and "rl_push s' = AList.delete device (rl_push s)"
    and "rl_apns s' = (rl_apns s)(device := None)"
    and "rl_watched s' = retain (\<lambda>_ w. wa_device_id w \<noteq> device) (rl_watched s)"
    and "rl_controller s' \<noteq> Some device" "rl_pin_device s' \<noteq> Some device"
    and "rl_revoking s' = rl_revoking s"
  using assms(1)
  by (simp_all add: s'_def revoke_paired_device_def Let_def clear_watched_threads_for_device_def
      record_revoked_device_def revoked_record_def clear_orchestrator_pin_if_device_def
      retire_handovers_for_device_def)

lemma revoked_record_fields [simp]:
  "de_lifecycle_state (revoked_record d now s) = Life_Revoked"
  "de_path_scope (revoked_record d now s) = pd_path_scope d"
  "de_device_id (revoked_record d now s) =
     (case map_of (rl_records s) (pd_device_id d) of Some r \<Rightarrow> de_device_id r | None \<Rightarrow> pd_device_id d)"
  by (simp_all add: revoked_record_def approved_from_def split: option.splits)

lemma revoke_unpaired: "map_of (rl_paired s) device = None \<Longrightarrow> revoke_paired_device device now s = (False, s)"
  by (simp add: revoke_paired_device_def)

lemma sound_unpair:
  assumes "sound s" "rl_paired s' = AList.delete k (rl_paired s)"
    and "rl_records s' = AList.update k r (rl_records s)" "de_device_id r = k"
    and "session_devices (rl_book s') \<subseteq> session_devices (rl_book s) - {k}"
    and "rl_push s' = AList.delete k (rl_push s)" "rl_apns s' = (rl_apns s)(k := None)"
  shows "sound s'"
proof -
  have "listed s'" using assms(1-4) by (auto simp: sound_def listed_def)
  moreover have "confined s'"
  proof -
    have c: "session_devices (rl_book s) \<subseteq> paired_ids s" "set (keys_of (rl_push s)) \<subseteq> paired_ids s"
        "dom (rl_apns s) \<subseteq> paired_ids s"
      using assms(1) by (simp_all add: sound_def confined_def)
    have ids: "paired_ids s' = paired_ids s - {k}" by (auto simp: assms(2) split: if_splits)
    have "session_devices (rl_book s') \<subseteq> paired_ids s'"
      unfolding ids using assms(5) c(1) by blast
    moreover have "set (keys_of (rl_push s')) \<subseteq> paired_ids s'"
      unfolding ids assms(6) keys_delete using c(2) by blast
    moreover have "dom (rl_apns s') \<subseteq> paired_ids s'"
      unfolding ids using c(3) by (auto simp: assms(7) split: if_splits)
    ultimately show ?thesis
      using sound_distinct(3) [OF assms(1)] by (simp add: confined_def assms(6))
  qed
  ultimately show ?thesis by (simp add: sound_def)
qed

lemma sound_revoke:
  assumes "sound s"
  shows "sound (snd (revoke_paired_device device now s))"
proof (cases "map_of (rl_paired s) device")
  case None
  with assms show ?thesis by (simp add: revoke_unpaired)
next
  case (Some d)
  note id = sound_paired_id [OF assms Some]
  show ?thesis
  proof (rule sound_unpair [OF assms revoke_effect(1) [OF Some] revoke_effect(2) [OF Some, unfolded id]])
    show "de_device_id (revoked_record d now s) = device"
      using sound_record_id [OF assms] by (auto simp: id split: option.splits)
  qed (simp_all add: revoke_effect [OF Some] session_devices_forget)
qed

lemma sound_revoke_each: "sound s \<Longrightarrow> sound (revoke_each devices now s)"
  by (induction devices arbitrary: s) (simp_all add: sound_revoke)

lemma sound_forget:
  assumes "sound s" "map_of (rl_paired s) device = None"
  shows "sound (forget_record device s) \<and> rl_paired (forget_record device s) = rl_paired s"
  using assms
  by (auto simp: forget_record_def clear_orchestrator_pin_if_device_def sound_def listed_def confined_def)

lemma sound_forget_all:
  "sound s \<Longrightarrow> \<forall>device\<in>set devices. map_of (rl_paired s) device = None \<Longrightarrow>
     sound (fold forget_record devices s)"
  by (induction devices arbitrary: s) (auto dest: sound_forget)

lemma sound_clear_history:
  assumes "sound s"
  shows "sound (snd (clear_device_history s))"
proof -
  have "map_of (rl_paired s) (de_device_id r) = None" if "(k, r) \<in> set (rl_records s)" "forgettable fl r" for k r fl
  proof (rule ccontr)
    assume "map_of (rl_paired s) (de_device_id r) \<noteq> None"
    moreover have "map_of (rl_records s) k = Some r"
      using that(1) sound_distinct(2) [OF assms] by simp
    moreover from this have "de_device_id r = k" by (rule sound_record_id [OF assms])
    ultimately have "de_lifecycle_state r = Life_Approved"
      using sound_approved [OF assms, of k] by auto
    with that(2) show False by (simp add: forgettable_def)
  qed
  then show ?thesis
    using assms by (auto simp: clear_device_history_def Let_def intro!: sound_forget_all)
qed

section \<open>Every event\<close>

text \<open>Most operations leave the devices and what they may reach as they are.\<close>

definition same_devices :: "relay_devices \<Rightarrow> relay_devices \<Rightarrow> bool" where
  "same_devices s s' \<longleftrightarrow> rl_paired s' = rl_paired s \<and> rl_records s' = rl_records s \<and>
     rl_push s' = rl_push s \<and> rl_apns s' = rl_apns s \<and> rl_book s' = rl_book s"

named_theorems untouched \<open>operations that leave the devices alone\<close>

lemma same_devices_refl [untouched, simp]: "same_devices s s"
  by (simp add: same_devices_def)

lemma same_devices_trans: "same_devices s t \<Longrightarrow> same_devices t u \<Longrightarrow> same_devices s u"
  by (simp add: same_devices_def)

lemma sound_untouched: "sound s \<Longrightarrow> same_devices s s' \<Longrightarrow> sound s'"
  by (rule sound_same [of s]) (simp_all add: same_devices_def sound_sessions)

lemma same_prune [untouched]: "same_devices s (prune_expired_pairings now s)"
  by (simp add: same_devices_def prune_expired_pairings_def Let_def)

lemma same_prepare [untouched]: "same_devices s (snd (prepare_pairing_ticket ttl scope now t10 t32 s))"
  by (simp add: same_devices_def prepare_pairing_ticket_def prune_expired_pairings_def Let_def)

lemma same_prepared:
  "prepare_pairing_ticket ttl scope now t10 t32 s = (r, s') \<Longrightarrow> same_devices s s'"
  using same_prepare [of s ttl scope now t10 t32] by simp

lemma same_start: "same_devices (ap_relay a) (ap_relay (snd (start_pairing fs ttl roots now t10 t32 a)))"
  by (auto simp: start_pairing_def dest: same_prepared split: sum.splits option.splits prod.splits)

lemma same_retire: "same_devices (snd acc) (snd (retire_pairings ps acc))"
  by (induction ps acc rule: retire_pairings.induct)
    (auto simp: retire_pairing_request_def same_devices_def split: option.splits)

lemma same_install: "install_pairing_ticket lib t now s = Inr (owed, s') \<Longrightarrow> same_devices s s'"
  using same_retire [of "([], s\<lparr>rl_pairings := []\<rparr>)" "rl_pairings s"]
  by (auto simp: install_pairing_ticket_def same_devices_def split: if_splits prod.splits)

lemma same_finish_start: "same_devices (ap_relay a) (ap_relay (snd (finish_start lib fs t broker now a)))"
proof (cases "install_pairing_ticket lib t now (ap_relay a)")
  case (Inr res)
  obtain owed s' where res: "res = (owed, s')" by (cases res)
  from same_install [OF Inr [unfolded res]] show ?thesis
    by (simp add: finish_start_def Inr res issue_pairing_ticket_def same_devices_def)
qed (simp add: finish_start_def)

lemma same_register [untouched]:
  "same_devices s (snd (register_pairing_request lib pairing rid label peer key now s))"
  by (simp add: register_pairing_request_def same_devices_def prune_expired_pairings_def Let_def
      split: option.splits)

lemma same_claim [untouched]: "same_devices s (snd (claim_pairing_request pairing now s))"
  by (simp add: claim_pairing_request_def same_devices_def prune_expired_pairings_def Let_def
      split: option.splits)

lemma same_restore [untouched]: "same_devices s (restore_pairing_request q s)"
  by (simp add: restore_pairing_request_def same_devices_def Let_def)

lemma same_queue [untouched]: "same_devices s (queue_broker_message fs m s)"
  by (simp add: same_devices_def)

lemma same_attach_grant [untouched]: "same_devices s (snd (attach_client_grant pairing grant s))"
  by (simp add: attach_client_grant_def attach_pairing_client_grant_def same_devices_def split: option.splits)

lemma same_challenge [untouched]: "same_devices s (snd (claim_challenge device cid peer now s))"
  by (simp add: claim_challenge_def same_devices_def prune_expired_claim_challenges_def Let_def)

lemma same_issue_challenge [untouched]: "same_devices s (snd (issue_claim_challenge device peer now t10 t40 s))"
  by (simp add: issue_claim_challenge_def same_devices_def prune_expired_claim_challenges_def
      prune_claim_challenges_for_peer_def Let_def)

lemma same_leased_challenge [untouched]:
  "same_devices s (snd (leased_claim_challenge device peer lease now t10 t40 s))"
  using same_issue_challenge [of s device peer now t10 t40]
  by (simp add: leased_claim_challenge_def split: option.splits)

lemma same_watch [untouched]:
  "same_devices s (snd (set_watched_threads_for_generation fs surface device threads generation s))"
  by (simp add: set_watched_threads_for_generation_def same_devices_def Let_def)

lemma same_register_surface [untouched]: "same_devices s (register_broker_surface peer s)"
  by (simp add: register_broker_surface_def same_devices_def)

lemma same_watch_threads [untouched]:
  "same_devices s (watch_threads fs device peer lease surface threads generation s)"
  by (auto simp: watch_threads_def Let_def same_watch split: option.splits
      intro: same_devices_trans [OF same_register_surface same_watch])

lemma same_surfaces [untouched]:
  "same_devices s (snd (open_surface_generation surface claimed s))"
  "same_devices s (snd (drop_watched_surface_generation surface generation s))"
  "same_devices s (snd (drain_pending_broker_messages s))"
  "same_devices s (mark_surface_peer_online peer s)"
  by (simp_all add: same_devices_def open_surface_generation_def drop_watched_surface_generation_def
      drop_watched_surface_def drain_pending_broker_messages_def mark_surface_peer_online_def
      open_surface_lease_def Let_def)

lemma revoke_leases_fields:
  "rl_paired (fold revoke_surface_lease peers s) = rl_paired s"
  "rl_records (fold revoke_surface_lease peers s) = rl_records s"
  "rl_push (fold revoke_surface_lease peers s) = rl_push s"
  "rl_apns (fold revoke_surface_lease peers s) = rl_apns s"
  "rl_book (fold revoke_surface_lease peers s) = rl_book s"
  by (induction peers arbitrary: s) (simp_all add: revoke_surface_lease_def)

lemma open_leases_fields:
  "rl_paired (fold open_surface_lease peers s) = rl_paired s"
  "rl_records (fold open_surface_lease peers s) = rl_records s"
  "rl_push (fold open_surface_lease peers s) = rl_push s"
  "rl_apns (fold open_surface_lease peers s) = rl_apns s"
  "rl_book (fold open_surface_lease peers s) = rl_book s"
  by (induction peers arbitrary: s) (simp_all add: open_surface_lease_def)

lemma same_connection [untouched]: "same_devices s (update_broker_connection connected s)"
  by (simp add: update_broker_connection_def set_broker_connection_def same_devices_def Let_def revoke_leases_fields)

lemma sound_book:
  assumes "sound s" "session_devices b \<subseteq> session_devices (rl_book s)"
  shows "sound (s\<lparr>rl_book := b\<rparr>)"
  using assms sound_sessions [OF assms(1)] by (intro sound_same [OF assms(1)]) auto

lemma sound_offline: "sound s \<Longrightarrow> sound (mark_surface_peer_offline peer s)"
  by (rule sound_untouched [OF sound_book [OF _ session_devices_drop(1)]])
    (simp_all add: mark_surface_peer_offline_def prune_offline_broker_surfaces_def
      revoke_surface_lease_def same_devices_def Let_def)

lemma sound_welcome: "sound s \<Longrightarrow> sound (replace_online_surface_peers peers s)"
  by (rule sound_untouched [OF sound_book [OF _ session_devices_drop(2)]])
    (simp_all add: replace_online_surface_peers_def prune_offline_broker_surfaces_def
      open_leases_fields same_devices_def Let_def)

lemma sound_seen: "sound s \<Longrightarrow> sound (snd (mark_paired_device_seen device peer lease now s))"
  by (simp add: mark_paired_device_seen_def sound_touch)

lemma sound_admit:
  assumes "sound s"
  shows "sound (snd (admit_leased_request f lease now_ms now s))"
proof -
  have "sound (s\<lparr>rl_book := snd (admit_signed_request f now_ms now (book_of s))\<rparr>)"
    using session_devices_admit [of f now_ms now "book_of s"] by (intro sound_book [OF assms]) simp
  then show ?thesis
    using assms
    by (auto simp: admit_leased_request_def Let_def case_prod_beta sound_seen split: request_admission.splits)
qed

lemma sound_consumed:
  "consume_pairing_ticket lib pairing secret device label key expires peer now token s = (r, s') \<Longrightarrow>
     sound s \<Longrightarrow> sound s'"
  using sound_consume by (metis snd_conv)

lemma same_update [untouched]:
  "same_devices s (s\<lparr>rl_requests := qs\<rparr>)" "same_devices s (s\<lparr>rl_completed := cs\<rparr>)"
  "same_devices s (s\<lparr>rl_pairings := ps\<rparr>)" "same_devices s (s\<lparr>rl_challenges := hs\<rparr>)"
  "same_devices s (s\<lparr>rl_revoking := vs\<rparr>)"
  by (simp_all add: same_devices_def)

lemma sound_update [simp]:
  "sound (s\<lparr>rl_requests := qs\<rparr>) = sound s" "sound (s\<lparr>rl_completed := cs\<rparr>) = sound s"
  "sound (s\<lparr>rl_pairings := ps\<rparr>) = sound s" "sound (s\<lparr>rl_challenges := hs\<rparr>) = sound s"
  "sound (s\<lparr>rl_revoking := vs\<rparr>) = sound s"
  by (simp_all add: sound_def listed_def confined_def)

lemma sound_decide:
  "decide_pairing_request lib pairing approved expires now token s = (r, s') \<Longrightarrow> sound s \<Longrightarrow> sound s'"
  by (auto simp: decide_pairing_request_def Let_def sound_rejected
      dest: sound_consumed split: option.splits if_splits prod.splits sum.splits)

lemma sound_attach:
  "attach_pairing_broker_credential pairing refresh ticket expires now s = (e, s') \<Longrightarrow> sound s \<Longrightarrow> sound s'"
  by (auto simp: attach_pairing_broker_credential_def Let_def sound_paired_id
      dest: sound_session split: option.splits intro!: sound_pair)

lemma sound_conclude:
  assumes "sound s"
  shows "sound (snd (snd (conclude_approval lib fs v c grant token s)))"
proof -
  have "sound (restore_pairing_request (av_request v) s)"
    by (rule sound_untouched [OF assms same_restore])
  then show ?thesis
    unfolding conclude_approval_def Let_def
    by (auto dest!: sound_decide sound_attach split: prod.splits sum.splits option.splits)
      (metis same_attach_grant same_queue sound_untouched snd_conv)+
qed

lemma sound_finish:
  assumes "sound (ap_relay a)"
  shows "sound (ap_relay (snd (snd (finish_approval lib fs answer token a))))"
  using assms sound_conclude [of "ap_relay a"]
  by (auto simp: finish_approval_def Let_def case_prod_beta sound_untouched [OF _ same_restore]
      split: option.splits broker_answer.splits)

lemma sound_reject:
  "sound (ap_relay a) \<Longrightarrow> sound (ap_relay (snd (reject_request lib fs pairing now a)))"
  by (auto simp: reject_request_def split: prod.splits sum.splits dest: sound_decide
      intro: sound_untouched [OF _ same_queue])

lemma sound_revocations:
  assumes "sound (ap_relay a)"
  shows "sound (ap_relay (snd (begin_revocation device now has_broker a)))"
    and "sound (ap_relay (snd (begin_bulk_revocation keep now has_broker a)))"
  using sound_revoke [OF assms, of device now] sound_revoke_each [OF assms, of _ now] assms
  by (auto simp: begin_revocation_def begin_bulk_revocation_def revoke_all_other_paired_devices_def
      Let_def case_prod_beta split: if_splits)

lemma sound_settle_record:
  assumes "sound s"
  shows "sound (settle_record failed device s)"
proof -
  have "\<exists>r. map_of (rl_records (settle_record failed device s)) k = Some r \<and> de_lifecycle_state r = Life_Approved"
    if "map_of (rl_paired s) k = Some d" for k d
    using sound_approved [OF assms that] by (auto simp: settle_record_def)
  with assms show ?thesis
    by (auto simp: settle_record_def sound_def listed_def confined_def)
qed

lemma sound_settle: "sound s \<Longrightarrow> sound (snd (settle_broker_revoke ids outcome s))"
proof -
  assume "sound s"
  then have "sound (fold (settle_record f) ids s)" for f
    by (induction ids arbitrary: s) (simp_all add: sound_settle_record)
  then show ?thesis by (simp add: settle_broker_revoke_def Let_def)
qed

lemma sound_challenge_outcome:
  "sound s \<Longrightarrow> sound (snd (issue_claim_challenge_outcome device peer lease now t10 t40 s))"
  using sound_seen [of s device peer "Some lease" now]
  by (auto simp: issue_claim_challenge_outcome_def split: prod.splits option.splits
      intro: sound_untouched [OF _ same_leased_challenge])

lemma sound_open_session:
  assumes "sound s" "open_request_session device peer now sid (book_of s) = Inr b"
  shows "sound (s\<lparr>rl_book := b\<rparr>)"
proof (rule sound_same [OF assms(1)])
  have "device \<in> paired_ids s"
    using assms(2) by (auto simp: open_request_session_def book_of_def dom_map_of_conv_image_fst split: if_splits)
  then show "session_devices (rl_book (s\<lparr>rl_book := b\<rparr>)) \<subseteq> paired_ids s"
    using session_devices_open [OF assms(2)] sound_sessions [OF assms(1)] by auto
qed simp_all

lemma sound_complete_claim:
  assumes "sound s"
  shows "sound (snd (complete_remote_claim device cid peer now s))"
proof -
  have "sound (snd (claim_challenge device cid peer now s))"
    by (rule sound_untouched [OF assms same_challenge])
  then show ?thesis
    using sound_touch [of "snd (claim_challenge device cid peer now s)\<lparr>rl_challenges := hs\<rparr>" device peer now for hs]
    by (auto simp: complete_remote_claim_def prune_claim_challenges_for_peer_def
        split: prod.splits sum.splits option.splits) (metis snd_conv sound_update(4))+
qed

lemma sound_claim_outcome:
  assumes "sound s"
  shows "sound (snd (issue_claim_outcome device peer cid claimed lease now now_ms sid s))"
proof -
  have leased: "sound t \<Longrightarrow> sound (snd (leased_remote_claim device cid' peer lease now now_ms sid t))" for t cid'
    using sound_complete_claim [of t device cid' peer now]
    by (auto simp: leased_remote_claim_def split: option.splits prod.splits sum.splits
        intro: sound_open_session)
  have "sound (snd (claim_challenge device cid peer now s))"
    by (rule sound_untouched [OF assms same_challenge])
  then show ?thesis by (auto simp: issue_claim_outcome_def leased split: prod.splits sum.splits)
qed

lemma sound_addresses:
  assumes "sound s" "rl_paired s' = rl_paired s" "rl_records s' = rl_records s" "rl_book s' = rl_book s"
    and "distinct (keys_of (rl_push s'))" "set (keys_of (rl_push s')) \<subseteq> paired_ids s"
    and "dom (rl_apns s') \<subseteq> paired_ids s"
  shows "sound s'"
  using assms by (simp add: sound_def listed_def confined_def)

lemma sound_pushed: "sound s \<Longrightarrow> set (keys_of (rl_push s)) \<subseteq> paired_ids s" "sound s \<Longrightarrow> dom (rl_apns s) \<subseteq> paired_ids s"
  by (simp_all add: sound_def confined_def)

lemma sound_apns_paired: "sound s \<Longrightarrow> rl_apns s x = Some t \<Longrightarrow> \<exists>d. map_of (rl_paired s) x = Some d"
  using sound_pushed(2) [of s] by blast

lemma sound_push_register:
  assumes "sound s"
  shows "sound (snd (register_push_subscription acceptable i now s))"
  using assms sound_pushed [OF assms] sound_distinct(3) [OF assms]
  unfolding register_push_subscription_def
  by (auto simp: Let_def simp del: set_map split: option.splits if_splits
      intro!: sound_addresses [OF assms] dest: sound_apns_paired [OF assms])

lemma sound_push_unregister:
  assumes "sound s"
  shows "sound (unregister_push_subscription device endpoint s)"
proof (cases "map_of (rl_push s) device")
  case (Some subs)
  then have "device \<in> paired_ids s"
    using sound_pushed(1) [OF assms] lookup_key [OF Some] by blast
  with Some sound_pushed [OF assms] sound_distinct(3) [OF assms] show ?thesis
    unfolding unregister_push_subscription_def
    by (auto simp: Let_def simp del: set_map split: if_splits
        intro!: sound_addresses [OF assms] dest: sound_apns_paired [OF assms])
qed (simp add: unregister_push_subscription_def assms)

lemma sound_push_prune:
  assumes "sound s"
  shows "sound (prune_push_subscriptions gone s)"
proof -
  let ?m = "map (\<lambda>(device, subs). (device, filter (\<lambda>u. su_endpoint u \<notin> set gone) subs)) (rl_push s)"
  have keys: "keys_of ?m = keys_of (rl_push s)" by (simp add: comp_def case_prod_beta)
  have "distinct (keys_of (retain (\<lambda>_ subs. subs \<noteq> []) ?m))"
    using sound_distinct(3) [OF assms] by (intro distinct_retain) (simp only: keys)
  moreover have "set (keys_of (retain (\<lambda>_ subs. subs \<noteq> []) ?m)) \<subseteq> set (keys_of (rl_push s))"
    using keys_retain [of _ ?m] by (simp only: keys)
  ultimately show ?thesis
    using sound_pushed [OF assms] unfolding prune_push_subscriptions_def
    by (intro sound_addresses [OF assms]) (simp_all del: set_map)
qed

lemma sound_apns:
  assumes "sound s"
  shows "sound (snd (register_apns_token t dev s))" "sound (unregister_apns_token device s)"
  using assms sound_pushed [OF assms] sound_distinct(3) [OF assms]
  unfolding register_apns_token_def unregister_apns_token_def
  by (auto simp: Let_def simp del: set_map split: option.splits if_splits
      intro!: sound_addresses [OF assms] dest: sound_apns_paired [OF assms])

text \<open>A saved state lists every paired device already, so loading adds no record.\<close>

lemma backfill_listed:
  "\<forall>(k, d)\<in>set paired. map_of rs (pd_device_id d) \<noteq> None \<Longrightarrow> backfill_device_records paired rs = rs"
  by (induction paired arbitrary: rs) (auto simp: backfill_device_records_def split: option.splits)

lemma saved_records [simp]:
  "keys_of (persisted_records s) = keys_of (rl_records s)"
  "map_of (persisted_records s) k = map_option (\<lambda>r. r\<lparr>de_broker_revoke_pending :=
     de_broker_revoke_pending r \<or> k \<in> rl_revoking s\<rparr>) (map_of (rl_records s) k)"
proof -
  have "map_of (map (\<lambda>(k, v). (k, f k v)) m) k = map_option (f k) (map_of m k)" for f :: "string \<Rightarrow> device_record \<Rightarrow> device_record" and m
    by (induction m) auto
  then show "map_of (persisted_records s) k = map_option (\<lambda>r. r\<lparr>de_broker_revoke_pending :=
     de_broker_revoke_pending r \<or> k \<in> rl_revoking s\<rparr>) (map_of (rl_records s) k)"
    by (simp add: persisted_records_def)
qed (simp add: persisted_records_def comp_def case_prod_beta)

lemma restart_fields:
  assumes "sound s"
  shows "rl_paired (restart s) = rl_paired s" "rl_records (restart s) = persisted_records s"
    "rl_book (restart s) = (clear_requests (rl_book s))\<lparr>rb_cache := []\<rparr>"
    "rl_push (restart s) = retain (\<lambda>device _. map_of (rl_paired s) device \<noteq> None) (rl_push s)"
    "rl_apns (restart s) = retain_map (\<lambda>device _. map_of (rl_paired s) device \<noteq> None) (rl_apns s)"
    "rl_pairings (restart s) = []" "rl_requests (restart s) = Map.empty" "rl_completed (restart s) = Map.empty"
    "rl_retired (restart s) = Map.empty" "rl_revoking (restart s) = {}"
proof -
  have "map_of (persisted_records s) (pd_device_id d) \<noteq> None" if "(k, d) \<in> set (rl_paired s)" for k d
  proof -
    have "map_of (rl_paired s) k = Some d" using that sound_distinct(1) [OF assms] by simp
    with sound_paired_id [OF assms this] sound_approved [OF assms this] show ?thesis by auto
  qed
  then have "backfill_device_records (rl_paired s) (persisted_records s) = persisted_records s"
    by (intro backfill_listed) auto
  then show "rl_records (restart s) = persisted_records s"
    by (simp add: restart_def load_devices_def fresh_process_def prune_orphaned_push_subscriptions_def Let_def)
qed (simp_all add: restart_def load_devices_def fresh_process_def prune_orphaned_push_subscriptions_def Let_def)

lemma sound_restart:
  assumes "sound s"
  shows "sound (restart s)"
proof -
  have approved: "\<exists>r. map_of (persisted_records s) k = Some r \<and> de_lifecycle_state r = Life_Approved"
    if "map_of (rl_paired s) k = Some d" for k d
    using sound_approved [OF assms that] by auto
  have ids: "de_device_id r = k" if "map_of (persisted_records s) k = Some r" for k r
    using that by (auto dest: sound_record_id [OF assms])
  have "distinct (keys_of (rl_paired (restart s)))" "distinct (keys_of (rl_records (restart s)))"
    by (simp_all only: restart_fields [OF assms] saved_records(1) sound_distinct [OF assms])
  moreover have "pd_device_id d = k" if "map_of (rl_paired s) k = Some d" for k d
    using assms that by (rule sound_paired_id)
  ultimately have "listed (restart s)"
    unfolding listed_def restart_fields [OF assms] using approved ids by blast
  moreover have "set (keys_of (rl_push (restart s))) \<subseteq> paired_ids s"
    unfolding restart_fields [OF assms] by (rule subset_trans [OF keys_retain sound_pushed(1) [OF assms]])
  moreover have "session_devices (rl_book (restart s)) = {}"
    by (simp add: restart_fields [OF assms] session_devices_def clear_requests_def)
  moreover have "dom (rl_apns (restart s)) \<subseteq> paired_ids s"
    by (auto simp: restart_fields [OF assms])
  moreover have "distinct (keys_of (rl_push (restart s)))"
    unfolding restart_fields [OF assms] by (rule distinct_retain [OF sound_distinct(3) [OF assms]])
  moreover have "rl_paired (restart s) = rl_paired s" by (rule restart_fields [OF assms])
  ultimately show ?thesis by (simp add: sound_def confined_def del: set_map)
qed

lemma sound_threads:
  "sound s \<Longrightarrow> sound (s\<lparr>rl_active_thread := active, rl_threads := threads, rl_histories := histories,
     rl_team_cwds := cwds, rl_allowed_roots := roots\<rparr>)"
  by (rule sound_same) (auto dest: sound_session)

section \<open>The machine keeps them\<close>

lemmas sound_operations =
  sound_offline sound_welcome sound_seen sound_admit sound_finish sound_reject sound_revocations sound_settle
  sound_challenge_outcome sound_claim_outcome sound_push_register sound_push_unregister sound_push_prune
  sound_apns sound_threads sound_clear_history sound_restart sound_prune

lemma same_begin_approval: "same_devices (ap_relay a) (ap_relay (snd (begin_approval pairing now a)))"
  using same_claim [of "ap_relay a" pairing now]
  by (auto simp: begin_approval_def split: prod.splits sum.splits)

lemma sound_step: "sound (ap_relay a) \<Longrightarrow> sound (ap_relay (device_step lib fs a e))"
  by (cases e)
    (auto simp: sound_operations sound_untouched [OF _ same_start] sound_untouched [OF _ same_finish_start]
      sound_untouched [OF _ same_begin_approval] intro: sound_untouched [OF _ untouched(1)]
        sound_untouched [OF _ same_register] sound_untouched [OF _ same_queue]
        sound_untouched [OF _ same_watch_threads] sound_untouched [OF _ same_surfaces(1)]
        sound_untouched [OF _ same_surfaces(2)] sound_untouched [OF _ same_surfaces(3)]
        sound_untouched [OF _ same_surfaces(4)] sound_untouched [OF _ same_connection])

interpretation devices: invariant_machine "device_step lib fs" "\<lambda>a. sound (ap_relay a)" for lib fs
  by unfold_locales (rule sound_step)

lemma sound_run: "sound (ap_relay a) \<Longrightarrow> sound (ap_relay (device_run lib fs es a))"
  unfolding device_run_def by (rule devices.inv_run)

end
