(* ===== verification/Device_Trace.thy ===== *)
theory Device_Trace
  imports Device_Inv
begin

text \<open>
  Where a device's secret comes from. Of a state, only three maps matter: the key that waits on
  each QR, the key and secret of each paired device, and the key and secret a finished pairing
  answers with. Every event but a scan, an approval and the end of one only removes from them.
\<close>

declare map_of_eq_Some_iff [simp del]

section \<open>What a state gives away\<close>

definition waiting_keys :: "relay_devices \<Rightarrow> string \<rightharpoonup> string \<times> string \<times> string" where
  "waiting_keys s k =
     map_option (\<lambda>q. (pq_pairing_id q, pq_device_verify_key q, pq_device_id q)) (rl_requests s k)"

definition secrets :: "relay_devices \<Rightarrow> string \<rightharpoonup> string \<times> string" where
  "secrets s k = map_option (\<lambda>d. (pd_device_verify_key d, pd_payload_secret d)) (map_of (rl_paired s) k)"

definition answers :: "relay_devices \<Rightarrow> string \<rightharpoonup> string \<times> string" where
  "answers s k = Option.bind (rl_completed s k) (\<lambda>c. map_option (Pair (cp_device_verify_key c)) (cp_payload_secret c))"

lemmas given = waiting_keys_def secrets_def answers_def

definition gives_less :: "relay_devices \<Rightarrow> relay_devices \<Rightarrow> bool" where
  "gives_less s s' \<longleftrightarrow>
     waiting_keys s' \<subseteq>\<^sub>m waiting_keys s \<and> secrets s' \<subseteq>\<^sub>m secrets s \<and> answers s' \<subseteq>\<^sub>m answers s"

named_theorems gives \<open>operations that give nothing away\<close>

lemma gives_refl [simp, gives]: "gives_less s s"
  by (simp add: gives_less_def)

lemma gives_trans [trans]: "gives_less s t \<Longrightarrow> gives_less t u \<Longrightarrow> gives_less s u"
  by (auto simp: gives_less_def intro: map_le_trans)

lemma gives_unchanged:
  "rl_requests s' = rl_requests s \<Longrightarrow> rl_paired s' = rl_paired s \<Longrightarrow> rl_completed s' = rl_completed s \<Longrightarrow>
     gives_less s s'"
  by (simp add: gives_less_def waiting_keys_def [abs_def] secrets_def [abs_def] answers_def [abs_def])

lemma map_le_iff: "m \<subseteq>\<^sub>m n \<longleftrightarrow> (\<forall>k x. m k = Some x \<longrightarrow> n k = Some x)"
  by (force simp: map_le_def dom_def)

lemma gives_less_iff:
  "gives_less s s' \<longleftrightarrow>
     (\<forall>k x. waiting_keys s' k = Some x \<longrightarrow> waiting_keys s k = Some x) \<and>
     (\<forall>k x. secrets s' k = Some x \<longrightarrow> secrets s k = Some x) \<and>
     (\<forall>k x. answers s' k = Some x \<longrightarrow> answers s k = Some x)"
  by (simp only: gives_less_def map_le_iff)

lemma gives_fewer:
  "rl_requests s' \<subseteq>\<^sub>m rl_requests s \<Longrightarrow> map_of (rl_paired s') \<subseteq>\<^sub>m map_of (rl_paired s) \<Longrightarrow>
     rl_completed s' \<subseteq>\<^sub>m rl_completed s \<Longrightarrow> gives_less s s'"
  by (auto simp: gives_less_iff given map_le_iff bind_eq_Some_conv)

section \<open>Operations that give nothing\<close>

lemma retain_map_le: "retain_map p m \<subseteq>\<^sub>m m"
  by (auto simp: map_le_def)

lemma gives_prune [gives]: "gives_less s (prune_expired_pairings now s)"
  by (rule gives_fewer) (simp_all add: prune_expired_pairings_def Let_def retain_map_le)

lemma gives_prepare [gives]: "gives_less s (snd (prepare_pairing_ticket ttl scope now t10 t32 s))"
  by (rule gives_trans [OF gives_prune [of s now] gives_unchanged]) (simp_all add: prepare_pairing_ticket_def Let_def)

lemma gives_retired: "gives_less (snd acc) (snd (retire_pairings ps acc))"
proof (induction ps acc rule: retire_pairings.induct)
  case (2 pairing p ps owed s)
  show ?case
  proof (cases "rl_requests s pairing")
    case (Some q)
    let ?s = "snd (retire_pairing_request p q (s\<lparr>rl_requests := (rl_requests s)(pairing := None)\<rparr>))"
    have "gives_less s ?s"
      by (auto simp: gives_less_iff given retire_pairing_request_def)
    moreover have "gives_less ?s (snd (retire_pairings ps (owed @
        [fst (retire_pairing_request p q (s\<lparr>rl_requests := (rl_requests s)(pairing := None)\<rparr>))], ?s)))"
      using 2(2) [OF Some] by simp
    ultimately show ?thesis by (simp add: Some case_prod_beta) (rule gives_trans)
  next
    case None
    have "gives_less s (s\<lparr>rl_retired := (rl_retired s)(pairing \<mapsto> p)\<rparr>)" by (rule gives_unchanged) simp_all
    with 2(1) [OF None] show ?thesis by (simp add: None) (rule gives_trans)
  qed
qed simp

lemma gives_install:
  assumes "install_pairing_ticket lib t now s = Inr (owed, s')"
  shows "gives_less s s'"
proof -
  have "gives_less s (s\<lparr>rl_pairings := []\<rparr>)" by (rule gives_unchanged) simp_all
  also have "gives_less \<dots> (snd (retire_pairings (rl_pairings s) ([], s\<lparr>rl_pairings := []\<rparr>)))"
    using gives_retired [of "([], s\<lparr>rl_pairings := []\<rparr>)"] by simp
  also have "gives_less \<dots> s'"
    using assms by (auto simp: install_pairing_ticket_def split: if_splits prod.splits
        intro!: gives_fewer)
  finally show ?thesis .
qed

lemma gives_claim:
  "claim_pairing_request pairing now s = (r, s') \<Longrightarrow> gives_less s s'"
  using gives_prune [of s now]
  by (auto simp: claim_pairing_request_def Let_def gives_less_iff given split: option.splits if_splits)

lemma gives_sync [simp]:
  "gives_less s (sync_device_record d now s') \<longleftrightarrow> gives_less s s'"
  by (simp add: gives_less_iff given sync_device_record_def Let_def)

lemma gives_book [gives]: "gives_less s (s\<lparr>rl_book := b\<rparr>)"
  by (rule gives_unchanged) simp_all

lemma gives_touch [gives]: "gives_less s (snd (touch_device device peer now s))"
  by (auto simp: touch_device_def Let_def bind_surface_peer_to_device_def sync_device_record_def gives_less_iff given
      split: option.splits)

lemma gives_seen [gives]: "gives_less s (snd (mark_paired_device_seen device peer lease now s))"
  by (simp add: mark_paired_device_seen_def gives_touch)

lemma gives_admit [gives]: "gives_less s (snd (admit_leased_request f lease now_ms now s))"
  using gives_trans [OF gives_book gives_seen]
  by (auto simp: admit_leased_request_def Let_def case_prod_beta gives_book split: request_admission.splits)

lemma gives_claim_challenge [gives]: "gives_less s (snd (claim_challenge device cid peer now s))"
  by (rule gives_unchanged) (simp_all add: claim_challenge_def prune_expired_claim_challenges_def Let_def)

lemma gives_leased_challenge: "gives_less s (snd (leased_claim_challenge device peer lease now t10 t40 s))"
  by (rule gives_unchanged) (simp_all add: leased_claim_challenge_def issue_claim_challenge_def
      prune_expired_claim_challenges_def prune_claim_challenges_for_peer_def Let_def split: option.splits)

lemma gives_challenge [gives]:
  "gives_less s (snd (issue_claim_challenge_outcome device peer lease now t10 t40 s))"
  using gives_seen [of s device peer "Some lease" now]
  by (auto simp: issue_claim_challenge_outcome_def split: prod.splits option.splits
      intro: gives_trans [OF _ gives_leased_challenge])

lemma gives_complete_claim [gives]: "gives_less s (snd (complete_remote_claim device cid peer now s))"
proof -
  have drop: "gives_less t (t\<lparr>rl_challenges := hs\<rparr>)" for t hs by (rule gives_unchanged) simp_all
  have touched: "gives_less t u" if "touch_device device peer now (t\<lparr>rl_challenges := hs\<rparr>) = (r, u)" for t hs r u
    using gives_trans [OF drop gives_touch] that by (metis snd_conv)
  have pruned: "gives_less t (prune_claim_challenges_for_peer device peer u)" if "gives_less t u" for t u
    using that drop unfolding prune_claim_challenges_for_peer_def by (rule gives_trans)
  from gives_claim_challenge [of s device cid peer now] show ?thesis
    by (auto simp: complete_remote_claim_def split: prod.splits sum.splits option.splits
        intro!: pruned intro: gives_trans [OF _ touched])
qed

lemma gives_claim_outcome [gives]:
  "gives_less s (snd (issue_claim_outcome device peer cid claimed lease now now_ms sid s))"
proof -
  have "gives_less t (snd (leased_remote_claim device cid' peer lease now now_ms sid t))" for t cid'
    using gives_complete_claim [of t device cid' peer now]
    by (auto simp: leased_remote_claim_def split: option.splits prod.splits sum.splits
        intro: gives_trans [OF _ gives_book])
  with gives_claim_challenge [of s device cid peer now] show ?thesis
    by (auto simp: issue_claim_outcome_def split: prod.splits sum.splits intro: gives_trans)
qed

lemma gives_revoke [gives]: "gives_less s (snd (revoke_paired_device device now s))"
  by (auto simp: revoke_paired_device_def Let_def clear_watched_threads_for_device_def
      record_revoked_device_def clear_orchestrator_pin_if_device_def retire_handovers_for_device_def
      gives_less_iff given split: option.splits)

lemma gives_fold: "(\<And>x s. gives_less s (f x s)) \<Longrightarrow> gives_less s (fold f xs s)"
  by (induction xs arbitrary: s) (auto intro: gives_trans)

lemma gives_revoke_each: "gives_less s (revoke_each devices now s)"
  by (induction devices arbitrary: s) (auto intro: gives_trans [OF gives_revoke])

lemma gives_revocations [gives]:
  "gives_less (ap_relay a) (ap_relay (snd (begin_revocation device now has_broker a)))"
  "gives_less (ap_relay a) (ap_relay (snd (begin_bulk_revocation keep now has_broker a)))"
proof -
  have marked: "gives_less t (t\<lparr>rl_revoking := vs\<rparr>)" for t vs by (rule gives_unchanged) simp_all
  show "gives_less (ap_relay a) (ap_relay (snd (begin_revocation device now has_broker a)))"
    using gives_trans [OF gives_revoke marked] gives_revoke
    by (simp add: begin_revocation_def Let_def case_prod_beta)
  show "gives_less (ap_relay a) (ap_relay (snd (begin_bulk_revocation keep now has_broker a)))"
    using gives_trans [OF gives_revoke_each marked] gives_revoke_each
    by (simp add: begin_bulk_revocation_def revoke_all_other_paired_devices_def Let_def)
qed

lemma gives_settle [gives]: "gives_less s (snd (settle_broker_revoke ids outcome s))"
proof -
  have "gives_less s (fold (settle_record f) ids s)" for f
    by (rule gives_fold, rule gives_unchanged) (simp_all add: settle_record_def)
  then show ?thesis by (simp add: settle_broker_revoke_def Let_def)
qed

lemma gives_forget [gives]: "gives_less s (snd (clear_device_history s))"
proof -
  have "gives_less s (fold forget_record devices s)" for devices
    by (rule gives_fold, rule gives_unchanged)
      (simp_all add: forget_record_def clear_orchestrator_pin_if_device_def)
  then show ?thesis by (simp add: clear_device_history_def Let_def)
qed


lemma gives_rejected: "gives_less s (record_rejected_device q now s)"
  by (rule gives_unchanged) (simp_all add: record_rejected_device_def Let_def split: option.splits)

lemma completed_rejected [simp]: "rl_completed (record_rejected_device q now s) = rl_completed s"
  by (simp add: record_rejected_device_def Let_def split: option.splits)

lemma gives_completed:
  "gives_less s t \<Longrightarrow> cp_payload_secret c = None \<Longrightarrow> gives_less s (t\<lparr>rl_completed := (rl_completed t)(k \<mapsto> c)\<rparr>)"
  by (auto simp: gives_less_iff given split: if_splits)

lemma gives_request: "gives_less s (s\<lparr>rl_requests := (rl_requests s)(k := None)\<rparr>)"
  "gives_less s (s\<lparr>rl_requests := (rl_requests s)(k := None), rl_pairings := ps\<rparr>)"
  by (simp_all add: gives_less_iff given)

lemma gives_rejection [gives]:
  "gives_less s (snd (decide_pairing_request lib pairing False expires now token s))"
proof -
  let ?s = "prune_expired_pairings now s"
  have "gives_less ?s (snd (decide_pairing_request lib pairing False expires now token s))"
    using gives_completed [OF gives_trans [OF gives_request(2) gives_rejected]]
    by (simp add: decide_pairing_request_def Let_def gives_request split: option.splits)
  with gives_prune show ?thesis by (rule gives_trans)
qed

lemma gives_queue [simp]: "gives_less s (queue_broker_message fs m s') \<longleftrightarrow> gives_less s s'"
  by (simp add: gives_less_iff given)

lemma gives_reject [gives]: "gives_less (ap_relay a) (ap_relay (snd (reject_request lib fs pairing now a)))"
  using gives_rejection [of "ap_relay a" lib pairing None now "[]"]
  by (auto simp: reject_request_def split: prod.splits sum.splits)

lemma gives_start [gives]: "gives_less (ap_relay a) (ap_relay (snd (start_pairing fs ttl roots now t10 t32 a)))"
  using gives_prepare [of "ap_relay a" ttl _ now t10 t32]
  by (auto simp: start_pairing_def split: sum.splits option.splits prod.splits) (metis snd_conv)+

lemma gives_finish_start [gives]:
  "gives_less (ap_relay a) (ap_relay (snd (finish_start lib fs t broker now a)))"
proof (cases "install_pairing_ticket lib t now (ap_relay a)")
  case (Inr res)
  obtain owed s' where res: "res = (owed, s')" by (cases res)
  from gives_install [OF Inr [unfolded res]] show ?thesis
    by (simp add: finish_start_def Inr res issue_pairing_ticket_def gives_less_iff given)
qed (simp add: finish_start_def)

lemma gives_approval [gives]: "gives_less (ap_relay a) (ap_relay (snd (begin_approval pairing now a)))"
  using gives_claim [of pairing now "ap_relay a"]
  by (auto simp: begin_approval_def split: prod.splits sum.splits)

lemma gives_restart [gives]: "gives_less s (restart s)"
  by (rule gives_fewer)
    (simp_all add: restart_def load_devices_def fresh_process_def prune_orphaned_push_subscriptions_def Let_def)

text \<open>Requests that reach no device row.\<close>

lemma unchanged_surfaces [simp]:
  "rl_requests (snd (set_watched_threads_for_generation fs surface device threads generation s)) = rl_requests s"
  "rl_paired (snd (set_watched_threads_for_generation fs surface device threads generation s)) = rl_paired s"
  "rl_completed (snd (set_watched_threads_for_generation fs surface device threads generation s)) = rl_completed s"
  "rl_requests (watch_threads fs device peer lease surf threads generation s) = rl_requests s"
  "rl_paired (watch_threads fs device peer lease surf threads generation s) = rl_paired s"
  "rl_completed (watch_threads fs device peer lease surf threads generation s) = rl_completed s"
  by (simp_all add: set_watched_threads_for_generation_def watch_threads_def register_broker_surface_def Let_def
      split: option.splits)

lemma unchanged_leases [simp]:
  "rl_requests (fold open_surface_lease peers s) = rl_requests s"
  "rl_completed (fold open_surface_lease peers s) = rl_completed s"
  "rl_requests (fold revoke_surface_lease peers s) = rl_requests s"
  "rl_completed (fold revoke_surface_lease peers s) = rl_completed s"
  by (induction peers arbitrary: s) (simp_all add: open_surface_lease_def revoke_surface_lease_def)

lemmas surface_operations =
  mark_surface_peer_online_def mark_surface_peer_offline_def open_surface_lease_def revoke_surface_lease_def
  prune_offline_broker_surfaces_def replace_online_surface_peers_def update_broker_connection_def set_broker_connection_def
  open_surface_generation_def drop_watched_surface_generation_def drop_watched_surface_def
  register_push_subscription_def unregister_push_subscription_def prune_push_subscriptions_def
  register_apns_token_def unregister_apns_token_def drain_pending_broker_messages_def

text \<open>Three events may give something: a scan, the end of an approval, and no other.\<close>

fun gives_access :: "device_event \<Rightarrow> bool" where
  "gives_access (Ev_Register _ _ _ _ _ _) = True"
| "gives_access (Ev_Finish _ _) = True"
| "gives_access _ = False"

lemma gives_step: "\<not> gives_access e \<Longrightarrow> gives_less (ap_relay a) (ap_relay (device_step lib fs a e))"
  by (cases e)
    (auto simp: gives surface_operations Let_def open_leases_fields revoke_leases_fields
      intro!: gives_unchanged split: option.splits)

section \<open>The two that do\<close>

lemma gives_lookup:
  "gives_less s s' \<Longrightarrow> waiting_keys s' k = Some x \<Longrightarrow> waiting_keys s k = Some x"
  "gives_less s s' \<Longrightarrow> secrets s' k = Some y \<Longrightarrow> secrets s k = Some y"
  "gives_less s s' \<Longrightarrow> answers s' k = Some y \<Longrightarrow> answers s k = Some y"
  unfolding gives_less_iff by blast+

lemma register_waits:
  assumes "waiting_keys (snd (register_pairing_request lib pairing rid label peer key now s)) k = Some x"
  shows "waiting_keys s k = Some x \<or> k = pairing \<and> (\<exists>b. x = (pairing, key, key_device_id lib key b))"
proof -
  let ?s = "prune_expired_pairings now s"
  have "waiting_keys ?s k = Some x \<or> k = pairing \<and> (\<exists>b. x = (pairing, key, key_device_id lib key b))"
  proof (cases "map_of (rl_pairings ?s) pairing")
    case None
    with assms show ?thesis by (simp add: register_pairing_request_def Let_def)
  next
    case (Some p)
    show ?thesis
    proof (cases "rl_requests ?s pairing")
      case None
      with assms Some show ?thesis
        by (auto simp: register_pairing_request_def Let_def waiting_keys_def split: if_split_asm)
    next
      case q: (Some q)
      with assms Some show ?thesis
        by (auto simp: register_pairing_request_def Let_def waiting_keys_def split: if_split_asm)
    qed
  qed
  with gives_lookup(1) [OF gives_prune] show ?thesis by blast
qed

lemma register_gives:
  "secrets (snd (register_pairing_request lib pairing rid label peer key now s)) = secrets s"
  "answers (snd (register_pairing_request lib pairing rid label peer key now s)) k = Some y \<Longrightarrow> answers s k = Some y"
proof -
  show "secrets (snd (register_pairing_request lib pairing rid label peer key now s)) = secrets s"
    by (simp add: register_pairing_request_def prune_expired_pairings_def secrets_def [abs_def] Let_def split: option.splits)
  have "answers (snd (register_pairing_request lib pairing rid label peer key now s)) = answers (prune_expired_pairings now s)"
    by (simp add: register_pairing_request_def answers_def [abs_def] Let_def split: option.splits)
  then show "answers (snd (register_pairing_request lib pairing rid label peer key now s)) k = Some y \<Longrightarrow> answers s k = Some y"
    by (auto intro: gives_lookup(3) [OF gives_prune [of s now]])
qed

lemma restore_waits:
  assumes "waiting_keys (restore_pairing_request q s) k = Some x"
  shows "waiting_keys s k = Some x \<or> k = pq_pairing_id q \<and> x = (pq_pairing_id q, pq_device_verify_key q, pq_device_id q)"
  using assms by (auto simp: restore_pairing_request_def waiting_keys_def Let_def split: if_splits)

lemma restore_gives [simp]:
  "secrets (restore_pairing_request q s) = secrets s" "answers (restore_pairing_request q s) = answers s"
  by (simp_all add: restore_pairing_request_def secrets_def [abs_def] answers_def [abs_def] Let_def)

text \<open>An approval gives the key that waited its secret, and nothing to anyone else.\<close>

lemma prune_le:
  "rl_paired (prune_expired_pairings now s) = rl_paired s"
  "rl_requests (prune_expired_pairings now s) \<subseteq>\<^sub>m rl_requests s"
  "rl_completed (prune_expired_pairings now s) \<subseteq>\<^sub>m rl_completed s"
  by (simp_all add: prune_expired_pairings_def Let_def retain_map_le)

lemma consume_refused:
  "consume_pairing_ticket lib pairing secret device label key expires peer now token s = (Inl e, s') \<Longrightarrow>
     s' = prune_expired_pairings now s"
  by (auto simp: consume_pairing_ticket_def Let_def split: option.splits if_splits)

lemma sync_fields [simp]:
  "rl_paired (sync_device_record d now s) = rl_paired s"
  "rl_requests (sync_device_record d now s) = rl_requests s"
  "rl_completed (sync_device_record d now s) = rl_completed s"
  by (simp_all add: sync_device_record_def Let_def)

lemma consume_effect:
  assumes "consume_pairing_ticket lib pairing secret device label key expires peer now token s = (Inr (view, t), s')"
  shows "\<exists>d. rl_paired s' = AList.update device d (rl_paired s) \<and>
    t = token \<and> pd_device_verify_key d = key \<and> pd_payload_secret d = token \<and>
    rl_requests s' = rl_requests (prune_expired_pairings now s) \<and>
    rl_completed s' = rl_completed (prune_expired_pairings now s)"
proof -
  let ?s = "prune_expired_pairings now s"
  obtain p where "map_of (rl_pairings ?s) pairing = Some p" "pp_secret_hash p = dl_sha256_hex lib secret"
    using assms by (simp add: consume_pairing_ticket_def Let_def split: option.splits if_splits)
  with assms show ?thesis
    by (simp add: consume_pairing_ticket_def Let_def bind_surface_peer_to_device_def prune_le)
      (elim conjE, drule sym [of _ s'], rule exI, rule conjI, simp, simp)
qed

lemma decide_refused:
  assumes "decide_pairing_request lib pairing True expires now token s = (Inl e, s')"
  shows "gives_less s s'"
  using assms gives_trans [OF gives_prune gives_trans [OF gives_request(1) gives_prune]]
    gives_trans [OF gives_prune gives_request(1)] gives_prune
  by (auto simp: decide_pairing_request_def Let_def split: option.splits sum.splits prod.splits dest!: consume_refused)

lemma decide_effect:
  assumes "decide_pairing_request lib pairing True expires now token s = (Inr r, s')"
  shows "\<exists>q d c. rl_requests s pairing = Some q \<and> map_of (rl_pairings s) pairing \<noteq> None \<and>
    rl_requests s' \<subseteq>\<^sub>m rl_requests s \<and>
    rl_paired s' = AList.update (pq_device_id q) d (rl_paired s) \<and>
    pd_device_verify_key d = pq_device_verify_key q \<and> pd_payload_secret d = token \<and>
    rl_completed s' \<subseteq>\<^sub>m (rl_completed s)(pairing \<mapsto> c) \<and>
    cp_device_verify_key c = pq_device_verify_key q \<and> cp_payload_secret c = Some token"
proof -
  let ?s = "prune_expired_pairings now s"
  let ?t = "?s\<lparr>rl_requests := (rl_requests ?s)(pairing := None)\<rparr>"
  obtain q where q: "rl_requests ?s pairing = Some q"
    using assms by (simp add: decide_pairing_request_def Let_def split: option.splits)
  obtain p where p: "map_of (rl_pairings ?s) pairing = Some p"
    using assms q by (simp add: decide_pairing_request_def Let_def split: option.splits)
  have live: "map_of (rl_pairings s) pairing \<noteq> None"
    using p keys_retain [of "\<lambda>_ p. now < pp_expires_at p" "rl_pairings s"] lookup_key [OF p]
    by (auto simp: prune_expired_pairings_def Let_def map_of_eq_None_iff)
  obtain view t u where consumed: "consume_pairing_ticket lib pairing (pp_pairing_secret p) (pq_device_id q)
      (Some (pq_label q)) (pq_device_verify_key q) expires (pq_broker_peer_id q) now token ?t = (Inr (view, t), u)"
    using assms q p by (auto simp: decide_pairing_request_def Let_def split: sum.splits prod.splits)
  define c where "c = \<lparr>cp_pairing_id = pairing, cp_pairing_secret = pp_pairing_secret p,
       cp_expires_at = pp_expires_at p, cp_device_verify_key = pq_device_verify_key q,
       cp_device = Some view, cp_payload_secret = Some t, cp_grants = with_expiry expires, cp_error = None,
       cp_path_scope = pp_path_scope p\<rparr>"
  have s': "s' = u\<lparr>rl_completed := (rl_completed u)(pairing \<mapsto> c)\<rparr>"
    using assms q p consumed by (simp add: decide_pairing_request_def Let_def c_def)
  obtain d where d: "t = token" "pd_device_verify_key d = pq_device_verify_key q" "pd_payload_secret d = token"
    "rl_paired u = AList.update (pq_device_id q) d (rl_paired s)"
    "rl_requests u = rl_requests (prune_expired_pairings now ?t)"
    "rl_completed u = rl_completed (prune_expired_pairings now ?t)"
    using consume_effect [OF consumed] by (auto simp: prune_le)
  have "rl_requests ?t \<subseteq>\<^sub>m rl_requests s"
    using prune_le(2) [of now s] by (auto simp: map_le_iff)
  with prune_le(2) [of now ?t] have "rl_requests u \<subseteq>\<^sub>m rl_requests s"
    unfolding d(5) by (rule map_le_trans)
  moreover have "rl_completed u \<subseteq>\<^sub>m rl_completed s"
    using prune_le(3) [of now ?t] prune_le(3) [of now s] unfolding d(6) by (auto simp: map_le_iff)
  moreover have "rl_requests s pairing = Some q"
    using prune_le(2) [of now s] q by (auto simp: map_le_iff)
  ultimately show ?thesis
    using d(1-4) live unfolding s'
    by (intro exI [of _ q] exI [of _ d] exI [of _ c]) (simp add: map_le_iff c_def)
qed

end
