(* ===== verification/Device_Facts.thy ===== *)
theory Device_Facts
  imports Device_Trace Scope_Facts Request_Ledger
begin

text \<open>
  What holds of the relay's devices in every run: how a device came to be paired, what a revoked
  one may still do, who may act on a connection, and what the queue of broker messages keeps.
\<close>

declare map_of_eq_Some_iff [simp del]

section \<open>The end of an approval\<close>

lemma gives_attach_credential:
  "attach_pairing_broker_credential pairing refresh ticket expires now s = (e, s') \<Longrightarrow> gives_less s s'"
  by (auto simp: attach_pairing_broker_credential_def Let_def gives_less_iff given split: option.splits if_splits)

lemma gives_attach_grant:
  "attach_client_grant pairing grant s = (e, s') \<Longrightarrow> gives_less s s'"
  by (auto simp: attach_client_grant_def attach_pairing_client_grant_def gives_less_iff given
      split: option.splits if_splits)

text \<open>Whatever the broker answered, the request that was claimed is all the end of an approval can give.\<close>

definition gives_request_only :: "pairing_request \<Rightarrow> string \<Rightarrow> relay_devices \<Rightarrow> relay_devices \<Rightarrow> bool" where
  "gives_request_only q token s s' \<longleftrightarrow>
     (\<forall>k x. waiting_keys s' k = Some x \<longrightarrow> waiting_keys s k = Some x \<or>
        k = pq_pairing_id q \<and> x = (pq_pairing_id q, pq_device_verify_key q, pq_device_id q)) \<and>
     (\<forall>k key t. secrets s' k = Some (key, t) \<longrightarrow> secrets s k = Some (key, t) \<or>
        k = pq_device_id q \<and> key = pq_device_verify_key q \<and> t = token) \<and>
     (\<forall>k key t. answers s' k = Some (key, t) \<longrightarrow> answers s k = Some (key, t) \<or>
        k = pq_pairing_id q \<and> key = pq_device_verify_key q \<and> t = token)"

lemma request_only_elims:
  "gives_request_only q token s s' \<Longrightarrow> waiting_keys s' k = Some x \<Longrightarrow> waiting_keys s k = Some x \<or>
     k = pq_pairing_id q \<and> x = (pq_pairing_id q, pq_device_verify_key q, pq_device_id q)"
  "gives_request_only q token s s' \<Longrightarrow> secrets s' k = Some y \<Longrightarrow> secrets s k = Some y \<or>
     k = pq_device_id q \<and> y = (pq_device_verify_key q, token)"
  "gives_request_only q token s s' \<Longrightarrow> answers s' k = Some y \<Longrightarrow> answers s k = Some y \<or>
     k = pq_pairing_id q \<and> y = (pq_device_verify_key q, token)"
  by (cases x; fastforce simp: gives_request_only_def)
    (cases y; fastforce simp: gives_request_only_def)+

lemma request_only_restored: "gives_request_only q token s (restore_pairing_request q s)"
  by (auto simp: gives_request_only_def dest: restore_waits)

lemma request_only_less: "gives_request_only q token s t \<Longrightarrow> gives_less t u \<Longrightarrow> gives_request_only q token s u"
  unfolding gives_request_only_def by (meson gives_lookup)

lemma request_only_decided:
  assumes "decide_pairing_request lib (pq_pairing_id q) True expires now token (restore_pairing_request q s) = (Inr r, s')"
  shows "gives_request_only q token s s'"
proof -
  let ?s = "restore_pairing_request q s"
  obtain q' d c where eff: "rl_requests ?s (pq_pairing_id q) = Some q'"
    "map_of (rl_pairings ?s) (pq_pairing_id q) \<noteq> None" "rl_requests s' \<subseteq>\<^sub>m rl_requests ?s"
    "rl_paired s' = AList.update (pq_device_id q') d (rl_paired ?s)"
    "pd_device_verify_key d = pq_device_verify_key q'" "pd_payload_secret d = token"
    "rl_completed s' \<subseteq>\<^sub>m (rl_completed ?s)(pq_pairing_id q \<mapsto> c)"
    "cp_device_verify_key c = pq_device_verify_key q'" "cp_payload_secret c = Some token"
    using decide_effect [OF assms] by blast
  have "q' = q"
    using eff(1,2) by (auto simp: restore_pairing_request_def Let_def split: if_splits)
  have "waiting_keys s' k = Some x \<Longrightarrow> waiting_keys ?s k = Some x" for k x
    using eff(3) by (auto simp: map_le_iff waiting_keys_def)
  moreover have "secrets s' k = Some (key, t) \<Longrightarrow>
      secrets ?s k = Some (key, t) \<or> k = pq_device_id q \<and> key = pq_device_verify_key q \<and> t = token" for k key t
    using eff(5,6) by (auto simp: secrets_def eff(4) \<open>q' = q\<close> simp del: restore_gives split: if_splits)
  moreover have "answers s' k = Some (key, t) \<Longrightarrow>
      answers ?s k = Some (key, t) \<or> k = pq_pairing_id q \<and> key = pq_device_verify_key q \<and> t = token" for k key t
    using eff(7,8,9) by (auto simp: answers_def map_le_iff bind_eq_Some_conv \<open>q' = q\<close> simp del: restore_gives split: if_splits)
      (metis option.inject)+
  ultimately show ?thesis
    unfolding gives_request_only_def restore_gives by (blast dest: restore_waits)
qed

lemma finish_gives:
  assumes "ap_decision a = Some v" "pq_pairing_id (av_request v) = av_pairing v"
  shows "gives_request_only (av_request v) token (ap_relay a)
    (ap_relay (snd (snd (finish_approval lib fs answer token a))))"
proof -
  let ?q = "av_request v" and ?s = "ap_relay a"
  note restored = request_only_restored [of ?q token ?s]
  have "gives_request_only ?q token ?s (snd (snd (conclude_approval lib fs v c grant token ?s)))" for c grant
    using restored
    by (auto simp: conclude_approval_def assms(2) [symmetric] Let_def split: prod.splits sum.splits option.splits
        dest!: gives_attach_credential gives_attach_grant decide_refused request_only_decided [of lib ?q]
        intro: request_only_less)
  with restored show ?thesis
    by (auto simp: finish_approval_def assms(1) Let_def case_prod_beta split: broker_answer.splits)
qed


section \<open>The history of a pairing\<close>

text \<open>Events that happened one after the other, with others in between.\<close>

fun in_order :: "('e \<Rightarrow> bool) list \<Rightarrow> 'e list \<Rightarrow> bool" where
  "in_order [] es = True"
| "in_order (p # ps) [] = False"
| "in_order (p # ps) (e # es) = (if p e then in_order ps es else in_order (p # ps) es)"

lemma in_order_later: "in_order ps es \<Longrightarrow> in_order ps (es @ [e])"
  by (induction ps es rule: in_order.induct) (auto split: if_splits)

lemma in_order_next: "in_order ps es \<Longrightarrow> p e \<Longrightarrow> in_order (ps @ [p]) (es @ [e])"
proof (induction ps es rule: in_order.induct)
  case (1 es)
  then show ?case by (induction es) simp_all
qed (auto split: if_splits)

lemma in_order_prefix: "in_order (ps @ qs) es \<Longrightarrow> in_order ps es"
  by (induction ps es rule: in_order.induct) (auto split: if_splits)

fun scans :: "string \<Rightarrow> string \<Rightarrow> device_event \<Rightarrow> bool" where
  "scans pairing key (Ev_Register p _ _ _ k _) = (p = pairing \<and> k = key)"
| "scans pairing key _ = False"

fun approves :: "string \<Rightarrow> device_event \<Rightarrow> bool" where
  "approves pairing (Ev_Approve p _) = (p = pairing)"
| "approves pairing _ = False"

fun issues :: "string \<Rightarrow> device_event \<Rightarrow> bool" where
  "issues token (Ev_Finish (Issued _ _) t) = (t = token)"
| "issues token _ = False"

definition pairing_granted :: "device_event list \<Rightarrow> string \<Rightarrow> string \<Rightarrow> string \<Rightarrow> bool" where
  "pairing_granted es pairing key token \<longleftrightarrow> in_order [scans pairing key, approves pairing, issues token] es"

lemma pairing_granted_later: "pairing_granted es pairing key token \<Longrightarrow> pairing_granted (es @ [e]) pairing key token"
  by (simp add: pairing_granted_def in_order_later)

text \<open>What was asked of the claimed request, and what each map gives away, has its history.\<close>

definition claim_traced :: "pairing_lib \<Rightarrow> device_event list \<Rightarrow> approval \<Rightarrow> bool" where
  "claim_traced lib es v \<longleftrightarrow>
     pq_pairing_id (av_request v) = av_pairing v \<and>
     (\<exists>b. pq_device_id (av_request v) = key_device_id lib (pq_device_verify_key (av_request v)) b) \<and>
     in_order [scans (av_pairing v) (pq_device_verify_key (av_request v)), approves (av_pairing v)] es"

definition wait_traced :: "pairing_lib \<Rightarrow> device_event list \<Rightarrow> string \<Rightarrow> string \<times> string \<times> string \<Rightarrow> bool" where
  "wait_traced lib es k x \<longleftrightarrow> (\<exists>key b. x = (k, key, key_device_id lib key b) \<and> in_order [scans k key] es)"

definition secret_traced ::
    "pairing_lib \<Rightarrow> relay_devices \<Rightarrow> device_event list \<Rightarrow> string \<Rightarrow> string \<times> string \<Rightarrow> bool" where
  "secret_traced lib s0 es k x \<longleftrightarrow> secrets s0 k = Some x \<or>
     (\<exists>pairing b. pairing_granted es pairing (fst x) (snd x) \<and> k = key_device_id lib (fst x) b)"

definition answer_traced :: "device_event list \<Rightarrow> string \<Rightarrow> string \<times> string \<Rightarrow> bool" where
  "answer_traced es k x \<longleftrightarrow> pairing_granted es k (fst x) (snd x)"

lemma traced_later:
  "claim_traced lib es v \<Longrightarrow> claim_traced lib (es @ [e]) v"
  "wait_traced lib es k x \<Longrightarrow> wait_traced lib (es @ [e]) k x"
  "secret_traced lib s0 es k y \<Longrightarrow> secret_traced lib s0 (es @ [e]) k y"
  "answer_traced es k y \<Longrightarrow> answer_traced (es @ [e]) k y"
  unfolding claim_traced_def wait_traced_def secret_traced_def answer_traced_def
  by (blast intro: in_order_later pairing_granted_later)+

definition traced :: "pairing_lib \<Rightarrow> relay_devices \<Rightarrow> device_event list \<Rightarrow> pairing_app \<Rightarrow> bool" where
  "traced lib s0 es a \<longleftrightarrow>
     (\<forall>k x. waiting_keys (ap_relay a) k = Some x \<longrightarrow> wait_traced lib es k x) \<and>
     (\<forall>v. ap_decision a = Some v \<longrightarrow> claim_traced lib es v) \<and>
     (\<forall>k x. secrets (ap_relay a) k = Some x \<longrightarrow> secret_traced lib s0 es k x) \<and>
     (\<forall>k x. answers (ap_relay a) k = Some x \<longrightarrow> answer_traced es k x)"

lemma traced_secret: "traced lib s0 es a \<Longrightarrow> secrets (ap_relay a) k = Some x \<Longrightarrow> secret_traced lib s0 es k x"
  and traced_answer: "traced lib s0 es a \<Longrightarrow> answers (ap_relay a) k = Some x \<Longrightarrow> answer_traced es k x"
  unfolding traced_def by blast+

lemma traced_start:
  "rl_requests (ap_relay a) = Map.empty \<Longrightarrow> rl_completed (ap_relay a) = Map.empty \<Longrightarrow> ap_decision a = None \<Longrightarrow>
     traced lib (ap_relay a) [] a"
  by (simp add: traced_def waiting_keys_def answers_def secret_traced_def)

lemma traced_less:
  assumes "traced lib s0 es a" "gives_less (ap_relay a) (ap_relay a')"
    and "\<And>v. ap_decision a' = Some v \<Longrightarrow> ap_decision a = Some v \<or> claim_traced lib (es @ [e]) v"
  shows "traced lib s0 (es @ [e]) a'"
  using assms unfolding traced_def gives_less_iff by (blast intro: traced_later)

text \<open>Only an approval opens a decision.\<close>

lemma decision_step:
  assumes "\<And>pairing now. e \<noteq> Ev_Approve pairing now" "ap_decision (device_step lib fs a e) = Some v"
  shows "ap_decision a = Some v"
  using assms
  by (cases e) (auto simp: start_pairing_def finish_start_def finish_approval_def reject_request_def
      begin_revocation_def begin_bulk_revocation_def Let_def case_prod_beta
      split: sum.splits option.splits prod.splits broker_answer.splits if_splits)

lemma decision_approve:
  assumes "ap_decision (snd (begin_approval pairing now a)) = Some v"
  shows "ap_decision a = Some v \<or>
    av_pairing v = pairing \<and> rl_requests (ap_relay a) pairing = Some (av_request v)"
  using assms prune_le(2) [of now "ap_relay a"]
  by (auto simp: begin_approval_def claim_pairing_request_def Let_def map_le_iff split: option.splits)

lemma traced_approve:
  assumes "traced lib s0 es a"
  shows "traced lib s0 (es @ [Ev_Approve pairing now]) (device_step lib fs a (Ev_Approve pairing now))"
proof (rule traced_less [OF assms])
  fix v assume v: "ap_decision (device_step lib fs a (Ev_Approve pairing now)) = Some v"
  show "ap_decision a = Some v \<or> claim_traced lib (es @ [Ev_Approve pairing now]) v"
  proof (cases "ap_decision a = None")
    case True
    with v decision_approve [of pairing now a v]
    have claim: "av_pairing v = pairing" "rl_requests (ap_relay a) pairing = Some (av_request v)" by simp_all
    then have "waiting_keys (ap_relay a) pairing = Some (pq_pairing_id (av_request v),
        pq_device_verify_key (av_request v), pq_device_id (av_request v))"
      by (simp add: waiting_keys_def)
    with assms obtain b where "pq_pairing_id (av_request v) = pairing"
      "pq_device_id (av_request v) = key_device_id lib (pq_device_verify_key (av_request v)) b"
      and scanned: "in_order [scans pairing (pq_device_verify_key (av_request v))] es"
      unfolding traced_def wait_traced_def by blast
    with claim in_order_next [OF scanned, of "approves pairing" "Ev_Approve pairing now"] show ?thesis
      by (auto simp: claim_traced_def)
  next
    case False
    with v show ?thesis by (simp del: not_None_eq)
  qed
qed (rule gives_step, simp)

lemma traced_register:
  assumes "traced lib s0 es a" "e = Ev_Register pairing rid label peer key now"
  shows "traced lib s0 (es @ [e]) (device_step lib fs a e)"
proof -
  let ?s' = "snd (register_pairing_request lib pairing rid label peer key now (ap_relay a))"
  have "in_order [scans pairing key] (es @ [e])"
    using in_order_next [of "[]" es "scans pairing key" e] by (simp add: assms(2))
  then have "wait_traced lib (es @ [e]) k x" if "waiting_keys ?s' k = Some x" for k x
    using register_waits [OF that] assms(1) traced_later(2) unfolding traced_def wait_traced_def by blast
  moreover have "answer_traced (es @ [e]) k x" if "answers ?s' k = Some x" for k x
    using register_gives(2) [OF that] assms(1) unfolding traced_def by (blast intro: traced_later)
  moreover have "secret_traced lib s0 (es @ [e]) k x" if "secrets ?s' k = Some x" for k x
    using that assms(1) unfolding traced_def register_gives(1) by (blast intro: traced_later)
  moreover have "claim_traced lib (es @ [e]) v" if "ap_decision a = Some v" for v
    using that assms(1) unfolding traced_def by (blast intro: traced_later)
  moreover have "ap_relay (device_step lib fs a e) = ?s'" "ap_decision (device_step lib fs a e) = ap_decision a"
    by (simp_all add: assms(2))
  ultimately show ?thesis by (simp only: traced_def) blast
qed

lemma finish_closes [simp]: "ap_decision (snd (snd (finish_approval lib fs answer token a))) = None"
  by (auto simp: finish_approval_def Let_def case_prod_beta split: option.splits broker_answer.splits)

lemma traced_finish:
  assumes "traced lib s0 es a" "e = Ev_Finish answer token"
  shows "traced lib s0 (es @ [e]) (device_step lib fs a e)"
proof (cases "ap_decision a")
  case None
  then show ?thesis
    by (intro traced_less [OF assms(1)]) (simp_all add: assms(2) finish_approval_def)
next
  case (Some v)
  let ?q = "av_request v" and ?s' = "ap_relay (device_step lib fs a e)"
  have v: "claim_traced lib es v" using assms(1) Some by (simp add: traced_def)
  then have "pq_pairing_id ?q = av_pairing v" by (simp add: claim_traced_def)
  note only = finish_gives [OF Some this, of token lib fs answer]
  have own: "answer_traced (es @ [e]) (pq_pairing_id ?q) (pq_device_verify_key ?q, token)" if "issues token e"
    using v that in_order_next [of "[scans (av_pairing v) (pq_device_verify_key ?q), approves (av_pairing v)]" es "issues token" e]
    by (simp add: claim_traced_def answer_traced_def pairing_granted_def)
  have kept: "secrets ?s' = secrets (ap_relay a)" "answers ?s' = answers (ap_relay a)" if "\<not> issues token e"
    using that Some by (auto simp: assms(2) finish_approval_def Let_def split: broker_answer.splits)
  have "in_order [scans (av_pairing v) (pq_device_verify_key ?q)] es"
    using v in_order_prefix [of "[_]" "[_]"] by (auto simp: claim_traced_def)
  with v have waits: "wait_traced lib (es @ [e]) (pq_pairing_id ?q) (pq_pairing_id ?q, pq_device_verify_key ?q, pq_device_id ?q)"
    by (auto simp: claim_traced_def wait_traced_def intro: in_order_later)
  have "wait_traced lib (es @ [e]) k x" if "waiting_keys ?s' k = Some x" for k x
  proof -
    have "waiting_keys (ap_relay a) k = Some x \<or>
        k = pq_pairing_id ?q \<and> x = (pq_pairing_id ?q, pq_device_verify_key ?q, pq_device_id ?q)"
      using request_only_elims(1) [OF only, of k x] that by (simp add: assms(2))
    then show ?thesis using assms(1) waits unfolding traced_def by (blast intro: traced_later)
  qed
  moreover have "answer_traced (es @ [e]) k x" if "answers ?s' k = Some x" for k x
  proof (cases "answers (ap_relay a) k = Some x")
    case True
    then show ?thesis using assms(1) unfolding traced_def by (blast intro: traced_later)
  next
    case False
    with that kept(2) have "issues token e" by metis
    moreover have "k = pq_pairing_id ?q \<and> x = (pq_device_verify_key ?q, token)"
      using request_only_elims(3) [OF only, of k x] that False by (simp add: assms(2))
    ultimately show ?thesis using own by simp
  qed
  moreover have "secret_traced lib s0 (es @ [e]) k x" if "secrets ?s' k = Some x" for k x
  proof (cases "secrets (ap_relay a) k = Some x")
    case True
    then show ?thesis using assms(1) unfolding traced_def by (blast intro: traced_later)
  next
    case False
    with that kept(1) have "issues token e" by metis
    moreover have "k = pq_device_id ?q \<and> x = (pq_device_verify_key ?q, token)"
      using request_only_elims(2) [OF only, of k x] that False by (simp add: assms(2))
    ultimately show ?thesis
      using own v by (auto simp: secret_traced_def answer_traced_def claim_traced_def)
  qed
  ultimately show ?thesis by (simp add: traced_def assms(2))
qed

lemma traced_step: "traced lib s0 es a \<Longrightarrow> traced lib s0 (es @ [e]) (device_step lib fs a e)"
proof -
  assume a: "traced lib s0 es a"
  show ?thesis
  proof (cases "gives_access e \<or> (\<exists>pairing now. e = Ev_Approve pairing now)")
    case True
    then show ?thesis
      by (cases e) (simp_all add: traced_register [OF a] traced_finish [OF a] traced_approve [OF a] del: device_step.simps)
  next
    case False
    then show ?thesis
      by (intro traced_less [OF a] gives_step disjI1 decision_step [of e lib fs a]) auto
  qed
qed

lemma traced_run:
  assumes "ap_decision a = None" "rl_requests (ap_relay a) = Map.empty" "rl_completed (ap_relay a) = Map.empty"
  shows "traced lib (ap_relay a) es (device_run lib fs es a)"
  using assms
  by (induction es rule: rev_induct) (simp_all add: device_run_snoc traced_step, simp add: device_run_def traced_start)


text \<open>A relay that has just started, and the events of one pairing.\<close>

definition sample_pairing_lib :: pairing_lib where
  "sample_pairing_lib = \<lparr>dl_sha256_hex = (\<lambda>w. w), dl_sha256 = (\<lambda>_. [1, 2, 3]), dl_base64_decode = (\<lambda>_. None),
     dl_tuple_origin = Some\<rparr>"

definition sample_relay :: relay_devices where
  "sample_relay =
     \<lparr>rl_records = [], rl_paired = [], rl_revoking = {}, rl_online = [], rl_peer_devices = Map.empty,
      rl_leases = Map.empty, rl_next_lease = 1, rl_watched = [], rl_broker_surfaces = {},
      rl_generations = Map.empty, rl_pairings = [], rl_pairing_generation = 0, rl_pairing_starts = [],
      rl_requests = Map.empty, rl_claimed = {}, rl_retired = Map.empty, rl_completed = Map.empty,
      rl_challenges = Map.empty, rl_messages = [], rl_local_events = [], rl_book = sample_book,
      rl_controller = None, rl_controller_seen_at = None, rl_pin_thread = None, rl_pin_device = None,
      rl_pin_prompt = None, rl_pin_prompt_version = None, rl_handovers = Map.empty, rl_push = [],
      rl_apns = Map.empty, rl_active_thread = None, rl_threads = Map.empty, rl_histories = Map.empty,
      rl_team_cwds = Map.empty, rl_allowed_roots = [], rl_transcript_generation = ''g'',
      rl_broker_configured = True, rl_broker_connected = True\<rparr>"

definition sample_app :: pairing_app where
  "sample_app = \<lparr>ap_relay = sample_relay, ap_decision = None, ap_revocations = []\<rparr>"

definition sample_ticket :: prepared_ticket where
  "sample_ticket = \<lparr>pt_pairing_id = ''pair-t'', pt_pairing_secret = ''qr'', pt_expires_at = 1180,
     pt_path_scope = [''/work''], pt_generation = 1\<rparr>"

definition sample_pairing :: "device_event list" where
  "sample_pairing =
     [Ev_Start None [] 1000 ''t'' ''qr'',
      Ev_Install sample_ticket \<lparr>pb_broker_url = ''b'', pb_broker_room_id = ''r'', pb_relay_peer_id = ''p'',
        pb_relay_verify_key = ''v''\<rparr> 1001,
      Ev_Register ''pair-t'' None (Some ''Phone'') ''peer'' ''key'' 1002,
      Ev_Approve ''pair-t'' 1003,
      Ev_Finish (Issued \<lparr>dc_refresh_token = None, dc_join_token = ''j'', dc_join_expires_at = None\<rparr> None) ''tok'']"

definition sample_device :: string where "sample_device = key_device_id sample_pairing_lib ''key'' (Some
  \<lparr>pb_broker_url = ''b'', pb_broker_room_id = ''r'', pb_relay_peer_id = ''p'', pb_relay_verify_key = ''v''\<rparr>)"

lemma sample_start:
  "ap_decision sample_app = None" "rl_requests (ap_relay sample_app) = Map.empty"
  "rl_completed (ap_relay sample_app) = Map.empty" "rl_paired (ap_relay sample_app) = []"
  by (simp_all add: sample_app_def sample_relay_def)

text \<open>
  C5. A device is paired only through the owner: whatever a relay that starts with no pairing in
  progress goes through, a key and payload secret that a device did not have at the start were given
  in this order: a phone showed this key when it scanned a QR, the owner approved the request for
  that very QR, and that approval ended with the broker's credential and this secret. The device's
  name is the one derived from the key, so nobody is paired under another's name.
\<close>

theorem paired_devices_were_approved:
  assumes "ap_decision a = None" "rl_requests (ap_relay a) = Map.empty" "rl_completed (ap_relay a) = Map.empty"
    and "secrets (ap_relay (device_run lib fs es a)) device = Some (key, token)"
    and "secrets (ap_relay a) device \<noteq> Some (key, token)"
  shows "\<exists>pairing broker. pairing_granted es pairing key token \<and> device = key_device_id lib key broker"
  using traced_secret [OF traced_run [OF assms(1-3), of lib es fs] assms(4)] assms(5)
  by (auto simp: secret_traced_def)

lemma sample_paired: "secrets (ap_relay (device_run sample_pairing_lib sample_fs sample_pairing sample_app)) sample_device =
    Some (''key'', ''tok'')"
  by code_simp

lemma paired_devices_were_approved_witness:
  "secrets (ap_relay (device_run sample_pairing_lib sample_fs sample_pairing sample_app)) sample_device = Some (''key'', ''tok'') \<and>
   (\<exists>pairing broker. pairing_granted sample_pairing pairing ''key'' ''tok'' \<and>
      sample_device = key_device_id sample_pairing_lib ''key'' broker)"
proof -
  have "secrets (ap_relay sample_app) sample_device \<noteq> Some (''key'', ''tok'')"
    by (simp add: secrets_def sample_start)
  with paired_devices_were_approved [OF sample_start(1-3) sample_paired] sample_paired show ?thesis by blast
qed

section \<open>Who is told the secret\<close>

lemma completed_answer:
  assumes "completed_pairing_result pairing key peer now s = (Inr (Some r), s')" "pe_payload_secret r = Some token"
  shows "answers s pairing = Some (key, token) \<and> pe_target_peer_id r = peer"
proof -
  from assms obtain c where c: "rl_completed (prune_expired_pairings now s) pairing = Some c"
    "cp_device_verify_key c = key" "cp_payload_secret c = Some token" "pe_target_peer_id r = peer"
    by (auto simp: completed_pairing_result_def Let_def split: option.splits if_splits)
  with prune_le(3) [of now s] have "rl_completed s pairing = Some c" by (simp add: map_le_iff)
  with c show ?thesis by (simp add: answers_def)
qed

lemma refusal_silent:
  "taken_pairing_refusal pairing key peer s = Some r \<Longrightarrow> pe_payload_secret r = None"
  "retired_pairing_result pairing peer now s = (Some r, s') \<Longrightarrow> pe_payload_secret r = None"
  by (auto simp: taken_pairing_refusal_def retired_pairing_result_def replaced_pairing_result_def
      refused_pairing_result_def Let_def split: option.splits if_splits)

lemma reply_answer:
  assumes "handle_pairing_request lib peer pairing unseal now s = (Reply_Result r, s')"
    and "pe_payload_secret r = Some token"
  shows "\<exists>secret x. unseal secret = Inr (Some x) \<and> answers s pairing = Some (px_device_verify_key x, token) \<and>
    pe_target_peer_id r = peer"
proof -
  obtain v1 s1 where s1: "pending_pairing_secret pairing now s = (v1, s1)" by fastforce
  have less1: "gives_less s s1" using s1 gives_prune by (auto simp: pending_pairing_secret_def Let_def)
  obtain v2 s2 where s2: "retired_pairing_result pairing peer now s1 = (v2, s2)" by fastforce
  have less2: "gives_less s s2"
    using s2 gives_trans [OF less1 gives_prune] by (auto simp: retired_pairing_result_def Let_def)
  from assms s1 s2 obtain secret x where x: "unseal secret = Inr (Some x)"
    and "completed_pairing_result pairing (px_device_verify_key x) peer now s2 = (Inr (Some r), s')"
    by (auto simp: handle_pairing_request_def reply_refusal_def split: sum.splits prod.splits option.splits
        dest: refusal_silent)
  with completed_answer [OF this(2) assms(2)] gives_lookup(3) [OF less2] show ?thesis by blast
qed

text \<open>
  C6. A payload secret reaches only the phone that was approved: if the relay answers a pairing
  message with a secret, after any events, then the message carried a proof by a key, opened under
  the QR's secret, and this very key was scanned for this QR, approved by the owner and given this
  secret. Another phone that photographed the QR gets no secret, whenever it asks.
\<close>

theorem secret_only_for_approved_key:
  assumes "ap_decision a = None" "rl_requests (ap_relay a) = Map.empty" "rl_completed (ap_relay a) = Map.empty"
    and "handle_pairing_request lib peer pairing unseal now (ap_relay (device_run lib fs es a)) = (Reply_Result r, s')"
    and "pe_payload_secret r = Some token"
  shows "\<exists>secret x. unseal secret = Inr (Some x) \<and> pairing_granted es pairing (px_device_verify_key x) token \<and>
    pe_target_peer_id r = peer"
  using reply_answer [OF assms(4,5)] traced_answer [OF traced_run [OF assms(1-3), of lib es fs], of pairing]
  by (fastforce simp: answer_traced_def)

definition sample_unseal :: "string \<Rightarrow> unit + pairing_plaintext option" where
  "sample_unseal secret = (if secret = ''qr''
     then Inr (Some \<lparr>px_device_id = None, px_device_label = None, px_device_verify_key = ''key''\<rparr>) else Inl ())"

lemma secret_only_for_approved_key_witness:
  "\<exists>r s'. handle_pairing_request sample_pairing_lib ''peer2'' ''pair-t'' sample_unseal 1004
       (ap_relay (device_run sample_pairing_lib sample_fs sample_pairing sample_app)) = (Reply_Result r, s') \<and>
     pe_payload_secret r = Some ''tok'' \<and> pairing_granted sample_pairing ''pair-t'' ''key'' ''tok''"
proof -
  let ?out = "handle_pairing_request sample_pairing_lib ''peer2'' ''pair-t'' sample_unseal 1004
       (ap_relay (device_run sample_pairing_lib sample_fs sample_pairing sample_app))"
  have "(case fst ?out of Reply_Result r \<Rightarrow> pe_payload_secret r | _ \<Rightarrow> None) = Some ''tok''"
    by code_simp
  then obtain r s' where out: "?out = (Reply_Result r, s')" "pe_payload_secret r = Some ''tok''"
    by (cases ?out) (auto split: pairing_reply.splits)
  from secret_only_for_approved_key [OF sample_start(1-3) out]
  have "pairing_granted sample_pairing ''pair-t'' ''key'' ''tok''"
    by (auto simp: sample_unseal_def split: if_splits)
  with out show ?thesis by blast
qed

end
