(* ===== verification/Device_Safety.thy ===== *)
theory Device_Safety
  imports Device_Facts
begin

text \<open>
  What a revoked device may still do, who may act on a connection that was replaced, and what the
  queue of broker messages keeps: each holds from one event on, whatever follows.
\<close>

declare map_of_eq_Some_iff [simp del]

section \<open>A device that is not paired stays so\<close>

definition orderly :: "pairing_app \<Rightarrow> bool" where
  "orderly a \<longleftrightarrow>
     (\<forall>k x. waiting_keys (ap_relay a) k = Some x \<longrightarrow> fst x = k) \<and>
     (\<forall>v. ap_decision a = Some v \<longrightarrow> pq_pairing_id (av_request v) = av_pairing v)"

lemma orderly_less:
  assumes "orderly a" "gives_less (ap_relay a) (ap_relay a')"
    and "\<And>v. ap_decision a' = Some v \<Longrightarrow> ap_decision a = Some v \<or> pq_pairing_id (av_request v) = av_pairing v"
  shows "orderly a'"
  using assms unfolding orderly_def gives_less_iff by blast

lemma orderly_approve:
  assumes "orderly a"
  shows "orderly (device_step lib fs a (Ev_Approve pairing now))"
proof (rule orderly_less [OF assms])
  fix v assume v: "ap_decision (device_step lib fs a (Ev_Approve pairing now)) = Some v"
  show "ap_decision a = Some v \<or> pq_pairing_id (av_request v) = av_pairing v"
  proof (cases "ap_decision a = None")
    case True
    with v decision_approve [of pairing now a v]
    have "av_pairing v = pairing" "rl_requests (ap_relay a) pairing = Some (av_request v)" by simp_all
    with assms show ?thesis by (fastforce simp: orderly_def waiting_keys_def)
  next
    case False
    with v show ?thesis by (simp del: not_None_eq)
  qed
qed (rule gives_step, simp)

lemma orderly_register:
  "orderly a \<Longrightarrow> orderly (device_step lib fs a (Ev_Register pairing rid label peer key now))"
  using register_waits [of lib pairing rid label peer key now "ap_relay a"]
  by (fastforce simp: orderly_def)

lemma orderly_finish:
  assumes "orderly a"
  shows "orderly (device_step lib fs a (Ev_Finish answer token))"
proof (cases "ap_decision a")
  case None
  with assms show ?thesis by (simp add: finish_approval_def)
next
  case (Some v)
  with assms have "pq_pairing_id (av_request v) = av_pairing v" by (simp add: orderly_def)
  from request_only_elims(1) [OF finish_gives [OF Some this, of token lib fs answer]] assms
  show ?thesis by (fastforce simp: orderly_def)
qed

lemma orderly_step: "orderly a \<Longrightarrow> orderly (device_step lib fs a e)"
proof -
  assume a: "orderly a"
  show ?thesis
  proof (cases "gives_access e \<or> (\<exists>pairing now. e = Ev_Approve pairing now)")
    case True
    then show ?thesis
      by (cases e) (simp_all add: orderly_register [OF a] orderly_finish [OF a] orderly_approve [OF a]
          del: device_step.simps)
  next
    case False
    then show ?thesis
      by (intro orderly_less [OF a] gives_step disjI1 decision_step [of e lib fs a]) auto
  qed
qed

text \<open>No approval that ends in the run is for this device.\<close>

fun decides :: "string \<Rightarrow> pairing_app \<Rightarrow> device_event \<Rightarrow> bool" where
  "decides device a (Ev_Finish _ _) =
     (case ap_decision a of None \<Rightarrow> False | Some v \<Rightarrow> pq_device_id (av_request v) = device)"
| "decides device a _ = False"

fun spares :: "pairing_lib \<Rightarrow> file_system \<Rightarrow> string \<Rightarrow> device_event list \<Rightarrow> pairing_app \<Rightarrow> bool" where
  "spares lib fs device [] a = True"
| "spares lib fs device (e # es) a = (\<not> decides device a e \<and> spares lib fs device es (device_step lib fs a e))"

lemma paired_secrets: "map_of (rl_paired s) device = None \<longleftrightarrow> secrets s device = None"
  by (simp add: secrets_def)

lemma unpaired_step:
  assumes "orderly a" "\<not> decides device a e" "map_of (rl_paired (ap_relay a)) device = None"
  shows "map_of (rl_paired (ap_relay (device_step lib fs a e))) device = None"
proof (cases "gives_access e")
  case False
  show ?thesis
    using gives_lookup(2) [OF gives_step [OF False, of a lib fs], of device] assms(3)
    unfolding paired_secrets by (metis not_Some_eq)
next
  case True
  show ?thesis
  proof (cases e)
    case (Ev_Register pairing rid label peer key now)
    with assms(3) show ?thesis by (simp add: paired_secrets register_gives)
  next
    case (Ev_Finish answer token)
    show ?thesis
    proof (cases "ap_decision a")
      case None
      with assms(3) show ?thesis by (simp add: Ev_Finish finish_approval_def)
    next
      case (Some v)
      with assms(1) have "pq_pairing_id (av_request v) = av_pairing v" by (simp add: orderly_def)
      note gives = request_only_elims(2) [OF finish_gives [OF Some this, of token lib fs answer], of device]
      have other: "device \<noteq> pq_device_id (av_request v)" using assms(2) by (auto simp: Ev_Finish Some)
      show ?thesis
      proof (rule ccontr)
        assume "map_of (rl_paired (ap_relay (device_step lib fs a e))) device \<noteq> None"
        then obtain y where "secrets (ap_relay (device_step lib fs a e)) device = Some y"
          unfolding paired_secrets by blast
        then have "secrets (ap_relay a) device = Some y" using gives [of y] other by (simp add: Ev_Finish)
        with assms(3) show False by (simp add: paired_secrets)
      qed
    qed
  qed (use True in simp_all)
qed

lemma revoke_unpairs: "map_of (rl_paired (snd (revoke_paired_device device now s))) device = None"
  by (cases "map_of (rl_paired s) device") (simp_all add: revoke_unpaired revoke_effect)

lemma begin_revocation_unpairs:
  "map_of (rl_paired (ap_relay (snd (begin_revocation device now has_broker a)))) device = None"
  by (simp add: begin_revocation_def Let_def case_prod_beta revoke_unpairs)

text \<open>Nothing is left for a device that is not paired.\<close>

definition cut_off :: "string \<Rightarrow> relay_devices \<Rightarrow> bool" where
  "cut_off device s \<longleftrightarrow>
     device \<notin> fst ` set (broker_targets s) \<and>
     (\<forall>f lease now_ms now. rf_device_id f = device \<longrightarrow>
        fst (admit_leased_request f lease now_ms now s) \<in> {Adm_Duplicate, Adm_Reauthorize}) \<and>
     (\<forall>fs thread u. su_device_id u = device \<longrightarrow> \<not> may_send_push fs thread u s) \<and>
     (\<forall>fs thread t. ap_device_id t = device \<longrightarrow> \<not> may_send_apns fs thread t s) \<and>
     (\<forall>peer cid claimed lease now now_ms sid.
        fst (issue_claim_outcome device peer cid claimed lease now now_ms sid s) \<noteq> None)"

lemma target_paired:
  assumes "sound s" "(device, peer, secret) \<in> set (broker_targets s)"
  shows "map_of (rl_paired s) device \<noteq> None"
  using assms(2) sound_paired_id [OF assms(1)]
  by (fastforce simp: broker_targets_def map_filter_def split: option.splits)

lemma unpaired_admission:
  assumes "map_of (rl_paired s) (rf_device_id f) = None"
  shows "fst (admit_leased_request f lease now_ms now s) \<in> {Adm_Duplicate, Adm_Reauthorize}"
proof -
  have "rf_device_id f \<notin> set (rb_paired (prune_sessions now_ms (book_of s)))"
    using assms by (simp add: prune_sessions_def book_of_def map_of_eq_None_iff)
  then have "fst (admit_signed_request f now_ms now (book_of s)) = Adm_Reauthorize"
    by (simp add: admit_signed_request_def Let_def split: option.splits)
  then show ?thesis by (simp add: admit_leased_request_def Let_def case_prod_beta)
qed

lemma unpaired_claim:
  assumes "map_of (rl_paired s) device = None"
  shows "fst (issue_claim_outcome device peer cid claimed lease now now_ms sid s) \<noteq> None"
  using assms
  by (auto simp: issue_claim_outcome_def claim_challenge_def prune_expired_claim_challenges_def Let_def
      split: option.splits)

lemma unpaired_cut_off:
  assumes "sound s" "map_of (rl_paired s) device = None"
  shows "cut_off device s"
proof -
  have "device \<notin> set (keys_of (rl_push s))" "rl_apns s device = None"
    using sound_pushed [OF assms(1)] assms(2) by (auto simp del: set_map)
  then have "map_of (rl_push s) device = None" by (simp add: map_of_eq_None_iff)
  moreover have "device \<notin> fst ` set (broker_targets s)"
    using target_paired [OF assms(1)] assms(2) by force
  ultimately show ?thesis
    using unpaired_admission [of s] unpaired_claim [OF assms(2)] assms(2)
    unfolding cut_off_def may_send_push_def may_send_apns_def by auto
qed

lemma unpaired_run:
  "orderly a \<Longrightarrow> spares lib fs device es a \<Longrightarrow> map_of (rl_paired (ap_relay a)) device = None \<Longrightarrow>
     map_of (rl_paired (ap_relay (device_run lib fs es a))) device = None"
proof (induction es arbitrary: a)
  case (Cons e es)
  then show ?case
    using orderly_step unpaired_step by (simp add: device_run_def)
qed (simp add: device_run_def)

text \<open>
  C7. A revoked device is cut off from what the relay does for its devices: once the owner has
  revoked a device, and whatever happens after that unless an approval for this very device comes to
  its end, the device is no target of what the relay publishes, none of its signed requests is
  admitted, no claim of it succeeds on any connection, and no push may be sent to an address of it.
  Revocations at the broker that fail, are in flight or are retried, restarts, new pairings of other
  devices and clearing the history change nothing about that. The pairing handshake is not part of
  this: a revocation leaves the answer to a finished pairing in memory until it expires, so a phone
  that repeats its pairing message may be told its old result again (\<open>revoked_phone_still_answered\<close>).
\<close>

theorem revoked_phone_cut_off:
  assumes "sound (ap_relay a)" "orderly a"
    and "spares lib fs device es (device_step lib fs a (Ev_Revoke device now has_broker))"
  shows "cut_off device (ap_relay (device_run lib fs (Ev_Revoke device now has_broker # es) a))"
proof (rule unpaired_cut_off)
  let ?a = "device_step lib fs a (Ev_Revoke device now has_broker)"
  have run: "device_run lib fs (Ev_Revoke device now has_broker # es) a = device_run lib fs es ?a"
    by (simp only: device_run_def fold_simps)
  show "sound (ap_relay (device_run lib fs (Ev_Revoke device now has_broker # es) a))"
    by (rule sound_run [OF assms(1)])
  show "map_of (rl_paired (ap_relay (device_run lib fs (Ev_Revoke device now has_broker # es) a))) device = None"
    unfolding run
    by (rule unpaired_run [OF orderly_step [OF assms(2)] assms(3)]) (simp add: begin_revocation_unpairs)
qed


lemma orderly_run: "orderly a \<Longrightarrow> orderly (device_run lib fs es a)"
  by (induction es rule: rev_induct) (simp_all add: device_run_snoc orderly_step, simp add: device_run_def)

lemma sample_sound: "sound (ap_relay sample_app)" "orderly sample_app"
  by (simp_all add: sound_def listed_def confined_def orderly_def waiting_keys_def session_devices_def
      sample_app_def sample_relay_def sample_book_def)

definition sample_paired :: pairing_app where
  "sample_paired = device_run sample_pairing_lib sample_fs sample_pairing sample_app"

lemma sample_paired_sound: "sound (ap_relay sample_paired)" "orderly sample_paired"
  unfolding sample_paired_def by (rule sound_run [OF sample_sound(1)], rule orderly_run [OF sample_sound(2)])

lemma revoked_phone_cut_off_witness:
  "map_of (rl_paired (ap_relay sample_paired)) sample_device \<noteq> None \<and>
   cut_off sample_device (ap_relay (device_run sample_pairing_lib sample_fs
     [Ev_Revoke sample_device 1100 True, Ev_Restart, Ev_Clear_History] sample_paired))"
proof -
  have "map_of (rl_paired (ap_relay sample_paired)) sample_device \<noteq> None" by code_simp
  moreover have "spares sample_pairing_lib sample_fs sample_device [Ev_Restart, Ev_Clear_History]
      (device_step sample_pairing_lib sample_fs sample_paired (Ev_Revoke sample_device 1100 True))" by simp
  ultimately show ?thesis using revoked_phone_cut_off [OF sample_paired_sound] by blast
qed

text \<open>
  What the cut leaves: the phone that repeats its pairing message right after its revocation gets the
  payload secret it was given before. The relay seals nothing with that secret and takes no request
  under it any more, as the device is not paired.
\<close>

lemma revoked_phone_still_answered:
  "(let s = ap_relay (device_run sample_pairing_lib sample_fs [Ev_Revoke sample_device 1004 True] sample_paired)
    in map_of (rl_paired s) sample_device = None \<and>
       (case fst (handle_pairing_request sample_pairing_lib ''peer2'' ''pair-t'' sample_unseal 1005 s) of
          Reply_Result r \<Rightarrow> pe_payload_secret r = Some ''tok'' | _ \<Rightarrow> False))"
  by code_simp

section \<open>A revoked device keeps its folders\<close>

text \<open>Whatever still acts in a revoked device's name is held to the folders the device was given.\<close>

definition remembered :: "string \<Rightarrow> string list \<Rightarrow> relay_devices \<Rightarrow> bool" where
  "remembered device scope s \<longleftrightarrow> map_of (rl_paired s) device = None \<and>
     (\<exists>r. map_of (rl_records s) device = Some r \<and> de_lifecycle_state r = Life_Revoked \<and> de_path_scope r = scope)"

lemma remembered_limit: "remembered device scope s \<Longrightarrow> device_folder_limit device s = scope"
  by (auto simp: remembered_def device_folder_limit_def)

lemma remembered_same:
  "map_of (rl_paired s') device = map_of (rl_paired s) device \<Longrightarrow>
     map_of (rl_records s') device = map_of (rl_records s) device \<Longrightarrow>
     remembered device scope s' = remembered device scope s"
  by (simp add: remembered_def)

lemma remembered_untouched: "remembered device scope s \<Longrightarrow> same_devices s s' \<Longrightarrow> remembered device scope s'"
  using remembered_same [of s' device s scope] by (simp add: same_devices_def)

lemma remembered_unpaired: "remembered device scope s \<Longrightarrow> map_of (rl_paired s) device = None"
  by (simp add: remembered_def)

lemma records_sync [simp]:
  "pd_device_id d \<noteq> device \<Longrightarrow> map_of (rl_records (sync_device_record d now s)) device = map_of (rl_records s) device"
  by (simp add: sync_device_record_def Let_def)

lemma remembered_touch:
  assumes "sound s" "remembered device scope s"
  shows "remembered device scope (snd (touch_device x peer now s))"
proof (cases "map_of (rl_paired s) x")
  case None
  with assms(2) show ?thesis by (simp add: touch_device_def)
next
  case (Some d)
  with remembered_unpaired [OF assms(2)] have "x \<noteq> device" by auto
  then show ?thesis
    using sound_paired_id [OF assms(1) Some]
    by (simp add: touch_device_def Some Let_def bind_surface_peer_to_device_def
        remembered_same [of _ device s, THEN iffD2 [OF _ assms(2)]])
qed

lemma remembered_seen:
  "sound s \<Longrightarrow> remembered device scope s \<Longrightarrow> remembered device scope (snd (mark_paired_device_seen x peer lease now s))"
  by (simp add: mark_paired_device_seen_def remembered_touch)

lemma remembered_fields [simp]:
  "remembered device scope (s\<lparr>rl_book := b\<rparr>) = remembered device scope s"
  "remembered device scope (s\<lparr>rl_challenges := hs\<rparr>) = remembered device scope s"
  "remembered device scope (s\<lparr>rl_completed := cs\<rparr>) = remembered device scope s"
  "remembered device scope (s\<lparr>rl_requests := qs\<rparr>) = remembered device scope s"
  "remembered device scope (s\<lparr>rl_pairings := ps\<rparr>) = remembered device scope s"
  "remembered device scope (s\<lparr>rl_revoking := vs\<rparr>) = remembered device scope s"
  "remembered device scope (prune_expired_pairings now s) = remembered device scope s"
  "remembered device scope (queue_broker_message fs m s) = remembered device scope s"
  "remembered device scope (restore_pairing_request q s) = remembered device scope s"
  by (rule remembered_same; simp add: prune_expired_pairings_def restore_pairing_request_def Let_def)+

lemma remembered_admit:
  assumes "sound s" "remembered device scope s"
  shows "remembered device scope (snd (admit_leased_request f lease now_ms now s))"
proof -
  have "sound (s\<lparr>rl_book := snd (admit_signed_request f now_ms now (book_of s))\<rparr>)"
    using session_devices_admit [of f now_ms now "book_of s"] by (intro sound_book [OF assms(1)]) simp
  then show ?thesis
    using assms(2) remembered_seen
    by (auto simp: admit_leased_request_def Let_def case_prod_beta split: request_admission.splits)
qed


lemma remembered_challenge:
  assumes "sound s" "remembered device scope s"
  shows "remembered device scope (snd (issue_claim_challenge_outcome x peer lease now t10 t40 s))"
  using remembered_seen [OF assms, of x peer "Some lease" now]
  by (auto simp: issue_claim_challenge_outcome_def split: prod.splits option.splits
      intro: remembered_untouched [OF _ same_leased_challenge])

lemma remembered_complete:
  assumes "sound s" "remembered device scope s"
  shows "remembered device scope (snd (complete_remote_claim x cid peer now s))"
proof -
  have keeps: "sound (snd (claim_challenge x cid peer now s))"
    "remembered device scope (snd (claim_challenge x cid peer now s))"
    by (rule sound_untouched [OF assms(1) same_challenge], rule remembered_untouched [OF assms(2) same_challenge])
  have "remembered device scope (snd (touch_device x peer now (snd (claim_challenge x cid peer now s)\<lparr>rl_challenges := hs\<rparr>)))" for hs
    using keeps by (intro remembered_touch) simp_all
  with keeps show ?thesis
    by (auto simp: complete_remote_claim_def prune_claim_challenges_for_peer_def
        split: prod.splits sum.splits option.splits) (metis snd_conv)+
qed

lemma remembered_claim:
  assumes "sound s" "remembered device scope s"
  shows "remembered device scope (snd (issue_claim_outcome x peer cid claimed lease now now_ms sid s))"
proof -
  have leased: "sound t \<Longrightarrow> remembered device scope t \<Longrightarrow>
      remembered device scope (snd (leased_remote_claim x cid' peer lease now now_ms sid t))" for t cid'
    using remembered_complete [of t device scope x cid' peer now]
    by (auto simp: leased_remote_claim_def split: option.splits prod.splits sum.splits)
  have "sound (snd (claim_challenge x cid peer now s))"
    "remembered device scope (snd (claim_challenge x cid peer now s))"
    by (rule sound_untouched [OF assms(1) same_challenge], rule remembered_untouched [OF assms(2) same_challenge])
  then show ?thesis by (auto simp: issue_claim_outcome_def leased split: prod.splits sum.splits)
qed

lemma remembered_rejected:
  "remembered device scope s \<Longrightarrow> remembered device scope (record_rejected_device q now s)"
  by (auto simp: record_rejected_device_def remembered_def Let_def split: option.splits)

lemma remembered_reject:
  "remembered device scope (ap_relay a) \<Longrightarrow> remembered device scope (ap_relay (snd (reject_request lib fs pairing now a)))"
  by (auto simp: reject_request_def decide_pairing_request_def Let_def remembered_rejected
      split: prod.splits sum.splits option.splits)

lemma remembered_revoke:
  assumes "sound s" "remembered device scope s"
  shows "remembered device scope (snd (revoke_paired_device x now s))"
proof (cases "map_of (rl_paired s) x")
  case None
  with assms(2) show ?thesis by (simp add: revoke_unpaired)
next
  case (Some d)
  with remembered_unpaired [OF assms(2)] have "x \<noteq> device" by auto
  then have "map_of (rl_records (snd (revoke_paired_device x now s))) device = map_of (rl_records s) device"
    "map_of (rl_paired (snd (revoke_paired_device x now s))) device = map_of (rl_paired s) device"
    using sound_paired_id [OF assms(1) Some] by (simp_all add: revoke_effect [OF Some])
  with assms(2) show ?thesis by (simp add: remembered_def)
qed

lemma remembered_revoke_each:
  "sound s \<Longrightarrow> remembered device scope s \<Longrightarrow> remembered device scope (revoke_each devices now s)"
  by (induction devices arbitrary: s) (simp_all add: remembered_revoke sound_revoke)

lemma remembered_revocations:
  assumes "sound (ap_relay a)" "remembered device scope (ap_relay a)"
  shows "remembered device scope (ap_relay (snd (begin_revocation x now has_broker a)))"
    and "remembered device scope (ap_relay (snd (begin_bulk_revocation keep now has_broker a)))"
  using remembered_revoke [OF assms, of x now] remembered_revoke_each [OF assms, of _ now] assms(2)
  by (auto simp: begin_revocation_def begin_bulk_revocation_def revoke_all_other_paired_devices_def
      Let_def case_prod_beta split: if_splits)

lemma remembered_settle:
  assumes "remembered device scope s"
  shows "remembered device scope (snd (settle_broker_revoke ids outcome s))"
proof -
  have "remembered device scope (settle_record f x t)" if "remembered device scope t" for f x t
    using that by (auto simp: settle_record_def remembered_def)
  then have "remembered device scope (fold (settle_record f) ids s)" for f
    using assms by (induction ids arbitrary: s) simp_all
  then show ?thesis by (simp add: settle_broker_revoke_def Let_def)
qed

lemma remembered_restart:
  "sound s \<Longrightarrow> remembered device scope s \<Longrightarrow> remembered device scope (restart s)"
  by (auto simp: remembered_def restart_fields)

text \<open>An approval that ends for another device writes another row.\<close>

lemma remembered_consume:
  assumes "sound s" "remembered device scope s" "x \<noteq> device"
    and "consume_pairing_ticket lib pairing secret x label key expires peer now token s = (r, s')"
  shows "remembered device scope s'"
proof -
  let ?s = "prune_expired_pairings now s"
  have r: "remembered device scope ?s" using assms(2) by simp
  have id: "map_of (rl_paired ?s) x = Some d \<Longrightarrow> pd_device_id d = x" for d
    using sound_paired_id [OF sound_prune [OF assms(1)]] .
  have row: "remembered device scope (sync_device_record d now
      (bind_surface_peer_to_device y peer (?s\<lparr>rl_pairings := ps, rl_paired := AList.update x d (rl_paired ?s)\<rparr>)))"
    if "pd_device_id d = x" for d ps y
    using r assms(3) that by (simp add: remembered_def bind_surface_peer_to_device_def)
  show ?thesis
    using assms(4) r
    by (auto simp: consume_pairing_ticket_def Let_def id split: option.splits if_splits intro!: row)
qed

lemma remembered_row:
  assumes "remembered device scope s" "x \<noteq> device" "pd_device_id d = x"
    and "rl_paired t = AList.update x d (rl_paired s)" "rl_records t = rl_records s"
  shows "remembered device scope (sync_device_record d now t)"
  using assms by (simp add: remembered_def)

lemma remembered_credential:
  assumes "sound s" "remembered device scope s"
    and "attach_pairing_broker_credential pairing refresh ticket expires now s = (e, s')"
  shows "remembered device scope s'"
proof (cases "rl_completed s pairing")
  case None
  with assms(2,3) show ?thesis by (simp add: attach_pairing_broker_credential_def)
next
  case (Some c)
  show ?thesis
  proof (cases "cp_device c")
    case None
    with assms(2,3) Some show ?thesis by (auto simp: attach_pairing_broker_credential_def Let_def)
  next
    case v: (Some v)
    show ?thesis
    proof (cases "map_of (rl_paired s) (pv_device_id v)")
      case None
      with assms(2,3) Some v show ?thesis by (auto simp: attach_pairing_broker_credential_def Let_def)
    next
      case d: (Some d)
      with remembered_unpaired [OF assms(2)] have "pv_device_id v \<noteq> device" by auto
      then show ?thesis
        using assms(3) Some v d sound_paired_id [OF assms(1) d]
        by (auto simp: attach_pairing_broker_credential_def Let_def intro!: remembered_row [OF assms(2)])
    qed
  qed
qed

lemma remembered_grant:
  "remembered device scope s \<Longrightarrow> attach_client_grant pairing grant s = (e, s') \<Longrightarrow> remembered device scope s'"
  by (auto simp: attach_client_grant_def attach_pairing_client_grant_def split: option.splits)

lemma restored_request:
  assumes "rl_requests (prune_expired_pairings now (restore_pairing_request q s)) (pq_pairing_id q) = Some q'"
  shows "q' = q"
proof -
  obtain p where p: "map_of (retain (\<lambda>_ p. now < pp_expires_at p) (rl_pairings s)) (pq_pairing_id q) = Some p"
    and q': "rl_requests (restore_pairing_request q s) (pq_pairing_id q) = Some q'"
    using assms by (auto simp: prune_expired_pairings_def Let_def restore_pairing_request_def split: if_splits)
  have "map_of (rl_pairings s) (pq_pairing_id q) \<noteq> None"
    using keys_retain [of "\<lambda>_ p. now < pp_expires_at p" "rl_pairings s"] lookup_key [OF p]
    by (auto simp: map_of_eq_None_iff)
  with q' show ?thesis by (auto simp: restore_pairing_request_def Let_def)
qed

lemma remembered_decide:
  assumes "sound s" "remembered device scope s"
    and "decide_pairing_request lib pairing True expires now token s = (r, s')"
    and "\<And>q. rl_requests (prune_expired_pairings now s) pairing = Some q \<Longrightarrow> pq_device_id q \<noteq> device"
  shows "remembered device scope s' \<and> sound s'"
proof
  show "sound s'" using sound_decide [OF assms(3,1)] .
  let ?s = "prune_expired_pairings now s"
  show "remembered device scope s'"
  proof (cases "rl_requests ?s pairing")
    case None
    with assms(2,3) show ?thesis by (auto simp: decide_pairing_request_def Let_def)
  next
    case (Some q)
    let ?t = "?s\<lparr>rl_requests := (rl_requests ?s)(pairing := None)\<rparr>"
    have t: "sound ?t" "remembered device scope ?t" using assms(1,2) by simp_all
    show ?thesis
    proof (cases "map_of (rl_pairings ?s) pairing")
      case None
      with assms(3) Some t(2) show ?thesis by (auto simp: decide_pairing_request_def Let_def)
    next
      case p: (Some p)
      obtain v u where u: "consume_pairing_ticket lib pairing (pp_pairing_secret p) (pq_device_id q)
          (Some (pq_label q)) (pq_device_verify_key q) expires (pq_broker_peer_id q) now token ?t = (v, u)"
        by fastforce
      from remembered_consume [OF t assms(4) [OF Some] u] assms(3) Some p u show ?thesis
        by (auto simp: decide_pairing_request_def Let_def split: sum.splits)
    qed
  qed
qed

lemma remembered_finish:
  assumes "sound (ap_relay a)" "orderly a" "remembered device scope (ap_relay a)"
    and "\<not> decides device a (Ev_Finish answer token)"
  shows "remembered device scope (ap_relay (snd (snd (finish_approval lib fs answer token a))))"
proof (cases "ap_decision a")
  case None
  with assms(3) show ?thesis by (simp add: finish_approval_def)
next
  case (Some v)
  let ?q = "av_request v" and ?s = "ap_relay a"
  let ?r = "restore_pairing_request ?q ?s"
  have v: "pq_pairing_id ?q = av_pairing v" "pq_device_id ?q \<noteq> device"
    using assms(2,4) Some by (auto simp: orderly_def)
  have r: "sound ?r" "remembered device scope ?r"
    using assms(3) sound_untouched [OF assms(1) same_restore] by simp_all
  have "remembered device scope (snd (snd (conclude_approval lib fs v c grant token ?s)))" for c grant
  proof -
    obtain d t where d: "decide_pairing_request lib (av_pairing v) True (dc_join_expires_at c) (av_now v) token ?r = (d, t)"
      by fastforce
    have other: "pq_device_id q \<noteq> device"
      if "rl_requests (prune_expired_pairings (av_now v) ?r) (av_pairing v) = Some q" for q
      using restored_request [of "av_now v" ?q ?s q] that v by simp
    from remembered_decide [OF r d other] have t: "remembered device scope t" "sound t" by simp_all
    then show ?thesis
      by (auto simp: conclude_approval_def Let_def d split: sum.splits prod.splits option.splits
          dest: remembered_credential remembered_grant)
  qed
  with r(2) show ?thesis
    by (auto simp: finish_approval_def Some Let_def case_prod_beta split: broker_answer.splits)
qed

lemma remembered_threads:
  "remembered device scope s \<Longrightarrow> remembered device scope (s\<lparr>rl_active_thread := active, rl_threads := threads,
     rl_histories := histories, rl_team_cwds := cwds, rl_allowed_roots := roots\<rparr>)"
  by (simp add: remembered_def)

lemma leases_fields [simp]:
  "rl_records (fold open_surface_lease peers s) = rl_records s"
  "rl_records (fold revoke_surface_lease peers s) = rl_records s"
  by (simp_all add: open_leases_fields revoke_leases_fields)

lemma remembered_surfaces:
  assumes "remembered device scope s"
  shows "remembered device scope (mark_surface_peer_offline peer s)"
    and "remembered device scope (replace_online_surface_peers peers s)"
    and "remembered device scope (snd (register_push_subscription acceptable i now s))"
    and "remembered device scope (unregister_push_subscription x endpoint s)"
    and "remembered device scope (prune_push_subscriptions gone s)"
    and "remembered device scope (snd (register_apns_token t dev s))"
    and "remembered device scope (unregister_apns_token x s)"
  using assms
  by (simp_all add: remembered_def surface_operations open_leases_fields Let_def split: option.splits)

lemmas remembered_operations =
  remembered_seen remembered_admit remembered_challenge remembered_claim remembered_reject
  remembered_revocations remembered_settle remembered_restart remembered_surfaces remembered_threads remembered_finish

lemma remembered_step:
  assumes "sound (ap_relay a)" "orderly a" "remembered device scope (ap_relay a)"
    and "\<not> decides device a e" "e \<noteq> Ev_Clear_History"
  shows "remembered device scope (ap_relay (device_step lib fs a e))"
  using assms
  by (cases e)
    (auto simp: remembered_operations simp del: decides.simps
      intro: remembered_untouched [OF _ same_start] remembered_untouched [OF _ same_finish_start]
        remembered_untouched [OF _ same_begin_approval]
        remembered_untouched [OF _ same_register]
        remembered_untouched [OF _ same_watch_threads] remembered_untouched [OF _ same_surfaces(1)]
        remembered_untouched [OF _ same_surfaces(2)] remembered_untouched [OF _ same_surfaces(3)]
        remembered_untouched [OF _ same_surfaces(4)] remembered_untouched [OF _ same_connection])


lemma remembered_run:
  "sound (ap_relay a) \<Longrightarrow> orderly a \<Longrightarrow> remembered device scope (ap_relay a) \<Longrightarrow>
     spares lib fs device es a \<Longrightarrow> Ev_Clear_History \<notin> set es \<Longrightarrow>
     remembered device scope (ap_relay (device_run lib fs es a))"
proof (induction es arbitrary: a)
  case (Cons e es)
  from Cons.prems have "e \<noteq> Ev_Clear_History" by auto
  with Cons.prems have "remembered device scope (ap_relay (device_step lib fs a e))"
    by (intro remembered_step) simp_all
  with Cons.prems Cons.IH [OF sound_step orderly_step] show ?case
    by (simp add: device_run_def)
qed (simp add: device_run_def)

lemma revoke_remembers:
  assumes "sound s" "map_of (rl_paired s) device = Some d"
  shows "remembered device (pd_path_scope d) (snd (revoke_paired_device device now s))"
  using revoke_unpairs [of device now s] sound_paired_id [OF assms]
  by (simp add: remembered_def revoke_effect [OF assms(2)])

text \<open>
  C8. A revoked device is held to its folders: work that still runs in the name of a device after it
  was revoked is confined to the folders that the device was given when it was paired, through
  failed and repeated revocations, restarts, rejected requests and pairings of other devices, as
  long as the owner does not clear the history of devices; it never widens to no limit.
\<close>

theorem revoked_phone_keeps_folders:
  assumes "sound (ap_relay a)" "orderly a" "map_of (rl_paired (ap_relay a)) device = Some d"
    and "spares lib fs device es (device_step lib fs a (Ev_Revoke device now has_broker))"
    and "Ev_Clear_History \<notin> set es"
  shows "device_folder_limit device (ap_relay (device_run lib fs (Ev_Revoke device now has_broker # es) a)) =
    pd_path_scope d"
proof (rule remembered_limit)
  let ?a = "device_step lib fs a (Ev_Revoke device now has_broker)"
  have run: "device_run lib fs (Ev_Revoke device now has_broker # es) a = device_run lib fs es ?a"
    by (simp only: device_run_def fold_simps)
  have "remembered device (pd_path_scope d) (ap_relay ?a)"
    using revoke_remembers [OF assms(1,3), of now] by (simp add: begin_revocation_def Let_def case_prod_beta)
  then show "remembered device (pd_path_scope d) (ap_relay (device_run lib fs (Ev_Revoke device now has_broker # es) a))"
    unfolding run
    by (rule remembered_run [OF sound_step [OF assms(1)] orderly_step [OF assms(2)] _ assms(4,5)])
qed

lemma revoked_phone_keeps_folders_witness:
  "device_folder_limit sample_device (ap_relay (device_run sample_pairing_lib sample_fs
     [Ev_Revoke sample_device 1100 True, Ev_Settle 0 None, Ev_Restart] sample_paired)) = [''/work'']"
proof -
  have "(case map_of (rl_paired (ap_relay sample_paired)) sample_device of None \<Rightarrow> [] | Some d \<Rightarrow> pd_path_scope d) =
      [''/work'']" by code_simp
  then obtain d where d: "map_of (rl_paired (ap_relay sample_paired)) sample_device = Some d" "pd_path_scope d = [''/work'']"
    by (auto split: option.splits)
  have "spares sample_pairing_lib sample_fs sample_device [Ev_Settle 0 None, Ev_Restart]
      (device_step sample_pairing_lib sample_fs sample_paired (Ev_Revoke sample_device 1100 True))" by simp
  from revoked_phone_keeps_folders [OF sample_paired_sound d(1) this] d(2) show ?thesis by simp
qed

end
