(* ===== verification/Device_Leases.thy ===== *)
theory Device_Leases
  imports Device_Facts
begin

text \<open>
  Connections and messages: a lease that ended stays ended, so what arrives late over a replaced
  connection does nothing; and what the queue of broker messages keeps when it overflows.
\<close>

declare map_of_eq_Some_iff [simp del]

section \<open>Who changes a lease\<close>

definition lease_part :: "relay_devices \<Rightarrow> (string \<rightharpoonup> u64) \<times> u64 \<times> string list" where
  "lease_part s = (rl_leases s, rl_next_lease s, rl_online s)"

named_theorems leaseless \<open>operations that change no lease\<close>

lemma lease_fields [simp]:
  "lease_part (s\<lparr>rl_requests := qs\<rparr>) = lease_part s" "lease_part (s\<lparr>rl_completed := cs\<rparr>) = lease_part s"
  "lease_part (s\<lparr>rl_pairings := ps\<rparr>) = lease_part s" "lease_part (s\<lparr>rl_challenges := hs\<rparr>) = lease_part s"
  "lease_part (s\<lparr>rl_revoking := vs\<rparr>) = lease_part s" "lease_part (s\<lparr>rl_book := b\<rparr>) = lease_part s"
  "lease_part (s\<lparr>rl_records := rs\<rparr>) = lease_part s" "lease_part (s\<lparr>rl_paired := ds\<rparr>) = lease_part s"
  "lease_part (s\<lparr>rl_push := us\<rparr>) = lease_part s" "lease_part (s\<lparr>rl_apns := ts\<rparr>) = lease_part s"
  "lease_part (s\<lparr>rl_retired := rt\<rparr>) = lease_part s" "lease_part (s\<lparr>rl_claimed := cl\<rparr>) = lease_part s"
  "lease_part (s\<lparr>rl_watched := ws\<rparr>) = lease_part s" "lease_part (s\<lparr>rl_generations := gs\<rparr>) = lease_part s"
  "lease_part (s\<lparr>rl_broker_surfaces := bs\<rparr>) = lease_part s" "lease_part (s\<lparr>rl_messages := ms\<rparr>) = lease_part s"
  "lease_part (s\<lparr>rl_peer_devices := pd\<rparr>) = lease_part s" "lease_part (s\<lparr>rl_pairing_starts := st\<rparr>) = lease_part s"
  "lease_part (s\<lparr>rl_pairing_generation := pg\<rparr>) = lease_part s" "lease_part (s\<lparr>rl_controller := co\<rparr>) = lease_part s"
  "lease_part (s\<lparr>rl_controller_seen_at := cs'\<rparr>) = lease_part s" "lease_part (s\<lparr>rl_pin_thread := pt\<rparr>) = lease_part s"
  "lease_part (s\<lparr>rl_pin_device := pd'\<rparr>) = lease_part s" "lease_part (s\<lparr>rl_pin_prompt := pp\<rparr>) = lease_part s"
  "lease_part (s\<lparr>rl_pin_prompt_version := pv\<rparr>) = lease_part s" "lease_part (s\<lparr>rl_handovers := hv\<rparr>) = lease_part s"
  "lease_part (s\<lparr>rl_active_thread := at\<rparr>) = lease_part s" "lease_part (s\<lparr>rl_threads := th\<rparr>) = lease_part s"
  "lease_part (s\<lparr>rl_histories := hi\<rparr>) = lease_part s" "lease_part (s\<lparr>rl_team_cwds := tc\<rparr>) = lease_part s"
  "lease_part (s\<lparr>rl_allowed_roots := ar\<rparr>) = lease_part s" "lease_part (s\<lparr>rl_broker_connected := bc\<rparr>) = lease_part s"
  by (simp_all add: lease_part_def)

lemma lease_prune [simp]:
  "lease_part (prune_expired_pairings now s) = lease_part s"
  "lease_part (prune_expired_claim_challenges now s) = lease_part s"
  "lease_part (prune_claim_challenges_for_peer device peer s) = lease_part s"
  "lease_part (sync_device_record d now s) = lease_part s"
  "lease_part (record_rejected_device q now s) = lease_part s"
  "lease_part (restore_pairing_request q s) = lease_part s"
  "lease_part (bind_surface_peer_to_device device peer s) = lease_part s"
  "lease_part (register_broker_surface surface s) = lease_part s"
  "lease_part (issue_pairing_ticket t broker s) = lease_part s"
  by (simp_all add: prune_expired_pairings_def prune_expired_claim_challenges_def sync_device_record_def
      prune_claim_challenges_for_peer_def record_rejected_device_def restore_pairing_request_def
      bind_surface_peer_to_device_def register_broker_surface_def issue_pairing_ticket_def Let_def split: option.splits)

lemma lease_queue [simp]: "lease_part (queue_broker_message fs m s) = lease_part s"
  "lease_part (fold (resync_new_watcher fs) threads s) = lease_part s"
  "lease_part (fold (\<lambda>res. queue_broker_message fs (Msg_Pairing res)) owed s) = lease_part s"
  by (simp_all add: lease_part_def)

lemma lease_pairing [simp]:
  "lease_part (snd (prepare_pairing_ticket ttl scope now t10 t32 s)) = lease_part s"
  "lease_part (snd (retire_pairings ps acc)) = lease_part (snd acc)"
  "lease_part (snd (register_pairing_request lib pairing rid label peer key now s)) = lease_part s"
  "lease_part (snd (claim_pairing_request pairing now s)) = lease_part s"
  "lease_part (snd (consume_pairing_ticket lib pairing secret device label' key expires peer now token s)) = lease_part s"
proof -
  show "lease_part (snd (retire_pairings ps acc)) = lease_part (snd acc)"
    by (induction ps acc rule: retire_pairings.induct)
      (simp_all add: retire_pairing_request_def split: option.splits)
qed (simp_all add: prepare_pairing_ticket_def register_pairing_request_def claim_pairing_request_def
      consume_pairing_ticket_def Let_def split: option.splits)

lemma lease_decide [simp]:
  "lease_part (snd (decide_pairing_request lib pairing approved expires now token s)) = lease_part s"
  "lease_part (snd (attach_pairing_broker_credential pairing refresh ticket expires now s)) = lease_part s"
  "lease_part (snd (attach_client_grant pairing grant s)) = lease_part s"
proof -
  have consume: "lease_part s' = lease_part s"
    if "consume_pairing_ticket lib pairing secret device label key expires peer now token s = (r, s')"
    for lib pairing secret device label key expires peer now token s r s'
    using lease_pairing(5) that by (metis snd_conv)
  show "lease_part (snd (decide_pairing_request lib pairing approved expires now token s)) = lease_part s"
    by (auto simp: decide_pairing_request_def Let_def split: option.splits sum.splits prod.splits dest!: consume)
qed (simp_all add: attach_pairing_broker_credential_def attach_client_grant_def
      attach_pairing_client_grant_def Let_def split: option.splits)


lemma lease_flow:
  "lease_part (ap_relay (snd (start_pairing fs ttl roots now t10 t32 a))) = lease_part (ap_relay a)"
  "lease_part (ap_relay (snd (finish_start lib fs t broker now a))) = lease_part (ap_relay a)"
  "lease_part (ap_relay (snd (begin_approval pairing now a))) = lease_part (ap_relay a)"
  "lease_part (ap_relay (snd (reject_request lib fs pairing now a))) = lease_part (ap_relay a)"
proof -
  have prepare: "lease_part s' = lease_part s" if "prepare_pairing_ticket ttl scope now t10 t32 s = (r, s')" for scope s r s'
    using lease_pairing(1) that by (metis snd_conv)
  show "lease_part (ap_relay (snd (start_pairing fs ttl roots now t10 t32 a))) = lease_part (ap_relay a)"
    by (auto simp: start_pairing_def split: sum.splits option.splits prod.splits dest!: prepare)
  have retire: "lease_part s' = lease_part s" if "retire_pairings ps (ow, s\<lparr>rl_pairings := []\<rparr>) = (r, s')" for ps ow s r s'
    using lease_pairing(2) [of ps "(ow, s\<lparr>rl_pairings := []\<rparr>)"] that by simp
  show "lease_part (ap_relay (snd (finish_start lib fs t broker now a))) = lease_part (ap_relay a)"
    by (auto simp: finish_start_def install_pairing_ticket_def split: sum.splits prod.splits if_splits dest!: retire)
  have claim: "lease_part s' = lease_part s" if "claim_pairing_request pairing now s = (r, s')" for s r s'
    using lease_pairing(4) that by (metis snd_conv)
  show "lease_part (ap_relay (snd (begin_approval pairing now a))) = lease_part (ap_relay a)"
    by (auto simp: begin_approval_def split: sum.splits prod.splits dest!: claim)
  have decide: "lease_part s' = lease_part s"
    if "decide_pairing_request lib pairing False None now [] s = (r, s')" for s r s'
    using lease_decide(1) that by (metis snd_conv)
  show "lease_part (ap_relay (snd (reject_request lib fs pairing now a))) = lease_part (ap_relay a)"
    by (auto simp: reject_request_def split: sum.splits prod.splits dest!: decide)
qed

lemma lease_conclude: "lease_part (snd (snd (conclude_approval lib fs v c grant token s))) = lease_part s"
proof -
  have decide: "lease_part s' = lease_part s"
    if "decide_pairing_request lib pairing approved expires now token s = (r, s')" for pairing approved expires now s r s'
    using lease_decide(1) that by (metis snd_conv)
  have attach: "lease_part s' = lease_part s"
    if "attach_pairing_broker_credential pairing refresh ticket expires now s = (r, s')" for pairing refresh ticket expires now s r s'
    using lease_decide(2) that by (metis snd_conv)
  have grant: "lease_part s' = lease_part s"
    if "attach_client_grant pairing g s = (r, s')" for pairing g s r s'
    using lease_decide(3) that by (metis snd_conv)
  show ?thesis
    by (auto simp: conclude_approval_def Let_def split: sum.splits prod.splits option.splits dest!: decide attach grant)
qed

lemma lease_finish:
  "lease_part (ap_relay (snd (snd (finish_approval lib fs answer token a)))) = lease_part (ap_relay a)"
  by (simp add: finish_approval_def Let_def case_prod_beta lease_conclude split: option.splits broker_answer.splits)

lemma lease_fold: "(\<And>x s. lease_part (f x s) = lease_part s) \<Longrightarrow> lease_part (fold f xs s) = lease_part s"
  by (induction xs arbitrary: s) simp_all

lemma lease_revoke [simp]: "lease_part (snd (revoke_paired_device device now s)) = lease_part s"
  by (simp add: revoke_paired_device_def Let_def clear_watched_threads_for_device_def record_revoked_device_def
      clear_orchestrator_pin_if_device_def retire_handovers_for_device_def split: option.splits)

lemma lease_revocations:
  "lease_part (ap_relay (snd (begin_revocation device now has_broker a))) = lease_part (ap_relay a)"
  "lease_part (ap_relay (snd (begin_bulk_revocation keep now has_broker a))) = lease_part (ap_relay a)"
  "lease_part (snd (settle_broker_revoke ids outcome s)) = lease_part s"
  "lease_part (snd (clear_device_history s)) = lease_part s"
proof -
  have each: "lease_part (revoke_each devices now s) = lease_part s" for devices s
    by (induction devices arbitrary: s) simp_all
  show "lease_part (ap_relay (snd (begin_revocation device now has_broker a))) = lease_part (ap_relay a)"
    by (simp add: begin_revocation_def Let_def case_prod_beta)
  show "lease_part (ap_relay (snd (begin_bulk_revocation keep now has_broker a))) = lease_part (ap_relay a)"
    by (simp add: begin_bulk_revocation_def revoke_all_other_paired_devices_def Let_def each)
  show "lease_part (snd (settle_broker_revoke ids outcome s)) = lease_part s"
    by (simp add: settle_broker_revoke_def Let_def lease_fold settle_record_def)
  show "lease_part (snd (clear_device_history s)) = lease_part s"
    by (simp add: clear_device_history_def Let_def lease_fold forget_record_def clear_orchestrator_pin_if_device_def)
qed

lemma lease_claims:
  "lease_part (snd (touch_device device peer now s)) = lease_part s"
  "lease_part (snd (claim_challenge device cid peer now s)) = lease_part s"
  "lease_part (snd (issue_claim_challenge device peer now t10 t40 s)) = lease_part s"
  by (simp_all add: touch_device_def claim_challenge_def issue_claim_challenge_def Let_def split: option.splits)

lemma lease_touched:
  "touch_device device peer now s = (r, s') \<Longrightarrow> lease_part s' = lease_part s"
  "claim_challenge device cid peer now s = (q, s') \<Longrightarrow> lease_part s' = lease_part s"
  "issue_claim_challenge device peer now t10 t40 s = (q, s') \<Longrightarrow> lease_part s' = lease_part s"
  using lease_claims by (metis snd_conv)+

lemma lease_seen:
  "lease_part (snd (mark_paired_device_seen device peer lease now s)) = lease_part s"
  by (simp add: mark_paired_device_seen_def lease_claims)

lemma lease_completed:
  "complete_remote_claim device cid peer now s = (r, s') \<Longrightarrow> lease_part s' = lease_part s"
  by (auto simp: complete_remote_claim_def split: sum.splits prod.splits option.splits dest!: lease_touched)

lemma lease_requests:
  "lease_part (snd (issue_claim_challenge_outcome device peer lease now t10 t40 s)) = lease_part s"
  "lease_part (snd (issue_claim_outcome device peer cid claimed lease now now_ms sid s)) = lease_part s"
  "lease_part (snd (admit_leased_request f lease now_ms now s)) = lease_part s"
proof -
  have seen: "mark_paired_device_seen device peer l now s = (r, s') \<Longrightarrow> lease_part s' = lease_part s" for l r s'
    using lease_seen by (metis snd_conv)
  show "lease_part (snd (issue_claim_challenge_outcome device peer lease now t10 t40 s)) = lease_part s"
    by (auto simp: issue_claim_challenge_outcome_def leased_claim_challenge_def lease_claims
        split: sum.splits prod.splits option.splits dest!: seen lease_touched)
  show "lease_part (snd (issue_claim_outcome device peer cid claimed lease now now_ms sid s)) = lease_part s"
    by (auto simp: issue_claim_outcome_def leased_remote_claim_def
        split: sum.splits prod.splits option.splits dest!: lease_touched lease_completed)
  show "lease_part (snd (admit_leased_request f lease now_ms now s)) = lease_part s"
    by (simp add: admit_leased_request_def Let_def case_prod_beta lease_seen split: request_admission.splits)
qed

lemma lease_watch:
  "lease_part (watch_threads fs device peer lease surface threads generation s) = lease_part s"
  "lease_part (snd (open_surface_generation surf claimed s)) = lease_part s"
  "lease_part (snd (drop_watched_surface_generation surf g s)) = lease_part s"
  "lease_part (snd (register_push_subscription acceptable i now s)) = lease_part s"
  "lease_part (unregister_push_subscription device endpoint s) = lease_part s"
  "lease_part (prune_push_subscriptions gone s) = lease_part s"
  "lease_part (snd (register_apns_token t dev s)) = lease_part s"
  "lease_part (unregister_apns_token device s) = lease_part s"
  "lease_part (snd (drain_pending_broker_messages s)) = lease_part s"
  by (simp_all add: watch_threads_def set_watched_threads_for_generation_def open_surface_generation_def
      drop_watched_surface_generation_def drop_watched_surface_def register_push_subscription_def
      unregister_push_subscription_def prune_push_subscriptions_def register_apns_token_def
      unregister_apns_token_def drain_pending_broker_messages_def Let_def split: option.splits)

fun moves_leases :: "device_event \<Rightarrow> bool" where
  "moves_leases (Ev_Presence _ _) = True"
| "moves_leases (Ev_Welcome _) = True"
| "moves_leases (Ev_Broker_Connection connected) = (\<not> connected)"
| "moves_leases Ev_Restart = True"
| "moves_leases _ = False"

lemma lease_step:
  "\<not> moves_leases e \<Longrightarrow> lease_part (ap_relay (device_step lib fs a e)) = lease_part (ap_relay a)"
  by (cases e) (simp_all add: lease_flow lease_finish lease_revocations lease_claims lease_seen lease_requests lease_watch
      update_broker_connection_def set_broker_connection_def)


section \<open>A lease that ended\<close>

text \<open>The counter is past it and the connection does not hold it.\<close>

definition ended :: "string \<Rightarrow> u64 \<Rightarrow> relay_devices \<Rightarrow> bool" where
  "ended peer lease s \<longleftrightarrow> lease < rl_next_lease s \<and> rl_leases s peer \<noteq> Some lease"

definition leased :: "relay_devices \<Rightarrow> bool" where
  "leased s \<longleftrightarrow> dom (rl_leases s) \<subseteq> set (rl_online s)"

lemma lease_part_eq:
  "lease_part s' = lease_part s \<Longrightarrow>
     rl_leases s' = rl_leases s \<and> rl_next_lease s' = rl_next_lease s \<and> rl_online s' = rl_online s"
  by (simp add: lease_part_def)

lemma open_lease_ended:
  assumes "lease < rl_next_lease s"
  shows "lease < rl_next_lease (open_surface_lease peer s)"
    and "rl_leases (open_surface_lease peer s) k = Some lease \<longleftrightarrow> k \<noteq> peer \<and> rl_leases s k = Some lease"
  using assms by (auto simp: open_surface_lease_def intro: less_le_trans [OF _ sat_add_ge])

lemma open_leases_ended:
  "lease < rl_next_lease s \<Longrightarrow> lease < rl_next_lease (fold open_surface_lease peers s) \<and>
     (rl_leases (fold open_surface_lease peers s) k = Some lease \<longleftrightarrow> k \<notin> set peers \<and> rl_leases s k = Some lease)"
  by (induction peers arbitrary: s) (auto simp: open_lease_ended)

lemma revoke_leases_ended:
  "rl_next_lease (fold revoke_surface_lease peers s) = rl_next_lease s \<and>
   rl_leases (fold revoke_surface_lease peers s) k = (if k \<in> set peers then None else rl_leases s k)"
  by (induction peers arbitrary: s) (auto simp: revoke_surface_lease_def)

lemma open_leases_dom:
  "rl_online (fold open_surface_lease peers s) = rl_online s \<and>
   dom (rl_leases (fold open_surface_lease peers s)) \<subseteq> dom (rl_leases s) \<union> set peers"
proof (induction peers arbitrary: s)
  case (Cons p peers)
  show ?case using Cons [of "open_surface_lease p s"] by (auto simp: open_surface_lease_def)
qed simp

lemma moved_leases:
  "rl_leases (mark_surface_peer_online peer s) = rl_leases (open_surface_lease peer s)"
  "rl_next_lease (mark_surface_peer_online peer s) = rl_next_lease (open_surface_lease peer s)"
  "rl_leases (mark_surface_peer_offline peer s) = (rl_leases s)(peer := None)"
  "rl_next_lease (mark_surface_peer_offline peer s) = rl_next_lease s"
  "rl_online (mark_surface_peer_online peer s) = List.insert peer (rl_online s)"
  "rl_online (mark_surface_peer_offline peer s) = removeAll peer (rl_online s)"
  by (simp_all add: mark_surface_peer_online_def mark_surface_peer_offline_def open_surface_lease_def
      revoke_surface_lease_def prune_offline_broker_surfaces_def Let_def)

lemma welcomed_leases:
  fixes peers :: "string list"
  defines "o' \<equiv> remdups peers"
  shows "lease < rl_next_lease s \<Longrightarrow> lease < rl_next_lease (replace_online_surface_peers peers s)"
    and "lease < rl_next_lease s \<Longrightarrow> rl_leases (replace_online_surface_peers peers s) k \<noteq> Some lease"
    and "leased (replace_online_surface_peers peers s)"
proof -
  let ?s = "s\<lparr>rl_online := o', rl_leases := retain_map (\<lambda>peer _. peer \<in> set o') (rl_leases s),
      rl_book := drop_request_sessions_except_peers o' (rl_book s)\<rparr>"
  have fields: "rl_next_lease (replace_online_surface_peers peers s) = rl_next_lease (fold open_surface_lease o' ?s)"
    "rl_leases (replace_online_surface_peers peers s) = rl_leases (fold open_surface_lease o' ?s)"
    "rl_online (replace_online_surface_peers peers s) = rl_online (fold open_surface_lease o' ?s)"
    by (simp_all add: replace_online_surface_peers_def prune_offline_broker_surfaces_def o'_def Let_def)
  show "lease < rl_next_lease s \<Longrightarrow> lease < rl_next_lease (replace_online_surface_peers peers s)"
    using open_leases_ended [of lease ?s] by (simp add: fields)
  show "lease < rl_next_lease s \<Longrightarrow> rl_leases (replace_online_surface_peers peers s) k \<noteq> Some lease"
    using open_leases_ended [of lease ?s o' k] by (simp add: fields)
  show "leased (replace_online_surface_peers peers s)"
    using open_leases_dom [of o' ?s] by (auto simp: leased_def fields)
qed

lemma disconnected_leases:
  "rl_next_lease (set_broker_connection False s) = rl_next_lease s"
  "rl_leases (set_broker_connection False s) k = (if k \<in> set (rl_online s) then None else rl_leases s k)"
  "rl_online (set_broker_connection False s) = []"
  using revoke_leases_ended [of "rl_online s" "s\<lparr>rl_broker_connected := False\<rparr>"]
  by (simp_all add: set_broker_connection_def Let_def)

lemma disconnected_none: "leased s \<Longrightarrow> rl_leases (set_broker_connection False s) = Map.empty"
  by (rule ext) (auto simp: disconnected_leases leased_def)

lemma leased_step: "leased (ap_relay a) \<Longrightarrow> leased (ap_relay (device_step lib fs a e))"
proof (cases "moves_leases e")
  case False
  then show "leased (ap_relay a) \<Longrightarrow> leased (ap_relay (device_step lib fs a e))"
    using lease_part_eq [OF lease_step [OF False, of lib fs a]] by (simp add: leased_def)
next
  case True
  then show "leased (ap_relay a) \<Longrightarrow> leased (ap_relay (device_step lib fs a e))"
    by (cases e) (auto simp: leased_def moved_leases open_surface_lease_def disconnected_leases
        update_broker_connection_def disconnected_none [unfolded leased_def]
        welcomed_leases(3) [unfolded leased_def] restart_def load_devices_def prune_orphaned_push_subscriptions_def
        Let_def split: if_splits dest: welcomed_leases(3) [unfolded leased_def, THEN subsetD, OF domI])
qed

lemma ended_step:
  assumes "ended peer lease (ap_relay a)" "e \<noteq> Ev_Restart"
  shows "ended peer lease (ap_relay (device_step lib fs a e))"
proof (cases "moves_leases e")
  case False
  with assms(1) lease_part_eq [OF lease_step [OF False, of lib fs a]] show ?thesis by (simp add: ended_def)
next
  case True
  with assms show ?thesis
    by (cases e) (auto simp: ended_def moved_leases open_lease_ended update_broker_connection_def
        disconnected_leases welcomed_leases split: if_splits)
qed

fun ends_lease :: "string \<Rightarrow> relay_devices \<Rightarrow> device_event \<Rightarrow> bool" where
  "ends_lease peer s (Ev_Presence p _) = (p = peer)"
| "ends_lease peer s (Ev_Welcome _) = True"
| "ends_lease peer s (Ev_Broker_Connection connected) = (rl_broker_connected s \<and> \<not> connected)"
| "ends_lease peer s _ = False"

lemma lease_ends:
  assumes "leased (ap_relay a)" "lease < rl_next_lease (ap_relay a)" "ends_lease peer (ap_relay a) e"
  shows "ended peer lease (ap_relay (device_step lib fs a e))"
  using assms
  by (cases e) (auto simp: ended_def leased_def moved_leases open_lease_ended update_broker_connection_def
      disconnected_leases welcomed_leases
      split: if_splits)

text \<open>What a message does that arrives under a lease that ended.\<close>

definition powerless :: "string \<Rightarrow> u64 \<Rightarrow> relay_devices \<Rightarrow> bool" where
  "powerless peer lease s \<longleftrightarrow>
     (\<forall>f now_ms now. rf_peer_id f = peer \<longrightarrow> admit_leased_request f lease now_ms now s = (Adm_Duplicate, s)) \<and>
     (\<forall>device now t10 t40.
        issue_claim_challenge_outcome device peer lease now t10 t40 s = (Inl Connection_Replaced, s)) \<and>
     (\<forall>device cid claimed now now_ms sid r s'.
        issue_claim_outcome device peer cid claimed lease now now_ms sid s = (r, s') \<longrightarrow>
        r \<noteq> None \<and> rl_book s' = rl_book s \<and> rl_peer_devices s' = rl_peer_devices s \<and> rl_paired s' = rl_paired s) \<and>
     (\<forall>device now. mark_paired_device_seen device peer (Some lease) now s = (None, s)) \<and>
     (\<forall>fs device surface threads generation.
        watch_threads fs device (Some peer) (Some lease) surface threads generation s = s)"

lemma ended_powerless:
  assumes "rl_leases s peer \<noteq> Some lease"
  shows "powerless peer lease s"
  using assms
  by (auto simp: powerless_def admit_leased_request_def issue_claim_challenge_outcome_def mark_paired_device_seen_def
      surface_lease_is_current_def leased_claim_challenge_def ensure_surface_lease_def issue_claim_outcome_def
      leased_remote_claim_def watch_threads_def claim_challenge_def prune_expired_claim_challenges_def Let_def
      split: option.splits sum.splits prod.splits if_splits)

lemma ended_run:
  "ended peer lease (ap_relay a) \<Longrightarrow> Ev_Restart \<notin> set es \<Longrightarrow> ended peer lease (ap_relay (device_run lib fs es a))"
proof (induction es arbitrary: a)
  case (Cons e es)
  then have "ended peer lease (ap_relay (device_step lib fs a e))" by (intro ended_step) auto
  with Cons show ?case by (simp add: device_run_def)
qed (simp add: device_run_def)

text \<open>
  C9. A connection that was replaced is powerless: when a surface goes away, comes again or the broker
  connection is lost, the lease it had is over for good. Whatever happens in the same process after
  that, also when a surface of the same name is online again, what still arrives under the old lease
  is dropped: a signed request is answered as a duplicate, a challenge and a claim are refused and
  bind no device, nothing is marked as seen, no thread is watched, and no session is opened.
\<close>

theorem replaced_connection_powerless:
  assumes "leased (ap_relay a)" "lease < rl_next_lease (ap_relay a)" "ends_lease peer (ap_relay a) e" "Ev_Restart \<notin> set es"
  shows "powerless peer lease (ap_relay (device_run lib fs (e # es) a))"
proof -
  have "ended peer lease (ap_relay (device_run lib fs es (device_step lib fs a e)))"
    by (rule ended_run [OF lease_ends [OF assms(1-3)] assms(4)])
  then show ?thesis by (intro ended_powerless) (simp add: ended_def device_run_def)
qed

lemma replaced_connection_powerless_witness:
  "rl_leases (ap_relay (device_run sample_pairing_lib sample_fs [Ev_Presence ''s'' True] sample_app)) ''s'' = Some 1 \<and>
   powerless ''s'' 1 (ap_relay (device_run sample_pairing_lib sample_fs [Ev_Presence ''s'' False, Ev_Presence ''s'' True]
     (device_run sample_pairing_lib sample_fs [Ev_Presence ''s'' True] sample_app)))"
proof -
  let ?a = "device_run sample_pairing_lib sample_fs [Ev_Presence ''s'' True] sample_app"
  have "leased (ap_relay ?a)" "1 < rl_next_lease (ap_relay ?a)" "rl_leases (ap_relay ?a) ''s'' = Some 1"
    by (simp_all add: device_run_def leased_def moved_leases open_surface_lease_def sample_app_def sample_relay_def sat_add_def)
  with replaced_connection_powerless [of ?a 1 "''s''" "Ev_Presence ''s'' False" "[Ev_Presence ''s'' True]"]
  show ?thesis by simp
qed


interpretation connections: invariant_machine "device_step lib fs" "\<lambda>a. leased (ap_relay a)" for lib fs
  by unfold_locales (rule leased_step)

section \<open>The queue of broker messages\<close>

definition waiting_threads :: "broker_message list \<Rightarrow> string set" where
  "waiting_threads ms = set (List.map_filter transcript_thread_id ms)"

definition pairing_messages :: "broker_message list \<Rightarrow> broker_message list" where
  "pairing_messages ms = filter (\<lambda>m. transcript_thread_id m = None) ms"

definition queue_bounded :: "relay_devices \<Rightarrow> bool" where
  "queue_bounded s \<longleftrightarrow>
     (let frames = transcript_frames (rl_messages s)
      in length frames \<le> MAX_PENDING_TRANSCRIPT_FRAMES \<or> distinct (map transcript_thread_id frames))"

lemma waiting_alt: "waiting_threads ms = (\<Union>x\<in>set (map transcript_thread_id ms). set_option x)"
  by (force simp: waiting_threads_def map_filter_def)

lemma waiting_simps [simp]:
  "waiting_threads [] = {}"
  "waiting_threads (ms @ ns) = waiting_threads ms \<union> waiting_threads ns"
  "waiting_threads (m # ms) = set_option (transcript_thread_id m) \<union> waiting_threads ms"
  "waiting_threads (rev ms) = waiting_threads ms"
  by (simp_all add: waiting_alt)

lemma stamped_thread [simp]: "transcript_thread_id (stamp_generation g m) = transcript_thread_id m"
  by (cases m) simp_all

text \<open>Merging a resync into a queued one changes no message's thread.\<close>

lemma merge_latest_threads:
  "merge_latest r ms = Some ns \<Longrightarrow> map transcript_thread_id ns = map transcript_thread_id ms \<and>
     pairing_messages ns = pairing_messages ms \<and> ry_thread_id r \<in> waiting_threads ms"
  by (induction ms arbitrary: ns)
    (auto simp: pairing_messages_def split: if_splits broker_message.splits)

lemma waiting_map: "map transcript_thread_id ns = map transcript_thread_id ms \<Longrightarrow> waiting_threads ns = waiting_threads ms"
  by (simp only: waiting_alt)

lemma frames_alt: "map transcript_thread_id (transcript_frames ms) = filter (\<lambda>x. x \<noteq> None) (map transcript_thread_id ms)"
  by (simp add: transcript_frames_def filter_map comp_def)

lemma bounded_alt:
  "queue_bounded s \<longleftrightarrow>
     (let frames = filter (\<lambda>x. x \<noteq> None) (map transcript_thread_id (rl_messages s))
      in length frames \<le> MAX_PENDING_TRANSCRIPT_FRAMES \<or> distinct frames)"
  unfolding queue_bounded_def Let_def frames_alt [symmetric] length_map ..

lemma merge_queued_threads:
  assumes "merge_into_queued_resync r ms = Some ns"
  shows "map transcript_thread_id ns = map transcript_thread_id ms" "pairing_messages ns = pairing_messages ms"
    "ry_thread_id r \<in> waiting_threads ms"
proof -
  from assms obtain rs where rs: "merge_latest r (rev ms) = Some rs" "ns = rev rs"
    by (auto simp: merge_into_queued_resync_def)
  with merge_latest_threads [OF rs(1)]
  show "map transcript_thread_id ns = map transcript_thread_id ms" "pairing_messages ns = pairing_messages ms"
    "ry_thread_id r \<in> waiting_threads ms"
    by (auto simp: pairing_messages_def rev_map [symmetric] rev_filter [symmetric])
qed

lemma first_seen_set [simp]: "set (first_seen xs) = set xs" "distinct (first_seen xs)"
  by (simp_all add: first_seen_def)

definition dropped_resyncs :: "relay_devices \<Rightarrow> broker_message list" where
  "dropped_resyncs s = List.map_filter (\<lambda>thread.
     case rl_threads s thread of
       None \<Rightarrow> None
     | Some runtime \<Rightarrow>
         Some (Msg_Resync ((new_resync thread (th_transcript_revision runtime) Resync_FramesDropped)
           \<lparr>ry_generation := rl_transcript_generation s\<rparr>)))
     (first_seen (List.map_filter transcript_thread_id (rl_messages s)))"

lemma bound_alt:
  "rl_messages (bound_pending_transcript_frames s) =
     (if length (transcript_frames (rl_messages s)) \<le> MAX_PENDING_TRANSCRIPT_FRAMES then rl_messages s
      else pairing_messages (rl_messages s) @ dropped_resyncs s)"
  by (simp add: bound_pending_transcript_frames_def pairing_messages_def dropped_resyncs_def Let_def)

lemma dropped_threads:
  "map transcript_thread_id (dropped_resyncs s) =
     map Some (filter (\<lambda>thread. rl_threads s thread \<noteq> None) (first_seen (List.map_filter transcript_thread_id (rl_messages s))))"
proof -
  have "map transcript_thread_id (List.map_filter (\<lambda>thread.
     case rl_threads s thread of
       None \<Rightarrow> None
     | Some runtime \<Rightarrow>
         Some (Msg_Resync ((new_resync thread (th_transcript_revision runtime) Resync_FramesDropped)
           \<lparr>ry_generation := rl_transcript_generation s\<rparr>))) ts) = map Some (filter (\<lambda>thread. rl_threads s thread \<noteq> None) ts)" for ts
    by (induction ts) (auto simp: List.map_filter_simps new_resync_def split: option.splits)
  then show ?thesis by (simp add: dropped_resyncs_def)
qed

lemma dropped_pairings: "pairing_messages (dropped_resyncs s) = []"
proof -
  have "transcript_thread_id m \<noteq> None" if "m \<in> set (dropped_resyncs s)" for m
  proof -
    have "transcript_thread_id m \<in> set (map transcript_thread_id (dropped_resyncs s))" using that by simp
    then show ?thesis unfolding dropped_threads by auto
  qed
  then show ?thesis by (simp add: pairing_messages_def filter_empty_conv)
qed

lemma pairing_append [simp]: "pairing_messages (ms @ ns) = pairing_messages ms @ pairing_messages ns"
  "pairing_messages (pairing_messages ms) = pairing_messages ms"
  by (simp_all add: pairing_messages_def)

lemma bound_effect:
  shows "pairing_messages (rl_messages (bound_pending_transcript_frames s)) = pairing_messages (rl_messages s)"
    and "thread \<in> waiting_threads (rl_messages s) \<Longrightarrow> rl_threads s thread \<noteq> None \<Longrightarrow>
      thread \<in> waiting_threads (rl_messages (bound_pending_transcript_frames s))"
    and "queue_bounded (bound_pending_transcript_frames s)"
proof -
  show "pairing_messages (rl_messages (bound_pending_transcript_frames s)) = pairing_messages (rl_messages s)"
    by (simp add: bound_alt dropped_pairings)
  have "thread \<in> waiting_threads (dropped_resyncs s)"
    if "thread \<in> waiting_threads (rl_messages s)" "rl_threads s thread \<noteq> None" for thread
    using that unfolding waiting_alt dropped_threads by (auto simp: waiting_threads_def [symmetric] waiting_alt)
  then show "thread \<in> waiting_threads (rl_messages s) \<Longrightarrow> rl_threads s thread \<noteq> None \<Longrightarrow>
      thread \<in> waiting_threads (rl_messages (bound_pending_transcript_frames s))"
    by (simp add: bound_alt)
  have none: "filter (\<lambda>x. x \<noteq> None) (map transcript_thread_id (pairing_messages ms)) = []" for ms
    by (induction ms) (auto simp: pairing_messages_def)
  have "distinct (filter (\<lambda>x. x \<noteq> None) (map transcript_thread_id (dropped_resyncs s)))"
    unfolding dropped_threads by (simp add: distinct_map)
  with none show "queue_bounded (bound_pending_transcript_frames s)"
    by (auto simp: bounded_alt bound_alt Let_def transcript_frames_def filter_map comp_def)
qed

lemma local_thread: "local_event_of m = None \<longleftrightarrow> transcript_thread_id m = None"
  by (cases m) simp_all

lemma targets_local [simp]:
  "broker_targets_for_thread fs thread (s\<lparr>rl_local_events := es\<rparr>) = broker_targets_for_thread fs thread s"
  by (simp add: broker_targets_for_thread_def broker_targets_def surface_watches_thread_def
      thread_is_readable_by_device_def ensure_thread_history_readable_def device_workspace_scope_def
      device_folder_limit_def cong: option.case_cong if_cong)

text \<open>A message is dropped, merged into a queued resync, or put at the end under the bound.\<close>

lemma queue_cases:
  obtains (dropped) thread where "rl_messages (queue_broker_message fs m s) = rl_messages s"
      "transcript_thread_id m = Some thread" "rl_broker_configured s \<longrightarrow> broker_targets_for_thread fs thread s = []"
  | (merged) r where "transcript_thread_id m = Some (ry_thread_id r)"
      "merge_into_queued_resync r (rl_messages s) = Some (rl_messages (queue_broker_message fs m s))"
  | (pushed) es where "rl_messages (queue_broker_message fs m s) =
      rl_messages (bound_pending_transcript_frames
        (s\<lparr>rl_local_events := es, rl_messages := rl_messages s @ [stamp_generation (rl_transcript_generation s) m]\<rparr>))"
proof -
  let ?m = "stamp_generation (rl_transcript_generation s) m"
  let ?es = "case local_event_of ?m of None \<Rightarrow> rl_local_events s | Some e \<Rightarrow> rl_local_events s @ [e]"
  let ?s = "s\<lparr>rl_local_events := ?es\<rparr>"
  have s: "(case local_event_of ?m of None \<Rightarrow> s | Some e \<Rightarrow> s\<lparr>rl_local_events := rl_local_events s @ [e]\<rparr>) = ?s"
    by (simp split: option.splits)
  show ?thesis
  proof (cases "transcript_thread_id m")
    case None
    then have "queue_broker_message fs m s = bound_pending_transcript_frames (?s\<lparr>rl_messages := rl_messages s @ [?m]\<rparr>)"
      using local_thread [of ?m] by (cases m) (simp_all add: queue_broker_message_def Let_def)
    then show ?thesis using pushed [of ?es] by simp
  next
    case (Some thread)
    show ?thesis
    proof (cases "rl_broker_configured s \<and> broker_targets_for_thread fs thread s \<noteq> []")
      case False
      then show ?thesis
        using dropped [of thread] Some local_thread [of ?m]
        by (auto simp: queue_broker_message_def Let_def s)
    next
      case True
      show ?thesis
      proof (cases "\<exists>r ms. ?m = Msg_Resync r \<and> merge_into_queued_resync r (rl_messages s) = Some ms")
        case True
        then obtain r ms where r: "?m = Msg_Resync r" "merge_into_queued_resync r (rl_messages s) = Some ms" by blast
        then have "transcript_thread_id m = Some (ry_thread_id r)"
          using stamped_thread [of "rl_transcript_generation s" m] by simp
        moreover from this have "rl_messages (queue_broker_message fs m s) = ms"
          using \<open>rl_broker_configured s \<and> broker_targets_for_thread fs thread s \<noteq> []\<close> Some r
          by (simp add: queue_broker_message_def Let_def)
        ultimately show ?thesis using merged [of r] r(2) by simp
      next
        case False
        have "rl_messages (queue_broker_message fs m s) =
            rl_messages (bound_pending_transcript_frames (?s\<lparr>rl_messages := rl_messages s @ [?m]\<rparr>))"
          using False \<open>rl_broker_configured s \<and> broker_targets_for_thread fs thread s \<noteq> []\<close> Some
            stamped_thread [of "rl_transcript_generation s" m]
          unfolding queue_broker_message_def Let_def s
          by (cases ?m) (auto split: option.splits)
        then show ?thesis using pushed [of ?es] by simp
      qed
    qed
  qed
qed

text \<open>
  C26. The queue forgets no pairing result and no thread that the relay runs: whatever broker message
  is queued, the pairing results that wait keep their order and their number, whether or not
  transcript frames overflow; a thread that had a frame waiting and that the relay still has a
  runtime for keeps a frame; a queued frame of such a thread leaves the thread waiting when a broker
  is configured and somebody watches the thread; and a queue with at most 4096 frames, or with at
  most one frame for each thread, stays so. An overflow drops the frames of threads that have no runtime any
  more.
\<close>

theorem queue_forgets_no_one:
  shows "pairing_messages (rl_messages (queue_broker_message fs m s)) =
      pairing_messages (rl_messages s) @ pairing_messages [m] \<and>
    (\<forall>thread. rl_threads s thread \<noteq> None \<longrightarrow> thread \<in> waiting_threads (rl_messages s) \<longrightarrow>
      thread \<in> waiting_threads (rl_messages (queue_broker_message fs m s))) \<and>
    (\<forall>thread. transcript_thread_id m = Some thread \<longrightarrow> rl_threads s thread \<noteq> None \<longrightarrow>
      rl_broker_configured s \<longrightarrow> broker_targets_for_thread fs thread s \<noteq> [] \<longrightarrow>
      thread \<in> waiting_threads (rl_messages (queue_broker_message fs m s))) \<and>
    (queue_bounded s \<longrightarrow> queue_bounded (queue_broker_message fs m s))"
proof (cases rule: queue_cases [of fs m s])
  case (dropped thread)
  then have "pairing_messages [m] = []" by (simp add: pairing_messages_def)
  with dropped show ?thesis by (auto simp: queue_bounded_def)
next
  case (merged r)
  note merge = merge_queued_threads [OF merged(2)]
  have "pairing_messages [m] = []" using merged(1) by (simp add: pairing_messages_def)
  moreover have "queue_bounded (queue_broker_message fs m s) = queue_bounded s"
    unfolding bounded_alt merge(1) ..
  ultimately show ?thesis
    using merged(1) merge(2,3) waiting_map [OF merge(1)] by auto
next
  case (pushed es)
  let ?t = "s\<lparr>rl_local_events := es, rl_messages := rl_messages s @ [stamp_generation (rl_transcript_generation s) m]\<rparr>"
  have "pairing_messages [stamp_generation (rl_transcript_generation s) m] = pairing_messages [m]"
    by (cases m) (simp_all add: pairing_messages_def)
  then have "pairing_messages (rl_messages (queue_broker_message fs m s)) =
      pairing_messages (rl_messages s) @ pairing_messages [m]"
    unfolding pushed bound_effect(1) by simp
  moreover have "thread \<in> waiting_threads (rl_messages (queue_broker_message fs m s))"
    if "rl_threads s thread \<noteq> None" "thread \<in> waiting_threads (rl_messages s) \<or> transcript_thread_id m = Some thread" for thread
    unfolding pushed by (rule bound_effect(2)) (use that in auto)
  moreover have "queue_bounded (queue_broker_message fs m s)"
    using bound_effect(3) [of ?t] unfolding bounded_alt pushed .
  ultimately show ?thesis by blast
qed

definition watched_relay :: relay_devices where
  "watched_relay = sample_relay
     \<lparr>rl_online := [''peer''], rl_peer_devices := [''peer'' \<mapsto> ''d''],
      rl_paired := [(''d'', \<lparr>pd_device_id = ''d'', pd_label = ''Phone'', pd_payload_secret = ''k'',
        pd_device_verify_key = ''v'', pd_created_at = 1, pd_last_seen_at = None, pd_last_peer_id = None,
        pd_join_expires_at = None, pd_path_scope = [], pd_pairing_broker = None\<rparr>)],
      rl_active_thread := Some ''t'',
      rl_threads := [''t'' \<mapsto> \<lparr>th_current_cwd = [], th_transcript_revision = 3\<rparr>,
        ''u'' \<mapsto> \<lparr>th_current_cwd = [], th_transcript_revision = 1\<rparr>],
      rl_messages := [Msg_Pairing (refused_pairing_result ''p'' ''peer'' ''qr'' ''no''),
        Msg_Resync (new_resync ''u'' 1 Resync_WatchStarted)]\<rparr>"

lemma queue_forgets_no_one_witness:
  "waiting_threads (rl_messages (queue_broker_message sample_fs
     (Msg_Resync (new_resync ''t'' 3 Resync_RowsNotStreamed)) watched_relay)) \<supseteq> {''t'', ''u''} \<and>
   queue_bounded (queue_broker_message sample_fs (Msg_Resync (new_resync ''t'' 3 Resync_RowsNotStreamed)) watched_relay)"
proof -
  have "rl_broker_configured watched_relay" "rl_threads watched_relay ''t'' \<noteq> None" "rl_threads watched_relay ''u'' \<noteq> None"
    "''u'' \<in> waiting_threads (rl_messages watched_relay)"
    by (simp_all add: watched_relay_def sample_relay_def new_resync_def)
  moreover have "broker_targets_for_thread sample_fs ''t'' watched_relay \<noteq> []" by code_simp
  moreover have "queue_bounded watched_relay"
    by (simp add: bounded_alt watched_relay_def MAX_PENDING_TRANSCRIPT_FRAMES_def)
  ultimately show ?thesis
    using queue_forgets_no_one [of sample_fs "Msg_Resync (new_resync ''t'' 3 Resync_RowsNotStreamed)" watched_relay]
    by (simp add: new_resync_def)
qed

end
