(* ===== verification/Goal.thy ===== *)
theory Goal
  imports Hash_Map
begin

text \<open>
  A session's goal (\<open>state/goal.rs\<close>): its status and plan, and what may be done with it. The
  objective is the person's; an agent may report, ask and plan, and the relay charges each turn it
  starts on its own against a budget. Text is clipped by characters, as the code does.

  The error messages are the constructors of \<open>goal_error\<close>, with the numbers and words they carry.
\<close>

section \<open>Lines of text\<close>

text \<open>\<open>split_whitespace\<close>: the pieces between white space, none of them empty; \<open>w\<close> is the piece being read.\<close>

definition flush :: "string \<Rightarrow> string list" where
  "flush w = (if w = [] then [] else [w])"

fun split_words :: "string \<Rightarrow> string \<Rightarrow> string list" where
  "split_words w [] = flush w"
| "split_words w (c # s) =
     (if ascii_ws c then flush w @ split_words [] s
      else if take 2 (c # s) \<in> set ws_two then flush w @ split_words [] (drop 1 s)
      else if take 3 (c # s) \<in> set ws_three then flush w @ split_words [] (drop 2 s)
      else split_words (w @ [c]) s)"

fun join_with :: "string \<Rightarrow> string list \<Rightarrow> string" where
  "join_with sep [] = []"
| "join_with sep [w] = w"
| "join_with sep (w # v # ws) = w @ sep @ join_with sep (v # ws)"

definition char_count :: "string \<Rightarrow> nat" where
  "char_count s = length (filter (\<lambda>c. (of_char c :: nat) < 128 \<or> 192 \<le> (of_char c :: nat)) s)"

definition ellipsis :: string where "ellipsis = [CHR 0xE2, CHR 0x80, CHR 0xA6]"

definition clip_chars :: "string \<Rightarrow> nat \<Rightarrow> string" where
  "clip_chars s limit = (if limit < char_count s then take_chars limit s @ ellipsis else s)"

definition clean_line :: "string \<Rightarrow> nat \<Rightarrow> string" where
  "clean_line s limit = clip_chars (join_with '' '' (split_words [] s)) limit"

definition MAX_USIZE :: nat where "MAX_USIZE = 2 ^ 64 - 1"

definition MAX_GOAL_TURNS :: u32 where "MAX_GOAL_TURNS = 20"
definition MAX_GOAL_OBJECTIVE_CHARS :: nat where "MAX_GOAL_OBJECTIVE_CHARS = 8000"
definition MAX_GOAL_STEPS :: nat where "MAX_GOAL_STEPS = 12"
definition MAX_GOAL_STEP_TITLE_CHARS :: nat where "MAX_GOAL_STEP_TITLE_CHARS = 120"
definition MAX_GOAL_STEP_NOTE_CHARS :: nat where "MAX_GOAL_STEP_NOTE_CHARS = 200"
definition MAX_GOAL_LEFT_FOR_YOU :: nat where "MAX_GOAL_LEFT_FOR_YOU = 6"
definition MAX_GOAL_OPTIONS :: nat where "MAX_GOAL_OPTIONS = 4"
definition MAX_GOAL_LIST_ITEM_CHARS :: nat where "MAX_GOAL_LIST_ITEM_CHARS = 300"

definition clean_list :: "string list \<Rightarrow> nat \<Rightarrow> string list" where
  "clean_list items max_items =
     take max_items (filter (\<lambda>item. item \<noteq> []) (map (\<lambda>item. clean_line item MAX_GOAL_LIST_ITEM_CHARS) items))"

section \<open>Statuses\<close>

datatype goal_status =
    Goal_Active
  | Goal_Awaiting_User
  | Goal_Complete_Claimed
  | Goal_Blocked
  | Goal_Out_Of_Turns
  | Goal_Interrupted
  | Goal_Cancelled

definition is_driving :: "goal_status \<Rightarrow> bool" where
  "is_driving st \<longleftrightarrow> st = Goal_Active"

definition goal_is_live :: "goal_status \<Rightarrow> bool" where
  "goal_is_live st \<longleftrightarrow> st \<noteq> Goal_Cancelled"

fun goal_status_as_str :: "goal_status \<Rightarrow> string" where
  "goal_status_as_str Goal_Active = ''active''"
| "goal_status_as_str Goal_Awaiting_User = ''awaiting_user''"
| "goal_status_as_str Goal_Complete_Claimed = ''complete_claimed''"
| "goal_status_as_str Goal_Blocked = ''blocked''"
| "goal_status_as_str Goal_Out_Of_Turns = ''out_of_turns''"
| "goal_status_as_str Goal_Interrupted = ''interrupted''"
| "goal_status_as_str Goal_Cancelled = ''cancelled''"

definition goal_status_from_wire :: "string \<Rightarrow> goal_status" where
  "goal_status_from_wire s =
     (if s = ''active'' then Goal_Active
      else if s = ''awaiting_user'' then Goal_Awaiting_User
      else if s = ''complete_claimed'' then Goal_Complete_Claimed
      else if s = ''blocked'' then Goal_Blocked
      else if s = ''out_of_turns'' then Goal_Out_Of_Turns
      else if s = ''interrupted'' then Goal_Interrupted
      else Goal_Cancelled)"

interpretation goal_status_wire: wire_enum goal_status_as_str goal_status_from_wire Goal_Cancelled
proof unfold_locales
  show "goal_status_from_wire (goal_status_as_str x) = x" for x
    by (cases x) (simp_all add: goal_status_from_wire_def)
  show "goal_status_from_wire s \<noteq> Goal_Cancelled \<Longrightarrow> goal_status_as_str (goal_status_from_wire s) = s" for s
    by (auto simp: goal_status_from_wire_def split: if_splits)
qed

datatype goal_step_status = Step_Pending | Step_Active | Step_Done

fun step_status_as_str :: "goal_step_status \<Rightarrow> string" where
  "step_status_as_str Step_Pending = ''pending''"
| "step_status_as_str Step_Active = ''active''"
| "step_status_as_str Step_Done = ''done''"

definition step_status_parse :: "string \<Rightarrow> goal_step_status option" where
  "step_status_parse s =
     (if s = ''pending'' then Some Step_Pending
      else if s = ''active'' then Some Step_Active
      else if s = ''done'' then Some Step_Done
      else None)"

definition step_status_from_wire :: "string \<Rightarrow> goal_step_status" where
  "step_status_from_wire s = (case step_status_parse s of None \<Rightarrow> Step_Pending | Some st \<Rightarrow> st)"

interpretation step_status_wire: wire_enum step_status_as_str step_status_from_wire Step_Pending
proof unfold_locales
  show "step_status_from_wire (step_status_as_str x) = x" for x
    by (cases x) (simp_all add: step_status_from_wire_def step_status_parse_def)
  show "step_status_from_wire s \<noteq> Step_Pending \<Longrightarrow> step_status_as_str (step_status_from_wire s) = s" for s
    by (auto simp: step_status_from_wire_def step_status_parse_def split: if_splits)
qed

section \<open>The record\<close>

datatype goal_error =
    Say_What
  | Say_Why
  | No_Goal
  | Not_Handed_Over
  | Bad_Step_Status
  | No_Steps_Given
  | Too_Many_Steps nat
  | Step_Too_Long string
  | No_Plan_Yet
  | Step_Out_Of_Range nat
  | No_Such_Session
  | No_Session_Tools
  | Cannot_Stop_Itself
  | Belongs_To_Task
  | Is_The_Orchestrator
  | Driven_Elsewhere
  | Card_Out_Of_Date
  | Objective_Too_Long nat nat
  | Turn_Starting
  | Old_Turn_Under_Way
  | Old_Turn_Still_Running
  | Stopped_Turn_Still_Running

record goal_settlement =
  gt_outcome :: string
  gt_left_for_you :: "string list"
  gt_options :: "string list"

record goal_step =
  gp_title :: string
  gp_status :: goal_step_status
  gp_note :: "string option"
  gp_turn :: "u32 option"

record goal_step_view =
  pv_title :: string
  pv_status :: string
  pv_note :: "string option"
  pv_turn :: "u32 option"

definition step_view :: "goal_step \<Rightarrow> goal_step_view" where
  "step_view p =
     \<lparr>pv_title = gp_title p, pv_status = step_status_as_str (gp_status p), pv_note = gp_note p, pv_turn = gp_turn p\<rparr>"

record goal =
  gl_id :: string
  gl_thread_id :: string
  gl_objective :: string
  gl_status :: goal_status
  gl_turns :: u32
  gl_outcome :: "string option"
  gl_dispatch_open :: bool
  gl_dispatch_landed :: bool
  gl_dispatch_turn_id :: "string option"
  gl_dispatch_generation :: u64
  gl_steps :: "goal_step list"
  gl_left_for_you :: "string list"
  gl_options :: "string list"
  gl_settlement_seq :: "u32 option"
  gl_turn_seq :: "u32 option"
  gl_created_at :: u64
  gl_updated_at :: u64

record goal_view =
  vw_id :: string
  vw_thread_id :: string
  vw_objective :: string
  vw_status :: string
  vw_turns :: u32
  vw_max_turns :: u32
  vw_outcome :: "string option"
  vw_updated_at :: u64
  vw_provider :: string
  vw_steps :: "goal_step_view list"
  vw_left_for_you :: "string list"
  vw_options :: "string list"
  vw_settlement_seq :: "u32 option"

definition view_of_goal :: "goal \<Rightarrow> goal_view" where
  "view_of_goal g =
     \<lparr>vw_id = gl_id g, vw_thread_id = gl_thread_id g, vw_objective = gl_objective g,
      vw_status = goal_status_as_str (gl_status g), vw_turns = gl_turns g, vw_max_turns = MAX_GOAL_TURNS,
      vw_outcome = gl_outcome g, vw_updated_at = gl_updated_at g, vw_provider = [],
      vw_steps = map step_view (gl_steps g), vw_left_for_you = gl_left_for_you g,
      vw_options = gl_options g, vw_settlement_seq = gl_settlement_seq g\<rparr>"

definition new_goal :: "string \<Rightarrow> string \<Rightarrow> string \<Rightarrow> u64 \<Rightarrow> goal" where
  "new_goal gid thread objective now =
     \<lparr>gl_id = gid, gl_thread_id = thread, gl_objective = objective, gl_status = Goal_Active,
      gl_turns = 0, gl_outcome = None, gl_dispatch_open = False, gl_dispatch_landed = False,
      gl_dispatch_turn_id = None, gl_dispatch_generation = 0, gl_steps = [], gl_left_for_you = [],
      gl_options = [], gl_settlement_seq = None, gl_turn_seq = None, gl_created_at = now, gl_updated_at = now\<rparr>"

section \<open>What is done with it\<close>

definition close_dispatch :: "goal \<Rightarrow> goal" where
  "close_dispatch g = g\<lparr>gl_dispatch_open := False, gl_dispatch_landed := False, gl_dispatch_turn_id := None\<rparr>"

definition settle :: "u64 \<Rightarrow> goal_status \<Rightarrow> string \<Rightarrow> goal \<Rightarrow> goal" where
  "settle now st outcome g =
     (if gl_status g = Goal_Cancelled then g
      else (close_dispatch (g\<lparr>gl_status := st, gl_outcome := Some outcome, gl_left_for_you := [],
              gl_options := [], gl_settlement_seq := None\<rparr>))\<lparr>gl_updated_at := now\<rparr>)"

text \<open>A step whose title is kept moves over with its progress; each old step serves one new line.\<close>

definition fresh_step :: "string \<Rightarrow> goal_step" where
  "fresh_step title = \<lparr>gp_title = title, gp_status = Step_Pending, gp_note = None, gp_turn = None\<rparr>"

fun carry_steps :: "string list \<Rightarrow> goal_step list \<Rightarrow> goal_step list" where
  "carry_steps [] previous = []"
| "carry_steps (title # titles) previous =
     (case take_first (\<lambda>p. gp_title p = title) previous of
        Some (p, rest) \<Rightarrow> p # carry_steps titles rest
      | None \<Rightarrow> fresh_step title # carry_steps titles previous)"

definition plan_titles :: "string list \<Rightarrow> string list" where
  "plan_titles titles = filter (\<lambda>title. title \<noteq> []) (map (\<lambda>title. clean_line title MAX_USIZE) titles)"

definition plan_steps :: "u64 \<Rightarrow> string list \<Rightarrow> goal \<Rightarrow> goal_error + goal" where
  "plan_steps now given g =
     (let titles = plan_titles given in
      if titles = [] then Inl No_Steps_Given
      else if MAX_GOAL_STEPS < length titles then Inl (Too_Many_Steps (length titles))
      else
        case find (\<lambda>title. MAX_GOAL_STEP_TITLE_CHARS < char_count title) titles of
          Some long \<Rightarrow> Inl (Step_Too_Long (clip_chars long 40))
        | None \<Rightarrow> Inr (g\<lparr>gl_steps := carry_steps titles (gl_steps g), gl_updated_at := now\<rparr>))"

text \<open>Steps are numbered from 1, as the agent was shown them.\<close>

definition moved_step :: "u32 \<Rightarrow> goal_step_status \<Rightarrow> string option \<Rightarrow> goal_step \<Rightarrow> goal_step" where
  "moved_step turn st note p =
     (let p = (if gp_status p \<noteq> st then p\<lparr>gp_status := st, gp_turn := Some turn\<rparr> else p)
      in case note of None \<Rightarrow> p
         | Some note \<Rightarrow>
             (let note = clean_line note MAX_GOAL_STEP_NOTE_CHARS
              in p\<lparr>gp_note := (if note = [] then None else Some note)\<rparr>))"

definition move_step :: "u64 \<Rightarrow> int \<Rightarrow> goal_step_status \<Rightarrow> string option \<Rightarrow> goal \<Rightarrow> goal_error + goal" where
  "move_step now step st note g =
     (let total = length (gl_steps g) in
      if total = 0 then Inl No_Plan_Yet
      else if step < 1 \<or> int total < step then Inl (Step_Out_Of_Range total)
      else
        Inr (g\<lparr>gl_steps := update_at (nat step - 1) (moved_step (gl_turns g) st note) (gl_steps g),
               gl_updated_at := now\<rparr>))"

text \<open>The first step being worked on, with its index.\<close>

definition current_step :: "goal \<Rightarrow> (nat \<times> goal_step) option" where
  "current_step g = find (\<lambda>(i, p). gp_status p = Step_Active) (enumerate 0 (gl_steps g))"

definition supersede_dispatch :: "u64 \<Rightarrow> goal \<Rightarrow> goal" where
  "supersede_dispatch now g =
     (close_dispatch (g\<lparr>gl_status := Goal_Active, gl_outcome := None, gl_left_for_you := [],
        gl_options := [], gl_settlement_seq := None\<rparr>))
     \<lparr>gl_dispatch_generation := sat_add (gl_dispatch_generation g) 1, gl_updated_at := now\<rparr>"

definition resume_on_reply :: "u64 \<Rightarrow> goal \<Rightarrow> bool \<times> goal" where
  "resume_on_reply now g =
     (if gl_status g = Goal_Awaiting_User \<or> gl_status g = Goal_Blocked then (True, supersede_dispatch now g)
      else (False, g))"

definition revise :: "u64 \<Rightarrow> string \<Rightarrow> bool \<Rightarrow> goal \<Rightarrow> goal" where
  "revise now objective reset_turns g =
     (let g = (if reset_turns \<or> gl_status g = Goal_Out_Of_Turns then g\<lparr>gl_turns := 0\<rparr> else g);
          g = (if objective \<noteq> gl_objective g then g\<lparr>gl_steps := []\<rparr> else g)
      in supersede_dispatch now (g\<lparr>gl_objective := objective\<rparr>))"

definition hand_over :: "u64 \<Rightarrow> goal \<Rightarrow> goal" where
  "hand_over now g =
     (let g = g\<lparr>gl_turns := sat_add (gl_turns g) 1, gl_turn_seq := None, gl_dispatch_open := True,
                gl_dispatch_landed := False, gl_dispatch_turn_id := None,
                gl_dispatch_generation := sat_add (gl_dispatch_generation g) 1, gl_updated_at := now\<rparr>
      in if MAX_GOAL_TURNS \<le> gl_turns g then g\<lparr>gl_status := Goal_Out_Of_Turns\<rparr> else g)"

definition dispatch_landed :: "u64 \<Rightarrow> goal \<Rightarrow> goal" where
  "dispatch_landed now g =
     (if gl_dispatch_open g then g\<lparr>gl_dispatch_landed := True, gl_updated_at := now\<rparr> else g)"

definition note_dispatch_turn :: "u64 \<Rightarrow> string option \<Rightarrow> goal \<Rightarrow> goal" where
  "note_dispatch_turn generation turn g =
     (if gl_dispatch_generation g = generation \<and> gl_dispatch_open g
      then g\<lparr>gl_dispatch_turn_id := turn\<rparr> else g)"

definition dispatch_never_started :: "goal \<Rightarrow> bool" where
  "dispatch_never_started g \<longleftrightarrow> gl_dispatch_open g \<and> \<not> gl_dispatch_landed g"

text \<open>After a restart a goal that was being driven is interrupted, and nothing may report on it.\<close>

definition restored_goal :: "goal \<Rightarrow> goal" where
  "restored_goal g =
     close_dispatch (if is_driving (gl_status g) then g\<lparr>gl_status := Goal_Interrupted\<rparr> else g)"

end
