(* ===== verification/Goal_Desk.thy ===== *)
theory Goal_Desk
  imports Goal Workspace_Scope
begin

text \<open>
  The goals a relay holds (\<open>state/app/goal.rs\<close>, the goal operations of \<open>state/relay.rs\<close> and
  \<open>state/relay/goal_marks.rs\<close>): what a person may write and stop, what an agent may report, and
  how the relay hands the objective back.

  An operation is the part its write lock covers, so it is one step; what it does after the lock is
  a second function, of what it then sees of the provider's turn. What the rest of the relay says
  of the thread is a \<open>goal_env\<close>, read under the same lock.
\<close>

section \<open>Turn lines and settlement cards\<close>

record goal_step_ref =
  sr_index :: u32
  sr_total :: u32
  sr_title :: string

record goal_turn_mark =
  tm_seq :: u32
  tm_turn :: u32
  tm_max_turns :: u32
  tm_step :: "goal_step_ref option"

record goal_settlement_mark =
  sm_seq :: u32
  sm_status :: string
  sm_objective :: string
  sm_turns :: u32
  sm_max_turns :: u32
  sm_steps :: "goal_step_view list"
  sm_left_for_you :: "string list"
  sm_report :: string
  sm_options :: "string list"
  sm_settled_at :: u64
  sm_resolution :: "string option"

record goal_mark =
  gm_id :: string
  gm_thread_id :: string
  gm_provider :: string
  gm_next_seq :: u32
  gm_turns :: "goal_turn_mark list"
  gm_settlements :: "goal_settlement_mark list"
  gm_updated_at :: u64

text \<open>\<open>gd_next\<close> is the process-wide counter of arrivals, \<open>gd_ingress\<close> the last arrival that changed each goal.\<close>

record goal_desk =
  gd_goals :: "(string, goal) rows"
  gd_ingress :: "(string, u64) rows"
  gd_marks :: "(string, goal_mark) rows"
  gd_next :: u64

definition empty_desk :: goal_desk where
  "empty_desk = \<lparr>gd_goals = [], gd_ingress = [], gd_marks = [], gd_next = 1\<rparr>"

definition goal_for_thread :: "string \<Rightarrow> goal_desk \<Rightarrow> goal option" where
  "goal_for_thread thread d = map_of (gd_goals d) thread"

definition set_goal :: "goal \<Rightarrow> goal_desk \<Rightarrow> goal_desk" where
  "set_goal g d = d\<lparr>gd_goals := AList.update (gl_thread_id g) g (gd_goals d)\<rparr>"

definition update_goal :: "string \<Rightarrow> (goal \<Rightarrow> goal) \<Rightarrow> goal_desk \<Rightarrow> goal_desk" where
  "update_goal thread f d = d\<lparr>gd_goals := adjust thread f (gd_goals d)\<rparr>"

definition threads_with_driving_goals :: "goal_desk \<Rightarrow> string list" where
  "threads_with_driving_goals d =
     sort (map gl_thread_id (filter (\<lambda>g. is_driving (gl_status g)) (map snd (gd_goals d))))"

text \<open>The newest first, then by id; goals that agree in both come in the order of the hash map.\<close>

definition goals_view :: "(string \<Rightarrow> string) \<Rightarrow> goal_desk \<Rightarrow> goal_view list" where
  "goals_view provider_of_thread d =
     map (\<lambda>g. (view_of_goal g)\<lparr>vw_provider := provider_of_thread (gl_thread_id g)\<rparr>)
       (rev (sort_key gl_updated_at
         (sort_key gl_id (filter (\<lambda>g. goal_is_live (gl_status g)) (map snd (gd_goals d))))))"

definition take_seq :: "goal_mark \<Rightarrow> u32 \<times> goal_mark" where
  "take_seq m = (let q = sat_add (gm_next_seq m) 1 in (q, m\<lparr>gm_next_seq := q\<rparr>))"

definition step_ref :: "goal \<Rightarrow> nat \<times> goal_step \<Rightarrow> goal_step_ref" where
  "step_ref g found =
     \<lparr>sr_index = of_nat (fst found) + 1, sr_total = of_nat (length (gl_steps g)), sr_title = gp_title (snd found)\<rparr>"

definition turn_step :: "goal \<Rightarrow> goal_step_ref option" where
  "turn_step g =
     map_option (step_ref g)
       (case find (\<lambda>(i, p). gp_turn p = Some (gl_turns g)) (enumerate 0 (gl_steps g)) of
          Some moved \<Rightarrow> Some moved
        | None \<Rightarrow> current_step g)"

definition goal_mark_for :: "goal \<Rightarrow> goal_desk \<Rightarrow> goal_mark" where
  "goal_mark_for g d =
     (case map_of (gd_marks d) (gl_id g) of
        Some m \<Rightarrow> m
      | None \<Rightarrow> \<lparr>gm_id = gl_id g, gm_thread_id = gl_thread_id g, gm_provider = [], gm_next_seq = 0,
                 gm_turns = [], gm_settlements = [], gm_updated_at = 0\<rparr>)"

definition store_goal_mark :: "u64 \<Rightarrow> goal_mark \<Rightarrow> goal_desk \<Rightarrow> goal_desk" where
  "store_goal_mark now m d = d\<lparr>gd_marks := AList.update (gm_id m) (m\<lparr>gm_updated_at := now\<rparr>) (gd_marks d)\<rparr>"

text \<open>The tag of a turn line or card is the goal's id and the number within its mark.\<close>

definition open_goal_turn_line ::
    "string \<Rightarrow> u64 \<Rightarrow> string \<Rightarrow> goal_desk \<Rightarrow> (string \<times> u32) option \<times> goal_desk" where
  "open_goal_turn_line provider now thread d =
     (case goal_for_thread thread d of
        None \<Rightarrow> (None, d)
      | Some g \<Rightarrow>
          let (q, m) = take_seq ((goal_mark_for g d)\<lparr>gm_provider := provider\<rparr>);
              line = \<lparr>tm_seq = q, tm_turn = gl_turns g, tm_max_turns = MAX_GOAL_TURNS,
                      tm_step = map_option (step_ref g) (current_step g)\<rparr>;
              d = store_goal_mark now (m\<lparr>gm_turns := gm_turns m @ [line]\<rparr>) d
          in (Some (gl_id g, q), update_goal thread (\<lambda>g. g\<lparr>gl_turn_seq := Some q\<rparr>) d))"

definition sync_goal_turn_line :: "u64 \<Rightarrow> string \<Rightarrow> goal_desk \<Rightarrow> goal_desk" where
  "sync_goal_turn_line now thread d =
     (case goal_for_thread thread d of
        None \<Rightarrow> d
      | Some g \<Rightarrow>
          case (gl_turn_seq g, gl_dispatch_open g, turn_step g) of
            (Some q, True, Some found) \<Rightarrow>
              (let m = goal_mark_for g d
               in case position (\<lambda>t. tm_seq t = q) (gm_turns m) of
                    None \<Rightarrow> d
                  | Some i \<Rightarrow>
                      if tm_step (gm_turns m ! i) \<noteq> None then d
                      else store_goal_mark now
                             (m\<lparr>gm_turns := update_at i (\<lambda>t. t\<lparr>tm_step := Some found\<rparr>) (gm_turns m)\<rparr>) d)
          | _ \<Rightarrow> d)"

definition settlement_card :: "u32 \<Rightarrow> u64 \<Rightarrow> goal \<Rightarrow> goal_settlement_mark" where
  "settlement_card q now g =
     \<lparr>sm_seq = q, sm_status = goal_status_as_str (gl_status g), sm_objective = gl_objective g,
      sm_turns = gl_turns g, sm_max_turns = MAX_GOAL_TURNS, sm_steps = map step_view (gl_steps g),
      sm_left_for_you = gl_left_for_you g,
      sm_report = (case gl_outcome g of None \<Rightarrow> [] | Some outcome \<Rightarrow> outcome),
      sm_options = gl_options g, sm_settled_at = now, sm_resolution = None\<rparr>"

definition record_goal_settlement ::
    "string \<Rightarrow> u64 \<Rightarrow> string \<Rightarrow> goal_desk \<Rightarrow> (string \<times> u32) option \<times> goal_desk" where
  "record_goal_settlement provider now thread d =
     (case goal_for_thread thread d of
        None \<Rightarrow> (None, d)
      | Some g \<Rightarrow>
          let (q, m) = take_seq ((goal_mark_for g d)\<lparr>gm_provider := provider\<rparr>);
              d = store_goal_mark now
                    (m\<lparr>gm_settlements := gm_settlements m @ [settlement_card q now g]\<rparr>) d
          in (Some (gl_id g, q), update_goal thread (\<lambda>g. g\<lparr>gl_settlement_seq := Some q\<rparr>) d))"

definition resolve_goal_settlement :: "u64 \<Rightarrow> goal \<Rightarrow> string \<Rightarrow> goal_desk \<Rightarrow> goal_desk" where
  "resolve_goal_settlement now g resolution d =
     (case (gl_settlement_seq g, map_of (gd_marks d) (gl_id g)) of
        (Some q, Some m) \<Rightarrow>
          (case position (\<lambda>c. sm_seq c = q) (gm_settlements m) of
             None \<Rightarrow> d
           | Some i \<Rightarrow>
               if sm_resolution (gm_settlements m ! i) \<noteq> None then d
               else store_goal_mark now
                      (m\<lparr>gm_settlements :=
                           update_at i (\<lambda>c. c\<lparr>sm_resolution := Some resolution\<rparr>) (gm_settlements m)\<rparr>) d)
      | _ \<Rightarrow> d)"

definition stop_resolution :: "goal_status \<Rightarrow> string" where
  "stop_resolution st = (if st = Goal_Complete_Claimed then ''accepted'' else ''cancelled'')"

section \<open>What the thread allows\<close>

record goal_env =
  ge_slot_free :: bool
  ge_cwd :: "string option"
  ge_scope :: workspace_scope
  ge_bound_provider :: "string option"
  ge_provider_hint :: "string option"
  ge_session_provider :: string
  ge_provider :: string
  ge_settings :: "(string \<times> string) option"
  ge_orchestrator_thread :: "string option"
  ge_team_seat :: bool
  ge_workflow_locked :: bool
  ge_team_locked :: bool
  ge_review_locked :: bool
  ge_runtime_working :: "bool option"
  ge_asks :: "(bool \<times> bool) list"
  ge_budget_refuses :: bool
  ge_drivable :: bool

definition ensure_thread_in_device_scope :: "file_system \<Rightarrow> goal_env \<Rightarrow> goal_error option" where
  "ensure_thread_in_device_scope fs v =
     (case ge_cwd v of
        None \<Rightarrow> Some No_Such_Session
      | Some cwd \<Rightarrow> if \<not> scope_allows fs cwd (ge_scope v) then Some No_Such_Session else None)"

definition supports_session_mcp :: "string \<Rightarrow> bool" where
  "supports_session_mcp provider \<longleftrightarrow>
     provider \<in> set [''codex'', ''claude'', ''claude_code'', ''cursor'', ''opencode'', ''pi'', ''fake'']"

definition session_is_unrestricted :: "string \<Rightarrow> string \<Rightarrow> string \<Rightarrow> bool" where
  "session_is_unrestricted provider approval sandbox \<longleftrightarrow>
     approval = ''bypass'' \<or>
     (provider \<in> set [''codex'', ''fake''] \<and> approval = ''never'' \<and> sandbox = ''danger-full-access'')"

definition thread_has_goal_tools :: "goal_env \<Rightarrow> bool" where
  "thread_has_goal_tools v \<longleftrightarrow>
     (case (case ge_bound_provider v of Some p \<Rightarrow> Some p | None \<Rightarrow> ge_provider_hint v) of
        None \<Rightarrow> True | Some provider \<Rightarrow> supports_session_mcp provider)"

definition thread_can_end_a_goal :: "goal_env \<Rightarrow> bool" where
  "thread_can_end_a_goal v \<longleftrightarrow>
     thread_has_goal_tools v \<and>
     (case ge_settings v of
        None \<Rightarrow> False
      | Some (approval, sandbox) \<Rightarrow> session_is_unrestricted (ge_session_provider v) approval sandbox)"

definition thread_has_non_ordinary_identity :: "goal_env \<Rightarrow> string \<Rightarrow> bool" where
  "thread_has_non_ordinary_identity v thread \<longleftrightarrow>
     ge_orchestrator_thread v = Some thread \<or> ge_team_seat v"

definition thread_has_active_competing_driver :: "goal_env \<Rightarrow> bool" where
  "thread_has_active_competing_driver v \<longleftrightarrow> ge_workflow_locked v \<or> ge_team_locked v"

definition thread_is_lent_to_a_review :: "goal_env \<Rightarrow> bool" where
  "thread_is_lent_to_a_review v \<longleftrightarrow> ge_review_locked v"

section \<open>What a person does\<close>

datatype goal_card_action = Keep_Going | Card_Stop

definition card_action_parse :: "string \<Rightarrow> goal_card_action option" where
  "card_action_parse s =
     (if s = ''keep_going'' then Some Keep_Going else if s = ''stop'' then Some Card_Stop else None)"

definition ensure_goal_on_card :: "string \<Rightarrow> u32 \<Rightarrow> goal_desk \<Rightarrow> goal_error option" where
  "ensure_goal_on_card thread q d =
     (case goal_for_thread thread d of
        None \<Rightarrow> Some Card_Out_Of_Date
      | Some g \<Rightarrow> if gl_settlement_seq g = Some q then None else Some Card_Out_Of_Date)"

definition next_relay_ingress :: "goal_desk \<Rightarrow> u64 \<times> goal_desk" where
  "next_relay_ingress d = (gd_next d, d\<lparr>gd_next := gd_next d + 1\<rparr>)"

definition claim_goal_ingress :: "string \<Rightarrow> u64 option \<Rightarrow> goal_desk \<Rightarrow> bool \<times> goal_desk" where
  "claim_goal_ingress thread ingress d =
     (let (i, d) = (case ingress of Some i \<Rightarrow> (i, d) | None \<Rightarrow> next_relay_ingress d)
      in case map_of (gd_ingress d) thread of
           Some applied \<Rightarrow>
             if i \<le> applied then (False, d)
             else (True, d\<lparr>gd_ingress := AList.update thread i (gd_ingress d)\<rparr>)
         | None \<Rightarrow> (True, d\<lparr>gd_ingress := AList.update thread i (gd_ingress d)\<rparr>))"

record goal_write =
  gw_thread :: string
  gw_objective :: "string option"
  gw_reset_turns :: bool
  gw_ingress :: "u64 option"
  gw_card :: "u32 option"

text \<open>The refusals of a write, in the order of the code.\<close>

definition goal_write_refused :: "file_system \<Rightarrow> goal_env \<Rightarrow> goal_write \<Rightarrow> goal_desk \<Rightarrow> goal_error option" where
  "goal_write_refused fs v w d =
     (case ensure_thread_in_device_scope fs v of
        Some e \<Rightarrow> Some e
      | None \<Rightarrow>
          if \<not> thread_has_goal_tools v then Some No_Session_Tools
          else if \<not> thread_can_end_a_goal v then Some Cannot_Stop_Itself
          else if thread_has_non_ordinary_identity v (gw_thread w)
          then Some (if ge_team_seat v then Belongs_To_Task else Is_The_Orchestrator)
          else if thread_has_active_competing_driver v \<or> thread_is_lent_to_a_review v
          then Some Driven_Elsewhere
          else case gw_card w of None \<Rightarrow> None | Some q \<Rightarrow> ensure_goal_on_card (gw_thread w) q d)"

definition objective_too_long :: "string \<Rightarrow> string \<Rightarrow> goal_desk \<Rightarrow> goal_error option" where
  "objective_too_long thread objective d =
     (let resuming_same = (case goal_for_thread thread d of
                             None \<Rightarrow> False | Some g \<Rightarrow> gl_objective g = objective);
          chars = char_count objective
      in if \<not> resuming_same \<and> MAX_GOAL_OBJECTIVE_CHARS < chars
         then Some (Objective_Too_Long chars (chars - MAX_GOAL_OBJECTIVE_CHARS)) else None)"

text \<open>
  What a write leaves to do once the lock is gone: the turn of the objective it replaced, or that
  one is on its way and has no id yet.
\<close>

datatype write_left = Overtaken | Written "string option" bool

definition place_goal ::
    "u64 \<Rightarrow> string \<Rightarrow> string \<Rightarrow> string \<Rightarrow> bool \<Rightarrow> goal_desk \<Rightarrow> write_left \<times> goal_desk" where
  "place_goal now suffix thread objective reset_turns d =
     (case goal_for_thread thread d of
        Some g \<Rightarrow>
          (Written (gl_dispatch_turn_id g) (gl_dispatch_open g \<and> gl_dispatch_turn_id g = None),
           update_goal thread (revise now objective reset_turns) (resolve_goal_settlement now g ''reopened'' d))
      | None \<Rightarrow>
          (Written None False,
           set_goal (new_goal (''goal-'' @ decimal (unat now) @ ''-'' @ suffix) thread objective now) d))"

definition write_goal ::
    "file_system \<Rightarrow> goal_env \<Rightarrow> u64 \<Rightarrow> string \<Rightarrow> goal_write \<Rightarrow> goal_desk \<Rightarrow> (goal_error + write_left) \<times> goal_desk" where
  "write_goal fs v now suffix w d =
     (if \<not> ge_slot_free v then (Inl Turn_Starting, d)
      else
        case goal_write_refused fs v w d of
          Some e \<Rightarrow> (Inl e, d)
        | None \<Rightarrow>
            case (case gw_objective w of
                    Some objective \<Rightarrow> Some objective
                  | None \<Rightarrow> map_option gl_objective (goal_for_thread (gw_thread w) d)) of
              None \<Rightarrow> (Inl No_Goal, d)
            | Some objective \<Rightarrow>
                case objective_too_long (gw_thread w) objective d of
                  Some e \<Rightarrow> (Inl e, d)
                | None \<Rightarrow>
                    let (claimed, d) = claim_goal_ingress (gw_thread w) (gw_ingress w) d
                    in if \<not> claimed then (Inr Overtaken, d)
                       else let (left, d) = place_goal now suffix (gw_thread w) objective (gw_reset_turns w) d
                            in (Inr left, d))"

text \<open>
  After the lock: whether the old turn is asked to stop, and the answer. The turn is only asked to
  stop while it is the one that runs.
\<close>

record turn_watch =
  tw_working :: bool
  tw_active_turn :: "string option"
  tw_drained :: bool
  tw_working_after :: bool

definition write_answer :: "write_left \<Rightarrow> turn_watch \<Rightarrow> goal_error option \<times> string option" where
  "write_answer left t =
     (case left of
        Overtaken \<Rightarrow> (None, None)
      | Written None in_flight \<Rightarrow> (if in_flight then Some Old_Turn_Under_Way else None, None)
      | Written (Some turn) in_flight \<Rightarrow>
          if tw_active_turn t \<noteq> Some turn then (None, None)
          else (if tw_drained t then None else Some Old_Turn_Still_Running, Some turn))"

definition set_goal_words ::
    "file_system \<Rightarrow> goal_env \<Rightarrow> u64 \<Rightarrow> string \<Rightarrow> string \<Rightarrow> string \<Rightarrow> bool \<Rightarrow> u64 option \<Rightarrow> goal_desk \<Rightarrow>
     (goal_error + write_left) \<times> goal_desk" where
  "set_goal_words fs v now suffix thread objective reset_turns ingress d =
     (let objective = trim objective
      in if objective = [] then (Inl Say_What, d)
         else write_goal fs v now suffix
                \<lparr>gw_thread = thread, gw_objective = Some objective, gw_reset_turns = reset_turns,
                 gw_ingress = ingress, gw_card = None\<rparr> d)"

datatype stop_left = Stop_Overtaken | Stopped bool "string option"

definition stop_goal ::
    "file_system \<Rightarrow> goal_env \<Rightarrow> u64 \<Rightarrow> string \<Rightarrow> u64 option \<Rightarrow> u32 option \<Rightarrow> goal_desk \<Rightarrow>
     (goal_error + stop_left) \<times> goal_desk" where
  "stop_goal fs v now thread ingress shown d =
     (if \<not> ge_slot_free v then (Inl Turn_Starting, d)
      else
        case (case ensure_thread_in_device_scope fs v of
                Some e \<Rightarrow> Some e
              | None \<Rightarrow> (case shown of None \<Rightarrow> None | Some q \<Rightarrow> ensure_goal_on_card thread q d)) of
          Some e \<Rightarrow> (Inl e, d)
        | None \<Rightarrow>
            let (claimed, d) = claim_goal_ingress thread ingress d
            in if \<not> claimed then (Inr Stop_Overtaken, d)
               else
                 case goal_for_thread thread d of
                   None \<Rightarrow> (Inl No_Goal, d)
                 | Some g \<Rightarrow>
                     (Inr (Stopped (gl_dispatch_open g) (gl_dispatch_turn_id g)),
                      update_goal thread (settle now Goal_Cancelled ''stopped by the user'')
                        (resolve_goal_settlement now g (stop_resolution (gl_status g)) d)))"

definition stop_answer :: "stop_left \<Rightarrow> turn_watch \<Rightarrow> goal_error option \<times> string option" where
  "stop_answer left t =
     (case left of
        Stop_Overtaken \<Rightarrow> (None, None)
      | Stopped handed_over goal_turn \<Rightarrow>
          if \<not> handed_over \<and> \<not> tw_working t then (None, None)
          else
            let (drained, asked) =
                  (case goal_turn of
                     Some turn \<Rightarrow>
                       if tw_active_turn t = Some turn then (tw_drained t, Some turn) else (True, None)
                   | None \<Rightarrow> (\<not> handed_over \<or> \<not> tw_working_after t, None))
            in (if drained then None else Some Stopped_Turn_Still_Running, asked))"

definition cancel_goal ::
    "file_system \<Rightarrow> goal_env \<Rightarrow> u64 \<Rightarrow> string \<Rightarrow> u64 option \<Rightarrow> goal_desk \<Rightarrow> (goal_error + stop_left) \<times> goal_desk" where
  "cancel_goal fs v now thread ingress d = stop_goal fs v now thread ingress None d"

text \<open>A card's button; it holds for the card the goal sits on now.\<close>

definition act_on_goal_card ::
    "file_system \<Rightarrow> goal_env \<Rightarrow> u64 \<Rightarrow> string \<Rightarrow> string \<Rightarrow> u32 \<Rightarrow> goal_card_action \<Rightarrow> u64 option \<Rightarrow>
     goal_desk \<Rightarrow> (goal_error + write_left + stop_left) \<times> goal_desk" where
  "act_on_goal_card fs v now suffix thread q action ingress d =
     (case action of
        Keep_Going \<Rightarrow>
          (let (r, d) = write_goal fs v now suffix
                          \<lparr>gw_thread = thread, gw_objective = None, gw_reset_turns = False,
                           gw_ingress = ingress, gw_card = Some q\<rparr> d
           in (map_sum (\<lambda>e. e) Inl r, d))
      | Card_Stop \<Rightarrow>
          (let (r, d) = stop_goal fs v now thread ingress (Some q) d in (map_sum (\<lambda>e. e) Inr r, d)))"

definition resume_goal_on_reply :: "u64 \<Rightarrow> string \<Rightarrow> goal_desk \<Rightarrow> goal_desk" where
  "resume_goal_on_reply now thread d =
     (case goal_for_thread thread d of
        None \<Rightarrow> d
      | Some g \<Rightarrow>
          if gl_status g \<noteq> Goal_Awaiting_User \<and> gl_status g \<noteq> Goal_Blocked then d
          else update_goal thread (\<lambda>g. snd (resume_on_reply now g)) (resolve_goal_settlement now g ''answered'' d))"

definition em_dash :: string where "em_dash = [CHR 0x20, CHR 0xE2, CHR 0x80, CHR 0x94, CHR 0x20]"

definition goal_driven :: "string \<Rightarrow> goal_desk \<Rightarrow> bool" where
  "goal_driven thread d \<longleftrightarrow>
     (case goal_for_thread thread d of None \<Rightarrow> False | Some g \<Rightarrow> is_driving (gl_status g))"

definition interrupt_goal_stopped_by_user :: "u64 \<Rightarrow> string \<Rightarrow> goal_desk \<Rightarrow> goal_desk" where
  "interrupt_goal_stopped_by_user now thread d =
     (if \<not> goal_driven thread d then d
      else update_goal thread
             (settle now Goal_Interrupted
               (''you stopped it'' @ em_dash @ ''press keep going when you want it to carry on'')) d)"

section \<open>What an agent does\<close>

definition plan_goal :: "u64 \<Rightarrow> string \<Rightarrow> string list \<Rightarrow> goal_desk \<Rightarrow> (goal_error + nat) \<times> goal_desk" where
  "plan_goal now thread steps d =
     (case goal_for_thread thread d of
        None \<Rightarrow> (Inl No_Goal, d)
      | Some g \<Rightarrow>
          if \<not> gl_dispatch_open g then (Inl Not_Handed_Over, d)
          else
            case plan_steps now steps g of
              Inl e \<Rightarrow> (Inl e, d)
            | Inr planned \<Rightarrow>
                (Inr (length (gl_steps planned)),
                 sync_goal_turn_line now thread (update_goal thread (\<lambda>_. planned) d)))"

definition move_goal_step ::
    "u64 \<Rightarrow> string \<Rightarrow> int \<Rightarrow> string \<Rightarrow> string option \<Rightarrow> goal_desk \<Rightarrow> (goal_error + unit) \<times> goal_desk" where
  "move_goal_step now thread step status note d =
     (case step_status_parse status of
        None \<Rightarrow> (Inl Bad_Step_Status, d)
      | Some st \<Rightarrow>
          case goal_for_thread thread d of
            None \<Rightarrow> (Inl No_Goal, d)
          | Some g \<Rightarrow>
              if \<not> gl_dispatch_open g then (Inl Not_Handed_Over, d)
              else
                case move_step now step st note g of
                  Inl e \<Rightarrow> (Inl e, d)
                | Inr moved \<Rightarrow>
                    (Inr (), sync_goal_turn_line now thread (update_goal thread (\<lambda>_. moved) d)))"

definition settle_goal ::
    "string \<Rightarrow> u64 \<Rightarrow> string \<Rightarrow> goal_status \<Rightarrow> goal_settlement \<Rightarrow> goal_desk \<Rightarrow>
     (goal_error + (string \<times> u32) option) \<times> goal_desk" where
  "settle_goal provider now thread status settlement d =
     (let outcome = trim (gt_outcome settlement)
      in if outcome = [] then (Inl Say_Why, d)
         else
           case goal_for_thread thread d of
             None \<Rightarrow> (Inl No_Goal, d)
           | Some g \<Rightarrow>
               if \<not> gl_dispatch_open g then (Inl Not_Handed_Over, d)
               else
                 let left_for_you = clean_list (gt_left_for_you settlement) MAX_GOAL_LEFT_FOR_YOU;
                     options = clean_list (gt_options settlement) MAX_GOAL_OPTIONS;
                     d = update_goal thread
                           (\<lambda>g. (settle now status outcome g)
                                  \<lparr>gl_left_for_you := left_for_you, gl_options := options\<rparr>) d;
                     (drawn, d) = record_goal_settlement provider now thread d
                 in (Inr drawn, d))"

text \<open>The goal tools as the dispatcher hands them on; \<open>goal_status\<close> only reads.\<close>

datatype goal_tool =
    Tool_Status
  | Tool_Plan "string list"
  | Tool_Step int string "string option"
  | Tool_Complete string "string list"
  | Tool_Blocked string
  | Tool_Needs_You string "string list"

datatype tool_done = Told | Planned nat | Moved int string | Reported "(string \<times> u32) option"

definition call_goal_tool ::
    "string \<Rightarrow> u64 \<Rightarrow> string \<Rightarrow> goal_tool \<Rightarrow> goal_desk \<Rightarrow> (goal_error + tool_done) \<times> goal_desk" where
  "call_goal_tool provider now caller tool d =
     (case tool of
        Tool_Status \<Rightarrow> (Inr Told, d)
      | Tool_Plan steps \<Rightarrow>
          (let (r, d) = plan_goal now caller steps d in (map_sum (\<lambda>e. e) Planned r, d))
      | Tool_Step step status note \<Rightarrow>
          (let (r, d) = move_goal_step now caller step status note d
           in (map_sum (\<lambda>e. e) (\<lambda>_. Moved step status) r, d))
      | Tool_Complete summary left_for_you \<Rightarrow>
          (let (r, d) = settle_goal provider now caller Goal_Complete_Claimed
                          \<lparr>gt_outcome = summary, gt_left_for_you = left_for_you, gt_options = []\<rparr> d
           in (map_sum (\<lambda>e. e) Reported r, d))
      | Tool_Blocked reason \<Rightarrow>
          (let (r, d) = settle_goal provider now caller Goal_Blocked
                          \<lparr>gt_outcome = reason, gt_left_for_you = [], gt_options = []\<rparr> d
           in (map_sum (\<lambda>e. e) Reported r, d))
      | Tool_Needs_You question options \<Rightarrow>
          (let (r, d) = settle_goal provider now caller Goal_Awaiting_User
                          \<lparr>gt_outcome = question, gt_left_for_you = [], gt_options = options\<rparr> d
           in (map_sum (\<lambda>e. e) Reported r, d)))"

end
