(* ===== verification/Goal_Drive.thy ===== *)
theory Goal_Drive
  imports Goal_Desk
begin

text \<open>
  How the relay hands an objective back (\<open>drive_goals_at\<close> and what it sends), the turns other parts
  of the relay charge to a goal, what a restart and a deleted thread leave, and the machine of all
  goal operations, in any order.
\<close>

section \<open>What the agent is told\<close>

definition en_dash :: string where "en_dash = [CHR 0xE2, CHR 0x80, CHR 0x93]"
definition newline :: string where "newline = [CHR 0x0A]"

definition plan_line :: "nat \<times> goal_step \<Rightarrow> string" where
  "plan_line line =
     (let (i, p) = line;
          note = (case gp_note p of None \<Rightarrow> [] | Some note \<Rightarrow> em_dash @ note)
      in decimal (i + 1) @ ''. ['' @ step_status_as_str (gp_status p) @ ''] '' @ gp_title p @ note)"

definition plan_text :: "goal \<Rightarrow> string" where
  "plan_text g =
     (if gl_steps g = [] then
        ''Before you start, write your plan with `goal_plan`: 3'' @ en_dash @
        ''7 milestone steps the user can follow at a glance. Then mark each with `goal_step`'' @ em_dash @
        ''active when you start it, done with a one-line note when it is.''
      else
        ''Your plan so far (yours to change with `goal_plan`):'' @ newline @
        join_with newline (map plan_line (enumerate 0 (gl_steps g))) @ newline @
        ''Keep it current with `goal_step`: active when you start a step, done with a one-line note when it is.'')"

definition continuation :: "goal \<Rightarrow> u32 \<Rightarrow> string" where
  "continuation g max_turns =
     ''This session is working toward a goal the user set. It is theirs, not yours to change or narrow:'' @
     newline @ newline @ gl_objective g @ newline @ newline @
     ''That is still the whole of it. Look at where things actually stand against every part of it, and carry on'' @
     em_dash @ ''bring in another agent if that helps.'' @ newline @ newline @ plan_text g @
     newline @ newline @
     ''The user set this goal in Sealwire and wants it run through Sealwire'' @ [CHR 0x27] @
     ''s tools, not a goal tool of your own such as `create_goal`. Stop only by calling one of `goal_complete` (with what you did and how you know, and anything left for the user), `goal_blocked` (with what stopped you), or `goal_needs_you` (with the decision you need). Saying you are done in prose does not end it. Turn '' @
     decimal (unat (gl_turns g + 1)) @ '' of '' @ decimal (unat max_turns) @ ''.''"

definition goal_status_text :: "string \<Rightarrow> goal_desk \<Rightarrow> string" where
  "goal_status_text thread d =
     (case goal_for_thread thread d of
        None \<Rightarrow> ''This session has no goal.''
      | Some g \<Rightarrow>
          ''Goal (set by the user, not yours to change):'' @ newline @ newline @ gl_objective g @
          newline @ newline @ plan_text g @ newline @ newline @ ''Status: '' @
          goal_status_as_str (gl_status g) @ ''. Turn '' @ decimal (unat (gl_turns g)) @ '' of '' @
          decimal (unat MAX_GOAL_TURNS) @ ''.'')"

section \<open>The turns the relay starts\<close>

definition charge_goal_for_driven_turn :: "u64 \<Rightarrow> string \<Rightarrow> goal_desk \<Rightarrow> bool \<times> goal_desk" where
  "charge_goal_for_driven_turn now thread d =
     (if \<not> goal_driven thread d then (False, d) else (True, update_goal thread (hand_over now) d))"

definition goal_dispatch_landed :: "u64 \<Rightarrow> string \<Rightarrow> string option \<Rightarrow> goal_desk \<Rightarrow> goal_desk" where
  "goal_dispatch_landed now thread started d =
     (let d = update_goal thread (dispatch_landed now) d;
          generation = (case goal_for_thread thread d of None \<Rightarrow> 0 | Some g \<Rightarrow> gl_dispatch_generation g)
      in update_goal thread (note_dispatch_turn generation started) d)"

text \<open>Busy, waiting for peers, or lent to a review: the thread comes back by itself.\<close>

definition drive_waits :: "goal_env \<Rightarrow> bool" where
  "drive_waits v \<longleftrightarrow>
     (case ge_runtime_working v of None \<Rightarrow> False | Some working \<Rightarrow> working) \<or> thread_is_lent_to_a_review v \<or>
     list_ex (\<lambda>(terminal, delivered). \<not> terminal) (ge_asks v) \<or>
     list_ex (\<lambda>(terminal, delivered). terminal \<and> \<not> delivered) (ge_asks v)"

definition drive_refused :: "goal_env \<Rightarrow> bool" where
  "drive_refused v \<longleftrightarrow> ge_budget_refuses v \<or> \<not> ge_drivable v"

text \<open>Why a goal that is being driven has to stop, in the order of the code.\<close>

definition drive_stopped :: "goal_env \<Rightarrow> goal \<Rightarrow> string \<Rightarrow> string option" where
  "drive_stopped v g thread =
     (if dispatch_never_started g then
        Some (''the relay could not hand this session the goal'' @ em_dash @
              ''see the runtime log for why, then set it again'')
      else if \<not> thread_can_end_a_goal v then
        Some (''this session'' @ [CHR 0x27] @
              ''s permissions were narrowed while the goal was running, so it can no longer report back'' @
              em_dash @ ''restore them and set the goal again'')
      else if thread_has_non_ordinary_identity v thread then
        Some (if ge_team_seat v
              then ''this session belongs to a Task now, so the goal cannot keep driving it'' @ em_dash @
                   ''give the goal to one of your own sessions''
              else ''this session became the Orchestrator while the goal was running'' @ em_dash @
                   ''give the goal to one of your own sessions'')
      else if thread_has_active_competing_driver v then
        Some (''something else took over driving this session while the goal was running'' @ em_dash @
              ''set the goal again once it is free'')
      else None)"

text \<open>
  A candidate of a tick, up to the send: passed over, stopped, or handed the prompt, with the
  generation of the hand-over and the tag of its turn line.
\<close>

datatype drive_left = Drive_Passed | Drive_Stopped | Drive_Sent string u64 "(string \<times> u32) option"

definition drive_candidate :: "goal_env \<Rightarrow> u64 \<Rightarrow> string \<Rightarrow> goal_desk \<Rightarrow> drive_left \<times> goal_desk" where
  "drive_candidate v now thread d =
     (if \<not> ge_slot_free v \<or> drive_waits v \<or> drive_refused v then (Drive_Passed, d)
      else
        case goal_for_thread thread d of
          None \<Rightarrow> (Drive_Passed, d)
        | Some g \<Rightarrow>
            if \<not> is_driving (gl_status g) then (Drive_Passed, d)
            else
              case drive_stopped v g thread of
                Some reason \<Rightarrow> (Drive_Stopped, update_goal thread (settle now Goal_Blocked reason) d)
              | None \<Rightarrow>
                  let prompt = continuation g MAX_GOAL_TURNS;
                      d = update_goal thread (hand_over now) d;
                      generation = (case goal_for_thread thread d of
                                      None \<Rightarrow> 0 | Some g \<Rightarrow> gl_dispatch_generation g);
                      (line, d) = open_goal_turn_line (ge_provider v) now thread d
                  in (Drive_Sent prompt generation line, d))"

text \<open>The send came back: whether what it started belongs to an objective that is gone by now.\<close>

definition drive_landed :: "u64 \<Rightarrow> string \<Rightarrow> u64 \<Rightarrow> string option \<Rightarrow> goal_desk \<Rightarrow> bool \<times> goal_desk" where
  "drive_landed now thread generation started d =
     (let d = update_goal thread (dispatch_landed now) d;
          d = update_goal thread (note_dispatch_turn generation started) d
      in (case goal_for_thread thread d of
            None \<Rightarrow> True
          | Some g \<Rightarrow> gl_status g = Goal_Cancelled \<or> gl_dispatch_generation g \<noteq> generation, d))"

text \<open>
  A tick over its candidates, with what the relay sees of each and how its send ends; the threads
  it asks to stop. Without a free slot the tick is over.
\<close>

datatype send_end = Send_Failed | Send_Landed "string option"

fun drive_each ::
    "(string \<Rightarrow> goal_env) \<Rightarrow> (string \<Rightarrow> send_end) \<Rightarrow> u64 \<Rightarrow> string list \<Rightarrow> goal_desk \<Rightarrow> string list \<times> goal_desk" where
  "drive_each see sends now [] d = ([], d)"
| "drive_each see sends now (thread # threads) d =
     (if \<not> ge_slot_free (see thread) then ([], d)
      else
        case drive_candidate (see thread) now thread d of
          (Drive_Sent prompt generation line, d) \<Rightarrow>
            (case sends thread of
               Send_Failed \<Rightarrow> drive_each see sends now threads d
             | Send_Landed started \<Rightarrow>
                 let (superseded, d) = drive_landed now thread generation started d;
                     (stops, d) = drive_each see sends now threads d
                 in (if superseded then thread # stops else stops, d))
        | (_, d) \<Rightarrow> drive_each see sends now threads d)"

definition drive_goals_at ::
    "(string \<Rightarrow> goal_env) \<Rightarrow> (string \<Rightarrow> send_end) \<Rightarrow> u64 \<Rightarrow> goal_desk \<Rightarrow> string list \<times> goal_desk" where
  "drive_goals_at see sends now d = drive_each see sends now (threads_with_driving_goals d) d"

section \<open>Restarts and deleted threads\<close>

text \<open>
  A new process reads the goals back as \<open>restored_goal\<close>s and the marks as they are; the arrivals
  count from 1 again.
\<close>

definition restore_goals :: "goal_desk \<Rightarrow> goal_desk" where
  "restore_goals d =
     \<lparr>gd_goals = map (\<lambda>(thread, g). (thread, restored_goal g)) (gd_goals d), gd_ingress = [],
      gd_marks = gd_marks d, gd_next = 1\<rparr>"

definition remove_thread_goal :: "string \<Rightarrow> goal_desk \<Rightarrow> goal_desk" where
  "remove_thread_goal thread d = d\<lparr>gd_goals := AList.delete thread (gd_goals d)\<rparr>"

section \<open>The machine\<close>

datatype goal_event =
    Set_Words goal_env u64 string string string bool "u64 option"
  | Press_Card goal_env u64 string string u32 goal_card_action "u64 option"
  | Cancel_Goal goal_env u64 string "u64 option"
  | User_Replied u64 string
  | User_Stopped_Turn u64 string
  | Agent_Calls string u64 string goal_tool
  | Charge_Turn u64 string
  | Charged_Landed u64 string "string option"
  | Drive goal_env u64 string
  | Drive_Landed u64 string u64 "string option"
  | Frame_Arrives
  | Thread_Removed string
  | Relay_Restarts

fun desk_step :: "file_system \<Rightarrow> goal_desk \<Rightarrow> goal_event \<Rightarrow> goal_desk" where
  "desk_step fs d (Set_Words v now suffix thread objective reset_turns ingress) =
     snd (set_goal_words fs v now suffix thread objective reset_turns ingress d)"
| "desk_step fs d (Press_Card v now suffix thread q action ingress) =
     snd (act_on_goal_card fs v now suffix thread q action ingress d)"
| "desk_step fs d (Cancel_Goal v now thread ingress) = snd (cancel_goal fs v now thread ingress d)"
| "desk_step fs d (User_Replied now thread) = resume_goal_on_reply now thread d"
| "desk_step fs d (User_Stopped_Turn now thread) = interrupt_goal_stopped_by_user now thread d"
| "desk_step fs d (Agent_Calls provider now thread tool) = snd (call_goal_tool provider now thread tool d)"
| "desk_step fs d (Charge_Turn now thread) = snd (charge_goal_for_driven_turn now thread d)"
| "desk_step fs d (Charged_Landed now thread started) = goal_dispatch_landed now thread started d"
| "desk_step fs d (Drive v now thread) = snd (drive_candidate v now thread d)"
| "desk_step fs d (Drive_Landed now thread generation started) =
     snd (drive_landed now thread generation started d)"
| "desk_step fs d Frame_Arrives = snd (next_relay_ingress d)"
| "desk_step fs d (Thread_Removed thread) = remove_thread_goal thread d"
| "desk_step fs d Relay_Restarts = restore_goals d"

definition desk_run :: "file_system \<Rightarrow> goal_event list \<Rightarrow> goal_desk \<Rightarrow> goal_desk" where
  "desk_run fs es d = fold (\<lambda>e d. desk_step fs d e) es d"

lemma desk_run_Nil [simp]: "desk_run fs [] d = d"
  by (simp add: desk_run_def)

lemma desk_run_snoc [simp]: "desk_run fs (es @ [e]) d = desk_step fs (desk_run fs es d) e"
  by (simp add: desk_run_def)

lemma desk_run_Cons: "desk_run fs (e # es) d = desk_run fs es (desk_step fs d e)"
  by (simp add: desk_run_def)

lemma desk_run_append: "desk_run fs (es @ es') d = desk_run fs es' (desk_run fs es d)"
  by (simp add: desk_run_def)

text \<open>The tick is a run of the machine's events.\<close>

lemma tick_is_run:
  "\<exists>es. snd (drive_each see sends now threads d) = desk_run fs es d \<and>
     list_all (\<lambda>e. case e of Drive v _ t \<Rightarrow> v = see t \<and> t \<in> set threads
       | Drive_Landed _ t _ _ \<Rightarrow> t \<in> set threads | _ \<Rightarrow> False) es"
proof (induction threads arbitrary: d)
  case Nil
  show ?case by (rule exI [of _ "[]"]) simp
next
  case (Cons t threads)
  let ?drive = "Drive (see t) now t"
  obtain left d1 where one: "drive_candidate (see t) now t d = (left, d1)" by fastforce
  have rest: "\<exists>es. snd (drive_each see sends now threads d0) = desk_run fs es d0 \<and>
      list_all (\<lambda>e. case e of Drive v _ u \<Rightarrow> v = see u \<and> u \<in> set (t # threads)
        | Drive_Landed _ u _ _ \<Rightarrow> u \<in> set (t # threads) | _ \<Rightarrow> False) es" for d0
    using Cons.IH [of d0] by (auto elim!: list.pred_mono_strong split: goal_event.splits)
  show ?case
  proof (cases "ge_slot_free (see t)")
    case False
    then show ?thesis by (intro exI [of _ "[]"]) simp
  next
    case True
    note free = this
    show ?thesis
    proof (cases "\<exists>prompt generation line started. left = Drive_Sent prompt generation line \<and> sends t = Send_Landed started")
      case True
      then obtain prompt generation line started
        where sent: "left = Drive_Sent prompt generation line" "sends t = Send_Landed started" by blast
      from rest [of "snd (drive_landed now t generation started d1)"] obtain es
        where "snd (drive_each see sends now threads (snd (drive_landed now t generation started d1))) =
            desk_run fs es (snd (drive_landed now t generation started d1))"
          and "list_all (\<lambda>e. case e of Drive v _ u \<Rightarrow> v = see u \<and> u \<in> set (t # threads)
            | Drive_Landed _ u _ _ \<Rightarrow> u \<in> set (t # threads) | _ \<Rightarrow> False) es"
        by blast
      then show ?thesis
        using free one sent
        by (intro exI [of _ "?drive # Drive_Landed now t generation started # es"])
          (simp add: desk_run_Cons case_prod_beta)
    next
      case False
      from rest [of d1] obtain es
        where "snd (drive_each see sends now threads d1) = desk_run fs es d1"
          and "list_all (\<lambda>e. case e of Drive v _ u \<Rightarrow> v = see u \<and> u \<in> set (t # threads)
            | Drive_Landed _ u _ _ \<Rightarrow> u \<in> set (t # threads) | _ \<Rightarrow> False) es"
        by blast
      then show ?thesis
        using free one False
        by (intro exI [of _ "?drive # es"])
          (auto simp: desk_run_Cons split: drive_left.splits send_end.splits)
    qed
  qed
qed

end
