(* ===== verification/Goal_Moves.thy ===== *)
theory Goal_Moves
  imports Goal_Drive
begin

text \<open>
  One thread's goal, seen alone. \<open>goal_moves\<close> says what an event may do to it: who may write the
  words, when a report is heard, what a charged turn costs. Every operation of the desk is such a
  move for the goal it is about and nothing for the others.
\<close>

declare map_of_eq_Some_iff [simp del]

section \<open>Lookups\<close>

named_theorems desk_simps \<open>the goal of a thread after each operation\<close>

lemma lookup_goal_update [simp, desk_simps]:
  "goal_for_thread t (update_goal u f d) =
     (if t = u then map_option f (goal_for_thread u d) else goal_for_thread t d)"
  by (simp add: goal_for_thread_def update_goal_def)

lemma lookup_goal_set [simp, desk_simps]:
  "goal_for_thread t (set_goal g d) = (if t = gl_thread_id g then Some g else goal_for_thread t d)"
  by (simp add: goal_for_thread_def set_goal_def)

lemma lookup_goal_fields [simp, desk_simps]:
  "goal_for_thread t (d\<lparr>gd_ingress := m\<rparr>) = goal_for_thread t d"
  "goal_for_thread t (d\<lparr>gd_marks := k\<rparr>) = goal_for_thread t d"
  "goal_for_thread t (d\<lparr>gd_next := n\<rparr>) = goal_for_thread t d"
  by (simp_all add: goal_for_thread_def)

lemma lookup_goal_marks [simp, desk_simps]:
  "goal_for_thread t (store_goal_mark now m d) = goal_for_thread t d"
  "goal_for_thread t (resolve_goal_settlement now g resolution d) = goal_for_thread t d"
  "goal_for_thread t (sync_goal_turn_line now u d) = goal_for_thread t d"
  by (auto simp: store_goal_mark_def resolve_goal_settlement_def sync_goal_turn_line_def Let_def
      split: option.splits bool.splits)

lemma lookup_goal_claim [simp, desk_simps]:
  "goal_for_thread t (snd (claim_goal_ingress u i d)) = goal_for_thread t d"
  "goal_for_thread t (snd (next_relay_ingress d)) = goal_for_thread t d"
  by (auto simp: claim_goal_ingress_def next_relay_ingress_def Let_def split: option.splits)

lemma lookup_goal_line [simp, desk_simps]:
  "goal_for_thread t (snd (open_goal_turn_line provider now u d)) =
     (if t = u
      then map_option (\<lambda>g. g\<lparr>gl_turn_seq := Some (fst (take_seq (goal_mark_for g d)))\<rparr>) (goal_for_thread u d)
      else goal_for_thread t d)"
  by (auto simp: open_goal_turn_line_def take_seq_def Let_def split: option.splits)

lemma lookup_goal_card [simp, desk_simps]:
  "goal_for_thread t (snd (record_goal_settlement provider now u d)) =
     (if t = u
      then map_option (\<lambda>g. g\<lparr>gl_settlement_seq := Some (fst (take_seq (goal_mark_for g d)))\<rparr>) (goal_for_thread u d)
      else goal_for_thread t d)"
  by (auto simp: record_goal_settlement_def take_seq_def Let_def split: option.splits)

lemma lookup_goal_restart [simp, desk_simps]:
  "goal_for_thread t (restore_goals d) = map_option restored_goal (goal_for_thread t d)"
  by (simp add: goal_for_thread_def restore_goals_def map_of_map)

lemma lookup_goal_remove [simp, desk_simps]:
  "goal_for_thread t (remove_thread_goal u d) = (if t = u then None else goal_for_thread t d)"
  by (simp add: goal_for_thread_def remove_thread_goal_def)

lemma lookup_empty_desk [simp, desk_simps]: "goal_for_thread t empty_desk = None"
  by (simp add: goal_for_thread_def empty_desk_def)

section \<open>The moves\<close>

definition agent_report :: "u64 \<Rightarrow> goal_status \<Rightarrow> string \<Rightarrow> string list \<Rightarrow> string list \<Rightarrow> u32 \<Rightarrow> goal \<Rightarrow> goal" where
  "agent_report now st outcome left_for_you options q g =
     (settle now st outcome g)\<lparr>gl_left_for_you := clean_list left_for_you MAX_GOAL_LEFT_FOR_YOU,
        gl_options := clean_list options MAX_GOAL_OPTIONS, gl_settlement_seq := Some q\<rparr>"

text \<open>An event is about one thread's goal; a restart is about all of them, a frame's arrival about none.\<close>

fun about_thread :: "goal_event \<Rightarrow> string \<Rightarrow> bool" where
  "about_thread (Set_Words v now suffix u objective reset_turns ingress) t = (t = u)"
| "about_thread (Press_Card v now suffix u q action ingress) t = (t = u)"
| "about_thread (Cancel_Goal v now u ingress) t = (t = u)"
| "about_thread (User_Replied now u) t = (t = u)"
| "about_thread (User_Stopped_Turn now u) t = (t = u)"
| "about_thread (Agent_Calls provider now u tool) t = (t = u)"
| "about_thread (Charge_Turn now u) t = (t = u)"
| "about_thread (Charged_Landed now u started) t = (t = u)"
| "about_thread (Drive v now u) t = (t = u)"
| "about_thread (Drive_Landed now u generation started) t = (t = u)"
| "about_thread Frame_Arrives t = False"
| "about_thread (Thread_Removed u) t = (t = u)"
| "about_thread Relay_Restarts t = True"

inductive goal_moves :: "string \<Rightarrow> goal_event \<Rightarrow> goal option \<Rightarrow> goal option \<Rightarrow> bool" for t where
  stays: "goal_moves t e x x"
| set_new:
    "goal_moves t (Set_Words v now suffix t words reset_turns ingress) None
       (Some (new_goal gid t (trim words) now))"
| set_again:
    "goal_moves t (Set_Words v now suffix t words reset_turns ingress) (Some g)
       (Some (revise now (trim words) reset_turns g))"
| keep_going:
    "goal_moves t (Press_Card v now suffix t q Keep_Going ingress) (Some g)
       (Some (revise now (gl_objective g) False g))"
| card_stop:
    "goal_moves t (Press_Card v now suffix t q Card_Stop ingress) (Some g)
       (Some (settle now Goal_Cancelled ''stopped by the user'' g))"
| cancelled:
    "goal_moves t (Cancel_Goal v now t ingress) (Some g)
       (Some (settle now Goal_Cancelled ''stopped by the user'' g))"
| answered:
    "gl_status g = Goal_Awaiting_User \<or> gl_status g = Goal_Blocked \<Longrightarrow>
     goal_moves t (User_Replied now t) (Some g) (Some (supersede_dispatch now g))"
| interrupted:
    "is_driving (gl_status g) \<Longrightarrow>
     goal_moves t (User_Stopped_Turn now t) (Some g) (Some (settle now Goal_Interrupted reason g))"
| planned:
    "gl_dispatch_open g \<Longrightarrow> plan_steps now titles g = Inr g' \<Longrightarrow>
     goal_moves t (Agent_Calls provider now t (Tool_Plan titles)) (Some g) (Some g')"
| step_moved:
    "gl_dispatch_open g \<Longrightarrow> move_step now step st note g = Inr g' \<Longrightarrow>
     goal_moves t (Agent_Calls provider now t (Tool_Step step status note)) (Some g) (Some g')"
| reported:
    "gl_dispatch_open g \<Longrightarrow> st \<in> {Goal_Complete_Claimed, Goal_Blocked, Goal_Awaiting_User} \<Longrightarrow>
     goal_moves t (Agent_Calls provider now t tool) (Some g)
       (Some (agent_report now st outcome left_for_you options q g))"
| charged:
    "is_driving (gl_status g) \<Longrightarrow> goal_moves t (Charge_Turn now t) (Some g) (Some (hand_over now g))"
| charged_landed:
    "goal_moves t (Charged_Landed now t started) (Some g)
       (Some (note_dispatch_turn (gl_dispatch_generation g) started (dispatch_landed now g)))"
| drive_stops:
    "is_driving (gl_status g) \<Longrightarrow>
     goal_moves t (Drive v now t) (Some g) (Some (settle now Goal_Blocked reason g))"
| driven:
    "is_driving (gl_status g) \<Longrightarrow>
     goal_moves t (Drive v now t) (Some g) (Some ((hand_over now g)\<lparr>gl_turn_seq := Some q\<rparr>))"
| drive_landed:
    "goal_moves t (Drive_Landed now t generation started) (Some g)
       (Some (note_dispatch_turn generation started (dispatch_landed now g)))"
| removed: "goal_moves t (Thread_Removed t) x None"
| restarted: "goal_moves t Relay_Restarts (Some g) (Some (restored_goal g))"

inductive_cases goal_movesE: "goal_moves t e x y"

section \<open>Every operation is a move\<close>

lemma place_goal_moves:
  "goal_for_thread t (snd (place_goal now suffix u words reset_turns d)) =
     (if t = u
      then case goal_for_thread u d of
             Some g \<Rightarrow> Some (revise now words reset_turns g)
           | None \<Rightarrow> Some (new_goal (''goal-'' @ decimal (unat now) @ ''-'' @ suffix) u words now)
      else goal_for_thread t d)"
  by (auto simp: place_goal_def new_goal_def split: option.splits)

text \<open>A write is refused, overtaken, or places the words it was given or finds.\<close>

lemma write_goal_ends:
  obtains (refused) e where "write_goal fs v now suffix w d = (Inl e, d)"
  | (late) d' where "claim_goal_ingress (gw_thread w) (gw_ingress w) d = (False, d')"
      "write_goal fs v now suffix w d = (Inr Overtaken, d')"
  | (placed) words d' left d'' where "claim_goal_ingress (gw_thread w) (gw_ingress w) d = (True, d')"
      "(case gw_objective w of Some words \<Rightarrow> Some words
          | None \<Rightarrow> map_option gl_objective (goal_for_thread (gw_thread w) d)) = Some words"
      "place_goal now suffix (gw_thread w) words (gw_reset_turns w) d' = (left, d'')"
      "write_goal fs v now suffix w d = (Inr left, d'')"
proof -
  define given where "given = (case gw_objective w of Some words \<Rightarrow> Some words
    | None \<Rightarrow> map_option gl_objective (goal_for_thread (gw_thread w) d))"
  obtain ok d' where claim: "claim_goal_ingress (gw_thread w) (gw_ingress w) d = (ok, d')" by fastforce
  note unfolded = write_goal_def [of fs v now suffix w d, folded given_def]
  show thesis
  proof (cases "\<not> ge_slot_free v \<or> goal_write_refused fs v w d \<noteq> None \<or> given = None \<or>
      objective_too_long (gw_thread w) (the given) d \<noteq> None")
    case True
    then have "\<exists>e. write_goal fs v now suffix w d = (Inl e, d)"
      unfolding unfolded by (auto split: option.splits)
    then show thesis using refused by blast
  next
    case False
    then obtain words where words: "given = Some words" by auto
    obtain left d'' where place: "place_goal now suffix (gw_thread w) words (gw_reset_turns w) d' = (left, d'')"
      by fastforce
    have "write_goal fs v now suffix w d = (if ok then (Inr left, d'') else (Inr Overtaken, d'))"
      using False unfolding unfolded by (simp add: words claim place)
    then show thesis using late placed words claim place by (cases ok) (simp_all add: given_def)
  qed
qed

lemma claimed_lookup: "claim_goal_ingress u ingress d = (ok, d') \<Longrightarrow> goal_for_thread t d' = goal_for_thread t d"
  using lookup_goal_claim(1) [of t u ingress d] by simp

lemma write_goal_cases:
  obtains (same) "goal_for_thread t (snd (write_goal fs v now suffix w d)) = goal_for_thread t d"
  | (wrote) words where "t = gw_thread w"
      "(case gw_objective w of Some words \<Rightarrow> Some words
          | None \<Rightarrow> map_option gl_objective (goal_for_thread (gw_thread w) d)) = Some words"
      "goal_for_thread t (snd (write_goal fs v now suffix w d)) =
         (case goal_for_thread t d of
            Some g \<Rightarrow> Some (revise now words (gw_reset_turns w) g)
          | None \<Rightarrow> Some (new_goal (''goal-'' @ decimal (unat now) @ ''-'' @ suffix) t words now))"
proof (rule write_goal_ends [of fs v now suffix w d])
  fix words d' left d''
  assume placed: "claim_goal_ingress (gw_thread w) (gw_ingress w) d = (True, d')"
      "(case gw_objective w of Some words \<Rightarrow> Some words
          | None \<Rightarrow> map_option gl_objective (goal_for_thread (gw_thread w) d)) = Some words"
      "place_goal now suffix (gw_thread w) words (gw_reset_turns w) d' = (left, d'')"
      "write_goal fs v now suffix w d = (Inr left, d'')"
  note moved = place_goal_moves [of t now suffix "gw_thread w" words "gw_reset_turns w" d',
      unfolded placed(3) snd_conv claimed_lookup [OF placed(1)]]
  show thesis
  proof (cases "t = gw_thread w")
    case True
    show thesis
      by (rule wrote [OF True placed(2)]) (use moved True in \<open>auto simp: placed(4) split: option.split\<close>)
  next
    case False
    show thesis by (rule same) (use moved False in \<open>simp add: placed(4)\<close>)
  qed
qed (auto dest: claimed_lookup [of _ _ d] intro: same)

text \<open>A stop is refused, overtaken, finds nothing to stop, or cancels.\<close>

lemma stop_goal_ends:
  obtains (refused) e where "stop_goal fs v now u ingress shown d = (Inl e, d)"
  | (late) d' where "claim_goal_ingress u ingress d = (False, d')"
      "stop_goal fs v now u ingress shown d = (Inr Stop_Overtaken, d')"
  | (nothing) d' where "claim_goal_ingress u ingress d = (True, d')"
      "stop_goal fs v now u ingress shown d = (Inl No_Goal, d')"
  | (stopped) d' g where "claim_goal_ingress u ingress d = (True, d')" "goal_for_thread u d = Some g"
      "stop_goal fs v now u ingress shown d = (Inr (Stopped (gl_dispatch_open g) (gl_dispatch_turn_id g)),
         update_goal u (settle now Goal_Cancelled ''stopped by the user'')
           (resolve_goal_settlement now g (stop_resolution (gl_status g)) d'))"
proof -
  define refusal where "refusal = (case ensure_thread_in_device_scope fs v of Some e \<Rightarrow> Some e
    | None \<Rightarrow> (case shown of None \<Rightarrow> None | Some q \<Rightarrow> ensure_goal_on_card u q d))"
  obtain ok d' where claim: "claim_goal_ingress u ingress d = (ok, d')" by fastforce
  note stop = stop_goal_def [of fs v now u ingress shown d, folded refusal_def]
  show thesis
  proof (cases "\<not> ge_slot_free v \<or> refusal \<noteq> None")
    case True
    then have "\<exists>e. stop_goal fs v now u ingress shown d = (Inl e, d)"
      unfolding stop by (auto split: option.splits)
    then show thesis using refused by blast
  next
    case False
    then have free: "ge_slot_free v" "refusal = None" by auto
    show thesis
    proof (cases ok)
      case True
      with claim have claimed: "claim_goal_ingress u ingress d = (True, d')" by simp
      note lookup = claimed_lookup [OF claimed, of u]
      show thesis
      proof (cases "goal_for_thread u d")
        case None
        with free have "stop_goal fs v now u ingress shown d = (Inl No_Goal, d')"
          by (simp add: stop claimed lookup)
        with claimed show thesis by (rule nothing)
      next
        case (Some g)
        with free have "stop_goal fs v now u ingress shown d =
          (Inr (Stopped (gl_dispatch_open g) (gl_dispatch_turn_id g)),
           update_goal u (settle now Goal_Cancelled ''stopped by the user'')
             (resolve_goal_settlement now g (stop_resolution (gl_status g)) d'))"
          by (simp add: stop claimed lookup)
        with claimed Some show thesis by (rule stopped)
      qed
    next
      case False
      with claim have claimed: "claim_goal_ingress u ingress d = (False, d')" by simp
      with free have "stop_goal fs v now u ingress shown d = (Inr Stop_Overtaken, d')"
        by (simp add: stop)
      with claimed show thesis by (rule late)
    qed
  qed
qed

lemma stop_goal_moves:
  "goal_for_thread t (snd (stop_goal fs v now u ingress shown d)) = goal_for_thread t d \<or>
   t = u \<and> (\<exists>g. goal_for_thread t d = Some g \<and>
     goal_for_thread t (snd (stop_goal fs v now u ingress shown d)) =
       Some (settle now Goal_Cancelled ''stopped by the user'' g))"
proof (rule stop_goal_ends [of fs v now u ingress shown d])
  fix d' g
  assume "claim_goal_ingress u ingress d = (True, d')" "goal_for_thread u d = Some g"
    "stop_goal fs v now u ingress shown d = (Inr (Stopped (gl_dispatch_open g) (gl_dispatch_turn_id g)),
       update_goal u (settle now Goal_Cancelled ''stopped by the user'')
         (resolve_goal_settlement now g (stop_resolution (gl_status g)) d'))"
  then show ?thesis
    using claimed_lookup [of u ingress d True d'] by (cases "t = u") simp_all
qed (auto dest: claimed_lookup [of _ _ d])

lemma settle_goal_moves:
  "goal_for_thread t (snd (settle_goal provider now u st z d)) = goal_for_thread t d \<or>
   t = u \<and> (\<exists>g q. goal_for_thread t d = Some g \<and> gl_dispatch_open g \<and>
     goal_for_thread t (snd (settle_goal provider now u st z d)) =
       Some (agent_report now st (trim (gt_outcome z)) (gt_left_for_you z) (gt_options z) q g))"
  by (auto simp: settle_goal_def Let_def case_prod_beta agent_report_def split: option.splits)

lemma plan_goal_moves:
  "goal_for_thread t (snd (plan_goal now u titles d)) = goal_for_thread t d \<or>
   t = u \<and> (\<exists>g g'. goal_for_thread t d = Some g \<and> gl_dispatch_open g \<and> plan_steps now titles g = Inr g' \<and>
     goal_for_thread t (snd (plan_goal now u titles d)) = Some g')"
  by (auto simp: plan_goal_def split: option.splits sum.splits)

lemma move_goal_step_moves:
  "goal_for_thread t (snd (move_goal_step now u step status note d)) = goal_for_thread t d \<or>
   t = u \<and> (\<exists>g g' st. goal_for_thread t d = Some g \<and> gl_dispatch_open g \<and> move_step now step st note g = Inr g' \<and>
     goal_for_thread t (snd (move_goal_step now u step status note d)) = Some g')"
  by (auto simp: move_goal_step_def split: option.splits sum.splits)

lemma drive_candidate_moves:
  "goal_for_thread t (snd (drive_candidate v now u d)) = goal_for_thread t d \<or>
   t = u \<and> (\<exists>g. goal_for_thread t d = Some g \<and> is_driving (gl_status g) \<and>
     ((\<exists>reason. goal_for_thread t (snd (drive_candidate v now u d)) = Some (settle now Goal_Blocked reason g)) \<or>
      (\<exists>q. goal_for_thread t (snd (drive_candidate v now u d)) =
              Some ((hand_over now g)\<lparr>gl_turn_seq := Some q\<rparr>))))"
  by (auto simp: drive_candidate_def Let_def case_prod_beta split: option.splits)

lemma landed_generation [simp]:
  "gl_dispatch_generation (dispatch_landed now g) = gl_dispatch_generation g"
  by (simp add: dispatch_landed_def)

theorem desk_moves: "goal_moves t e (goal_for_thread t d) (goal_for_thread t (desk_step fs d e))"
proof (cases e)
  case (Set_Words v now suffix u words reset_turns ingress)
  let ?w = "\<lparr>gw_thread = u, gw_objective = Some (trim words), gw_reset_turns = reset_turns,
      gw_ingress = ingress, gw_card = None\<rparr>"
  have e: "desk_step fs d e = (if trim words = [] then d else snd (write_goal fs v now suffix ?w d))"
    by (simp add: Set_Words set_goal_words_def Let_def)
  show ?thesis
  proof (rule write_goal_cases [of t fs v now suffix ?w d])
    assume "goal_for_thread t (snd (write_goal fs v now suffix ?w d)) = goal_for_thread t d"
    then show ?thesis by (simp add: e stays)
  next
    fix given
    assume "t = gw_thread ?w" and given: "(case gw_objective ?w of Some words \<Rightarrow> Some words
          | None \<Rightarrow> map_option gl_objective (goal_for_thread (gw_thread ?w) d)) = Some given"
      and becomes: "goal_for_thread t (snd (write_goal fs v now suffix ?w d)) =
         (case goal_for_thread t d of Some g \<Rightarrow> Some (revise now given (gw_reset_turns ?w) g)
          | None \<Rightarrow> Some (new_goal (''goal-'' @ decimal (unat now) @ ''-'' @ suffix) t given now))"
    then have "t = u" "given = trim words" by simp_all
    with becomes show ?thesis
      unfolding e unfolding Set_Words
      by (cases "goal_for_thread u d") (simp_all add: stays set_new set_again)
  qed
next
  case (Press_Card v now suffix u q action ingress)
  let ?w = "\<lparr>gw_thread = u, gw_objective = None, gw_reset_turns = False, gw_ingress = ingress, gw_card = Some q\<rparr>"
  show ?thesis
  proof (cases action)
    case Keep_Going
    have e: "desk_step fs d e = snd (write_goal fs v now suffix ?w d)"
      by (simp add: Press_Card Keep_Going act_on_goal_card_def case_prod_beta)
    show ?thesis
    proof (rule write_goal_cases [of t fs v now suffix ?w d])
      assume "goal_for_thread t (snd (write_goal fs v now suffix ?w d)) = goal_for_thread t d"
      then show ?thesis by (simp add: e stays)
    next
      fix given
      assume "t = gw_thread ?w" and given: "(case gw_objective ?w of Some words \<Rightarrow> Some words
            | None \<Rightarrow> map_option gl_objective (goal_for_thread (gw_thread ?w) d)) = Some given"
        and becomes: "goal_for_thread t (snd (write_goal fs v now suffix ?w d)) =
           (case goal_for_thread t d of Some g \<Rightarrow> Some (revise now given (gw_reset_turns ?w) g)
            | None \<Rightarrow> Some (new_goal (''goal-'' @ decimal (unat now) @ ''-'' @ suffix) t given now))"
      then obtain g where "t = u" "goal_for_thread u d = Some g" "given = gl_objective g" by auto
      with becomes show ?thesis unfolding e unfolding Press_Card Keep_Going by (simp add: keep_going)
    qed
  next
    case Card_Stop
    then show ?thesis using stop_goal_moves [of t fs v now u ingress "Some q" d]
      by (auto simp: Press_Card act_on_goal_card_def case_prod_beta intro: goal_moves.intros)
  qed
next
  case (Cancel_Goal v now u ingress)
  then show ?thesis
    using stop_goal_moves [of t fs v now u ingress None d]
    by (auto simp: cancel_goal_def intro: goal_moves.intros)
next
  case (User_Replied now u)
  then show ?thesis
    by (auto simp: resume_goal_on_reply_def resume_on_reply_def split: option.splits intro: goal_moves.intros)
next
  case (User_Stopped_Turn now u)
  then show ?thesis
    by (auto simp: interrupt_goal_stopped_by_user_def goal_driven_def split: option.splits intro: goal_moves.intros)
next
  case (Agent_Calls provider now u tool)
  then show ?thesis
  proof (cases tool)
    case Tool_Status
    then show ?thesis using Agent_Calls by (auto simp: call_goal_tool_def intro: goal_moves.intros)
  next
    case (Tool_Plan steps)
    then show ?thesis using Agent_Calls plan_goal_moves [of t now u steps d]
      by (auto simp: call_goal_tool_def case_prod_beta intro: goal_moves.intros)
  next
    case (Tool_Step step status remark)
    then show ?thesis using Agent_Calls move_goal_step_moves [of t now u step status remark d]
      by (auto simp: call_goal_tool_def case_prod_beta intro: goal_moves.intros)
  next
    case (Tool_Complete summary left_for_you)
    then show ?thesis using Agent_Calls settle_goal_moves [of t provider now u Goal_Complete_Claimed
          "\<lparr>gt_outcome = summary, gt_left_for_you = left_for_you, gt_options = []\<rparr>" d]
      by (auto simp: call_goal_tool_def case_prod_beta intro: goal_moves.intros)
  next
    case (Tool_Blocked reason)
    then show ?thesis using Agent_Calls settle_goal_moves [of t provider now u Goal_Blocked
          "\<lparr>gt_outcome = reason, gt_left_for_you = [], gt_options = []\<rparr>" d]
      by (auto simp: call_goal_tool_def case_prod_beta intro: goal_moves.intros)
  next
    case (Tool_Needs_You question options)
    then show ?thesis using Agent_Calls settle_goal_moves [of t provider now u Goal_Awaiting_User
          "\<lparr>gt_outcome = question, gt_left_for_you = [], gt_options = options\<rparr>" d]
      by (auto simp: call_goal_tool_def case_prod_beta intro: goal_moves.intros)
  qed
next
  case (Charge_Turn now u)
  then show ?thesis
    by (auto simp: charge_goal_for_driven_turn_def goal_driven_def split: option.splits intro: goal_moves.intros)
next
  case (Charged_Landed now u started)
  then show ?thesis
    using charged_landed [of t now started]
    by (cases "goal_for_thread u d")
      (auto simp: goal_dispatch_landed_def Let_def landed_generation intro: stays)
next
  case (Drive v now u)
  then show ?thesis using drive_candidate_moves [of t v now u d]
    by (auto intro: goal_moves.intros)
next
  case (Drive_Landed now u generation started)
  then show ?thesis
    by (cases "goal_for_thread u d") (auto simp: drive_landed_def Let_def intro: goal_moves.intros)
next
  case Relay_Restarts
  then show ?thesis by (cases "goal_for_thread t d") (auto intro: goal_moves.intros)
qed (auto intro: goal_moves.intros)

end
