(* ===== verification/Goal_Facts.thy ===== *)
theory Goal_Facts
  imports Goal_Moves
begin

text \<open>
  What holds of goals over every run: the words an agent is given are words a person wrote, the
  turns the relay starts on its own stay within the budget, a report is heard once and only for a
  turn that was handed over, and what arrived last is what holds. Two runs show where the code
  falls short of what its comments say.
\<close>

declare map_of_eq_Some_iff [simp del]

section \<open>Goals are well-formed\<close>

definition step_ok :: "goal_step \<Rightarrow> bool" where
  "step_ok p \<longleftrightarrow> gp_title p \<noteq> [] \<and> char_count (gp_title p) \<le> MAX_GOAL_STEP_TITLE_CHARS"

definition goal_ok :: "string \<Rightarrow> goal \<Rightarrow> bool" where
  "goal_ok t g \<longleftrightarrow>
     gl_thread_id g = t \<and>
     (gl_dispatch_open g \<longrightarrow> gl_status g \<noteq> Goal_Cancelled) \<and>
     (gl_dispatch_landed g \<longrightarrow> gl_dispatch_open g) \<and>
     (gl_dispatch_turn_id g \<noteq> None \<longrightarrow> gl_dispatch_open g) \<and>
     length (gl_steps g) \<le> MAX_GOAL_STEPS \<and> list_all step_ok (gl_steps g) \<and>
     length (gl_left_for_you g) \<le> MAX_GOAL_LEFT_FOR_YOU \<and> length (gl_options g) \<le> MAX_GOAL_OPTIONS"

lemmas goal_ops = close_dispatch_def settle_def supersede_dispatch_def revise_def hand_over_def Let_def
  dispatch_landed_def note_dispatch_turn_def restored_goal_def agent_report_def new_goal_def is_driving_def

lemma carried_titles: "map gp_title (carry_steps titles previous) = titles"
proof (induction titles previous rule: carry_steps.induct)
  case (2 title titles previous)
  then show ?case
    by (auto simp: fresh_step_def split: option.splits dest!: take_first_Some)
qed simp

lemma carried_ok: "list_all step_ok (carry_steps titles previous) \<longleftrightarrow>
    list_all (\<lambda>t. t \<noteq> [] \<and> char_count t \<le> MAX_GOAL_STEP_TITLE_CHARS) titles"
proof -
  have "list_all step_ok ps \<longleftrightarrow> list_all (\<lambda>t. t \<noteq> [] \<and> char_count t \<le> MAX_GOAL_STEP_TITLE_CHARS) (map gp_title ps)" for ps
    by (induction ps) (simp_all add: step_ok_def)
  then show ?thesis by (simp add: carried_titles)
qed

lemma planned_ok:
  assumes "plan_steps now given g = Inr g'"
  shows "\<exists>ps. g' = g\<lparr>gl_steps := ps, gl_updated_at := now\<rparr> \<and> length ps \<le> MAX_GOAL_STEPS \<and>
    list_all step_ok ps"
proof -
  define titles where "titles = plan_titles given"
  from assms have le: "length titles \<le> MAX_GOAL_STEPS"
    and none: "find (\<lambda>title. MAX_GOAL_STEP_TITLE_CHARS < char_count title) titles = None"
    and g': "g' = g\<lparr>gl_steps := carry_steps titles (gl_steps g), gl_updated_at := now\<rparr>"
    by (auto simp: plan_steps_def titles_def Let_def split: if_splits option.splits)
  have "length (carry_steps titles (gl_steps g)) = length titles"
    by (metis carried_titles length_map)
  moreover have "list_all step_ok (carry_steps titles (gl_steps g))"
    unfolding carried_ok using none
    by (auto simp: find_None_iff list_all_iff titles_def plan_titles_def not_less)
  ultimately show ?thesis using le g' by auto
qed

lemma moved_ok:
  assumes "move_step now i st note g = Inr g'" "list_all step_ok (gl_steps g)"
  shows "\<exists>ps. g' = g\<lparr>gl_steps := ps, gl_updated_at := now\<rparr> \<and> length ps = length (gl_steps g) \<and>
    list_all step_ok ps"
proof -
  have "step_ok (moved_step turn st note p) \<longleftrightarrow> step_ok p" for turn p
    by (auto simp: moved_step_def step_ok_def Let_def split: option.splits)
  then show ?thesis
    using assms by (auto simp: move_step_def Let_def update_at_def list_all_length nth_list_update split: if_splits)
qed

lemma goal_ok_moves: "goal_moves t e x y \<Longrightarrow> pred_option (goal_ok t) x \<Longrightarrow> pred_option (goal_ok t) y"
proof (induction rule: goal_moves.induct)
  case (planned g now titles g' provider)
  then show ?case by (auto simp: goal_ok_def dest!: planned_ok)
next
  case (step_moved g now i st remark g' provider status)
  then show ?case by (auto simp: goal_ok_def dest!: moved_ok)
next
  case (reported g st provider now tool outcome left_for_you options q)
  then show ?case by (auto simp: goal_ok_def goal_ops clean_list_def)
qed (auto simp: goal_ok_def goal_ops)

definition desk_ok :: "goal_desk \<Rightarrow> bool" where
  "desk_ok d \<longleftrightarrow> (\<forall>t. pred_option (goal_ok t) (goal_for_thread t d))"

interpretation goals: invariant_machine "desk_step fs" desk_ok for fs
  by unfold_locales (metis desk_ok_def desk_moves goal_ok_moves)

lemma run_ok: "goal_for_thread t (desk_run fs es empty_desk) = Some g \<Longrightarrow> goal_ok t g"
  using goals.inv_run [of empty_desk fs es] by (auto simp: desk_ok_def desk_run_def dest: spec [of _ t])

section \<open>The words\<close>

definition words_of :: "string \<Rightarrow> goal_desk \<Rightarrow> string option" where
  "words_of t d = map_option gl_objective (goal_for_thread t d)"

lemma words_moves:
  "goal_moves t e x y \<Longrightarrow> y = Some g \<Longrightarrow> map_option gl_objective x = Some (gl_objective g) \<or>
     (\<exists>v now suffix typed reset_turns ingress.
        e = Set_Words v now suffix t typed reset_turns ingress \<and> trim typed = gl_objective g)"
proof (induction rule: goal_moves.induct)
  case (planned g now titles g' provider)
  then show ?case by (auto dest!: planned_ok)
next
  case (step_moved g now i st remark g' provider status)
  then show ?case by (auto simp: move_step_def Let_def split: if_splits)
qed (auto simp: goal_ops)

text \<open>The write the words come from, and that they have stood since.\<close>

definition written_in :: "file_system \<Rightarrow> string \<Rightarrow> goal_event list \<Rightarrow> string \<Rightarrow> bool" where
  "written_in fs t es words \<longleftrightarrow>
     (\<exists>before v now suffix typed reset_turns ingress after.
        es = before @ Set_Words v now suffix t typed reset_turns ingress # after \<and> words = trim typed \<and>
        (\<forall>k\<le>length after.
           words_of t (desk_run fs (before @ Set_Words v now suffix t typed reset_turns ingress # take k after)
             empty_desk) = Some words))"

lemma written_snoc:
  assumes "written_in fs t es words" "words_of t (desk_run fs (es @ [e]) empty_desk) = Some words"
  shows "written_in fs t (es @ [e]) words"
proof -
  from assms(1) obtain before v now suffix typed reset_turns ingress after
    where es: "es = before @ Set_Words v now suffix t typed reset_turns ingress # after"
      and words: "words = trim typed"
      and kept: "\<And>k. k \<le> length after \<Longrightarrow> words_of t (desk_run fs
        (before @ Set_Words v now suffix t typed reset_turns ingress # take k after) empty_desk) = Some words"
    by (auto simp: written_in_def)
  have "words_of t (desk_run fs (before @ Set_Words v now suffix t typed reset_turns ingress #
      take k (after @ [e])) empty_desk) = Some words" if "k \<le> Suc (length after)" for k
  proof (cases "k = Suc (length after)")
    case True
    with assms(2) show ?thesis by (simp add: es)
  next
    case False
    with that kept [of k] show ?thesis by simp
  qed
  then show ?thesis
    unfolding written_in_def
    by (intro exI [of _ before] exI [of _ v] exI [of _ now] exI [of _ suffix] exI [of _ typed]
        exI [of _ reset_turns] exI [of _ ingress] exI [of _ "after @ [e]"]) (simp add: es words)
qed

lemma words_origin:
  "goal_for_thread t (desk_run fs es empty_desk) = Some g \<Longrightarrow> written_in fs t es (gl_objective g)"
proof (induction es arbitrary: g rule: rev_induct)
  case Nil
  then show ?case by simp
next
  case (snoc e es)
  let ?d = "desk_run fs es empty_desk"
  have now: "words_of t (desk_run fs (es @ [e]) empty_desk) = Some (gl_objective g)"
    using snoc.prems by (simp add: words_of_def)
  from words_moves [OF desk_moves [of t e ?d fs]] snoc.prems
  consider x where "goal_for_thread t ?d = Some x" "gl_objective x = gl_objective g"
    | v now' suffix typed reset_turns ingress
      where "e = Set_Words v now' suffix t typed reset_turns ingress" "trim typed = gl_objective g"
    by auto
  then show ?case
  proof cases
    case 1
    with snoc.IH [of x] now show ?thesis by (auto intro: written_snoc)
  next
    case 2
    with now show ?thesis
      unfolding written_in_def
      by (intro exI [of _ es] exI [of _ v] exI [of _ now'] exI [of _ suffix] exI [of _ typed]
          exI [of _ reset_turns] exI [of _ ingress] exI [of _ "[]"]) simp
  qed
qed

lemma contains_str_front: "contains_str (p @ r) p"
  using starts_with_append [of p r] by (cases "p @ r") auto

lemma continuation_whole: "contains_str (continuation g max_turns) (gl_objective g)"
  unfolding continuation_def
  by (rule contains_str_append, rule contains_str_append, rule contains_str_append, rule contains_str_front)

section \<open>The budget\<close>

text \<open>The turns the relay starts on its own: a charged wake, or the objective handed back.\<close>

fun hands_over :: "string \<Rightarrow> goal_desk \<Rightarrow> goal_event \<Rightarrow> bool" where
  "hands_over t d (Charge_Turn now u) = (u = t \<and> fst (charge_goal_for_driven_turn now u d))"
| "hands_over t d (Drive v now u) =
     (u = t \<and> (case fst (drive_candidate v now u d) of Drive_Sent _ _ _ \<Rightarrow> True | _ \<Rightarrow> False))"
| "hands_over t d _ = False"

lemma hands_over_charges:
  assumes "hands_over t d e"
  shows "\<exists>g now g'. goal_for_thread t d = Some g \<and> is_driving (gl_status g) \<and>
    goal_for_thread t (desk_step fs d e) = Some g' \<and>
    (g' = hand_over now g \<or> (\<exists>q. g' = (hand_over now g)\<lparr>gl_turn_seq := Some q\<rparr>))"
  using assms
proof (induction t d e rule: hands_over.induct)
  case (1 t d now u)
  then show ?case
    by (auto simp: charge_goal_for_driven_turn_def goal_driven_def split: option.splits if_splits)
next
  case (2 t d v now u)
  then show ?case
    by (auto simp: drive_candidate_def Let_def case_prod_beta split: option.splits if_splits drive_left.splits)
qed simp_all

text \<open>What a person does that lets the relay go on: new words, \<open>keep going\<close>, and an answer.\<close>

fun lets_go_on :: "string \<Rightarrow> goal_event \<Rightarrow> bool" where
  "lets_go_on t (Set_Words v now suffix u words reset_turns ingress) = (u = t)"
| "lets_go_on t (Press_Card v now suffix u q action ingress) = (u = t \<and> action = Keep_Going)"
| "lets_go_on t (User_Replied now u) = (u = t)"
| "lets_go_on t _ = False"

definition allowance_of :: "goal \<Rightarrow> nat" where
  "allowance_of g = (if is_driving (gl_status g) then max 1 (unat MAX_GOAL_TURNS - unat (gl_turns g)) else 0)"

definition allowance :: "string \<Rightarrow> goal_desk \<Rightarrow> nat" where
  "allowance t d = (case goal_for_thread t d of None \<Rightarrow> 0 | Some g \<Rightarrow> allowance_of g)"

lemma allowance_line [simp]: "allowance_of (g\<lparr>gl_turn_seq := q\<rparr>) = allowance_of g"
  by (simp add: allowance_of_def)

lemma allowance_hand_over:
  assumes "is_driving (gl_status g)"
  shows "Suc (allowance_of (hand_over now g)) \<le> allowance_of g"
proof (cases "MAX_GOAL_TURNS \<le> sat_add (gl_turns g) 1")
  case True
  then show ?thesis using assms by (simp add: allowance_of_def hand_over_def is_driving_def)
next
  case False
  then have "unat (sat_add (gl_turns g) 1) < 20"
    by (simp add: MAX_GOAL_TURNS_def not_le word_less_nat_alt)
  then have "unat (gl_turns g) + 1 < 20" and "unat (sat_add (gl_turns g) 1) = unat (gl_turns g) + 1"
    by (simp_all add: unat_sat_add min_def split: if_splits)
  then show ?thesis using assms False
    by (simp add: allowance_of_def hand_over_def is_driving_def MAX_GOAL_TURNS_def)
qed

lemma allowance_moves:
  "goal_moves t e x y \<Longrightarrow> \<not> lets_go_on t e \<Longrightarrow>
     (case y of None \<Rightarrow> 0 | Some g \<Rightarrow> allowance_of g) \<le> (case x of None \<Rightarrow> 0 | Some g \<Rightarrow> allowance_of g)"
proof (induction rule: goal_moves.induct)
  case (planned g now titles g' provider)
  then show ?case by (auto simp: allowance_of_def dest!: planned_ok)
next
  case (step_moved g now i st remark g' provider status)
  then show ?case by (auto simp: allowance_of_def move_step_def Let_def split: if_splits)
next
  case (charged g now)
  then show ?case using allowance_hand_over [of g now] by simp
next
  case (driven g v now q)
  then show ?case using allowance_hand_over [of g now] by simp
qed (auto simp: allowance_of_def goal_ops)

interpretation turn_meter:
  metered_machine "desk_step fs" "\<lambda>d e. of_bool (hands_over t d e)" "allowance t" "lets_go_on t" for fs t
proof unfold_locales
  fix e d
  assume e: "\<not> lets_go_on t e"
  show "of_bool (hands_over t d e) + allowance t (desk_step fs d e) \<le> allowance t d"
  proof (cases "hands_over t d e")
    case True
    from hands_over_charges [OF True, of fs] obtain g now g'
      where "goal_for_thread t d = Some g" "is_driving (gl_status g)"
        "goal_for_thread t (desk_step fs d e) = Some g'"
        "g' = hand_over now g \<or> (\<exists>q. g' = (hand_over now g)\<lparr>gl_turn_seq := Some q\<rparr>)"
      by blast
    moreover from this have "allowance_of g' = allowance_of (hand_over now g)"
      by auto
    ultimately show ?thesis
      using allowance_hand_over [of g now] True by (simp add: allowance_def)
  next
    case False
    then show ?thesis
      using allowance_moves [OF desk_moves e, of fs d] by (simp add: allowance_def)
  qed
qed

definition turns_driven :: "file_system \<Rightarrow> string \<Rightarrow> goal_event list \<Rightarrow> goal_desk \<Rightarrow> nat" where
  "turns_driven fs t es d = run_cost (desk_step fs) (\<lambda>d e. of_bool (hands_over t d e)) es d"

lemma allowance_bound: "allowance t d \<le> (if goal_driven t d then unat MAX_GOAL_TURNS else 0)"
  by (auto simp: allowance_def allowance_of_def goal_driven_def MAX_GOAL_TURNS_def split: option.splits)

section \<open>Reports\<close>

lemma tool_needs_dispatch:
  "fst (call_goal_tool provider now t tool d) = Inr answer \<Longrightarrow> tool \<noteq> Tool_Status \<Longrightarrow>
     \<exists>g. goal_for_thread t d = Some g \<and> gl_dispatch_open g"
  by (cases tool)
    (auto simp: call_goal_tool_def plan_goal_def move_goal_step_def settle_goal_def Let_def case_prod_beta
      split: option.splits if_splits sum.splits)

fun settles :: "goal_tool \<Rightarrow> bool" where
  "settles (Tool_Complete summary left_for_you) = True"
| "settles (Tool_Blocked reason) = True"
| "settles (Tool_Needs_You question options) = True"
| "settles _ = False"

lemma settle_goal_closes:
  assumes "fst (settle_goal provider now t st z d) = Inr drawn"
    "goal_for_thread t d = Some g" "gl_status g \<noteq> Goal_Cancelled"
  shows "\<exists>g'. goal_for_thread t (snd (settle_goal provider now t st z d)) = Some g' \<and> \<not> gl_dispatch_open g'"
  using assms by (auto simp: settle_goal_def settle_def close_dispatch_def Let_def case_prod_beta split: if_splits)

lemma tool_closes:
  assumes "fst (call_goal_tool provider now t tool d) = Inr answer" "settles tool"
    "goal_for_thread t d = Some g" "gl_status g \<noteq> Goal_Cancelled"
  shows "\<exists>g'. goal_for_thread t (snd (call_goal_tool provider now t tool d)) = Some g' \<and> \<not> gl_dispatch_open g'"
proof -
  have inr: "map_sum (\<lambda>e. e) f r = Inr a \<Longrightarrow> \<exists>b. r = Inr b" for f :: "'x \<Rightarrow> 'y" and r :: "goal_error + 'x" and a
    by (cases r) auto
  from assms show ?thesis
    by (cases tool) (auto simp: call_goal_tool_def case_prod_beta dest!: inr settle_goal_closes)
qed

lemma settle_open: "gl_dispatch_open (settle now st outcome g) \<Longrightarrow> settle now st outcome g = g"
  by (simp add: settle_def close_dispatch_def split: if_splits)

lemma open_moves:
  "goal_moves t e x y' \<Longrightarrow> y' = Some y \<Longrightarrow> gl_dispatch_open y \<Longrightarrow>
     (\<exists>now. e = Charge_Turn now t) \<or> (\<exists>v now. e = Drive v now t) \<or>
     (\<exists>g. x = Some g \<and> gl_dispatch_open g \<and> gl_objective g = gl_objective y)"
proof (induction rule: goal_moves.induct)
  case (planned g now titles g' provider)
  then show ?case by (auto dest!: planned_ok)
next
  case (step_moved g now i st remark g' provider status)
  then show ?case by (auto simp: move_step_def Let_def split: if_splits)
next
  case (card_stop v now suffix q ingress g)
  then show ?case using settle_open [of now Goal_Cancelled "''stopped by the user''" g] by auto
next
  case (cancelled v now ingress g)
  then show ?case using settle_open [of now Goal_Cancelled "''stopped by the user''" g] by auto
next
  case (charged g now)
  then show ?case by blast
next
  case (driven g v now q)
  then show ?case by blast
next
  case (charged_landed now started g)
  then show ?case by (auto simp: dispatch_landed_def note_dispatch_turn_def split: if_splits)
next
  case (drive_landed now generation started g)
  then show ?case by (auto simp: dispatch_landed_def note_dispatch_turn_def split: if_splits)
qed (auto simp: goal_ops)

lemma charge_or_same:
  "hands_over t d (Charge_Turn now t) \<or>
   goal_for_thread t (desk_step fs d (Charge_Turn now t)) = goal_for_thread t d"
  by (auto simp: charge_goal_for_driven_turn_def)

lemma drive_or_closed:
  "hands_over t d (Drive v now t) \<or>
   goal_for_thread t (desk_step fs d (Drive v now t)) = goal_for_thread t d \<or>
   (\<exists>g. goal_for_thread t (desk_step fs d (Drive v now t)) = Some g \<and> \<not> gl_dispatch_open g)"
  by (auto simp: drive_candidate_def Let_def case_prod_beta settle_def close_dispatch_def is_driving_def
      split: option.splits)

lemma open_step:
  assumes y: "goal_for_thread t (desk_step fs d e) = Some y" and "open": "gl_dispatch_open y"
  shows "hands_over t d e \<or>
    (\<exists>x. goal_for_thread t d = Some x \<and> gl_dispatch_open x \<and> gl_objective x = gl_objective y)"
  using open_moves [OF desk_moves y "open"]
proof (elim disjE exE)
  fix now assume "e = Charge_Turn now t"
  with charge_or_same [of t d now fs] y "open" show ?thesis by metis
next
  fix v now assume "e = Drive v now t"
  with drive_or_closed [of t d v now fs] y "open" show ?thesis by (metis option.inject)
qed blast

text \<open>A turn was handed over, and since then nothing closed it or changed the words.\<close>

definition handed_in :: "file_system \<Rightarrow> string \<Rightarrow> goal_event list \<Rightarrow> string \<Rightarrow> bool" where
  "handed_in fs t es words \<longleftrightarrow>
     (\<exists>before e after. es = before @ e # after \<and> hands_over t (desk_run fs before empty_desk) e \<and>
        (\<forall>k\<le>length after. \<exists>x. goal_for_thread t (desk_run fs (before @ e # take k after) empty_desk) = Some x \<and>
           gl_dispatch_open x \<and> gl_objective x = words))"

lemma handed_snoc:
  assumes "handed_in fs t es words" "goal_for_thread t (desk_run fs (es @ [e]) empty_desk) = Some x"
    "gl_dispatch_open x" "gl_objective x = words"
  shows "handed_in fs t (es @ [e]) words"
proof -
  from assms(1) obtain before e0 after where es: "es = before @ e0 # after"
    and hand: "hands_over t (desk_run fs before empty_desk) e0"
    and kept: "\<And>k. k \<le> length after \<Longrightarrow> \<exists>x. goal_for_thread t (desk_run fs (before @ e0 # take k after) empty_desk) = Some x \<and>
        gl_dispatch_open x \<and> gl_objective x = words"
    by (auto simp: handed_in_def)
  have "\<exists>x. goal_for_thread t (desk_run fs (before @ e0 # take k (after @ [e])) empty_desk) = Some x \<and>
      gl_dispatch_open x \<and> gl_objective x = words" if "k \<le> Suc (length after)" for k
  proof (cases "k = Suc (length after)")
    case True
    with assms(2-4) show ?thesis by (simp add: es)
  next
    case False
    with that kept [of k] show ?thesis by simp
  qed
  with hand show ?thesis
    unfolding handed_in_def
    by (intro exI [of _ before] exI [of _ e0] exI [of _ "after @ [e]"]) (simp add: es)
qed

lemma open_origin:
  "goal_for_thread t (desk_run fs es empty_desk) = Some g \<Longrightarrow> gl_dispatch_open g \<Longrightarrow>
     handed_in fs t es (gl_objective g)"
proof (induction es arbitrary: g rule: rev_induct)
  case Nil
  then show ?case by simp
next
  case (snoc e es)
  let ?d = "desk_run fs es empty_desk"
  have step: "goal_for_thread t (desk_step fs ?d e) = Some g" using snoc.prems(1) by simp
  from open_step [OF step snoc.prems(2)] show ?case
  proof
    assume "hands_over t ?d e"
    then show ?thesis
      unfolding handed_in_def using snoc.prems
      by (intro exI [of _ es] exI [of _ e] exI [of _ "[]"]) simp
  next
    assume "\<exists>x. goal_for_thread t ?d = Some x \<and> gl_dispatch_open x \<and> gl_objective x = gl_objective g"
    then obtain x where "goal_for_thread t ?d = Some x" "gl_dispatch_open x" "gl_objective x = gl_objective g"
      by blast
    with snoc.IH [of x] snoc.prems show ?thesis by (auto intro: handed_snoc)
  qed
qed

section \<open>Arrivals\<close>

text \<open>Where a person's frame stood in the order of arrival, when it came over the broker.\<close>

fun frame_of :: "goal_event \<Rightarrow> (string \<times> u64) option" where
  "frame_of (Set_Words v now suffix u words reset_turns ingress) = map_option (Pair u) ingress"
| "frame_of (Press_Card v now suffix u q action ingress) = map_option (Pair u) ingress"
| "frame_of (Cancel_Goal v now u ingress) = map_option (Pair u) ingress"
| "frame_of _ = None"

definition arrival_claimed :: "string \<Rightarrow> u64 \<Rightarrow> goal_desk \<Rightarrow> bool" where
  "arrival_claimed t j d \<longleftrightarrow> (case map_of (gd_ingress d) t of None \<Rightarrow> False | Some applied \<Rightarrow> j \<le> applied)"

lemma ingress_kept [simp]:
  "gd_ingress (update_goal u f d) = gd_ingress d"
  "gd_ingress (set_goal g d) = gd_ingress d"
  "gd_ingress (store_goal_mark now m d) = gd_ingress d"
  "gd_ingress (resolve_goal_settlement now g resolution d) = gd_ingress d"
  "gd_ingress (sync_goal_turn_line now u d) = gd_ingress d"
  "gd_ingress (snd (open_goal_turn_line provider now u d)) = gd_ingress d"
  "gd_ingress (snd (record_goal_settlement provider now u d)) = gd_ingress d"
  "gd_ingress (remove_thread_goal u d) = gd_ingress d"
  "gd_ingress (snd (next_relay_ingress d)) = gd_ingress d"
  "gd_ingress (snd (place_goal now suffix u words reset_turns d)) = gd_ingress d"
proof -
  show store: "gd_ingress (store_goal_mark now m d) = gd_ingress d" for now m d
    by (simp add: store_goal_mark_def)
  show update: "gd_ingress (update_goal u f d) = gd_ingress d" for u f d
    by (simp add: update_goal_def)
  show put: "gd_ingress (set_goal g d) = gd_ingress d" for g d
    by (simp add: set_goal_def)
  have resolve: "gd_ingress (resolve_goal_settlement now g resolution d) = gd_ingress d" for now g resolution d
    by (auto simp: resolve_goal_settlement_def store Let_def split: option.splits)
  then show "gd_ingress (resolve_goal_settlement now g resolution d) = gd_ingress d" .
  show "gd_ingress (sync_goal_turn_line now u d) = gd_ingress d"
    by (auto simp: sync_goal_turn_line_def store Let_def split: option.splits bool.splits)
  show "gd_ingress (snd (open_goal_turn_line provider now u d)) = gd_ingress d"
    by (simp add: open_goal_turn_line_def take_seq_def store update Let_def split: option.splits)
  show "gd_ingress (snd (record_goal_settlement provider now u d)) = gd_ingress d"
    by (simp add: record_goal_settlement_def take_seq_def store update Let_def split: option.splits)
  show "gd_ingress (remove_thread_goal u d) = gd_ingress d"
    by (simp add: remove_thread_goal_def)
  show "gd_ingress (snd (next_relay_ingress d)) = gd_ingress d"
    by (simp add: next_relay_ingress_def)
  show "gd_ingress (snd (place_goal now suffix u words reset_turns d)) = gd_ingress d"
    by (simp add: place_goal_def update put resolve split: option.splits)
qed

lemma claim_keeps: "arrival_claimed t j d \<Longrightarrow> arrival_claimed t j (snd (claim_goal_ingress u ingress d))"
  by (auto simp: arrival_claimed_def claim_goal_ingress_def next_relay_ingress_def Let_def split: option.splits if_splits)

lemma claim_takes: "claim_goal_ingress t (Some j) d = (True, d') \<Longrightarrow> arrival_claimed t j d'"
  by (auto simp: arrival_claimed_def claim_goal_ingress_def split: option.splits if_splits)

lemma claim_refuses: "claim_goal_ingress t (Some i) d = (False, d') \<Longrightarrow> d' = d"
  by (auto simp: claim_goal_ingress_def split: option.splits if_splits)

lemma claim_late: "arrival_claimed t j d \<Longrightarrow> i \<le> j \<Longrightarrow> claim_goal_ingress t (Some i) d = (False, d)"
  by (auto simp: arrival_claimed_def claim_goal_ingress_def split: option.splits)

lemma ingress_write:
  "gd_ingress (snd (write_goal fs v now suffix w d)) \<in>
     {gd_ingress d, gd_ingress (snd (claim_goal_ingress (gw_thread w) (gw_ingress w) d))}"
proof (rule write_goal_ends [of fs v now suffix w d])
  fix words d' left d''
  assume "claim_goal_ingress (gw_thread w) (gw_ingress w) d = (True, d')"
    and placed: "place_goal now suffix (gw_thread w) words (gw_reset_turns w) d' = (left, d'')"
    and "write_goal fs v now suffix w d = (Inr left, d'')"
  moreover have "gd_ingress d'' = gd_ingress d'"
    using ingress_kept(10) [of now suffix "gw_thread w" words "gw_reset_turns w" d'] by (simp add: placed)
  ultimately show ?thesis by simp
qed simp_all

lemma ingress_stop:
  "gd_ingress (snd (stop_goal fs v now u ingress shown d)) \<in>
     {gd_ingress d, gd_ingress (snd (claim_goal_ingress u ingress d))}"
  by (rule stop_goal_ends [of fs v now u ingress shown d]) simp_all

lemma claimed_cong: "gd_ingress d = gd_ingress d' \<Longrightarrow> arrival_claimed t j d = arrival_claimed t j d'"
  by (simp add: arrival_claimed_def)

lemma claimed_write: "arrival_claimed t j d \<Longrightarrow> arrival_claimed t j (snd (write_goal fs v now suffix w d))"
  using ingress_write [of fs v now suffix w d] claim_keeps [of t j d "gw_thread w" "gw_ingress w"]
  by (auto dest: claimed_cong)

lemma claimed_stop: "arrival_claimed t j d \<Longrightarrow> arrival_claimed t j (snd (stop_goal fs v now u ingress shown d))"
  using ingress_stop [of fs v now u ingress shown d] claim_keeps [of t j d u ingress]
  by (auto dest: claimed_cong)

lemma ingress_tool [simp]: "gd_ingress (snd (call_goal_tool provider now u tool d)) = gd_ingress d"
  by (cases tool)
    (auto simp: call_goal_tool_def plan_goal_def move_goal_step_def settle_goal_def Let_def case_prod_beta
      split: option.splits sum.splits)

lemma claimed_step:
  assumes "arrival_claimed t j d" "e \<noteq> Relay_Restarts"
  shows "arrival_claimed t j (desk_step fs d e)"
proof (cases e)
  case (Set_Words v now suffix u words reset_turns ingress)
  with assms(1) show ?thesis by (simp add: set_goal_words_def Let_def claimed_write)
next
  case (Press_Card v now suffix u q action ingress)
  with assms(1) show ?thesis
    by (cases action) (simp_all add: act_on_goal_card_def case_prod_beta claimed_write claimed_stop)
next
  case (Cancel_Goal v now u ingress)
  with assms(1) show ?thesis by (simp add: cancel_goal_def claimed_stop)
next
  case Relay_Restarts
  with assms(2) show ?thesis by simp
next
  case (Drive v now u)
  have "gd_ingress (snd (drive_candidate v now u d)) = gd_ingress d"
    by (simp add: drive_candidate_def Let_def case_prod_beta split: option.splits)
  with assms(1) Drive show ?thesis by (simp add: arrival_claimed_def)
qed (use assms(1) in \<open>simp_all add: arrival_claimed_def resume_goal_on_reply_def interrupt_goal_stopped_by_user_def
    charge_goal_for_driven_turn_def goal_dispatch_landed_def drive_landed_def Let_def split: option.splits\<close>)

lemma write_claims:
  assumes "gw_ingress w = Some j" "snd (write_goal fs v now suffix w d) \<noteq> d"
  shows "arrival_claimed (gw_thread w) j (snd (write_goal fs v now suffix w d))"
proof (rule write_goal_ends [of fs v now suffix w d])
  fix words d' left d''
  assume claim: "claim_goal_ingress (gw_thread w) (gw_ingress w) d = (True, d')"
    and placed: "place_goal now suffix (gw_thread w) words (gw_reset_turns w) d' = (left, d'')"
    and done': "write_goal fs v now suffix w d = (Inr left, d'')"
  have "gd_ingress d'' = gd_ingress d'"
    using ingress_kept(10) [of now suffix "gw_thread w" words "gw_reset_turns w" d'] by (simp add: placed)
  moreover have "arrival_claimed (gw_thread w) j d'" using claim assms(1) by (simp add: claim_takes)
  ultimately show ?thesis by (simp add: done' arrival_claimed_def)
qed (use assms in \<open>auto dest: claim_refuses\<close>)

lemma stop_claims:
  assumes "snd (stop_goal fs v now u (Some j) shown d) \<noteq> d"
  shows "arrival_claimed u j (snd (stop_goal fs v now u (Some j) shown d))"
proof (rule stop_goal_ends [of fs v now u "Some j" shown d])
  fix d' g
  assume "claim_goal_ingress u (Some j) d = (True, d')"
    "stop_goal fs v now u (Some j) shown d = (Inr (Stopped (gl_dispatch_open g) (gl_dispatch_turn_id g)),
       update_goal u (settle now Goal_Cancelled ''stopped by the user'')
         (resolve_goal_settlement now g (stop_resolution (gl_status g)) d'))"
  then show ?thesis by (simp add: arrival_claimed_def) (use claim_takes [of u j d d'] in \<open>simp add: arrival_claimed_def\<close>)
qed (use assms in \<open>auto dest: claim_refuses claim_takes\<close>)

lemma frame_claims:
  assumes "frame_of e = Some (t, j)" "desk_step fs d e \<noteq> d"
  shows "arrival_claimed t j (desk_step fs d e)"
proof (cases e)
  case (Set_Words v now suffix u words reset_turns ingress)
  with assms show ?thesis
    using write_claims [of "\<lparr>gw_thread = u, gw_objective = Some (trim words), gw_reset_turns = reset_turns,
      gw_ingress = ingress, gw_card = None\<rparr>" j fs v now suffix d]
    by (auto simp: set_goal_words_def Let_def split: if_splits)
next
  case (Press_Card v now suffix u q action ingress)
  with assms show ?thesis
    using write_claims [of "\<lparr>gw_thread = u, gw_objective = None, gw_reset_turns = False,
      gw_ingress = ingress, gw_card = Some q\<rparr>" j fs v now suffix d] stop_claims [of fs v now u j "Some q" d]
    by (cases action) (auto simp: act_on_goal_card_def case_prod_beta)
next
  case (Cancel_Goal v now u ingress)
  with assms show ?thesis using stop_claims [of fs v now u j None d] by (auto simp: cancel_goal_def)
qed (use assms in simp_all)

lemma write_late:
  assumes "arrival_claimed (gw_thread w) j d" "gw_ingress w = Some i" "i \<le> j"
  shows "snd (write_goal fs v now suffix w d) = d"
  by (rule write_goal_ends [of fs v now suffix w d]) (use claim_late [OF assms(1,3)] assms(2) in auto)

lemma stop_late:
  assumes "arrival_claimed u j d" "i \<le> j"
  shows "snd (stop_goal fs v now u (Some i) shown d) = d"
  by (rule stop_goal_ends [of fs v now u "Some i" shown d]) (use claim_late [OF assms] in auto)

lemma frame_late:
  assumes "frame_of e = Some (t, i)" "arrival_claimed t j d" "i \<le> j"
  shows "desk_step fs d e = d"
proof (cases e)
  case (Set_Words v now suffix u words reset_turns ingress)
  with assms(1) have "u = t" "ingress = Some i" by auto
  then have "snd (write_goal fs v now suffix \<lparr>gw_thread = u, gw_objective = Some (trim words),
      gw_reset_turns = reset_turns, gw_ingress = ingress, gw_card = None\<rparr> d) = d"
    by (intro write_late [where i = i and j = j]) (use assms(2,3) in simp_all)
  then show ?thesis by (simp add: Set_Words set_goal_words_def Let_def)
next
  case (Press_Card v now suffix u q action ingress)
  with assms(1) have frame: "u = t" "ingress = Some i" by auto
  then have "snd (write_goal fs v now suffix \<lparr>gw_thread = u, gw_objective = None,
      gw_reset_turns = False, gw_ingress = ingress, gw_card = Some q\<rparr> d) = d"
    by (intro write_late [where i = i and j = j]) (use assms(2,3) in simp_all)
  then show ?thesis
    using stop_late [OF assms(2,3), of fs v now "Some q"] frame
    by (cases action) (simp_all add: Press_Card act_on_goal_card_def case_prod_beta)
next
  case (Cancel_Goal v now u ingress)
  with assms(1) have "u = t" "ingress = Some i" by auto
  then show ?thesis
    using stop_late [OF assms(2,3), of fs v now None] by (simp add: Cancel_Goal cancel_goal_def)
qed (use assms in simp_all)

lemma claimed_run:
  "arrival_claimed t j d \<Longrightarrow> Relay_Restarts \<notin> set es \<Longrightarrow> arrival_claimed t j (desk_run fs es d)"
proof (induction es arbitrary: d)
  case (Cons e es)
  then have "arrival_claimed t j (desk_step fs d e)" by (intro claimed_step) auto
  with Cons show ?case by (simp add: desk_run_Cons)
qed simp

section \<open>Properties\<close>

text \<open>
  C10. Every prompt the relay sends to drive a thread contains, whole, the words of a person's write
  earlier in the run, and from that write to the prompt those were the goal's words: nothing an
  agent, a review, a restart or another thread did changed them.
\<close>

theorem prompt_carries_the_persons_words:
  assumes "fst (drive_candidate v now t (desk_run fs es empty_desk)) = Drive_Sent prompt generation line"
  shows "\<exists>words. written_in fs t es words \<and> contains_str prompt words"
proof -
  from assms obtain g where "goal_for_thread t (desk_run fs es empty_desk) = Some g"
    and "prompt = continuation g MAX_GOAL_TURNS"
    by (auto simp: drive_candidate_def Let_def case_prod_beta split: if_splits option.splits)
  then show ?thesis using words_origin continuation_whole by blast
qed

text \<open>
  C11. However the relay, the agents and the person's stops interleave, and whatever the state they
  start from, the relay starts at most \<open>MAX_GOAL_TURNS\<close> turns for a thread's goal, and none where the
  goal is not being driven, until the person sets words, presses \<open>keep going\<close> or answers.
\<close>

theorem turns_within_budget:
  assumes "list_all (\<lambda>e. \<not> lets_go_on t e) es"
  shows "turns_driven fs t es d \<le> (if goal_driven t d then unat MAX_GOAL_TURNS else 0)"
  using turn_meter.cost_run [OF assms, of fs d] allowance_bound [of t d]
  unfolding turns_driven_def by linarith

text \<open>
  C12. A plan, a step or a report is only accepted for a turn the relay handed over earlier in the
  run, with the dispatch open and the words the same ever since; and an accepted report closes it,
  so that every further call is refused until the next turn is handed over.
\<close>

theorem reports_answer_a_hand_over:
  assumes "fst (call_goal_tool provider now t tool (desk_run fs es empty_desk)) = Inr answer"
    and "tool \<noteq> Tool_Status"
  shows "(\<exists>words. handed_in fs t es words) \<and>
    (settles tool \<longrightarrow> (\<forall>provider' now' tool'. tool' \<noteq> Tool_Status \<longrightarrow>
       isl (fst (call_goal_tool provider' now' t tool'
         (snd (call_goal_tool provider now t tool (desk_run fs es empty_desk)))))))"
proof -
  let ?d = "desk_run fs es empty_desk"
  from tool_needs_dispatch [OF assms] obtain g
    where g: "goal_for_thread t ?d = Some g" and "open": "gl_dispatch_open g" by blast
  from run_ok [OF g] "open" have "gl_status g \<noteq> Goal_Cancelled" by (simp add: goal_ok_def)
  note closes = tool_closes [OF assms(1) _ g this]
  have "isl (fst (call_goal_tool provider' now' t tool' (snd (call_goal_tool provider now t tool ?d))))"
    if "settles tool" "tool' \<noteq> Tool_Status" for provider' now' tool'
  proof (rule ccontr)
    assume "\<not> ?thesis"
    then obtain answer' where "fst (call_goal_tool provider' now' t tool' (snd (call_goal_tool provider now t tool ?d))) = Inr answer'"
      by (metis isl_def sum.exhaust)
    from tool_needs_dispatch [OF this that(2)] closes [OF that(1)] show False by auto
  qed
  with open_origin [OF g "open"] show ?thesis by blast
qed

text \<open>
  C13. What arrived last holds: once a person's frame on a thread's goal changed anything, every frame
  on it that arrived before it, or the same frame again, changes nothing, however late it is
  handled and whatever came in between, until the relay restarts.
\<close>

theorem later_frame_wins:
  assumes "frame_of e = Some (t, j)" "desk_step fs d e \<noteq> d" "Relay_Restarts \<notin> set es"
    and "frame_of e' = Some (t, i)" "i \<le> j"
  shows "desk_step fs (desk_run fs (e # es) d) e' = desk_run fs (e # es) d"
proof -
  have "arrival_claimed t j (desk_run fs (e # es) d)"
    using claimed_run [OF frame_claims [OF assms(1,2)] assms(3)] by (simp add: desk_run_Cons)
  then show ?thesis using frame_late assms(4,5) by blast
qed

section \<open>Witnesses\<close>

definition open_env :: goal_env where
  "open_env = \<lparr>ge_slot_free = True, ge_cwd = Some ''/w'', ge_scope = \<lparr>ws_relay_roots = [], ws_device_paths = []\<rparr>,
     ge_bound_provider = Some ''claude'', ge_provider_hint = None, ge_session_provider = ''claude'',
     ge_provider = ''claude'', ge_settings = Some (''bypass'', ''workspace-write''),
     ge_orchestrator_thread = None, ge_team_seat = False, ge_workflow_locked = False, ge_team_locked = False,
     ge_review_locked = False, ge_runtime_working = Some False, ge_asks = [], ge_budget_refuses = False,
     ge_drivable = True\<rparr>"

lemma open_scope: "scope_allows fs ''/w'' \<lparr>ws_relay_roots = [], ws_device_paths = []\<rparr>"
  by (simp add: scope_allows_def scope_ensure_def ensure_with_history_def relay_covers_def Let_def)

definition bare_fs :: file_system where
  "bare_fs = \<lparr>fs_home = None, fs_cwd = None, fs_real = (\<lambda>_. None), fs_exists = (\<lambda>_. False),
     fs_is_dir = (\<lambda>_. None), fs_lstat = (\<lambda>_. Stat_Missing), fs_text = (\<lambda>_. None)\<rparr>"

lemmas goal_eval = desk_run_def set_goal_words_def write_goal_def goal_write_refused_def objective_too_long_def
  ensure_thread_in_device_scope_def thread_has_goal_tools_def thread_can_end_a_goal_def supports_session_mcp_def
  session_is_unrestricted_def thread_has_non_ordinary_identity_def thread_has_active_competing_driver_def
  thread_is_lent_to_a_review_def ensure_goal_on_card_def claim_goal_ingress_def place_goal_def open_env_def
  open_scope char_count_def MAX_GOAL_OBJECTIVE_CHARS_def goal_for_thread_def set_goal_def update_goal_def
  adjust_def new_goal_def empty_desk_def trim_def ascii_ws_def ws_two_def ws_three_def Let_def
  drive_candidate_def drive_waits_def drive_refused_def drive_stopped_def is_driving_def dispatch_never_started_def
  hand_over_def open_goal_turn_line_def goal_mark_for_def take_seq_def store_goal_mark_def current_step_def
  MAX_GOAL_TURNS_def sat_add_def charge_goal_for_driven_turn_def goal_driven_def drive_landed_def
  dispatch_landed_def note_dispatch_turn_def call_goal_tool_def settle_goal_def settle_def close_dispatch_def
  record_goal_settlement_def clean_list_def word_le_nat_alt

definition first_words :: goal_event where
  "first_words = Set_Words open_env 100 ''ab'' ''t'' '' ship it '' False (Some 5)"

lemma first_desk:
  "desk_step fs empty_desk first_words =
     \<lparr>gd_goals = [(''t'', new_goal (''goal-'' @ decimal 100 @ ''-ab'') ''t'' ''ship it'' 100)],
      gd_ingress = [(''t'', 5)], gd_marks = [], gd_next = 1\<rparr>"
  by (simp add: first_words_def goal_eval)

definition handed_desk :: goal_desk where
  "handed_desk = desk_run bare_fs [first_words, Drive open_env 101 ''t''] empty_desk"

lemma handed_goal: "\<exists>g. goal_for_thread ''t'' handed_desk = Some g \<and> gl_dispatch_open g \<and> is_driving (gl_status g)"
  by (simp add: handed_desk_def desk_run_Cons first_desk) (simp add: goal_eval)

lemma prompt_carries_the_persons_words_witness:
  "\<exists>prompt generation line. fst (drive_candidate open_env 101 ''t'' (desk_run bare_fs [first_words] empty_desk)) =
       Drive_Sent prompt generation line \<and>
     (\<exists>words. written_in bare_fs ''t'' [first_words] words \<and> contains_str prompt words)"
proof -
  have "\<exists>prompt generation line. fst (drive_candidate open_env 101 ''t'' (desk_run bare_fs [first_words] empty_desk)) =
      Drive_Sent prompt generation line"
    by (simp add: desk_run_Cons first_desk) (simp add: goal_eval)
  then show ?thesis using prompt_carries_the_persons_words by blast
qed

lemma turns_within_budget_witness:
  "0 < turns_driven bare_fs ''t'' [Charge_Turn 102 ''t''] (desk_run bare_fs [first_words] empty_desk) \<and>
   turns_driven bare_fs ''t'' [Charge_Turn 102 ''t''] (desk_run bare_fs [first_words] empty_desk) \<le> 20"
proof -
  let ?d = "desk_run bare_fs [first_words] empty_desk"
  have driven: "goal_driven ''t'' ?d"
    by (simp add: desk_run_Cons first_desk) (simp add: goal_eval)
  then have "0 < turns_driven bare_fs ''t'' [Charge_Turn 102 ''t''] ?d"
    by (simp add: turns_driven_def charge_goal_for_driven_turn_def)
  moreover have "turns_driven bare_fs ''t'' [Charge_Turn 102 ''t''] ?d \<le>
      (if goal_driven ''t'' ?d then unat MAX_GOAL_TURNS else 0)"
    by (rule turns_within_budget) simp
  ultimately show ?thesis using driven by (simp add: MAX_GOAL_TURNS_def)
qed

lemma reports_answer_a_hand_over_witness:
  "\<exists>answer. fst (call_goal_tool ''claude'' 103 ''t'' (Tool_Blocked ''no key'') handed_desk) = Inr answer \<and>
     (\<exists>words. handed_in bare_fs ''t'' [first_words, Drive open_env 101 ''t''] words)"
proof -
  have "\<exists>answer. fst (call_goal_tool ''claude'' 103 ''t'' (Tool_Blocked ''no key'') handed_desk) = Inr answer"
    using handed_goal
    by (auto simp: call_goal_tool_def settle_goal_def Let_def case_prod_beta trim_def ascii_ws_def ws_two_def ws_three_def)
  then show ?thesis
    using reports_answer_a_hand_over unfolding handed_desk_def by blast
qed

lemma later_frame_wins_witness:
  "desk_step bare_fs empty_desk first_words \<noteq> empty_desk \<and>
   desk_step bare_fs (desk_run bare_fs [first_words, Charge_Turn 102 ''t''] empty_desk)
       (Cancel_Goal open_env 104 ''t'' (Some 4)) =
     desk_run bare_fs [first_words, Charge_Turn 102 ''t''] empty_desk"
proof -
  have changed: "desk_step bare_fs empty_desk first_words \<noteq> empty_desk"
    unfolding first_desk by (simp add: empty_desk_def)
  moreover have "frame_of first_words = Some (''t'', 5)" by (simp add: first_words_def)
  ultimately show ?thesis
    using later_frame_wins [of first_words "''t''" 5 bare_fs empty_desk "[Charge_Turn 102 ''t'']"
        "Cancel_Goal open_env 104 ''t'' (Some 4)" 4]
    by simp
qed

section \<open>What the comments promise and the code does not keep\<close>

text \<open>
  \<open>Goal::revise\<close> says that past the cap it always starts a fresh budget, lest the next turn announce
  itself as \<open>21 of 20\<close>. But the report on the last turn moves the goal out of \<open>Goal_Out_Of_Turns\<close> with
  its 20 turns, and an answer or \<open>keep going\<close> then drives it on with them.
\<close>

lemma past_the_cap_without_a_fresh_budget:
  assumes "gl_turns g = MAX_GOAL_TURNS" "gl_status g = Goal_Out_Of_Turns" "gl_dispatch_open g"
  shows "gl_turns (snd (resume_on_reply now' (agent_report now Goal_Awaiting_User question [] [] q g))) + 1 = 21"
    and "is_driving (gl_status (snd (resume_on_reply now' (agent_report now Goal_Awaiting_User question [] [] q g))))"
    and "gl_turns (revise now' (gl_objective g) False (agent_report now Goal_Complete_Claimed claim [] [] q g)) + 1 = 21"
    and "is_driving (gl_status (revise now' (gl_objective g) False (agent_report now Goal_Complete_Claimed claim [] [] q g)))"
  using assms
  by (simp_all add: resume_on_reply_def supersede_dispatch_def revise_def agent_report_def settle_def
      close_dispatch_def is_driving_def MAX_GOAL_TURNS_def)

text \<open>
  \<open>settle_goal\<close> says that only the turn the objective was handed to may report on it. But a wake that
  brings peers' answers opens a dispatch too and carries no objective: after the words changed, the
  agent, which was never sent the new ones, claims the goal complete.
\<close>

definition new_words :: goal_event where
  "new_words = Set_Words open_env 105 ''cd'' ''t'' ''ship the other'' False (Some 6)"

definition wake_run :: "goal_event list" where
  "wake_run = [first_words, Drive open_env 101 ''t'', Drive_Landed 102 ''t'' 1 (Some ''turn''), new_words,
     Charge_Turn 106 ''t'']"

lemma wake_lets_the_old_report_in:
  "\<exists>answer d g. call_goal_tool ''claude'' 107 ''t'' (Tool_Complete ''shipped it'' []) (desk_run fs wake_run empty_desk) =
       (Inr answer, d) \<and> goal_for_thread ''t'' d = Some g \<and>
     gl_objective g = ''ship the other'' \<and> gl_status g = Goal_Complete_Claimed"
  by (simp add: wake_run_def desk_run_Cons first_desk)
    (simp add: new_words_def goal_eval revise_def supersede_dispatch_def resolve_goal_settlement_def next_relay_ingress_def)

end
