(* ===== verification/Spec2Isabelle.thy ===== *)
theory Spec2Isabelle
  imports Run_Gate Plan_Facts Request_Ledger Broker_Directory Driver_Facts Driver_Store_Facts
    Journal_Codec Relay_Proof_Facts Socket_Facts Credential_Facts Session_Facts
    Scope_Facts Device_Safety Device_Leases Goal_Facts
begin

text \<open>
  Verification of the core of sealwire: the task-team run and its driver protocol
  (\<open>crates/relay-api\<close>, \<open>crates/relay-server\<close>), the relay's devices, their connections and the
  admission of their signed requests (\<open>crates/relay-server\<close>), and the broker that connects relays with remote surfaces
  (\<open>crates/relay-broker\<close>).

  \<^bold>\<open>How the parts interact.\<close> A relay hosts runs: a team of agent threads that work on a task. A
  driver decides what a run does next and sends commands; the host checks each command in one
  synchronous reducer and journals it in the run, so that a redelivered command is answered from
  the journal. Remote surfaces (a phone, a browser) reach the relay through the broker: sockets
  are admitted with signed tickets and, for a relay, a signed proof, are seated in rooms, and
  publish targeted messages. A phone becomes a device of a relay by pairing: it scans a QR, the owner
  approves it, the broker issues its credential. On each connection the device claims its lease with a
  signed challenge; the relay admits each of its signed requests at most once, and only within the
  folders it was given. A session of the relay is reached at its provider through a binding; a person
  may set it a goal, whose words the relay hands back to the agent turn after turn.

  \<^bold>\<open>Strings, integers, time.\<close> Strings are UTF-8 byte lists; \<open>u32\<close> and \<open>u64\<close> are words whose
  arithmetic is that of the code (wrapping, saturating or checked); \<open>usize\<close> is \<open>nat\<close>. Clocks,
  random names and tokens are arguments. An error is a constructor per place that raises it; the
  text of a serde error is not modelled. A hash map is a map, or an association list where its
  size or iteration is read. What is behind a trait or in another crate (the host of a run, the
  minting of ids, base64, HMAC, SHA-256, ed25519, the JSON text, the length of a serialized
  message, the access policy) is a parameter, with what is documented of it as a named hypothesis
  (\<open>faithful_encodings\<close>).

  \<^bold>\<open>Prelude\<close>: machine integers, trimming, the locales of enums with a wire form and
  of machines with an invariant.

  \<^bold>\<open>The run\<close> (\<open>relay-api/src/team.rs\<close>). \<open>Team_Types\<close>: statuses, phases, seats, outcomes, task
  specification. \<open>Team_Model\<close>: the run record, sub-tasks, teams, construction. \<open>Team_Run\<close>: pausing,
  stopping, settling, resuming, cancelling, marks, leases. \<open>Team_Plan\<close>: rounds, revival, replanning,
  and the host's edits (\<open>state/app/team.rs\<close>, \<open>orchestrator_dispatch.rs\<close>). \<open>Team_Threads\<close>: owned
  threads and slots. \<open>Team_Restore\<close>: what a restart does to a run. \<open>Run_Machine\<close> composes them with
  the reducer into histories.

  \<^bold>\<open>The driver protocol\<close> (\<open>relay-api/src/orchestration.rs\<close>, \<open>team_command.rs\<close>). \<open>Json\<close>, \<open>Protocol\<close>:
  values, bounded tokens, versions, negotiation. \<open>Wire_Codec\<close>: derived serde codecs as combinators with
  their laws in the locale \<open>wire_codec\<close>. \<open>Driver_Wire\<close>, \<open>Driver_Cursor\<close>: enums, ids, artifacts, the
  cursor of a run. \<open>Slots\<close>, \<open>Driver_Message\<close>: the hand-written streaming readers of commands and
  events. \<open>Driver_Codec\<close>, \<open>Driver_Events\<close>: their reference reading and round trips.
  \<open>Driver_Store\<close>, \<open>Journal\<close>, \<open>Journal_Codec\<close>: the lenient readers of what a run stores. A derived codec
  is modelled from its attributes: unknown and repeated keys, defaults, skipped fields.

  \<^bold>\<open>The reducer\<close> (\<open>relay-server/src/state/app/team_command_reducer.rs\<close>). \<open>Team_Command\<close>: commands, envelopes,
  receipts. \<open>Reducer\<close>: preflight, ordering, bounds, headroom, gates, effects, journal. \<open>Reducer_Inv\<close>:
  its invariants.

  \<^bold>\<open>Signed requests\<close> (\<open>relay-server/src/state/relay/remote_requests.rs\<close>). \<open>Request_Book\<close>: sessions,
  sequence windows, the write ledger, the reply cache and waiting tickets.

  \<^bold>\<open>Devices\<close> (\<open>relay-server/src/state/relay/device.rs\<close>, \<open>state/relay.rs\<close>, \<open>state/app/pairing.rs\<close>,
  \<open>broker.rs\<close>, \<open>broker/remote_actions/authentication.rs\<close>). \<open>Device_State\<close>: devices, pairings,
  surfaces with their leases and watched threads, the queue of broker messages.
  \<open>Device_Pairing\<close>: every operation on devices, each under the relay's lock. \<open>Device_Flow\<close>: how the
  application runs them; an approval and a revocation let go of the lock while they wait for the broker,
  so each is two steps. \<open>Device_Machine\<close>: any sequence of such steps, with restarts. The answer to a
  pairing message takes the lock several times and is modelled as one step.

  \<^bold>\<open>Sessions and folders.\<close> \<open>Hash_Map\<close>: maps whose iteration is read. \<open>Session_Binding\<close>
  (\<open>state/relay/session_binding.rs\<close>): bindings of sessions to provider handles with their index, saved
  and restored. \<open>Workspace_Scope\<close> (\<open>state/workspace_scope.rs\<close>, \<open>state.rs\<close>): paths, their
  normalization, linked worktrees, and the scopes of relay and device over a file system that is
  a parameter (\<open>honest_fs\<close> says canonical paths have no parent components).

  \<^bold>\<open>Goals\<close> (\<open>state/goal.rs\<close>, \<open>state/app/goal.rs\<close>, \<open>state/relay/goal_marks.rs\<close>). \<open>Goal\<close>: the record, its
  plan and dispatch, and each operation of \<open>impl Goal\<close>. \<open>Goal_Desk\<close>: what a person writes, stops and
  presses, what an agent reports, arrival positions, turn lines and cards; an operation is what its
  write lock covers, and a second function gives its answer from what it then sees of the turn.
  \<open>Goal_Drive\<close>: the prompt, charged turns, the driver's tick, restart, and the machine of all events.
  \<open>Goal_Moves\<close>: what an event may do to one goal, as an inductive relation that every operation obeys.

  \<^bold>\<open>The broker\<close>. \<open>Broker_Rooms\<close>: rooms, seats, queues, publishing, revocation (\<open>state.rs\<close>).
  \<open>Join_Ticket\<close>: tickets and their check (\<open>join_ticket.rs\<close>, \<open>lib.rs\<close>). \<open>Relay_Proof\<close>: signed proofs of a
  relay and their challenges (\<open>public_control/relay_proofs.rs\<close>). \<open>Broker_Limits\<close>: rate limiters,
  connection trackers, allowances (\<open>lib.rs\<close>). \<open>Socket_Base\<close>, \<open>Broker_Socket\<close>: the handler of a
  socket as a state machine whose steps are its stretches between awaits (\<open>handle_socket\<close>).

  \<^bold>\<open>The control plane\<close> (\<open>public_control.rs\<close>, \<open>public_control/credentials.rs\<close>) registers relays, their
  devices and client identities, and gives out the refresh tokens and tickets that the other parts
  check. \<open>Credential_Store\<close>: sealed tokens, the rows by token hash, superseded tokens with their
  deadlines, every operation of the store, its persisted form. \<open>Control_Plane\<close>, \<open>Control_Lifecycle\<close>: the
  requests, each under the store's lock, so each a function of the plane, the clock, the random
  tokens and the outcome of the save; the start from the file. \<open>Control_Process\<close>: any sequence of
  requests and starts, memory and file; \<open>store_change\<close> says what a request can do to the store.

  \<^bold>\<open>What the lemmas show.\<close> Runs: a command takes effect at most once, a redelivery gets the first
  receipt while its record lives and is refused as stale after, gates keep the lifecycle
  (\<open>Run_Replay\<close>, \<open>Run_Gate\<close>); restoring is idempotent; plans keep what was done (\<open>Plan_Facts\<close>).
  Protocol: readers equal their reference, round trips, no prose passes, stored backends fail
  closed (\<open>Driver_Facts\<close>, \<open>Driver_Store_Facts\<close>, \<open>Journal_Codec\<close>). Requests: a sequence number is used
  once, a write executes once unless its device's ledger is dropped in between, and then once more for
  each drop (\<open>Request_Facts\<close>, \<open>Request_Ledger\<close>). Devices: paired ones are listed,
  approved and the only ones with sessions and addresses (\<open>Device_Inv\<close>); only a scan, the owner's approval
  and its end give a device its secret, and only that key is told it (\<open>Device_Trace\<close>, \<open>Device_Facts\<close>); a
  revoked device gets nothing published, admitted, claimed or pushed, though a finished pairing may
  still be answered again, and keeps its folder limit (\<open>Device_Safety\<close>); a replaced connection is
  powerless, the queue loses no pairing result and no thread that still runs (\<open>Device_Leases\<close>). Sessions: handles lead
  to the one session bound to them, no event moves it, a restart restores it (\<open>Session_Facts\<close>);
  the place that an admitted path leads to by the declarative walk \<open>walks\<close>, from how it is
  spelled (\<open>spells\<close>, \<open>leads_to\<close>), is in the caller's folders, a worktree is believed only if the checkout answers back
  (\<open>Scope_Facts\<close>). Goals: a prompt carries a person's words whole, the relay's own turns stay within
  the budget, a report answers a turn that was handed over, the later arrival wins (\<open>Goal_Facts\<close>, with
  two runs in which the code falls short of its comments). Broker: one seat per pairing ticket,
  stale connections are powerless, no message crosses to its own role
  (\<open>Broker_Facts\<close>, \<open>Broker_Safety\<close>, \<open>Broker_Delivery\<close>), and the rooms refine an abstract directory
  (\<open>Broker_Directory\<close>); tickets and proofs are authentic, bound to one purpose and used once
  (\<open>Ticket_Facts\<close>, \<open>Relay_Proof_Facts\<close>); the limiters count exactly the grants of the last minute and
  the trackers the open permits (\<open>Limit_Facts\<close>); under every interleaving sockets give back their
  permits and serve only under their ticket's identity (\<open>Socket_Facts\<close>). Control plane: over any
  run with restarts and failed saves the store stays well formed and is read back as written, a
  revoked device stays out, device limits hold, a release is all or nothing (\<open>Control_Facts\<close>); a
  replaced token dies at its deadline, an identity needs its key's signature, pending work is
  bounded, a token opens as its own kind only (\<open>Credential_Facts\<close>). One theorem states a defect: a
  revocation whose save failed is not saved by a retry.

  \<^bold>\<open>Interfaces.\<close> The locales state what one component promises another: \<open>wire_enum\<close>,
  \<open>wire_codec\<close>, \<open>wire_names\<close>, \<open>slots\<close>, \<open>slot_reader\<close>, \<open>lenient_reader\<close>, \<open>invariant_machine\<close> with
  \<open>refines_machine\<close> and \<open>monotone_machine\<close>, \<open>metered_machine\<close> (costs paid from a credit), \<open>receipt_log\<close>,
  \<open>window_limiter\<close> (a limiter as a count of its grants), \<open>permit_pool\<close> (counted permits) and
  \<open>lasting_property\<close> (what every change of the store keeps holds of memory and file after any run).
  Each is interpreted on the definitions of the code.

  \<^bold>\<open>Bounds.\<close> Readers and scans recurse on their input, popping from a queue is \<open>dropWhile\<close>, the join
  loop and the select loop of a socket are one step per turn. One loop may draw for ever, the
  search for fresh ids of an enrolment: it takes the draws as a list, \<open>None\<close> says they are used up,
  and \<open>fresh_ids_found\<close> says how many distinct ones are enough.

  \<^bold>\<open>Not modelled.\<close> Logging; waking of waiters; the release of provider seats around the reducer;
  rollback of a re-opened provision; the JSON form of a goal and the transcript row its card is drawn
  on; reviews, handovers and workflows; time stamps of usage events; the \<open>f64\<close> byte bucket of a peer,
  whose verdict is an input of a frame; the rendering of a QR and the views of devices; pins,
  handovers and thread runtimes beyond what a device's revocation and watches touch (the event
  \<open>Ev_Threads\<close> sets them freely); the check of a push endpoint and the canonical names of watched
  threads, which are inputs; the periodic recheck of access; the Postgres backend of the
  control plane with its probes and reloads (memory and the JSON file are modelled), its operator
  statistics and its configuration; the access policy; the asynchronous host, provider bridges, usage
  and pricing, persistence, terminals and editors, and the clients: I/O around the modelled core.
  Reordering of two reads of the clock against the lock of a limiter is excluded by \<open>timely\<close>.
\<close>

end
